(* ===== verification/Gollem_Prelude.thy ===== *)
theory Gollem_Prelude
  imports Main "HOL-Library.Finite_Map" "HOL-Library.List_Lexorder" "HOL-Library.Char_ord"
    "HOL-Library.Multiset"
begin

text \<open>
  Shared vocabulary of the development: time and clocks, Go's dynamic values and maps, decimal
  rendering of integers (\<^verbatim>\<open>fmt.Sprintf\<close> with \<^verbatim>\<open>%d\<close>), \<^verbatim>\<open>strings.TrimSpace\<close>, tables that keep an
  insertion order beside a map, and the locale of step systems with an inductive invariant that
  every state machine of the development interprets.
\<close>

section \<open>Time, dynamic values, maps\<close>

text \<open>
  A \<^verbatim>\<open>time.Time\<close> is its distance in nanoseconds from Go's zero time, so \<^verbatim>\<open>IsZero\<close> is equality with 0
  and \<^verbatim>\<open>Add\<close>, \<^verbatim>\<open>After\<close>, \<^verbatim>\<open>Before\<close> are integer arithmetic. An operation that reads the wall clock
  takes a \<open>clock\<close>: \<open>clk i\<close> is what its \<open>i\<close>-th call of \<^verbatim>\<open>time.Now\<close> returns.
\<close>

type_synonym time = int
type_synonym duration = int
type_synonym clock = "nat \<Rightarrow> time"

abbreviation (input) zero_time :: time where
  "zero_time \<equiv> 0"

text \<open>Seconds from year 1 to 1970, in nanoseconds: \<^verbatim>\<open>UnixNano\<close> counts from 1970.\<close>

definition UnixNano :: "time \<Rightarrow> int" where
  "UnixNano t = t - 62135596800 * 1000000000"

text \<open>
  A value of Go's \<^verbatim>\<open>any\<close> as a tree. A number is an integer (\<open>AnyInt\<close>) or a \<^verbatim>\<open>float64\<close> (\<open>AnyFloat\<close>); a
  fractional float64 has no counterpart.
\<close>

datatype any =
    AnyNil
  | AnyBool bool
  | AnyInt int
  | AnyFloat int
  | AnyString string
  | AnyList "any list"
  | AnyMap "(string \<times> any) list"

text \<open>A Go map is a finite map; the nil map and the empty map are the same value.\<close>

type_synonym ('k, 'v) go_map = "('k, 'v) fmap"
type_synonym metadata = "(string, any) go_map"

definition map_keys :: "(string, 'v) go_map \<Rightarrow> string list" where
  "map_keys m = sorted_list_of_fset (fmdom m)"

text \<open>
  Go visits the keys of a map in an order it does not specify. Where the order can be observed, the
  operation takes an \<open>iter_order\<close>, which turns the list of keys into the visiting order.
\<close>

type_synonym iter_order = "string list \<Rightarrow> string list"

definition iteration_order :: "iter_order \<Rightarrow> bool" where
  "iteration_order it \<longleftrightarrow> (\<forall>xs. mset (it xs) = mset xs)"

named_theorems go_simps \<open>rewrite rules for the Go standard library as used by the sources\<close>
named_theorems pub_simps \<open>publishing an event changes only the event log\<close>

lemma set_map_keys [simp, go_simps]: "set (map_keys m) = fmdom' m"
  by (simp add: map_keys_def fmdom'_alt_def)

lemma distinct_map_keys [simp]: "distinct (map_keys m)"
  by (simp add: map_keys_def sorted_list_of_fset.rep_eq)

lemma sorted_map_keys [simp]: "sorted (map_keys m)"
  by (simp add: map_keys_def sorted_list_of_fset.rep_eq)

lemma iteration_order_set: "iteration_order it \<Longrightarrow> set (it xs) = set xs"
  by (metis iteration_order_def mset_eq_setD)

lemma iteration_order_distinct: "iteration_order it \<Longrightarrow> distinct (it xs) = distinct xs"
  by (metis iteration_order_def mset_eq_imp_distinct_iff)

lemma iteration_order_sort:
  "iteration_order it \<Longrightarrow> sort (it xs) = sort (xs :: string list)"
  by (metis iteration_order_def sorted_list_of_multiset_mset)

lemma iteration_order_id: "iteration_order (\<lambda>xs. xs)"
  by (simp add: iteration_order_def)

lemma iteration_order_rev: "iteration_order rev"
  by (simp add: iteration_order_def)

lemma in_map_filter: "x \<in> set (List.map_filter f xs) \<longleftrightarrow> (\<exists>k \<in> set xs. f k = Some x)"
  by (induction xs) (auto simp: map_filter_simps split: option.split)

section \<open>Decimal rendering\<close>

definition digit_char :: "nat \<Rightarrow> char" where
  "digit_char d = ''0123456789'' ! d"

fun show_nat :: "nat \<Rightarrow> string" where
  "show_nat n =
     (if n < 10 then [digit_char n] else show_nat (n div 10) @ [digit_char (n mod 10)])"

declare show_nat.simps [simp del]

definition show_int :: "int \<Rightarrow> string" where
  "show_int i = (if i < 0 then ''-'' @ show_nat (nat (- i)) else show_nat (nat i))"

definition read_digits :: "string \<Rightarrow> nat" where
  "read_digits = foldl (\<lambda>a c. 10 * a + (of_char c - 48)) 0"

lemma less_10_cases: "d < 10 \<Longrightarrow> d \<in> {0, 1, 2, 3, 4, 5, 6, 7, 8, 9 :: nat}"
  by auto

lemma of_char_digit: "d < 10 \<Longrightarrow> of_char (digit_char d) = 48 + d"
  by (drule less_10_cases) (auto simp: digit_char_def)

lemma read_show_nat: "read_digits (show_nat n) = n"
proof (induction n rule: show_nat.induct)
  case (1 n)
  show ?case
  proof (cases "n < 10")
    case True
    then show ?thesis by (simp add: show_nat.simps [of n] read_digits_def of_char_digit)
  next
    case False
    with "1.IH" have "foldl (\<lambda>a c. 10 * a + (of_char c - 48)) 0 (show_nat (n div 10)) = n div 10"
      by (simp add: read_digits_def)
    with False show ?thesis
      by (simp add: show_nat.simps [of n] read_digits_def of_char_digit)
  qed
qed

lemma show_nat_inj [simp]: "show_nat m = show_nat n \<longleftrightarrow> m = n"
  by (metis read_show_nat)

lemma show_nat_not_Nil [simp]: "show_nat n \<noteq> []"
  by (subst show_nat.simps) simp

text \<open>\<^verbatim>\<open>fmt.Sprintf("task-%d", n)\<close> and its kin.\<close>

definition Sprintf_d :: "string \<Rightarrow> nat \<Rightarrow> string" where
  "Sprintf_d prefix n = prefix @ show_nat n"

lemma Sprintf_d_inj [simp]: "Sprintf_d p m = Sprintf_d p n \<longleftrightarrow> m = n"
  by (simp add: Sprintf_d_def)

lemma Sprintf_d_not_Nil [simp]: "Sprintf_d p n \<noteq> []"
  by (simp add: Sprintf_d_def)

section \<open>Trimming white space\<close>

text \<open>
  \<^verbatim>\<open>strings.TrimSpace\<close> removes leading and trailing Unicode white space. Strings are byte strings, so
  the white-space characters are their UTF-8 encodings.
\<close>

definition ws_seqs :: "string list" where
  "ws_seqs = [
    [CHR 0x09], [CHR 0x0A], [CHR 0x0B], [CHR 0x0C], [CHR 0x0D], [CHR 0x20], [CHR 0xC2, CHR 0x85],
    [CHR 0xC2, CHR 0xA0], [CHR 0xE1, CHR 0x9A, CHR 0x80], [CHR 0xE2, CHR 0x80, CHR 0x80],
    [CHR 0xE2, CHR 0x80, CHR 0x81], [CHR 0xE2, CHR 0x80, CHR 0x82],
    [CHR 0xE2, CHR 0x80, CHR 0x83], [CHR 0xE2, CHR 0x80, CHR 0x84],
    [CHR 0xE2, CHR 0x80, CHR 0x85], [CHR 0xE2, CHR 0x80, CHR 0x86],
    [CHR 0xE2, CHR 0x80, CHR 0x87], [CHR 0xE2, CHR 0x80, CHR 0x88],
    [CHR 0xE2, CHR 0x80, CHR 0x89], [CHR 0xE2, CHR 0x80, CHR 0x8A],
    [CHR 0xE2, CHR 0x80, CHR 0xA8], [CHR 0xE2, CHR 0x80, CHR 0xA9],
    [CHR 0xE2, CHR 0x80, CHR 0xAF], [CHR 0xE2, CHR 0x81, CHR 0x9F],
    [CHR 0xE3, CHR 0x80, CHR 0x80]]"

function trim_prefix :: "string list \<Rightarrow> string \<Rightarrow> string" where
  "trim_prefix ws s =
     (case List.find (\<lambda>w. w \<noteq> [] \<and> take (length w) s = w) ws of
        None \<Rightarrow> s
      | Some w \<Rightarrow> trim_prefix ws (drop (length w) s))"
  by pat_completeness auto
termination
proof (relation "measure (\<lambda>(ws, s). length s)", goal_cases)
  case 1
  then show ?case by simp
next
  case (2 ws s w)
  then have "w \<noteq> [] \<and> take (length w) s = w" by (auto simp: find_Some_iff)
  then have "s \<noteq> []" and "w \<noteq> []" by auto
  then show ?case by simp
qed

declare trim_prefix.simps [simp del]

definition TrimSpace :: "string \<Rightarrow> string" where
  "TrimSpace s = rev (trim_prefix (map rev ws_seqs) (rev (trim_prefix ws_seqs s)))"

lemma trim_prefix_suffix: "\<exists>p. s = p @ trim_prefix ws s"
proof (induction ws s rule: trim_prefix.induct)
  case (1 ws s)
  show ?case
  proof (cases "List.find (\<lambda>w. w \<noteq> [] \<and> take (length w) s = w) ws")
    case None
    then show ?thesis by (simp add: trim_prefix.simps [of ws s])
  next
    case (Some w)
    then obtain p where "drop (length w) s = p @ trim_prefix ws (drop (length w) s)"
      using "1.IH" by blast
    then have "s = (take (length w) s @ p) @ trim_prefix ws (drop (length w) s)"
      by (metis append.assoc append_take_drop_id)
    then have "\<exists>p. s = p @ trim_prefix ws (drop (length w) s)" ..
    with Some show ?thesis by (simp add: trim_prefix.simps [of ws s])
  qed
qed

lemma trim_prefix_Nil [simp]: "trim_prefix ws [] = []"
  using trim_prefix_suffix [of "[]" ws] by simp

lemma TrimSpace_Nil [simp, go_simps]: "TrimSpace [] = []"
  by (simp add: TrimSpace_def)

section \<open>Quoting\<close>

text \<open>
  The \<^verbatim>\<open>%q\<close> verb: \<^verbatim>\<open>strconv.Quote\<close> on a byte string whose bytes above 127 belong to printable
  characters, which it leaves alone.
\<close>

definition hex_digit :: "nat \<Rightarrow> char" where
  "hex_digit d = ''0123456789abcdef'' ! d"

definition quote_char :: "char \<Rightarrow> string" where
  "quote_char c =
     (let n = of_char c :: nat in
      if n = 34 then [CHR 0x5C, c] else if n = 92 then [c, c]
      else if n = 7 then [CHR 0x5C, CHR ''a''] else if n = 8 then [CHR 0x5C, CHR ''b'']
      else if n = 12 then [CHR 0x5C, CHR ''f''] else if n = 10 then [CHR 0x5C, CHR ''n'']
      else if n = 13 then [CHR 0x5C, CHR ''r''] else if n = 9 then [CHR 0x5C, CHR ''t'']
      else if n = 11 then [CHR 0x5C, CHR ''v'']
      else if n < 32 \<or> n = 127
        then [CHR 0x5C, CHR ''x'', hex_digit (n div 16), hex_digit (n mod 16)]
      else [c])"

definition go_quote :: "string \<Rightarrow> string" where
  "go_quote s = CHR 0x22 # concat (map quote_char s) @ [CHR 0x22]"

section \<open>Insertion-ordered tables\<close>

text \<open>
  The stores keep a map from identifiers to entries and, beside it, the list of identifiers in the
  order of insertion. \<open>ordered_table m ord\<close> says that the two agree.
\<close>

definition ordered_table :: "(string, 'v) go_map \<Rightarrow> string list \<Rightarrow> bool" where
  "ordered_table m ord \<longleftrightarrow> distinct ord \<and> set ord = fmdom' m"

lemma ordered_table_empty [simp, intro]: "ordered_table fmempty []"
  by (simp add: ordered_table_def)

lemma ordered_table_insert:
  "ordered_table m ord \<Longrightarrow> k \<notin> fmdom' m \<Longrightarrow> ordered_table (fmupd k v m) (ord @ [k])"
  by (auto simp: ordered_table_def)

lemma ordered_table_overwrite:
  "ordered_table m ord \<Longrightarrow> k \<in> fmdom' m \<Longrightarrow> ordered_table (fmupd k v m) ord"
  by (auto simp: ordered_table_def)

lemma ordered_table_same_dom:
  "ordered_table m ord \<Longrightarrow> fmdom' m' = fmdom' m \<Longrightarrow> ordered_table m' ord"
  by (simp add: ordered_table_def)

lemma ordered_table_remove:
  "ordered_table m ord \<Longrightarrow> ordered_table (fmdrop k m) (filter (\<lambda>x. x \<noteq> k) ord)"
  by (auto simp: ordered_table_def)

lemma ordered_table_filter:
  "ordered_table m ord \<Longrightarrow>
   fmdom' m' = {k \<in> fmdom' m. P k} \<Longrightarrow> ordered_table m' (filter P ord)"
  by (auto simp: ordered_table_def)

lemma ordered_table_mem: "ordered_table m ord \<Longrightarrow> k \<in> set ord \<longleftrightarrow> k \<in> fmdom' m"
  by (simp add: ordered_table_def)

section \<open>Step systems with an invariant\<close>

text \<open>
  Every stateful component is a step function over a type of operations. The locale is the contract
  of such a component: an initial state, a step, and an invariant that the first has and the second
  keeps; the client lemmas lift it to runs and to reachable states.
\<close>

locale step_system =
  fixes init :: "'s \<Rightarrow> bool"
    and step :: "'op \<Rightarrow> 's \<Rightarrow> 's"
    and inv :: "'s \<Rightarrow> bool"
  assumes inv_init: "init s \<Longrightarrow> inv s"
    and inv_step: "inv s \<Longrightarrow> inv (step a s)"
begin

lemma inv_run: "inv s \<Longrightarrow> inv (fold step as s)"
  by (induction as arbitrary: s) (auto intro: inv_step)

lemma inv_run_init: "init s \<Longrightarrow> inv (fold step as s)"
  by (blast intro: inv_init inv_run)

lemma run_measure_mono:
  fixes f :: "'s \<Rightarrow> 'b::preorder"
  assumes "\<And>s a. inv s \<Longrightarrow> f s \<le> f (step a s)" and "inv s"
  shows "f s \<le> f (fold step as s)"
  using assms(2)
proof (induction as arbitrary: s)
  case Nil
  then show ?case by simp
next
  case (Cons a as)
  then have "f s \<le> f (step a s)" and "f (step a s) \<le> f (fold step as (step a s))"
    using assms(1) by (auto intro: inv_step)
  then show ?case by (auto intro: order_trans)
qed

lemma run_preserves:
  assumes "\<And>s a. inv s \<Longrightarrow> P s \<Longrightarrow> P (step a s)" and "inv s" and "P s"
  shows "P (fold step as s)"
  using assms(2,3)
  by (induction as arbitrary: s) (auto intro: inv_step assms(1))

end

end
