(* ===== verification/Go_Errors.thy ===== *)
theory Go_Errors
  imports Gollem_Prelude
begin

text \<open>
  Go errors as values: the sentinels of \<^verbatim>\<open>ext/orchestrator/types.go\<close>, the error types of
  \<^verbatim>\<open>core/errors.go\<close> and of the files beside it, the wrapping chain, and \<^verbatim>\<open>errors.Is\<close> / \<^verbatim>\<open>errors.As\<close> as
  walks along the chain.
\<close>

section \<open>Error values\<close>

datatype sentinel =
    ErrTaskNotFound | ErrTaskDependencyNotFound | ErrTaskBlocked | ErrNoReadyTask
  | ErrTaskNotCancelable | ErrTaskNotRetryable | ErrArtifactNotFound | ErrArtifactTaskRequired
  | ErrLeaseNotFound | ErrLeaseExpired | ErrLeaseMismatch | ErrCommandNotFound
  | ErrNoPendingCommand | ErrCommandClaimMismatch | ErrEventNotFound | ErrRunNotFound
  | ErrRunControlUnavailable | ErrInvalidCommand

text \<open>
  \<open>WrapPrefix m e\<close> is \<^verbatim>\<open>fmt.Errorf("m: %w", e)\<close> and \<open>WrapSuffix e m\<close> is \<^verbatim>\<open>fmt.Errorf("%w: m", e)\<close>.
  \<open>RetryableError None\<close> and \<open>FatalToolError None\<close> have a nil \<^verbatim>\<open>Err\<close> field.
\<close>

datatype go_error =
    Sentinel sentinel
  | ErrorString string
  | WrapPrefix string go_error
  | WrapSuffix go_error string
  | ContextCanceled
  | DeadlineExceeded
  | RetryableError "go_error option"
  | TaskCancelCause string
  | RunAbortCause string
  | ModelRetryError string
  | FatalToolError "go_error option"
  | CallDeferred string
  | UsageLimitExceeded string
  | QuotaExceededError string
  | UnexpectedModelBehavior string string
  | ContentFilterError string string
  | IncompleteToolCall string string
  | GuardrailError string string
  | RunConditionError string

type_synonym 'a result = "go_error + 'a"

section \<open>Messages\<close>

fun sentinel_text :: "sentinel \<Rightarrow> string" where
  "sentinel_text ErrTaskNotFound = ''orchestrator: task not found''"
| "sentinel_text ErrTaskDependencyNotFound = ''orchestrator: task dependency not found''"
| "sentinel_text ErrTaskBlocked = ''orchestrator: task blocked''"
| "sentinel_text ErrNoReadyTask = ''orchestrator: no ready task''"
| "sentinel_text ErrTaskNotCancelable = ''orchestrator: task not cancelable''"
| "sentinel_text ErrTaskNotRetryable = ''orchestrator: task not retryable''"
| "sentinel_text ErrArtifactNotFound = ''orchestrator: artifact not found''"
| "sentinel_text ErrArtifactTaskRequired = ''orchestrator: artifact task id required''"
| "sentinel_text ErrLeaseNotFound = ''orchestrator: lease not found''"
| "sentinel_text ErrLeaseExpired = ''orchestrator: lease expired''"
| "sentinel_text ErrLeaseMismatch = ''orchestrator: lease token mismatch''"
| "sentinel_text ErrCommandNotFound = ''orchestrator: command not found''"
| "sentinel_text ErrNoPendingCommand = ''orchestrator: no pending command''"
| "sentinel_text ErrCommandClaimMismatch = ''orchestrator: command claim mismatch''"
| "sentinel_text ErrEventNotFound = ''orchestrator: event not found''"
| "sentinel_text ErrRunNotFound = ''orchestrator: run not found''"
| "sentinel_text ErrRunControlUnavailable = ''orchestrator: run control unavailable''"
| "sentinel_text ErrInvalidCommand = ''orchestrator: invalid command''"

text \<open>
  \<^verbatim>\<open>formatCommandCause\<close>: the cause is \<open>None\<close> where the Go interface value is nil.
\<close>

definition formatCommandCause :: "string \<Rightarrow> string option \<Rightarrow> string" where
  "formatCommandCause prefix cause =
     (let prefix = (if TrimSpace prefix = [] then ''orchestrator command'' else prefix)
      in case cause of
           None \<Rightarrow> prefix
         | Some reason \<Rightarrow>
             (let trimmed = TrimSpace reason
              in if trimmed \<noteq> [] then prefix @ '': '' @ trimmed else prefix))"

text \<open>\<^verbatim>\<open>UnexpectedModelBehavior\<close>, which two other errors embed: a message and the raw body, if any.\<close>

definition behavior_text :: "string \<Rightarrow> string \<Rightarrow> string" where
  "behavior_text message body = (if body \<noteq> [] then message @ '' (body: '' @ body @ '')'' else message)"

fun error_text :: "go_error \<Rightarrow> string" where
  "error_text (Sentinel s) = sentinel_text s"
| "error_text (ErrorString m) = m"
| "error_text (WrapPrefix m e) = m @ '': '' @ error_text e"
| "error_text (WrapSuffix e m) = error_text e @ '': '' @ m"
| "error_text ContextCanceled = ''context canceled''"
| "error_text DeadlineExceeded = ''context deadline exceeded''"
| "error_text (RetryableError e) =
     (case e of None \<Rightarrow> ''retryable task failure'' | Some e \<Rightarrow> error_text e)"
| "error_text (TaskCancelCause r) = formatCommandCause ''orchestrator task canceled'' (Some r)"
| "error_text (RunAbortCause r) = formatCommandCause ''orchestrator run aborted'' (Some r)"
| "error_text (ModelRetryError m) = m"
| "error_text (FatalToolError e) =
     (case e of None \<Rightarrow> ''fatal tool error'' | Some e \<Rightarrow> error_text e)"
| "error_text (CallDeferred m) = ''deferred: '' @ m"
| "error_text (UsageLimitExceeded m) = (if m \<noteq> [] then m else ''usage limit exceeded'')"
| "error_text (QuotaExceededError m) = ''usage quota exceeded: '' @ m"
| "error_text (UnexpectedModelBehavior m b) = behavior_text m b"
| "error_text (ContentFilterError m b) = behavior_text m b"
| "error_text (IncompleteToolCall m b) = behavior_text m b"
| "error_text (GuardrailError g m) = ''guardrail '' @ go_quote g @ '': '' @ m"
| "error_text (RunConditionError r) = ''run stopped: '' @ r"

section \<open>Walking the chain\<close>

fun unwrap :: "go_error \<Rightarrow> go_error option" where
  "unwrap (WrapPrefix _ e) = Some e"
| "unwrap (WrapSuffix e _) = Some e"
| "unwrap (RetryableError e) = e"
| "unwrap (FatalToolError e) = e"
| "unwrap _ = None"

fun error_chain :: "go_error \<Rightarrow> go_error list" where
  "error_chain (WrapPrefix m e) = WrapPrefix m e # error_chain e"
| "error_chain (WrapSuffix e m) = WrapSuffix e m # error_chain e"
| "error_chain (RetryableError (Some e)) = RetryableError (Some e) # error_chain e"
| "error_chain (FatalToolError (Some e)) = FatalToolError (Some e) # error_chain e"
| "error_chain e = [e]"

definition errors_Is :: "go_error \<Rightarrow> go_error \<Rightarrow> bool" where
  "errors_Is err target \<longleftrightarrow> target \<in> set (error_chain err)"

definition errors_As :: "(go_error \<Rightarrow> 'a option) \<Rightarrow> go_error \<Rightarrow> 'a option" where
  "errors_As f err = (case filter (\<lambda>e. f e \<noteq> None) (error_chain err) of [] \<Rightarrow> None | e # _ \<Rightarrow> f e)"

fun as_retryable :: "go_error \<Rightarrow> go_error option option" where
  "as_retryable (RetryableError e) = Some e"
| "as_retryable _ = None"

fun as_model_retry :: "go_error \<Rightarrow> string option" where
  "as_model_retry (ModelRetryError m) = Some m"
| "as_model_retry _ = None"

fun as_fatal :: "go_error \<Rightarrow> go_error option" where
  "as_fatal (FatalToolError e) = Some (FatalToolError e)"
| "as_fatal _ = None"

fun as_deferred :: "go_error \<Rightarrow> string option" where
  "as_deferred (CallDeferred m) = Some m"
| "as_deferred _ = None"

text \<open>\<^verbatim>\<open>Retryable(err)\<close>: nil stays nil.\<close>

definition Retryable :: "go_error option \<Rightarrow> go_error option" where
  "Retryable e = (case e of None \<Rightarrow> None | Some e \<Rightarrow> Some (RetryableError (Some e)))"

definition isRetryable :: "go_error \<Rightarrow> bool" where
  "isRetryable err \<longleftrightarrow> errors_As as_retryable err \<noteq> None"

definition isLeaseLoss :: "go_error \<Rightarrow> bool" where
  "isLeaseLoss err \<longleftrightarrow> errors_Is err (Sentinel ErrLeaseNotFound)
     \<or> errors_Is err (Sentinel ErrLeaseExpired) \<or> errors_Is err (Sentinel ErrLeaseMismatch)"

section \<open>Laws\<close>

lemma error_chain_head [simp]: "e \<in> set (error_chain e)"
  by (induction e rule: error_chain.induct) auto

lemma error_chain_not_Nil [simp]: "error_chain e \<noteq> []"
  by (induction e rule: error_chain.induct) auto

lemma error_chain_unwrap:
  "error_chain e = e # (case unwrap e of None \<Rightarrow> [] | Some e' \<Rightarrow> error_chain e')"
  by (induction e rule: error_chain.induct) auto

lemma errors_Is_refl [simp, go_simps]: "errors_Is e e"
  by (simp add: errors_Is_def)

lemma errors_Is_sentinel [simp, go_simps]:
  "errors_Is (Sentinel a) (Sentinel b) \<longleftrightarrow> a = b"
  by (auto simp: errors_Is_def)

lemma errors_Is_ErrorString [simp, go_simps]: "\<not> errors_Is (ErrorString m) (Sentinel b)"
  by (simp add: errors_Is_def)

lemma errors_Is_WrapSuffix [simp, go_simps]:
  "errors_Is (WrapSuffix e m) (Sentinel b) \<longleftrightarrow> errors_Is e (Sentinel b)"
  by (auto simp: errors_Is_def)

lemma errors_Is_WrapPrefix [simp, go_simps]:
  "errors_Is (WrapPrefix m e) (Sentinel b) \<longleftrightarrow> errors_Is e (Sentinel b)"
  by (auto simp: errors_Is_def)

lemma isLeaseLoss_sentinel [simp, go_simps]:
  "isLeaseLoss (Sentinel a) \<longleftrightarrow> a \<in> {ErrLeaseNotFound, ErrLeaseExpired, ErrLeaseMismatch}"
  by (auto simp: isLeaseLoss_def)

lemma errors_As_unwrap:
  "errors_As f e =
     (if f e \<noteq> None then f e else case unwrap e of None \<Rightarrow> None | Some e' \<Rightarrow> errors_As f e')"
  by (subst errors_As_def, subst error_chain_unwrap) (auto simp: errors_As_def split: option.split)

lemma isRetryable_unwrap:
  "isRetryable e \<longleftrightarrow>
     as_retryable e \<noteq> None \<or> (\<exists>e'. unwrap e = Some e' \<and> isRetryable e')"
  unfolding isRetryable_def
  by (subst errors_As_unwrap) (auto split: option.split)

lemma errors_As_Some_iff: "errors_As f e \<noteq> None \<longleftrightarrow> (\<exists>x \<in> set (error_chain e). f x \<noteq> None)"
proof (cases "filter (\<lambda>e. f e \<noteq> None) (error_chain e)")
  case Nil
  then show ?thesis by (auto simp: errors_As_def filter_empty_conv)
next
  case (Cons x xs)
  then have "x \<in> set (filter (\<lambda>e. f e \<noteq> None) (error_chain e))"
    by (metis list.set_intros(1))
  then have "x \<in> set (error_chain e)" and "f x \<noteq> None" by simp_all
  moreover have "errors_As f e = f x"
    using Cons by (simp add: errors_As_def)
  ultimately show ?thesis by metis
qed

lemma as_retryable_not_None: "as_retryable e \<noteq> None \<longleftrightarrow> (\<exists>i. e = RetryableError i)"
  by (cases e) auto

lemma isRetryable_iff: "isRetryable e \<longleftrightarrow> (\<exists>i. RetryableError i \<in> set (error_chain e))"
proof -
  have "isRetryable e \<longleftrightarrow> (\<exists>x \<in> set (error_chain e). as_retryable x \<noteq> None)"
    unfolding isRetryable_def by (rule errors_As_Some_iff)
  also have "\<dots> \<longleftrightarrow> (\<exists>i. RetryableError i \<in> set (error_chain e))"
    by (auto simp: as_retryable_not_None simp del: not_None_eq)
  finally show ?thesis .
qed

end
