(* ===== verification/Core_Usage.thy ===== *)
theory Core_Usage
  imports Go_Errors
begin

text \<open>
  Token accounting and limits: \<^verbatim>\<open>core/usage.go\<close> and \<^verbatim>\<open>core/quota.go\<close>. \<^verbatim>\<open>RunUsage\<close> embeds \<^verbatim>\<open>Usage\<close>, so it
  is a record extension; a nil limit is \<open>None\<close>. Token counts are Go ints far below the 64-bit
  bound and are modelled as \<open>int\<close>.
\<close>

section \<open>Usage\<close>

record usage =
  InputTokens :: int
  OutputTokens :: int
  CacheWriteTokens :: int
  CacheReadTokens :: int
  Details :: "(string, int) go_map"

record run_usage = usage +
  Requests :: int
  ToolCalls :: int

definition zero_usage :: usage where
  "zero_usage = \<lparr>InputTokens = 0, OutputTokens = 0, CacheWriteTokens = 0, CacheReadTokens = 0,
     Details = fmempty\<rparr>"

definition zero_run_usage :: run_usage where
  "zero_run_usage = \<lparr>InputTokens = 0, OutputTokens = 0, CacheWriteTokens = 0, CacheReadTokens = 0,
     Details = fmempty, Requests = 0, ToolCalls = 0\<rparr>"

definition TotalTokens :: "'a usage_scheme \<Rightarrow> int" where
  "TotalTokens u = InputTokens u + OutputTokens u"

definition detail :: "(string, int) go_map \<Rightarrow> string \<Rightarrow> int" where
  "detail d k = (case fmlookup d k of None \<Rightarrow> 0 | Some v \<Rightarrow> v)"

definition add_details :: "(string, int) go_map \<Rightarrow> (string, int) go_map \<Rightarrow> (string, int) go_map" where
  "add_details d other =
     fold (\<lambda>k d. fmupd k (detail d k + detail other k) d) (map_keys other) d"

definition Incr :: "'a usage_scheme \<Rightarrow> 'b usage_scheme \<Rightarrow> 'a usage_scheme" where
  "Incr u other = u\<lparr>
     InputTokens := InputTokens u + InputTokens other,
     OutputTokens := OutputTokens u + OutputTokens other,
     CacheWriteTokens := CacheWriteTokens u + CacheWriteTokens other,
     CacheReadTokens := CacheReadTokens u + CacheReadTokens other,
     Details := add_details (Details u) (Details other)\<rparr>"

definition IncrRequest :: "run_usage \<Rightarrow> 'a usage_scheme \<Rightarrow> run_usage" where
  "IncrRequest u other = (let u = Incr u other in u\<lparr>Requests := Requests u + 1\<rparr>)"

definition IncrToolCall :: "run_usage \<Rightarrow> run_usage" where
  "IncrToolCall u = u\<lparr>ToolCalls := ToolCalls u + 1\<rparr>"

definition IncrRun :: "run_usage \<Rightarrow> run_usage \<Rightarrow> run_usage" where
  "IncrRun u other =
     (let u = Incr u other
      in u\<lparr>Requests := Requests u + Requests other, ToolCalls := ToolCalls u + ToolCalls other\<rparr>)"

section \<open>Limits\<close>

record usage_limits =
  RequestLimit :: "int option"
  InputTokensLimit :: "int option"
  OutputTokensLimit :: "int option"
  TotalTokensLimit :: "int option"
  ToolCallsLimit :: "int option"

definition DefaultUsageLimits :: usage_limits where
  "DefaultUsageLimits = \<lparr>RequestLimit = Some 50, InputTokensLimit = None, OutputTokensLimit = None,
     TotalTokensLimit = None, ToolCallsLimit = None\<rparr>"

definition limit_error :: "string \<Rightarrow> int \<Rightarrow> int \<Rightarrow> go_error" where
  "limit_error what limit used =
     UsageLimitExceeded (what @ '' limit of '' @ show_int limit @ '' exceeded (used '' @ show_int used @ '')'')"

definition CheckBeforeRequest :: "usage_limits \<Rightarrow> run_usage \<Rightarrow> go_error option" where
  "CheckBeforeRequest l u =
     (case RequestLimit l of
        Some n \<Rightarrow> if Requests u \<ge> n then Some (limit_error ''request'' n (Requests u)) else None
      | None \<Rightarrow> None)"

definition CheckTokens :: "usage_limits \<Rightarrow> run_usage \<Rightarrow> go_error option" where
  "CheckTokens l u =
     (let over = (\<lambda>lim used. case lim of Some n \<Rightarrow> used > n | None \<Rightarrow> False)
      in if over (InputTokensLimit l) (InputTokens u)
         then Some (limit_error ''input token'' (the (InputTokensLimit l)) (InputTokens u))
         else if over (OutputTokensLimit l) (OutputTokens u)
         then Some (limit_error ''output token'' (the (OutputTokensLimit l)) (OutputTokens u))
         else if over (TotalTokensLimit l) (TotalTokens u)
         then Some (limit_error ''total token'' (the (TotalTokensLimit l)) (TotalTokens u))
         else None)"

definition CheckToolCalls :: "usage_limits \<Rightarrow> run_usage \<Rightarrow> go_error option" where
  "CheckToolCalls l u =
     (case ToolCallsLimit l of
        Some n \<Rightarrow> if ToolCalls u > n then Some (limit_error ''tool call'' n (ToolCalls u)) else None
      | None \<Rightarrow> None)"

definition HasTokenLimits :: "usage_limits \<Rightarrow> bool" where
  "HasTokenLimits l \<longleftrightarrow> InputTokensLimit l \<noteq> None \<or> OutputTokensLimit l \<noteq> None \<or> TotalTokensLimit l \<noteq> None"

section \<open>Quota\<close>

record usage_quota =
  MaxRequests :: int
  MaxTotalTokens :: int
  MaxInputTokens :: int
  MaxOutputTokens :: int

definition quota_error :: "string \<Rightarrow> int \<Rightarrow> int \<Rightarrow> go_error" where
  "quota_error what limit used =
     QuotaExceededError (what @ '' limit '' @ show_int limit @ '' reached (used '' @ show_int used @ '')'')"

definition checkQuota :: "usage_quota option \<Rightarrow> run_usage \<Rightarrow> go_error option" where
  "checkQuota quota u =
     (case quota of
        None \<Rightarrow> None
      | Some q \<Rightarrow>
          if MaxRequests q > 0 \<and> Requests u \<ge> MaxRequests q
          then Some (quota_error ''request'' (MaxRequests q) (Requests u))
          else if MaxTotalTokens q > 0 \<and> TotalTokens u \<ge> MaxTotalTokens q
          then Some (quota_error ''total token'' (MaxTotalTokens q) (TotalTokens u))
          else if MaxInputTokens q > 0 \<and> InputTokens u \<ge> MaxInputTokens q
          then Some (quota_error ''input token'' (MaxInputTokens q) (InputTokens u))
          else if MaxOutputTokens q > 0 \<and> OutputTokens u \<ge> MaxOutputTokens q
          then Some (quota_error ''output token'' (MaxOutputTokens q) (OutputTokens u))
          else None)"

section \<open>Laws\<close>

lemma detail_fmupd [simp]: "detail (fmupd k v d) k' = (if k = k' then v else detail d k')"
  by (simp add: detail_def)

lemma detail_fold:
  "distinct ks \<Longrightarrow>
   detail (fold (\<lambda>k d. fmupd k (detail d k + detail other k) d) ks d) k =
     (if k \<in> set ks then detail d k + detail other k else detail d k)"
  by (induction ks arbitrary: d) auto

lemma detail_outside [simp]: "k \<notin> fmdom' d \<Longrightarrow> detail d k = 0"
  by (auto simp: detail_def)

lemma detail_add_details: "detail (add_details d other) k = detail d k + detail other k"
  by (cases "k \<in> fmdom' other") (simp_all add: add_details_def detail_fold)

lemma Incr_simps [simp]:
  "InputTokens (Incr u v) = InputTokens u + InputTokens v"
  "OutputTokens (Incr u v) = OutputTokens u + OutputTokens v"
  "TotalTokens (Incr u v) = TotalTokens u + TotalTokens v"
  "Details (Incr u v) = add_details (Details u) (Details v)"
  by (simp_all add: Incr_def TotalTokens_def)

lemma Incr_run_simps [simp]:
  "Requests (Incr u v) = Requests u"
  "ToolCalls (Incr u v) = ToolCalls u"
  by (simp_all add: Incr_def)

lemma IncrRequest_simps [simp]:
  "Requests (IncrRequest u v) = Requests u + 1"
  "ToolCalls (IncrRequest u v) = ToolCalls u"
  "InputTokens (IncrRequest u v) = InputTokens u + InputTokens v"
  "OutputTokens (IncrRequest u v) = OutputTokens u + OutputTokens v"
  by (simp_all add: IncrRequest_def Let_def)

lemma IncrToolCall_simps [simp]:
  "Requests (IncrToolCall u) = Requests u"
  "ToolCalls (IncrToolCall u) = ToolCalls u + 1"
  "InputTokens (IncrToolCall u) = InputTokens u"
  "OutputTokens (IncrToolCall u) = OutputTokens u"
  "TotalTokens (IncrToolCall u) = TotalTokens u"
  by (simp_all add: IncrToolCall_def TotalTokens_def)

lemma CheckBeforeRequest_None:
  "CheckBeforeRequest l u = None \<longleftrightarrow> (\<forall>n. RequestLimit l = Some n \<longrightarrow> Requests u < n)"
  by (auto simp: CheckBeforeRequest_def split: option.splits)

lemma CheckToolCalls_None:
  "CheckToolCalls l u = None \<longleftrightarrow> (\<forall>n. ToolCallsLimit l = Some n \<longrightarrow> ToolCalls u \<le> n)"
  by (auto simp: CheckToolCalls_def split: option.splits)

lemma CheckTokens_None:
  "CheckTokens l u = None \<longleftrightarrow>
     (\<forall>n. InputTokensLimit l = Some n \<longrightarrow> InputTokens u \<le> n) \<and>
     (\<forall>n. OutputTokensLimit l = Some n \<longrightarrow> OutputTokens u \<le> n) \<and>
     (\<forall>n. TotalTokensLimit l = Some n \<longrightarrow> TotalTokens u \<le> n)"
  by (auto simp: CheckTokens_def Let_def split: option.splits if_splits)

lemma checkQuota_None:
  "checkQuota (Some q) u = None \<longleftrightarrow>
     (MaxRequests q > 0 \<longrightarrow> Requests u < MaxRequests q) \<and>
     (MaxTotalTokens q > 0 \<longrightarrow> TotalTokens u < MaxTotalTokens q) \<and>
     (MaxInputTokens q > 0 \<longrightarrow> InputTokens u < MaxInputTokens q) \<and>
     (MaxOutputTokens q > 0 \<longrightarrow> OutputTokens u < MaxOutputTokens q)"
  by (auto simp: checkQuota_def split: if_splits)

end
