(* ===== verification/Orch_Types.thy ===== *)
theory Orch_Types
  imports Core_Usage
begin

text \<open>
  The data of the orchestrator package: \<^verbatim>\<open>ext/orchestrator/types.go\<close>, \<^verbatim>\<open>commands.go\<close>, \<^verbatim>\<open>artifacts.go\<close>,
  \<^verbatim>\<open>events.go\<close>, \<^verbatim>\<open>recovery.go\<close>, \<^verbatim>\<open>runner.go\<close> and \<^verbatim>\<open>query.go\<close>. A Go struct is a record whose fields carry a
  prefix that names the struct; a nil pointer is \<open>None\<close>; the string-typed enumerations are
  datatypes, with a constructor for a string outside the declared constants.
\<close>

section \<open>Tasks, runs, leases\<close>

datatype task_status =
    TaskPending | TaskRunning | TaskCompleted | TaskFailed | TaskCanceled | TaskStatusOther string

record run_ref =
  run_ID :: string
  run_TaskID :: string
  run_WorkerID :: string
  run_Attempt :: int
  run_StartedAt :: time

record lease =
  lease_ID :: string
  lease_TaskID :: string
  lease_WorkerID :: string
  lease_Token :: string
  lease_AcquiredAt :: time
  lease_ExpiresAt :: time

record task_result =
  result_RunnerRunID :: string
  result_Output :: any
  result_Usage :: run_usage
  result_ToolState :: metadata
  result_Metadata :: metadata
  result_CompletedAt :: time

record task =
  task_ID :: string
  task_Kind :: string
  task_Subject :: string
  task_Description :: string
  task_Input :: string
  task_Status :: task_status
  task_Attempt :: int
  task_MaxAttempts :: int
  task_Blocks :: "string list"
  task_BlockedBy :: "string list"
  task_Metadata :: metadata
  task_Run :: "run_ref option"
  task_Result :: "task_result option"
  task_LastError :: string
  task_CreatedAt :: time
  task_UpdatedAt :: time
  task_StartedAt :: time
  task_CompletedAt :: time

record create_task_request =
  ctr_Kind :: string
  ctr_Subject :: string
  ctr_Description :: string
  ctr_Input :: string
  ctr_Blocks :: "string list"
  ctr_BlockedBy :: "string list"
  ctr_MaxAttempts :: int
  ctr_Metadata :: metadata

record update_task_request =
  utr_ID :: string
  utr_Subject :: "string option"
  utr_Description :: "string option"
  utr_AddBlocks :: "string list"
  utr_AddBlockedBy :: "string list"
  utr_Metadata :: metadata

record task_filter =
  tf_Kinds :: "string list"
  tf_Statuses :: "task_status list"

record claim_task_request =
  clr_WorkerID :: string
  clr_LeaseTTL :: duration
  clr_Now :: time
  clr_Kinds :: "string list"
  clr_ExcludeTaskIDs :: "string list"

record claimed_task =
  claim_Task :: task
  claim_Lease :: lease
  claim_Run :: "run_ref option"

section \<open>Commands\<close>

datatype command_kind =
    CommandCancelTask | CommandAbortRun | CommandRetryTask | CommandKindOther string

datatype command_status = CommandPending | CommandClaimed | CommandHandled | CommandStatusOther string

record command =
  cmd_ID :: string
  cmd_Kind :: command_kind
  cmd_TaskID :: string
  cmd_RunID :: string
  cmd_TargetWorkerID :: string
  cmd_Reason :: string
  cmd_Metadata :: metadata
  cmd_Status :: command_status
  cmd_ClaimToken :: string
  cmd_ClaimedBy :: string
  cmd_HandledBy :: string
  cmd_CreatedAt :: time
  cmd_ClaimedAt :: time
  cmd_HandledAt :: time

record create_command_request =
  ccr_Kind :: command_kind
  ccr_TaskID :: string
  ccr_RunID :: string
  ccr_Reason :: string
  ccr_Metadata :: metadata

record command_filter =
  cf_Kinds :: "command_kind list"
  cf_Statuses :: "command_status list"
  cf_TaskID :: string
  cf_RunID :: string
  cf_TargetWorkerID :: string

record claim_command_request =
  cclr_WorkerID :: string
  cclr_Now :: time

section \<open>Artifacts and outcomes\<close>

type_synonym bytes = "char list"

record artifact =
  art_ID :: string
  art_TaskID :: string
  art_RunID :: string
  art_Kind :: string
  art_Name :: string
  art_ContentType :: string
  art_Body :: bytes
  art_Metadata :: metadata
  art_CreatedAt :: time

record artifact_spec =
  spec_Kind :: string
  spec_Name :: string
  spec_ContentType :: string
  spec_Body :: bytes
  spec_Metadata :: metadata

record create_artifact_request =
  car_TaskID :: string
  car_RunID :: string
  car_Kind :: string
  car_Name :: string
  car_ContentType :: string
  car_Body :: bytes
  car_Metadata :: metadata

record artifact_filter =
  af_TaskID :: string
  af_RunID :: string
  af_Kind :: string
  af_Name :: string

record task_outcome =
  outcome_Result :: "task_result option"
  outcome_Artifacts :: "artifact_spec list"

section \<open>Recovery and query views\<close>

record lease_recovery =
  lrec_Task :: task
  lrec_Lease :: lease
  lrec_RecoveredAt :: time
  lrec_ResultStatus :: task_status
  lrec_Requeued :: bool
  lrec_Reason :: string

record command_recovery =
  crec_Command :: command
  crec_RecoveredAt :: time
  crec_ReleasedBy :: string

record active_run_summary =
  ars_RunID :: string
  ars_TaskID :: string
  ars_TaskKind :: string
  ars_TaskSubject :: string
  ars_WorkerID :: string
  ars_Attempt :: int
  ars_StartedAt :: time
  ars_UpdatedAt :: time

record expired_lease_summary =
  els_LeaseID :: string
  els_TaskID :: string
  els_RunID :: string
  els_WorkerID :: string
  els_Attempt :: int
  els_ExpiresAt :: time

record stale_command_summary =
  scs_CommandID :: string
  scs_Kind :: command_kind
  scs_TaskID :: string
  scs_RunID :: string
  scs_TargetWorkerID :: string
  scs_ClaimedBy :: string
  scs_ClaimedAt :: time
  scs_Reason :: string

record active_run_filter =
  arf_WorkerID :: string
  arf_Kinds :: "string list"

section \<open>Events\<close>

text \<open>One constructor per event struct, its arguments in the order of the struct's fields.\<close>

datatype orch_event =
    TaskCreatedEvent string string string string time
  | TaskUpdatedEvent string string "string list" "string list" time
  | TaskDeletedEvent string time
  | TaskClaimedEvent string string string string int time time
  | LeaseRenewedEvent string string string string time
  | LeaseReleasedEvent string string string string time bool task_status string bool
  | TaskRequeuedEvent string string int string time
  | TaskCompletedEvent string string int time
  | TaskFailedEvent string string int string time
  | TaskCanceledEvent string string int string time
  | ArtifactCreatedEvent string string string string string string int time
  | CommandCreatedEvent string command_kind string string string time
  | CommandClaimedEvent string command_kind string string string time
  | CommandReleasedEvent string command_kind string string string time string bool
  | CommandHandledEvent string command_kind string string string time

section \<open>Copies\<close>

text \<open>
  The store hands out copies. Values have no identity in the model, so a copy is the value itself;
  the definitions keep the field-by-field shape of the code and the simp rules say that nothing is
  lost on the way.
\<close>

definition cloneStrings :: "string list \<Rightarrow> string list" where
  "cloneStrings src = (if src = [] then [] else src)"

definition cloneAnyMap :: "metadata \<Rightarrow> metadata" where
  "cloneAnyMap src = (if src = fmempty then fmempty else src)"

definition cloneBytes :: "bytes \<Rightarrow> bytes" where
  "cloneBytes src = (if src = [] then [] else src)"

definition cloneTaskResult :: "task_result option \<Rightarrow> task_result option" where
  "cloneTaskResult r = map_option (\<lambda>r. r\<lparr>result_ToolState := cloneAnyMap (result_ToolState r),
     result_Metadata := cloneAnyMap (result_Metadata r)\<rparr>) r"

definition cloneTask :: "task \<Rightarrow> task" where
  "cloneTask t = t\<lparr>task_Blocks := cloneStrings (task_Blocks t),
     task_BlockedBy := cloneStrings (task_BlockedBy t),
     task_Metadata := cloneAnyMap (task_Metadata t),
     task_Result := cloneTaskResult (task_Result t)\<rparr>"

definition cloneCommand :: "command \<Rightarrow> command" where
  "cloneCommand c = c\<lparr>cmd_Metadata := cloneAnyMap (cmd_Metadata c)\<rparr>"

definition cloneArtifact :: "artifact \<Rightarrow> artifact" where
  "cloneArtifact a = a\<lparr>art_Body := cloneBytes (art_Body a), art_Metadata := cloneAnyMap (art_Metadata a)\<rparr>"

lemma clone_simps [simp, go_simps]:
  "cloneStrings xs = xs" "cloneAnyMap m = m" "cloneBytes b = b"
  "cloneTaskResult r = r" "cloneTask t = t" "cloneCommand c = c" "cloneArtifact a = a"
  by (simp_all add: cloneStrings_def cloneAnyMap_def cloneBytes_def cloneTaskResult_def cloneTask_def
      cloneCommand_def cloneArtifact_def option.map_ident)

end
