(* ===== verification/Orch_Store.thy ===== *)
theory Orch_Store
  imports Orch_Types "HOL-Library.Product_Lexorder"
begin

text \<open>
  The in-memory task and lease store, \<^verbatim>\<open>ext/orchestrator/memory/store.go\<close>: its state, the helpers of
  the file and every task and lease operation, in the order of the source. An operation takes the
  store and returns its result beside the store it leaves, also on the error paths, since
  \<^verbatim>\<open>claimTaskLocked\<close> writes before it reports an error. The mutex makes each operation atomic, so the
  functions are the atomic steps. Tasks are pointers in Go: an operation that writes through such a
  pointer writes the map entry here.
\<close>

section \<open>State\<close>

text \<open>
  \<open>eventBus\<close> is \<open>None\<close> without a bus, else the events handed to \<^verbatim>\<open>core.PublishAsync\<close>, oldest first.
\<close>

record store =
  tasks :: "(string, task) go_map"
  taskOrder :: "string list"
  leases :: "(string, lease) go_map"
  commands :: "(string, command) go_map"
  commandOrder :: "string list"
  artifacts :: "(string, artifact) go_map"
  artifactOrder :: "string list"
  nextTask :: nat
  nextLease :: nat
  nextRun :: nat
  nextCommand :: nat
  nextArtifact :: nat
  eventBus :: "orch_event list option"

definition NewStore :: "orch_event list option \<Rightarrow> store" where
  "NewStore bus = \<lparr>tasks = fmempty, taskOrder = [], leases = fmempty, commands = fmempty,
     commandOrder = [], artifacts = fmempty, artifactOrder = [], nextTask = 0, nextLease = 0,
     nextRun = 0, nextCommand = 0, nextArtifact = 0, eventBus = bus\<rparr>"

abbreviation get_task :: "store \<Rightarrow> string \<Rightarrow> task option" where
  "get_task s \<equiv> fmlookup (tasks s)"

abbreviation get_lease :: "store \<Rightarrow> string \<Rightarrow> lease option" where
  "get_lease s \<equiv> fmlookup (leases s)"

abbreviation set_task :: "string \<Rightarrow> task \<Rightarrow> store \<Rightarrow> store" where
  "set_task k t s \<equiv> s\<lparr>tasks := fmupd k t (tasks s)\<rparr>"

abbreviation drop_lease :: "string \<Rightarrow> store \<Rightarrow> store" where
  "drop_lease k s \<equiv> s\<lparr>leases := fmdrop k (leases s)\<rparr>"

section \<open>Helpers\<close>

definition normalizeNow :: "time \<Rightarrow> time \<Rightarrow> time" where
  "normalizeNow reading now = (if now = zero_time then reading else now)"

definition matchesKinds :: "task \<Rightarrow> string list \<Rightarrow> bool" where
  "matchesKinds t kinds \<longleftrightarrow> kinds = [] \<or> task_Kind t \<in> set kinds"

definition matchesStatuses :: "task \<Rightarrow> task_status list \<Rightarrow> bool" where
  "matchesStatuses t statuses \<longleftrightarrow> statuses = [] \<or> task_Status t \<in> set statuses"

definition matchesFilter :: "task \<Rightarrow> task_filter \<Rightarrow> bool" where
  "matchesFilter t f \<longleftrightarrow> matchesKinds t (tf_Kinds f) \<and> matchesStatuses t (tf_Statuses f)"

definition containsString :: "string list \<Rightarrow> string \<Rightarrow> bool" where
  "containsString slice target \<longleftrightarrow> list_ex (\<lambda>item. item = target) slice"

definition removeString :: "string list \<Rightarrow> string \<Rightarrow> string list" where
  "removeString slice target = filter (\<lambda>item. item \<noteq> target) slice"

definition appendUniqueStrings :: "string list \<Rightarrow> string list \<Rightarrow> string list" where
  "appendUniqueStrings dst values =
     fold (\<lambda>v dst. if v = [] \<or> v \<in> set dst then dst else dst @ [v]) values dst"

definition cancelReason :: "string \<Rightarrow> string" where
  "cancelReason reason =
     (let trimmed = TrimSpace reason in if trimmed \<noteq> [] then trimmed else ''task canceled'')"

definition retryReason :: "string \<Rightarrow> string" where
  "retryReason reason =
     (let trimmed = TrimSpace reason
      in if trimmed \<noteq> [] then ''command retry: '' @ trimmed else ''command retry'')"

definition isBlocked :: "store \<Rightarrow> task \<Rightarrow> bool" where
  "isBlocked s t \<longleftrightarrow>
     list_ex (\<lambda>b. case get_task s b of None \<Rightarrow> False | Some u \<Rightarrow> task_Status u \<noteq> TaskCompleted)
       (task_BlockedBy t)"

definition exhaustedAttempts :: "task \<Rightarrow> bool" where
  "exhaustedAttempts t \<longleftrightarrow> task_MaxAttempts t > 0 \<and> task_Attempt t \<ge> task_MaxAttempts t"

definition run_id_of :: "task \<Rightarrow> string" where
  "run_id_of t = (case task_Run t of None \<Rightarrow> [] | Some r \<Rightarrow> run_ID r)"

definition validateTaskDependencies :: "string list \<Rightarrow> string list \<Rightarrow> store \<Rightarrow> go_error option" where
  "validateTaskDependencies blocks blockedBy s =
     (case List.find (\<lambda>b. get_task s b = None) blocks of
        Some b \<Rightarrow> Some (WrapSuffix (Sentinel ErrTaskDependencyNotFound) (''blocks '' @ go_quote b))
      | None \<Rightarrow>
          (case List.find (\<lambda>b. get_task s b = None) blockedBy of
             Some b \<Rightarrow> Some (WrapSuffix (Sentinel ErrTaskDependencyNotFound) (''blocked_by '' @ go_quote b))
           | None \<Rightarrow> None))"

text \<open>
  \<^verbatim>\<open>linkTaskDependencies\<close> writes the reverse edges of a task into its peers. The first loop may write
  the task itself, through its map entry, when the task names itself; the second loop ranges over
  the list as it is then. The peers come back in the order Go visits the \<^verbatim>\<open>updated\<close> map.
\<close>

definition link_blocked :: "string \<Rightarrow> time \<Rightarrow> string \<Rightarrow> (string, task) go_map \<times> string list
    \<Rightarrow> (string, task) go_map \<times> string list" where
  "link_blocked tid now k st =
     (case st of (m, upd) \<Rightarrow>
      (case fmlookup m k of
         None \<Rightarrow> (m, upd)
       | Some b \<Rightarrow>
           (let bb = appendUniqueStrings (task_BlockedBy b) [tid]
            in if length bb \<noteq> length (task_BlockedBy b)
               then (fmupd k (b\<lparr>task_BlockedBy := bb, task_UpdatedAt := now\<rparr>) m,
                     if task_ID b \<in> set upd then upd else upd @ [task_ID b])
               else (m, upd))))"

definition link_blocker :: "string \<Rightarrow> time \<Rightarrow> string \<Rightarrow> (string, task) go_map \<times> string list
    \<Rightarrow> (string, task) go_map \<times> string list" where
  "link_blocker tid now k st =
     (case st of (m, upd) \<Rightarrow>
      (case fmlookup m k of
         None \<Rightarrow> (m, upd)
       | Some b \<Rightarrow>
           (let bl = appendUniqueStrings (task_Blocks b) [tid]
            in if length bl \<noteq> length (task_Blocks b)
               then (fmupd k (b\<lparr>task_Blocks := bl, task_UpdatedAt := now\<rparr>) m,
                     if task_ID b \<in> set upd then upd else upd @ [task_ID b])
               else (m, upd))))"

definition linkTaskDependencies ::
    "iter_order \<Rightarrow> task \<Rightarrow> time \<Rightarrow> (string, task) go_map \<Rightarrow> (string, task) go_map \<times> string list" where
  "linkTaskDependencies it t now m =
     (let (m1, upd1) = fold (link_blocked (task_ID t) now) (task_Blocks t) (m, []);
          t1 = (case fmlookup m1 (task_ID t) of Some t1 \<Rightarrow> t1 | None \<Rightarrow> t);
          (m2, upd2) = fold (link_blocker (task_ID t) now) (task_BlockedBy t1) (m1, upd1)
      in (m2, it upd2))"

section \<open>Publishing\<close>

definition publish :: "orch_event \<Rightarrow> store \<Rightarrow> store" where
  "publish e s = s\<lparr>eventBus := map_option (\<lambda>log. log @ [e]) (eventBus s)\<rparr>"

definition publishTaskCreated :: "task \<Rightarrow> store \<Rightarrow> store" where
  "publishTaskCreated t = publish (TaskCreatedEvent (task_ID t) (task_Kind t) (task_Subject t)
     (task_Description t) (task_CreatedAt t))"

definition publishTaskUpdated :: "task \<Rightarrow> store \<Rightarrow> store" where
  "publishTaskUpdated t = publish (TaskUpdatedEvent (task_ID t) (task_Subject t)
     (cloneStrings (task_Blocks t)) (cloneStrings (task_BlockedBy t)) (task_UpdatedAt t))"

definition publishTaskUpdates :: "string list \<Rightarrow> store \<Rightarrow> store" where
  "publishTaskUpdates ids s =
     fold (\<lambda>k s. case get_task s k of None \<Rightarrow> s | Some t \<Rightarrow> publishTaskUpdated t s) ids s"

definition publishTaskDeleted :: "string \<Rightarrow> time \<Rightarrow> store \<Rightarrow> store" where
  "publishTaskDeleted k reading = publish (TaskDeletedEvent k reading)"

definition publishTaskClaimed :: "task \<Rightarrow> lease \<Rightarrow> store \<Rightarrow> store" where
  "publishTaskClaimed t l s =
     (case task_Run t of
        None \<Rightarrow> s
      | Some r \<Rightarrow> publish (TaskClaimedEvent (task_ID t) (run_ID r) (lease_ID l) (lease_WorkerID l)
          (task_Attempt t) (lease_AcquiredAt l) (lease_ExpiresAt l)) s)"

definition publishLeaseRenewed :: "lease \<Rightarrow> string \<Rightarrow> store \<Rightarrow> store" where
  "publishLeaseRenewed l runID = publish (LeaseRenewedEvent (lease_TaskID l) runID (lease_ID l)
     (lease_WorkerID l) (lease_ExpiresAt l))"

definition publishLeaseReleased ::
    "lease \<Rightarrow> string \<Rightarrow> bool \<Rightarrow> task_status \<Rightarrow> string \<Rightarrow> bool \<Rightarrow> time \<Rightarrow> store \<Rightarrow> store" where
  "publishLeaseReleased l runID requeued status reason recovered releasedAt =
     publish (LeaseReleasedEvent (lease_TaskID l) runID (lease_ID l) (lease_WorkerID l) releasedAt
       requeued status reason recovered)"

definition publishTaskRequeued :: "task \<Rightarrow> string \<Rightarrow> int \<Rightarrow> string \<Rightarrow> store \<Rightarrow> store" where
  "publishTaskRequeued t lastRunID lastAttempt reason =
     publish (TaskRequeuedEvent (task_ID t) lastRunID lastAttempt reason (task_UpdatedAt t))"

definition publishTaskCompleted :: "task \<Rightarrow> store \<Rightarrow> store" where
  "publishTaskCompleted t =
     publish (TaskCompletedEvent (task_ID t) (run_id_of t) (task_Attempt t) (task_CompletedAt t))"

definition publishTaskFailed :: "task \<Rightarrow> store \<Rightarrow> store" where
  "publishTaskFailed t = publish (TaskFailedEvent (task_ID t) (run_id_of t) (task_Attempt t)
     (task_LastError t) (task_CompletedAt t))"

definition publishTaskCanceled :: "task \<Rightarrow> store \<Rightarrow> store" where
  "publishTaskCanceled t = publish (TaskCanceledEvent (task_ID t) (run_id_of t) (task_Attempt t)
     (task_LastError t) (task_CompletedAt t))"

definition publishArtifactCreated :: "artifact \<Rightarrow> store \<Rightarrow> store" where
  "publishArtifactCreated a = publish (ArtifactCreatedEvent (art_ID a) (art_TaskID a) (art_RunID a)
     (art_Kind a) (art_Name a) (art_ContentType a) (int (length (art_Body a))) (art_CreatedAt a))"

section \<open>Creating, reading and listing tasks\<close>

definition new_task :: "nat \<Rightarrow> time \<Rightarrow> create_task_request \<Rightarrow> task" where
  "new_task n now req = \<lparr>task_ID = Sprintf_d ''task-'' n, task_Kind = ctr_Kind req,
     task_Subject = ctr_Subject req, task_Description = ctr_Description req,
     task_Input = ctr_Input req, task_Status = TaskPending, task_Attempt = 0,
     task_MaxAttempts = ctr_MaxAttempts req, task_Blocks = cloneStrings (ctr_Blocks req),
     task_BlockedBy = cloneStrings (ctr_BlockedBy req), task_Metadata = cloneAnyMap (ctr_Metadata req),
     task_Run = None, task_Result = None, task_LastError = [], task_CreatedAt = now,
     task_UpdatedAt = now, task_StartedAt = zero_time, task_CompletedAt = zero_time\<rparr>"

definition CreateTask ::
    "iter_order \<Rightarrow> clock \<Rightarrow> create_task_request \<Rightarrow> store \<Rightarrow> task result \<times> store" where
  "CreateTask it clk req s =
     (case validateTaskDependencies (ctr_Blocks req) (ctr_BlockedBy req) s of
        Some e \<Rightarrow> (Inl e, s)
      | None \<Rightarrow>
          (let n = Suc (nextTask s); now = clk 0; t = new_task n now req;
               (m, peers) = linkTaskDependencies it t now (tasks s);
               s1 = s\<lparr>nextTask := n, tasks := fmupd (task_ID t) t m,
                      taskOrder := taskOrder s @ [task_ID t]\<rparr>
           in (Inr (cloneTask t), publishTaskUpdates peers (publishTaskCreated t s1))))"

definition GetTask :: "string \<Rightarrow> store \<Rightarrow> task result" where
  "GetTask k s = (case get_task s k of None \<Rightarrow> Inl (Sentinel ErrTaskNotFound) | Some t \<Rightarrow> Inr (cloneTask t))"

definition ListTasks :: "task_filter \<Rightarrow> store \<Rightarrow> task list" where
  "ListTasks f s =
     concat (map (\<lambda>k. case get_task s k of
        None \<Rightarrow> [] | Some t \<Rightarrow> if matchesFilter t f then [cloneTask t] else []) (taskOrder s))"

section \<open>Claiming\<close>

definition exhaust_task :: "time \<Rightarrow> task \<Rightarrow> task" where
  "exhaust_task now t = t\<lparr>task_Status := TaskFailed, task_LastError := ''task exhausted max attempts'',
     task_CompletedAt := now, task_UpdatedAt := now\<rparr>"

definition new_run :: "nat \<Rightarrow> string \<Rightarrow> time \<Rightarrow> task \<Rightarrow> run_ref" where
  "new_run n worker now t = \<lparr>run_ID = Sprintf_d ''run-'' n, run_TaskID = task_ID t,
     run_WorkerID = worker, run_Attempt = task_Attempt t + 1, run_StartedAt = now\<rparr>"

definition start_run :: "nat \<Rightarrow> string \<Rightarrow> time \<Rightarrow> task \<Rightarrow> task" where
  "start_run n worker now t = t\<lparr>task_Attempt := task_Attempt t + 1, task_Status := TaskRunning,
     task_Run := Some (new_run n worker now t), task_Result := None, task_LastError := [],
     task_StartedAt := now, task_CompletedAt := zero_time, task_UpdatedAt := now\<rparr>"

definition new_lease :: "nat \<Rightarrow> string \<Rightarrow> time \<Rightarrow> duration \<Rightarrow> task \<Rightarrow> lease" where
  "new_lease n worker now ttl t = (let leaseID = Sprintf_d ''lease-'' n in
     \<lparr>lease_ID = leaseID, lease_TaskID = task_ID t, lease_WorkerID = worker, lease_Token = leaseID,
      lease_AcquiredAt = now, lease_ExpiresAt = now + ttl\<rparr>)"

definition claimTaskLocked ::
    "string \<Rightarrow> claim_task_request \<Rightarrow> time \<Rightarrow> store \<Rightarrow> claimed_task result \<times> store" where
  "claimTaskLocked k req now s =
     (case get_task s k of
        None \<Rightarrow> (Inl (Sentinel ErrTaskNotFound), s)
      | Some t \<Rightarrow>
          if containsString (clr_ExcludeTaskIDs req) k then (Inl (Sentinel ErrNoReadyTask), s)
          else if \<not> matchesKinds t (clr_Kinds req) then (Inl (Sentinel ErrNoReadyTask), s)
          else if isBlocked s t then (Inl (Sentinel ErrTaskBlocked), s)
          else
            (let l = get_lease s k;
                 leaseExpired = (case l of None \<Rightarrow> False | Some l \<Rightarrow> \<not> lease_ExpiresAt l > now);
                 hasActiveLease = (l \<noteq> None \<and> \<not> leaseExpired)
             in if hasActiveLease then (Inl (Sentinel ErrNoReadyTask), s)
                else if exhaustedAttempts t
                then if task_Status t \<noteq> TaskCompleted \<and> task_Status t \<noteq> TaskFailed
                     then (let t = exhaust_task now t
                           in (Inl (Sentinel ErrNoReadyTask),
                               publishTaskFailed t (drop_lease (task_ID t) (set_task k t s))))
                     else (Inl (Sentinel ErrNoReadyTask), s)
                else if task_Status t \<noteq> TaskPending \<and>
                        (task_Status t \<noteq> TaskRunning \<or> (\<not> leaseExpired \<and> l \<noteq> None))
                then (Inl (Sentinel ErrNoReadyTask), s)
                else
                  (let t = start_run (Suc (nextRun s)) (clr_WorkerID req) now t;
                       l = new_lease (Suc (nextLease s)) (clr_WorkerID req) now (clr_LeaseTTL req) t;
                       s1 = s\<lparr>nextRun := Suc (nextRun s), nextLease := Suc (nextLease s),
                              tasks := fmupd k t (tasks s), leases := fmupd (task_ID t) l (leases s)\<rparr>
                   in (Inr \<lparr>claim_Task = cloneTask t, claim_Lease = l, claim_Run = task_Run t\<rparr>,
                       publishTaskClaimed t l s1))))"

fun claim_first ::
    "claim_task_request \<Rightarrow> time \<Rightarrow> string list \<Rightarrow> store \<Rightarrow> claimed_task result \<times> store" where
  "claim_first req now [] s = (Inl (Sentinel ErrNoReadyTask), s)"
| "claim_first req now (k # ks) s =
     (case claimTaskLocked k req now s of
        (Inr c, s1) \<Rightarrow> (Inr c, s1)
      | (Inl e, s1) \<Rightarrow>
          if errors_Is e (Sentinel ErrNoReadyTask) \<or> errors_Is e (Sentinel ErrTaskBlocked)
          then claim_first req now ks s1 else (Inl e, s1))"

definition ttl_error :: go_error where
  "ttl_error = ErrorString ''orchestrator/memory: lease ttl must be positive''"

definition ClaimReadyTask ::
    "clock \<Rightarrow> claim_task_request \<Rightarrow> store \<Rightarrow> claimed_task result \<times> store" where
  "ClaimReadyTask clk req s =
     (if clr_LeaseTTL req \<le> 0 then (Inl ttl_error, s)
      else claim_first req (normalizeNow (clk 0) (clr_Now req)) (taskOrder s) s)"

definition ClaimTask ::
    "clock \<Rightarrow> string \<Rightarrow> claim_task_request \<Rightarrow> store \<Rightarrow> claimed_task result \<times> store" where
  "ClaimTask clk k req s =
     (if clr_LeaseTTL req \<le> 0 then (Inl ttl_error, s)
      else claimTaskLocked k req (normalizeNow (clk 0) (clr_Now req)) s)"

section \<open>Updating and deleting\<close>

definition update_metadata :: "metadata \<Rightarrow> metadata \<Rightarrow> metadata" where
  "update_metadata m req =
     fold (\<lambda>k m. case fmlookup req k of
             None \<Rightarrow> m | Some v \<Rightarrow> if v = AnyNil then fmdrop k m else fmupd k v m) (map_keys req) m"

definition UpdateTask ::
    "iter_order \<Rightarrow> clock \<Rightarrow> update_task_request \<Rightarrow> store \<Rightarrow> task result \<times> store" where
  "UpdateTask it clk req s =
     (if utr_ID req = [] then (Inl (ErrorString ''orchestrator/memory: task id must not be empty''), s)
      else case get_task s (utr_ID req) of
        None \<Rightarrow> (Inl (Sentinel ErrTaskNotFound), s)
      | Some t \<Rightarrow>
          (case validateTaskDependencies (utr_AddBlocks req) (utr_AddBlockedBy req) s of
             Some e \<Rightarrow> (Inl e, s)
           | None \<Rightarrow>
               (let k = utr_ID req; now = clk 0;
                    t = t\<lparr>task_Subject := (case utr_Subject req of None \<Rightarrow> task_Subject t | Some x \<Rightarrow> x),
                          task_Description :=
                            (case utr_Description req of None \<Rightarrow> task_Description t | Some x \<Rightarrow> x),
                          task_Blocks := appendUniqueStrings (task_Blocks t) (utr_AddBlocks req),
                          task_BlockedBy := appendUniqueStrings (task_BlockedBy t) (utr_AddBlockedBy req),
                          task_Metadata := update_metadata (task_Metadata t) (utr_Metadata req)\<rparr>;
                    (m, peers) = linkTaskDependencies it t now (fmupd k t (tasks s));
                    t = (case fmlookup m k of Some t1 \<Rightarrow> t1 | None \<Rightarrow> t)\<lparr>task_UpdatedAt := now\<rparr>;
                    s1 = s\<lparr>tasks := fmupd k t m\<rparr>
                in (Inr (cloneTask t), publishTaskUpdates peers (publishTaskUpdated t s1)))))"

definition deleteTaskArtifactsLocked :: "string \<Rightarrow> store \<Rightarrow> store" where
  "deleteTaskArtifactsLocked k s =
     (let of_task = (\<lambda>a. case fmlookup (artifacts s) a of None \<Rightarrow> False | Some x \<Rightarrow> art_TaskID x = k)
      in s\<lparr>artifacts := fold (\<lambda>a m. if of_task a then fmdrop a m else m) (artifactOrder s) (artifacts s),
           artifactOrder := filter (\<lambda>a. \<not> of_task a) (artifactOrder s)\<rparr>)"

definition mentions :: "string \<Rightarrow> task \<Rightarrow> bool" where
  "mentions k t \<longleftrightarrow> length (removeString (task_Blocks t) k) \<noteq> length (task_Blocks t)
     \<or> length (removeString (task_BlockedBy t) k) \<noteq> length (task_BlockedBy t)"

definition unlink :: "string \<Rightarrow> time \<Rightarrow> task \<Rightarrow> task" where
  "unlink k now t = t\<lparr>task_Blocks := removeString (task_Blocks t) k,
     task_BlockedBy := removeString (task_BlockedBy t) k,
     task_UpdatedAt := (if mentions k t then now else task_UpdatedAt t)\<rparr>"

definition DeleteTask :: "iter_order \<Rightarrow> clock \<Rightarrow> string \<Rightarrow> store \<Rightarrow> unit result \<times> store" where
  "DeleteTask it clk k s =
     (case get_task s k of
        None \<Rightarrow> (Inl (Sentinel ErrTaskNotFound), s)
      | Some _ \<Rightarrow>
          (let now = clk 0;
               s1 = s\<lparr>tasks := fmdrop k (tasks s), leases := fmdrop k (leases s),
                      taskOrder := removeString (taskOrder s) k\<rparr>;
               s2 = deleteTaskArtifactsLocked k s1;
               peers = filter (\<lambda>i. case get_task s2 i of None \<Rightarrow> False | Some t \<Rightarrow> mentions k t)
                         (it (map_keys (tasks s2)));
               s3 = s2\<lparr>tasks := fmmap (unlink k now) (tasks s2)\<rparr>
           in (Inr (), publishTaskUpdates peers (publishTaskDeleted k (clk 1) s3))))"

section \<open>Finishing a run\<close>

definition validateLeaseLocked ::
    "time \<Rightarrow> string \<Rightarrow> string \<Rightarrow> time \<Rightarrow> store \<Rightarrow> (task \<times> lease) result" where
  "validateLeaseLocked reading k token now s =
     (case get_task s k of
        None \<Rightarrow> Inl (Sentinel ErrTaskNotFound)
      | Some t \<Rightarrow>
          (case get_lease s k of
             None \<Rightarrow> Inl (Sentinel ErrLeaseNotFound)
           | Some l \<Rightarrow>
               if lease_Token l \<noteq> token then Inl (Sentinel ErrLeaseMismatch)
               else if \<not> lease_ExpiresAt l > normalizeNow reading now
               then Inl (Sentinel ErrLeaseExpired)
               else Inr (t, l)))"

definition requeueTaskLocked ::
    "time \<Rightarrow> task \<Rightarrow> string \<Rightarrow> time \<Rightarrow> bool \<Rightarrow> store \<Rightarrow> (string \<times> int) \<times> task \<times> store" where
  "requeueTaskLocked reading t k now rollbackAttempt s =
     ((run_id_of t, task_Attempt t),
      t\<lparr>task_Status := TaskPending, task_Result := None, task_Run := None,
        task_StartedAt := zero_time, task_CompletedAt := zero_time,
        task_UpdatedAt := normalizeNow reading now,
        task_Attempt := (if rollbackAttempt \<and> task_Attempt t > 0 then task_Attempt t - 1
                         else task_Attempt t)\<rparr>,
      drop_lease k s)"

definition create_outcome_artifact :: "task \<Rightarrow> time \<Rightarrow> artifact_spec \<Rightarrow> store \<Rightarrow> store" where
  "create_outcome_artifact t createdAt spec s =
     (let n = Suc (nextArtifact s);
          a = \<lparr>art_ID = Sprintf_d ''artifact-'' n, art_TaskID = task_ID t, art_RunID = run_id_of t,
               art_Kind = spec_Kind spec, art_Name = spec_Name spec,
               art_ContentType = spec_ContentType spec, art_Body = cloneBytes (spec_Body spec),
               art_Metadata = cloneAnyMap (spec_Metadata spec), art_CreatedAt = createdAt\<rparr>
      in publishArtifactCreated a
           (s\<lparr>nextArtifact := n, artifacts := fmupd (art_ID a) a (artifacts s),
              artifactOrder := artifactOrder s @ [art_ID a]\<rparr>))"

definition createOutcomeArtifactsLocked :: "task \<Rightarrow> artifact_spec list \<Rightarrow> time \<Rightarrow> store \<Rightarrow> store" where
  "createOutcomeArtifactsLocked t specs createdAt s =
     fold (create_outcome_artifact t createdAt) specs s"

definition CompleteTask :: "clock \<Rightarrow> string \<Rightarrow> string \<Rightarrow> task_outcome option \<Rightarrow> time \<Rightarrow> store
    \<Rightarrow> task result \<times> store" where
  "CompleteTask clk k token outcome now s =
     (case validateLeaseLocked (clk 0) k token now s of
        Inl e \<Rightarrow> (Inl e, s)
      | Inr (t, l) \<Rightarrow>
          (let result = (case outcome of None \<Rightarrow> None | Some oc \<Rightarrow> outcome_Result oc);
               result = map_option (\<lambda>r. if result_CompletedAt r = zero_time
                          then r\<lparr>result_CompletedAt := normalizeNow (clk 1) now\<rparr> else r) result;
               completedAt = normalizeNow (clk 2) now;
               t = t\<lparr>task_Status := TaskCompleted, task_Result := cloneTaskResult result,
                     task_LastError := [], task_CompletedAt := completedAt,
                     task_UpdatedAt := completedAt\<rparr>;
               s1 = drop_lease (lease_TaskID l) (set_task k t s);
               s2 = (case outcome of None \<Rightarrow> s1
                     | Some oc \<Rightarrow> createOutcomeArtifactsLocked t (outcome_Artifacts oc) completedAt s1)
           in (Inr (cloneTask t), publishTaskCompleted t s2)))"

definition FailTask :: "clock \<Rightarrow> string \<Rightarrow> string \<Rightarrow> go_error option \<Rightarrow> time \<Rightarrow> store
    \<Rightarrow> task result \<times> store" where
  "FailTask clk k token runErr now s =
     (case validateLeaseLocked (clk 0) k token now s of
        Inl e \<Rightarrow> (Inl e, s)
      | Inr (t, l) \<Rightarrow>
          (let retryable = (case runErr of None \<Rightarrow> False | Some e \<Rightarrow> isRetryable e)
           in if retryable \<and> \<not> exhaustedAttempts t
              then (let ((lastRunID, lastAttempt), t, s1) =
                          requeueTaskLocked (clk 1) t (lease_TaskID l) now False s;
                        t = t\<lparr>task_LastError := (case runErr of None \<Rightarrow> [] | Some e \<Rightarrow> error_text e)\<rparr>
                    in (Inr (cloneTask t),
                        publishTaskRequeued t lastRunID lastAttempt ''retryable failure''
                          (set_task k t s1)))
              else (let completedAt = normalizeNow (clk 1) now;
                        t = t\<lparr>task_Status := TaskFailed, task_Result := None,
                              task_LastError := (case runErr of None \<Rightarrow> ''task failed''
                                                 | Some e \<Rightarrow> error_text e),
                              task_CompletedAt := completedAt, task_UpdatedAt := completedAt\<rparr>
                    in (Inr (cloneTask t),
                        publishTaskFailed t (drop_lease (lease_TaskID l) (set_task k t s))))))"

definition CancelTask :: "clock \<Rightarrow> string \<Rightarrow> string \<Rightarrow> string \<Rightarrow> time \<Rightarrow> store
    \<Rightarrow> task result \<times> store" where
  "CancelTask clk k token reason now s =
     (case get_task s k of
        None \<Rightarrow> (Inl (Sentinel ErrTaskNotFound), s)
      | Some t \<Rightarrow>
          (let now = normalizeNow (clk 0) now;
               guard = (case task_Status t of
                   TaskPending \<Rightarrow> if token \<noteq> [] then Some ErrLeaseMismatch else None
                 | TaskRunning \<Rightarrow>
                     (case get_lease s k of
                        None \<Rightarrow> Some ErrLeaseNotFound
                      | Some l \<Rightarrow> if \<not> lease_ExpiresAt l > now then Some ErrLeaseExpired
                                 else if token = [] \<or> lease_Token l \<noteq> token then Some ErrLeaseMismatch
                                 else None)
                 | _ \<Rightarrow> Some ErrTaskNotCancelable)
           in case guard of
                Some e \<Rightarrow> (Inl (Sentinel e), s)
              | None \<Rightarrow>
                  (let completedAt = normalizeNow (clk 1) now;
                       t = t\<lparr>task_Status := TaskCanceled, task_Result := None,
                             task_LastError := cancelReason reason, task_CompletedAt := completedAt,
                             task_UpdatedAt := completedAt\<rparr>
                   in (Inr (cloneTask t), publishTaskCanceled t (drop_lease k (set_task k t s))))))"

definition RetryTask :: "clock \<Rightarrow> string \<Rightarrow> string \<Rightarrow> time \<Rightarrow> store \<Rightarrow> task result \<times> store" where
  "RetryTask clk k reason now s =
     (case get_task s k of
        None \<Rightarrow> (Inl (Sentinel ErrTaskNotFound), s)
      | Some t \<Rightarrow>
          if task_Status t \<noteq> TaskFailed \<and> task_Status t \<noteq> TaskCanceled
          then (Inl (Sentinel ErrTaskNotRetryable), s)
          else
            (let now = normalizeNow (clk 0) now; lastRunID = run_id_of t; lastAttempt = task_Attempt t;
                 t = t\<lparr>task_Status := TaskPending, task_Result := None, task_LastError := [],
                       task_Run := None, task_StartedAt := zero_time, task_CompletedAt := zero_time,
                       task_UpdatedAt := now, task_Attempt := 0\<rparr>
             in (Inr (cloneTask t),
                 publishTaskRequeued t lastRunID lastAttempt (retryReason reason)
                   (drop_lease k (set_task k t s)))))"

section \<open>Leases\<close>

definition GetLease :: "string \<Rightarrow> store \<Rightarrow> lease result" where
  "GetLease k s = (case get_lease s k of None \<Rightarrow> Inl (Sentinel ErrLeaseNotFound) | Some l \<Rightarrow> Inr l)"

definition RenewLease :: "clock \<Rightarrow> string \<Rightarrow> string \<Rightarrow> duration \<Rightarrow> time \<Rightarrow> store
    \<Rightarrow> lease result \<times> store" where
  "RenewLease clk k token ttl now s =
     (if ttl \<le> 0 then (Inl ttl_error, s)
      else case get_lease s k of
        None \<Rightarrow> (Inl (Sentinel ErrLeaseNotFound), s)
      | Some l \<Rightarrow>
          if lease_Token l \<noteq> token then (Inl (Sentinel ErrLeaseMismatch), s)
          else (let now = normalizeNow (clk 0) now
                in if \<not> lease_ExpiresAt l > now then (Inl (Sentinel ErrLeaseExpired), s)
                   else (let l = l\<lparr>lease_ExpiresAt := now + ttl\<rparr>;
                             runID = (case get_task s k of None \<Rightarrow> [] | Some t \<Rightarrow> run_id_of t)
                         in (Inr l, publishLeaseRenewed l runID (s\<lparr>leases := fmupd k l (leases s)\<rparr>)))))"

definition ReleaseLease :: "clock \<Rightarrow> string \<Rightarrow> string \<Rightarrow> store \<Rightarrow> unit result \<times> store" where
  "ReleaseLease clk k token s =
     (case get_lease s k of
        None \<Rightarrow> (Inl (Sentinel ErrLeaseNotFound), s)
      | Some l \<Rightarrow>
          if lease_Token l \<noteq> token then (Inl (Sentinel ErrLeaseMismatch), s)
          else (let releasedAt = clk 0 in
             case get_task s k of
               None \<Rightarrow> (Inr (), publishLeaseReleased l [] False (TaskStatusOther []) ''lease released''
                                False releasedAt (drop_lease k s))
             | Some t \<Rightarrow>
                 if task_Status t = TaskRunning
                 then (let ((lastRunID, lastAttempt), t, s1) =
                             requeueTaskLocked (clk 2) t k (clk 1) True s
                       in (Inr (), publishTaskRequeued t lastRunID lastAttempt ''lease released''
                             (publishLeaseReleased l lastRunID True TaskPending ''lease released'' False
                               releasedAt (set_task k t s1))))
                 else (case task_Run t of
                         None \<Rightarrow> (Inr (), publishLeaseReleased l [] False (TaskStatusOther [])
                                     ''lease released'' False releasedAt (drop_lease k s))
                       | Some r \<Rightarrow> (Inr (), publishLeaseReleased l (run_ID r) False (task_Status t)
                                     ''lease released'' False releasedAt (drop_lease k s)))))"

section \<open>Recovery\<close>

definition recoverExpiredLeaseLocked ::
    "time \<Rightarrow> string \<Rightarrow> time \<Rightarrow> store \<Rightarrow> lease_recovery option \<times> store" where
  "recoverExpiredLeaseLocked reading k now s =
     (case get_lease s k of
        None \<Rightarrow> (None, s)
      | Some l \<Rightarrow>
          if lease_ExpiresAt l > now then (None, s)
          else case get_task s k of
            None \<Rightarrow> (None, drop_lease k s)
          | Some t \<Rightarrow>
              (let rec = \<lparr>lrec_Task = cloneTask t, lrec_Lease = l, lrec_RecoveredAt = now,
                          lrec_ResultStatus = TaskStatusOther [], lrec_Requeued = False,
                          lrec_Reason = ''lease expired''\<rparr>
               in if task_Status t = TaskRunning \<and> exhaustedAttempts t
                  then (let t1 = t\<lparr>task_Status := TaskFailed, task_Result := None,
                                   task_LastError := ''lease expired'', task_CompletedAt := now,
                                   task_UpdatedAt := now\<rparr>
                        in (Some (rec\<lparr>lrec_ResultStatus := TaskFailed\<rparr>),
                            publishTaskFailed t1
                              (publishLeaseReleased l (run_id_of t) False TaskFailed ''lease expired''
                                True now (drop_lease k (set_task k t1 s)))))
                  else if task_Status t = TaskRunning
                  then (let ((lastRunID, lastAttempt), t1, s1) =
                              requeueTaskLocked reading t k now False s;
                            t1 = t1\<lparr>task_LastError := ''lease expired''\<rparr>
                        in (Some (rec\<lparr>lrec_ResultStatus := TaskPending, lrec_Requeued := True\<rparr>),
                            publishTaskRequeued t1 lastRunID lastAttempt ''lease expired''
                              (publishLeaseReleased l lastRunID True TaskPending ''lease expired'' True
                                now (set_task k t1 s1))))
                  else (Some (rec\<lparr>lrec_ResultStatus := task_Status t\<rparr>),
                        publishLeaseReleased l (run_id_of t) False (task_Status t) ''lease expired''
                          True now (drop_lease k s))))"

fun recover_leases :: "time \<Rightarrow> time \<Rightarrow> string list \<Rightarrow> store \<Rightarrow> lease_recovery list \<times> store" where
  "recover_leases reading now [] s = ([], s)"
| "recover_leases reading now (k # ks) s =
     (let (r, s1) = recoverExpiredLeaseLocked reading k now s;
          (rs, s2) = recover_leases reading now ks s1
      in (case r of None \<Rightarrow> rs | Some r \<Rightarrow> r # rs, s2))"

definition RecoverExpiredLeases ::
    "iter_order \<Rightarrow> clock \<Rightarrow> time \<Rightarrow> store \<Rightarrow> lease_recovery list \<times> store" where
  "RecoverExpiredLeases it clk now s =
     recover_leases (clk 1) (normalizeNow (clk 0) now) (sort (it (map_keys (leases s)))) s"

definition RecoverExpiredLease ::
    "clock \<Rightarrow> string \<Rightarrow> time \<Rightarrow> store \<Rightarrow> lease_recovery option \<times> store" where
  "RecoverExpiredLease clk k now s =
     recoverExpiredLeaseLocked (clk 1) k (normalizeNow (clk 0) now) s"

definition expired_key :: "store \<Rightarrow> string \<Rightarrow> int \<times> string" where
  "expired_key s k = ((case get_lease s k of None \<Rightarrow> 0 | Some l \<Rightarrow> lease_ExpiresAt l), k)"

definition ListExpiredLeases :: "iter_order \<Rightarrow> clock \<Rightarrow> time \<Rightarrow> store \<Rightarrow> expired_lease_summary list" where
  "ListExpiredLeases it clk now s =
     (let now = normalizeNow (clk 0) now
      in concat (map (\<lambda>k. case get_lease s k of
           None \<Rightarrow> []
         | Some l \<Rightarrow>
             if lease_ExpiresAt l > now then []
             else (let run = (case get_task s k of None \<Rightarrow> None | Some t \<Rightarrow> task_Run t)
                   in [\<lparr>els_LeaseID = lease_ID l, els_TaskID = lease_TaskID l,
                        els_RunID = (case run of None \<Rightarrow> [] | Some r \<Rightarrow> run_ID r),
                        els_WorkerID = lease_WorkerID l,
                        els_Attempt = (case run of None \<Rightarrow> 0 | Some r \<Rightarrow> run_Attempt r),
                        els_ExpiresAt = lease_ExpiresAt l\<rparr>]))
           (sort_key (expired_key s) (it (map_keys (leases s))))))"

end
