(* ===== verification/Orch_Commands.thy ===== *)
theory Orch_Commands
  imports Orch_Store
begin

text \<open>
  Durable commands and artifacts of the in-memory store: \<^verbatim>\<open>ext/orchestrator/memory/commands.go\<close> and
  \<^verbatim>\<open>ext/orchestrator/memory/artifacts.go\<close>, operation by operation.
\<close>

section \<open>Helpers\<close>

abbreviation get_command :: "store \<Rightarrow> string \<Rightarrow> command option" where
  "get_command s \<equiv> fmlookup (commands s)"

abbreviation set_command :: "string \<Rightarrow> command \<Rightarrow> store \<Rightarrow> store" where
  "set_command k c s \<equiv> s\<lparr>commands := fmupd k c (commands s)\<rparr>"

definition publishCommandCreated :: "command \<Rightarrow> store \<Rightarrow> store" where
  "publishCommandCreated c = publish (CommandCreatedEvent (cmd_ID c) (cmd_Kind c) (cmd_TaskID c)
     (cmd_RunID c) (cmd_TargetWorkerID c) (cmd_CreatedAt c))"

definition publishCommandClaimed :: "command \<Rightarrow> store \<Rightarrow> store" where
  "publishCommandClaimed c = publish (CommandClaimedEvent (cmd_ID c) (cmd_Kind c) (cmd_TaskID c)
     (cmd_RunID c) (cmd_ClaimedBy c) (cmd_ClaimedAt c))"

definition publishCommandReleased :: "command \<Rightarrow> string \<Rightarrow> time \<Rightarrow> string \<Rightarrow> bool \<Rightarrow> store \<Rightarrow> store" where
  "publishCommandReleased c releasedBy releasedAt reason recovered =
     publish (CommandReleasedEvent (cmd_ID c) (cmd_Kind c) (cmd_TaskID c) (cmd_RunID c) releasedBy
       releasedAt reason recovered)"

definition publishCommandHandled :: "command \<Rightarrow> store \<Rightarrow> store" where
  "publishCommandHandled c = publish (CommandHandledEvent (cmd_ID c) (cmd_Kind c) (cmd_TaskID c)
     (cmd_RunID c) (cmd_HandledBy c) (cmd_HandledAt c))"

definition validateCommandTargetLocked ::
    "task \<Rightarrow> create_command_request \<Rightarrow> (string \<times> string) result" where
  "validateCommandTargetLocked t req =
     (let runID = (if ccr_RunID req = [] then run_id_of t else ccr_RunID req) in
      case ccr_Kind req of
        CommandCancelTask \<Rightarrow>
          (case task_Status t of
             TaskPending \<Rightarrow> Inr (runID, [])
           | TaskRunning \<Rightarrow>
               (case task_Run t of
                  None \<Rightarrow> Inl (Sentinel ErrInvalidCommand)
                | Some r \<Rightarrow> if run_WorkerID r = [] then Inl (Sentinel ErrInvalidCommand)
                           else Inr (runID, run_WorkerID r))
           | _ \<Rightarrow> Inl (Sentinel ErrTaskNotCancelable))
      | CommandAbortRun \<Rightarrow>
          (case task_Run t of
             None \<Rightarrow> Inl (Sentinel ErrRunNotFound)
           | Some r \<Rightarrow>
               if task_Status t \<noteq> TaskRunning \<or> run_WorkerID r = [] then Inl (Sentinel ErrRunNotFound)
               else if ccr_RunID req \<noteq> [] \<and> run_ID r \<noteq> ccr_RunID req then Inl (Sentinel ErrRunNotFound)
               else Inr (run_ID r, run_WorkerID r))
      | CommandRetryTask \<Rightarrow>
          if task_Status t = TaskFailed \<or> task_Status t = TaskCanceled then Inr (runID, [])
          else Inl (Sentinel ErrTaskNotRetryable)
      | CommandKindOther _ \<Rightarrow> Inl (Sentinel ErrInvalidCommand))"

definition refreshCommandTargetLocked :: "store \<Rightarrow> command \<Rightarrow> command" where
  "refreshCommandTargetLocked s c =
     (case get_task s (cmd_TaskID c) of
        None \<Rightarrow> c\<lparr>cmd_TargetWorkerID := [], cmd_RunID := []\<rparr>
      | Some t \<Rightarrow>
          (case cmd_Kind c of
             CommandCancelTask \<Rightarrow>
               (case task_Status t of
                  TaskRunning \<Rightarrow>
                    (case task_Run t of
                       None \<Rightarrow> c
                     | Some r \<Rightarrow> c\<lparr>cmd_RunID := run_ID r, cmd_TargetWorkerID := run_WorkerID r\<rparr>)
                | TaskPending \<Rightarrow> c\<lparr>cmd_RunID := [], cmd_TargetWorkerID := []\<rparr>
                | _ \<Rightarrow> c)
           | CommandAbortRun \<Rightarrow>
               (case task_Run t of
                  None \<Rightarrow> c\<lparr>cmd_TargetWorkerID := []\<rparr>
                | Some r \<Rightarrow>
                    if task_Status t = TaskRunning \<and> run_WorkerID r \<noteq> []
                    then (let c = (if cmd_RunID c = [] then c\<lparr>cmd_RunID := run_ID r\<rparr> else c)
                          in if run_ID r = cmd_RunID c
                             then c\<lparr>cmd_TargetWorkerID := run_WorkerID r\<rparr>
                             else c\<lparr>cmd_TargetWorkerID := []\<rparr>)
                    else c\<lparr>cmd_TargetWorkerID := []\<rparr>)
           | CommandRetryTask \<Rightarrow>
               (let c = c\<lparr>cmd_TargetWorkerID := []\<rparr>
                in if task_Run t = None then c\<lparr>cmd_RunID := []\<rparr> else c)
           | CommandKindOther _ \<Rightarrow> c))"

definition matchesCommandFilter :: "command \<Rightarrow> command_filter \<Rightarrow> bool" where
  "matchesCommandFilter c f \<longleftrightarrow>
     (cf_TaskID f \<noteq> [] \<longrightarrow> cmd_TaskID c = cf_TaskID f) \<and>
     (cf_RunID f \<noteq> [] \<longrightarrow> cmd_RunID c = cf_RunID f) \<and>
     (cf_TargetWorkerID f \<noteq> [] \<longrightarrow> cmd_TargetWorkerID c = cf_TargetWorkerID f) \<and>
     (cf_Kinds f = [] \<or> cmd_Kind c \<in> set (cf_Kinds f)) \<and>
     (cf_Statuses f = [] \<or> cmd_Status c \<in> set (cf_Statuses f))"

section \<open>Command operations\<close>

definition CreateCommand :: "clock \<Rightarrow> create_command_request \<Rightarrow> store \<Rightarrow> command result \<times> store" where
  "CreateCommand clk req s =
     (if ccr_TaskID req = [] then (Inl (Sentinel ErrTaskNotFound), s)
      else case get_task s (ccr_TaskID req) of
        None \<Rightarrow> (Inl (Sentinel ErrTaskNotFound), s)
      | Some t \<Rightarrow>
          (case validateCommandTargetLocked t req of
             Inl e \<Rightarrow> (Inl e, s)
           | Inr (runID, target) \<Rightarrow>
               (let n = Suc (nextCommand s);
                    c = \<lparr>cmd_ID = Sprintf_d ''command-'' n, cmd_Kind = ccr_Kind req,
                         cmd_TaskID = ccr_TaskID req, cmd_RunID = runID, cmd_TargetWorkerID = target,
                         cmd_Reason = ccr_Reason req, cmd_Metadata = cloneAnyMap (ccr_Metadata req),
                         cmd_Status = CommandPending, cmd_ClaimToken = [], cmd_ClaimedBy = [],
                         cmd_HandledBy = [], cmd_CreatedAt = clk 0, cmd_ClaimedAt = zero_time,
                         cmd_HandledAt = zero_time\<rparr>;
                    s1 = s\<lparr>nextCommand := n, commands := fmupd (cmd_ID c) c (commands s),
                           commandOrder := commandOrder s @ [cmd_ID c]\<rparr>
                in (Inr (cloneCommand c), publishCommandCreated c s1))))"

definition GetCommand :: "string \<Rightarrow> store \<Rightarrow> command result" where
  "GetCommand k s = (case get_command s k of
     None \<Rightarrow> Inl (Sentinel ErrCommandNotFound) | Some c \<Rightarrow> Inr (cloneCommand c))"

definition ListCommands :: "command_filter \<Rightarrow> store \<Rightarrow> command list" where
  "ListCommands f s =
     concat (map (\<lambda>k. case get_command s k of
        None \<Rightarrow> [] | Some c \<Rightarrow> if matchesCommandFilter c f then [cloneCommand c] else []) (commandOrder s))"

definition worker_error :: go_error where
  "worker_error = ErrorString ''orchestrator/memory: command claim worker id must not be empty''"

definition claim_command :: "string \<Rightarrow> time \<Rightarrow> command \<Rightarrow> command" where
  "claim_command worker now c = c\<lparr>cmd_Status := CommandClaimed, cmd_ClaimedBy := worker,
     cmd_ClaimToken := cmd_ID c @ ''-claim-'' @ show_int (UnixNano now), cmd_ClaimedAt := now\<rparr>"

fun claim_first_command :: "string \<Rightarrow> time \<Rightarrow> string list \<Rightarrow> store \<Rightarrow> command result \<times> store" where
  "claim_first_command worker now [] s = (Inl (Sentinel ErrNoPendingCommand), s)"
| "claim_first_command worker now (k # ks) s =
     (case get_command s k of
        None \<Rightarrow> claim_first_command worker now ks s
      | Some c \<Rightarrow>
          if cmd_Status c \<noteq> CommandPending then claim_first_command worker now ks s
          else (let c = refreshCommandTargetLocked s c; s1 = set_command k c s
                in if cmd_TargetWorkerID c \<noteq> [] \<and> cmd_TargetWorkerID c \<noteq> worker
                   then claim_first_command worker now ks s1
                   else (let c = claim_command worker now c
                         in (Inr (cloneCommand c), publishCommandClaimed c (set_command k c s1)))))"

definition ClaimPendingCommand ::
    "clock \<Rightarrow> claim_command_request \<Rightarrow> store \<Rightarrow> command result \<times> store" where
  "ClaimPendingCommand clk req s =
     (if cclr_WorkerID req = [] then (Inl worker_error, s)
      else claim_first_command (cclr_WorkerID req) (normalizeNow (clk 0) (cclr_Now req))
             (commandOrder s) s)"

definition ClaimCommand ::
    "clock \<Rightarrow> string \<Rightarrow> claim_command_request \<Rightarrow> store \<Rightarrow> command result \<times> store" where
  "ClaimCommand clk k req s =
     (if cclr_WorkerID req = [] then (Inl worker_error, s)
      else case get_command s k of
        None \<Rightarrow> (Inl (Sentinel ErrCommandNotFound), s)
      | Some c \<Rightarrow>
          if cmd_Status c \<noteq> CommandPending then (Inl (Sentinel ErrNoPendingCommand), s)
          else (let c = refreshCommandTargetLocked s c; s1 = set_command k c s
                in if cmd_TargetWorkerID c \<noteq> [] \<and> cmd_TargetWorkerID c \<noteq> cclr_WorkerID req
                   then (Inl (Sentinel ErrNoPendingCommand), s1)
                   else (let c = claim_command (cclr_WorkerID req)
                                   (normalizeNow (clk 0) (cclr_Now req)) c
                         in (Inr (cloneCommand c), publishCommandClaimed c (set_command k c s1)))))"

definition HandleCommand :: "clock \<Rightarrow> string \<Rightarrow> string \<Rightarrow> string \<Rightarrow> time \<Rightarrow> store
    \<Rightarrow> command result \<times> store" where
  "HandleCommand clk k token handledBy now s =
     (case get_command s k of
        None \<Rightarrow> (Inl (Sentinel ErrCommandNotFound), s)
      | Some c \<Rightarrow>
          if cmd_Status c \<noteq> CommandClaimed \<or> cmd_ClaimToken c \<noteq> token
          then (Inl (Sentinel ErrCommandClaimMismatch), s)
          else (let c = c\<lparr>cmd_Status := CommandHandled, cmd_HandledBy := handledBy,
                          cmd_HandledAt := normalizeNow (clk 0) now, cmd_ClaimToken := []\<rparr>
                in (Inr (cloneCommand c), publishCommandHandled c (set_command k c s))))"

definition unclaim :: "command \<Rightarrow> command" where
  "unclaim c = c\<lparr>cmd_Status := CommandPending, cmd_ClaimedBy := [], cmd_ClaimToken := [],
     cmd_ClaimedAt := zero_time\<rparr>"

definition ReleaseCommand :: "clock \<Rightarrow> string \<Rightarrow> string \<Rightarrow> store \<Rightarrow> unit result \<times> store" where
  "ReleaseCommand clk k token s =
     (case get_command s k of
        None \<Rightarrow> (Inl (Sentinel ErrCommandNotFound), s)
      | Some c \<Rightarrow>
          if cmd_Status c \<noteq> CommandClaimed \<or> cmd_ClaimToken c \<noteq> token
          then (Inl (Sentinel ErrCommandClaimMismatch), s)
          else (Inr (), publishCommandReleased (unclaim c) (cmd_ClaimedBy c) (clk 0) ''command released''
                  False (set_command k (unclaim c) s)))"

definition stale_claim :: "time \<Rightarrow> command \<Rightarrow> bool" where
  "stale_claim claimedBefore c \<longleftrightarrow>
     cmd_Status c = CommandClaimed \<and> \<not> (cmd_ClaimedAt c = zero_time \<or> cmd_ClaimedAt c > claimedBefore)"

definition recoverClaimedCommandLocked ::
    "string \<Rightarrow> time \<Rightarrow> time \<Rightarrow> store \<Rightarrow> command_recovery option \<times> store" where
  "recoverClaimedCommandLocked k claimedBefore now s =
     (case get_command s k of
        None \<Rightarrow> (None, s)
      | Some c \<Rightarrow>
          if \<not> stale_claim claimedBefore c then (None, s)
          else (Some \<lparr>crec_Command = cloneCommand (unclaim c), crec_RecoveredAt = now,
                      crec_ReleasedBy = cmd_ClaimedBy c\<rparr>,
                publishCommandReleased (unclaim c) (cmd_ClaimedBy c) now ''claim expired'' True
                  (set_command k (unclaim c) s)))"

fun recover_commands :: "time \<Rightarrow> time \<Rightarrow> string list \<Rightarrow> store \<Rightarrow> command_recovery list \<times> store" where
  "recover_commands claimedBefore now [] s = ([], s)"
| "recover_commands claimedBefore now (k # ks) s =
     (let (r, s1) = recoverClaimedCommandLocked k claimedBefore now s;
          (rs, s2) = recover_commands claimedBefore now ks s1
      in (case r of None \<Rightarrow> rs | Some r \<Rightarrow> r # rs, s2))"

definition RecoverClaimedCommands ::
    "clock \<Rightarrow> time \<Rightarrow> time \<Rightarrow> store \<Rightarrow> command_recovery list \<times> store" where
  "RecoverClaimedCommands clk claimedBefore now s =
     (let now = normalizeNow (clk 0) now;
          claimedBefore = (if claimedBefore = zero_time then now else claimedBefore)
      in recover_commands claimedBefore now (commandOrder s) s)"

definition RecoverClaimedCommand ::
    "clock \<Rightarrow> string \<Rightarrow> time \<Rightarrow> time \<Rightarrow> store \<Rightarrow> command_recovery option \<times> store" where
  "RecoverClaimedCommand clk k claimedBefore now s =
     (let now = normalizeNow (clk 0) now;
          claimedBefore = (if claimedBefore = zero_time then now else claimedBefore)
      in recoverClaimedCommandLocked k claimedBefore now s)"

definition stale_key :: "string \<times> command \<Rightarrow> int \<times> string" where
  "stale_key kc = (cmd_ClaimedAt (snd kc), fst kc)"

definition ListStaleClaimedCommands :: "clock \<Rightarrow> time \<Rightarrow> store \<Rightarrow> stale_command_summary list" where
  "ListStaleClaimedCommands clk claimedBefore s =
     (let claimedBefore = (if claimedBefore = zero_time then clk 0 else claimedBefore);
          claimed = concat (map (\<lambda>k. case get_command s k of None \<Rightarrow> [] | Some c \<Rightarrow> [(k, c)])
                      (commandOrder s))
      in map (\<lambda>(k, c). \<lparr>scs_CommandID = cmd_ID c, scs_Kind = cmd_Kind c, scs_TaskID = cmd_TaskID c,
                        scs_RunID = cmd_RunID c, scs_TargetWorkerID = cmd_TargetWorkerID c,
                        scs_ClaimedBy = cmd_ClaimedBy c, scs_ClaimedAt = cmd_ClaimedAt c,
                        scs_Reason = cmd_Reason c\<rparr>)
           (filter (\<lambda>(k, c). stale_claim claimedBefore c) (sort_key stale_key claimed)))"

section \<open>Artifact operations\<close>

definition matchesArtifactFilter :: "artifact \<Rightarrow> artifact_filter \<Rightarrow> bool" where
  "matchesArtifactFilter a f \<longleftrightarrow>
     (af_TaskID f \<noteq> [] \<longrightarrow> art_TaskID a = af_TaskID f) \<and>
     (af_RunID f \<noteq> [] \<longrightarrow> art_RunID a = af_RunID f) \<and>
     (af_Kind f \<noteq> [] \<longrightarrow> art_Kind a = af_Kind f) \<and>
     (af_Name f \<noteq> [] \<longrightarrow> art_Name a = af_Name f)"

definition CreateArtifact :: "clock \<Rightarrow> create_artifact_request \<Rightarrow> store \<Rightarrow> artifact result \<times> store" where
  "CreateArtifact clk req s =
     (if car_TaskID req = [] then (Inl (Sentinel ErrArtifactTaskRequired), s)
      else if get_task s (car_TaskID req) = None then (Inl (Sentinel ErrTaskNotFound), s)
      else (let n = Suc (nextArtifact s);
                a = \<lparr>art_ID = Sprintf_d ''artifact-'' n, art_TaskID = car_TaskID req,
                     art_RunID = car_RunID req, art_Kind = car_Kind req, art_Name = car_Name req,
                     art_ContentType = car_ContentType req, art_Body = cloneBytes (car_Body req),
                     art_Metadata = cloneAnyMap (car_Metadata req), art_CreatedAt = clk 0\<rparr>
            in (Inr (cloneArtifact a),
                publishArtifactCreated a
                  (s\<lparr>nextArtifact := n, artifacts := fmupd (art_ID a) a (artifacts s),
                     artifactOrder := artifactOrder s @ [art_ID a]\<rparr>))))"

definition GetArtifact :: "string \<Rightarrow> store \<Rightarrow> artifact result" where
  "GetArtifact k s = (case fmlookup (artifacts s) k of
     None \<Rightarrow> Inl (Sentinel ErrArtifactNotFound) | Some a \<Rightarrow> Inr (cloneArtifact a))"

definition ListArtifacts :: "artifact_filter \<Rightarrow> store \<Rightarrow> artifact list" where
  "ListArtifacts f s =
     concat (map (\<lambda>k. case fmlookup (artifacts s) k of
        None \<Rightarrow> [] | Some a \<Rightarrow> if matchesArtifactFilter a f then [cloneArtifact a] else [])
       (artifactOrder s))"

end
