(* ===== verification/Orch_Invariant.thy ===== *)
theory Orch_Invariant
  imports Orch_Commands
begin

text \<open>
  The well-formedness invariant of the in-memory store and its preservation by every operation:
  tables agree with their insertion orders and identifiers are never reused; a task has a lease
  exactly when it is running; attempts stay within their bound; dependency edges are recorded on
  both ends; commands carry a claim token exactly while claimed; artifacts belong to existing tasks.
\<close>

section \<open>The invariant\<close>

definition numbered :: "string \<Rightarrow> nat \<Rightarrow> string \<Rightarrow> bool" where
  "numbered prefix n k \<longleftrightarrow> (\<exists>i \<le> n. k = Sprintf_d prefix i)"

definition task_ok :: "task \<Rightarrow> bool" where
  "task_ok t \<longleftrightarrow> 0 \<le> task_Attempt t
     \<and> (task_MaxAttempts t > 0 \<longrightarrow> task_Attempt t \<le> task_MaxAttempts t)
     \<and> (task_Status t = TaskPending \<longrightarrow>
          task_Run t = None \<and> task_Result t = None \<and> \<not> exhaustedAttempts t)
     \<and> (task_Status t = TaskRunning \<longrightarrow>
          task_Result t = None \<and> 1 \<le> task_Attempt t \<and>
          (\<exists>r. task_Run t = Some r \<and> run_TaskID r = task_ID t \<and> run_Attempt r = task_Attempt t))
     \<and> task_Status t \<in> {TaskPending, TaskRunning, TaskCompleted, TaskFailed, TaskCanceled}"

definition tasks_wf :: "(string, task) go_map \<Rightarrow> string list \<Rightarrow> nat \<Rightarrow> bool" where
  "tasks_wf m ord n \<longleftrightarrow> ordered_table m ord \<and>
     (\<forall>k t. fmlookup m k = Some t \<longrightarrow> task_ID t = k \<and> numbered ''task-'' n k \<and> task_ok t)"

definition running :: "(string, task) go_map \<Rightarrow> string \<Rightarrow> bool" where
  "running m k \<longleftrightarrow> (case fmlookup m k of None \<Rightarrow> False | Some t \<Rightarrow> task_Status t = TaskRunning)"

definition worker_of :: "(string, task) go_map \<Rightarrow> string \<Rightarrow> string option" where
  "worker_of m k = Option.bind (fmlookup m k) (\<lambda>t. map_option run_WorkerID (task_Run t))"

definition leases_wf :: "(string, task) go_map \<Rightarrow> (string, lease) go_map \<Rightarrow> nat \<Rightarrow> bool" where
  "leases_wf m lm n \<longleftrightarrow>
     (\<forall>k. fmlookup lm k \<noteq> None \<longleftrightarrow> running m k) \<and>
     (\<forall>k l. fmlookup lm k = Some l \<longrightarrow>
        lease_TaskID l = k \<and> lease_Token l = lease_ID l \<and> numbered ''lease-'' n (lease_ID l) \<and>
        worker_of m k = Some (lease_WorkerID l)) \<and>
     (\<forall>k k' l l'. fmlookup lm k = Some l \<longrightarrow> fmlookup lm k' = Some l' \<longrightarrow>
        lease_ID l = lease_ID l' \<longrightarrow> k = k')"

definition blocks_of :: "(string, task) go_map \<Rightarrow> string \<Rightarrow> string set" where
  "blocks_of m a = (case fmlookup m a of None \<Rightarrow> {} | Some t \<Rightarrow> set (task_Blocks t))"

definition blocked_of :: "(string, task) go_map \<Rightarrow> string \<Rightarrow> string set" where
  "blocked_of m a = (case fmlookup m a of None \<Rightarrow> {} | Some t \<Rightarrow> set (task_BlockedBy t))"

definition deps_wf :: "(string, task) go_map \<Rightarrow> bool" where
  "deps_wf m \<longleftrightarrow> (\<forall>a b. b \<in> blocks_of m a \<longleftrightarrow> a \<in> blocked_of m b)"

definition command_ok :: "command \<Rightarrow> bool" where
  "command_ok c \<longleftrightarrow>
     (cmd_Status c = CommandPending \<longrightarrow>
        cmd_ClaimToken c = [] \<and> cmd_ClaimedBy c = [] \<and> cmd_ClaimedAt c = zero_time) \<and>
     (cmd_Status c = CommandClaimed \<longrightarrow> cmd_ClaimToken c \<noteq> [] \<and> cmd_ClaimedBy c \<noteq> []) \<and>
     (cmd_Status c = CommandHandled \<longrightarrow> cmd_ClaimToken c = []) \<and>
     cmd_Status c \<in> {CommandPending, CommandClaimed, CommandHandled}"

definition commands_wf :: "(string, command) go_map \<Rightarrow> string list \<Rightarrow> nat \<Rightarrow> bool" where
  "commands_wf m ord n \<longleftrightarrow> ordered_table m ord \<and>
     (\<forall>k c. fmlookup m k = Some c \<longrightarrow> cmd_ID c = k \<and> numbered ''command-'' n k \<and> command_ok c)"

definition artifacts_wf :: "(string, artifact) go_map \<Rightarrow> string list \<Rightarrow> nat \<Rightarrow> string set \<Rightarrow> bool" where
  "artifacts_wf m ord n ts \<longleftrightarrow> ordered_table m ord \<and>
     (\<forall>k a. fmlookup m k = Some a \<longrightarrow> art_ID a = k \<and> numbered ''artifact-'' n k \<and> art_TaskID a \<in> ts)"

definition wf_store :: "store \<Rightarrow> bool" where
  "wf_store s \<longleftrightarrow>
     tasks_wf (tasks s) (taskOrder s) (nextTask s) \<and>
     leases_wf (tasks s) (leases s) (nextLease s) \<and>
     deps_wf (tasks s) \<and>
     commands_wf (commands s) (commandOrder s) (nextCommand s) \<and>
     artifacts_wf (artifacts s) (artifactOrder s) (nextArtifact s) (fmdom' (tasks s))"

lemmas wf_parts = tasks_wf_def leases_wf_def deps_wf_def commands_wf_def artifacts_wf_def

section \<open>Numbering\<close>

lemma numbered_mono: "numbered p n k \<Longrightarrow> n \<le> n' \<Longrightarrow> numbered p n' k"
  by (force simp: numbered_def)

lemma numbered_Suc [intro]: "numbered p n k \<Longrightarrow> numbered p (Suc n) k"
  by (erule numbered_mono) simp

lemma numbered_next [simp, intro]: "numbered p n (Sprintf_d p n)"
  by (auto simp: numbered_def)

lemma numbered_fresh: "\<not> numbered p n (Sprintf_d p (Suc n))"
  by (auto simp: numbered_def)

lemma numbered_not_Nil: "numbered p n k \<Longrightarrow> k \<noteq> []"
  by (auto simp: numbered_def)

section \<open>Publishing leaves the tables alone\<close>

lemma publish_simps [simp, pub_simps]:
  "tasks (publish e s) = tasks s" "taskOrder (publish e s) = taskOrder s"
  "leases (publish e s) = leases s" "commands (publish e s) = commands s"
  "commandOrder (publish e s) = commandOrder s" "artifacts (publish e s) = artifacts s"
  "artifactOrder (publish e s) = artifactOrder s" "nextTask (publish e s) = nextTask s"
  "nextLease (publish e s) = nextLease s" "nextRun (publish e s) = nextRun s"
  "nextCommand (publish e s) = nextCommand s" "nextArtifact (publish e s) = nextArtifact s"
  "eventBus (publish e s) = map_option (\<lambda>log. log @ [e]) (eventBus s)"
  by (simp_all add: publish_def)

lemma wf_publish [simp, pub_simps]: "wf_store (publish e s) = wf_store s"
  by (simp add: wf_store_def)

lemmas publish_defs = publishTaskCreated_def publishTaskUpdated_def publishTaskDeleted_def
  publishLeaseRenewed_def publishLeaseReleased_def publishTaskRequeued_def publishTaskCompleted_def
  publishTaskFailed_def publishTaskCanceled_def publishArtifactCreated_def publishCommandCreated_def
  publishCommandClaimed_def publishCommandReleased_def publishCommandHandled_def

lemma publishTaskClaimed_eq:
  "\<exists>e. publishTaskClaimed t l s = publish e s \<or> publishTaskClaimed t l s = s"
  by (auto simp: publishTaskClaimed_def split: option.split)

lemma publishTaskUpdates_log:
  "\<exists>es. publishTaskUpdates ks s = s\<lparr>eventBus := map_option (\<lambda>log. log @ es) (eventBus s)\<rparr>"
proof (induction ks arbitrary: s)
  case Nil
  show ?case by (rule exI [of _ "[]"]) (cases "eventBus s"; simp add: publishTaskUpdates_def)
next
  case (Cons k ks)
  show ?case
  proof (cases "get_task s k")
    case None
    with Cons [of s] show ?thesis by (simp add: publishTaskUpdates_def)
  next
    case (Some t)
    obtain e where e: "publishTaskUpdated t s = publish e s" by (simp add: publishTaskUpdated_def)
    from Cons [of "publish e s"] obtain es where
      "publishTaskUpdates ks (publish e s) =
         (publish e s)\<lparr>eventBus := map_option (\<lambda>log. log @ es) (eventBus (publish e s))\<rparr>" by blast
    with Some e show ?thesis
      by (intro exI [of _ "e # es"]) (simp add: publishTaskUpdates_def publish_def option.map_comp comp_def)
  qed
qed

lemma publishTaskUpdates_simps [simp, pub_simps]:
  "tasks (publishTaskUpdates ks s) = tasks s" "taskOrder (publishTaskUpdates ks s) = taskOrder s"
  "leases (publishTaskUpdates ks s) = leases s" "commands (publishTaskUpdates ks s) = commands s"
  "commandOrder (publishTaskUpdates ks s) = commandOrder s"
  "artifacts (publishTaskUpdates ks s) = artifacts s"
  "artifactOrder (publishTaskUpdates ks s) = artifactOrder s"
  "nextTask (publishTaskUpdates ks s) = nextTask s" "nextLease (publishTaskUpdates ks s) = nextLease s"
  "nextRun (publishTaskUpdates ks s) = nextRun s"
  "nextCommand (publishTaskUpdates ks s) = nextCommand s"
  "nextArtifact (publishTaskUpdates ks s) = nextArtifact s"
  using publishTaskUpdates_log [of ks s] by auto

lemma wf_publishTaskUpdates [simp, pub_simps]: "wf_store (publishTaskUpdates ks s) = wf_store s"
  by (simp add: wf_store_def)

lemma wf_publishTaskClaimed [simp, pub_simps]: "wf_store (publishTaskClaimed t l s) = wf_store s"
  using publishTaskClaimed_eq [of t l s] by auto

lemma publishTaskClaimed_simps [simp, pub_simps]:
  "tasks (publishTaskClaimed t l s) = tasks s" "leases (publishTaskClaimed t l s) = leases s"
  "nextLease (publishTaskClaimed t l s) = nextLease s" "nextRun (publishTaskClaimed t l s) = nextRun s"
  "nextTask (publishTaskClaimed t l s) = nextTask s" "taskOrder (publishTaskClaimed t l s) = taskOrder s"
  "commands (publishTaskClaimed t l s) = commands s"
  "artifacts (publishTaskClaimed t l s) = artifacts s"
  "commandOrder (publishTaskClaimed t l s) = commandOrder s"
  "artifactOrder (publishTaskClaimed t l s) = artifactOrder s"
  "nextCommand (publishTaskClaimed t l s) = nextCommand s"
  "nextArtifact (publishTaskClaimed t l s) = nextArtifact s"
  using publishTaskClaimed_eq [of t l s] by auto

section \<open>Moving one task\<close>

lemma blocks_of_fmupd [simp]:
  "blocks_of (fmupd k t m) a = (if a = k then set (task_Blocks t) else blocks_of m a)"
  by (simp add: blocks_of_def)

lemma blocked_of_fmupd [simp]:
  "blocked_of (fmupd k t m) a = (if a = k then set (task_BlockedBy t) else blocked_of m a)"
  by (simp add: blocked_of_def)

lemma running_fmupd [simp]:
  "running (fmupd k t m) a = (if a = k then task_Status t = TaskRunning else running m a)"
  by (simp add: running_def)

lemma worker_of_fmupd [simp]:
  "worker_of (fmupd k t m) a =
     (if a = k then map_option run_WorkerID (task_Run t) else worker_of m a)"
  by (simp add: worker_of_def)

lemma deps_wf_same_edges:
  assumes "deps_wf m" and "fmlookup m k = Some t"
    and "task_Blocks t' = task_Blocks t" and "task_BlockedBy t' = task_BlockedBy t"
  shows "deps_wf (fmupd k t' m)"
proof -
  have "blocks_of (fmupd k t' m) = blocks_of m" and "blocked_of (fmupd k t' m) = blocked_of m"
    using assms by (auto simp: blocks_of_def blocked_of_def fun_eq_iff)
  with assms(1) show ?thesis by (simp add: deps_wf_def)
qed

lemma tasks_wf_same_id:
  assumes "tasks_wf m ord n" and "fmlookup m k = Some t" and "task_ID t' = task_ID t" and "task_ok t'"
  shows "tasks_wf (fmupd k t' m) ord n"
proof -
  have "k \<in> fmdom' m" using assms(2) by (rule fmdom'I)
  with assms show ?thesis by (auto simp: tasks_wf_def intro: ordered_table_overwrite)
qed

lemma fmdom'_upd_same [simp]: "fmlookup m k = Some t \<Longrightarrow> insert k (fmdom' m) = fmdom' m"
  by (auto simp: fmlookup_dom'_iff)

lemma wf_leave_running:
  assumes "wf_store s" and "get_task s k = Some t" and "task_ID t' = task_ID t"
    and "task_Blocks t' = task_Blocks t" and "task_BlockedBy t' = task_BlockedBy t"
    and "task_ok t'" and "task_Status t' \<noteq> TaskRunning"
  shows "wf_store (drop_lease k (set_task k t' s))"
proof -
  have "leases_wf (fmupd k t' (tasks s)) (fmdrop k (leases s)) (nextLease s)"
    using assms(1,7) by (auto simp: wf_store_def leases_wf_def)
  with assms show ?thesis
    by (auto simp: wf_store_def intro: tasks_wf_same_id deps_wf_same_edges)
qed

lemma wf_start_run:
  assumes wf: "wf_store s" and t: "get_task s k = Some t" and ids: "task_ID t' = task_ID t"
    and edges: "task_Blocks t' = task_Blocks t" "task_BlockedBy t' = task_BlockedBy t"
    and ok: "task_ok t'" and run: "task_Status t' = TaskRunning" "task_Run t' = Some r"
    and l: "lease_TaskID l = k" "lease_Token l = lease_ID l"
      "lease_ID l = Sprintf_d ''lease-'' (Suc (nextLease s))" "lease_WorkerID l = run_WorkerID r"
  shows "wf_store (s\<lparr>nextRun := x, nextLease := Suc (nextLease s), tasks := fmupd k t' (tasks s),
     leases := fmupd k l (leases s)\<rparr>)"
proof -
  have lw: "leases_wf (tasks s) (leases s) (nextLease s)" using wf by (simp add: wf_store_def)
  have fresh: "lease_ID l' \<noteq> lease_ID l" if "get_lease s k' = Some l'" for k' l'
    using lw that l(3) numbered_fresh unfolding leases_wf_def by metis
  have "leases_wf (fmupd k t' (tasks s)) (fmupd k l (leases s)) (Suc (nextLease s))"
    unfolding leases_wf_def
  proof (intro conjI allI impI)
    fix k'
    show "(fmlookup (fmupd k l (leases s)) k' \<noteq> None) = running (fmupd k t' (tasks s)) k'"
      using lw run(1) by (simp add: leases_wf_def del: not_None_eq)
  next
    fix k1 k2 l1 l2
    assume "fmlookup (fmupd k l (leases s)) k1 = Some l1"
      and "fmlookup (fmupd k l (leases s)) k2 = Some l2" and "lease_ID l1 = lease_ID l2"
    then show "k1 = k2"
      using lw fresh [of k1 l1] fresh [of k2 l2] unfolding leases_wf_def
      by (auto split: if_splits)
  next
    fix k' l'
    assume l': "fmlookup (fmupd k l (leases s)) k' = Some l'"
    show "lease_TaskID l' = k'" and "lease_Token l' = lease_ID l'"
      and "worker_of (fmupd k t' (tasks s)) k' = Some (lease_WorkerID l')"
      using l' lw l run(2) by (auto simp: leases_wf_def split: if_splits)
    show "numbered ''lease-'' (Suc (nextLease s)) (lease_ID l')"
      using l' lw l(3) by (auto simp only: leases_wf_def fmupd_lookup option.inject numbered_next
          split: if_splits intro: numbered_Suc)
  qed
  with wf t ids edges ok show ?thesis
    by (auto simp: wf_store_def intro: tasks_wf_same_id deps_wf_same_edges)
qed

lemma wf_task_ID: "wf_store s \<Longrightarrow> get_task s k = Some t \<Longrightarrow> task_ID t = k"
  by (simp add: wf_store_def tasks_wf_def)

lemma wf_task_ok: "wf_store s \<Longrightarrow> get_task s k = Some t \<Longrightarrow> task_ok t"
  by (simp add: wf_store_def tasks_wf_def)

lemma wf_lease_running:
  "wf_store s \<Longrightarrow> get_lease s k \<noteq> None \<longleftrightarrow> (\<exists>t. get_task s k = Some t \<and> task_Status t = TaskRunning)"
  by (auto simp: wf_store_def leases_wf_def running_def split: option.splits)

lemma wf_lease_task:
  assumes "wf_store s" and "get_lease s k = Some l"
  obtains t r where "get_task s k = Some t" and "task_Status t = TaskRunning"
    and "task_Run t = Some r" and "run_WorkerID r = lease_WorkerID l"
proof -
  from assms have "running (tasks s) k" and "worker_of (tasks s) k = Some (lease_WorkerID l)"
    by (auto simp: wf_store_def leases_wf_def)
  then show ?thesis using that
    by (auto simp: running_def worker_of_def bind_eq_Some_conv split: option.splits)
qed

lemma wf_lease_TaskID: "wf_store s \<Longrightarrow> get_lease s k = Some l \<Longrightarrow> lease_TaskID l = k"
  by (simp add: wf_store_def leases_wf_def)

lemma wf_lease_number:
  "wf_store s \<Longrightarrow> get_lease s k = Some l \<Longrightarrow>
   lease_Token l = lease_ID l \<and> numbered ''lease-'' (nextLease s) (lease_ID l)"
  by (simp add: wf_store_def leases_wf_def)

section \<open>Claiming\<close>

definition lease_blocks :: "store \<Rightarrow> string \<Rightarrow> time \<Rightarrow> bool" where
  "lease_blocks s k now \<longleftrightarrow> (\<exists>l. get_lease s k = Some l \<and> lease_ExpiresAt l > now)"

lemma claimTaskLocked_unfold:
  assumes "get_task s k = Some t" and "task_ID t = k"
  shows "claimTaskLocked k req now s =
    (let t' = start_run (Suc (nextRun s)) (clr_WorkerID req) now t;
         l = new_lease (Suc (nextLease s)) (clr_WorkerID req) now (clr_LeaseTTL req) t'
     in if k \<in> set (clr_ExcludeTaskIDs req) \<or> \<not> matchesKinds t (clr_Kinds req)
        then (Inl (Sentinel ErrNoReadyTask), s)
        else if isBlocked s t then (Inl (Sentinel ErrTaskBlocked), s)
        else if lease_blocks s k now then (Inl (Sentinel ErrNoReadyTask), s)
        else if exhaustedAttempts t
        then if task_Status t \<in> {TaskCompleted, TaskFailed} then (Inl (Sentinel ErrNoReadyTask), s)
             else (Inl (Sentinel ErrNoReadyTask), publishTaskFailed (exhaust_task now t)
                     (drop_lease k (set_task k (exhaust_task now t) s)))
        else if task_Status t \<notin> {TaskPending, TaskRunning} then (Inl (Sentinel ErrNoReadyTask), s)
        else (Inr \<lparr>claim_Task = t', claim_Lease = l, claim_Run = task_Run t'\<rparr>,
              publishTaskClaimed t' l (s\<lparr>nextRun := Suc (nextRun s), nextLease := Suc (nextLease s),
                 tasks := fmupd k t' (tasks s), leases := fmupd k l (leases s)\<rparr>)))"
proof (cases "get_lease s k")
  case None
  with assms show ?thesis
    by (simp add: claimTaskLocked_def Let_def lease_blocks_def containsString_def list_ex_iff
        exhaust_task_def start_run_def)
next
  case (Some l)
  with assms show ?thesis
    by (simp add: claimTaskLocked_def Let_def lease_blocks_def containsString_def list_ex_iff
        exhaust_task_def start_run_def)
qed

text \<open>
  What a claim of one task can do: refuse and change nothing, fail an exhausted task, or hand out a
  run and a lease.
\<close>

lemma claimTaskLocked_cases [consumes 1, case_names refused exhausted claimed]:
  assumes wf: "wf_store s"
  obtains
    (refused) e where "claimTaskLocked k req now s = (Inl e, s)"
      and "e \<in> {Sentinel ErrTaskNotFound, Sentinel ErrNoReadyTask, Sentinel ErrTaskBlocked}"
  | (exhausted) t where "get_task s k = Some t" and "exhaustedAttempts t"
      and "task_Status t \<in> {TaskRunning, TaskCanceled}" and "\<not> lease_blocks s k now"
      and "claimTaskLocked k req now s = (Inl (Sentinel ErrNoReadyTask),
         publishTaskFailed (exhaust_task now t) (drop_lease k (set_task k (exhaust_task now t) s)))"
  | (claimed) t t' l where "get_task s k = Some t" and "\<not> exhaustedAttempts t"
      and "task_Status t \<in> {TaskPending, TaskRunning}" and "\<not> lease_blocks s k now"
      and "\<not> isBlocked s t" and "matchesKinds t (clr_Kinds req)" and "k \<notin> set (clr_ExcludeTaskIDs req)"
      and "t' = start_run (Suc (nextRun s)) (clr_WorkerID req) now t"
      and "l = new_lease (Suc (nextLease s)) (clr_WorkerID req) now (clr_LeaseTTL req) t'"
      and "claimTaskLocked k req now s =
        (Inr \<lparr>claim_Task = t', claim_Lease = l, claim_Run = task_Run t'\<rparr>,
         publishTaskClaimed t' l (s\<lparr>nextRun := Suc (nextRun s), nextLease := Suc (nextLease s),
            tasks := fmupd k t' (tasks s), leases := fmupd k l (leases s)\<rparr>))"
proof (cases "get_task s k")
  case None
  then show ?thesis using refused by (simp add: claimTaskLocked_def)
next
  case (Some t)
  have tid: "task_ID t = k" and ok: "task_ok t"
    using wf Some by (auto intro: wf_task_ID wf_task_ok)
  note eq = claimTaskLocked_unfold [OF Some tid, of req now, unfolded Let_def]
  show ?thesis
  proof (cases "k \<in> set (clr_ExcludeTaskIDs req) \<or> \<not> matchesKinds t (clr_Kinds req) \<or> isBlocked s t
      \<or> lease_blocks s k now")
    case True
    then have "\<exists>e. claimTaskLocked k req now s = (Inl e, s) \<and>
        e \<in> {Sentinel ErrNoReadyTask, Sentinel ErrTaskBlocked}"
      by (cases "isBlocked s t"; cases "lease_blocks s k now") (auto simp: eq)
    then show ?thesis using refused by blast
  next
    case False
    consider (settled) "task_Status t \<in> {TaskCompleted, TaskFailed}"
      | (cancel) "task_Status t = TaskCanceled" "\<not> exhaustedAttempts t"
      | (exh) "task_Status t \<in> {TaskRunning, TaskCanceled}" "exhaustedAttempts t"
      | (ready) "task_Status t \<in> {TaskPending, TaskRunning}" "\<not> exhaustedAttempts t"
      using ok by (auto simp: task_ok_def)
    then show ?thesis
    proof cases
      case settled
      with False show ?thesis by (intro refused [of "Sentinel ErrNoReadyTask"]) (auto simp: eq)
    next
      case cancel
      with False show ?thesis by (intro refused [of "Sentinel ErrNoReadyTask"]) (auto simp: eq)
    next
      case exh
      with False Some show ?thesis by (intro exhausted [of t]) (auto simp: eq)
    next
      case ready
      with False Some show ?thesis by (intro claimed [of t]) (auto simp: eq)
    qed
  qed
qed

lemma task_ok_start_run:
  "task_ok t \<Longrightarrow> \<not> exhaustedAttempts t \<Longrightarrow> task_ok (start_run n worker now t)"
  by (auto simp: task_ok_def start_run_def new_run_def exhaustedAttempts_def)

lemma start_run_simps [simp]:
  "task_ID (start_run n w now t) = task_ID t" "task_Blocks (start_run n w now t) = task_Blocks t"
  "task_BlockedBy (start_run n w now t) = task_BlockedBy t"
  "task_Status (start_run n w now t) = TaskRunning"
  "task_Attempt (start_run n w now t) = task_Attempt t + 1"
  "task_MaxAttempts (start_run n w now t) = task_MaxAttempts t"
  "task_Run (start_run n w now t) = Some (new_run n w now t)"
  by (simp_all add: start_run_def)

lemma new_run_simps [simp]:
  "run_ID (new_run n w now t) = Sprintf_d ''run-'' n" "run_TaskID (new_run n w now t) = task_ID t"
  "run_WorkerID (new_run n w now t) = w" "run_Attempt (new_run n w now t) = task_Attempt t + 1"
  "run_StartedAt (new_run n w now t) = now"
  by (simp_all add: new_run_def)

lemma new_lease_simps [simp]:
  "lease_ID (new_lease n w now ttl t) = Sprintf_d ''lease-'' n"
  "lease_Token (new_lease n w now ttl t) = Sprintf_d ''lease-'' n"
  "lease_TaskID (new_lease n w now ttl t) = task_ID t"
  "lease_WorkerID (new_lease n w now ttl t) = w"
  "lease_AcquiredAt (new_lease n w now ttl t) = now"
  "lease_ExpiresAt (new_lease n w now ttl t) = now + ttl"
  by (simp_all add: new_lease_def Let_def)

lemma exhaust_task_simps [simp]:
  "task_ID (exhaust_task now t) = task_ID t" "task_Blocks (exhaust_task now t) = task_Blocks t"
  "task_BlockedBy (exhaust_task now t) = task_BlockedBy t"
  "task_Status (exhaust_task now t) = TaskFailed"
  "task_Attempt (exhaust_task now t) = task_Attempt t"
  "task_MaxAttempts (exhaust_task now t) = task_MaxAttempts t"
  by (simp_all add: exhaust_task_def)

lemma task_ok_exhaust: "task_ok t \<Longrightarrow> task_ok (exhaust_task now t)"
  by (auto simp: task_ok_def)

lemma wf_claimTaskLocked:
  assumes wf: "wf_store s"
  shows "wf_store (snd (claimTaskLocked k req now s))"
  using wf
proof (cases rule: claimTaskLocked_cases [where k = k and req = req and now = now])
  case (refused e)
  with wf show ?thesis by simp
next
  case (exhausted t)
  have "wf_store (drop_lease k (set_task k (exhaust_task now t) s))"
    using wf exhausted by (intro wf_leave_running [where t = t]) (auto intro: task_ok_exhaust wf_task_ok)
  with exhausted show ?thesis by (simp add: publishTaskFailed_def)
next
  case (claimed t t' l)
  have "task_ok t'" using wf claimed by (auto intro: task_ok_start_run wf_task_ok)
  with wf claimed wf_task_ID [OF wf claimed(1)] show ?thesis
    by (auto intro!: wf_start_run [where r = "new_run (Suc (nextRun s)) (clr_WorkerID req) now t"])
qed

lemma wf_claim_first: "wf_store s \<Longrightarrow> wf_store (snd (claim_first req now ks s))"
proof (induction ks arbitrary: s)
  case Nil
  then show ?case by simp
next
  case (Cons k ks)
  obtain r s1 where r: "claimTaskLocked k req now s = (r, s1)" by fastforce
  with wf_claimTaskLocked [OF Cons.prems, of k req now] have "wf_store s1" by simp
  with r Cons.IH [of s1] show ?case by (cases r) auto
qed

lemma wf_ClaimReadyTask: "wf_store s \<Longrightarrow> wf_store (snd (ClaimReadyTask clk req s))"
  by (simp add: ClaimReadyTask_def wf_claim_first)

lemma wf_ClaimTask: "wf_store s \<Longrightarrow> wf_store (snd (ClaimTask clk k req s))"
  by (simp add: ClaimTask_def wf_claimTaskLocked)

section \<open>Finishing, cancelling, retrying\<close>

lemma validateLeaseLocked_Inr:
  "validateLeaseLocked rd k token now s = Inr (t, l) \<longleftrightarrow>
     get_task s k = Some t \<and> get_lease s k = Some l \<and> lease_Token l = token \<and>
     normalizeNow rd now < lease_ExpiresAt l"
  by (auto simp: validateLeaseLocked_def split: option.splits if_splits)

lemma wf_add_artifact:
  assumes wf: "wf_store s" and "art_TaskID a \<in> fmdom' (tasks s)"
    and "art_ID a = Sprintf_d ''artifact-'' (Suc (nextArtifact s))"
  shows "wf_store (s\<lparr>nextArtifact := Suc (nextArtifact s), artifacts := fmupd (art_ID a) a (artifacts s),
     artifactOrder := artifactOrder s @ [art_ID a]\<rparr>)"
proof -
  have aw: "artifacts_wf (artifacts s) (artifactOrder s) (nextArtifact s) (fmdom' (tasks s))"
    using wf by (simp add: wf_store_def)
  have fresh: "art_ID a \<notin> fmdom' (artifacts s)"
  proof
    assume "art_ID a \<in> fmdom' (artifacts s)"
    then obtain x where "fmlookup (artifacts s) (art_ID a) = Some x" by (auto simp: fmlookup_dom'_iff)
    then have "numbered ''artifact-'' (nextArtifact s) (art_ID a)" using aw by (simp add: artifacts_wf_def)
    then show False unfolding assms(3) by (simp add: numbered_fresh)
  qed
  have ord: "ordered_table (fmupd (art_ID a) a (artifacts s)) (artifactOrder s @ [art_ID a])"
    using aw fresh by (simp add: artifacts_wf_def ordered_table_insert)
  have num: "numbered ''artifact-'' (Suc (nextArtifact s)) k"
    if "fmlookup (fmupd (art_ID a) a (artifacts s)) k = Some x" for k x
  proof (cases "k = art_ID a")
    case True
    then show ?thesis by (simp only: assms(3) numbered_next)
  next
    case False
    with that aw show ?thesis by (auto simp: artifacts_wf_def)
  qed
  have "artifacts_wf (fmupd (art_ID a) a (artifacts s)) (artifactOrder s @ [art_ID a])
      (Suc (nextArtifact s)) (fmdom' (tasks s))"
    unfolding artifacts_wf_def
  proof (intro conjI allI impI)
    fix k x
    assume x: "fmlookup (fmupd (art_ID a) a (artifacts s)) k = Some x"
    show "numbered ''artifact-'' (Suc (nextArtifact s)) k" using x by (rule num)
    show "art_ID x = k" and "art_TaskID x \<in> fmdom' (tasks s)"
      using x aw assms(2) by (auto simp: artifacts_wf_def split: if_splits)
  qed (rule ord)
  with wf show ?thesis by (simp add: wf_store_def)
qed

lemma wf_create_outcome_artifact:
  "wf_store s \<Longrightarrow> task_ID t \<in> fmdom' (tasks s) \<Longrightarrow>
   wf_store (create_outcome_artifact t at spec s) \<and>
   fmdom' (tasks (create_outcome_artifact t at spec s)) = fmdom' (tasks s)"
  unfolding create_outcome_artifact_def Let_def publishArtifactCreated_def
  using wf_add_artifact [of s] by simp

lemma wf_createOutcomeArtifacts:
  "wf_store s \<Longrightarrow> task_ID t \<in> fmdom' (tasks s) \<Longrightarrow>
   wf_store (createOutcomeArtifactsLocked t specs at s)"
  unfolding createOutcomeArtifactsLocked_def
  by (induction specs arbitrary: s) (auto simp: wf_create_outcome_artifact)

lemma create_outcome_artifact_simps [simp]:
  "tasks (create_outcome_artifact t at spec s) = tasks s"
  "leases (create_outcome_artifact t at spec s) = leases s"
  "nextLease (create_outcome_artifact t at spec s) = nextLease s"
  "nextTask (create_outcome_artifact t at spec s) = nextTask s"
  "commands (create_outcome_artifact t at spec s) = commands s"
  by (simp_all add: create_outcome_artifact_def Let_def publishArtifactCreated_def)

lemma createOutcomeArtifacts_simps [simp]:
  "tasks (createOutcomeArtifactsLocked t specs at s) = tasks s"
  "leases (createOutcomeArtifactsLocked t specs at s) = leases s"
  "nextLease (createOutcomeArtifactsLocked t specs at s) = nextLease s"
  "nextTask (createOutcomeArtifactsLocked t specs at s) = nextTask s"
  "commands (createOutcomeArtifactsLocked t specs at s) = commands s"
  unfolding createOutcomeArtifactsLocked_def by (induction specs arbitrary: s) auto

lemma wf_CompleteTask:
  assumes wf: "wf_store s"
  shows "wf_store (snd (CompleteTask clk k token oc now s))"
proof (cases "validateLeaseLocked (clk 0) k token now s")
  case (Inl e)
  with wf show ?thesis by (simp add: CompleteTask_def)
next
  case (Inr tl)
  obtain t l where tl: "tl = (t, l)" by (cases tl)
  with Inr have t: "get_task s k = Some t" and l: "get_lease s k = Some l"
    by (auto simp: validateLeaseLocked_Inr)
  have ids: "lease_TaskID l = k" "task_ID t = k" "task_ok t"
    using wf t l by (auto intro: wf_lease_TaskID wf_task_ID wf_task_ok)
  have "wf_store (drop_lease k (set_task k t' s))"
    if "task_ID t' = task_ID t" "task_Blocks t' = task_Blocks t" "task_BlockedBy t' = task_BlockedBy t"
      "task_Attempt t' = task_Attempt t" "task_MaxAttempts t' = task_MaxAttempts t"
      "task_Status t' = TaskCompleted" for t'
    using wf t ids that by (intro wf_leave_running [where t = t]) (auto simp: task_ok_def)
  then show ?thesis
    using Inr tl ids
    by (cases oc) (auto simp: CompleteTask_def Let_def publishTaskCompleted_def
        intro!: wf_createOutcomeArtifacts)
qed

lemma task_ok_requeue:
  assumes "task_ok t" and "task_Status t = TaskRunning" and "rollback \<or> \<not> exhaustedAttempts t"
    and "task_Status t' = TaskPending" and "task_Run t' = None" and "task_Result t' = None"
    and "task_MaxAttempts t' = task_MaxAttempts t"
    and "task_Attempt t' = (if rollback \<and> task_Attempt t > 0 then task_Attempt t - 1 else task_Attempt t)"
  shows "task_ok t'"
  using assms by (auto simp: task_ok_def exhaustedAttempts_def)

lemma wf_requeue:
  assumes wf: "wf_store s" and t: "get_task s k = Some t" and run: "task_Status t = TaskRunning"
    and ex: "rollback \<or> \<not> exhaustedAttempts t"
    and q: "requeueTaskLocked rd t k now rollback s = (x, t1, s1)"
  shows "wf_store (s1\<lparr>tasks := fmupd k (t1\<lparr>task_LastError := e\<rparr>) (tasks s1)\<rparr>)"
proof -
  have s1: "s1 = drop_lease k s" and t1: "task_ID t1 = task_ID t" "task_Blocks t1 = task_Blocks t"
      "task_BlockedBy t1 = task_BlockedBy t" "task_Status t1 = TaskPending" "task_Run t1 = None"
      "task_Result t1 = None" "task_MaxAttempts t1 = task_MaxAttempts t"
      "task_Attempt t1 = (if rollback \<and> task_Attempt t > 0 then task_Attempt t - 1 else task_Attempt t)"
    using q by (auto simp: requeueTaskLocked_def)
  have "task_ok (t1\<lparr>task_LastError := e\<rparr>)"
    by (rule task_ok_requeue [OF wf_task_ok [OF wf t] run ex]) (simp_all add: t1)
  with wf t t1 have "wf_store (drop_lease k (set_task k (t1\<lparr>task_LastError := e\<rparr>) s))"
    by (intro wf_leave_running [where t = t]) simp_all
  then show ?thesis by (simp add: s1 wf_store_def)
qed

lemma wf_settle:
  assumes wf: "wf_store s" and t: "get_task s k = Some t" and st: "st \<in> {TaskFailed, TaskCanceled}"
  shows "wf_store (drop_lease k (set_task k (t\<lparr>task_Status := st, task_Result := None, task_LastError := e,
     task_CompletedAt := at, task_UpdatedAt := at\<rparr>) s))"
  using st wf_task_ok [OF wf t] by (intro wf_leave_running [OF wf t]) (auto simp: task_ok_def)

lemma wf_FailTask:
  assumes wf: "wf_store s"
  shows "wf_store (snd (FailTask clk k token runErr now s))"
proof (cases "validateLeaseLocked (clk 0) k token now s")
  case (Inl e)
  with wf show ?thesis by (simp add: FailTask_def)
next
  case (Inr tl)
  obtain t l where tl: "tl = (t, l)" by (cases tl)
  with Inr have t: "get_task s k = Some t" and l: "get_lease s k = Some l"
    by (auto simp: validateLeaseLocked_Inr)
  have lk: "lease_TaskID l = k" using wf l by (rule wf_lease_TaskID)
  have run: "task_Status t = TaskRunning" using wf_lease_running [OF wf, of k] l t by auto
  show ?thesis
  proof (cases "(case runErr of None \<Rightarrow> False | Some e \<Rightarrow> isRetryable e) \<and> \<not> exhaustedAttempts t")
    case True
    obtain x t1 s1 where q: "requeueTaskLocked (clk 1) t k now False s = (x, t1, s1)"
      by (cases "requeueTaskLocked (clk 1) t k now False s") auto
    show ?thesis
      using True Inr tl lk q wf_requeue [OF wf t run _ q]
      by (cases x) (auto simp: FailTask_def Let_def publishTaskRequeued_def)
  next
    case False
    with Inr tl lk wf_settle [OF wf t, of TaskFailed] show ?thesis
      by (auto simp: FailTask_def Let_def publishTaskFailed_def)
  qed
qed

lemma wf_CancelTask:
  assumes wf: "wf_store s"
  shows "wf_store (snd (CancelTask clk k token reason now s))"
proof (cases "get_task s k")
  case None
  with wf show ?thesis by (simp add: CancelTask_def)
next
  case (Some t)
  with wf wf_settle [OF wf Some, of TaskCanceled] show ?thesis
    by (auto simp: CancelTask_def Let_def publishTaskCanceled_def split: option.splits)
qed

lemma wf_RetryTask:
  assumes wf: "wf_store s"
  shows "wf_store (snd (RetryTask clk k reason now s))"
proof (cases "get_task s k")
  case None
  with wf show ?thesis by (simp add: RetryTask_def)
next
  case (Some t)
  have "wf_store (drop_lease k (set_task k t' s))"
    if "task_ID t' = task_ID t" "task_Blocks t' = task_Blocks t" "task_BlockedBy t' = task_BlockedBy t"
      "task_Attempt t' = 0" "task_MaxAttempts t' = task_MaxAttempts t" "task_Result t' = None"
      "task_Run t' = None" "task_Status t' = TaskPending" for t'
    using that wf_task_ok [OF wf Some]
    by (intro wf_leave_running [OF wf Some]) (auto simp: task_ok_def exhaustedAttempts_def)
  with Some wf show ?thesis by (auto simp: RetryTask_def Let_def publishTaskRequeued_def)
qed

section \<open>Leases and their recovery\<close>

lemma wf_RenewLease:
  assumes wf: "wf_store s"
  shows "wf_store (snd (RenewLease clk k token ttl now s))"
proof -
  have "wf_store (s\<lparr>leases := fmupd k (l\<lparr>lease_ExpiresAt := x\<rparr>) (leases s)\<rparr>)"
    if "get_lease s k = Some l" for l x
    using wf that unfolding wf_store_def leases_wf_def by (auto split: if_splits)
  with wf show ?thesis
    by (auto simp: RenewLease_def Let_def publishLeaseRenewed_def split: option.splits)
qed

lemma wf_ReleaseLease:
  assumes wf: "wf_store s"
  shows "wf_store (snd (ReleaseLease clk k token s))"
proof (cases "get_lease s k")
  case None
  with wf show ?thesis by (simp add: ReleaseLease_def)
next
  case (Some l)
  with wf obtain t where t: "get_task s k = Some t" and run: "task_Status t = TaskRunning"
    by (blast elim: wf_lease_task)
  obtain x t1 s1 where q: "requeueTaskLocked (clk 2) t k (clk 1) True s = (x, t1, s1)"
    by (cases "requeueTaskLocked (clk 2) t k (clk 1) True s") auto
  from wf_requeue [OF wf t run _ q, of "task_LastError t1"] have "wf_store (set_task k t1 s1)" by simp
  with wf Some t run q show ?thesis
    by (cases x) (auto simp: ReleaseLease_def Let_def publishLeaseReleased_def publishTaskRequeued_def)
qed

text \<open>
  In a well-formed store a lease belongs to a running task, so recovering it has two outcomes: the
  task fails when its attempts are used up, and else is queued again.
\<close>

lemma recoverExpiredLeaseLocked_cases [consumes 1, case_names kept failed requeued]:
  assumes wf: "wf_store s"
  obtains
    (kept) "recoverExpiredLeaseLocked rd k now s = (None, s)"
      and "\<And>l. get_lease s k = Some l \<Longrightarrow> lease_ExpiresAt l > now"
  | (failed) t l where "get_lease s k = Some l" and "\<not> lease_ExpiresAt l > now"
      and "get_task s k = Some t" and "task_Status t = TaskRunning" and "exhaustedAttempts t"
      and "recoverExpiredLeaseLocked rd k now s =
        (Some \<lparr>lrec_Task = cloneTask t, lrec_Lease = l, lrec_RecoveredAt = now,
            lrec_ResultStatus = TaskFailed, lrec_Requeued = False, lrec_Reason = ''lease expired''\<rparr>,
         let t1 = t\<lparr>task_Status := TaskFailed, task_Result := None, task_LastError := ''lease expired'',
                    task_CompletedAt := now, task_UpdatedAt := now\<rparr>
         in publishTaskFailed t1 (publishLeaseReleased l (run_id_of t) False TaskFailed ''lease expired''
              True now (drop_lease k (set_task k t1 s))))"
  | (requeued) t l where "get_lease s k = Some l" and "\<not> lease_ExpiresAt l > now"
      and "get_task s k = Some t" and "task_Status t = TaskRunning" and "\<not> exhaustedAttempts t"
      and "recoverExpiredLeaseLocked rd k now s =
        (Some \<lparr>lrec_Task = cloneTask t, lrec_Lease = l, lrec_RecoveredAt = now,
            lrec_ResultStatus = TaskPending, lrec_Requeued = True, lrec_Reason = ''lease expired''\<rparr>,
         let t1 = (fst (snd (requeueTaskLocked rd t k now False s)))\<lparr>task_LastError := ''lease expired''\<rparr>
         in publishTaskRequeued t1 (run_id_of t) (task_Attempt t) ''lease expired''
              (publishLeaseReleased l (run_id_of t) True TaskPending ''lease expired'' True now
                (set_task k t1 (drop_lease k s))))"
proof (cases "get_lease s k")
  case None
  then show ?thesis using kept by (simp add: recoverExpiredLeaseLocked_def)
next
  case (Some l)
  with wf obtain t where t: "get_task s k = Some t" "task_Status t = TaskRunning"
    by (blast elim: wf_lease_task)
  consider "lease_ExpiresAt l > now" | "\<not> lease_ExpiresAt l > now" "exhaustedAttempts t"
    | "\<not> lease_ExpiresAt l > now" "\<not> exhaustedAttempts t" by blast
  then show ?thesis
  proof cases
    case 1
    with Some show ?thesis using kept by (simp add: recoverExpiredLeaseLocked_def)
  next
    case 2
    with Some t show ?thesis using failed by (simp add: recoverExpiredLeaseLocked_def Let_def)
  next
    case 3
    with Some t show ?thesis
      using requeued by (simp add: recoverExpiredLeaseLocked_def requeueTaskLocked_def Let_def)
  qed
qed

lemma wf_recoverExpiredLeaseLocked:
  assumes wf: "wf_store s"
  shows "wf_store (snd (recoverExpiredLeaseLocked rd k now s))"
  using wf
proof (cases rule: recoverExpiredLeaseLocked_cases [where rd = rd and k = k and now = now])
  case kept
  with wf show ?thesis by simp
next
  case (failed t l)
  with wf_settle [OF wf failed(3), of TaskFailed] show ?thesis
    by (simp add: Let_def publishTaskFailed_def publishLeaseReleased_def)
next
  case (requeued t l)
  obtain x t1 s1 where q: "requeueTaskLocked rd t k now False s = (x, t1, s1)"
    by (cases "requeueTaskLocked rd t k now False s") auto
  then have "s1 = drop_lease k s" by (simp add: requeueTaskLocked_def)
  with wf_requeue [OF wf requeued(3,4) _ q, of "''lease expired''"] requeued(5,6) q show ?thesis
    by (simp add: Let_def publishTaskRequeued_def publishLeaseReleased_def)
qed

lemma wf_recover_leases: "wf_store s \<Longrightarrow> wf_store (snd (recover_leases rd now ks s))"
proof (induction ks arbitrary: s)
  case (Cons k ks)
  with wf_recoverExpiredLeaseLocked [OF Cons.prems, of rd k now] show ?case
    by (auto simp: split_beta)
qed simp

end
