(* ===== verification/Orch_Dependencies.thy ===== *)
theory Orch_Dependencies
  imports Orch_Invariant
begin

text \<open>
  Creating, updating and deleting tasks: how the two ends of a dependency edge are kept in step, and
  that the three operations keep the store well formed, whatever order Go visits its maps in.
\<close>

section \<open>Changing edges and labels only\<close>

definition same_core :: "task \<Rightarrow> task \<Rightarrow> bool" where
  "same_core t t' \<longleftrightarrow> task_ID t' = task_ID t \<and> task_Status t' = task_Status t \<and>
     task_Attempt t' = task_Attempt t \<and> task_MaxAttempts t' = task_MaxAttempts t \<and>
     task_Run t' = task_Run t \<and> task_Result t' = task_Result t \<and>
     task_LastError t' = task_LastError t \<and> task_CompletedAt t' = task_CompletedAt t"

lemma same_core_refl [simp, intro]: "same_core t t"
  by (simp add: same_core_def)

lemma same_core_trans: "same_core t u \<Longrightarrow> same_core u v \<Longrightarrow> same_core t v"
  by (simp add: same_core_def)

lemma same_core_ok: "same_core t t' \<Longrightarrow> task_ok t \<Longrightarrow> task_ok t'"
  by (simp add: same_core_def task_ok_def exhaustedAttempts_def)

definition relabelled :: "(string, task) go_map \<Rightarrow> (string, task) go_map \<Rightarrow> bool" where
  "relabelled m m' \<longleftrightarrow> (\<forall>k. rel_option same_core (fmlookup m k) (fmlookup m' k))"

lemma relabelled_refl [simp, intro]: "relabelled m m"
  by (simp add: relabelled_def option.rel_refl)

lemma relabelled_Some:
  "relabelled m m' \<Longrightarrow> fmlookup m' k = Some t' \<Longrightarrow> \<exists>t. fmlookup m k = Some t \<and> same_core t t'"
  by (auto simp: relabelled_def option_rel_Some2 dest: spec [of _ k])

lemma relabelled_dom: "relabelled m m' \<Longrightarrow> fmdom' m' = fmdom' m"
proof -
  assume "relabelled m m'"
  then have "fmlookup m' k = None \<longleftrightarrow> fmlookup m k = None" for k
    by (auto simp: relabelled_def rel_option_None1 rel_option_None2 dest: spec [of _ k]
        elim: option.rel_cases)
  then show ?thesis by (auto simp: fmlookup_dom'_iff simp del: not_None_eq) (metis not_None_eq)+
qed

lemma relabelled_fmupd:
  "relabelled m m' \<Longrightarrow> fmlookup m k = Some t \<Longrightarrow> same_core t t' \<Longrightarrow> relabelled m (fmupd k t' m')"
  by (simp add: relabelled_def)

lemma relabelled_trans: "relabelled m m' \<Longrightarrow> relabelled m' m'' \<Longrightarrow> relabelled m m''"
  unfolding relabelled_def
proof
  fix k
  assume "\<forall>k. rel_option same_core (fmlookup m k) (fmlookup m' k)"
    and "\<forall>k. rel_option same_core (fmlookup m' k) (fmlookup m'' k)"
  from this [THEN spec, of k] show "rel_option same_core (fmlookup m k) (fmlookup m'' k)"
    by (cases "fmlookup m k"; cases "fmlookup m' k"; cases "fmlookup m'' k")
      (auto intro: same_core_trans)
qed

lemma relabelled_running: "relabelled m m' \<Longrightarrow> running m' k = running m k"
  by (auto simp: relabelled_def running_def same_core_def dest!: spec [of _ k] elim: option.rel_cases
      split: option.splits)

lemma relabelled_worker: "relabelled m m' \<Longrightarrow> worker_of m' k = worker_of m k"
  by (auto simp: relabelled_def worker_of_def same_core_def dest!: spec [of _ k]
      elim: option.rel_cases)

lemma relabelled_tasks_wf:
  assumes "relabelled m m'" and "tasks_wf m ord n"
  shows "tasks_wf m' ord n"
proof -
  have "task_ID t' = k \<and> numbered ''task-'' n k \<and> task_ok t'" if t': "fmlookup m' k = Some t'" for k t'
  proof -
    from relabelled_Some [OF assms(1) t'] obtain t where "fmlookup m k = Some t" "same_core t t'" by blast
    with assms(2) show ?thesis
      by (auto simp: tasks_wf_def intro: same_core_ok) (simp add: same_core_def)
  qed
  with assms relabelled_dom [OF assms(1)] show ?thesis
    by (auto simp: tasks_wf_def intro: ordered_table_same_dom)
qed

lemma wf_relabel:
  assumes "wf_store s" and "relabelled (tasks s) m" and "deps_wf m"
  shows "wf_store (s\<lparr>tasks := m\<rparr>)"
  using assms relabelled_dom [OF assms(2)]
  by (auto simp: wf_store_def leases_wf_def relabelled_running relabelled_worker
      intro: relabelled_tasks_wf)

section \<open>Linking\<close>

lemma appendUnique_one: "x \<noteq> [] \<Longrightarrow> appendUniqueStrings xs [x] = (if x \<in> set xs then xs else xs @ [x])"
  by (simp add: appendUniqueStrings_def)

lemma set_appendUnique: "set (appendUniqueStrings xs ys) = set xs \<union> (set ys - {[]})"
  unfolding appendUniqueStrings_def by (induction ys arbitrary: xs) auto

lemma link_blocked_lookup:
  assumes "tid \<noteq> []"
  shows "fmlookup (fst (fold (link_blocked tid now) ks (m, upd))) k =
    map_option (\<lambda>b. if k \<in> set ks \<and> tid \<notin> set (task_BlockedBy b)
       then b\<lparr>task_BlockedBy := task_BlockedBy b @ [tid], task_UpdatedAt := now\<rparr> else b) (fmlookup m k)"
proof (induction ks arbitrary: m upd)
  case Nil
  show ?case by (cases "fmlookup m k") auto
next
  case (Cons j ks)
  obtain m1 u1 where st: "link_blocked tid now j (m, upd) = (m1, u1)" by fastforce
  then have "fmlookup m1 k = map_option (\<lambda>b. if k = j \<and> tid \<notin> set (task_BlockedBy b)
       then b\<lparr>task_BlockedBy := task_BlockedBy b @ [tid], task_UpdatedAt := now\<rparr> else b) (fmlookup m k)"
    using assms by (cases "fmlookup m k")
      (auto simp: link_blocked_def appendUnique_one Let_def split: option.splits if_splits)
  with st Cons.IH [of m1 u1] show ?case by (cases "fmlookup m k") auto
qed

lemma link_blocker_lookup:
  assumes "tid \<noteq> []"
  shows "fmlookup (fst (fold (link_blocker tid now) ks (m, upd))) k =
    map_option (\<lambda>b. if k \<in> set ks \<and> tid \<notin> set (task_Blocks b)
       then b\<lparr>task_Blocks := task_Blocks b @ [tid], task_UpdatedAt := now\<rparr> else b) (fmlookup m k)"
proof (induction ks arbitrary: m upd)
  case Nil
  show ?case by (cases "fmlookup m k") auto
next
  case (Cons j ks)
  obtain m1 u1 where st: "link_blocker tid now j (m, upd) = (m1, u1)" by fastforce
  then have "fmlookup m1 k = map_option (\<lambda>b. if k = j \<and> tid \<notin> set (task_Blocks b)
       then b\<lparr>task_Blocks := task_Blocks b @ [tid], task_UpdatedAt := now\<rparr> else b) (fmlookup m k)"
    using assms by (cases "fmlookup m k")
      (auto simp: link_blocker_def appendUnique_one Let_def split: option.splits if_splits)
  with st Cons.IH [of m1 u1] show ?case by (cases "fmlookup m k") auto
qed

text \<open>The edges after linking a task whose own map entry, if it has one, is up to date.\<close>

lemma link_edges:
  assumes tid: "task_ID t \<noteq> []" and self: "\<And>t'. fmlookup m (task_ID t) = Some t' \<Longrightarrow> t' = t"
    and link: "linkTaskDependencies it t now m = (m2, peers)"
  shows "relabelled m m2"
    and "blocked_of m2 b =
      blocked_of m b \<union> (if b \<in> set (task_Blocks t) \<and> b \<in> fmdom' m then {task_ID t} else {})"
    and "blocks_of m2 a = blocks_of m a \<union>
      (if a \<in> fmdom' m \<and> (a \<in> set (task_BlockedBy t) \<or> a = task_ID t \<and> a \<in> set (task_Blocks t))
       then {task_ID t} else {})"
proof -
  let ?k = "task_ID t"
  obtain m1 u1 where f1: "fold (link_blocked ?k now) (task_Blocks t) (m, []) = (m1, u1)" by fastforce
  define bb where "bb = task_BlockedBy (case fmlookup m1 ?k of Some t1 \<Rightarrow> t1 | None \<Rightarrow> t)"
  from link f1 have m2: "m2 = fst (fold (link_blocker ?k now) bb (m1, u1))"
    by (auto simp: linkTaskDependencies_def Let_def bb_def split: prod.splits)
  have l1: "fmlookup m1 k = map_option (\<lambda>b. if k \<in> set (task_Blocks t) \<and> ?k \<notin> set (task_BlockedBy b)
       then b\<lparr>task_BlockedBy := task_BlockedBy b @ [?k], task_UpdatedAt := now\<rparr> else b) (fmlookup m k)" for k
    using link_blocked_lookup [OF tid, of now "task_Blocks t" m "[]" k] f1 by simp
  have l2: "fmlookup m2 k = map_option (\<lambda>b. if k \<in> set bb \<and> ?k \<notin> set (task_Blocks b)
       then b\<lparr>task_Blocks := task_Blocks b @ [?k], task_UpdatedAt := now\<rparr> else b) (fmlookup m1 k)" for k
    using link_blocker_lookup [OF tid, of now bb m1 u1 k] m2 by simp
  have dom: "k \<in> fmdom' m \<longleftrightarrow> fmlookup m k \<noteq> None" for k by (simp add: fmlookup_dom'_iff)
  have t1: "a \<in> set bb \<longleftrightarrow> a \<in> set (task_BlockedBy t) \<or>
      (a = ?k \<and> a \<in> set (task_Blocks t) \<and> a \<in> fmdom' m)" for a
    using self by (cases "fmlookup m ?k") (auto simp: bb_def l1 dom)
  show "relabelled m m2"
    unfolding relabelled_def
  proof
    fix k show "rel_option same_core (fmlookup m k) (fmlookup m2 k)"
      by (cases "fmlookup m k") (simp_all add: l1 l2 same_core_def)
  qed
  show "blocked_of m2 b =
      blocked_of m b \<union> (if b \<in> set (task_Blocks t) \<and> b \<in> fmdom' m then {?k} else {})"
    by (cases "fmlookup m b") (auto simp: blocked_of_def l1 l2 dom)
  show "blocks_of m2 a = blocks_of m a \<union> (if a \<in> fmdom' m \<and>
      (a \<in> set (task_BlockedBy t) \<or> a = ?k \<and> a \<in> set (task_Blocks t)) then {?k} else {})"
    by (cases "fmlookup m a") (auto simp: blocks_of_def l1 l2 t1 dom)
qed

lemma validate_None:
  "validateTaskDependencies bl bb s = None \<longleftrightarrow> set bl \<subseteq> fmdom' (tasks s) \<and> set bb \<subseteq> fmdom' (tasks s)"
proof -
  have "validateTaskDependencies bl bb s = None \<longleftrightarrow>
      List.find (\<lambda>b. get_task s b = None) bl = None \<and> List.find (\<lambda>b. get_task s b = None) bb = None"
    by (auto simp: validateTaskDependencies_def split: option.splits)
  then show ?thesis by (auto simp: find_None_iff fmlookup_dom'_iff)
qed

lemma deps_wf_dom:
  assumes "deps_wf m"
  shows "blocks_of m a \<subseteq> fmdom' m" and "blocked_of m a \<subseteq> fmdom' m"
proof -
  have "b \<in> fmdom' m" if "a \<in> blocked_of m b" for a b
    using that by (auto simp: blocked_of_def fmlookup_dom'_iff split: option.splits)
  moreover have "b \<in> fmdom' m" if "a \<in> blocks_of m b" for a b
    using that by (auto simp: blocks_of_def fmlookup_dom'_iff split: option.splits)
  ultimately show "blocks_of m a \<subseteq> fmdom' m" and "blocked_of m a \<subseteq> fmdom' m"
    using assms by (auto simp: deps_wf_def)
qed

lemma no_edges: "a \<notin> fmdom' m \<Longrightarrow> blocks_of m a = {} \<and> blocked_of m a = {}"
  by (auto simp: blocks_of_def blocked_of_def fmlookup_dom'_iff split: option.splits)

section \<open>Creating a task\<close>

lemma wf_insert_task:
  assumes wf: "wf_store s" and k: "task_ID t = Sprintf_d ''task-'' (Suc (nextTask s))"
    and m: "relabelled (tasks s) m" and t: "task_ok t" "task_Status t \<noteq> TaskRunning"
    and d: "deps_wf (fmupd (task_ID t) t m)"
  shows "wf_store (s\<lparr>nextTask := Suc (nextTask s), tasks := fmupd (task_ID t) t m,
     taskOrder := taskOrder s @ [task_ID t]\<rparr>)"
proof -
  let ?k = "task_ID t"
  have tw: "tasks_wf m (taskOrder s) (nextTask s)"
    using wf m by (auto simp: wf_store_def intro: relabelled_tasks_wf)
  have fresh: "?k \<notin> fmdom' m"
  proof
    assume "?k \<in> fmdom' m"
    then obtain u where "fmlookup m ?k = Some u" by (auto simp: fmlookup_dom'_iff)
    with tw have "numbered ''task-'' (nextTask s) ?k" by (simp add: tasks_wf_def)
    then show False unfolding k by (simp add: numbered_fresh)
  qed
  have "tasks_wf (fmupd ?k t m) (taskOrder s @ [?k]) (Suc (nextTask s))"
    unfolding tasks_wf_def
  proof (intro conjI allI impI)
    show "ordered_table (fmupd ?k t m) (taskOrder s @ [?k])"
      using tw fresh by (simp add: tasks_wf_def ordered_table_insert)
    fix j u
    assume u: "fmlookup (fmupd ?k t m) j = Some u"
    show "task_ID u = j" and "task_ok u" using u tw t(1) by (auto simp: tasks_wf_def split: if_splits)
    show "numbered ''task-'' (Suc (nextTask s)) j"
    proof (cases "j = ?k")
      case True
      then show ?thesis by (simp only: k numbered_next)
    next
      case False
      with u tw show ?thesis by (auto simp: tasks_wf_def)
    qed
  qed
  moreover have "leases_wf (fmupd ?k t m) (leases s) (nextLease s)"
  proof -
    have lw: "leases_wf (tasks s) (leases s) (nextLease s)" using wf by (simp add: wf_store_def)
    have nr: "\<not> running (tasks s) ?k"
      using fresh relabelled_dom [OF m] by (auto simp: running_def fmlookup_dom'_iff split: option.splits)
    with lw have "get_lease s ?k = None" by (auto simp: leases_wf_def)
    with lw t(2) nr show ?thesis
      by (auto simp: leases_wf_def relabelled_running [OF m] relabelled_worker [OF m])
  qed
  moreover have "artifacts_wf (artifacts s) (artifactOrder s) (nextArtifact s)
      (insert ?k (fmdom' (tasks s)))"
    using wf by (auto simp: wf_store_def artifacts_wf_def)
  ultimately show ?thesis
    using wf d relabelled_dom [OF m] by (simp add: wf_store_def)
qed

lemma deps_wf_create:
  assumes d: "deps_wf m" and new: "task_ID t \<notin> fmdom' m" "task_ID t \<noteq> []"
    and dom: "set (task_Blocks t) \<subseteq> fmdom' m" "set (task_BlockedBy t) \<subseteq> fmdom' m"
    and link: "linkTaskDependencies it t now m = (m2, peers)"
  shows "deps_wf (fmupd (task_ID t) t m2)"
proof -
  have self: "t' = t" if "fmlookup m (task_ID t) = Some t'" for t'
    using that new(1) by (simp add: fmlookup_dom'_iff)
  have e: "blocked_of m2 b = blocked_of m b \<union> (if b \<in> set (task_Blocks t) then {task_ID t} else {})"
    "blocks_of m2 a = blocks_of m a \<union> (if a \<in> set (task_BlockedBy t) then {task_ID t} else {})" for a b
    using link_edges(2,3) [OF new(2) _ link] self dom new(1) by auto
  have "task_ID t \<notin> blocks_of m a" and "task_ID t \<notin> blocked_of m a" for a
    using deps_wf_dom [OF d] new(1) by auto
  with d dom new(1) show ?thesis
    unfolding deps_wf_def blocks_of_fmupd blocked_of_fmupd e by (auto split: if_splits)
qed

lemma wf_task_number: "wf_store s \<Longrightarrow> get_task s k = Some t \<Longrightarrow> numbered ''task-'' (nextTask s) k"
  by (simp add: wf_store_def tasks_wf_def)

lemma wf_task_fresh: "wf_store s \<Longrightarrow> get_task s (Sprintf_d ''task-'' (Suc (nextTask s))) = None"
  using wf_task_number numbered_fresh by (metis not_None_eq)

lemma new_task_simps [simp]:
  "task_ID (new_task n now req) = Sprintf_d ''task-'' n"
  "task_Blocks (new_task n now req) = ctr_Blocks req"
  "task_BlockedBy (new_task n now req) = ctr_BlockedBy req"
  "task_Status (new_task n now req) = TaskPending" "task_Attempt (new_task n now req) = 0"
  "task_MaxAttempts (new_task n now req) = ctr_MaxAttempts req"
  "task_Kind (new_task n now req) = ctr_Kind req" "task_Run (new_task n now req) = None"
  "task_Result (new_task n now req) = None"
  by (simp_all add: new_task_def clone_simps)

text \<open>What a creation does: refuse unknown dependencies, or add the task and the reverse edges.\<close>

lemma CreateTask_cases [consumes 1, case_names refused created]:
  assumes wf: "wf_store s"
  obtains
    (refused) e where "CreateTask it clk req s = (Inl e, s)"
      and "\<not> (set (ctr_Blocks req) \<subseteq> fmdom' (tasks s) \<and> set (ctr_BlockedBy req) \<subseteq> fmdom' (tasks s))"
  | (created) t m peers where "t = new_task (Suc (nextTask s)) (clk 0) req"
      and "CreateTask it clk req s = (Inr t, publishTaskUpdates peers (publishTaskCreated t
         (s\<lparr>nextTask := Suc (nextTask s), tasks := fmupd (task_ID t) t m,
            taskOrder := taskOrder s @ [task_ID t]\<rparr>)))"
      and "relabelled (tasks s) m" and "deps_wf (fmupd (task_ID t) t m)"
      and "set (ctr_Blocks req) \<subseteq> fmdom' (tasks s) \<and> set (ctr_BlockedBy req) \<subseteq> fmdom' (tasks s)"
proof (cases "validateTaskDependencies (ctr_Blocks req) (ctr_BlockedBy req) s")
  case (Some e)
  then show ?thesis
    using validate_None [of "ctr_Blocks req" "ctr_BlockedBy req" s]
    by (intro refused [of e]) (simp_all add: CreateTask_def)
next
  case None
  define t where "t = new_task (Suc (nextTask s)) (clk 0) req"
  obtain m peers where link: "linkTaskDependencies it t (clk 0) (tasks s) = (m, peers)" by fastforce
  have new: "task_ID t \<notin> fmdom' (tasks s)"
    using wf_task_fresh [OF wf] by (simp add: fmlookup_dom'_iff t_def)
  show ?thesis
  proof (rule created [OF t_def])
    show "deps_wf (fmupd (task_ID t) t m)"
      using wf None new link
      by (intro deps_wf_create) (auto simp: wf_store_def validate_None t_def)
    show "relabelled (tasks s) m"
      using link_edges(1) [OF _ _ link] new by (auto simp: fmlookup_dom'_iff t_def)
    show "CreateTask it clk req s = (Inr t, publishTaskUpdates peers (publishTaskCreated t
         (s\<lparr>nextTask := Suc (nextTask s), tasks := fmupd (task_ID t) t m,
            taskOrder := taskOrder s @ [task_ID t]\<rparr>)))"
      using None link by (simp add: CreateTask_def Let_def clone_simps t_def)
  qed (use None in \<open>simp add: validate_None\<close>)
qed

lemma wf_CreateTask:
  assumes wf: "wf_store s"
  shows "wf_store (snd (CreateTask it clk req s))"
  using wf
proof (cases rule: CreateTask_cases [where it = it and clk = clk and req = req])
  case (refused e)
  with wf show ?thesis by simp
next
  case (created t m peers)
  with wf_insert_task [OF wf _ created(3) _ _ created(4)] show ?thesis
    by (simp add: publishTaskCreated_def task_ok_def exhaustedAttempts_def)
qed

section \<open>Updating a task\<close>

lemma deps_wf_update:
  assumes d: "deps_wf m" and k: "fmlookup m k = Some t" "k \<noteq> []" "task_ID t' = k"
    and bl: "set (task_Blocks t) \<subseteq> set (task_Blocks t')" "set (task_Blocks t') \<subseteq> fmdom' m"
    and bb: "set (task_BlockedBy t) \<subseteq> set (task_BlockedBy t')" "set (task_BlockedBy t') \<subseteq> fmdom' m"
    and link: "linkTaskDependencies it t' now (fmupd k t' m) = (m2, peers)"
  shows "deps_wf m2"
proof -
  have e: "blocked_of m2 b = blocked_of (fmupd k t' m) b \<union> (if b \<in> set (task_Blocks t') then {k} else {})"
      "blocks_of m2 a = blocks_of (fmupd k t' m) a \<union>
        (if a \<in> set (task_BlockedBy t') \<or> a = k \<and> a \<in> set (task_Blocks t') then {k} else {})" for a b
    using link_edges(2,3) [OF _ _ link] k bl(2) bb(2) by auto
  have o: "blocks_of m k = set (task_Blocks t)" "blocked_of m k = set (task_BlockedBy t)"
    using k by (auto simp: blocks_of_def blocked_of_def)
  show ?thesis unfolding deps_wf_def
  proof (intro allI)
    fix a b
    have "b \<in> blocks_of m a \<longleftrightarrow> a \<in> blocked_of m b" using d by (simp add: deps_wf_def)
    then show "b \<in> blocks_of m2 a \<longleftrightarrow> a \<in> blocked_of m2 b"
      using o bl(1) bb(1) by (cases "a = k"; cases "b = k") (auto simp: e)
  qed
qed

lemma UpdateTask_relabels:
  assumes wf: "wf_store s"
  shows "(\<exists>e. UpdateTask it clk req s = (Inl e, s)) \<or>
    (\<exists>t m e ks. UpdateTask it clk req s = (Inr t, publishTaskUpdates ks (publish e (s\<lparr>tasks := m\<rparr>))) \<and>
       relabelled (tasks s) m \<and> deps_wf m \<and> fmlookup m (utr_ID req) = Some t)"
proof (cases "utr_ID req = [] \<or> get_task s (utr_ID req) = None \<or>
    validateTaskDependencies (utr_AddBlocks req) (utr_AddBlockedBy req) s \<noteq> None")
  case True
  then show ?thesis by (auto simp: UpdateTask_def split: option.splits)
next
  case False
  define k where "k = utr_ID req"
  from False obtain t where t: "get_task s k = Some t" and k: "k \<noteq> []" by (auto simp: k_def)
  define t' where "t' = t\<lparr>task_Subject := (case utr_Subject req of None \<Rightarrow> task_Subject t | Some x \<Rightarrow> x),
      task_Description := (case utr_Description req of None \<Rightarrow> task_Description t | Some x \<Rightarrow> x),
      task_Blocks := appendUniqueStrings (task_Blocks t) (utr_AddBlocks req),
      task_BlockedBy := appendUniqueStrings (task_BlockedBy t) (utr_AddBlockedBy req),
      task_Metadata := update_metadata (task_Metadata t) (utr_Metadata req)\<rparr>"
  obtain m peers where link: "linkTaskDependencies it t' (clk 0) (fmupd k t' (tasks s)) = (m, peers)"
    by fastforce
  have core: "same_core t t'" "task_ID t' = k"
    using wf_task_ID [OF wf t] by (auto simp: t'_def same_core_def)
  have dw: "deps_wf (tasks s)" using wf by (simp add: wf_store_def)
  have "set (task_Blocks t) \<subseteq> fmdom' (tasks s)" "set (task_BlockedBy t) \<subseteq> fmdom' (tasks s)"
    using deps_wf_dom [OF dw, of k] t by (auto simp: blocks_of_def blocked_of_def)
  with False have "deps_wf m"
    by (intro deps_wf_update [OF dw t k core(2) _ _ _ _ link])
      (auto simp: t'_def set_appendUnique validate_None)
  moreover have rel: "relabelled (tasks s) m"
    using link_edges(1) [OF _ _ link] relabelled_fmupd [OF relabelled_refl t core(1)] core(2) k
    by (auto intro: relabelled_trans)
  moreover obtain t1 where t1: "fmlookup m k = Some t1" "same_core t t1"
    using rel t by (auto simp: relabelled_def option_rel_Some1 dest!: spec [of _ k])
  moreover from t1 have "same_core t (t1\<lparr>task_UpdatedAt := clk 0\<rparr>)" by (simp add: same_core_def)
  ultimately have "relabelled (tasks s) (fmupd k (t1\<lparr>task_UpdatedAt := clk 0\<rparr>) m) \<and>
      deps_wf (fmupd k (t1\<lparr>task_UpdatedAt := clk 0\<rparr>) m)"
    using t by (auto intro: relabelled_fmupd deps_wf_same_edges)
  with False t t1 link show ?thesis
    by (intro disjI2 exI [of _ "t1\<lparr>task_UpdatedAt := clk 0\<rparr>"]
        exI [of _ "fmupd k (t1\<lparr>task_UpdatedAt := clk 0\<rparr>) m"])
      (auto simp: UpdateTask_def Let_def publishTaskUpdated_def clone_simps k_def [symmetric]
        t'_def [symmetric])
qed

lemma wf_UpdateTask:
  assumes wf: "wf_store s"
  shows "wf_store (snd (UpdateTask it clk req s))"
  using UpdateTask_relabels [OF wf, of it clk req] wf by (auto intro: wf_relabel)

section \<open>Deleting a task\<close>

lemma fold_fmdrop_lookup:
  "fmlookup (fold (\<lambda>a m. if P a then fmdrop a m else m) ks m) x =
     (if x \<in> set ks \<and> P x then None else fmlookup m x)"
  by (induction ks arbitrary: m) auto

definition owned_by :: "store \<Rightarrow> string \<Rightarrow> string \<Rightarrow> bool" where
  "owned_by s k a \<longleftrightarrow> (\<exists>x. fmlookup (artifacts s) a = Some x \<and> art_TaskID x = k)"

lemma deleteTaskArtifacts_eq:
  "deleteTaskArtifactsLocked k s =
     s\<lparr>artifacts := fold (\<lambda>a m. if owned_by s k a then fmdrop a m else m) (artifactOrder s) (artifacts s),
       artifactOrder := filter (\<lambda>a. \<not> owned_by s k a) (artifactOrder s)\<rparr>"
proof -
  have "(case fmlookup (artifacts s) a of None \<Rightarrow> False | Some x \<Rightarrow> art_TaskID x = k) = owned_by s k a" for a
    by (auto simp: owned_by_def split: option.splits)
  then show ?thesis by (simp add: deleteTaskArtifactsLocked_def Let_def)
qed

lemma deleteTaskArtifacts_simps [simp]:
  "tasks (deleteTaskArtifactsLocked k s) = tasks s" "taskOrder (deleteTaskArtifactsLocked k s) = taskOrder s"
  "leases (deleteTaskArtifactsLocked k s) = leases s" "nextTask (deleteTaskArtifactsLocked k s) = nextTask s"
  "nextLease (deleteTaskArtifactsLocked k s) = nextLease s"
  "nextRun (deleteTaskArtifactsLocked k s) = nextRun s"
  "commands (deleteTaskArtifactsLocked k s) = commands s"
  "commandOrder (deleteTaskArtifactsLocked k s) = commandOrder s"
  "nextCommand (deleteTaskArtifactsLocked k s) = nextCommand s"
  "nextArtifact (deleteTaskArtifactsLocked k s) = nextArtifact s"
  "eventBus (deleteTaskArtifactsLocked k s) = eventBus s"
  by (simp_all add: deleteTaskArtifacts_eq)

lemma deleteTaskArtifacts_wf:
  assumes "artifacts_wf (artifacts s) (artifactOrder s) n ts"
  shows "artifacts_wf (artifacts (deleteTaskArtifactsLocked k s))
     (artifactOrder (deleteTaskArtifactsLocked k s)) n (ts - {k})"
proof -
  have ord: "set (artifactOrder s) = fmdom' (artifacts s)"
    using assms by (auto simp: artifacts_wf_def ordered_table_def)
  let ?m = "artifacts (deleteTaskArtifactsLocked k s)"
  have l: "fmlookup ?m a = (if owned_by s k a then None else fmlookup (artifacts s) a)" for a
    by (auto simp: deleteTaskArtifacts_eq fold_fmdrop_lookup ord fmlookup_dom'_iff owned_by_def)
  have "fmdom' ?m = {a \<in> fmdom' (artifacts s). \<not> owned_by s k a}"
    by (auto simp: fmlookup_dom'_iff l split: if_splits)
  then have "ordered_table ?m (artifactOrder (deleteTaskArtifactsLocked k s))"
    using assms by (auto simp: artifacts_wf_def deleteTaskArtifacts_eq intro: ordered_table_filter)
  then show ?thesis
    using assms l by (auto simp: artifacts_wf_def owned_by_def split: if_splits)
qed

lemma set_removeString [simp]: "set (removeString xs k) = set xs - {k}"
  by (auto simp: removeString_def)

lemma unlink_core: "same_core t (unlink k now t)"
  by (simp add: same_core_def unlink_def)

lemma unlink_edges:
  "blocks_of (fmmap (unlink k now) (fmdrop k m)) a = (if a = k then {} else blocks_of m a - {k})"
  "blocked_of (fmmap (unlink k now) (fmdrop k m)) a = (if a = k then {} else blocked_of m a - {k})"
  by (cases "fmlookup m a"; simp add: blocks_of_def blocked_of_def unlink_def)+

lemma relabelled_unlink: "relabelled m (fmmap (unlink k now) m)"
  by (auto simp: relabelled_def option.rel_map intro: option.rel_refl_strong unlink_core)

definition delete_state :: "string \<Rightarrow> time \<Rightarrow> store \<Rightarrow> store" where
  "delete_state k now s =
     (deleteTaskArtifactsLocked k (s\<lparr>tasks := fmdrop k (tasks s), leases := fmdrop k (leases s),
        taskOrder := removeString (taskOrder s) k\<rparr>))
       \<lparr>tasks := fmmap (unlink k now) (fmdrop k (tasks s))\<rparr>"

lemma wf_delete_state:
  assumes wf: "wf_store s"
  shows "wf_store (delete_state k now s)"
proof -
  let ?m = "fmdrop k (tasks s)" and ?m' = "fmmap (unlink k now) (fmdrop k (tasks s))"
  have "tasks_wf ?m (removeString (taskOrder s) k) (nextTask s)"
    using wf by (auto simp: wf_store_def tasks_wf_def removeString_def intro: ordered_table_remove)
  then have "tasks_wf ?m' (removeString (taskOrder s) k) (nextTask s)"
    by (rule relabelled_tasks_wf [OF relabelled_unlink])
  moreover have "leases_wf ?m' (fmdrop k (leases s)) (nextLease s)"
    using wf by (auto simp: wf_store_def leases_wf_def relabelled_running [OF relabelled_unlink]
        relabelled_worker [OF relabelled_unlink]) (auto simp: running_def worker_of_def)
  moreover have "deps_wf ?m'"
    using wf by (auto simp: wf_store_def deps_wf_def unlink_edges)
  moreover have "fmdom' ?m' = fmdom' (tasks s) - {k}" by auto
  ultimately show ?thesis
    using wf deleteTaskArtifacts_wf [of "s\<lparr>tasks := ?m, leases := fmdrop k (leases s),
        taskOrder := removeString (taskOrder s) k\<rparr>" "nextArtifact s" "fmdom' (tasks s)" k]
    by (simp add: wf_store_def delete_state_def)
qed

lemma DeleteTask_eq:
  "DeleteTask it clk k s = (if get_task s k = None then (Inl (Sentinel ErrTaskNotFound), s)
     else (Inr (), publishTaskUpdates
       (filter (\<lambda>i. case fmlookup (fmdrop k (tasks s)) i of None \<Rightarrow> False | Some t \<Rightarrow> mentions k t)
          (it (map_keys (fmdrop k (tasks s)))))
       (publishTaskDeleted k (clk 1) (delete_state k (clk 0) s))))"
  by (auto simp: DeleteTask_def Let_def delete_state_def split: option.splits)

lemma wf_DeleteTask: "wf_store s \<Longrightarrow> wf_store (snd (DeleteTask it clk k s))"
  by (simp add: DeleteTask_eq publishTaskDeleted_def wf_delete_state)

end
