(* ===== verification/Orch_System.thy ===== *)
theory Orch_System
  imports Orch_Dependencies
begin

text \<open>
  The store as one state machine. Commands and artifacts keep the store well formed; the operations
  become the labels of a step function, whose runs from an empty store are the reachable states.
\<close>

section \<open>Commands and artifacts keep the store well formed\<close>

lemma wf_set_command:
  assumes wf: "wf_store s" and c: "get_command s k = Some c" and "cmd_ID c' = cmd_ID c" and "command_ok c'"
  shows "wf_store (set_command k c' s)"
proof -
  have "k \<in> fmdom' (commands s)" using c by (rule fmdom'I)
  with assms show ?thesis
    by (auto simp: wf_store_def commands_wf_def intro: ordered_table_overwrite)
qed

lemma wf_command_ok: "wf_store s \<Longrightarrow> get_command s k = Some c \<Longrightarrow> command_ok c"
  by (simp add: wf_store_def commands_wf_def)

lemma wf_command_ID: "wf_store s \<Longrightarrow> get_command s k = Some c \<Longrightarrow> cmd_ID c = k"
  by (simp add: wf_store_def commands_wf_def)

lemma wf_command_number:
  "wf_store s \<Longrightarrow> get_command s k = Some c \<Longrightarrow> numbered ''command-'' (nextCommand s) k"
  by (simp add: wf_store_def commands_wf_def)

lemma wf_command_fresh:
  "wf_store s \<Longrightarrow> get_command s (Sprintf_d ''command-'' (Suc (nextCommand s))) = None"
  using wf_command_number numbered_fresh by (metis not_None_eq)

lemma refresh_simps [simp]:
  "cmd_ID (refreshCommandTargetLocked s c) = cmd_ID c"
  "cmd_Status (refreshCommandTargetLocked s c) = cmd_Status c"
  "cmd_ClaimToken (refreshCommandTargetLocked s c) = cmd_ClaimToken c"
  "cmd_ClaimedBy (refreshCommandTargetLocked s c) = cmd_ClaimedBy c"
  "cmd_ClaimedAt (refreshCommandTargetLocked s c) = cmd_ClaimedAt c"
  "cmd_Kind (refreshCommandTargetLocked s c) = cmd_Kind c"
  "cmd_TaskID (refreshCommandTargetLocked s c) = cmd_TaskID c"
  by (simp_all add: refreshCommandTargetLocked_def Let_def
      split: option.split command_kind.split task_status.split)

lemma claim_command_simps [simp]:
  "cmd_ID (claim_command w now c) = cmd_ID c" "cmd_Status (claim_command w now c) = CommandClaimed"
  "cmd_ClaimedBy (claim_command w now c) = w" "cmd_ClaimedAt (claim_command w now c) = now"
  "cmd_ClaimToken (claim_command w now c) = cmd_ID c @ ''-claim-'' @ show_int (UnixNano now)"
  "cmd_TargetWorkerID (claim_command w now c) = cmd_TargetWorkerID c"
  "cmd_Kind (claim_command w now c) = cmd_Kind c" "cmd_TaskID (claim_command w now c) = cmd_TaskID c"
  by (simp_all add: claim_command_def)

lemma unclaim_simps [simp]:
  "cmd_ID (unclaim c) = cmd_ID c" "cmd_Status (unclaim c) = CommandPending"
  "cmd_ClaimToken (unclaim c) = []" "cmd_ClaimedBy (unclaim c) = []"
  "cmd_ClaimedAt (unclaim c) = zero_time"
  by (simp_all add: unclaim_def)

lemma wf_CreateCommand:
  assumes wf: "wf_store s"
  shows "wf_store (snd (CreateCommand clk req s))"
proof -
  have ins: "wf_store (s\<lparr>nextCommand := Suc (nextCommand s), commands := fmupd k c (commands s),
      commandOrder := commandOrder s @ [k]\<rparr>)"
    if k: "k = Sprintf_d ''command-'' (Suc (nextCommand s))" and c: "cmd_ID c = k" "command_ok c" for k c
  proof -
    have cw: "commands_wf (commands s) (commandOrder s) (nextCommand s)"
      using wf by (simp add: wf_store_def)
    have fresh: "k \<notin> fmdom' (commands s)"
      using wf_command_fresh [OF wf] k by (simp add: fmlookup_dom'_iff)
    have "commands_wf (fmupd k c (commands s)) (commandOrder s @ [k]) (Suc (nextCommand s))"
      unfolding commands_wf_def
    proof (intro conjI allI impI)
      show "ordered_table (fmupd k c (commands s)) (commandOrder s @ [k])"
        using cw fresh by (simp add: commands_wf_def ordered_table_insert)
      fix j d
      assume d: "fmlookup (fmupd k c (commands s)) j = Some d"
      show "cmd_ID d = j" and "command_ok d" using d cw c by (auto simp: commands_wf_def split: if_splits)
      show "numbered ''command-'' (Suc (nextCommand s)) j"
        using d cw k by (cases "j = k") (simp_all add: commands_wf_def numbered_Suc)
    qed
    with wf show ?thesis by (simp add: wf_store_def)
  qed
  show ?thesis
    using wf by (auto simp: CreateCommand_def Let_def publishCommandCreated_def command_ok_def
        intro!: ins split: option.split sum.split)
qed

lemma command_ok_claim: "cmd_ID c \<noteq> [] \<Longrightarrow> w \<noteq> [] \<Longrightarrow> command_ok (claim_command w now c)"
  by (simp add: command_ok_def)

lemma command_ok_refresh: "command_ok c \<Longrightarrow> command_ok (refreshCommandTargetLocked s c)"
  by (simp add: command_ok_def)

lemma wf_refresh:
  "wf_store s \<Longrightarrow> get_command s k = Some c \<Longrightarrow> wf_store (set_command k (refreshCommandTargetLocked s c) s)"
  by (rule wf_set_command) (auto intro: command_ok_refresh wf_command_ok)

lemma wf_claim_command:
  assumes wf: "wf_store s" and c: "get_command s k = Some c" and w: "w \<noteq> []"
  shows "wf_store (set_command k (claim_command w now (refreshCommandTargetLocked s c)) s)"
proof -
  have "cmd_ID c \<noteq> []" using wf_command_ID [OF wf c] wf_command_number [OF wf c] numbered_not_Nil by blast
  with w show ?thesis by (intro wf_set_command [OF wf c]) (auto intro: command_ok_claim)
qed

lemma wf_claim_first_command:
  "wf_store s \<Longrightarrow> w \<noteq> [] \<Longrightarrow> wf_store (snd (claim_first_command w now ks s))"
proof (induction ks arbitrary: s)
  case (Cons k ks)
  then show ?case
    by (auto simp: Let_def publishCommandClaimed_def intro: wf_claim_command wf_refresh
        split: option.split)
qed simp

lemma wf_ClaimPendingCommand: "wf_store s \<Longrightarrow> wf_store (snd (ClaimPendingCommand clk req s))"
  by (simp add: ClaimPendingCommand_def wf_claim_first_command)

lemma wf_ClaimCommand: "wf_store s \<Longrightarrow> wf_store (snd (ClaimCommand clk k req s))"
  by (auto simp: ClaimCommand_def Let_def publishCommandClaimed_def intro: wf_claim_command wf_refresh
      split: option.split)

lemma wf_HandleCommand: "wf_store s \<Longrightarrow> wf_store (snd (HandleCommand clk k token w now s))"
  by (auto simp: HandleCommand_def Let_def publishCommandHandled_def command_ok_def
      intro!: wf_set_command split: option.split)

lemma wf_unclaim: "wf_store s \<Longrightarrow> get_command s k = Some c \<Longrightarrow> wf_store (set_command k (unclaim c) s)"
  by (rule wf_set_command) (auto simp: command_ok_def)

lemma wf_ReleaseCommand: "wf_store s \<Longrightarrow> wf_store (snd (ReleaseCommand clk k token s))"
  by (auto simp: ReleaseCommand_def publishCommandReleased_def intro: wf_unclaim split: option.split)

lemma wf_recoverClaimedCommandLocked:
  "wf_store s \<Longrightarrow> wf_store (snd (recoverClaimedCommandLocked k before now s))"
  by (auto simp: recoverClaimedCommandLocked_def publishCommandReleased_def intro: wf_unclaim
      split: option.split)

lemma wf_recover_commands: "wf_store s \<Longrightarrow> wf_store (snd (recover_commands before now ks s))"
  by (induction ks arbitrary: s) (auto simp: split_beta wf_recoverClaimedCommandLocked)

lemma wf_CreateArtifact: "wf_store s \<Longrightarrow> wf_store (snd (CreateArtifact clk req s))"
proof (cases "car_TaskID req = [] \<or> get_task s (car_TaskID req) = None")
  case False
  then have "car_TaskID req \<in> fmdom' (tasks s)" by (auto simp: fmlookup_dom'_iff)
  moreover assume "wf_store s"
  ultimately show ?thesis
    using False wf_add_artifact [of s "\<lparr>art_ID = Sprintf_d ''artifact-'' (Suc (nextArtifact s)),
        art_TaskID = car_TaskID req, art_RunID = car_RunID req, art_Kind = car_Kind req,
        art_Name = car_Name req, art_ContentType = car_ContentType req, art_Body = car_Body req,
        art_Metadata = car_Metadata req, art_CreatedAt = clk 0\<rparr>"]
    by (simp add: CreateArtifact_def Let_def publishArtifactCreated_def clone_simps)
qed (auto simp: CreateArtifact_def)

section \<open>The state machine\<close>

text \<open>
  An operation of the store with its arguments, the readings of the clock it takes and the order in
  which it visits Go maps.
\<close>

datatype store_op =
    OpCreateTask iter_order clock create_task_request
  | OpUpdateTask iter_order clock update_task_request
  | OpDeleteTask iter_order clock string
  | OpClaimReadyTask clock claim_task_request
  | OpClaimTask clock string claim_task_request
  | OpCompleteTask clock string string "task_outcome option" time
  | OpFailTask clock string string "go_error option" time
  | OpCancelTask clock string string string time
  | OpRetryTask clock string string time
  | OpRenewLease clock string string duration time
  | OpReleaseLease clock string string
  | OpRecoverExpiredLeases iter_order clock time
  | OpRecoverExpiredLease clock string time
  | OpCreateCommand clock create_command_request
  | OpClaimPendingCommand clock claim_command_request
  | OpClaimCommand clock string claim_command_request
  | OpHandleCommand clock string string string time
  | OpReleaseCommand clock string string
  | OpRecoverClaimedCommands clock time time
  | OpRecoverClaimedCommand clock string time time
  | OpCreateArtifact clock create_artifact_request

fun exec :: "store_op \<Rightarrow> store \<Rightarrow> store" where
  "exec (OpCreateTask it clk req) s = snd (CreateTask it clk req s)"
| "exec (OpUpdateTask it clk req) s = snd (UpdateTask it clk req s)"
| "exec (OpDeleteTask it clk k) s = snd (DeleteTask it clk k s)"
| "exec (OpClaimReadyTask clk req) s = snd (ClaimReadyTask clk req s)"
| "exec (OpClaimTask clk k req) s = snd (ClaimTask clk k req s)"
| "exec (OpCompleteTask clk k token oc now) s = snd (CompleteTask clk k token oc now s)"
| "exec (OpFailTask clk k token e now) s = snd (FailTask clk k token e now s)"
| "exec (OpCancelTask clk k token reason now) s = snd (CancelTask clk k token reason now s)"
| "exec (OpRetryTask clk k reason now) s = snd (RetryTask clk k reason now s)"
| "exec (OpRenewLease clk k token ttl now) s = snd (RenewLease clk k token ttl now s)"
| "exec (OpReleaseLease clk k token) s = snd (ReleaseLease clk k token s)"
| "exec (OpRecoverExpiredLeases it clk now) s = snd (RecoverExpiredLeases it clk now s)"
| "exec (OpRecoverExpiredLease clk k now) s = snd (RecoverExpiredLease clk k now s)"
| "exec (OpCreateCommand clk req) s = snd (CreateCommand clk req s)"
| "exec (OpClaimPendingCommand clk req) s = snd (ClaimPendingCommand clk req s)"
| "exec (OpClaimCommand clk k req) s = snd (ClaimCommand clk k req s)"
| "exec (OpHandleCommand clk k token w now) s = snd (HandleCommand clk k token w now s)"
| "exec (OpReleaseCommand clk k token) s = snd (ReleaseCommand clk k token s)"
| "exec (OpRecoverClaimedCommands clk before now) s = snd (RecoverClaimedCommands clk before now s)"
| "exec (OpRecoverClaimedCommand clk k before now) s = snd (RecoverClaimedCommand clk k before now s)"
| "exec (OpCreateArtifact clk req) s = snd (CreateArtifact clk req s)"

definition initial :: "store \<Rightarrow> bool" where
  "initial s \<longleftrightarrow> s = NewStore None \<or> s = NewStore (Some [])"

inductive reachable :: "store \<Rightarrow> bool" where
  reachable_init: "initial s \<Longrightarrow> reachable s"
| reachable_step: "reachable s \<Longrightarrow> reachable (exec op s)"

lemma wf_NewStore: "wf_store (NewStore bus)"
  by (simp add: NewStore_def wf_store_def wf_parts running_def blocks_of_def blocked_of_def)

lemma wf_exec: "wf_store s \<Longrightarrow> wf_store (exec op s)"
  by (cases op) (simp_all add: wf_CreateTask wf_UpdateTask wf_DeleteTask wf_ClaimReadyTask wf_ClaimTask
      wf_CompleteTask wf_FailTask wf_CancelTask wf_RetryTask wf_RenewLease wf_ReleaseLease
      RecoverExpiredLeases_def RecoverExpiredLease_def wf_recover_leases wf_recoverExpiredLeaseLocked
      wf_CreateCommand wf_ClaimPendingCommand wf_ClaimCommand wf_HandleCommand wf_ReleaseCommand
      RecoverClaimedCommands_def RecoverClaimedCommand_def Let_def wf_recover_commands
      wf_recoverClaimedCommandLocked wf_CreateArtifact)

interpretation mem: step_system initial exec wf_store
  by unfold_locales (auto simp: initial_def wf_NewStore wf_exec)

lemma reachable_wf: "reachable s \<Longrightarrow> wf_store s"
  by (induction rule: reachable.induct) (auto intro: mem.inv_init mem.inv_step)

lemma reachable_run: "reachable s \<longleftrightarrow> (\<exists>s0 ops. initial s0 \<and> s = fold exec ops s0)"
proof
  show "reachable s \<Longrightarrow> \<exists>s0 ops. initial s0 \<and> s = fold exec ops s0"
  proof (induction rule: reachable.induct)
    case (reachable_init s)
    then show ?case by (intro exI [of _ s] exI [of _ "[]"]) simp
  next
    case (reachable_step s op)
    then obtain s0 ops where "initial s0" "s = fold exec ops s0" by blast
    then show ?case by (intro exI [of _ s0] exI [of _ "ops @ [op]"]) simp
  qed
  have "reachable s0 \<Longrightarrow> reachable (fold exec ops s0)" for s0 ops
    by (induction ops arbitrary: s0) (auto intro: reachable_step)
  then show "\<exists>s0 ops. initial s0 \<and> s = fold exec ops s0 \<Longrightarrow> reachable s"
    by (auto intro: reachable_init)
qed

end
