(* ===== verification/Orch_Lifecycle.thy ===== *)
theory Orch_Lifecycle
  imports Orch_System
begin

text \<open>
  The life cycle of a task: an abstract state machine over status, attempt count and attempt bound,
  the moves the operations of the store make, and the proof that every operation is a sequence of
  such moves. Identifiers of tasks and leases are handed out in increasing order and never again.
\<close>

section \<open>The abstract life cycle\<close>

type_synonym phase = "(task_status \<times> int \<times> int) option"

definition used_up :: "int \<Rightarrow> int \<Rightarrow> bool" where
  "used_up attempt limit \<longleftrightarrow> limit > 0 \<and> attempt \<ge> limit"

text \<open>What can happen to a task; each event has its guard on the phase.\<close>

datatype life_event =
    Creation | Claim | Exhaustion | Completion | Failure | Cancellation | Requeueing | Release | Retry | Deletion

inductive lifecycle :: "life_event \<Rightarrow> phase \<Rightarrow> phase \<Rightarrow> bool" where
  create: "lifecycle Creation None (Some (TaskPending, 0, mx))"
| claim: "st \<in> {TaskPending, TaskRunning} \<Longrightarrow> \<not> used_up a mx \<Longrightarrow>
    lifecycle Claim (Some (st, a, mx)) (Some (TaskRunning, a + 1, mx))"
| exhaust: "st \<in> {TaskRunning, TaskCanceled} \<Longrightarrow> used_up a mx \<Longrightarrow>
    lifecycle Exhaustion (Some (st, a, mx)) (Some (TaskFailed, a, mx))"
| complete: "lifecycle Completion (Some (TaskRunning, a, mx)) (Some (TaskCompleted, a, mx))"
| fail: "lifecycle Failure (Some (TaskRunning, a, mx)) (Some (TaskFailed, a, mx))"
| cancel: "st \<in> {TaskPending, TaskRunning} \<Longrightarrow>
    lifecycle Cancellation (Some (st, a, mx)) (Some (TaskCanceled, a, mx))"
| requeue: "\<not> used_up a mx \<Longrightarrow>
    lifecycle Requeueing (Some (TaskRunning, a, mx)) (Some (TaskPending, a, mx))"
| release: "0 < a \<Longrightarrow> lifecycle Release (Some (TaskRunning, a, mx)) (Some (TaskPending, a - 1, mx))"
| retry: "st \<in> {TaskFailed, TaskCanceled} \<Longrightarrow>
    lifecycle Retry (Some (st, a, mx)) (Some (TaskPending, 0, mx))"
| delete: "lifecycle Deletion (Some p) None"

inductive_cases lifecycle_from_completed: "lifecycle ev (Some (TaskCompleted, a, mx)) (Some q)"

text \<open>
  The events that an operation of the store may cause for the task \<open>k\<close>. Updates, renewals, commands and
  artifacts cause none, and an operation that names a task causes none for the others.
\<close>

fun events_of :: "store_op \<Rightarrow> string \<Rightarrow> life_event set" where
  "events_of (OpCreateTask it clk req) k = {Creation}"
| "events_of (OpDeleteTask it clk j) k = (if k = j then {Deletion} else {})"
| "events_of (OpClaimReadyTask clk req) k = {Claim, Exhaustion}"
| "events_of (OpClaimTask clk j req) k = (if k = j then {Claim, Exhaustion} else {})"
| "events_of (OpCompleteTask clk j token oc now) k = (if k = j then {Completion} else {})"
| "events_of (OpFailTask clk j token e now) k = (if k = j then {Failure, Requeueing} else {})"
| "events_of (OpCancelTask clk j token reason now) k = (if k = j then {Cancellation} else {})"
| "events_of (OpRetryTask clk j reason now) k = (if k = j then {Retry} else {})"
| "events_of (OpReleaseLease clk j token) k = (if k = j then {Release} else {})"
| "events_of (OpRecoverExpiredLeases it clk now) k = {Failure, Requeueing}"
| "events_of (OpRecoverExpiredLease clk j now) k = (if k = j then {Failure, Requeueing} else {})"
| "events_of op k = {}"

definition phase_of :: "task \<Rightarrow> task_status \<times> int \<times> int" where
  "phase_of t = (task_Status t, task_Attempt t, task_MaxAttempts t)"

definition abs_phase :: "store \<Rightarrow> string \<Rightarrow> phase" where
  "abs_phase s k = map_option phase_of (get_task s k)"

lemma used_up_exhausted: "used_up (task_Attempt t) (task_MaxAttempts t) = exhaustedAttempts t"
  by (simp add: used_up_def exhaustedAttempts_def)

section \<open>Moves of the concrete tasks\<close>

text \<open>
  One move of the entry of an existing task: a step of the life cycle, or a change of labels and edges
  only. An entry that is gone does not move.
\<close>

definition task_move :: "task option \<Rightarrow> task option \<Rightarrow> bool" where
  "task_move x y \<longleftrightarrow> (\<exists>t. x = Some t \<and> (y = None \<or> (\<exists>t'. y = Some t' \<and>
     ((\<exists>ev. lifecycle ev (Some (phase_of t)) (Some (phase_of t'))) \<or> same_core t t'))))"

definition moves :: "(string, task) go_map \<Rightarrow> (string, task) go_map \<Rightarrow> bool" where
  "moves m m' \<longleftrightarrow> (\<forall>k. task_move\<^sup>*\<^sup>* (fmlookup m k) (fmlookup m' k))"

lemma moves_refl [simp, intro]: "moves m m"
  by (simp add: moves_def)

lemma moves_trans [trans]: "moves m m' \<Longrightarrow> moves m' m'' \<Longrightarrow> moves m m''"
  unfolding moves_def by (blast intro: rtranclp_trans)

lemma moves_fmupd:
  "fmlookup m k = Some t \<Longrightarrow> lifecycle ev (Some (phase_of t)) (Some (phase_of t')) \<Longrightarrow> moves m (fmupd k t' m)"
  by (auto simp: moves_def task_move_def intro!: r_into_rtranclp)

lemma task_move_same_core: "rel_option same_core x y \<Longrightarrow> task_move\<^sup>*\<^sup>* x y"
  by (cases x; cases y) (auto simp: task_move_def)

lemma moves_relabelled: "relabelled m m' \<Longrightarrow> moves m m'"
  by (simp add: moves_def relabelled_def task_move_same_core)

lemma moves_fmdrop: "moves m (fmdrop k m)"
  unfolding moves_def
proof
  fix j
  show "task_move\<^sup>*\<^sup>* (fmlookup m j) (fmlookup (fmdrop k m) j)"
    by (cases "j = k"; cases "fmlookup m j") (auto simp: task_move_def intro!: r_into_rtranclp)
qed

lemma gone_stays_gone: "task_move\<^sup>*\<^sup>* None y \<Longrightarrow> y = None"
  by (induction rule: rtranclp_induct) (auto simp: task_move_def)

text \<open>A completed task keeps its result until it is deleted.\<close>

lemma completed_moves:
  assumes "task_move\<^sup>*\<^sup>* (Some t) y" and "task_Status t = TaskCompleted"
  shows "y = None \<or> (\<exists>t'. y = Some t' \<and> same_core t t')"
  using assms(1)
proof (induction rule: rtranclp_induct)
  case (step y z)
  then obtain u where u: "y = Some u" "same_core t u" by (auto simp: task_move_def)
  then have "phase_of u = (TaskCompleted, task_Attempt t, task_MaxAttempts t)"
    using assms(2) by (simp add: same_core_def phase_of_def)
  with step.hyps u have "z = None \<or> (\<exists>v. z = Some v \<and> same_core u v)"
    by (auto simp: task_move_def elim: lifecycle_from_completed)
  with u show ?case by (auto intro: same_core_trans)
qed auto

text \<open>
  How a store evolves: the tasks it knows make moves, task and lease identifiers are only ever taken
  from the counters, a new task starts pending, and a lease keeps its identifier for as long as it
  stays in the map.
\<close>

definition handed_out :: "string \<Rightarrow> nat \<Rightarrow> nat \<Rightarrow> string \<Rightarrow> bool" where
  "handed_out prefix lo hi k \<longleftrightarrow> (\<exists>n. lo < n \<and> n \<le> hi \<and> k = Sprintf_d prefix n)"

definition evolves :: "store \<Rightarrow> store \<Rightarrow> bool" where
  "evolves s s' \<longleftrightarrow> nextTask s \<le> nextTask s' \<and> nextLease s \<le> nextLease s' \<and>
     (\<forall>k. numbered ''task-'' (nextTask s) k \<longrightarrow> task_move\<^sup>*\<^sup>* (get_task s k) (get_task s' k)) \<and>
     (\<forall>k t'. get_task s' k = Some t' \<longrightarrow> get_task s k \<noteq> None \<or> handed_out ''task-'' (nextTask s) (nextTask s') k) \<and>
     (\<forall>k l'. get_lease s' k = Some l' \<longrightarrow>
        (\<exists>l. get_lease s k = Some l \<and> lease_ID l = lease_ID l') \<or>
        handed_out ''lease-'' (nextLease s) (nextLease s') (lease_ID l'))"

lemma handed_out_mono: "handed_out p lo hi k \<Longrightarrow> lo' \<le> lo \<Longrightarrow> hi \<le> hi' \<Longrightarrow> handed_out p lo' hi' k"
  by (force simp: handed_out_def)

lemma handed_out_next [simp, intro]: "handed_out p n (Suc n) (Sprintf_d p (Suc n))"
  by (auto simp: handed_out_def)

lemma handed_out_fresh: "numbered p lo k \<Longrightarrow> \<not> handed_out p lo hi k"
  by (auto simp: handed_out_def numbered_def)

lemma handed_out_numbered: "handed_out p lo hi k \<Longrightarrow> numbered p hi k"
  by (auto simp: handed_out_def numbered_def)

lemma evolves_refl [simp, intro]: "evolves s s"
  by (auto simp: evolves_def)

lemma evolves_mono: "evolves s s' \<Longrightarrow> nextTask s \<le> nextTask s' \<and> nextLease s \<le> nextLease s'"
  by (simp add: evolves_def)

lemma evolves_move:
  "evolves s s' \<Longrightarrow> numbered ''task-'' (nextTask s) k \<Longrightarrow> task_move\<^sup>*\<^sup>* (get_task s k) (get_task s' k)"
  by (simp add: evolves_def)

lemma evolves_task:
  "evolves s s' \<Longrightarrow> get_task s' k = Some t' \<Longrightarrow> get_task s k \<noteq> None \<or> handed_out ''task-'' (nextTask s) (nextTask s') k"
  by (simp add: evolves_def)

lemma evolves_lease:
  "evolves s s' \<Longrightarrow> get_lease s' k = Some l' \<Longrightarrow> (\<exists>l. get_lease s k = Some l \<and> lease_ID l = lease_ID l') \<or>
     handed_out ''lease-'' (nextLease s) (nextLease s') (lease_ID l')"
  by (simp add: evolves_def)

lemma evolves_trans [trans]:
  assumes e1: "evolves s s'" and e2: "evolves s' s''"
  shows "evolves s s''"
  unfolding evolves_def
proof (intro conjI allI impI)
  note mono = evolves_mono [OF e1] evolves_mono [OF e2]
  show "nextTask s \<le> nextTask s''" "nextLease s \<le> nextLease s''" using mono by auto
  show "task_move\<^sup>*\<^sup>* (get_task s k) (get_task s'' k)" if "numbered ''task-'' (nextTask s) k" for k
    using that mono by (blast intro: rtranclp_trans evolves_move [OF e1] evolves_move [OF e2] numbered_mono)
  show "get_task s k \<noteq> None \<or> handed_out ''task-'' (nextTask s) (nextTask s'') k" if t'': "get_task s'' k = Some t''" for k t''
    using evolves_task [OF e2 t''] evolves_task [OF e1, of k] mono by (cases "get_task s' k") (auto intro: handed_out_mono)
  show "(\<exists>l. get_lease s k = Some l \<and> lease_ID l = lease_ID l'') \<or>
      handed_out ''lease-'' (nextLease s) (nextLease s'') (lease_ID l'')"
    if l'': "get_lease s'' k = Some l''" for k l''
    using evolves_lease [OF e2 l'']
  proof (elim disjE exE conjE)
    fix l'
    assume "get_lease s' k = Some l'" and "lease_ID l' = lease_ID l''"
    with evolves_lease [OF e1, of k l'] mono show ?thesis by (auto intro: handed_out_mono)
  qed (use mono in \<open>blast intro: handed_out_mono\<close>)
qed

text \<open>Edits that take no new identifier.\<close>

lemma evolves_edit:
  assumes "moves (tasks s) (tasks s')" and "\<And>k. get_task s' k \<noteq> None \<Longrightarrow> get_task s k \<noteq> None"
    and "nextTask s' = nextTask s" and "nextLease s' = nextLease s"
    and "\<And>k l'. get_lease s' k = Some l' \<Longrightarrow> \<exists>l. get_lease s k = Some l \<and> lease_ID l = lease_ID l'"
  shows "evolves s s'"
  using assms by (auto simp: evolves_def moves_def)

lemma evolves_frame:
  "tasks s' = tasks s \<Longrightarrow> leases s' = leases s \<Longrightarrow> nextTask s' = nextTask s \<Longrightarrow> nextLease s' = nextLease s \<Longrightarrow>
   evolves s s'"
  by (simp add: evolves_def)

lemma evolves_publish [simp]: "evolves s (publish e s') = evolves s s'"
  by (simp add: evolves_def)

lemma evolves_publish_more [simp]:
  "evolves s (publishTaskUpdates ks s') = evolves s s'"
  "evolves s (publishTaskClaimed t l s') = evolves s s'"
  by (simp_all add: evolves_def)

lemma evolves_leave:
  assumes "get_task s k = Some t" and "lifecycle ev (Some (phase_of t)) (Some (phase_of t'))"
  shows "evolves s (s\<lparr>tasks := fmupd k t' (tasks s), leases := fmdrop k (leases s)\<rparr>)"
proof (rule evolves_edit)
  show "moves (tasks s) (tasks (s\<lparr>tasks := fmupd k t' (tasks s), leases := fmdrop k (leases s)\<rparr>))"
    using assms by (simp add: moves_fmupd)
qed (use assms in \<open>auto split: if_splits\<close>)

section \<open>One event per task\<close>

text \<open>
  \<open>acts A s s'\<close>: the phase of every task is as before, or one of the events \<open>A\<close> allows has happened to it.
\<close>

definition acts :: "(string \<Rightarrow> life_event set) \<Rightarrow> store \<Rightarrow> store \<Rightarrow> bool" where
  "acts A s s' \<longleftrightarrow> (\<forall>k. abs_phase s' k = abs_phase s k \<or>
     (\<exists>ev \<in> A k. lifecycle ev (abs_phase s k) (abs_phase s' k)))"

abbreviation only :: "string \<Rightarrow> life_event set \<Rightarrow> string \<Rightarrow> life_event set" where
  "only k E \<equiv> (\<lambda>j. if j = k then E else {})"

definition progress :: "(string \<Rightarrow> life_event set) \<Rightarrow> store \<Rightarrow> store \<Rightarrow> bool" where
  "progress A s s' \<longleftrightarrow> evolves s s' \<and> acts A s s'"

lemma acts_seq:
  assumes "acts A s s1" and "acts B s1 s2" and "\<And>k. A k = {} \<or> B k = {}"
  shows "acts (\<lambda>k. A k \<union> B k) s s2"
  unfolding acts_def
proof
  fix k
  from assms(1,2) [unfolded acts_def, rule_format, of k] assms(3) [of k]
  show "abs_phase s2 k = abs_phase s k \<or> (\<exists>ev \<in> A k \<union> B k. lifecycle ev (abs_phase s k) (abs_phase s2 k))" by auto
qed

lemma acts_mono: "acts A s s' \<Longrightarrow> (\<And>k. A k \<subseteq> B k) \<Longrightarrow> acts B s s'"
  unfolding acts_def by blast

lemma progress_refl [simp, intro]: "progress A s s"
  by (simp add: progress_def acts_def)

lemma progress_evolves: "progress A s s' \<Longrightarrow> evolves s s'"
  by (simp add: progress_def)

lemma progress_publish [simp]:
  "progress A s (publish e s') = progress A s s'" "progress A s (publishTaskUpdates ks s') = progress A s s'"
  "progress A s (publishTaskClaimed t l s') = progress A s s'"
  "progress A s (createOutcomeArtifactsLocked t specs at s') = progress A s s'"
  by (simp_all add: progress_def acts_def abs_phase_def evolves_def)

lemma progress_leave:
  assumes "get_task s k = Some t" and "lifecycle ev (Some (phase_of t)) (Some (phase_of t'))" and "ev \<in> A k"
  shows "progress A s (s\<lparr>tasks := fmupd k t' (tasks s), leases := fmdrop k (leases s)\<rparr>)"
  using evolves_leave [OF assms(1,2)] assms by (auto simp: progress_def acts_def abs_phase_def)

lemma relabelled_phase: "relabelled (tasks s) m \<Longrightarrow> map_option phase_of (fmlookup m k) = abs_phase s k"
  by (auto simp: relabelled_def abs_phase_def same_core_def phase_of_def dest!: spec [of _ k] elim: option.rel_cases)

lemma evolves_relabel: "relabelled (tasks s) m \<Longrightarrow> evolves s (s\<lparr>tasks := m\<rparr>)"
  by (rule evolves_edit) (auto intro: moves_relabelled dest: relabelled_Some)

lemma progress_relabel: "relabelled (tasks s) m \<Longrightarrow> progress A s (s\<lparr>tasks := m\<rparr>)"
  using relabelled_phase [of s m] by (simp add: progress_def evolves_relabel acts_def abs_phase_def)

section \<open>Every operation is a step of the life cycle\<close>

lemma progress_claimTaskLocked:
  assumes wf: "wf_store s"
  shows "progress (only k {Claim, Exhaustion}) s (snd (claimTaskLocked k req now s))"
  using wf
proof (cases rule: claimTaskLocked_cases [where k = k and req = req and now = now])
  case (refused e)
  then show ?thesis by simp
next
  case (exhausted t)
  have "lifecycle Exhaustion (Some (phase_of t)) (Some (phase_of (exhaust_task now t)))"
    using exhausted(2,3) by (auto simp: phase_of_def used_up_exhausted intro!: lifecycle.exhaust)
  with exhausted progress_leave [OF exhausted(1)] show ?thesis by (simp add: publishTaskFailed_def)
next
  case (claimed t t' l)
  have l: "lifecycle Claim (Some (phase_of t)) (Some (phase_of t'))"
    using claimed(2,3,8) by (auto simp: phase_of_def used_up_exhausted intro!: lifecycle.claim)
  with claimed(1) have "task_move\<^sup>*\<^sup>* (get_task s k) (Some t')"
    by (auto simp: task_move_def intro!: r_into_rtranclp)
  with claimed(1,8-10) l show ?thesis by (simp add: progress_def evolves_def acts_def abs_phase_def)
qed

text \<open>A scan visits every task once.\<close>

lemma progress_claim_first:
  assumes "wf_store s" and "distinct ks"
  shows "progress (\<lambda>k. if k \<in> set ks then {Claim, Exhaustion} else {}) s (snd (claim_first req now ks s))"
  using assms
proof (induction ks arbitrary: s)
  case (Cons k ks)
  obtain r s1 where r: "claimTaskLocked k req now s = (r, s1)" by fastforce
  have wf1: "wf_store s1" and one: "progress (only k {Claim, Exhaustion}) s s1"
    using wf_claimTaskLocked [OF Cons.prems(1), of k req now] progress_claimTaskLocked [OF Cons.prems(1), of k req now] r
    by auto
  have rest: "progress (\<lambda>j. if j \<in> set ks then {Claim, Exhaustion} else {}) s1 (snd (claim_first req now ks s1))"
    using Cons.IH [OF wf1] Cons.prems(2) by simp
  have all: "acts (\<lambda>j. if j \<in> set (k # ks) then {Claim, Exhaustion} else {}) s s2"
    if "acts (\<lambda>j. if j \<in> set ks then {Claim, Exhaustion} else {}) s1 s2" for s2
  proof (rule acts_mono)
    show "acts (\<lambda>j. only k {Claim, Exhaustion} j \<union> (if j \<in> set ks then {Claim, Exhaustion} else {})) s s2"
      using one Cons.prems(2) that by (intro acts_seq [where ?s1.0 = s1]) (auto simp: progress_def)
  qed auto
  have "acts (\<lambda>j. if j \<in> set ks then {Claim, Exhaustion} else {}) s1 s1" by (simp add: acts_def)
  with r one rest all show ?case
    by (cases r) (auto simp: progress_def intro: evolves_trans)
qed simp

lemma evolves_insert:
  assumes m: "relabelled (tasks s) m" and tid: "task_ID t = Sprintf_d ''task-'' (Suc (nextTask s))"
  shows "evolves s (s\<lparr>nextTask := Suc (nextTask s), tasks := fmupd (task_ID t) t m, taskOrder := ks\<rparr>)" (is "evolves s ?s'")
  unfolding evolves_def
proof (intro conjI allI impI)
  fix k t'
  from moves_relabelled [OF m] have mv: "task_move\<^sup>*\<^sup>* (get_task s k) (fmlookup m k)" by (simp add: moves_def)
  show "task_move\<^sup>*\<^sup>* (get_task s k) (get_task ?s' k)" if "numbered ''task-'' (nextTask s) k"
    using that mv tid numbered_fresh by auto
  show "get_task s k \<noteq> None \<or> handed_out ''task-'' (nextTask s) (nextTask ?s') k" if "get_task ?s' k = Some t'"
    using that relabelled_Some [OF m, of k t'] tid by (cases "k = task_ID t") auto
qed auto

lemma progress_CreateTask:
  assumes wf: "wf_store s"
  shows "progress (\<lambda>_. {Creation}) s (snd (CreateTask it clk req s))"
  using wf
proof (cases rule: CreateTask_cases [where it = it and clk = clk and req = req])
  case (refused e)
  then show ?thesis by simp
next
  case (created t m peers)
  have ph: "phase_of t = (TaskPending, 0, ctr_MaxAttempts req)" using created(1) by (simp add: phase_of_def)
  let ?s' = "s\<lparr>nextTask := Suc (nextTask s), tasks := fmupd (task_ID t) t m,
      taskOrder := taskOrder s @ [task_ID t]\<rparr>"
  have tid: "task_ID t = Sprintf_d ''task-'' (Suc (nextTask s))" using created(1) by simp
  have "abs_phase s (task_ID t) = None" using wf_task_fresh [OF wf] tid by (simp add: abs_phase_def)
  moreover have "abs_phase ?s' j = (if j = task_ID t then Some (phase_of t) else abs_phase s j)" for j
    using relabelled_phase [OF created(3), of j] by (auto simp: abs_phase_def)
  ultimately have "acts (\<lambda>_. {Creation}) s ?s'" by (auto simp: acts_def ph intro: lifecycle.create)
  with evolves_insert [OF created(3) tid] created(2) show ?thesis by (simp only: snd_conv progress_publish publishTaskCreated_def) (simp add: progress_def)
qed

lemma progress_UpdateTask:
  assumes wf: "wf_store s"
  shows "progress A s (snd (UpdateTask it clk req s))"
  using UpdateTask_relabels [OF wf, of it clk req] by (auto intro: progress_relabel)

lemma progress_DeleteTask: "progress (only k {Deletion}) s (snd (DeleteTask it clk k s))"
proof -
  have "moves (tasks s) (fmmap (unlink k (clk 0)) (fmdrop k (tasks s)))"
    using moves_fmdrop relabelled_unlink by (rule moves_trans [OF _ moves_relabelled])
  then have "evolves s (delete_state k (clk 0) s)"
    by (intro evolves_edit) (auto simp: delete_state_def split: if_splits)
  moreover have "abs_phase (delete_state k (clk 0) s) j = (if j = k then None else abs_phase s j)" for j
    using relabelled_unlink [of "fmdrop k (tasks s)" k "clk 0", THEN relabelled_phase [of "s\<lparr>tasks := fmdrop k (tasks s)\<rparr>", simplified]]
    by (simp add: abs_phase_def delete_state_def)
  then have "acts (only k {Deletion}) s (delete_state k (clk 0) s)"
    by (auto simp: acts_def intro: lifecycle.delete) (cases "abs_phase s k"; simp add: lifecycle.delete)
  ultimately have "progress (only k {Deletion}) s (delete_state k (clk 0) s)" by (simp add: progress_def)
  then show ?thesis by (simp add: DeleteTask_eq publishTaskDeleted_def)
qed

lemma progress_requeue:
  assumes wf: "wf_store s" and t: "get_task s k = Some t" and run: "task_Status t = TaskRunning"
    and ex: "rollback \<or> \<not> exhaustedAttempts t"
    and q: "requeueTaskLocked rd t k now rollback s = (x, t1, s1)"
    and A: "(if rollback then Release else Requeueing) \<in> A k"
  shows "progress A s (set_task k (t1\<lparr>task_LastError := e\<rparr>) s1)"
proof -
  have pos: "0 < task_Attempt t" using wf_task_ok [OF wf t] run by (simp add: task_ok_def)
  have "phase_of (t1\<lparr>task_LastError := e\<rparr>) =
      (TaskPending, if rollback then task_Attempt t - 1 else task_Attempt t, task_MaxAttempts t)"
    using q pos by (auto simp: requeueTaskLocked_def phase_of_def)
  with run ex pos have "lifecycle (if rollback then Release else Requeueing) (Some (phase_of t))
      (Some (phase_of (t1\<lparr>task_LastError := e\<rparr>)))"
    by (auto simp: phase_of_def used_up_exhausted [symmetric] intro!: lifecycle.intros)
  moreover from q have "set_task k (t1\<lparr>task_LastError := e\<rparr>) s1 =
      s\<lparr>tasks := fmupd k (t1\<lparr>task_LastError := e\<rparr>) (tasks s), leases := fmdrop k (leases s)\<rparr>"
    by (auto simp: requeueTaskLocked_def)
  ultimately show ?thesis using progress_leave [where A = A, OF t] A by simp
qed

lemma progress_CompleteTask:
  assumes wf: "wf_store s"
  shows "progress (only k {Completion}) s (snd (CompleteTask clk k token oc now s))"
proof (cases "validateLeaseLocked (clk 0) k token now s")
  case (Inl e)
  then show ?thesis by (simp add: CompleteTask_def)
next
  case (Inr tl)
  obtain t l where tl: "tl = (t, l)" by (cases tl)
  with Inr have t: "get_task s k = Some t" and l: "get_lease s k = Some l"
    by (auto simp: validateLeaseLocked_Inr)
  have lk: "lease_TaskID l = k" and run: "task_Status t = TaskRunning"
    using wf_lease_TaskID [OF wf l] wf_lease_running [OF wf, of k] l t by auto
  have "progress (only k {Completion}) s (s\<lparr>tasks := fmupd k t' (tasks s), leases := fmdrop k (leases s)\<rparr>)"
    if "phase_of t' = (TaskCompleted, task_Attempt t, task_MaxAttempts t)" for t'
    using run that by (intro progress_leave [OF t]) (auto simp: phase_of_def intro: lifecycle.complete)
  then show ?thesis
    using Inr tl lk by (cases oc) (auto simp: CompleteTask_def Let_def publishTaskCompleted_def phase_of_def)
qed

lemma progress_FailTask:
  assumes wf: "wf_store s"
  shows "progress (only k {Failure, Requeueing}) s (snd (FailTask clk k token runErr now s))"
proof (cases "validateLeaseLocked (clk 0) k token now s")
  case (Inl e)
  then show ?thesis by (simp add: FailTask_def)
next
  case (Inr tl)
  obtain t l where tl: "tl = (t, l)" by (cases tl)
  with Inr have t: "get_task s k = Some t" and l: "get_lease s k = Some l"
    by (auto simp: validateLeaseLocked_Inr)
  have lk: "lease_TaskID l = k" and run: "task_Status t = TaskRunning"
    using wf_lease_TaskID [OF wf l] wf_lease_running [OF wf, of k] l t by auto
  have f: "progress (only k {Failure, Requeueing}) s (s\<lparr>tasks := fmupd k t' (tasks s), leases := fmdrop k (leases s)\<rparr>)"
    if "phase_of t' = (TaskFailed, task_Attempt t, task_MaxAttempts t)" for t'
    using run that by (intro progress_leave [OF t]) (auto simp: phase_of_def intro: lifecycle.fail)
  obtain x t1 s1 where q: "requeueTaskLocked (clk 1) t k now False s = (x, t1, s1)"
    by (cases "requeueTaskLocked (clk 1) t k now False s") auto
  show ?thesis
    using Inr tl lk q f progress_requeue [OF wf t run _ q]
    by (cases x) (auto simp: FailTask_def Let_def publishTaskRequeued_def publishTaskFailed_def phase_of_def)
qed

lemma progress_CancelTask: "progress (only k {Cancellation}) s (snd (CancelTask clk k token reason now s))"
proof (cases "get_task s k")
  case None
  then show ?thesis by (simp add: CancelTask_def)
next
  case (Some t)
  have "progress (only k {Cancellation}) s (s\<lparr>tasks := fmupd k t' (tasks s), leases := fmdrop k (leases s)\<rparr>)"
    if "phase_of t' = (TaskCanceled, task_Attempt t, task_MaxAttempts t)"
      "task_Status t \<in> {TaskPending, TaskRunning}" for t'
    using that by (intro progress_leave [OF Some]) (auto simp: phase_of_def intro: lifecycle.cancel)
  with Some show ?thesis
    by (auto simp: CancelTask_def Let_def publishTaskCanceled_def phase_of_def
        split: option.splits task_status.splits)
qed

lemma progress_RetryTask: "progress (only k {Retry}) s (snd (RetryTask clk k reason now s))"
proof (cases "get_task s k")
  case None
  then show ?thesis by (simp add: RetryTask_def)
next
  case (Some t)
  have "progress (only k {Retry}) s (s\<lparr>tasks := fmupd k t' (tasks s), leases := fmdrop k (leases s)\<rparr>)"
    if "phase_of t' = (TaskPending, 0, task_MaxAttempts t)"
      "task_Status t \<in> {TaskFailed, TaskCanceled}" for t'
    using that by (intro progress_leave [OF Some]) (auto simp: phase_of_def intro: lifecycle.retry)
  with Some show ?thesis
    by (auto simp: RetryTask_def Let_def publishTaskRequeued_def phase_of_def)
qed

lemma progress_RenewLease: "progress A s (snd (RenewLease clk k token ttl now s))"
proof -
  have "evolves s (s\<lparr>leases := fmupd k (l\<lparr>lease_ExpiresAt := x\<rparr>) (leases s)\<rparr>)"
    if "get_lease s k = Some l" for l x
    using that by (intro evolves_edit) (auto split: if_splits)
  then have "progress A s (s\<lparr>leases := fmupd k (l\<lparr>lease_ExpiresAt := x\<rparr>) (leases s)\<rparr>)"
    if "get_lease s k = Some l" for l x
    using that by (simp add: progress_def acts_def abs_phase_def)
  then show ?thesis
    by (auto simp: RenewLease_def Let_def publishLeaseRenewed_def split: option.splits)
qed

lemma progress_ReleaseLease:
  assumes wf: "wf_store s"
  shows "progress (only k {Release}) s (snd (ReleaseLease clk k token s))"
proof (cases "get_lease s k")
  case None
  then show ?thesis by (simp add: ReleaseLease_def)
next
  case (Some l)
  with wf obtain t where t: "get_task s k = Some t" and run: "task_Status t = TaskRunning"
    by (blast elim: wf_lease_task)
  obtain x t1 s1 where q: "requeueTaskLocked (clk 2) t k (clk 1) True s = (x, t1, s1)"
    by (cases "requeueTaskLocked (clk 2) t k (clk 1) True s") auto
  from progress_requeue [OF wf t run _ q, where e = "task_LastError t1" and A = "only k {Release}"] have "progress (only k {Release}) s (set_task k t1 s1)" by simp
  with Some t run q show ?thesis
    by (cases x) (auto simp: ReleaseLease_def Let_def publishLeaseReleased_def publishTaskRequeued_def)
qed

lemma progress_recoverExpiredLeaseLocked:
  assumes wf: "wf_store s"
  shows "progress (only k {Failure, Requeueing}) s (snd (recoverExpiredLeaseLocked rd k now s))"
  using wf
proof (cases rule: recoverExpiredLeaseLocked_cases [where rd = rd and k = k and now = now])
  case kept
  then show ?thesis by simp
next
  case (failed t l)
  have "progress (only k {Failure, Requeueing}) s (s\<lparr>tasks := fmupd k t' (tasks s), leases := fmdrop k (leases s)\<rparr>)"
    if "phase_of t' = (TaskFailed, task_Attempt t, task_MaxAttempts t)" for t'
    using failed(4) that
    by (intro progress_leave [OF failed(3)]) (auto simp: phase_of_def intro: lifecycle.fail)
  with failed(6) show ?thesis
    by (simp add: Let_def publishTaskFailed_def publishLeaseReleased_def phase_of_def)
next
  case (requeued t l)
  obtain x t1 s1 where q: "requeueTaskLocked rd t k now False s = (x, t1, s1)"
    by (cases "requeueTaskLocked rd t k now False s") auto
  then have "s1 = drop_lease k s" by (simp add: requeueTaskLocked_def)
  with progress_requeue [OF wf requeued(3,4) _ q, where e = "''lease expired''" and A = "only k {Failure, Requeueing}"] requeued(5,6) q show ?thesis
    by (simp add: Let_def publishTaskRequeued_def publishLeaseReleased_def)
qed

text \<open>
  A sweep may visit a task again, but then its lease is gone; \<open>recovers\<close> composes for that reason.
\<close>

definition recovers :: "store \<Rightarrow> store \<Rightarrow> bool" where
  "recovers s s' \<longleftrightarrow> (\<forall>k. abs_phase s' k = abs_phase s k \<and> (get_lease s k = None \<longrightarrow> get_lease s' k = None) \<or>
     get_lease s k \<noteq> None \<and> get_lease s' k = None \<and>
     (\<exists>ev \<in> {Failure, Requeueing}. lifecycle ev (abs_phase s k) (abs_phase s' k)))"

lemma recovers_trans: "recovers s s1 \<Longrightarrow> recovers s1 s2 \<Longrightarrow> recovers s s2"
  unfolding recovers_def by (metis (no_types, lifting))

lemma recovers_one:
  assumes wf: "wf_store s"
  shows "recovers s (snd (recoverExpiredLeaseLocked rd k now s))"
proof -
  let ?s' = "snd (recoverExpiredLeaseLocked rd k now s)"
  have p: "acts (only k {Failure, Requeueing}) s ?s'"
    using progress_recoverExpiredLeaseLocked [OF wf] by (simp add: progress_def)
  have "abs_phase ?s' = abs_phase s \<and> leases ?s' = leases s \<or> get_lease s k \<noteq> None \<and> leases ?s' = fmdrop k (leases s)"
    using wf by (cases rule: recoverExpiredLeaseLocked_cases [where rd = rd and k = k and now = now])
      (simp_all add: Let_def publish_defs)
  then show ?thesis
  proof
    assume *: "get_lease s k \<noteq> None \<and> leases ?s' = fmdrop k (leases s)"
    show ?thesis unfolding recovers_def
    proof
      fix j
      show "abs_phase ?s' j = abs_phase s j \<and> (get_lease s j = None \<longrightarrow> get_lease ?s' j = None) \<or>
        get_lease s j \<noteq> None \<and> get_lease ?s' j = None \<and>
        (\<exists>ev \<in> {Failure, Requeueing}. lifecycle ev (abs_phase s j) (abs_phase ?s' j))"
        using p [unfolded acts_def, rule_format, of j] * by (cases "j = k") auto
    qed
  qed (simp add: recovers_def)
qed

lemma progress_recover_leases: "wf_store s \<Longrightarrow> progress (\<lambda>_. {Failure, Requeueing}) s (snd (recover_leases rd now ks s))"
proof -
  have "evolves s (snd (recover_leases rd now ks s)) \<and> recovers s (snd (recover_leases rd now ks s))" if "wf_store s"
    using that
  proof (induction ks arbitrary: s)
    case Nil
    then show ?case by (simp add: recovers_def)
  next
    case (Cons k ks)
    with wf_recoverExpiredLeaseLocked [OF Cons.prems, of rd k now] recovers_one [OF Cons.prems, of rd k now]
      progress_recoverExpiredLeaseLocked [OF Cons.prems, of k rd now, THEN progress_evolves] show ?case
      by (auto simp: split_beta intro: evolves_trans recovers_trans)
  qed
  then show "wf_store s \<Longrightarrow> ?thesis" unfolding progress_def acts_def recovers_def by blast
qed

text \<open>Command and artifact operations do not touch tasks or leases.\<close>

definition same_tasks :: "store \<Rightarrow> store \<Rightarrow> bool" where
  "same_tasks s s' \<longleftrightarrow> tasks s' = tasks s \<and> leases s' = leases s \<and> nextTask s' = nextTask s \<and>
     nextLease s' = nextLease s \<and> nextRun s' = nextRun s \<and> taskOrder s' = taskOrder s"

lemma same_tasks_refl [simp]: "same_tasks s s"
  by (simp add: same_tasks_def)

lemma same_tasks_edits [simp]:
  "same_tasks s (publish e s') = same_tasks s s'"
  "same_tasks s (s'\<lparr>commands := cm\<rparr>) = same_tasks s s'"
  "same_tasks s (s'\<lparr>commandOrder := co\<rparr>) = same_tasks s s'"
  "same_tasks s (s'\<lparr>nextCommand := nc\<rparr>) = same_tasks s s'"
  "same_tasks s (s'\<lparr>artifacts := am\<rparr>) = same_tasks s s'"
  "same_tasks s (s'\<lparr>artifactOrder := ao\<rparr>) = same_tasks s s'"
  "same_tasks s (s'\<lparr>nextArtifact := na\<rparr>) = same_tasks s s'"
  by (simp_all add: same_tasks_def)

lemma same_tasks_evolves: "same_tasks s s' \<Longrightarrow> evolves s s'"
  by (auto simp: same_tasks_def intro: evolves_frame)

lemma same_tasks_claim_first_command:
  "same_tasks s0 s \<Longrightarrow> same_tasks s0 (snd (claim_first_command w now ks s))"
  by (induction ks arbitrary: s)
    (auto simp: Let_def publishCommandClaimed_def split: option.split)

lemma same_tasks_recoverClaimed:
  "same_tasks s0 s \<Longrightarrow> same_tasks s0 (snd (recoverClaimedCommandLocked k before now s))"
  by (auto simp: recoverClaimedCommandLocked_def publishCommandReleased_def split: option.split)

lemma same_tasks_recover_commands:
  "same_tasks s0 s \<Longrightarrow> same_tasks s0 (snd (recover_commands before now ks s))"
  by (induction ks arbitrary: s) (auto simp: split_beta same_tasks_recoverClaimed)

lemmas command_op_defs = CreateCommand_def ClaimPendingCommand_def ClaimCommand_def HandleCommand_def
  ReleaseCommand_def RecoverClaimedCommands_def RecoverClaimedCommand_def CreateArtifact_def

lemma same_tasks_progress: "same_tasks s s' \<Longrightarrow> progress A s s'"
  by (simp add: progress_def same_tasks_evolves acts_def abs_phase_def same_tasks_def)

lemma wf_distinct_taskOrder: "wf_store s \<Longrightarrow> distinct (taskOrder s)"
  by (simp add: wf_store_def tasks_wf_def ordered_table_def)

lemma progress_mono: "progress A s s' \<Longrightarrow> (\<And>k. A k \<subseteq> B k) \<Longrightarrow> progress B s s'"
  unfolding progress_def using acts_mono by blast

lemma progress_ClaimReadyTask:
  assumes "wf_store s"
  shows "progress (\<lambda>_. {Claim, Exhaustion}) s (snd (ClaimReadyTask clk req s))"
  using progress_mono [OF progress_claim_first [OF assms wf_distinct_taskOrder [OF assms]]]
  by (auto simp: ClaimReadyTask_def Let_def split: if_splits)

lemma progress_command_ops:
  assumes "op \<in> {OpCreateCommand clk req1, OpClaimPendingCommand clk req2, OpClaimCommand clk k req2,
    OpHandleCommand clk k token w now, OpReleaseCommand clk k token, OpRecoverClaimedCommands clk before now,
    OpRecoverClaimedCommand clk k before now, OpCreateArtifact clk req3}"
  shows "progress A s (exec op s)"
  using assms
  by (auto simp: command_op_defs Let_def publish_defs
      intro!: same_tasks_progress same_tasks_claim_first_command same_tasks_recover_commands
        same_tasks_recoverClaimed split: option.split sum.split)

text \<open>An operation causes at most one event per task, and only events that \<open>events_of\<close> allows it.\<close>

lemma progress_exec:
  assumes "wf_store s"
  shows "progress (events_of op) s (exec op s)"
proof -
  have f: "events_of (OpCreateTask it clk req1) = (\<lambda>_. {Creation})" "events_of (OpDeleteTask it clk k) = only k {Deletion}"
    "events_of (OpClaimReadyTask clk req2) = (\<lambda>_. {Claim, Exhaustion})"
    "events_of (OpClaimTask clk k req2) = only k {Claim, Exhaustion}"
    "events_of (OpCompleteTask clk k token oc now) = only k {Completion}"
    "events_of (OpFailTask clk k token e now) = only k {Failure, Requeueing}"
    "events_of (OpCancelTask clk k token reason now) = only k {Cancellation}"
    "events_of (OpRetryTask clk k reason now) = only k {Retry}" "events_of (OpReleaseLease clk k token) = only k {Release}"
    "events_of (OpRecoverExpiredLeases it clk now) = (\<lambda>_. {Failure, Requeueing})"
    "events_of (OpRecoverExpiredLease clk k now) = only k {Failure, Requeueing}"
    for it clk req1 req2 k token oc now e reason by (simp_all add: fun_eq_iff)
  show ?thesis
    using assms
    by (cases op) (auto simp: f progress_CreateTask progress_UpdateTask progress_DeleteTask progress_ClaimReadyTask ClaimTask_def
      progress_claimTaskLocked progress_CompleteTask progress_FailTask progress_CancelTask progress_RetryTask
      progress_RenewLease progress_ReleaseLease RecoverExpiredLeases_def RecoverExpiredLease_def Let_def
      progress_recover_leases progress_recoverExpiredLeaseLocked simp del: exec.simps(14-21) events_of.simps intro: progress_command_ops)
qed

lemma evolves_exec: "wf_store s \<Longrightarrow> evolves s (exec op s)"
  using progress_exec by (rule progress_evolves)

lemma evolves_run: "wf_store s \<Longrightarrow> evolves s (fold exec ops s)"
proof (induction ops arbitrary: s)
  case (Cons op ops)
  from Cons.IH [OF wf_exec [OF Cons.prems]] evolves_exec [OF Cons.prems] show ?case
    by (auto intro: evolves_trans)
qed simp

section \<open>Consequences\<close>

lemma completed_run:
  assumes "wf_store s" and "get_task s k = Some t" and "task_Status t = TaskCompleted"
  shows "get_task (fold exec ops s) k = None \<or> (\<exists>t'. get_task (fold exec ops s) k = Some t' \<and> same_core t t')"
  using completed_moves [of t] evolves_move [OF evolves_run [OF assms(1)] wf_task_number [OF assms(1,2)]]
    assms(2,3) by fastforce

lemma deleted_run:
  assumes "wf_store s" and "numbered ''task-'' (nextTask s) k" and "get_task s k = None"
  shows "get_task (fold exec ops s) k = None"
  using evolves_move [OF evolves_run [OF assms(1)] assms(2)] assms(3) gone_stays_gone by metis

text \<open>
  A lease token that has been handed out and is not the token of a task's current lease is dead for
  that task: no later store accepts it.
\<close>

definition holds_token :: "store \<Rightarrow> string \<Rightarrow> string \<Rightarrow> bool" where
  "holds_token s k token \<longleftrightarrow> (\<exists>l. get_lease s k = Some l \<and> lease_Token l = token)"

lemma dead_token_run:
  assumes wf: "wf_store s" and num: "numbered ''lease-'' (nextLease s) token" and "\<not> holds_token s k token"
  shows "\<not> holds_token (fold exec ops s) k token"
proof
  let ?s' = "fold exec ops s"
  assume "holds_token ?s' k token"
  then obtain l' where l': "get_lease ?s' k = Some l'" "lease_Token l' = token"
    by (auto simp: holds_token_def)
  with wf_lease_number [OF mem.inv_run [OF wf]] have "lease_ID l' = token" by auto
  with evolves_lease [OF evolves_run [OF wf] l'(1)] handed_out_fresh [OF num]
  obtain l where "get_lease s k = Some l" "lease_ID l = token" by auto
  with wf_lease_number [OF wf] assms(3) show False by (auto simp: holds_token_def)
qed

lemma token_required:
  assumes "\<not> holds_token s k token"
  shows "\<exists>e \<in> {ErrTaskNotFound, ErrLeaseNotFound, ErrLeaseMismatch}.
      CompleteTask clk k token oc now s = (Inl (Sentinel e), s) \<and>
      FailTask clk k token runErr now s = (Inl (Sentinel e), s)"
    and "\<exists>e \<in> {ErrLeaseNotFound, ErrLeaseMismatch}.
      (0 < ttl \<longrightarrow> RenewLease clk k token ttl now s = (Inl (Sentinel e), s)) \<and>
      ReleaseLease clk k token s = (Inl (Sentinel e), s)"
proof -
  have v: "\<exists>e \<in> {ErrTaskNotFound, ErrLeaseNotFound, ErrLeaseMismatch}.
      validateLeaseLocked (clk 0) k token now s = Inl (Sentinel e)"
    using assms by (auto simp: validateLeaseLocked_def holds_token_def split: option.split)
  show "\<exists>e \<in> {ErrTaskNotFound, ErrLeaseNotFound, ErrLeaseMismatch}.
      CompleteTask clk k token oc now s = (Inl (Sentinel e), s) \<and>
      FailTask clk k token runErr now s = (Inl (Sentinel e), s)"
    using v by (elim bexE) (rule bexI, simp add: CompleteTask_def FailTask_def, simp)
  show "\<exists>e \<in> {ErrLeaseNotFound, ErrLeaseMismatch}.
      (0 < ttl \<longrightarrow> RenewLease clk k token ttl now s = (Inl (Sentinel e), s)) \<and>
      ReleaseLease clk k token s = (Inl (Sentinel e), s)"
    using assms by (auto simp: RenewLease_def ReleaseLease_def holds_token_def split: option.split)
qed

end
