(* ===== verification/Orch_Claims.thy ===== *)
theory Orch_Claims
  imports Orch_Lifecycle
begin

text \<open>
  Which task a claim hands out, what a recovery of expired leases does to every task and lease, and
  what deletion leaves behind: the functional behaviour behind the scheduling properties.
\<close>

section \<open>Claiming in order\<close>

definition claimable :: "store \<Rightarrow> claim_task_request \<Rightarrow> time \<Rightarrow> string \<Rightarrow> bool" where
  "claimable s req now k \<longleftrightarrow> (case get_task s k of None \<Rightarrow> False | Some t \<Rightarrow>
     k \<notin> set (clr_ExcludeTaskIDs req) \<and> matchesKinds t (clr_Kinds req) \<and> \<not> isBlocked s t \<and>
     \<not> (case get_lease s k of None \<Rightarrow> False | Some l \<Rightarrow> lease_ExpiresAt l > now) \<and>
     \<not> exhaustedAttempts t \<and> (task_Status t = TaskPending \<or> task_Status t = TaskRunning))"

definition granted :: "store \<Rightarrow> claim_task_request \<Rightarrow> time \<Rightarrow> string \<Rightarrow> claimed_task option" where
  "granted s req now k = map_option (\<lambda>t.
     let t' = start_run (Suc (nextRun s)) (clr_WorkerID req) now t
     in \<lparr>claim_Task = t',
         claim_Lease = new_lease (Suc (nextLease s)) (clr_WorkerID req) now (clr_LeaseTTL req) t',
         claim_Run = task_Run t'\<rparr>) (get_task s k)"

lemma lease_blocks_alt:
  "lease_blocks s k now = (case get_lease s k of None \<Rightarrow> False | Some l \<Rightarrow> lease_ExpiresAt l > now)"
  by (auto simp: lease_blocks_def split: option.split)

lemma claimTaskLocked_Inr:
  assumes wf: "wf_store s" and c: "claimTaskLocked k req now s = (Inr c, s')"
  shows "claimable s req now k" and "granted s req now k = Some c"
    and "get_task s' k = Some (claim_Task c)" and "get_lease s' k = Some (claim_Lease c)"
    and "\<And>j. j \<noteq> k \<Longrightarrow> get_task s' j = get_task s j \<and> get_lease s' j = get_lease s j"
proof -
  obtain t where t: "get_task s k = Some t" "claimable s req now k"
      "granted s req now k = Some c" "get_task s' k = Some (claim_Task c)"
      "get_lease s' k = Some (claim_Lease c)"
      "\<forall>j. j \<noteq> k \<longrightarrow> get_task s' j = get_task s j \<and> get_lease s' j = get_lease s j"
    using wf
  proof (cases rule: claimTaskLocked_cases [where k = k and req = req and now = now])
    case (claimed t t' l)
    with c show ?thesis
      by (intro that [of t]) (auto simp: claimable_def granted_def Let_def lease_blocks_alt)
  qed (use c in auto)
  show "claimable s req now k" and "granted s req now k = Some c"
    and "get_task s' k = Some (claim_Task c)" and "get_lease s' k = Some (claim_Lease c)"
    and "\<And>j. j \<noteq> k \<Longrightarrow> get_task s' j = get_task s j \<and> get_lease s' j = get_lease s j"
    using t by blast+
qed

lemma claimTaskLocked_claimable:
  assumes wf: "wf_store s" and cl: "claimable s req now k"
  shows "\<exists>c s'. claimTaskLocked k req now s = (Inr c, s')"
proof -
  from cl obtain t where t: "get_task s k = Some t" by (auto simp: claimable_def split: option.splits)
  show ?thesis
    using cl claimTaskLocked_unfold [OF t wf_task_ID [OF wf t], of req now] t
    by (auto simp: claimable_def lease_blocks_alt Let_def)
qed

text \<open>A claim that fails leaves every other task as claimable, and as grantable, as it was.\<close>

lemma claimTaskLocked_Inl:
  assumes wf: "wf_store s" and c: "claimTaskLocked k req now s = (Inl e, s')"
  shows "\<not> claimable s req now k" and "claimable s' req now j = claimable s req now j"
    and "claimable s req now j \<Longrightarrow> granted s' req now j = granted s req now j"
    and "get_task s k \<noteq> None \<Longrightarrow> e \<in> {Sentinel ErrNoReadyTask, Sentinel ErrTaskBlocked}"
proof -
  show nc: "\<not> claimable s req now k" using claimTaskLocked_claimable [OF wf, of req now k] c by auto
  have "s' = s \<or> (\<exists>t. get_task s k = Some t \<and> exhaustedAttempts t \<and> task_Status t \<noteq> TaskCompleted \<and>
      tasks s' = fmupd k (exhaust_task now t) (tasks s) \<and> leases s' = fmdrop k (leases s) \<and>
      nextRun s' = nextRun s \<and> nextLease s' = nextLease s)"
    using wf
  proof (cases rule: claimTaskLocked_cases [where k = k and req = req and now = now])
    case (exhausted t)
    with c have "s' = publishTaskFailed (exhaust_task now t) (drop_lease k (set_task k (exhaust_task now t) s))"
      by simp
    with exhausted(1-3) show ?thesis by (auto simp: publishTaskFailed_def)
  qed (use c in auto)
  then have "claimable s' req now j = claimable s req now j \<and>
      (claimable s req now j \<longrightarrow> granted s' req now j = granted s req now j)"
  proof (elim disjE exE conjE)
    fix t
    assume t: "get_task s k = Some t" "exhaustedAttempts t" "task_Status t \<noteq> TaskCompleted"
      and s': "tasks s' = fmupd k (exhaust_task now t) (tasks s)" "leases s' = fmdrop k (leases s)"
        "nextRun s' = nextRun s" "nextLease s' = nextLease s"
    have "isBlocked s' u = isBlocked s u" for u
      unfolding isBlocked_def s' using t by (intro list_ex_cong) auto
    moreover have "exhaustedAttempts (exhaust_task now t)"
      using t(2) by (simp add: exhaustedAttempts_def)
    ultimately show ?thesis
      using nc t s' by (cases "j = k") (auto simp: claimable_def granted_def split: option.split)
  qed simp
  then show "claimable s' req now j = claimable s req now j"
    and "claimable s req now j \<Longrightarrow> granted s' req now j = granted s req now j" by blast+
  show "get_task s k \<noteq> None \<Longrightarrow> e \<in> {Sentinel ErrNoReadyTask, Sentinel ErrTaskBlocked}"
    using wf
  proof (cases rule: claimTaskLocked_cases [where k = k and req = req and now = now])
    case (refused e')
    then show "get_task s k \<noteq> None \<Longrightarrow> ?thesis" using c
      by (auto simp: claimTaskLocked_def Let_def split: option.splits if_splits)
  qed (use c in auto)
qed

lemma claimTaskLocked_dom:
  "wf_store s \<Longrightarrow> fmdom' (tasks (snd (claimTaskLocked k req now s))) = fmdom' (tasks s)"
  by (cases rule: claimTaskLocked_cases [where k = k and req = req and now = now and s = s])
    (auto simp: publishTaskFailed_def fmlookup_dom'_iff)

text \<open>The scan hands out the first claimable task, or reports that there is none.\<close>

lemma claim_first_spec:
  assumes "wf_store s" and "set ks \<subseteq> fmdom' (tasks s)" and "claim_first req now ks s = (r, s')"
  shows "case List.find (claimable s req now) ks of
      None \<Rightarrow> r = Inl (Sentinel ErrNoReadyTask)
    | Some k \<Rightarrow> \<exists>c. r = Inr c \<and> granted s req now k = Some c \<and>
        get_task s' k = Some (claim_Task c) \<and> get_lease s' k = Some (claim_Lease c)"
  using assms
proof (induction ks arbitrary: s)
  case Nil
  then show ?case by simp
next
  case (Cons k ks)
  note wf = Cons.prems(1)
  have k: "get_task s k \<noteq> None" using Cons.prems(2) by (auto simp: fmlookup_dom'_iff)
  show ?case
  proof (cases "claimTaskLocked k req now s")
    case (Pair r1 s1)
    show ?thesis
    proof (cases r1)
      case (Inr c)
      from claimTaskLocked_Inr [OF wf Pair [unfolded Inr]] Cons.prems(3) Pair Inr show ?thesis by auto
    next
      case (Inl e)
      note l = claimTaskLocked_Inl [OF wf Pair [unfolded Inl]]
      have e: "e = Sentinel ErrNoReadyTask \<or> e = Sentinel ErrTaskBlocked" using l(4) [OF k] by auto
      have dom: "fmdom' (tasks s1) = fmdom' (tasks s)" and wf1: "wf_store s1"
        using claimTaskLocked_dom [OF wf, of k req now] wf_claimTaskLocked [OF wf, of k req now] Pair by auto
      have "claim_first req now ks s1 = (r, s')"
        using Cons.prems(3) Pair Inl e by (auto simp: errors_Is_refl)
      from Cons.IH [OF wf1 _ this] Cons.prems(2) dom
      have "case List.find (claimable s1 req now) ks of None \<Rightarrow> r = Inl (Sentinel ErrNoReadyTask)
          | Some k \<Rightarrow> \<exists>c. r = Inr c \<and> granted s1 req now k = Some c \<and>
              get_task s' k = Some (claim_Task c) \<and> get_lease s' k = Some (claim_Lease c)" by simp
      moreover have "claimable s1 req now = claimable s req now" using l(2) by blast
      moreover have "granted s1 req now j = granted s req now j"
        if "List.find (claimable s req now) ks = Some j" for j
        using that l(3) by (auto simp: find_Some_iff)
      ultimately show ?thesis using l(1) by (auto split: option.splits)
    qed
  qed
qed

section \<open>Recovering expired leases\<close>

definition expired :: "store \<Rightarrow> time \<Rightarrow> string \<Rightarrow> bool" where
  "expired s now k \<longleftrightarrow> (case get_lease s k of None \<Rightarrow> False | Some l \<Rightarrow> \<not> lease_ExpiresAt l > now)"

definition recovered_task :: "time \<Rightarrow> time \<Rightarrow> task \<Rightarrow> task" where
  "recovered_task rd now t =
     (if exhaustedAttempts t
      then t\<lparr>task_Status := TaskFailed, task_Result := None, task_LastError := ''lease expired'',
             task_CompletedAt := now, task_UpdatedAt := now\<rparr>
      else t\<lparr>task_Status := TaskPending, task_Result := None, task_Run := None,
             task_StartedAt := zero_time, task_CompletedAt := zero_time,
             task_UpdatedAt := normalizeNow rd now, task_LastError := ''lease expired''\<rparr>)"

definition recovery_of :: "time \<Rightarrow> task \<Rightarrow> lease \<Rightarrow> lease_recovery" where
  "recovery_of now t l = \<lparr>lrec_Task = t, lrec_Lease = l, lrec_RecoveredAt = now,
     lrec_ResultStatus = (if exhaustedAttempts t then TaskFailed else TaskPending),
     lrec_Requeued = (\<not> exhaustedAttempts t), lrec_Reason = ''lease expired''\<rparr>"

definition recovery_at :: "store \<Rightarrow> time \<Rightarrow> string \<Rightarrow> lease_recovery option" where
  "recovery_at s now k =
     (case (get_task s k, get_lease s k) of
        (Some t, Some l) \<Rightarrow> if lease_ExpiresAt l > now then None else Some (recovery_of now t l)
      | _ \<Rightarrow> None)"

lemma recover_one:
  assumes wf: "wf_store s"
  shows "fst (recoverExpiredLeaseLocked rd k now s) = recovery_at s now k"
    and "get_lease (snd (recoverExpiredLeaseLocked rd k now s)) j =
      (if j = k \<and> expired s now k then None else get_lease s j)"
    and "get_task (snd (recoverExpiredLeaseLocked rd k now s)) j =
      (if j = k \<and> expired s now k then map_option (recovered_task rd now) (get_task s j) else get_task s j)"
proof -
  have "fst (recoverExpiredLeaseLocked rd k now s) = recovery_at s now k \<and>
    get_lease (snd (recoverExpiredLeaseLocked rd k now s)) j =
      (if j = k \<and> expired s now k then None else get_lease s j) \<and>
    get_task (snd (recoverExpiredLeaseLocked rd k now s)) j =
      (if j = k \<and> expired s now k then map_option (recovered_task rd now) (get_task s j) else get_task s j)"
    using wf
  proof (cases rule: recoverExpiredLeaseLocked_cases [where rd = rd and k = k and now = now])
    case kept
    then show ?thesis by (auto simp: recovery_at_def expired_def split: option.split)
  next
    case (failed t l)
    then show ?thesis
      by (simp add: recovery_at_def expired_def Let_def publish_defs recovery_of_def recovered_task_def
          clone_simps)
  next
    case (requeued t l)
    then show ?thesis
      by (simp add: recovery_at_def expired_def Let_def publish_defs recovery_of_def recovered_task_def
          clone_simps requeueTaskLocked_def)
  qed
  then show "fst (recoverExpiredLeaseLocked rd k now s) = recovery_at s now k"
    and "get_lease (snd (recoverExpiredLeaseLocked rd k now s)) j =
      (if j = k \<and> expired s now k then None else get_lease s j)"
    and "get_task (snd (recoverExpiredLeaseLocked rd k now s)) j =
      (if j = k \<and> expired s now k then map_option (recovered_task rd now) (get_task s j) else get_task s j)"
    by blast+
qed

lemma recover_leases_spec:
  assumes "wf_store s" and "distinct ks"
  shows "fst (recover_leases rd now ks s) = List.map_filter (recovery_at s now) ks \<and>
    get_lease (snd (recover_leases rd now ks s)) j =
      (if j \<in> set ks \<and> expired s now j then None else get_lease s j) \<and>
    get_task (snd (recover_leases rd now ks s)) j =
      (if j \<in> set ks \<and> expired s now j then map_option (recovered_task rd now) (get_task s j)
       else get_task s j)"
  using assms
proof (induction ks arbitrary: s)
  case Nil
  then show ?case by (simp add: map_filter_simps)
next
  case (Cons k ks)
  obtain r s1 where r: "recoverExpiredLeaseLocked rd k now s = (r, s1)" by fastforce
  note one = recover_one [OF Cons.prems(1), of rd k now, unfolded r fst_conv snd_conv]
  have wf1: "wf_store s1" using wf_recoverExpiredLeaseLocked [OF Cons.prems(1), of rd k now] r by simp
  have same: "recovery_at s1 now i = recovery_at s now i" if "i \<in> set ks" for i
    using Cons.prems(2) that one(2,3) by (auto simp: recovery_at_def)
  have "List.map_filter (recovery_at s1 now) ks = List.map_filter (recovery_at s now) ks"
    using same by (auto simp: List.map_filter_def cong: filter_cong)
  moreover have "j \<in> set ks \<Longrightarrow> expired s1 now j = expired s now j"
    using Cons.prems(2) one(2) by (auto simp: expired_def)
  ultimately show ?case
    using r one Cons.IH [OF wf1] Cons.prems(2)
    by (auto simp: split_beta map_filter_simps split: option.split)
qed

section \<open>Deleting\<close>

lemma delete_state_lookup:
  "get_task (delete_state k now s) j = (if j = k then None else map_option (unlink k now) (get_task s j))"
  "get_lease (delete_state k now s) j = (if j = k then None else get_lease s j)"
  "commands (delete_state k now s) = commands s"
  by (simp_all add: delete_state_def)

lemma delete_state_artifacts:
  assumes "wf_store s"
  shows "fmlookup (artifacts (delete_state k now s)) a =
    (case fmlookup (artifacts s) a of None \<Rightarrow> None | Some x \<Rightarrow> if art_TaskID x = k then None else Some x)"
proof -
  have "set (artifactOrder s) = fmdom' (artifacts s)"
    using assms by (simp add: wf_store_def artifacts_wf_def ordered_table_def)
  then show ?thesis
    by (auto simp: delete_state_def deleteTaskArtifacts_eq fold_fmdrop_lookup owned_by_def
        fmlookup_dom'_iff split: option.split)
qed

lemma DeleteTask_state:
  assumes "get_task s k \<noteq> None"
  obtains es where "DeleteTask it clk k s = (Inr (), (delete_state k (clk 0) s)\<lparr>eventBus := es\<rparr>)"
proof -
  let ?peers = "filter (\<lambda>i. case fmlookup (fmdrop k (tasks s)) i of None \<Rightarrow> False | Some t \<Rightarrow> mentions k t)
    (it (map_keys (fmdrop k (tasks s))))"
  let ?s = "publishTaskDeleted k (clk 1) (delete_state k (clk 0) s)"
  obtain es where "publishTaskUpdates ?peers ?s = ?s\<lparr>eventBus := map_option (\<lambda>log. log @ es) (eventBus ?s)\<rparr>"
    using publishTaskUpdates_log [of ?peers ?s] by blast
  with assms that show ?thesis by (simp add: DeleteTask_eq publishTaskDeleted_def publish_def)
qed

end
