(* ===== verification/Orch_Command_Life.thy ===== *)
theory Orch_Command_Life
  imports Orch_System
begin

text \<open>
  The life cycle of a durable command: pending, claimed by a worker the command is not reserved away
  from, handled. A claim can be taken back; a handled command never changes again.
\<close>

section \<open>The life cycle\<close>

inductive cmd_step :: "command \<Rightarrow> command \<Rightarrow> bool" where
  retarget: "cmd_Status c = CommandPending \<Longrightarrow>
    cmd_step c (c\<lparr>cmd_RunID := r, cmd_TargetWorkerID := w\<rparr>)"
| claim: "cmd_Status c = CommandPending \<Longrightarrow> w \<noteq> [] \<Longrightarrow> cmd_TargetWorkerID c \<in> {[], w} \<Longrightarrow>
    cmd_step c (claim_command w now c)"
| handle: "cmd_Status c = CommandClaimed \<Longrightarrow>
    cmd_step c (c\<lparr>cmd_Status := CommandHandled, cmd_HandledBy := w, cmd_HandledAt := at, cmd_ClaimToken := []\<rparr>)"
| take_back: "cmd_Status c = CommandClaimed \<Longrightarrow> cmd_step c (unclaim c)"

inductive_cases cmd_stepE: "cmd_step c c'"

lemma handled_no_step: "cmd_Status c = CommandHandled \<Longrightarrow> \<not> cmd_step c c'"
  by (auto elim: cmd_stepE)

lemma handled_steps: "cmd_step\<^sup>*\<^sup>* c c' \<Longrightarrow> cmd_Status c = CommandHandled \<Longrightarrow> c' = c"
  by (induction rule: rtranclp_induct) (auto simp: handled_no_step)

definition cmd_moves :: "store \<Rightarrow> store \<Rightarrow> bool" where
  "cmd_moves s s' \<longleftrightarrow> nextCommand s \<le> nextCommand s' \<and>
     (\<forall>k c. get_command s k = Some c \<longrightarrow> (\<exists>c'. get_command s' k = Some c' \<and> cmd_step\<^sup>*\<^sup>* c c'))"

lemma cmd_moves_refl [simp]: "cmd_moves s s"
  by (simp add: cmd_moves_def)

lemma cmd_moves_trans [trans]: "cmd_moves s s' \<Longrightarrow> cmd_moves s' s'' \<Longrightarrow> cmd_moves s s''"
  unfolding cmd_moves_def by (meson order_trans rtranclp_trans)

lemma cmd_moves_publish [simp]:
  "cmd_moves s (publish e s') = cmd_moves s s'"
  "cmd_moves s (publishTaskUpdates ks s') = cmd_moves s s'"
  "cmd_moves s (publishTaskClaimed t l s') = cmd_moves s s'"
  by (simp_all add: cmd_moves_def)

lemma cmd_moves_frame: "commands s' = commands s \<Longrightarrow> nextCommand s' = nextCommand s \<Longrightarrow> cmd_moves s s'"
  by (simp add: cmd_moves_def)

lemma cmd_moves_set:
  "get_command s k = Some c \<Longrightarrow> cmd_step\<^sup>*\<^sup>* c c' \<Longrightarrow> cmd_moves s (set_command k c' s)"
  by (auto simp: cmd_moves_def)

section \<open>Command operations follow it\<close>

lemma refresh_retargets:
  "\<exists>r w. refreshCommandTargetLocked s c = c\<lparr>cmd_RunID := r, cmd_TargetWorkerID := w\<rparr>"
proof -
  have "c = c\<lparr>cmd_RunID := cmd_RunID c, cmd_TargetWorkerID := cmd_TargetWorkerID c\<rparr>" by simp
  then have id: "\<exists>r w. c = c\<lparr>cmd_RunID := r, cmd_TargetWorkerID := w\<rparr>" by blast
  have run: "\<exists>r w'. c\<lparr>cmd_TargetWorkerID := w\<rparr> = c\<lparr>cmd_RunID := r, cmd_TargetWorkerID := w'\<rparr>" for w
    by (rule exI [of _ "cmd_RunID c"]) auto
  have both: "\<exists>r' w'. c\<lparr>cmd_RunID := r, cmd_TargetWorkerID := w\<rparr> =
      c\<lparr>cmd_RunID := r', cmd_TargetWorkerID := w'\<rparr>" for r w by blast
  have both': "\<exists>r' w'. c\<lparr>cmd_TargetWorkerID := w, cmd_RunID := r\<rparr> =
      c\<lparr>cmd_RunID := r', cmd_TargetWorkerID := w'\<rparr>" for r w
    by (rule exI [of _ r], rule exI [of _ w]) simp
  show ?thesis
    unfolding refreshCommandTargetLocked_def Let_def
    using id run both both'
    by (simp split: option.split command_kind.split task_status.split)
qed

lemma refresh_step: "cmd_Status c = CommandPending \<Longrightarrow> cmd_step c (refreshCommandTargetLocked s c)"
  using refresh_retargets [of s c] by (auto intro: cmd_step.retarget)

lemma claim_step:
  assumes "cmd_Status c = CommandPending" and "w \<noteq> []"
    and "cmd_TargetWorkerID (refreshCommandTargetLocked s c) \<in> {[], w}"
  shows "cmd_step\<^sup>*\<^sup>* c (claim_command w now (refreshCommandTargetLocked s c))"
proof -
  have "cmd_step c (refreshCommandTargetLocked s c)" using assms(1) by (rule refresh_step)
  moreover have "cmd_step (refreshCommandTargetLocked s c) (claim_command w now (refreshCommandTargetLocked s c))"
    using assms by (intro cmd_step.claim) auto
  ultimately show ?thesis by auto
qed

lemma cmd_moves_claim_first:
  "w \<noteq> [] \<Longrightarrow> cmd_moves s0 s \<Longrightarrow> cmd_moves s0 (snd (claim_first_command w now ks s))"
proof (induction ks arbitrary: s)
  case (Cons k ks)
  show ?case
  proof (cases "get_command s k")
    case None
    with Cons show ?thesis by simp
  next
    case (Some c)
    have "cmd_moves s0 (set_command k (refreshCommandTargetLocked s c) s)" if "cmd_Status c = CommandPending"
      using Cons.prems(2) cmd_moves_set [OF Some r_into_rtranclp] refresh_step [OF that]
      by (blast intro: cmd_moves_trans)
    moreover have "cmd_moves s0 (set_command k (claim_command w now (refreshCommandTargetLocked s c)) s)"
      if "cmd_Status c = CommandPending" "cmd_TargetWorkerID (refreshCommandTargetLocked s c) \<in> {[], w}"
      using Cons.prems cmd_moves_set [OF Some claim_step [OF that(1) _ that(2)]]
      by (blast intro: cmd_moves_trans)
    ultimately show ?thesis
      using Some Cons by (auto simp: Let_def publishCommandClaimed_def)
  qed
qed simp

lemma cmd_moves_ClaimCommand: "cmd_moves s (snd (ClaimCommand clk k req s))"
proof (cases "get_command s k")
  case (Some c)
  have "cmd_moves s (set_command k (refreshCommandTargetLocked s c) s)" if "cmd_Status c = CommandPending"
    using cmd_moves_set [OF Some r_into_rtranclp [of cmd_step]] refresh_step [OF that] by blast
  then show ?thesis
    using Some by (auto simp: ClaimCommand_def Let_def publishCommandClaimed_def
        intro!: cmd_moves_set claim_step)
qed (simp add: ClaimCommand_def)

lemma cmd_moves_HandleCommand: "cmd_moves s (snd (HandleCommand clk k token w now s))"
  by (auto simp: HandleCommand_def Let_def publishCommandHandled_def
      intro!: cmd_moves_set r_into_rtranclp [of cmd_step] cmd_step.handle split: option.split)

lemma cmd_moves_ReleaseCommand: "cmd_moves s (snd (ReleaseCommand clk k token s))"
  by (auto simp: ReleaseCommand_def publishCommandReleased_def
      intro!: cmd_moves_set r_into_rtranclp [of cmd_step] cmd_step.take_back split: option.split)

lemma cmd_moves_recover: "cmd_moves s (snd (recoverClaimedCommandLocked k before now s))"
  by (auto simp: recoverClaimedCommandLocked_def publishCommandReleased_def stale_claim_def
      intro!: cmd_moves_set r_into_rtranclp [of cmd_step] cmd_step.take_back split: option.split)

lemma cmd_moves_recover_commands: "cmd_moves s (snd (recover_commands before now ks s))"
proof (induction ks arbitrary: s)
  case (Cons k ks)
  show ?case
    using cmd_moves_recover [of s k before now]
      Cons [of "snd (recoverClaimedCommandLocked k before now s)"]
    by (auto simp: split_beta intro: cmd_moves_trans)
qed simp

lemma cmd_moves_CreateCommand:
  assumes "wf_store s"
  shows "cmd_moves s (snd (CreateCommand clk req s))"
proof -
  have "get_command s k \<noteq> None \<Longrightarrow> k \<noteq> Sprintf_d ''command-'' (Suc (nextCommand s))" for k
    using wf_command_fresh [OF assms] by auto
  then show ?thesis
    by (auto simp: CreateCommand_def Let_def publishCommandCreated_def cmd_moves_def
        split: option.split sum.split)
qed

section \<open>The other operations leave commands alone\<close>

lemma cmd_moves_claimTaskLocked: "cmd_moves s0 s \<Longrightarrow> cmd_moves s0 (snd (claimTaskLocked k req now s))"
  by (auto simp: claimTaskLocked_def Let_def publishTaskFailed_def cmd_moves_def
      publishTaskClaimed_simps split: option.split)

lemma cmd_moves_claim_first_task: "cmd_moves s0 s \<Longrightarrow> cmd_moves s0 (snd (claim_first req now ks s))"
proof (induction ks arbitrary: s)
  case (Cons k ks)
  obtain r s1 where r: "claimTaskLocked k req now s = (r, s1)" by fastforce
  with cmd_moves_claimTaskLocked [OF Cons.prems, of k req now] Cons.IH [of s1] show ?case
    by (cases r) auto
qed simp

lemma createOutcomeArtifacts_commands [simp]:
  "nextCommand (createOutcomeArtifactsLocked t specs at s) = nextCommand s"
  unfolding createOutcomeArtifactsLocked_def
  by (induction specs arbitrary: s)
    (auto simp: create_outcome_artifact_def Let_def publishArtifactCreated_def)

lemma cmd_moves_recoverExpired:
  "cmd_moves s0 s \<Longrightarrow> cmd_moves s0 (snd (recoverExpiredLeaseLocked rd k now s))"
  by (auto simp: recoverExpiredLeaseLocked_def requeueTaskLocked_def Let_def publish_defs cmd_moves_def
      split: option.split)

lemma cmd_moves_recover_leases: "cmd_moves s0 s \<Longrightarrow> cmd_moves s0 (snd (recover_leases rd now ks s))"
  by (induction ks arbitrary: s) (auto simp: split_beta cmd_moves_recoverExpired)

lemma cmd_frame_tasks:
  "cmd_moves s (snd (CreateTask it clk req s))" "cmd_moves s (snd (UpdateTask it clk ureq s))"
  "cmd_moves s (snd (DeleteTask it clk k s))"
  by (auto simp: CreateTask_def UpdateTask_def DeleteTask_eq delete_state_def Let_def publish_defs
      intro!: cmd_moves_frame split: option.split prod.split)

lemma cmd_frame_runs:
  "cmd_moves s (snd (CompleteTask clk k token oc now s))"
  "cmd_moves s (snd (FailTask clk k token e now s))"
  "cmd_moves s (snd (CancelTask clk k token reason now s))"
  "cmd_moves s (snd (RetryTask clk k reason now s))"
  by (auto simp: CompleteTask_def FailTask_def CancelTask_def RetryTask_def requeueTaskLocked_def
      Let_def publish_defs intro!: cmd_moves_frame split: option.split sum.split task_status.split)

lemma cmd_frame_leases:
  "cmd_moves s (snd (RenewLease clk k token ttl now s))" "cmd_moves s (snd (ReleaseLease clk k token s))"
  "cmd_moves s (snd (CreateArtifact clk req s))"
  by (auto simp: RenewLease_def ReleaseLease_def CreateArtifact_def requeueTaskLocked_def Let_def
      publish_defs intro!: cmd_moves_frame split: option.split)

lemma cmd_moves_exec: "wf_store s \<Longrightarrow> cmd_moves s (exec op s)"
  by (cases op) (simp_all add: cmd_frame_tasks cmd_frame_runs cmd_frame_leases ClaimReadyTask_def
      ClaimTask_def cmd_moves_claim_first_task cmd_moves_claimTaskLocked RecoverExpiredLeases_def
      RecoverExpiredLease_def cmd_moves_recover_leases cmd_moves_recoverExpired cmd_moves_CreateCommand
      ClaimPendingCommand_def cmd_moves_claim_first cmd_moves_ClaimCommand cmd_moves_HandleCommand
      cmd_moves_ReleaseCommand RecoverClaimedCommands_def RecoverClaimedCommand_def Let_def
      cmd_moves_recover_commands cmd_moves_recover)

lemma cmd_moves_run: "wf_store s \<Longrightarrow> cmd_moves s (fold exec ops s)"
proof (induction ops arbitrary: s)
  case (Cons op ops)
  from Cons.IH [OF wf_exec [OF Cons.prems]] cmd_moves_exec [OF Cons.prems] show ?case
    by (auto intro: cmd_moves_trans)
qed simp

end
