(* ===== verification/Orch_Scenario.thy ===== *)
theory Orch_Scenario
  imports Orch_Claims Orch_Command_Life
begin

text \<open>
  A concrete workload that the properties of the store are instantiated at: two tasks, the second
  blocked by the first and the first limited to one attempt, and a worker that claims the first.
\<close>

definition wall :: clock where
  "wall i = 10 + int i"

definition ask :: "int \<Rightarrow> string list \<Rightarrow> create_task_request" where
  "ask limit deps = \<lparr>ctr_Kind = ''job'', ctr_Subject = ''s'', ctr_Description = [], ctr_Input = [],
     ctr_Blocks = [], ctr_BlockedBy = deps, ctr_MaxAttempts = limit, ctr_Metadata = fmempty\<rparr>"

definition claim_at :: "time \<Rightarrow> claim_task_request" where
  "claim_at now = \<lparr>clr_WorkerID = ''w'', clr_LeaseTTL = 50, clr_Now = now, clr_Kinds = [],
     clr_ExcludeTaskIDs = []\<rparr>"

definition two_tasks :: store where
  "two_tasks = fold exec [OpCreateTask id wall (ask 1 []), OpCreateTask id wall (ask 0 [''task-1''])]
     (NewStore (Some []))"

definition one_running :: store where
  "one_running = exec (OpClaimReadyTask wall (claim_at 100)) two_tasks"

definition first_task :: task where
  "first_task = (new_task 1 10 (ask 1 []))\<lparr>task_Blocks := [''task-2'']\<rparr>"

definition second_task :: task where
  "second_task = new_task 2 10 (ask 0 [''task-1''])"

lemma show_digits [simp]:
  "show_nat 0 = ''0''" "show_nat (Suc 0) = ''1''" "show_nat 1 = ''1''" "show_nat 2 = ''2''" "show_nat 3 = ''3''"
  "show_nat (Suc (Suc 0)) = ''2''" "show_nat (Suc (Suc (Suc 0))) = ''3''"
  by (subst show_nat.simps, simp add: digit_char_def)+

lemma Sprintf_digits [simp]:
  "Sprintf_d ''task-'' (Suc 0) = ''task-1''" "Sprintf_d ''task-'' 2 = ''task-2''"
  "Sprintf_d ''task-'' (Suc (Suc 0)) = ''task-2''" "Sprintf_d ''task-'' (Suc (Suc (Suc 0))) = ''task-3''"
  "Sprintf_d ''lease-'' (Suc 0) = ''lease-1''" "Sprintf_d ''lease-'' (Suc (Suc 0)) = ''lease-2''"
  "Sprintf_d ''run-'' (Suc 0) = ''run-1''" "Sprintf_d ''run-'' (Suc (Suc 0)) = ''run-2''"
  "Sprintf_d ''command-'' (Suc 0) = ''command-1''" "Sprintf_d ''artifact-'' (Suc 0) = ''artifact-1''"
  by (simp_all add: Sprintf_d_def)

lemmas scenario_defs = wall_def ask_def claim_at_def new_task_def clone_simps
  linkTaskDependencies_def link_blocked_def link_blocker_def appendUniqueStrings_def
  validateTaskDependencies_def publish_defs publishTaskUpdates_def publish_def NewStore_def
  CreateTask_def

lemma two_tasks_eq:
  "tasks two_tasks = fmupd ''task-2'' second_task (fmupd ''task-1'' first_task fmempty)"
  "taskOrder two_tasks = [''task-1'', ''task-2'']" "leases two_tasks = fmempty"
  "nextTask two_tasks = 2" "nextLease two_tasks = 0" "nextRun two_tasks = 0"
  "commands two_tasks = fmempty" "commandOrder two_tasks = []" "nextCommand two_tasks = 0"
  "artifacts two_tasks = fmempty" "artifactOrder two_tasks = []" "nextArtifact two_tasks = 0"
  by (simp_all add: two_tasks_def first_task_def second_task_def scenario_defs Let_def)

lemma reachable_two_tasks: "reachable two_tasks"
  unfolding two_tasks_def reachable_run
  by (rule exI [of _ "NewStore (Some [])"], rule exI, rule conjI [OF _ refl]) (simp add: initial_def)

lemma reachable_one_running: "reachable one_running"
  unfolding one_running_def by (rule reachable_step [OF reachable_two_tasks])

definition running_task :: task where
  "running_task = start_run 1 ''w'' 100 first_task"

definition running_lease :: lease where
  "running_lease = new_lease 1 ''w'' 100 50 first_task"

lemma task_defs_simps [simp]:
  "task_ID first_task = ''task-1''" "task_Status first_task = TaskPending" "task_Attempt first_task = 0"
  "task_MaxAttempts first_task = 1" "task_BlockedBy first_task = []" "task_Kind first_task = ''job''"
  "task_Blocks first_task = [''task-2'']" "task_Run first_task = None" "task_Result first_task = None"
  "task_ID second_task = ''task-2''" "task_Status second_task = TaskPending"
  "task_Attempt second_task = 0" "task_MaxAttempts second_task = 0"
  "task_BlockedBy second_task = [''task-1'']" "task_Kind second_task = ''job''"
  "task_Blocks second_task = []" "task_Run second_task = None"
  "task_ID running_task = ''task-1''" "task_Status running_task = TaskRunning"
  "task_Attempt running_task = 1" "task_MaxAttempts running_task = 1"
  "task_Blocks running_task = [''task-2'']" "task_BlockedBy running_task = []"
  "lease_ID running_lease = ''lease-1''" "lease_Token running_lease = ''lease-1''"
  "lease_TaskID running_lease = ''task-1''" "lease_ExpiresAt running_lease = 150"
  "lease_WorkerID running_lease = ''w''"
  by (simp_all add: first_task_def second_task_def running_task_def running_lease_def ask_def)

lemma claim_at_simps [simp]:
  "clr_WorkerID (claim_at now) = ''w''" "clr_LeaseTTL (claim_at now) = 50" "clr_Now (claim_at now) = now"
  "clr_Kinds (claim_at now) = []" "clr_ExcludeTaskIDs (claim_at now) = []"
  by (simp_all add: claim_at_def)

lemma new_lease_start_run [simp]: "new_lease n w now ttl (start_run m v at t) = new_lease n w now ttl t"
  by (simp add: new_lease_def start_run_def)

lemma claim_first_task:
  "ClaimReadyTask wall (claim_at 100) two_tasks =
     (Inr \<lparr>claim_Task = running_task, claim_Lease = running_lease, claim_Run = task_Run running_task\<rparr>,
      one_running)"
  "tasks one_running = fmupd ''task-2'' second_task (fmupd ''task-1'' running_task fmempty)"
  "leases one_running = fmupd ''task-1'' running_lease fmempty"
  "taskOrder one_running = [''task-1'', ''task-2'']"
  "nextTask one_running = 2" "nextLease one_running = 1" "nextRun one_running = 1"
  "commands one_running = fmempty" "commandOrder one_running = []" "nextCommand one_running = 0"
  "artifacts one_running = fmempty" "artifactOrder one_running = []" "nextArtifact one_running = 0"
proof -
  have c: "claimTaskLocked ''task-1'' (claim_at 100) 100 two_tasks =
      (Inr \<lparr>claim_Task = running_task, claim_Lease = running_lease, claim_Run = task_Run running_task\<rparr>,
       publishTaskClaimed running_task running_lease (two_tasks\<lparr>nextRun := 1, nextLease := 1,
         tasks := fmupd ''task-1'' running_task (tasks two_tasks),
         leases := fmupd ''task-1'' running_lease (leases two_tasks)\<rparr>))"
    by (simp add: claimTaskLocked_unfold [where t = first_task] two_tasks_eq Let_def matchesKinds_def
        isBlocked_def lease_blocks_def exhaustedAttempts_def running_task_def running_lease_def)
  have s: "one_running = publishTaskClaimed running_task running_lease (two_tasks\<lparr>nextRun := 1, nextLease := 1,
         tasks := fmupd ''task-1'' running_task (tasks two_tasks),
         leases := fmupd ''task-1'' running_lease (leases two_tasks)\<rparr>)"
    using c by (simp add: one_running_def ClaimReadyTask_def two_tasks_eq normalizeNow_def)
  show "ClaimReadyTask wall (claim_at 100) two_tasks =
     (Inr \<lparr>claim_Task = running_task, claim_Lease = running_lease, claim_Run = task_Run running_task\<rparr>,
      one_running)"
    using c s by (simp add: ClaimReadyTask_def two_tasks_eq normalizeNow_def)
  show "tasks one_running = fmupd ''task-2'' second_task (fmupd ''task-1'' running_task fmempty)"
    by (rule fmap_ext) (auto simp: s two_tasks_eq)
  show "leases one_running = fmupd ''task-1'' running_lease fmempty"
    "taskOrder one_running = [''task-1'', ''task-2'']"
    "nextTask one_running = 2" "nextLease one_running = 1" "nextRun one_running = 1"
    "commands one_running = fmempty" "commandOrder one_running = []" "nextCommand one_running = 0"
    "artifacts one_running = fmempty" "artifactOrder one_running = []" "nextArtifact one_running = 0"
    by (simp_all add: s two_tasks_eq)
qed

section \<open>Continuations\<close>

definition first_done :: store where
  "first_done = exec (OpCompleteTask wall ''task-1'' ''lease-1'' None 120) one_running"

definition first_canceled :: store where
  "first_canceled = exec (OpCancelTask wall ''task-1'' ''lease-1'' ''stop'' 120) one_running"

definition with_command :: store where
  "with_command = exec (OpCreateCommand wall \<lparr>ccr_Kind = CommandCancelTask, ccr_TaskID = ''task-1'',
     ccr_RunID = [], ccr_Reason = [], ccr_Metadata = fmempty\<rparr>) one_running"

definition worker_w :: claim_command_request where
  "worker_w = \<lparr>cclr_WorkerID = ''w'', cclr_Now = 130\<rparr>"

definition first_command :: command where
  "first_command = \<lparr>cmd_ID = ''command-1'', cmd_Kind = CommandCancelTask, cmd_TaskID = ''task-1'',
     cmd_RunID = ''run-1'', cmd_TargetWorkerID = ''w'', cmd_Reason = [], cmd_Metadata = fmempty,
     cmd_Status = CommandPending, cmd_ClaimToken = [], cmd_ClaimedBy = [], cmd_HandledBy = [],
     cmd_CreatedAt = 10, cmd_ClaimedAt = 0, cmd_HandledAt = 0\<rparr>"

lemma reachable_continuations: "reachable first_done" "reachable first_canceled" "reachable with_command"
  unfolding first_done_def first_canceled_def with_command_def
  by (intro reachable_step reachable_one_running)+

lemma running_task_Run [simp]: "task_Run running_task = Some (new_run 1 ''w'' 100 first_task)"
  by (simp add: running_task_def)

lemma with_command_eq:
  "commands with_command = fmupd ''command-1'' first_command fmempty"
  "commandOrder with_command = [''command-1'']" "tasks with_command = tasks one_running"
  by (simp_all add: with_command_def CreateCommand_def claim_first_task validateCommandTargetLocked_def
      run_id_of_def Let_def publishCommandCreated_def clone_simps first_command_def wall_def)

lemma first_done_eq:
  "get_task first_done ''task-1'' = Some (running_task\<lparr>task_Status := TaskCompleted, task_LastError := [],
     task_Result := None, task_CompletedAt := 120, task_UpdatedAt := 120\<rparr>)"
  "leases first_done = fmempty"
  by (simp_all add: first_done_def CompleteTask_def validateLeaseLocked_def claim_first_task
      normalizeNow_def Let_def publishTaskCompleted_def clone_simps fmdrop_fmupd_same)

lemma first_canceled_eq:
  "get_task first_canceled ''task-1'' = Some (running_task\<lparr>task_Status := TaskCanceled,
     task_Result := None, task_LastError := cancelReason ''stop'', task_CompletedAt := 120,
     task_UpdatedAt := 120\<rparr>)"
  "leases first_canceled = fmempty" "taskOrder first_canceled = [''task-1'', ''task-2'']"
  by (simp_all add: first_canceled_def CancelTask_def claim_first_task normalizeNow_def Let_def
      publishTaskCanceled_def fmdrop_fmupd_same)

end
