(* ===== verification/Orch_Properties.thy ===== *)
theory Orch_Properties
  imports Orch_Scenario
begin

text \<open>
  The properties of the in-memory orchestrator store, each over every state the operations can reach,
  with the scenario of \<^verbatim>\<open>Orch_Scenario\<close> as the instance that shows the hypotheses can hold.
\<close>

section \<open>Invariants of reachable stores\<close>

text \<open>
  C1. Whatever operations ran, in whatever order and with whatever arguments, errors included, the
  store is well formed: tables agree with their insertion orders, identifiers are numbered by the
  counters, attempts respect their bound, leases belong to running tasks, dependency edges are
  recorded on both ends, command tokens exist exactly while a command is claimed, and every artifact
  belongs to an existing task.
\<close>

theorem store_invariant: "reachable s \<Longrightarrow> wf_store s"
  by (rule reachable_wf)

theorem store_invariant_witness: "wf_store one_running \<and> get_lease one_running ''task-1'' \<noteq> None"
  using store_invariant [OF reachable_one_running] by (simp add: claim_first_task)

text \<open>
  A task has a lease exactly when it is running, and then the lease, the task and the run agree:
  the lease names the task and the worker of the run, and the run counts the attempt of the task.
\<close>

theorem lease_iff_running:
  assumes "reachable s"
  shows "((\<exists>l. GetLease k s = Inr l) \<longleftrightarrow> (\<exists>t. GetTask k s = Inr t \<and> task_Status t = TaskRunning)) \<and>
    (\<forall>l t. GetLease k s = Inr l \<longrightarrow> GetTask k s = Inr t \<longrightarrow>
       lease_TaskID l = k \<and> (\<exists>r. task_Run t = Some r \<and> run_TaskID r = k \<and>
         run_WorkerID r = lease_WorkerID l \<and> run_Attempt r = task_Attempt t))"
proof -
  have wf: "wf_store s" using assms by (rule reachable_wf)
  have "lease_TaskID l = k \<and> (\<exists>r. task_Run t = Some r \<and> run_TaskID r = k \<and>
      run_WorkerID r = lease_WorkerID l \<and> run_Attempt r = task_Attempt t)"
    if l: "get_lease s k = Some l" and t: "get_task s k = Some t" for l t
  proof -
    obtain t' r where "get_task s k = Some t'" "task_Status t' = TaskRunning" "task_Run t' = Some r"
        "run_WorkerID r = lease_WorkerID l"
      by (rule wf_lease_task [OF wf l])
    with t wf_task_ok [OF wf t] wf_task_ID [OF wf t] wf_lease_TaskID [OF wf l] show ?thesis
      by (simp add: task_ok_def)
  qed
  with wf_lease_running [OF wf, of k] show ?thesis
    by (auto simp: GetLease_def GetTask_def clone_simps split: option.splits)
qed

theorem lease_iff_running_witness:
  "GetLease ''task-1'' one_running = Inr running_lease \<and>
   (\<exists>t. GetTask ''task-1'' one_running = Inr t \<and> task_Status t = TaskRunning)"
  using lease_iff_running [OF reachable_one_running, of "''task-1''"]
  by (simp add: GetLease_def claim_first_task)

section \<open>Claims\<close>

text \<open>
  \<^verbatim>\<open>ClaimReadyTask\<close> hands out the oldest task that is claimable at that time (it exists, is not
  excluded, is of an accepted kind, has no unfinished blocker, no unexpired lease and an attempt left,
  and is pending or running under an expired lease) with one more attempt, a fresh run and a fresh
  lease for the worker; it reports \<^verbatim>\<open>ErrNoReadyTask\<close> exactly when no task is claimable.
\<close>

theorem ClaimReadyTask_picks_first:
  assumes "reachable s" and "0 < clr_LeaseTTL req"
    and "ClaimReadyTask clk req s = (r, s')" and "now = normalizeNow (clk 0) (clr_Now req)"
  shows "case List.find (claimable s req now) (taskOrder s) of
      None \<Rightarrow> r = Inl (Sentinel ErrNoReadyTask)
    | Some k \<Rightarrow> \<exists>c. r = Inr c \<and> granted s req now k = Some c \<and>
        get_task s' k = Some (claim_Task c) \<and> get_lease s' k = Some (claim_Lease c)"
proof -
  have wf: "wf_store s" using assms(1) by (rule reachable_wf)
  then have "set (taskOrder s) \<subseteq> fmdom' (tasks s)"
    by (simp add: wf_store_def tasks_wf_def ordered_table_def)
  with wf assms show ?thesis by (intro claim_first_spec) (auto simp: ClaimReadyTask_def)
qed

theorem ClaimReadyTask_picks_first_witness:
  "List.find (claimable two_tasks (claim_at 100) 100) (taskOrder two_tasks) = Some ''task-1'' \<and>
   granted two_tasks (claim_at 100) 100 ''task-1'' = Some \<lparr>claim_Task = running_task,
     claim_Lease = running_lease, claim_Run = task_Run running_task\<rparr>"
proof -
  have f: "List.find (claimable two_tasks (claim_at 100) 100) (taskOrder two_tasks) = Some ''task-1''"
    by (simp add: two_tasks_eq claimable_def matchesKinds_def isBlocked_def exhaustedAttempts_def)
  with ClaimReadyTask_picks_first [OF reachable_two_tasks _ claim_first_task(1), of 100] show ?thesis
    by (simp add: normalizeNow_def)
qed

text \<open>
  C4. Mutual exclusion: while a lease has not expired, no claim takes the task away; its lease is
  untouched by any claim of any worker at that time.
\<close>

theorem unexpired_lease_excludes_claims:
  assumes "reachable s" and "get_lease s k = Some l" and "normalizeNow (clk 0) (clr_Now req) < lease_ExpiresAt l"
  shows "get_lease (snd (ClaimReadyTask clk req s)) k = Some l \<and>
    get_lease (snd (ClaimTask clk k req s)) k = Some l \<and>
    (\<exists>e. fst (ClaimTask clk k req s) = Inl e)"
proof -
  let ?now = "normalizeNow (clk 0) (clr_Now req)"
  have wf: "wf_store s" using assms(1) by (rule reachable_wf)
  have one: "get_lease (snd (claimTaskLocked j req ?now s)) k = Some l \<and>
      (j = k \<longrightarrow> (\<exists>e. fst (claimTaskLocked j req ?now s) = Inl e))"
    if "wf_store s" "get_lease s k = Some l" for s j
    using that(1)
  proof (cases rule: claimTaskLocked_cases [where k = j and req = req and now = ?now])
    case (exhausted t)
    with that assms(3) show ?thesis by (auto simp: lease_blocks_def publishTaskFailed_def)
  next
    case (claimed t t' l')
    with that assms(3) show ?thesis by (auto simp: lease_blocks_def)
  qed (use that in auto)
  have "get_lease (snd (claim_first req ?now ks s)) k = Some l" if "wf_store s" "get_lease s k = Some l" for ks s
    using that
  proof (induction ks arbitrary: s)
    case (Cons j ks)
    obtain r s1 where r: "claimTaskLocked j req ?now s = (r, s1)" by fastforce
    with one [OF Cons.prems, of j] wf_claimTaskLocked [OF Cons.prems(1), of j req ?now]
      Cons.IH [of s1] show ?case by (cases r) auto
  qed simp
  with one [OF wf assms(2), of k] wf assms(2) show ?thesis
    by (simp add: ClaimReadyTask_def ClaimTask_def)
qed

theorem unexpired_lease_excludes_claims_witness:
  "get_lease (snd (ClaimReadyTask wall (claim_at 120) one_running)) ''task-1'' = Some running_lease"
  using unexpired_lease_excludes_claims [OF reachable_one_running, of "''task-1''" running_lease wall "claim_at 120"]
  by (simp add: claim_first_task normalizeNow_def)

section \<open>Fencing\<close>

text \<open>
  C7. Lease tokens fence out former holders. Once a task is no longer leased under a token that was
  handed out (the lease expired and was recovered or replaced, the task finished, was deleted, ...),
  no later completion, failure report, renewal or release of the task with that token succeeds or
  changes anything.
\<close>

theorem stale_token_fenced:
  assumes "reachable s" and "numbered ''lease-'' (nextLease s) token" and "\<not> holds_token s k token"
    and "s' = fold exec ops s"
  shows "(\<exists>e \<in> {ErrTaskNotFound, ErrLeaseNotFound, ErrLeaseMismatch}.
      CompleteTask clk k token oc now s' = (Inl (Sentinel e), s') \<and>
      FailTask clk k token runErr now s' = (Inl (Sentinel e), s')) \<and>
    (\<exists>e \<in> {ErrLeaseNotFound, ErrLeaseMismatch}.
      (0 < ttl \<longrightarrow> RenewLease clk k token ttl now s' = (Inl (Sentinel e), s')) \<and>
      ReleaseLease clk k token s' = (Inl (Sentinel e), s'))"
proof -
  have "\<not> holds_token s' k token"
    unfolding assms(4) by (rule dead_token_run [OF reachable_wf [OF assms(1)] assms(2,3)])
  from token_required [OF this] show ?thesis by blast
qed

definition second_claim :: store where
  "second_claim = fold exec [OpRenewLease wall ''task-1'' ''lease-1'' 10 110,
     OpReleaseLease wall ''task-1'' ''lease-1''] one_running"

lemma second_claim_token:
  "reachable second_claim" "nextLease second_claim = 1" "\<not> holds_token second_claim ''task-1'' ''lease-1''"
proof -
  show "reachable second_claim" unfolding second_claim_def by (simp only: fold_simps)
      (intro reachable_step reachable_one_running)
  show "nextLease second_claim = 1" "\<not> holds_token second_claim ''task-1'' ''lease-1''"
    by (simp_all add: second_claim_def RenewLease_def ReleaseLease_def claim_first_task normalizeNow_def
        requeueTaskLocked_def publish_defs Let_def holds_token_def)
qed

theorem stale_token_fenced_witness:
  "\<exists>e. CompleteTask wall ''task-1'' ''lease-1'' None 130
     (exec (OpClaimReadyTask wall (claim_at 120)) second_claim) =
   (Inl (Sentinel e), exec (OpClaimReadyTask wall (claim_at 120)) second_claim)"
proof -
  have "numbered ''lease-'' (nextLease second_claim) ''lease-1''"
    unfolding second_claim_token(2) numbered_def by (intro exI [of _ "1"]) simp
  from stale_token_fenced [OF second_claim_token(1) this second_claim_token(3),
      of _ "[OpClaimReadyTask wall (claim_at 120)]" wall None 130 None 1]
  show ?thesis by auto
qed

section \<open>Life cycle\<close>

text \<open>
  C15. The store implements the task life cycle, operation by operation: from every reachable state, an
  operation leaves the phase (status, attempt, attempt bound) of a task as it is, or causes exactly one
  event of the abstract state machine \<open>lifecycle\<close> for it, with that event's guard satisfied, and only
  an event that \<open>events_of\<close> allows this operation for this task: a retry cannot complete a task, a
  completion of one task cannot touch another, an update, a renewal or a command moves nothing. An
  identifier that was handed out and has no task any more stays without one forever.
\<close>

theorem store_refines_lifecycle:
  assumes "reachable s"
  shows "(abs_phase (exec op s) k = abs_phase s k \<or>
      (\<exists>ev \<in> events_of op k. lifecycle ev (abs_phase s k) (abs_phase (exec op s) k))) \<and>
    (numbered ''task-'' (nextTask s) k \<longrightarrow> abs_phase s k = None \<longrightarrow> abs_phase (fold exec ops s) k = None)"
proof -
  have wf: "wf_store s" using assms by (rule reachable_wf)
  have "acts (events_of op) s (exec op s)" using progress_exec [OF wf] by (simp add: progress_def)
  moreover have "abs_phase (fold exec ops s) k = None" if "numbered ''task-'' (nextTask s) k" "abs_phase s k = None"
    using deleted_run [OF wf that(1)] that(2) by (simp add: abs_phase_def)
  ultimately show ?thesis by (simp add: acts_def)
qed

theorem store_refines_lifecycle_witness:
  "\<exists>ev \<in> {Claim, Exhaustion}. lifecycle ev (Some (TaskPending, 0, 1)) (Some (TaskRunning, 1, 1))"
  using store_refines_lifecycle [OF reachable_two_tasks, of "OpClaimReadyTask wall (claim_at 100)" "''task-1''"]
  by (simp add: one_running_def [symmetric, unfolded exec.simps] abs_phase_def phase_of_def two_tasks_eq
      claim_first_task)

text \<open>
  Completion is final: a completed task keeps its status, result, attempt and completion time
  under every sequence of operations, until it is deleted, and a deleted task never comes back.
\<close>

theorem completed_is_final:
  assumes "reachable s" and "get_task s k = Some t" and "task_Status t = TaskCompleted"
  shows "case get_task (fold exec ops s) k of
      None \<Rightarrow> \<forall>ops'. get_task (fold exec (ops @ ops') s) k = None
    | Some t' \<Rightarrow> task_Status t' = TaskCompleted \<and> task_Result t' = task_Result t \<and>
        task_Attempt t' = task_Attempt t \<and> task_CompletedAt t' = task_CompletedAt t"
proof (cases "get_task (fold exec ops s) k")
  case None
  have wf: "wf_store s" using assms(1) by (rule reachable_wf)
  have "numbered ''task-'' (nextTask (fold exec ops s)) k"
    using wf_task_number [OF wf assms(2)] evolves_mono [OF evolves_run [OF wf, of ops]]
    by (blast intro: numbered_mono)
  from deleted_run [OF mem.inv_run [OF wf] this None] None show ?thesis by simp
next
  case (Some t')
  with completed_run [OF reachable_wf [OF assms(1)] assms(2,3), of ops] assms(3) show ?thesis
    by (auto simp: same_core_def)
qed

theorem completed_is_final_witness:
  "case get_task (exec (OpRetryTask wall ''task-1'' [] 200) first_done) ''task-1'' of
     None \<Rightarrow> True | Some t \<Rightarrow> task_Status t = TaskCompleted"
  using completed_is_final [OF reachable_continuations(1) first_done_eq(1),
      of "[OpRetryTask wall ''task-1'' [] 200]"]
  by (simp split: option.splits)

text \<open>
  A claim never revives a canceled task, but it can overwrite the cancellation: the scan of
  \<^verbatim>\<open>ClaimReadyTask\<close> turns a canceled task whose attempts are used up into a failed one, loses the
  reason of the cancellation and publishes a failure.
\<close>

theorem claim_overwrites_cancellation:
  "reachable first_canceled \<and>
   map_option task_Status (get_task first_canceled ''task-1'') = Some TaskCanceled \<and>
   map_option (\<lambda>t. (task_Status t, task_LastError t))
     (get_task (snd (ClaimReadyTask wall (claim_at 130) first_canceled)) ''task-1'') =
   Some (TaskFailed, ''task exhausted max attempts'')"
proof -
  have t: "get_task first_canceled ''task-1'' = Some (running_task\<lparr>task_Status := TaskCanceled,
     task_Result := None, task_LastError := cancelReason ''stop'', task_CompletedAt := 120,
     task_UpdatedAt := 120\<rparr>)" by (rule first_canceled_eq)
  have t2: "get_task first_canceled ''task-2'' = Some second_task"
    by (simp add: first_canceled_def CancelTask_def claim_first_task normalizeNow_def Let_def
        publishTaskCanceled_def)
  show ?thesis
    using t t2 reachable_continuations(2)
    by (simp add: ClaimReadyTask_def first_canceled_eq claimTaskLocked_def Let_def containsString_def
        matchesKinds_def isBlocked_def exhaustedAttempts_def normalizeNow_def exhaust_task_def
        publishTaskFailed_def)
qed

section \<open>Recovery and deletion\<close>

text \<open>
  \<^verbatim>\<open>RecoverExpiredLeases\<close> is complete, precise and independent of Go's map iteration order: the
  leases left are exactly the unexpired ones; a task whose lease expired is queued again with its
  attempt count kept, or failed when its attempts are used up; every other task is as before; and the
  report lists one entry per expired lease in the order of the task identifiers.
\<close>

theorem RecoverExpiredLeases_exact:
  assumes "reachable s" and "iteration_order it" and "now \<noteq> zero_time"
    and "RecoverExpiredLeases it clk now s = (rs, s')"
  shows "RecoverExpiredLeases id clk now s = (rs, s') \<and>
    rs = List.map_filter (recovery_at s now) (map_keys (leases s)) \<and>
    (\<forall>k. get_lease s' k = (if expired s now k then None else get_lease s k) \<and>
         get_task s' k = (if expired s now k then map_option (recovered_task (clk 1) now) (get_task s k)
                          else get_task s k))"
proof -
  have wf: "wf_store s" using assms(1) by (rule reachable_wf)
  have ks: "sort (it (map_keys (leases s))) = map_keys (leases s)"
    using assms(2) by (simp add: iteration_order_sort sort_key_id_if_sorted sorted_map_keys)
  have rec: "recover_leases (clk 1) now (map_keys (leases s)) s = (rs, s')"
    using assms(3,4) ks by (simp add: RecoverExpiredLeases_def normalizeNow_def)
  have "RecoverExpiredLeases id clk now s = (rs, s')"
    using assms(3) rec by (simp add: RecoverExpiredLeases_def normalizeNow_def sort_key_id_if_sorted)
  moreover have "expired s now k \<Longrightarrow> k \<in> set (map_keys (leases s))" for k
    by (auto simp: expired_def fmlookup_dom'_iff split: option.splits)
  ultimately show ?thesis
    using recover_leases_spec [OF wf distinct_map_keys, of "clk 1" now "leases s"] rec by auto
qed

theorem RecoverExpiredLeases_exact_witness:
  "get_lease (snd (RecoverExpiredLeases rev wall 200 one_running)) ''task-1'' = None \<and>
   map_option task_Status (get_task (snd (RecoverExpiredLeases rev wall 200 one_running)) ''task-1'') =
     Some TaskFailed"
proof -
  have "expired one_running 200 ''task-1''" by (simp add: expired_def claim_first_task)
  moreover have "get_task one_running ''task-1'' = Some running_task" by (simp add: claim_first_task)
  ultimately show ?thesis
    using RecoverExpiredLeases_exact [OF reachable_one_running iteration_order_rev, of 200 wall
        "fst (RecoverExpiredLeases rev wall 200 one_running)"
        "snd (RecoverExpiredLeases rev wall 200 one_running)"]
    by (simp add: recovered_task_def exhaustedAttempts_def)
qed

text \<open>
  \<^verbatim>\<open>DeleteTask\<close> leaves no trace of the task: it, its lease, its artifacts and every dependency
  edge to it are gone, the other tasks lose nothing else, and the tables do not depend on the order in
  which Go visits its maps.
\<close>

theorem DeleteTask_leaves_no_trace:
  assumes "reachable s" and "get_task s k \<noteq> None" and "DeleteTask it clk k s = (r, s')"
  shows "r = Inr () \<and> get_task s' k = None \<and> get_lease s' k = None \<and>
    (\<forall>a x. fmlookup (artifacts s') a = Some x \<longleftrightarrow> fmlookup (artifacts s) a = Some x \<and> art_TaskID x \<noteq> k) \<and>
    (\<forall>j t'. get_task s' j = Some t' \<longrightarrow> k \<notin> set (task_Blocks t') \<and> k \<notin> set (task_BlockedBy t') \<and>
       (\<exists>t. get_task s j = Some t \<and> same_core t t' \<and>
          set (task_Blocks t) - {k} = set (task_Blocks t') \<and> set (task_BlockedBy t) - {k} = set (task_BlockedBy t'))) \<and>
    (snd (DeleteTask it' clk k s))\<lparr>eventBus := None\<rparr> = s'\<lparr>eventBus := None\<rparr>"
proof -
  have wf: "wf_store s" using assms(1) by (rule reachable_wf)
  obtain es where "DeleteTask it clk k s = (Inr (), (delete_state k (clk 0) s)\<lparr>eventBus := es\<rparr>)"
    using assms(2) by (rule DeleteTask_state)
  with assms(3) have s': "s' = (delete_state k (clk 0) s)\<lparr>eventBus := es\<rparr>" and r: "r = Inr ()" by auto
  obtain es' where "DeleteTask it' clk k s = (Inr (), (delete_state k (clk 0) s)\<lparr>eventBus := es'\<rparr>)"
    using assms(2) by (rule DeleteTask_state)
  with s' have "(snd (DeleteTask it' clk k s))\<lparr>eventBus := None\<rparr> = s'\<lparr>eventBus := None\<rparr>" by simp
  moreover have "fmlookup (artifacts s') a = Some x \<longleftrightarrow> fmlookup (artifacts s) a = Some x \<and> art_TaskID x \<noteq> k" for a x
    using delete_state_artifacts [OF wf, of k "clk 0" a] s' by (auto split: option.splits if_splits)
  ultimately show ?thesis
    using r s' by (auto simp: delete_state_lookup unlink_core split: if_splits) (auto simp: unlink_def)
qed

theorem DeleteTask_leaves_no_trace_witness:
  "get_lease (snd (DeleteTask rev wall ''task-1'' one_running)) ''task-1'' = None \<and>
   get_task (snd (DeleteTask rev wall ''task-1'' one_running)) ''task-1'' = None"
  using DeleteTask_leaves_no_trace [OF reachable_one_running, of "''task-1''" rev wall
      "fst (DeleteTask rev wall ''task-1'' one_running)" "snd (DeleteTask rev wall ''task-1'' one_running)"]
  by (simp add: claim_first_task)

end
