(* ===== verification/Orch_Query.thy ===== *)
theory Orch_Query
  imports Orch_Claims Orch_Command_Life
begin

text \<open>
  The current-state queries of \<^verbatim>\<open>ext/orchestrator/query.go\<close> over the in-memory store. The in-memory
  store does not implement \<^verbatim>\<open>RunQueryStore\<close> or \<^verbatim>\<open>CommandQueryStore\<close>, so the queries project the lists
  of tasks and commands; a nil store is \<open>None\<close>. The theory also shows that run identifiers are
  unique, which makes the lookup by run identifier a function.
\<close>

section \<open>Queries\<close>

definition active_run_of :: "task \<Rightarrow> run_ref \<Rightarrow> active_run_summary" where
  "active_run_of t r = \<lparr>ars_RunID = run_ID r, ars_TaskID = task_ID t, ars_TaskKind = task_Kind t,
     ars_TaskSubject = task_Subject t, ars_WorkerID = run_WorkerID r, ars_Attempt = run_Attempt r,
     ars_StartedAt = run_StartedAt r, ars_UpdatedAt = task_UpdatedAt t\<rparr>"

definition ListActiveRuns :: "store option \<Rightarrow> active_run_filter \<Rightarrow> active_run_summary list result" where
  "ListActiveRuns store filt =
     (case store of
        None \<Rightarrow> Inl (ErrorString ''orchestrator: task store must not be nil'')
      | Some s \<Rightarrow>
          (let list = ListTasks \<lparr>tf_Kinds = arf_Kinds filt, tf_Statuses = [TaskRunning]\<rparr> s
           in Inr (concat (map (\<lambda>t. case task_Run t of
                None \<Rightarrow> []
              | Some r \<Rightarrow> if run_ID r = [] then []
                         else if arf_WorkerID filt \<noteq> [] \<and> run_WorkerID r \<noteq> arf_WorkerID filt then []
                         else [active_run_of t r]) list))))"

definition GetActiveRun :: "store option \<Rightarrow> string \<Rightarrow> active_run_summary result" where
  "GetActiveRun store runID =
     (if runID = [] then Inl (Sentinel ErrRunNotFound)
      else case ListActiveRuns store \<lparr>arf_WorkerID = [], arf_Kinds = []\<rparr> of
        Inl e \<Rightarrow> Inl e
      | Inr runs \<Rightarrow>
          (case List.find (\<lambda>run. ars_RunID run = runID) runs of
             None \<Rightarrow> Inl (Sentinel ErrRunNotFound)
           | Some run \<Rightarrow> Inr run))"

definition cloneCommandView :: "command \<Rightarrow> command" where
  "cloneCommandView c = c\<lparr>cmd_Metadata := cloneAnyMap (cmd_Metadata c)\<rparr>"

definition ListPendingCommandsForWorker :: "store option \<Rightarrow> string \<Rightarrow> command list result" where
  "ListPendingCommandsForWorker store workerID =
     (case store of
        None \<Rightarrow> Inl (ErrorString ''orchestrator: command store must not be nil'')
      | Some s \<Rightarrow>
          (let all = ListCommands \<lparr>cf_Kinds = [], cf_Statuses = [CommandPending], cf_TaskID = [],
                       cf_RunID = [], cf_TargetWorkerID = []\<rparr> s
           in Inr (map cloneCommandView
                (filter (\<lambda>c. \<not> (cmd_TargetWorkerID c \<noteq> [] \<and> cmd_TargetWorkerID c \<noteq> workerID)) all))))"

lemma cloneCommandView_id [simp, go_simps]: "cloneCommandView c = c"
  by (simp add: cloneCommandView_def)

section \<open>Run identifiers\<close>

definition run_at :: "store \<Rightarrow> string \<Rightarrow> run_ref option" where
  "run_at s k = Option.bind (get_task s k) task_Run"

definition runs_wf :: "store \<Rightarrow> bool" where
  "runs_wf s \<longleftrightarrow>
     (\<forall>k r. run_at s k = Some r \<longrightarrow> numbered ''run-'' (nextRun s) (run_ID r)) \<and>
     (\<forall>k k' r r'. run_at s k = Some r \<longrightarrow> run_at s k' = Some r' \<longrightarrow> run_ID r = run_ID r' \<longrightarrow> k = k')"

definition runs_kept :: "store \<Rightarrow> store \<Rightarrow> bool" where
  "runs_kept s s' \<longleftrightarrow> nextRun s' = nextRun s \<and> (\<forall>k r. run_at s' k = Some r \<longrightarrow> run_at s k = Some r)"

lemma runs_wf_kept: "runs_wf s \<Longrightarrow> runs_kept s s' \<Longrightarrow> runs_wf s'"
  unfolding runs_wf_def runs_kept_def by metis

lemma runs_kept_refl [simp]: "runs_kept s s"
  by (simp add: runs_kept_def)

lemma runs_kept_trans [trans]: "runs_kept s s' \<Longrightarrow> runs_kept s' s'' \<Longrightarrow> runs_kept s s''"
  by (simp add: runs_kept_def)

lemma run_at_edits [simp]:
  "run_at (s\<lparr>leases := lm\<rparr>) k = run_at s k" "run_at (s\<lparr>commands := cm\<rparr>) k = run_at s k"
  "run_at (s\<lparr>commandOrder := co\<rparr>) k = run_at s k" "run_at (s\<lparr>nextCommand := nc\<rparr>) k = run_at s k"
  "run_at (s\<lparr>artifacts := am\<rparr>) k = run_at s k" "run_at (s\<lparr>artifactOrder := ao\<rparr>) k = run_at s k"
  "run_at (s\<lparr>nextArtifact := na\<rparr>) k = run_at s k" "run_at (publish e s) k = run_at s k"
  "run_at (s\<lparr>nextRun := nr\<rparr>) k = run_at s k" "run_at (s\<lparr>nextLease := nl\<rparr>) k = run_at s k"
  "run_at (s\<lparr>tasks := fmupd j t m\<rparr>) k = (if k = j then task_Run t else run_at (s\<lparr>tasks := m\<rparr>) k)"
  "run_at (s\<lparr>tasks := tasks s\<rparr>) k = run_at s k"
  by (simp_all add: run_at_def)

lemma runs_kept_edits [simp]:
  "runs_kept s (publish e s') = runs_kept s s'"
  "runs_kept s (s'\<lparr>commands := cm\<rparr>) = runs_kept s s'" "runs_kept s (s'\<lparr>leases := lm\<rparr>) = runs_kept s s'"
  "runs_kept s (s'\<lparr>commandOrder := co\<rparr>) = runs_kept s s'"
  "runs_kept s (s'\<lparr>nextCommand := nc\<rparr>) = runs_kept s s'"
  "runs_kept s (s'\<lparr>artifacts := am\<rparr>) = runs_kept s s'"
  "runs_kept s (s'\<lparr>artifactOrder := ao\<rparr>) = runs_kept s s'"
  "runs_kept s (s'\<lparr>nextArtifact := na\<rparr>) = runs_kept s s'"
  "runs_kept s (publishTaskUpdates ks s') = runs_kept s s'"
  by (simp_all add: runs_kept_def run_at_def)

lemma runs_kept_same_run:
  "get_task s k = Some t \<Longrightarrow> task_Run t' = None \<or> task_Run t' = task_Run t \<Longrightarrow> runs_kept s (set_task k t' s)"
  by (auto simp: runs_kept_def run_at_def split: if_splits)

lemma runs_kept_unlease:
  "get_task s k = Some t \<Longrightarrow> task_Run t' = None \<or> task_Run t' = task_Run t \<Longrightarrow>
   runs_kept s ((drop_lease j s)\<lparr>tasks := fmupd k t' (tasks s)\<rparr>)"
  by (auto simp: runs_kept_def run_at_def split: if_splits)

lemma runs_kept_relabelled:
  "relabelled (tasks s) m \<Longrightarrow> runs_kept s (s\<lparr>tasks := m\<rparr>)"
  by (auto simp: runs_kept_def run_at_def same_core_def bind_eq_Some_conv dest!: relabelled_Some)

lemma nextRun_createOutcomeArtifacts [simp]:
  "nextRun (createOutcomeArtifactsLocked t specs at s) = nextRun s"
  unfolding createOutcomeArtifactsLocked_def
  by (induction specs arbitrary: s) (simp_all add: create_outcome_artifact_def Let_def publishArtifactCreated_def)

lemma runs_kept_createOutcomeArtifacts [simp]:
  "runs_kept s (createOutcomeArtifactsLocked t specs at s') = runs_kept s s'"
  by (simp add: runs_kept_def run_at_def)

lemma runs_kept_CreateTask:
  assumes wf: "wf_store s"
  shows "runs_kept s (snd (CreateTask it clk req s))"
  using wf
proof (cases rule: CreateTask_cases [where it = it and clk = clk and req = req])
  case (created t m peers)
  from created(1) have "task_Run t = None" by (simp add: new_task_def)
  moreover have "runs_kept s (s\<lparr>tasks := m\<rparr>)" using created(3) by (rule runs_kept_relabelled)
  ultimately show ?thesis
    using created(2) by (auto simp: publishTaskCreated_def runs_kept_def run_at_def split: if_splits)
qed simp

lemma runs_kept_UpdateTask: "wf_store s \<Longrightarrow> runs_kept s (snd (UpdateTask it clk req s))"
  using UpdateTask_relabels [of s it clk req] by (auto intro: runs_kept_relabelled)

lemma runs_kept_DeleteTask: "runs_kept s (snd (DeleteTask it clk k s))"
proof -
  have "run_at (delete_state k now s) j = (if j = k then None else run_at s j)" for now j
    by (cases "get_task s j") (simp_all add: run_at_def delete_state_lookup unlink_def)
  moreover have "nextRun (delete_state k now s) = nextRun s" for now by (simp add: delete_state_def)
  ultimately have "runs_kept s (delete_state k now s)" for now by (simp add: runs_kept_def)
  then show ?thesis by (simp add: DeleteTask_eq publishTaskDeleted_def)
qed

lemma runs_kept_CompleteTask: "runs_kept s (snd (CompleteTask clk k token oc now s))"
  by (auto simp: CompleteTask_def validateLeaseLocked_Inr publishTaskCompleted_def Let_def
      intro: runs_kept_same_run runs_kept_unlease split: option.split sum.split)

lemma runs_kept_FailTask: "runs_kept s (snd (FailTask clk k token e now s))"
  by (auto simp: FailTask_def validateLeaseLocked_Inr requeueTaskLocked_def publishTaskFailed_def
      publishTaskRequeued_def Let_def
      intro: runs_kept_same_run runs_kept_unlease split: sum.split)

lemma runs_kept_CancelTask: "runs_kept s (snd (CancelTask clk k token reason now s))"
  by (auto simp: CancelTask_def publishTaskCanceled_def Let_def intro: runs_kept_same_run runs_kept_unlease split: option.split)

lemma runs_kept_RetryTask: "runs_kept s (snd (RetryTask clk k reason now s))"
  by (auto simp: RetryTask_def publishTaskRequeued_def Let_def
      intro: runs_kept_same_run runs_kept_unlease split: option.split)

lemma runs_kept_leases:
  "runs_kept s (snd (RenewLease clk k token ttl now s))" "runs_kept s (snd (ReleaseLease clk k token s))"
  by (auto simp: RenewLease_def ReleaseLease_def requeueTaskLocked_def publishLeaseRenewed_def
      publishLeaseReleased_def publishTaskRequeued_def Let_def
      intro: runs_kept_same_run runs_kept_unlease split: option.split)

lemma runs_kept_recover: "runs_kept s (snd (recoverExpiredLeaseLocked rd k now s))"
  by (auto simp: recoverExpiredLeaseLocked_def requeueTaskLocked_def publish_defs Let_def
      intro: runs_kept_same_run runs_kept_unlease split: option.split)

lemma runs_kept_recover_leases: "runs_kept s (snd (recover_leases rd now ks s))"
  by (induction ks arbitrary: s) (auto simp: split_beta intro: runs_kept_trans runs_kept_recover)

lemma same_tasks_runs_kept: "same_tasks s s' \<Longrightarrow> runs_kept s s'"
  by (simp add: same_tasks_def runs_kept_def run_at_def)

lemma runs_wf_claimTaskLocked:
  assumes wf: "wf_store s" and rw: "runs_wf s"
  shows "runs_wf (snd (claimTaskLocked k req now s))"
  using wf
proof (cases rule: claimTaskLocked_cases [where k = k and req = req and now = now])
  case (exhausted t)
  then have "runs_kept s (snd (claimTaskLocked k req now s))"
    by (auto simp: publishTaskFailed_def exhaust_task_def intro: runs_kept_same_run)
  with rw show ?thesis by (rule runs_wf_kept)
next
  case (claimed t t' l)
  let ?s' = "snd (claimTaskLocked k req now s)"
  have r: "run_at ?s' j = (if j = k then task_Run t' else run_at s j)" and n: "nextRun ?s' = Suc (nextRun s)" for j
    using claimed(10) by (simp_all add: run_at_def)
  have new: "task_Run t' = Some (new_run (Suc (nextRun s)) (clr_WorkerID req) now t)"
    using claimed(8) by simp
  have old: "run_at s j = Some x \<Longrightarrow> run_ID x \<noteq> Sprintf_d ''run-'' (Suc (nextRun s))" for j x
    using rw numbered_fresh unfolding runs_wf_def by metis
  show ?thesis
    unfolding runs_wf_def r n new
    using rw old by (auto simp: runs_wf_def split: if_splits) (metis Sprintf_d_inj)+
qed (use rw in simp)

lemma runs_wf_claim_first:
  "wf_store s \<Longrightarrow> runs_wf s \<Longrightarrow> runs_wf (snd (claim_first req now ks s))"
proof (induction ks arbitrary: s)
  case (Cons k ks)
  obtain r s1 where r: "claimTaskLocked k req now s = (r, s1)" by fastforce
  with wf_claimTaskLocked [OF Cons.prems(1), of k req now] runs_wf_claimTaskLocked [OF Cons.prems, of k req now]
  have "wf_store s1" and "runs_wf s1" by simp_all
  with r Cons.IH [of s1] show ?case by (cases r) auto
qed simp

lemma runs_kept_commands:
  "runs_kept s (snd (CreateCommand clk creq s))" "runs_kept s (snd (ClaimPendingCommand clk preq s))"
  "runs_kept s (snd (ClaimCommand clk k preq s))" "runs_kept s (snd (HandleCommand clk k token w now s))"
  "runs_kept s (snd (ReleaseCommand clk k token s))"
  "runs_kept s (snd (RecoverClaimedCommands clk before now s))"
  "runs_kept s (snd (RecoverClaimedCommand clk k before now s))" "runs_kept s (snd (CreateArtifact clk areq s))"
  by (rule same_tasks_runs_kept, auto simp: command_op_defs Let_def publish_defs publishCommandCreated_def
      publishCommandClaimed_def publishCommandHandled_def publishCommandReleased_def
      intro!: same_tasks_claim_first_command same_tasks_recover_commands
        same_tasks_recoverClaimed split: option.split sum.split)+

lemma runs_wf_exec: "wf_store s \<Longrightarrow> runs_wf s \<Longrightarrow> runs_wf (exec op s)"
  by (cases op) (auto simp: ClaimReadyTask_def ClaimTask_def RecoverExpiredLeases_def RecoverExpiredLease_def
      intro: runs_wf_claim_first runs_wf_claimTaskLocked
        runs_wf_kept [OF _ runs_kept_CreateTask] runs_wf_kept [OF _ runs_kept_UpdateTask]
        runs_wf_kept [OF _ runs_kept_DeleteTask] runs_wf_kept [OF _ runs_kept_CompleteTask]
        runs_wf_kept [OF _ runs_kept_FailTask] runs_wf_kept [OF _ runs_kept_CancelTask]
        runs_wf_kept [OF _ runs_kept_RetryTask] runs_wf_kept [OF _ runs_kept_leases(1)]
        runs_wf_kept [OF _ runs_kept_leases(2)] runs_wf_kept [OF _ runs_kept_recover_leases]
        runs_wf_kept [OF _ runs_kept_recover] runs_kept_commands [THEN runs_wf_kept [rotated]])

lemma runs_wf_NewStore: "runs_wf (NewStore bus)"
  by (simp add: NewStore_def runs_wf_def run_at_def)

interpretation mem_runs: step_system initial exec "\<lambda>s. wf_store s \<and> runs_wf s"
  by unfold_locales (auto simp: initial_def wf_NewStore runs_wf_NewStore wf_exec runs_wf_exec)

lemma reachable_runs: "reachable s \<Longrightarrow> runs_wf s"
  unfolding reachable_run using mem_runs.inv_run_init by blast

section \<open>What the queries return\<close>

definition shows_run :: "active_run_filter \<Rightarrow> task \<Rightarrow> run_ref \<Rightarrow> bool" where
  "shows_run f t r \<longleftrightarrow> task_Status t = TaskRunning \<and> task_Run t = Some r \<and>
     matchesKinds t (arf_Kinds f) \<and> (arf_WorkerID f \<noteq> [] \<longrightarrow> run_WorkerID r = arf_WorkerID f)"

definition active_at :: "store \<Rightarrow> active_run_filter \<Rightarrow> string \<Rightarrow> active_run_summary option" where
  "active_at s f k = Option.bind (get_task s k) (\<lambda>t. Option.bind (task_Run t)
     (\<lambda>r. if shows_run f t r then Some (active_run_of t r) else None))"

lemma active_run_of_RunID [simp]: "ars_RunID (active_run_of t r) = run_ID r"
  by (simp add: active_run_of_def)

lemma run_named: "runs_wf s \<Longrightarrow> get_task s k = Some t \<Longrightarrow> task_Run t = Some r \<Longrightarrow> run_ID r \<noteq> []"
  unfolding runs_wf_def run_at_def by (metis bind.bind_lunit numbered_not_Nil)

lemma ListActiveRuns_eq:
  assumes "runs_wf s"
  shows "ListActiveRuns (Some s) f = Inr (List.map_filter (active_at s f) (taskOrder s))"
proof -
  let ?view = "\<lambda>t. case task_Run t of None \<Rightarrow> [] | Some r \<Rightarrow> if run_ID r = [] then []
      else if arf_WorkerID f \<noteq> [] \<and> run_WorkerID r \<noteq> arf_WorkerID f then [] else [active_run_of t r]"
  have "concat (map ?view (case get_task s k of None \<Rightarrow> []
        | Some t \<Rightarrow> if matchesFilter t \<lparr>tf_Kinds = arf_Kinds f, tf_Statuses = [TaskRunning]\<rparr>
                    then [cloneTask t] else []))
      = (case active_at s f k of None \<Rightarrow> [] | Some x \<Rightarrow> [x])" for k
    using run_named [OF assms, of k]
    by (auto simp: active_at_def shows_run_def matchesFilter_def matchesStatuses_def split: option.split)
  then have "concat (map ?view (concat (map (\<lambda>k. case get_task s k of None \<Rightarrow> []
        | Some t \<Rightarrow> if matchesFilter t \<lparr>tf_Kinds = arf_Kinds f, tf_Statuses = [TaskRunning]\<rparr>
                    then [cloneTask t] else []) ks)))
      = List.map_filter (active_at s f) ks" for ks
    by (induction ks) (auto simp: map_filter_simps split: option.split)
  then show ?thesis by (simp add: ListActiveRuns_def ListTasks_def)
qed

lemma active_at_Some:
  "active_at s f k = Some x \<longleftrightarrow>
     (\<exists>t r. get_task s k = Some t \<and> shows_run f t r \<and> x = active_run_of t r)"
  by (auto simp: active_at_def shows_run_def bind_eq_Some_conv split: if_splits)

lemma set_ListActiveRuns:
  assumes "wf_store s" and "runs_wf s" and "ListActiveRuns (Some s) f = Inr runs"
  shows "x \<in> set runs \<longleftrightarrow> (\<exists>k t r. get_task s k = Some t \<and> shows_run f t r \<and> x = active_run_of t r)"
proof -
  have "set (taskOrder s) = fmdom' (tasks s)"
    using assms(1) by (simp add: wf_store_def tasks_wf_def ordered_table_def)
  moreover have "runs = List.map_filter (active_at s f) (taskOrder s)"
    using assms(2,3) ListActiveRuns_eq by simp
  ultimately have "x \<in> set runs \<longleftrightarrow> (\<exists>k \<in> fmdom' (tasks s). active_at s f k = Some x)"
    by (simp add: in_map_filter)
  then show ?thesis by (auto simp: active_at_Some intro: fmdom'I)
qed

lemma distinct_ListActiveRuns:
  assumes wf: "wf_store s" and rw: "runs_wf s" and "ListActiveRuns (Some s) f = Inr runs"
  shows "distinct (map ars_RunID runs)"
proof -
  have inj: "k = k'" if "active_at s f k = Some x" "active_at s f k' = Some x'" "ars_RunID x = ars_RunID x'"
    for k k' x x'
    using that rw by (auto simp: active_at_Some shows_run_def active_run_of_def runs_wf_def run_at_def)
  have "distinct (map ars_RunID (List.map_filter (active_at s f) ks))" if "distinct ks" for ks
    using that
  proof (induction ks)
    case (Cons k ks)
    show ?case
    proof (cases "active_at s f k")
      case (Some x)
      have "ars_RunID x \<notin> ars_RunID ` set (List.map_filter (active_at s f) ks)"
      proof
        assume "ars_RunID x \<in> ars_RunID ` set (List.map_filter (active_at s f) ks)"
        then obtain j y where "j \<in> set ks" "active_at s f j = Some y" "ars_RunID x = ars_RunID y"
          by (auto simp: in_map_filter)
        with inj [OF Some] Cons.prems show False by auto
      qed
      with Some Cons show ?thesis by (simp add: map_filter_simps)
    qed (use Cons in \<open>simp add: map_filter_simps\<close>)
  qed (simp add: map_filter_simps)
  moreover have "distinct (taskOrder s)"
    using wf by (simp add: wf_store_def tasks_wf_def ordered_table_def)
  moreover have "runs = List.map_filter (active_at s f) (taskOrder s)"
    using assms(3) ListActiveRuns_eq [OF rw] by simp
  ultimately show ?thesis by blast
qed

lemma find_unique:
  "distinct (map f xs) \<Longrightarrow> x \<in> set xs \<Longrightarrow> List.find (\<lambda>y. f y = f x) xs = Some x"
  by (induction xs) (auto simp: image_iff)

lemma GetActiveRun_iff:
  assumes wf: "wf_store s" and rw: "runs_wf s"
  shows "GetActiveRun (Some s) rid = Inr x \<longleftrightarrow>
    (\<exists>k t r. get_task s k = Some t \<and> task_Status t = TaskRunning \<and> task_Run t = Some r \<and>
       run_ID r = rid \<and> x = active_run_of t r)"
    and "(\<exists>x. GetActiveRun (Some s) rid = Inr x) \<or> GetActiveRun (Some s) rid = Inl (Sentinel ErrRunNotFound)"
proof -
  let ?f = "\<lparr>arf_WorkerID = [], arf_Kinds = []\<rparr>"
  obtain runs where runs: "ListActiveRuns (Some s) ?f = Inr runs" using ListActiveRuns_eq [OF rw] by blast
  note set = set_ListActiveRuns [OF wf rw runs]
  have set': "x \<in> set runs \<longleftrightarrow> (\<exists>k t r. get_task s k = Some t \<and> task_Status t = TaskRunning \<and>
      task_Run t = Some r \<and> x = active_run_of t r)"
    unfolding set shows_run_def matchesKinds_def by simp
  have ne: "ars_RunID y \<noteq> []" if "y \<in> set runs" for y
    using that run_named [OF rw] by (auto simp: set shows_run_def active_run_of_def)
  have "GetActiveRun (Some s) rid = Inr x \<longleftrightarrow> x \<in> set runs \<and> ars_RunID x = rid"
  proof
    assume "GetActiveRun (Some s) rid = Inr x"
    then have "List.find (\<lambda>run. ars_RunID run = rid) runs = Some x"
      by (simp add: GetActiveRun_def runs split: option.splits if_splits)
    then show "x \<in> set runs \<and> ars_RunID x = rid" by (auto simp: find_Some_iff)
  next
    assume "x \<in> set runs \<and> ars_RunID x = rid"
    with find_unique [OF distinct_ListActiveRuns [OF wf rw runs], of x] ne show "GetActiveRun (Some s) rid = Inr x"
      by (auto simp: GetActiveRun_def runs)
  qed
  then show "GetActiveRun (Some s) rid = Inr x \<longleftrightarrow>
    (\<exists>k t r. get_task s k = Some t \<and> task_Status t = TaskRunning \<and> task_Run t = Some r \<and>
       run_ID r = rid \<and> x = active_run_of t r)"
    using set' active_run_of_RunID by metis
  show "(\<exists>x. GetActiveRun (Some s) rid = Inr x) \<or> GetActiveRun (Some s) rid = Inl (Sentinel ErrRunNotFound)"
    by (auto simp: GetActiveRun_def runs split: option.split)
qed

end
