(* ===== verification/Orch_Recovery.thy ===== *)
theory Orch_Recovery
  imports Orch_Query
begin

text \<open>
  One recovery pass, \<^verbatim>\<open>ext/orchestrator/recovery_manager.go\<close>, over the in-memory store. The state
  behind the local canceler is the type parameter \<open>'st\<close>; the run controller is code of the
  application, a function from a task, its run and a cause to the error it returns, if any. Errors
  handed to the error handler are collected in order.
\<close>

section \<open>The recovery manager\<close>

type_synonym run_controller = "task \<Rightarrow> run_ref \<Rightarrow> go_error \<Rightarrow> go_error option"

record 'st recovery_manager =
  rm_controller :: "run_controller option"
  rm_commandClaimTimeout :: duration
  rm_cancelLocalRun :: "(task \<Rightarrow> go_error \<Rightarrow> 'st \<Rightarrow> bool \<times> 'st) option"

record recovery_sweep =
  sw_RecoveredAt :: time
  sw_LeaseRecoveries :: "lease_recovery list"
  sw_CommandRecoveries :: "command_recovery list"
  sw_LocalRunCancels :: int
  sw_RemoteRunCancels :: int

definition NewRecoveryManager :: "('st recovery_manager \<Rightarrow> 'st recovery_manager) list \<Rightarrow> 'st recovery_manager" where
  "NewRecoveryManager opts = fold (\<lambda>opt m. opt m) opts
     \<lparr>rm_controller = None, rm_commandClaimTimeout = 0, rm_cancelLocalRun = None\<rparr>"

definition WithRecoveryController :: "run_controller option \<Rightarrow> 'st recovery_manager \<Rightarrow> 'st recovery_manager" where
  "WithRecoveryController controller m = m\<lparr>rm_controller := controller\<rparr>"

definition WithRecoveryCommandClaimTimeout :: "duration \<Rightarrow> 'st recovery_manager \<Rightarrow> 'st recovery_manager" where
  "WithRecoveryCommandClaimTimeout timeout m = m\<lparr>rm_commandClaimTimeout := timeout\<rparr>"

definition WithRecoveryLocalCanceler ::
    "(task \<Rightarrow> go_error \<Rightarrow> 'st \<Rightarrow> bool \<times> 'st) \<Rightarrow> 'st recovery_manager \<Rightarrow> 'st recovery_manager" where
  "WithRecoveryLocalCanceler fn m = m\<lparr>rm_cancelLocalRun := Some fn\<rparr>"

definition normalizeRecoveryNow :: "time \<Rightarrow> time \<Rightarrow> time" where
  "normalizeRecoveryNow reading now = (if now = zero_time then reading else now)"

text \<open>The counters of a pass: local and remote cancels, and the errors reported.\<close>

record sweep_count =
  sc_local :: int
  sc_remote :: int
  sc_errors :: "go_error list"

definition cancel_recovered ::
    "'st recovery_manager \<Rightarrow> lease_recovery \<Rightarrow> 'st \<times> sweep_count \<Rightarrow> 'st \<times> sweep_count" where
  "cancel_recovered m lr acc =
     (let (st, n) = acc; t = lrec_Task lr in
      case task_Run t of
        None \<Rightarrow> (st, n)
      | Some run \<Rightarrow>
          (let (stopped, st) = (case rm_cancelLocalRun m of
                 None \<Rightarrow> (False, st) | Some fn \<Rightarrow> fn t (Sentinel ErrLeaseExpired) st)
           in if stopped then (st, n\<lparr>sc_local := sc_local n + 1\<rparr>)
              else case rm_controller m of
                None \<Rightarrow> (st, n)
              | Some cancelRun \<Rightarrow>
                  (case cancelRun t run (Sentinel ErrLeaseExpired) of
                     Some err \<Rightarrow>
                       if errors_Is err (Sentinel ErrRunControlUnavailable) \<or> errors_Is err (Sentinel ErrRunNotFound)
                       then (st, n) else (st, n\<lparr>sc_errors := sc_errors n @ [err]\<rparr>)
                   | None \<Rightarrow> (st, n\<lparr>sc_remote := sc_remote n + 1\<rparr>))))"

text \<open>
  \<^verbatim>\<open>Sweep\<close>: the store implements both recovery interfaces and its recoveries do not fail, so a pass
  always returns a summary. \<open>clk\<close> supplies the clock readings of the pass and of the two store calls.
\<close>

definition Sweep :: "'st recovery_manager \<Rightarrow> iter_order \<Rightarrow> clock \<Rightarrow> time \<Rightarrow> store \<Rightarrow> 'st
    \<Rightarrow> recovery_sweep \<times> store \<times> 'st \<times> go_error list" where
  "Sweep m it clk now s st =
     (let now = normalizeRecoveryNow (clk 0) now;
          (recovered, s1) = RecoverExpiredLeases it (\<lambda>i. clk (1 + i)) now s;
          (st, n) = fold (cancel_recovered m) recovered (st, \<lparr>sc_local = 0, sc_remote = 0, sc_errors = []\<rparr>);
          (crecovered, s2) = (if rm_commandClaimTimeout m > 0
             then RecoverClaimedCommands (\<lambda>i. clk (3 + i)) (now - rm_commandClaimTimeout m) now s1
             else ([], s1))
      in (\<lparr>sw_RecoveredAt = now, sw_LeaseRecoveries = recovered, sw_CommandRecoveries = crecovered,
           sw_LocalRunCancels = sc_local n, sw_RemoteRunCancels = sc_remote n\<rparr>, s2, st, sc_errors n))"

end
