(* ===== verification/Orch_Scheduler.thy ===== *)
theory Orch_Scheduler
  imports Orch_Recovery
begin

text \<open>
  The scheduler, \<^verbatim>\<open>ext/orchestrator/scheduler.go\<close>, over the in-memory store. Its goroutines are
  the main loop of \<^verbatim>\<open>Run\<close>, with a program counter between the calls that other goroutines can
  come between, and one \<^verbatim>\<open>runClaim\<close> per claimed task (a flight) with its renewal loop. The runner is
  code of the application: a step of the model says what it returned and when.
\<close>

section \<open>Configuration\<close>

record scheduler_config =
  cfg_WorkerID :: string
  cfg_PollInterval :: duration
  cfg_LeaseTTL :: duration
  cfg_LeaseRenewInterval :: duration
  cfg_RecoveryInterval :: duration
  cfg_CommandClaimTimeout :: duration
  cfg_MaxConcurrentRuns :: int

abbreviation (input) Second :: duration where "Second \<equiv> 1000000000"
abbreviation (input) Millisecond :: duration where "Millisecond \<equiv> 1000000"

definition DefaultSchedulerConfig :: "time \<Rightarrow> scheduler_config" where
  "DefaultSchedulerConfig reading =
     (let leaseTTL = 30 * Second in
      \<lparr>cfg_WorkerID = ''worker-'' @ show_int (UnixNano reading), cfg_PollInterval = 100 * Millisecond,
       cfg_LeaseTTL = leaseTTL, cfg_LeaseRenewInterval = leaseTTL div 2,
       cfg_RecoveryInterval = leaseTTL div 2, cfg_CommandClaimTimeout = leaseTTL,
       cfg_MaxConcurrentRuns = 1\<rparr>)"

type_synonym scheduler_option = "scheduler_config \<Rightarrow> scheduler_config"

definition WithWorkerID :: "string \<Rightarrow> scheduler_option" where
  "WithWorkerID w cfg = cfg\<lparr>cfg_WorkerID := w\<rparr>"

definition WithPollInterval :: "duration \<Rightarrow> scheduler_option" where
  "WithPollInterval d cfg = cfg\<lparr>cfg_PollInterval := d\<rparr>"

definition WithLeaseTTL :: "duration \<Rightarrow> scheduler_option" where
  "WithLeaseTTL d cfg = cfg\<lparr>cfg_LeaseTTL := d\<rparr>"

definition WithLeaseRenewInterval :: "duration \<Rightarrow> scheduler_option" where
  "WithLeaseRenewInterval d cfg = cfg\<lparr>cfg_LeaseRenewInterval := d\<rparr>"

definition WithRecoveryInterval :: "duration \<Rightarrow> scheduler_option" where
  "WithRecoveryInterval d cfg = cfg\<lparr>cfg_RecoveryInterval := d\<rparr>"

definition WithCommandClaimTimeout :: "duration \<Rightarrow> scheduler_option" where
  "WithCommandClaimTimeout d cfg = cfg\<lparr>cfg_CommandClaimTimeout := d\<rparr>"

definition WithMaxConcurrentRuns :: "int \<Rightarrow> scheduler_option" where
  "WithMaxConcurrentRuns n cfg = cfg\<lparr>cfg_MaxConcurrentRuns := n\<rparr>"

text \<open>
  The configuration \<^verbatim>\<open>NewScheduler\<close> ends with: the options over the defaults, then the values that are
  not positive replaced, the lease TTL before what is derived from it. Go's integer division agrees
  with \<open>div\<close>, since the TTL is positive by then.
\<close>

definition positive_or :: "int \<Rightarrow> int \<Rightarrow> int" where
  "positive_or x fallback = (if x \<le> 0 then fallback else x)"

definition scheduler_config_of :: "clock \<Rightarrow> scheduler_option list \<Rightarrow> scheduler_config" where
  "scheduler_config_of readings opts =
     (let def = DefaultSchedulerConfig (readings 0);
          cfg = fold (\<lambda>opt cfg. opt cfg) opts def;
          ttl = positive_or (cfg_LeaseTTL cfg) (cfg_LeaseTTL def)
      in \<lparr>cfg_WorkerID = (if cfg_WorkerID cfg = [] then cfg_WorkerID (DefaultSchedulerConfig (readings 1))
                          else cfg_WorkerID cfg),
          cfg_PollInterval = positive_or (cfg_PollInterval cfg) (cfg_PollInterval def),
          cfg_LeaseTTL = ttl,
          cfg_LeaseRenewInterval = positive_or (cfg_LeaseRenewInterval cfg) (ttl div 2),
          cfg_RecoveryInterval = positive_or (cfg_RecoveryInterval cfg) (ttl div 2),
          cfg_CommandClaimTimeout = positive_or (cfg_CommandClaimTimeout cfg) ttl,
          cfg_MaxConcurrentRuns = positive_or (cfg_MaxConcurrentRuns cfg) 1\<rparr>)"

section \<open>State\<close>

text \<open>
  A flight is one goroutine of \<^verbatim>\<open>runClaim\<close>: its claim, whether it has registered, the cause its context was canceled with,
  whether its renewal loop still runs, the error that loop left in its channel, whether the
  outcome has been handed to the store, and how many of its deferred calls have run. The active map holds, per task, the claim and the cancel
  function of a flight; the function is named by the number of the flight.
\<close>

datatype flight_exit = Flying | Unregistered | Closed

record flight =
  fl_claim :: claimed_task
  fl_registered :: bool
  fl_cause :: "go_error option"
  fl_renewing :: bool
  fl_renewErr :: "go_error option"
  fl_settled :: bool
  fl_exit :: flight_exit

record active_task_run =
  ar_claim :: claimed_task
  ar_cancel :: nat

datatype main_pc =
    PRecover
  | PCommands
  | PAcquire
  | PClaim "string list"
  | PCheck claimed_task
  | PRelease claimed_task
  | PWait
  | PDone "go_error option"

record scheduler =
  sch_store :: store
  sch_slots :: nat
  sch_flights :: "(nat, flight) go_map"
  sch_spawned :: nat
  sch_active :: "(string, active_task_run) go_map"
  sch_ctx :: "go_error option"
  sch_errors :: "go_error list"
  sch_pc :: main_pc
  sch_nextRecovery :: time

definition NewScheduler :: "store \<Rightarrow> scheduler" where
  "NewScheduler s = \<lparr>sch_store = s, sch_slots = 0, sch_flights = fmempty, sch_spawned = 0,
     sch_active = fmempty, sch_ctx = None, sch_errors = [], sch_pc = PRecover,
     sch_nextRecovery = zero_time\<rparr>"

abbreviation get_flight :: "scheduler \<Rightarrow> nat \<Rightarrow> flight option" where
  "get_flight d \<equiv> fmlookup (sch_flights d)"

section \<open>Slots, registration, cancellation\<close>

definition tryAcquireSlot :: "scheduler_config \<Rightarrow> scheduler \<Rightarrow> bool \<times> scheduler" where
  "tryAcquireSlot cfg d =
     (if int (sch_slots d) < cfg_MaxConcurrentRuns cfg then (True, d\<lparr>sch_slots := Suc (sch_slots d)\<rparr>)
      else (False, d))"

definition releaseSlot :: "scheduler \<Rightarrow> scheduler" where
  "releaseSlot d = (case sch_slots d of 0 \<Rightarrow> d | Suc n \<Rightarrow> d\<lparr>sch_slots := n\<rparr>)"

definition registerActiveClaim :: "claimed_task \<Rightarrow> nat \<Rightarrow> scheduler \<Rightarrow> scheduler" where
  "registerActiveClaim claim n d =
     d\<lparr>sch_active := fmupd (task_ID (claim_Task claim)) \<lparr>ar_claim = claim, ar_cancel = n\<rparr> (sch_active d)\<rparr>"

definition unregisterActiveClaim :: "claimed_task \<Rightarrow> scheduler \<Rightarrow> scheduler" where
  "unregisterActiveClaim claim d = d\<lparr>sch_active := fmdrop (task_ID (claim_Task claim)) (sch_active d)\<rparr>"

definition activeRun :: "scheduler \<Rightarrow> string \<Rightarrow> active_task_run option" where
  "activeRun d k = fmlookup (sch_active d) k"

definition activeTaskIDs :: "scheduler \<Rightarrow> string list" where
  "activeTaskIDs d = map_keys (sch_active d)"

definition localActiveRun :: "scheduler \<Rightarrow> task \<Rightarrow> active_task_run option" where
  "localActiveRun d t =
     (case task_Run t of
        None \<Rightarrow> None
      | Some run \<Rightarrow>
          (case activeRun d (task_ID t) of
             None \<Rightarrow> None
           | Some active \<Rightarrow>
               (case claim_Run (ar_claim active) of
                  None \<Rightarrow> None
                | Some r \<Rightarrow> if run_ID r \<noteq> run_ID run then None else Some active)))"

definition hasConflictingLocalRun :: "scheduler \<Rightarrow> claimed_task \<Rightarrow> bool" where
  "hasConflictingLocalRun d claim =
     (case claim_Run claim of
        None \<Rightarrow> False
      | Some run \<Rightarrow>
          (case activeRun d (task_ID (claim_Task claim)) of
             None \<Rightarrow> False
           | Some active \<Rightarrow>
               (case claim_Run (ar_claim active) of
                  None \<Rightarrow> False
                | Some r \<Rightarrow> run_ID r \<noteq> [] \<and> run_ID r \<noteq> run_ID run)))"

text \<open>\<^verbatim>\<open>context.CancelCauseFunc\<close>: the first cause wins.\<close>

definition cancel_flight :: "nat \<Rightarrow> go_error \<Rightarrow> scheduler \<Rightarrow> scheduler" where
  "cancel_flight n cause d =
     (case get_flight d n of
        None \<Rightarrow> d
      | Some f \<Rightarrow>
          d\<lparr>sch_flights := fmupd n (f\<lparr>fl_cause := (case fl_cause f of None \<Rightarrow> Some cause | Some c \<Rightarrow> Some c)\<rparr>)
             (sch_flights d)\<rparr>)"

definition on_error :: "go_error \<Rightarrow> scheduler \<Rightarrow> scheduler" where
  "on_error e d = d\<lparr>sch_errors := sch_errors d @ [e]\<rparr>"

definition cancelRemoteRun :: "run_controller option \<Rightarrow> task \<Rightarrow> run_ref option \<Rightarrow> go_error \<Rightarrow> go_error option" where
  "cancelRemoteRun ctl t run cause =
     (case run of
        None \<Rightarrow> Some (Sentinel ErrRunNotFound)
      | Some run \<Rightarrow>
          (case ctl of
             None \<Rightarrow> Some (Sentinel ErrRunControlUnavailable)
           | Some cancelRun \<Rightarrow> cancelRun t run cause))"

definition shouldStopScheduler :: "scheduler \<Rightarrow> go_error \<Rightarrow> bool" where
  "shouldStopScheduler d err \<longleftrightarrow>
     sch_ctx d \<noteq> None \<and> (errors_Is err ContextCanceled \<or> errors_Is err DeadlineExceeded)"

section \<open>Commands\<close>

text \<open>
  The three kinds of command. A handler returns the error of the Go function, if any, beside the
  state; \<open>clk\<close> supplies the readings of the store's clock and \<open>wall\<close> those of \<^verbatim>\<open>s.cfg.Now\<close>.
\<close>

definition apply_cancel_running :: "run_controller option \<Rightarrow> clock \<Rightarrow> command \<Rightarrow> time \<Rightarrow> task \<Rightarrow> scheduler
    \<Rightarrow> go_error option \<times> scheduler" where
  "apply_cancel_running ctl clk c now t d =
     (case GetLease (task_ID t) (sch_store d) of
        Inl err \<Rightarrow> (Some err, d)
      | Inr lease \<Rightarrow>
          (let cause = TaskCancelCause (cmd_Reason c);
               remote = (case localActiveRun d t of
                   Some _ \<Rightarrow> None | None \<Rightarrow> cancelRemoteRun ctl t (task_Run t) cause)
           in case remote of
                Some err \<Rightarrow> (Some err, d)
              | None \<Rightarrow>
                  (let (r, s) = CancelTask clk (task_ID t) (lease_Token lease) (cmd_Reason c) now (sch_store d);
                       d1 = d\<lparr>sch_store := s\<rparr>;
                       failed = (case r of
                           Inl err \<Rightarrow> if errors_Is err (Sentinel ErrTaskNotCancelable) then None else Some err
                         | Inr _ \<Rightarrow> None)
                   in case failed of
                        Some err \<Rightarrow> (Some err, d1)
                      | None \<Rightarrow>
                          (None, case localActiveRun d t of
                                   None \<Rightarrow> d1 | Some active \<Rightarrow> cancel_flight (ar_cancel active) cause d1))))"

definition applyCancelTask :: "run_controller option \<Rightarrow> clock \<Rightarrow> command \<Rightarrow> time \<Rightarrow> scheduler
    \<Rightarrow> go_error option \<times> scheduler" where
  "applyCancelTask ctl clk c now d =
     (case GetTask (cmd_TaskID c) (sch_store d) of
        Inl err \<Rightarrow> if errors_Is err (Sentinel ErrTaskNotFound) then (None, d) else (Some err, d)
      | Inr t \<Rightarrow>
          (case task_Status t of
             TaskPending \<Rightarrow>
               (let (r, s) = CancelTask clk (task_ID t) [] (cmd_Reason c) now (sch_store d);
                    d1 = d\<lparr>sch_store := s\<rparr>
                in case r of
                     Inl err \<Rightarrow> if errors_Is err (Sentinel ErrTaskNotCancelable) then (None, d1) else (Some err, d1)
                   | Inr _ \<Rightarrow> (None, d1))
           | TaskRunning \<Rightarrow> apply_cancel_running ctl clk c now t d
           | _ \<Rightarrow> (None, d)))"

definition applyAbortRun :: "run_controller option \<Rightarrow> clock \<Rightarrow> time \<Rightarrow> command \<Rightarrow> scheduler
    \<Rightarrow> go_error option \<times> scheduler" where
  "applyAbortRun ctl clk now c d =
     (case GetTask (cmd_TaskID c) (sch_store d) of
        Inl err \<Rightarrow> if errors_Is err (Sentinel ErrTaskNotFound) then (None, d) else (Some err, d)
      | Inr t \<Rightarrow>
          (case task_Run t of
             None \<Rightarrow> (None, d)
           | Some run \<Rightarrow>
               if task_Status t \<noteq> TaskRunning then (None, d)
               else if cmd_RunID c \<noteq> [] \<and> run_ID run \<noteq> cmd_RunID c then (None, d)
               else
                 (let cause = RunAbortCause (cmd_Reason c)
                  in case localActiveRun d t of
                       Some active \<Rightarrow> (None, cancel_flight (ar_cancel active) cause d)
                     | None \<Rightarrow>
                         (case GetLease (task_ID t) (sch_store d) of
                            Inl err \<Rightarrow> (Some err, d)
                          | Inr lease \<Rightarrow>
                              (case cancelRemoteRun ctl t (Some run) cause of
                                 Some err \<Rightarrow> (Some err, d)
                               | None \<Rightarrow>
                                   (let (r, s) = FailTask clk (task_ID t) (lease_Token lease) (Some cause) now
                                                   (sch_store d);
                                        d1 = d\<lparr>sch_store := s\<rparr>
                                    in case r of
                                         Inl err \<Rightarrow> if isLeaseLoss err then (None, d1) else (Some err, d1)
                                       | Inr _ \<Rightarrow> (None, d1)))))))"

definition applyRetryTask :: "clock \<Rightarrow> command \<Rightarrow> time \<Rightarrow> scheduler \<Rightarrow> go_error option \<times> scheduler" where
  "applyRetryTask clk c now d =
     (case GetTask (cmd_TaskID c) (sch_store d) of
        Inl err \<Rightarrow> if errors_Is err (Sentinel ErrTaskNotFound) then (None, d) else (Some err, d)
      | Inr t \<Rightarrow>
          if task_Status t = TaskFailed \<or> task_Status t = TaskCanceled
          then (let (r, s) = RetryTask clk (task_ID t) (cmd_Reason c) now (sch_store d);
                    d1 = d\<lparr>sch_store := s\<rparr>
                in case r of
                     Inl err \<Rightarrow> if errors_Is err (Sentinel ErrTaskNotRetryable) then (None, d1) else (Some err, d1)
                   | Inr _ \<Rightarrow> (None, d1))
          else (None, d))"

definition apply_command :: "run_controller option \<Rightarrow> clock \<Rightarrow> clock \<Rightarrow> command \<Rightarrow> scheduler
    \<Rightarrow> go_error option \<times> scheduler" where
  "apply_command ctl wall clk c d =
     (case cmd_Kind c of
        CommandCancelTask \<Rightarrow> applyCancelTask ctl clk c (wall 0) d
      | CommandAbortRun \<Rightarrow> applyAbortRun ctl clk (wall 1) c d
      | CommandRetryTask \<Rightarrow> applyRetryTask clk c (wall 0) d
      | CommandKindOther _ \<Rightarrow> (Some (Sentinel ErrInvalidCommand), d))"

definition handleCommand :: "scheduler_config \<Rightarrow> run_controller option \<Rightarrow> clock \<Rightarrow> clock \<Rightarrow> command
    \<Rightarrow> scheduler \<Rightarrow> go_error option \<times> scheduler" where
  "handleCommand cfg ctl wall clk c d =
     (case apply_command ctl wall clk c d of
        (Some err, d1) \<Rightarrow> (Some err, d1)
      | (None, d1) \<Rightarrow>
          (let (r, s) = HandleCommand (\<lambda>i. clk (3 + i)) (cmd_ID c) (cmd_ClaimToken c) (cfg_WorkerID cfg) (wall 0)
                          (sch_store d1)
           in (case r of Inl err \<Rightarrow> Some err | Inr _ \<Rightarrow> None, d1\<lparr>sch_store := s\<rparr>)))"

text \<open>
  The loop of \<^verbatim>\<open>processCommands\<close>: it ends when no command is left for this worker, or at the first
  command that cannot be handled, which goes back to pending. One round takes at most four readings
  of the scheduler's clock and eight of the store's.
\<close>

definition release_unhandled :: "clock \<Rightarrow> command \<Rightarrow> go_error \<Rightarrow> scheduler \<Rightarrow> go_error option \<times> scheduler" where
  "release_unhandled clk c err d =
     (let (r, s) = ReleaseCommand (\<lambda>i. clk (6 + i)) (cmd_ID c) (cmd_ClaimToken c) (sch_store d);
          d1 = d\<lparr>sch_store := s\<rparr>
      in case r of
           Inl releaseErr \<Rightarrow>
             if errors_Is releaseErr (Sentinel ErrCommandClaimMismatch) then (None, on_error err d1)
             else (Some releaseErr, on_error releaseErr d1)
         | Inr _ \<Rightarrow> (None, on_error err d1))"

text \<open>One round: \<open>Inl\<close> returns from the loop, \<open>Inr\<close> goes around again.\<close>

definition command_round :: "scheduler_config \<Rightarrow> run_controller option \<Rightarrow> clock \<Rightarrow> clock \<Rightarrow> scheduler
    \<Rightarrow> (go_error option \<times> scheduler) + scheduler" where
  "command_round cfg ctl wall clk d =
     (case ClaimPendingCommand clk \<lparr>cclr_WorkerID = cfg_WorkerID cfg, cclr_Now = wall 0\<rparr> (sch_store d) of
        (Inl err, s) \<Rightarrow>
          if errors_Is err (Sentinel ErrNoPendingCommand) then Inl (None, d\<lparr>sch_store := s\<rparr>)
          else Inl (Some err, d\<lparr>sch_store := s\<rparr>)
      | (Inr c, s) \<Rightarrow>
          (case handleCommand cfg ctl (\<lambda>i. wall (1 + i)) (\<lambda>i. clk (1 + i)) c (d\<lparr>sch_store := s\<rparr>) of
             (Some err, d1) \<Rightarrow> Inl (release_unhandled clk c err d1)
           | (None, d1) \<Rightarrow> Inr d1))"

partial_function (option) processCommands :: "scheduler_config \<Rightarrow> run_controller option \<Rightarrow> clock \<Rightarrow> clock
    \<Rightarrow> scheduler \<Rightarrow> (go_error option \<times> scheduler) option" where
  "processCommands cfg ctl wall clk d =
     (case command_round cfg ctl wall clk d of
        Inl r \<Rightarrow> Some r
      | Inr d1 \<Rightarrow> processCommands cfg ctl (\<lambda>i. wall (4 + i)) (\<lambda>i. clk (8 + i)) d1)"

section \<open>Recovery\<close>

definition recoveryEnabled :: "scheduler_config \<Rightarrow> bool" where
  "recoveryEnabled cfg \<longleftrightarrow> \<not> cfg_RecoveryInterval cfg \<le> 0"

definition cancel_local :: "task \<Rightarrow> go_error \<Rightarrow> scheduler \<Rightarrow> bool \<times> scheduler" where
  "cancel_local t cause d =
     (case localActiveRun d t of
        None \<Rightarrow> (False, d) | Some active \<Rightarrow> (True, cancel_flight (ar_cancel active) cause d))"

definition recover :: "scheduler_config \<Rightarrow> run_controller option \<Rightarrow> iter_order \<Rightarrow> clock \<Rightarrow> time \<Rightarrow> scheduler
    \<Rightarrow> scheduler" where
  "recover cfg ctl it clk now d =
     (let m = NewRecoveryManager [WithRecoveryController ctl,
                WithRecoveryCommandClaimTimeout (cfg_CommandClaimTimeout cfg),
                WithRecoveryLocalCanceler cancel_local];
          (_, s, d1, errs) = Sweep m it clk now (sch_store d) d
      in d1\<lparr>sch_store := s, sch_errors := sch_errors d1 @ errs\<rparr>)"

section \<open>Running a claim\<close>

text \<open>
  \<^verbatim>\<open>go s.runClaim(ctx, claim)\<close>: the context of the flight is canceled from the start when the context
  of \<^verbatim>\<open>Run\<close> already is.
\<close>

definition spawn :: "claimed_task \<Rightarrow> scheduler \<Rightarrow> scheduler" where
  "spawn claim d =
     d\<lparr>sch_spawned := Suc (sch_spawned d),
       sch_flights := fmupd (sch_spawned d) \<lparr>fl_claim = claim, fl_registered = False,
         fl_cause = sch_ctx d, fl_renewing = True, fl_renewErr = None, fl_settled = False,
         fl_exit = Flying\<rparr> (sch_flights d)\<rparr>"

text \<open>A flight registers its claim first of all; renewals, the runner and the rest come after.\<close>

definition register_step :: "nat \<Rightarrow> scheduler \<Rightarrow> scheduler" where
  "register_step n d =
     (case get_flight d n of
        None \<Rightarrow> d
      | Some f \<Rightarrow>
          if fl_registered f then d
          else registerActiveClaim (fl_claim f) n
                 (d\<lparr>sch_flights := fmupd n (f\<lparr>fl_registered := True\<rparr>) (sch_flights d)\<rparr>))"

text \<open>One tick of \<^verbatim>\<open>renewLoop\<close>: a failed renewal leaves its error, cancels the flight and ends the loop.\<close>

definition renew_step :: "scheduler_config \<Rightarrow> nat \<Rightarrow> clock \<Rightarrow> time \<Rightarrow> scheduler \<Rightarrow> scheduler" where
  "renew_step cfg n clk now d =
     (case get_flight d n of
        None \<Rightarrow> d
      | Some f \<Rightarrow>
          if \<not> fl_registered f \<or> \<not> fl_renewing f then d
          else (let claim = fl_claim f;
                    (r, s) = RenewLease clk (task_ID (claim_Task claim)) (lease_Token (claim_Lease claim))
                               (cfg_LeaseTTL cfg) now (sch_store d);
                    d1 = d\<lparr>sch_store := s\<rparr>
                in case r of
                     Inr _ \<Rightarrow> d1
                   | Inl err \<Rightarrow>
                       cancel_flight n err (d1\<lparr>sch_flights :=
                         fmupd n (f\<lparr>fl_renewing := False, fl_renewErr := Some err\<rparr>) (sch_flights d)\<rparr>)))"

text \<open>The error \<^verbatim>\<open>runClaim\<close> settles with, from what the runner returned, the renewal and the cause.\<close>

definition run_error :: "flight \<Rightarrow> go_error option \<Rightarrow> go_error option" where
  "run_error f runErr =
     (let runErr = (case runErr of None \<Rightarrow> fl_renewErr f | Some e \<Rightarrow> Some e)
      in case runErr of
           None \<Rightarrow> None
         | Some e \<Rightarrow>
             if errors_Is e ContextCanceled
             then (case fl_cause f of
                     None \<Rightarrow> Some e
                   | Some cause \<Rightarrow> if errors_Is cause ContextCanceled then Some e else Some cause)
             else Some e)"

definition stamp_outcome :: "time \<Rightarrow> task_outcome \<Rightarrow> task_outcome" where
  "stamp_outcome now oc = oc\<lparr>outcome_Result := map_option (\<lambda>r. if result_CompletedAt r = zero_time
     then r\<lparr>result_CompletedAt := now\<rparr> else r) (outcome_Result oc)\<rparr>"

definition settle_failure :: "flight \<Rightarrow> clock \<Rightarrow> time \<Rightarrow> go_error \<Rightarrow> scheduler \<Rightarrow> scheduler" where
  "settle_failure f clk now e d =
     (let k = task_ID (claim_Task (fl_claim f)); token = lease_Token (claim_Lease (fl_claim f)) in
      if fl_renewErr f = None \<and> errors_Is e ContextCanceled \<and> sch_ctx d \<noteq> None
      then (let (r, s) = ReleaseLease clk k token (sch_store d); d1 = d\<lparr>sch_store := s\<rparr>
            in case r of Inl err \<Rightarrow> if isLeaseLoss err then d1 else on_error err d1 | Inr _ \<Rightarrow> d1)
      else (let (r, s) = FailTask clk k token (Some e) now (sch_store d); d1 = d\<lparr>sch_store := s\<rparr>
            in case r of
                 Inl err \<Rightarrow>
                   if isLeaseLoss err
                   then (if errors_Is e ContextCanceled then d1 else on_error e d1)
                   else on_error err d1
               | Inr _ \<Rightarrow> d1))"

definition settle_success :: "flight \<Rightarrow> clock \<Rightarrow> time \<Rightarrow> task_outcome option \<Rightarrow> scheduler \<Rightarrow> scheduler" where
  "settle_success f clk now outcome d =
     (let (r, s) = CompleteTask clk (task_ID (claim_Task (fl_claim f))) (lease_Token (claim_Lease (fl_claim f)))
                     (map_option (stamp_outcome now) outcome) now (sch_store d);
          d1 = d\<lparr>sch_store := s\<rparr>
      in case r of Inl err \<Rightarrow> if isLeaseLoss err then d1 else on_error err d1 | Inr _ \<Rightarrow> d1)"

text \<open>The runner has returned: the renewal loop ends and the outcome goes to the store.\<close>

definition settle_step :: "nat \<Rightarrow> clock \<Rightarrow> time \<Rightarrow> task_outcome option \<Rightarrow> go_error option \<Rightarrow> scheduler \<Rightarrow> scheduler" where
  "settle_step n clk now outcome runErr d =
     (case get_flight d n of
        None \<Rightarrow> d
      | Some f \<Rightarrow>
          if \<not> fl_registered f \<or> fl_settled f then d
          else (let d1 = d\<lparr>sch_flights := fmupd n (f\<lparr>fl_renewing := False, fl_settled := True\<rparr>) (sch_flights d)\<rparr>
                in case run_error f runErr of
                     Some e \<Rightarrow> settle_failure f clk now e d1
                   | None \<Rightarrow> settle_success f clk now outcome d1))"

text \<open>
  The deferred calls of \<^verbatim>\<open>runClaim\<close>, in their order and each a step of its own: the task is unregistered,
  the context of the flight is canceled with no cause of its own, and the slot is given back.
\<close>

definition unregister_step :: "nat \<Rightarrow> scheduler \<Rightarrow> scheduler" where
  "unregister_step n d =
     (case get_flight d n of
        None \<Rightarrow> d
      | Some f \<Rightarrow>
          if \<not> fl_registered f \<or> \<not> fl_settled f \<or> fl_exit f \<noteq> Flying then d
          else (unregisterActiveClaim (fl_claim f) d)\<lparr>sch_flights :=
                 fmupd n (f\<lparr>fl_exit := Unregistered\<rparr>) (sch_flights d)\<rparr>)"

definition close_step :: "nat \<Rightarrow> scheduler \<Rightarrow> scheduler" where
  "close_step n d =
     (case get_flight d n of
        None \<Rightarrow> d
      | Some f \<Rightarrow>
          if fl_exit f \<noteq> Unregistered then d
          else cancel_flight n ContextCanceled
                 (d\<lparr>sch_flights := fmupd n (f\<lparr>fl_exit := Closed\<rparr>) (sch_flights d)\<rparr>))"

definition leave_step :: "nat \<Rightarrow> scheduler \<Rightarrow> scheduler" where
  "leave_step n d =
     (case get_flight d n of
        None \<Rightarrow> d
      | Some f \<Rightarrow>
          if fl_exit f \<noteq> Closed then d
          else releaseSlot (d\<lparr>sch_flights := fmdrop n (sch_flights d)\<rparr>))"

section \<open>The main loop\<close>

definition stop_or_fail :: "scheduler \<Rightarrow> go_error \<Rightarrow> scheduler" where
  "stop_or_fail d err = d\<lparr>sch_pc := PDone (if shouldStopScheduler d err then None else Some err)\<rparr>"

definition recover_turn :: "scheduler_config \<Rightarrow> run_controller option \<Rightarrow> iter_order \<Rightarrow> clock \<Rightarrow> time \<Rightarrow> scheduler
    \<Rightarrow> scheduler" where
  "recover_turn cfg ctl it clk now d =
     (if recoveryEnabled cfg \<and> (sch_nextRecovery d = zero_time \<or> \<not> now < sch_nextRecovery d)
      then (recover cfg ctl it clk now d)\<lparr>sch_nextRecovery := now + cfg_RecoveryInterval cfg\<rparr> else d)"

text \<open>\<^verbatim>\<open>dispatch\<close>, from the acquisition of a slot to the start of the flight.\<close>

definition claim_turn :: "scheduler_config \<Rightarrow> clock \<Rightarrow> time \<Rightarrow> string list \<Rightarrow> scheduler \<Rightarrow> scheduler" where
  "claim_turn cfg clk now ids d =
     (let (r, s) = ClaimReadyTask clk \<lparr>clr_WorkerID = cfg_WorkerID cfg, clr_LeaseTTL = cfg_LeaseTTL cfg,
                     clr_Now = now, clr_Kinds = [], clr_ExcludeTaskIDs = ids\<rparr> (sch_store d);
          d1 = d\<lparr>sch_store := s\<rparr>
      in case r of
           Inl err \<Rightarrow>
             (let d2 = releaseSlot d1
              in if errors_Is err (Sentinel ErrNoReadyTask) then d2\<lparr>sch_pc := PWait\<rparr> else stop_or_fail d2 err)
         | Inr claim \<Rightarrow> d1\<lparr>sch_pc := PCheck claim\<rparr>)"

definition release_turn :: "clock \<Rightarrow> claimed_task \<Rightarrow> scheduler \<Rightarrow> scheduler" where
  "release_turn clk claim d =
     (let (r, s) = ReleaseLease clk (task_ID (claim_Task claim)) (lease_Token (claim_Lease claim)) (sch_store d);
          d1 = releaseSlot (d\<lparr>sch_store := s\<rparr>)
      in case r of
           Inl err \<Rightarrow> if isLeaseLoss err then d1\<lparr>sch_pc := PAcquire\<rparr> else stop_or_fail d1 err
         | Inr _ \<Rightarrow> d1\<lparr>sch_pc := PAcquire\<rparr>)"

text \<open>
  One step of the main goroutine; a round of the command loop, with the command it takes, is one step.
  \<open>wall\<close> supplies \<^verbatim>\<open>s.cfg.Now\<close>; \<open>tick\<close> resolves the final \<^verbatim>\<open>select\<close>,
  which may take the ticker or, once the context is canceled, leave the loop.
\<close>

definition main_step :: "scheduler_config \<Rightarrow> run_controller option \<Rightarrow> iter_order \<Rightarrow> clock \<Rightarrow> clock \<Rightarrow> bool \<Rightarrow> scheduler
    \<Rightarrow> scheduler" where
  "main_step cfg ctl it wall clk tick d =
     (case sch_pc d of
        PRecover \<Rightarrow> (recover_turn cfg ctl it clk (wall 0) d)\<lparr>sch_pc := PCommands\<rparr>
      | PCommands \<Rightarrow>
          (case command_round cfg ctl wall clk d of
             Inr d1 \<Rightarrow> d1
           | Inl (Some err, d1) \<Rightarrow> stop_or_fail d1 err
           | Inl (None, d1) \<Rightarrow> d1\<lparr>sch_pc := PAcquire\<rparr>)
      | PAcquire \<Rightarrow>
          (case tryAcquireSlot cfg d of
             (False, d1) \<Rightarrow> d1\<lparr>sch_pc := PWait\<rparr>
           | (True, d1) \<Rightarrow> d1\<lparr>sch_pc := PClaim (activeTaskIDs d1)\<rparr>)
      | PClaim ids \<Rightarrow> claim_turn cfg clk (wall 0) ids d
      | PCheck claim \<Rightarrow>
          if hasConflictingLocalRun d claim then d\<lparr>sch_pc := PRelease claim\<rparr>
          else (spawn claim d)\<lparr>sch_pc := PAcquire\<rparr>
      | PRelease claim \<Rightarrow> release_turn clk claim d
      | PWait \<Rightarrow> if tick then d\<lparr>sch_pc := PRecover\<rparr>
                 else if sch_ctx d \<noteq> None then d\<lparr>sch_pc := PDone None\<rparr> else d
      | PDone _ \<Rightarrow> d)"

section \<open>Interleaving\<close>

text \<open>
  The steps of the whole: the main goroutine, the flights, the cancellation of the context of \<^verbatim>\<open>Run\<close>,
  which reaches every flight that has not been canceled, and the other clients of the store.
\<close>

datatype sched_op =
    SMain iter_order clock clock bool
  | SRegister nat
  | SRenew nat clock time
  | SSettle nat clock time "task_outcome option" "go_error option"
  | SUnregister nat
  | SClose nat
  | SLeave nat
  | SCancelContext go_error
  | SStore store_op

definition cancel_context :: "go_error \<Rightarrow> scheduler \<Rightarrow> scheduler" where
  "cancel_context err d =
     (if sch_ctx d \<noteq> None then d
      else d\<lparr>sch_ctx := Some err,
             sch_flights := fmmap (\<lambda>f. f\<lparr>fl_cause := (case fl_cause f of None \<Rightarrow> Some err | Some c \<Rightarrow> Some c)\<rparr>)
               (sch_flights d)\<rparr>)"

fun sched_step :: "scheduler_config \<Rightarrow> run_controller option \<Rightarrow> sched_op \<Rightarrow> scheduler \<Rightarrow> scheduler" where
  "sched_step cfg ctl (SMain it wall clk tick) d = main_step cfg ctl it wall clk tick d"
| "sched_step cfg ctl (SRegister n) d = register_step n d"
| "sched_step cfg ctl (SRenew n clk now) d = renew_step cfg n clk now d"
| "sched_step cfg ctl (SSettle n clk now outcome runErr) d = settle_step n clk now outcome runErr d"
| "sched_step cfg ctl (SUnregister n) d = unregister_step n d"
| "sched_step cfg ctl (SClose n) d = close_step n d"
| "sched_step cfg ctl (SLeave n) d = leave_step n d"
| "sched_step cfg ctl (SCancelContext err) d = cancel_context err d"
| "sched_step cfg ctl (SStore op) d = d\<lparr>sch_store := exec op (sch_store d)\<rparr>"

definition sched_initial :: "scheduler \<Rightarrow> bool" where
  "sched_initial d \<longleftrightarrow> (\<exists>s. reachable s \<and> d = NewScheduler s)"

end
