(* ===== verification/Orch_Sched_Inv.thy ===== *)
theory Orch_Sched_Inv
  imports Orch_Scheduler
begin

text \<open>
  What the steps of the scheduler keep. Every step reaches the store only through its operations, so
  whatever holds of every reachable store holds under the scheduler; slots count the flights; the
  active map names flights that are under way; and no two claims the scheduler holds share a lease.
\<close>

section \<open>The store moves by its own operations\<close>

definition store_run :: "store \<Rightarrow> store \<Rightarrow> bool" where
  "store_run s s' \<longleftrightarrow> (\<exists>ops. s' = fold exec ops s)"

lemma store_run_refl [simp, intro]: "store_run s s"
  unfolding store_run_def by (rule exI [of _ "[]"]) simp

lemma store_run_trans [trans]: "store_run s s' \<Longrightarrow> store_run s' s'' \<Longrightarrow> store_run s s''"
  unfolding store_run_def by (metis fold_append comp_apply)

lemma store_run_exec: "exec op s = s' \<Longrightarrow> store_run s s'"
  unfolding store_run_def by (rule exI [of _ "[op]"]) simp

lemma store_run_op:
  "store_run s (snd (ClaimReadyTask clk req s))" "store_run s (snd (CompleteTask clk k token oc now s))"
  "store_run s (snd (FailTask clk k token e now s))" "store_run s (snd (CancelTask clk k token reason now s))"
  "store_run s (snd (RetryTask clk k reason now s))" "store_run s (snd (RenewLease clk k token ttl now s))"
  "store_run s (snd (ReleaseLease clk k token s))" "store_run s (snd (RecoverExpiredLeases it clk now s))"
  "store_run s (snd (ClaimPendingCommand clk preq s))" "store_run s (snd (HandleCommand clk k token w now s))"
  "store_run s (snd (ReleaseCommand clk k token s))" "store_run s (snd (RecoverClaimedCommands clk before now s))"
  by (rule store_run_exec, rule exec.simps)+

lemma store_run_result: "P (snd x) \<Longrightarrow> x = (r, s') \<Longrightarrow> P s'"
  by simp

lemma store_run_reachable: "reachable s \<Longrightarrow> store_run s s' \<Longrightarrow> reachable s'"
  unfolding store_run_def reachable_run by (metis fold_append comp_apply)

lemma store_run_wf: "wf_store s \<Longrightarrow> store_run s s' \<Longrightarrow> wf_store s'"
  unfolding store_run_def using mem.inv_run by blast

lemma store_run_leases: "wf_store s \<Longrightarrow> store_run s s' \<Longrightarrow> nextLease s \<le> nextLease s'"
  unfolding store_run_def using evolves_mono [OF evolves_run] by blast

section \<open>Steps that leave the shape alone\<close>

text \<open>
  Handling commands and recovering leases changes the store, the causes of flights that had none and
  the list of errors, nothing else.
\<close>

definition recaused :: "flight \<Rightarrow> flight \<Rightarrow> bool" where
  "recaused f f' \<longleftrightarrow> f' = f\<lparr>fl_cause := fl_cause f'\<rparr> \<and> (fl_cause f \<noteq> None \<longrightarrow> fl_cause f' = fl_cause f)"

definition quiet :: "scheduler \<Rightarrow> scheduler \<Rightarrow> bool" where
  "quiet d d' \<longleftrightarrow> store_run (sch_store d) (sch_store d') \<and> sch_slots d' = sch_slots d \<and>
     sch_spawned d' = sch_spawned d \<and> sch_active d' = sch_active d \<and> sch_ctx d' = sch_ctx d \<and>
     sch_pc d' = sch_pc d \<and> (\<forall>n. rel_option recaused (get_flight d n) (get_flight d' n))"

lemma recaused_refl [simp]: "recaused f f"
  by (simp add: recaused_def)

lemma recaused_trans: "recaused f g \<Longrightarrow> recaused g h \<Longrightarrow> recaused f h"
  by (cases f; cases g; cases h) (auto simp: recaused_def)

lemma quiet_refl [simp, intro]: "quiet d d"
  by (simp add: quiet_def option.rel_refl)

lemma rel_recaused_trans:
  "rel_option recaused x y \<Longrightarrow> rel_option recaused y z \<Longrightarrow> rel_option recaused x z"
  by (cases x; cases y; cases z) (auto intro: recaused_trans)

lemma quiet_trans [trans]: "quiet d d' \<Longrightarrow> quiet d' d'' \<Longrightarrow> quiet d d''"
  unfolding quiet_def by (auto intro: store_run_trans rel_recaused_trans)

lemma quiet_store: "store_run (sch_store d) s \<Longrightarrow> quiet d (d\<lparr>sch_store := s\<rparr>)"
  by (simp add: quiet_def option.rel_refl)

lemma quiet_on_error [simp]: "quiet d (on_error e d') = quiet d d'"
  by (simp add: quiet_def on_error_def)

lemma quiet_cancel_flight: "quiet d (cancel_flight n cause d)"
proof (cases "get_flight d n")
  case (Some f)
  have "recaused f (f\<lparr>fl_cause := (case fl_cause f of None \<Rightarrow> Some cause | Some c \<Rightarrow> Some c)\<rparr>)"
    by (auto simp: recaused_def split: option.split)
  with Some show ?thesis by (simp add: quiet_def cancel_flight_def option.rel_refl)
qed (simp add: cancel_flight_def)

lemma cancel_flight_store [simp]: "sch_store (cancel_flight n cause d) = sch_store d"
  by (simp add: cancel_flight_def split: option.split)

lemma quiet_apply_cancel_running: "quiet d (snd (apply_cancel_running ctl clk c now t d))"
proof (cases "GetLease (task_ID t) (sch_store d)")
  case (Inr lease)
  obtain r s where cs: "CancelTask clk (task_ID t) (lease_Token lease) (cmd_Reason c) now (sch_store d) = (r, s)"
    by fastforce
  have q: "quiet d (d\<lparr>sch_store := s\<rparr>)" using store_run_op(4) cs by (metis quiet_store snd_conv)
  have "quiet d (cancel_flight n cause (d\<lparr>sch_store := s\<rparr>))" for n cause
    using q quiet_cancel_flight by (rule quiet_trans)
  with q Inr cs show ?thesis
    by (simp add: apply_cancel_running_def Let_def split: option.split)
qed (simp add: apply_cancel_running_def)

lemma quiet_applyCancelTask: "quiet d (snd (applyCancelTask ctl clk c now d))"
proof (cases "GetTask (cmd_TaskID c) (sch_store d)")
  case (Inr t)
  obtain r s where cs: "CancelTask clk (task_ID t) [] (cmd_Reason c) now (sch_store d) = (r, s)" by fastforce
  have q: "quiet d (d\<lparr>sch_store := s\<rparr>)" using store_run_op(4) cs by (metis quiet_store snd_conv)
  with Inr cs quiet_apply_cancel_running show ?thesis
    by (simp add: applyCancelTask_def Let_def split: task_status.split sum.split)
qed (simp add: applyCancelTask_def)

lemma quiet_applyAbortRun: "quiet d (snd (applyAbortRun ctl clk now c d))"
proof (cases "GetTask (cmd_TaskID c) (sch_store d)")
  case (Inr t)
  have "quiet d (d\<lparr>sch_store := snd (FailTask clk k token e now (sch_store d))\<rparr>)" for k token e
    by (rule quiet_store [OF store_run_op(3)])
  with Inr quiet_cancel_flight show ?thesis
    by (simp add: applyAbortRun_def Let_def split_beta split: option.split sum.split)
qed (simp add: applyAbortRun_def)

lemma quiet_applyRetryTask: "quiet d (snd (applyRetryTask clk c now d))"
proof (cases "GetTask (cmd_TaskID c) (sch_store d)")
  case (Inr t)
  have "quiet d (d\<lparr>sch_store := snd (RetryTask clk k reason now (sch_store d))\<rparr>)" for k reason
    by (rule quiet_store [OF store_run_op(5)])
  with Inr show ?thesis by (simp add: applyRetryTask_def Let_def split_beta split: sum.split)
qed (simp add: applyRetryTask_def)

lemma quiet_apply_command: "quiet d (snd (apply_command ctl wall clk c d))"
  by (simp add: apply_command_def quiet_applyCancelTask quiet_applyAbortRun quiet_applyRetryTask
      split: command_kind.split)

lemma quiet_handleCommand: "quiet d (snd (handleCommand cfg ctl wall clk c d))"
proof -
  obtain e d1 where a: "apply_command ctl wall clk c d = (e, d1)" by fastforce
  with quiet_apply_command [of d ctl wall clk c] have q: "quiet d d1" by simp
  have "quiet d (d1\<lparr>sch_store := snd (HandleCommand clk' k token w now (sch_store d1))\<rparr>)" for clk' k token w now
    using q quiet_store [OF store_run_op(10)] by (rule quiet_trans)
  with a q show ?thesis by (simp add: handleCommand_def Let_def split_beta split: option.split)
qed

lemma quiet_release_unhandled: "quiet d (snd (release_unhandled clk c err d))"
  by (auto simp: release_unhandled_def Let_def split_beta intro: quiet_store [OF store_run_op(11)] split: sum.split)

lemma quiet_command_round:
  "command_round cfg ctl wall clk d = Inl (e, d') \<Longrightarrow> quiet d d'"
  "command_round cfg ctl wall clk d = Inr d' \<Longrightarrow> quiet d d'"
proof -
  obtain r s where cl: "ClaimPendingCommand clk \<lparr>cclr_WorkerID = cfg_WorkerID cfg, cclr_Now = wall 0\<rparr>
      (sch_store d) = (r, s)" by fastforce
  have q: "quiet d (d\<lparr>sch_store := s\<rparr>)" using store_run_op(9) cl by (metis quiet_store snd_conv)
  show "quiet d d'" if "command_round cfg ctl wall clk d = Inl (e, d')"
  proof (cases r)
    case (Inl err)
    with that cl q show ?thesis by (auto simp: command_round_def split: if_splits)
  next
    case (Inr c)
    obtain he d1 where h: "handleCommand cfg ctl (\<lambda>i. wall (1 + i)) (\<lambda>i. clk (1 + i)) c (d\<lparr>sch_store := s\<rparr>) = (he, d1)"
      by fastforce
    with quiet_handleCommand q have "quiet d d1" by (metis quiet_trans snd_conv)
    moreover have "quiet d1 d'" using that cl Inr h quiet_release_unhandled [of d1 clk c]
      by (auto simp: command_round_def split: option.splits) (metis snd_conv)
    ultimately show ?thesis by (rule quiet_trans)
  qed
  show "quiet d d'" if "command_round cfg ctl wall clk d = Inr d'"
    using that cl q quiet_handleCommand [of "d\<lparr>sch_store := s\<rparr>" cfg ctl "\<lambda>i. wall (1 + i)" "\<lambda>i. clk (1 + i)"]
    by (auto simp: command_round_def split: sum.splits if_splits option.splits prod.splits)
      (metis quiet_trans snd_conv)
qed

lemma processCommands_induct [consumes 1, case_names last more]:
  assumes "processCommands cfg ctl wall clk d = Some r"
    and "\<And>wall clk d r. command_round cfg ctl wall clk d = Inl r \<Longrightarrow> P wall clk d r"
    and "\<And>wall clk d d1 r. command_round cfg ctl wall clk d = Inr d1 \<Longrightarrow>
      P (\<lambda>i. wall (4 + i)) (\<lambda>i. clk (8 + i)) d1 r \<Longrightarrow> P wall clk d r"
  shows "P wall clk d r"
proof -
  have "cfg' = cfg \<longrightarrow> ctl' = ctl \<longrightarrow> P wall' clk' d' r'"
    if "processCommands cfg' ctl' wall' clk' d' = Some r'" for cfg' ctl' wall' clk' d' r'
    by (rule processCommands.raw_induct [where P = "\<lambda>cfg' ctl' wall clk d r. cfg' = cfg \<longrightarrow> ctl' = ctl \<longrightarrow> P wall clk d r",
          OF _ that]) (use assms(2,3) in \<open>auto split: sum.splits\<close>)
  with assms(1) show ?thesis by blast
qed

lemma quiet_processCommands: "processCommands cfg ctl wall clk d = Some r \<Longrightarrow> quiet d (snd r)"
proof (induction rule: processCommands_induct)
  case (last wall clk d r)
  then show ?case using quiet_command_round(1) [of cfg ctl wall clk d "fst r" "snd r"] by simp
next
  case (more wall clk d d1 r)
  then show ?case using quiet_command_round(2) quiet_trans by blast
qed

lemma quiet_cancel_recovered:
  "rm_cancelLocalRun m = Some cancel_local \<Longrightarrow> quiet d (fst acc) \<Longrightarrow> quiet d (fst (cancel_recovered m lr acc))"
proof -
  assume m: "rm_cancelLocalRun m = Some cancel_local" and q: "quiet d (fst acc)"
  obtain st n where acc: "acc = (st, n)" by fastforce
  have "quiet d (snd (cancel_local t e st))" for t e
    using q acc quiet_trans [OF _ quiet_cancel_flight] by (auto simp: cancel_local_def split: option.split)
  with m q acc show ?thesis
    by (simp add: cancel_recovered_def Let_def split_beta split: option.split)
qed

lemma quiet_recover: "quiet d (recover cfg ctl it clk now d)"
proof -
  define m where "m = NewRecoveryManager [WithRecoveryController ctl,
      WithRecoveryCommandClaimTimeout (cfg_CommandClaimTimeout cfg), WithRecoveryLocalCanceler cancel_local]"
  have c: "rm_cancelLocalRun m = Some cancel_local"
    by (simp add: m_def NewRecoveryManager_def WithRecoveryController_def WithRecoveryCommandClaimTimeout_def
        WithRecoveryLocalCanceler_def)
  let ?now = "normalizeRecoveryNow (clk 0) now"
  obtain rs s1 where r: "RecoverExpiredLeases it (\<lambda>i. clk (1 + i)) ?now (sch_store d) = (rs, s1)" by fastforce
  have q: "quiet d (fst (fold (cancel_recovered m) lrs acc))" if "quiet d (fst acc)" for acc lrs
    using that by (induction lrs arbitrary: acc) (simp_all add: quiet_cancel_recovered [OF c])
  obtain d1 n where f: "fold (cancel_recovered m) rs (d, \<lparr>sc_local = 0, sc_remote = 0, sc_errors = []\<rparr>) = (d1, n)"
    by fastforce
  with q [of "(d, \<lparr>sc_local = 0, sc_remote = 0, sc_errors = []\<rparr>)" rs] have qd: "quiet d d1" by simp
  have s1: "store_run (sch_store d) s1" using store_run_op(8) r by (metis snd_conv)
  define s2 where "s2 = snd (if rm_commandClaimTimeout m > 0 then RecoverClaimedCommands (\<lambda>i. clk (3 + i))
          (?now - rm_commandClaimTimeout m) ?now s1 else ([], s1))"
  have s2: "store_run s1 s2" using store_run_op(12) by (simp add: s2_def)
  have "recover cfg ctl it clk now d = d1\<lparr>sch_store := s2, sch_errors := sch_errors d1 @ sc_errors n\<rparr>"
    using r f by (simp add: recover_def Sweep_def Let_def m_def [symmetric] s2_def split_beta)
  moreover have "store_run (sch_store d) s2" using s1 s2 by (rule store_run_trans)
  ultimately show ?thesis using qd by (simp add: quiet_def)
qed

section \<open>The invariant\<close>

definition token_of :: "claimed_task \<Rightarrow> string" where
  "token_of c = lease_Token (claim_Lease c)"

text \<open>A claim as the store granted it, with a token it has handed out.\<close>

definition claim_ok :: "store \<Rightarrow> claimed_task \<Rightarrow> bool" where
  "claim_ok s c \<longleftrightarrow> numbered ''lease-'' (nextLease s) (token_of c) \<and>
     lease_TaskID (claim_Lease c) = task_ID (claim_Task c) \<and>
     (\<exists>r. claim_Run c = Some r \<and> run_ID r \<noteq> [])"

fun slot_of :: "main_pc \<Rightarrow> nat" where
  "slot_of (PClaim _) = 1"
| "slot_of (PCheck _) = 1"
| "slot_of (PRelease _) = 1"
| "slot_of _ = 0"

fun claim_at_pc :: "main_pc \<Rightarrow> claimed_task option" where
  "claim_at_pc (PCheck c) = Some c"
| "claim_at_pc (PRelease c) = Some c"
| "claim_at_pc _ = None"

definition slots_ok :: "scheduler_config \<Rightarrow> scheduler \<Rightarrow> bool" where
  "slots_ok cfg d \<longleftrightarrow> sch_slots d = card (fmdom' (sch_flights d)) + slot_of (sch_pc d) \<and>
     int (sch_slots d) \<le> cfg_MaxConcurrentRuns cfg"

definition flights_ok :: "scheduler \<Rightarrow> bool" where
  "flights_ok d \<longleftrightarrow>
     (\<forall>n f. get_flight d n = Some f \<longrightarrow> n < sch_spawned d \<and> claim_ok (sch_store d) (fl_claim f) \<and>
        (fl_exit f \<noteq> Flying \<longrightarrow> fl_registered f)) \<and>
     (\<forall>n n' f f'. get_flight d n = Some f \<longrightarrow> get_flight d n' = Some f' \<longrightarrow>
        token_of (fl_claim f) = token_of (fl_claim f') \<longrightarrow> n = n') \<and>
     (\<forall>c. claim_at_pc (sch_pc d) = Some c \<longrightarrow> claim_ok (sch_store d) c \<and>
        (\<forall>n f. get_flight d n = Some f \<longrightarrow> token_of (fl_claim f) \<noteq> token_of c))"

definition active_ok :: "scheduler \<Rightarrow> bool" where
  "active_ok d \<longleftrightarrow> (\<forall>k a. fmlookup (sch_active d) k = Some a \<longrightarrow>
     task_ID (claim_Task (ar_claim a)) = k \<and>
     (\<exists>f. get_flight d (ar_cancel a) = Some f \<and> fl_claim f = ar_claim a \<and> fl_registered f \<and> fl_exit f = Flying))"

definition sched_wf :: "scheduler_config \<Rightarrow> scheduler \<Rightarrow> bool" where
  "sched_wf cfg d \<longleftrightarrow> reachable (sch_store d) \<and> slots_ok cfg d \<and> flights_ok d \<and> active_ok d"

lemma claim_ok_run: "claim_ok s c \<Longrightarrow> wf_store s \<Longrightarrow> store_run s s' \<Longrightarrow> claim_ok s' c"
  by (auto simp: claim_ok_def intro: numbered_mono dest: store_run_leases)

lemma quiet_flight: "quiet d d' \<Longrightarrow> get_flight d' n = Some f' \<Longrightarrow> \<exists>f. get_flight d n = Some f \<and> recaused f f'"
  unfolding quiet_def by (metis option_rel_Some2)

lemma quiet_flight_forward:
  "quiet d d' \<Longrightarrow> get_flight d n = Some f \<Longrightarrow> \<exists>f'. get_flight d' n = Some f' \<and> recaused f f'"
  unfolding quiet_def by (metis option_rel_Some1)

lemma quiet_dom: "quiet d d' \<Longrightarrow> fmdom' (sch_flights d') = fmdom' (sch_flights d)"
  unfolding fmlookup_dom'_iff set_eq_iff using quiet_flight quiet_flight_forward by (metis (no_types, lifting))

lemma recaused_claim: "recaused f f' \<Longrightarrow> fl_claim f' = fl_claim f \<and> fl_registered f' = fl_registered f
    \<and> fl_settled f' = fl_settled f \<and> fl_exit f' = fl_exit f"
  by (cases f; cases f') (simp add: recaused_def)

lemma sched_wf_quiet:
  assumes q: "quiet d d'" and d: "sched_wf cfg d"
  shows "sched_wf cfg d'"
proof -
  have run: "store_run (sch_store d) (sch_store d')" and sh: "sch_slots d' = sch_slots d"
      "sch_spawned d' = sch_spawned d" "sch_active d' = sch_active d" "sch_pc d' = sch_pc d"
    using q by (simp_all add: quiet_def)
  have wf: "wf_store (sch_store d)" using d by (auto simp: sched_wf_def intro: reachable_wf)
  note older = quiet_flight [OF q] and cl = recaused_claim
  have "slots_ok cfg d'" using d sh quiet_dom [OF q] by (simp add: sched_wf_def slots_ok_def)
  moreover have "flights_ok d'"
    unfolding flights_ok_def sh
  proof (intro conjI allI impI)
    fix n f
    assume f: "get_flight d' n = Some f"
    from older [OF this] obtain g where g: "get_flight d n = Some g" "fl_claim f = fl_claim g"
        "fl_registered f = fl_registered g" "fl_exit f = fl_exit g" using cl by blast
    with d show "n < sch_spawned d" and "claim_ok (sch_store d') (fl_claim f)" and "fl_exit f \<noteq> Flying \<Longrightarrow> fl_registered f"
      by (auto simp: sched_wf_def flights_ok_def intro: claim_ok_run [OF _ wf run])
    fix n' f'
    assume "get_flight d' n' = Some f'" and t: "token_of (fl_claim f) = token_of (fl_claim f')"
    with older cl obtain g' where "get_flight d n' = Some g'" "fl_claim f' = fl_claim g'" by blast
    with g t d show "n = n'" by (auto simp: sched_wf_def flights_ok_def)
  next
    fix c
    assume c: "claim_at_pc (sch_pc d) = Some c"
    with d show "claim_ok (sch_store d') c"
      by (auto simp: sched_wf_def flights_ok_def intro: claim_ok_run [OF _ wf run])
    fix n f
    assume "get_flight d' n = Some f"
    with older cl obtain g where "get_flight d n = Some g" "fl_claim f = fl_claim g" by blast
    with c d show "token_of (fl_claim f) \<noteq> token_of c" by (auto simp: sched_wf_def flights_ok_def)
  qed
  moreover have "active_ok d'"
    unfolding active_ok_def sh
  proof (intro allI impI)
    fix k a
    assume "fmlookup (sch_active d) k = Some a"
    with d obtain f where f: "task_ID (claim_Task (ar_claim a)) = k" "get_flight d (ar_cancel a) = Some f"
        "fl_claim f = ar_claim a" "fl_registered f" "fl_exit f = Flying" by (auto simp: sched_wf_def active_ok_def)
    from quiet_flight_forward [OF q f(2)] f cl show "task_ID (claim_Task (ar_claim a)) = k \<and>
        (\<exists>f. get_flight d' (ar_cancel a) = Some f \<and> fl_claim f = ar_claim a \<and> fl_registered f \<and> fl_exit f = Flying)"
      by fastforce
  qed
  moreover have "reachable (sch_store d')" using d run by (auto simp: sched_wf_def intro: store_run_reachable)
  ultimately show ?thesis by (simp add: sched_wf_def)
qed

text \<open>Leaving the claiming part of the loop, and moving between parts that hold no slot.\<close>

lemma sched_wf_pc:
  assumes "sched_wf cfg d" and "slot_of pc = slot_of (sch_pc d)"
    and "claim_at_pc pc = None \<or> claim_at_pc pc = claim_at_pc (sch_pc d)"
  shows "sched_wf cfg (d\<lparr>sch_pc := pc\<rparr>)"
  using assms by (auto simp: sched_wf_def slots_ok_def flights_ok_def active_ok_def)

lemma sched_wf_releaseSlot:
  assumes "sched_wf cfg d" and "slot_of (sch_pc d) = 1" and "slot_of pc = 0" and "claim_at_pc pc = None"
  shows "sched_wf cfg ((releaseSlot d)\<lparr>sch_pc := pc\<rparr>)"
  using assms by (auto simp: sched_wf_def slots_ok_def flights_ok_def active_ok_def releaseSlot_def split: nat.split)

lemma sched_wf_acquire:
  assumes "sched_wf cfg d" and "sch_pc d = PAcquire" and "tryAcquireSlot cfg d = (True, d1)"
  shows "sched_wf cfg (d1\<lparr>sch_pc := PClaim ids\<rparr>)"
  using assms
  by (auto simp: sched_wf_def slots_ok_def flights_ok_def active_ok_def tryAcquireSlot_def split: if_splits)

lemma sched_wf_fields [simp]:
  "sched_wf cfg (d\<lparr>sch_nextRecovery := t\<rparr>) = sched_wf cfg d" "sched_wf cfg (on_error e d) = sched_wf cfg d"
  by (simp_all add: sched_wf_def slots_ok_def flights_ok_def active_ok_def on_error_def)

lemma sched_wf_store: "sched_wf cfg d \<Longrightarrow> store_run (sch_store d) s \<Longrightarrow> sched_wf cfg (d\<lparr>sch_store := s\<rparr>)"
  using quiet_store by (rule sched_wf_quiet)

text \<open>A granted claim carries a token that no claim held so far has.\<close>

lemma ClaimReadyTask_fresh:
  assumes wf: "wf_store s" and c: "ClaimReadyTask clk req s = (Inr c, s')"
  shows "claim_ok s' c" and "token_of c = Sprintf_d ''lease-'' (Suc (nextLease s))"
proof -
  have ks: "set (taskOrder s) \<subseteq> fmdom' (tasks s)"
    using wf by (simp add: wf_store_def tasks_wf_def ordered_table_def)
  let ?now = "normalizeNow (clk 0) (clr_Now req)"
  have "claim_first req ?now (taskOrder s) s = (Inr c, s')" using c by (auto simp: ClaimReadyTask_def split: if_splits)
  from claim_first_spec [OF wf ks this] obtain k where "granted s req ?now k = Some c" "get_lease s' k = Some (claim_Lease c)"
    by (auto split: option.splits)
  moreover from this obtain t where "get_task s k = Some t" by (auto simp: granted_def)
  ultimately have c_eq: "claim_Lease c = new_lease (Suc (nextLease s)) (clr_WorkerID req) ?now (clr_LeaseTTL req)
        (claim_Task c)" "claim_Run c = Some (new_run (Suc (nextRun s)) (clr_WorkerID req) ?now t)"
    and l: "get_lease s' k = Some (claim_Lease c)"
    by (auto simp: granted_def Let_def new_lease_def)
  have "wf_store s'" using wf_ClaimReadyTask [OF wf, of clk req] c by simp
  from wf_lease_number [OF this l] c_eq show "claim_ok s' c" by (simp add: claim_ok_def token_of_def)
  show "token_of c = Sprintf_d ''lease-'' (Suc (nextLease s))" using c_eq by (simp add: token_of_def)
qed

section \<open>Every step keeps the invariant\<close>

lemma flight_claim_ok:
  "sched_wf cfg d \<Longrightarrow> get_flight d n = Some f \<Longrightarrow> claim_ok (sch_store d) (fl_claim f) \<and> n < sch_spawned d \<and>
    (fl_exit f \<noteq> Flying \<longrightarrow> fl_registered f)"
  by (simp add: sched_wf_def flights_ok_def)

lemma sched_wf_flight:
  assumes d: "sched_wf cfg d" and f: "get_flight d n = Some f" and "fl_claim f' = fl_claim f"
    and "fl_registered f \<Longrightarrow> fl_registered f'" and "fl_exit f = Flying \<Longrightarrow> fl_exit f' = Flying"
  shows "sched_wf cfg (d\<lparr>sch_flights := fmupd n f' (sch_flights d)\<rparr>)"
proof -
  have "fmdom' (fmupd n f' (sch_flights d)) = fmdom' (sch_flights d)" using f by (simp add: insert_absorb fmdom'I)
  then show ?thesis
    using assms unfolding sched_wf_def slots_ok_def flights_ok_def active_ok_def
    by (auto split: if_splits) (metis option.inject)+
qed

text \<open>A flight that the active map does not name may change in any other way.\<close>

definition unnamed :: "nat \<Rightarrow> scheduler \<Rightarrow> bool" where
  "unnamed n d \<longleftrightarrow> (\<forall>k a. fmlookup (sch_active d) k = Some a \<longrightarrow> ar_cancel a \<noteq> n)"

lemma unnamed_exit:
  assumes "sched_wf cfg d" and "get_flight d n = Some f" and "fl_exit f \<noteq> Flying"
  shows "unnamed n d"
  using assms by (fastforce simp: unnamed_def sched_wf_def active_ok_def)

lemma unnamed_unregister:
  assumes "sched_wf cfg d" and "get_flight d n = Some f"
  shows "unnamed n (unregisterActiveClaim (fl_claim f) d)"
  using assms by (fastforce simp: unnamed_def sched_wf_def active_ok_def unregisterActiveClaim_def)

lemma sched_wf_unregister: "sched_wf cfg d \<Longrightarrow> sched_wf cfg (unregisterActiveClaim c d)"
  by (auto simp: sched_wf_def slots_ok_def flights_ok_def active_ok_def unregisterActiveClaim_def)

lemma sched_wf_unnamed:
  assumes d: "sched_wf cfg d" and f: "get_flight d n = Some f" and "fl_claim f' = fl_claim f" and "unnamed n d"
    and "fl_registered f'"
  shows "sched_wf cfg (d\<lparr>sch_flights := fmupd n f' (sch_flights d)\<rparr>)"
proof -
  have "fmdom' (fmupd n f' (sch_flights d)) = fmdom' (sch_flights d)" using f by (simp add: insert_absorb fmdom'I)
  moreover have "active_ok (d\<lparr>sch_flights := fmupd n f' (sch_flights d)\<rparr>)"
    using d assms(4) by (auto simp: sched_wf_def active_ok_def unnamed_def)
  ultimately show ?thesis
    using assms unfolding sched_wf_def slots_ok_def flights_ok_def
    by (auto split: if_splits)
qed

lemma sched_wf_register:
  assumes d: "sched_wf cfg d" and f: "get_flight d n = Some f" and r: "fl_registered f" "fl_exit f = Flying"
  shows "sched_wf cfg (registerActiveClaim (fl_claim f) n d)"
  using assms by (auto simp: sched_wf_def slots_ok_def flights_ok_def active_ok_def registerActiveClaim_def)

lemma sched_wf_leave:
  assumes d: "sched_wf cfg d" and f: "get_flight d n = Some f" and un: "unnamed n d"
  shows "sched_wf cfg (releaseSlot (d\<lparr>sch_flights := fmdrop n (sch_flights d)\<rparr>))"
proof -
  have n: "n \<in> fmdom' (sch_flights d)" using f by (rule fmdom'I)
  have "0 < card (fmdom' (sch_flights d))" using n by (auto simp: card_gt_0_iff)
  moreover have "card (fmdom' (fmdrop n (sch_flights d))) = card (fmdom' (sch_flights d)) - 1"
    using n by simp
  moreover have "active_ok (d\<lparr>sch_flights := fmdrop n (sch_flights d)\<rparr>)"
    using d un by (simp add: sched_wf_def active_ok_def unnamed_def)
  ultimately show ?thesis
    using d by (auto simp: sched_wf_def slots_ok_def flights_ok_def active_ok_def releaseSlot_def split: nat.split)
qed

lemma sched_wf_spawn:
  assumes d: "sched_wf cfg d" and pc: "sch_pc d = PCheck c"
  shows "sched_wf cfg ((spawn c d)\<lparr>sch_pc := PAcquire\<rparr>)"
proof -
  have fresh: "get_flight d (sch_spawned d) = None"
    using flight_claim_ok [OF d, of "sch_spawned d"] by (cases "get_flight d (sch_spawned d)") auto
  have c: "claim_ok (sch_store d) c" "\<And>n f. get_flight d n = Some f \<Longrightarrow> token_of (fl_claim f) \<noteq> token_of c"
    using d pc by (auto simp: sched_wf_def flights_ok_def)
  have "sch_spawned d \<notin> fmdom' (sch_flights d)" using fresh by (simp add: fmlookup_dom'_iff)
  then have "slots_ok cfg ((spawn c d)\<lparr>sch_pc := PAcquire\<rparr>)"
    using d pc by (simp add: sched_wf_def slots_ok_def spawn_def)
  moreover have "flights_ok ((spawn c d)\<lparr>sch_pc := PAcquire\<rparr>)"
    unfolding flights_ok_def
  proof (intro conjI allI impI)
    fix n n' f f'
    assume f: "get_flight ((spawn c d)\<lparr>sch_pc := PAcquire\<rparr>) n = Some f"
    then show "n < sch_spawned ((spawn c d)\<lparr>sch_pc := PAcquire\<rparr>)"
        and "claim_ok (sch_store ((spawn c d)\<lparr>sch_pc := PAcquire\<rparr>)) (fl_claim f)" and "fl_exit f \<noteq> Flying \<Longrightarrow> fl_registered f"
      using c(1) flight_claim_ok [OF d, of n f] by (auto simp: spawn_def split: if_splits)
    assume "get_flight ((spawn c d)\<lparr>sch_pc := PAcquire\<rparr>) n' = Some f'"
      and "token_of (fl_claim f) = token_of (fl_claim f')"
    with f c(2) [of n f] c(2) [of n' f'] d show "n = n'"
      by (cases "n = sch_spawned d"; cases "n' = sch_spawned d")
        (auto simp: spawn_def sched_wf_def flights_ok_def)
  qed (simp_all)
  moreover have "active_ok ((spawn c d)\<lparr>sch_pc := PAcquire\<rparr>)"
    unfolding active_ok_def
  proof (intro allI impI)
    fix k a
    assume "fmlookup (sch_active ((spawn c d)\<lparr>sch_pc := PAcquire\<rparr>)) k = Some a"
    then have "fmlookup (sch_active d) k = Some a" by (simp add: spawn_def)
    with d obtain f where f: "task_ID (claim_Task (ar_claim a)) = k" "get_flight d (ar_cancel a) = Some f"
        "fl_claim f = ar_claim a" "fl_registered f" "fl_exit f = Flying" by (auto simp: sched_wf_def active_ok_def)
    then have "ar_cancel a \<noteq> sch_spawned d" using fresh by auto
    with f show "task_ID (claim_Task (ar_claim a)) = k \<and> (\<exists>f. get_flight ((spawn c d)\<lparr>sch_pc := PAcquire\<rparr>) (ar_cancel a)
        = Some f \<and> fl_claim f = ar_claim a \<and> fl_registered f \<and> fl_exit f = Flying)" by (simp add: spawn_def)
  qed
  ultimately show ?thesis using d by (simp add: sched_wf_def spawn_def)
qed

lemma sched_wf_claim_turn:
  assumes d: "sched_wf cfg d" and pc: "sch_pc d = PClaim ids"
  shows "sched_wf cfg (claim_turn cfg clk now ids d)"
proof -
  let ?req = "\<lparr>clr_WorkerID = cfg_WorkerID cfg, clr_LeaseTTL = cfg_LeaseTTL cfg, clr_Now = now, clr_Kinds = [],
      clr_ExcludeTaskIDs = ids\<rparr>"
  obtain r s where cl: "ClaimReadyTask clk ?req (sch_store d) = (r, s)" by fastforce
  have "store_run (sch_store d) s" using store_run_op(1) cl by (metis snd_conv)
  with d have ds: "sched_wf cfg (d\<lparr>sch_store := s\<rparr>)" by (rule sched_wf_store)
  show ?thesis
  proof (cases r)
    case (Inl e)
    with cl ds pc show ?thesis
      by (auto simp: claim_turn_def stop_or_fail_def Let_def intro!: sched_wf_releaseSlot)
  next
    case (Inr c)
    have wf: "wf_store (sch_store d)" using d by (auto simp: sched_wf_def intro: reachable_wf)
    note fresh = ClaimReadyTask_fresh [OF wf cl [unfolded Inr]]
    have "token_of (fl_claim f) \<noteq> token_of c" if "get_flight d n = Some f" for n f
      using flight_claim_ok [OF d that] fresh(2) numbered_fresh unfolding claim_ok_def by metis
    with ds fresh(1) pc have "sched_wf cfg (d\<lparr>sch_store := s, sch_pc := PCheck c\<rparr>)"
      by (simp add: sched_wf_def slots_ok_def flights_ok_def active_ok_def)
    with Inr cl show ?thesis by (simp add: claim_turn_def Let_def)
  qed
qed

lemma sched_wf_release_turn:
  assumes d: "sched_wf cfg d" and pc: "sch_pc d = PRelease c"
  shows "sched_wf cfg (release_turn clk c d)"
proof -
  have "sched_wf cfg (d\<lparr>sch_store := snd (ReleaseLease clk k token (sch_store d))\<rparr>)" for k token
    using d store_run_op(7) by (rule sched_wf_store)
  with pc show ?thesis
    by (auto simp: release_turn_def stop_or_fail_def Let_def split_beta intro!: sched_wf_releaseSlot split: sum.split)
qed

lemma sched_wf_main_step:
  assumes d: "sched_wf cfg d"
  shows "sched_wf cfg (main_step cfg ctl it wall clk tick d)"
proof (cases "sch_pc d")
  case PRecover
  have "sched_wf cfg (recover_turn cfg ctl it clk (wall 0) d)"
    using sched_wf_quiet [OF quiet_recover d] d by (simp add: recover_turn_def)
  moreover have "sch_pc (recover_turn cfg ctl it clk (wall 0) d) = PRecover"
    using quiet_recover [of d cfg ctl it clk "wall 0"] PRecover by (simp add: recover_turn_def quiet_def)
  ultimately show ?thesis using PRecover by (simp add: main_step_def sched_wf_pc)
next
  case PCommands
  show ?thesis
  proof (cases "command_round cfg ctl wall clk d")
    case (Inl r)
    with quiet_command_round(1) have q: "quiet d (snd r)" by (metis prod.collapse)
    from this d have "sched_wf cfg (snd r)" by (rule sched_wf_quiet)
    moreover have "sch_pc (snd r) = PCommands" using q PCommands by (simp add: quiet_def)
    ultimately show ?thesis using Inl PCommands
      by (cases r) (auto simp: main_step_def stop_or_fail_def intro!: sched_wf_pc split: option.split)
  next
    case (Inr d1)
    with sched_wf_quiet [OF quiet_command_round(2) [OF Inr] d] PCommands show ?thesis by (simp add: main_step_def)
  qed
next
  case PAcquire
  then show ?thesis
    using d sched_wf_acquire [OF d PAcquire]
    by (auto simp: main_step_def tryAcquireSlot_def intro!: sched_wf_pc)
next
  case (PClaim ids)
  then show ?thesis using sched_wf_claim_turn [OF d PClaim] by (simp add: main_step_def)
next
  case (PCheck c)
  then show ?thesis using d sched_wf_spawn [OF d PCheck] by (auto simp: main_step_def intro!: sched_wf_pc)
next
  case (PRelease c)
  then show ?thesis using sched_wf_release_turn [OF d PRelease] by (simp add: main_step_def)
qed (use d in \<open>auto simp: main_step_def intro!: sched_wf_pc\<close>)

lemma quiet_settle:
  "quiet d (settle_failure f clk now e d)" "quiet d (settle_success f clk now outcome d)"
  by (auto simp: settle_failure_def settle_success_def Let_def split_beta
      intro: quiet_store [OF store_run_op(7)] quiet_store [OF store_run_op(3)] quiet_store [OF store_run_op(2)]
      split: sum.split)

lemma sched_wf_renew_step:
  assumes d: "sched_wf cfg d"
  shows "sched_wf cfg (renew_step cfg n clk now d)"
proof (cases "get_flight d n")
  case (Some f)
  let ?k = "task_ID (claim_Task (fl_claim f))" and ?token = "lease_Token (claim_Lease (fl_claim f))"
  obtain r s where rl: "RenewLease clk ?k ?token (cfg_LeaseTTL cfg) now (sch_store d) = (r, s)" by fastforce
  have "store_run (sch_store d) s" using store_run_op(6) rl by (metis snd_conv)
  with d have ds: "sched_wf cfg (d\<lparr>sch_store := s\<rparr>)" by (rule sched_wf_store)
  have f: "get_flight (d\<lparr>sch_store := s\<rparr>) n = Some f" using Some by simp
  have "sched_wf cfg (cancel_flight n e (d\<lparr>sch_store := s, sch_flights :=
      fmupd n (f\<lparr>fl_renewing := False, fl_renewErr := Some e\<rparr>) (sch_flights d)\<rparr>))" for e
    using sched_wf_quiet [OF quiet_cancel_flight
        sched_wf_flight [OF ds f, of "f\<lparr>fl_renewing := False, fl_renewErr := Some e\<rparr>"]] by simp
  with d ds Some rl show ?thesis by (simp add: renew_step_def Let_def split: sum.split)
qed (simp add: renew_step_def d)

lemma sched_wf_settle_step:
  assumes d: "sched_wf cfg d"
  shows "sched_wf cfg (settle_step n clk now outcome runErr d)"
proof (cases "get_flight d n")
  case (Some f)
  have "sched_wf cfg (d\<lparr>sch_flights := fmupd n (f\<lparr>fl_renewing := False, fl_settled := True\<rparr>) (sch_flights d)\<rparr>)"
    using sched_wf_flight [OF d Some, of "f\<lparr>fl_renewing := False, fl_settled := True\<rparr>"] by simp
  with d Some show ?thesis
    by (auto simp: settle_step_def Let_def intro: sched_wf_quiet [OF quiet_settle(1)] sched_wf_quiet [OF quiet_settle(2)]
        split: option.split)
qed (simp add: settle_step_def d)

lemma quiet_cancel_causes:
  "recaused f (f\<lparr>fl_cause := (case fl_cause f of None \<Rightarrow> Some err | Some c \<Rightarrow> Some c)\<rparr>)"
  by (auto simp: recaused_def split: option.split)

lemma sched_wf_cancel_context:
  assumes d: "sched_wf cfg d"
  shows "sched_wf cfg (cancel_context err d)"
proof -
  let ?fl = "fmmap (\<lambda>f. f\<lparr>fl_cause := (case fl_cause f of None \<Rightarrow> Some err | Some c \<Rightarrow> Some c)\<rparr>) (sch_flights d)"
  have "quiet d (d\<lparr>sch_flights := ?fl\<rparr>)"
    using quiet_cancel_causes by (auto simp: quiet_def option.rel_map intro: option.rel_refl)
  from sched_wf_quiet [OF this d] have "sched_wf cfg (d\<lparr>sch_flights := ?fl\<rparr>)" .
  then show ?thesis
    using d by (simp add: cancel_context_def sched_wf_def slots_ok_def flights_ok_def active_ok_def)
qed

lemma sched_wf_exit_steps:
  assumes d: "sched_wf cfg d"
  shows "sched_wf cfg (unregister_step n d)" and "sched_wf cfg (close_step n d)" and "sched_wf cfg (leave_step n d)"
proof -
  show "sched_wf cfg (unregister_step n d)"
  proof (cases "get_flight d n")
    case (Some f)
    let ?d = "unregisterActiveClaim (fl_claim f) d"
    have "get_flight ?d n = Some f" using Some by (simp add: unregisterActiveClaim_def)
    from sched_wf_unnamed [OF sched_wf_unregister [OF d] this _ unnamed_unregister [OF d Some],
        of "f\<lparr>fl_exit := Unregistered\<rparr>"] d Some show ?thesis
      by (auto simp: unregister_step_def unregisterActiveClaim_def)
  qed (simp add: unregister_step_def d)
  show "sched_wf cfg (close_step n d)"
  proof (cases "get_flight d n")
    case (Some f)
    have "sched_wf cfg (d\<lparr>sch_flights := fmupd n (f\<lparr>fl_exit := Closed\<rparr>) (sch_flights d)\<rparr>)" if "fl_exit f = Unregistered"
      using that d Some by (intro sched_wf_unnamed [OF d Some] unnamed_exit [OF d Some]) (auto simp: sched_wf_def flights_ok_def)
    with sched_wf_quiet [OF quiet_cancel_flight] d Some show ?thesis by (simp add: close_step_def)
  qed (simp add: close_step_def d)
  show "sched_wf cfg (leave_step n d)"
    using d by (auto simp: leave_step_def intro!: sched_wf_leave intro: unnamed_exit split: option.split)
qed

lemma sched_wf_step: "sched_wf cfg d \<Longrightarrow> sched_wf cfg (sched_step cfg ctl op d)"
proof (cases op)
  case (SRegister n)
  assume d: "sched_wf cfg d"
  show ?thesis
  proof (cases "get_flight d n")
    case (Some f)
    from sched_wf_flight [OF d Some, of "f\<lparr>fl_registered := True\<rparr>"]
    have "sched_wf cfg (d\<lparr>sch_flights := fmupd n (f\<lparr>fl_registered := True\<rparr>) (sch_flights d)\<rparr>)" by simp
    from sched_wf_register [OF this, of n "f\<lparr>fl_registered := True\<rparr>"] d Some SRegister flight_claim_ok [OF d Some]
    show ?thesis by (auto simp: register_step_def)
  qed (simp add: SRegister register_step_def d)
next
  case (SStore op')
  assume "sched_wf cfg d"
  with SStore show ?thesis by (auto intro: sched_wf_store store_run_exec)
qed (simp_all add: sched_wf_main_step sched_wf_exit_steps sched_wf_renew_step sched_wf_settle_step sched_wf_cancel_context)

lemma sched_wf_initial:
  assumes "sched_initial d" and "0 \<le> cfg_MaxConcurrentRuns cfg"
  shows "sched_wf cfg d"
  using assms by (auto simp: sched_initial_def sched_wf_def NewScheduler_def slots_ok_def flights_ok_def active_ok_def)

text \<open>The bound of a configuration is positive, so the initial state is well formed.\<close>

lemma config_positive:
  "0 < cfg_MaxConcurrentRuns (scheduler_config_of reading opts)" "cfg_WorkerID (scheduler_config_of reading opts) \<noteq> []"
  "0 < cfg_LeaseTTL (scheduler_config_of reading opts)" "0 < cfg_PollInterval (scheduler_config_of reading opts)"
  "0 < cfg_CommandClaimTimeout (scheduler_config_of reading opts)"
  by (simp_all add: scheduler_config_of_def DefaultSchedulerConfig_def Let_def positive_or_def)

interpretation sched: step_system sched_initial "sched_step (scheduler_config_of reading opts) ctl"
    "sched_wf (scheduler_config_of reading opts)"
  for reading opts ctl
  by unfold_locales (auto intro: sched_wf_step sched_wf_initial less_imp_le [OF config_positive(1)])

end
