(* ===== verification/Orch_Sched_Commands.thy ===== *)
theory Orch_Sched_Commands
  imports Orch_Sched_Inv
begin

text \<open>
  The command loop of the scheduler: a round that goes on handles one pending command of this worker
  for good, so the loop ends; a round that ends leaves no pending command for this worker, or hands
  the command it could not handle back.
\<close>

section \<open>Claiming commands\<close>

definition pending_ids :: "store \<Rightarrow> string set" where
  "pending_ids s = {k. \<exists>c. get_command s k = Some c \<and> cmd_Status c = CommandPending}"

definition open_to :: "string \<Rightarrow> command \<Rightarrow> bool" where
  "open_to w c \<longleftrightarrow> cmd_Status c = CommandPending \<and> cmd_TargetWorkerID c \<in> {[], w}"

lemma finite_pending [simp]: "finite (pending_ids s)"
  by (rule finite_subset [of _ "fmdom' (commands s)"]) (auto simp: pending_ids_def intro: fmdom'I)

lemma pending_ids_cong: "commands s' = commands s \<Longrightarrow> pending_ids s' = pending_ids s"
  by (simp add: pending_ids_def)

lemma pending_ids_set:
  "pending_ids (set_command k c s) = (if cmd_Status c = CommandPending then insert k (pending_ids s)
     else pending_ids s - {k})"
  by (auto simp: pending_ids_def)

lemma pending_ids_publish [simp]: "pending_ids (publish e s) = pending_ids s"
  by (simp add: pending_ids_def)

lemma claim_first_command_Inr:
  assumes "claim_first_command w now ks s = (Inr c, s')" and "wf_store s"
  shows "cmd_ID c \<in> pending_ids s \<and> pending_ids s' = pending_ids s - {cmd_ID c} \<and>
    get_command s' (cmd_ID c) = Some c \<and> cmd_Status c = CommandClaimed \<and> cmd_TargetWorkerID c \<in> {[], w}"
  using assms
proof (induction ks arbitrary: s)
  case (Cons k ks)
  show ?case
  proof (cases "get_command s k")
    case None
    with Cons show ?thesis by simp
  next
    case (Some c0)
    note wf = Cons.prems(2)
    let ?c1 = "refreshCommandTargetLocked s c0"
    have id: "cmd_ID c0 = k" using wf Some by (rule wf_command_ID)
    show ?thesis
    proof (cases "cmd_Status c0 = CommandPending")
      case False
      with Some Cons show ?thesis by simp
    next
      case True
      then have pend: "k \<in> pending_ids s" using Some by (auto simp: pending_ids_def)
      show ?thesis
      proof (cases "cmd_TargetWorkerID ?c1 \<in> {[], w}")
        case False
        have "pending_ids (set_command k ?c1 s) = pending_ids s"
          using True pend by (simp add: pending_ids_set insert_absorb)
        with False True Some Cons.prems(1) Cons.IH [of "set_command k ?c1 s"] wf_refresh [OF wf Some]
        show ?thesis by (simp add: Let_def)
      next
        case ok: True
        with True Some Cons.prems(1)
        have "c = claim_command w now ?c1" and "s' = publishCommandClaimed c (set_command k c (set_command k ?c1 s))"
          by (auto simp: Let_def)
        with ok id pend show ?thesis by (auto simp: publishCommandClaimed_def pending_ids_set)
      qed
    qed
  qed
qed simp

lemma claim_first_command_Inl:
  assumes "claim_first_command w now ks s = (Inl e, s')" and "wf_store s" and "distinct ks"
  shows "e = Sentinel ErrNoPendingCommand \<and> pending_ids s' = pending_ids s \<and>
    (\<forall>k c. k \<notin> set ks \<longrightarrow> get_command s' k = get_command s k) \<and>
    (\<forall>k c. k \<in> set ks \<longrightarrow> get_command s' k = Some c \<longrightarrow> \<not> open_to w c)"
  using assms
proof (induction ks arbitrary: s)
  case (Cons k ks)
  show ?case
  proof (cases "get_command s k")
    case None
    with Cons show ?thesis by auto
  next
    case (Some c0)
    note wf = Cons.prems(2)
    let ?c1 = "refreshCommandTargetLocked s c0"
    show ?thesis
    proof (cases "cmd_Status c0 = CommandPending")
      case False
      with Some Cons show ?thesis by (auto simp: open_to_def)
    next
      case True
      then have "k \<in> pending_ids s" using Some by (auto simp: pending_ids_def)
      with True have pend: "pending_ids (set_command k ?c1 s) = pending_ids s"
        by (simp add: pending_ids_set insert_absorb)
      have other: "cmd_TargetWorkerID ?c1 \<notin> {[], w}" using True Some Cons.prems(1)
        by (auto simp: Let_def split: if_splits)
      with True Some Cons.prems(1) have rest: "claim_first_command w now ks (set_command k ?c1 s) = (Inl e, s')"
        by (simp add: Let_def)
      from Cons.IH [OF this wf_refresh [OF wf Some]] Cons.prems(3)
      have IH: "e = Sentinel ErrNoPendingCommand" "pending_ids s' = pending_ids (set_command k ?c1 s)"
        "\<forall>j. j \<notin> set ks \<longrightarrow> get_command s' j = get_command (set_command k ?c1 s) j"
        "\<forall>j c. j \<in> set ks \<longrightarrow> get_command s' j = Some c \<longrightarrow> \<not> open_to w c" by auto
      have "get_command s' k = Some ?c1" using IH(3) Cons.prems(3) by simp
      moreover have "\<not> open_to w ?c1" using other by (simp add: open_to_def)
      ultimately show ?thesis using IH pend by auto
    qed
  qed
qed simp

lemma ClaimPendingCommand_Inr:
  assumes "ClaimPendingCommand clk req s = (Inr c, s')" and "wf_store s"
  shows "cmd_ID c \<in> pending_ids s" and "pending_ids s' = pending_ids s - {cmd_ID c}"
    and "get_command s' (cmd_ID c) = Some c" and "cmd_Status c = CommandClaimed"
    and "cmd_TargetWorkerID c \<in> {[], cclr_WorkerID req}"
  using assms claim_first_command_Inr [of "cclr_WorkerID req" "normalizeNow (clk 0) (cclr_Now req)" "commandOrder s" s c s']
  by (auto simp: ClaimPendingCommand_def split: if_splits)

lemma ClaimPendingCommand_Inl:
  assumes "ClaimPendingCommand clk req s = (Inl e, s')" and wf: "wf_store s" and "cclr_WorkerID req \<noteq> []"
  shows "e = Sentinel ErrNoPendingCommand" and "pending_ids s' = pending_ids s"
    and "get_command s' k = Some c \<Longrightarrow> \<not> open_to (cclr_WorkerID req) c"
proof -
  have "distinct (commandOrder s)" and dom: "set (commandOrder s) = fmdom' (commands s)"
    using wf by (simp_all add: wf_store_def commands_wf_def ordered_table_def)
  with claim_first_command_Inl [of "cclr_WorkerID req" "normalizeNow (clk 0) (cclr_Now req)" "commandOrder s" s e s'] assms
  have r: "e = Sentinel ErrNoPendingCommand" "pending_ids s' = pending_ids s"
    "\<forall>k. k \<notin> set (commandOrder s) \<longrightarrow> get_command s' k = get_command s k"
    "\<forall>k c. k \<in> set (commandOrder s) \<longrightarrow> get_command s' k = Some c \<longrightarrow> \<not> open_to (cclr_WorkerID req) c"
    by (auto simp: ClaimPendingCommand_def)
  show "e = Sentinel ErrNoPendingCommand" and "pending_ids s' = pending_ids s" using r by auto
  show "\<not> open_to (cclr_WorkerID req) c" if "get_command s' k = Some c"
    using that r(3,4) dom fmdom'I by metis
qed

section \<open>Handlers leave the commands alone\<close>

lemma commands_settle [simp]:
  "commands (snd (CancelTask clk k token reason now s)) = commands s"
  "commands (snd (FailTask clk k token e now s)) = commands s"
  "commands (snd (RetryTask clk k reason now s)) = commands s"
  by (simp_all add: CancelTask_def FailTask_def RetryTask_def requeueTaskLocked_def Let_def publish_defs
      split: option.split sum.split task_status.split)

lemma cancel_flight_frame [simp]:
  "sch_errors (cancel_flight n cause d) = sch_errors d" "sch_ctx (cancel_flight n cause d) = sch_ctx d"
  by (simp_all add: cancel_flight_def split: option.split)

lemma apply_cancel_running_frame:
  "commands (sch_store (snd (apply_cancel_running ctl clk c now t d))) = commands (sch_store d)"
  "sch_errors (snd (apply_cancel_running ctl clk c now t d)) = sch_errors d"
  by (simp_all add: apply_cancel_running_def Let_def split_beta split: sum.split option.split)

lemma apply_command_frame:
  "commands (sch_store (snd (apply_command ctl wall clk c d))) = commands (sch_store d)"
  "sch_errors (snd (apply_command ctl wall clk c d)) = sch_errors d"
  by (simp_all add: apply_command_def applyCancelTask_def applyAbortRun_def applyRetryTask_def split_beta
      apply_cancel_running_frame Let_def
      split: command_kind.split sum.split option.split task_status.split)

lemma HandleCommand_claimed:
  assumes "get_command s k = Some c" and "cmd_Status c = CommandClaimed" and "cmd_ClaimToken c = token"
  shows "\<exists>c' s'. HandleCommand clk k token w now s = (Inr c', s') \<and> pending_ids s' = pending_ids s - {k}"
  using assms by (auto simp: HandleCommand_def Let_def publishCommandHandled_def pending_ids_set)

lemma ReleaseCommand_claimed:
  assumes "get_command s k = Some c" and "cmd_Status c = CommandClaimed" and "cmd_ClaimToken c = token"
  shows "\<exists>s'. ReleaseCommand clk k token s = (Inr (), s') \<and> get_command s' k = Some (unclaim c)"
  using assms by (simp add: ReleaseCommand_def publishCommandReleased_def)

section \<open>Rounds\<close>

text \<open>
  The three outcomes of a round: nothing left for this worker, a command that could not be handled and
  is pending again, or one command less.
\<close>

lemma command_round_cases [consumes 2, case_names idle stuck handled]:
  assumes wf: "wf_store (sch_store d)" and w: "cfg_WorkerID cfg \<noteq> []"
  obtains
    (idle) s where "command_round cfg ctl wall clk d = Inl (None, d\<lparr>sch_store := s\<rparr>)"
      and "\<And>k c. get_command s k = Some c \<Longrightarrow> \<not> open_to (cfg_WorkerID cfg) c"
  | (stuck) c s err d1 d2 where "ClaimPendingCommand clk \<lparr>cclr_WorkerID = cfg_WorkerID cfg, cclr_Now = wall 0\<rparr>
        (sch_store d) = (Inr c, s)"
      and "apply_command ctl (\<lambda>i. wall (1 + i)) (\<lambda>i. clk (1 + i)) c (d\<lparr>sch_store := s\<rparr>) = (Some err, d1)"
      and "command_round cfg ctl wall clk d = Inl (None, on_error err d2)"
      and "quiet d1 d2" and "sch_errors d2 = sch_errors d" and "get_command (sch_store d2) (cmd_ID c) = Some (unclaim c)"
  | (handled) c s d1 where "ClaimPendingCommand clk \<lparr>cclr_WorkerID = cfg_WorkerID cfg, cclr_Now = wall 0\<rparr>
        (sch_store d) = (Inr c, s)"
      and "command_round cfg ctl wall clk d = Inr d1" and "sch_errors d1 = sch_errors d"
      and "cmd_ID c \<in> pending_ids (sch_store d)"
      and "pending_ids (sch_store d1) = pending_ids (sch_store d) - {cmd_ID c}"
proof -
  obtain r s where cl: "ClaimPendingCommand clk \<lparr>cclr_WorkerID = cfg_WorkerID cfg, cclr_Now = wall 0\<rparr>
      (sch_store d) = (r, s)" by fastforce
  show ?thesis
  proof (cases r)
    case (Inl e)
    note l = ClaimPendingCommand_Inl [OF cl [unfolded Inl] wf]
    with w Inl cl show ?thesis by (intro idle [of s]) (auto simp: command_round_def)
  next
    case (Inr c)
    note l = ClaimPendingCommand_Inr [OF cl [unfolded Inr] wf]
    let ?w = "\<lambda>i. wall (1 + i)" and ?c = "\<lambda>i. clk (1 + i)" and ?d = "d\<lparr>sch_store := s\<rparr>"
    obtain e d1 where a: "apply_command ctl ?w ?c c ?d = (e, d1)" by fastforce
    have cm: "commands (sch_store d1) = commands s" using apply_command_frame(1) [of ctl ?w ?c c ?d] a by simp
    have er: "sch_errors d1 = sch_errors d" using apply_command_frame(2) [of ctl ?w ?c c ?d] a by simp
    from cm have g: "get_command (sch_store d1) (cmd_ID c) = Some c" using l(3) by simp
    show ?thesis
    proof (cases e)
      case (Some err)
      obtain s2 where s2: "ReleaseCommand (\<lambda>i. clk (6 + i)) (cmd_ID c) (cmd_ClaimToken c) (sch_store d1) = (Inr (), s2)"
          "get_command s2 (cmd_ID c) = Some (unclaim c)"
        using ReleaseCommand_claimed [OF g l(4) refl] by blast
      have "quiet d1 (d1\<lparr>sch_store := s2\<rparr>)" using store_run_op(11) s2(1) by (metis quiet_store snd_conv)
      with Some a s2 cl Inr er show ?thesis
        by (intro stuck [of c s err d1 "d1\<lparr>sch_store := s2\<rparr>"])
          (auto simp: command_round_def handleCommand_def release_unhandled_def)
    next
      case None
      obtain c' s' where h: "HandleCommand (\<lambda>i. ?c (3 + i)) (cmd_ID c) (cmd_ClaimToken c) (cfg_WorkerID cfg) (?w 0)
          (sch_store d1) = (Inr c', s')" "pending_ids s' = pending_ids (sch_store d1) - {cmd_ID c}"
        using HandleCommand_claimed [OF g l(4) refl] by blast
      have "pending_ids (sch_store d1) = pending_ids s" using cm by (rule pending_ids_cong)
      with None a h cl Inr l er show ?thesis
        by (intro handled [of c s "d1\<lparr>sch_store := s'\<rparr>"]) (auto simp: command_round_def handleCommand_def)
    qed
  qed
qed

text \<open>The loop returns, never with an error.\<close>

lemma processCommands_returns:
  assumes "wf_store (sch_store d)" and "cfg_WorkerID cfg \<noteq> []"
  shows "\<exists>d'. processCommands cfg ctl wall clk d = Some (None, d')"
  using assms(1)
proof (induction "card (pending_ids (sch_store d))" arbitrary: d wall clk rule: less_induct)
  case less
  from less.prems assms(2) show ?case
  proof (cases rule: command_round_cases [where ctl = ctl and wall = wall and clk = clk])
    case (handled c s d1)
    then have "card (pending_ids (sch_store d1)) < card (pending_ids (sch_store d))"
      using card_Diff1_less [OF finite_pending handled(4)] by simp
    moreover have "wf_store (sch_store d1)"
      using quiet_command_round(2) [OF handled(2)] less.prems by (auto simp: quiet_def intro: store_run_wf)
    ultimately show ?thesis using less.hyps handled(2) by (subst processCommands.simps) simp
  qed (subst processCommands.simps, simp)+
qed

text \<open>
  At the end no pending command is left for this worker, unless one could not be handled, which was
  then reported.
\<close>

lemma processCommands_drains:
  assumes "processCommands cfg ctl wall clk d = Some r" and "cfg_WorkerID cfg \<noteq> []"
    and "wf_store (sch_store d)"
  shows "(sch_errors (snd r) = sch_errors d \<and>
      (\<forall>k c. get_command (sch_store (snd r)) k = Some c \<longrightarrow> \<not> open_to (cfg_WorkerID cfg) c)) \<or>
    (\<exists>err. sch_errors (snd r) = sch_errors d @ [err])"
  using assms(1,3)
proof (induction rule: processCommands_induct)
  case (last wall clk d r)
  from last.prems assms(2) show ?case
  proof (cases rule: command_round_cases [where ctl = ctl and wall = wall and clk = clk])
    case (idle s)
    with last.hyps show ?thesis by auto
  next
    case (stuck c s err d1 d2)
    with last.hyps show ?thesis by (auto simp: on_error_def)
  next
    case (handled c s d1)
    with last.hyps show ?thesis by simp
  qed
next
  case (more wall clk d d1 r)
  have "wf_store (sch_store d1)"
    using quiet_command_round(2) [OF more.hyps] more.prems by (auto simp: quiet_def intro: store_run_wf)
  moreover from more.prems assms(2) have "sch_errors d1 = sch_errors d"
    by (cases rule: command_round_cases [where ctl = ctl and wall = wall and clk = clk]) (use more.hyps in auto)
  ultimately show ?case using more.IH by simp
qed

text \<open>The loop is what the main goroutine does when nothing comes between its rounds.\<close>

lemma processCommands_steps:
  assumes "processCommands cfg ctl wall clk d = Some r" and "sch_pc d = PCommands"
  shows "\<exists>ops. (\<forall>op \<in> set ops. \<exists>wall clk. op = SMain it wall clk tick) \<and>
    fold (sched_step cfg ctl) ops d =
      (case fst r of None \<Rightarrow> (snd r)\<lparr>sch_pc := PAcquire\<rparr> | Some err \<Rightarrow> stop_or_fail (snd r) err)"
  using assms
proof (induction rule: processCommands_induct)
  case (last wall clk d r)
  then show ?case
    by (intro exI [of _ "[SMain it wall clk tick]"]) (cases r; auto simp: main_step_def split: option.split)
next
  case (more wall clk d d1 r)
  have pc: "sch_pc d1 = PCommands" using quiet_command_round(2) [OF more.hyps] more.prems by (simp add: quiet_def)
  from more.IH [OF this] obtain ops where "\<forall>op \<in> set ops. \<exists>wall clk. op = SMain it wall clk tick"
    "fold (sched_step cfg ctl) ops d1 =
      (case fst r of None \<Rightarrow> (snd r)\<lparr>sch_pc := PAcquire\<rparr> | Some err \<Rightarrow> stop_or_fail (snd r) err)" by blast
  with more.hyps more.prems show ?case
    by (intro exI [of _ "SMain it wall clk tick # ops"]) (auto simp: main_step_def)
qed

end
