(* ===== verification/Orch_Sched_Life.thy ===== *)
theory Orch_Sched_Life
  imports Orch_Sched_Commands
begin

text \<open>
  The life of a flight: what its end does to the store while its lease is still its own, and that it
  does nothing once the lease is lost; what a cancel command does to a task that runs here; and how
  the dispatcher starts the first task that is ready.
\<close>

section \<open>Settling with a lease\<close>

text \<open>The lease a claim was granted is still the lease of its task, and has not run out.\<close>

definition leased :: "store \<Rightarrow> claimed_task \<Rightarrow> time \<Rightarrow> task \<Rightarrow> bool" where
  "leased s c now t \<longleftrightarrow> get_task s (task_ID (claim_Task c)) = Some t \<and>
     (\<exists>l. get_lease s (task_ID (claim_Task c)) = Some l \<and> lease_Token l = token_of c \<and> now < lease_ExpiresAt l)"

lemma leased_valid:
  assumes "leased s c now t" and "wf_store s" and "now \<noteq> zero_time"
  obtains l where "validateLeaseLocked rd (task_ID (claim_Task c)) (lease_Token (claim_Lease c)) now s = Inr (t, l)"
    and "lease_TaskID l = task_ID (claim_Task c)" and "get_lease s (task_ID (claim_Task c)) = Some l"
    and "task_Status t = TaskRunning" and "get_task s (task_ID (claim_Task c)) = Some t"
proof -
  from assms(1) obtain l where l: "get_task s (task_ID (claim_Task c)) = Some t"
      "get_lease s (task_ID (claim_Task c)) = Some l" "lease_Token l = token_of c" "now < lease_ExpiresAt l"
    by (auto simp: leased_def)
  from wf_lease_task [OF assms(2) l(2)] l(1) have "task_Status t = TaskRunning" by auto
  with l wf_lease_TaskID [OF assms(2) l(2)] assms(3) show ?thesis
    by (intro that [of l]) (auto simp: validateLeaseLocked_Inr normalizeNow_def token_of_def)
qed

definition completed_task :: "time \<Rightarrow> task_outcome option \<Rightarrow> task \<Rightarrow> task" where
  "completed_task now oc t = t\<lparr>task_Status := TaskCompleted,
     task_Result := Option.bind oc (\<lambda>oc. outcome_Result (stamp_outcome now oc)), task_LastError := [],
     task_CompletedAt := now, task_UpdatedAt := now\<rparr>"

definition failed_task :: "time \<Rightarrow> go_error \<Rightarrow> task \<Rightarrow> task" where
  "failed_task now e t =
     (if isRetryable e \<and> \<not> exhaustedAttempts t
      then t\<lparr>task_Status := TaskPending, task_Result := None, task_Run := None, task_StartedAt := zero_time,
             task_CompletedAt := zero_time, task_UpdatedAt := now, task_LastError := error_text e\<rparr>
      else t\<lparr>task_Status := TaskFailed, task_Result := None, task_LastError := error_text e,
             task_CompletedAt := now, task_UpdatedAt := now\<rparr>)"

definition released_task :: "time \<Rightarrow> task \<Rightarrow> task" where
  "released_task now t = t\<lparr>task_Status := TaskPending, task_Result := None, task_Run := None,
     task_StartedAt := zero_time, task_CompletedAt := zero_time, task_UpdatedAt := now,
     task_Attempt := task_Attempt t - 1\<rparr>"

lemma stamped_result:
  assumes "now \<noteq> zero_time"
  shows "map_option (\<lambda>r. if result_CompletedAt r = zero_time then r\<lparr>result_CompletedAt := other\<rparr> else r)
    (outcome_Result (stamp_outcome now oc)) = outcome_Result (stamp_outcome now oc)"
  using assms by (cases "outcome_Result oc") (auto simp: stamp_outcome_def)

lemma CompleteTask_stamped:
  assumes "validateLeaseLocked (clk 0) k token now s = Inr (t, l)" and "lease_TaskID l = k" and "now \<noteq> zero_time"
  shows "\<exists>s'. CompleteTask clk k token (map_option (stamp_outcome now) oc) now s = (Inr (completed_task now oc t), s') \<and>
    get_task s' k = Some (completed_task now oc t) \<and> get_lease s' k = None"
proof (cases oc)
  case None
  with assms show ?thesis
    by (simp add: CompleteTask_def Let_def normalizeNow_def completed_task_def publishTaskCompleted_def)
next
  case (Some o1)
  show ?thesis
    using assms stamped_result [OF assms(3)]
    by (simp add: Some CompleteTask_def Let_def normalizeNow_def completed_task_def publishTaskCompleted_def)
qed

lemma settle_success_leased:
  assumes "leased (sch_store d) (fl_claim f) now t" and "wf_store (sch_store d)" and "now \<noteq> zero_time"
  shows "get_task (sch_store (settle_success f clk now outcome d)) (task_ID (claim_Task (fl_claim f))) =
      Some (completed_task now outcome t)"
    and "get_lease (sch_store (settle_success f clk now outcome d)) (task_ID (claim_Task (fl_claim f))) = None"
    and "sch_errors (settle_success f clk now outcome d) = sch_errors d"
proof -
  let ?k = "task_ID (claim_Task (fl_claim f))"
  obtain l where v: "validateLeaseLocked (clk 0) ?k (lease_Token (claim_Lease (fl_claim f))) now (sch_store d) = Inr (t, l)"
      "lease_TaskID l = ?k"
    using leased_valid [OF assms] by blast
  from CompleteTask_stamped [where clk = clk and oc = outcome, OF v assms(3)] obtain s' where
      "CompleteTask clk ?k (lease_Token (claim_Lease (fl_claim f))) (map_option (stamp_outcome now) outcome) now (sch_store d)
        = (Inr (completed_task now outcome t), s')"
      "get_task s' ?k = Some (completed_task now outcome t)" "get_lease s' ?k = None" by blast
  then show "get_task (sch_store (settle_success f clk now outcome d)) ?k = Some (completed_task now outcome t)"
    and "get_lease (sch_store (settle_success f clk now outcome d)) ?k = None"
    and "sch_errors (settle_success f clk now outcome d) = sch_errors d"
    by (simp_all add: settle_success_def)
qed

lemma settle_failure_leased:
  assumes le: "leased (sch_store d) (fl_claim f) now t" and wf: "wf_store (sch_store d)" and now: "now \<noteq> zero_time"
    and live: "\<not> (fl_renewErr f = None \<and> errors_Is e ContextCanceled \<and> sch_ctx d \<noteq> None)"
  shows "get_task (sch_store (settle_failure f clk now e d)) (task_ID (claim_Task (fl_claim f))) =
      Some (failed_task now e t)"
    and "get_lease (sch_store (settle_failure f clk now e d)) (task_ID (claim_Task (fl_claim f))) = None"
    and "sch_errors (settle_failure f clk now e d) = sch_errors d"
proof -
  let ?k = "task_ID (claim_Task (fl_claim f))"
  obtain l where v: "validateLeaseLocked (clk 0) ?k (lease_Token (claim_Lease (fl_claim f))) now (sch_store d) = Inr (t, l)"
      "lease_TaskID l = ?k"
    using leased_valid [OF le wf now] by blast
  from v now live show "get_task (sch_store (settle_failure f clk now e d)) ?k = Some (failed_task now e t)"
    and "get_lease (sch_store (settle_failure f clk now e d)) ?k = None"
    and "sch_errors (settle_failure f clk now e d) = sch_errors d"
    by (auto simp add: settle_failure_def FailTask_def Let_def normalizeNow_def failed_task_def requeueTaskLocked_def
        publishTaskFailed_def publishTaskRequeued_def)
qed

lemma settle_shutdown_leased:
  assumes le: "leased (sch_store d) (fl_claim f) now t" and wf: "wf_store (sch_store d)" and now: "now \<noteq> zero_time"
    and stop: "fl_renewErr f = None" "errors_Is e ContextCanceled" "sch_ctx d \<noteq> None"
  shows "get_task (sch_store (settle_failure f clk now e d)) (task_ID (claim_Task (fl_claim f))) =
      Some (released_task (normalizeNow (clk 2) (clk 1)) t)"
    and "get_lease (sch_store (settle_failure f clk now e d)) (task_ID (claim_Task (fl_claim f))) = None"
    and "sch_errors (settle_failure f clk now e d) = sch_errors d"
proof -
  let ?k = "task_ID (claim_Task (fl_claim f))"
  obtain l where l: "get_lease (sch_store d) ?k = Some l" "task_Status t = TaskRunning" "get_task (sch_store d) ?k = Some t"
      and v: "validateLeaseLocked (clk 0) ?k (lease_Token (claim_Lease (fl_claim f))) now (sch_store d) = Inr (t, l)"
    using leased_valid [OF le wf now] by blast
  then have tok: "lease_Token l = lease_Token (claim_Lease (fl_claim f))" by (simp add: validateLeaseLocked_Inr)
  have "0 < task_Attempt t" using wf_task_ok [OF wf l(3)] l(2) by (simp add: task_ok_def)
  with l tok stop show "get_task (sch_store (settle_failure f clk now e d)) ?k =
      Some (released_task (normalizeNow (clk 2) (clk 1)) t)"
    and "get_lease (sch_store (settle_failure f clk now e d)) ?k = None"
    and "sch_errors (settle_failure f clk now e d) = sch_errors d"
    by (auto simp: settle_failure_def ReleaseLease_def Let_def released_task_def requeueTaskLocked_def
        publishTaskRequeued_def publishLeaseReleased_def)
qed

section \<open>Settling without a lease\<close>

lemma settle_fenced:
  assumes "\<not> holds_token (sch_store d) (task_ID (claim_Task (fl_claim f))) (token_of (fl_claim f))"
  shows "sch_store (settle_failure f clk now e d) = sch_store d"
    and "sch_store (settle_success f clk now outcome d) = sch_store d"
proof -
  let ?k = "task_ID (claim_Task (fl_claim f))" and ?token = "lease_Token (claim_Lease (fl_claim f))"
  note t = token_required [OF assms [unfolded token_of_def]]
  obtain e1 where "FailTask clk ?k ?token (Some e) now (sch_store d) = (Inl (Sentinel e1), sch_store d)"
    using t(1) [where runErr = "Some e"] by blast
  moreover obtain e2 where "ReleaseLease clk ?k ?token (sch_store d) = (Inl (Sentinel e2), sch_store d)"
    using t(2) by blast
  moreover obtain e3 where "CompleteTask clk ?k ?token (map_option (stamp_outcome now) outcome) now (sch_store d)
      = (Inl (Sentinel e3), sch_store d)"
    using t(1) by blast
  ultimately show "sch_store (settle_failure f clk now e d) = sch_store d"
    and "sch_store (settle_success f clk now outcome d) = sch_store d"
    by (simp_all add: settle_failure_def settle_success_def Let_def on_error_def)
qed

section \<open>All steps\<close>

lemma store_run_main_step: "store_run (sch_store d) (sch_store (main_step cfg ctl it wall clk tick d))"
proof (cases "sch_pc d")
  case PRecover
  then show ?thesis
    using quiet_recover [of d cfg ctl it clk "wall 0"] by (simp add: main_step_def recover_turn_def quiet_def)
next
  case PCommands
  show ?thesis
  proof (cases "command_round cfg ctl wall clk d")
    case (Inl r)
    with quiet_command_round(1) have "quiet d (snd r)" by (metis prod.collapse)
    with Inl PCommands show ?thesis
      by (cases r) (auto simp: main_step_def stop_or_fail_def quiet_def split: option.split)
  next
    case (Inr d1)
    with quiet_command_round(2) [OF Inr] PCommands show ?thesis by (simp add: main_step_def quiet_def)
  qed
next
  case PAcquire
  then show ?thesis by (simp add: main_step_def tryAcquireSlot_def)
next
  case (PClaim ids)
  have r: "sch_store (releaseSlot d') = sch_store d'" for d' by (simp add: releaseSlot_def split: nat.split)
  from PClaim store_run_op(1) show ?thesis
    by (simp add: main_step_def claim_turn_def Let_def split_beta stop_or_fail_def r split: sum.split)
next
  case (PRelease c)
  have r: "sch_store (releaseSlot d') = sch_store d'" for d' by (simp add: releaseSlot_def split: nat.split)
  from PRelease store_run_op(7) show ?thesis
    by (simp add: main_step_def release_turn_def Let_def split_beta stop_or_fail_def r split: sum.split)
qed (simp_all add: main_step_def spawn_def)

lemma settle_step_store_run: "store_run (sch_store d) (sch_store (settle_step n clk now outcome runErr d))"
proof (cases "get_flight d n")
  case (Some f)
  then show ?thesis
    using quiet_settle(1) [of "d\<lparr>sch_flights := fl\<rparr>" f clk now for fl]
      quiet_settle(2) [of "d\<lparr>sch_flights := fl\<rparr>" f clk now for fl]
    by (simp add: settle_step_def Let_def quiet_def split: option.split)
qed (simp add: settle_step_def)

lemma store_run_step: "store_run (sch_store d) (sch_store (sched_step cfg ctl op d))"
proof (cases op)
  case (SRenew n clk now)
  then show ?thesis
    using store_run_op(6) by (simp add: renew_step_def Let_def split_beta split: option.split sum.split)
qed (simp_all add: store_run_main_step settle_step_store_run register_step_def registerActiveClaim_def leave_step_def
    unregister_step_def close_step_def releaseSlot_def unregisterActiveClaim_def cancel_context_def store_run_exec split: option.split nat.split)

lemma store_run_steps: "store_run (sch_store d) (sch_store (fold (sched_step cfg ctl) ops d))"
  by (induction ops arbitrary: d) (auto intro: store_run_trans store_run_step)

section \<open>Dispatch\<close>

definition dispatch_request :: "scheduler_config \<Rightarrow> time \<Rightarrow> string list \<Rightarrow> claim_task_request" where
  "dispatch_request cfg now ids = \<lparr>clr_WorkerID = cfg_WorkerID cfg, clr_LeaseTTL = cfg_LeaseTTL cfg, clr_Now = now,
     clr_Kinds = [], clr_ExcludeTaskIDs = ids\<rparr>"

lemma claim_turn_first:
  assumes wf: "wf_store (sch_store d)" and "0 < cfg_LeaseTTL cfg" and "now \<noteq> zero_time"
    and find: "List.find (claimable (sch_store d) (dispatch_request cfg now ids) now) (taskOrder (sch_store d)) = Some k"
  obtains c s where "claim_turn cfg clk now ids d = d\<lparr>sch_store := s, sch_pc := PCheck c\<rparr>"
    and "task_ID (claim_Task c) = k" and "get_task s k = Some (claim_Task c)" and "get_lease s k = Some (claim_Lease c)"
    and "task_Status (claim_Task c) = TaskRunning" and "lease_WorkerID (claim_Lease c) = cfg_WorkerID cfg"
proof -
  let ?req = "dispatch_request cfg now ids"
  obtain r s where cl: "ClaimReadyTask clk ?req (sch_store d) = (r, s)" by fastforce
  have ks: "set (taskOrder (sch_store d)) \<subseteq> fmdom' (tasks (sch_store d))"
    using wf by (simp add: wf_store_def tasks_wf_def ordered_table_def)
  have "claim_first ?req now (taskOrder (sch_store d)) (sch_store d) = (r, s)"
    using cl assms(2,3) by (simp add: ClaimReadyTask_def dispatch_request_def normalizeNow_def)
  from claim_first_spec [OF wf ks this] find obtain c where c: "r = Inr c" "granted (sch_store d) ?req now k = Some c"
      "get_task s k = Some (claim_Task c)" "get_lease s k = Some (claim_Lease c)" by auto
  then obtain t where t: "get_task (sch_store d) k = Some t" by (auto simp: granted_def)
  with c wf_task_ID [OF wf t] have "task_ID (claim_Task c) = k" "task_Status (claim_Task c) = TaskRunning"
      "lease_WorkerID (claim_Lease c) = cfg_WorkerID cfg"
    by (auto simp: granted_def Let_def dispatch_request_def)
  with c cl show ?thesis
    by (intro that [of c s]) (auto simp: claim_turn_def Let_def dispatch_request_def)
qed

text \<open>From the acquisition of a free slot, three steps of the main loop put the first ready task in flight.\<close>

lemma dispatch_three_steps:
  assumes d: "sched_wf cfg d" and pc: "sch_pc d = PAcquire" and free: "int (sch_slots d) < cfg_MaxConcurrentRuns cfg"
    and "0 < cfg_LeaseTTL cfg" and "wall2 0 \<noteq> zero_time"
    and find: "List.find (claimable (sch_store d) (dispatch_request cfg (wall2 0) (activeTaskIDs d)) (wall2 0))
        (taskOrder (sch_store d)) = Some k"
  shows "\<exists>f t. let d' = fold (sched_step cfg ctl) [SMain it1 wall1 clk1 b1, SMain it2 wall2 clk2 b2, SMain it3 wall3 clk3 b3] d in
    get_flight d' (sch_spawned d) = Some f \<and> task_ID (claim_Task (fl_claim f)) = k \<and> sch_pc d' = PAcquire \<and>
    get_task (sch_store d') k = Some t \<and> task_Status t = TaskRunning \<and>
    get_lease (sch_store d') k = Some (claim_Lease (fl_claim f)) \<and>
    lease_WorkerID (claim_Lease (fl_claim f)) = cfg_WorkerID cfg"
proof -
  let ?d1 = "d\<lparr>sch_slots := Suc (sch_slots d), sch_pc := PClaim (activeTaskIDs d)\<rparr>"
  have wf: "wf_store (sch_store ?d1)" using d by (auto simp: sched_wf_def intro: reachable_wf)
  have s1: "main_step cfg ctl it1 wall1 clk1 b1 d = ?d1"
    using pc free by (simp add: main_step_def tryAcquireSlot_def activeTaskIDs_def)
  have find1: "List.find (claimable (sch_store ?d1) (dispatch_request cfg (wall2 0) (activeTaskIDs d)) (wall2 0))
      (taskOrder (sch_store ?d1)) = Some k" using find by simp
  obtain c s where c: "claim_turn cfg clk2 (wall2 0) (activeTaskIDs d) ?d1 = ?d1\<lparr>sch_store := s, sch_pc := PCheck c\<rparr>"
      "task_ID (claim_Task c) = k" "get_task s k = Some (claim_Task c)" "get_lease s k = Some (claim_Lease c)"
      "task_Status (claim_Task c) = TaskRunning" "lease_WorkerID (claim_Lease c) = cfg_WorkerID cfg"
    by (rule claim_turn_first [OF wf assms(4,5) find1])
  have s2: "main_step cfg ctl it2 wall2 clk2 b2 ?d1 = ?d1\<lparr>sch_store := s, sch_pc := PCheck c\<rparr>"
    using c(1) by (simp add: main_step_def)
  from find have "k \<notin> set (activeTaskIDs d)"
    by (auto simp: find_Some_iff claimable_def dispatch_request_def split: option.splits)
  then have "activeRun (?d1\<lparr>sch_store := s, sch_pc := PCheck c\<rparr>) (task_ID (claim_Task c)) = None"
    using c(2) by (simp add: activeRun_def activeTaskIDs_def fmlookup_dom'_iff)
  then have "\<not> hasConflictingLocalRun (?d1\<lparr>sch_store := s, sch_pc := PCheck c\<rparr>) c"
    by (simp add: hasConflictingLocalRun_def split: option.split)
  then have s3: "main_step cfg ctl it3 wall3 clk3 b3 (?d1\<lparr>sch_store := s, sch_pc := PCheck c\<rparr>) =
      (spawn c (?d1\<lparr>sch_store := s, sch_pc := PCheck c\<rparr>))\<lparr>sch_pc := PAcquire\<rparr>"
    by (simp add: main_step_def)
  have "fold (sched_step cfg ctl) [SMain it1 wall1 clk1 b1, SMain it2 wall2 clk2 b2, SMain it3 wall3 clk3 b3] d =
      (spawn c (?d1\<lparr>sch_store := s, sch_pc := PCheck c\<rparr>))\<lparr>sch_pc := PAcquire\<rparr>"
    by (simp only: fold_simps sched_step.simps s1 s2 s3)
  with c show ?thesis by (simp add: spawn_def)
qed

section \<open>Cancelling a task that runs here\<close>

definition canceled_task :: "time \<Rightarrow> string \<Rightarrow> task \<Rightarrow> task" where
  "canceled_task now reason t = t\<lparr>task_Status := TaskCanceled, task_Result := None,
     task_LastError := cancelReason reason, task_CompletedAt := now, task_UpdatedAt := now\<rparr>"

lemma CancelTask_leased:
  assumes "get_task s k = Some t" and "task_Status t = TaskRunning" and "get_lease s k = Some l"
    and "now < lease_ExpiresAt l" and "now \<noteq> zero_time" and "lease_Token l \<noteq> []"
  shows "\<exists>s'. CancelTask clk k (lease_Token l) reason now s = (Inr (canceled_task now reason t), s') \<and>
    get_task s' k = Some (canceled_task now reason t) \<and> get_lease s' k = None \<and> commands s' = commands s"
  using assms by (simp add: CancelTask_def Let_def normalizeNow_def canceled_task_def publishTaskCanceled_def)

lemma HandleCommand_tasks: "tasks (snd (HandleCommand clk k token w now s)) = tasks s \<and>
    leases (snd (HandleCommand clk k token w now s)) = leases s"
  by (simp add: HandleCommand_def Let_def publishCommandHandled_def split: option.split)

lemma HandleCommand_status:
  assumes "get_command s k = Some c" and "cmd_Status c = CommandClaimed" and "cmd_ClaimToken c = token"
  shows "\<exists>c' s'. HandleCommand clk k token w now s = (Inr c', s') \<and> get_command s' k = Some c' \<and>
    cmd_Status c' = CommandHandled \<and> cmd_HandledBy c' = w"
  using assms by (simp add: HandleCommand_def Let_def publishCommandHandled_def)

lemma settle_step_fenced:
  assumes "\<And>f. get_flight d n = Some f \<Longrightarrow>
    \<not> holds_token (sch_store d) (task_ID (claim_Task (fl_claim f))) (token_of (fl_claim f))"
  shows "sch_store (settle_step n clk now outcome runErr d) = sch_store d"
proof (cases "get_flight d n")
  case (Some f)
  let ?d = "d\<lparr>sch_flights := fmupd n (f\<lparr>fl_renewing := False, fl_settled := True\<rparr>) (sch_flights d)\<rparr>"
  have "\<not> holds_token (sch_store ?d) (task_ID (claim_Task (fl_claim f))) (token_of (fl_claim f))"
    using assms [OF Some] by simp
  from settle_fenced [OF this] Some show ?thesis by (simp add: settle_step_def Let_def split: option.split)
qed (simp add: settle_step_def)

lemma cancel_command_local:
  assumes d: "sched_wf cfg d" and c: "get_command (sch_store d) (cmd_ID c) = Some c"
      "cmd_Status c = CommandClaimed" "cmd_Kind c = CommandCancelTask"
    and t: "get_task (sch_store d) (cmd_TaskID c) = Some t" "task_Status t = TaskRunning"
    and l: "get_lease (sch_store d) (cmd_TaskID c) = Some l" "wall 0 < lease_ExpiresAt l" "wall 0 \<noteq> zero_time"
    and a: "localActiveRun d t = Some a"
  obtains d' f f' c' where "handleCommand cfg ctl wall clk c d = (None, d')"
    and "get_task (sch_store d') (cmd_TaskID c) = Some (canceled_task (wall 0) (cmd_Reason c) t)"
    and "get_lease (sch_store d') (cmd_TaskID c) = None"
    and "get_command (sch_store d') (cmd_ID c) = Some c'" and "cmd_Status c' = CommandHandled"
    and "get_flight d (ar_cancel a) = Some f" and "task_ID (claim_Task (fl_claim f)) = cmd_TaskID c"
    and "get_flight d' (ar_cancel a) = Some f'" and "fl_claim f' = fl_claim f"
    and "fl_cause f' = (case fl_cause f of None \<Rightarrow> Some (TaskCancelCause (cmd_Reason c)) | Some e \<Rightarrow> Some e)"
proof -
  let ?k = "cmd_TaskID c" and ?s = "sch_store d" and ?cause = "TaskCancelCause (cmd_Reason c)"
  have wf: "wf_store ?s" using d by (auto simp: sched_wf_def intro: reachable_wf)
  have tid: "task_ID t = ?k" using wf t(1) by (rule wf_task_ID)
  have tok: "lease_Token l \<noteq> []" using wf_lease_number [OF wf l(1)] numbered_not_Nil by metis
  obtain s1 where s1: "CancelTask clk ?k (lease_Token l) (cmd_Reason c) (wall 0) ?s = (Inr (canceled_task (wall 0) (cmd_Reason c) t), s1)"
      "get_task s1 ?k = Some (canceled_task (wall 0) (cmd_Reason c) t)" "get_lease s1 ?k = None" "commands s1 = commands ?s"
    using CancelTask_leased [OF t l tok] by blast
  from a tid have "fmlookup (sch_active d) ?k = Some a"
    by (auto simp: localActiveRun_def activeRun_def split: option.splits if_splits)
  with d obtain f where f: "get_flight d (ar_cancel a) = Some f" "task_ID (claim_Task (fl_claim f)) = ?k"
    unfolding sched_wf_def active_ok_def by metis
  let ?d1 = "cancel_flight (ar_cancel a) ?cause (d\<lparr>sch_store := s1\<rparr>)"
  have ap: "apply_command ctl wall clk c d = (None, ?d1)"
    using c(3) t tid l a s1(1)
    by (simp add: apply_command_def applyCancelTask_def GetTask_def apply_cancel_running_def GetLease_def Let_def)
  have "get_command (sch_store ?d1) (cmd_ID c) = Some c" using s1(4) c(1) by simp
  from HandleCommand_status [OF this c(2) refl] obtain c' s' where
      h: "HandleCommand (\<lambda>i. clk (3 + i)) (cmd_ID c) (cmd_ClaimToken c) (cfg_WorkerID cfg) (wall 0) (sch_store ?d1) = (Inr c', s')"
        "get_command s' (cmd_ID c) = Some c'" "cmd_Status c' = CommandHandled" by blast
  from HandleCommand_tasks [of "\<lambda>i. clk (3 + i)" "cmd_ID c" "cmd_ClaimToken c" "cfg_WorkerID cfg" "wall 0" "sch_store ?d1"] h(1)
  have ts: "tasks s' = tasks s1" "leases s' = leases s1" by simp_all
  show ?thesis
  proof (rule that)
    show "handleCommand cfg ctl wall clk c d = (None, ?d1\<lparr>sch_store := s'\<rparr>)"
      using ap h(1) by (simp add: handleCommand_def)
    show "get_flight d (ar_cancel a) = Some f" and "task_ID (claim_Task (fl_claim f)) = ?k" using f by auto
    show "get_flight (?d1\<lparr>sch_store := s'\<rparr>) (ar_cancel a) = Some (f\<lparr>fl_cause :=
        (case fl_cause f of None \<Rightarrow> Some ?cause | Some c \<Rightarrow> Some c)\<rparr>)"
      using f by (simp add: cancel_flight_def)
  qed (use s1 h ts in simp_all)
qed

end
