(* ===== verification/Orch_Sched_Scenario.thy ===== *)
theory Orch_Sched_Scenario
  imports Orch_Sched_Life Orch_Scenario
begin

text \<open>
  A scheduler at work on the store of \<^verbatim>\<open>Orch_Scenario\<close>: one pass of its main loop claims the first
  task, the flight registers, and a cancel command for the task is created and claimed.
\<close>

definition demo_config :: scheduler_config where
  "demo_config = scheduler_config_of (\<lambda>_. 0) [WithWorkerID ''w'', WithLeaseTTL 50, WithMaxConcurrentRuns 2]"

definition main_at :: "time \<Rightarrow> sched_op" where
  "main_at t = SMain id (\<lambda>_. t) wall True"

definition polled :: scheduler where
  "polled = fold (sched_step demo_config None) [main_at 100, main_at 100] (NewScheduler two_tasks)"

definition launched :: scheduler where
  "launched = fold (sched_step demo_config None) [main_at 100, main_at 100, main_at 100, SRegister 0] polled"

definition demo_claim :: claimed_task where
  "demo_claim = \<lparr>claim_Task = running_task, claim_Lease = running_lease, claim_Run = task_Run running_task\<rparr>"

definition demo_flight :: flight where
  "demo_flight = \<lparr>fl_claim = demo_claim, fl_registered = True, fl_cause = None, fl_renewing = True, fl_renewErr = None,
     fl_settled = False, fl_exit = Flying\<rparr>"

lemma demo_config_fields [simp]:
  "cfg_WorkerID demo_config = ''w''" "cfg_LeaseTTL demo_config = 50" "cfg_MaxConcurrentRuns demo_config = 2"
  "cfg_RecoveryInterval demo_config = 15 * Second" "cfg_CommandClaimTimeout demo_config = 30 * Second"
  by (simp_all add: demo_config_def scheduler_config_of_def DefaultSchedulerConfig_def Let_def positive_or_def
      WithWorkerID_def WithLeaseTTL_def WithMaxConcurrentRuns_def)

lemma map_keys_empty [simp]: "map_keys fmempty = []"
  using set_map_keys [of fmempty] by (simp only: fmdom'_empty set_empty)

lemma polled_eq: "polled = (NewScheduler two_tasks)\<lparr>sch_pc := PAcquire, sch_nextRecovery := 100 + 15 * Second\<rparr>"
proof -
  have r: "RecoverExpiredLeases id clk now two_tasks = ([], two_tasks)" for clk now
    by (simp add: RecoverExpiredLeases_def two_tasks_eq)
  have c: "RecoverClaimedCommands clk before now two_tasks = ([], two_tasks)" for clk before now
    by (simp add: RecoverClaimedCommands_def two_tasks_eq Let_def)
  have "recover demo_config None id clk now (NewScheduler two_tasks) = NewScheduler two_tasks" for clk now
    by (simp add: recover_def Sweep_def r c NewRecoveryManager_def WithRecoveryController_def
        WithRecoveryCommandClaimTimeout_def WithRecoveryLocalCanceler_def NewScheduler_def)
  then have s1: "sched_step demo_config None (main_at 100) (NewScheduler two_tasks) =
      (NewScheduler two_tasks)\<lparr>sch_nextRecovery := 100 + 15 * Second, sch_pc := PCommands\<rparr>"
    by (simp add: main_at_def main_step_def recover_turn_def recoveryEnabled_def NewScheduler_def)
  have "command_round demo_config None wl clk d = Inl (None, d)" if "sch_store d = two_tasks" for wl clk d
    using that by (simp add: command_round_def ClaimPendingCommand_def two_tasks_eq)
  then show ?thesis
    by (simp add: polled_def s1) (simp add: main_at_def main_step_def NewScheduler_def)
qed

lemma launched_eq:
  "launched = \<lparr>sch_store = one_running, sch_slots = 1, sch_flights = fmupd 0 demo_flight fmempty, sch_spawned = 1,
     sch_active = fmupd ''task-1'' \<lparr>ar_claim = demo_claim, ar_cancel = 0\<rparr> fmempty, sch_ctx = None, sch_errors = [],
     sch_pc = PAcquire, sch_nextRecovery = 100 + 15 * Second\<rparr>"
proof -
  have req: "\<lparr>clr_WorkerID = ''w'', clr_LeaseTTL = 50, clr_Now = 100, clr_Kinds = [], clr_ExcludeTaskIDs = []\<rparr> = claim_at 100"
    by (simp add: claim_at_def)
  have "fmupd 0 x (fmupd 0 y m) = fmupd 0 x m" for x y :: flight and m :: "(nat, flight) fmap"
    by (rule fmap_ext) simp
  then show ?thesis
    by (simp add: launched_def polled_eq main_at_def main_step_def tryAcquireSlot_def NewScheduler_def claim_turn_def
        activeTaskIDs_def req claim_first_task(1) demo_claim_def [symmetric] hasConflictingLocalRun_def activeRun_def
        spawn_def register_step_def registerActiveClaim_def demo_flight_def split: option.split)
      (simp add: demo_claim_def)
qed

lemma sched_initial_two_tasks: "sched_initial (NewScheduler two_tasks)"
  using reachable_two_tasks by (auto simp: sched_initial_def)

lemma sched_wf_demo: "sched_wf demo_config polled" "sched_wf demo_config launched"
  unfolding demo_config_def polled_def launched_def
  by (intro sched.inv_run sched.inv_init sched_initial_two_tasks)+

end
