(* ===== verification/Orch_Sched_Properties.thy ===== *)
theory Orch_Sched_Properties
  imports Orch_Sched_Scenario
begin

text \<open>
  The properties of the scheduler and of the queries, for every configuration, every interleaving of
  the scheduler's goroutines and every behaviour of runners, run controllers and other clients of the
  store; \<^verbatim>\<open>Orch_Sched_Scenario\<close> has the instances.
\<close>

section \<open>States of the scheduler\<close>

definition scheduler_state :: "clock \<Rightarrow> scheduler_option list \<Rightarrow> run_controller option \<Rightarrow> scheduler \<Rightarrow> bool" where
  "scheduler_state reading opts ctl d \<longleftrightarrow> (\<exists>d0 ops. sched_initial d0 \<and>
     d = fold (sched_step (scheduler_config_of reading opts) ctl) ops d0)"

lemma scheduler_state_wf:
  "scheduler_state reading opts ctl d \<Longrightarrow> sched_wf (scheduler_config_of reading opts) d"
  unfolding scheduler_state_def using sched.inv_run_init by blast

lemma scheduler_state_demo:
  "scheduler_state (\<lambda>_. 0) [WithWorkerID ''w'', WithLeaseTTL 50, WithMaxConcurrentRuns 2] None polled"
  "scheduler_state (\<lambda>_. 0) [WithWorkerID ''w'', WithLeaseTTL 50, WithMaxConcurrentRuns 2] None launched"
proof -
  have "launched = fold (sched_step demo_config None) ([main_at 100, main_at 100] @
      [main_at 100, main_at 100, main_at 100, SRegister 0]) (NewScheduler two_tasks)"
    by (simp only: launched_def polled_def fold_append comp_apply)
  with sched_initial_two_tasks show
    "scheduler_state (\<lambda>_. 0) [WithWorkerID ''w'', WithLeaseTTL 50, WithMaxConcurrentRuns 2] None launched"
    unfolding scheduler_state_def demo_config_def by blast
  show "scheduler_state (\<lambda>_. 0) [WithWorkerID ''w'', WithLeaseTTL 50, WithMaxConcurrentRuns 2] None polled"
    unfolding scheduler_state_def polled_def demo_config_def using sched_initial_two_tasks by blast
qed

section \<open>Slots and the store\<close>

text \<open>
  C16. The scheduler never runs more tasks at a time than its limit: in every state the flights under
  way, plus one while a claim is in the hands of the dispatcher, are exactly the slots taken, and the
  slots taken never exceed \<^verbatim>\<open>MaxConcurrentRuns\<close>; every entry of the active map names a flight under
  way, for the same claim, and no two flights hold the same lease token.
\<close>

theorem scheduler_bounded_runs:
  assumes "scheduler_state reading opts ctl d" and "cfg = scheduler_config_of reading opts"
  shows "card (fmdom' (sch_flights d)) \<le> sch_slots d \<and> sch_slots d \<le> card (fmdom' (sch_flights d)) + 1 \<and>
    int (sch_slots d) \<le> cfg_MaxConcurrentRuns cfg \<and>
    (\<forall>k a. fmlookup (sch_active d) k = Some a \<longrightarrow> task_ID (claim_Task (ar_claim a)) = k \<and>
       (\<exists>f. get_flight d (ar_cancel a) = Some f \<and> fl_claim f = ar_claim a)) \<and>
    (\<forall>n n' f f'. get_flight d n = Some f \<longrightarrow> get_flight d n' = Some f' \<longrightarrow>
       lease_Token (claim_Lease (fl_claim f)) = lease_Token (claim_Lease (fl_claim f')) \<longrightarrow> n = n')"
proof -
  have wf: "sched_wf cfg d" using scheduler_state_wf [OF assms(1)] assms(2) by simp
  have "slot_of pc \<le> 1" for pc by (cases pc) simp_all
  with wf have "card (fmdom' (sch_flights d)) \<le> sch_slots d \<and> sch_slots d \<le> card (fmdom' (sch_flights d)) + 1 \<and>
      int (sch_slots d) \<le> cfg_MaxConcurrentRuns cfg"
    by (simp add: sched_wf_def slots_ok_def)
  moreover have "task_ID (claim_Task (ar_claim a)) = k \<and> (\<exists>f. get_flight d (ar_cancel a) = Some f \<and> fl_claim f = ar_claim a)"
    if "fmlookup (sch_active d) k = Some a" for k a
    using wf that unfolding sched_wf_def active_ok_def by metis
  moreover have "n = n'" if "get_flight d n = Some f" "get_flight d n' = Some f'"
      "lease_Token (claim_Lease (fl_claim f)) = lease_Token (claim_Lease (fl_claim f'))" for n n' f f'
    using wf that unfolding sched_wf_def flights_ok_def token_of_def by metis
  ultimately show ?thesis by blast
qed

theorem scheduler_bounded_runs_witness:
  "card (fmdom' (sch_flights launched)) \<le> sch_slots launched \<and> int (sch_slots launched) \<le> cfg_MaxConcurrentRuns demo_config"
  using scheduler_bounded_runs [OF scheduler_state_demo(2) refl] by (simp add: demo_config_def)

text \<open>
  The scheduler only ever changes the store through the store's operations: whatever a run of the
  scheduler does, interleaved with other clients, the store it ends with is reached from the store it
  began with by a sequence of store operations. So every guarantee of the store holds under it.
\<close>

theorem scheduler_refines_store:
  assumes "d' = fold (sched_step cfg ctl) ops d"
  shows "\<exists>ops'. sch_store d' = fold exec ops' (sch_store d)"
  using store_run_steps [of d cfg ctl ops] assms unfolding store_run_def by simp

theorem scheduler_refines_store_witness: "\<exists>ops'. one_running = fold exec ops' two_tasks"
  using scheduler_refines_store [OF launched_def [unfolded]] by (simp add: launched_eq polled_eq NewScheduler_def)

section \<open>Flights\<close>

text \<open>
  What the end of a flight does while its lease is still the lease of the task and has not run
  out: without an error the task is completed with the outcome the runner returned; when the scheduler
  is being stopped and the run ended with the cancellation, the task is pending again with its attempt
  given back; with a retryable error and attempts left it is pending again; with any other error it is
  failed with the text of the error. In every case the lease is gone and nothing is reported.
\<close>

theorem flight_end_settles_task:
  assumes "scheduler_state reading opts ctl d" and "get_flight d n = Some f" and "fl_registered f" and "\<not> fl_settled f"
    and "leased (sch_store d) (fl_claim f) now t" and "now \<noteq> zero_time"
    and "k = task_ID (claim_Task (fl_claim f))" and "d' = settle_step n clk now outcome runErr d"
  shows "get_task (sch_store d') k = Some (case run_error f runErr of
        None \<Rightarrow> completed_task now outcome t
      | Some e \<Rightarrow> if fl_renewErr f = None \<and> errors_Is e ContextCanceled \<and> sch_ctx d \<noteq> None
                 then released_task (normalizeNow (clk 2) (clk 1)) t else failed_task now e t) \<and>
    get_lease (sch_store d') k = None \<and> sch_errors d' = sch_errors d"
proof -
  let ?d = "d\<lparr>sch_flights := fmupd n (f\<lparr>fl_renewing := False, fl_settled := True\<rparr>) (sch_flights d)\<rparr>"
  have wf: "wf_store (sch_store ?d)" using scheduler_state_wf [OF assms(1)] by (auto simp: sched_wf_def intro: reachable_wf)
  have le: "leased (sch_store ?d) (fl_claim f) now t" using assms(5) by simp
  show ?thesis
  proof (cases "run_error f runErr")
    case None
    with assms have "d' = settle_success f clk now outcome ?d" by (simp add: settle_step_def Let_def)
    with settle_success_leased [OF le wf assms(6)] None assms(7) show ?thesis by simp
  next
    case (Some e)
    with assms have d': "d' = settle_failure f clk now e ?d" by (simp add: settle_step_def Let_def)
    show ?thesis
    proof (cases "fl_renewErr f = None \<and> errors_Is e ContextCanceled \<and> sch_ctx d \<noteq> None")
      case True
      with settle_shutdown_leased [OF le wf assms(6)] d' Some assms(7) show ?thesis by simp
    next
      case False
      then have "\<not> (fl_renewErr f = None \<and> errors_Is e ContextCanceled \<and> sch_ctx ?d \<noteq> None)" by simp
      from settle_failure_leased [OF le wf assms(6) this] d' Some False assms(7) show ?thesis by auto
    qed
  qed
qed

theorem flight_end_settles_task_witness:
  "map_option task_Status (get_task (sch_store (settle_step 0 wall 120 None None launched)) ''task-1'') = Some TaskCompleted \<and>
   map_option (\<lambda>t. (task_Status t, task_LastError t))
     (get_task (sch_store (settle_step 0 wall 120 None (Some (ErrorString ''boom'')) launched)) ''task-1'')
     = Some (TaskFailed, ''boom'')"
proof -
  have f: "get_flight launched 0 = Some demo_flight" by (simp add: launched_eq)
  have l: "leased (sch_store launched) (fl_claim demo_flight) 120 running_task"
    by (simp add: leased_def launched_eq demo_flight_def demo_claim_def claim_first_task token_of_def)
  note step = flight_end_settles_task [OF scheduler_state_demo(2) f _ _ l _ refl refl]
  have "run_error demo_flight None = None" and "run_error demo_flight (Some (ErrorString ''boom'')) = Some (ErrorString ''boom'')"
    by (simp_all add: run_error_def demo_flight_def errors_Is_def)
  then show ?thesis
    using step [of wall None None] step [of wall None "Some (ErrorString ''boom'')"]
    by (simp add: demo_flight_def demo_claim_def completed_task_def failed_task_def isRetryable_iff errors_Is_def)
qed

text \<open>
  C13. A flight whose lease is no longer the lease of its task, because it expired and was recovered,
  was released, or the task was canceled, deleted or claimed again, cannot touch the store: whatever
  its runner returns, settling leaves the store exactly as it is; and a lease once lost stays lost,
  whatever the scheduler and the other clients do.
\<close>

theorem lost_lease_fences_flight:
  assumes "scheduler_state reading opts ctl d" and "get_flight d n = Some f"
    and "k = task_ID (claim_Task (fl_claim f))" and "token = lease_Token (claim_Lease (fl_claim f))"
    and "\<not> holds_token (sch_store d) k token"
  shows "sch_store (settle_step n clk now outcome runErr d) = sch_store d \<and>
    \<not> holds_token (sch_store (fold (sched_step (scheduler_config_of reading opts) ctl) ops d)) k token"
proof -
  have d: "sched_wf (scheduler_config_of reading opts) d" using assms(1) by (rule scheduler_state_wf)
  have wf: "wf_store (sch_store d)" using d by (auto simp: sched_wf_def intro: reachable_wf)
  have num: "numbered ''lease-'' (nextLease (sch_store d)) token"
    using flight_claim_ok [OF d assms(2)] assms(4) by (simp add: claim_ok_def token_of_def)
  obtain ops' where "sch_store (fold (sched_step (scheduler_config_of reading opts) ctl) ops d) = fold exec ops' (sch_store d)"
    using store_run_steps [of d "scheduler_config_of reading opts" ctl ops] by (auto simp: store_run_def)
  with dead_token_run [OF wf num assms(5), of ops'] settle_step_fenced [of d n] assms(2-5) show ?thesis
    by (simp add: token_of_def)
qed

text \<open>The task of the demonstration is canceled by another client while its flight is under way.\<close>

definition canceled_elsewhere :: scheduler where
  "canceled_elsewhere = sched_step demo_config None (SStore (OpCancelTask wall ''task-1'' ''lease-1'' ''stop'' 120)) launched"

lemma canceled_elsewhere_eq: "canceled_elsewhere = launched\<lparr>sch_store := first_canceled\<rparr>"
  by (simp add: canceled_elsewhere_def launched_eq first_canceled_def)

lemma scheduler_state_canceled:
  "scheduler_state (\<lambda>_. 0) [WithWorkerID ''w'', WithLeaseTTL 50, WithMaxConcurrentRuns 2] None canceled_elsewhere"
proof -
  from scheduler_state_demo(2) obtain d0 ops where "sched_initial d0" "launched = fold (sched_step demo_config None) ops d0"
    by (auto simp: scheduler_state_def demo_config_def)
  then show ?thesis
    unfolding scheduler_state_def canceled_elsewhere_def demo_config_def [symmetric]
    by (intro exI [of _ d0] exI [of _ "ops @ [SStore (OpCancelTask wall ''task-1'' ''lease-1'' ''stop'' 120)]"]) simp
qed

theorem lost_lease_fences_flight_witness:
  "sch_store (settle_step 0 wall 130 None None canceled_elsewhere) = first_canceled"
proof -
  have "get_flight canceled_elsewhere 0 = Some demo_flight" by (simp add: canceled_elsewhere_eq launched_eq)
  moreover have "\<not> holds_token (sch_store canceled_elsewhere) k token" for k token
    by (simp add: canceled_elsewhere_eq holds_token_def first_canceled_eq)
  ultimately show ?thesis
    using lost_lease_fences_flight [OF scheduler_state_canceled _ refl refl, of 0 demo_flight wall 130 None None "[]"]
    by (simp add: canceled_elsewhere_eq)
qed

section \<open>Commands\<close>

text \<open>
  C18. The command loop always returns, and never with an error, whatever commands there are and
  whatever the run controller answers; when it reports nothing, no pending command is left that this
  worker could take. From the point where the main goroutine handles commands, its steps alone get to
  that state, one round after the other, and on to the dispatch.
\<close>

theorem command_loop_returns:
  assumes "scheduler_state reading opts ctl d" and "cfg = scheduler_config_of reading opts"
  shows "\<exists>d'. processCommands cfg ctl readings clk d = Some (None, d') \<and>
    ((sch_errors d' = sch_errors d \<and>
      (\<forall>k c. get_command (sch_store d') k = Some c \<longrightarrow> \<not> open_to (cfg_WorkerID cfg) c)) \<or>
     (\<exists>err. sch_errors d' = sch_errors d @ [err])) \<and>
    (sch_pc d = PCommands \<longrightarrow> (\<exists>ops. (\<forall>op \<in> set ops. \<exists>readings clk. op = SMain it readings clk tick) \<and>
      fold (sched_step cfg ctl) ops d = d'\<lparr>sch_pc := PAcquire\<rparr>))"
proof -
  have wf: "wf_store (sch_store d)" using scheduler_state_wf [OF assms(1)] by (auto simp: sched_wf_def intro: reachable_wf)
  have w: "cfg_WorkerID cfg \<noteq> []" using assms(2) config_positive by simp
  obtain d' where d': "processCommands cfg ctl readings clk d = Some (None, d')" using processCommands_returns [OF wf w] by blast
  with processCommands_drains [OF d' w wf] processCommands_steps [OF d', of it tick] show ?thesis by auto
qed

text \<open>A cancel command for the task in flight has been created and not claimed.\<close>

definition asked :: scheduler where
  "asked = sched_step demo_config None (SStore (OpCreateCommand wall \<lparr>ccr_Kind = CommandCancelTask,
     ccr_TaskID = ''task-1'', ccr_RunID = [], ccr_Reason = [], ccr_Metadata = fmempty\<rparr>)) launched"

theorem command_loop_returns_witness:
  "get_command (sch_store asked) ''command-1'' = Some first_command \<and> open_to ''w'' first_command \<and>
   (\<exists>d'. processCommands demo_config None wall wall asked = Some (None, d') \<and>
     ((sch_errors d' = [] \<and> (\<forall>c. get_command (sch_store d') ''command-1'' = Some c \<longrightarrow> \<not> open_to ''w'' c)) \<or>
      (\<exists>err. sch_errors d' = [err])))"
proof -
  have s: "asked = launched\<lparr>sch_store := with_command\<rparr>" by (simp add: asked_def launched_eq with_command_def)
  have st: "scheduler_state (\<lambda>_. 0) [WithWorkerID ''w'', WithLeaseTTL 50, WithMaxConcurrentRuns 2] None asked"
  proof -
    from scheduler_state_demo(2) obtain d0 ops where "sched_initial d0" "launched = fold (sched_step demo_config None) ops d0"
      by (auto simp: scheduler_state_def demo_config_def)
    then show ?thesis
      unfolding scheduler_state_def asked_def demo_config_def [symmetric]
      by (intro exI [of _ d0] exI [of _ "ops @ [SStore (OpCreateCommand wall \<lparr>ccr_Kind = CommandCancelTask,
        ccr_TaskID = ''task-1'', ccr_RunID = [], ccr_Reason = [], ccr_Metadata = fmempty\<rparr>)]"]) simp
  qed
  have a: "sch_errors asked = []" "sch_store asked = with_command" by (simp_all add: s launched_eq)
  have c: "get_command (sch_store asked) ''command-1'' = Some first_command" "open_to ''w'' first_command"
    by (simp_all add: a with_command_eq open_to_def first_command_def)
  have w: "cfg_WorkerID demo_config = ''w''" by simp
  note r = command_loop_returns [OF st refl, of wall wall undefined True, folded demo_config_def]
  from r obtain d' where "processCommands demo_config None wall wall asked = Some (None, d')"
      "(sch_errors d' = sch_errors asked \<and> (\<forall>k c. get_command (sch_store d') k = Some c \<longrightarrow> \<not> open_to (cfg_WorkerID demo_config) c)) \<or>
       (\<exists>err. sch_errors d' = sch_errors asked @ [err])" by blast
  with c show ?thesis unfolding a(1) w by auto
qed

text \<open>
  C32. A cancel command for a task that runs on this worker, handled while the lease is valid, cancels
  the task, drops its lease, marks the command handled and cancels the context of the flight, with the
  reason as its cause unless it was canceled before; whatever the runner then returns leaves the store
  alone, so the cancellation stands.
\<close>

theorem cancel_command_stops_local_run:
  assumes "scheduler_state reading opts ctl d" and "cfg = scheduler_config_of reading opts"
    and "get_command (sch_store d) (cmd_ID c) = Some c" and "cmd_Status c = CommandClaimed"
    and "cmd_Kind c = CommandCancelTask" and "k = cmd_TaskID c"
    and "get_task (sch_store d) k = Some t" and "task_Status t = TaskRunning"
    and "get_lease (sch_store d) k = Some l" and "readings 0 < lease_ExpiresAt l" and "readings 0 \<noteq> zero_time"
    and "localActiveRun d t = Some a"
  shows "\<exists>d' c' f f'. handleCommand cfg ctl readings clk c d = (None, d') \<and>
    get_task (sch_store d') k = Some (canceled_task (readings 0) (cmd_Reason c) t) \<and> get_lease (sch_store d') k = None \<and>
    get_command (sch_store d') (cmd_ID c) = Some c' \<and> cmd_Status c' = CommandHandled \<and>
    get_flight d (ar_cancel a) = Some f \<and> get_flight d' (ar_cancel a) = Some f' \<and>
    fl_cause f' = (case fl_cause f of None \<Rightarrow> Some (TaskCancelCause (cmd_Reason c)) | Some e \<Rightarrow> Some e) \<and>
    sch_store (settle_step (ar_cancel a) clk' now outcome runErr d') = sch_store d'"
proof -
  have wf: "sched_wf cfg d" using scheduler_state_wf [OF assms(1)] assms(2) by simp
  obtain d' f f' c' where r: "handleCommand cfg ctl readings clk c d = (None, d')"
      "get_task (sch_store d') k = Some (canceled_task (readings 0) (cmd_Reason c) t)" "get_lease (sch_store d') k = None"
      "get_command (sch_store d') (cmd_ID c) = Some c'" "cmd_Status c' = CommandHandled"
      "get_flight d (ar_cancel a) = Some f" "task_ID (claim_Task (fl_claim f)) = k"
      "get_flight d' (ar_cancel a) = Some f'" "fl_claim f' = fl_claim f"
      "fl_cause f' = (case fl_cause f of None \<Rightarrow> Some (TaskCancelCause (cmd_Reason c)) | Some e \<Rightarrow> Some e)"
    using cancel_command_local [where wall = readings and clk = clk and ctl = ctl, OF wf assms(3-5) assms(7-9) [unfolded assms(6)] assms(10-12)] assms(6) by metis
  have "sch_store (settle_step (ar_cancel a) clk' now outcome runErr d') = sch_store d'"
    by (rule settle_step_fenced) (use r in \<open>simp add: holds_token_def\<close>)
  with r show ?thesis by blast
qed

definition commanded :: scheduler where
  "commanded = fold (sched_step demo_config None) [SStore (OpCreateCommand wall \<lparr>ccr_Kind = CommandCancelTask,
     ccr_TaskID = ''task-1'', ccr_RunID = [], ccr_Reason = [], ccr_Metadata = fmempty\<rparr>),
     SStore (OpClaimPendingCommand wall worker_w)] launched"

definition claimed_command :: command where
  "claimed_command = claim_command ''w'' 130 first_command"

lemma commanded_store:
  "commanded = launched\<lparr>sch_store := sch_store commanded\<rparr>"
  "get_command (sch_store commanded) ''command-1'' = Some claimed_command"
  "tasks (sch_store commanded) = tasks one_running" "leases (sch_store commanded) = leases one_running"
proof -
  have s: "sch_store commanded = snd (ClaimPendingCommand wall worker_w with_command)"
    by (simp add: commanded_def launched_eq with_command_def)
  show "commanded = launched\<lparr>sch_store := sch_store commanded\<rparr>" by (simp add: commanded_def launched_eq)
  have g: "get_task with_command ''task-1'' = Some running_task" by (simp add: with_command_eq claim_first_task)
  have "refreshCommandTargetLocked with_command first_command = first_command"
    by (simp add: refreshCommandTargetLocked_def g first_command_def)
  then show "get_command (sch_store commanded) ''command-1'' = Some claimed_command"
    by (simp add: s ClaimPendingCommand_def worker_w_def with_command_eq claimed_command_def normalizeNow_def
        publishCommandClaimed_def Let_def) (simp add: first_command_def)
  have "same_tasks one_running with_command"
    by (simp add: with_command_def CreateCommand_def claim_first_task validateCommandTargetLocked_def run_id_of_def
        Let_def publishCommandCreated_def)
  then have "same_tasks one_running (sch_store commanded)"
    by (auto simp: s ClaimPendingCommand_def intro: same_tasks_claim_first_command)
  then show "tasks (sch_store commanded) = tasks one_running" and "leases (sch_store commanded) = leases one_running"
    by (simp_all add: same_tasks_def)
qed

lemma scheduler_state_commanded:
  "scheduler_state (\<lambda>_. 0) [WithWorkerID ''w'', WithLeaseTTL 50, WithMaxConcurrentRuns 2] None commanded"
proof -
  from scheduler_state_demo(2) obtain d0 ops where "sched_initial d0" "launched = fold (sched_step demo_config None) ops d0"
    by (auto simp: scheduler_state_def demo_config_def)
  then show ?thesis
    unfolding scheduler_state_def commanded_def demo_config_def [symmetric] by (metis fold_append comp_apply)
qed

theorem cancel_command_stops_local_run_witness:
  "\<exists>d'. handleCommand demo_config None (\<lambda>_. 140) wall claimed_command commanded = (None, d') \<and>
     map_option task_Status (get_task (sch_store d') ''task-1'') = Some TaskCanceled \<and>
     (\<exists>f. get_flight d' 0 = Some f \<and> fl_cause f = Some (TaskCancelCause []))"
proof -
  have c: "cmd_ID claimed_command = ''command-1''" "cmd_TaskID claimed_command = ''task-1''"
      "cmd_Kind claimed_command = CommandCancelTask" "cmd_Status claimed_command = CommandClaimed" "cmd_Reason claimed_command = []"
    by (simp_all add: claimed_command_def first_command_def claim_command_def)
  have a: "localActiveRun commanded running_task = Some \<lparr>ar_claim = demo_claim, ar_cancel = 0\<rparr>"
    by (subst commanded_store(1)) (simp add: localActiveRun_def activeRun_def launched_eq demo_claim_def)
  have f: "get_flight commanded 0 = Some demo_flight" by (subst commanded_store(1)) (simp add: launched_eq)
  have t: "get_task (sch_store commanded) ''task-1'' = Some running_task"
      "get_lease (sch_store commanded) ''task-1'' = Some running_lease"
    by (simp_all add: commanded_store(3,4) claim_first_task)
  have g: "get_command (sch_store commanded) (cmd_ID claimed_command) = Some claimed_command"
    unfolding c by (rule commanded_store(2))
  have r: "task_Status running_task = TaskRunning" "(140 :: time) < lease_ExpiresAt running_lease" "(140 :: time) \<noteq> 0"
    by simp_all
  obtain d' f1 f' where "handleCommand demo_config None (\<lambda>_. 140) wall claimed_command commanded = (None, d')"
      "get_task (sch_store d') ''task-1'' = Some (canceled_task 140 (cmd_Reason claimed_command) running_task)"
      "get_flight commanded 0 = Some f1" "get_flight d' 0 = Some f'"
      "fl_cause f' = (case fl_cause f1 of None \<Rightarrow> Some (TaskCancelCause (cmd_Reason claimed_command)) | Some e \<Rightarrow> Some e)"
    using cancel_command_stops_local_run [where readings = "\<lambda>_. 140" and clk = wall,
        OF scheduler_state_commanded refl g c(4,3) c(2) [symmetric] t(1) r(1) t(2) r(2,3) a]
    unfolding demo_config_def [symmetric] active_task_run.simps by blast
  with c f show ?thesis by (simp add: demo_flight_def canceled_task_def)
qed

section \<open>Dispatch\<close>

text \<open>
  C30. A ready task does not wait for a free slot in vain: when the dispatcher finds a slot free and
  some task that is not in flight here is claimable at the time of its claim, then three steps of the
  main loop put the oldest such task in flight, running under a lease of this worker.
\<close>

theorem dispatch_starts_ready_task:
  assumes "scheduler_state reading opts ctl d" and "cfg = scheduler_config_of reading opts"
    and "sch_pc d = PAcquire" and "int (sch_slots d) < cfg_MaxConcurrentRuns cfg" and "readings2 0 \<noteq> zero_time"
    and "List.find (claimable (sch_store d) (dispatch_request cfg (readings2 0) (activeTaskIDs d)) (readings2 0))
        (taskOrder (sch_store d)) = Some k"
    and "d' = fold (sched_step cfg ctl) [SMain it1 readings1 clk1 b1, SMain it2 readings2 clk2 b2, SMain it3 readings3 clk3 b3] d"
  shows "\<exists>f t. get_flight d' (sch_spawned d) = Some f \<and> task_ID (claim_Task (fl_claim f)) = k \<and>
    get_task (sch_store d') k = Some t \<and> task_Status t = TaskRunning \<and>
    get_lease (sch_store d') k = Some (claim_Lease (fl_claim f)) \<and>
    lease_WorkerID (claim_Lease (fl_claim f)) = cfg_WorkerID cfg"
proof -
  have wf: "sched_wf cfg d" using scheduler_state_wf [OF assms(1)] assms(2) by simp
  have ttl: "0 < cfg_LeaseTTL cfg" using assms(2) config_positive by simp
  from dispatch_three_steps [where ?wall2.0 = readings2, OF wf assms(3,4) ttl assms(5,6)] assms(7) show ?thesis
    unfolding Let_def by blast
qed

theorem dispatch_starts_ready_task_witness:
  "\<exists>f. get_flight (fold (sched_step demo_config None) [main_at 100, main_at 100, main_at 100] polled) 0 = Some f \<and>
     task_ID (claim_Task (fl_claim f)) = ''task-1''"
proof -
  have p: "sch_pc polled = PAcquire" "sch_slots polled = 0" "sch_store polled = two_tasks" "sch_spawned polled = 0"
      "activeTaskIDs polled = []"
    by (simp_all add: polled_eq NewScheduler_def activeTaskIDs_def)
  have "List.find (claimable two_tasks (dispatch_request demo_config 100 []) 100) (taskOrder two_tasks) = Some ''task-1''"
    by (simp add: two_tasks_eq claimable_def matchesKinds_def isBlocked_def exhaustedAttempts_def dispatch_request_def)
  with dispatch_starts_ready_task [OF scheduler_state_demo(1) refl, of "\<lambda>_. 100" "''task-1''" _ id "\<lambda>_. 100" wall True
      id wall True id "\<lambda>_. 100" wall True] p show ?thesis
    by (auto simp: demo_config_def [symmetric] main_at_def)
qed

section \<open>Configuration\<close>

text \<open>
  C34. Setting only the lease TTL leaves the renewal interval at the 15 seconds of the default TTL,
  although it is meant to follow the TTL: with a TTL of up to 15 seconds, the first renewal comes
  after the lease has run out, so it fails and cancels the run.
\<close>

theorem short_ttl_renewal_fails:
  assumes "0 < ttl" and "ttl \<le> 15 * Second" and "cfg = scheduler_config_of reading [WithLeaseTTL ttl]"
    and "get_flight d n = Some f" and "fl_registered f" and "fl_renewing f" and "fl_cause f = None"
    and "k = task_ID (claim_Task (fl_claim f))" and "get_lease (sch_store d) k = Some l"
    and "lease_Token l = lease_Token (claim_Lease (fl_claim f))"
    and "lease_ExpiresAt l = lease_AcquiredAt l + cfg_LeaseTTL cfg"
    and "lease_AcquiredAt l + cfg_LeaseRenewInterval cfg \<le> now" and "now \<noteq> zero_time"
  shows "sch_store (renew_step cfg n clk now d) = sch_store d \<and>
    (\<exists>f'. get_flight (renew_step cfg n clk now d) n = Some f' \<and> fl_cause f' = Some (Sentinel ErrLeaseExpired) \<and>
      fl_renewErr f' = Some (Sentinel ErrLeaseExpired) \<and> \<not> fl_renewing f')"
proof -
  have cfg: "cfg_LeaseTTL cfg = ttl" "cfg_LeaseRenewInterval cfg = 15 * Second"
    using assms(1,3) by (simp_all add: scheduler_config_of_def DefaultSchedulerConfig_def Let_def positive_or_def WithLeaseTTL_def)
  have "RenewLease clk k (lease_Token (claim_Lease (fl_claim f))) ttl now (sch_store d) =
      (Inl (Sentinel ErrLeaseExpired), sch_store d)"
    using assms cfg by (simp add: RenewLease_def normalizeNow_def)
  with assms(4-8) cfg show ?thesis by (simp add: renew_step_def cancel_flight_def)
qed

theorem short_ttl_renewal_fails_witness:
  "\<exists>f. get_flight (renew_step (scheduler_config_of (\<lambda>_. 0) [WithLeaseTTL 50]) 0 wall (100 + 15 * Second) launched) 0 = Some f \<and>
     fl_cause f = Some (Sentinel ErrLeaseExpired)"
proof -
  have f: "get_flight launched 0 = Some demo_flight" "get_lease (sch_store launched) ''task-1'' = Some running_lease"
    by (simp_all add: launched_eq claim_first_task)
  have "lease_AcquiredAt running_lease = 100" by (simp add: running_lease_def)
  then show ?thesis
    using short_ttl_renewal_fails [of 50 "scheduler_config_of (\<lambda>_. 0) [WithLeaseTTL 50]" "\<lambda>_. 0" launched 0 demo_flight "''task-1''"
        running_lease "100 + 15 * Second" wall] f
    by (auto simp: demo_flight_def demo_claim_def scheduler_config_of_def DefaultSchedulerConfig_def Let_def
        positive_or_def WithLeaseTTL_def)
qed

section \<open>Queries\<close>

text \<open>
  The active-run queries agree with the tasks and leases of the store: \<^verbatim>\<open>GetActiveRun\<close> finds a run
  exactly when some task is running with that run, and then shows that task, that run and the worker
  that holds the lease; otherwise it reports \<^verbatim>\<open>ErrRunNotFound\<close>. \<^verbatim>\<open>ListActiveRuns\<close> lists the matching
  running tasks, each run once.
\<close>

theorem active_run_queries_exact:
  assumes "reachable s"
  shows "(GetActiveRun (Some s) rid = Inr x \<longleftrightarrow> (\<exists>k t r l. get_task s k = Some t \<and> task_Run t = Some r \<and> run_ID r = rid \<and>
      get_lease s k = Some l \<and> lease_WorkerID l = ars_WorkerID x \<and> x = active_run_of t r)) \<and>
    ((\<exists>x. GetActiveRun (Some s) rid = Inr x) \<or> GetActiveRun (Some s) rid = Inl (Sentinel ErrRunNotFound)) \<and>
    (\<exists>runs. ListActiveRuns (Some s) filt = Inr runs \<and> distinct (map ars_RunID runs) \<and>
      set runs = {y. \<exists>k t r. get_task s k = Some t \<and> shows_run filt t r \<and> y = active_run_of t r})"
proof -
  have wf: "wf_store s" and rw: "runs_wf s" using assms by (auto intro: reachable_wf reachable_runs)
  have l: "(\<exists>l. get_lease s k = Some l \<and> lease_WorkerID l = run_WorkerID r) \<longleftrightarrow> task_Status t = TaskRunning"
    if "get_task s k = Some t" "task_Run t = Some r" for k t r
  proof
    assume "\<exists>l. get_lease s k = Some l \<and> lease_WorkerID l = run_WorkerID r"
    with that show "task_Status t = TaskRunning" using wf_lease_task [OF wf] by fastforce
  next
    assume "task_Status t = TaskRunning"
    with that have "running (tasks s) k" by (simp add: running_def)
    with wf_lease_running [OF wf, of k] that obtain l where "get_lease s k = Some l" by (auto simp: running_def)
    moreover from this that have "lease_WorkerID l = run_WorkerID r" using wf_lease_task [OF wf] by fastforce
    ultimately show "\<exists>l. get_lease s k = Some l \<and> lease_WorkerID l = run_WorkerID r" by blast
  qed
  have "GetActiveRun (Some s) rid = Inr x \<longleftrightarrow> (\<exists>k t r l. get_task s k = Some t \<and> task_Run t = Some r \<and> run_ID r = rid \<and>
      get_lease s k = Some l \<and> lease_WorkerID l = ars_WorkerID x \<and> x = active_run_of t r)"
  proof -
    have w: "ars_WorkerID (active_run_of t r) = run_WorkerID r" for t r by (simp add: active_run_of_def)
    show ?thesis unfolding GetActiveRun_iff(1) [OF wf rw] using l w by metis
  qed
  moreover obtain runs where "ListActiveRuns (Some s) filt = Inr runs" using ListActiveRuns_eq [OF rw] by blast
  ultimately show ?thesis
    using GetActiveRun_iff(2) [OF wf rw, of rid] distinct_ListActiveRuns [OF wf rw] set_ListActiveRuns [OF wf rw] by blast
qed

theorem active_run_queries_exact_witness:
  "GetActiveRun (Some one_running) ''run-1'' = Inr (active_run_of running_task (new_run 1 ''w'' 100 first_task))"
proof -
  have "\<exists>k t r l. get_task one_running k = Some t \<and> task_Run t = Some r \<and> run_ID r = ''run-1'' \<and>
      get_lease one_running k = Some l \<and> lease_WorkerID l = ars_WorkerID (active_run_of running_task (new_run 1 ''w'' 100 first_task)) \<and>
      active_run_of running_task (new_run 1 ''w'' 100 first_task) = active_run_of t r"
    by (rule exI [of _ "''task-1''"]) (simp add: claim_first_task active_run_of_def)
  with active_run_queries_exact [OF reachable_one_running] show ?thesis by blast
qed

definition stale_target :: store where
  "stale_target = fold exec [OpCreateCommand wall \<lparr>ccr_Kind = CommandCancelTask, ccr_TaskID = ''task-1'', ccr_RunID = [],
     ccr_Reason = [], ccr_Metadata = fmempty\<rparr>, OpClaimReadyTask wall (claim_at 100)] two_tasks"

text \<open>
  \<^verbatim>\<open>ListPendingCommandsForWorker\<close> can list a command that the worker cannot claim: it looks at the
  target recorded when the command was last refreshed, while a claim refreshes the target first. Here
  a command to cancel a pending task is listed for worker \<^verbatim>\<open>v\<close> after worker \<^verbatim>\<open>w\<close> has started the task,
  and \<^verbatim>\<open>v\<close> finds no command to claim.
\<close>

theorem listed_command_not_claimable:
  "reachable stale_target \<and>
   (\<exists>c. ListPendingCommandsForWorker (Some stale_target) ''v'' = Inr [c]) \<and>
   fst (ClaimPendingCommand wall \<lparr>cclr_WorkerID = ''v'', cclr_Now = 130\<rparr> stale_target) = Inl (Sentinel ErrNoPendingCommand)"
proof -
  let ?c = "first_command\<lparr>cmd_RunID := [], cmd_TargetWorkerID := []\<rparr>"
  define s1 where "s1 = exec (OpCreateCommand wall \<lparr>ccr_Kind = CommandCancelTask, ccr_TaskID = ''task-1'', ccr_RunID = [],
      ccr_Reason = [], ccr_Metadata = fmempty\<rparr>) two_tasks"
  have s1: "commands s1 = fmupd ''command-1'' ?c fmempty" "commandOrder s1 = [''command-1'']" "same_tasks two_tasks s1"
    by (simp_all add: s1_def CreateCommand_def two_tasks_eq validateCommandTargetLocked_def run_id_of_def Let_def
        publishCommandCreated_def first_command_def wall_def)
  have s: "stale_target = snd (ClaimReadyTask wall (claim_at 100) s1)" by (simp add: stale_target_def s1_def)
  have t1: "get_task s1 ''task-1'' = Some first_task" "taskOrder s1 = [''task-1'', ''task-2'']" "get_lease s1 ''task-1'' = None"
    "nextRun s1 = 0" "nextLease s1 = 0"
    using s1(3) by (simp_all add: same_tasks_def two_tasks_eq)
  have "claimTaskLocked ''task-1'' (claim_at 100) 100 s1 = (Inr \<lparr>claim_Task = running_task, claim_Lease = running_lease,
      claim_Run = task_Run running_task\<rparr>, publishTaskClaimed running_task running_lease (s1\<lparr>nextRun := 1, nextLease := 1,
         tasks := fmupd ''task-1'' running_task (tasks s1), leases := fmupd ''task-1'' running_lease (leases s1)\<rparr>))"
    using t1 by (simp add: claimTaskLocked_unfold [where t = first_task] Let_def matchesKinds_def
        isBlocked_def lease_blocks_def exhaustedAttempts_def running_task_def running_lease_def)
  then have e: "stale_target = publishTaskClaimed running_task running_lease (s1\<lparr>nextRun := 1, nextLease := 1,
         tasks := fmupd ''task-1'' running_task (tasks s1), leases := fmupd ''task-1'' running_lease (leases s1)\<rparr>)"
    by (simp add: s ClaimReadyTask_def t1 normalizeNow_def)
  have c: "commands stale_target = fmupd ''command-1'' ?c fmempty" "commandOrder stale_target = [''command-1'']"
      "get_task stale_target ''task-1'' = Some running_task"
    by (simp_all add: e s1 publishTaskClaimed_def split: option.split)
  have "ListPendingCommandsForWorker (Some stale_target) ''v'' = Inr [?c]"
    by (simp add: ListPendingCommandsForWorker_def ListCommands_def c matchesCommandFilter_def Let_def)
      (simp add: first_command_def)
  moreover have "fst (ClaimPendingCommand wall \<lparr>cclr_WorkerID = ''v'', cclr_Now = 130\<rparr> stale_target) = Inl (Sentinel ErrNoPendingCommand)"
    by (simp add: ClaimPendingCommand_def c refreshCommandTargetLocked_def Let_def) (simp add: first_command_def c)
  moreover have "reachable stale_target"
    unfolding stale_target_def unfolding fold_simps by (intro reachable_step reachable_two_tasks)
  ultimately show ?thesis by blast
qed

end
