(* ===== verification/Go_Text.thy ===== *)
theory Go_Text
  imports Gollem_Prelude
begin

text \<open>
  Strings on their way through \<^verbatim>\<open>encoding/json\<close>. A Go string is a sequence of bytes; the encoder reads it
  rune by rune (\<^verbatim>\<open>utf8.DecodeRuneInString\<close>) and writes the replacement character U+FFFD for every byte
  that does not start a valid sequence. The escapes the encoder writes for other characters are undone by
  every decoder, so what a document says of a string is the string with those bytes replaced.
\<close>

text \<open>The bytes that may follow a first byte, position by position.\<close>

fun follows :: "(nat \<times> nat) list \<Rightarrow> string \<Rightarrow> bool" where
  "follows [] cs \<longleftrightarrow> True"
| "follows (r # rs) [] \<longleftrightarrow> False"
| "follows ((lo, hi) # rs) (c # cs) \<longleftrightarrow> lo \<le> of_char c \<and> of_char c \<le> hi \<and> follows rs cs"

text \<open>The length of the rune a string starts with, 0 when the first byte starts none.\<close>

fun rune_len :: "string \<Rightarrow> nat" where
  "rune_len [] = 0"
| "rune_len (c # cs) =
     (let b = of_char c :: nat; tail = (0x80, 0xBF) in
      if b < 0x80 then 1
      else if 0xC2 \<le> b \<and> b \<le> 0xDF \<and> follows [tail] cs then 2
      else if b = 0xE0 \<and> follows [(0xA0, 0xBF), tail] cs then 3
      else if 0xE1 \<le> b \<and> b \<le> 0xEF \<and> b \<noteq> 0xED \<and> follows [tail, tail] cs then 3
      else if b = 0xED \<and> follows [(0x80, 0x9F), tail] cs then 3
      else if b = 0xF0 \<and> follows [(0x90, 0xBF), tail, tail] cs then 4
      else if 0xF1 \<le> b \<and> b \<le> 0xF3 \<and> follows [tail, tail, tail] cs then 4
      else if b = 0xF4 \<and> follows [(0x80, 0x8F), tail, tail] cs then 4
      else 0)"

text \<open>The string a decoder gets when \<^verbatim>\<open>json.Marshal\<close> wrote \<open>s\<close>; U+FFFD is three bytes.\<close>

fun json_coerce :: "string \<Rightarrow> string" where
  "json_coerce [] = []"
| "json_coerce (c # cs) =
     (if rune_len (c # cs) = 0 then [CHR 0xEF, CHR 0xBF, CHR 0xBD] @ json_coerce cs
      else c # take (rune_len (c # cs) - 1) cs @ json_coerce (drop (rune_len (c # cs) - 1) cs))"

text \<open>\<^verbatim>\<open>utf8.ValidString\<close>.\<close>

fun utf8 :: "string \<Rightarrow> bool" where
  "utf8 [] \<longleftrightarrow> True"
| "utf8 (c # cs) \<longleftrightarrow> rune_len (c # cs) \<noteq> 0 \<and> utf8 (drop (rune_len (c # cs) - 1) cs)"

lemma json_coerce_utf8: "utf8 s \<Longrightarrow> json_coerce s = s"
  by (induction s rule: utf8.induct) auto

lemma json_coerce_Nil_iff [simp]: "json_coerce s = [] \<longleftrightarrow> s = []"
  by (cases s) auto

lemma map_json_coerce_utf8: "list_all utf8 xs \<Longrightarrow> map json_coerce xs = xs"
  by (induction xs) (simp_all add: json_coerce_utf8)

text \<open>ASCII strings pass.\<close>

lemma ascii_utf8: "list_all (\<lambda>c. of_char c < (0x80 :: nat)) s \<Longrightarrow> utf8 s"
  by (induction s) simp_all

end
