(* ===== verification/Hist_Codec.thy ===== *)
theory Hist_Codec
  imports Orch_Store Go_Text "HOL-Library.Monad_Syntax"
begin

text \<open>
  The durable form of an event: \<^verbatim>\<open>EventKind\<close>, \<^verbatim>\<open>EventRecord\<close>, \<^verbatim>\<open>DecodePayload\<close> and \<^verbatim>\<open>DecodeEvent\<close> of
  \<^verbatim>\<open>ext/orchestrator/history.go\<close>, and the JSON documents that \<^verbatim>\<open>encoding/json\<close> writes for the event
  structs and reads back into them. A document is its tree. A \<^verbatim>\<open>time.Time\<close> is written as a string in
  RFC 3339; the tree keeps the instant (\<open>JTime\<close>) instead of its text, and since the event structs
  agree on which of their field names hold a time, only a time field meets such a leaf. A string is
  written with the replacement character for every byte that is not UTF-8 (\<open>json_coerce\<close>). The wording
  of the errors of \<^verbatim>\<open>encoding/json\<close> is not modelled.
\<close>

section \<open>Event records\<close>

datatype event_kind =
    EventTaskCreated | EventTaskUpdated | EventTaskDeleted | EventTaskClaimed | EventLeaseRenewed
  | EventLeaseReleased | EventTaskRequeued | EventTaskCompleted | EventTaskFailed | EventTaskCanceled
  | EventArtifactCreated | EventCommandCreated | EventCommandClaimed | EventCommandReleased
  | EventCommandHandled | EventKindOther string

text \<open>The zero value of \<^verbatim>\<open>EventKind\<close> is the empty string.\<close>

abbreviation no_kind :: event_kind where
  "no_kind \<equiv> EventKindOther []"

datatype json =
    JNull | JBool bool | JNum int | JStr string | JTime time | JArr "json list" | JObj "(string \<times> json) list"

text \<open>\<^verbatim>\<open>json.RawMessage\<close>: no bytes, bytes that are not a JSON document, or a document.\<close>

datatype raw_message = RawEmpty | RawInvalid | RawJSON json

record event_record =
  ev_Sequence :: int
  ev_ID :: string
  ev_Kind :: event_kind
  ev_TaskID :: string
  ev_RunID :: string
  ev_LeaseID :: string
  ev_CommandID :: string
  ev_ArtifactID :: string
  ev_CreatedAt :: time
  ev_Payload :: raw_message

record decoded_event =
  dec_Record :: event_record
  dec_Payload :: orch_event

section \<open>Enumerations as strings\<close>

fun status_text :: "task_status \<Rightarrow> string" where
  "status_text TaskPending = ''pending''"
| "status_text TaskRunning = ''running''"
| "status_text TaskCompleted = ''completed''"
| "status_text TaskFailed = ''failed''"
| "status_text TaskCanceled = ''canceled''"
| "status_text (TaskStatusOther s) = s"

definition text_status :: "string \<Rightarrow> task_status" where
  "text_status s = (if s = ''pending'' then TaskPending else if s = ''running'' then TaskRunning
     else if s = ''completed'' then TaskCompleted else if s = ''failed'' then TaskFailed
     else if s = ''canceled'' then TaskCanceled else TaskStatusOther s)"

fun command_kind_text :: "command_kind \<Rightarrow> string" where
  "command_kind_text CommandCancelTask = ''cancel_task''"
| "command_kind_text CommandAbortRun = ''abort_run''"
| "command_kind_text CommandRetryTask = ''retry_task''"
| "command_kind_text (CommandKindOther s) = s"

definition text_command_kind :: "string \<Rightarrow> command_kind" where
  "text_command_kind s = (if s = ''cancel_task'' then CommandCancelTask
     else if s = ''abort_run'' then CommandAbortRun else if s = ''retry_task'' then CommandRetryTask
     else CommandKindOther s)"

fun event_kind_text :: "event_kind \<Rightarrow> string" where
  "event_kind_text EventTaskCreated = ''task_created''"
| "event_kind_text EventTaskUpdated = ''task_updated''"
| "event_kind_text EventTaskDeleted = ''task_deleted''"
| "event_kind_text EventTaskClaimed = ''task_claimed''"
| "event_kind_text EventLeaseRenewed = ''lease_renewed''"
| "event_kind_text EventLeaseReleased = ''lease_released''"
| "event_kind_text EventTaskRequeued = ''task_requeued''"
| "event_kind_text EventTaskCompleted = ''task_completed''"
| "event_kind_text EventTaskFailed = ''task_failed''"
| "event_kind_text EventTaskCanceled = ''task_canceled''"
| "event_kind_text EventArtifactCreated = ''artifact_created''"
| "event_kind_text EventCommandCreated = ''command_created''"
| "event_kind_text EventCommandClaimed = ''command_claimed''"
| "event_kind_text EventCommandReleased = ''command_released''"
| "event_kind_text EventCommandHandled = ''command_handled''"
| "event_kind_text (EventKindOther s) = s"

definition event_kinds :: "event_kind list" where
  "event_kinds =
     [EventTaskCreated, EventTaskUpdated, EventTaskDeleted, EventTaskClaimed, EventLeaseRenewed, EventLeaseReleased,
      EventTaskRequeued, EventTaskCompleted, EventTaskFailed, EventTaskCanceled, EventArtifactCreated,
      EventCommandCreated, EventCommandClaimed, EventCommandReleased, EventCommandHandled]"

definition text_event_kind :: "string \<Rightarrow> event_kind" where
  "text_event_kind s =
     (case List.find (\<lambda>k. event_kind_text k = s) event_kinds of Some k \<Rightarrow> k | None \<Rightarrow> EventKindOther s)"

section \<open>Writing an event struct\<close>

fun event_kind_of :: "orch_event \<Rightarrow> event_kind" where
  "event_kind_of (TaskCreatedEvent _ _ _ _ _) = EventTaskCreated"
| "event_kind_of (TaskUpdatedEvent _ _ _ _ _) = EventTaskUpdated"
| "event_kind_of (TaskDeletedEvent _ _) = EventTaskDeleted"
| "event_kind_of (TaskClaimedEvent _ _ _ _ _ _ _) = EventTaskClaimed"
| "event_kind_of (LeaseRenewedEvent _ _ _ _ _) = EventLeaseRenewed"
| "event_kind_of (LeaseReleasedEvent _ _ _ _ _ _ _ _ _) = EventLeaseReleased"
| "event_kind_of (TaskRequeuedEvent _ _ _ _ _) = EventTaskRequeued"
| "event_kind_of (TaskCompletedEvent _ _ _ _) = EventTaskCompleted"
| "event_kind_of (TaskFailedEvent _ _ _ _ _) = EventTaskFailed"
| "event_kind_of (TaskCanceledEvent _ _ _ _ _) = EventTaskCanceled"
| "event_kind_of (ArtifactCreatedEvent _ _ _ _ _ _ _ _) = EventArtifactCreated"
| "event_kind_of (CommandCreatedEvent _ _ _ _ _ _) = EventCommandCreated"
| "event_kind_of (CommandClaimedEvent _ _ _ _ _ _) = EventCommandClaimed"
| "event_kind_of (CommandReleasedEvent _ _ _ _ _ _ _ _) = EventCommandReleased"
| "event_kind_of (CommandHandledEvent _ _ _ _ _ _) = EventCommandHandled"

text \<open>\<^verbatim>\<open>json.Marshal\<close> of a string.\<close>

definition json_string :: "string \<Rightarrow> json" where
  "json_string s = JStr (json_coerce s)"

text \<open>\<^verbatim>\<open>json.Marshal\<close> of a \<^verbatim>\<open>[]string\<close>; a nil slice is \<^verbatim>\<open>null\<close>, and the model has no other empty slice.\<close>

definition json_strings :: "string list \<Rightarrow> json" where
  "json_strings xs = (if xs = [] then JNull else JArr (map json_string xs))"

text \<open>\<^verbatim>\<open>json.Marshal\<close> of the event structs: the exported fields under their Go names.\<close>

fun event_fields :: "orch_event \<Rightarrow> (string \<times> json) list" where
  "event_fields (TaskCreatedEvent tid kind subject descr at) =
     [(''TaskID'', json_string tid), (''Kind'', json_string kind), (''Subject'', json_string subject),
      (''Description'', json_string descr), (''CreatedAt'', JTime at)]"
| "event_fields (TaskUpdatedEvent tid subject blocks blockedBy at) =
     [(''TaskID'', json_string tid), (''Subject'', json_string subject), (''Blocks'', json_strings blocks),
      (''BlockedBy'', json_strings blockedBy), (''UpdatedAt'', JTime at)]"
| "event_fields (TaskDeletedEvent tid at) = [(''TaskID'', json_string tid), (''DeletedAt'', JTime at)]"
| "event_fields (TaskClaimedEvent tid rid lid wid attempt acquired expires) =
     [(''TaskID'', json_string tid), (''RunID'', json_string rid), (''LeaseID'', json_string lid), (''WorkerID'', json_string wid),
      (''Attempt'', JNum attempt), (''AcquiredAt'', JTime acquired), (''ExpiresAt'', JTime expires)]"
| "event_fields (LeaseRenewedEvent tid rid lid wid expires) =
     [(''TaskID'', json_string tid), (''RunID'', json_string rid), (''LeaseID'', json_string lid), (''WorkerID'', json_string wid),
      (''ExpiresAt'', JTime expires)]"
| "event_fields (LeaseReleasedEvent tid rid lid wid at requeued status reason recovered) =
     [(''TaskID'', json_string tid), (''RunID'', json_string rid), (''LeaseID'', json_string lid), (''WorkerID'', json_string wid),
      (''ReleasedAt'', JTime at), (''Requeued'', JBool requeued),
      (''ResultStatus'', json_string (status_text status)), (''Reason'', json_string reason),
      (''Recovered'', JBool recovered)]"
| "event_fields (TaskRequeuedEvent tid rid attempt reason at) =
     [(''TaskID'', json_string tid), (''LastRunID'', json_string rid), (''LastAttempt'', JNum attempt),
      (''Reason'', json_string reason), (''RequeuedAt'', JTime at)]"
| "event_fields (TaskCompletedEvent tid rid attempt at) =
     [(''TaskID'', json_string tid), (''RunID'', json_string rid), (''Attempt'', JNum attempt), (''CompletedAt'', JTime at)]"
| "event_fields (TaskFailedEvent tid rid attempt err at) =
     [(''TaskID'', json_string tid), (''RunID'', json_string rid), (''Attempt'', JNum attempt), (''Error'', json_string err),
      (''FailedAt'', JTime at)]"
| "event_fields (TaskCanceledEvent tid rid attempt reason at) =
     [(''TaskID'', json_string tid), (''RunID'', json_string rid), (''Attempt'', JNum attempt), (''Reason'', json_string reason),
      (''CanceledAt'', JTime at)]"
| "event_fields (ArtifactCreatedEvent aid tid rid kind name ctype bytes at) =
     [(''ArtifactID'', json_string aid), (''TaskID'', json_string tid), (''RunID'', json_string rid), (''Kind'', json_string kind),
      (''Name'', json_string name), (''ContentType'', json_string ctype), (''SizeBytes'', JNum bytes),
      (''CreatedAt'', JTime at)]"
| "event_fields (CommandCreatedEvent cid kind tid rid target at) =
     [(''CommandID'', json_string cid), (''Kind'', json_string (command_kind_text kind)), (''TaskID'', json_string tid),
      (''RunID'', json_string rid), (''TargetWorkerID'', json_string target), (''CreatedAt'', JTime at)]"
| "event_fields (CommandClaimedEvent cid kind tid rid claimedBy at) =
     [(''CommandID'', json_string cid), (''Kind'', json_string (command_kind_text kind)), (''TaskID'', json_string tid),
      (''RunID'', json_string rid), (''ClaimedBy'', json_string claimedBy), (''ClaimedAt'', JTime at)]"
| "event_fields (CommandReleasedEvent cid kind tid rid releasedBy at reason recovered) =
     [(''CommandID'', json_string cid), (''Kind'', json_string (command_kind_text kind)), (''TaskID'', json_string tid),
      (''RunID'', json_string rid), (''ReleasedBy'', json_string releasedBy), (''ReleasedAt'', JTime at),
      (''Reason'', json_string reason), (''Recovered'', JBool recovered)]"
| "event_fields (CommandHandledEvent cid kind tid rid handledBy at) =
     [(''CommandID'', json_string cid), (''Kind'', json_string (command_kind_text kind)), (''TaskID'', json_string tid),
      (''RunID'', json_string rid), (''HandledBy'', json_string handledBy), (''HandledAt'', JTime at)]"

definition event_json :: "orch_event \<Rightarrow> json" where
  "event_json e = JObj (event_fields e)"

section \<open>Reading an event struct\<close>

text \<open>
  \<^verbatim>\<open>json.Unmarshal\<close> matches an object key with a field name exactly or up to case: letters fold to one
  case, and so do the Kelvin sign (with K) and the long s (with S).
\<close>

definition fold_char :: "char \<Rightarrow> char" where
  "fold_char c = (let n = of_char c :: nat in if 97 \<le> n \<and> n \<le> 122 then char_of (n - 32) else c)"

fun foldName :: "string \<Rightarrow> string" where
  "foldName [] = []"
| "foldName (c # cs) =
     (if take 3 (c # cs) = [CHR 0xE2, CHR 0x84, CHR 0xAA] then CHR ''K'' # foldName (drop 2 cs)
      else if take 2 (c # cs) = [CHR 0xC5, CHR 0xBF] then CHR ''S'' # foldName (drop 1 cs)
      else fold_char c # foldName cs)"

definition field_values :: "string \<Rightarrow> (string \<times> json) list \<Rightarrow> json list" where
  "field_values name fs = map snd (filter (\<lambda>(k, _). foldName k = foldName name) fs)"

text \<open>
  The decoder visits the keys in order; a key that occurs twice is stored twice, \<^verbatim>\<open>null\<close> leaves a
  field of a basic type as it is, and a value of another type makes \<^verbatim>\<open>Unmarshal\<close> fail (\<open>None\<close>).
\<close>

definition read_field :: "('a \<Rightarrow> json \<Rightarrow> 'a option) \<Rightarrow> 'a \<Rightarrow> string \<Rightarrow> (string \<times> json) list \<Rightarrow> 'a option" where
  "read_field dec zero name fs = fold (\<lambda>v acc. Option.bind acc (\<lambda>a. dec a v)) (field_values name fs) (Some zero)"

fun dec_string :: "string \<Rightarrow> json \<Rightarrow> string option" where
  "dec_string a JNull = Some a"
| "dec_string a (JStr s) = Some s"
| "dec_string a _ = None"

fun dec_int :: "int \<Rightarrow> json \<Rightarrow> int option" where
  "dec_int a JNull = Some a"
| "dec_int a (JNum i) = Some i"
| "dec_int a _ = None"

fun dec_bool :: "bool \<Rightarrow> json \<Rightarrow> bool option" where
  "dec_bool a JNull = Some a"
| "dec_bool a (JBool b) = Some b"
| "dec_bool a _ = None"

fun dec_time :: "time \<Rightarrow> json \<Rightarrow> time option" where
  "dec_time a JNull = Some a"
| "dec_time a (JTime t) = Some t"
| "dec_time a _ = None"

fun dec_strings :: "string list \<Rightarrow> json \<Rightarrow> string list option" where
  "dec_strings a JNull = Some []"
| "dec_strings a (JArr vs) = those (map (dec_string []) vs)"
| "dec_strings a _ = None"

fun dec_raw :: "raw_message \<Rightarrow> json \<Rightarrow> raw_message option" where
  "dec_raw a v = Some (RawJSON v)"

abbreviation rd_str :: "string \<Rightarrow> (string \<times> json) list \<Rightarrow> string option" where
  "rd_str \<equiv> read_field dec_string []"

abbreviation rd_int :: "string \<Rightarrow> (string \<times> json) list \<Rightarrow> int option" where
  "rd_int \<equiv> read_field dec_int 0"

abbreviation rd_bool :: "string \<Rightarrow> (string \<times> json) list \<Rightarrow> bool option" where
  "rd_bool \<equiv> read_field dec_bool False"

abbreviation rd_time :: "string \<Rightarrow> (string \<times> json) list \<Rightarrow> time option" where
  "rd_time \<equiv> read_field dec_time zero_time"

abbreviation rd_strs :: "string \<Rightarrow> (string \<times> json) list \<Rightarrow> string list option" where
  "rd_strs \<equiv> read_field dec_strings []"

abbreviation rd_raw :: "string \<Rightarrow> (string \<times> json) list \<Rightarrow> raw_message option" where
  "rd_raw \<equiv> read_field dec_raw RawEmpty"

text \<open>The fields read into the zero value of the struct that the switch of \<^verbatim>\<open>DecodeEvent\<close> chooses.\<close>

fun read_event :: "event_kind \<Rightarrow> (string \<times> json) list \<Rightarrow> orch_event option" where
  "read_event EventTaskCreated fs = do {
     tid \<leftarrow> rd_str ''TaskID'' fs; kind \<leftarrow> rd_str ''Kind'' fs; subject \<leftarrow> rd_str ''Subject'' fs;
     descr \<leftarrow> rd_str ''Description'' fs; at \<leftarrow> rd_time ''CreatedAt'' fs;
     Some (TaskCreatedEvent tid kind subject descr at) }"
| "read_event EventTaskUpdated fs = do {
     tid \<leftarrow> rd_str ''TaskID'' fs; subject \<leftarrow> rd_str ''Subject'' fs; blocks \<leftarrow> rd_strs ''Blocks'' fs;
     blockedBy \<leftarrow> rd_strs ''BlockedBy'' fs; at \<leftarrow> rd_time ''UpdatedAt'' fs;
     Some (TaskUpdatedEvent tid subject blocks blockedBy at) }"
| "read_event EventTaskDeleted fs = do {
     tid \<leftarrow> rd_str ''TaskID'' fs; at \<leftarrow> rd_time ''DeletedAt'' fs; Some (TaskDeletedEvent tid at) }"
| "read_event EventTaskClaimed fs = do {
     tid \<leftarrow> rd_str ''TaskID'' fs; rid \<leftarrow> rd_str ''RunID'' fs; lid \<leftarrow> rd_str ''LeaseID'' fs;
     wid \<leftarrow> rd_str ''WorkerID'' fs; attempt \<leftarrow> rd_int ''Attempt'' fs;
     acquired \<leftarrow> rd_time ''AcquiredAt'' fs; expires \<leftarrow> rd_time ''ExpiresAt'' fs;
     Some (TaskClaimedEvent tid rid lid wid attempt acquired expires) }"
| "read_event EventLeaseRenewed fs = do {
     tid \<leftarrow> rd_str ''TaskID'' fs; rid \<leftarrow> rd_str ''RunID'' fs; lid \<leftarrow> rd_str ''LeaseID'' fs;
     wid \<leftarrow> rd_str ''WorkerID'' fs; expires \<leftarrow> rd_time ''ExpiresAt'' fs;
     Some (LeaseRenewedEvent tid rid lid wid expires) }"
| "read_event EventLeaseReleased fs = do {
     tid \<leftarrow> rd_str ''TaskID'' fs; rid \<leftarrow> rd_str ''RunID'' fs; lid \<leftarrow> rd_str ''LeaseID'' fs;
     wid \<leftarrow> rd_str ''WorkerID'' fs; at \<leftarrow> rd_time ''ReleasedAt'' fs; requeued \<leftarrow> rd_bool ''Requeued'' fs;
     status \<leftarrow> rd_str ''ResultStatus'' fs; reason \<leftarrow> rd_str ''Reason'' fs;
     recovered \<leftarrow> rd_bool ''Recovered'' fs;
     Some (LeaseReleasedEvent tid rid lid wid at requeued (text_status status) reason recovered) }"
| "read_event EventTaskRequeued fs = do {
     tid \<leftarrow> rd_str ''TaskID'' fs; rid \<leftarrow> rd_str ''LastRunID'' fs; attempt \<leftarrow> rd_int ''LastAttempt'' fs;
     reason \<leftarrow> rd_str ''Reason'' fs; at \<leftarrow> rd_time ''RequeuedAt'' fs;
     Some (TaskRequeuedEvent tid rid attempt reason at) }"
| "read_event EventTaskCompleted fs = do {
     tid \<leftarrow> rd_str ''TaskID'' fs; rid \<leftarrow> rd_str ''RunID'' fs; attempt \<leftarrow> rd_int ''Attempt'' fs;
     at \<leftarrow> rd_time ''CompletedAt'' fs; Some (TaskCompletedEvent tid rid attempt at) }"
| "read_event EventTaskFailed fs = do {
     tid \<leftarrow> rd_str ''TaskID'' fs; rid \<leftarrow> rd_str ''RunID'' fs; attempt \<leftarrow> rd_int ''Attempt'' fs;
     err \<leftarrow> rd_str ''Error'' fs; at \<leftarrow> rd_time ''FailedAt'' fs;
     Some (TaskFailedEvent tid rid attempt err at) }"
| "read_event EventTaskCanceled fs = do {
     tid \<leftarrow> rd_str ''TaskID'' fs; rid \<leftarrow> rd_str ''RunID'' fs; attempt \<leftarrow> rd_int ''Attempt'' fs;
     reason \<leftarrow> rd_str ''Reason'' fs; at \<leftarrow> rd_time ''CanceledAt'' fs;
     Some (TaskCanceledEvent tid rid attempt reason at) }"
| "read_event EventArtifactCreated fs = do {
     aid \<leftarrow> rd_str ''ArtifactID'' fs; tid \<leftarrow> rd_str ''TaskID'' fs; rid \<leftarrow> rd_str ''RunID'' fs;
     kind \<leftarrow> rd_str ''Kind'' fs; name \<leftarrow> rd_str ''Name'' fs; ctype \<leftarrow> rd_str ''ContentType'' fs;
     bytes \<leftarrow> rd_int ''SizeBytes'' fs; at \<leftarrow> rd_time ''CreatedAt'' fs;
     Some (ArtifactCreatedEvent aid tid rid kind name ctype bytes at) }"
| "read_event EventCommandCreated fs = do {
     cid \<leftarrow> rd_str ''CommandID'' fs; kind \<leftarrow> rd_str ''Kind'' fs; tid \<leftarrow> rd_str ''TaskID'' fs;
     rid \<leftarrow> rd_str ''RunID'' fs; target \<leftarrow> rd_str ''TargetWorkerID'' fs; at \<leftarrow> rd_time ''CreatedAt'' fs;
     Some (CommandCreatedEvent cid (text_command_kind kind) tid rid target at) }"
| "read_event EventCommandClaimed fs = do {
     cid \<leftarrow> rd_str ''CommandID'' fs; kind \<leftarrow> rd_str ''Kind'' fs; tid \<leftarrow> rd_str ''TaskID'' fs;
     rid \<leftarrow> rd_str ''RunID'' fs; claimedBy \<leftarrow> rd_str ''ClaimedBy'' fs; at \<leftarrow> rd_time ''ClaimedAt'' fs;
     Some (CommandClaimedEvent cid (text_command_kind kind) tid rid claimedBy at) }"
| "read_event EventCommandReleased fs = do {
     cid \<leftarrow> rd_str ''CommandID'' fs; kind \<leftarrow> rd_str ''Kind'' fs; tid \<leftarrow> rd_str ''TaskID'' fs;
     rid \<leftarrow> rd_str ''RunID'' fs; releasedBy \<leftarrow> rd_str ''ReleasedBy'' fs; at \<leftarrow> rd_time ''ReleasedAt'' fs;
     reason \<leftarrow> rd_str ''Reason'' fs; recovered \<leftarrow> rd_bool ''Recovered'' fs;
     Some (CommandReleasedEvent cid (text_command_kind kind) tid rid releasedBy at reason recovered) }"
| "read_event EventCommandHandled fs = do {
     cid \<leftarrow> rd_str ''CommandID'' fs; kind \<leftarrow> rd_str ''Kind'' fs; tid \<leftarrow> rd_str ''TaskID'' fs;
     rid \<leftarrow> rd_str ''RunID'' fs; handledBy \<leftarrow> rd_str ''HandledBy'' fs; at \<leftarrow> rd_time ''HandledAt'' fs;
     Some (CommandHandledEvent cid (text_command_kind kind) tid rid handledBy at) }"
| "read_event (EventKindOther _) fs = None"

text \<open>\<^verbatim>\<open>DecodePayload\<close>: no bytes leave the zero struct, and so does the document \<^verbatim>\<open>null\<close>.\<close>

definition unmarshal_error :: go_error where
  "unmarshal_error = WrapPrefix ''unmarshal orchestrator event payload'' (ErrorString ''json: cannot unmarshal'')"

definition read_payload :: "event_kind \<Rightarrow> (string \<times> json) list \<Rightarrow> orch_event result" where
  "read_payload k fs = (case read_event k fs of Some v \<Rightarrow> Inr v | None \<Rightarrow> Inl unmarshal_error)"

definition DecodePayload :: "event_record \<Rightarrow> orch_event result" where
  "DecodePayload e =
     (case ev_Payload e of
        RawEmpty \<Rightarrow> read_payload (ev_Kind e) []
      | RawJSON JNull \<Rightarrow> read_payload (ev_Kind e) []
      | RawJSON (JObj fs) \<Rightarrow> read_payload (ev_Kind e) fs
      | _ \<Rightarrow> Inl unmarshal_error)"

definition DecodeEvent :: "event_record \<Rightarrow> decoded_event result" where
  "DecodeEvent rc =
     (case ev_Kind rc of
        EventKindOther k \<Rightarrow> Inl (ErrorString (''orchestrator: unsupported event kind '' @ go_quote k))
      | _ \<Rightarrow> (case DecodePayload rc of
                Inl e \<Rightarrow> Inl e
              | Inr payload \<Rightarrow> Inr \<lparr>dec_Record = rc, dec_Payload = payload\<rparr>))"

section \<open>The round trip\<close>

text \<open>
  What is read back of an event: every string as the encoder wrote it. A status or a kind is a string in
  Go, and so it takes the same way.
\<close>

definition json_status :: "task_status \<Rightarrow> task_status" where
  "json_status st = text_status (json_coerce (status_text st))"

definition json_command_kind :: "command_kind \<Rightarrow> command_kind" where
  "json_command_kind k = text_command_kind (json_coerce (command_kind_text k))"

fun json_event :: "orch_event \<Rightarrow> orch_event" where
  "json_event (TaskCreatedEvent tid kind subject descr at) =
     TaskCreatedEvent (json_coerce tid) (json_coerce kind) (json_coerce subject) (json_coerce descr) at"
| "json_event (TaskUpdatedEvent tid subject blocks blockedBy at) =
     TaskUpdatedEvent (json_coerce tid) (json_coerce subject) (map json_coerce blocks) (map json_coerce blockedBy) at"
| "json_event (TaskDeletedEvent tid at) = TaskDeletedEvent (json_coerce tid) at"
| "json_event (TaskClaimedEvent tid rid lid wid attempt acquired expires) =
     TaskClaimedEvent (json_coerce tid) (json_coerce rid) (json_coerce lid) (json_coerce wid) attempt acquired expires"
| "json_event (LeaseRenewedEvent tid rid lid wid expires) =
     LeaseRenewedEvent (json_coerce tid) (json_coerce rid) (json_coerce lid) (json_coerce wid) expires"
| "json_event (LeaseReleasedEvent tid rid lid wid at requeued status reason recovered) =
     LeaseReleasedEvent (json_coerce tid) (json_coerce rid) (json_coerce lid) (json_coerce wid) at requeued
       (json_status status) (json_coerce reason) recovered"
| "json_event (TaskRequeuedEvent tid rid attempt reason at) =
     TaskRequeuedEvent (json_coerce tid) (json_coerce rid) attempt (json_coerce reason) at"
| "json_event (TaskCompletedEvent tid rid attempt at) = TaskCompletedEvent (json_coerce tid) (json_coerce rid) attempt at"
| "json_event (TaskFailedEvent tid rid attempt err at) =
     TaskFailedEvent (json_coerce tid) (json_coerce rid) attempt (json_coerce err) at"
| "json_event (TaskCanceledEvent tid rid attempt reason at) =
     TaskCanceledEvent (json_coerce tid) (json_coerce rid) attempt (json_coerce reason) at"
| "json_event (ArtifactCreatedEvent aid tid rid kind name ctype bytes at) =
     ArtifactCreatedEvent (json_coerce aid) (json_coerce tid) (json_coerce rid) (json_coerce kind) (json_coerce name)
       (json_coerce ctype) bytes at"
| "json_event (CommandCreatedEvent cid kind tid rid target at) =
     CommandCreatedEvent (json_coerce cid) (json_command_kind kind) (json_coerce tid) (json_coerce rid) (json_coerce target) at"
| "json_event (CommandClaimedEvent cid kind tid rid claimedBy at) =
     CommandClaimedEvent (json_coerce cid) (json_command_kind kind) (json_coerce tid) (json_coerce rid) (json_coerce claimedBy) at"
| "json_event (CommandReleasedEvent cid kind tid rid releasedBy at reason recovered) =
     CommandReleasedEvent (json_coerce cid) (json_command_kind kind) (json_coerce tid) (json_coerce rid) (json_coerce releasedBy) at
       (json_coerce reason) recovered"
| "json_event (CommandHandledEvent cid kind tid rid handledBy at) =
     CommandHandledEvent (json_coerce cid) (json_command_kind kind) (json_coerce tid) (json_coerce rid) (json_coerce handledBy) at"

lemma event_kind_of_json_event [simp]: "event_kind_of (json_event e) = event_kind_of e"
  by (cases e) simp_all

lemma those_dec_string [simp]: "those (map (dec_string [] \<circ> json_string) xs) = Some (map json_coerce xs)"
  by (induction xs) (simp_all add: json_string_def)

lemma dec_strings_json [simp]: "dec_strings a (json_strings xs) = Some (map json_coerce xs)"
  by (simp add: json_strings_def)

lemma read_field_Nil [simp]: "read_field dec z n [] = Some z"
  by (simp add: read_field_def field_values_def)

lemma read_event_fields: "read_event (event_kind_of e) (event_fields e) = Some (json_event e)"
  by (cases e) (simp_all add: read_field_def field_values_def fold_char_def json_string_def json_status_def json_command_kind_def)

text \<open>
  An event whose strings are valid UTF-8 is read back as it was. In the model a declared constant of an
  enumeration has a constructor of its own, so \<open>Other\<close> with the text of a constant is the same Go value
  twice; a proper event has none.
\<close>

fun proper_status :: "task_status \<Rightarrow> bool" where
  "proper_status (TaskStatusOther s) \<longleftrightarrow>
     s \<notin> {''pending'', ''running'', ''completed'', ''failed'', ''canceled''}"
| "proper_status _ \<longleftrightarrow> True"

fun proper_command_kind :: "command_kind \<Rightarrow> bool" where
  "proper_command_kind (CommandKindOther s) \<longleftrightarrow> s \<notin> {''cancel_task'', ''abort_run'', ''retry_task''}"
| "proper_command_kind _ \<longleftrightarrow> True"

fun proper_event :: "orch_event \<Rightarrow> bool" where
  "proper_event (LeaseReleasedEvent _ _ _ _ _ _ status _ _) \<longleftrightarrow> proper_status status"
| "proper_event (CommandCreatedEvent _ kind _ _ _ _) \<longleftrightarrow> proper_command_kind kind"
| "proper_event (CommandClaimedEvent _ kind _ _ _ _) \<longleftrightarrow> proper_command_kind kind"
| "proper_event (CommandReleasedEvent _ kind _ _ _ _ _ _) \<longleftrightarrow> proper_command_kind kind"
| "proper_event (CommandHandledEvent _ kind _ _ _ _) \<longleftrightarrow> proper_command_kind kind"
| "proper_event _ \<longleftrightarrow> True"

fun event_strings :: "orch_event \<Rightarrow> string list" where
  "event_strings (TaskCreatedEvent tid kind subject descr at) = [tid, kind, subject, descr]"
| "event_strings (TaskUpdatedEvent tid subject blocks blockedBy at) = [tid, subject] @ blocks @ blockedBy"
| "event_strings (TaskDeletedEvent tid at) = [tid]"
| "event_strings (TaskClaimedEvent tid rid lid wid attempt acquired expires) = [tid, rid, lid, wid]"
| "event_strings (LeaseRenewedEvent tid rid lid wid expires) = [tid, rid, lid, wid]"
| "event_strings (LeaseReleasedEvent tid rid lid wid at requeued status reason recovered) =
     [tid, rid, lid, wid, status_text status, reason]"
| "event_strings (TaskRequeuedEvent tid rid attempt reason at) = [tid, rid, reason]"
| "event_strings (TaskCompletedEvent tid rid attempt at) = [tid, rid]"
| "event_strings (TaskFailedEvent tid rid attempt err at) = [tid, rid, err]"
| "event_strings (TaskCanceledEvent tid rid attempt reason at) = [tid, rid, reason]"
| "event_strings (ArtifactCreatedEvent aid tid rid kind name ctype bytes at) = [aid, tid, rid, kind, name, ctype]"
| "event_strings (CommandCreatedEvent cid kind tid rid target at) = [cid, command_kind_text kind, tid, rid, target]"
| "event_strings (CommandClaimedEvent cid kind tid rid claimedBy at) = [cid, command_kind_text kind, tid, rid, claimedBy]"
| "event_strings (CommandReleasedEvent cid kind tid rid releasedBy at reason recovered) =
     [cid, command_kind_text kind, tid, rid, releasedBy, reason]"
| "event_strings (CommandHandledEvent cid kind tid rid handledBy at) = [cid, command_kind_text kind, tid, rid, handledBy]"

definition utf8_event :: "orch_event \<Rightarrow> bool" where
  "utf8_event e \<longleftrightarrow> list_all utf8 (event_strings e)"

lemma text_status_text: "proper_status st \<Longrightarrow> text_status (status_text st) = st"
  by (cases st) (auto simp: text_status_def)

lemma text_command_kind_text: "proper_command_kind k \<Longrightarrow> text_command_kind (command_kind_text k) = k"
  by (cases k) (auto simp: text_command_kind_def)

lemma json_event_utf8: "utf8_event e \<Longrightarrow> proper_event e \<Longrightarrow> json_event e = e"
  by (cases e) (simp_all add: utf8_event_def json_coerce_utf8 map_json_coerce_utf8 json_status_def json_command_kind_def
      text_status_text text_command_kind_text)

text \<open>The switch of \<^verbatim>\<open>DecodeEvent\<close> fixes the type of the payload, whatever the document holds.\<close>

lemma read_event_kind: "read_event k fs = Some ev \<Longrightarrow> event_kind_of ev = k"
  by (cases k) (auto simp: bind_eq_Some_conv)

lemma read_payload_kind: "read_payload k fs = Inr ev \<Longrightarrow> event_kind_of ev = k"
  by (auto simp: read_payload_def dest: read_event_kind split: option.splits)

lemma DecodePayload_kind: "DecodePayload e = Inr ev \<Longrightarrow> event_kind_of ev = ev_Kind e"
  unfolding DecodePayload_def by (auto dest: read_payload_kind split: raw_message.splits json.splits)

lemma DecodeEvent_kind:
  "DecodeEvent e = Inr d \<Longrightarrow> dec_Record d = e \<and> event_kind_of (dec_Payload d) = ev_Kind e"
  unfolding DecodeEvent_def
  by (cases "DecodePayload e") (auto dest: DecodePayload_kind split: event_kind.splits)

end
