(* ===== verification/Hist_Log.thy ===== *)
theory Hist_Log
  imports Hist_Codec
begin

text \<open>
  The durable event log: \<^verbatim>\<open>EventFilter\<close> and the \<^verbatim>\<open>EventStore\<close> interface of
  \<^verbatim>\<open>ext/orchestrator/history.go\<close>, and the event table behind it, \<^verbatim>\<open>ext/orchestrator/sqlite/history.go\<close>: the
  record constructors, the insertion of a record, the lookup by identifier and the filtered listing.
  The locale \<open>event_store\<close> is the contract of the interface (a listing is the selected part of one
  append-ordered log), and the table interprets it. The identifiers of a record (its own and those of the
  task, run, lease, command and artifact) are taken to be valid UTF-8, as the ones that \<^verbatim>\<open>newID\<close> draws are;
  the payload is not.
\<close>

section \<open>Filters\<close>

record event_filter =
  ef_Kinds :: "event_kind list"
  ef_TaskID :: string
  ef_RunID :: string
  ef_LeaseID :: string
  ef_CommandID :: string
  ef_ArtifactID :: string
  ef_AfterSequence :: int
  ef_Limit :: int

definition any_event :: event_filter where
  "any_event = \<lparr>ef_Kinds = [], ef_TaskID = [], ef_RunID = [], ef_LeaseID = [], ef_CommandID = [],
     ef_ArtifactID = [], ef_AfterSequence = 0, ef_Limit = 0\<rparr>"

section \<open>The event table\<close>

text \<open>
  A row has the columns of the table; \<open>row_payload\<close> is the JSON document of the record. The column
  \<^verbatim>\<open>created_at\<close> is written and never read. \<open>et_seq\<close> is the largest sequence number given out, which
  \<^verbatim>\<open>AUTOINCREMENT\<close> remembers.
\<close>

record event_row =
  row_sequence :: int
  row_id :: string
  row_kind :: string
  row_task_id :: string
  row_run_id :: string
  row_lease_id :: string
  row_command_id :: string
  row_artifact_id :: string
  row_payload :: json

record event_table =
  et_rows :: "event_row list"
  et_seq :: int

definition createEventSchema :: event_table where
  "createEventSchema = \<lparr>et_rows = [], et_seq = 0\<rparr>"

text \<open>
  \<^verbatim>\<open>json.Marshal\<close> of an \<^verbatim>\<open>EventRecord\<close>: the raw payload is embedded as the document it is, \<^verbatim>\<open>null\<close> when
  it is nil, and one that is no document makes the call fail.
\<close>

fun payload_document :: "raw_message \<Rightarrow> json option" where
  "payload_document RawEmpty = Some JNull"
| "payload_document RawInvalid = None"
| "payload_document (RawJSON j) = Some j"

definition record_json :: "event_record \<Rightarrow> json \<Rightarrow> json" where
  "record_json e p = JObj
     [(''Sequence'', JNum (ev_Sequence e)), (''ID'', JStr (ev_ID e)), (''Kind'', JStr (event_kind_text (ev_Kind e))),
      (''TaskID'', JStr (ev_TaskID e)), (''RunID'', JStr (ev_RunID e)), (''LeaseID'', JStr (ev_LeaseID e)),
      (''CommandID'', JStr (ev_CommandID e)), (''ArtifactID'', JStr (ev_ArtifactID e)),
      (''CreatedAt'', JTime (ev_CreatedAt e)), (''Payload'', p)]"

definition row_of :: "event_record \<Rightarrow> json \<Rightarrow> event_row" where
  "row_of e p = \<lparr>row_sequence = ev_Sequence e, row_id = ev_ID e, row_kind = event_kind_text (ev_Kind e),
     row_task_id = ev_TaskID e, row_run_id = ev_RunID e, row_lease_id = ev_LeaseID e,
     row_command_id = ev_CommandID e, row_artifact_id = ev_ArtifactID e, row_payload = record_json e p\<rparr>"

text \<open>
  The insertion fails when the identifier is taken (the column is \<^verbatim>\<open>UNIQUE\<close>). The record is marshalled
  after its sequence number is known and replaces the placeholder payload of the fresh row. \<open>rd\<close> is
  the wall-clock reading of \<^verbatim>\<open>normalizeNow\<close>.
\<close>

definition saveEventTx :: "time \<Rightarrow> event_record \<Rightarrow> event_table \<Rightarrow> event_table result" where
  "saveEventTx rd event t =
     (if ev_ID event \<in> row_id ` set (et_rows t)
      then Inl (WrapPrefix (''insert event '' @ go_quote (ev_ID event)) (ErrorString ''UNIQUE constraint failed: events.id''))
      else let event = event\<lparr>ev_CreatedAt := normalizeNow rd (ev_CreatedAt event), ev_Sequence := et_seq t + 1\<rparr>
           in (case payload_document (ev_Payload event) of
                 None \<Rightarrow> Inl (WrapPrefix (''marshal event '' @ go_quote (ev_ID event)) (ErrorString ''json: error calling MarshalJSON''))
               | Some payload \<Rightarrow> Inr \<lparr>et_rows = et_rows t @ [row_of event payload], et_seq = et_seq t + 1\<rparr>))"

fun saveEventsTx :: "time \<Rightarrow> event_record list \<Rightarrow> event_table \<Rightarrow> event_table result" where
  "saveEventsTx rd [] t = Inr t"
| "saveEventsTx rd (e # es) t =
     (case saveEventTx rd e t of Inl err \<Rightarrow> Inl err | Inr t' \<Rightarrow> saveEventsTx rd es t')"

text \<open>\<^verbatim>\<open>json.Unmarshal\<close> into an \<^verbatim>\<open>EventRecord\<close>.\<close>

definition read_record_fields :: "(string \<times> json) list \<Rightarrow> event_record option" where
  "read_record_fields fs = do {
     n \<leftarrow> rd_int ''Sequence'' fs; eid \<leftarrow> rd_str ''ID'' fs; kind \<leftarrow> rd_str ''Kind'' fs; tid \<leftarrow> rd_str ''TaskID'' fs;
     rid \<leftarrow> rd_str ''RunID'' fs; lid \<leftarrow> rd_str ''LeaseID'' fs; cid \<leftarrow> rd_str ''CommandID'' fs;
     aid \<leftarrow> rd_str ''ArtifactID'' fs; at \<leftarrow> rd_time ''CreatedAt'' fs; p \<leftarrow> rd_raw ''Payload'' fs;
     Some \<lparr>ev_Sequence = n, ev_ID = eid, ev_Kind = text_event_kind kind, ev_TaskID = tid, ev_RunID = rid, ev_LeaseID = lid,
       ev_CommandID = cid, ev_ArtifactID = aid, ev_CreatedAt = at, ev_Payload = p\<rparr> }"

fun read_record :: "json \<Rightarrow> event_record option" where
  "read_record (JObj fs) = read_record_fields fs"
| "read_record JNull = read_record_fields []"
| "read_record _ = None"

definition scanEventRecord :: "event_row \<Rightarrow> event_record result" where
  "scanEventRecord r =
     (case read_record (row_payload r) of
        None \<Rightarrow> Inl (WrapPrefix ''unmarshal event payload'' (ErrorString ''json: cannot unmarshal''))
      | Some e \<Rightarrow> Inr (if ev_Sequence e = 0 then e\<lparr>ev_Sequence := row_sequence r\<rparr> else e))"

definition loadEvent :: "event_table \<Rightarrow> string \<Rightarrow> event_record result" where
  "loadEvent t eid =
     (case List.find (\<lambda>r. row_id r = eid) (et_rows t) of
        None \<Rightarrow> Inl (Sentinel ErrEventNotFound)
      | Some r \<Rightarrow> scanEventRecord r)"

definition where_clause :: "event_filter \<Rightarrow> event_row \<Rightarrow> bool" where
  "where_clause f r \<longleftrightarrow>
     (ef_AfterSequence f > 0 \<longrightarrow> row_sequence r > ef_AfterSequence f) \<and>
     (ef_TaskID f \<noteq> [] \<longrightarrow> row_task_id r = ef_TaskID f) \<and>
     (ef_RunID f \<noteq> [] \<longrightarrow> row_run_id r = ef_RunID f) \<and>
     (ef_LeaseID f \<noteq> [] \<longrightarrow> row_lease_id r = ef_LeaseID f) \<and>
     (ef_CommandID f \<noteq> [] \<longrightarrow> row_command_id r = ef_CommandID f) \<and>
     (ef_ArtifactID f \<noteq> [] \<longrightarrow> row_artifact_id r = ef_ArtifactID f) \<and>
     (ef_Kinds f \<noteq> [] \<longrightarrow> row_kind r \<in> set (map event_kind_text (ef_Kinds f)))"

definition limited :: "int \<Rightarrow> 'a list \<Rightarrow> 'a list" where
  "limited n xs = (if n > 0 then take (nat n) xs else xs)"

fun scan_rows :: "event_row list \<Rightarrow> event_record list result" where
  "scan_rows [] = Inr []"
| "scan_rows (r # rs) =
     (case scanEventRecord r of
        Inl err \<Rightarrow> Inl err
      | Inr e \<Rightarrow> (case scan_rows rs of Inl err \<Rightarrow> Inl err | Inr es \<Rightarrow> Inr (e # es)))"

definition listEvents :: "event_table \<Rightarrow> event_filter \<Rightarrow> event_record list result" where
  "listEvents t f =
     scan_rows (limited (ef_Limit f) (sort_key row_sequence (filter (where_clause f) (et_rows t))))"

definition cloneEventRecord :: "event_record \<Rightarrow> event_record" where
  "cloneEventRecord src = \<lparr>ev_Sequence = ev_Sequence src, ev_ID = ev_ID src, ev_Kind = ev_Kind src,
     ev_TaskID = ev_TaskID src, ev_RunID = ev_RunID src, ev_LeaseID = ev_LeaseID src,
     ev_CommandID = ev_CommandID src, ev_ArtifactID = ev_ArtifactID src, ev_CreatedAt = ev_CreatedAt src,
     ev_Payload = ev_Payload src\<rparr>"

definition cloneEventRecords :: "event_record list \<Rightarrow> event_record list" where
  "cloneEventRecords src = (if src = [] then [] else map cloneEventRecord src)"

definition GetEvent :: "event_table \<Rightarrow> string \<Rightarrow> event_record result" where
  "GetEvent t eid = (case loadEvent t eid of Inl e \<Rightarrow> Inl e | Inr e \<Rightarrow> Inr (cloneEventRecord e))"

definition ListEvents :: "event_table \<Rightarrow> event_filter \<Rightarrow> event_record list result" where
  "ListEvents t f = (case listEvents t f of Inl e \<Rightarrow> Inl e | Inr es \<Rightarrow> Inr (cloneEventRecords es))"

section \<open>Record constructors\<close>

text \<open>
  \<open>eid\<close> is the identifier that \<^verbatim>\<open>newID("event")\<close> draws (a random UUID with a prefix) and \<open>rd\<close> the clock
  reading used when the time of the event is zero.
\<close>

definition newEventRecord ::
    "time \<Rightarrow> string \<Rightarrow> event_kind \<Rightarrow> time \<Rightarrow> orch_event \<Rightarrow> string \<Rightarrow> string \<Rightarrow> string \<Rightarrow> string \<Rightarrow> string \<Rightarrow> event_record" where
  "newEventRecord rd eid kind createdAt payload taskID runID leaseID commandID artifactID =
     \<lparr>ev_Sequence = 0, ev_ID = eid, ev_Kind = kind, ev_TaskID = taskID, ev_RunID = runID,
      ev_LeaseID = leaseID, ev_CommandID = commandID, ev_ArtifactID = artifactID,
      ev_CreatedAt = normalizeNow rd createdAt, ev_Payload = RawJSON (event_json payload)\<rparr>"

definition taskCreatedRecord :: "time \<Rightarrow> string \<Rightarrow> task \<Rightarrow> event_record" where
  "taskCreatedRecord rd eid t = newEventRecord rd eid EventTaskCreated (task_CreatedAt t)
     (TaskCreatedEvent (task_ID t) (task_Kind t) (task_Subject t) (task_Description t) (task_CreatedAt t))
     (task_ID t) [] [] [] []"

definition taskUpdatedRecord :: "time \<Rightarrow> string \<Rightarrow> task \<Rightarrow> event_record" where
  "taskUpdatedRecord rd eid t = newEventRecord rd eid EventTaskUpdated (task_UpdatedAt t)
     (TaskUpdatedEvent (task_ID t) (task_Subject t) (cloneStrings (task_Blocks t))
        (cloneStrings (task_BlockedBy t)) (task_UpdatedAt t))
     (task_ID t) [] [] [] []"

definition taskDeletedRecord :: "time \<Rightarrow> string \<Rightarrow> string \<Rightarrow> time \<Rightarrow> event_record" where
  "taskDeletedRecord rd eid taskID deletedAt = newEventRecord rd eid EventTaskDeleted deletedAt
     (TaskDeletedEvent taskID deletedAt) taskID [] [] [] []"

definition taskClaimedRecord :: "time \<Rightarrow> string \<Rightarrow> task \<Rightarrow> lease \<Rightarrow> event_record" where
  "taskClaimedRecord rd eid t l =
     (let runID = run_id_of t in
      newEventRecord rd eid EventTaskClaimed (lease_AcquiredAt l)
        (TaskClaimedEvent (task_ID t) runID (lease_ID l) (lease_WorkerID l) (task_Attempt t)
           (lease_AcquiredAt l) (lease_ExpiresAt l))
        (task_ID t) runID (lease_ID l) [] [])"

definition leaseRenewedRecord :: "time \<Rightarrow> string \<Rightarrow> lease \<Rightarrow> string \<Rightarrow> event_record" where
  "leaseRenewedRecord rd eid l runID = newEventRecord rd eid EventLeaseRenewed (lease_ExpiresAt l)
     (LeaseRenewedEvent (lease_TaskID l) runID (lease_ID l) (lease_WorkerID l) (lease_ExpiresAt l))
     (lease_TaskID l) runID (lease_ID l) [] []"

definition leaseReleasedRecord ::
    "time \<Rightarrow> string \<Rightarrow> lease \<Rightarrow> string \<Rightarrow> bool \<Rightarrow> task_status \<Rightarrow> string \<Rightarrow> bool \<Rightarrow> time \<Rightarrow> event_record" where
  "leaseReleasedRecord rd eid l runID requeued resultStatus reason recovered releasedAt =
     newEventRecord rd eid EventLeaseReleased releasedAt
       (LeaseReleasedEvent (lease_TaskID l) runID (lease_ID l) (lease_WorkerID l) releasedAt requeued
          resultStatus reason recovered)
       (lease_TaskID l) runID (lease_ID l) [] []"

definition taskRequeuedRecord :: "time \<Rightarrow> string \<Rightarrow> task \<Rightarrow> string \<Rightarrow> int \<Rightarrow> string \<Rightarrow> event_record" where
  "taskRequeuedRecord rd eid t lastRunID lastAttempt reason =
     newEventRecord rd eid EventTaskRequeued (task_UpdatedAt t)
       (TaskRequeuedEvent (task_ID t) lastRunID lastAttempt reason (task_UpdatedAt t))
       (task_ID t) lastRunID [] [] []"

definition taskCompletedRecord :: "time \<Rightarrow> string \<Rightarrow> task \<Rightarrow> event_record" where
  "taskCompletedRecord rd eid t = newEventRecord rd eid EventTaskCompleted (task_CompletedAt t)
     (TaskCompletedEvent (task_ID t) (run_id_of t) (task_Attempt t) (task_CompletedAt t))
     (task_ID t) (run_id_of t) [] [] []"

definition taskFailedRecord :: "time \<Rightarrow> string \<Rightarrow> task \<Rightarrow> event_record" where
  "taskFailedRecord rd eid t = newEventRecord rd eid EventTaskFailed (task_CompletedAt t)
     (TaskFailedEvent (task_ID t) (run_id_of t) (task_Attempt t) (task_LastError t) (task_CompletedAt t))
     (task_ID t) (run_id_of t) [] [] []"

definition taskCanceledRecord :: "time \<Rightarrow> string \<Rightarrow> task \<Rightarrow> event_record" where
  "taskCanceledRecord rd eid t = newEventRecord rd eid EventTaskCanceled (task_CompletedAt t)
     (TaskCanceledEvent (task_ID t) (run_id_of t) (task_Attempt t) (task_LastError t) (task_CompletedAt t))
     (task_ID t) (run_id_of t) [] [] []"

definition artifactCreatedRecord :: "time \<Rightarrow> string \<Rightarrow> artifact \<Rightarrow> event_record" where
  "artifactCreatedRecord rd eid a = newEventRecord rd eid EventArtifactCreated (art_CreatedAt a)
     (ArtifactCreatedEvent (art_ID a) (art_TaskID a) (art_RunID a) (art_Kind a) (art_Name a)
        (art_ContentType a) (int (length (art_Body a))) (art_CreatedAt a))
     (art_TaskID a) (art_RunID a) [] [] (art_ID a)"

definition commandCreatedRecord :: "time \<Rightarrow> string \<Rightarrow> command \<Rightarrow> event_record" where
  "commandCreatedRecord rd eid c = newEventRecord rd eid EventCommandCreated (cmd_CreatedAt c)
     (CommandCreatedEvent (cmd_ID c) (cmd_Kind c) (cmd_TaskID c) (cmd_RunID c) (cmd_TargetWorkerID c)
        (cmd_CreatedAt c))
     (cmd_TaskID c) (cmd_RunID c) [] (cmd_ID c) []"

definition commandClaimedRecord :: "time \<Rightarrow> string \<Rightarrow> command \<Rightarrow> event_record" where
  "commandClaimedRecord rd eid c = newEventRecord rd eid EventCommandClaimed (cmd_ClaimedAt c)
     (CommandClaimedEvent (cmd_ID c) (cmd_Kind c) (cmd_TaskID c) (cmd_RunID c) (cmd_ClaimedBy c)
        (cmd_ClaimedAt c))
     (cmd_TaskID c) (cmd_RunID c) [] (cmd_ID c) []"

definition commandReleasedRecord ::
    "time \<Rightarrow> string \<Rightarrow> command \<Rightarrow> string \<Rightarrow> string \<Rightarrow> bool \<Rightarrow> time \<Rightarrow> event_record" where
  "commandReleasedRecord rd eid c releasedBy reason recovered releasedAt =
     newEventRecord rd eid EventCommandReleased releasedAt
       (CommandReleasedEvent (cmd_ID c) (cmd_Kind c) (cmd_TaskID c) (cmd_RunID c) releasedBy releasedAt
          reason recovered)
       (cmd_TaskID c) (cmd_RunID c) [] (cmd_ID c) []"

definition commandHandledRecord :: "time \<Rightarrow> string \<Rightarrow> command \<Rightarrow> event_record" where
  "commandHandledRecord rd eid c = newEventRecord rd eid EventCommandHandled (cmd_HandledAt c)
     (CommandHandledEvent (cmd_ID c) (cmd_Kind c) (cmd_TaskID c) (cmd_RunID c) (cmd_HandledBy c)
        (cmd_HandledAt c))
     (cmd_TaskID c) (cmd_RunID c) [] (cmd_ID c) []"

lemmas record_defs = taskCreatedRecord_def taskUpdatedRecord_def taskDeletedRecord_def taskClaimedRecord_def
  leaseRenewedRecord_def leaseReleasedRecord_def taskRequeuedRecord_def taskCompletedRecord_def
  taskFailedRecord_def taskCanceledRecord_def artifactCreatedRecord_def commandCreatedRecord_def
  commandClaimedRecord_def commandReleasedRecord_def commandHandledRecord_def

text \<open>What the constructors write, \<^verbatim>\<open>DecodeEvent\<close> reads, whatever the store adds to the record.\<close>

lemma DecodeEvent_event_json:
  assumes "ev_Kind e = event_kind_of ev" and "ev_Payload e = RawJSON (event_json ev)"
  shows "DecodeEvent e = Inr \<lparr>dec_Record = e, dec_Payload = json_event ev\<rparr>"
proof -
  have "DecodePayload e = Inr (json_event ev)"
    using assms by (simp add: DecodePayload_def event_json_def read_payload_def read_event_fields)
  then show ?thesis using assms(1) by (cases ev) (simp_all add: DecodeEvent_def)
qed

section \<open>The contract of an event store\<close>

text \<open>What a filter selects of a log, and the part of the selection that one listing returns.\<close>

definition selects :: "event_filter \<Rightarrow> event_record \<Rightarrow> bool" where
  "selects f e \<longleftrightarrow>
     (ef_AfterSequence f > 0 \<longrightarrow> ev_Sequence e > ef_AfterSequence f) \<and>
     (ef_TaskID f \<noteq> [] \<longrightarrow> ev_TaskID e = ef_TaskID f) \<and>
     (ef_RunID f \<noteq> [] \<longrightarrow> ev_RunID e = ef_RunID f) \<and>
     (ef_LeaseID f \<noteq> [] \<longrightarrow> ev_LeaseID e = ef_LeaseID f) \<and>
     (ef_CommandID f \<noteq> [] \<longrightarrow> ev_CommandID e = ef_CommandID f) \<and>
     (ef_ArtifactID f \<noteq> [] \<longrightarrow> ev_ArtifactID e = ef_ArtifactID f) \<and>
     (ef_Kinds f \<noteq> [] \<longrightarrow> event_kind_text (ev_Kind e) \<in> set (map event_kind_text (ef_Kinds f)))"

definition page :: "event_filter \<Rightarrow> event_record list \<Rightarrow> event_record list" where
  "page f es = limited (ef_Limit f) (filter (selects f) es)"

text \<open>
  \<open>lister s\<close> is \<^verbatim>\<open>ListEvents\<close> on a store in state \<open>s\<close>, \<open>log s\<close> the records it holds, oldest first.
\<close>

locale event_store =
  fixes good :: "'s \<Rightarrow> bool"
    and lister :: "'s \<Rightarrow> event_filter \<Rightarrow> event_record list result"
    and log :: "'s \<Rightarrow> event_record list"
  assumes lists_page: "good s \<Longrightarrow> lister s f = Inr (page f (log s))"
    and log_ordered: "good s \<Longrightarrow> sorted_wrt (<) (map ev_Sequence (log s))"
    and log_positive: "good s \<Longrightarrow> e \<in> set (log s) \<Longrightarrow> 0 < ev_Sequence e"

section \<open>The table as an event store\<close>

text \<open>A row holds a record: that is what reading its document gives, and the columns agree with it.\<close>

definition row_holds :: "event_row \<Rightarrow> event_record \<Rightarrow> bool" where
  "row_holds r e \<longleftrightarrow> scanEventRecord r = Inr e \<and> row_sequence r = ev_Sequence e \<and> row_id r = ev_ID e \<and>
     row_kind r = event_kind_text (ev_Kind e) \<and> row_task_id r = ev_TaskID e \<and> row_run_id r = ev_RunID e \<and>
     row_lease_id r = ev_LeaseID e \<and> row_command_id r = ev_CommandID e \<and> row_artifact_id r = ev_ArtifactID e"

definition table_wf :: "event_table \<Rightarrow> bool" where
  "table_wf t \<longleftrightarrow> 0 \<le> et_seq t \<and> distinct (map row_id (et_rows t)) \<and>
     sorted_wrt (<) (map row_sequence (et_rows t)) \<and>
     (\<forall>r \<in> set (et_rows t). (\<exists>e. row_holds r e) \<and> 0 < row_sequence r \<and> row_sequence r \<le> et_seq t)"

text \<open>The log: the records that can be read, oldest first.\<close>

definition log_of :: "event_table \<Rightarrow> event_record list" where
  "log_of t = List.map_filter (\<lambda>r. case scanEventRecord r of Inl _ \<Rightarrow> None | Inr e \<Rightarrow> Some e) (et_rows t)"

text \<open>
  What is read back of a saved record: the kind as its text, the payload as a document. Records of one
  of the declared kinds whose payload is a document are read back as they are.
\<close>

definition record_read_back :: "event_record \<Rightarrow> event_record" where
  "record_read_back e = e\<lparr>ev_Kind := text_event_kind (event_kind_text (ev_Kind e)),
     ev_Payload := (case ev_Payload e of RawJSON j \<Rightarrow> RawJSON j | _ \<Rightarrow> RawJSON JNull)\<rparr>"

lemma event_kind_text_text [simp]: "event_kind_text (text_event_kind s) = s"
  unfolding text_event_kind_def by (auto simp: find_Some_iff split: option.split)

lemma text_event_kind_of [simp]: "text_event_kind (event_kind_text (event_kind_of ev)) = event_kind_of ev"
  by (cases ev) (simp_all add: text_event_kind_def event_kinds_def)

lemma record_read_back_sel [simp]:
  "ev_Sequence (record_read_back e) = ev_Sequence e" "ev_ID (record_read_back e) = ev_ID e"
  "event_kind_text (ev_Kind (record_read_back e)) = event_kind_text (ev_Kind e)"
  "ev_TaskID (record_read_back e) = ev_TaskID e" "ev_RunID (record_read_back e) = ev_RunID e"
  "ev_LeaseID (record_read_back e) = ev_LeaseID e" "ev_CommandID (record_read_back e) = ev_CommandID e"
  "ev_ArtifactID (record_read_back e) = ev_ArtifactID e"
  by (simp_all add: record_read_back_def)

lemma record_read_back_proper:
  "ev_Kind e = event_kind_of ev \<Longrightarrow> ev_Payload e = RawJSON j \<Longrightarrow> record_read_back e = e"
  by (simp add: record_read_back_def)

lemma read_record_json:
  "payload_document (ev_Payload e) = Some p \<Longrightarrow> read_record (record_json e p) = Some (record_read_back e)"
  by (cases "ev_Payload e")
    (auto simp: record_json_def read_record_fields_def read_field_def field_values_def fold_char_def record_read_back_def)

lemma row_of_sel [simp]:
  "row_sequence (row_of e p) = ev_Sequence e" "row_id (row_of e p) = ev_ID e" "row_payload (row_of e p) = record_json e p"
  by (simp_all add: row_of_def)

lemma scan_row_of:
  "payload_document (ev_Payload e) = Some p \<Longrightarrow> ev_Sequence e \<noteq> 0 \<Longrightarrow> scanEventRecord (row_of e p) = Inr (record_read_back e)"
  by (simp add: scanEventRecord_def read_record_json)

lemma row_of_holds:
  "payload_document (ev_Payload e) = Some p \<Longrightarrow> ev_Sequence e \<noteq> 0 \<Longrightarrow> row_holds (row_of e p) (record_read_back e)"
  unfolding row_holds_def by (intro conjI scan_row_of) (simp_all add: row_of_def)

lemma row_holds_where: "row_holds r e \<Longrightarrow> where_clause f r = selects f e"
  by (simp add: row_holds_def where_clause_def selects_def)

lemma cloneEventRecords_id [simp, go_simps]: "cloneEventRecord e = e" "cloneEventRecords es = es"
proof -
  have clone: "cloneEventRecord e = e" for e by (simp add: cloneEventRecord_def)
  then show "cloneEventRecord e = e" .
  show "cloneEventRecords es = es" by (simp add: cloneEventRecords_def map_idI clone)
qed

lemma sort_key_sorted: "sorted_wrt (<) (map g xs) \<Longrightarrow> sort_key g xs = (xs :: 'a list)"
  for g :: "'a \<Rightarrow> int"
  by (intro sort_key_id_if_sorted strict_sorted_imp_sorted) (simp add: strict_sorted_iff)

lemma sorted_wrt_map_filter: "sorted_wrt P (map g xs) \<Longrightarrow> sorted_wrt P (map g (filter Q xs))"
  by (simp add: sorted_wrt_map sorted_wrt_filter)

lemma find_last: "(\<And>x. x \<in> set xs \<Longrightarrow> \<not> P x) \<Longrightarrow> P y \<Longrightarrow> List.find P (xs @ [y]) = Some y"
  by (induction xs) auto

lemma table_rows: "table_wf t \<Longrightarrow> list_all2 row_holds (et_rows t) (log_of t)"
proof -
  have "list_all2 row_holds rs (List.map_filter (\<lambda>r. case scanEventRecord r of Inl _ \<Rightarrow> None | Inr e \<Rightarrow> Some e) rs)"
    if "\<forall>r \<in> set rs. \<exists>e. row_holds r e" for rs
    using that by (induction rs) (auto simp: map_filter_simps row_holds_def)
  then show "table_wf t \<Longrightarrow> list_all2 row_holds (et_rows t) (log_of t)" by (simp add: table_wf_def log_of_def)
qed

lemma rows_columns:
  assumes "list_all2 row_holds rs es"
  shows "map row_sequence rs = map ev_Sequence es" and "map row_id rs = map ev_ID es" and "scan_rows rs = Inr es"
    and "list_all2 row_holds (filter (where_clause f) rs) (filter (selects f) es)"
  using assms by (induction rs es) (auto simp: row_holds_where, auto simp: row_holds_def)

lemma table_wf_log:
  assumes "table_wf t"
  shows "sorted_wrt (<) (map ev_Sequence (log_of t))" and "e \<in> set (log_of t) \<Longrightarrow> 0 < ev_Sequence e"
proof -
  note cols = rows_columns(1) [OF table_rows [OF assms], symmetric]
  show "sorted_wrt (<) (map ev_Sequence (log_of t))" using assms by (simp add: table_wf_def cols)
  assume "e \<in> set (log_of t)"
  then have "ev_Sequence e \<in> set (map row_sequence (et_rows t))" by (simp flip: cols)
  with assms show "0 < ev_Sequence e" by (auto simp: table_wf_def)
qed

lemma ListEvents_page:
  assumes "table_wf t"
  shows "ListEvents t f = Inr (page f (log_of t))"
proof -
  let ?rows = "filter (where_clause f) (et_rows t)" and ?es = "filter (selects f) (log_of t)"
  have rows: "list_all2 row_holds ?rows ?es" by (rule rows_columns(4) [OF table_rows [OF assms]])
  have "sort_key row_sequence ?rows = ?rows"
    using assms by (intro sort_key_sorted sorted_wrt_map_filter) (simp add: table_wf_def)
  moreover have "scan_rows (limited n ?rows) = Inr (limited n ?es)" for n
    using rows by (intro rows_columns(3)) (simp add: limited_def list_all2_takeI)
  ultimately show ?thesis by (simp add: ListEvents_def listEvents_def page_def)
qed

interpretation sql_log: event_store table_wf ListEvents log_of
  by unfold_locales (simp_all add: ListEvents_page table_wf_log)

lemma table_wf_create: "table_wf createEventSchema"
  by (simp add: table_wf_def createEventSchema_def)

text \<open>The record that is in the log after an insertion: with its time, its sequence number and its document.\<close>

definition stamped :: "time \<Rightarrow> int \<Rightarrow> event_record \<Rightarrow> event_record" where
  "stamped rd n e = record_read_back (e\<lparr>ev_CreatedAt := normalizeNow rd (ev_CreatedAt e), ev_Sequence := n\<rparr>)"

lemma saveEventTx_Inr:
  assumes wf: "table_wf t" and s: "saveEventTx rd e t = Inr t'"
  shows "table_wf t'" and "log_of t' = log_of t @ [stamped rd (et_seq t + 1) e]"
    and "GetEvent t' (ev_ID e) = Inr (stamped rd (et_seq t + 1) e)"
proof -
  let ?e = "e\<lparr>ev_CreatedAt := normalizeNow rd (ev_CreatedAt e), ev_Sequence := et_seq t + 1\<rparr>"
  from s obtain p where fresh: "ev_ID e \<notin> row_id ` set (et_rows t)" and p: "payload_document (ev_Payload ?e) = Some p"
    and t': "t' = \<lparr>et_rows = et_rows t @ [row_of ?e p], et_seq = et_seq t + 1\<rparr>"
    by (auto simp: saveEventTx_def Let_def split: if_splits option.splits)
  have "0 \<le> et_seq t" using wf by (simp add: table_wf_def)
  then have r: "row_holds (row_of ?e p) (stamped rd (et_seq t + 1) e)"
    unfolding stamped_def using p by (intro row_of_holds) simp_all
  then have scan: "scanEventRecord (row_of ?e p) = Inr (stamped rd (et_seq t + 1) e)" by (simp add: row_holds_def)
  then show "log_of t' = log_of t @ [stamped rd (et_seq t + 1) e]"
    by (simp add: t' log_of_def List.map_filter_def)
  show "table_wf t'"
    using wf fresh r unfolding table_wf_def t' by (auto simp: sorted_wrt_append)
  have "List.find (\<lambda>r. row_id r = ev_ID e) (et_rows t @ [row_of ?e p]) = Some (row_of ?e p)"
    using fresh by (intro find_last) (auto simp: image_iff)
  then show "GetEvent t' (ev_ID e) = Inr (stamped rd (et_seq t + 1) e)"
    by (simp add: GetEvent_def loadEvent_def t' scan)
qed

text \<open>Saving a batch appends it: earlier records stay as they are, and the new ones come later.\<close>

lemma saveEventsTx_Inr:
  "table_wf t \<Longrightarrow> saveEventsTx rd es t = Inr t' \<Longrightarrow>
   table_wf t' \<and> (\<exists>new. log_of t' = log_of t @ new \<and> length new = length es)"
proof (induction es arbitrary: t)
  case (Cons e es)
  from Cons.prems(2) obtain t1 where t1: "saveEventTx rd e t = Inr t1" and rest: "saveEventsTx rd es t1 = Inr t'"
    by (auto split: sum.splits)
  from Cons.IH [OF saveEventTx_Inr(1) [OF Cons.prems(1) t1] rest] saveEventTx_Inr(2) [OF Cons.prems(1) t1]
  show ?case by auto
qed simp

lemma saveEventTx_fresh:
  assumes "ev_ID e \<notin> ev_ID ` set (log_of t)" and "table_wf t" and "ev_Payload e = RawJSON j"
  shows "\<exists>t'. saveEventTx rd e t = Inr t'"
proof -
  have "row_id ` set (et_rows t) = ev_ID ` set (log_of t)"
    using rows_columns(2) [OF table_rows [OF assms(2)]] by (metis list.set_map)
  with assms(1,3) show ?thesis by (simp add: saveEventTx_def Let_def)
qed

end
