(* ===== verification/Hist_Projection.thy ===== *)
theory Hist_Projection
  imports Hist_Log
begin

text \<open>
  The views that \<^verbatim>\<open>ext/orchestrator/history.go\<close> computes from a durable log: task, command, run and
  worker timelines, paged replay, the projected summaries of runs and workers, and the recovery
  outcomes. A function takes the \<^verbatim>\<open>ListEvents\<close> operation of the \<^verbatim>\<open>EventStore\<close> it is given; the stores of
  the repository return no nil records, so the nil checks on records have no counterpart.
\<close>

section \<open>Views\<close>

type_synonym event_source = "event_filter \<Rightarrow> event_record list result"

record task_timeline =
  tt_TaskID :: string
  tt_Events :: "decoded_event list"
  tt_Latest :: "event_record option"
  tt_LatestAt :: time

record command_timeline =
  ct_CommandID :: string
  ct_Events :: "decoded_event list"
  ct_Latest :: "event_record option"
  ct_LatestAt :: time

record replay_cursor =
  rc_AfterSequence :: int

record run_timeline =
  rt_RunID :: string
  rt_TaskID :: string
  rt_WorkerID :: string
  rt_Attempt :: int
  rt_Events :: "decoded_event list"
  rt_Latest :: "event_record option"
  rt_LatestAt :: time
  rt_StartedAt :: time
  rt_CompletedAt :: time
  rt_Terminal :: "event_record option"

datatype run_status =
    RunRunning | RunCompleted | RunFailed | RunCanceled | RunRequeued | RunReleased | RunStatusOther string

record run_summary =
  rs_ID :: string
  rs_TaskID :: string
  rs_WorkerID :: string
  rs_Attempt :: int
  rs_Status :: run_status
  rs_StartedAt :: time
  rs_CompletedAt :: time
  rs_LatestAt :: time
  rs_LatestKind :: event_kind
  rs_TerminalKind :: event_kind

record worker_timeline =
  wt_WorkerID :: string
  wt_Runs :: "run_summary list"
  wt_Events :: "decoded_event list"
  wt_Latest :: "event_record option"
  wt_LatestAt :: time

record run_filter =
  rf_TaskID :: string
  rf_WorkerID :: string
  rf_Statuses :: "run_status list"

record worker_summary =
  ws_ID :: string
  ws_ActiveRuns :: nat
  ws_CompletedRuns :: nat
  ws_FailedRuns :: nat
  ws_CanceledRuns :: nat
  ws_RequeuedRuns :: nat
  ws_ReleasedRuns :: nat
  ws_LatestAt :: time
  ws_LatestRunID :: string
  ws_LatestTaskID :: string
  ws_LatestStatus :: run_status
  ws_LatestKind :: event_kind
  ws_LatestTerminal :: event_kind

record worker_filter =
  wf_IDs :: "string list"
  wf_ActiveOnly :: bool

record recovery_history_filter =
  rhf_TaskID :: string
  rhf_RunID :: string
  rhf_LeaseID :: string
  rhf_CommandID :: string
  rhf_AfterSequence :: int
  rhf_Limit :: int

record lease_recovery_summary =
  lrs_Sequence :: int
  lrs_TaskID :: string
  lrs_RunID :: string
  lrs_LeaseID :: string
  lrs_WorkerID :: string
  lrs_ReleasedAt :: time
  lrs_ResultStatus :: task_status
  lrs_Requeued :: bool
  lrs_Reason :: string

record command_recovery_summary =
  crs_Sequence :: int
  crs_CommandID :: string
  crs_Kind :: command_kind
  crs_TaskID :: string
  crs_RunID :: string
  crs_ReleasedBy :: string
  crs_ReleasedAt :: time
  crs_Reason :: string

text \<open>The loop \<^verbatim>\<open>for ... DecodeEvent\<close> that stops at the first error.\<close>

fun decode_all :: "event_record list \<Rightarrow> decoded_event list result" where
  "decode_all [] = Inr []"
| "decode_all (e # es) =
     (case DecodeEvent e of
        Inl err \<Rightarrow> Inl err
      | Inr d \<Rightarrow> (case decode_all es of Inl err \<Rightarrow> Inl err | Inr ds \<Rightarrow> Inr (d # ds)))"

definition last_record :: "decoded_event list \<Rightarrow> event_record option" where
  "last_record ds = (if ds = [] then None else Some (dec_Record (last ds)))"

definition last_time :: "decoded_event list \<Rightarrow> time" where
  "last_time ds = (if ds = [] then zero_time else ev_CreatedAt (dec_Record (last ds)))"

section \<open>Task and command timelines\<close>

definition LoadTaskTimeline :: "event_source \<Rightarrow> string \<Rightarrow> task_timeline result" where
  "LoadTaskTimeline src taskID =
     (if taskID = [] then Inl (ErrorString ''orchestrator: task id must not be empty'')
      else case src (any_event\<lparr>ef_TaskID := taskID\<rparr>) of
        Inl e \<Rightarrow> Inl e
      | Inr events \<Rightarrow>
          (case decode_all events of
             Inl e \<Rightarrow> Inl e
           | Inr ds \<Rightarrow> Inr \<lparr>tt_TaskID = taskID, tt_Events = ds, tt_Latest = last_record ds, tt_LatestAt = last_time ds\<rparr>))"

definition LoadCommandTimeline :: "event_source \<Rightarrow> string \<Rightarrow> command_timeline result" where
  "LoadCommandTimeline src commandID =
     (if commandID = [] then Inl (ErrorString ''orchestrator: command id must not be empty'')
      else case src (any_event\<lparr>ef_CommandID := commandID\<rparr>) of
        Inl e \<Rightarrow> Inl e
      | Inr events \<Rightarrow>
          (case decode_all events of
             Inl e \<Rightarrow> Inl e
           | Inr ds \<Rightarrow> Inr \<lparr>ct_CommandID = commandID, ct_Events = ds, ct_Latest = last_record ds, ct_LatestAt = last_time ds\<rparr>))"

section \<open>Recovery outcomes\<close>

definition lease_recovery_of :: "decoded_event \<Rightarrow> lease_recovery_summary option" where
  "lease_recovery_of d =
     (case dec_Payload d of
        LeaseReleasedEvent tid rid lid wid at requeued status reason recovered \<Rightarrow>
          (if recovered then Some \<lparr>lrs_Sequence = ev_Sequence (dec_Record d), lrs_TaskID = tid, lrs_RunID = rid,
             lrs_LeaseID = lid, lrs_WorkerID = wid, lrs_ReleasedAt = at, lrs_ResultStatus = status,
             lrs_Requeued = requeued, lrs_Reason = reason\<rparr> else None)
      | _ \<Rightarrow> None)"

definition command_recovery_of :: "decoded_event \<Rightarrow> command_recovery_summary option" where
  "command_recovery_of d =
     (case dec_Payload d of
        CommandReleasedEvent cid kind tid rid releasedBy at reason recovered \<Rightarrow>
          (if recovered then Some \<lparr>crs_Sequence = ev_Sequence (dec_Record d), crs_CommandID = cid, crs_Kind = kind,
             crs_TaskID = tid, crs_RunID = rid, crs_ReleasedBy = releasedBy, crs_ReleasedAt = at,
             crs_Reason = reason\<rparr> else None)
      | _ \<Rightarrow> None)"

text \<open>
  The loop of the two listings: decode, skip what the projection does not show, append, stop at the
  limit; a record behind the limit is not decoded.
\<close>

fun collect :: "(decoded_event \<Rightarrow> 'a option) \<Rightarrow> int \<Rightarrow> 'a list \<Rightarrow> event_record list \<Rightarrow> 'a list result" where
  "collect view limit out [] = Inr out"
| "collect view limit out (e # es) =
     (case DecodeEvent e of
        Inl err \<Rightarrow> Inl err
      | Inr d \<Rightarrow>
          (case view d of
             None \<Rightarrow> collect view limit out es
           | Some x \<Rightarrow>
               (if limit > 0 \<and> int (length (out @ [x])) \<ge> limit then Inr (out @ [x])
                else collect view limit (out @ [x]) es)))"

definition lease_recovery_filter :: "recovery_history_filter \<Rightarrow> event_filter" where
  "lease_recovery_filter f = any_event\<lparr>ef_Kinds := [EventLeaseReleased], ef_TaskID := rhf_TaskID f,
     ef_RunID := rhf_RunID f, ef_LeaseID := rhf_LeaseID f, ef_AfterSequence := rhf_AfterSequence f\<rparr>"

definition command_recovery_filter :: "recovery_history_filter \<Rightarrow> event_filter" where
  "command_recovery_filter f = any_event\<lparr>ef_Kinds := [EventCommandReleased], ef_TaskID := rhf_TaskID f,
     ef_RunID := rhf_RunID f, ef_CommandID := rhf_CommandID f, ef_AfterSequence := rhf_AfterSequence f\<rparr>"

definition ListLeaseRecoveries ::
    "event_source option \<Rightarrow> recovery_history_filter \<Rightarrow> lease_recovery_summary list result" where
  "ListLeaseRecoveries store f =
     (case store of
        None \<Rightarrow> Inl (ErrorString ''orchestrator: event store must not be nil'')
      | Some src \<Rightarrow>
          (case src (lease_recovery_filter f) of
             Inl e \<Rightarrow> Inl e
           | Inr records \<Rightarrow> collect lease_recovery_of (rhf_Limit f) [] records))"

definition ListCommandRecoveries ::
    "event_source option \<Rightarrow> recovery_history_filter \<Rightarrow> command_recovery_summary list result" where
  "ListCommandRecoveries store f =
     (case store of
        None \<Rightarrow> Inl (ErrorString ''orchestrator: event store must not be nil'')
      | Some src \<Rightarrow>
          (case src (command_recovery_filter f) of
             Inl e \<Rightarrow> Inl e
           | Inr records \<Rightarrow> collect command_recovery_of (rhf_Limit f) [] records))"

section \<open>Replay\<close>

definition maxInt64 :: "int \<Rightarrow> int \<Rightarrow> int" where
  "maxInt64 a b = (if a > b then a else b)"

definition advanceReplayCursor :: "replay_cursor \<Rightarrow> event_record list \<Rightarrow> replay_cursor" where
  "advanceReplayCursor cursor records =
     fold (\<lambda>r c. c\<lparr>rc_AfterSequence := maxInt64 (rc_AfterSequence c) (ev_Sequence r)\<rparr>) records cursor"

text \<open>On an error the cursor that came in goes back to the caller.\<close>

definition ReplayEventRecords ::
    "event_source \<Rightarrow> event_filter \<Rightarrow> replay_cursor \<Rightarrow> event_record list result \<times> replay_cursor" where
  "ReplayEventRecords src f cursor =
     (case src (f\<lparr>ef_AfterSequence := maxInt64 (ef_AfterSequence f) (rc_AfterSequence cursor)\<rparr>) of
        Inl e \<Rightarrow> (Inl e, cursor)
      | Inr records \<Rightarrow> (Inr records, advanceReplayCursor cursor records))"

definition ReplayEvents ::
    "event_source \<Rightarrow> event_filter \<Rightarrow> replay_cursor \<Rightarrow> decoded_event list result \<times> replay_cursor" where
  "ReplayEvents src f cursor =
     (case ReplayEventRecords src f cursor of
        (Inl e, _) \<Rightarrow> (Inl e, cursor)
      | (Inr records, next) \<Rightarrow>
          (case decode_all records of
             Inl e \<Rightarrow> (Inl e, cursor)
           | Inr ds \<Rightarrow> (Inr ds, next)))"

section \<open>Run timelines\<close>

definition applyRunProjection :: "decoded_event \<Rightarrow> run_timeline \<Rightarrow> run_timeline" where
  "applyRunProjection d line =
     (case dec_Payload d of
        TaskClaimedEvent _ _ _ wid attempt acquired _ \<Rightarrow>
          line\<lparr>rt_WorkerID := (if rt_WorkerID line = [] then wid else rt_WorkerID line),
             rt_Attempt := (if attempt > 0 then attempt else rt_Attempt line),
             rt_StartedAt := (if rt_StartedAt line = zero_time \<or> acquired < rt_StartedAt line then acquired
                              else rt_StartedAt line)\<rparr>
      | LeaseRenewedEvent _ _ _ wid _ \<Rightarrow>
          line\<lparr>rt_WorkerID := (if rt_WorkerID line = [] then wid else rt_WorkerID line),
             rt_StartedAt := (if rt_StartedAt line = zero_time then ev_CreatedAt (dec_Record d) else rt_StartedAt line)\<rparr>
      | LeaseReleasedEvent _ _ _ wid at _ _ _ _ \<Rightarrow>
          line\<lparr>rt_WorkerID := (if rt_WorkerID line = [] then wid else rt_WorkerID line),
             rt_CompletedAt := at, rt_Terminal := Some (dec_Record d)\<rparr>
      | TaskRequeuedEvent _ _ attempt _ at \<Rightarrow>
          line\<lparr>rt_Attempt := (if attempt > 0 then attempt else rt_Attempt line),
             rt_CompletedAt := at, rt_Terminal := Some (dec_Record d)\<rparr>
      | TaskCompletedEvent _ _ attempt at \<Rightarrow>
          line\<lparr>rt_Attempt := (if attempt > 0 then attempt else rt_Attempt line),
             rt_CompletedAt := at, rt_Terminal := Some (dec_Record d)\<rparr>
      | TaskFailedEvent _ _ attempt _ at \<Rightarrow>
          line\<lparr>rt_Attempt := (if attempt > 0 then attempt else rt_Attempt line),
             rt_CompletedAt := at, rt_Terminal := Some (dec_Record d)\<rparr>
      | TaskCanceledEvent _ _ attempt _ at \<Rightarrow>
          line\<lparr>rt_Attempt := (if attempt > 0 then attempt else rt_Attempt line),
             rt_CompletedAt := at, rt_Terminal := Some (dec_Record d)\<rparr>
      | _ \<Rightarrow> line)"

definition new_timeline :: "string \<Rightarrow> run_timeline" where
  "new_timeline runID = \<lparr>rt_RunID = runID, rt_TaskID = [], rt_WorkerID = [], rt_Attempt = 0, rt_Events = [],
     rt_Latest = None, rt_LatestAt = zero_time, rt_StartedAt = zero_time, rt_CompletedAt = zero_time,
     rt_Terminal = None\<rparr>"

text \<open>One turn of the loop of \<^verbatim>\<open>buildRunTimeline\<close> after the record is decoded.\<close>

definition extend_timeline :: "decoded_event \<Rightarrow> run_timeline \<Rightarrow> run_timeline" where
  "extend_timeline d line = applyRunProjection d
     (line\<lparr>rt_Events := rt_Events line @ [d], rt_Latest := Some (dec_Record d),
         rt_LatestAt := ev_CreatedAt (dec_Record d),
         rt_TaskID := (if rt_TaskID line = [] \<and> ev_TaskID (dec_Record d) \<noteq> [] then ev_TaskID (dec_Record d)
                       else rt_TaskID line)\<rparr>)"

fun extend_timelines :: "event_record list \<Rightarrow> run_timeline \<Rightarrow> run_timeline result" where
  "extend_timelines [] line = Inr line"
| "extend_timelines (e # es) line =
     (case DecodeEvent e of Inl err \<Rightarrow> Inl err | Inr d \<Rightarrow> extend_timelines es (extend_timeline d line))"

definition buildRunTimeline :: "string \<Rightarrow> event_record list \<Rightarrow> run_timeline result" where
  "buildRunTimeline runID events = extend_timelines events (new_timeline runID)"

fun runStatusFromEvent :: "event_kind \<Rightarrow> run_status" where
  "runStatusFromEvent EventTaskCompleted = RunCompleted"
| "runStatusFromEvent EventTaskFailed = RunFailed"
| "runStatusFromEvent EventTaskCanceled = RunCanceled"
| "runStatusFromEvent EventTaskRequeued = RunRequeued"
| "runStatusFromEvent EventLeaseReleased = RunReleased"
| "runStatusFromEvent _ = RunRunning"

definition summarizeRunTimeline :: "run_timeline \<Rightarrow> run_summary" where
  "summarizeRunTimeline line =
     \<lparr>rs_ID = rt_RunID line, rs_TaskID = rt_TaskID line, rs_WorkerID = rt_WorkerID line, rs_Attempt = rt_Attempt line,
      rs_Status = (case rt_Terminal line of None \<Rightarrow> RunRunning | Some e \<Rightarrow> runStatusFromEvent (ev_Kind e)),
      rs_StartedAt = rt_StartedAt line, rs_CompletedAt = rt_CompletedAt line, rs_LatestAt = rt_LatestAt line,
      rs_LatestKind = (case rt_Latest line of None \<Rightarrow> no_kind | Some e \<Rightarrow> ev_Kind e),
      rs_TerminalKind = (case rt_Terminal line of None \<Rightarrow> no_kind | Some e \<Rightarrow> ev_Kind e)\<rparr>"

definition LoadRunTimeline :: "event_source \<Rightarrow> string \<Rightarrow> run_timeline result" where
  "LoadRunTimeline src runID =
     (if runID = [] then Inl (ErrorString ''orchestrator: run id must not be empty'')
      else case src (any_event\<lparr>ef_RunID := runID\<rparr>) of
        Inl e \<Rightarrow> Inl e
      | Inr events \<Rightarrow> buildRunTimeline runID events)"

definition GetRun :: "event_source \<Rightarrow> string \<Rightarrow> run_summary result" where
  "GetRun src runID =
     (case LoadRunTimeline src runID of
        Inl e \<Rightarrow> Inl e
      | Inr line \<Rightarrow> if rt_Events line = [] then Inl (Sentinel ErrRunNotFound) else Inr (summarizeRunTimeline line))"

section \<open>Listing runs\<close>

definition matchesRunFilter :: "run_summary \<Rightarrow> run_filter \<Rightarrow> bool" where
  "matchesRunFilter rs f =
     (if rf_TaskID f \<noteq> [] \<and> rs_TaskID rs \<noteq> rf_TaskID f then False
      else if rf_WorkerID f \<noteq> [] \<and> rs_WorkerID rs \<noteq> rf_WorkerID f then False
      else if rf_Statuses f = [] then True
      else list_ex (\<lambda>status. rs_Status rs = status) (rf_Statuses f))"

text \<open>
  The grouping loop of \<^verbatim>\<open>ListRuns\<close> and \<^verbatim>\<open>ListWorkers\<close>: a map from the key to its entries and the keys in
  the order of their first appearance; an empty key is skipped.
\<close>

definition add_to_group ::
    "('a \<Rightarrow> string) \<Rightarrow> 'a \<Rightarrow> string list \<times> (string, 'a list) go_map \<Rightarrow> string list \<times> (string, 'a list) go_map" where
  "add_to_group key x g =
     (case g of (order, grouped) \<Rightarrow>
        if key x = [] then (order, grouped)
        else case fmlookup grouped (key x) of
          None \<Rightarrow> (order @ [key x], fmupd (key x) [x] grouped)
        | Some xs \<Rightarrow> (order, fmupd (key x) (xs @ [x]) grouped))"

definition group_by :: "('a \<Rightarrow> string) \<Rightarrow> 'a list \<Rightarrow> string list \<times> (string, 'a list) go_map" where
  "group_by key xs = fold (add_to_group key) xs ([], fmempty)"

definition group_at :: "(string, 'a list) go_map \<Rightarrow> string \<Rightarrow> 'a list" where
  "group_at grouped k = (case fmlookup grouped k of None \<Rightarrow> [] | Some xs \<Rightarrow> xs)"

fun summarize_runs ::
    "run_filter \<Rightarrow> (string, event_record list) go_map \<Rightarrow> string list \<Rightarrow> run_summary list result" where
  "summarize_runs f grouped [] = Inr []"
| "summarize_runs f grouped (runID # ids) =
     (case buildRunTimeline runID (group_at grouped runID) of
        Inl e \<Rightarrow> Inl e
      | Inr line \<Rightarrow>
          (case summarize_runs f grouped ids of
             Inl e \<Rightarrow> Inl e
           | Inr runs \<Rightarrow>
               (let s = summarizeRunTimeline line in
                Inr (if matchesRunFilter s f then s # runs else runs))))"

definition ListRuns :: "event_source \<Rightarrow> run_filter \<Rightarrow> run_summary list result" where
  "ListRuns src f =
     (case src any_event of
        Inl e \<Rightarrow> Inl e
      | Inr events \<Rightarrow> (case group_by ev_RunID events of (order, grouped) \<Rightarrow> summarize_runs f grouped order))"

section \<open>Workers\<close>

definition new_worker :: "string \<Rightarrow> worker_summary" where
  "new_worker workerID = \<lparr>ws_ID = workerID, ws_ActiveRuns = 0, ws_CompletedRuns = 0, ws_FailedRuns = 0,
     ws_CanceledRuns = 0, ws_RequeuedRuns = 0, ws_ReleasedRuns = 0, ws_LatestAt = zero_time, ws_LatestRunID = [],
     ws_LatestTaskID = [], ws_LatestStatus = RunStatusOther [], ws_LatestKind = no_kind,
     ws_LatestTerminal = no_kind\<rparr>"

definition count_run :: "run_summary \<Rightarrow> worker_summary \<Rightarrow> worker_summary" where
  "count_run r w =
     (case rs_Status r of
        RunRunning \<Rightarrow> w\<lparr>ws_ActiveRuns := Suc (ws_ActiveRuns w)\<rparr>
      | RunCompleted \<Rightarrow> w\<lparr>ws_CompletedRuns := Suc (ws_CompletedRuns w)\<rparr>
      | RunFailed \<Rightarrow> w\<lparr>ws_FailedRuns := Suc (ws_FailedRuns w)\<rparr>
      | RunCanceled \<Rightarrow> w\<lparr>ws_CanceledRuns := Suc (ws_CanceledRuns w)\<rparr>
      | RunRequeued \<Rightarrow> w\<lparr>ws_RequeuedRuns := Suc (ws_RequeuedRuns w)\<rparr>
      | RunReleased \<Rightarrow> w\<lparr>ws_ReleasedRuns := Suc (ws_ReleasedRuns w)\<rparr>
      | RunStatusOther _ \<Rightarrow> w)"

definition show_latest :: "run_summary \<Rightarrow> worker_summary \<Rightarrow> worker_summary" where
  "show_latest r w =
     (if ws_LatestAt w = zero_time \<or> rs_LatestAt r > ws_LatestAt w
      then w\<lparr>ws_LatestAt := rs_LatestAt r, ws_LatestRunID := rs_ID r, ws_LatestTaskID := rs_TaskID r,
             ws_LatestStatus := rs_Status r, ws_LatestKind := rs_LatestKind r, ws_LatestTerminal := rs_TerminalKind r\<rparr>
      else w)"

definition summarizeWorkerRuns :: "string \<Rightarrow> run_summary list \<Rightarrow> worker_summary" where
  "summarizeWorkerRuns workerID runs = fold (\<lambda>r w. show_latest r (count_run r w)) runs (new_worker workerID)"

definition matchesWorkerFilter :: "worker_summary \<Rightarrow> worker_filter \<Rightarrow> bool" where
  "matchesWorkerFilter w f =
     (if wf_IDs f \<noteq> [] \<and> \<not> list_ex (\<lambda>i. ws_ID w = i) (wf_IDs f) then False
      else if wf_ActiveOnly f \<and> ws_ActiveRuns w = 0 then False
      else True)"

definition any_run :: run_filter where
  "any_run = \<lparr>rf_TaskID = [], rf_WorkerID = [], rf_Statuses = []\<rparr>"

definition GetWorker :: "event_source \<Rightarrow> string \<Rightarrow> worker_summary result" where
  "GetWorker src workerID =
     (if workerID = [] then Inl (ErrorString ''orchestrator: worker id must not be empty'')
      else case ListRuns src (any_run\<lparr>rf_WorkerID := workerID\<rparr>) of
        Inl e \<Rightarrow> Inl e
      | Inr runs \<Rightarrow>
          (if runs = [] then Inl (Sentinel ErrRunNotFound) else Inr (summarizeWorkerRuns workerID runs)))"

definition ListWorkers :: "event_source \<Rightarrow> worker_filter \<Rightarrow> worker_summary list result" where
  "ListWorkers src f =
     (case ListRuns src any_run of
        Inl e \<Rightarrow> Inl e
      | Inr runs \<Rightarrow>
          (case group_by rs_WorkerID runs of (order, grouped) \<Rightarrow>
             Inr (filter (\<lambda>w. matchesWorkerFilter w f)
                    (map (\<lambda>workerID. summarizeWorkerRuns workerID (group_at grouped workerID)) order))))"

text \<open>
  \<^verbatim>\<open>sort.Slice\<close> orders the events of the worker by sequence number, then time, then identifier; records
  of one store differ in the first.
\<close>

fun load_run_events :: "event_source \<Rightarrow> run_summary list \<Rightarrow> decoded_event list result" where
  "load_run_events src [] = Inr []"
| "load_run_events src (r # rs) =
     (case src (any_event\<lparr>ef_RunID := rs_ID r\<rparr>) of
        Inl e \<Rightarrow> Inl e
      | Inr events \<Rightarrow>
          (case decode_all events of
             Inl e \<Rightarrow> Inl e
           | Inr ds \<Rightarrow> (case load_run_events src rs of Inl e \<Rightarrow> Inl e | Inr ds' \<Rightarrow> Inr (ds @ ds'))))"

definition LoadWorkerTimeline :: "event_source \<Rightarrow> string \<Rightarrow> worker_timeline result" where
  "LoadWorkerTimeline src workerID =
     (if workerID = [] then Inl (ErrorString ''orchestrator: worker id must not be empty'')
      else case ListRuns src (any_run\<lparr>rf_WorkerID := workerID\<rparr>) of
        Inl e \<Rightarrow> Inl e
      | Inr runs \<Rightarrow>
          (case load_run_events src runs of
             Inl e \<Rightarrow> Inl e
           | Inr ds \<Rightarrow>
               (let events = sort_key (\<lambda>d. (ev_Sequence (dec_Record d), ev_CreatedAt (dec_Record d), ev_ID (dec_Record d))) ds
                in Inr \<lparr>wt_WorkerID = workerID, wt_Runs = runs, wt_Events = events,
                         wt_Latest = last_record events, wt_LatestAt = last_time events\<rparr>)))"

end
