(* ===== verification/Hist_Views.thy ===== *)
theory Hist_Views
  imports Hist_Projection
begin

text \<open>
  What the views of the history package show, for every event store that keeps the contract
  \<open>event_store\<close>: replay hands out the selected log page by page, the listing of runs is the lookup of
  each run in the order of first appearance, and the listing of workers is the lookup of each worker.
\<close>

section \<open>Grouping\<close>

definition first_seen :: "'a list \<Rightarrow> 'a list" where
  "first_seen xs = rev (remdups (rev xs))"

lemma first_seen_Nil [simp]: "first_seen [] = []"
  by (simp add: first_seen_def)

lemma first_seen_snoc: "first_seen (xs @ [x]) = (if x \<in> set xs then first_seen xs else first_seen xs @ [x])"
  by (simp add: first_seen_def)

lemma set_first_seen [simp]: "set (first_seen xs) = set xs"
  by (simp add: first_seen_def)

lemma distinct_first_seen [simp]: "distinct (first_seen xs)"
  by (simp add: first_seen_def)

definition group_keys :: "('a \<Rightarrow> string) \<Rightarrow> 'a list \<Rightarrow> string list" where
  "group_keys key xs = first_seen (filter (\<lambda>k. k \<noteq> []) (map key xs))"

lemma set_group_keys [simp]: "k \<in> set (group_keys key xs) \<longleftrightarrow> k \<noteq> [] \<and> k \<in> key ` set xs"
  by (auto simp: group_keys_def)

lemma no_such_key: "k \<notin> key ` set xs \<Longrightarrow> filter (\<lambda>x. key x = k) xs = []"
  by (auto simp: filter_empty_conv)

lemma group_by_eq:
  "fst (group_by key xs) = group_keys key xs \<and>
   (\<forall>k. fmlookup (snd (group_by key xs)) k =
      (if k \<noteq> [] \<and> k \<in> key ` set xs then Some (filter (\<lambda>x. key x = k) xs) else None))"
proof (induction xs rule: rev_induct)
  case Nil
  then show ?case by (simp add: group_by_def group_keys_def)
next
  case (snoc x xs)
  obtain order grouped where g: "group_by key xs = (order, grouped)" by fastforce
  have step: "group_by key (xs @ [x]) = add_to_group key x (order, grouped)"
    using g by (simp add: group_by_def)
  from snoc g have order: "order = group_keys key xs"
    and look: "fmlookup grouped k =
      (if k \<noteq> [] \<and> k \<in> key ` set xs then Some (filter (\<lambda>x. key x = k) xs) else None)" for k
    by simp_all
  show ?case
    by (auto simp: step add_to_group_def look order group_keys_def first_seen_snoc no_such_key)
qed

lemma case_group_by:
  "(case group_by key xs of (order, grouped) \<Rightarrow> F order grouped) = F (group_keys key xs) (snd (group_by key xs))"
  using group_by_eq [of key xs] by (simp add: split_beta)

lemma group_at_group_by: "k \<noteq> [] \<Longrightarrow> group_at (snd (group_by key xs)) k = filter (\<lambda>x. key x = k) xs"
  using group_by_eq [of key xs] by (auto simp: group_at_def no_such_key)

section \<open>Results in sequence\<close>

fun in_sequence :: "'a result list \<Rightarrow> 'a list result" where
  "in_sequence [] = Inr []"
| "in_sequence (r # rs) =
     (case r of Inl e \<Rightarrow> Inl e | Inr x \<Rightarrow> (case in_sequence rs of Inl e \<Rightarrow> Inl e | Inr xs \<Rightarrow> Inr (x # xs)))"

definition keep :: "('a \<Rightarrow> bool) \<Rightarrow> 'a list result \<Rightarrow> 'a list result" where
  "keep P r = (case r of Inl e \<Rightarrow> Inl e | Inr xs \<Rightarrow> Inr (filter P xs))"

lemma keep_Inr [simp]: "keep P (Inr xs) = Inr (filter P xs)" and keep_Inl [simp]: "keep P (Inl e) = Inl e"
  by (simp_all add: keep_def)

lemma keep_keep: "keep P (keep Q r) = keep (\<lambda>x. Q x \<and> P x) r"
  by (cases r) (simp_all add: conj_commute)

lemma keep_True [simp]: "keep (\<lambda>x. True) r = r"
  by (cases r) simp_all

lemma in_sequence_Inr [simp]: "in_sequence (map Inr xs) = Inr xs"
  by (induction xs) simp_all

lemma in_sequence_Inr': "in_sequence (map (\<lambda>x. Inr (g x)) xs) = Inr (map g xs)"
  by (induction xs) simp_all

section \<open>Selections\<close>

lemma selects_any [simp]: "selects any_event e"
  by (simp add: selects_def any_event_def)

lemma selects_run: "rid \<noteq> [] \<Longrightarrow> selects (any_event\<lparr>ef_RunID := rid\<rparr>) e \<longleftrightarrow> ev_RunID e = rid"
  by (simp add: selects_def any_event_def)

lemma any_event_limit: "ef_Limit any_event = 0"
  by (simp add: any_event_def)

lemma page_any [simp]: "page any_event es = es"
  by (simp add: page_def limited_def any_event_limit)

lemma page_run: "rid \<noteq> [] \<Longrightarrow> page (any_event\<lparr>ef_RunID := rid\<rparr>) es = filter (\<lambda>e. ev_RunID e = rid) es"
  by (simp add: page_def limited_def any_event_limit selects_run cong: filter_cong)

text \<open>What a replay client with the cursor \<open>c\<close> has still to see of a log.\<close>

definition remaining :: "event_filter \<Rightarrow> replay_cursor \<Rightarrow> event_record list \<Rightarrow> event_record list" where
  "remaining f c es =
     filter (selects (f\<lparr>ef_AfterSequence := maxInt64 (ef_AfterSequence f) (rc_AfterSequence c)\<rparr>)) es"

lemma selects_after:
  "selects (f\<lparr>ef_AfterSequence := a\<rparr>) e \<longleftrightarrow>
     selects (f\<lparr>ef_AfterSequence := 0\<rparr>) e \<and> (0 < a \<longrightarrow> a < ev_Sequence e)"
  by (auto simp: selects_def)

lemma maxInt64_max: "maxInt64 a b = max a b"
  by (simp add: maxInt64_def max_def)

lemma advance_max:
  "rc_AfterSequence (advanceReplayCursor c rs) = fold max (map ev_Sequence rs) (rc_AfterSequence c)"
  by (induction rs arbitrary: c) (simp_all add: advanceReplayCursor_def maxInt64_max max.commute)

lemma fold_max_sorted: "sorted_wrt (<) (xs @ [x]) \<Longrightarrow> fold max (xs @ [x]) c = max c (x :: int)"
  by (induction xs arbitrary: c) (auto simp: max_def sorted_wrt_append)

lemma advance_last:
  assumes "sorted_wrt (<) (map ev_Sequence rs)" and "rs \<noteq> []"
  shows "rc_AfterSequence (advanceReplayCursor c rs) = max (rc_AfterSequence c) (ev_Sequence (last rs))"
proof -
  from assms(2) have "map ev_Sequence rs = map ev_Sequence (butlast rs) @ [ev_Sequence (last rs)]"
    by (metis append_butlast_last_id list.simps(8,9) map_append)
  with assms(1) fold_max_sorted show ?thesis unfolding advance_max by metis
qed

lemma remaining_append [simp]: "remaining f c (xs @ ys) = remaining f c xs @ remaining f c ys"
  by (simp add: remaining_def)

text \<open>
  The heart of replay: after a page \<open>rs\<close> taken from the front of what remained, exactly the rest
  remains for the advanced cursor.
\<close>

lemma remaining_after_page:
  assumes ord: "sorted_wrt (<) (map ev_Sequence es)" and pos: "\<And>e. e \<in> set es \<Longrightarrow> 0 < ev_Sequence e"
    and rem: "remaining f c es = rs @ rest"
  shows "remaining f (advanceReplayCursor c rs) es = rest"
proof (cases "rs = []")
  case True
  with rem show ?thesis by (simp add: advanceReplayCursor_def)
next
  case False
  let ?a = "max (ef_AfterSequence f) (rc_AfterSequence c)" and ?m = "ev_Sequence (last rs)"
  have sorted: "sorted_wrt (<) (map ev_Sequence (rs @ rest))"
    unfolding rem [symmetric] remaining_def using ord by (rule sorted_wrt_map_filter)
  have "last rs \<in> set (remaining f c es)" using False rem by simp
  then have m: "0 < ?m" "0 < ?a \<longrightarrow> ?a < ?m"
    using pos by (auto simp: remaining_def maxInt64_max selects_after [of ?a f])
  have c': "rc_AfterSequence (advanceReplayCursor c rs) = max (rc_AfterSequence c) ?m"
    using advance_last [OF _ False] sorted by (simp add: sorted_wrt_append)
  have "remaining f (advanceReplayCursor c rs) es = filter (\<lambda>e. ?m < ev_Sequence e) (remaining f c es)"
  proof -
    have "selects (f\<lparr>ef_AfterSequence := max (ef_AfterSequence f) (max (rc_AfterSequence c) ?m)\<rparr>) e \<longleftrightarrow>
        selects (f\<lparr>ef_AfterSequence := ?a\<rparr>) e \<and> ?m < ev_Sequence e" for e
      using m by (auto simp: selects_after [of ?a f]
          selects_after [of "max (ef_AfterSequence f) (max (rc_AfterSequence c) ?m)" f])
    then show ?thesis by (simp add: remaining_def c' maxInt64_max conj_commute cong: filter_cong)
  qed
  also have "\<dots> = filter (\<lambda>e. ?m < ev_Sequence e) rs @ filter (\<lambda>e. ?m < ev_Sequence e) rest"
    by (simp add: rem)
  also have "filter (\<lambda>e. ?m < ev_Sequence e) rs = []"
  proof -
    have "sorted_wrt (<) (map ev_Sequence (butlast rs @ [last rs]))"
      using sorted False by (simp add: sorted_wrt_append)
    then have "\<forall>e \<in> set (butlast rs @ [last rs]). ev_Sequence e \<le> ?m"
      by (auto simp: sorted_wrt_append intro: less_imp_le)
    with False have "\<forall>e \<in> set rs. ev_Sequence e \<le> ?m" by simp
    then show ?thesis by (auto simp: filter_empty_conv not_less)
  qed
  also have "filter (\<lambda>e. ?m < ev_Sequence e) rest = rest"
    using sorted False by (auto simp: sorted_wrt_append filter_id_conv)
  finally show ?thesis by simp
qed

section \<open>Timelines\<close>

lemma applyRunProjection_keeps [simp]:
  "rt_Events (applyRunProjection d line) = rt_Events line" "rt_RunID (applyRunProjection d line) = rt_RunID line"
  by (auto simp: applyRunProjection_def split: orch_event.split)

lemma extend_timelines_events:
  "extend_timelines es line = Inr line' \<Longrightarrow> length (rt_Events line') = length (rt_Events line) + length es"
  by (induction es arbitrary: line) (auto simp: extend_timeline_def split: sum.splits)

lemma buildRunTimeline_events: "buildRunTimeline rid es = Inr line \<Longrightarrow> rt_Events line = [] \<longleftrightarrow> es = []"
  using extend_timelines_events [of es "new_timeline rid" line]
  by (auto simp: buildRunTimeline_def new_timeline_def simp flip: length_0_conv)

lemma extend_timelines_returns:
  "(\<And>e. e \<in> set es \<Longrightarrow> \<exists>d. DecodeEvent e = Inr d) \<Longrightarrow> \<exists>line'. extend_timelines es line = Inr line'"
proof (induction es arbitrary: line)
  case (Cons e es)
  from Cons.prems [of e] obtain d where "DecodeEvent e = Inr d" by auto
  with Cons show ?case by simp
qed simp

lemma runStatus_known: "runStatusFromEvent k \<noteq> RunStatusOther s"
  by (cases k) simp_all

lemma summary_status_known: "rs_Status (summarizeRunTimeline line) \<noteq> RunStatusOther s"
  by (auto simp: summarizeRunTimeline_def runStatus_known split: option.split)

section \<open>Decoding a page\<close>

lemma decode_all_typed:
  "decode_all es = Inr ds \<Longrightarrow>
   list_all2 (\<lambda>d e. dec_Record d = e \<and> event_kind_of (dec_Payload d) = ev_Kind e) ds es"
  by (induction es arbitrary: ds) (auto split: sum.splits dest: DecodeEvent_kind)

lemma collect_all:
  "decode_all es = Inr ds \<Longrightarrow> n \<le> 0 \<Longrightarrow> collect view n out es = Inr (out @ List.map_filter view ds)"
  by (induction es arbitrary: ds out) (auto simp: map_filter_simps split: sum.splits option.split)

text \<open>With a limit the listing is the front part of the listing without one.\<close>

lemma collect_limited:
  "decode_all es = Inr ds \<Longrightarrow> 0 < n \<Longrightarrow> int (length out) < n \<Longrightarrow>
   collect view n out es = Inr (take (nat n) (out @ List.map_filter view ds))"
proof (induction es arbitrary: ds out)
  case (Cons e es)
  then obtain d ds' where d: "DecodeEvent e = Inr d" and ds': "decode_all es = Inr ds'" and ds: "ds = d # ds'"
    by (auto split: sum.splits)
  show ?case
  proof (cases "view d")
    case (Some x)
    show ?thesis
    proof (cases "int (length (out @ [x])) \<ge> n")
      case True
      with Cons.prems(3) have "nat n = length (out @ [x])" by simp
      with True Some d Cons.prems(2) show ?thesis by (simp add: ds map_filter_simps)
    next
      case False
      then have "nat n - length out = Suc (nat n - Suc (length out))" by simp
      with False Some d ds ds' Cons show ?thesis by (simp add: map_filter_simps)
    qed
  qed (use d ds ds' Cons in \<open>simp add: map_filter_simps\<close>)
qed (simp add: map_filter_simps)

lemma collect_listing:
  "decode_all es = Inr ds \<Longrightarrow> collect view n [] es = Inr (limited n (List.map_filter view ds))"
  using collect_all [of es ds n view "[]"] collect_limited [of es ds n "[]" view]
  by (cases "n > 0") (simp_all add: limited_def)

lemma released_kind_text:
  "event_kind_text (event_kind_of ev) = ''lease_released'' \<longleftrightarrow>
     (\<exists>tid rid lid wid at rq st why rec. ev = LeaseReleasedEvent tid rid lid wid at rq st why rec)"
  "event_kind_text (event_kind_of ev) = ''command_released'' \<longleftrightarrow>
     (\<exists>cid k tid rid who at why rec. ev = CommandReleasedEvent cid k tid rid who at why rec)"
  by (cases ev; simp)+

text \<open>A page of records of one kind has payloads of that kind only.\<close>

lemma page_of_kind:
  assumes "decode_all (page f es) = Inr ds" and "ef_Kinds f = [k]" and "d \<in> set ds"
  shows "event_kind_text (event_kind_of (dec_Payload d)) = event_kind_text k"
proof -
  have "event_kind_text (ev_Kind e) = event_kind_text k" if "e \<in> set (page f es)" for e
    using that assms(2) by (auto simp: page_def limited_def selects_def dest!: in_set_takeD split: if_splits)
  with decode_all_typed [OF assms(1)] assms(3) show ?thesis
    by (fastforce simp: in_set_conv_nth list_all2_conv_all_nth)
qed

section \<open>Counting the runs of a worker\<close>

definition runs_in :: "run_status \<Rightarrow> run_summary list \<Rightarrow> nat" where
  "runs_in st runs = length (filter (\<lambda>r. rs_Status r = st) runs)"

definition counted :: "worker_summary \<Rightarrow> nat" where
  "counted w = ws_ActiveRuns w + ws_CompletedRuns w + ws_FailedRuns w + ws_CanceledRuns w + ws_RequeuedRuns w
     + ws_ReleasedRuns w"

lemma show_latest_counts [simp]:
  "ws_ActiveRuns (show_latest r w) = ws_ActiveRuns w" "ws_CompletedRuns (show_latest r w) = ws_CompletedRuns w"
  "ws_FailedRuns (show_latest r w) = ws_FailedRuns w" "ws_CanceledRuns (show_latest r w) = ws_CanceledRuns w"
  "ws_RequeuedRuns (show_latest r w) = ws_RequeuedRuns w" "ws_ReleasedRuns (show_latest r w) = ws_ReleasedRuns w"
  "ws_ID (show_latest r w) = ws_ID w"
  by (simp_all add: show_latest_def)

lemma count_run_keeps [simp]: "ws_ID (count_run r w) = ws_ID w" "ws_LatestAt (count_run r w) = ws_LatestAt w"
  by (simp_all add: count_run_def split: run_status.split)

lemma worker_fold:
  fixes w :: worker_summary
  defines "after \<equiv> \<lambda>runs. fold (\<lambda>r w. show_latest r (count_run r w)) runs w"
  shows "ws_ID (after runs) = ws_ID w"
    and "ws_ActiveRuns (after runs) = ws_ActiveRuns w + runs_in RunRunning runs"
    and "ws_CompletedRuns (after runs) = ws_CompletedRuns w + runs_in RunCompleted runs"
    and "ws_FailedRuns (after runs) = ws_FailedRuns w + runs_in RunFailed runs"
    and "ws_CanceledRuns (after runs) = ws_CanceledRuns w + runs_in RunCanceled runs"
    and "ws_RequeuedRuns (after runs) = ws_RequeuedRuns w + runs_in RunRequeued runs"
    and "ws_ReleasedRuns (after runs) = ws_ReleasedRuns w + runs_in RunReleased runs"
  unfolding after_def
  by (induction runs arbitrary: w) (simp_all add: runs_in_def count_run_def split: run_status.split)

lemma summarizeWorkerRuns_counts:
  "ws_ID (summarizeWorkerRuns wid runs) = wid"
  "ws_ActiveRuns (summarizeWorkerRuns wid runs) = runs_in RunRunning runs"
  "ws_CompletedRuns (summarizeWorkerRuns wid runs) = runs_in RunCompleted runs"
  "ws_FailedRuns (summarizeWorkerRuns wid runs) = runs_in RunFailed runs"
  "ws_CanceledRuns (summarizeWorkerRuns wid runs) = runs_in RunCanceled runs"
  "ws_RequeuedRuns (summarizeWorkerRuns wid runs) = runs_in RunRequeued runs"
  "ws_ReleasedRuns (summarizeWorkerRuns wid runs) = runs_in RunReleased runs"
  by (simp_all add: summarizeWorkerRuns_def worker_fold new_worker_def)

lemma counted_all:
  assumes "\<And>r s. r \<in> set runs \<Longrightarrow> rs_Status r \<noteq> RunStatusOther s"
  shows "counted (summarizeWorkerRuns wid runs) = length runs"
proof -
  have "runs_in RunRunning runs + runs_in RunCompleted runs + runs_in RunFailed runs + runs_in RunCanceled runs
    + runs_in RunRequeued runs + runs_in RunReleased runs = length runs"
    using assms
  proof (induction runs)
    case (Cons r runs)
    then show ?case by (cases "rs_Status r") (simp_all add: runs_in_def)
  qed (simp add: runs_in_def)
  then show ?thesis by (simp add: counted_def summarizeWorkerRuns_counts)
qed

section \<open>The views of a store that keeps the contract\<close>

lemma matches_any_run [simp]: "matchesRunFilter r any_run"
  by (simp add: matchesRunFilter_def any_run_def)

lemma matches_worker_run:
  "wid \<noteq> [] \<Longrightarrow> matchesRunFilter r (any_run\<lparr>rf_WorkerID := wid\<rparr>) \<longleftrightarrow> rs_WorkerID r = wid"
  by (simp add: matchesRunFilter_def any_run_def)

context event_store
begin

lemma lister_any: "good s \<Longrightarrow> lister s any_event = Inr (log s)"
  by (simp add: lists_page)

lemma lister_run:
  "good s \<Longrightarrow> rid \<noteq> [] \<Longrightarrow> lister s (any_event\<lparr>ef_RunID := rid\<rparr>) = Inr (filter (\<lambda>e. ev_RunID e = rid) (log s))"
  by (simp add: lists_page page_run)

lemma replay_progress:
  assumes g: "good s" and r: "ReplayEventRecords (lister s) f c = (Inr rs, c')"
  shows "rs @ remaining f c' (log s) = remaining f c (log s)"
    and "rs = [] \<longleftrightarrow> remaining f c (log s) = []"
    and "rs \<noteq> [] \<Longrightarrow> rc_AfterSequence c < rc_AfterSequence c'"
    and "0 < ef_Limit f \<Longrightarrow> int (length rs) \<le> ef_Limit f"
proof -
  let ?R = "remaining f c (log s)"
  from g r have rs: "rs = limited (ef_Limit f) ?R" and c': "c' = advanceReplayCursor c rs"
    by (auto simp: ReplayEventRecords_def lists_page page_def remaining_def)
  obtain rest where split: "?R = rs @ rest"
    using rs by (metis append_take_drop_id limited_def append_Nil2)
  show "rs @ remaining f c' (log s) = ?R"
    using remaining_after_page [OF log_ordered [OF g] log_positive [OF g] split] split c' by simp
  show "rs = [] \<longleftrightarrow> ?R = []"
    using rs by (auto simp: limited_def)
  show "int (length rs) \<le> ef_Limit f" if "0 < ef_Limit f"
    using that rs by (simp add: limited_def)
  assume ne: "rs \<noteq> []"
  have "sorted_wrt (<) (map ev_Sequence ?R)"
    unfolding remaining_def using log_ordered [OF g] by (rule sorted_wrt_map_filter)
  then have "sorted_wrt (<) (map ev_Sequence (rs @ rest))" by (simp only: split)
  then have "rc_AfterSequence c' = max (rc_AfterSequence c) (ev_Sequence (last rs))"
    unfolding c' using ne by (intro advance_last) (simp_all add: sorted_wrt_append)
  moreover have "last rs \<in> set ?R" using ne split by (metis UnCI last_in_set set_append)
  then have "rc_AfterSequence c < ev_Sequence (last rs)"
    using log_positive [OF g]
    by (auto simp: remaining_def maxInt64_max selects_after [of "max (ef_AfterSequence f) (rc_AfterSequence c)" f])
      (meson max.strict_boundedE not_less order.strict_trans1)
  ultimately show "rc_AfterSequence c < rc_AfterSequence c'" by simp
qed

lemma GetRun_eq:
  assumes g: "good s" and "rid \<noteq> []" and "rid \<in> ev_RunID ` set (log s)"
  shows "GetRun (lister s) rid =
    (case buildRunTimeline rid (filter (\<lambda>e. ev_RunID e = rid) (log s)) of
       Inl e \<Rightarrow> Inl e | Inr line \<Rightarrow> Inr (summarizeRunTimeline line))"
proof -
  from assms(3) have "filter (\<lambda>e. ev_RunID e = rid) (log s) \<noteq> []" by (auto simp: filter_empty_conv)
  then show ?thesis
    using assms(2) buildRunTimeline_events [of rid]
    by (auto simp: GetRun_def LoadRunTimeline_def lister_run [OF g] split: sum.split)
qed

lemma summarize_runs_eq:
  assumes g: "good s" and "set ids \<subseteq> set (group_keys ev_RunID (log s))"
  shows "summarize_runs f (snd (group_by ev_RunID (log s))) ids =
    keep (\<lambda>r. matchesRunFilter r f) (in_sequence (map (GetRun (lister s)) ids))"
  using assms(2)
proof (induction ids)
  case (Cons rid ids)
  then have "rid \<noteq> []" and "rid \<in> ev_RunID ` set (log s)" by auto
  note GetRun_eq [OF g this] and group_at_group_by [OF \<open>rid \<noteq> []\<close>, of ev_RunID "log s"]
  with Cons show ?case by (auto simp: keep_def Let_def split: sum.split)
qed simp

lemma ListRuns_eq:
  "good s \<Longrightarrow> ListRuns (lister s) f =
     keep (\<lambda>r. matchesRunFilter r f) (in_sequence (map (GetRun (lister s)) (group_keys ev_RunID (log s))))"
  by (subst ListRuns_def) (simp add: lister_any summarize_runs_eq case_group_by)

lemma ListRuns_any: "good s \<Longrightarrow> ListRuns (lister s) f = keep (\<lambda>r. matchesRunFilter r f) (ListRuns (lister s) any_run)"
  by (simp add: ListRuns_eq keep_keep)

lemma GetRun_status: "GetRun (lister s) rid = Inr r \<Longrightarrow> rs_Status r \<noteq> RunStatusOther x"
  by (auto simp: GetRun_def summary_status_known split: sum.splits if_splits)

lemma ListRuns_status:
  assumes "good s" and "ListRuns (lister s) f = Inr runs" and "r \<in> set runs"
  shows "rs_Status r \<noteq> RunStatusOther x"
proof -
  have seq: "in_sequence rs = Inr xs \<Longrightarrow> y \<in> set xs \<Longrightarrow> Inr y \<in> set rs" for rs :: "run_summary result list" and xs y
    by (induction rs arbitrary: xs) (auto split: sum.splits)
  from assms obtain xs where "in_sequence (map (GetRun (lister s)) (group_keys ev_RunID (log s))) = Inr xs"
    and "r \<in> set xs"
    by (auto simp: ListRuns_eq keep_def split: sum.splits)
  from seq [OF this] GetRun_status show ?thesis by fastforce
qed

lemma ListRuns_returns:
  assumes g: "good s" and dec: "\<And>e. e \<in> set (log s) \<Longrightarrow> \<exists>d. DecodeEvent e = Inr d"
  shows "\<exists>runs. ListRuns (lister s) f = Inr runs"
proof -
  have get: "\<exists>r. GetRun (lister s) rid = Inr r" if "rid \<in> set (group_keys ev_RunID (log s))" for rid
    using that extend_timelines_returns [of "filter (\<lambda>e. ev_RunID e = rid) (log s)" "new_timeline rid"] dec
    by (auto simp: GetRun_eq [OF g] buildRunTimeline_def)
  have "\<exists>rs. in_sequence (map (GetRun (lister s)) ids) = Inr rs"
    if "set ids \<subseteq> set (group_keys ev_RunID (log s))" for ids
    using that
  proof (induction ids)
    case (Cons rid ids)
    with get [of rid] show ?case by auto
  qed simp
  then show ?thesis by (fastforce simp: ListRuns_eq [OF g])
qed

lemma GetWorker_eq:
  assumes g: "good s" and "ListRuns (lister s) any_run = Inr runs" and "wid \<noteq> []" and "wid \<in> rs_WorkerID ` set runs"
  shows "GetWorker (lister s) wid = Inr (summarizeWorkerRuns wid (filter (\<lambda>r. rs_WorkerID r = wid) runs))"
proof -
  from assms(4) have "filter (\<lambda>r. rs_WorkerID r = wid) runs \<noteq> []" by (auto simp: filter_empty_conv)
  then show ?thesis
    using assms(2,3)
    by (simp add: GetWorker_def ListRuns_any [OF g, of "any_run\<lparr>rf_WorkerID := wid\<rparr>"] matches_worker_run)
qed

lemma ListWorkers_eq:
  assumes g: "good s" and r: "ListRuns (lister s) any_run = Inr runs"
  shows "ListWorkers (lister s) f =
    keep (\<lambda>w. matchesWorkerFilter w f) (in_sequence (map (GetWorker (lister s)) (group_keys rs_WorkerID runs)))"
proof -
  have workers: "map (GetWorker (lister s)) (group_keys rs_WorkerID runs) =
      map (\<lambda>wid. Inr (summarizeWorkerRuns wid (group_at (snd (group_by rs_WorkerID runs)) wid))) (group_keys rs_WorkerID runs)"
    by (simp add: GetWorker_eq [OF g r] group_at_group_by)
  show ?thesis
    unfolding workers by (subst ListWorkers_def)
      (simp add: r case_group_by in_sequence_Inr')
qed

end

end
