(* ===== verification/Hist_Properties.thy ===== *)
theory Hist_Properties
  imports Hist_Views
begin

text \<open>
  The properties of the durable history: an event read back is the event written, replay loses and
  repeats nothing while the log grows, and the listings of runs and workers agree with the lookups.
\<close>

section \<open>A small log\<close>

text \<open>Two runs of two workers: the first is completed, the second has only been claimed.\<close>

definition demo_events :: "event_record list" where
  "demo_events =
     [newEventRecord 1 ''event-a'' EventTaskClaimed 10 (TaskClaimedEvent ''t1'' ''r1'' ''l1'' ''w1'' 1 10 50) ''t1'' ''r1'' ''l1'' [] [],
      newEventRecord 1 ''event-b'' EventTaskClaimed 20 (TaskClaimedEvent ''t2'' ''r2'' ''l2'' ''w2'' 1 20 60) ''t2'' ''r2'' ''l2'' [] [],
      newEventRecord 1 ''event-c'' EventTaskCompleted 30 (TaskCompletedEvent ''t1'' ''r1'' 1 30) ''t1'' ''r1'' [] [] []]"

definition demo_stamped :: "event_record list" where
  "demo_stamped = map2 (\<lambda>n e. e\<lparr>ev_Sequence := n\<rparr>) [1, 2, 3] demo_events"

definition demo_table :: event_table where
  "demo_table = (case saveEventsTx 1 demo_events createEventSchema of Inl _ \<Rightarrow> createEventSchema | Inr t \<Rightarrow> t)"

definition demo_late :: event_record where
  "demo_late = newEventRecord 1 ''event-d'' EventTaskFailed 40 (TaskFailedEvent ''t2'' ''r2'' 1 (''boom '' @ [CHR 0xFF]) 40) ''t2'' ''r2'' [] [] []"

definition demo_release :: event_record where
  "demo_release = newEventRecord 1 ''event-e'' EventLeaseReleased 70
     (LeaseReleasedEvent ''t2'' ''r2'' ''l2'' ''w2'' 70 True TaskPending ''lease expired'' True) ''t2'' ''r2'' ''l2'' [] []"

definition demo_command_release :: event_record where
  "demo_command_release = newEventRecord 1 ''event-f'' EventCommandReleased 80
     (CommandReleasedEvent ''c1'' CommandAbortRun ''t2'' ''r2'' ''w2'' 80 ''worker gone'' True) ''t2'' ''r2'' [] ''c1'' []"

definition any_recovery :: recovery_history_filter where
  "any_recovery = \<lparr>rhf_TaskID = [], rhf_RunID = [], rhf_LeaseID = [], rhf_CommandID = [], rhf_AfterSequence = 0,
     rhf_Limit = 0\<rparr>"

lemmas demo_log_defs = demo_stamped_def demo_events_def newEventRecord_def normalizeNow_def

lemma stamped_new:
  "stamped rd' n (newEventRecord rd eid (event_kind_of ev) at ev tid rid lid cid aid) =
     (newEventRecord rd eid (event_kind_of ev) at ev tid rid lid cid aid)
       \<lparr>ev_CreatedAt := normalizeNow rd' (normalizeNow rd at), ev_Sequence := n\<rparr>"
  unfolding stamped_def by (subst record_read_back_proper [of _ ev]) (simp_all add: newEventRecord_def)

lemma demo_saved: "saveEventsTx 1 demo_events createEventSchema = Inr demo_table"
proof -
  have "\<exists>t. saveEventsTx 1 demo_events createEventSchema = Inr t"
    by (simp add: saveEventTx_def Let_def demo_log_defs createEventSchema_def)
  then show ?thesis by (auto simp: demo_table_def)
qed

lemma demo_table_wf: "table_wf demo_table"
  using saveEventsTx_Inr [OF table_wf_create demo_saved] by simp

lemma demo_table_seq: "et_seq demo_table = 3" "set (map row_id (et_rows demo_table)) = {''event-a'', ''event-b'', ''event-c''}"
  by (simp_all add: demo_table_def saveEventTx_def Let_def demo_log_defs createEventSchema_def)

lemma demo_log: "log_of demo_table = demo_stamped"
proof -
  obtain t1 t2 where t: "saveEventTx 1 (demo_events ! 0) createEventSchema = Inr t1" "saveEventTx 1 (demo_events ! 1) t1 = Inr t2"
      "saveEventTx 1 (demo_events ! 2) t2 = Inr demo_table"
    using demo_saved by (auto simp: demo_events_def split: sum.splits)
  note wf = saveEventTx_Inr(1) [OF table_wf_create t(1)]
  note wf2 = saveEventTx_Inr(1) [OF wf t(2)]
  have "et_seq t1 = 1" "et_seq t2 = 2"
    using t(1,2) by (auto simp: saveEventTx_def Let_def createEventSchema_def split: if_splits option.splits)
  moreover have "log_of createEventSchema = []" by (simp add: log_of_def createEventSchema_def)
  ultimately have "log_of demo_table = [stamped 1 1 (demo_events ! 0), stamped 1 2 (demo_events ! 1), stamped 1 3 (demo_events ! 2)]"
    using saveEventTx_Inr(2) [OF table_wf_create t(1)] saveEventTx_Inr(2) [OF wf t(2)] saveEventTx_Inr(2) [OF wf2 t(3)]
    by (simp add: createEventSchema_def)
  then show ?thesis
    using stamped_new [where ev = "TaskClaimedEvent _ _ _ _ _ _ _"] stamped_new [where ev = "TaskCompletedEvent _ _ _ _"]
    by (simp add: demo_stamped_def demo_events_def numeral_2_eq_2) (simp add: newEventRecord_def normalizeNow_def)
qed

lemma demo_save: "\<exists>t'. saveEventsTx 1 [demo_late] demo_table = Inr t'"
  using demo_table_seq(2) by (auto simp: saveEventTx_def Let_def demo_late_def newEventRecord_def image_def)

lemma demo_decodes: "e \<in> set demo_stamped \<Longrightarrow> \<exists>d. DecodeEvent e = Inr d"
proof -
  have "DecodeEvent ((newEventRecord rd eid (event_kind_of ev) at ev tid rid lid cid aid)\<lparr>ev_Sequence := n\<rparr>) = Inr
      \<lparr>dec_Record = (newEventRecord rd eid (event_kind_of ev) at ev tid rid lid cid aid)\<lparr>ev_Sequence := n\<rparr>, dec_Payload = json_event ev\<rparr>"
    for n rd eid at ev tid rid lid cid aid
    by (intro DecodeEvent_event_json) (simp_all add: newEventRecord_def)
  note dec = this [where ev = "TaskClaimedEvent _ _ _ _ _ _ _", unfolded event_kind_of.simps]
    this [where ev = "TaskCompletedEvent _ _ _ _", unfolded event_kind_of.simps]
  assume "e \<in> set demo_stamped"
  then show ?thesis by (auto simp: demo_stamped_def demo_events_def dec)
qed

lemma demo_runs: "\<exists>runs. ListRuns (ListEvents demo_table) any_run = Inr runs"
  by (rule sql_log.ListRuns_returns [OF demo_table_wf]) (simp add: demo_log demo_decodes)

section \<open>Reading back\<close>



section \<open>Replay\<close>

text \<open>
  C22. Replay is lossless while the log grows. A client asks for the next page with its cursor, and
  meanwhile a transaction appends further records. The page followed by what the advanced cursor still
  has to see in the grown log is exactly what the old cursor had to see there, in order: nothing is
  lost, repeated or reordered. A page is empty only when nothing was left, a page that is not empty
  moves the cursor forward, and a positive limit bounds its length, so repeating the call ends.
\<close>

theorem replay_lossless:
  assumes wf: "table_wf t" and page: "ReplayEventRecords (ListEvents t) f c = (Inr recs, c')"
    and grow: "saveEventsTx rd es t = Inr t'"
  shows "recs @ remaining f c' (log_of t') = remaining f c (log_of t') \<and>
    (recs = [] \<longleftrightarrow> remaining f c (log_of t) = []) \<and>
    (recs \<noteq> [] \<longrightarrow> rc_AfterSequence c < rc_AfterSequence c') \<and>
    (0 < ef_Limit f \<longrightarrow> int (length recs) \<le> ef_Limit f)"
proof -
  note progress = sql_log.replay_progress [OF wf page]
  obtain new where new: "log_of t' = log_of t @ new" and wf': "table_wf t'"
    using saveEventsTx_Inr [OF wf grow] by blast
  have "remaining f c (log_of t') = recs @ (remaining f c' (log_of t) @ remaining f c new)"
    using progress(1) by (simp add: new)
  from remaining_after_page [OF sql_log.log_ordered [OF wf'] sql_log.log_positive [OF wf'] this]
  have "remaining f (advanceReplayCursor c recs) (log_of t') = remaining f c' (log_of t) @ remaining f c new" .
  moreover have "c' = advanceReplayCursor c recs"
    using page by (auto simp: ReplayEventRecords_def split: sum.splits)
  ultimately have "recs @ remaining f c' (log_of t') = remaining f c (log_of t')"
    using progress(1) by (simp add: new)
  with progress(2-4) show ?thesis by blast
qed

theorem replay_lossless_witness:
  "\<exists>recs c' t'. ReplayEventRecords (ListEvents demo_table) (any_event\<lparr>ef_Limit := 2\<rparr>) \<lparr>rc_AfterSequence = 0\<rparr> = (Inr recs, c') \<and>
     saveEventsTx 1 [demo_late] demo_table = Inr t' \<and>
     recs @ remaining (any_event\<lparr>ef_Limit := 2\<rparr>) c' (log_of t') =
       remaining (any_event\<lparr>ef_Limit := 2\<rparr>) \<lparr>rc_AfterSequence = 0\<rparr> (log_of t')"
proof -
  let ?f = "any_event\<lparr>ef_Limit := 2\<rparr>" and ?c = "\<lparr>rc_AfterSequence = 0\<rparr>"
  obtain t' where t': "saveEventsTx 1 [demo_late] demo_table = Inr t'" using demo_save by blast
  obtain recs c' where page: "ReplayEventRecords (ListEvents demo_table) ?f ?c = (Inr recs, c')"
    by (simp add: ReplayEventRecords_def ListEvents_page [OF demo_table_wf])
  from replay_lossless [OF demo_table_wf page t'] page t' show ?thesis by blast
qed

section \<open>Runs and workers\<close>

text \<open>
  C23. Listing is looking up. \<^verbatim>\<open>ListRuns\<close> groups one pass over the whole log by run, \<^verbatim>\<open>GetRun\<close> lists the
  records of one run. The two agree: for every filter, the listing is the lookup of every run of the
  log in the order of first appearance, with the first failing lookup's error, less the runs the
  filter rejects. When the runs can be projected, \<^verbatim>\<open>ListWorkers\<close> gives in the same way what
  \<^verbatim>\<open>GetWorker\<close> gives for every worker, and the summary of a worker counts each of its runs under exactly one of
  the six statuses.
\<close>

theorem listings_agree_with_lookups:
  assumes wf: "table_wf t"
  shows "ListRuns (ListEvents t) g =
      keep (\<lambda>r. matchesRunFilter r g)
        (in_sequence (map (GetRun (ListEvents t)) (group_keys ev_RunID (log_of t)))) \<and>
    (\<forall>runs. ListRuns (ListEvents t) any_run = Inr runs \<longrightarrow>
      ListWorkers (ListEvents t) f =
        keep (\<lambda>w. matchesWorkerFilter w f)
          (in_sequence (map (GetWorker (ListEvents t)) (group_keys rs_WorkerID runs))) \<and>
      (\<forall>wid w. GetWorker (ListEvents t) wid = Inr w \<longrightarrow>
        ws_ID w = wid \<and> counted w = length (filter (\<lambda>r. rs_WorkerID r = wid) runs) \<and>
        ws_ActiveRuns w = length (filter (\<lambda>r. rs_WorkerID r = wid \<and> rs_Status r = RunRunning) runs)))"
proof (intro conjI allI impI)
  show "ListRuns (ListEvents t) g =
      keep (\<lambda>r. matchesRunFilter r g)
        (in_sequence (map (GetRun (ListEvents t)) (group_keys ev_RunID (log_of t))))"
    using wf by (rule sql_log.ListRuns_eq)
next
  fix runs
  assume "ListRuns (ListEvents t) any_run = Inr runs"
  with wf show "ListWorkers (ListEvents t) f =
      keep (\<lambda>w. matchesWorkerFilter w f)
        (in_sequence (map (GetWorker (ListEvents t)) (group_keys rs_WorkerID runs)))"
    by (rule sql_log.ListWorkers_eq)
next
  fix runs wid w
  assume runs: "ListRuns (ListEvents t) any_run = Inr runs" and w: "GetWorker (ListEvents t) wid = Inr w"
  let ?own = "filter (\<lambda>r. rs_WorkerID r = wid) runs"
  from w have "wid \<noteq> []" by (auto simp: GetWorker_def)
  with w runs have w: "w = summarizeWorkerRuns wid ?own"
    by (simp add: GetWorker_def sql_log.ListRuns_any [OF wf, of "any_run\<lparr>rf_WorkerID := wid\<rparr>"]
        matches_worker_run split: if_splits)
  show "ws_ID w = wid" by (simp add: w summarizeWorkerRuns_counts)
  show "counted w = length ?own"
    unfolding w using sql_log.ListRuns_status [OF wf runs] by (intro counted_all) auto
  show "ws_ActiveRuns w = length (filter (\<lambda>r. rs_WorkerID r = wid \<and> rs_Status r = RunRunning) runs)"
    by (simp add: w summarizeWorkerRuns_counts runs_in_def conj_commute)
qed

theorem listings_agree_with_lookups_witness:
  "\<exists>runs. ListRuns (ListEvents demo_table) any_run = Inr runs \<and>
     Inr runs = in_sequence (map (GetRun (ListEvents demo_table)) [''r1'', ''r2'']) \<and>
     ListWorkers (ListEvents demo_table) \<lparr>wf_IDs = [], wf_ActiveOnly = True\<rparr> =
       keep (\<lambda>w. matchesWorkerFilter w \<lparr>wf_IDs = [], wf_ActiveOnly = True\<rparr>)
         (in_sequence (map (GetWorker (ListEvents demo_table)) (group_keys rs_WorkerID runs)))"
proof -
  have keys: "group_keys ev_RunID (log_of demo_table) = [''r1'', ''r2'']"
    by (simp add: demo_log demo_stamped_def demo_events_def newEventRecord_def group_keys_def first_seen_def)
  obtain runs where runs: "ListRuns (ListEvents demo_table) any_run = Inr runs"
    using demo_runs by blast
  from listings_agree_with_lookups [OF demo_table_wf, of any_run] runs
  have "Inr runs = in_sequence (map (GetRun (ListEvents demo_table)) [''r1'', ''r2''])" by (simp add: keys)
  with listings_agree_with_lookups [OF demo_table_wf] runs show ?thesis by blast
qed

section \<open>Typed payloads\<close>

text \<open>
  C33. Payloads are typed by the kind. Whatever kind a record has and whatever bytes it carries, when
  \<^verbatim>\<open>DecodeEvent\<close> succeeds the payload is the struct that belongs to the record's kind. So neither
  \<^verbatim>\<open>ListLeaseRecoveries\<close> nor \<^verbatim>\<open>ListCommandRecoveries\<close> meets another struct at its type assertion, and when the
  records it asks for decode, it returns one summary per record whose payload says recovered, in log
  order, up to the limit.
\<close>

theorem decoded_payload_typed:
  assumes wf: "table_wf t"
  shows "(\<forall>e d. DecodeEvent e = Inr d \<longrightarrow> dec_Record d = e \<and> event_kind_of (dec_Payload d) = ev_Kind e) \<and>
    (\<forall>ds. decode_all (page (lease_recovery_filter f) (log_of t)) = Inr ds \<longrightarrow>
       (\<forall>d \<in> set ds. \<exists>tid rid lid wid at rq st why rec.
          dec_Payload d = LeaseReleasedEvent tid rid lid wid at rq st why rec) \<and>
       ListLeaseRecoveries (Some (ListEvents t)) f = Inr (limited (rhf_Limit f) (List.map_filter lease_recovery_of ds))) \<and>
    (\<forall>ds. decode_all (page (command_recovery_filter f) (log_of t)) = Inr ds \<longrightarrow>
       (\<forall>d \<in> set ds. \<exists>cid k tid rid who at why rec. dec_Payload d = CommandReleasedEvent cid k tid rid who at why rec) \<and>
       ListCommandRecoveries (Some (ListEvents t)) f = Inr (limited (rhf_Limit f) (List.map_filter command_recovery_of ds)))"
proof (intro conjI allI impI ballI)
  show "dec_Record d = e" and "event_kind_of (dec_Payload d) = ev_Kind e" if "DecodeEvent e = Inr d" for e d
    using DecodeEvent_kind [OF that] by simp_all
next
  fix ds
  assume ds: "decode_all (page (lease_recovery_filter f) (log_of t)) = Inr ds"
  show "\<exists>tid rid lid wid at rq st why rec. dec_Payload d = LeaseReleasedEvent tid rid lid wid at rq st why rec"
    if "d \<in> set ds" for d
    using page_of_kind [OF ds _ that] released_kind_text(1) by (simp add: lease_recovery_filter_def)
  show "ListLeaseRecoveries (Some (ListEvents t)) f = Inr (limited (rhf_Limit f) (List.map_filter lease_recovery_of ds))"
    using collect_listing [OF ds] by (simp add: ListLeaseRecoveries_def ListEvents_page [OF wf])
next
  fix ds
  assume ds: "decode_all (page (command_recovery_filter f) (log_of t)) = Inr ds"
  show "\<exists>cid k tid rid who at why rec. dec_Payload d = CommandReleasedEvent cid k tid rid who at why rec"
    if "d \<in> set ds" for d
    using page_of_kind [OF ds _ that] released_kind_text(2) by (simp add: command_recovery_filter_def)
  show "ListCommandRecoveries (Some (ListEvents t)) f = Inr (limited (rhf_Limit f) (List.map_filter command_recovery_of ds))"
    using collect_listing [OF ds] by (simp add: ListCommandRecoveries_def ListEvents_page [OF wf])
qed

theorem decoded_payload_typed_witness:
  "\<exists>t' lr cr. saveEventsTx 1 [demo_release, demo_command_release] demo_table = Inr t' \<and>
     ListLeaseRecoveries (Some (ListEvents t')) any_recovery = Inr [lr] \<and> lrs_LeaseID lr = ''l2'' \<and>
     ListCommandRecoveries (Some (ListEvents t')) any_recovery = Inr [cr] \<and> crs_CommandID cr = ''c1''"
proof -
  have "''event-e'' \<notin> row_id ` set (et_rows demo_table)" "''event-f'' \<notin> row_id ` set (et_rows demo_table)"
    using demo_table_seq(2) by (auto simp: image_def)
  then obtain t1 t' where t1: "saveEventTx 1 demo_release demo_table = Inr t1" and t': "saveEventTx 1 demo_command_release t1 = Inr t'"
    by (simp add: saveEventTx_def Let_def demo_release_def demo_command_release_def newEventRecord_def)
  note wf1 = saveEventTx_Inr [OF demo_table_wf t1]
  note wf = saveEventTx_Inr [OF wf1(1) t']
  have "et_seq t1 = 4" using t1 demo_table_seq(1) by (auto simp: saveEventTx_def Let_def split: if_splits option.splits)
  then have log: "log_of t' = demo_stamped @ [demo_release\<lparr>ev_Sequence := 4\<rparr>, demo_command_release\<lparr>ev_Sequence := 5\<rparr>]"
    using stamped_new [where ev = "LeaseReleasedEvent _ _ _ _ _ _ _ _ _"] stamped_new [where ev = "CommandReleasedEvent _ _ _ _ _ _ _ _"]
    unfolding wf(2) wf1(2) demo_log demo_table_seq(1) demo_release_def demo_command_release_def
    by simp (simp add: newEventRecord_def normalizeNow_def)
  have "page (lease_recovery_filter any_recovery) (log_of t') = [demo_release\<lparr>ev_Sequence := 4\<rparr>]"
    "page (command_recovery_filter any_recovery) (log_of t') = [demo_command_release\<lparr>ev_Sequence := 5\<rparr>]"
    by (simp_all add: log page_def limited_def lease_recovery_filter_def command_recovery_filter_def any_recovery_def any_event_def
        selects_def demo_release_def demo_command_release_def demo_log_defs)
  moreover have "DecodeEvent (demo_release\<lparr>ev_Sequence := 4\<rparr>) = Inr \<lparr>dec_Record = demo_release\<lparr>ev_Sequence := 4\<rparr>,
      dec_Payload = json_event (LeaseReleasedEvent ''t2'' ''r2'' ''l2'' ''w2'' 70 True TaskPending ''lease expired'' True)\<rparr>"
    by (intro DecodeEvent_event_json) (simp_all add: demo_release_def newEventRecord_def)
  moreover have "DecodeEvent (demo_command_release\<lparr>ev_Sequence := 5\<rparr>) = Inr \<lparr>dec_Record = demo_command_release\<lparr>ev_Sequence := 5\<rparr>,
      dec_Payload = json_event (CommandReleasedEvent ''c1'' CommandAbortRun ''t2'' ''r2'' ''w2'' 80 ''worker gone'' True)\<rparr>"
    by (intro DecodeEvent_event_json) (simp_all add: demo_command_release_def newEventRecord_def)
  ultimately show ?thesis
    using decoded_payload_typed [OF wf(1), of any_recovery] t1 t'
    by (auto simp: limited_def any_recovery_def lease_recovery_of_def command_recovery_of_def)
qed

end
