(* ===== verification/Sql_Time.thy ===== *)
theory Sql_Time
  imports Hist_Log
begin

text \<open>
  Times as the SQLite store writes them into its columns: \<^verbatim>\<open>formatTime\<close> of
  \<^verbatim>\<open>ext/orchestrator/sqlite/store.go\<close>, which formats a UTC time with \<^verbatim>\<open>time.RFC3339Nano\<close>. SQLite compares
  the texts byte by byte; the second part of the theory says when that is the order of the times.
  Times before the year 1 do not occur.
\<close>

section \<open>Formatting\<close>

definition pad :: "nat \<Rightarrow> nat \<Rightarrow> string" where
  "pad w n = replicate (w - length (show_nat n)) CHR ''0'' @ show_nat n"

definition leap_year :: "nat \<Rightarrow> bool" where
  "leap_year y \<longleftrightarrow> y mod 4 = 0 \<and> (y mod 100 \<noteq> 0 \<or> y mod 400 = 0)"

text \<open>Year and day of the year, both from 0, of a day counted from the first of January of the year 1.\<close>

definition year_of_day :: "nat \<Rightarrow> nat \<times> nat" where
  "year_of_day d =
     (let n400 = d div 146097; d = d mod 146097;
          n100 = min 3 (d div 36524); d = d - 36524 * n100;
          n4 = d div 1461; d = d mod 1461;
          n1 = min 3 (d div 365); d = d - 365 * n1
      in (400 * n400 + 100 * n100 + 4 * n4 + n1, d))"

definition days_before :: "bool \<Rightarrow> nat list" where
  "days_before leap =
     (if leap then [0, 31, 60, 91, 121, 152, 182, 213, 244, 274, 305, 335]
      else [0, 31, 59, 90, 120, 151, 181, 212, 243, 273, 304, 334])"

definition date_text :: "nat \<Rightarrow> string" where
  "date_text d =
     (let (y, yday) = year_of_day d; year = y + 1; starts = filter (\<lambda>b. b \<le> yday) (days_before (leap_year year))
      in pad 4 year @ ''-'' @ pad 2 (length starts) @ ''-'' @ pad 2 (yday - last starts + 1))"

definition stamp :: "nat \<Rightarrow> string" where
  "stamp secs =
     (let sod = secs mod 86400 in
      date_text (secs div 86400) @ ''T'' @ pad 2 (sod div 3600) @ '':'' @ pad 2 (sod mod 3600 div 60) @ '':''
        @ pad 2 (sod mod 60))"

text \<open>The fraction without its trailing zeros, and nothing for a whole second.\<close>

definition fraction :: "nat \<Rightarrow> string" where
  "fraction ns = (if ns = 0 then [] else CHR ''.'' # rev (dropWhile (\<lambda>c. c = CHR ''0'') (rev (pad 9 ns))))"

definition RFC3339Nano :: "time \<Rightarrow> string" where
  "RFC3339Nano t = stamp (nat (t div 1000000000)) @ fraction (nat (t mod 1000000000)) @ ''Z''"

definition formatTime :: "time \<Rightarrow> time \<Rightarrow> string" where
  "formatTime rd t = RFC3339Nano (normalizeNow rd t)"

section \<open>Ordering rows\<close>

text \<open>\<^verbatim>\<open>ORDER BY col ASC, id ASC\<close> over the keys of a table, compared as texts.\<close>

definition order_by :: "('v \<Rightarrow> string) \<Rightarrow> (string, 'v) go_map \<Rightarrow> string list" where
  "order_by col m =
     sort_key (\<lambda>k. ((case fmlookup m k of None \<Rightarrow> [] | Some r \<Rightarrow> col r), k)) (map_keys m)"

section \<open>Comparing texts\<close>

lemma less_append_same [simp]: "xs @ ys < xs @ zs \<longleftrightarrow> ys < (zs :: 'a::linorder list)"
  by (induction xs) simp_all

lemma dot_before_Z: "CHR ''.'' < CHR ''Z''"
  by (simp add: less_char_def)

text \<open>
  Within one second a time with a fraction sorts before the whole second, although it is later: the
  full stop comes before the letter that ends the text.
\<close>

lemma fraction_sorts_before_whole_second:
  assumes "e mod 1000000000 = 0" and "0 < d" and "d < 1000000000" and "e \<noteq> 0" and "e + d \<noteq> 0"
  shows "formatTime rd (e + d) < formatTime rd' e"
proof -
  have "(e + d) div 1000000000 = e div 1000000000" and m: "(e + d) mod 1000000000 = d"
    using assms(1-3) by (auto simp: div_add1_eq mod_add_eq [symmetric])
  then show ?thesis
    using assms dot_before_Z by (simp add: formatTime_def normalizeNow_def RFC3339Nano_def fraction_def)
qed

end
