(* ===== verification/Sql_Store.thy ===== *)
theory Sql_Store
  imports Sql_Time Orch_Commands
begin

text \<open>
  The durable store, \<^verbatim>\<open>ext/orchestrator/sqlite/store.go\<close>: its tables, transactions and the task and lease
  operations, in the order of the source. A row keeps the columns that queries read; its JSON payload
  is kept as the value it encodes, which is what is read back when its strings are valid UTF-8 and its
  numbers of type \<^verbatim>\<open>any\<close> are floats. An operation runs in one transaction: it returns an error and the
  database is rolled back, or it returns a result, the records it inserts into the event table at the
  end, and the events it publishes after the commit. Failures of the database itself are not
  modelled. The mutex makes each operation atomic.
\<close>

section \<open>State\<close>

record task_row =
  tr_created_at :: string
  tr_kind :: string
  tr_status :: string
  tr_payload :: task

record lease_row =
  lr_expires_at :: string
  lr_payload :: lease

record command_row =
  cr_created_at :: string
  cr_status :: string
  cr_target_worker_id :: string
  cr_payload :: command

record artifact_row =
  ar_created_at :: string
  ar_task_id :: string
  ar_payload :: artifact

record sql_db =
  db_tasks :: "(string, task_row) go_map"
  db_leases :: "(string, lease_row) go_map"
  db_commands :: "(string, command_row) go_map"
  db_artifacts :: "(string, artifact_row) go_map"
  db_events :: event_table

record sql_store =
  sq_db :: sql_db
  sq_bus :: "orch_event list option"

definition sq_NewStore :: "orch_event list option \<Rightarrow> sql_store" where
  "sq_NewStore bus = \<lparr>sq_db = \<lparr>db_tasks = fmempty, db_leases = fmempty, db_commands = fmempty,
     db_artifacts = fmempty, db_events = createEventSchema\<rparr>, sq_bus = bus\<rparr>"

text \<open>
  What an operation meets outside the database: the readings of \<^verbatim>\<open>time.Now\<close> in its body, the reading
  used where a zero time is formatted or normalised, the UUIDs (a stream per prefix of \<^verbatim>\<open>newID\<close>), and
  the order in which Go visits a map.
\<close>

record sql_env =
  env_now :: clock
  env_save :: time
  env_uuid :: "string \<Rightarrow> nat \<Rightarrow> string"
  env_iter :: iter_order

definition newID :: "sql_env \<Rightarrow> string \<Rightarrow> nat \<Rightarrow> string" where
  "newID env prefix n = prefix @ ''-'' @ env_uuid env prefix n"

section \<open>Loading and saving rows\<close>

abbreviation tryLoadTaskTx :: "sql_db \<Rightarrow> string \<Rightarrow> task option" where
  "tryLoadTaskTx db k \<equiv> map_option tr_payload (fmlookup (db_tasks db) k)"

abbreviation tryLoadLeaseTx :: "sql_db \<Rightarrow> string \<Rightarrow> lease option" where
  "tryLoadLeaseTx db k \<equiv> map_option lr_payload (fmlookup (db_leases db) k)"

abbreviation tryLoadCommandTx :: "sql_db \<Rightarrow> string \<Rightarrow> command option" where
  "tryLoadCommandTx db k \<equiv> map_option cr_payload (fmlookup (db_commands db) k)"

definition task_row_of :: "sql_env \<Rightarrow> task \<Rightarrow> task_row" where
  "task_row_of env t = \<lparr>tr_created_at = formatTime (env_save env) (task_CreatedAt t), tr_kind = task_Kind t,
     tr_status = status_text (task_Status t), tr_payload = t\<rparr>"

definition saveTaskTx :: "sql_env \<Rightarrow> task \<Rightarrow> sql_db \<Rightarrow> sql_db" where
  "saveTaskTx env t db = db\<lparr>db_tasks := fmupd (task_ID t) (task_row_of env t) (db_tasks db)\<rparr>"

definition saveLeaseTx :: "sql_env \<Rightarrow> lease \<Rightarrow> sql_db \<Rightarrow> sql_db" where
  "saveLeaseTx env l db = db\<lparr>db_leases := fmupd (lease_TaskID l)
     \<lparr>lr_expires_at = formatTime (env_save env) (lease_ExpiresAt l), lr_payload = l\<rparr> (db_leases db)\<rparr>"

definition deleteLeaseTx :: "string \<Rightarrow> sql_db \<Rightarrow> sql_db" where
  "deleteLeaseTx k db = db\<lparr>db_leases := fmdrop k (db_leases db)\<rparr>"

fun command_status_text :: "command_status \<Rightarrow> string" where
  "command_status_text CommandPending = ''pending''"
| "command_status_text CommandClaimed = ''claimed''"
| "command_status_text CommandHandled = ''handled''"
| "command_status_text (CommandStatusOther s) = s"

definition saveCommandTx :: "sql_env \<Rightarrow> command \<Rightarrow> sql_db \<Rightarrow> sql_db" where
  "saveCommandTx env c db = db\<lparr>db_commands := fmupd (cmd_ID c)
     \<lparr>cr_created_at = formatTime (env_save env) (cmd_CreatedAt c), cr_status = command_status_text (cmd_Status c),
      cr_target_worker_id = cmd_TargetWorkerID c, cr_payload = c\<rparr> (db_commands db)\<rparr>"

definition saveArtifactTx :: "sql_env \<Rightarrow> artifact \<Rightarrow> sql_db \<Rightarrow> sql_db" where
  "saveArtifactTx env a db = db\<lparr>db_artifacts := fmupd (art_ID a)
     \<lparr>ar_created_at = formatTime (env_save env) (art_CreatedAt a), ar_task_id = art_TaskID a, ar_payload = a\<rparr>
     (db_artifacts db)\<rparr>"

definition listTaskIDsTx :: "sql_db \<Rightarrow> string list" where
  "listTaskIDsTx db = order_by tr_created_at (db_tasks db)"

definition listTasksTx :: "sql_db \<Rightarrow> task list" where
  "listTasksTx db = List.map_filter (tryLoadTaskTx db) (order_by tr_created_at (db_tasks db))"

section \<open>Transactions\<close>

text \<open>
  A record constructor waits for the identifier that \<^verbatim>\<open>newID("event")\<close> draws. What a transaction
  returns: the result, the records to insert, the events to publish once it is committed.
\<close>

type_synonym builder = "string \<Rightarrow> event_record"

record 'a tx_out =
  tx_result :: 'a
  tx_records :: "builder list"
  tx_events :: "orch_event list"
  tx_db :: sql_db

definition tx_done :: "'a \<Rightarrow> builder list \<Rightarrow> orch_event list \<Rightarrow> sql_db \<Rightarrow> 'a tx_out result" where
  "tx_done r bs evs db = Inr \<lparr>tx_result = r, tx_records = bs, tx_events = evs, tx_db = db\<rparr>"

definition draw_ids :: "sql_env \<Rightarrow> builder list \<Rightarrow> event_record list" where
  "draw_ids env bs = map2 (\<lambda>n b. b (newID env ''event'' n)) [0..<length bs] bs"

definition publish_all :: "orch_event list \<Rightarrow> orch_event list option \<Rightarrow> orch_event list option" where
  "publish_all evs bus = map_option (\<lambda>log. log @ evs) bus"

text \<open>
  \<^verbatim>\<open>withTx\<close> around the body, \<^verbatim>\<open>saveEventsTx\<close> at its end, publication behind the commit. Inserting the
  records of a loop one by one or together at the end is the same: no other table depends on them,
  and an error rolls everything back.
\<close>

definition withTx :: "sql_env \<Rightarrow> (sql_db \<Rightarrow> 'a tx_out result) \<Rightarrow> sql_store \<Rightarrow> 'a result \<times> sql_store" where
  "withTx env fn s =
     (case fn (sq_db s) of
        Inl e \<Rightarrow> (Inl e, s)
      | Inr out \<Rightarrow>
          (case saveEventsTx (env_save env) (draw_ids env (tx_records out)) (db_events (tx_db out)) of
             Inl e \<Rightarrow> (Inl e, s)
           | Inr tab \<Rightarrow> (Inr (tx_result out),
               \<lparr>sq_db = (tx_db out)\<lparr>db_events := tab\<rparr>, sq_bus = publish_all (tx_events out) (sq_bus s)\<rparr>)))"

section \<open>Published events\<close>

definition task_created_event :: "task \<Rightarrow> orch_event" where
  "task_created_event t = TaskCreatedEvent (task_ID t) (task_Kind t) (task_Subject t) (task_Description t) (task_CreatedAt t)"

definition task_updated_event :: "task \<Rightarrow> orch_event" where
  "task_updated_event t = TaskUpdatedEvent (task_ID t) (task_Subject t) (cloneStrings (task_Blocks t))
     (cloneStrings (task_BlockedBy t)) (task_UpdatedAt t)"

definition task_claimed_event :: "task \<Rightarrow> lease \<Rightarrow> orch_event" where
  "task_claimed_event t l = TaskClaimedEvent (task_ID t) (run_id_of t) (lease_ID l) (lease_WorkerID l) (task_Attempt t)
     (lease_AcquiredAt l) (lease_ExpiresAt l)"

definition lease_renewed_event :: "lease \<Rightarrow> string \<Rightarrow> orch_event" where
  "lease_renewed_event l runID = LeaseRenewedEvent (lease_TaskID l) runID (lease_ID l) (lease_WorkerID l) (lease_ExpiresAt l)"

definition lease_released_event ::
    "lease \<Rightarrow> string \<Rightarrow> bool \<Rightarrow> task_status \<Rightarrow> string \<Rightarrow> bool \<Rightarrow> time \<Rightarrow> orch_event" where
  "lease_released_event l runID requeued status reason recovered at =
     LeaseReleasedEvent (lease_TaskID l) runID (lease_ID l) (lease_WorkerID l) at requeued status reason recovered"

definition task_requeued_event :: "task \<Rightarrow> string \<Rightarrow> int \<Rightarrow> string \<Rightarrow> orch_event" where
  "task_requeued_event t lastRunID lastAttempt reason =
     TaskRequeuedEvent (task_ID t) lastRunID lastAttempt reason (task_UpdatedAt t)"

definition task_completed_event :: "task \<Rightarrow> orch_event" where
  "task_completed_event t = TaskCompletedEvent (task_ID t) (run_id_of t) (task_Attempt t) (task_CompletedAt t)"

definition task_failed_event :: "task \<Rightarrow> orch_event" where
  "task_failed_event t = TaskFailedEvent (task_ID t) (run_id_of t) (task_Attempt t) (task_LastError t) (task_CompletedAt t)"

definition task_canceled_event :: "task \<Rightarrow> orch_event" where
  "task_canceled_event t = TaskCanceledEvent (task_ID t) (run_id_of t) (task_Attempt t) (task_LastError t) (task_CompletedAt t)"

definition artifact_created_event :: "artifact \<Rightarrow> orch_event" where
  "artifact_created_event a = ArtifactCreatedEvent (art_ID a) (art_TaskID a) (art_RunID a) (art_Kind a) (art_Name a)
     (art_ContentType a) (int (length (art_Body a))) (art_CreatedAt a)"

section \<open>Helpers\<close>

definition sq_appendUniqueStrings :: "string list \<Rightarrow> string list \<Rightarrow> string list" where
  "sq_appendUniqueStrings src vals = fold (\<lambda>v out. if v \<in> set out then out else out @ [v]) vals (cloneStrings src)"

definition sq_cancelReason :: "string \<Rightarrow> string" where
  "sq_cancelReason reason = (if reason \<noteq> [] then reason else ''task canceled'')"

definition sq_retryReason :: "string \<Rightarrow> string" where
  "sq_retryReason reason = (if reason \<noteq> [] then ''command retry: '' @ reason else ''command retry'')"

definition errorString :: "go_error option \<Rightarrow> string \<Rightarrow> string" where
  "errorString err fallback = (case err of None \<Rightarrow> fallback | Some e \<Rightarrow> error_text e)"

definition requeueTask :: "sql_env \<Rightarrow> task \<Rightarrow> time \<Rightarrow> bool \<Rightarrow> task \<times> string \<times> int" where
  "requeueTask env t now rollbackAttempt =
     (t\<lparr>task_Status := TaskPending, task_Result := None, task_Run := None, task_StartedAt := zero_time,
        task_CompletedAt := zero_time, task_UpdatedAt := normalizeNow (env_save env) now,
        task_Attempt := (if rollbackAttempt \<and> task_Attempt t > 0 then task_Attempt t - 1 else task_Attempt t)\<rparr>,
      run_id_of t, task_Attempt t)"

definition validateTaskDependenciesTx :: "string list \<Rightarrow> string list \<Rightarrow> sql_db \<Rightarrow> go_error option" where
  "validateTaskDependenciesTx blocks blockedBy db =
     (if list_ex (\<lambda>k. tryLoadTaskTx db k = None) blocks then Some (Sentinel ErrTaskDependencyNotFound)
      else if list_ex (\<lambda>k. tryLoadTaskTx db k = None) blockedBy then Some (Sentinel ErrTaskDependencyNotFound)
      else None)"

text \<open>
  \<^verbatim>\<open>linkTaskDependenciesTx\<close> loads every peer afresh, adds the reverse edge, and saves it when that is new.
  It collects the peers in a Go map, which the caller receives in visiting order.
\<close>

fun link_blocked_tx ::
    "sql_env \<Rightarrow> string \<Rightarrow> time \<Rightarrow> string list \<Rightarrow> (string, task) go_map \<Rightarrow> sql_db \<Rightarrow> ((string, task) go_map \<times> sql_db) result" where
  "link_blocked_tx env tid now [] upd db = Inr (upd, db)"
| "link_blocked_tx env tid now (k # ks) upd db =
     (case tryLoadTaskTx db k of
        None \<Rightarrow> Inl (Sentinel ErrTaskNotFound)
      | Some b \<Rightarrow>
          (let bb = sq_appendUniqueStrings (task_BlockedBy b) [tid]
           in if length bb = length (task_BlockedBy b) then link_blocked_tx env tid now ks upd db
              else (let b = b\<lparr>task_BlockedBy := bb, task_UpdatedAt := now\<rparr>
                    in link_blocked_tx env tid now ks (fmupd (task_ID b) b upd) (saveTaskTx env b db))))"

fun link_blocker_tx ::
    "sql_env \<Rightarrow> string \<Rightarrow> time \<Rightarrow> string list \<Rightarrow> (string, task) go_map \<Rightarrow> sql_db \<Rightarrow> ((string, task) go_map \<times> sql_db) result" where
  "link_blocker_tx env tid now [] upd db = Inr (upd, db)"
| "link_blocker_tx env tid now (k # ks) upd db =
     (case tryLoadTaskTx db k of
        None \<Rightarrow> Inl (Sentinel ErrTaskNotFound)
      | Some b \<Rightarrow>
          (let bs = sq_appendUniqueStrings (task_Blocks b) [tid]
           in if length bs = length (task_Blocks b) then link_blocker_tx env tid now ks upd db
              else (let b = b\<lparr>task_Blocks := bs, task_UpdatedAt := now\<rparr>
                    in link_blocker_tx env tid now ks (fmupd (task_ID b) b upd) (saveTaskTx env b db))))"

definition linkTaskDependenciesTx :: "sql_env \<Rightarrow> task \<Rightarrow> time \<Rightarrow> sql_db \<Rightarrow> (task list \<times> sql_db) result" where
  "linkTaskDependenciesTx env t now db =
     (case link_blocked_tx env (task_ID t) now (task_Blocks t) fmempty db of
        Inl e \<Rightarrow> Inl e
      | Inr (upd, db) \<Rightarrow>
          (case link_blocker_tx env (task_ID t) now (task_BlockedBy t) upd db of
             Inl e \<Rightarrow> Inl e
           | Inr (upd, db) \<Rightarrow> Inr (List.map_filter (fmlookup upd) (env_iter env (map_keys upd)), db)))"

definition isBlockedTx :: "sql_db \<Rightarrow> task \<Rightarrow> bool" where
  "isBlockedTx db t \<longleftrightarrow>
     list_ex (\<lambda>b. case tryLoadTaskTx db b of None \<Rightarrow> False | Some u \<Rightarrow> task_Status u \<noteq> TaskCompleted) (task_BlockedBy t)"

definition validateLeaseTx :: "sql_env \<Rightarrow> string \<Rightarrow> string \<Rightarrow> time \<Rightarrow> sql_db \<Rightarrow> (task \<times> lease) result" where
  "validateLeaseTx env taskID leaseToken now db =
     (case tryLoadTaskTx db taskID of
        None \<Rightarrow> Inl (Sentinel ErrTaskNotFound)
      | Some t \<Rightarrow>
          (case tryLoadLeaseTx db taskID of
             None \<Rightarrow> Inl (Sentinel ErrLeaseNotFound)
           | Some l \<Rightarrow>
               if lease_Token l \<noteq> leaseToken then Inl (Sentinel ErrLeaseMismatch)
               else if \<not> lease_ExpiresAt l > normalizeNow (env_save env) now then Inl (Sentinel ErrLeaseExpired)
               else Inr (t, l)))"

section \<open>Creating and reading tasks\<close>

definition sq_new_task :: "sql_env \<Rightarrow> time \<Rightarrow> create_task_request \<Rightarrow> task" where
  "sq_new_task env now req = \<lparr>task_ID = newID env ''task'' 0, task_Kind = ctr_Kind req,
     task_Subject = ctr_Subject req, task_Description = ctr_Description req,
     task_Input = ctr_Input req, task_Status = TaskPending, task_Attempt = 0,
     task_MaxAttempts = ctr_MaxAttempts req, task_Blocks = cloneStrings (ctr_Blocks req),
     task_BlockedBy = cloneStrings (ctr_BlockedBy req), task_Metadata = cloneAnyMap (ctr_Metadata req),
     task_Run = None, task_Result = None, task_LastError = [], task_CreatedAt = now,
     task_UpdatedAt = now, task_StartedAt = zero_time, task_CompletedAt = zero_time\<rparr>"

definition CreateTask_tx :: "sql_env \<Rightarrow> create_task_request \<Rightarrow> sql_db \<Rightarrow> task tx_out result" where
  "CreateTask_tx env req db =
     (case validateTaskDependenciesTx (ctr_Blocks req) (ctr_BlockedBy req) db of
        Some e \<Rightarrow> Inl e
      | None \<Rightarrow>
          (let now = env_now env 0; t = sq_new_task env now req
           in case linkTaskDependenciesTx env t now db of
                Inl e \<Rightarrow> Inl e
              | Inr (peers, db) \<Rightarrow>
                  tx_done (cloneTask t)
                    ((\<lambda>eid. taskCreatedRecord (env_save env) eid t) # map (\<lambda>p eid. taskUpdatedRecord (env_save env) eid p) peers)
                    (task_created_event t # map task_updated_event peers)
                    (saveTaskTx env t db)))"

definition sq_CreateTask :: "sql_env \<Rightarrow> create_task_request \<Rightarrow> sql_store \<Rightarrow> task result \<times> sql_store" where
  "sq_CreateTask env req = withTx env (CreateTask_tx env req)"

definition sq_GetTask :: "sql_store \<Rightarrow> string \<Rightarrow> task result" where
  "sq_GetTask s k = (case tryLoadTaskTx (sq_db s) k of None \<Rightarrow> Inl (Sentinel ErrTaskNotFound) | Some t \<Rightarrow> Inr (cloneTask t))"

definition sq_ListTasks :: "sql_store \<Rightarrow> task_filter \<Rightarrow> task list" where
  "sq_ListTasks s f = map cloneTask (filter (\<lambda>t. matchesFilter t f) (listTasksTx (sq_db s)))"

text \<open>The queries that the store answers itself; \<^verbatim>\<open>json_extract\<close> reads the payload.\<close>

definition sq_active_runs :: "sql_db \<Rightarrow> active_run_filter \<Rightarrow> task list" where
  "sq_active_runs db f = List.map_filter (\<lambda>k. case fmlookup (db_tasks db) k of
       None \<Rightarrow> None
     | Some r \<Rightarrow>
         (if tr_status r = ''running'' \<and> (arf_Kinds f \<noteq> [] \<longrightarrow> tr_kind r \<in> set (arf_Kinds f)) \<and>
             (arf_WorkerID f \<noteq> [] \<longrightarrow>
               (case task_Run (tr_payload r) of None \<Rightarrow> False | Some x \<Rightarrow> run_WorkerID x = arf_WorkerID f))
          then Some (tr_payload r) else None))
     (order_by tr_created_at (db_tasks db))"

definition activeRunSummaryFromTask :: "task \<Rightarrow> active_run_summary option" where
  "activeRunSummaryFromTask t = map_option (\<lambda>r. \<lparr>ars_RunID = run_ID r, ars_TaskID = task_ID t, ars_TaskKind = task_Kind t,
     ars_TaskSubject = task_Subject t, ars_WorkerID = run_WorkerID r, ars_Attempt = run_Attempt r,
     ars_StartedAt = run_StartedAt r, ars_UpdatedAt = task_UpdatedAt t\<rparr>) (task_Run t)"

definition sq_ListActiveRuns :: "sql_store \<Rightarrow> active_run_filter \<Rightarrow> active_run_summary list" where
  "sq_ListActiveRuns s f =
     List.map_filter (\<lambda>t. if run_id_of t = [] then None else activeRunSummaryFromTask t) (sq_active_runs (sq_db s) f)"

definition sq_GetActiveRun :: "sql_store \<Rightarrow> string \<Rightarrow> active_run_summary result" where
  "sq_GetActiveRun s runID =
     (if runID = [] then Inl (Sentinel ErrRunNotFound)
      else case List.find (\<lambda>t. run_id_of t = runID) (sq_active_runs (sq_db s) \<lparr>arf_WorkerID = [], arf_Kinds = []\<rparr>) of
        None \<Rightarrow> Inl (Sentinel ErrRunNotFound)
      | Some t \<Rightarrow> (case activeRunSummaryFromTask t of None \<Rightarrow> Inl (Sentinel ErrRunNotFound) | Some x \<Rightarrow> Inr x))"

section \<open>Claiming\<close>

definition sq_ttl_error :: go_error where
  "sq_ttl_error = ErrorString ''gollem/orchestrator/sqlite: lease ttl must be positive''"

definition sq_start_run :: "sql_env \<Rightarrow> string \<Rightarrow> time \<Rightarrow> task \<Rightarrow> task" where
  "sq_start_run env worker now t = t\<lparr>task_Attempt := task_Attempt t + 1, task_Status := TaskRunning,
     task_Run := Some \<lparr>run_ID = newID env ''run'' 0, run_TaskID = task_ID t, run_WorkerID = worker,
                       run_Attempt = task_Attempt t + 1, run_StartedAt = now\<rparr>,
     task_Result := None, task_LastError := [], task_StartedAt := now, task_CompletedAt := zero_time,
     task_UpdatedAt := now\<rparr>"

definition sq_new_lease :: "sql_env \<Rightarrow> string \<Rightarrow> time \<Rightarrow> duration \<Rightarrow> task \<Rightarrow> lease" where
  "sq_new_lease env worker now ttl t = \<lparr>lease_ID = newID env ''lease'' 0, lease_TaskID = task_ID t,
     lease_WorkerID = worker, lease_Token = newID env ''lease-token'' 0, lease_AcquiredAt = now,
     lease_ExpiresAt = now + ttl\<rparr>"

text \<open>
  \<^verbatim>\<open>claimTaskTx\<close> returns the claim or an error, the task it calls exhausted, if any, and the database.
  One operation makes at most one successful claim, so each claim draws the first identifiers.
\<close>

definition claimTaskTx ::
    "sql_env \<Rightarrow> string \<Rightarrow> claim_task_request \<Rightarrow> time \<Rightarrow> sql_db \<Rightarrow> claimed_task result \<times> task option \<times> sql_db" where
  "claimTaskTx env taskID req now db =
     (case tryLoadTaskTx db taskID of
        None \<Rightarrow> (Inl (Sentinel ErrTaskNotFound), None, db)
      | Some t \<Rightarrow>
          if containsString (clr_ExcludeTaskIDs req) taskID then (Inl (Sentinel ErrNoReadyTask), None, db)
          else if \<not> matchesKinds t (clr_Kinds req) then (Inl (Sentinel ErrNoReadyTask), None, db)
          else if isBlockedTx db t then (Inl (Sentinel ErrTaskBlocked), None, db)
          else
            (let l = tryLoadLeaseTx db taskID;
                 leaseExpired = (case l of None \<Rightarrow> False | Some l \<Rightarrow> \<not> lease_ExpiresAt l > now);
                 hasActiveLease = (l \<noteq> None \<and> \<not> leaseExpired)
             in if hasActiveLease then (Inl (Sentinel ErrNoReadyTask), None, db)
                else if task_MaxAttempts t > 0 \<and> task_Attempt t \<ge> task_MaxAttempts t
                then (if task_Status t \<noteq> TaskCompleted \<and> task_Status t \<noteq> TaskFailed
                      then (let t = exhaust_task now t
                            in (Inl (Sentinel ErrNoReadyTask), Some (cloneTask t),
                                deleteLeaseTx (task_ID t) (saveTaskTx env t db)))
                      else (Inl (Sentinel ErrNoReadyTask), Some (cloneTask t), db))
                else if task_Status t \<noteq> TaskPending \<and>
                        (task_Status t \<noteq> TaskRunning \<or> (\<not> leaseExpired \<and> l \<noteq> None))
                then (Inl (Sentinel ErrNoReadyTask), None, db)
                else
                  (let t' = sq_start_run env (clr_WorkerID req) now t;
                       l' = sq_new_lease env (clr_WorkerID req) now (clr_LeaseTTL req) t'
                   in (Inr \<lparr>claim_Task = cloneTask t', claim_Lease = l', claim_Run = task_Run t'\<rparr>, None,
                       saveLeaseTx env l' (saveTaskTx env t' db)))))"

definition failed_builders :: "sql_env \<Rightarrow> task list \<Rightarrow> builder list" where
  "failed_builders env ts = map (\<lambda>t eid. taskFailedRecord (env_save env) eid t) ts"

definition claim_builder :: "sql_env \<Rightarrow> claimed_task \<Rightarrow> builder" where
  "claim_builder env c = (\<lambda>eid. taskClaimedRecord (env_save env) eid (claim_Task c) (claim_Lease c))"

definition claim_event :: "claimed_task \<Rightarrow> orch_event" where
  "claim_event c = task_claimed_event (claim_Task c) (claim_Lease c)"

text \<open>The scan of \<^verbatim>\<open>ClaimReadyTask\<close>: tasks found exhausted on the way are recorded and published as failed.\<close>

fun claim_scan :: "sql_env \<Rightarrow> claim_task_request \<Rightarrow> time \<Rightarrow> string list \<Rightarrow> task list \<Rightarrow> sql_db
    \<Rightarrow> claimed_task result tx_out result" where
  "claim_scan env req now [] failed db =
     tx_done (Inl (Sentinel ErrNoReadyTask)) (failed_builders env failed) (map task_failed_event failed) db"
| "claim_scan env req now (k # ks) failed db =
     (case claimTaskTx env k req now db of
        (r, exhausted, db) \<Rightarrow>
          (let failed = failed @ (case exhausted of None \<Rightarrow> [] | Some t \<Rightarrow> [t])
           in case r of
                Inr c \<Rightarrow> tx_done (Inr (c)) (failed_builders env failed @ [claim_builder env c])
                          (map task_failed_event failed @ [claim_event c]) db
              | Inl e \<Rightarrow> if errors_Is e (Sentinel ErrNoReadyTask) \<or> errors_Is e (Sentinel ErrTaskBlocked)
                         then claim_scan env req now ks failed db else Inl e))"

definition flatten :: "'a result result \<times> 's \<Rightarrow> 'a result \<times> 's" where
  "flatten rs = (case rs of (Inl e, s) \<Rightarrow> (Inl e, s) | (Inr r, s) \<Rightarrow> (r, s))"

definition ClaimReadyTask_tx :: "sql_env \<Rightarrow> claim_task_request \<Rightarrow> sql_db \<Rightarrow> claimed_task result tx_out result" where
  "ClaimReadyTask_tx env req db =
     (claim_scan env req (normalizeNow (env_now env 0) (clr_Now req)) (listTaskIDsTx db) [] db)"

definition sq_ClaimReadyTask :: "sql_env \<Rightarrow> claim_task_request \<Rightarrow> sql_store \<Rightarrow> claimed_task result \<times> sql_store" where
  "sq_ClaimReadyTask env req s =
     (if clr_LeaseTTL req \<le> 0 then (Inl sq_ttl_error, s)
      else flatten (withTx env (ClaimReadyTask_tx env req) s))"

definition ClaimTask_tx :: "sql_env \<Rightarrow> string \<Rightarrow> claim_task_request \<Rightarrow> sql_db \<Rightarrow> claimed_task result tx_out result" where
  "ClaimTask_tx env taskID req db =
     (case claimTaskTx env taskID req (normalizeNow (env_now env 0) (clr_Now req)) db of
        (r, exhausted, db) \<Rightarrow>
          (case r of
             Inr c \<Rightarrow> tx_done (Inr c) [claim_builder env c] [claim_event c] db
           | Inl e \<Rightarrow>
               (case exhausted of
                  None \<Rightarrow> Inl e
                | Some t \<Rightarrow>
                    if errors_Is e (Sentinel ErrNoReadyTask)
                    then tx_done (Inl (Sentinel ErrNoReadyTask)) (failed_builders env [t]) [task_failed_event t] db
                    else Inl e)))"

definition sq_ClaimTask :: "sql_env \<Rightarrow> string \<Rightarrow> claim_task_request \<Rightarrow> sql_store \<Rightarrow> claimed_task result \<times> sql_store" where
  "sq_ClaimTask env taskID req s =
     (if clr_LeaseTTL req \<le> 0 then (Inl sq_ttl_error, s)
      else flatten (withTx env (ClaimTask_tx env taskID req) s))"

section \<open>Updating and deleting\<close>

definition UpdateTask_tx :: "sql_env \<Rightarrow> update_task_request \<Rightarrow> sql_db \<Rightarrow> task tx_out result" where
  "UpdateTask_tx env req db =
     (case tryLoadTaskTx db (utr_ID req) of
        None \<Rightarrow> Inl (Sentinel ErrTaskNotFound)
      | Some t \<Rightarrow>
          (case validateTaskDependenciesTx (utr_AddBlocks req) (utr_AddBlockedBy req) db of
             Some e \<Rightarrow> Inl e
           | None \<Rightarrow>
               (let now = env_now env 0;
                    t = t\<lparr>task_Subject := (case utr_Subject req of None \<Rightarrow> task_Subject t | Some x \<Rightarrow> x),
                          task_Description :=
                            (case utr_Description req of None \<Rightarrow> task_Description t | Some x \<Rightarrow> x),
                          task_Blocks := sq_appendUniqueStrings (task_Blocks t) (utr_AddBlocks req),
                          task_BlockedBy := sq_appendUniqueStrings (task_BlockedBy t) (utr_AddBlockedBy req),
                          task_Metadata := update_metadata (task_Metadata t) (utr_Metadata req),
                          task_UpdatedAt := now\<rparr>
                in case linkTaskDependenciesTx env t now db of
                     Inl e \<Rightarrow> Inl e
                   | Inr (peers, db) \<Rightarrow>
                       tx_done (cloneTask t)
                         (map (\<lambda>p eid. taskUpdatedRecord (env_save env) eid p) (t # peers))
                         (map task_updated_event (t # peers)) (saveTaskTx env t db))))"

definition sq_UpdateTask :: "sql_env \<Rightarrow> update_task_request \<Rightarrow> sql_store \<Rightarrow> task result \<times> sql_store" where
  "sq_UpdateTask env req s =
     (if utr_ID req = [] then (Inl (ErrorString ''gollem/orchestrator/sqlite: task id must not be empty''), s)
      else withTx env (UpdateTask_tx env req) s)"

fun unlink_all :: "sql_env \<Rightarrow> string \<Rightarrow> time \<Rightarrow> task list \<Rightarrow> sql_db \<Rightarrow> task list \<times> sql_db" where
  "unlink_all env k now [] db = ([], db)"
| "unlink_all env k now (t # ts) db =
     (if mentions k t
      then (let t = unlink k now t; (peers, db) = unlink_all env k now ts (saveTaskTx env t db) in (t # peers, db))
      else unlink_all env k now ts db)"

definition deleteArtifactsTx :: "string \<Rightarrow> sql_db \<Rightarrow> sql_db" where
  "deleteArtifactsTx k db = db\<lparr>db_artifacts := fmfilter
     (\<lambda>a. case fmlookup (db_artifacts db) a of None \<Rightarrow> True | Some r \<Rightarrow> ar_task_id r \<noteq> k) (db_artifacts db)\<rparr>"

definition deleteTaskTx :: "string \<Rightarrow> sql_db \<Rightarrow> sql_db" where
  "deleteTaskTx k db = deleteArtifactsTx k (deleteLeaseTx k (db\<lparr>db_tasks := fmdrop k (db_tasks db)\<rparr>))"

definition DeleteTask_tx :: "sql_env \<Rightarrow> string \<Rightarrow> sql_db \<Rightarrow> unit tx_out result" where
  "DeleteTask_tx env k db =
     (case tryLoadTaskTx db k of
        None \<Rightarrow> Inl (Sentinel ErrTaskNotFound)
      | Some _ \<Rightarrow>
          (let now = env_now env 0; db = deleteTaskTx k db; (peers, db) = unlink_all env k now (listTasksTx db) db
           in tx_done ()
                ((\<lambda>eid. taskDeletedRecord (env_save env) eid k now) # map (\<lambda>p eid. taskUpdatedRecord (env_save env) eid p) peers)
                (TaskDeletedEvent k now # map task_updated_event peers) db))"

definition sq_DeleteTask :: "sql_env \<Rightarrow> string \<Rightarrow> sql_store \<Rightarrow> unit result \<times> sql_store" where
  "sq_DeleteTask env k = withTx env (DeleteTask_tx env k)"

section \<open>Settling a run\<close>

fun createOutcomeArtifactsTx ::
    "sql_env \<Rightarrow> task \<Rightarrow> nat \<Rightarrow> artifact_spec list \<Rightarrow> time \<Rightarrow> sql_db \<Rightarrow> artifact list \<times> sql_db" where
  "createOutcomeArtifactsTx env t n [] createdAt db = ([], db)"
| "createOutcomeArtifactsTx env t n (sp # sps) createdAt db =
     (let a = \<lparr>art_ID = newID env ''artifact'' n, art_TaskID = task_ID t, art_RunID = run_id_of t,
               art_Kind = spec_Kind sp, art_Name = spec_Name sp, art_ContentType = spec_ContentType sp,
               art_Body = cloneBytes (spec_Body sp), art_Metadata = cloneAnyMap (spec_Metadata sp),
               art_CreatedAt = createdAt\<rparr>;
          (as, db) = createOutcomeArtifactsTx env t (Suc n) sps createdAt (saveArtifactTx env a db)
      in (a # as, db))"

definition CompleteTask_tx :: "sql_env \<Rightarrow> string \<Rightarrow> string \<Rightarrow> task_outcome option \<Rightarrow> time \<Rightarrow> sql_db \<Rightarrow> task tx_out result" where
  "CompleteTask_tx env taskID leaseToken outcome now db =
     (let now = normalizeNow (env_now env 0) now in
      case validateLeaseTx env taskID leaseToken now db of
        Inl e \<Rightarrow> Inl e
      | Inr (t, l) \<Rightarrow>
          (let result = Option.bind outcome outcome_Result;
               result = (case result of None \<Rightarrow> None
                         | Some r \<Rightarrow> Some (if result_CompletedAt r = zero_time then r\<lparr>result_CompletedAt := now\<rparr> else r));
               t = t\<lparr>task_Status := TaskCompleted, task_Result := cloneTaskResult result, task_LastError := [],
                     task_CompletedAt := now, task_UpdatedAt := now\<rparr>;
               (as, db) = createOutcomeArtifactsTx env t 0
                 (case outcome of None \<Rightarrow> [] | Some oc \<Rightarrow> outcome_Artifacts oc) now
                 (deleteLeaseTx (lease_TaskID l) (saveTaskTx env t db))
           in tx_done (cloneTask t)
                ((\<lambda>eid. taskCompletedRecord (env_save env) eid t) # map (\<lambda>a eid. artifactCreatedRecord (env_save env) eid a) as)
                (task_completed_event t # map artifact_created_event as) db))"

definition sq_CompleteTask :: "sql_env \<Rightarrow> string \<Rightarrow> string \<Rightarrow> task_outcome option \<Rightarrow> time \<Rightarrow> sql_store \<Rightarrow> task result \<times> sql_store" where
  "sq_CompleteTask env taskID leaseToken outcome now = withTx env (CompleteTask_tx env taskID leaseToken outcome now)"

definition FailTask_tx :: "sql_env \<Rightarrow> string \<Rightarrow> string \<Rightarrow> go_error option \<Rightarrow> time \<Rightarrow> sql_db \<Rightarrow> task tx_out result" where
  "FailTask_tx env taskID leaseToken runErr now db =
     (let now = normalizeNow (env_now env 0) now in
      case validateLeaseTx env taskID leaseToken now db of
        Inl e \<Rightarrow> Inl e
      | Inr (t, l) \<Rightarrow>
          if (case runErr of None \<Rightarrow> False | Some e \<Rightarrow> isRetryable e) \<and> \<not> exhaustedAttempts t
          then (let (t, lastRunID, lastAttempt) = requeueTask env t now False;
                    t = t\<lparr>task_LastError := errorString runErr ''retryable failure''\<rparr>
                in tx_done (cloneTask t)
                     [\<lambda>eid. taskRequeuedRecord (env_save env) eid t lastRunID lastAttempt ''retryable failure'']
                     [task_requeued_event t lastRunID lastAttempt ''retryable failure'']
                     (deleteLeaseTx (lease_TaskID l) (saveTaskTx env t db)))
          else (let t = t\<lparr>task_Status := TaskFailed, task_Result := None, task_LastError := errorString runErr ''task failed'',
                          task_CompletedAt := now, task_UpdatedAt := now\<rparr>
                in tx_done (cloneTask t) [\<lambda>eid. taskFailedRecord (env_save env) eid t] [task_failed_event t]
                     (deleteLeaseTx (lease_TaskID l) (saveTaskTx env t db))))"

definition sq_FailTask :: "sql_env \<Rightarrow> string \<Rightarrow> string \<Rightarrow> go_error option \<Rightarrow> time \<Rightarrow> sql_store \<Rightarrow> task result \<times> sql_store" where
  "sq_FailTask env taskID leaseToken runErr now = withTx env (FailTask_tx env taskID leaseToken runErr now)"

definition cancel_guard :: "task \<Rightarrow> lease option \<Rightarrow> string \<Rightarrow> time \<Rightarrow> go_error option" where
  "cancel_guard t l leaseToken now =
     (case task_Status t of
        TaskPending \<Rightarrow> if leaseToken \<noteq> [] then Some (Sentinel ErrLeaseMismatch) else None
      | TaskRunning \<Rightarrow>
          (case l of
             None \<Rightarrow> Some (Sentinel ErrLeaseNotFound)
           | Some l \<Rightarrow> if \<not> lease_ExpiresAt l > now then Some (Sentinel ErrLeaseExpired)
                      else if leaseToken = [] \<or> lease_Token l \<noteq> leaseToken then Some (Sentinel ErrLeaseMismatch)
                      else None)
      | _ \<Rightarrow> Some (Sentinel ErrTaskNotCancelable))"

definition CancelTask_tx :: "sql_env \<Rightarrow> string \<Rightarrow> string \<Rightarrow> string \<Rightarrow> time \<Rightarrow> sql_db \<Rightarrow> task tx_out result" where
  "CancelTask_tx env taskID leaseToken reason now db =
     (let now = normalizeNow (env_now env 0) now in
      case tryLoadTaskTx db taskID of
        None \<Rightarrow> Inl (Sentinel ErrTaskNotFound)
      | Some t \<Rightarrow>
          (case cancel_guard t (tryLoadLeaseTx db taskID) leaseToken now of
             Some e \<Rightarrow> Inl e
           | None \<Rightarrow>
               (let t = t\<lparr>task_Status := TaskCanceled, task_Result := None, task_LastError := sq_cancelReason reason,
                          task_CompletedAt := now, task_UpdatedAt := now\<rparr>
                in tx_done (cloneTask t) [\<lambda>eid. taskCanceledRecord (env_save env) eid t] [task_canceled_event t]
                     (deleteLeaseTx taskID (saveTaskTx env t db)))))"

definition sq_CancelTask :: "sql_env \<Rightarrow> string \<Rightarrow> string \<Rightarrow> string \<Rightarrow> time \<Rightarrow> sql_store \<Rightarrow> task result \<times> sql_store" where
  "sq_CancelTask env taskID leaseToken reason now = withTx env (CancelTask_tx env taskID leaseToken reason now)"

definition RetryTask_tx :: "sql_env \<Rightarrow> string \<Rightarrow> string \<Rightarrow> time \<Rightarrow> sql_db \<Rightarrow> task tx_out result" where
  "RetryTask_tx env taskID reason now db =
     (let now = normalizeNow (env_now env 0) now in
      case tryLoadTaskTx db taskID of
        None \<Rightarrow> Inl (Sentinel ErrTaskNotFound)
      | Some t \<Rightarrow>
          if task_Status t \<noteq> TaskFailed \<and> task_Status t \<noteq> TaskCanceled then Inl (Sentinel ErrTaskNotRetryable)
          else (let (t, lastRunID, lastAttempt) = requeueTask env t now False;
                    t = t\<lparr>task_LastError := [], task_Attempt := 0\<rparr>
                in tx_done (cloneTask t)
                     [\<lambda>eid. taskRequeuedRecord (env_save env) eid t lastRunID lastAttempt (sq_retryReason reason)]
                     [task_requeued_event t lastRunID lastAttempt (sq_retryReason reason)]
                     (deleteLeaseTx taskID (saveTaskTx env t db))))"

definition sq_RetryTask :: "sql_env \<Rightarrow> string \<Rightarrow> string \<Rightarrow> time \<Rightarrow> sql_store \<Rightarrow> task result \<times> sql_store" where
  "sq_RetryTask env taskID reason now = withTx env (RetryTask_tx env taskID reason now)"

section \<open>Leases\<close>

definition sq_GetLease :: "sql_store \<Rightarrow> string \<Rightarrow> lease result" where
  "sq_GetLease s k = (case tryLoadLeaseTx (sq_db s) k of None \<Rightarrow> Inl (Sentinel ErrLeaseNotFound) | Some l \<Rightarrow> Inr l)"

definition RenewLease_tx :: "sql_env \<Rightarrow> string \<Rightarrow> string \<Rightarrow> duration \<Rightarrow> time \<Rightarrow> sql_db \<Rightarrow> lease tx_out result" where
  "RenewLease_tx env taskID leaseToken ttl now db =
     (let now = normalizeNow (env_now env 0) now in
      case tryLoadLeaseTx db taskID of
        None \<Rightarrow> Inl (Sentinel ErrLeaseNotFound)
      | Some l \<Rightarrow>
          if lease_Token l \<noteq> leaseToken then Inl (Sentinel ErrLeaseMismatch)
          else if \<not> lease_ExpiresAt l > now then Inl (Sentinel ErrLeaseExpired)
          else (let l = l\<lparr>lease_ExpiresAt := now + ttl\<rparr>;
                    runID = (case tryLoadTaskTx db taskID of None \<Rightarrow> [] | Some t \<Rightarrow> run_id_of t)
                in tx_done l [\<lambda>eid. leaseRenewedRecord (env_save env) eid l runID] [lease_renewed_event l runID]
                     (saveLeaseTx env l db)))"

definition sq_RenewLease :: "sql_env \<Rightarrow> string \<Rightarrow> string \<Rightarrow> duration \<Rightarrow> time \<Rightarrow> sql_store \<Rightarrow> lease result \<times> sql_store" where
  "sq_RenewLease env taskID leaseToken ttl now s =
     (if ttl \<le> 0 then (Inl sq_ttl_error, s)
      else withTx env (RenewLease_tx env taskID leaseToken ttl now) s)"

definition ReleaseLease_tx :: "sql_env \<Rightarrow> string \<Rightarrow> string \<Rightarrow> sql_db \<Rightarrow> unit tx_out result" where
  "ReleaseLease_tx env taskID leaseToken db =
     (let releasedAt = env_now env 0 in
      case tryLoadLeaseTx db taskID of
        None \<Rightarrow> Inl (Sentinel ErrLeaseNotFound)
      | Some l \<Rightarrow>
          if lease_Token l \<noteq> leaseToken then Inl (Sentinel ErrLeaseMismatch)
          else
            (case tryLoadTaskTx db taskID of
               None \<Rightarrow>
                 tx_done () [\<lambda>eid. leaseReleasedRecord (env_save env) eid l [] False (TaskStatusOther []) ''lease released'' False releasedAt]
                   [lease_released_event l [] False (TaskStatusOther []) ''lease released'' False releasedAt]
                   (deleteLeaseTx taskID db)
             | Some t \<Rightarrow>
                 if task_Status t = TaskRunning
                 then (let (t, lastRunID, lastAttempt) = requeueTask env t (env_now env 1) True
                       in tx_done ()
                            [\<lambda>eid. leaseReleasedRecord (env_save env) eid l lastRunID True TaskPending ''lease released'' False releasedAt,
                             \<lambda>eid. taskRequeuedRecord (env_save env) eid t lastRunID lastAttempt ''lease released'']
                            [lease_released_event l lastRunID True TaskPending ''lease released'' False releasedAt,
                             task_requeued_event t lastRunID lastAttempt ''lease released'']
                            (deleteLeaseTx taskID (saveTaskTx env t db)))
                 else tx_done ()
                        [\<lambda>eid. leaseReleasedRecord (env_save env) eid l (run_id_of t) False (task_Status t) ''lease released'' False releasedAt]
                        [lease_released_event l (run_id_of t) False (task_Status t) ''lease released'' False releasedAt]
                        (deleteLeaseTx taskID db)))"

definition sq_ReleaseLease :: "sql_env \<Rightarrow> string \<Rightarrow> string \<Rightarrow> sql_store \<Rightarrow> unit result \<times> sql_store" where
  "sq_ReleaseLease env taskID leaseToken = withTx env (ReleaseLease_tx env taskID leaseToken)"

end
