(* ===== verification/Sql_Commands.thy ===== *)
theory Sql_Commands
  imports Sql_Store
begin

text \<open>
  The rest of \<^verbatim>\<open>ext/orchestrator/sqlite/store.go\<close>: recovery of expired leases, artifacts, durable commands,
  the queries over them, and all operations as one step function.
\<close>

section \<open>Recovering leases\<close>

text \<open>
  What recovering one lease contributes to the operation: the report, the records, and the events,
  kept apart because the operation publishes all releases before all failures before all requeues.
\<close>

record lease_recovered =
  rec_report :: "lease_recovery option"
  rec_records :: "builder list"
  rec_released :: "orch_event list"
  rec_failed :: "orch_event list"
  rec_requeued :: "orch_event list"

definition nothing_recovered :: lease_recovered where
  "nothing_recovered = \<lparr>rec_report = None, rec_records = [], rec_released = [], rec_failed = [], rec_requeued = []\<rparr>"

definition recoverLeaseTx :: "sql_env \<Rightarrow> string \<Rightarrow> time \<Rightarrow> sql_db \<Rightarrow> lease_recovered \<times> sql_db" where
  "recoverLeaseTx env taskID now db =
     (case tryLoadLeaseTx db taskID of
        None \<Rightarrow> (nothing_recovered, db)
      | Some l \<Rightarrow>
          if lease_ExpiresAt l > now then (nothing_recovered, db)
          else
            (case tryLoadTaskTx db taskID of
               None \<Rightarrow> (nothing_recovered, deleteLeaseTx taskID db)
             | Some t \<Rightarrow>
                 (let report = \<lparr>lrec_Task = cloneTask t, lrec_Lease = l, lrec_RecoveredAt = now,
                                lrec_ResultStatus = task_Status t, lrec_Requeued = False, lrec_Reason = ''lease expired''\<rparr>
                  in if task_Status t = TaskRunning \<and> exhaustedAttempts t
                     then (let t' = t\<lparr>task_Status := TaskFailed, task_Result := None, task_LastError := ''lease expired'',
                                      task_CompletedAt := now, task_UpdatedAt := now\<rparr>
                           in (\<lparr>rec_report = Some (report\<lparr>lrec_ResultStatus := TaskFailed\<rparr>),
                                rec_records =
                                  [\<lambda>eid. leaseReleasedRecord (env_save env) eid l (run_id_of t) False TaskFailed ''lease expired'' True now,
                                   \<lambda>eid. taskFailedRecord (env_save env) eid t'],
                                rec_released = [lease_released_event l (run_id_of t) False TaskFailed ''lease expired'' True now],
                                rec_failed = [task_failed_event t'], rec_requeued = []\<rparr>,
                               deleteLeaseTx taskID (saveTaskTx env t' db)))
                     else if task_Status t = TaskRunning
                     then (let (t', lastRunID, lastAttempt) = requeueTask env t now False;
                               t' = t'\<lparr>task_LastError := ''lease expired''\<rparr>
                           in (\<lparr>rec_report = Some (report\<lparr>lrec_ResultStatus := TaskPending, lrec_Requeued := True\<rparr>),
                                rec_records =
                                  [\<lambda>eid. leaseReleasedRecord (env_save env) eid l lastRunID True TaskPending ''lease expired'' True now,
                                   \<lambda>eid. taskRequeuedRecord (env_save env) eid t' lastRunID lastAttempt ''lease expired''],
                                rec_released = [lease_released_event l lastRunID True TaskPending ''lease expired'' True now],
                                rec_failed = [], rec_requeued = [task_requeued_event t' lastRunID lastAttempt ''lease expired'']\<rparr>,
                               deleteLeaseTx taskID (saveTaskTx env t' db)))
                     else (\<lparr>rec_report = Some report,
                             rec_records =
                               [\<lambda>eid. leaseReleasedRecord (env_save env) eid l (run_id_of t) False (task_Status t) ''lease expired'' True now],
                             rec_released = [lease_released_event l (run_id_of t) False (task_Status t) ''lease expired'' True now],
                             rec_failed = [], rec_requeued = []\<rparr>,
                           deleteLeaseTx taskID db))))"

fun recover_all :: "sql_env \<Rightarrow> time \<Rightarrow> string list \<Rightarrow> sql_db \<Rightarrow> lease_recovered list \<times> sql_db" where
  "recover_all env now [] db = ([], db)"
| "recover_all env now (k # ks) db =
     (let (r, db) = recoverLeaseTx env k now db; (rs, db) = recover_all env now ks db in (r # rs, db))"

text \<open>The leases that the query selects: those whose column is at most the text of \<open>now\<close>.\<close>

definition expired_lease_ids :: "sql_env \<Rightarrow> time \<Rightarrow> sql_db \<Rightarrow> string list" where
  "expired_lease_ids env now db =
     filter (\<lambda>k. case fmlookup (db_leases db) k of None \<Rightarrow> False | Some r \<Rightarrow> lr_expires_at r \<le> formatTime (env_save env) now)
       (order_by lr_expires_at (db_leases db))"

definition RecoverExpiredLeases_tx :: "sql_env \<Rightarrow> time \<Rightarrow> sql_db \<Rightarrow> lease_recovery list tx_out result" where
  "RecoverExpiredLeases_tx env now db =
     (let now = normalizeNow (env_now env 0) now; (rs, db) = recover_all env now (expired_lease_ids env now db) db
      in tx_done (List.map_filter rec_report rs) (concat (map rec_records rs))
           (concat (map rec_released rs) @ concat (map rec_failed rs) @ concat (map rec_requeued rs)) db)"

definition sq_RecoverExpiredLeases :: "sql_env \<Rightarrow> time \<Rightarrow> sql_store \<Rightarrow> lease_recovery list result \<times> sql_store" where
  "sq_RecoverExpiredLeases env now = withTx env (RecoverExpiredLeases_tx env now)"

definition RecoverExpiredLease_tx :: "sql_env \<Rightarrow> string \<Rightarrow> time \<Rightarrow> sql_db \<Rightarrow> lease_recovery option tx_out result" where
  "RecoverExpiredLease_tx env taskID now db =
     (let (r, db) = recoverLeaseTx env taskID (normalizeNow (env_now env 0) now) db
      in tx_done (rec_report r) (rec_records r) (rec_released r @ rec_failed r @ rec_requeued r) db)"

definition sq_RecoverExpiredLease :: "sql_env \<Rightarrow> string \<Rightarrow> time \<Rightarrow> sql_store \<Rightarrow> lease_recovery option result \<times> sql_store" where
  "sq_RecoverExpiredLease env taskID now = withTx env (RecoverExpiredLease_tx env taskID now)"

definition sq_ListExpiredLeases :: "sql_env \<Rightarrow> time \<Rightarrow> sql_store \<Rightarrow> expired_lease_summary list" where
  "sq_ListExpiredLeases env now s =
     (let db = sq_db s; now = normalizeNow (env_now env 0) now
      in List.map_filter (\<lambda>k. map_option (\<lambda>l.
           (let r = Option.bind (tryLoadTaskTx db k) task_Run in
            \<lparr>els_LeaseID = lease_ID l, els_TaskID = lease_TaskID l,
             els_RunID = (case r of None \<Rightarrow> [] | Some r \<Rightarrow> run_ID r), els_WorkerID = lease_WorkerID l,
             els_Attempt = (case r of None \<Rightarrow> 0 | Some r \<Rightarrow> run_Attempt r), els_ExpiresAt = lease_ExpiresAt l\<rparr>))
           (tryLoadLeaseTx db k)) (expired_lease_ids env now db))"

section \<open>Artifacts\<close>

definition CreateArtifact_tx :: "sql_env \<Rightarrow> create_artifact_request \<Rightarrow> sql_db \<Rightarrow> artifact tx_out result" where
  "CreateArtifact_tx env req db =
     (case tryLoadTaskTx db (car_TaskID req) of
        None \<Rightarrow> Inl (Sentinel ErrTaskNotFound)
      | Some _ \<Rightarrow>
          (let a = \<lparr>art_ID = newID env ''artifact'' 0, art_TaskID = car_TaskID req, art_RunID = car_RunID req,
                    art_Kind = car_Kind req, art_Name = car_Name req, art_ContentType = car_ContentType req,
                    art_Body = cloneBytes (car_Body req), art_Metadata = cloneAnyMap (car_Metadata req),
                    art_CreatedAt = env_now env 0\<rparr>
           in tx_done (cloneArtifact a) [\<lambda>eid. artifactCreatedRecord (env_save env) eid a] [artifact_created_event a]
                (saveArtifactTx env a db)))"

definition sq_CreateArtifact :: "sql_env \<Rightarrow> create_artifact_request \<Rightarrow> sql_store \<Rightarrow> artifact result \<times> sql_store" where
  "sq_CreateArtifact env req s =
     (if car_TaskID req = [] then (Inl (Sentinel ErrArtifactTaskRequired), s)
      else withTx env (CreateArtifact_tx env req) s)"

definition sq_GetArtifact :: "sql_store \<Rightarrow> string \<Rightarrow> artifact result" where
  "sq_GetArtifact s k =
     (case fmlookup (db_artifacts (sq_db s)) k of
        None \<Rightarrow> Inl (Sentinel ErrArtifactNotFound) | Some r \<Rightarrow> Inr (cloneArtifact (ar_payload r)))"

definition sq_ListArtifacts :: "sql_store \<Rightarrow> artifact_filter \<Rightarrow> artifact list" where
  "sq_ListArtifacts s f =
     (let m = db_artifacts (sq_db s) in
      map cloneArtifact (filter (\<lambda>a. matchesArtifactFilter a f)
        (List.map_filter (\<lambda>k. map_option ar_payload (fmlookup m k)) (order_by ar_created_at m))))"

section \<open>Commands\<close>

definition command_created_event :: "command \<Rightarrow> orch_event" where
  "command_created_event c = CommandCreatedEvent (cmd_ID c) (cmd_Kind c) (cmd_TaskID c) (cmd_RunID c)
     (cmd_TargetWorkerID c) (cmd_CreatedAt c)"

definition command_claimed_event :: "command \<Rightarrow> orch_event" where
  "command_claimed_event c = CommandClaimedEvent (cmd_ID c) (cmd_Kind c) (cmd_TaskID c) (cmd_RunID c)
     (cmd_ClaimedBy c) (cmd_ClaimedAt c)"

definition command_released_event :: "command \<Rightarrow> string \<Rightarrow> time \<Rightarrow> string \<Rightarrow> bool \<Rightarrow> orch_event" where
  "command_released_event c releasedBy at reason recovered = CommandReleasedEvent (cmd_ID c) (cmd_Kind c) (cmd_TaskID c)
     (cmd_RunID c) releasedBy at reason recovered"

definition command_handled_event :: "command \<Rightarrow> orch_event" where
  "command_handled_event c = CommandHandledEvent (cmd_ID c) (cmd_Kind c) (cmd_TaskID c) (cmd_RunID c)
     (cmd_HandledBy c) (cmd_HandledAt c)"

definition sq_validateCommandTarget :: "task \<Rightarrow> create_command_request \<Rightarrow> (string \<times> string) result" where
  "sq_validateCommandTarget t req =
     (let runID = (if ccr_RunID req = [] then run_id_of t else ccr_RunID req);
          worker = (case task_Run t of None \<Rightarrow> [] | Some r \<Rightarrow> run_WorkerID r) in
      case ccr_Kind req of
        CommandCancelTask \<Rightarrow>
          (case task_Status t of
             TaskPending \<Rightarrow> Inr (runID, [])
           | TaskRunning \<Rightarrow> if worker = [] then Inl (Sentinel ErrInvalidCommand) else Inr (runID, worker)
           | _ \<Rightarrow> Inl (Sentinel ErrTaskNotCancelable))
      | CommandAbortRun \<Rightarrow>
          if task_Status t \<noteq> TaskRunning \<or> worker = [] then Inl (Sentinel ErrRunNotFound)
          else if ccr_RunID req \<noteq> [] \<and> run_id_of t \<noteq> ccr_RunID req then Inl (Sentinel ErrRunNotFound)
          else Inr (run_id_of t, worker)
      | CommandRetryTask \<Rightarrow>
          if task_Status t = TaskFailed \<or> task_Status t = TaskCanceled then Inr (runID, [])
          else Inl (Sentinel ErrTaskNotRetryable)
      | CommandKindOther _ \<Rightarrow> Inl (Sentinel ErrInvalidCommand))"

text \<open>
  The command as \<^verbatim>\<open>refreshCommandTargetTx\<close> leaves it. It saves the command when a field changed; saving
  an unchanged command would rewrite the row with what it holds.
\<close>

definition retarget :: "task option \<Rightarrow> command \<Rightarrow> command" where
  "retarget task c =
     (case task of
        None \<Rightarrow> c\<lparr>cmd_TargetWorkerID := [], cmd_RunID := []\<rparr>
      | Some t \<Rightarrow>
          (let runID = run_id_of t; worker = (case task_Run t of None \<Rightarrow> [] | Some r \<Rightarrow> run_WorkerID r) in
           case cmd_Kind c of
             CommandCancelTask \<Rightarrow>
               (case task_Status t of
                  TaskRunning \<Rightarrow> c\<lparr>cmd_RunID := runID, cmd_TargetWorkerID := worker\<rparr>
                | TaskPending \<Rightarrow> c\<lparr>cmd_RunID := [], cmd_TargetWorkerID := []\<rparr>
                | _ \<Rightarrow> c)
           | CommandAbortRun \<Rightarrow>
               if task_Status t = TaskRunning \<and> worker \<noteq> []
               then (let c = (if cmd_RunID c = [] then c\<lparr>cmd_RunID := runID\<rparr> else c)
                     in if runID = cmd_RunID c then c\<lparr>cmd_TargetWorkerID := worker\<rparr>
                        else c\<lparr>cmd_TargetWorkerID := []\<rparr>)
               else c\<lparr>cmd_TargetWorkerID := []\<rparr>
           | CommandRetryTask \<Rightarrow>
               (if task_Run t = None then c\<lparr>cmd_TargetWorkerID := [], cmd_RunID := []\<rparr>
                else c\<lparr>cmd_TargetWorkerID := []\<rparr>)
           | CommandKindOther _ \<Rightarrow> c))"

definition refreshCommandTargetTx :: "sql_env \<Rightarrow> command \<Rightarrow> sql_db \<Rightarrow> command \<times> sql_db" where
  "refreshCommandTargetTx env c db =
     (let task = tryLoadTaskTx db (cmd_TaskID c); c' = retarget task c
      in (c', if task \<noteq> None \<and> c' = c then db else saveCommandTx env c' db))"

definition CreateCommand_tx :: "sql_env \<Rightarrow> create_command_request \<Rightarrow> sql_db \<Rightarrow> command tx_out result" where
  "CreateCommand_tx env req db =
     (case tryLoadTaskTx db (ccr_TaskID req) of
        None \<Rightarrow> Inl (Sentinel ErrTaskNotFound)
      | Some t \<Rightarrow>
          (case sq_validateCommandTarget t req of
             Inl e \<Rightarrow> Inl e
           | Inr (runID, target) \<Rightarrow>
               (let c = \<lparr>cmd_ID = newID env ''command'' 0, cmd_Kind = ccr_Kind req, cmd_TaskID = ccr_TaskID req,
                         cmd_RunID = runID, cmd_TargetWorkerID = target, cmd_Reason = ccr_Reason req,
                         cmd_Metadata = cloneAnyMap (ccr_Metadata req), cmd_Status = CommandPending,
                         cmd_ClaimToken = [], cmd_ClaimedBy = [], cmd_HandledBy = [], cmd_CreatedAt = env_now env 0,
                         cmd_ClaimedAt = zero_time, cmd_HandledAt = zero_time\<rparr>
                in tx_done (cloneCommand c) [\<lambda>eid. commandCreatedRecord (env_save env) eid c] [command_created_event c]
                     (saveCommandTx env c db))))"

definition sq_CreateCommand :: "sql_env \<Rightarrow> create_command_request \<Rightarrow> sql_store \<Rightarrow> command result \<times> sql_store" where
  "sq_CreateCommand env req s =
     (if ccr_TaskID req = [] then (Inl (Sentinel ErrTaskNotFound), s)
      else withTx env (CreateCommand_tx env req) s)"

definition sq_GetCommand :: "sql_store \<Rightarrow> string \<Rightarrow> command result" where
  "sq_GetCommand s k =
     (case tryLoadCommandTx (sq_db s) k of None \<Rightarrow> Inl (Sentinel ErrCommandNotFound) | Some c \<Rightarrow> Inr (cloneCommand c))"

definition listCommandsTx :: "sql_db \<Rightarrow> command list" where
  "listCommandsTx db = List.map_filter (tryLoadCommandTx db) (order_by cr_created_at (db_commands db))"

definition sq_ListCommands :: "sql_store \<Rightarrow> command_filter \<Rightarrow> command list" where
  "sq_ListCommands s f = map cloneCommand (filter (\<lambda>c. matchesCommandFilter c f) (listCommandsTx (sq_db s)))"

definition sq_ListPendingCommandsForWorker :: "sql_store \<Rightarrow> string \<Rightarrow> command list" where
  "sq_ListPendingCommandsForWorker s workerID =
     List.map_filter (\<lambda>k. case fmlookup (db_commands (sq_db s)) k of
         None \<Rightarrow> None
       | Some r \<Rightarrow> (if cr_status r = ''pending'' \<and> (cr_target_worker_id r = [] \<or> cr_target_worker_id r = workerID)
                    then Some (cloneCommand (cr_payload r)) else None))
       (order_by cr_created_at (db_commands (sq_db s)))"

text \<open>A time inside a payload is written by \<^verbatim>\<open>json.Marshal\<close>, also with \<^verbatim>\<open>RFC3339Nano\<close>, and a zero time as it is.\<close>

definition sq_ListStaleClaimedCommands :: "sql_env \<Rightarrow> time \<Rightarrow> sql_store \<Rightarrow> stale_command_summary list" where
  "sq_ListStaleClaimedCommands env claimedBefore s =
     (let m = db_commands (sq_db s); limit = formatTime (env_save env) (normalizeNow (env_now env 0) claimedBefore)
      in List.map_filter (\<lambda>k. case fmlookup m k of
           None \<Rightarrow> None
         | Some r \<Rightarrow>
             (let c = cr_payload r in
              if cr_status r = ''claimed'' \<and> RFC3339Nano (cmd_ClaimedAt c) \<le> limit
              then Some \<lparr>scs_CommandID = cmd_ID c, scs_Kind = cmd_Kind c, scs_TaskID = cmd_TaskID c, scs_RunID = cmd_RunID c,
                         scs_TargetWorkerID = cmd_TargetWorkerID c, scs_ClaimedBy = cmd_ClaimedBy c,
                         scs_ClaimedAt = cmd_ClaimedAt c, scs_Reason = cmd_Reason c\<rparr>
              else None))
         (order_by (\<lambda>r. RFC3339Nano (cmd_ClaimedAt (cr_payload r))) m))"

definition sq_worker_error :: go_error where
  "sq_worker_error = ErrorString ''gollem/orchestrator/sqlite: command claim worker id must not be empty''"

definition claimed_out :: "sql_env \<Rightarrow> string \<Rightarrow> time \<Rightarrow> command \<Rightarrow> sql_db \<Rightarrow> command tx_out result" where
  "claimed_out env worker now c db =
     (let c = claim_command worker now c
      in tx_done (cloneCommand c) [\<lambda>eid. commandClaimedRecord (env_save env) eid c] [command_claimed_event c]
           (saveCommandTx env c db))"

text \<open>The scan of \<^verbatim>\<open>ClaimPendingCommand\<close> over the rows as they were when the query ran.\<close>

fun claim_command_scan :: "sql_env \<Rightarrow> string \<Rightarrow> time \<Rightarrow> command list \<Rightarrow> sql_db \<Rightarrow> command tx_out result" where
  "claim_command_scan env worker now [] db = Inl (Sentinel ErrNoPendingCommand)"
| "claim_command_scan env worker now (c # cs) db =
     (if cmd_Status c \<noteq> CommandPending then claim_command_scan env worker now cs db
      else (let (c, db) = refreshCommandTargetTx env c db
            in if cmd_TargetWorkerID c \<noteq> [] \<and> cmd_TargetWorkerID c \<noteq> worker
               then claim_command_scan env worker now cs db
               else claimed_out env worker now c db))"

definition ClaimPendingCommand_tx :: "sql_env \<Rightarrow> claim_command_request \<Rightarrow> sql_db \<Rightarrow> command tx_out result" where
  "ClaimPendingCommand_tx env req db =
     (claim_command_scan env (cclr_WorkerID req) (normalizeNow (env_now env 0) (cclr_Now req))
              (listCommandsTx db) db)"

definition sq_ClaimPendingCommand :: "sql_env \<Rightarrow> claim_command_request \<Rightarrow> sql_store \<Rightarrow> command result \<times> sql_store" where
  "sq_ClaimPendingCommand env req s =
     (if cclr_WorkerID req = [] then (Inl sq_worker_error, s)
      else withTx env (ClaimPendingCommand_tx env req) s)"

definition ClaimCommand_tx :: "sql_env \<Rightarrow> string \<Rightarrow> claim_command_request \<Rightarrow> sql_db \<Rightarrow> command tx_out result" where
  "ClaimCommand_tx env k req db =
     (case tryLoadCommandTx db k of
        None \<Rightarrow> Inl (Sentinel ErrCommandNotFound)
      | Some c \<Rightarrow>
          if cmd_Status c \<noteq> CommandPending then Inl (Sentinel ErrNoPendingCommand)
          else (let (c, db) = refreshCommandTargetTx env c db
                in if cmd_TargetWorkerID c \<noteq> [] \<and> cmd_TargetWorkerID c \<noteq> cclr_WorkerID req
                   then Inl (Sentinel ErrNoPendingCommand)
                   else claimed_out env (cclr_WorkerID req) (normalizeNow (env_now env 0) (cclr_Now req)) c db))"

definition sq_ClaimCommand :: "sql_env \<Rightarrow> string \<Rightarrow> claim_command_request \<Rightarrow> sql_store \<Rightarrow> command result \<times> sql_store" where
  "sq_ClaimCommand env k req s =
     (if cclr_WorkerID req = [] then (Inl sq_worker_error, s)
      else withTx env (ClaimCommand_tx env k req) s)"

definition HandleCommand_tx :: "sql_env \<Rightarrow> string \<Rightarrow> string \<Rightarrow> string \<Rightarrow> time \<Rightarrow> sql_db \<Rightarrow> command tx_out result" where
  "HandleCommand_tx env k claimToken handledBy now db =
     (case tryLoadCommandTx db k of
        None \<Rightarrow> Inl (Sentinel ErrCommandNotFound)
      | Some c \<Rightarrow>
          if cmd_Status c \<noteq> CommandClaimed \<or> cmd_ClaimToken c \<noteq> claimToken then Inl (Sentinel ErrCommandClaimMismatch)
          else (let c = c\<lparr>cmd_Status := CommandHandled, cmd_HandledBy := handledBy,
                          cmd_HandledAt := normalizeNow (env_now env 0) now, cmd_ClaimToken := []\<rparr>
                in tx_done (cloneCommand c) [\<lambda>eid. commandHandledRecord (env_save env) eid c] [command_handled_event c]
                     (saveCommandTx env c db)))"

definition sq_HandleCommand :: "sql_env \<Rightarrow> string \<Rightarrow> string \<Rightarrow> string \<Rightarrow> time \<Rightarrow> sql_store \<Rightarrow> command result \<times> sql_store" where
  "sq_HandleCommand env k claimToken handledBy now = withTx env (HandleCommand_tx env k claimToken handledBy now)"

definition ReleaseCommand_tx :: "sql_env \<Rightarrow> string \<Rightarrow> string \<Rightarrow> sql_db \<Rightarrow> unit tx_out result" where
  "ReleaseCommand_tx env k claimToken db =
     (case tryLoadCommandTx db k of
        None \<Rightarrow> Inl (Sentinel ErrCommandNotFound)
      | Some c \<Rightarrow>
          if cmd_Status c \<noteq> CommandClaimed \<or> cmd_ClaimToken c \<noteq> claimToken then Inl (Sentinel ErrCommandClaimMismatch)
          else (let at = env_now env 0
                in tx_done ()
                     [\<lambda>eid. commandReleasedRecord (env_save env) eid (unclaim c) (cmd_ClaimedBy c) ''command released'' False at]
                     [command_released_event (unclaim c) (cmd_ClaimedBy c) at ''command released'' False]
                     (saveCommandTx env (unclaim c) db)))"

definition sq_ReleaseCommand :: "sql_env \<Rightarrow> string \<Rightarrow> string \<Rightarrow> sql_store \<Rightarrow> unit result \<times> sql_store" where
  "sq_ReleaseCommand env k claimToken = withTx env (ReleaseCommand_tx env k claimToken)"

section \<open>Recovering commands\<close>

fun recover_claims :: "sql_env \<Rightarrow> time \<Rightarrow> command list \<Rightarrow> sql_db
    \<Rightarrow> (command_recovery \<times> builder \<times> orch_event) list \<times> sql_db" where
  "recover_claims env now [] db = ([], db)"
| "recover_claims env now (c # cs) db =
     (let (rs, db) = recover_claims env now cs (saveCommandTx env (unclaim c) db)
      in ((\<lparr>crec_Command = cloneCommand (unclaim c), crec_RecoveredAt = now, crec_ReleasedBy = cmd_ClaimedBy c\<rparr>,
           \<lambda>eid. commandReleasedRecord (env_save env) eid (unclaim c) (cmd_ClaimedBy c) ''claim expired'' True now,
           command_released_event (unclaim c) (cmd_ClaimedBy c) now ''claim expired'' True) # rs, db))"

definition RecoverClaimedCommands_tx :: "sql_env \<Rightarrow> time \<Rightarrow> time \<Rightarrow> sql_db \<Rightarrow> command_recovery list tx_out result" where
  "RecoverClaimedCommands_tx env claimedBefore now db =
     (let now = normalizeNow (env_now env 0) now; before = (if claimedBefore = zero_time then now else claimedBefore);
          claimed = List.map_filter (\<lambda>k. case fmlookup (db_commands db) k of
              None \<Rightarrow> None | Some r \<Rightarrow> if cr_status r = ''claimed'' then Some (cr_payload r) else None)
            (order_by cr_created_at (db_commands db))
      in case recover_claims env now (filter (\<lambda>c. \<not> (cmd_ClaimedAt c = zero_time \<or> cmd_ClaimedAt c > before)) claimed) db of
           (rs, db) \<Rightarrow> tx_done (map fst rs) (map (fst \<circ> snd) rs) (map (snd \<circ> snd) rs) db)"

definition sq_RecoverClaimedCommands :: "sql_env \<Rightarrow> time \<Rightarrow> time \<Rightarrow> sql_store \<Rightarrow> command_recovery list result \<times> sql_store" where
  "sq_RecoverClaimedCommands env claimedBefore now = withTx env (RecoverClaimedCommands_tx env claimedBefore now)"

definition RecoverClaimedCommand_tx ::
    "sql_env \<Rightarrow> string \<Rightarrow> time \<Rightarrow> time \<Rightarrow> sql_db \<Rightarrow> command_recovery option tx_out result" where
  "RecoverClaimedCommand_tx env k claimedBefore now db =
     (let now = normalizeNow (env_now env 0) now; before = (if claimedBefore = zero_time then now else claimedBefore)
      in case tryLoadCommandTx db k of
           None \<Rightarrow> tx_done None [] [] db
         | Some c \<Rightarrow>
             if stale_claim before c
             then (case recover_claims env now [c] db of
                     (rs, db) \<Rightarrow> tx_done (Some (fst (hd rs))) (map (fst \<circ> snd) rs) (map (snd \<circ> snd) rs) db)
             else tx_done None [] [] db)"

definition sq_RecoverClaimedCommand ::
    "sql_env \<Rightarrow> string \<Rightarrow> time \<Rightarrow> time \<Rightarrow> sql_store \<Rightarrow> command_recovery option result \<times> sql_store" where
  "sq_RecoverClaimedCommand env k claimedBefore now = withTx env (RecoverClaimedCommand_tx env k claimedBefore now)"

section \<open>All operations\<close>

datatype sql_op =
    SqCreateTask create_task_request | SqUpdateTask update_task_request | SqDeleteTask string
  | SqClaimReadyTask claim_task_request | SqClaimTask string claim_task_request
  | SqCompleteTask string string "task_outcome option" time
  | SqFailTask string string "go_error option" time
  | SqCancelTask string string string time | SqRetryTask string string time
  | SqRenewLease string string duration time | SqReleaseLease string string
  | SqRecoverExpiredLeases time | SqRecoverExpiredLease string time
  | SqCreateArtifact create_artifact_request | SqCreateCommand create_command_request
  | SqClaimPendingCommand claim_command_request | SqClaimCommand string claim_command_request
  | SqHandleCommand string string string time | SqReleaseCommand string string
  | SqRecoverClaimedCommands time time | SqRecoverClaimedCommand string time time

fun sql_exec :: "sql_env \<times> sql_op \<Rightarrow> sql_store \<Rightarrow> sql_store" where
  "sql_exec (env, SqCreateTask req) s = snd (sq_CreateTask env req s)"
| "sql_exec (env, SqUpdateTask req) s = snd (sq_UpdateTask env req s)"
| "sql_exec (env, SqDeleteTask k) s = snd (sq_DeleteTask env k s)"
| "sql_exec (env, SqClaimReadyTask req) s = snd (sq_ClaimReadyTask env req s)"
| "sql_exec (env, SqClaimTask k req) s = snd (sq_ClaimTask env k req s)"
| "sql_exec (env, SqCompleteTask k tok oc now) s = snd (sq_CompleteTask env k tok oc now s)"
| "sql_exec (env, SqFailTask k tok e now) s = snd (sq_FailTask env k tok e now s)"
| "sql_exec (env, SqCancelTask k tok reason now) s = snd (sq_CancelTask env k tok reason now s)"
| "sql_exec (env, SqRetryTask k reason now) s = snd (sq_RetryTask env k reason now s)"
| "sql_exec (env, SqRenewLease k tok ttl now) s = snd (sq_RenewLease env k tok ttl now s)"
| "sql_exec (env, SqReleaseLease k tok) s = snd (sq_ReleaseLease env k tok s)"
| "sql_exec (env, SqRecoverExpiredLeases now) s = snd (sq_RecoverExpiredLeases env now s)"
| "sql_exec (env, SqRecoverExpiredLease k now) s = snd (sq_RecoverExpiredLease env k now s)"
| "sql_exec (env, SqCreateArtifact req) s = snd (sq_CreateArtifact env req s)"
| "sql_exec (env, SqCreateCommand req) s = snd (sq_CreateCommand env req s)"
| "sql_exec (env, SqClaimPendingCommand req) s = snd (sq_ClaimPendingCommand env req s)"
| "sql_exec (env, SqClaimCommand k req) s = snd (sq_ClaimCommand env k req s)"
| "sql_exec (env, SqHandleCommand k tok by now) s = snd (sq_HandleCommand env k tok by now s)"
| "sql_exec (env, SqReleaseCommand k tok) s = snd (sq_ReleaseCommand env k tok s)"
| "sql_exec (env, SqRecoverClaimedCommands before now) s = snd (sq_RecoverClaimedCommands env before now s)"
| "sql_exec (env, SqRecoverClaimedCommand k before now) s = snd (sq_RecoverClaimedCommand env k before now s)"

end
