(* ===== verification/Sql_Outbox.thy ===== *)
theory Sql_Outbox
  imports Sql_Commands Hist_Views
begin

text \<open>
  The invariant of the durable store and what its transactions write: every operation leaves the
  tables consistent, records in the event table exactly what it publishes, and ends only runs that
  are current.
\<close>

section \<open>Records and events\<close>

text \<open>A record constructor announces an event: whatever its identifier, it carries that event.\<close>

definition announces :: "builder \<Rightarrow> orch_event \<Rightarrow> bool" where
  "announces b ev \<longleftrightarrow>
     (\<forall>eid. ev_ID (b eid) = eid \<and> ev_Kind (b eid) = event_kind_of ev \<and> ev_Payload (b eid) = RawJSON (event_json ev))"

lemmas event_defs = task_created_event_def task_updated_event_def task_claimed_event_def lease_renewed_event_def
  lease_released_event_def task_requeued_event_def task_completed_event_def task_failed_event_def
  task_canceled_event_def artifact_created_event_def command_created_event_def command_claimed_event_def
  command_released_event_def command_handled_event_def

lemma announces_records [simp, intro]:
  "announces (\<lambda>eid. taskCreatedRecord rd eid t) (task_created_event t)"
  "announces (\<lambda>eid. taskUpdatedRecord rd eid t) (task_updated_event t)"
  "announces (\<lambda>eid. taskDeletedRecord rd eid k at) (TaskDeletedEvent k at)"
  "announces (\<lambda>eid. taskClaimedRecord rd eid t l) (task_claimed_event t l)"
  "announces (\<lambda>eid. leaseRenewedRecord rd eid l rid) (lease_renewed_event l rid)"
  "announces (\<lambda>eid. leaseReleasedRecord rd eid l rid rq st why rc at) (lease_released_event l rid rq st why rc at)"
  "announces (\<lambda>eid. taskRequeuedRecord rd eid t rid n why) (task_requeued_event t rid n why)"
  "announces (\<lambda>eid. taskCompletedRecord rd eid t) (task_completed_event t)"
  "announces (\<lambda>eid. taskFailedRecord rd eid t) (task_failed_event t)"
  "announces (\<lambda>eid. taskCanceledRecord rd eid t) (task_canceled_event t)"
  "announces (\<lambda>eid. artifactCreatedRecord rd eid a) (artifact_created_event a)"
  "announces (\<lambda>eid. commandCreatedRecord rd eid c) (command_created_event c)"
  "announces (\<lambda>eid. commandClaimedRecord rd eid c) (command_claimed_event c)"
  "announces (\<lambda>eid. commandReleasedRecord rd eid c who why rc at) (command_released_event c who at why rc)"
  "announces (\<lambda>eid. commandHandledRecord rd eid c) (command_handled_event c)"
  by (simp_all add: announces_def record_defs event_defs newEventRecord_def Let_def)

text \<open>The kinds that end a run in the projection of \<^verbatim>\<open>history.go\<close>.\<close>

definition closes_run :: "event_kind \<Rightarrow> bool" where
  "closes_run k \<longleftrightarrow> k \<in> {EventTaskCompleted, EventTaskFailed, EventTaskCanceled, EventTaskRequeued, EventLeaseReleased}"

text \<open>\<open>ends_only R b\<close>: if the record ends a run, its run is in \<open>R\<close> or it names none.\<close>

definition ends_only :: "string set \<Rightarrow> builder \<Rightarrow> bool" where
  "ends_only R b \<longleftrightarrow> (\<forall>eid. closes_run (ev_Kind (b eid)) \<longrightarrow> ev_RunID (b eid) \<in> insert [] R)"

lemma ends_only_harmless [simp, intro]:
  "ends_only R (\<lambda>eid. taskCreatedRecord rd eid t)" "ends_only R (\<lambda>eid. taskUpdatedRecord rd eid t)"
  "ends_only R (\<lambda>eid. taskDeletedRecord rd eid k at)" "ends_only R (\<lambda>eid. taskClaimedRecord rd eid t l)"
  "ends_only R (\<lambda>eid. leaseRenewedRecord rd eid l rid)" "ends_only R (\<lambda>eid. artifactCreatedRecord rd eid a)"
  "ends_only R (\<lambda>eid. commandCreatedRecord rd eid c)" "ends_only R (\<lambda>eid. commandClaimedRecord rd eid c)"
  "ends_only R (\<lambda>eid. commandReleasedRecord rd eid c who why rc at)" "ends_only R (\<lambda>eid. commandHandledRecord rd eid c)"
  by (simp_all add: ends_only_def closes_run_def record_defs newEventRecord_def Let_def)

lemma ends_only_ending [simp]:
  "ends_only R (\<lambda>eid. leaseReleasedRecord rd eid l rid rq st why rc at) \<longleftrightarrow> rid \<in> insert [] R"
  "ends_only R (\<lambda>eid. taskRequeuedRecord rd eid t rid n why) \<longleftrightarrow> rid \<in> insert [] R"
  "ends_only R (\<lambda>eid. taskCompletedRecord rd eid t) \<longleftrightarrow> run_id_of t \<in> insert [] R"
  "ends_only R (\<lambda>eid. taskFailedRecord rd eid t) \<longleftrightarrow> run_id_of t \<in> insert [] R"
  "ends_only R (\<lambda>eid. taskCanceledRecord rd eid t) \<longleftrightarrow> run_id_of t \<in> insert [] R"
  by (simp_all add: ends_only_def closes_run_def record_defs newEventRecord_def)

section \<open>Consistent tables\<close>

definition task_row_ok :: "string \<Rightarrow> task_row \<Rightarrow> bool" where
  "task_row_ok k r \<longleftrightarrow> task_ID (tr_payload r) = k \<and> tr_kind r = task_Kind (tr_payload r) \<and>
     tr_status r = status_text (task_Status (tr_payload r)) \<and> proper_status (task_Status (tr_payload r))"

definition command_row_ok :: "string \<Rightarrow> command_row \<Rightarrow> bool" where
  "command_row_ok k r \<longleftrightarrow> cmd_ID (cr_payload r) = k \<and> cr_status r = command_status_text (cmd_Status (cr_payload r)) \<and>
     cr_target_worker_id r = cmd_TargetWorkerID (cr_payload r) \<and> proper_command_kind (cmd_Kind (cr_payload r))"

text \<open>A lease and its task: the task runs, for the worker that holds the lease.\<close>

definition lease_row_ok :: "sql_db \<Rightarrow> string \<Rightarrow> lease_row \<Rightarrow> bool" where
  "lease_row_ok db k r \<longleftrightarrow> lease_TaskID (lr_payload r) = k \<and>
     (\<exists>t x. tryLoadTaskTx db k = Some t \<and> task_Status t = TaskRunning \<and> task_Run t = Some x \<and>
        run_WorkerID x = lease_WorkerID (lr_payload r))"

definition db_wf :: "sql_db \<Rightarrow> bool" where
  "db_wf db \<longleftrightarrow>
     (\<forall>k r. fmlookup (db_tasks db) k = Some r \<longrightarrow> task_row_ok k r) \<and>
     (\<forall>k r. fmlookup (db_leases db) k = Some r \<longrightarrow> lease_row_ok db k r) \<and>
     (\<forall>k t. tryLoadTaskTx db k = Some t \<longrightarrow> task_Status t = TaskRunning \<longrightarrow> tryLoadLeaseTx db k \<noteq> None) \<and>
     (\<forall>k r. fmlookup (db_commands db) k = Some r \<longrightarrow> command_row_ok k r) \<and>
     table_wf (db_events db)"

text \<open>What the history has to know of a task: its status and its run.\<close>

definition task_run_state :: "sql_db \<Rightarrow> string \<Rightarrow> (task_status \<times> run_ref option) option" where
  "task_run_state db k = map_option (\<lambda>t. (task_Status t, task_Run t)) (tryLoadTaskTx db k)"

definition run_name :: "run_ref option \<Rightarrow> string" where
  "run_name r = (case r of None \<Rightarrow> [] | Some x \<Rightarrow> run_ID x)"

definition run_ids :: "sql_db \<Rightarrow> string set" where
  "run_ids db = {run_name r | k st r. task_run_state db k = Some (st, r)}"

text \<open>The runs of \<open>db\<close> that are not running any more in \<open>db'\<close>.\<close>

definition settled :: "sql_db \<Rightarrow> sql_db \<Rightarrow> string set" where
  "settled db db' = {run_name r | k st r. task_run_state db k = Some (st, r) \<and> task_run_state db' k \<noteq> Some (TaskRunning, r)}"

text \<open>
  Where the runs of \<open>db'\<close> come from: kept from \<open>db\<close>, or, for one task, drawn from \<open>N\<close> and recorded as claimed.
\<close>

definition claims :: "builder \<Rightarrow> string \<Rightarrow> bool" where
  "claims b rid \<longleftrightarrow> (\<forall>eid. ev_Kind (b eid) = EventTaskClaimed \<and> ev_RunID (b eid) = rid)"

definition origin :: "(string \<Rightarrow> bool) \<Rightarrow> string set \<Rightarrow> sql_db \<Rightarrow> sql_db \<Rightarrow> bool" where
  "origin claimed N db db' \<longleftrightarrow> (\<exists>k0. \<forall>k st' x. task_run_state db' k = Some (st', Some x) \<longrightarrow>
     (\<exists>st. task_run_state db k = Some (st, Some x) \<and> (st' = TaskRunning \<longrightarrow> st = TaskRunning)) \<or>
     (k = k0 \<and> run_ID x \<in> N \<and> claimed (run_ID x)))"

definition tracks :: "string set \<Rightarrow> sql_db \<Rightarrow> builder list \<Rightarrow> sql_db \<Rightarrow> bool" where
  "tracks N db bs db' \<longleftrightarrow> origin (\<lambda>rid. \<exists>b \<in> set bs. claims b rid) N db db'"

lemma origin_mono: "origin P N db db' \<Longrightarrow> (\<And>rid. P rid \<Longrightarrow> Q rid) \<Longrightarrow> origin Q N db db'"
  unfolding origin_def by blast

section \<open>Lookups after writes\<close>

lemma save_lookups [simp]:
  "tryLoadTaskTx (saveTaskTx env t db) k = (if k = task_ID t then Some t else tryLoadTaskTx db k)"
  "tryLoadTaskTx (saveLeaseTx env l db) k = tryLoadTaskTx db k"
  "tryLoadTaskTx (deleteLeaseTx j db) k = tryLoadTaskTx db k"
  "tryLoadTaskTx (saveCommandTx env c db) k = tryLoadTaskTx db k"
  "tryLoadTaskTx (saveArtifactTx env a db) k = tryLoadTaskTx db k"
  "tryLoadLeaseTx (saveTaskTx env t db) k = tryLoadLeaseTx db k"
  "tryLoadLeaseTx (saveLeaseTx env l db) k = (if k = lease_TaskID l then Some l else tryLoadLeaseTx db k)"
  "tryLoadLeaseTx (deleteLeaseTx j db) k = (if k = j then None else tryLoadLeaseTx db k)"
  "tryLoadLeaseTx (saveCommandTx env c db) k = tryLoadLeaseTx db k"
  "tryLoadLeaseTx (saveArtifactTx env a db) k = tryLoadLeaseTx db k"
  by (simp_all add: saveTaskTx_def saveLeaseTx_def deleteLeaseTx_def saveCommandTx_def saveArtifactTx_def task_row_of_def)

lemma save_frames [simp]:
  "db_events (saveTaskTx env t db) = db_events db" "db_events (saveLeaseTx env l db) = db_events db"
  "db_events (deleteLeaseTx j db) = db_events db" "db_events (saveCommandTx env c db) = db_events db"
  "db_events (saveArtifactTx env a db) = db_events db" "db_events (deleteTaskTx k db) = db_events db"
  by (simp_all add: saveTaskTx_def saveLeaseTx_def deleteLeaseTx_def saveCommandTx_def saveArtifactTx_def
      deleteTaskTx_def deleteArtifactsTx_def)

lemma row_lookups [simp]:
  "fmlookup (db_tasks (saveTaskTx env t db)) k = (if k = task_ID t then Some (task_row_of env t) else fmlookup (db_tasks db) k)"
  "db_leases (saveTaskTx env t db) = db_leases db" "db_commands (saveTaskTx env t db) = db_commands db"
  "db_tasks (saveLeaseTx env l db) = db_tasks db" "db_commands (saveLeaseTx env l db) = db_commands db"
  "fmlookup (db_leases (saveLeaseTx env l db)) k = (if k = lease_TaskID l
     then Some \<lparr>lr_expires_at = formatTime (env_save env) (lease_ExpiresAt l), lr_payload = l\<rparr> else fmlookup (db_leases db) k)"
  "db_tasks (deleteLeaseTx j db) = db_tasks db" "db_commands (deleteLeaseTx j db) = db_commands db"
  "fmlookup (db_leases (deleteLeaseTx j db)) k = (if k = j then None else fmlookup (db_leases db) k)"
  "db_tasks (saveCommandTx env c db) = db_tasks db" "db_leases (saveCommandTx env c db) = db_leases db"
  "fmlookup (db_commands (saveCommandTx env c db)) k = (if k = cmd_ID c then Some
     \<lparr>cr_created_at = formatTime (env_save env) (cmd_CreatedAt c), cr_status = command_status_text (cmd_Status c),
      cr_target_worker_id = cmd_TargetWorkerID c, cr_payload = c\<rparr> else fmlookup (db_commands db) k)"
  "db_tasks (saveArtifactTx env a db) = db_tasks db" "db_leases (saveArtifactTx env a db) = db_leases db"
  "db_commands (saveArtifactTx env a db) = db_commands db"
  "fmlookup (db_tasks (deleteTaskTx j db)) k = (if k = j then None else fmlookup (db_tasks db) k)"
  "fmlookup (db_leases (deleteTaskTx j db)) k = (if k = j then None else fmlookup (db_leases db) k)"
  "db_commands (deleteTaskTx j db) = db_commands db"
  by (simp_all add: saveTaskTx_def saveLeaseTx_def deleteLeaseTx_def saveCommandTx_def saveArtifactTx_def
      deleteTaskTx_def deleteArtifactsTx_def)

lemma task_row_of_ok: "proper_status (task_Status t) \<Longrightarrow> task_row_ok (task_ID t) (task_row_of env t)"
  by (simp add: task_row_ok_def task_row_of_def)

lemma task_row_of_payload [simp]: "tr_payload (task_row_of env t) = t"
  by (simp add: task_row_of_def)

lemma wf_task: "db_wf db \<Longrightarrow> tryLoadTaskTx db k = Some t \<Longrightarrow> task_ID t = k \<and> proper_status (task_Status t)"
  by (auto simp: db_wf_def task_row_ok_def)

lemma wf_lease:
  "db_wf db \<Longrightarrow> tryLoadLeaseTx db k = Some l \<Longrightarrow> lease_TaskID l = k \<and>
   (\<exists>t x. tryLoadTaskTx db k = Some t \<and> task_Status t = TaskRunning \<and> task_Run t = Some x \<and> run_WorkerID x = lease_WorkerID l)"
  by (auto simp: db_wf_def lease_row_ok_def)

lemma wf_running: "db_wf db \<Longrightarrow> tryLoadTaskTx db k = Some t \<Longrightarrow> task_Status t = TaskRunning \<Longrightarrow> \<exists>l. tryLoadLeaseTx db k = Some l"
  unfolding db_wf_def by blast

lemma wf_command: "db_wf db \<Longrightarrow> tryLoadCommandTx db k = Some c \<Longrightarrow> cmd_ID c = k \<and> proper_command_kind (cmd_Kind c)"
  by (auto simp: db_wf_def command_row_ok_def)

section \<open>Writes that keep the tables consistent\<close>

text \<open>A new task, or a task whose status and run stay as they are.\<close>

lemma wf_save_same:
  assumes wf: "db_wf db" and "tryLoadTaskTx db (task_ID t) = Some u"
    and "task_Status t = task_Status u" and "task_Run t = task_Run u"
  shows "db_wf (saveTaskTx env t db)"
proof -
  have proper: "proper_status (task_Status t)" using wf_task [OF wf assms(2)] assms(3) by simp
  have "lease_row_ok (saveTaskTx env t db) k r" if "fmlookup (db_leases db) k = Some r" for k r
  proof -
    from wf_lease [OF wf, of k "lr_payload r"] that obtain v x where
      "lease_TaskID (lr_payload r) = k" "tryLoadTaskTx db k = Some v" "task_Status v = TaskRunning"
      "task_Run v = Some x" "run_WorkerID x = lease_WorkerID (lr_payload r)" by auto
    with assms(2-4) show ?thesis unfolding lease_row_ok_def by (cases "k = task_ID t") auto
  qed
  moreover have "tryLoadLeaseTx db k \<noteq> None"
    if "tryLoadTaskTx (saveTaskTx env t db) k = Some v" "task_Status v = TaskRunning" for k v
    using that wf_running [OF wf, of k] assms(2,3) by (auto split: if_splits)
  ultimately show ?thesis
    using wf proper unfolding db_wf_def by (auto simp: task_row_of_ok)
qed

lemma wf_save_new:
  assumes wf: "db_wf db" and "tryLoadTaskTx db (task_ID t) = None" and "task_Status t = TaskPending"
  shows "db_wf (saveTaskTx env t db)"
proof -
  have "fmlookup (db_leases db) (task_ID t) = None"
    using wf_lease [OF wf, of "task_ID t"] assms(2) by (cases "fmlookup (db_leases db) (task_ID t)") auto
  then show ?thesis
    using assms unfolding db_wf_def lease_row_ok_def by (auto simp: task_row_of_ok)
qed

text \<open>A task that leaves the running status loses its lease.\<close>

lemma db_wf_settle:
  assumes wf: "db_wf db" and "k = task_ID t" and "task_Status t \<noteq> TaskRunning" and "proper_status (task_Status t)"
  shows "db_wf (deleteLeaseTx k (saveTaskTx env t db))"
  using assms unfolding db_wf_def lease_row_ok_def by (auto simp: task_row_of_ok)

lemma wf_start:
  assumes wf: "db_wf db" and "task_Status t = TaskRunning" and "task_Run t = Some x"
    and "lease_TaskID l = task_ID t" and "run_WorkerID x = lease_WorkerID l"
  shows "db_wf (saveLeaseTx env l (saveTaskTx env t db))"
  using assms unfolding db_wf_def lease_row_ok_def by (auto simp: task_row_of_ok)

lemma wf_renew:
  assumes wf: "db_wf db" and "tryLoadLeaseTx db (lease_TaskID l) = Some l0" and "lease_WorkerID l = lease_WorkerID l0"
  shows "db_wf (saveLeaseTx env l db)"
  using assms unfolding db_wf_def lease_row_ok_def by (auto simp: task_row_of_ok)

lemma wf_drop_orphan:
  assumes wf: "db_wf db" and "\<And>t. tryLoadTaskTx db k = Some t \<Longrightarrow> task_Status t \<noteq> TaskRunning"
  shows "db_wf (deleteLeaseTx k db)"
  using assms unfolding db_wf_def lease_row_ok_def by auto

lemma wf_delete: "db_wf db \<Longrightarrow> db_wf (deleteTaskTx k db)"
  unfolding db_wf_def lease_row_ok_def by auto

lemma wf_save_command: "db_wf db \<Longrightarrow> proper_command_kind (cmd_Kind c) \<Longrightarrow> db_wf (saveCommandTx env c db)"
  unfolding db_wf_def lease_row_ok_def by (auto simp: command_row_ok_def)

lemma wf_save_artifact [simp]: "db_wf (saveArtifactTx env a db) = db_wf db"
  unfolding db_wf_def lease_row_ok_def by simp

section \<open>Runs after writes\<close>

lemma run_id_of_name: "run_id_of t = run_name (task_Run t)"
  by (simp add: run_id_of_def run_name_def)

lemma run_name_simps [simp]: "run_name None = []" "run_name (Some x) = run_ID x"
  by (simp_all add: run_name_def)

lemma run_state_load: "tryLoadTaskTx db k = Some t \<Longrightarrow> task_run_state db k = Some (task_Status t, task_Run t)"
  unfolding task_run_state_def by auto

lemma run_state_save [simp]:
  "task_run_state (saveTaskTx env t db) k = (if k = task_ID t then Some (task_Status t, task_Run t) else task_run_state db k)"
  by (simp add: task_run_state_def)

lemma run_state_frames [simp]:
  "task_run_state (saveLeaseTx env l db) = task_run_state db" "task_run_state (deleteLeaseTx j db) = task_run_state db"
  "task_run_state (saveCommandTx env c db) = task_run_state db" "task_run_state (saveArtifactTx env a db) = task_run_state db"
  "task_run_state (db\<lparr>db_events := tab\<rparr>) = task_run_state db"
  by (simp_all add: task_run_state_def fun_eq_iff)

lemma run_state_delete [simp]: "task_run_state (deleteTaskTx j db) k = (if k = j then None else task_run_state db k)"
  by (simp add: task_run_state_def)

lemma tracks_same: "task_run_state db' = task_run_state db \<Longrightarrow> tracks N db bs db'"
  by (simp add: tracks_def origin_def)

section \<open>Sound steps\<close>

text \<open>
  A step of a transaction from \<open>db\<close> to \<open>db'\<close> that records \<open>bs\<close> and publishes \<open>evs\<close>: the tables stay
  consistent, the records announce the events up to their order, the runs come from \<open>db\<close> or are drawn from
  \<open>N\<close>, and the records end only runs that are not running any more.
\<close>

definition sound_step :: "string set \<Rightarrow> sql_db \<Rightarrow> builder list \<Rightarrow> orch_event list \<Rightarrow> sql_db \<Rightarrow> bool" where
  "sound_step N db bs evs db' \<longleftrightarrow>
     db_wf db' \<and> db_events db' = db_events db \<and>
     (\<exists>es. list_all2 announces bs es \<and> mset es = mset evs) \<and> list_all proper_event evs \<and>
     tracks N db bs db' \<and> list_all (ends_only (settled db db')) bs"

lemma sound_stepI:
  assumes "db_wf db'" and "db_events db' = db_events db" and "list_all2 announces bs evs"
    and "list_all proper_event evs" and "tracks N db bs db'" and "list_all (ends_only (settled db db')) bs"
  shows "sound_step N db bs evs db'"
  using assms by (auto simp: sound_step_def)

lemma sound_step_refl: "db_wf db \<Longrightarrow> sound_step N db [] [] db"
  by (auto simp: sound_step_def tracks_same)

lemma ends_only_mono: "ends_only R b \<Longrightarrow> R \<subseteq> insert [] R' \<Longrightarrow> ends_only R' b"
  by (auto simp: ends_only_def)

lemma tracks_kept: "tracks {} db bs db' \<Longrightarrow> task_run_state db' k = Some (st', Some x) \<Longrightarrow>
   \<exists>st. task_run_state db k = Some (st, Some x) \<and> (st' = TaskRunning \<longrightarrow> st = TaskRunning)"
  by (auto simp: tracks_def origin_def)

lemma tracks_trans:
  assumes first: "tracks {} db bs db1" and second: "tracks N db1 bs' db2"
  shows "tracks N db (bs @ bs') db2"
proof -
  from second obtain k0 where k0: "(\<exists>st. task_run_state db1 k = Some (st, Some x) \<and> (st' = TaskRunning \<longrightarrow> st = TaskRunning)) \<or>
      (k = k0 \<and> run_ID x \<in> N \<and> (\<exists>b \<in> set bs'. claims b (run_ID x)))"
    if "task_run_state db2 k = Some (st', Some x)" for k st' x
    unfolding tracks_def origin_def by blast
  have "(\<exists>st. task_run_state db k = Some (st, Some x) \<and> (st' = TaskRunning \<longrightarrow> st = TaskRunning)) \<or>
      (k = k0 \<and> run_ID x \<in> N \<and> (\<exists>b \<in> set (bs @ bs'). claims b (run_ID x)))"
    if x: "task_run_state db2 k = Some (st', Some x)" for k st' x
    using k0 [OF x] tracks_kept [OF first, of k _ x] by fastforce
  then show ?thesis unfolding tracks_def origin_def by blast
qed

lemma settled_trans:
  assumes first: "tracks {} db bs db1" and second: "tracks N db1 bs' db2" and new: "N \<inter> run_ids db = {}"
  shows "settled db db1 \<union> settled db1 db2 \<subseteq> insert [] (settled db db2)"
proof
  fix i
  assume "i \<in> settled db db1 \<union> settled db1 db2"
  then consider k st r where "task_run_state db k = Some (st, r)" "task_run_state db1 k \<noteq> Some (TaskRunning, r)" "i = run_name r"
    | k st r where "task_run_state db1 k = Some (st, r)" "task_run_state db2 k \<noteq> Some (TaskRunning, r)" "i = run_name r"
    unfolding settled_def by blast
  then show "i \<in> insert [] (settled db db2)"
  proof cases
    case (1 k st r)
    show ?thesis
    proof (cases r)
      case None
      with 1 show ?thesis by simp
    next
      case (Some x)
      have "run_ID x \<in> run_ids db" using 1(1) Some unfolding run_ids_def by force
      then have "run_ID x \<notin> N" using new by blast
      then have "task_run_state db2 k \<noteq> Some (TaskRunning, r)"
        using second 1(2) Some unfolding tracks_def origin_def by blast
      with 1 show ?thesis unfolding settled_def by blast
    qed
  next
    case (2 k st r)
    show ?thesis
    proof (cases r)
      case None
      with 2 show ?thesis by simp
    next
      case (Some x)
      then obtain st0 where "task_run_state db k = Some (st0, r)"
        using tracks_kept [OF first] 2(1) by blast
      with 2 show ?thesis unfolding settled_def by blast
    qed
  qed
qed

lemma sound_step_trans:
  assumes "sound_step {} db bs evs db1" and "sound_step N db1 bs' evs' db2" and new: "N \<inter> run_ids db = {}"
  shows "sound_step N db (bs @ bs') (evs @ evs') db2"
proof -
  from assms obtain es es' where "list_all2 announces bs es" "mset es = mset evs"
      "list_all2 announces bs' es'" "mset es' = mset evs'"
    unfolding sound_step_def by blast
  then have "list_all2 announces (bs @ bs') (es @ es') \<and> mset (es @ es') = mset (evs @ evs')"
    by (simp add: list_all2_appendI)
  moreover have tr: "tracks {} db bs db1" "tracks N db1 bs' db2" using assms unfolding sound_step_def by auto
  moreover have "settled db db1 \<subseteq> insert [] (settled db db2)" "settled db1 db2 \<subseteq> insert [] (settled db db2)"
    using settled_trans [OF tr new] by auto
  then have "list_all (ends_only (settled db db2)) (bs @ bs')"
    using assms unfolding sound_step_def list_all_iff by (auto intro: ends_only_mono)
  ultimately show ?thesis
    using assms tracks_trans [OF tr] unfolding sound_step_def by (auto intro: exI [of _ "es @ es'"])
qed

lemma sound_step_reorder: "sound_step N db bs evs db' \<Longrightarrow> mset evs' = mset evs \<Longrightarrow> sound_step N db bs evs' db'"
  unfolding sound_step_def list_all_iff by (metis set_mset_mset)

lemma sound_step_more: "sound_step {} db bs evs db' \<Longrightarrow> sound_step N db bs evs db'"
  unfolding sound_step_def tracks_def origin_def by auto

definition good_tx :: "sql_env \<Rightarrow> sql_db \<Rightarrow> 'a tx_out result \<Rightarrow> bool" where
  "good_tx env db r \<longleftrightarrow>
     (case r of Inl _ \<Rightarrow> True
      | Inr out \<Rightarrow> sound_step {newID env ''run'' 0} db (tx_records out) (tx_events out) (tx_db out))"

lemma good_tx_simps [simp]:
  "good_tx env db (Inl e)"
  "good_tx env db (tx_done r bs evs db') = sound_step {newID env ''run'' 0} db bs evs db'"
  by (simp_all add: good_tx_def tx_done_def)

lemma proper_events [simp]:
  "proper_event (task_created_event t)" "proper_event (task_updated_event t)" "proper_event (task_claimed_event t l)"
  "proper_event (lease_renewed_event l rid)" "proper_event (task_requeued_event t rid n why)"
  "proper_event (task_completed_event t)" "proper_event (task_failed_event t)" "proper_event (task_canceled_event t)"
  "proper_event (artifact_created_event a)"
  "proper_event (lease_released_event l rid rq st why rc at) = proper_status st"
  "proper_event (command_created_event c) = proper_command_kind (cmd_Kind c)"
  "proper_event (command_claimed_event c) = proper_command_kind (cmd_Kind c)"
  "proper_event (command_released_event c who at why rc) = proper_command_kind (cmd_Kind c)"
  "proper_event (command_handled_event c) = proper_command_kind (cmd_Kind c)"
  by (simp_all add: event_defs)

lemma list_all2_map_announces:
  "(\<And>x. announces (b x) (g x)) \<Longrightarrow> list_all2 announces (map b xs) (map g xs)"
  by (simp add: list_all2_map1 list_all2_map2 list_all2_same)

lemma list_all_map_const [simp]: "(\<And>x. P (g x)) \<Longrightarrow> list_all P (map g xs)"
  by (induction xs) simp_all

end
