(* ===== verification/Sql_Transactions.thy ===== *)
theory Sql_Transactions
  imports Sql_Outbox
begin

text \<open>Every transaction of the durable store is a sound step; the loops inside the bodies first.\<close>

section \<open>Edits that leave the runs alone\<close>

definition calm :: "sql_db \<Rightarrow> sql_db \<Rightarrow> bool" where
  "calm db db' \<longleftrightarrow> db_wf db' \<and> db_events db' = db_events db \<and> task_run_state db' = task_run_state db"

lemma calm_refl: "db_wf db \<Longrightarrow> calm db db"
  by (simp add: calm_def)

lemma calm_trans: "calm db db1 \<Longrightarrow> calm db1 db2 \<Longrightarrow> calm db db2"
  by (simp add: calm_def)

lemma calm_save:
  assumes "db_wf db" and st: "task_run_state db (task_ID t) = Some (task_Status t, task_Run t)"
  shows "calm db (saveTaskTx env t db)"
proof -
  from st obtain u where "tryLoadTaskTx db (task_ID t) = Some u" "task_Status t = task_Status u" "task_Run t = task_Run u"
    by (auto simp: task_run_state_def)
  then show ?thesis
    using wf_save_same [OF assms(1)] st by (auto simp: calm_def)
qed

text \<open>Both loops over the dependencies edit a task that they load, keeping its status and its run.\<close>

lemma calm_edit:
  assumes "db_wf db" and b: "tryLoadTaskTx db k = Some b"
    and "task_ID b' = task_ID b" "task_Status b' = task_Status b" "task_Run b' = task_Run b"
  shows "calm db (saveTaskTx env b' db)"
  using assms wf_task [OF assms(1) b] run_state_load [OF b] by (intro calm_save) auto

lemma link_blocked_calm: "link_blocked_tx env tid now ks upd db = Inr (upd', db') \<Longrightarrow> db_wf db \<Longrightarrow> calm db db'"
proof (induction env tid now ks upd db rule: link_blocked_tx.induct)
  case (2 env tid now k ks upd db)
  from "2.prems"(1) obtain b where b: "tryLoadTaskTx db k = Some b" by (auto split: option.splits)
  let ?bb = "sq_appendUniqueStrings (task_BlockedBy b) [tid]"
  have edit: "calm db (saveTaskTx env (b\<lparr>task_BlockedBy := ?bb, task_UpdatedAt := now\<rparr>) db)"
    by (rule calm_edit [OF "2.prems"(2) b]) simp_all
  then show ?case
    using 2 b calm_trans [OF edit] by (cases "length ?bb = length (task_BlockedBy b)") (auto simp: Let_def calm_def)
qed (simp add: calm_refl)

lemma link_blocker_calm: "link_blocker_tx env tid now ks upd db = Inr (upd', db') \<Longrightarrow> db_wf db \<Longrightarrow> calm db db'"
proof (induction env tid now ks upd db rule: link_blocker_tx.induct)
  case (2 env tid now k ks upd db)
  from "2.prems"(1) obtain b where b: "tryLoadTaskTx db k = Some b" by (auto split: option.splits)
  let ?bs = "sq_appendUniqueStrings (task_Blocks b) [tid]"
  have edit: "calm db (saveTaskTx env (b\<lparr>task_Blocks := ?bs, task_UpdatedAt := now\<rparr>) db)"
    by (rule calm_edit [OF "2.prems"(2) b]) simp_all
  then show ?case
    using 2 b calm_trans [OF edit] by (cases "length ?bs = length (task_Blocks b)") (auto simp: Let_def calm_def)
qed (simp add: calm_refl)

lemma link_calm:
  assumes "linkTaskDependenciesTx env t now db = Inr (peers, db')" and "db_wf db"
  shows "calm db db'"
proof -
  from assms(1) obtain u1 db1 u2 where
    1: "link_blocked_tx env (task_ID t) now (task_Blocks t) fmempty db = Inr (u1, db1)" and
    2: "link_blocker_tx env (task_ID t) now (task_BlockedBy t) u1 db1 = Inr (u2, db')"
    by (auto simp: linkTaskDependenciesTx_def split: sum.splits prod.splits)
  have "calm db db1" by (rule link_blocked_calm [OF 1 assms(2)])
  moreover from this have "calm db1 db'" by (intro link_blocker_calm [OF 2]) (simp add: calm_def)
  ultimately show ?thesis by (rule calm_trans)
qed

lemma unlink_run_state [simp]: "task_Status (unlink k now t) = task_Status t" "task_Run (unlink k now t) = task_Run t"
  "task_ID (unlink k now t) = task_ID t"
  by (simp_all add: unlink_def)

lemma unlink_all_calm:
  "unlink_all env k now ts db = (ps, db') \<Longrightarrow> db_wf db \<Longrightarrow>
   (\<And>t. t \<in> set ts \<Longrightarrow> task_run_state db (task_ID t) = Some (task_Status t, task_Run t)) \<Longrightarrow> calm db db'"
proof (induction ts arbitrary: db ps)
  case Nil
  then show ?case by (simp add: calm_refl)
next
  case (Cons t ts)
  show ?case
  proof (cases "mentions k t")
    case False
    then show ?thesis using Cons by simp
  next
    case True
    let ?db = "saveTaskTx env (unlink k now t) db"
    obtain qs where rest: "unlink_all env k now ts ?db = (qs, db')"
      using Cons.prems(1) True by (auto simp: Let_def split: prod.splits)
    have calm: "calm db ?db" using Cons.prems by (intro calm_save) auto
    moreover have "calm ?db db'"
      using rest calm Cons.prems by (intro Cons.IH [OF rest]) (auto simp: calm_def)
    ultimately show ?thesis by (rule calm_trans)
  qed
qed

lemma listTasksTx_run_state:
  assumes "db_wf db" and "t \<in> set (listTasksTx db)"
  shows "task_run_state db (task_ID t) = Some (task_Status t, task_Run t)"
proof -
  from assms(2) obtain k where k: "tryLoadTaskTx db k = Some t"
    unfolding listTasksTx_def List.map_filter_def by fastforce
  then show ?thesis using wf_task [OF assms(1) k] by (auto simp: task_run_state_def)
qed

lemma outcome_artifacts_frame:
  "createOutcomeArtifactsTx env t n sps at db = (as, db') \<Longrightarrow>
   db_wf db' = db_wf db \<and> db_events db' = db_events db \<and> task_run_state db' = task_run_state db"
proof (induction sps arbitrary: n db as)
  case (Cons sp sps)
  then show ?case by (auto simp: Let_def split: prod.splits)
qed simp

section \<open>Task transactions\<close>

lemma sound_calm:
  assumes "calm db db'" and "list_all2 announces bs evs" and "list_all proper_event evs"
    and "list_all (ends_only {}) bs"
  shows "sound_step N db bs evs db'"
proof (rule sound_stepI)
  show "list_all (ends_only (settled db db')) bs"
    using assms(4) by (auto simp: list_all_iff intro: ends_only_mono)
qed (use assms in \<open>auto simp: calm_def tracks_same\<close>)

lemmas map_announces = list_all2_map_announces [of "\<lambda>t eid. taskUpdatedRecord rd eid t" task_updated_event for rd]
  list_all2_map_announces [of "\<lambda>a eid. artifactCreatedRecord rd eid a" artifact_created_event for rd]
  list_all2_map_announces [of "\<lambda>t eid. taskFailedRecord rd eid t" task_failed_event for rd]

lemma good_CreateTask:
  assumes wf: "db_wf db" and fresh: "newID env ''task'' 0 |\<notin>| fmdom (db_tasks db)"
  shows "good_tx env db (CreateTask_tx env req db)"
proof (cases "validateTaskDependenciesTx (ctr_Blocks req) (ctr_BlockedBy req) db")
  case (Some e)
  then show ?thesis by (simp add: CreateTask_tx_def)
next
  case None
  let ?t = "sq_new_task env (env_now env 0) req"
  show ?thesis
  proof (cases "linkTaskDependenciesTx env ?t (env_now env 0) db")
    case (Inl e)
    then show ?thesis using None by (simp add: CreateTask_tx_def Let_def)
  next
    case (Inr p)
    obtain peers db1 where p: "p = (peers, db1)" by (cases p)
    have calm: "calm db db1" using Inr p wf by (auto intro: link_calm)
    have "task_run_state db1 (task_ID ?t) = None"
      using calm fresh by (simp add: calm_def task_run_state_def sq_new_task_def fmlookup_dom_iff)
    then have "tryLoadTaskTx db1 (task_ID ?t) = None" by (simp add: task_run_state_def)
    then have "db_wf (saveTaskTx env ?t db1)"
      using calm by (intro wf_save_new) (auto simp: calm_def sq_new_task_def)
    moreover have "tracks N db bs (saveTaskTx env ?t db1)" for N bs
      using calm by (auto simp: tracks_def origin_def calm_def sq_new_task_def)
    ultimately have "sound_step N db ((\<lambda>eid. taskCreatedRecord (env_save env) eid ?t) #
        map (\<lambda>p eid. taskUpdatedRecord (env_save env) eid p) peers)
        (task_created_event ?t # map task_updated_event peers) (saveTaskTx env ?t db1)" for N
      using calm by (intro sound_stepI) (auto simp: calm_def map_announces)
    then show ?thesis using None Inr p by (simp add: CreateTask_tx_def Let_def)
  qed
qed

lemma good_UpdateTask:
  assumes wf: "db_wf db"
  shows "good_tx env db (UpdateTask_tx env req db)"
proof (cases "tryLoadTaskTx db (utr_ID req)")
  case None
  then show ?thesis by (simp add: UpdateTask_tx_def)
next
  case (Some t0)
  define t where "t = t0\<lparr>task_Subject := (case utr_Subject req of None \<Rightarrow> task_Subject t0 | Some x \<Rightarrow> x),
      task_Description := (case utr_Description req of None \<Rightarrow> task_Description t0 | Some x \<Rightarrow> x),
      task_Blocks := sq_appendUniqueStrings (task_Blocks t0) (utr_AddBlocks req),
      task_BlockedBy := sq_appendUniqueStrings (task_BlockedBy t0) (utr_AddBlockedBy req),
      task_Metadata := update_metadata (task_Metadata t0) (utr_Metadata req), task_UpdatedAt := env_now env 0\<rparr>"
  have t: "task_ID t = utr_ID req" "task_Status t = task_Status t0" "task_Run t = task_Run t0"
    using wf_task [OF wf Some] by (simp_all add: t_def)
  show ?thesis
  proof (cases "validateTaskDependenciesTx (utr_AddBlocks req) (utr_AddBlockedBy req) db")
    case (Some e)
    then show ?thesis using \<open>tryLoadTaskTx db (utr_ID req) = Some t0\<close> by (auto simp: UpdateTask_tx_def)
  next
    case None
    have eq: "UpdateTask_tx env req db = (case linkTaskDependenciesTx env t (env_now env 0) db of
        Inl e \<Rightarrow> Inl e
      | Inr (peers, db) \<Rightarrow> tx_done (cloneTask t) (map (\<lambda>p eid. taskUpdatedRecord (env_save env) eid p) (t # peers))
          (map task_updated_event (t # peers)) (saveTaskTx env t db))"
      unfolding UpdateTask_tx_def Some None Let_def t_def by simp
    show ?thesis
    proof (cases "linkTaskDependenciesTx env t (env_now env 0) db")
      case (Inl e)
      then show ?thesis by (simp add: eq)
    next
      case (Inr p)
      obtain peers db1 where p: "p = (peers, db1)" by (cases p)
      have calm: "calm db db1" using Inr p wf by (auto intro: link_calm)
      moreover have "task_run_state db (utr_ID req) = Some (task_Status t, task_Run t)"
        using Some t by (auto simp: task_run_state_def)
      ultimately have "calm db1 (saveTaskTx env t db1)"
        by (intro calm_save) (auto simp: calm_def t)
      then have "calm db (saveTaskTx env t db1)" using calm calm_trans by blast
      then have "sound_step N db (map (\<lambda>p eid. taskUpdatedRecord (env_save env) eid p) (t # peers))
          (map task_updated_event (t # peers)) (saveTaskTx env t db1)" for N
        by (rule sound_calm) (auto simp: map_announces simp del: list.map)
      then show ?thesis by (simp add: eq Inr p del: list.map)
    qed
  qed
qed

lemma good_DeleteTask:
  assumes wf: "db_wf db"
  shows "good_tx env db (DeleteTask_tx env k db)"
proof (cases "tryLoadTaskTx db k")
  case None
  then show ?thesis by (simp add: DeleteTask_tx_def)
next
  case (Some t)
  let ?db = "deleteTaskTx k db"
  obtain peers db' where un: "unlink_all env k (env_now env 0) (listTasksTx ?db) ?db = (peers, db')"
    by fastforce
  have wf1: "db_wf ?db" using wf by (rule wf_delete)
  have calm: "calm ?db db'"
    using un wf1 by (rule unlink_all_calm) (rule listTasksTx_run_state [OF wf1])
  have "tracks N db bs db'" for N bs using calm by (auto simp: calm_def tracks_def origin_def split: if_splits)
  then have "sound_step N db ((\<lambda>eid. taskDeletedRecord (env_save env) eid k (env_now env 0)) #
      map (\<lambda>p eid. taskUpdatedRecord (env_save env) eid p) peers)
      (TaskDeletedEvent k (env_now env 0) # map task_updated_event peers) db'" for N
    using calm by (intro sound_stepI) (auto simp: calm_def map_announces)
  then show ?thesis using Some un by (auto simp: DeleteTask_tx_def Let_def)
qed

section \<open>Settling transactions\<close>

lemma settle_sound:
  assumes wf: "db_wf db" and t: "tryLoadTaskTx db k = Some t" and "task_ID t' = k"
    and "task_Status t' \<noteq> TaskRunning" "proper_status (task_Status t')" and run: "task_Run t' = task_Run t \<or> task_Run t' = None"
    and "list_all2 announces bs evs" "list_all proper_event evs" and ends: "list_all (ends_only {run_id_of t}) bs"
  shows "sound_step N db bs evs (deleteLeaseTx k (saveTaskTx env t' db))"
proof (rule sound_stepI)
  note st = run_state_load [OF t]
  show "db_wf (deleteLeaseTx k (saveTaskTx env t' db))" using assms by (intro db_wf_settle) auto
  show "tracks N db bs (deleteLeaseTx k (saveTaskTx env t' db))"
    using assms(3,4) run st by (auto simp: tracks_def origin_def)
  have "run_id_of t \<in> settled db (deleteLeaseTx k (saveTaskTx env t' db))"
    using assms(3,4) st unfolding settled_def run_id_of_name by force
  then show "list_all (ends_only (settled db (deleteLeaseTx k (saveTaskTx env t' db)))) bs"
    using ends by (auto simp: list_all_iff intro: ends_only_mono)
qed (use assms in auto)

lemma validateLeaseTx_Inr:
  assumes "validateLeaseTx env k tok now db = Inr (t, l)"
  shows "tryLoadTaskTx db k = Some t" "tryLoadLeaseTx db k = Some l"
  using assms by (auto simp: validateLeaseTx_def split: option.splits if_splits)

lemma requeueTask_fields:
  "requeueTask env t now rb = (t', rid, n) \<Longrightarrow> task_ID t' = task_ID t \<and> task_Status t' = TaskPending \<and> task_Run t' = None \<and>
   rid = run_id_of t \<and> n = task_Attempt t"
  by (auto simp: requeueTask_def)

lemma good_CompleteTask:
  assumes wf: "db_wf db"
  shows "good_tx env db (CompleteTask_tx env k tok oc now0 db)"
proof (cases "validateLeaseTx env k tok (normalizeNow (env_now env 0) now0) db")
  case (Inl e)
  then show ?thesis by (simp add: CompleteTask_tx_def)
next
  case (Inr p)
  obtain t l where p: "p = (t, l)" by (cases p)
  let ?now = "normalizeNow (env_now env 0) now0"
  note v = validateLeaseTx_Inr [OF Inr [unfolded p]]
  have ids: "task_ID t = k" "lease_TaskID l = k" using wf_task [OF wf v(1)] wf_lease [OF wf v(2)] by auto
  define t' where "t' = t\<lparr>task_Status := TaskCompleted,
      task_Result := cloneTaskResult (case Option.bind oc outcome_Result of None \<Rightarrow> None
        | Some r \<Rightarrow> Some (if result_CompletedAt r = zero_time then r\<lparr>result_CompletedAt := ?now\<rparr> else r)),
      task_LastError := [], task_CompletedAt := ?now, task_UpdatedAt := ?now\<rparr>"
  let ?db = "deleteLeaseTx k (saveTaskTx env t' db)"
  obtain as db' where as: "createOutcomeArtifactsTx env t' 0 (case oc of None \<Rightarrow> [] | Some x \<Rightarrow> outcome_Artifacts x) ?now ?db = (as, db')"
    by fastforce
  have eq: "CompleteTask_tx env k tok oc now0 db = tx_done (cloneTask t')
      ((\<lambda>eid. taskCompletedRecord (env_save env) eid t') # map (\<lambda>a eid. artifactCreatedRecord (env_save env) eid a) as)
      (task_completed_event t' # map artifact_created_event as) db'"
    using as unfolding CompleteTask_tx_def Let_def Inr p t'_def by (simp add: ids)
  have base: "sound_step N db ((\<lambda>eid. taskCompletedRecord (env_save env) eid t') # map (\<lambda>a eid. artifactCreatedRecord (env_save env) eid a) as)
      (task_completed_event t' # map artifact_created_event as) ?db" for N
    by (intro settle_sound [OF wf v(1)]) (auto simp: t'_def ids map_announces run_id_of_def)
  have "sound_step N db ((\<lambda>eid. taskCompletedRecord (env_save env) eid t') # map (\<lambda>a eid. artifactCreatedRecord (env_save env) eid a) as)
      (task_completed_event t' # map artifact_created_event as) db'" for N
    using base [of N] outcome_artifacts_frame [OF as] by (simp add: sound_step_def tracks_def origin_def settled_def)
  then show ?thesis by (simp add: eq)
qed

lemma good_FailTask:
  assumes wf: "db_wf db"
  shows "good_tx env db (FailTask_tx env k tok e now0 db)"
proof (cases "validateLeaseTx env k tok (normalizeNow (env_now env 0) now0) db")
  case (Inl e)
  then show ?thesis by (simp add: FailTask_tx_def)
next
  case (Inr p)
  obtain t l where p: "p = (t, l)" by (cases p)
  note v = validateLeaseTx_Inr [OF Inr [unfolded p]]
  have ids: "task_ID t = k" "lease_TaskID l = k" using wf_task [OF wf v(1)] wf_lease [OF wf v(2)] by auto
  show ?thesis
    unfolding FailTask_tx_def Let_def Inr p
    by (auto simp: ids requeueTask_def run_id_of_def intro!: settle_sound [OF wf v(1)])
qed

lemma good_CancelTask:
  assumes wf: "db_wf db"
  shows "good_tx env db (CancelTask_tx env k tok reason now0 db)"
proof (cases "tryLoadTaskTx db k")
  case None
  then show ?thesis by (simp add: CancelTask_tx_def)
next
  case (Some t)
  have tid: "task_ID t = k" using wf_task [OF wf Some] by simp
  show ?thesis
    unfolding CancelTask_tx_def Let_def Some
    by (auto simp: tid run_id_of_def split: option.split intro!: settle_sound [OF wf Some])
qed

lemma good_RetryTask:
  assumes wf: "db_wf db"
  shows "good_tx env db (RetryTask_tx env k reason now0 db)"
proof (cases "tryLoadTaskTx db k")
  case None
  then show ?thesis by (simp add: RetryTask_tx_def)
next
  case (Some t)
  have tid: "task_ID t = k" using wf_task [OF wf Some] by simp
  show ?thesis
    unfolding RetryTask_tx_def Let_def Some
    by (auto simp: tid run_id_of_def requeueTask_def intro!: settle_sound [OF wf Some])
qed

section \<open>Lease transactions\<close>

lemma good_RenewLease:
  assumes wf: "db_wf db"
  shows "good_tx env db (RenewLease_tx env k tok ttl now0 db)"
proof (cases "tryLoadLeaseTx db k")
  case None
  then show ?thesis by (simp add: RenewLease_tx_def)
next
  case (Some l)
  have "lease_TaskID l = k" using wf_lease [OF wf Some] by simp
  then have "sound_step N db [\<lambda>eid. leaseRenewedRecord (env_save env) eid (l\<lparr>lease_ExpiresAt := x\<rparr>) rid]
      [lease_renewed_event (l\<lparr>lease_ExpiresAt := x\<rparr>) rid] (saveLeaseTx env (l\<lparr>lease_ExpiresAt := x\<rparr>) db)" for N x rid
    using Some by (intro sound_stepI wf_renew [OF wf, where ?l0.0 = l]) (auto simp: tracks_same)
  then show ?thesis unfolding RenewLease_tx_def Let_def Some by simp
qed

lemma good_ReleaseLease:
  assumes wf: "db_wf db"
  shows "good_tx env db (ReleaseLease_tx env k tok db)"
proof (cases "tryLoadLeaseTx db k")
  case None
  then show ?thesis by (simp add: ReleaseLease_tx_def)
next
  case (Some l)
  then obtain t where t: "tryLoadTaskTx db k = Some t" "task_Status t = TaskRunning"
    using wf_lease [OF wf Some] by blast
  have tid: "task_ID t = k" using wf_task [OF wf t(1)] by simp
  show ?thesis
    unfolding ReleaseLease_tx_def Let_def Some t option.case
    by (auto simp: tid run_id_of_def requeueTask_def intro!: settle_sound [OF wf t(1)])
qed

abbreviation rec_events :: "lease_recovered \<Rightarrow> orch_event list" where
  "rec_events r \<equiv> rec_released r @ rec_failed r @ rec_requeued r"

lemma recoverLeaseTx_sound:
  assumes wf: "db_wf db" and r: "recoverLeaseTx env k now db = (r, db')"
  shows "sound_step {} db (rec_records r) (rec_events r) db'"
proof (cases "tryLoadLeaseTx db k")
  case None
  then show ?thesis
    using r wf by (auto simp: recoverLeaseTx_def nothing_recovered_def sound_step_refl)
next
  case (Some l)
  show ?thesis
  proof (cases "lease_ExpiresAt l > now")
    case True
    then show ?thesis
      using r wf Some by (auto simp: recoverLeaseTx_def nothing_recovered_def sound_step_refl)
  next
    case False
    obtain t where t: "tryLoadTaskTx db k = Some t" "task_Status t = TaskRunning"
      using wf_lease [OF wf Some] by blast
    have tid: "task_ID t = k" using wf_task [OF wf t(1)] by simp
    show ?thesis
      using r False unfolding recoverLeaseTx_def Some t Let_def option.case
      by (auto simp: tid requeueTask_def run_id_of_def t(2) intro!: settle_sound [OF wf t(1)] split: if_splits)
  qed
qed

lemma recover_all_sound:
  "db_wf db \<Longrightarrow> recover_all env now ks db = (rs, db') \<Longrightarrow>
   sound_step {} db (concat (map rec_records rs)) (concat (map rec_events rs)) db'"
proof (induction ks arbitrary: db rs)
  case Nil
  then show ?case by (simp add: sound_step_refl)
next
  case (Cons k ks)
  obtain r db1 where r: "recoverLeaseTx env k now db = (r, db1)" by fastforce
  obtain rs' where rs: "recover_all env now ks db1 = (rs', db')" "rs = r # rs'"
    using Cons.prems(2) r by (auto simp: Let_def split: prod.splits)
  have first: "sound_step {} db (rec_records r) (rec_events r) db1"
    by (rule recoverLeaseTx_sound [OF Cons.prems(1) r])
  then have "db_wf db1" by (simp add: sound_step_def)
  from sound_step_trans [OF first Cons.IH [OF this rs(1)]] show ?case by (simp add: rs(2))
qed

lemma mset_concat_parts:
  "mset (concat (map rec_released rs) @ concat (map rec_failed rs) @ concat (map rec_requeued rs)) =
   mset (concat (map rec_events rs))"
  by (induction rs) simp_all

lemma good_RecoverExpiredLeases:
  assumes wf: "db_wf db"
  shows "good_tx env db (RecoverExpiredLeases_tx env now0 db)"
proof -
  let ?now = "normalizeNow (env_now env 0) now0"
  obtain rs db' where rs: "recover_all env ?now (expired_lease_ids env ?now db) db = (rs, db')" by fastforce
  show ?thesis
    unfolding RecoverExpiredLeases_tx_def Let_def rs prod.case good_tx_simps
    by (rule sound_step_more) (rule sound_step_reorder [OF recover_all_sound [OF wf rs] mset_concat_parts])
qed

lemma good_RecoverExpiredLease:
  assumes wf: "db_wf db"
  shows "good_tx env db (RecoverExpiredLease_tx env k now0 db)"
proof -
  obtain r db' where r: "recoverLeaseTx env k (normalizeNow (env_now env 0) now0) db = (r, db')" by fastforce
  show ?thesis
    unfolding RecoverExpiredLease_tx_def Let_def r prod.case good_tx_simps
    by (rule sound_step_more) (rule recoverLeaseTx_sound [OF wf r])
qed

section \<open>Claiming transactions\<close>

text \<open>
  \<^verbatim>\<open>claimTaskTx\<close> fails and changes nothing, or gives up an exhausted task, or starts a run.
\<close>

lemma claims_taskClaimed: "claims (\<lambda>eid. taskClaimedRecord rd eid t l) rid \<longleftrightarrow> rid = run_id_of t"
  by (auto simp: claims_def taskClaimedRecord_def newEventRecord_def Let_def run_id_of_def)

lemma claimTaskTx_sound:
  assumes wf: "db_wf db" and r: "claimTaskTx env k req now db = (r, ex, db')"
  obtains (none) e where "r = Inl e" "ex = None" "db' = db"
  | (exhausted) t where "r = Inl (Sentinel ErrNoReadyTask)" "ex = Some t"
      "sound_step {} db (failed_builders env [t]) [task_failed_event t] db'"
  | (claimed) c where "r = Inr c" "ex = None" "sound_step {newID env ''run'' 0} db [claim_builder env c] [claim_event c] db'"
proof (cases "tryLoadTaskTx db k")
  case None
  then show thesis using r none by (auto simp: claimTaskTx_def)
next
  case (Some t)
  have tid: "task_ID t = k" using wf_task [OF wf Some] by simp
  let ?t' = "sq_start_run env (clr_WorkerID req) now t"
  let ?l' = "sq_new_lease env (clr_WorkerID req) now (clr_LeaseTTL req) ?t'"
  let ?c = "\<lparr>claim_Task = cloneTask ?t', claim_Lease = ?l', claim_Run = task_Run ?t'\<rparr>"
  have give_up: "sound_step {} db (failed_builders env [exhaust_task now t]) [task_failed_event (exhaust_task now t)]
      (deleteLeaseTx k (saveTaskTx env (exhaust_task now t) db))"
    by (intro settle_sound [OF wf Some]) (auto simp: exhaust_task_def tid failed_builders_def run_id_of_def)
  have again: "sound_step {} db (failed_builders env [t]) [task_failed_event t] db" if "task_Status t \<noteq> TaskRunning"
  proof -
    have "run_id_of t \<in> settled db db"
      using run_state_load [OF Some] that unfolding settled_def run_id_of_name by force
    then show ?thesis using wf by (intro sound_stepI) (auto simp: failed_builders_def tracks_same)
  qed
  have "db_wf (saveLeaseTx env ?l' (saveTaskTx env ?t' db))"
    by (rule wf_start [OF wf]) (auto simp: sq_start_run_def sq_new_lease_def)
  moreover have "tracks {newID env ''run'' 0} db [claim_builder env ?c] (saveLeaseTx env ?l' (saveTaskTx env ?t' db))"
    by (auto simp: tracks_def origin_def claim_builder_def claims_taskClaimed sq_start_run_def run_id_of_def)
  ultimately have start: "sound_step {newID env ''run'' 0} db [claim_builder env ?c] [claim_event ?c]
      (saveLeaseTx env ?l' (saveTaskTx env ?t' db))"
    by (intro sound_stepI) (auto simp: claim_builder_def claim_event_def)
  have ex_id: "task_ID (exhaust_task now t) = k" by (simp add: exhaust_task_def tid)
  from r show thesis
    unfolding claimTaskTx_def Some Let_def option.case
    using give_up again start none exhausted claimed
    by (auto simp: ex_id split: if_splits)
qed

lemma failed_builders_append: "failed_builders env (ts @ us) = failed_builders env ts @ failed_builders env us"
  by (simp add: failed_builders_def)

lemma claim_scan_sound:
  "sound_step {} db0 (failed_builders env failed) (map task_failed_event failed) db \<Longrightarrow> newID env ''run'' 0 \<notin> run_ids db0 \<Longrightarrow>
   good_tx env db0 (claim_scan env req now ks failed db)"
proof (induction ks arbitrary: failed db)
  case Nil
  then show ?case by (simp add: sound_step_more)
next
  case (Cons k ks)
  obtain r ex db1 where claim: "claimTaskTx env k req now db = (r, ex, db1)" by (metis prod_cases3)
  have wf: "db_wf db" using Cons.prems by (simp add: sound_step_def)
  show ?case
  proof (rule claimTaskTx_sound [OF wf claim])
    fix e assume "r = Inl e" "ex = None" "db1 = db"
    then show ?thesis using claim Cons by simp
  next
    fix t assume t: "r = Inl (Sentinel ErrNoReadyTask)" "ex = Some t"
      "sound_step {} db (failed_builders env [t]) [task_failed_event t] db1"
    have "good_tx env db0 (claim_scan env req now ks (failed @ [t]) db1)"
      using sound_step_trans [OF Cons.prems(1) t(3)] Cons.prems(2) by (intro Cons.IH) (simp add: failed_builders_append)
    then show ?thesis using claim t by simp
  next
    fix c assume "r = Inr c" "ex = None" and
      c: "sound_step {newID env ''run'' 0} db [claim_builder env c] [claim_event c] db1"
    then show ?thesis using claim sound_step_trans [OF Cons.prems(1) c] Cons.prems(2) by simp
  qed
qed

lemma good_ClaimReadyTask: "db_wf db \<Longrightarrow> newID env ''run'' 0 \<notin> run_ids db \<Longrightarrow> good_tx env db (ClaimReadyTask_tx env req db)"
  unfolding ClaimReadyTask_tx_def
  by (rule claim_scan_sound) (simp_all add: failed_builders_def sound_step_refl)

lemma good_ClaimTask:
  assumes wf: "db_wf db"
  shows "good_tx env db (ClaimTask_tx env k req db)"
proof -
  obtain r ex db1 where claim: "claimTaskTx env k req (normalizeNow (env_now env 0) (clr_Now req)) db = (r, ex, db1)"
    by (metis prod_cases3)
  show ?thesis
    by (rule claimTaskTx_sound [OF wf claim]) (use claim in \<open>auto simp: ClaimTask_tx_def sound_step_more\<close>)
qed

section \<open>Artifact and command transactions\<close>

lemma good_CreateArtifact: "db_wf db \<Longrightarrow> good_tx env db (CreateArtifact_tx env req db)"
  unfolding CreateArtifact_tx_def
  by (auto simp: Let_def tracks_same split: option.split intro!: sound_stepI)

lemma command_sound:
  assumes "db_wf db" and "proper_command_kind (cmd_Kind c)"
    and "list_all2 announces bs evs" "list_all proper_event evs" "list_all (ends_only {}) bs"
  shows "sound_step N db bs evs (saveCommandTx env c db)"
  using assms by (intro sound_calm) (auto simp: calm_def wf_save_command)

lemma validateCommandTarget_kind: "sq_validateCommandTarget t req = Inr p \<Longrightarrow> proper_command_kind (ccr_Kind req)"
  by (cases "ccr_Kind req") (auto simp: sq_validateCommandTarget_def)

lemma good_CreateCommand:
  assumes wf: "db_wf db"
  shows "good_tx env db (CreateCommand_tx env req db)"
  unfolding CreateCommand_tx_def
  by (auto simp: Let_def wf split: option.split sum.split dest!: validateCommandTarget_kind intro!: command_sound)

lemma retarget_kind [simp]: "cmd_Kind (retarget t c) = cmd_Kind c"
  by (simp add: retarget_def Let_def split: option.split command_kind.split task_status.split)

lemma refresh_sound:
  assumes "db_wf db" and "proper_command_kind (cmd_Kind c)" and "refreshCommandTargetTx env c db = (c', db')"
  shows "sound_step {} db [] [] db' \<and> cmd_Kind c' = cmd_Kind c"
proof -
  have "sound_step {} db [] [] (saveCommandTx env (retarget u c) db)" for u
    using assms(1,2) by (intro command_sound) auto
  then show ?thesis using assms by (auto simp: refreshCommandTargetTx_def Let_def sound_step_refl)
qed

lemma claim_command_kind [simp]: "cmd_Kind (claim_command w now c) = cmd_Kind c"
  by (simp add: claim_command_def)

lemma unclaim_kind [simp]: "cmd_Kind (unclaim c) = cmd_Kind c"
  by (simp add: unclaim_def)

lemma claimed_out_good:
  assumes first: "sound_step {} db0 [] [] db" and "proper_command_kind (cmd_Kind c)"
  shows "good_tx env db0 (claimed_out env w now c db)"
proof -
  have "db_wf db" using first by (simp add: sound_step_def)
  then have "sound_step N db [\<lambda>eid. commandClaimedRecord (env_save env) eid (claim_command w now c)]
      [command_claimed_event (claim_command w now c)] (saveCommandTx env (claim_command w now c) db)" for N
    using assms(2) by (intro command_sound) auto
  from sound_step_trans [OF first this, of "{}"] show ?thesis by (simp add: claimed_out_def Let_def sound_step_more)
qed

lemma claim_command_scan_good:
  "sound_step {} db0 [] [] db \<Longrightarrow> (\<And>c. c \<in> set cs \<Longrightarrow> proper_command_kind (cmd_Kind c)) \<Longrightarrow>
   good_tx env db0 (claim_command_scan env w now cs db)"
proof (induction cs arbitrary: db)
  case Nil
  then show ?case by simp
next
  case (Cons c cs)
  obtain c' db1 where rf: "refreshCommandTargetTx env c db = (c', db1)" by fastforce
  have "db_wf db" using Cons.prems by (simp add: sound_step_def)
  then have step: "sound_step {} db [] [] db1" "cmd_Kind c' = cmd_Kind c"
    using refresh_sound [OF _ _ rf] Cons.prems(2) by auto
  have all: "sound_step {} db0 [] [] db1" using sound_step_trans [OF Cons.prems(1) step(1)] by simp
  show ?case
    using Cons.IH [OF Cons.prems(1)] Cons.IH [OF all] claimed_out_good [OF all] Cons.prems(2) step(2) rf by auto
qed

lemma listCommandsTx_kind:
  assumes "db_wf db" and "c \<in> set (listCommandsTx db)"
  shows "proper_command_kind (cmd_Kind c)"
proof -
  from assms(2) obtain k where "tryLoadCommandTx db k = Some c"
    unfolding listCommandsTx_def List.map_filter_def by fastforce
  then show ?thesis using wf_command [OF assms(1)] by blast
qed

lemma good_ClaimPendingCommand: "db_wf db \<Longrightarrow> good_tx env db (ClaimPendingCommand_tx env req db)"
  unfolding ClaimPendingCommand_tx_def
  by (rule claim_command_scan_good) (simp_all add: sound_step_refl listCommandsTx_kind)

lemma good_ClaimCommand:
  assumes wf: "db_wf db"
  shows "good_tx env db (ClaimCommand_tx env k req db)"
proof (cases "tryLoadCommandTx db k")
  case None
  then show ?thesis by (simp add: ClaimCommand_tx_def)
next
  case (Some c)
  obtain c' db1 where rf: "refreshCommandTargetTx env c db = (c', db1)" by fastforce
  have "sound_step {} db [] [] db1" "proper_command_kind (cmd_Kind c')"
    using refresh_sound [OF wf _ rf] wf_command [OF wf Some] by auto
  from claimed_out_good [OF this] show ?thesis
    unfolding ClaimCommand_tx_def Some Let_def by (simp add: rf)
qed

lemma good_HandleCommand:
  assumes wf: "db_wf db"
  shows "good_tx env db (HandleCommand_tx env k tok w now db)"
proof (cases "tryLoadCommandTx db k")
  case None
  then show ?thesis by (simp add: HandleCommand_tx_def)
next
  case (Some c)
  then show ?thesis
    using wf_command [OF wf Some] unfolding HandleCommand_tx_def Some Let_def
    by (auto intro!: command_sound [OF wf])
qed

lemma good_ReleaseCommand:
  assumes wf: "db_wf db"
  shows "good_tx env db (ReleaseCommand_tx env k tok db)"
proof (cases "tryLoadCommandTx db k")
  case None
  then show ?thesis by (simp add: ReleaseCommand_tx_def)
next
  case (Some c)
  then show ?thesis
    using wf_command [OF wf Some] unfolding ReleaseCommand_tx_def Some Let_def
    by (auto intro!: command_sound [OF wf])
qed

lemma recover_claims_sound:
  "db_wf db \<Longrightarrow> (\<And>c. c \<in> set cs \<Longrightarrow> proper_command_kind (cmd_Kind c)) \<Longrightarrow> recover_claims env now cs db = (rs, db') \<Longrightarrow>
   sound_step {} db (map (fst \<circ> snd) rs) (map (snd \<circ> snd) rs) db'"
proof (induction cs arbitrary: db rs)
  case Nil
  then show ?case by (simp add: sound_step_refl)
next
  case (Cons c cs)
  let ?db = "saveCommandTx env (unclaim c) db"
  obtain rs' where rest: "recover_claims env now cs ?db = (rs', db')"
    and rs: "rs = (\<lparr>crec_Command = cloneCommand (unclaim c), crec_RecoveredAt = now, crec_ReleasedBy = cmd_ClaimedBy c\<rparr>,
      \<lambda>eid. commandReleasedRecord (env_save env) eid (unclaim c) (cmd_ClaimedBy c) ''claim expired'' True now,
      command_released_event (unclaim c) (cmd_ClaimedBy c) now ''claim expired'' True) # rs'"
    using Cons.prems(3) by (auto simp: Let_def split: prod.splits)
  have step: "sound_step {} db [\<lambda>eid. commandReleasedRecord (env_save env) eid (unclaim c) (cmd_ClaimedBy c) ''claim expired'' True now]
      [command_released_event (unclaim c) (cmd_ClaimedBy c) now ''claim expired'' True] ?db"
    using Cons.prems by (intro command_sound) auto
  have "sound_step {} ?db (map (fst \<circ> snd) rs') (map (snd \<circ> snd) rs') db'"
    using step Cons.prems(2) rest by (intro Cons.IH) (auto simp: sound_step_def)
  from sound_step_trans [OF step this] show ?case by (simp add: rs comp_def)
qed

lemma good_RecoverClaimedCommands:
  assumes wf: "db_wf db"
  shows "good_tx env db (RecoverClaimedCommands_tx env before0 now0 db)"
proof -
  let ?now = "normalizeNow (env_now env 0) now0"
  let ?before = "if before0 = zero_time then ?now else before0"
  let ?claimed = "List.map_filter (\<lambda>k. case fmlookup (db_commands db) k of None \<Rightarrow> None
    | Some r \<Rightarrow> if cr_status r = ''claimed'' then Some (cr_payload r) else None) (order_by cr_created_at (db_commands db))"
  let ?due = "filter (\<lambda>c. \<not> (cmd_ClaimedAt c = zero_time \<or> cmd_ClaimedAt c > ?before)) ?claimed"
  obtain rs db' where rc: "recover_claims env ?now ?due db = (rs, db')" by fastforce
  have "proper_command_kind (cmd_Kind c)" if "c \<in> set ?due" for c
  proof -
    from that obtain k r where "fmlookup (db_commands db) k = Some r" "c = cr_payload r"
      by (auto simp: List.map_filter_def split: option.splits if_splits)
    then show ?thesis using wf_command [OF wf, of k c] by simp
  qed
  then have "sound_step {} db (map (fst \<circ> snd) rs) (map (snd \<circ> snd) rs) db'"
    by (rule recover_claims_sound [OF wf _ rc])
  then show ?thesis
    unfolding RecoverClaimedCommands_tx_def Let_def rc prod.case good_tx_simps by (rule sound_step_more)
qed

lemma good_RecoverClaimedCommand:
  assumes wf: "db_wf db"
  shows "good_tx env db (RecoverClaimedCommand_tx env k before0 now0 db)"
proof (cases "tryLoadCommandTx db k")
  case None
  then show ?thesis by (simp add: RecoverClaimedCommand_tx_def Let_def sound_step_refl wf)
next
  case (Some c)
  let ?now = "normalizeNow (env_now env 0) now0"
  obtain rs db' where rc: "recover_claims env ?now [c] db = (rs, db')" by fastforce
  have "sound_step {} db (map (fst \<circ> snd) rs) (map (snd \<circ> snd) rs) db'"
    using wf_command [OF wf Some] by (intro recover_claims_sound [OF wf _ rc]) auto
  then show ?thesis
    unfolding RecoverClaimedCommand_tx_def Let_def Some option.case rc prod.case
    by (auto simp: sound_step_refl wf sound_step_more)
qed

end
