(* ===== verification/Sql_System.thy ===== *)
theory Sql_System
  imports Sql_Transactions
begin

text \<open>
  The durable store as a system of operations: what a committed transaction does to the store, the
  invariant that every operation keeps, and the runs that later operations cannot end.
\<close>

section \<open>Committing a sound step\<close>

abbreviation history :: "sql_store \<Rightarrow> event_record list" where
  "history s \<equiv> log_of (db_events (sq_db s))"

text \<open>A record of the log carries an event: it decodes to it, as far as the event is text in UTF-8.\<close>

definition carries :: "event_record \<Rightarrow> orch_event \<Rightarrow> bool" where
  "carries e ev \<longleftrightarrow> DecodeEvent e = Inr \<lparr>dec_Record = e, dec_Payload = json_event ev\<rparr>"

lemma stamped_announced:
  "announces b ev \<Longrightarrow> stamped rd n (b eid) =
     (b eid)\<lparr>ev_CreatedAt := normalizeNow rd (ev_CreatedAt (b eid)), ev_Sequence := n\<rparr>"
  unfolding stamped_def announces_def by (rule record_read_back_proper) simp_all

lemma announces_carries:
  assumes "announces b ev" and "e = (b eid)\<lparr>ev_CreatedAt := at, ev_Sequence := n\<rparr>"
  shows "carries e ev"
  using assms unfolding carries_def announces_def by (intro DecodeEvent_event_json) simp_all

text \<open>Saving the drawn records appends them; each gets its time and its sequence number.\<close>

lemma saveEventsTx_records:
  "table_wf t \<Longrightarrow> saveEventsTx rd es t = Inr t' \<Longrightarrow>
   \<exists>new. log_of t' = log_of t @ new \<and> list_all2 (\<lambda>e' e. \<exists>n. e' = stamped rd n e) new es"
proof (induction es arbitrary: t)
  case (Cons e es)
  from Cons.prems(2) obtain t1 where t1: "saveEventTx rd e t = Inr t1" and rest: "saveEventsTx rd es t1 = Inr t'"
    by (auto split: sum.splits)
  obtain new where "log_of t' = log_of t1 @ new" "list_all2 (\<lambda>e' e. \<exists>n. e' = stamped rd n e) new es"
    using Cons.IH [OF saveEventTx_Inr(1) [OF Cons.prems(1) t1] rest] by blast
  with saveEventTx_Inr(2) [OF Cons.prems(1) t1] show ?case by auto
qed simp

lemma draw_ids_of: "list_all2 (\<lambda>e b. \<exists>eid. e = b eid) (draw_ids env bs) bs"
  unfolding draw_ids_def list_all2_conv_all_nth by auto

text \<open>
  \<open>commits N s evs s'\<close>: the operation appended records that carry the events \<open>evs\<close> and published them;
  the runs of \<open>s'\<close> are kept from \<open>s\<close> or, for one task, drawn from \<open>N\<close> and recorded as claimed; a run that a
  new record ends is not running any more.
\<close>

definition commits :: "string set \<Rightarrow> sql_store \<Rightarrow> orch_event list \<Rightarrow> sql_store \<Rightarrow> bool" where
  "commits N s evs s' \<longleftrightarrow>
     db_wf (sq_db s') \<and> sq_bus s' = publish_all evs (sq_bus s) \<and> list_all proper_event evs \<and>
     (\<exists>new es. history s' = history s @ new \<and> list_all2 carries new es \<and> mset es = mset evs \<and>
        origin (\<lambda>rid. \<exists>e \<in> set new. ev_Kind e = EventTaskClaimed \<and> ev_RunID e = rid) N (sq_db s) (sq_db s') \<and>
        (\<forall>e \<in> set new. closes_run (ev_Kind e) \<longrightarrow> ev_RunID e \<in> insert [] (settled (sq_db s) (sq_db s'))))"

lemma publish_nothing [simp]: "publish_all [] bus = bus"
  by (cases bus) (simp_all add: publish_all_def)

lemma commits_refl: "db_wf (sq_db s) \<Longrightarrow> commits N s [] s"
  by (auto simp: commits_def origin_def)

lemma db_wf_new_events: "db_wf db \<Longrightarrow> table_wf tab \<Longrightarrow> db_wf (db\<lparr>db_events := tab\<rparr>)"
  unfolding db_wf_def lease_row_ok_def by simp

lemma settled_new_events [simp]: "settled db (db'\<lparr>db_events := tab\<rparr>) = settled db db'"
  by (simp add: settled_def)

lemma origin_new_events [simp]: "origin P N db (db'\<lparr>db_events := tab\<rparr>) = origin P N db db'"
  by (simp add: origin_def)

lemma sound_records:
  assumes an: "list_all2 announces bs es" and ends: "list_all (ends_only R) bs"
    and new: "list_all2 (\<lambda>e' e. \<exists>n. e' = stamped rd n e) new (draw_ids env bs)"
  shows "list_all2 carries new es \<and> (\<forall>e \<in> set new. closes_run (ev_Kind e) \<longrightarrow> ev_RunID e \<in> insert [] R) \<and>
    (\<forall>b \<in> set bs. claims b rid \<longrightarrow> (\<exists>e \<in> set new. ev_Kind e = EventTaskClaimed \<and> ev_RunID e = rid))"
proof -
  have "list_all2 (\<lambda>e b. \<exists>eid n. e = stamped rd n (b eid)) new bs"
    using list_all2_trans [OF _ new draw_ids_of, of "\<lambda>e b. \<exists>eid n. e = stamped rd n (b eid)"] by blast
  then have rec: "list_all2 (\<lambda>e b. \<exists>eid at n. e = (b eid)\<lparr>ev_CreatedAt := at, ev_Sequence := n\<rparr>) new bs"
    using an unfolding list_all2_conv_all_nth by (metis stamped_announced)
  note len = list_all2_lengthD [OF rec] list_all2_lengthD [OF an]
  have "list_all2 carries new es"
  proof (rule list_all2_all_nthI)
    fix i
    assume i: "i < length new"
    from list_all2_nthD [OF rec i] obtain eid at n where "new ! i = ((bs ! i) eid)\<lparr>ev_CreatedAt := at, ev_Sequence := n\<rparr>"
      by blast
    moreover have "announces (bs ! i) (es ! i)" using list_all2_nthD [OF an] i len by simp
    ultimately show "carries (new ! i) (es ! i)" by (blast intro: announces_carries)
  qed (use len in simp)
  moreover have "ev_RunID e \<in> insert [] R" if "e \<in> set new" "closes_run (ev_Kind e)" for e
  proof -
    from that(1) obtain i where i: "i < length new" "e = new ! i" by (metis in_set_conv_nth)
    from list_all2_nthD [OF rec i(1)] i(2) obtain eid at n where
      "e = ((bs ! i) eid)\<lparr>ev_CreatedAt := at, ev_Sequence := n\<rparr>" by blast
    moreover have "ends_only R (bs ! i)" using ends i len by (simp add: list_all_length)
    ultimately show ?thesis using that(2) by (simp add: ends_only_def)
  qed
  moreover have "\<exists>e \<in> set new. ev_Kind e = EventTaskClaimed \<and> ev_RunID e = rid" if "b \<in> set bs" "claims b rid" for b
  proof -
    from that(1) obtain i where i: "i < length bs" "b = bs ! i" by (metis in_set_conv_nth)
    with len have "i < length new" by simp
    with list_all2_nthD [OF rec this] i(2) that(2) show ?thesis
      by (intro bexI [of _ "new ! i"]) (auto simp: claims_def)
  qed
  ultimately show ?thesis by blast
qed

lemma saved_step_commits:
  assumes step: "sound_step N (sq_db s) bs evs db'" and saved: "saveEventsTx rd (draw_ids env bs) (db_events db') = Inr tab"
  shows "commits N s evs \<lparr>sq_db = db'\<lparr>db_events := tab\<rparr>, sq_bus = publish_all evs (sq_bus s)\<rparr>"
proof -
  from step obtain es where es: "list_all2 announces bs es" "mset es = mset evs"
    and parts: "db_wf db'" "db_events db' = db_events (sq_db s)" "list_all proper_event evs"
      "list_all (ends_only (settled (sq_db s) db')) bs" "tracks N (sq_db s) bs db'"
    unfolding sound_step_def by blast
  have tw: "table_wf (db_events db')" using parts(1) by (simp add: db_wf_def)
  obtain new where log: "log_of tab = log_of (db_events db') @ new" and
    new: "list_all2 (\<lambda>e' e. \<exists>n. e' = stamped rd n e) new (draw_ids env bs)"
    using saveEventsTx_records [OF tw saved] by blast
  note recs = sound_records [OF es(1) parts(4) new]
  have "origin (\<lambda>rid. \<exists>e \<in> set new. ev_Kind e = EventTaskClaimed \<and> ev_RunID e = rid) N (sq_db s) db'"
    using parts(5) unfolding tracks_def by (rule origin_mono) (use recs in blast)
  then show ?thesis
    using recs es(2) log parts(2,3) db_wf_new_events [OF parts(1), of tab] saveEventsTx_Inr [OF tw saved]
    unfolding commits_def by (intro conjI exI [of _ new] exI [of _ es]) simp_all
qed

lemma withTx_commits:
  assumes wf: "db_wf (sq_db s)" and good: "good_tx env (sq_db s) (fn (sq_db s))"
  shows "\<exists>evs. commits {newID env ''run'' 0} s evs (snd (withTx env fn s))"
  using good commits_refl [OF wf] saved_step_commits
  by (force simp: withTx_def good_tx_def split: sum.split)

section \<open>The system\<close>

text \<open>
  UUIDs do not repeat: an operation is taken only when the task identifier it would draw is not in the
  table and the run identifier not in the log.
\<close>

definition fresh_ids :: "sql_env \<Rightarrow> sql_db \<Rightarrow> bool" where
  "fresh_ids env db \<longleftrightarrow> newID env ''task'' 0 |\<notin>| fmdom (db_tasks db) \<and>
     newID env ''run'' 0 \<notin> set (map ev_RunID (log_of (db_events db)))"

definition sql_step :: "sql_env \<times> sql_op \<Rightarrow> sql_store \<Rightarrow> sql_store" where
  "sql_step a s = (if fresh_ids (fst a) (sq_db s) then sql_exec a s else s)"

lemma snd_flatten [simp]: "snd (flatten rs) = snd rs"
  by (auto simp: flatten_def split: prod.split sum.split)

lemmas sq_ops = sq_CreateTask_def sq_UpdateTask_def sq_DeleteTask_def sq_ClaimReadyTask_def sq_ClaimTask_def
  sq_CompleteTask_def sq_FailTask_def sq_CancelTask_def sq_RetryTask_def sq_RenewLease_def sq_ReleaseLease_def
  sq_RecoverExpiredLeases_def sq_RecoverExpiredLease_def sq_CreateArtifact_def sq_CreateCommand_def
  sq_ClaimPendingCommand_def sq_ClaimCommand_def sq_HandleCommand_def sq_ReleaseCommand_def
  sq_RecoverClaimedCommands_def sq_RecoverClaimedCommand_def

lemmas good_ops = good_CreateTask good_UpdateTask good_DeleteTask good_ClaimReadyTask good_ClaimTask
  good_CompleteTask good_FailTask good_CancelTask good_RetryTask good_RenewLease good_ReleaseLease
  good_RecoverExpiredLeases good_RecoverExpiredLease good_CreateArtifact good_CreateCommand
  good_ClaimPendingCommand good_ClaimCommand good_HandleCommand good_ReleaseCommand
  good_RecoverClaimedCommands good_RecoverClaimedCommand

text \<open>
  The history knows every run that a task has, under one task only, and shows no end of a run that
  is still running.
\<close>

definition unended :: "string \<Rightarrow> sql_store \<Rightarrow> bool" where
  "unended rid s \<longleftrightarrow> (\<forall>e \<in> set (history s). ev_RunID e = rid \<longrightarrow> \<not> closes_run (ev_Kind e))"

definition known_run :: "string \<Rightarrow> sql_store \<Rightarrow> bool" where
  "known_run rid s \<longleftrightarrow> rid \<noteq> [] \<and> (\<exists>e \<in> set (history s). ev_Kind e = EventTaskClaimed \<and> ev_RunID e = rid)"

definition runs_known :: "sql_store \<Rightarrow> bool" where
  "runs_known s \<longleftrightarrow>
     (\<forall>k st x. task_run_state (sq_db s) k = Some (st, Some x) \<longrightarrow>
        known_run (run_ID x) s \<and> (st = TaskRunning \<longrightarrow> unended (run_ID x) s)) \<and>
     (\<forall>k k' st st' x x'. task_run_state (sq_db s) k = Some (st, Some x) \<longrightarrow> task_run_state (sq_db s) k' = Some (st', Some x') \<longrightarrow>
        run_ID x = run_ID x' \<longrightarrow> k = k')"

lemma newID_ne [simp]: "newID env p n \<noteq> []"
  by (simp add: newID_def)

lemma known_run_ids:
  assumes "runs_known s" and "rid \<in> run_ids (sq_db s)"
  shows "rid = [] \<or> rid \<in> set (map ev_RunID (history s))"
proof -
  from assms(2) obtain k st r where r: "task_run_state (sq_db s) k = Some (st, r)" "rid = run_name r"
    unfolding run_ids_def by blast
  show ?thesis
  proof (cases r)
    case (Some x)
    then have "known_run (run_ID x) s" using assms(1) r(1) unfolding runs_known_def by blast
    then show ?thesis using r Some by (force simp: known_run_def)
  qed (use r in simp)
qed

lemma sql_exec_commits:
  assumes wf: "db_wf (sq_db s)" and known: "runs_known s" and fresh: "fresh_ids env (sq_db s)"
  shows "\<exists>evs. commits {newID env ''run'' 0} s evs (sql_exec (env, op) s)"
proof -
  have "newID env ''run'' 0 \<notin> run_ids (sq_db s)"
    using known_run_ids [OF known, of "newID env ''run'' 0"] fresh by (auto simp: fresh_ids_def)
  then show ?thesis
    using commits_refl [OF wf, of "{newID env ''run'' 0}"] fresh
    by (cases op) (auto simp: sq_ops fresh_ids_def intro!: withTx_commits wf good_ops)
qed

lemma sql_step_commits:
  assumes "db_wf (sq_db s)" and "runs_known s" and "fresh_ids (fst a) (sq_db s)"
  shows "\<exists>evs. commits {newID (fst a) ''run'' 0} s evs (sql_step a s)"
  using sql_exec_commits [OF assms, of "snd a"] assms(3) by (simp add: sql_step_def)

lemma runs_knownD:
  assumes "runs_known s" and "task_run_state (sq_db s) k = Some (st, Some x)"
  shows "known_run (run_ID x) s" and "st = TaskRunning \<Longrightarrow> unended (run_ID x) s"
    and "task_run_state (sq_db s) k' = Some (st', Some x') \<Longrightarrow> run_ID x' = run_ID x \<Longrightarrow> k' = k"
  using assms unfolding runs_known_def by blast+

text \<open>A run in the set \<open>settled\<close> is not the run of a running task.\<close>

lemma settled_stops:
  assumes known: "runs_known s" and o: "origin P {n} (sq_db s) db'" and n: "n \<notin> set (map ev_RunID (history s))"
    and x: "run_ID x \<in> settled (sq_db s) db'" "run_ID x \<noteq> []"
  shows "task_run_state db' k \<noteq> Some (TaskRunning, Some x)"
proof
  assume now: "task_run_state db' k = Some (TaskRunning, Some x)"
  from x obtain k1 st1 x1 where 1: "task_run_state (sq_db s) k1 = Some (st1, Some x1)" "run_ID x1 = run_ID x"
      "task_run_state db' k1 \<noteq> Some (TaskRunning, Some x1)"
    unfolding settled_def run_name_def by (auto split: option.splits)
  have "run_ID x \<noteq> n" using runs_knownD(1) [OF known 1(1)] 1(2) n by (force simp: known_run_def)
  with o now have "task_run_state (sq_db s) k = Some (TaskRunning, Some x)" unfolding origin_def by blast
  with runs_knownD(3) [OF known 1(1) this] 1 now show False by auto
qed

lemma runs_known_commits:
  assumes known: "runs_known s" and c: "commits {n} s evs s'" and n: "n \<noteq> []" "n \<notin> set (map ev_RunID (history s))"
  shows "runs_known s'"
proof -
  from c obtain new where log: "history s' = history s @ new"
    and o: "origin (\<lambda>rid. \<exists>e \<in> set new. ev_Kind e = EventTaskClaimed \<and> ev_RunID e = rid) {n} (sq_db s) (sq_db s')"
    and ends: "\<And>e. e \<in> set new \<Longrightarrow> closes_run (ev_Kind e) \<Longrightarrow> ev_RunID e \<in> insert [] (settled (sq_db s) (sq_db s'))"
    unfolding commits_def by blast
  from o obtain k0 where from_: "\<And>k st' x. task_run_state (sq_db s') k = Some (st', Some x) \<Longrightarrow>
        (\<exists>st. task_run_state (sq_db s) k = Some (st, Some x) \<and> (st' = TaskRunning \<longrightarrow> st = TaskRunning)) \<or>
        (k = k0 \<and> run_ID x = n \<and> (\<exists>e \<in> set new. ev_Kind e = EventTaskClaimed \<and> ev_RunID e = run_ID x))"
    unfolding origin_def by blast
  have kn: "known_run (run_ID x) s'" if "task_run_state (sq_db s') k = Some (st, Some x)" for k st x
    using from_ [OF that] runs_knownD(1) [OF known, of k _ x] n(1) by (fastforce simp: known_run_def log)
  have "unended (run_ID x) s'" if x: "task_run_state (sq_db s') k = Some (TaskRunning, Some x)" for k x
  proof -
    have "unended (run_ID x) s"
      using from_ [OF x] runs_knownD(2) [OF known, of k _ x] n(2) by (force simp: unended_def)
    moreover have "\<not> closes_run (ev_Kind e)" if "e \<in> set new" "ev_RunID e = run_ID x" for e
      using ends [OF that(1)] that(2) settled_stops [OF known o n(2), of x k] x kn [OF x] by (auto simp: known_run_def)
    ultimately show ?thesis by (auto simp: unended_def log)
  qed
  moreover have "k = k'" if a: "task_run_state (sq_db s') k = Some (st, Some x)"
      and b: "task_run_state (sq_db s') k' = Some (st', Some x')" and eq: "run_ID x = run_ID x'" for k k' st st' x x'
  proof -
    have "run_ID y \<noteq> n" if "task_run_state (sq_db s) j = Some (sy, Some y)" for j sy y
      using runs_knownD(1) [OF known that] n(2) by (force simp: known_run_def)
    with from_ [OF a] from_ [OF b] eq show ?thesis by (metis runs_knownD(3) [OF known])
  qed
  ultimately show ?thesis unfolding runs_known_def using kn by blast
qed

text \<open>The bus has exactly the events that the log holds.\<close>

definition outbox :: "sql_store \<Rightarrow> bool" where
  "outbox s \<longleftrightarrow> (\<exists>es. list_all2 carries (history s) es \<and> list_all proper_event es \<and>
     (case sq_bus s of None \<Rightarrow> True | Some published \<Rightarrow> mset published = mset es))"

definition sql_inv :: "sql_store \<Rightarrow> bool" where
  "sql_inv s \<longleftrightarrow> db_wf (sq_db s) \<and> outbox s \<and> runs_known s"

lemma outbox_commits:
  assumes "outbox s" and "commits N s evs s'"
  shows "outbox s'"
proof -
  from assms(1) obtain es where es: "list_all2 carries (history s) es" "list_all proper_event es"
      "case sq_bus s of None \<Rightarrow> True | Some published \<Rightarrow> mset published = mset es"
    unfolding outbox_def by blast
  from assms(2) obtain new ns where new: "history s' = history s @ new" "list_all2 carries new ns" "mset ns = mset evs"
    and bus: "sq_bus s' = publish_all evs (sq_bus s)" "list_all proper_event evs"
    unfolding commits_def by blast
  have "list_all2 carries (history s') (es @ ns)"
    using es(1) new by (simp add: list_all2_appendI)
  moreover have "list_all proper_event (es @ ns)"
    using es(2) bus(2) new(3) unfolding list_all_iff by (metis Un_iff set_append set_mset_mset)
  moreover have "case sq_bus s' of None \<Rightarrow> True | Some published \<Rightarrow> mset published = mset (es @ ns)"
    using es(3) new(3) by (cases "sq_bus s") (simp_all add: bus publish_all_def)
  ultimately show ?thesis unfolding outbox_def by blast
qed

definition sql_init :: "sql_store \<Rightarrow> bool" where
  "sql_init s \<longleftrightarrow> s = sq_NewStore None \<or> s = sq_NewStore (Some [])"

lemma sql_init_inv: "sql_init s \<Longrightarrow> sql_inv s"
  by (auto simp: sql_init_def sql_inv_def outbox_def runs_known_def task_run_state_def sq_NewStore_def createEventSchema_def
      log_of_def db_wf_def table_wf_def)

interpretation sql_sys: step_system sql_init sql_step sql_inv
proof
  show "sql_init s \<Longrightarrow> sql_inv s" for s by (rule sql_init_inv)
next
  fix s a
  assume inv: "sql_inv s"
  show "sql_inv (sql_step a s)"
  proof (cases "fresh_ids (fst a) (sq_db s)")
    case True
    let ?n = "newID (fst a) ''run'' 0"
    obtain evs where c: "commits {?n} s evs (sql_step a s)"
      using sql_step_commits [of s a] inv True by (auto simp: sql_inv_def)
    have "outbox (sql_step a s)" using outbox_commits [OF _ c] inv by (simp add: sql_inv_def)
    moreover have "runs_known (sql_step a s)"
      using runs_known_commits [OF _ c] inv True by (simp add: sql_inv_def fresh_ids_def)
    moreover have "db_wf (sq_db (sql_step a s))" using c by (simp add: commits_def)
    ultimately show ?thesis by (simp add: sql_inv_def)
  qed (use inv in \<open>simp add: sql_step_def\<close>)
qed

lemma sql_step_bus:
  assumes inv: "sql_inv s"
  shows "sq_bus (sql_step a s) = None \<longleftrightarrow> sq_bus s = None"
proof (cases "fresh_ids (fst a) (sq_db s)")
  case True
  then obtain evs where "commits {newID (fst a) ''run'' 0} s evs (sql_step a s)"
    using sql_step_commits [of s a] inv by (auto simp: sql_inv_def)
  then show ?thesis by (simp add: commits_def publish_all_def)
qed (simp add: sql_step_def)

lemma run_ids_iff: "rid \<noteq> [] \<Longrightarrow> rid \<in> run_ids db \<longleftrightarrow> (\<exists>k st x. task_run_state db k = Some (st, Some x) \<and> run_ID x = rid)"
  unfolding run_ids_def run_name_def by (auto split: option.splits)

lemma run_ids_mem: "task_run_state db k = Some (st, Some x) \<Longrightarrow> run_ID x \<in> run_ids db"
  unfolding run_ids_def by force

lemma sql_step_log:
  assumes inv: "sql_inv s"
  obtains new where "history (sql_step a s) = history s @ new"
    and "\<And>e. e \<in> set new \<Longrightarrow> closes_run (ev_Kind e) \<Longrightarrow> ev_RunID e \<in> insert [] (run_ids (sq_db s))"
    and "\<And>k st x. task_run_state (sq_db (sql_step a s)) k = Some (st, Some x) \<Longrightarrow> run_ID x \<in> run_ids (sq_db s) \<or> run_ID x \<notin> set (map ev_RunID (history s))"
proof (cases "fresh_ids (fst a) (sq_db s)")
  case True
  obtain evs where c: "commits {newID (fst a) ''run'' 0} s evs (sql_step a s)"
    using sql_step_commits [of s a] inv True by (auto simp: sql_inv_def)
  have "settled (sq_db s) (sq_db (sql_step a s)) \<subseteq> run_ids (sq_db s)" unfolding settled_def run_ids_def by blast
  with c run_ids_mem True that show thesis unfolding commits_def fresh_ids_def origin_def by (smt (verit) insert_iff singletonD subsetD)
qed (use that [of "[]"] run_ids_mem in \<open>auto simp: sql_step_def\<close>)

section \<open>Runs that nothing ends any more\<close>

text \<open>A run that the history knows and no task has stays as it is.\<close>

lemma forgotten_run:
  assumes "sql_inv s" and "known_run rid s" and "rid \<notin> run_ids (sq_db s)" and "unended rid s"
  shows "unended rid (fold sql_step as s) \<and> known_run rid (fold sql_step as s)"
  using assms
proof (induction as arbitrary: s)
  case (Cons a as)
  obtain new where log: "history (sql_step a s) = history s @ new"
    and ends: "\<And>e. e \<in> set new \<Longrightarrow> closes_run (ev_Kind e) \<Longrightarrow> ev_RunID e \<in> insert [] (run_ids (sq_db s))"
    and runs: "\<And>k st x. task_run_state (sq_db (sql_step a s)) k = Some (st, Some x) \<Longrightarrow>
      run_ID x \<in> run_ids (sq_db s) \<or> run_ID x \<notin> set (map ev_RunID (history s))"
    using sql_step_log [OF Cons.prems(1)] by blast
  have "rid \<noteq> []" "rid \<in> set (map ev_RunID (history s))" using Cons.prems(2) by (auto simp: known_run_def)
  then have "rid \<notin> run_ids (sq_db (sql_step a s))"
    using runs Cons.prems(3) by (metis run_ids_iff)
  moreover have "\<not> closes_run (ev_Kind e)" if "e \<in> set new" "ev_RunID e = rid" for e
    using ends [OF that(1)] that(2) Cons.prems(3) \<open>rid \<noteq> []\<close> by auto
  then have "unended rid (sql_step a s)" "known_run rid (sql_step a s)"
    using log Cons.prems(2,4) by (auto simp: unended_def known_run_def)
  ultimately show ?case
    using sql_sys.inv_step [OF Cons.prems(1)] by (simp add: Cons.IH)
qed simp

text \<open>The projection of a run that no record ends.\<close>

lemma unended_timeline:
  "extend_timelines es line = Inr line' \<Longrightarrow> rt_Terminal line = None \<Longrightarrow> (\<And>e. e \<in> set es \<Longrightarrow> \<not> closes_run (ev_Kind e)) \<Longrightarrow>
   rt_Terminal line' = None"
proof (induction es arbitrary: line)
  case (Cons e es)
  from Cons.prems(1) obtain d where d: "DecodeEvent e = Inr d" and rest: "extend_timelines es (extend_timeline d line) = Inr line'"
    by (auto split: sum.splits)
  have "\<not> closes_run (event_kind_of (dec_Payload d))"
    using DecodeEvent_kind [OF d] Cons.prems(3) [of e] by simp
  then have "rt_Terminal (extend_timeline d line) = None"
    using Cons.prems(2) by (cases "dec_Payload d") (simp_all add: extend_timeline_def applyRunProjection_def closes_run_def)
  with Cons rest show ?case by simp
qed simp

lemma extend_timelines_RunID: "extend_timelines es line = Inr line' \<Longrightarrow> rt_RunID line' = rt_RunID line"
  by (induction es arbitrary: line) (auto simp: extend_timeline_def split: sum.splits)

lemma unended_GetRun:
  assumes inv: "sql_inv s" and known: "known_run rid s" and un: "unended rid s"
  shows "\<exists>r. GetRun (ListEvents (db_events (sq_db s))) rid = Inr r \<and> rs_ID r = rid \<and> rs_Status r = RunRunning"
proof -
  let ?es = "filter (\<lambda>e. ev_RunID e = rid) (history s)"
  from known obtain e where ne: "rid \<noteq> []" and seen: "e \<in> set (history s)" "ev_RunID e = rid" by (auto simp: known_run_def)
  have tw: "table_wf (db_events (sq_db s))" using inv by (simp add: sql_inv_def db_wf_def)
  from inv obtain evs where "list_all2 carries (history s) evs" by (auto simp: sql_inv_def outbox_def)
  then have "\<exists>d. DecodeEvent x = Inr d" if "x \<in> set ?es" for x
    using that by (auto simp: carries_def list_all2_conv_all_nth in_set_conv_nth)
  then obtain line where line: "extend_timelines ?es (new_timeline rid) = Inr line"
    using extend_timelines_returns by blast
  have "rt_Terminal line = None"
    using un by (intro unended_timeline [OF line]) (auto simp: new_timeline_def unended_def)
  moreover have "rt_Events line \<noteq> []"
    using buildRunTimeline_events [of rid ?es line] line seen by (auto simp: buildRunTimeline_def filter_empty_conv)
  moreover have "rt_RunID line = rid"
    using extend_timelines_RunID [OF line] by (simp add: new_timeline_def)
  ultimately show ?thesis
    using line sql_log.lister_run [OF tw ne] ne
    by (simp add: GetRun_def LoadRunTimeline_def buildRunTimeline_def summarizeRunTimeline_def)
qed

section \<open>A successful claim\<close>

lemma withTx_Inr:
  assumes "withTx env fn s = (Inr r, s')"
  obtains out tab where "fn (sq_db s) = Inr out" "tx_result out = r"
    "saveEventsTx (env_save env) (draw_ids env (tx_records out)) (db_events (tx_db out)) = Inr tab"
    "s' = \<lparr>sq_db = (tx_db out)\<lparr>db_events := tab\<rparr>, sq_bus = publish_all (tx_events out) (sq_bus s)\<rparr>"
  using assms by (auto simp: withTx_def split: sum.splits)

lemma claimTaskTx_Inr:
  assumes "claimTaskTx env k req now db = (Inr c, ex, db')"
  obtains t where "tryLoadTaskTx db k = Some t"
    "db' = saveLeaseTx env (sq_new_lease env (clr_WorkerID req) now (clr_LeaseTTL req) (sq_start_run env (clr_WorkerID req) now t))
       (saveTaskTx env (sq_start_run env (clr_WorkerID req) now t) db)"
  using assms unfolding claimTaskTx_def Let_def by (cases "tryLoadTaskTx db k") (auto split: if_splits)

text \<open>A claim that succeeds starts a run for its task, and its only record is the claim.\<close>

lemma sq_ClaimTask_Inr:
  assumes wf: "db_wf (sq_db s)" and claim: "sq_ClaimTask env k req s = (Inr c, s')"
  obtains x e where "task_run_state (sq_db s') = (task_run_state (sq_db s))(k \<mapsto> (TaskRunning, Some x))" "run_ID x = newID env ''run'' 0"
    "history s' = history s @ [e]" "ev_Kind e = EventTaskClaimed"
proof -
  let ?now = "normalizeNow (env_now env 0) (clr_Now req)"
  from claim have tx: "withTx env (ClaimTask_tx env k req) s = (Inr (Inr c), s')"
    by (auto simp: sq_ClaimTask_def flatten_def split: if_splits prod.splits sum.splits)
  from tx obtain out tab where out: "ClaimTask_tx env k req (sq_db s) = Inr out" "tx_result out = Inr c"
    and saved: "saveEventsTx (env_save env) (draw_ids env (tx_records out)) (db_events (tx_db out)) = Inr tab"
    and s': "s' = \<lparr>sq_db = (tx_db out)\<lparr>db_events := tab\<rparr>, sq_bus = publish_all (tx_events out) (sq_bus s)\<rparr>"
    by (rule withTx_Inr)
  obtain r ex db' where cl: "claimTaskTx env k req ?now (sq_db s) = (r, ex, db')" by (metis prod_cases3)
  from out cl have r: "r = Inr c" and rec: "tx_records out = [claim_builder env c]" "tx_db out = db'"
    by (auto simp: ClaimTask_tx_def tx_done_def split: sum.splits option.splits if_splits)
  from cl r have cl': "claimTaskTx env k req ?now (sq_db s) = (Inr c, ex, db')" by simp
  from cl' obtain t where t: "tryLoadTaskTx (sq_db s) k = Some t"
    "db' = saveLeaseTx env (sq_new_lease env (clr_WorkerID req) ?now (clr_LeaseTTL req) (sq_start_run env (clr_WorkerID req) ?now t))
       (saveTaskTx env (sq_start_run env (clr_WorkerID req) ?now t) (sq_db s))"
    by (rule claimTaskTx_Inr)
  have tid: "task_ID t = k" using wf_task [OF wf t(1)] by simp
  let ?x = "\<lparr>run_ID = newID env ''run'' 0, run_TaskID = k, run_WorkerID = clr_WorkerID req,
      run_Attempt = task_Attempt t + 1, run_StartedAt = ?now\<rparr>"
  have runs: "task_run_state (sq_db s') = (task_run_state (sq_db s))(k \<mapsto> (TaskRunning, Some ?x))"
    by (rule ext) (simp add: s' rec t(2) sq_start_run_def tid)
  have db': "db_events db' = db_events (sq_db s)" using t(2) by simp
  have tw: "table_wf (db_events (tx_db out))" using wf rec db' by (simp add: db_wf_def)
  from saveEventsTx_records [OF tw saved] rec db' obtain e n where
    "history s' = history s @ [e]" "e = stamped (env_save env) n (claim_builder env c (newID env ''event'' 0))"
    by (auto simp: s' draw_ids_def list_all2_Cons2)
  moreover have an: "announces (claim_builder env c) (claim_event c)" by (simp add: claim_builder_def claim_event_def)
  ultimately show thesis
    by (intro that [OF runs]) (auto simp: stamped_announced [OF an], auto simp: announces_def claim_event_def task_claimed_event_def)
qed

end
