(* ===== verification/Sql_Scenario.thy ===== *)
theory Sql_Scenario
  imports Sql_System
begin

text \<open>
  A durable store at work: a task is created and claimed; in one continuation its lease expires and
  another worker takes it over, in the other it is completed.
\<close>

definition env_at :: "string \<Rightarrow> time \<Rightarrow> sql_env" where
  "env_at tag t = \<lparr>env_now = (\<lambda>_. t), env_save = t, env_uuid = (\<lambda>_ n. tag @ replicate n (CHR ''i'')), env_iter = id\<rparr>"

definition sql_ask :: "int \<Rightarrow> create_task_request" where
  "sql_ask m = \<lparr>ctr_Kind = ''build'', ctr_Subject = ''s'', ctr_Description = [], ctr_Input = [], ctr_Blocks = [],
     ctr_BlockedBy = [], ctr_MaxAttempts = m, ctr_Metadata = fmempty\<rparr>"

definition sql_claim :: "string \<Rightarrow> claim_task_request" where
  "sql_claim w = \<lparr>clr_WorkerID = w, clr_LeaseTTL = 50, clr_Now = 0, clr_Kinds = [], clr_ExcludeTaskIDs = []\<rparr>"

definition sql_create :: "int \<Rightarrow> sql_env \<times> sql_op" where
  "sql_create m = (env_at ''a'' 100, SqCreateTask (sql_ask m))"

definition sql_take :: "sql_env \<times> sql_op" where
  "sql_take = (env_at ''b'' 110, SqClaimTask ''task-a'' (sql_claim ''v''))"

definition sql_finish :: "sql_env \<times> sql_op" where
  "sql_finish = (env_at ''c'' 120, SqCompleteTask ''task-a'' ''lease-token-b'' None 0)"

definition sql_task :: "int \<Rightarrow> task" where
  "sql_task m = sq_new_task (env_at ''a'' 100) 100 (sql_ask m)"

definition sql_running :: "int \<Rightarrow> task" where
  "sql_running m = sq_start_run (env_at ''b'' 110) ''v'' 110 (sql_task m)"

definition sql_lease :: lease where
  "sql_lease = sq_new_lease (env_at ''b'' 110) ''v'' 110 50 (sql_running 0)"

definition sql_completed :: "int \<Rightarrow> task" where
  "sql_completed m = (sql_running m)\<lparr>task_Status := TaskCompleted, task_CompletedAt := 120, task_UpdatedAt := 120\<rparr>"

text \<open>A record as the event table keeps it.\<close>

definition stored_row :: "int \<Rightarrow> time \<Rightarrow> event_record \<Rightarrow> event_row" where
  "stored_row n rd e = row_of (e\<lparr>ev_CreatedAt := normalizeNow rd (ev_CreatedAt e), ev_Sequence := n\<rparr>)
     (case payload_document (ev_Payload e) of None \<Rightarrow> JNull | Some j \<Rightarrow> j)"

lemma env_at_simps [simp]: "env_now (env_at tag t) n = t" "env_save (env_at tag t) = t" "env_iter (env_at tag t) = id"
  "newID (env_at tag t) p n = p @ ''-'' @ tag @ replicate n (CHR ''i'')"
  by (simp_all add: env_at_def newID_def)

lemma map_keys_fmempty [simp]: "map_keys fmempty = []"
  using set_map_keys [of fmempty] by (simp only: fmdom'_empty set_empty)

lemma fmupd_overwrite: "fmupd k x (fmupd k y m) = fmupd k x m"
  by (rule fmap_ext) simp

lemmas sql_scenario_defs = sql_step_def fresh_ids_def withTx_def tx_done_def draw_ids_def saveEventTx_def
  createEventSchema_def log_of_def Let_def publish_all_def sql_ask_def sql_claim_def stored_row_def normalizeNow_def
  fmupd_overwrite fmdrop_fmupd scan_row_of record_defs newEventRecord_def

lemmas sql_task_defs = sql_task_def sql_running_def sql_lease_def sql_completed_def sq_new_task_def sq_start_run_def
  sq_new_lease_def sql_ask_def

lemmas record_IDs = record_defs newEventRecord_def run_id_of_def

lemma sql_created_eq:
  "fold sql_step [sql_create m] (sq_NewStore (Some [])) =
     \<lparr>sq_db = \<lparr>db_tasks = fmupd ''task-a'' (task_row_of (env_at ''a'' 100) (sql_task m)) fmempty, db_leases = fmempty,
        db_commands = fmempty, db_artifacts = fmempty,
        db_events = \<lparr>et_rows = [stored_row 1 100 (taskCreatedRecord 100 ''event-a'' (sql_task m))], et_seq = 1\<rparr>\<rparr>,
      sq_bus = Some [task_created_event (sql_task m)]\<rparr>"
  by (simp add: sql_create_def sq_NewStore_def sq_CreateTask_def CreateTask_tx_def validateTaskDependenciesTx_def
      linkTaskDependenciesTx_def saveTaskTx_def map_filter_simps sql_task_defs sql_scenario_defs)

lemma sql_claimed_eq:
  "fold sql_step [sql_create m, sql_take] (sq_NewStore (Some [])) =
     \<lparr>sq_db = \<lparr>db_tasks = fmupd ''task-a'' (task_row_of (env_at ''b'' 110) (sql_running m)) fmempty,
        db_leases = fmupd ''task-a'' \<lparr>lr_expires_at = formatTime 110 160, lr_payload = sql_lease\<rparr> fmempty,
        db_commands = fmempty, db_artifacts = fmempty,
        db_events = \<lparr>et_rows = [stored_row 1 100 (taskCreatedRecord 100 ''event-a'' (sql_task m)),
          stored_row 2 110 (taskClaimedRecord 110 ''event-b'' (sql_running m) sql_lease)], et_seq = 2\<rparr>\<rparr>,
      sq_bus = Some [task_created_event (sql_task m), task_claimed_event (sql_running m) sql_lease]\<rparr>"
proof -
  have step: "fold sql_step [sql_create m, sql_take] s = sql_step sql_take (fold sql_step [sql_create m] s)" for s by simp
  have some_left: "(0 < m \<and> m \<le> 0) = False" by simp
  show ?thesis
    unfolding step sql_created_eq
    by (simp add: some_left sql_take_def sq_ClaimTask_def ClaimTask_tx_def claimTaskTx_def isBlockedTx_def flatten_def
      saveTaskTx_def saveLeaseTx_def claim_builder_def claim_event_def sql_task_defs sql_scenario_defs record_IDs
      containsString_def matchesKinds_def task_row_of_def)
qed

lemma sql_completed_eq:
  "fold sql_step [sql_create m, sql_take, sql_finish] (sq_NewStore (Some [])) =
     \<lparr>sq_db = \<lparr>db_tasks = fmupd ''task-a'' (task_row_of (env_at ''c'' 120) (sql_completed m)) fmempty,
        db_leases = fmempty, db_commands = fmempty, db_artifacts = fmempty,
        db_events = \<lparr>et_rows = [stored_row 1 100 (taskCreatedRecord 100 ''event-a'' (sql_task m)),
          stored_row 2 110 (taskClaimedRecord 110 ''event-b'' (sql_running m) sql_lease),
          stored_row 3 120 (taskCompletedRecord 120 ''event-c'' (sql_completed m))], et_seq = 3\<rparr>\<rparr>,
      sq_bus = Some [task_created_event (sql_task m), task_claimed_event (sql_running m) sql_lease,
        task_completed_event (sql_completed m)]\<rparr>"
proof -
  have step: "fold sql_step [sql_create m, sql_take, sql_finish] s = sql_step sql_finish (fold sql_step [sql_create m, sql_take] s)"
    for s by simp
  show ?thesis
    unfolding step sql_claimed_eq
    by (simp add: sql_finish_def sq_CompleteTask_def CompleteTask_tx_def validateLeaseTx_def
      saveTaskTx_def deleteLeaseTx_def sql_task_defs sql_scenario_defs record_IDs task_row_of_def)
qed

end
