(* ===== verification/Sql_Properties.thy ===== *)
theory Sql_Properties
  imports Sql_Scenario
begin

text \<open>
  The properties of the durable store, over every sequence of its operations from an empty database
  (\<open>sql_after\<close>), witnessed on the scenario of \<^verbatim>\<open>Sql_Scenario\<close>.
\<close>

abbreviation sql_after :: "(sql_env \<times> sql_op) list \<Rightarrow> sql_store" where
  "sql_after as \<equiv> fold sql_step as (sq_NewStore (Some []))"

abbreviation stored_events :: "sql_store \<Rightarrow> event_filter \<Rightarrow> event_record list result" where
  "stored_events s \<equiv> ListEvents (db_events (sq_db s))"

lemma sql_after_inv: "sql_inv (sql_after as)"
  by (rule sql_sys.inv_run_init) (simp add: sql_init_def)

section \<open>Failing an exhausted task once more\<close>

text \<open>The projection follows the last record that ends the run.\<close>

lemma extend_timelines_snoc:
  "extend_timelines (es @ [e]) line =
     (case extend_timelines es line of Inl err \<Rightarrow> Inl err | Inr l \<Rightarrow>
        (case DecodeEvent e of Inl err \<Rightarrow> Inl err | Inr d \<Rightarrow> Inr (extend_timeline d l)))"
  by (induction es arbitrary: line) (auto split: sum.split)

lemma GetRun_failed_last:
  assumes inv: "db_wf (sq_db s)" "outbox s" and ne: "rid \<noteq> []" and log: "history s = es @ [e]" "ev_RunID e = rid"
    and e: "carries e (TaskFailedEvent tid rid' att msg at)"
  shows "\<exists>r. GetRun (stored_events s) rid = Inr r \<and> rs_Status r = RunFailed"
proof -
  let ?es = "filter (\<lambda>e. ev_RunID e = rid) es"
  have tw: "table_wf (db_events (sq_db s))" using inv(1) by (simp add: db_wf_def)
  from inv(2) obtain evs where evs: "list_all2 carries (history s) evs" by (auto simp: outbox_def)
  have "\<exists>d. DecodeEvent x = Inr d" if "x \<in> set ?es" for x
  proof -
    from that log(1) have "x \<in> set (history s)" by simp
    with evs show ?thesis by (auto simp: carries_def list_all2_conv_all_nth in_set_conv_nth)
  qed
  then obtain line where line: "extend_timelines ?es (new_timeline rid) = Inr line"
    using extend_timelines_returns by blast
  have kind: "ev_Kind e = EventTaskFailed" using e DecodeEvent_kind by (fastforce simp: carries_def)
  have "stored_events s (any_event\<lparr>ef_RunID := rid\<rparr>) = Inr (?es @ [e])"
    using sql_log.lister_run [OF tw ne] log by simp
  then show ?thesis
    using line e ne kind
    by (simp add: GetRun_def LoadRunTimeline_def buildRunTimeline_def extend_timelines_snoc carries_def
        extend_timeline_def applyRunProjection_def summarizeRunTimeline_def)
qed

lemma claim_settled_exhausted:
  assumes "tryLoadTaskTx db k = Some t" and "task_Status t = TaskCompleted \<or> task_Status t = TaskFailed"
    and "0 < task_MaxAttempts t" "task_MaxAttempts t \<le> task_Attempt t"
    and "tryLoadLeaseTx db k = None"
    and "\<not> containsString (clr_ExcludeTaskIDs req) k" "matchesKinds t (clr_Kinds req)" "\<not> isBlockedTx db t"
  shows "ClaimTask_tx env k req db =
    tx_done (Inl (Sentinel ErrNoReadyTask)) [\<lambda>eid. taskFailedRecord (env_save env) eid t] [task_failed_event t] db"
  using assms by (auto simp: ClaimTask_tx_def claimTaskTx_def Let_def failed_builders_def)

section \<open>Leases that the recovery query overlooks\<close>

text \<open>
  A lease that expires on a whole second is not selected as expired at any later moment within that
  second, because the query compares the texts of the times.
\<close>

lemma expired_lease_overlooked:
  assumes "fmlookup (db_leases db) k = Some r" and "lr_expires_at r = formatTime rd e"
    and "e mod 1000000000 = 0" and "0 < e" and "0 < d" and "d < 1000000000"
  shows "k \<notin> set (expired_lease_ids env (e + d) db)"
  using fraction_sorts_before_whole_second [of e d "env_save env" rd] assms
  by (auto simp: expired_lease_ids_def)

section \<open>Properties\<close>

text \<open>
  C9. Durable tasks and leases agree: whatever operations ran, a task has a lease exactly when it is
  running, and then its run belongs to the worker that holds the lease; there is no lease without a
  task.
\<close>

theorem sql_lease_iff_running:
  "case (sq_GetTask (sql_after as) k, sq_GetLease (sql_after as) k) of
     (Inr t, Inr l) \<Rightarrow> task_ID t = k \<and> lease_TaskID l = k \<and> task_Status t = TaskRunning \<and>
       (\<exists>x. task_Run t = Some x \<and> run_WorkerID x = lease_WorkerID l)
   | (Inr t, Inl e) \<Rightarrow> task_ID t = k \<and> task_Status t \<noteq> TaskRunning \<and> e = Sentinel ErrLeaseNotFound
   | (Inl e, Inr l) \<Rightarrow> False
   | (Inl e, Inl e') \<Rightarrow> e = Sentinel ErrTaskNotFound \<and> e' = Sentinel ErrLeaseNotFound"
proof -
  let ?db = "sq_db (sql_after as)"
  have wf: "db_wf ?db" using sql_after_inv [of as] by (simp add: sql_inv_def)
  show ?thesis
  proof (cases "tryLoadLeaseTx ?db k")
    case (Some l)
    from wf_lease [OF wf Some] obtain t x where t: "lease_TaskID l = k" "tryLoadTaskTx ?db k = Some t"
      "task_Status t = TaskRunning" "task_Run t = Some x" "run_WorkerID x = lease_WorkerID l" by blast
    moreover have "task_ID t = k" using wf_task [OF wf t(2)] by simp
    ultimately show ?thesis unfolding sq_GetTask_def sq_GetLease_def Some t(2) by simp
  next
    case None
    show ?thesis
    proof (cases "tryLoadTaskTx ?db k")
      case (Some t)
      have "task_Status t \<noteq> TaskRunning" using wf_running [OF wf Some] None by auto
      with wf_task [OF wf Some] show ?thesis unfolding sq_GetTask_def sq_GetLease_def Some None by simp
    next
      case t: None
      show ?thesis unfolding sq_GetTask_def sq_GetLease_def t None by simp
    qed
  qed
qed

text \<open>
  C8. The event table is an outbox: whatever operations ran, succeeded or were rolled back, the records
  of the durable history decode, and their payloads are the events published on the bus, each as often as
  it was published and as \<^verbatim>\<open>encoding/json\<close> hands it back, so exactly those events when their strings are valid
  UTF-8.
\<close>

theorem history_equals_bus:
  "\<exists>records decoded published.
     stored_events (sql_after as) any_event = Inr records \<and> decode_all records = Inr decoded \<and>
     sq_bus (sql_after as) = Some published \<and> mset (map dec_Payload decoded) = mset (map json_event published) \<and>
     (list_all utf8_event published \<longrightarrow> mset (map dec_Payload decoded) = mset published)"
proof -
  have inv: "sql_inv (sql_after as)" by (rule sql_after_inv)
  then have tw: "table_wf (db_events (sq_db (sql_after as)))" by (simp add: sql_inv_def db_wf_def)
  have "sq_bus (sql_after as) \<noteq> None"
    by (rule sql_sys.run_preserves [OF _ sql_after_inv [of "[]", simplified]]) (simp_all add: sql_step_bus sq_NewStore_def)
  with inv obtain es published where es: "list_all2 carries (history (sql_after as)) es" "list_all proper_event es"
      "sq_bus (sql_after as) = Some published" "mset published = mset es"
    by (auto simp: sql_inv_def outbox_def)
  have "\<exists>ds. decode_all rs = Inr ds \<and> map dec_Payload ds = map json_event evs" if "list_all2 carries rs evs" for rs evs
    using that by (induction rs evs) (auto simp: carries_def)
  from this [OF es(1)] obtain ds where ds: "decode_all (history (sql_after as)) = Inr ds" "map dec_Payload ds = map json_event es"
    by blast
  have same: "mset (map dec_Payload ds) = mset (map json_event published)" using ds(2) es(4) by simp
  have "mset (map dec_Payload ds) = mset published" if "list_all utf8_event published"
  proof -
    have "map json_event published = published"
      using that es(2) mset_eq_setD [OF es(4)] by (auto simp: list_all_iff intro!: map_idI json_event_utf8)
    then show ?thesis using same by argo
  qed
  with same ds(1) es(3) sql_log.lister_any [OF tw] show ?thesis by auto
qed

theorem history_equals_bus_witness:
  "\<exists>records decoded.
     stored_events (sql_after [sql_create 0, sql_take]) any_event = Inr records \<and> decode_all records = Inr decoded \<and>
     mset (map dec_Payload decoded) = {#task_created_event (sql_task 0), task_claimed_event (sql_running 0) sql_lease#}"
proof -
  have "list_all utf8_event [task_created_event (sql_task 0), task_claimed_event (sql_running 0) sql_lease]"
    by (simp add: utf8_event_def task_created_event_def task_claimed_event_def sql_task_defs run_id_of_def)
  moreover have "sq_bus (sql_after [sql_create 0, sql_take]) =
      Some [task_created_event (sql_task 0), task_claimed_event (sql_running 0) sql_lease]"
    unfolding sql_claimed_eq by simp
  ultimately show ?thesis using history_equals_bus [of "[sql_create 0, sql_take]"] by auto
qed

text \<open>
  C17. The history agrees with the tables on what is running: the run of every running task, looked up
  in the history, is shown as running.
\<close>

theorem running_task_shown_running:
  assumes "sq_GetTask (sql_after as) k = Inr t" and "task_Status t = TaskRunning"
  shows "\<exists>x r. task_Run t = Some x \<and> GetRun (stored_events (sql_after as)) (run_ID x) = Inr r \<and>
    rs_ID r = run_ID x \<and> rs_Status r = RunRunning"
proof -
  let ?s = "sql_after as"
  have inv: "sql_inv ?s" by (rule sql_after_inv)
  then have wf: "db_wf (sq_db ?s)" and known: "runs_known ?s" by (simp_all add: sql_inv_def)
  have t: "tryLoadTaskTx (sq_db ?s) k = Some t" using assms(1) by (auto simp: sq_GetTask_def split: option.splits)
  obtain l where l: "tryLoadLeaseTx (sq_db ?s) k = Some l" using wf_running [OF wf t assms(2)] by blast
  from wf_lease [OF wf l] t obtain x where x: "task_Run t = Some x" by force
  have "task_run_state (sq_db ?s) k = Some (TaskRunning, Some x)" using run_state_load [OF t] assms(2) x by simp
  then have "known_run (run_ID x) ?s" "unended (run_ID x) ?s" using known unfolding runs_known_def by blast+
  from unended_GetRun [OF inv this] x show ?thesis by blast
qed

theorem running_task_shown_running_witness:
  "\<exists>r. GetRun (stored_events (sql_after [sql_create 2, sql_take])) ''run-b'' = Inr r \<and> rs_Status r = RunRunning"
proof -
  have "sq_GetTask (sql_after [sql_create 2, sql_take]) ''task-a'' = Inr (sql_running 2)"
    unfolding sql_claimed_eq by (simp add: sq_GetTask_def)
  from running_task_shown_running [OF this] show ?thesis by (auto simp: sql_task_defs)
qed

text \<open>
  C36. A run that is taken over never ends in the history: when a claim takes a running task whose lease
  has expired, the old run gets no closing record, and the history shows it as running after every
  later sequence of operations.
\<close>

theorem superseded_run_never_ends:
  assumes "sq_GetTask (sql_after as) k = Inr t" and "task_Status t = TaskRunning" and "task_Run t = Some x"
    and fresh: "fresh_ids env (sq_db (sql_after as))"
    and claim: "sq_ClaimTask env k req (sql_after as) = (Inr c, s')"
  shows "\<exists>r. GetRun (stored_events (fold sql_step later s')) (run_ID x) = Inr r \<and> rs_Status r = RunRunning"
proof -
  let ?s = "sql_after as"
  have inv: "sql_inv ?s" by (rule sql_after_inv)
  have s': "s' = sql_step (env, SqClaimTask k req) ?s" using claim fresh by (simp add: sql_step_def)
  have inv': "sql_inv s'" unfolding s' by (rule sql_sys.inv_step [OF inv])
  have t: "tryLoadTaskTx (sq_db ?s) k = Some t" using assms(1) by (auto simp: sq_GetTask_def split: option.splits)
  have st: "task_run_state (sq_db ?s) k = Some (TaskRunning, Some x)" using run_state_load [OF t] assms(2,3) by simp
  then have kn: "known_run (run_ID x) ?s" and un: "unended (run_ID x) ?s" and only: "\<And>k' st' x'.
      task_run_state (sq_db ?s) k' = Some (st', Some x') \<Longrightarrow> run_ID x' = run_ID x \<Longrightarrow> k' = k"
    using inv unfolding sql_inv_def runs_known_def by blast+
  have wf: "db_wf (sq_db ?s)" using inv by (simp add: sql_inv_def)
  from wf claim obtain x' e where runs: "task_run_state (sq_db s') = (task_run_state (sq_db ?s))(k \<mapsto> (TaskRunning, Some x'))"
    and x': "run_ID x' = newID env ''run'' 0" and log: "history s' = history ?s @ [e]" "ev_Kind e = EventTaskClaimed"
    by (rule sq_ClaimTask_Inr)
  have ne: "run_ID x \<noteq> []" "run_ID x' \<noteq> run_ID x" using kn x' fresh by (force simp: known_run_def fresh_ids_def)+
  have gone: "run_ID x \<notin> run_ids (sq_db s')"
    using ne only by (auto simp: run_ids_iff runs split: if_splits)
  have "known_run (run_ID x) s'" "unended (run_ID x) s'"
    using kn un log by (auto simp: known_run_def unended_def closes_run_def)
  from forgotten_run [OF inv' this(1) gone this(2), of later] show ?thesis
    using unended_GetRun [OF sql_sys.inv_run [OF inv', of later]] by blast
qed

theorem superseded_run_never_ends_witness:
  "\<exists>s' r. sql_step (env_at ''c'' 200, SqClaimTask ''task-a'' (sql_claim ''w'')) (sql_after [sql_create 2, sql_take]) = s' \<and>
     GetRun (stored_events s') ''run-b'' = Inr r \<and> rs_Status r = RunRunning"
proof -
  let ?s = "sql_after [sql_create 2, sql_take]" and ?env = "env_at ''c'' 200"
  have t: "sq_GetTask ?s ''task-a'' = Inr (sql_running 2)" unfolding sql_claimed_eq by (simp add: sq_GetTask_def)
  have fresh: "fresh_ids ?env (sq_db ?s)"
    unfolding sql_claimed_eq by (simp add: sql_task_defs sql_scenario_defs record_IDs)
  have "\<exists>c. fst (sq_ClaimTask ?env ''task-a'' (sql_claim ''w'') ?s) = Inr c"
    unfolding sql_claimed_eq
    by (simp add: sq_ClaimTask_def ClaimTask_tx_def claimTaskTx_def isBlockedTx_def flatten_def
      saveTaskTx_def saveLeaseTx_def claim_builder_def claim_event_def sql_task_defs sql_scenario_defs record_IDs
      containsString_def matchesKinds_def task_row_of_def)
  then obtain c s' where claim: "sq_ClaimTask ?env ''task-a'' (sql_claim ''w'') ?s = (Inr c, s')"
    by (metis prod.collapse)
  have "sql_step (?env, SqClaimTask ''task-a'' (sql_claim ''w'')) ?s = s'"
    using claim fresh by (simp add: sql_step_def)
  moreover have "task_Status (sql_running 2) = TaskRunning" "task_Run (sql_running 2) = Some \<lparr>run_ID = ''run-b'',
      run_TaskID = ''task-a'', run_WorkerID = ''v'', run_Attempt = 1, run_StartedAt = 110\<rparr>"
    by (simp_all add: sql_task_defs)
  from superseded_run_never_ends [OF t this fresh claim, of "[]"] obtain r where
    "GetRun (stored_events s') ''run-b'' = Inr r" "rs_Status r = RunRunning" by auto
  ultimately show ?thesis by blast
qed

text \<open>
  C35. A claim of a completed task whose attempts are used up reports \<^verbatim>\<open>ErrNoReadyTask\<close> and leaves the task
  completed, but records and publishes a failure of the task, so that the history shows its completed
  run as failed.
\<close>

theorem completed_task_failed_again:
  assumes "sq_GetTask (sql_after as) k = Inr t" and "task_Status t = TaskCompleted" and "task_Run t = Some x"
    and "0 < task_MaxAttempts t" "task_MaxAttempts t \<le> task_Attempt t"
    and "0 < clr_LeaseTTL req" "\<not> containsString (clr_ExcludeTaskIDs req) k" "matchesKinds t (clr_Kinds req)"
    and "\<not> isBlockedTx (sq_db (sql_after as)) t"
    and fresh: "newID env ''event'' 0 \<notin> ev_ID ` set (history (sql_after as))"
  shows "\<exists>s' r. sq_ClaimTask env k req (sql_after as) = (Inl (Sentinel ErrNoReadyTask), s') \<and>
    sq_GetTask s' k = Inr t \<and> sq_bus s' = publish_all [task_failed_event t] (sq_bus (sql_after as)) \<and>
    GetRun (stored_events s') (run_ID x) = Inr r \<and> rs_Status r = RunFailed"
proof -
  let ?s = "sql_after as" and ?rec = "taskFailedRecord (env_save env) (newID env ''event'' 0) t"
  have inv: "sql_inv ?s" by (rule sql_after_inv)
  then have wf: "db_wf (sq_db ?s)" and known: "runs_known ?s" and out: "outbox ?s" by (simp_all add: sql_inv_def)
  have t: "tryLoadTaskTx (sq_db ?s) k = Some t" using assms(1) by (auto simp: sq_GetTask_def split: option.splits)
  have "tryLoadLeaseTx (sq_db ?s) k = None"
  proof (cases "tryLoadLeaseTx (sq_db ?s) k")
    case (Some l)
    from wf_lease [OF wf this] t assms(2) show ?thesis by force
  qed
  with t assms have tx: "ClaimTask_tx env k req (sq_db ?s) = tx_done (Inl (Sentinel ErrNoReadyTask))
      [\<lambda>eid. taskFailedRecord (env_save env) eid t] [task_failed_event t] (sq_db ?s)"
    by (intro claim_settled_exhausted) auto
  have tw: "table_wf (db_events (sq_db ?s))" using wf by (simp add: db_wf_def)
  have id: "ev_ID ?rec = newID env ''event'' 0" by (simp add: taskFailedRecord_def newEventRecord_def)
  have payload: "ev_Payload ?rec = RawJSON (event_json (task_failed_event t))"
    by (simp add: taskFailedRecord_def newEventRecord_def task_failed_event_def)
  obtain tab where tab: "saveEventTx (env_save env) ?rec (db_events (sq_db ?s)) = Inr tab"
    using saveEventTx_fresh [OF _ tw payload] fresh id by metis
  define s' where "s' = \<lparr>sq_db = (sq_db ?s)\<lparr>db_events := tab\<rparr>, sq_bus = publish_all [task_failed_event t] (sq_bus ?s)\<rparr>"
  have w: "withTx env (ClaimTask_tx env k req) ?s = (Inr (Inl (Sentinel ErrNoReadyTask)), s')"
    by (simp add: withTx_def tx tx_done_def draw_ids_def tab s'_def)
  obtain evs where c: "commits {newID env ''run'' 0} ?s evs s'"
    using withTx_commits [where fn = "ClaimTask_tx env k req", OF wf good_ClaimTask [OF wf]] by (simp add: w) blast
  have s': "db_wf (sq_db s')" "outbox s'" using c outbox_commits [OF out c] by (simp_all add: commits_def)
  from saveEventTx_Inr(2) [OF tw tab] obtain e at n where
    e: "history s' = history ?s @ [e]" "e = ?rec\<lparr>ev_CreatedAt := at, ev_Sequence := n\<rparr>"
    by (simp add: s'_def stamped_announced [OF announces_records(9)])
  have rid: "ev_RunID e = run_ID x"
    using assms(3) by (simp add: e taskFailedRecord_def newEventRecord_def run_id_of_def)
  have "known_run (run_ID x) ?s"
    using known run_state_load [OF t] assms(3) unfolding runs_known_def by fastforce
  then have ne: "run_ID x \<noteq> []" by (simp add: known_run_def)
  have "carries e (task_failed_event t)"
    by (rule announces_carries [OF announces_records(9) e(2)])
  then obtain r where "GetRun (stored_events s') (run_ID x) = Inr r" "rs_Status r = RunFailed"
    using GetRun_failed_last [OF s' ne e(1) rid] unfolding task_failed_event_def by blast
  moreover have "sq_ClaimTask env k req ?s = (Inl (Sentinel ErrNoReadyTask), s')"
    using assms(6) w by (simp add: sq_ClaimTask_def flatten_def)
  moreover have "sq_GetTask s' k = Inr t" using assms(1) by (simp add: sq_GetTask_def s'_def)
  moreover have "sq_bus s' = publish_all [task_failed_event t] (sq_bus ?s)" by (simp add: s'_def)
  ultimately show ?thesis by blast
qed

theorem completed_task_failed_again_witness:
  "\<exists>s' r. sq_ClaimTask (env_at ''d'' 130) ''task-a'' (sql_claim ''w'') (sql_after [sql_create 1, sql_take, sql_finish]) =
       (Inl (Sentinel ErrNoReadyTask), s') \<and>
     sq_GetTask s' ''task-a'' = Inr (sql_completed 1) \<and>
     GetRun (stored_events s') ''run-b'' = Inr r \<and> rs_Status r = RunFailed"
proof -
  let ?s = "sql_after [sql_create 1, sql_take, sql_finish]"
  have t: "sq_GetTask ?s ''task-a'' = Inr (sql_completed 1)" unfolding sql_completed_eq by (simp add: sq_GetTask_def)
  have run: "task_Run (sql_completed 1) = Some \<lparr>run_ID = ''run-b'', run_TaskID = ''task-a'', run_WorkerID = ''v'',
      run_Attempt = 1, run_StartedAt = 110\<rparr>" by (simp add: sql_task_defs)
  have "newID (env_at ''d'' 130) ''event'' 0 \<notin> ev_ID ` set (history ?s)"
    unfolding sql_completed_eq by (simp add: sql_task_defs sql_scenario_defs record_IDs)
  moreover have "\<not> isBlockedTx (sq_db ?s) (sql_completed 1)" by (simp add: isBlockedTx_def sql_task_defs)
  moreover have "task_Status (sql_completed 1) = TaskCompleted" "0 < task_MaxAttempts (sql_completed 1)"
    "task_MaxAttempts (sql_completed 1) \<le> task_Attempt (sql_completed 1)"
    by (simp_all add: sql_task_defs)
  moreover have "0 < clr_LeaseTTL (sql_claim ''w'')" "\<not> containsString (clr_ExcludeTaskIDs (sql_claim ''w'')) ''task-a''"
    "matchesKinds (sql_completed 1) (clr_Kinds (sql_claim ''w''))"
    by (simp_all add: sql_claim_def containsString_def matchesKinds_def)
  ultimately show ?thesis using completed_task_failed_again [OF t _ run, of "sql_claim ''w''" "env_at ''d'' 130"] by auto
qed

end
