(* ===== verification/Core_Message.thy ===== *)
theory Core_Message
  imports Core_Usage
begin

text \<open>
  Conversation messages and the state of a run: \<^verbatim>\<open>core/message.go\<close>, \<^verbatim>\<open>core/run_state.go\<close>, the retry
  bookkeeping of \<^verbatim>\<open>core/deferred.go\<close>, and the runtime events of \<^verbatim>\<open>core/runtime_events.go\<close> that the
  agent loop publishes. Time stamps of messages and events are left out: no code of the loop reads
  them. Execution traces, which only record, are left out too.
\<close>

section \<open>Messages\<close>

record image =
  image_URL :: string
  image_MIMEType :: string
  image_Detail :: string

text \<open>
  The parts of a request. \<open>DeferredToolPart\<close> and \<open>FatalToolPart\<close> are the internal parts of
  \<^verbatim>\<open>core/agent.go\<close> that carry a deferral or a fatal error through the tool scheduler.
\<close>

datatype request_part =
    SystemPromptPart string
  | UserPromptPart string
  | ToolReturnPart (tr_ToolName: string) (tr_Content: any) (tr_ToolCallID: string) (tr_Images: "image list")
  | RetryPromptPart (rp_Content: string) (rp_ToolName: string) (rp_ToolCallID: string)
  | ImagePart image
  | AudioPart string string
  | DocumentPart string string string
  | DeferredToolPart (dp_ToolName: string) (dp_ToolCallID: string) (dp_ArgsJSON: string)
  | FatalToolPart go_error

record tool_call =
  tc_ToolName :: string
  tc_ArgsJSON :: string
  tc_ToolCallID :: string
  tc_Metadata :: "(string, string) go_map"

datatype response_part =
    TextPart string
  | ToolCallPart tool_call
  | ThinkingPart string string
  | ProviderMetadataPart string string string

datatype finish_reason =
    FinishReasonStop | FinishReasonLength | FinishReasonContentFilter | FinishReasonToolCall
  | FinishReasonError | FinishReasonOther string

record model_response =
  resp_Parts :: "response_part list"
  resp_Usage :: usage
  resp_ModelName :: string
  resp_FinishReason :: finish_reason

datatype model_message =
    ModelRequest "request_part list"
  | ModelResponse model_response

definition resp_ToolCalls :: "model_response \<Rightarrow> tool_call list" where
  "resp_ToolCalls m = concat (map (\<lambda>p. case p of ToolCallPart tc \<Rightarrow> [tc] | _ \<Rightarrow> []) (resp_Parts m))"

definition resp_TextContent :: "model_response \<Rightarrow> string" where
  "resp_TextContent m = concat (map (\<lambda>p. case p of TextPart t \<Rightarrow> t | _ \<Rightarrow> []) (resp_Parts m))"

section \<open>Deferred tool calls\<close>

record deferred_request =
  dr_ToolName :: string
  dr_ToolCallID :: string
  dr_ArgsJSON :: string

record deferred_result =
  dres_ToolName :: string
  dres_ToolCallID :: string
  dres_Content :: string
  dres_IsError :: bool

section \<open>Runtime events\<close>

datatype runtime_event =
    RunStarted string string string
  | RunCompleted bool bool string
  | ErrorRaised int string
  | DeferredResolved string string string bool
  | TurnStarted int
  | TurnCompleted int bool bool string
  | ModelRequestStarted int nat
  | ModelResponseCompleted int finish_reason int int bool bool
  | ToolCalled (ev_call: string) string string
  | ToolCompleted (ev_call: string) string string
  | ToolFailed (ev_call: string) string string
  | ApprovalRequested string string string
  | ApprovalResolved string string bool
  | DeferredRequested string string string
  | RunWaiting string
  | RunResumed
  | RetryScheduled int string string string int int

section \<open>Run state\<close>

text \<open>
  \<open>rs_events\<close> is the log of the events that the run has published, oldest first; it stays empty
  without an event bus.
\<close>

record run_state =
  rs_messages :: "model_message list"
  rs_usage :: run_usage
  rs_lastInputTokens :: int
  rs_retries :: int
  rs_toolRetries :: "(string, int) go_map"
  rs_activeApprovals :: int
  rs_runStep :: int
  rs_runID :: string
  rs_parentRunID :: string
  rs_startTime :: time
  rs_sourceTraceRunID :: string
  rs_sourceSnapshotID :: string
  rs_limits :: usage_limits
  rs_events :: "runtime_event list"

record snapshot =
  snap_Messages :: "model_message list"
  snap_Usage :: run_usage
  snap_LastInputTokens :: int
  snap_Retries :: int
  snap_ToolRetries :: "(string, int) go_map"
  snap_RunID :: string
  snap_ParentRunID :: string
  snap_RunStep :: int
  snap_RunStartTime :: time
  snap_Prompt :: string
  snap_ToolState :: metadata
  snap_SourceTraceRunID :: string
  snap_SourceSnapshotID :: string

text \<open>\<^verbatim>\<open>newRunState\<close>: the run identifier is random and the clock is read once.\<close>

definition newRunState :: "string \<Rightarrow> time \<Rightarrow> usage_limits \<Rightarrow> run_state" where
  "newRunState runID now limits = \<lparr>rs_messages = [], rs_usage = zero_run_usage, rs_lastInputTokens = 0,
     rs_retries = 0, rs_toolRetries = fmempty, rs_activeApprovals = 0, rs_runStep = 0, rs_runID = runID,
     rs_parentRunID = [], rs_startTime = now, rs_sourceTraceRunID = [], rs_sourceSnapshotID = [],
     rs_limits = limits, rs_events = []\<rparr>"

definition applySnapshot :: "snapshot \<Rightarrow> run_state \<Rightarrow> run_state" where
  "applySnapshot snap s = s\<lparr>rs_messages := snap_Messages snap, rs_usage := snap_Usage snap,
     rs_lastInputTokens := snap_LastInputTokens snap, rs_retries := snap_Retries snap,
     rs_toolRetries := snap_ToolRetries snap, rs_runStep := snap_RunStep snap,
     rs_runID := (if snap_RunID snap \<noteq> [] then snap_RunID snap else rs_runID s),
     rs_parentRunID := (if snap_ParentRunID snap \<noteq> [] then snap_ParentRunID snap else rs_parentRunID s),
     rs_startTime := (if snap_RunStartTime snap \<noteq> zero_time then snap_RunStartTime snap else rs_startTime s),
     rs_sourceTraceRunID := snap_SourceTraceRunID snap,
     rs_sourceSnapshotID := snap_SourceSnapshotID snap\<rparr>"

definition take_snapshot :: "string \<Rightarrow> metadata \<Rightarrow> run_state \<Rightarrow> snapshot" where
  "take_snapshot prompt toolState s = \<lparr>snap_Messages = rs_messages s, snap_Usage = rs_usage s,
     snap_LastInputTokens = rs_lastInputTokens s, snap_Retries = rs_retries s,
     snap_ToolRetries = rs_toolRetries s, snap_RunID = rs_runID s, snap_ParentRunID = rs_parentRunID s,
     snap_RunStep = rs_runStep s, snap_RunStartTime = rs_startTime s, snap_Prompt = prompt,
     snap_ToolState = toolState, snap_SourceTraceRunID = rs_sourceTraceRunID s,
     snap_SourceSnapshotID = rs_sourceSnapshotID s\<rparr>"

definition beginApprovalWait :: "run_state \<Rightarrow> bool \<times> run_state" where
  "beginApprovalWait s =
     (let n = rs_activeApprovals s + 1 in (n = 1, s\<lparr>rs_activeApprovals := n\<rparr>))"

definition endApprovalWait :: "run_state \<Rightarrow> bool \<times> run_state" where
  "endApprovalWait s =
     (if rs_activeApprovals s = 0 then (False, s)
      else (let n = rs_activeApprovals s - 1 in (n = 0, s\<lparr>rs_activeApprovals := n\<rparr>)))"

section \<open>Retries\<close>

text \<open>\<open>json_args\<close> stands for \<^verbatim>\<open>json.Unmarshal\<close> of the arguments into a map.\<close>

type_synonym json_args = "string \<Rightarrow> metadata result"

definition ArgsAsMap :: "json_args \<Rightarrow> tool_call \<Rightarrow> metadata result" where
  "ArgsAsMap unmarshal tc =
     (if tc_ArgsJSON tc = [] \<or> tc_ArgsJSON tc = ''{}'' then Inr fmempty else unmarshal (tc_ArgsJSON tc))"

definition lastModelResponse :: "model_message list \<Rightarrow> model_response option" where
  "lastModelResponse ms =
     (case List.find (\<lambda>m. case m of ModelResponse _ \<Rightarrow> True | _ \<Rightarrow> False) (rev ms) of
        Some (ModelResponse r) \<Rightarrow> Some r
      | _ \<Rightarrow> None)"

definition incomplete_call :: "json_args \<Rightarrow> model_message list \<Rightarrow> bool" where
  "incomplete_call unmarshal ms =
     (case lastModelResponse ms of
        None \<Rightarrow> False
      | Some r \<Rightarrow>
          resp_FinishReason r = FinishReasonLength \<and> resp_ToolCalls r \<noteq> [] \<and>
          (case ArgsAsMap unmarshal (last (resp_ToolCalls r)) of Inl _ \<Rightarrow> True | Inr _ \<Rightarrow> False))"

definition incrementRetries ::
    "json_args \<Rightarrow> int \<Rightarrow> run_state \<Rightarrow> go_error option \<times> run_state" where
  "incrementRetries unmarshal maxRetries s =
     (let s = s\<lparr>rs_retries := rs_retries s + 1\<rparr>
      in (if rs_retries s > maxRetries
          then Some (if incomplete_call unmarshal (rs_messages s)
                     then IncompleteToolCall ''model hit token limit while generating tool call arguments, consider increasing max_tokens'' []
                     else UnexpectedModelBehavior (''exceeded maximum retries ('' @ show_int maxRetries @ '') for result validation'') [])
          else None, s))"

definition buildRetryParts :: "string \<Rightarrow> string \<Rightarrow> string \<Rightarrow> request_part" where
  "buildRetryParts msg toolName toolCallID = RetryPromptPart msg toolName toolCallID"

end
