(* ===== verification/Core_Truncate.thy ===== *)
theory Core_Truncate
  imports Core_Message
begin

text \<open>
  Truncation of tool output, \<^verbatim>\<open>core/truncate.go\<close>: the head and the tail of a long output are kept, cut
  at line ends where possible and never inside a UTF-8 character. Strings are byte strings; offsets
  are natural numbers, since no subtraction of the source goes below zero.
\<close>

section \<open>Definitions\<close>

definition bytesPerToken :: int where
  "bytesPerToken = 4"

record truncation_config =
  trunc_MaxTokens :: int

definition DefaultTruncationConfig :: truncation_config where
  "DefaultTruncationConfig = \<lparr>trunc_MaxTokens = 16000\<rparr>"

text \<open>\<^verbatim>\<open>utf8.RuneStart\<close>: a byte that is not a continuation byte.\<close>

definition RuneStart :: "char \<Rightarrow> bool" where
  "RuneStart c \<longleftrightarrow> \<not> (128 \<le> (of_char c :: nat) \<and> (of_char c :: nat) < 192)"

definition newlines :: "string \<Rightarrow> nat \<Rightarrow> nat \<Rightarrow> nat list" where
  "newlines s lo hi = filter (\<lambda>i. s ! i = CHR 0x0A) [lo..<hi]"

definition truncateToLineEnd :: "string \<Rightarrow> nat \<Rightarrow> nat" where
  "truncateToLineEnd s pos =
     (if pos \<ge> length s then length s
      else (let idx = newlines s 0 pos in if idx = [] then pos else last idx + 1))"

definition truncateToLineStart :: "string \<Rightarrow> nat \<Rightarrow> nat" where
  "truncateToLineStart s pos =
     (if pos = 0 then 0
      else if pos \<ge> length s then length s
      else (let idx = newlines s pos (length s) in if idx = [] then pos else hd idx + 1))"

fun rune_back :: "string \<Rightarrow> nat \<Rightarrow> nat" where
  "rune_back s 0 = 0"
| "rune_back s (Suc n) = (if \<not> RuneStart (s ! Suc n) then rune_back s n else Suc n)"

function rune_forward :: "string \<Rightarrow> nat \<Rightarrow> nat" where
  "rune_forward s n = (if n < length s \<and> \<not> RuneStart (s ! n) then rune_forward s (Suc n) else n)"
  by pat_completeness auto
termination
  by (relation "measure (\<lambda>(s, n). length s - n)") auto

declare rune_forward.simps [simp del]

definition truncation_marker :: "nat \<Rightarrow> string" where
  "truncation_marker dropped =
     [CHR 0x0A, CHR 0x0A] @ ''... [truncated '' @ show_nat dropped @ '' tokens] ...'' @ [CHR 0x0A, CHR 0x0A]"

definition cut_points :: "string \<Rightarrow> nat \<Rightarrow> nat \<times> nat" where
  "cut_points content maxBytes =
     (let headBytes = maxBytes * 60 div 100; tailBytes = maxBytes - headBytes;
          headEnd = truncateToLineEnd content headBytes;
          tailStart = truncateToLineStart content (length content - tailBytes);
          (headEnd, tailStart) =
            (if tailStart \<le> headEnd then (headBytes, length content - tailBytes) else (headEnd, tailStart))
      in (rune_back content headEnd, rune_forward content tailStart))"

definition TruncateToolOutput :: "string \<Rightarrow> truncation_config \<Rightarrow> string" where
  "TruncateToolOutput content config =
     (if trunc_MaxTokens config \<le> 0 then content
      else (let maxBytes = nat (trunc_MaxTokens config * bytesPerToken)
            in if length content \<le> maxBytes then content
               else (let (headEnd, tailStart) = cut_points content maxBytes
                     in if tailStart \<le> headEnd then content
                        else take headEnd content @ truncation_marker ((tailStart - headEnd) div 4) @
                             drop tailStart content)))"

section \<open>Where the cuts fall\<close>

lemma truncateToLineEnd_le: "pos \<le> length s \<Longrightarrow> truncateToLineEnd s pos \<le> pos"
proof -
  have "last (newlines s 0 pos) + 1 \<le> pos" if "newlines s 0 pos \<noteq> []"
    using last_in_set [OF that] by (auto simp: newlines_def)
  then show "pos \<le> length s \<Longrightarrow> truncateToLineEnd s pos \<le> pos"
    by (auto simp: truncateToLineEnd_def Let_def)
qed

lemma truncateToLineStart_ge: "pos \<le> length s \<Longrightarrow> pos \<le> truncateToLineStart s pos"
proof -
  have "pos \<le> hd (newlines s pos (length s))" if "newlines s pos (length s) \<noteq> []"
    using hd_in_set [OF that] by (auto simp: newlines_def)
  then show "pos \<le> length s \<Longrightarrow> pos \<le> truncateToLineStart s pos"
    by (auto simp: truncateToLineStart_def Let_def)
qed

lemma rune_back_le: "rune_back s n \<le> n"
  by (induction s n rule: rune_back.induct) auto

lemma rune_back_start: "rune_back s n = 0 \<or> RuneStart (s ! rune_back s n)"
  by (induction s n rule: rune_back.induct) auto

lemma rune_forward_ge: "n \<le> rune_forward s n"
proof (induction s n rule: rune_forward.induct)
  case (1 s n)
  then show ?case by (subst rune_forward.simps) auto
qed

lemma rune_forward_start: "rune_forward s n \<ge> length s \<or> RuneStart (s ! rune_forward s n)"
proof (induction s n rule: rune_forward.induct)
  case (1 s n)
  then show ?case by (subst (1 2) rune_forward.simps) auto
qed

lemma cut_points_bounds:
  assumes "maxBytes < length s" and "cut_points s maxBytes = (headEnd, tailStart)"
  shows "headEnd \<le> maxBytes * 60 div 100" and "length s - (maxBytes - maxBytes * 60 div 100) \<le> tailStart"
    and "headEnd = 0 \<or> RuneStart (s ! headEnd)" and "tailStart \<ge> length s \<or> RuneStart (s ! tailStart)"
proof -
  let ?h = "maxBytes * 60 div 100" and ?t = "length s - (maxBytes - maxBytes * 60 div 100)"
  obtain h t where ht: "headEnd = rune_back s h" "tailStart = rune_forward s t"
      and h: "h = ?h \<or> h = truncateToLineEnd s ?h" and t: "t = ?t \<or> t = truncateToLineStart s ?t"
    using assms(2) by (auto simp: cut_points_def Let_def split: if_splits)
  have "h \<le> ?h" using h truncateToLineEnd_le [of ?h s] assms(1) by auto
  then show "headEnd \<le> ?h" using rune_back_le [of s h] ht by simp
  have "?t \<le> t" using t truncateToLineStart_ge [of ?t s] by auto
  then show "?t \<le> tailStart" using rune_forward_ge [of t s] ht by simp
  show "headEnd = 0 \<or> RuneStart (s ! headEnd)" using rune_back_start [of s h] ht by simp
  show "tailStart \<ge> length s \<or> RuneStart (s ! tailStart)" using rune_forward_start [of s t] ht by simp
qed

section \<open>Properties\<close>

text \<open>
  Truncation keeps within its budget and cuts between characters: an output within the budget
  is left alone; any longer one becomes a prefix and a suffix of it around a marker, where prefix and
  suffix together are no longer than the budget in bytes, the suffix starts after the prefix ends, and
  neither cut falls on a continuation byte.
\<close>

theorem TruncateToolOutput_bounded:
  "if trunc_MaxTokens config \<le> 0 \<or> int (length s) \<le> trunc_MaxTokens config * 4
   then TruncateToolOutput s config = s
   else \<exists>headEnd tailStart. TruncateToolOutput s config =
        take headEnd s @ truncation_marker ((tailStart - headEnd) div 4) @ drop tailStart s \<and>
      headEnd < tailStart \<and> int (headEnd + (length s - tailStart)) \<le> trunc_MaxTokens config * 4 \<and>
      (headEnd = 0 \<or> RuneStart (s ! headEnd)) \<and> (length s \<le> tailStart \<or> RuneStart (s ! tailStart))"
proof (cases "trunc_MaxTokens config \<le> 0 \<or> int (length s) \<le> trunc_MaxTokens config * 4")
  case True
  then show ?thesis by (auto simp: TruncateToolOutput_def bytesPerToken_def Let_def le_nat_iff)
next
  case False
  define mb where "mb = nat (trunc_MaxTokens config * bytesPerToken)"
  have mb: "int mb = trunc_MaxTokens config * 4" using False by (simp add: mb_def bytesPerToken_def)
  obtain h t where c: "cut_points s mb = (h, t)" by fastforce
  have lt: "mb < length s" using False mb by linarith
  note b = cut_points_bounds [OF lt c]
  have "h < t" "h + (length s - t) \<le> mb" using b(1,2) lt by linarith+
  moreover from this have "TruncateToolOutput s config = take h s @ truncation_marker ((t - h) div 4) @ drop t s"
    using False c lt by (simp add: TruncateToolOutput_def Let_def mb_def [symmetric])
  ultimately show ?thesis
    unfolding if_not_P [OF False] using b(3,4) mb by (intro exI [of _ h] exI [of _ t] conjI) linarith+
qed

end
