(* ===== verification/Core_Model.thy ===== *)
theory Core_Model
  imports Core_Truncate
begin

text \<open>
  What stands between the agent loop and the model: request settings and parameters of
  \<^verbatim>\<open>core/model.go\<close> and \<^verbatim>\<open>core/toolchoice.go\<close>, the middleware chain of \<^verbatim>\<open>core/agent_middleware.go\<close>, the
  interceptors of \<^verbatim>\<open>core/interceptor.go\<close>, and the run context that callbacks receive. The model and
  every user callback are parameters: functions that take the world \<open>'w\<close> and return it changed.
  Callbacks get values; a response interceptor, which gets a pointer, also returns the response it
  leaves behind.
\<close>

section \<open>Requests\<close>

datatype tool_kind = ToolKindFunction | ToolKindOutput

record tool_definition =
  def_Name :: string
  def_Description :: string
  def_ParametersSchema :: any
  def_Kind :: tool_kind
  def_Strict :: "bool option"
  def_Sequential :: bool
  def_ConcurrencySafe :: bool
  def_OuterTypedDictKey :: string
  def_DeferLoading :: bool
  def_Namespace :: string

record tool_choice =
  choice_Mode :: string
  choice_ToolName :: string

definition ToolChoiceAuto :: tool_choice where
  "ToolChoiceAuto = \<lparr>choice_Mode = ''auto'', choice_ToolName = []\<rparr>"

text \<open>Finite floating-point settings are rational numbers.\<close>

record model_settings =
  ms_MaxTokens :: "int option"
  ms_Temperature :: "rat option"
  ms_TopP :: "rat option"
  ms_ToolChoice :: "tool_choice option"
  ms_ThinkingBudget :: "int option"
  ms_AdaptiveThinking :: "bool option"
  ms_ReasoningEffort :: "string option"
  ms_ReasoningSummary :: "string option"
  ms_PromptCacheEnabled :: "bool option"
  ms_StopSequences :: "string list"

definition zero_settings :: model_settings where
  "zero_settings = \<lparr>ms_MaxTokens = None, ms_Temperature = None, ms_TopP = None, ms_ToolChoice = None,
     ms_ThinkingBudget = None, ms_AdaptiveThinking = None, ms_ReasoningEffort = None,
     ms_ReasoningSummary = None, ms_PromptCacheEnabled = None, ms_StopSequences = []\<rparr>"

datatype output_mode = OutputModeText | OutputModeTool | OutputModeNative | OutputModeOther string

record output_object =
  oo_Name :: string
  oo_Description :: string
  oo_JSONSchema :: any
  oo_Strict :: "bool option"

record request_params =
  par_FunctionTools :: "tool_definition list"
  par_OutputMode :: output_mode
  par_OutputTools :: "tool_definition list"
  par_OutputObject :: "output_object option"
  par_AllowTextOutput :: bool

type_synonym 'w request_func = "model_message list \<Rightarrow> model_settings option \<Rightarrow> request_params \<Rightarrow> 'w
    \<Rightarrow> model_response result \<times> 'w"

section \<open>Middleware\<close>

type_synonym 'w middleware = "model_message list \<Rightarrow> model_settings option \<Rightarrow> request_params
    \<Rightarrow> 'w request_func \<Rightarrow> 'w \<Rightarrow> model_response result \<times> 'w"

text \<open>The loop runs from the last middleware to the first, so that the first is outermost.\<close>

definition buildMiddlewareChain :: "'w middleware list \<Rightarrow> 'w request_func \<Rightarrow> 'w request_func" where
  "buildMiddlewareChain mws model =
     fold (\<lambda>mw next. \<lambda>messages settings params w. mw messages settings params next w) (rev mws) model"

section \<open>Interceptors\<close>

datatype intercept_result = MessageAllow | MessageDrop | MessageModify "model_message list"

type_synonym 'w message_interceptor = "model_message list \<Rightarrow> 'w \<Rightarrow> intercept_result \<times> 'w"
type_synonym 'w response_interceptor = "model_response \<Rightarrow> 'w \<Rightarrow> (intercept_result \<times> model_response) \<times> 'w"

text \<open>\<open>None\<close> when an interceptor drops the request.\<close>

fun runMessageInterceptors ::
    "'w message_interceptor list \<Rightarrow> model_message list \<Rightarrow> 'w \<Rightarrow> model_message list option \<times> 'w" where
  "runMessageInterceptors [] messages w = (Some messages, w)"
| "runMessageInterceptors (i # is) messages w =
     (case i messages w of
        (MessageDrop, w) \<Rightarrow> (None, w)
      | (MessageModify ms, w) \<Rightarrow> runMessageInterceptors is ms w
      | (MessageAllow, w) \<Rightarrow> runMessageInterceptors is messages w)"

fun runResponseInterceptors ::
    "'w response_interceptor list \<Rightarrow> model_response \<Rightarrow> 'w \<Rightarrow> (bool \<times> model_response) \<times> 'w" where
  "runResponseInterceptors [] resp w = ((False, resp), w)"
| "runResponseInterceptors (i # is) resp w =
     (case i resp w of
        ((MessageDrop, resp), w) \<Rightarrow> ((True, resp), w)
      | ((MessageModify (ModelResponse m # _), resp), w) \<Rightarrow>
          runResponseInterceptors is (resp\<lparr>resp_Parts := resp_Parts m\<rparr>) w
      | ((_, resp), w) \<Rightarrow> runResponseInterceptors is resp w)"

section \<open>Run context\<close>

text \<open>
  The event bus and the detach channel are left out; the getters of a context are functions of the
  state it is built from.
\<close>

record run_context =
  rc_Deps :: any
  rc_Usage :: run_usage
  rc_Prompt :: string
  rc_Retry :: int
  rc_MaxRetries :: int
  rc_ToolName :: string
  rc_ToolCallID :: string
  rc_Messages :: "model_message list"
  rc_RunStep :: int
  rc_RunID :: string
  rc_ParentRunID :: string
  rc_RunStartTime :: time

definition buildRunContext :: "run_state \<Rightarrow> any \<Rightarrow> string \<Rightarrow> run_context" where
  "buildRunContext s deps prompt = \<lparr>rc_Deps = deps, rc_Usage = rs_usage s, rc_Prompt = prompt, rc_Retry = 0,
     rc_MaxRetries = 0, rc_ToolName = [], rc_ToolCallID = [], rc_Messages = rs_messages s,
     rc_RunStep = rs_runStep s, rc_RunID = rs_runID s, rc_ParentRunID = rs_parentRunID s,
     rc_RunStartTime = rs_startTime s\<rparr>"

section \<open>Laws\<close>

lemma buildMiddlewareChain_simps [simp]:
  "buildMiddlewareChain [] model = model"
  "buildMiddlewareChain (mw # mws) model =
     (\<lambda>messages settings params w. mw messages settings params (buildMiddlewareChain mws model) w)"
  by (simp_all add: buildMiddlewareChain_def)

lemma buildMiddlewareChain_append:
  "buildMiddlewareChain (mws @ mws') model = buildMiddlewareChain mws (buildMiddlewareChain mws' model)"
  by (induction mws) simp_all

lemma runMessageInterceptors_append:
  "runMessageInterceptors (is @ js) ms w =
     (case runMessageInterceptors is ms w of
        (None, w) \<Rightarrow> (None, w) | (Some ms, w) \<Rightarrow> runMessageInterceptors js ms w)"
  by (induction "is" ms w rule: runMessageInterceptors.induct)
    (auto split: prod.splits intercept_result.splits)

text \<open>An interceptor changes the parts of a response, never its accounting.\<close>

lemma runResponseInterceptors_usage:
  assumes "\<And>i resp w. i \<in> set is \<Longrightarrow> resp_Usage (snd (fst (i resp w))) = resp_Usage resp"
  shows "resp_Usage (snd (fst (runResponseInterceptors is resp w))) = resp_Usage resp"
  using assms
proof (induction "is" arbitrary: resp w)
  case (Cons i "is")
  obtain a r w' where i: "i resp w = ((a, r), w')" by (metis prod.exhaust)
  with Cons.prems [of i resp w] have "resp_Usage r = resp_Usage resp" by simp
  with Cons i show ?case
    by (auto split: intercept_result.split list.split model_message.split)
qed simp

end
