(* ===== verification/Core_Context.thy ===== *)
theory Core_Context
  imports Core_Model
begin

text \<open>
  Automatic context compaction, \<^verbatim>\<open>core/autocontext.go\<close> and \<^verbatim>\<open>core/instruction_pin.go\<close>: the token
  estimate, the instruction pin, the summary of old messages and the removal of tool results whose
  call was summarised away. The rendering of structured values (\<^verbatim>\<open>json.Marshal\<close> and the \<^verbatim>\<open>%v\<close> verb
  on a value that is not a string) is a parameter.
\<close>

section \<open>Text\<close>

definition ws_prefix :: "string \<Rightarrow> string option" where
  "ws_prefix s = List.find (\<lambda>w. take (length w) s = w) ws_seqs"

lemma ws_prefix_Some: "ws_prefix s = Some w \<Longrightarrow> w \<noteq> [] \<and> length w \<le> length s"
proof -
  assume "ws_prefix s = Some w"
  then obtain i where i: "i < length ws_seqs" "w = ws_seqs ! i" and t: "take (length w) s = w"
    unfolding ws_prefix_def find_Some_iff by blast
  from i have "w \<in> set ws_seqs" by simp
  then have "w \<noteq> []" by (auto simp: ws_seqs_def)
  moreover from t have "length w \<le> length s" by (metis length_take min.cobounded1)
  ultimately show ?thesis ..
qed

text \<open>\<^verbatim>\<open>strings.Fields\<close>: the second argument is the field being read.\<close>

function fields_from :: "string \<Rightarrow> string \<Rightarrow> string list" where
  "fields_from [] acc = (if acc = [] then [] else [acc])"
| "fields_from (c # cs) acc =
     (case ws_prefix (c # cs) of
        Some w \<Rightarrow> (if acc = [] then [] else [acc]) @ fields_from (drop (length w) (c # cs)) []
      | None \<Rightarrow> fields_from cs (acc @ [c]))"
  by pat_completeness auto
termination
  by (relation "measure (\<lambda>(s, acc). length s)") (auto dest: ws_prefix_Some)

definition Fields :: "string \<Rightarrow> string list" where
  "Fields s = fields_from s []"

definition join_with :: "string \<Rightarrow> string list \<Rightarrow> string" where
  "join_with sep xs = (case xs of [] \<Rightarrow> [] | x # xs \<Rightarrow> x @ concat (map (\<lambda>y. sep @ y) xs))"

definition truncateUTF8Bytes :: "string \<Rightarrow> nat \<Rightarrow> string" where
  "truncateUTF8Bytes s maxBytes = (if length s \<le> maxBytes then s else take (rune_back s maxBytes) s)"

definition truncateStr :: "string \<Rightarrow> nat \<Rightarrow> string" where
  "truncateStr s maxBytes = (if length s \<le> maxBytes then s else take (rune_back s maxBytes) s @ ''...'')"

text \<open>
  \<^verbatim>\<open>int(float64(words) * 1.3)\<close>: the product is rounded to the nearest double, and the integer part is
  that of the exact product, since thirteen tenths of an integer is an integer or at least a tenth
  away from the next one.
\<close>

definition estimateStringTokens :: "string \<Rightarrow> int" where
  "estimateStringTokens s = int (length (Fields s)) * 13 div 10"

definition request_part_tokens :: "request_part \<Rightarrow> int" where
  "request_part_tokens p =
     (case p of
        SystemPromptPart c \<Rightarrow> estimateStringTokens c
      | UserPromptPart c \<Rightarrow> estimateStringTokens c
      | ToolReturnPart _ (AnyString c) _ _ \<Rightarrow> estimateStringTokens c
      | RetryPromptPart c _ _ \<Rightarrow> estimateStringTokens c
      | _ \<Rightarrow> 0)"

definition response_part_tokens :: "response_part \<Rightarrow> int" where
  "response_part_tokens p =
     (case p of
        TextPart c \<Rightarrow> estimateStringTokens c
      | ToolCallPart tc \<Rightarrow> estimateStringTokens (tc_ArgsJSON tc)
      | ThinkingPart c _ \<Rightarrow> estimateStringTokens c
      | _ \<Rightarrow> 0)"

definition estimateTokens :: "model_message list \<Rightarrow> int" where
  "estimateTokens ms = sum_list (map (\<lambda>m. case m of
     ModelRequest ps \<Rightarrow> sum_list (map request_part_tokens ps)
   | ModelResponse r \<Rightarrow> sum_list (map response_part_tokens (resp_Parts r))) ms)"

definition currentContextTokenCount :: "model_message list \<Rightarrow> int \<Rightarrow> int" where
  "currentContextTokenCount ms lastInputTokens =
     (let estimated = estimateTokens ms in if lastInputTokens > estimated then lastInputTokens else estimated)"

section \<open>The instruction pin\<close>

definition compactInstructionText :: "string \<Rightarrow> int \<Rightarrow> string" where
  "compactInstructionText s maxBytes =
     (if maxBytes \<le> 0 then []
      else (let text = join_with '' '' (Fields (TrimSpace s))
            in if text = [] \<or> length text \<le> nat maxBytes then text
               else truncateUTF8Bytes text (nat maxBytes) @ ''...''))"

abbreviation (input) instructionPinMaxFieldBytes :: int where
  "instructionPinMaxFieldBytes \<equiv> 320"

abbreviation (input) instructionPinMaxSystemPrompts :: nat where
  "instructionPinMaxSystemPrompts \<equiv> 3"

fun collect_prompts :: "string list \<Rightarrow> request_part list \<Rightarrow> string list" where
  "collect_prompts out [] = out"
| "collect_prompts out (p # ps) =
     (case p of
        SystemPromptPart c \<Rightarrow>
          (let text = compactInstructionText c instructionPinMaxFieldBytes
           in if text = [] \<or> text \<in> set out then collect_prompts out ps
              else if length out + 1 \<ge> instructionPinMaxSystemPrompts then out @ [text]
              else collect_prompts (out @ [text]) ps)
      | _ \<Rightarrow> collect_prompts out ps)"

definition collectSystemPrompts :: "request_part list \<Rightarrow> string list" where
  "collectSystemPrompts ps = collect_prompts [] ps"

definition user_prompts :: "request_part list \<Rightarrow> string list" where
  "user_prompts ps = concat (map (\<lambda>p. case p of
     UserPromptPart c \<Rightarrow> if TrimSpace c \<noteq> [] then [c] else [] | _ \<Rightarrow> []) ps)"

definition firstUserPrompt :: "request_part list \<Rightarrow> string" where
  "firstUserPrompt ps = (case user_prompts ps of [] \<Rightarrow> [] | c # _ \<Rightarrow> c)"

definition latestUserPrompt :: "model_message list \<Rightarrow> string" where
  "latestUserPrompt ms =
     (case rev (concat (map (\<lambda>m. case m of ModelRequest ps \<Rightarrow> user_prompts ps | _ \<Rightarrow> []) ms)) of
        [] \<Rightarrow> [] | c # _ \<Rightarrow> TrimSpace c)"

abbreviation (input) newline :: string where
  "newline \<equiv> [CHR 0x0A]"

definition BuildInstructionPin :: "model_message list \<Rightarrow> string" where
  "BuildInstructionPin ms =
     (case ms of
        ModelRequest parts # _ \<Rightarrow>
          (let systemPrompts = collectSystemPrompts parts;
               originalUser = compactInstructionText (firstUserPrompt parts) instructionPinMaxFieldBytes;
               latestUser = compactInstructionText (latestUserPrompt ms) instructionPinMaxFieldBytes
           in if systemPrompts = [] \<and> originalUser = [] \<and> latestUser = [] then []
              else TrimSpace (concat
                [''[Instruction Pin]'' @ newline,
                 if systemPrompts = [] then []
                 else ''System directives:'' @ newline @ concat (map (\<lambda>i.
                        ''- S'' @ show_nat (i + 1) @ '': '' @ systemPrompts ! i @ newline) [0..<length systemPrompts]),
                 if originalUser = [] then [] else ''Original task: '' @ originalUser @ newline,
                 if latestUser = [] \<or> latestUser = originalUser then []
                 else ''Latest user instruction: '' @ latestUser @ newline,
                 ''Honor these instructions as authoritative.'' @ newline]))
      | _ \<Rightarrow> [])"

section \<open>Orphaned tool results\<close>

record value_text =
  vt_Marshal :: "any \<Rightarrow> string result"
  vt_Sprint :: "any \<Rightarrow> string"

definition orphan_content :: "value_text \<Rightarrow> any \<Rightarrow> string" where
  "orphan_content vt v =
     (case v of
        AnyString s \<Rightarrow> s
      | AnyNil \<Rightarrow> []
      | _ \<Rightarrow> (case vt_Marshal vt v of Inr b \<Rightarrow> b | Inl _ \<Rightarrow> vt_Sprint vt v))"

definition message_call_ids :: "model_message list \<Rightarrow> string set" where
  "message_call_ids ms = set (concat (map (\<lambda>m. case m of
     ModelResponse r \<Rightarrow> map tc_ToolCallID (resp_ToolCalls r) | _ \<Rightarrow> []) ms))"

text \<open>The replacement of a part, and whether it is one: \<open>Some\<close> the parts that take the place of an orphan.\<close>

definition strip_part :: "value_text \<Rightarrow> string set \<Rightarrow> request_part \<Rightarrow> request_part list option" where
  "strip_part vt ids p =
     (case p of
        ToolReturnPart name c i _ \<Rightarrow>
          if i \<notin> ids
          then (let content = orphan_content vt c
                in Some (if content \<noteq> []
                         then [UserPromptPart (''[Previous '' @ name @ '' result] '' @ truncateStr content 500)]
                         else []))
          else None
      | RetryPromptPart c _ i \<Rightarrow>
          if i \<noteq> [] \<and> i \<notin> ids
          then Some (if c \<noteq> [] then [UserPromptPart (''[Previous tool error] '' @ truncateStr c 500)] else [])
          else None
      | _ \<Rightarrow> None)"

definition strip_parts :: "value_text \<Rightarrow> string set \<Rightarrow> request_part list \<Rightarrow> request_part list" where
  "strip_parts vt ids ps =
     (let filtered = concat (map (\<lambda>p. case strip_part vt ids p of Some ps \<Rightarrow> ps | None \<Rightarrow> [p]) ps)
      in if \<exists>p \<in> set ps. strip_part vt ids p \<noteq> None
         then if filtered = []
              then [UserPromptPart ''[Previous tool results removed during context recovery]'']
              else filtered
         else ps)"

definition stripOrphanedToolResults :: "value_text \<Rightarrow> model_message list \<Rightarrow> model_message list" where
  "stripOrphanedToolResults vt ms =
     map (\<lambda>m. case m of
        ModelRequest ps \<Rightarrow> ModelRequest (strip_parts vt (message_call_ids ms) ps)
      | ModelResponse r \<Rightarrow> ModelResponse r) ms"

section \<open>Compaction\<close>

record 'w auto_context =
  ac_MaxTokens :: int
  ac_KeepLastN :: int
  ac_SummaryModel :: "'w request_func option"

text \<open>The option normalises the configuration, so that an agent always keeps at least one message.\<close>

definition WithAutoContext :: "'w auto_context \<Rightarrow> 'w auto_context" where
  "WithAutoContext config = (if ac_KeepLastN config \<le> 0 then config\<lparr>ac_KeepLastN := 4\<rparr> else config)"

definition sprint_value :: "value_text \<Rightarrow> any \<Rightarrow> string" where
  "sprint_value vt v = (case v of AnyString s \<Rightarrow> s | _ \<Rightarrow> vt_Sprint vt v)"

definition summary_instructions :: string where
  "summary_instructions = concat [
    ''Summarize this conversation concisely, preserving:'', newline,
    ''- What files were created, edited, or read (include EXACT file paths)'', newline,
    ''- What commands were run and their results (especially test results with pass/fail COUNTS and specific error messages)'', newline,
    ''- Key decisions made and current approach being used'', newline,
    ''- Any constraints or requirements discovered (include exact values: sizes, thresholds, formats)'', newline,
    ''- What approaches were tried and whether they succeeded or failed (include WHY they failed)'', newline,
    ''- BEST RESULT SO FAR: what was the best test pass count or closest-to-correct output, and what exact code/config produced it'', newline,
    ''- Current state: what's done, what's remaining, and what the NEXT STEP should be'', newline,
    ''- CRITICAL: preserve any discovered format requirements (JSON schema, CSV headers, encoding, trailing newlines)'', newline, newline]"

definition summary_line :: "value_text \<Rightarrow> model_message \<Rightarrow> string" where
  "summary_line vt m =
     (case m of
        ModelRequest ps \<Rightarrow> concat (map (\<lambda>p. case p of
            UserPromptPart c \<Rightarrow> ''User: '' @ truncateStr c 500 @ newline
          | ToolReturnPart name c _ _ \<Rightarrow>
              ''[Tool result: '' @ name @ ''] '' @ truncateStr (sprint_value vt c) 800 @ newline
          | _ \<Rightarrow> []) ps)
      | ModelResponse r \<Rightarrow>
          (if resp_TextContent r \<noteq> [] then ''Assistant: '' @ truncateStr (resp_TextContent r) 500 @ newline else []) @
          concat (map (\<lambda>tc. ''[Tool call: '' @ tc_ToolName tc @ ''] '' @ truncateStr (tc_ArgsJSON tc) 500 @ newline)
            (resp_ToolCalls r)))"

definition summary_request :: "value_text \<Rightarrow> model_message list \<Rightarrow> model_message list" where
  "summary_request vt old =
     [ModelRequest [UserPromptPart (summary_instructions @ concat (map (summary_line vt) old))]]"

text \<open>The parameters of the summary request; the output mode keeps its zero value, the empty string.\<close>

definition summary_params :: request_params where
  "summary_params = \<lparr>par_FunctionTools = [], par_OutputMode = OutputModeOther [], par_OutputTools = [],
     par_OutputObject = None, par_AllowTextOutput = True\<rparr>"

definition is_response :: "model_message \<Rightarrow> bool" where
  "is_response m = (case m of ModelResponse _ \<Rightarrow> True | ModelRequest _ \<Rightarrow> False)"

text \<open>Where the recent messages start; they have to start with a request.\<close>

definition start_recent :: "model_message list \<Rightarrow> nat \<Rightarrow> nat" where
  "start_recent ms keepN =
     (let start = length ms - keepN
      in if start > 1 \<and> is_response (ms ! start) then start - 1 else start)"

definition summary_message :: "model_message list \<Rightarrow> model_response \<Rightarrow> model_message" where
  "summary_message ms summary =
     (let pin = BuildInstructionPin ms;
          text = (if pin \<noteq> [] then ''[Conversation Summary]'' @ newline @ pin @ newline @ newline @ resp_TextContent summary
                  else ''[Conversation Summary] '' @ resp_TextContent summary)
      in ModelResponse \<lparr>resp_Parts = [TextPart text], resp_Usage = zero_usage, resp_ModelName = [],
           resp_FinishReason = FinishReasonOther []\<rparr>)"

definition autoCompressMessages :: "value_text \<Rightarrow> 'w auto_context \<Rightarrow> 'w request_func \<Rightarrow> model_message list \<Rightarrow> int \<Rightarrow> 'w
    \<Rightarrow> (model_message list \<times> go_error option) \<times> 'w" where
  "autoCompressMessages vt config fallback ms tokenCount w =
     (if tokenCount \<le> ac_MaxTokens config then ((ms, None), w)
      else if ac_KeepLastN config \<ge> int (length ms) then ((ms, None), w)
      else
        (let start = start_recent ms (nat (ac_KeepLastN config));
             old = drop 1 (take start ms);
             recent = drop start ms
         in if old = [] then ((ms, None), w)
            else
              (let model = (case ac_SummaryModel config of None \<Rightarrow> fallback | Some m \<Rightarrow> m)
               in case model (summary_request vt old) None summary_params w of
                    (Inl e, w) \<Rightarrow> ((ms, Some e), w)
                  | (Inr summary, w) \<Rightarrow>
                      if resp_TextContent summary = [] then ((ms, None), w)
                      else ((stripOrphanedToolResults vt (ms ! 0 # summary_message ms summary # recent), None), w))))"

end
