(* ===== verification/Core_Agent.thy ===== *)
theory Core_Agent
  imports Core_Context
begin

text \<open>
  The agent of \<^verbatim>\<open>core/agent.go\<close>: its configuration, the execution of tool calls
  (\<^verbatim>\<open>executeSingleTool\<close>, \<^verbatim>\<open>executeFunctionTools\<close>) and the processing of a model response
  (\<^verbatim>\<open>processResponse\<close>). What the agent calls but does not define (the model, tool handlers,
  validators, approval, JSON decoding of the output type) are fields of the configuration; such a
  callback takes the world and returns it changed, so that it may do anything. A world also tells
  whether the context of the run is done, and how the goroutines of a batch are scheduled.
\<close>

section \<open>Tools and configuration\<close>

text \<open>A tool handler returns a value, with images or without, fails, or panics.\<close>

datatype tool_value = PlainResult any | ToolResultWithImages string "image list"

datatype handler_outcome = HandlerReturned tool_value | HandlerFailed go_error | HandlerPanicked string

type_synonym 'w tool_validator = "run_context \<Rightarrow> string \<Rightarrow> string \<Rightarrow> 'w \<Rightarrow> go_error option \<times> 'w"

record 'w stateful =
  st_ExportState :: "'w \<Rightarrow> any result \<times> 'w"
  st_RestoreState :: "any \<Rightarrow> 'w \<Rightarrow> go_error option \<times> 'w"

record 'w tool =
  tool_Definition :: tool_definition
  tool_Handler :: "duration \<Rightarrow> run_context \<Rightarrow> string \<Rightarrow> 'w \<Rightarrow> handler_outcome \<times> 'w"
  tool_MaxRetries :: "int option"
  tool_RequiresApproval :: bool
  tool_PrepareFunc :: "(run_context \<Rightarrow> tool_definition \<Rightarrow> 'w \<Rightarrow> tool_definition option \<times> 'w) option"
  tool_ResultValidator :: "'w tool_validator option"
  tool_Timeout :: duration
  tool_Stateful :: "'w stateful option"

record output_schema =
  os_Mode :: output_mode
  os_OutputTools :: "tool_definition list"
  os_AllowsText :: bool
  os_OuterTypedDictKey :: string
  os_OutputObject :: "output_object option"

datatype end_strategy = EndStrategyEarly | EndStrategyExhaustive

text \<open>\<^verbatim>\<open>repairFunc any\<close>: nil, a value of another type, or a \<^verbatim>\<open>RepairFunc[T]\<close>.\<close>

datatype ('w, 't) repair_func = NoRepair | ForeignRepair
  | RepairFunc "string \<Rightarrow> go_error \<Rightarrow> 'w \<Rightarrow> 't result \<times> 'w"

text \<open>
  The decoding of JSON, which the standard library does by reflection on the output type, and the
  encoding of tool results.
\<close>

record 't codec =
  json_wrapper :: "string \<Rightarrow> (string, string) go_map result"
  json_output :: "string \<Rightarrow> 't result"
  json_arguments :: json_args
  json_marshal :: "tool_value \<Rightarrow> string result"
  text_as_output :: "string \<Rightarrow> 't option"
  type_name :: string

record 'w scheduling =
  ctx_Err :: "'w \<Rightarrow> go_error option"
  batch_order :: "nat list \<Rightarrow> 'w \<Rightarrow> nat list"
  sem_refused :: "nat \<Rightarrow> 'w \<Rightarrow> bool"

record 'w knowledge_base =
  kb_Retrieve :: "string \<Rightarrow> 'w \<Rightarrow> string result \<times> 'w"
  kb_Store :: "string \<Rightarrow> 'w \<Rightarrow> go_error option \<times> 'w"

type_synonym 'w run_condition = "run_context \<Rightarrow> model_response \<Rightarrow> 'w \<Rightarrow> (bool \<times> string) \<times> 'w"
type_synonym 'w history_processor = "model_message list \<Rightarrow> 'w \<Rightarrow> model_message list result \<times> 'w"
type_synonym 'w input_guardrail = "string \<Rightarrow> 'w \<Rightarrow> (string \<times> go_error option) \<times> 'w"
type_synonym 'w turn_guardrail = "run_context \<Rightarrow> model_message list \<Rightarrow> 'w \<Rightarrow> go_error option \<times> 'w"

text \<open>
  Hooks and traces, which observe a run, and the cache of dynamic prompts, whose entries equal what
  was just computed, are not fields.
\<close>

record ('w, 't) agent =
  ag_model :: "'w request_func"
  ag_modelName :: string
  ag_systemPrompts :: "string list"
  ag_dynamicSystemPrompts :: "(run_context \<Rightarrow> 'w \<Rightarrow> string result \<times> 'w) list"
  ag_historyProcessors :: "'w history_processor list"
  ag_usageLimits :: usage_limits
  ag_modelSettings :: "model_settings option"
  ag_knowledgeBase :: "'w knowledge_base option"
  ag_kbAutoStore :: bool
  ag_toolsPrepareFunc :: "(run_context \<Rightarrow> tool_definition list \<Rightarrow> 'w \<Rightarrow> tool_definition list \<times> 'w) option"
  ag_inputGuardrails :: "(string \<times> 'w input_guardrail) list"
  ag_turnGuardrails :: "(string \<times> 'w turn_guardrail) list"
  ag_runConditions :: "'w run_condition list"
  ag_deps :: any
  ag_usageQuota :: "usage_quota option"
  ag_messageInterceptors :: "'w message_interceptor list"
  ag_responseInterceptors :: "'w response_interceptor list"
  ag_costTracker :: "(string \<Rightarrow> run_usage \<Rightarrow> 'w \<Rightarrow> 'w) option"
  ag_autoContext :: "'w auto_context option"
  ag_middleware :: "'w middleware list"
  ag_toolChoice :: "tool_choice option"
  ag_toolChoiceAutoReset :: bool
  ag_valueText :: value_text
  ag_tools :: "'w tool list"
  ag_toolsets :: "'w tool list list"
  ag_outputSchema :: output_schema
  ag_outputValidators :: "(run_context \<Rightarrow> 't \<Rightarrow> 'w \<Rightarrow> ('t \<times> go_error option) \<times> 'w) list"
  ag_repairFunc :: "('w, 't) repair_func"
  ag_maxRetries :: int
  ag_endStrategy :: end_strategy
  ag_toolApprovalFunc :: "(string \<Rightarrow> string \<Rightarrow> string \<Rightarrow> 'w \<Rightarrow> bool result \<times> 'w) option"
  ag_maxConcurrency :: int
  ag_globalToolResultValidators :: "'w tool_validator list"
  ag_defaultToolTimeout :: duration
  ag_eventBus :: bool
  ag_truncationConfig :: "truncation_config option"
  ag_codec :: "'t codec"
  ag_sched :: "'w scheduling"

section \<open>Helpers\<close>

definition emit :: "('w, 't) agent \<Rightarrow> runtime_event \<Rightarrow> run_state \<Rightarrow> run_state" where
  "emit a e s = (if ag_eventBus a then s\<lparr>rs_events := rs_events s @ [e]\<rparr> else s)"

definition recordRetryScheduled ::
    "('w, 't) agent \<Rightarrow> string \<Rightarrow> string \<Rightarrow> string \<Rightarrow> run_state \<Rightarrow> run_state" where
  "recordRetryScheduled a reason toolName toolCallID s =
     emit a (RetryScheduled (rs_runStep s) toolName toolCallID reason (rs_retries s) (ag_maxRetries a)) s"

definition allTools :: "('w, 't) agent \<Rightarrow> 'w tool list" where
  "allTools a = ag_tools a @ concat (ag_toolsets a)"

abbreviation tool_Name :: "'w tool \<Rightarrow> string" where
  "tool_Name t \<equiv> def_Name (tool_Definition t)"

definition build_toolMap :: "'w tool list \<Rightarrow> (string, 'w tool) go_map" where
  "build_toolMap ts = fold (\<lambda>t m. fmupd (tool_Name t) t m) ts fmempty"

definition outputToolNames :: "('w, 't) agent \<Rightarrow> string set" where
  "outputToolNames a = set (map def_Name (os_OutputTools (ag_outputSchema a)))"

definition join_comma :: "string list \<Rightarrow> string" where
  "join_comma names = (case names of [] \<Rightarrow> [] | n # ns \<Rightarrow> n @ concat (map (\<lambda>m. '', '' @ m) ns))"

definition availableToolNames :: "('w, 't) agent \<Rightarrow> string" where
  "availableToolNames a =
     (let names = map tool_Name (ag_tools a) @ map tool_Name (concat (ag_toolsets a)) @
                  map def_Name (os_OutputTools (ag_outputSchema a))
      in if names = [] then ''(none)'' else join_comma names)"

definition serializeToolResult :: "'t codec \<Rightarrow> tool_value \<Rightarrow> string result" where
  "serializeToolResult c v =
     (case v of
        PlainResult AnyNil \<Rightarrow> Inr []
      | PlainResult (AnyString s) \<Rightarrow> Inr s
      | _ \<Rightarrow> json_marshal c v)"

definition deserializeOutput :: "'t codec \<Rightarrow> string \<Rightarrow> string \<Rightarrow> 't result" where
  "deserializeOutput c argsJSON outerKey =
     (let inner =
        (if outerKey \<noteq> []
         then case json_wrapper c argsJSON of
                Inl e \<Rightarrow> Inl (WrapPrefix ''failed to unmarshal output wrapper'' e)
              | Inr m \<Rightarrow>
                  (case fmlookup m outerKey of
                     None \<Rightarrow> Inl (ErrorString (''output wrapper missing key '' @ go_quote outerKey))
                   | Some d \<Rightarrow> Inr d)
         else Inr argsJSON)
      in case inner of
           Inl e \<Rightarrow> Inl e
         | Inr d \<Rightarrow>
             (case json_output c d of
                Inl e \<Rightarrow> Inl (WrapPrefix ''failed to unmarshal output'' e)
              | Inr v \<Rightarrow> Inr v))"

fun validateOutput ::
    "run_context \<Rightarrow> (run_context \<Rightarrow> 't \<Rightarrow> 'w \<Rightarrow> ('t \<times> go_error option) \<times> 'w) list \<Rightarrow> 't \<Rightarrow> 'w
     \<Rightarrow> 't result \<times> 'w" where
  "validateOutput rc [] out w = (Inr out, w)"
| "validateOutput rc (v # vs) out w =
     (case v rc out w of
        ((out, Some e), w) \<Rightarrow> (Inl e, w)
      | ((out, None), w) \<Rightarrow> validateOutput rc vs out w)"

section \<open>Executing one tool call\<close>

definition retry_count :: "(string, int) go_map \<Rightarrow> string \<Rightarrow> int" where
  "retry_count m k = (case fmlookup m k of None \<Rightarrow> 0 | Some n \<Rightarrow> n)"

definition safeCallHandler ::
    "'w tool \<Rightarrow> duration \<Rightarrow> run_context \<Rightarrow> string \<Rightarrow> 'w \<Rightarrow> tool_value result \<times> 'w" where
  "safeCallHandler tool timeout rc argsJSON w =
     (case tool_Handler tool timeout rc argsJSON w of
        (HandlerReturned v, w) \<Rightarrow> (Inr v, w)
      | (HandlerFailed e, w) \<Rightarrow> (Inl e, w)
      | (HandlerPanicked r, w) \<Rightarrow> (Inl (ErrorString (''tool handler panicked: '' @ r)), w))"

text \<open>The approval step: the part to answer with when the call may not run.\<close>

definition check_approval :: "('w, 't) agent \<Rightarrow> tool_call \<Rightarrow> 'w tool \<Rightarrow> run_state \<Rightarrow> 'w
    \<Rightarrow> request_part option \<times> run_state \<times> 'w" where
  "check_approval a call tool s w =
     (if \<not> tool_RequiresApproval tool then (None, s, w)
      else
        (let name = tc_ToolName call; id = tc_ToolCallID call; args = tc_ArgsJSON call;
             s = emit a (ApprovalRequested id name args) s
         in case ag_toolApprovalFunc a of
              None \<Rightarrow>
                (Some (RetryPromptPart (''tool '' @ go_quote name @
                    '' requires approval but no approval function is configured'') name id),
                 emit a (ToolFailed id name ''no approval function configured'')
                   (emit a (ApprovalResolved id name False) s), w)
            | Some approve \<Rightarrow>
                (let (first, s) = beginApprovalWait s;
                     s = (if first then emit a (RunWaiting ''approval'') s else s);
                     (r, w) = approve id name args w;
                     (final, s) = endApprovalWait s;
                     s = (if final then emit a RunResumed s else s);
                     s = emit a (ApprovalResolved id name (case r of Inl _ \<Rightarrow> False | Inr ok \<Rightarrow> ok)) s
                 in case r of
                      Inl e \<Rightarrow>
                        (Some (ToolReturnPart name
                            (AnyString (''error checking tool approval: '' @ error_text e)) id []),
                         emit a (ToolFailed id name (''approval error: '' @ error_text e)) s, w)
                    | Inr ok \<Rightarrow>
                        if ok then (None, s, w)
                        else (Some (RetryPromptPart (''tool call '' @ go_quote name @
                                '' was denied by the user'') name id),
                              emit a (ToolFailed id name ''denied by user'') s, w))))"

definition retry_prompt ::
    "tool_call \<Rightarrow> int \<Rightarrow> string \<Rightarrow> run_state \<Rightarrow> request_part \<times> run_state" where
  "retry_prompt call maxRetries msg s =
     (let name = tc_ToolName call; retryCount = retry_count (rs_toolRetries s) name
      in (RetryPromptPart
            (if retryCount \<ge> maxRetries
             then ''tool '' @ go_quote name @ '' exceeded maximum retries ('' @ show_int maxRetries @ ''): '' @ msg
             else msg) name (tc_ToolCallID call),
          s\<lparr>rs_toolRetries := fmupd name (retryCount + 1) (rs_toolRetries s)\<rparr>))"

definition tool_error_part ::
    "tool_call \<Rightarrow> int \<Rightarrow> go_error \<Rightarrow> run_state \<Rightarrow> request_part \<times> run_state" where
  "tool_error_part call maxRetries err s =
     (case errors_As as_fatal err of
        Some f \<Rightarrow> (FatalToolPart f, s)
      | None \<Rightarrow>
          (case errors_As as_deferred err of
             Some _ \<Rightarrow> (DeferredToolPart (tc_ToolName call) (tc_ToolCallID call) (tc_ArgsJSON call), s)
           | None \<Rightarrow>
               (case errors_As as_model_retry err of
                  Some msg \<Rightarrow> retry_prompt call maxRetries msg s
                | None \<Rightarrow> (ToolReturnPart (tc_ToolName call) (AnyString (''error: '' @ error_text err))
                            (tc_ToolCallID call) [], s))))"

fun run_tool_validators ::
    "run_context \<Rightarrow> string \<Rightarrow> string \<Rightarrow> 'w tool_validator list \<Rightarrow> 'w \<Rightarrow> go_error option \<times> 'w" where
  "run_tool_validators rc name content [] w = (None, w)"
| "run_tool_validators rc name content (v # vs) w =
     (case v rc name content w of
        (Some e, w) \<Rightarrow> (Some e, w)
      | (None, w) \<Rightarrow> run_tool_validators rc name content vs w)"

definition tool_content :: "'t codec \<Rightarrow> tool_value \<Rightarrow> (string \<times> image list) result" where
  "tool_content c v =
     (case v of
        ToolResultWithImages text images \<Rightarrow> Inr (text, images)
      | PlainResult _ \<Rightarrow>
          (case serializeToolResult c v of Inl e \<Rightarrow> Inl e | Inr content \<Rightarrow> Inr (content, [])))"

definition tool_success_part ::
    "('w, 't) agent \<Rightarrow> tool_call \<Rightarrow> 'w tool \<Rightarrow> run_context \<Rightarrow> int \<Rightarrow> tool_value \<Rightarrow> run_state \<Rightarrow> 'w
     \<Rightarrow> request_part \<times> run_state \<times> 'w" where
  "tool_success_part a call tool rc maxRetries v s w =
     (let name = tc_ToolName call; id = tc_ToolCallID call
      in case tool_content (ag_codec a) v of
           Inl e \<Rightarrow> (ToolReturnPart name (AnyString (''error serializing result: '' @ error_text e)) id [], s, w)
         | Inr (content, images) \<Rightarrow>
             (let validators = (case tool_ResultValidator tool of None \<Rightarrow> [] | Some v \<Rightarrow> [v]) @
                    ag_globalToolResultValidators a;
                  (failed, w) = run_tool_validators rc name content validators w
              in case failed of
                   Some e \<Rightarrow>
                     (let (part, s) = retry_prompt call maxRetries
                            (''tool result validation failed: '' @ error_text e) s
                      in (part, s, w))
                 | None \<Rightarrow>
                     (let content = (case ag_truncationConfig a of
                            None \<Rightarrow> content | Some c \<Rightarrow> TruncateToolOutput content c)
                      in (ToolReturnPart name (AnyString content) id images,
                          s\<lparr>rs_toolRetries := fmdrop name (rs_toolRetries s)\<rparr>, w))))"

definition emit_tool_end ::
    "('w, 't) agent \<Rightarrow> tool_call \<Rightarrow> tool_value result \<Rightarrow> run_state \<Rightarrow> run_state" where
  "emit_tool_end a call r s =
     (let name = tc_ToolName call; id = tc_ToolCallID call in
      case r of
        Inl err \<Rightarrow>
          if errors_As as_deferred err \<noteq> None then s else emit a (ToolFailed id name (error_text err)) s
      | Inr v \<Rightarrow>
          emit a (ToolCompleted id name
            (case serializeToolResult (ag_codec a) v of
               Inl e \<Rightarrow> ''(serialization error: '' @ error_text e @ '')'' | Inr str \<Rightarrow> str)) s)"

definition tool_max_retries :: "('w, 't) agent \<Rightarrow> 'w tool \<Rightarrow> int" where
  "tool_max_retries a tool = (case tool_MaxRetries tool of None \<Rightarrow> ag_maxRetries a | Some n \<Rightarrow> n)"

definition executeSingleTool :: "('w, 't) agent \<Rightarrow> tool_call \<Rightarrow> 'w tool \<Rightarrow> any \<Rightarrow> string \<Rightarrow> run_state \<Rightarrow> 'w
    \<Rightarrow> request_part \<times> run_state \<times> 'w" where
  "executeSingleTool a call tool deps prompt s w =
     (let s = s\<lparr>rs_usage := IncrToolCall (rs_usage s)\<rparr>;
          maxRetries = tool_max_retries a tool;
          rc = (buildRunContext s deps prompt)
                 \<lparr>rc_Retry := retry_count (rs_toolRetries s) (tc_ToolName call),
                  rc_MaxRetries := maxRetries, rc_ToolName := tc_ToolName call,
                  rc_ToolCallID := tc_ToolCallID call\<rparr>;
          s = emit a (ToolCalled (tc_ToolCallID call) (tc_ToolName call) (tc_ArgsJSON call)) s
      in case check_approval a call tool s w of
           (Some part, s, w) \<Rightarrow> (part, s, w)
         | (None, s, w) \<Rightarrow>
             (let timeout = (if tool_Timeout tool = 0 \<and> ag_defaultToolTimeout a > 0
                             then ag_defaultToolTimeout a else tool_Timeout tool);
                  (r, w) = safeCallHandler tool timeout rc (tc_ArgsJSON call) w;
                  s = emit_tool_end a call r s
              in case r of
                   Inl err \<Rightarrow> (let (part, s) = tool_error_part call maxRetries err s in (part, s, w))
                 | Inr v \<Rightarrow> tool_success_part a call tool rc maxRetries v s w))"

section \<open>Executing the tool calls of a response\<close>

text \<open>
  A call with its position and its tool. Consecutive concurrency-safe calls form one batch, which
  the code runs in goroutines; every other call is a batch of its own. The calls of a concurrent
  batch run one at a time here, in an order the scheduler of the world picks: their critical
  sections on the shared state are inside one call each.
\<close>

type_synonym 'w indexed_call = "nat \<times> tool_call \<times> 'w tool"
type_synonym 'w tool_batch = "bool \<times> 'w indexed_call list"
type_synonym results = "request_part option list"

definition concurrency_safe :: "'w tool \<Rightarrow> bool" where
  "concurrency_safe t \<longleftrightarrow> def_ConcurrencySafe (tool_Definition t) \<and> \<not> def_Sequential (tool_Definition t)"

definition add_to_batches :: "'w indexed_call \<Rightarrow> 'w tool_batch list \<Rightarrow> 'w tool_batch list" where
  "add_to_batches ic bs =
     (let safe = concurrency_safe (snd (snd ic))
      in if safe \<and> bs \<noteq> [] \<and> fst (last bs)
         then butlast bs @ [(True, snd (last bs) @ [ic])]
         else bs @ [(safe, [ic])])"

definition publishPendingFailures ::
    "('w, 't) agent \<Rightarrow> 'w indexed_call list \<Rightarrow> string \<Rightarrow> results \<Rightarrow> run_state \<Rightarrow> run_state" where
  "publishPendingFailures a pending msg res s =
     fold (\<lambda>(i, call, tool) s.
         if res ! i \<noteq> None then s
         else emit a (ToolFailed (tc_ToolCallID call) (tc_ToolName call) msg)
                (emit a (ToolCalled (tc_ToolCallID call) (tc_ToolName call) (tc_ArgsJSON call)) s))
       pending s"

definition order_calls :: "('w, 't) agent \<Rightarrow> 'w indexed_call list \<Rightarrow> 'w \<Rightarrow> 'w indexed_call list" where
  "order_calls a ics w =
     (let ord = batch_order (ag_sched a) (map fst ics) w
      in if mset ord = mset (map fst ics)
         then List.map_filter (\<lambda>i. List.find (\<lambda>ic. fst ic = i) ics) ord else ics)"

fun run_concurrent :: "('w, 't) agent \<Rightarrow> any \<Rightarrow> string \<Rightarrow> 'w indexed_call list \<Rightarrow> results \<Rightarrow> run_state \<Rightarrow> 'w
    \<Rightarrow> results \<times> run_state \<times> 'w" where
  "run_concurrent a deps prompt [] res s w = (res, s, w)"
| "run_concurrent a deps prompt ((i, call, tool) # ics) res s w =
     (case if ag_maxConcurrency a > 0 \<and> sem_refused (ag_sched a) i w then ctx_Err (ag_sched a) w else None of
        Some e \<Rightarrow>
          (let s = emit a (ToolFailed (tc_ToolCallID call) (tc_ToolName call)
                            ''context cancelled waiting for semaphore'')
                     (emit a (ToolCalled (tc_ToolCallID call) (tc_ToolName call) (tc_ArgsJSON call)) s);
               part = ToolReturnPart (tc_ToolName call) (AnyString (''error: '' @ error_text e))
                        (tc_ToolCallID call) []
           in run_concurrent a deps prompt ics (res[i := Some part]) s w)
      | None \<Rightarrow>
          (let (part, s, w) = executeSingleTool a call tool deps prompt s w
           in run_concurrent a deps prompt ics (res[i := Some part]) s w))"

definition first_fatal :: "results \<Rightarrow> 'w indexed_call list \<Rightarrow> go_error option" where
  "first_fatal res ics =
     (case List.map_filter (\<lambda>(i, _, _). case res ! i of Some (FatalToolPart e) \<Rightarrow> Some e | _ \<Rightarrow> None) ics of
        [] \<Rightarrow> None | e # _ \<Rightarrow> Some e)"

fun run_exclusive :: "('w, 't) agent \<Rightarrow> any \<Rightarrow> string \<Rightarrow> 'w indexed_call list \<Rightarrow> 'w indexed_call list \<Rightarrow> results
    \<Rightarrow> run_state \<Rightarrow> 'w \<Rightarrow> results result \<times> run_state \<times> 'w" where
  "run_exclusive a deps prompt rest [] res s w = (Inr res, s, w)"
| "run_exclusive a deps prompt rest ((i, call, tool) # ics) res s w =
     (case ctx_Err (ag_sched a) w of
        Some e \<Rightarrow> (Inl e, publishPendingFailures a ((i, call, tool) # ics @ rest) (error_text e) res s, w)
      | None \<Rightarrow>
          (case executeSingleTool a call tool deps prompt s w of
             (FatalToolPart e, s, w) \<Rightarrow> (Inl e, s, w)
           | (part, s, w) \<Rightarrow> run_exclusive a deps prompt rest ics (res[i := Some part]) s w))"

fun run_batches :: "('w, 't) agent \<Rightarrow> any \<Rightarrow> string \<Rightarrow> 'w tool_batch list \<Rightarrow> results \<Rightarrow> run_state \<Rightarrow> 'w
    \<Rightarrow> results result \<times> run_state \<times> 'w" where
  "run_batches a deps prompt [] res s w = (Inr res, s, w)"
| "run_batches a deps prompt ((safe, ics) # bs) res s w =
     (case ctx_Err (ag_sched a) w of
        Some e \<Rightarrow>
          (Inl e, publishPendingFailures a (ics @ concat (map snd bs)) (error_text e) res s, w)
      | None \<Rightarrow>
          if safe
          then (let (res, s, w) = run_concurrent a deps prompt (order_calls a ics w) res s w
                in case first_fatal res ics of
                     Some e \<Rightarrow> (Inl e, s, w)
                   | None \<Rightarrow> run_batches a deps prompt bs res s w)
          else (case run_exclusive a deps prompt (concat (map snd bs)) ics res s w of
                  (Inl e, s, w) \<Rightarrow> (Inl e, s, w)
                | (Inr res, s, w) \<Rightarrow> run_batches a deps prompt bs res s w))"

text \<open>
  Every call comes with its tool: the caller keeps only calls whose name is in the tool map.
\<close>

definition executeFunctionTools :: "('w, 't) agent \<Rightarrow> (tool_call \<times> 'w tool) list \<Rightarrow> any \<Rightarrow> string \<Rightarrow> run_state \<Rightarrow> 'w
    \<Rightarrow> results result \<times> run_state \<times> 'w" where
  "executeFunctionTools a calls deps prompt s w =
     (let ics = map (\<lambda>i. (i, calls ! i)) [0..<length calls];
          batches = fold add_to_batches ics []
      in run_batches a deps prompt batches (replicate (length calls) None) s w)"

end
