(* ===== verification/Core_Response.thy ===== *)
theory Core_Response
  imports Core_Agent
begin

text \<open>
  \<^verbatim>\<open>processResponse\<close> of \<^verbatim>\<open>core/agent.go\<close>: what the loop makes of a model response, branch by branch.
\<close>

section \<open>Definitions\<close>

record 't final_result =
  fr_output :: 't
  fr_toolName :: string
  fr_toolCallID :: string

type_synonym 't processed = "'t final_result option \<times> request_part list \<times> deferred_request list"

definition is_function_call :: "(string, 'w tool) go_map \<Rightarrow> string set \<Rightarrow> tool_call \<Rightarrow> bool" where
  "is_function_call tm ot tc \<longleftrightarrow> tc_ToolName tc \<notin> ot \<and> fmlookup tm (tc_ToolName tc) \<noteq> None"

definition is_unknown_call :: "(string, 'w tool) go_map \<Rightarrow> string set \<Rightarrow> tool_call \<Rightarrow> bool" where
  "is_unknown_call tm ot tc \<longleftrightarrow> tc_ToolName tc \<notin> ot \<and> fmlookup tm (tc_ToolName tc) = None"

text \<open>Text output: decoding, the text mode fallback, and repair.\<close>

definition decode_text :: "('w, 't) agent \<Rightarrow> string \<Rightarrow> 'w \<Rightarrow> 't result \<times> 'w" where
  "decode_text a text w =
     (case deserializeOutput (ag_codec a) text (os_OuterTypedDictKey (ag_outputSchema a)) of
        Inr out \<Rightarrow> (Inr out, w)
      | Inl err \<Rightarrow>
          if os_Mode (ag_outputSchema a) = OutputModeText
          then (case text_as_output (ag_codec a) text of
                  None \<Rightarrow> (Inl (ErrorString (''output mode is text but type '' @ type_name (ag_codec a) @
                            '' is not compatible with string'')), w)
                | Some out \<Rightarrow> (Inr out, w))
          else (case ag_repairFunc a of
                  RepairFunc f \<Rightarrow>
                    (case f text err w of
                       (Inl _, w) \<Rightarrow> (Inl (WrapPrefix ''failed to parse text output'' err), w)
                     | (Inr out, w) \<Rightarrow> (Inr out, w))
                | _ \<Rightarrow> (Inl (WrapPrefix ''failed to parse text output'' err), w)))"

text \<open>A retry of the result: count it, and answer with a retry prompt unless too many.\<close>

definition retry_result :: "('w, 't) agent \<Rightarrow> string \<Rightarrow> string \<Rightarrow> string \<Rightarrow> run_state
    \<Rightarrow> request_part result \<times> run_state" where
  "retry_result a reason toolName toolCallID s =
     (case incrementRetries (json_arguments (ag_codec a)) (ag_maxRetries a) s of
        (Some e, s) \<Rightarrow> (Inl e, s)
      | (None, s) \<Rightarrow>
          (Inr (buildRetryParts reason toolName toolCallID),
           recordRetryScheduled a reason toolName toolCallID s))"

definition process_text :: "('w, 't) agent \<Rightarrow> model_response \<Rightarrow> any \<Rightarrow> string \<Rightarrow> run_state \<Rightarrow> 'w
    \<Rightarrow> 't processed result \<times> run_state \<times> 'w" where
  "process_text a resp deps prompt s w =
     (case decode_text a (resp_TextContent resp) w of
        (Inl e, w) \<Rightarrow> (Inl e, s, w)
      | (Inr out, w) \<Rightarrow>
          (case validateOutput (buildRunContext s deps prompt) (ag_outputValidators a) out w of
             (Inr out, w) \<Rightarrow>
               (Inr (Some \<lparr>fr_output = out, fr_toolName = [], fr_toolCallID = []\<rparr>, [], []), s, w)
           | (Inl e, w) \<Rightarrow>
               (case errors_As as_model_retry e of
                  None \<Rightarrow> (Inl e, s, w)
                | Some msg \<Rightarrow>
                    (case retry_result a msg [] [] s of
                       (Inl e, s) \<Rightarrow> (Inl e, s, w)
                     | (Inr part, s) \<Rightarrow> (Inr (None, [part], []), s, w)))))"

definition process_empty :: "('w, 't) agent \<Rightarrow> model_response \<Rightarrow> run_state
    \<Rightarrow> 't processed result \<times> run_state" where
  "process_empty a resp s =
     (if resp_FinishReason resp = FinishReasonLength
      then (Inl (UnexpectedModelBehavior
              ''model response ended due to token limit without producing a result'' []), s)
      else if resp_FinishReason resp = FinishReasonContentFilter
      then (Inl (ContentFilterError ''content filter triggered'' []), s)
      else (case retry_result a ''empty response, please provide a result'' [] [] s of
              (Inl e, s) \<Rightarrow> (Inl e, s)
            | (Inr part, s) \<Rightarrow> (Inr (None, [part], []), s)))"

text \<open>Unknown tools count as one retry together and are answered one by one.\<close>

definition unknown_reason :: "('w, 't) agent \<Rightarrow> tool_call \<Rightarrow> string" where
  "unknown_reason a tc =
     ''unknown tool '' @ go_quote (tc_ToolName tc) @ '', available tools: '' @ availableToolNames a"

definition process_unknown :: "('w, 't) agent \<Rightarrow> tool_call list \<Rightarrow> run_state
    \<Rightarrow> request_part list result \<times> run_state" where
  "process_unknown a calls s =
     (if calls = [] then (Inr [], s)
      else case incrementRetries (json_arguments (ag_codec a)) (ag_maxRetries a) s of
        (Some e, s) \<Rightarrow> (Inl e, s)
      | (None, s) \<Rightarrow>
          (Inr (map (\<lambda>tc. buildRetryParts (unknown_reason a tc) (tc_ToolName tc) (tc_ToolCallID tc)) calls),
           fold (\<lambda>tc. recordRetryScheduled a (unknown_reason a tc) (tc_ToolName tc) (tc_ToolCallID tc))
             calls s))"

definition decode_output_call :: "('w, 't) agent \<Rightarrow> tool_call \<Rightarrow> 'w \<Rightarrow> 't result \<times> 'w" where
  "decode_output_call a tc w =
     (case deserializeOutput (ag_codec a) (tc_ArgsJSON tc) (os_OuterTypedDictKey (ag_outputSchema a)) of
        Inr out \<Rightarrow> (Inr out, w)
      | Inl err \<Rightarrow>
          (case ag_repairFunc a of
             RepairFunc f \<Rightarrow>
               (case f (tc_ArgsJSON tc) err w of
                  (Inl _, w) \<Rightarrow> (Inl err, w)
                | (Inr out, w) \<Rightarrow> (Inr out, w))
           | _ \<Rightarrow> (Inl err, w)))"

definition accepted_part :: "tool_call \<Rightarrow> request_part" where
  "accepted_part tc = ToolReturnPart (tc_ToolName tc) (AnyString ''output accepted'') (tc_ToolCallID tc) []"

definition duplicate_part :: "tool_call \<Rightarrow> request_part" where
  "duplicate_part tc = ToolReturnPart (tc_ToolName tc)
     (AnyString ''output already accepted; duplicate ignored'') (tc_ToolCallID tc) []"

text \<open>
  The loop over the output tool calls. It carries the result accepted so far and the parts that
  answer the calls; with the early strategy it stops at the first accepted output, which the flag
  reports.
\<close>

fun process_outputs :: "('w, 't) agent \<Rightarrow> any \<Rightarrow> string \<Rightarrow> tool_call list \<Rightarrow> 't final_result option
    \<Rightarrow> request_part list \<Rightarrow> run_state \<Rightarrow> 'w
    \<Rightarrow> (bool \<times> 't final_result option \<times> request_part list) result \<times> run_state \<times> 'w" where
  "process_outputs a deps prompt [] result parts s w = (Inr (False, result, parts), s, w)"
| "process_outputs a deps prompt (tc # tcs) result parts s w =
     (case decode_output_call a tc w of
        (Inl err, w) \<Rightarrow>
          (case retry_result a (''failed to parse output: '' @ error_text err) (tc_ToolName tc)
                  (tc_ToolCallID tc) s of
             (Inl e, s) \<Rightarrow> (Inl e, s, w)
           | (Inr part, s) \<Rightarrow> process_outputs a deps prompt tcs result (parts @ [part]) s w)
      | (Inr out, w) \<Rightarrow>
          (case validateOutput ((buildRunContext s deps prompt)
                  \<lparr>rc_ToolName := tc_ToolName tc, rc_ToolCallID := tc_ToolCallID tc\<rparr>)
                  (ag_outputValidators a) out w of
             (Inl e, w) \<Rightarrow>
               (case errors_As as_model_retry e of
                  None \<Rightarrow> (Inl e, s, w)
                | Some msg \<Rightarrow>
                    (case retry_result a msg (tc_ToolName tc) (tc_ToolCallID tc) s of
                       (Inl e, s) \<Rightarrow> (Inl e, s, w)
                     | (Inr part, s) \<Rightarrow> process_outputs a deps prompt tcs result (parts @ [part]) s w))
           | (Inr out, w) \<Rightarrow>
               (case result of
                  None \<Rightarrow>
                    (let result = Some \<lparr>fr_output = out, fr_toolName = tc_ToolName tc,
                                         fr_toolCallID = tc_ToolCallID tc\<rparr>;
                         parts = parts @ [accepted_part tc]
                     in if ag_endStrategy a = EndStrategyEarly then (Inr (True, result, parts), s, w)
                        else process_outputs a deps prompt tcs result parts s w)
                | Some _ \<Rightarrow>
                    process_outputs a deps prompt tcs result (parts @ [duplicate_part tc]) s w)))"

definition is_deferred_part :: "request_part \<Rightarrow> bool" where
  "is_deferred_part p = (case p of DeferredToolPart _ _ _ \<Rightarrow> True | _ \<Rightarrow> False)"

definition deferred_of :: "request_part list \<Rightarrow> deferred_request list" where
  "deferred_of ps = concat (map (\<lambda>p. case p of
     DeferredToolPart n i args \<Rightarrow> [\<lparr>dr_ToolName = n, dr_ToolCallID = i, dr_ArgsJSON = args\<rparr>] | _ \<Rightarrow> []) ps)"

definition tool_limit_error :: "int \<Rightarrow> int \<Rightarrow> nat \<Rightarrow> go_error" where
  "tool_limit_error limit used pending = UsageLimitExceeded (''tool call limit of '' @ show_int limit @
     '' exceeded (used '' @ show_int used @ '', pending '' @ show_nat pending @ '')'')"

definition over_tool_limit :: "run_state \<Rightarrow> nat \<Rightarrow> go_error option" where
  "over_tool_limit s pending =
     (case ToolCallsLimit (rs_limits s) of
        None \<Rightarrow> None
      | Some limit \<Rightarrow>
          if ToolCalls (rs_usage s) + int pending > limit
          then Some (tool_limit_error limit (ToolCalls (rs_usage s)) pending) else None)"

definition process_functions :: "('w, 't) agent \<Rightarrow> any \<Rightarrow> string \<Rightarrow> (tool_call \<times> 'w tool) list
    \<Rightarrow> 't final_result option \<Rightarrow> request_part list \<Rightarrow> run_state \<Rightarrow> 'w
    \<Rightarrow> 't processed result \<times> run_state \<times> 'w" where
  "process_functions a deps prompt calls result parts s w =
     (if calls = [] then (Inr (result, parts, []), s, w)
      else case over_tool_limit s (length calls) of
        Some e \<Rightarrow> (Inl e, s, w)
      | None \<Rightarrow>
          (case executeFunctionTools a calls deps prompt s w of
             (Inl e, s, w) \<Rightarrow> (Inl e, s, w)
           | (Inr res, s, w) \<Rightarrow>
               (let funcParts = List.map_filter id res
                in (Inr (result, parts @ filter (\<lambda>p. \<not> is_deferred_part p) funcParts,
                         deferred_of funcParts),
                    s\<lparr>rs_retries := 0\<rparr>, w))))"

definition process_calls :: "('w, 't) agent \<Rightarrow> tool_call list \<Rightarrow> (string, 'w tool) go_map \<Rightarrow> string set
    \<Rightarrow> any \<Rightarrow> string \<Rightarrow> run_state \<Rightarrow> 'w \<Rightarrow> 't processed result \<times> run_state \<times> 'w" where
  "process_calls a calls tm ot deps prompt s w =
     (let outputCalls = filter (\<lambda>tc. tc_ToolName tc \<in> ot) calls;
          functionCalls = List.map_filter (\<lambda>tc. if tc_ToolName tc \<in> ot then None
             else map_option (\<lambda>t. (tc, t)) (fmlookup tm (tc_ToolName tc))) calls;
          unknownCalls = filter (is_unknown_call tm ot) calls
      in case process_unknown a unknownCalls s of
           (Inl e, s) \<Rightarrow> (Inl e, s, w)
         | (Inr parts, s) \<Rightarrow>
             (case process_outputs a deps prompt outputCalls None parts s w of
                (Inl e, s, w) \<Rightarrow> (Inl e, s, w)
              | (Inr (early, result, parts), s, w) \<Rightarrow>
                  if early then (Inr (result, parts, []), s, w)
                  else process_functions a deps prompt functionCalls result parts s w))"

definition processResponse :: "('w, 't) agent \<Rightarrow> model_response \<Rightarrow> (string, 'w tool) go_map \<Rightarrow> string set
    \<Rightarrow> any \<Rightarrow> string \<Rightarrow> run_state \<Rightarrow> 'w \<Rightarrow> 't processed result \<times> run_state \<times> 'w" where
  "processResponse a resp tm ot deps prompt s w =
     (let calls = resp_ToolCalls resp; hasText = (resp_TextContent resp \<noteq> [])
      in if calls = [] \<and> hasText \<and> os_AllowsText (ag_outputSchema a)
         then process_text a resp deps prompt s w
         else if calls = []
         then (let (r, s) = process_empty a resp s in (r, s, w))
         else process_calls a calls tm ot deps prompt s w)"

end
