(* ===== verification/Core_Engine.thy ===== *)
theory Core_Engine
  imports Core_Response
begin

text \<open>
  The agent loop: \<^verbatim>\<open>core/run_engine.go\<close>, and \<^verbatim>\<open>prepareTools\<close>, \<^verbatim>\<open>buildInitialRequestWithDynamic\<close>,
  \<^verbatim>\<open>runLoop\<close> and \<^verbatim>\<open>Run\<close> of \<^verbatim>\<open>core/agent.go\<close>. One turn is cut into its stages, in the order of the code;
  \<open>Step\<close> repeats turns while a response interceptor drops the response, and \<open>runLoop\<close> repeats steps.
  Both may run forever and are partial functions whose value is \<open>None\<close> then.
\<close>

section \<open>Engine and results\<close>

record 't run_result =
  res_Output :: 't
  res_Messages :: "model_message list"
  res_Usage :: run_usage
  res_RunID :: string
  res_ToolState :: metadata

datatype 't step_outcome =
    StepFailed go_error
  | StepDeferred "deferred_request list" "model_message list" run_usage
  | StepDone "'t run_result"
  | StepContinue

record ('w, 't) turn_engine =
  en_agent :: "('w, 't) agent"
  en_prompt :: string
  en_limits :: usage_limits
  en_deps :: any
  en_allTools :: "'w tool list"
  en_toolMap :: "(string, 'w tool) go_map"
  en_outputToolNames :: "string set"

definition newTurnEngine :: "('w, 't) agent \<Rightarrow> string \<Rightarrow> usage_limits \<Rightarrow> any \<Rightarrow> ('w, 't) turn_engine" where
  "newTurnEngine a prompt limits deps = \<lparr>en_agent = a, en_prompt = prompt, en_limits = limits, en_deps = deps,
     en_allTools = allTools a, en_toolMap = build_toolMap (allTools a), en_outputToolNames = outputToolNames a\<rparr>"

fun export_states :: "'w tool list \<Rightarrow> metadata \<Rightarrow> 'w \<Rightarrow> metadata \<times> 'w" where
  "export_states [] m w = (m, w)"
| "export_states (t # ts) m w =
     (case tool_Stateful t of
        None \<Rightarrow> export_states ts m w
      | Some st \<Rightarrow>
          (case st_ExportState st w of
             (Inl _, w) \<Rightarrow> export_states ts m w
           | (Inr v, w) \<Rightarrow> export_states ts (fmupd (tool_Name t) v m) w))"

definition exportToolState :: "('w, 't) agent \<Rightarrow> 'w \<Rightarrow> metadata \<times> 'w" where
  "exportToolState a w = export_states (allTools a) fmempty w"

fun restore_states :: "'w tool list \<Rightarrow> metadata \<Rightarrow> 'w \<Rightarrow> 'w" where
  "restore_states [] m w = w"
| "restore_states (t # ts) m w =
     (case tool_Stateful t of
        None \<Rightarrow> restore_states ts m w
      | Some st \<Rightarrow>
          (case fmlookup m (tool_Name t) of
             None \<Rightarrow> restore_states ts m w
           | Some v \<Rightarrow> restore_states ts m (snd (st_RestoreState st v w))))"

definition restoreToolState :: "('w, 't) agent \<Rightarrow> metadata \<Rightarrow> 'w \<Rightarrow> 'w" where
  "restoreToolState a m w = restore_states (allTools a) m w"

definition buildRunResult :: "('w, 't) agent \<Rightarrow> run_state \<Rightarrow> 't \<Rightarrow> 'w \<Rightarrow> 't run_result \<times> 'w" where
  "buildRunResult a s out w =
     (let (ts, w) = exportToolState a w
      in (\<lparr>res_Output = out, res_Messages = rs_messages s, res_Usage = rs_usage s, res_RunID = rs_runID s,
           res_ToolState = ts\<rparr>, w))"

section \<open>Preparing the request\<close>

fun prepare_each :: "run_context \<Rightarrow> 'w tool list \<Rightarrow> 'w \<Rightarrow> 'w tool list \<times> 'w" where
  "prepare_each rc [] w = ([], w)"
| "prepare_each rc (t # ts) w =
     (case tool_PrepareFunc t of
        None \<Rightarrow> (let (r, w) = prepare_each rc ts w in (t # r, w))
      | Some f \<Rightarrow>
          (case f rc (tool_Definition t) w of
             (None, w) \<Rightarrow> prepare_each rc ts w
           | (Some d, w) \<Rightarrow> (let (r, w) = prepare_each rc ts w in (t\<lparr>tool_Definition := d\<rparr> # r, w))))"

definition retain_defs :: "tool_definition list \<Rightarrow> 'w tool list \<Rightarrow> 'w tool list" where
  "retain_defs defs ts =
     (let retained = fold (\<lambda>d m. fmupd (def_Name d) d m) defs fmempty
      in List.map_filter (\<lambda>t. map_option (\<lambda>d. t\<lparr>tool_Definition := d\<rparr>) (fmlookup retained (tool_Name t))) ts)"

definition prepareTools :: "('w, 't) agent \<Rightarrow> run_state \<Rightarrow> 'w tool list \<Rightarrow> any \<Rightarrow> string \<Rightarrow> 'w \<Rightarrow> 'w tool list \<times> 'w" where
  "prepareTools a s tools deps prompt w =
     (if ag_toolsPrepareFunc a = None \<and> (\<forall>t \<in> set tools. tool_PrepareFunc t = None) then (tools, w)
      else
        (let rc = buildRunContext s deps prompt;
             (prepared, w) = prepare_each rc tools w
         in case ag_toolsPrepareFunc a of
              None \<Rightarrow> (prepared, w)
            | Some f \<Rightarrow> (let (defs, w) = f rc (map tool_Definition prepared) w in (retain_defs defs prepared, w))))"

definition buildModelRequestParams :: "'w tool list \<Rightarrow> output_schema \<Rightarrow> request_params" where
  "buildModelRequestParams tools os = \<lparr>par_FunctionTools = map tool_Definition tools, par_OutputMode = os_Mode os,
     par_OutputTools = os_OutputTools os, par_OutputObject = os_OutputObject os,
     par_AllowTextOutput = os_AllowsText os\<rparr>"

definition inject_tool_choice :: "('w, 't) agent \<Rightarrow> model_settings option \<Rightarrow> model_settings option" where
  "inject_tool_choice a settings =
     (case ag_toolChoice a of
        None \<Rightarrow> settings
      | Some c \<Rightarrow>
          (let st = (case settings of None \<Rightarrow> zero_settings | Some st \<Rightarrow> st)
           in Some (if ms_ToolChoice st = None then st\<lparr>ms_ToolChoice := Some c\<rparr> else st)))"

text \<open>
  The engine's settings after a turn that did not store its own: the injection writes through the
  pointer when there is one.
\<close>

definition kept_settings :: "('w, 't) agent \<Rightarrow> model_settings option \<Rightarrow> model_settings option" where
  "kept_settings a settings = (if settings = None then None else inject_tool_choice a settings)"

definition reset_tool_choice ::
    "('w, 't) agent \<Rightarrow> model_response \<Rightarrow> model_settings option \<Rightarrow> model_settings option" where
  "reset_tool_choice a resp settings =
     (case settings of
        None \<Rightarrow> None
      | Some st \<Rightarrow>
          Some (if ag_toolChoiceAutoReset a \<and> resp_ToolCalls resp \<noteq> [] \<and> ms_ToolChoice st \<noteq> None
                then st\<lparr>ms_ToolChoice := Some ToolChoiceAuto\<rparr> else st))"

definition emitTurnCompleted ::
    "('w, 't) agent \<Rightarrow> model_response option \<Rightarrow> go_error option \<Rightarrow> run_state \<Rightarrow> run_state" where
  "emitTurnCompleted a resp err s =
     emit a (TurnCompleted (rs_runStep s)
       (case resp of None \<Rightarrow> False | Some r \<Rightarrow> resp_ToolCalls r \<noteq> [])
       (case resp of None \<Rightarrow> False | Some r \<Rightarrow> resp_TextContent r \<noteq> [])
       (case err of None \<Rightarrow> [] | Some e \<Rightarrow> error_text e)) s"

definition check_limits :: "('w, 't) turn_engine \<Rightarrow> run_state \<Rightarrow> 'w \<Rightarrow> go_error option" where
  "check_limits e s w =
     (case ctx_Err (ag_sched (en_agent e)) w of
        Some err \<Rightarrow> Some err
      | None \<Rightarrow>
          (case CheckBeforeRequest (en_limits e) (rs_usage s) of
             Some err \<Rightarrow> Some err
           | None \<Rightarrow>
               (case if ToolCallsLimit (en_limits e) \<noteq> None then CheckToolCalls (en_limits e) (rs_usage s) else None of
                  Some err \<Rightarrow> Some err
                | None \<Rightarrow> checkQuota (ag_usageQuota (en_agent e)) (rs_usage s))))"

definition compact_context :: "('w, 't) agent \<Rightarrow> run_state \<Rightarrow> 'w \<Rightarrow> run_state \<times> 'w" where
  "compact_context a s w =
     (case ag_autoContext a of
        None \<Rightarrow> (s, w)
      | Some cfg \<Rightarrow>
          (let before = currentContextTokenCount (rs_messages s) (rs_lastInputTokens s);
               ((compressed, err), w) =
                 autoCompressMessages (ag_valueText a) cfg (ag_model a) (rs_messages s) before w
           in if err = None \<and> length compressed < length (rs_messages s)
              then (s\<lparr>rs_messages := compressed\<rparr>, w) else (s, w)))"

fun run_history_processors ::
    "'w history_processor list \<Rightarrow> model_message list \<Rightarrow> 'w \<Rightarrow> model_message list result \<times> 'w" where
  "run_history_processors [] ms w = (Inr ms, w)"
| "run_history_processors (p # ps) ms w =
     (case p ms w of
        (Inl e, w) \<Rightarrow> (Inl (WrapPrefix ''history processor failed'' e), w)
      | (Inr ms, w) \<Rightarrow> run_history_processors ps ms w)"

fun run_turn_guardrails ::
    "(string \<times> 'w turn_guardrail) list \<Rightarrow> run_context \<Rightarrow> model_message list \<Rightarrow> 'w \<Rightarrow> go_error option \<times> 'w" where
  "run_turn_guardrails [] rc ms w = (None, w)"
| "run_turn_guardrails ((name, g) # gs) rc ms w =
     (case g rc ms w of
        (Some e, w) \<Rightarrow> (Some (GuardrailError name (error_text e)), w)
      | (None, w) \<Rightarrow> run_turn_guardrails gs rc ms w)"

text \<open>The messages that go to the model: history processors, interceptors, guardrails.\<close>

definition outgoing_messages :: "('w, 't) turn_engine \<Rightarrow> run_state \<Rightarrow> 'w \<Rightarrow> model_message list result \<times> 'w" where
  "outgoing_messages e s w =
     (let a = en_agent e in
      case run_history_processors (ag_historyProcessors a) (rs_messages s) w of
        (Inl err, w) \<Rightarrow> (Inl err, w)
      | (Inr ms, w) \<Rightarrow>
          (case runMessageInterceptors (ag_messageInterceptors a) ms w of
             (None, w) \<Rightarrow> (Inl (ErrorString ''message interceptor dropped the request''), w)
           | (Some ms, w) \<Rightarrow>
               (case run_turn_guardrails (ag_turnGuardrails a)
                       ((buildRunContext s (en_deps e) (en_prompt e))\<lparr>rc_Messages := ms\<rparr>) ms w of
                  (Some err, w) \<Rightarrow> (Inl err, w)
                | (None, w) \<Rightarrow> (Inr ms, w))))"

section \<open>The request and its response\<close>

text \<open>From the turn's start to the model's answer. A failure has been published as the end of the turn.\<close>

definition request_turn :: "('w, 't) turn_engine \<Rightarrow> run_state \<Rightarrow> model_settings option \<Rightarrow> 'w
    \<Rightarrow> model_response result \<times> run_state \<times> 'w" where
  "request_turn e s settings w =
     (let a = en_agent e;
          s = s\<lparr>rs_runStep := rs_runStep s + 1\<rparr>;
          s = emit a (TurnStarted (rs_runStep s)) s;
          (tools, w) = prepareTools a s (en_allTools e) (en_deps e) (en_prompt e) w;
          params = buildModelRequestParams tools (ag_outputSchema a);
          (s, w) = compact_context a s w
      in case outgoing_messages e s w of
           (Inl err, w) \<Rightarrow> (Inl err, emitTurnCompleted a None (Some err) s, w)
         | (Inr ms, w) \<Rightarrow>
             (let s = emit a (ModelRequestStarted (rs_runStep s) (length ms)) s
              in case buildMiddlewareChain (ag_middleware a) (ag_model a) ms (inject_tool_choice a settings) params w of
                   (Inl err, w) \<Rightarrow>
                     (let err = WrapPrefix ''model request failed'' err
                      in (Inl err, emitTurnCompleted a None (Some err) s, w))
                 | (Inr resp, w) \<Rightarrow> (Inr resp, s, w)))"

definition record_usage :: "('w, 't) agent \<Rightarrow> model_response \<Rightarrow> run_state \<Rightarrow> 'w \<Rightarrow> run_state \<times> 'w" where
  "record_usage a resp s w =
     (let u = resp_Usage resp;
          s = s\<lparr>rs_usage := IncrRequest (rs_usage s) u\<rparr>;
          s = (if InputTokens u > 0 then s\<lparr>rs_lastInputTokens := InputTokens u\<rparr> else s)
      in (s, case ag_costTracker a of None \<Rightarrow> w | Some rec \<Rightarrow> rec (ag_modelName a) (Incr zero_run_usage u) w))"

definition accept_response :: "('w, 't) agent \<Rightarrow> model_response \<Rightarrow> run_state \<Rightarrow> run_state" where
  "accept_response a resp s =
     emit a (ModelResponseCompleted (rs_runStep s) (resp_FinishReason resp) (InputTokens (resp_Usage resp))
         (OutputTokens (resp_Usage resp)) (resp_ToolCalls resp \<noteq> []) (resp_TextContent resp \<noteq> []))
       (s\<lparr>rs_messages := rs_messages s @ [ModelResponse resp]\<rparr>)"

fun stop_reason :: "'w run_condition list \<Rightarrow> run_context \<Rightarrow> model_response \<Rightarrow> 'w \<Rightarrow> string option \<times> 'w" where
  "stop_reason [] rc resp w = (None, w)"
| "stop_reason (c # cs) rc resp w =
     (case c rc resp w of
        ((True, reason), w) \<Rightarrow> (Some reason, w)
      | ((False, _), w) \<Rightarrow> stop_reason cs rc resp w)"

text \<open>The text a stopped run ends with, if it is an output.\<close>

definition stopped_output :: "('w, 't) agent \<Rightarrow> model_response \<Rightarrow> 't option" where
  "stopped_output a resp =
     (let text = resp_TextContent resp; os = ag_outputSchema a in
      if text \<noteq> [] \<and> os_AllowsText os
      then (case deserializeOutput (ag_codec a) text (os_OuterTypedDictKey os) of
              Inr out \<Rightarrow> Some out
            | Inl _ \<Rightarrow> if os_Mode os = OutputModeText then text_as_output (ag_codec a) text else None)
      else None)"

definition stop_turn :: "('w, 't) agent \<Rightarrow> model_response \<Rightarrow> string \<Rightarrow> run_state \<Rightarrow> 'w
    \<Rightarrow> 't step_outcome \<times> run_state \<times> 'w" where
  "stop_turn a resp reason s w =
     (case stopped_output a resp of
        Some out \<Rightarrow>
          (let s = emitTurnCompleted a (Some resp) None s; (r, w) = buildRunResult a s out w in (StepDone r, s, w))
      | None \<Rightarrow>
          (StepFailed (RunConditionError reason),
           emitTurnCompleted a (Some resp) (Some (RunConditionError reason)) s, w))"

definition publish_deferred :: "('w, 't) agent \<Rightarrow> deferred_request list \<Rightarrow> run_state \<Rightarrow> run_state" where
  "publish_deferred a reqs s =
     emit a (RunWaiting ''deferred'')
       (fold (\<lambda>dr. emit a (DeferredRequested (dr_ToolCallID dr) (dr_ToolName dr) (dr_ArgsJSON dr))) reqs s)"

definition kb_store :: "('w, 't) agent \<Rightarrow> model_response \<Rightarrow> 'w \<Rightarrow> go_error option \<times> 'w" where
  "kb_store a resp w =
     (case ag_knowledgeBase a of
        None \<Rightarrow> (None, w)
      | Some kb \<Rightarrow>
          if ag_kbAutoStore a \<and> resp_TextContent resp \<noteq> []
          then (case kb_Store kb (resp_TextContent resp) w of
                  (Some err, w) \<Rightarrow> (Some (WrapPrefix ''knowledge base store failed'' err), w)
                | (None, w) \<Rightarrow> (None, w))
          else (None, w))"

text \<open>What the outcome of \<^verbatim>\<open>processResponse\<close> makes of the turn.\<close>

definition conclude_turn :: "('w, 't) agent \<Rightarrow> model_response \<Rightarrow> 't processed \<Rightarrow> run_state \<Rightarrow> 'w
    \<Rightarrow> 't step_outcome \<times> run_state \<times> 'w" where
  "conclude_turn a resp p s w =
     (let (result, parts, deferred) = p;
          s = (if parts \<noteq> [] then s\<lparr>rs_messages := rs_messages s @ [ModelRequest parts]\<rparr> else s)
      in if deferred \<noteq> []
         then (StepDeferred deferred (rs_messages s) (rs_usage s),
               publish_deferred a deferred (emitTurnCompleted a (Some resp) None s), w)
         else case result of
             Some r \<Rightarrow>
               (case kb_store a resp w of
                  (Some err, w) \<Rightarrow> (StepFailed err, emitTurnCompleted a (Some resp) (Some err) s, w)
                | (None, w) \<Rightarrow>
                    (let s = emitTurnCompleted a (Some resp) None s; (res, w) = buildRunResult a s (fr_output r) w
                     in (StepDone res, s, w)))
           | None \<Rightarrow> (StepContinue, emitTurnCompleted a (Some resp) None s, w))"

definition handle_response :: "('w, 't) turn_engine \<Rightarrow> model_response \<Rightarrow> run_state \<Rightarrow> 'w
    \<Rightarrow> 't step_outcome \<times> run_state \<times> 'w" where
  "handle_response e resp s w =
     (let a = en_agent e in
      case if HasTokenLimits (en_limits e) then CheckTokens (en_limits e) (rs_usage s) else None of
        Some err \<Rightarrow> (StepFailed err, emitTurnCompleted a (Some resp) (Some err) s, w)
      | None \<Rightarrow>
          (case stop_reason (ag_runConditions a) (buildRunContext s (en_deps e) (en_prompt e)) resp w of
             (Some reason, w) \<Rightarrow> stop_turn a resp reason s w
           | (None, w) \<Rightarrow>
               (case processResponse a resp (en_toolMap e) (en_outputToolNames e) (en_deps e) (en_prompt e) s w of
                  (Inl err, s, w) \<Rightarrow> (StepFailed err, emitTurnCompleted a (Some resp) (Some err) s, w)
                | (Inr p, s, w) \<Rightarrow> conclude_turn a resp p s w)))"

section \<open>Turns, steps, runs\<close>

text \<open>One iteration of the loop in \<^verbatim>\<open>Step\<close>: no outcome when the response was dropped.\<close>

definition turn :: "('w, 't) turn_engine \<Rightarrow> run_state \<Rightarrow> model_settings option \<Rightarrow> 'w
    \<Rightarrow> (model_response option \<times> 't step_outcome) option \<times> run_state \<times> model_settings option \<times> 'w" where
  "turn e s settings w =
     (let a = en_agent e in
      case check_limits e s w of
        Some err \<Rightarrow> (Some (None, StepFailed err), s, settings, w)
      | None \<Rightarrow>
          (case request_turn e s settings w of
             (Inl err, s, w) \<Rightarrow> (Some (None, StepFailed err), s, kept_settings a settings, w)
           | (Inr resp, s, w) \<Rightarrow>
               (let (s, w) = record_usage a resp s w;
                    ((dropped, resp), w) = runResponseInterceptors (ag_responseInterceptors a) resp w
                in if dropped
                   then (None, emitTurnCompleted a (Some resp) None s, kept_settings a settings, w)
                   else
                     (let (out, s, w) = handle_response e resp (accept_response a resp s) w
                      in (Some (Some resp, out), s, reset_tool_choice a resp (inject_tool_choice a settings), w)))))"

partial_function (option) Step :: "('w, 't) turn_engine \<Rightarrow> run_state \<Rightarrow> model_settings option \<Rightarrow> 'w
    \<Rightarrow> ((model_response option \<times> 't step_outcome) \<times> run_state \<times> model_settings option \<times> 'w) option" where
  "Step e s settings w =
     (case turn e s settings w of
        (Some out, s, settings, w) \<Rightarrow> Some (out, s, settings, w)
      | (None, s, settings, w) \<Rightarrow> Step e s settings w)"

datatype 't run_outcome =
    RunFailed go_error
  | RunDeferred "deferred_request list" "model_message list" run_usage
  | RunDone "'t run_result"

partial_function (option) run_steps :: "('w, 't) turn_engine \<Rightarrow> run_state \<Rightarrow> model_settings option \<Rightarrow> 'w
    \<Rightarrow> ('t run_outcome \<times> run_state \<times> 'w) option" where
  "run_steps e s settings w =
     Option.bind (Step e s settings w) (\<lambda>((_, out), s, settings, w).
       case out of
         StepFailed err \<Rightarrow> Some (RunFailed err, s, w)
       | StepDeferred reqs ms u \<Rightarrow> Some (RunDeferred reqs ms u, s, w)
       | StepDone r \<Rightarrow> Some (RunDone r, s, w)
       | StepContinue \<Rightarrow> run_steps e s settings w)"

definition runLoop :: "('w, 't) agent \<Rightarrow> run_state \<Rightarrow> string \<Rightarrow> model_settings option \<Rightarrow> usage_limits \<Rightarrow> any \<Rightarrow> 'w
    \<Rightarrow> ('t run_outcome \<times> run_state \<times> 'w) option" where
  "runLoop a s prompt settings limits deps w = run_steps (newTurnEngine a prompt limits deps) s settings w"

end
