(* ===== verification/Core_Run.thy ===== *)
theory Core_Run
  imports Core_Engine
begin

text \<open>
  Starting and ending a run: \<^verbatim>\<open>initializeRunExecution\<close>, \<^verbatim>\<open>applyInputGuardrails\<close>,
  \<^verbatim>\<open>bootstrapRunMessages\<close> and \<^verbatim>\<open>injectDeferredResults\<close> of \<^verbatim>\<open>core/run_engine.go\<close>,
  \<^verbatim>\<open>buildInitialRequestWithDynamic\<close>, \<^verbatim>\<open>beginRun\<close>, \<^verbatim>\<open>endRun\<close> and \<^verbatim>\<open>Run\<close> of \<^verbatim>\<open>core/agent.go\<close>.
  The fresh run identifier, the start time and the identifier of the parent run in the context are
  arguments.
\<close>

section \<open>Configuration of a run\<close>

record run_config =
  cfg_deps :: any
  cfg_modelSettings :: "model_settings option"
  cfg_usageLimits :: "usage_limits option"
  cfg_messages :: "model_message list"
  cfg_snapshot :: "snapshot option"
  cfg_initialRequestParts :: "request_part list"
  cfg_deferredResults :: "deferred_result list"
  cfg_toolState :: metadata
  cfg_steerQueue :: bool

record run_execution =
  ex_state :: run_state
  ex_settings :: "model_settings option"
  ex_limits :: usage_limits
  ex_deps :: any

definition initial_state :: "('w, 't) agent \<Rightarrow> string \<Rightarrow> string \<Rightarrow> time \<Rightarrow> run_config \<Rightarrow> run_state" where
  "initial_state a runID parent now cfg =
     (let limits = (case cfg_usageLimits cfg of None \<Rightarrow> ag_usageLimits a | Some l \<Rightarrow> l);
          s = (newRunState runID now limits)\<lparr>rs_parentRunID := parent\<rparr>;
          s = (case cfg_snapshot cfg of None \<Rightarrow> s | Some snap \<Rightarrow> applySnapshot snap s);
          s = s\<lparr>rs_limits := limits\<rparr>
      in if cfg_messages cfg \<noteq> [] then s\<lparr>rs_messages := cfg_messages cfg\<rparr> else s)"

definition restored_tool_state :: "run_config \<Rightarrow> metadata" where
  "restored_tool_state cfg =
     (let m = (case cfg_snapshot cfg of None \<Rightarrow> fmempty | Some snap \<Rightarrow> snap_ToolState snap)
      in if cfg_toolState cfg \<noteq> fmempty then cfg_toolState cfg else m)"

definition initializeRunExecution :: "('w, 't) agent \<Rightarrow> string \<Rightarrow> string \<Rightarrow> time \<Rightarrow> run_config \<Rightarrow> 'w \<Rightarrow> run_execution \<times> 'w" where
  "initializeRunExecution a runID parent now cfg w =
     (let m = restored_tool_state cfg;
          w = (if m \<noteq> fmempty then restoreToolState a m w else w)
      in (\<lparr>ex_state = initial_state a runID parent now cfg,
           ex_settings = (case cfg_modelSettings cfg of None \<Rightarrow> ag_modelSettings a | Some st \<Rightarrow> Some st),
           ex_limits = (case cfg_usageLimits cfg of None \<Rightarrow> ag_usageLimits a | Some l \<Rightarrow> l),
           ex_deps = (if cfg_deps cfg = AnyNil then ag_deps a else cfg_deps cfg)\<rparr>, w))"

section \<open>Guardrails and the first request\<close>

fun applyInputGuardrails :: "(string \<times> 'w input_guardrail) list \<Rightarrow> string \<Rightarrow> 'w \<Rightarrow> string result \<times> 'w" where
  "applyInputGuardrails [] prompt w = (Inr prompt, w)"
| "applyInputGuardrails ((name, g) # gs) prompt w =
     (case g prompt w of
        ((_, Some e), w) \<Rightarrow> (Inl (GuardrailError name (error_text e)), w)
      | ((prompt, None), w) \<Rightarrow> applyInputGuardrails gs prompt w)"

fun dynamic_prompts :: "(run_context \<Rightarrow> 'w \<Rightarrow> string result \<times> 'w) list \<Rightarrow> run_context \<Rightarrow> 'w
    \<Rightarrow> request_part list result \<times> 'w" where
  "dynamic_prompts [] rc w = (Inr [], w)"
| "dynamic_prompts (f # fs) rc w =
     (case f rc w of
        (Inl e, w) \<Rightarrow> (Inl (WrapPrefix ''dynamic system prompt failed'' e), w)
      | (Inr c, w) \<Rightarrow>
          (case dynamic_prompts fs rc w of
             (Inl e, w) \<Rightarrow> (Inl e, w)
           | (Inr ps, w) \<Rightarrow> (Inr ((if c \<noteq> [] then [SystemPromptPart c] else []) @ ps), w)))"

definition knowledge_part :: "('w, 't) agent \<Rightarrow> string \<Rightarrow> 'w \<Rightarrow> request_part list result \<times> 'w" where
  "knowledge_part a prompt w =
     (case ag_knowledgeBase a of
        None \<Rightarrow> (Inr [], w)
      | Some kb \<Rightarrow>
          (case kb_Retrieve kb prompt w of
             (Inl e, w) \<Rightarrow> (Inl (WrapPrefix ''knowledge base retrieve failed'' e), w)
           | (Inr c, w) \<Rightarrow> (Inr (if c \<noteq> [] then [SystemPromptPart (''[Knowledge Context] '' @ c)] else []), w)))"

definition buildInitialRequestWithDynamic :: "('w, 't) agent \<Rightarrow> string \<Rightarrow> run_state \<Rightarrow> any \<Rightarrow> request_part list \<Rightarrow> 'w
    \<Rightarrow> model_message result \<times> 'w" where
  "buildInitialRequestWithDynamic a prompt s deps parts w =
     (case dynamic_prompts (ag_dynamicSystemPrompts a) (buildRunContext s deps prompt) w of
        (Inl e, w) \<Rightarrow> (Inl e, w)
      | (Inr dyn, w) \<Rightarrow>
          (case knowledge_part a prompt w of
             (Inl e, w) \<Rightarrow> (Inl e, w)
           | (Inr kb, w) \<Rightarrow>
               (Inr (ModelRequest (map SystemPromptPart (ag_systemPrompts a) @ dyn @ kb @ [UserPromptPart prompt] @ parts)), w)))"

definition deferred_part :: "deferred_result \<Rightarrow> request_part" where
  "deferred_part dr =
     (if dres_IsError dr then RetryPromptPart (dres_Content dr) (dres_ToolName dr) (dres_ToolCallID dr)
      else ToolReturnPart (dres_ToolName dr) (AnyString (dres_Content dr)) (dres_ToolCallID dr) [])"

definition inject_parts :: "request_part list \<Rightarrow> model_message list \<Rightarrow> model_message list" where
  "inject_parts parts ms =
     (if ms = [] then [ModelRequest parts]
      else case last ms of
        ModelRequest ps \<Rightarrow> butlast ms @ [ModelRequest (ps @ parts)]
      | ModelResponse _ \<Rightarrow> ms @ [ModelRequest parts])"

definition injectDeferredResults :: "run_state \<Rightarrow> deferred_result list \<Rightarrow> run_state" where
  "injectDeferredResults s results =
     s\<lparr>rs_messages := inject_parts (map deferred_part results) (rs_messages s)\<rparr>"

definition bootstrapRunMessages :: "('w, 't) agent \<Rightarrow> run_state \<Rightarrow> string \<Rightarrow> any \<Rightarrow> deferred_result list
    \<Rightarrow> request_part list \<Rightarrow> 'w \<Rightarrow> go_error option \<times> run_state \<times> 'w" where
  "bootstrapRunMessages a s prompt deps results parts w =
     (if results \<noteq> [] \<and> rs_messages s \<noteq> [] then (None, injectDeferredResults s results, w)
      else
        (case buildInitialRequestWithDynamic a prompt s deps parts w of
           (Inl e, w) \<Rightarrow> (Some (WrapPrefix ''failed to build initial request'' e), s, w)
         | (Inr req, w) \<Rightarrow> (None, s\<lparr>rs_messages := rs_messages s @ [req]\<rparr>, w)))"

section \<open>Run\<close>

definition outcome_error :: "'t run_outcome \<Rightarrow> string option" where
  "outcome_error out =
     (case out of
        RunDone _ \<Rightarrow> None
      | RunFailed e \<Rightarrow> Some (error_text e)
      | RunDeferred reqs _ _ \<Rightarrow> Some (''agent run deferred: '' @ show_nat (length reqs) @
          '' tool call(s) require external resolution''))"

definition beginRun :: "('w, 't) agent \<Rightarrow> string \<Rightarrow> run_state \<Rightarrow> run_state" where
  "beginRun a prompt s = emit a (RunStarted (rs_runID s) (rs_parentRunID s) prompt) s"

definition publish_resolved :: "('w, 't) agent \<Rightarrow> deferred_result list \<Rightarrow> run_state \<Rightarrow> run_state" where
  "publish_resolved a results s =
     (if results = [] then s
      else fold (\<lambda>dr. emit a (DeferredResolved (dres_ToolCallID dr) (dres_ToolName dr) (dres_Content dr) (dres_IsError dr)))
             results (emit a RunResumed s))"

definition endRun :: "('w, 't) agent \<Rightarrow> 't run_outcome \<Rightarrow> run_state \<Rightarrow> run_state" where
  "endRun a out s =
     (let s = (case outcome_error out of None \<Rightarrow> s | Some e \<Rightarrow> emit a (ErrorRaised (rs_runStep s) e) s)
      in emit a (RunCompleted (outcome_error out = None)
             (case out of RunDeferred _ _ _ \<Rightarrow> True | _ \<Rightarrow> False)
             (case outcome_error out of None \<Rightarrow> [] | Some e \<Rightarrow> e)) s)"

abbreviation ErrSteeringNeedsStreaming :: go_error where
  "ErrSteeringNeedsStreaming \<equiv> ErrorString ''core: steering requires RunStream''"

definition Run :: "('w, 't) agent \<Rightarrow> string \<Rightarrow> string \<Rightarrow> time \<Rightarrow> string \<Rightarrow> run_config \<Rightarrow> 'w
    \<Rightarrow> ('t run_outcome \<times> run_state option \<times> 'w) option" where
  "Run a runID parent now prompt cfg w =
     (if cfg_steerQueue cfg then Some (RunFailed ErrSteeringNeedsStreaming, None, w)
      else
        (let (ex, w) = initializeRunExecution a runID parent now cfg w; s = ex_state ex
         in case applyInputGuardrails (ag_inputGuardrails a) prompt w of
              (Inl e, w) \<Rightarrow> Some (RunFailed e, Some s, w)
            | (Inr prompt, w) \<Rightarrow>
                (case bootstrapRunMessages a s prompt (ex_deps ex) (cfg_deferredResults cfg)
                        (cfg_initialRequestParts cfg) w of
                   (Some e, s, w) \<Rightarrow> Some (RunFailed e, Some s, w)
                 | (None, s, w) \<Rightarrow>
                     (case runLoop a (publish_resolved a (cfg_deferredResults cfg) (beginRun a prompt s)) prompt
                             (ex_settings ex) (ex_limits ex) (ex_deps ex) w of
                        None \<Rightarrow> None
                      | Some (out, s, w) \<Rightarrow> Some (out, Some (endRun a out s), w)))))"

end
