(* ===== verification/Core_History.thy ===== *)
theory Core_History
  imports Core_Context
begin

text \<open>
  Well-formed conversation histories: requests and responses alternate, and the tool calls of a
  response are answered in the request after it. Providers reject anything else, so compaction has to
  keep both, and must not leave a tool result whose call is gone.
\<close>

section \<open>Alternation and answers\<close>

definition part_call_id :: "request_part \<Rightarrow> string option" where
  "part_call_id p = (case p of
     ToolReturnPart _ _ i _ \<Rightarrow> Some i | RetryPromptPart _ _ i \<Rightarrow> Some i
   | DeferredToolPart _ i _ \<Rightarrow> Some i | _ \<Rightarrow> None)"

definition part_ids :: "request_part list \<Rightarrow> string list" where
  "part_ids ps = List.map_filter part_call_id ps"

definition resp_call_ids :: "model_response \<Rightarrow> string list" where
  "resp_call_ids r = map tc_ToolCallID (resp_ToolCalls r)"

fun alternates :: "bool \<Rightarrow> model_message list \<Rightarrow> bool" where
  "alternates b [] = True"
| "alternates b (m # ms) = (is_response m = b \<and> alternates (\<not> b) ms)"

fun paired :: "model_message list \<Rightarrow> bool" where
  "paired [] = True"
| "paired (ModelRequest ps # ms) = paired ms"
| "paired (ModelResponse r # ms) =
     ((case ms of
         [] \<Rightarrow> True
       | ModelRequest ps # _ \<Rightarrow> set (resp_call_ids r) \<subseteq> set (part_ids ps)
       | ModelResponse _ # _ \<Rightarrow> resp_ToolCalls r = []) \<and> paired ms)"

definition closed_history :: "model_message list \<Rightarrow> bool" where
  "closed_history ms \<longleftrightarrow> ms \<noteq> [] \<and> alternates False ms \<and> \<not> is_response (last ms) \<and> paired ms"

text \<open>A result part is an orphan when no response of the history has its call.\<close>

definition orphan_part :: "string set \<Rightarrow> request_part \<Rightarrow> bool" where
  "orphan_part ids p = (case p of
     ToolReturnPart _ _ i _ \<Rightarrow> i \<notin> ids | RetryPromptPart _ _ i \<Rightarrow> i \<noteq> [] \<and> i \<notin> ids | _ \<Rightarrow> False)"

definition no_orphans :: "model_message list \<Rightarrow> bool" where
  "no_orphans ms = (\<forall>m \<in> set ms. case m of
     ModelRequest ps \<Rightarrow> \<forall>p \<in> set ps. \<not> orphan_part (message_call_ids ms) p | ModelResponse _ \<Rightarrow> True)"

lemma is_response_simps [simp]: "is_response (ModelResponse r)" "\<not> is_response (ModelRequest ps)"
  by (simp_all add: is_response_def)

lemma part_ids_simps [simp]:
  "part_ids [] = []" "part_ids (ps @ qs) = part_ids ps @ part_ids qs"
  "part_ids (p # ps) = (case part_call_id p of None \<Rightarrow> [] | Some i \<Rightarrow> [i]) @ part_ids ps"
  by (simp_all add: part_ids_def List.map_filter_def split: option.split)

lemma alternates_cong: "map is_response ms = map is_response ms' \<Longrightarrow> alternates b ms = alternates b ms'"
proof (induction ms arbitrary: b ms')
  case (Cons m ms)
  then obtain m' ns where ms': "ms' = m' # ns" "is_response m' = is_response m"
    "map is_response ms = map is_response ns" by (cases ms') auto
  with Cons.IH [of ns "\<not> b"] show ?case by simp
qed simp

lemma alternates_append:
  "alternates b (ms @ ms') \<longleftrightarrow> alternates b ms \<and> alternates (b \<noteq> odd (length ms)) ms'"
proof (induction ms arbitrary: b)
  case (Cons m ms)
  have "((\<not> b) \<noteq> odd (length ms)) = (b \<noteq> odd (length (m # ms)))" by auto
  with Cons [of "\<not> b"] show ?case by (simp only: append_Cons alternates.simps) blast
qed simp

lemma alternates_drop:
  assumes "alternates b ms" and "i \<le> length ms"
  shows "alternates (b \<noteq> odd i) (drop i ms)"
  using assms alternates_append [of b "take i ms" "drop i ms"] by simp

lemma alternates_nth:
  assumes "alternates b ms" and "i < length ms"
  shows "is_response (ms ! i) = (b \<noteq> odd i)"
proof -
  have "drop i ms = ms ! i # drop (Suc i) ms" using assms(2) by (simp add: Cons_nth_drop_Suc)
  with alternates_drop [OF assms(1), of i] assms(2) show ?thesis by simp
qed

lemma paired_Cons: "paired (m # ms) \<Longrightarrow> paired ms"
  by (cases m) auto

lemma paired_append2: "paired (ms @ ms') \<Longrightarrow> paired ms'"
proof (induction ms)
  case (Cons m ms)
  from Cons.prems have "paired (m # (ms @ ms'))" by simp
  then have "paired (ms @ ms')" by (rule paired_Cons)
  then show ?case by (rule Cons.IH)
qed simp

lemma paired_drop: "paired ms \<Longrightarrow> paired (drop i ms)"
  using paired_append2 [of "take i ms" "drop i ms"] by simp

lemma paired_snoc_response:
  "paired ms \<Longrightarrow> ms \<noteq> [] \<Longrightarrow> \<not> is_response (last ms) \<Longrightarrow> paired (ms @ [ModelResponse r])"
proof (induction ms)
  case (Cons m ms)
  then show ?case by (cases m; cases ms; cases "hd ms") auto
qed simp

lemma paired_snoc_answer:
  "paired (ms @ [ModelResponse r]) \<Longrightarrow> set (resp_call_ids r) \<subseteq> set (part_ids ps) \<Longrightarrow>
    paired (ms @ [ModelResponse r, ModelRequest ps])"
proof (induction ms)
  case (Cons m ms)
  then show ?case by (cases m; cases ms; cases "hd ms") auto
qed simp

lemma closed_history_turn:
  assumes "closed_history ms" and "set (resp_call_ids r) \<subseteq> set (part_ids ps)"
  shows "closed_history (ms @ [ModelResponse r, ModelRequest ps])"
proof -
  have m: "ms \<noteq> []" "alternates False ms" "\<not> is_response (last ms)" "paired ms"
    using assms(1) by (auto simp: closed_history_def)
  have "is_response (ms ! (length ms - 1)) = odd (length ms - 1)"
    using alternates_nth [OF m(2), of "length ms - 1"] m(1) by simp
  with m(1,3) have "odd (length ms)" by (cases ms rule: rev_cases) auto
  with m(2) have "alternates False (ms @ [ModelResponse r, ModelRequest ps])" by (simp add: alternates_append)
  with paired_snoc_answer [OF paired_snoc_response [OF m(4,1,3)] assms(2)] show ?thesis
    by (simp add: closed_history_def)
qed

section \<open>Stripping orphans\<close>

lemma strip_part_None: "strip_part vt ids p = None \<longleftrightarrow> \<not> orphan_part ids p"
  by (cases p) (auto simp: strip_part_def orphan_part_def Let_def)

lemma strip_part_plain: "strip_part vt ids p = Some qs \<Longrightarrow> \<forall>q \<in> set qs. \<not> orphan_part ids q \<and> part_call_id q = None"
  by (cases p) (auto simp: strip_part_def orphan_part_def part_call_id_def Let_def split: if_splits)

lemma strip_parts_no_orphan: "p \<in> set (strip_parts vt ids ps) \<Longrightarrow> \<not> orphan_part ids p"
proof -
  assume p: "p \<in> set (strip_parts vt ids ps)"
  have plain: "\<not> orphan_part ids (UserPromptPart c)" for c by (simp add: orphan_part_def)
  have "\<not> orphan_part ids q" if "q \<in> set (case strip_part vt ids x of Some qs \<Rightarrow> qs | None \<Rightarrow> [x])" for q x
    using that strip_part_None [of vt ids x] strip_part_plain [of vt ids x] by (cases "strip_part vt ids x") auto
  with p plain show ?thesis
    by (auto simp: strip_parts_def Let_def strip_part_None simp del: option.simps split: if_splits)
qed

lemma strip_parts_id: "\<forall>p \<in> set ps. \<not> orphan_part ids p \<Longrightarrow> strip_parts vt ids ps = ps"
  by (auto simp: strip_parts_def Let_def strip_part_None)

lemma strip_parts_ids: "set (part_ids ps) \<inter> ids \<subseteq> set (part_ids (strip_parts vt ids ps))"
proof -
  let ?f = "\<lambda>p. case strip_part vt ids p of Some qs \<Rightarrow> qs | None \<Rightarrow> [p]"
  have in_ids: "set (part_ids qs) = {i. \<exists>q \<in> set qs. part_call_id q = Some i}" for qs
    by (induction qs) (auto split: option.splits)
  have keep: "strip_part vt ids p = None" if "part_call_id p = Some i" "i \<in> ids" for p i
    using that by (cases p) (auto simp: strip_part_def part_call_id_def)
  have sub: "set (part_ids ps) \<inter> ids \<subseteq> set (part_ids (concat (map ?f ps)))"
  proof (intro subsetI)
    fix i assume "i \<in> set (part_ids ps) \<inter> ids"
    then obtain p where p: "p \<in> set ps" "part_call_id p = Some i" "i \<in> ids" by (auto simp: in_ids)
    with keep have "p \<in> set (?f p)" by simp
    with p(1) have "p \<in> set (concat (map ?f ps))" by (auto simp del: option.simps)
    with p(2) show "i \<in> set (part_ids (concat (map ?f ps)))" unfolding in_ids by blast
  qed
  define fs where "fs = concat (map ?f ps)"
  have eq: "strip_parts vt ids ps = (if \<exists>p \<in> set ps. strip_part vt ids p \<noteq> None
      then if fs = [] then [UserPromptPart ''[Previous tool results removed during context recovery]''] else fs
      else ps)"
    unfolding strip_parts_def Let_def fs_def ..
  show ?thesis
  proof (cases "fs = []")
    case True
    with sub have "set (part_ids ps) \<inter> ids = {}" unfolding fs_def [symmetric] by simp
    then show ?thesis by simp
  next
    case False
    with sub eq show ?thesis unfolding fs_def [symmetric] by simp
  qed
qed

lemma strip_kinds: "map is_response (stripOrphanedToolResults vt ms) = map is_response ms"
  by (simp add: stripOrphanedToolResults_def is_response_def split: model_message.split)

lemma strip_responses: "ModelResponse r \<in> set ms \<Longrightarrow> ModelResponse r \<in> set (stripOrphanedToolResults vt ms)"
  by (force simp: stripOrphanedToolResults_def)

lemma strip_length: "length (stripOrphanedToolResults vt ms) = length ms"
  by (simp add: stripOrphanedToolResults_def)

lemma message_call_ids_strip [simp]: "message_call_ids (stripOrphanedToolResults vt ms) = message_call_ids ms"
proof -
  have "(\<lambda>m. case case m of ModelRequest ps \<Rightarrow> ModelRequest (strip_parts vt ids ps) | ModelResponse r \<Rightarrow> ModelResponse r of
      ModelRequest list \<Rightarrow> [] | ModelResponse r \<Rightarrow> map tc_ToolCallID (resp_ToolCalls r)) =
    (\<lambda>m. case m of ModelRequest list \<Rightarrow> [] | ModelResponse r \<Rightarrow> map tc_ToolCallID (resp_ToolCalls r))" for ids
    by (auto split: model_message.split)
  then show ?thesis
    unfolding message_call_ids_def stripOrphanedToolResults_def by (simp add: comp_def)
qed

lemma strip_no_orphans: "no_orphans (stripOrphanedToolResults vt ms)"
  unfolding no_orphans_def message_call_ids_strip
  by (auto simp: stripOrphanedToolResults_def dest: strip_parts_no_orphan split: model_message.splits)

lemma strip_id: "no_orphans ms \<Longrightarrow> stripOrphanedToolResults vt ms = ms"
  unfolding stripOrphanedToolResults_def no_orphans_def
  by (intro map_idI) (auto split: model_message.splits intro!: strip_parts_id)

lemma paired_strip_aux:
  assumes "paired ms" and "message_call_ids ms \<subseteq> ids"
  shows "paired (map (\<lambda>m. case m of ModelRequest ps \<Rightarrow> ModelRequest (strip_parts vt ids ps)
    | ModelResponse r \<Rightarrow> ModelResponse r) ms)"
  using assms
proof (induction ms rule: paired.induct)
  case (3 r ms)
  have ids: "set (resp_call_ids r) \<subseteq> ids" "message_call_ids ms \<subseteq> ids"
    using "3.prems"(2) by (auto simp: message_call_ids_def resp_call_ids_def)
  have "set (resp_call_ids r) \<subseteq> set (part_ids (strip_parts vt ids ps))"
    if "set (resp_call_ids r) \<subseteq> set (part_ids ps)" for ps
    using that ids(1) strip_parts_ids [of ps ids vt] by auto
  with 3 ids(2) show ?case by (cases ms) (auto split: model_message.splits)
qed (auto simp: message_call_ids_def)

lemma paired_strip: "paired ms \<Longrightarrow> paired (stripOrphanedToolResults vt ms)"
  unfolding stripOrphanedToolResults_def by (rule paired_strip_aux) simp_all

lemma closed_strip: "closed_history ms \<Longrightarrow> closed_history (stripOrphanedToolResults vt ms)"
  unfolding closed_history_def
proof (elim conjE, intro conjI)
  let ?s = "stripOrphanedToolResults vt ms"
  assume m: "ms \<noteq> []" "alternates False ms" "\<not> is_response (last ms)" "paired ms"
  show ne: "?s \<noteq> []" using m(1) strip_length [of vt ms] by auto
  show "alternates False ?s" using m(2) alternates_cong [OF strip_kinds] by blast
  show "paired ?s" using m(4) by (rule paired_strip)
  have "is_response (last ?s) = last (map is_response ?s)" using ne by (simp add: last_map)
  also have "\<dots> = is_response (last ms)" using m(1) by (simp add: strip_kinds last_map)
  finally show "\<not> is_response (last ?s)" using m(3) by simp
qed

section \<open>Compaction keeps histories well formed\<close>

lemma start_recent_even:
  assumes "alternates False ms" and "0 < k" and "k < length ms" and "drop 1 (take (start_recent ms k) ms) \<noteq> []"
  shows "even (start_recent ms k) \<and> 2 \<le> start_recent ms k \<and> start_recent ms k < length ms"
proof -
  let ?i = "length ms - k"
  have i: "?i < length ms" using assms(2,3) by simp
  have "1 < start_recent ms k" using assms(4) by auto
  moreover have "is_response (ms ! ?i) = odd ?i" using alternates_nth [OF assms(1) i] by simp
  ultimately show ?thesis using i by (auto simp: start_recent_def Let_def split: if_splits)
qed

lemma summary_message_response:
  "\<exists>r. summary_message ms summary = ModelResponse r \<and> resp_ToolCalls r = []"
  by (simp add: summary_message_def Let_def resp_ToolCalls_def)

lemma closed_compacted:
  assumes "closed_history ms" and "even i" and "2 \<le> i" and "i < length ms"
  shows "closed_history (ms ! 0 # summary_message ms summary # drop i ms)"
proof -
  have m: "alternates False ms" "\<not> is_response (last ms)" "paired ms" using assms(1) by (auto simp: closed_history_def)
  obtain r where r: "summary_message ms summary = ModelResponse r" "resp_ToolCalls r = []"
    using summary_message_response by blast
  have "\<not> is_response (ms ! 0)" using alternates_nth [OF m(1), of 0] assms(4) by (cases ms) auto
  then obtain ps where p: "ms ! 0 = ModelRequest ps" by (cases "ms ! 0") auto
  have d: "alternates False (drop i ms)" using alternates_drop [OF m(1), of i] assms(2,4) by simp
  obtain qs rest where q: "drop i ms = ModelRequest qs # rest"
    using d assms(4) by (cases "drop i ms"; cases "hd (drop i ms)") auto
  have "paired (drop i ms)" "last (drop i ms) = last ms" using paired_drop [OF m(3)] assms(4) by auto
  with d q r p m(2) show ?thesis by (auto simp: closed_history_def resp_call_ids_def)
qed

lemma autoCompressMessages_cases:
  assumes "autoCompressMessages vt cfg fb ms n w = ((ms', err), w')"
  obtains "ms' = ms"
  | summary where "drop 1 (take (start_recent ms (nat (ac_KeepLastN cfg))) ms) \<noteq> []" "err = None"
      "ac_KeepLastN cfg < int (length ms)" "ac_MaxTokens cfg < n"
      "ms' = stripOrphanedToolResults vt (ms ! 0 # summary_message ms summary #
        drop (start_recent ms (nat (ac_KeepLastN cfg))) ms)"
proof -
  let ?i = "start_recent ms (nat (ac_KeepLastN cfg))"
  let ?m = "case ac_SummaryModel cfg of None \<Rightarrow> fb | Some m \<Rightarrow> m"
  obtain r w1 where m: "?m (summary_request vt (drop 1 (take ?i ms))) None summary_params w = (r, w1)" by fastforce
  show ?thesis
  proof (cases "n \<le> ac_MaxTokens cfg \<or> ac_KeepLastN cfg \<ge> int (length ms) \<or> drop 1 (take ?i ms) = []")
    case True
    with assms have "ms' = ms" by (auto simp: autoCompressMessages_def Let_def split: if_splits)
    then show ?thesis by (rule that)
  next
    case False
    with assms m have "(case r of Inl e \<Rightarrow> ((ms, Some e), w1)
        | Inr summary \<Rightarrow> if resp_TextContent summary = [] then ((ms, None), w1)
            else ((stripOrphanedToolResults vt (ms ! 0 # summary_message ms summary # drop ?i ms), None), w1)) =
        ((ms', err), w')"
      by (simp add: autoCompressMessages_def Let_def)
    with False that show ?thesis by (auto split: sum.splits if_splits)
  qed
qed

lemma autoCompressMessages_closed:
  assumes "autoCompressMessages vt cfg fb ms n w = ((ms', err), w')" and "0 < ac_KeepLastN cfg"
    and "closed_history ms"
  shows "closed_history ms' \<and> (ms' = ms \<or> no_orphans ms')"
  using assms(1)
proof (cases rule: autoCompressMessages_cases)
  case 1
  with assms(3) show ?thesis by simp
next
  case (2 summary)
  from start_recent_even [OF _ _ _ 2(1)] assms(2,3) 2(3)
  have "even (start_recent ms (nat (ac_KeepLastN cfg)))" "2 \<le> start_recent ms (nat (ac_KeepLastN cfg))"
    "start_recent ms (nat (ac_KeepLastN cfg)) < length ms" by (auto simp: closed_history_def)
  from closed_strip [OF closed_compacted [OF assms(3) this]] 2(5) show ?thesis
    by (simp add: strip_no_orphans)
qed

text \<open>What compaction gives up and what it keeps: the recent responses survive.\<close>

lemma autoCompressMessages_recent:
  assumes "autoCompressMessages vt cfg fb ms n w = ((ms', err), w')" and "0 < ac_KeepLastN cfg"
    and "closed_history ms"
  shows "ms' = ms \<or> ac_MaxTokens cfg < n \<and> length ms' \<le> length ms \<and>
    (\<forall>r. ModelResponse r \<in> set (drop (length ms - nat (ac_KeepLastN cfg)) ms) \<longrightarrow> ModelResponse r \<in> set ms')"
  using assms(1)
proof (cases rule: autoCompressMessages_cases)
  case 1
  then show ?thesis by simp
next
  case (2 summary)
  let ?i = "start_recent ms (nat (ac_KeepLastN cfg))"
  from start_recent_even [OF _ _ _ 2(1)] assms(2,3) 2(3) have i: "2 \<le> ?i" "?i < length ms"
    by (auto simp: closed_history_def)
  have "?i \<le> length ms - nat (ac_KeepLastN cfg)" by (auto simp: start_recent_def Let_def)
  then have "set (drop (length ms - nat (ac_KeepLastN cfg)) ms) \<subseteq> set (drop ?i ms)" by (rule set_drop_subset_set_drop)
  with i 2(4,5) show ?thesis by (auto simp: strip_length intro!: strip_responses)
qed

end
