(* ===== verification/Core_Answers.thy ===== *)
theory Core_Answers
  imports Core_Response Core_History
begin

text \<open>
  Tool calls are answered: every call of a response that the agent executes gets exactly one part
  with its name and identifier, in the position of the call, however the concurrent calls are
  scheduled, and the tool events on the bus are balanced.
\<close>

section \<open>Answers and frames\<close>

definition answers :: "request_part \<Rightarrow> tool_call \<Rightarrow> bool" where
  "answers p tc \<longleftrightarrow> (case p of
     ToolReturnPart n _ i _ \<Rightarrow> n = tc_ToolName tc \<and> i = tc_ToolCallID tc
   | RetryPromptPart _ n i \<Rightarrow> n = tc_ToolName tc \<and> i = tc_ToolCallID tc
   | DeferredToolPart n i args \<Rightarrow> n = tc_ToolName tc \<and> i = tc_ToolCallID tc \<and> args = tc_ArgsJSON tc
   | _ \<Rightarrow> False)"

lemma answers_id: "answers p tc \<Longrightarrow> part_call_id p = Some (tc_ToolCallID tc)"
  by (cases p) (auto simp: answers_def part_call_id_def)

lemma answers_simps [simp]:
  "answers (ToolReturnPart n c i imgs) tc \<longleftrightarrow> n = tc_ToolName tc \<and> i = tc_ToolCallID tc"
  "answers (RetryPromptPart msg n i) tc \<longleftrightarrow> n = tc_ToolName tc \<and> i = tc_ToolCallID tc"
  "answers (DeferredToolPart n i args) tc \<longleftrightarrow>
     n = tc_ToolName tc \<and> i = tc_ToolCallID tc \<and> args = tc_ArgsJSON tc"
  "\<not> answers (FatalToolPart e) tc"
  by (simp_all add: answers_def)

definition called_ids :: "runtime_event list \<Rightarrow> string multiset" where
  "called_ids es = mset (concat (map (\<lambda>e. case e of ToolCalled i _ _ \<Rightarrow> [i] | _ \<Rightarrow> []) es))"

definition ended_ids :: "runtime_event list \<Rightarrow> string multiset" where
  "ended_ids es = mset (concat (map (\<lambda>e. case e of ToolCompleted i _ _ \<Rightarrow> [i] | ToolFailed i _ _ \<Rightarrow> [i] | _ \<Rightarrow> []) es))"

lemma ids_append [simp]:
  "called_ids (es @ fs) = called_ids es + called_ids fs" "ended_ids (es @ fs) = ended_ids es + ended_ids fs"
  "called_ids [] = {#}" "ended_ids [] = {#}"
  by (simp_all add: called_ids_def ended_ids_def)

text \<open>The boundaries of turns among the events of a run.\<close>

definition is_turn :: "runtime_event \<Rightarrow> bool" where
  "is_turn e \<longleftrightarrow> (case e of TurnStarted _ \<Rightarrow> True | TurnCompleted _ _ _ _ \<Rightarrow> True | _ \<Rightarrow> False)"

definition turn_events :: "run_state \<Rightarrow> runtime_event list" where
  "turn_events s = filter is_turn (rs_events s)"

lemma is_turn_simps [simp]:
  "is_turn (TurnStarted n)" "is_turn (TurnCompleted n b c t)" "\<not> is_turn (ToolCalled i m args)"
  "\<not> is_turn (ToolCompleted i m r)" "\<not> is_turn (ToolFailed i m r)" "\<not> is_turn (ApprovalRequested i m args)"
  "\<not> is_turn (ApprovalResolved i m b)" "\<not> is_turn (RunWaiting r)" "\<not> is_turn RunResumed"
  "\<not> is_turn (RetryScheduled n i m r k l)" "\<not> is_turn (DeferredRequested i m args)"
  "\<not> is_turn (DeferredResolved i m r b)" "\<not> is_turn (ModelRequestStarted n j)"
  "\<not> is_turn (ModelResponseCompleted n f k l b c)" "\<not> is_turn (RunStarted i m p)" "\<not> is_turn (RunCompleted b c t)"
  "\<not> is_turn (ErrorRaised n t)"
  by (simp_all add: is_turn_def)

lemma turn_events_frame [simp]:
  "turn_events (emit a e s) = turn_events s @ (if ag_eventBus a \<and> is_turn e then [e] else [])"
  "turn_events (s\<lparr>rs_messages := ms\<rparr>) = turn_events s" "turn_events (s\<lparr>rs_usage := u\<rparr>) = turn_events s"
  "turn_events (s\<lparr>rs_retries := n\<rparr>) = turn_events s" "turn_events (s\<lparr>rs_toolRetries := m\<rparr>) = turn_events s"
  "turn_events (s\<lparr>rs_activeApprovals := n\<rparr>) = turn_events s" "turn_events (s\<lparr>rs_runStep := n\<rparr>) = turn_events s"
  "turn_events (s\<lparr>rs_lastInputTokens := n\<rparr>) = turn_events s"
  by (simp_all add: turn_events_def emit_def)

text \<open>
  What tool execution does to the run state: it counts calls and writes events other than those of
  turns and per-tool retry counters, and leaves the rest alone.
\<close>

definition tool_frame :: "run_state \<Rightarrow> run_state \<Rightarrow> bool" where
  "tool_frame s s' \<longleftrightarrow> rs_messages s' = rs_messages s \<and> rs_retries s' = rs_retries s \<and>
     rs_lastInputTokens s' = rs_lastInputTokens s \<and> rs_runStep s' = rs_runStep s \<and>
     rs_runID s' = rs_runID s \<and> rs_limits s' = rs_limits s \<and>
     rs_activeApprovals s' = rs_activeApprovals s \<and>
     Requests (rs_usage s') = Requests (rs_usage s) \<and> TotalTokens (rs_usage s') = TotalTokens (rs_usage s) \<and>
     turn_events s' = turn_events s"

lemma tool_frame_refl [simp, intro]: "tool_frame s s"
  by (simp add: tool_frame_def)

lemma tool_frame_trans [trans]: "tool_frame s s' \<Longrightarrow> tool_frame s' s'' \<Longrightarrow> tool_frame s s''"
  by (simp add: tool_frame_def)

text \<open>The effect of the events of \<open>n\<close> executed calls: balanced up to the calls still deferred.\<close>

definition logged :: "('w, 't) agent \<Rightarrow> run_state \<Rightarrow> run_state \<Rightarrow> string multiset \<Rightarrow> string multiset \<Rightarrow> bool" where
  "logged a s s' called ended \<longleftrightarrow> (\<exists>es. rs_events s' = rs_events s @ es \<and>
     called_ids es = (if ag_eventBus a then called else {#}) \<and>
     ended_ids es = (if ag_eventBus a then ended else {#}))"

lemma logged_refl [simp, intro]: "logged a s s {#} {#}"
  unfolding logged_def by (rule exI [of _ "[]"]) simp

lemma logged_trans:
  "logged a s s' c e \<Longrightarrow> logged a s' s'' c' e' \<Longrightarrow> logged a s s'' (c + c') (e + e')"
  unfolding logged_def
proof (elim exE conjE)
  fix es fs
  assume "rs_events s' = rs_events s @ es" "rs_events s'' = rs_events s' @ fs"
    "called_ids es = (if ag_eventBus a then c else {#})" "ended_ids es = (if ag_eventBus a then e else {#})"
    "called_ids fs = (if ag_eventBus a then c' else {#})" "ended_ids fs = (if ag_eventBus a then e' else {#})"
  then show "\<exists>gs. rs_events s'' = rs_events s @ gs \<and> called_ids gs = (if ag_eventBus a then c + c' else {#}) \<and>
      ended_ids gs = (if ag_eventBus a then e + e' else {#})"
    by (intro exI [of _ "es @ fs"]) simp
qed

lemma emit_frame [simp]:
  "rs_messages (emit a e s) = rs_messages s" "rs_usage (emit a e s) = rs_usage s"
  "rs_retries (emit a e s) = rs_retries s" "rs_toolRetries (emit a e s) = rs_toolRetries s"
  "rs_activeApprovals (emit a e s) = rs_activeApprovals s" "rs_runStep (emit a e s) = rs_runStep s"
  "rs_limits (emit a e s) = rs_limits s" "rs_lastInputTokens (emit a e s) = rs_lastInputTokens s"
  "rs_runID (emit a e s) = rs_runID s" "rs_parentRunID (emit a e s) = rs_parentRunID s"
  "rs_startTime (emit a e s) = rs_startTime s"
  by (simp_all add: emit_def)

lemma emit_events: "rs_events (emit a e s) = rs_events s @ (if ag_eventBus a then [e] else [])"
  by (simp add: emit_def)

section \<open>One call\<close>

lemma check_approval_effect:
  assumes "check_approval a call tool s w = (r, s', w')" and "0 \<le> rs_activeApprovals s"
  shows "tool_frame s s' \<and> rs_usage s' = rs_usage s \<and> rs_toolRetries s' = rs_toolRetries s \<and>
    (case r of None \<Rightarrow> logged a s s' {#} {#}
     | Some p \<Rightarrow> answers p call \<and> \<not> is_deferred_part p \<and> logged a s s' {#} {#tc_ToolCallID call#})"
  using assms
  by (auto simp: check_approval_def Let_def tool_frame_def logged_def emit_events beginApprovalWait_def
      endApprovalWait_def called_ids_def ended_ids_def is_deferred_part_def
      split: if_splits option.splits prod.splits sum.splits)

lemma retry_prompt_effect:
  assumes "retry_prompt call n msg s = (p, s')"
  shows "answers p call \<and> \<not> is_deferred_part p \<and> tool_frame s s' \<and> rs_usage s' = rs_usage s \<and> logged a s s' {#} {#}"
  using assms by (auto simp: retry_prompt_def Let_def tool_frame_def logged_def is_deferred_part_def
      intro: exI [of _ "[]"])

lemma tool_error_part_effect:
  assumes "tool_error_part call n err s = (p, s')"
  shows "tool_frame s s' \<and> rs_usage s' = rs_usage s \<and> logged a s s' {#} {#} \<and>
    ((\<exists>f. p = FatalToolPart f \<and> errors_As as_fatal err = Some f) \<or> answers p call \<and>
      (is_deferred_part p \<longleftrightarrow> errors_As as_deferred err \<noteq> None))"
proof (cases "errors_As as_fatal err")
  case (Some f)
  with assms show ?thesis by (auto simp: tool_error_part_def)
next
  case None
  then show ?thesis
  proof (cases "errors_As as_deferred err")
    case (Some d)
    with None assms show ?thesis by (auto simp: tool_error_part_def is_deferred_part_def)
  next
    case None': None
    show ?thesis
    proof (cases "errors_As as_model_retry err")
      case (Some m)
      with None None' assms have "retry_prompt call n m s = (p, s')" by (simp add: tool_error_part_def)
      from retry_prompt_effect [OF this, of a] None' show ?thesis by auto
    next
      case None'': None
      with None None' assms show ?thesis by (auto simp: tool_error_part_def is_deferred_part_def)
    qed
  qed
qed

lemma tool_success_part_effect:
  assumes "tool_success_part a call tool rc n v s w = (p, s', w')"
  shows "answers p call \<and> \<not> is_deferred_part p \<and> tool_frame s s' \<and> rs_usage s' = rs_usage s \<and>
    logged a s s' {#} {#}"
proof -
  have "(\<exists>msg. retry_prompt call n msg s = (p, s')) \<or>
      (\<exists>c imgs m. p = ToolReturnPart (tc_ToolName call) (AnyString c) (tc_ToolCallID call) imgs \<and>
         s' = s\<lparr>rs_toolRetries := m\<rparr>)"
  proof (cases "tool_content (ag_codec a) v")
    case (Inl e)
    with assms have "p = ToolReturnPart (tc_ToolName call) (AnyString (''error serializing result: '' @ error_text e))
        (tc_ToolCallID call) []" and "s' = s\<lparr>rs_toolRetries := rs_toolRetries s\<rparr>"
      by (auto simp: tool_success_part_def)
    then show ?thesis by blast
  next
    case (Inr ci)
    obtain content images where ci: "ci = (content, images)" by (cases ci)
    obtain f w1 where f: "run_tool_validators rc (tc_ToolName call) content
        ((case tool_ResultValidator tool of None \<Rightarrow> [] | Some v \<Rightarrow> [v]) @ ag_globalToolResultValidators a) w = (f, w1)"
      by fastforce
    show ?thesis
    proof (cases f)
      case None
      with assms Inr ci f show ?thesis by (auto simp: tool_success_part_def Let_def)
    next
      case (Some e)
      obtain q s1 where q: "retry_prompt call n (''tool result validation failed: '' @ error_text e) s = (q, s1)"
        by fastforce
      with assms Inr ci f Some have "q = p" "s1 = s'" by (simp_all add: tool_success_part_def Let_def)
      with q show ?thesis by blast
    qed
  qed
  then show ?thesis
  proof (elim disjE exE conjE)
    fix msg
    assume "retry_prompt call n msg s = (p, s')"
    from retry_prompt_effect [OF this, of a] show ?thesis by simp
  next
    fix c imgs m
    assume "p = ToolReturnPart (tc_ToolName call) (AnyString c) (tc_ToolCallID call) imgs"
      "s' = s\<lparr>rs_toolRetries := m\<rparr>"
    then show ?thesis
      by (auto simp: tool_frame_def logged_def is_deferred_part_def intro: exI [of _ "[]"])
  qed
qed

lemma emit_tool_end_effect:
  "tool_frame s (emit_tool_end a call r s) \<and> rs_usage (emit_tool_end a call r s) = rs_usage s \<and>
   logged a s (emit_tool_end a call r s) {#}
     (case r of Inl e \<Rightarrow> if errors_As as_deferred e \<noteq> None then {#} else {#tc_ToolCallID call#}
      | Inr _ \<Rightarrow> {#tc_ToolCallID call#})"
  by (auto simp: emit_tool_end_def Let_def tool_frame_def logged_def emit_events called_ids_def
      ended_ids_def split: sum.split)

lemma start_call_effect:
  fixes a :: "('w, 't) agent"
  assumes "s1 = emit a (ToolCalled i n args) (s\<lparr>rs_usage := IncrToolCall (rs_usage s)\<rparr>)"
  shows "tool_frame s s1 \<and> ToolCalls (rs_usage s1) = ToolCalls (rs_usage s) + 1 \<and> logged a s s1 {#i#} {#}"
  using assms by (auto simp: tool_frame_def IncrToolCall_def TotalTokens_def logged_def emit_events
      called_ids_def ended_ids_def)

lemma executeSingleTool_effect:
  assumes ex: "executeSingleTool a call tool deps prompt s w = (p, s', w')" and ap: "0 \<le> rs_activeApprovals s"
  shows "tool_frame s s' \<and> ToolCalls (rs_usage s') = ToolCalls (rs_usage s) + 1 \<and>
    ((\<exists>f. p = FatalToolPart f) \<or> answers p call \<and>
      logged a s s' {#tc_ToolCallID call#} (if is_deferred_part p then {#} else {#tc_ToolCallID call#}))"
proof -
  define s1 where "s1 = emit a (ToolCalled (tc_ToolCallID call) (tc_ToolName call) (tc_ArgsJSON call))
      (s\<lparr>rs_usage := IncrToolCall (rs_usage s)\<rparr>)"
  note st = start_call_effect [OF s1_def]
  have ap1: "0 \<le> rs_activeApprovals s1" using ap by (simp add: s1_def)
  obtain r s2 w2 where c: "check_approval a call tool s1 w = (r, s2, w2)" by (metis prod_cases3)
  note ce = check_approval_effect [OF c ap1]
  show ?thesis
  proof (cases r)
    case (Some q)
    with ex c have "p = q" "s' = s2"
      by (auto simp: executeSingleTool_def Let_def s1_def)
    with st ce Some logged_trans [of a s s1 "{#tc_ToolCallID call#}" "{#}" s2 "{#}"] show ?thesis
      by (auto intro: tool_frame_trans)
  next
    case None
    define rc where "rc = (buildRunContext (s\<lparr>rs_usage := IncrToolCall (rs_usage s)\<rparr>) deps prompt)
        \<lparr>rc_Retry := retry_count (rs_toolRetries s) (tc_ToolName call),
         rc_MaxRetries := tool_max_retries a tool, rc_ToolName := tc_ToolName call,
         rc_ToolCallID := tc_ToolCallID call\<rparr>"
    define tmo where "tmo = (if tool_Timeout tool = 0 \<and> ag_defaultToolTimeout a > 0
        then ag_defaultToolTimeout a else tool_Timeout tool)"
    obtain v w3 where h: "safeCallHandler tool tmo rc (tc_ArgsJSON call) w2 = (v, w3)" by fastforce
    define s3 where "s3 = emit_tool_end a call v s2"
    note ee = emit_tool_end_effect [of s2 a call v, folded s3_def]
    have rest: "(case v of Inl err \<Rightarrow> (let (part, s) = tool_error_part call (tool_max_retries a tool) err s3 in (part, s, w3))
        | Inr v \<Rightarrow> tool_success_part a call tool rc (tool_max_retries a tool) v s3 w3) = (p, s', w')"
      using ex c None h by (cases v) (simp_all add: executeSingleTool_def Let_def s1_def rc_def tmo_def s3_def)
    have "tool_frame s s3 \<and> ToolCalls (rs_usage s3) = ToolCalls (rs_usage s) + 1"
      using st ce ee None by (auto intro: tool_frame_trans)
    moreover have "logged a s s3 {#tc_ToolCallID call#} (case v of
        Inl e \<Rightarrow> if errors_As as_deferred e \<noteq> None then {#} else {#tc_ToolCallID call#}
      | Inr _ \<Rightarrow> {#tc_ToolCallID call#})"
      using logged_trans [of a s s1 "{#tc_ToolCallID call#}" "{#}" s2 "{#}" "{#}"] st ce None
        logged_trans [of a s s2 "{#tc_ToolCallID call#}" "{#}" s3] ee by fastforce
    ultimately show ?thesis
    proof (cases v)
      case (Inl err)
      obtain q s4 where q: "tool_error_part call (tool_max_retries a tool) err s3 = (q, s4)" by fastforce
      with rest Inl have "p = q" "s' = s4" by auto
      with tool_error_part_effect [OF q, of a] Inl \<open>tool_frame s s3 \<and> _\<close> \<open>logged a s s3 _ _\<close>
        logged_trans [of a s s3 "{#tc_ToolCallID call#}" _ s4 "{#}" "{#}"]
      show ?thesis by (auto intro: tool_frame_trans)
    next
      case (Inr x)
      with rest have "tool_success_part a call tool rc (tool_max_retries a tool) x s3 w3 = (p, s', w')" by simp
      from tool_success_part_effect [OF this] Inr \<open>tool_frame s s3 \<and> _\<close> \<open>logged a s s3 _ _\<close>
        logged_trans [of a s s3 "{#tc_ToolCallID call#}" _ s' "{#}" "{#}"]
      show ?thesis by (auto intro: tool_frame_trans)
    qed
  qed
qed

section \<open>Batches\<close>

lemma batches_concat:
  "concat (map snd (fold add_to_batches ics bs)) = concat (map snd bs) @ ics"
proof (induction ics arbitrary: bs)
  case (Cons ic ics)
  have "concat (map snd (add_to_batches ic bs)) = concat (map snd bs) @ [ic]"
    by (cases bs rule: rev_cases) (auto simp: add_to_batches_def Let_def)
  with Cons show ?case by simp
qed simp

lemma mset_map_filter: "mset xs = mset ys \<Longrightarrow> mset (List.map_filter f xs) = mset (List.map_filter f ys)"
  by (simp add: List.map_filter_def mset_filter)

lemma map_filter_inverse:
  "(\<And>x. x \<in> set xs \<Longrightarrow> f (g x) = Some x) \<Longrightarrow> List.map_filter f (map g xs) = xs"
  by (induction xs) (auto simp: map_filter_simps)

lemma map_filter_Nil: "List.map_filter f xs = [] \<longleftrightarrow> (\<forall>x \<in> set xs. f x = None)"
  by (induction xs) (auto simp: map_filter_simps split: option.splits)

lemma order_calls_mset:
  assumes "distinct (map fst ics)"
  shows "mset (order_calls a ics w) = mset ics"
proof -
  let ?f = "\<lambda>i. List.find (\<lambda>ic. fst ic = i) ics"
  have "?f (fst ic) = Some ic" if "ic \<in> set ics" for ic
  proof -
    have "List.find (\<lambda>jc. fst jc = fst ic) ics \<noteq> None" unfolding find_None_iff using that by blast
    then obtain jc where j: "?f (fst ic) = Some jc" by auto
    then have "jc \<in> set ics" "fst jc = fst ic" by (auto simp: find_Some_iff)
    with assms that have "jc = ic" by (auto simp: distinct_map inj_on_def)
    with j show ?thesis by simp
  qed
  then have "List.map_filter ?f (map fst ics) = ics" by (rule map_filter_inverse)
  with mset_map_filter [of "batch_order (ag_sched a) (map fst ics) w" "map fst ics" ?f] show ?thesis
    by (simp add: order_calls_def Let_def)
qed

definition call_ids :: "'w indexed_call list \<Rightarrow> string multiset" where
  "call_ids ics = mset (map (\<lambda>(i, c, t). tc_ToolCallID c) ics)"

definition deferred_at :: "results \<Rightarrow> 'w indexed_call \<Rightarrow> bool" where
  "deferred_at res ic \<longleftrightarrow> (case res ! fst ic of None \<Rightarrow> False | Some p \<Rightarrow> is_deferred_part p)"

definition deferred_ids :: "results \<Rightarrow> 'w indexed_call list \<Rightarrow> string multiset" where
  "deferred_ids res ics = call_ids (filter (deferred_at res) ics)"

definition filled :: "results \<Rightarrow> 'w indexed_call \<Rightarrow> bool" where
  "filled res ic \<longleftrightarrow> (\<exists>p. res ! fst ic = Some p \<and> answers p (fst (snd ic)))"

definition fatal_at :: "results \<Rightarrow> 'w indexed_call \<Rightarrow> bool" where
  "fatal_at res ic \<longleftrightarrow> (\<exists>e. res ! fst ic = Some (FatalToolPart e))"

lemma first_fatal_None: "first_fatal res ics = None \<longleftrightarrow> (\<forall>ic \<in> set ics. \<not> fatal_at res ic)"
proof -
  let ?f = "\<lambda>(i, _, _). case res ! i of Some (FatalToolPart e) \<Rightarrow> Some e | _ \<Rightarrow> None"
  have "fatal_at res ic \<longleftrightarrow> ?f ic \<noteq> None" for ic :: "'a indexed_call"
    by (cases ic) (auto simp: fatal_at_def split: option.splits request_part.splits)
  moreover have "first_fatal res ics = None \<longleftrightarrow> (\<forall>ic \<in> set ics. ?f ic = None)"
    unfolding first_fatal_def map_filter_Nil [symmetric] by (auto split: list.split)
  ultimately show ?thesis by simp
qed

lemma call_ids_simps [simp]:
  "call_ids [] = {#}" "call_ids (ic # ics) = add_mset (tc_ToolCallID (fst (snd ic))) (call_ids ics)"
  "call_ids (ics @ jcs) = call_ids ics + call_ids jcs"
  by (auto simp: call_ids_def split_beta)

lemma call_ids_mset: "mset ics = mset jcs \<Longrightarrow> call_ids ics = call_ids jcs"
  by (simp add: call_ids_def)

lemma deferred_ids_simps [simp]:
  "deferred_ids res [] = {#}"
  "deferred_ids res (ic # ics) = (if deferred_at res ic then {#tc_ToolCallID (fst (snd ic))#} else {#}) + deferred_ids res ics"
  "deferred_ids res (ics @ jcs) = deferred_ids res ics + deferred_ids res jcs"
  by (auto simp: deferred_ids_def)

lemma deferred_ids_cong:
  "(\<And>ic. ic \<in> set ics \<Longrightarrow> res ! fst ic = res' ! fst ic) \<Longrightarrow> deferred_ids res ics = deferred_ids res' ics"
  by (auto simp: deferred_ids_def deferred_at_def cong: filter_cong)

lemma deferred_ids_mset: "mset ics = mset jcs \<Longrightarrow> deferred_ids res ics = deferred_ids res jcs"
  unfolding deferred_ids_def by (rule call_ids_mset) (simp add: mset_filter)

text \<open>
  What a group of executed calls has done, when none of them was fatal: each call is answered in its
  place, the other places are as before, the calls are counted, and their events are on the bus.
\<close>

definition executed :: "('w, 't) agent \<Rightarrow> 'w indexed_call list \<Rightarrow> results \<Rightarrow> run_state \<Rightarrow> results \<Rightarrow> run_state \<Rightarrow> bool" where
  "executed a ics res s res' s' \<longleftrightarrow>
     length res' = length res \<and> (\<forall>j. j \<notin> fst ` set ics \<longrightarrow> res' ! j = res ! j) \<and>
     (\<forall>ic \<in> set ics. filled res' ic) \<and>
     (\<exists>ended. logged a s s' (call_ids ics) ended \<and> ended + deferred_ids res' ics = call_ids ics)"

text \<open>The part of the effect that does not depend on the outcome.\<close>

definition counted :: "nat \<Rightarrow> run_state \<Rightarrow> run_state \<Rightarrow> bool" where
  "counted n s s' \<longleftrightarrow> tool_frame s s' \<and> ToolCalls (rs_usage s) \<le> ToolCalls (rs_usage s') \<and>
     ToolCalls (rs_usage s') \<le> ToolCalls (rs_usage s) + int n"

lemma counted_refl [simp]: "counted n s s"
  by (simp add: counted_def)

lemma counted_trans: "counted m s s' \<Longrightarrow> counted n s' s'' \<Longrightarrow> counted (m + n) s s''"
  by (auto simp: counted_def intro: tool_frame_trans)

lemma counted_mono: "counted m s s' \<Longrightarrow> m \<le> n \<Longrightarrow> counted n s s'"
  by (auto simp: counted_def)

lemma counted_approvals: "counted n s s' \<Longrightarrow> rs_activeApprovals s' = rs_activeApprovals s"
  by (simp add: counted_def tool_frame_def)

lemma executed_Nil [simp]: "executed a [] res s res s"
  by (auto simp: executed_def)

lemma executed_Cons:
  assumes ic: "fst ic < length res" "fst ic \<notin> fst ` set ics"
    and p: "answers p (fst (snd ic))"
    and lg: "logged a s s1 {#tc_ToolCallID (fst (snd ic))#}
      (if is_deferred_part p then {#} else {#tc_ToolCallID (fst (snd ic))#})"
    and ex: "executed a ics (res[fst ic := Some p]) s1 res' s'"
  shows "executed a (ic # ics) res s res' s'"
proof -
  have at: "res' ! fst ic = Some p" using ex ic by (simp add: executed_def)
  from ex obtain ended where e: "logged a s1 s' (call_ids ics) ended" "ended + deferred_ids res' ics = call_ids ics"
    by (auto simp: executed_def)
  from logged_trans [OF lg e(1)] e(2) at
  have "\<exists>ended. logged a s s' (call_ids (ic # ics)) ended \<and>
      ended + deferred_ids res' (ic # ics) = call_ids (ic # ics)"
    by (cases "is_deferred_part p") (auto simp: deferred_at_def intro!: exI)
  with ex ic p at show ?thesis by (auto simp: executed_def filled_def)
qed

lemma executed_append:
  assumes e1: "executed a ics res s res1 s1" and e2: "executed a jcs res1 s1 res2 s2"
    and d: "fst ` set ics \<inter> fst ` set jcs = {}"
  shows "executed a (ics @ jcs) res s res2 s2"
proof -
  have same: "res2 ! fst ic = res1 ! fst ic" if "ic \<in> set ics" for ic
  proof -
    have "fst ic \<notin> fst ` set jcs" using d that by blast
    with e2 show ?thesis by (simp add: executed_def)
  qed
  then have dd: "deferred_ids res2 ics = deferred_ids res1 ics" by (intro deferred_ids_cong) auto
  obtain x y where "logged a s s1 (call_ids ics) x" "x + deferred_ids res1 ics = call_ids ics"
    "logged a s1 s2 (call_ids jcs) y" "y + deferred_ids res2 jcs = call_ids jcs"
    using e1 e2 by (auto simp: executed_def)
  then have "logged a s s2 (call_ids (ics @ jcs)) (x + y) \<and>
      (x + y) + deferred_ids res2 (ics @ jcs) = call_ids (ics @ jcs)"
    using dd by (auto intro: logged_trans simp: ac_simps)
  with e1 e2 same show ?thesis by (auto simp: executed_def filled_def image_Un)
qed

lemma executed_mset:
  assumes "executed a ics res s res' s'" and "mset ics = mset jcs"
  shows "executed a jcs res s res' s'"
proof -
  have "set ics = set jcs" using assms(2) by (rule mset_eq_setD)
  with assms(1) show ?thesis
    by (simp add: executed_def call_ids_mset [OF assms(2)] deferred_ids_mset [OF assms(2)])
qed

lemma run_concurrent_effect:
  assumes "distinct (map fst ics)" and "fst ` set ics \<subseteq> {..<length res}" and "0 \<le> rs_activeApprovals s"
    and "run_concurrent a deps prompt ics res s w = (res', s', w')"
  shows "counted (length ics) s s' \<and>
    ((\<forall>ic \<in> set ics. \<not> fatal_at res' ic) \<longrightarrow> executed a ics res s res' s') \<and>
    (\<forall>j. j \<notin> fst ` set ics \<longrightarrow> res' ! j = res ! j) \<and> length res' = length res"
  using assms
proof (induction ics arbitrary: res s w)
  case Nil
  then show ?case by simp
next
  case (Cons ic ics)
  obtain i call tool where ic: "ic = (i, call, tool)" by (cases ic)
  have i: "i < length res" "i \<notin> fst ` set ics" using Cons.prems(1,2) ic by auto
  obtain p s1 w1 where step: "run_concurrent a deps prompt ics (res[i := Some p]) s1 w1 = (res', s', w')"
      and c1: "counted 1 s s1"
      and p: "fatal_at (res[i := Some p]) ic \<or> answers p call \<and>
        logged a s s1 {#tc_ToolCallID call#} (if is_deferred_part p then {#} else {#tc_ToolCallID call#})"
  proof (cases "if ag_maxConcurrency a > 0 \<and> sem_refused (ag_sched a) i w then ctx_Err (ag_sched a) w else None")
    case (Some e)
    let ?p = "ToolReturnPart (tc_ToolName call) (AnyString (''error: '' @ error_text e)) (tc_ToolCallID call) []"
    let ?s = "emit a (ToolFailed (tc_ToolCallID call) (tc_ToolName call) ''context cancelled waiting for semaphore'')
        (emit a (ToolCalled (tc_ToolCallID call) (tc_ToolName call) (tc_ArgsJSON call)) s)"
    show ?thesis
    proof (rule that)
      show "run_concurrent a deps prompt ics (res[i := Some ?p]) ?s w = (res', s', w')"
        using Cons.prems(4) Some by (simp add: ic Let_def)
      show "counted 1 s ?s" by (simp add: counted_def tool_frame_def)
      show "fatal_at (res[i := Some ?p]) ic \<or> answers ?p call \<and> logged a s ?s {#tc_ToolCallID call#}
          (if is_deferred_part ?p then {#} else {#tc_ToolCallID call#})"
        by (simp add: logged_def emit_events called_ids_def ended_ids_def is_deferred_part_def)
    qed
  next
    case None
    obtain p s1 w1 where e: "executeSingleTool a call tool deps prompt s w = (p, s1, w1)" by (metis prod_cases3)
    note ef = executeSingleTool_effect [OF e Cons.prems(3)]
    show ?thesis
    proof (rule that)
      show "run_concurrent a deps prompt ics (res[i := Some p]) s1 w1 = (res', s', w')"
        using Cons.prems(4) None e by (simp add: ic)
      show "counted 1 s s1" using ef by (simp add: counted_def)
      show "fatal_at (res[i := Some p]) ic \<or> answers p call \<and>
        logged a s s1 {#tc_ToolCallID call#} (if is_deferred_part p then {#} else {#tc_ToolCallID call#})"
        using ef ic i by (auto simp: fatal_at_def)
    qed
  qed
  have ap: "0 \<le> rs_activeApprovals s1" using Cons.prems(3) counted_approvals [OF c1] by simp
  note IH = Cons.IH [OF _ _ ap step]
  have IH': "counted (length ics) s1 s'" "length res' = length res"
      "\<forall>j. j \<notin> fst ` set ics \<longrightarrow> res' ! j = res[i := Some p] ! j"
      "(\<forall>ic \<in> set ics. \<not> fatal_at res' ic) \<longrightarrow> executed a ics (res[i := Some p]) s1 res' s'"
    using IH Cons.prems(1,2) by auto
  have "executed a (ic # ics) res s res' s'" if nf: "\<forall>ic \<in> set (ic # ics). \<not> fatal_at res' ic"
  proof (rule executed_Cons [where p = p and ?s1.0 = s1])
    have at: "res' ! i = Some p" using IH'(3) i by simp
    with nf i p ic have "answers p call \<and>
        logged a s s1 {#tc_ToolCallID call#} (if is_deferred_part p then {#} else {#tc_ToolCallID call#})"
      by (auto simp: fatal_at_def)
    then show "answers p (fst (snd ic))" "logged a s s1 {#tc_ToolCallID (fst (snd ic))#}
        (if is_deferred_part p then {#} else {#tc_ToolCallID (fst (snd ic))#})" using ic by auto
    show "executed a ics (res[fst ic := Some p]) s1 res' s'" using IH'(4) nf ic by simp
  qed (use i ic in auto)
  then show ?case
    using counted_trans [OF c1 IH'(1)] IH'(2,3) ic by auto
qed

lemma publishPendingFailures_frame: "counted 0 s (publishPendingFailures a pending msg res s)"
proof (induction pending arbitrary: s)
  case Nil
  then show ?case by (simp add: publishPendingFailures_def)
next
  case (Cons ic pending)
  obtain i call tool where ic: "ic = (i, call, tool)" by (cases ic)
  define s1 where "s1 = (if res ! i \<noteq> None then s
     else emit a (ToolFailed (tc_ToolCallID call) (tc_ToolName call) msg)
            (emit a (ToolCalled (tc_ToolCallID call) (tc_ToolName call) (tc_ArgsJSON call)) s))"
  have "counted 0 s s1" by (simp add: s1_def counted_def tool_frame_def)
  with Cons [of s1] show ?case
    using counted_trans [of 0 s s1 0] by (simp add: publishPendingFailures_def ic s1_def)
qed

lemma run_exclusive_effect:
  assumes "distinct (map fst ics)" and "fst ` set ics \<subseteq> {..<length res}" and "0 \<le> rs_activeApprovals s"
    and "run_exclusive a deps prompt rest ics res s w = (r, s', w')"
  shows "counted (length ics) s s' \<and> (\<forall>res'. r = Inr res' \<longrightarrow> executed a ics res s res' s')"
  using assms
proof (induction ics arbitrary: res s w)
  case Nil
  then show ?case by auto
next
  case (Cons ic ics)
  obtain i call tool where ic: "ic = (i, call, tool)" by (cases ic)
  have i: "i < length res" "i \<notin> fst ` set ics" using Cons.prems(1,2) ic by auto
  show ?case
  proof (cases "ctx_Err (ag_sched a) w")
    case (Some e)
    with Cons.prems(4) ic have "r = Inl e" "s' = publishPendingFailures a (ic # ics @ rest) (error_text e) res s"
      by auto
    with counted_mono [OF publishPendingFailures_frame] show ?thesis by auto
  next
    case None
    obtain p s1 w1 where e: "executeSingleTool a call tool deps prompt s w = (p, s1, w1)" by (metis prod_cases3)
    note ef = executeSingleTool_effect [OF e Cons.prems(3)]
    have c1: "counted 1 s s1" using ef by (simp add: counted_def)
    show ?thesis
    proof (cases "\<exists>f. p = FatalToolPart f")
      case True
      with Cons.prems(4) ic None e have "s' = s1" "\<exists>e. r = Inl e" by auto
      with counted_mono [OF c1] show ?thesis by auto
    next
      case False
      then have step: "run_exclusive a deps prompt rest ics (res[i := Some p]) s1 w1 = (r, s', w')"
        using Cons.prems(4) ic None e by (cases p) auto
      have "0 \<le> rs_activeApprovals s1" using Cons.prems(3) counted_approvals [OF c1] by simp
      from Cons.IH [OF _ _ this step] Cons.prems(1,2)
      have IH: "counted (length ics) s1 s'" "\<forall>res'. r = Inr res' \<longrightarrow> executed a ics (res[i := Some p]) s1 res' s'"
        by auto
      have "executed a (ic # ics) res s res' s'" if "r = Inr res'" for res'
        by (rule executed_Cons [where p = p and ?s1.0 = s1]) (use that IH(2) ef False i ic in auto)
      with counted_trans [OF c1 IH(1)] show ?thesis by auto
    qed
  qed
qed

lemma run_batches_effect:
  assumes "distinct (map fst (concat (map snd bs)))" and "fst ` set (concat (map snd bs)) \<subseteq> {..<length res}"
    and "0 \<le> rs_activeApprovals s" and "run_batches a deps prompt bs res s w = (r, s', w')"
  shows "counted (length (concat (map snd bs))) s s' \<and>
    (\<forall>res'. r = Inr res' \<longrightarrow> executed a (concat (map snd bs)) res s res' s')"
  using assms
proof (induction bs arbitrary: res s w)
  case Nil
  then show ?case by auto
next
  case (Cons b bs)
  obtain safe ics where b: "b = (safe, ics)" by (cases b)
  let ?rest = "concat (map snd bs)"
  have d: "distinct (map fst ics)" "distinct (map fst ?rest)" "fst ` set ics \<inter> fst ` set ?rest = {}"
    using Cons.prems(1) b by auto
  have bnd: "fst ` set ics \<subseteq> {..<length res}" "fst ` set ?rest \<subseteq> {..<length res}"
    using Cons.prems(2) b by auto
  have go_on: ?case
    if ex: "executed a ics res s res1 s1" and c1: "counted (length ics) s s1"
      and step: "run_batches a deps prompt bs res1 s1 w1 = (r, s', w')" for res1 s1 w1
  proof -
    have ap: "0 \<le> rs_activeApprovals s1" using Cons.prems(3) counted_approvals [OF c1] by simp
    have len: "length res1 = length res" using ex by (simp add: executed_def)
    from Cons.IH [OF d(2) _ ap step] bnd(2) len
    have IH: "counted (length ?rest) s1 s'" "\<forall>res'. r = Inr res' \<longrightarrow> executed a ?rest res1 s1 res' s'" by auto
    then show ?thesis
      using counted_trans [OF c1 IH(1)] executed_append [OF ex _ d(3)] b by auto
  qed
  show ?case
  proof (cases "ctx_Err (ag_sched a) w")
    case (Some e)
    with Cons.prems(4) b have "s' = publishPendingFailures a (ics @ ?rest) (error_text e) res s" "r = Inl e"
      by auto
    with counted_mono [OF publishPendingFailures_frame] show ?thesis by auto
  next
    case None
    show ?thesis
    proof (cases safe)
      case True
      obtain res1 s1 w1 where rc: "run_concurrent a deps prompt (order_calls a ics w) res s w = (res1, s1, w1)"
        by (metis prod_cases3)
      note om = order_calls_mset [OF d(1), of a w]
      have oc: "distinct (map fst (order_calls a ics w))" "set (order_calls a ics w) = set ics"
          "length (order_calls a ics w) = length ics"
        using om d(1) mset_eq_setD [OF om] mset_eq_length [OF om]
        by (auto simp: mset_eq_imp_distinct_iff [OF arg_cong [OF om, of "image_mset fst", unfolded mset_map [symmetric]]])
      from run_concurrent_effect [OF oc(1) _ Cons.prems(3) rc] oc(2,3) bnd(1)
      have ef: "counted (length ics) s s1"
          "(\<forall>ic \<in> set ics. \<not> fatal_at res1 ic) \<longrightarrow> executed a (order_calls a ics w) res s res1 s1" by auto
      show ?thesis
      proof (cases "first_fatal res1 ics")
        case (Some e)
        with Cons.prems(4) b None True rc have "r = Inl e" "s' = s1" by auto
        with counted_mono [OF ef(1)] b show ?thesis by auto
      next
        case nf: None
        then have "executed a ics res s res1 s1"
          using ef(2) om by (auto simp: first_fatal_None intro: executed_mset)
        then show ?thesis
          using Cons.prems(4) b None True rc nf by (intro go_on [OF _ ef(1)]) auto
      qed
    next
      case False
      obtain r1 s1 w1 where re: "run_exclusive a deps prompt ?rest ics res s w = (r1, s1, w1)"
        by (metis prod_cases3)
      note ef = run_exclusive_effect [OF d(1) bnd(1) Cons.prems(3) re]
      show ?thesis
      proof (cases r1)
        case (Inl e)
        with Cons.prems(4) b None False re have "r = Inl e" "s' = s1" by auto
        with ef counted_mono show ?thesis by (auto simp: b)
      next
        case (Inr res1)
        with ef have "executed a ics res s res1 s1" "counted (length ics) s s1" by auto
        then show ?thesis
          using Cons.prems(4) b None False re Inr by (intro go_on) auto
      qed
    qed
  qed
qed

lemma deferred_ids_zip:
  assumes "list_all2 (\<lambda>p c. answers p (fst c)) ps calls" and "\<forall>i < length ps. res ! (k + i) = Some (ps ! i)"
  shows "deferred_ids res (zip [k..<k + length calls] calls) = mset (map dr_ToolCallID (deferred_of ps))"
  using assms
proof (induction ps calls arbitrary: k rule: list_all2_induct)
  case Nil
  then show ?case by (simp add: deferred_of_def)
next
  case (Cons p ps c calls)
  have r: "\<forall>i < length ps. res ! (Suc k + i) = Some (ps ! i)"
  proof (intro allI impI)
    fix i assume "i < length ps"
    with Cons.prems [THEN spec, of "Suc i"] show "res ! (Suc k + i) = Some (ps ! i)" by simp
  qed
  have h: "res ! k = Some p" using Cons.prems [THEN spec, of 0] by simp
  have "[k..<k + length (c # calls)] = k # [Suc k..<Suc k + length calls]"
    by (simp add: upt_conv_Cons del: upt_Suc)
  with Cons.IH [OF r] h Cons.hyps(1) show ?case
    by (cases p) (auto simp: deferred_of_def deferred_at_def is_deferred_part_def)
qed

lemma executeFunctionTools_effect:
  assumes "0 \<le> rs_activeApprovals s" and "executeFunctionTools a calls deps prompt s w = (r, s', w')"
  shows "counted (length calls) s s'"
    and "r = Inr res \<Longrightarrow> length res = length calls \<and>
      (\<forall>i < length calls. \<exists>p. res ! i = Some p \<and> answers p (fst (calls ! i))) \<and>
      (\<exists>ended. logged a s s' (mset (map (tc_ToolCallID \<circ> fst) calls)) ended \<and>
         ended + mset (map dr_ToolCallID (deferred_of (List.map_filter id res))) =
         mset (map (tc_ToolCallID \<circ> fst) calls))"
proof -
  define ics where "ics = map (\<lambda>i. (i, calls ! i)) [0..<length calls]"
  define bs where "bs = fold add_to_batches ics []"
  have bc: "concat (map snd bs) = ics" using batches_concat [of ics "[]"] by (simp add: bs_def)
  have fst: "map fst ics = [0..<length calls]" by (simp add: ics_def comp_def)
  have run: "run_batches a deps prompt bs (replicate (length calls) None) s w = (r, s', w')"
    using assms(2) by (simp add: executeFunctionTools_def Let_def ics_def bs_def)
  have "fst ` set ics = {..<length calls}"
    using arg_cong [OF fst, of set] by (simp add: atLeast0LessThan)
  with run_batches_effect [OF _ _ assms(1) run] bc fst
  have ef: "counted (length ics) s s'"
      "\<forall>res'. r = Inr res' \<longrightarrow> executed a ics (replicate (length calls) None) s res' s'" by auto
  then show "counted (length calls) s s'" by (simp add: ics_def)
  have ids: "call_ids ics = mset (map (tc_ToolCallID \<circ> fst) calls)"
  proof -
    have "map (\<lambda>(i, c, t). tc_ToolCallID c) ics = map (tc_ToolCallID \<circ> fst) calls"
      by (rule nth_equalityI) (auto simp: ics_def split_beta)
    then show ?thesis by (simp add: call_ids_def)
  qed
  show "r = Inr res \<Longrightarrow> length res = length calls \<and>
      (\<forall>i < length calls. \<exists>p. res ! i = Some p \<and> answers p (fst (calls ! i))) \<and>
      (\<exists>ended. logged a s s' (mset (map (tc_ToolCallID \<circ> fst) calls)) ended \<and>
         ended + mset (map dr_ToolCallID (deferred_of (List.map_filter id res))) =
         mset (map (tc_ToolCallID \<circ> fst) calls))"
  proof -
    assume "r = Inr res"
    with ef(2) have ex: "executed a ics (replicate (length calls) None) s res s'" by simp
    then have len: "length res = length calls" by (simp add: executed_def)
    have fill: "\<exists>p. res ! i = Some p \<and> answers p (fst (calls ! i))" if "i < length calls" for i
      using ex that by (auto simp: executed_def filled_def ics_def)
    have "deferred_ids res ics = mset (map dr_ToolCallID (deferred_of (List.map_filter id res)))"
    proof -
      define ps where "ps = map the res"
      have ps: "length ps = length calls" by (simp add: ps_def len)
      have at: "res ! i = Some (ps ! i)" if "i < length calls" for i
        using fill [OF that] that len by (auto simp: ps_def)
      then have "res = map Some ps" by (intro nth_equalityI) (auto simp: ps_def len)
      then have mf: "List.map_filter id res = ps" by (simp add: map_filter_inverse)
      have "list_all2 (\<lambda>p c. answers p (fst c)) ps calls"
        using fill at ps by (auto simp: list_all2_conv_all_nth)
      moreover have "ics = zip [0..<0 + length calls] calls"
        by (rule nth_equalityI) (auto simp: ics_def)
      ultimately show ?thesis
        using deferred_ids_zip [of ps calls res 0] at ps mf by simp
    qed
    with ex ids len fill show ?thesis by (auto simp: executed_def)
  qed
qed

end
