(* ===== verification/Core_Processing.thy ===== *)
theory Core_Processing
  imports Core_Answers
begin

text \<open>
  What \<^verbatim>\<open>processResponse\<close> promises: the run state apart from counters, events and retries is left
  alone, the tool-call limit holds, and, unless an output was accepted early, every tool call of the
  response is either answered by exactly one part or deferred.
\<close>

section \<open>Frames\<close>

definition kept :: "run_state \<Rightarrow> run_state \<Rightarrow> bool" where
  "kept s s' \<longleftrightarrow> rs_messages s' = rs_messages s \<and> rs_limits s' = rs_limits s \<and>
     rs_activeApprovals s' = rs_activeApprovals s \<and> rs_runStep s' = rs_runStep s \<and> rs_runID s' = rs_runID s \<and>
     rs_lastInputTokens s' = rs_lastInputTokens s \<and>
     Requests (rs_usage s') = Requests (rs_usage s) \<and> TotalTokens (rs_usage s') = TotalTokens (rs_usage s) \<and>
     ToolCalls (rs_usage s) \<le> ToolCalls (rs_usage s') \<and> turn_events s' = turn_events s"

lemma kept_refl [simp]: "kept s s"
  by (simp add: kept_def)

lemma kept_trans: "kept s s' \<Longrightarrow> kept s' s'' \<Longrightarrow> kept s s''"
  by (auto simp: kept_def)

lemma counted_kept: "counted n s s' \<Longrightarrow> kept s s'"
  by (simp add: counted_def tool_frame_def kept_def)

lemma kept_emit [simp]: "\<not> is_turn e \<Longrightarrow> kept s (emit a e s') = kept s s'"
  by (simp add: kept_def)

lemma kept_retries [simp]: "kept s (s'\<lparr>rs_retries := n\<rparr>) = kept s s'"
  by (simp add: kept_def)

lemma emit_approvals [simp]: "rs_limits (emit a e s) = rs_limits s"
  by (simp add: emit_def)

lemma incrementRetries_state [simp]:
  "snd (incrementRetries u n s) = s\<lparr>rs_retries := rs_retries s + 1\<rparr>"
  by (simp add: incrementRetries_def Let_def)

lemma incrementRetries_error:
  "fst (incrementRetries u n s) = None \<longleftrightarrow> rs_retries s + 1 \<le> n"
  by (simp add: incrementRetries_def Let_def not_less)

text \<open>Retries counted by a step that asks the model to try again.\<close>

lemma retry_result_effect:
  assumes "retry_result a reason name i s = (r, s')"
  shows "kept s s' \<and> rs_usage s' = rs_usage s \<and> rs_retries s' = rs_retries s + 1 \<and>
    (case r of Inl _ \<Rightarrow> rs_retries s' > ag_maxRetries a
     | Inr p \<Rightarrow> rs_retries s' \<le> ag_maxRetries a \<and> p = RetryPromptPart reason name i)"
proof -
  obtain e s1 where i: "incrementRetries (json_arguments (ag_codec a)) (ag_maxRetries a) s = (e, s1)" by fastforce
  have s1: "s1 = s\<lparr>rs_retries := rs_retries s + 1\<rparr>" using incrementRetries_state i by (metis snd_conv)
  have e: "e = None \<longleftrightarrow> rs_retries s + 1 \<le> ag_maxRetries a" using incrementRetries_error i by (metis fst_conv)
  from assms i s1 e show ?thesis
    by (cases e) (auto simp: retry_result_def recordRetryScheduled_def buildRetryParts_def)
qed

section \<open>Stages\<close>

lemma fold_emit_kept:
  "kept s s0 \<Longrightarrow> kept s (fold (\<lambda>x. recordRetryScheduled a (f x) (g x) (h x)) xs s0) \<and>
    rs_usage (fold (\<lambda>x. recordRetryScheduled a (f x) (g x) (h x)) xs s0) = rs_usage s0"
  by (induction xs arbitrary: s0) (auto simp: recordRetryScheduled_def)

lemma process_unknown_effect:
  assumes "process_unknown a calls s = (r, s')"
  shows "kept s s' \<and> rs_usage s' = rs_usage s \<and>
    (\<forall>parts. r = Inr parts \<longrightarrow> part_ids parts = map tc_ToolCallID calls)"
proof (cases "calls = []")
  case True
  with assms show ?thesis by (auto simp: process_unknown_def)
next
  case False
  obtain e s1 where i: "incrementRetries (json_arguments (ag_codec a)) (ag_maxRetries a) s = (e, s1)" by fastforce
  have s1: "s1 = s\<lparr>rs_retries := rs_retries s + 1\<rparr>" using incrementRetries_state i by (metis snd_conv)
  have ids: "part_ids (map (\<lambda>tc. RetryPromptPart (f tc) (g tc) (tc_ToolCallID tc)) calls) = map tc_ToolCallID calls" for f g
    by (induction calls) (auto simp: part_call_id_def)
  show ?thesis
  proof (cases e)
    case None
    with assms i False have r: "r = Inr (map (\<lambda>tc. buildRetryParts (unknown_reason a tc) (tc_ToolName tc) (tc_ToolCallID tc)) calls)"
        "s' = fold (\<lambda>tc. recordRetryScheduled a (unknown_reason a tc) (tc_ToolName tc) (tc_ToolCallID tc)) calls s1"
      by (auto simp: process_unknown_def)
    have "kept s s1" "rs_usage s1 = rs_usage s" by (simp_all add: s1)
    with fold_emit_kept [of s s1 a "unknown_reason a" tc_ToolName tc_ToolCallID calls] r ids show ?thesis
      by (auto simp: buildRetryParts_def)
  next
    case (Some err)
    with assms i False s1 show ?thesis by (auto simp: process_unknown_def)
  qed
qed

lemma process_outputs_effect:
  assumes "process_outputs a deps prompt tcs result parts s w = (r, s', w')"
  shows "kept s s' \<and> rs_usage s' = rs_usage s \<and>
    (\<forall>early result' parts'. r = Inr (early, result', parts') \<longrightarrow>
      (\<exists>qs. parts' = parts @ qs \<and> (\<not> early \<longrightarrow> part_ids qs = map tc_ToolCallID tcs)) \<and>
      (early \<longrightarrow> ag_endStrategy a = EndStrategyEarly \<and> result' \<noteq> None) \<and> (result \<noteq> None \<longrightarrow> result' \<noteq> None))"
  using assms
proof (induction tcs arbitrary: result parts s w)
  case Nil
  then show ?case by auto
next
  case (Cons tc tcs)
  have go_on: ?case
    if step: "process_outputs a deps prompt tcs result1 (parts @ [p]) s1 w1 = (r, s', w')"
      and k: "kept s s1" "rs_usage s1 = rs_usage s" and p: "part_call_id p = Some (tc_ToolCallID tc)"
      and res: "result \<noteq> None \<longrightarrow> result1 \<noteq> None"
    for result1 p s1 w1
  proof -
    from Cons.IH [OF step] have IH: "kept s1 s'" "rs_usage s' = rs_usage s1" and
      r: "\<forall>early result' parts'. r = Inr (early, result', parts') \<longrightarrow>
      (\<exists>qs. parts' = (parts @ [p]) @ qs \<and> (\<not> early \<longrightarrow> part_ids qs = map tc_ToolCallID tcs)) \<and>
      (early \<longrightarrow> ag_endStrategy a = EndStrategyEarly \<and> result' \<noteq> None) \<and> (result1 \<noteq> None \<longrightarrow> result' \<noteq> None)"
      by blast+
    have "\<exists>qs. parts' = parts @ qs \<and> (\<not> early \<longrightarrow> part_ids qs = map tc_ToolCallID (tc # tcs))"
      if "r = Inr (early, result', parts')" for early result' parts'
    proof -
      from r [rule_format, OF that] obtain qs where "parts' = (parts @ [p]) @ qs"
        "\<not> early \<longrightarrow> part_ids qs = map tc_ToolCallID tcs" by (elim conjE exE)
      with p show ?thesis by (intro exI [of _ "p # qs"]) auto
    qed
    moreover have "(early \<longrightarrow> ag_endStrategy a = EndStrategyEarly \<and> result' \<noteq> None) \<and> (result \<noteq> None \<longrightarrow> result' \<noteq> None)"
      if "r = Inr (early, result', parts')" for early result' parts'
      using r [rule_format, OF that] res by simp
    moreover have "kept s s'" "rs_usage s' = rs_usage s" using kept_trans [OF k(1) IH(1)] IH(2) k(2) by simp_all
    ultimately show ?thesis by blast
  qed
  have retry: ?case
    if "(case retry_result a reason (tc_ToolName tc) (tc_ToolCallID tc) s of
             (Inl e, s) \<Rightarrow> (Inl e, s, w1)
           | (Inr part, s) \<Rightarrow> process_outputs a deps prompt tcs result (parts @ [part]) s w1) = (r, s', w')"
    for reason w1
  proof -
    obtain x s1 where x: "retry_result a reason (tc_ToolName tc) (tc_ToolCallID tc) s = (x, s1)" by fastforce
    note ef = retry_result_effect [OF x]
    show ?thesis
    proof (cases x)
      case (Inl e)
      with that x ef show ?thesis by auto
    next
      case (Inr p)
      with that x have "process_outputs a deps prompt tcs result (parts @ [p]) s1 w1 = (r, s', w')" by simp
      from go_on [OF this] ef Inr show ?thesis by (auto simp: part_call_id_def)
    qed
  qed
  obtain d w1 where d: "decode_output_call a tc w = (d, w1)" by fastforce
  show ?case
  proof (cases d)
    case (Inl err)
    with Cons.prems d show ?thesis by (intro retry) auto
  next
    case (Inr out)
    obtain v w2 where v: "validateOutput ((buildRunContext s deps prompt)
        \<lparr>rc_ToolName := tc_ToolName tc, rc_ToolCallID := tc_ToolCallID tc\<rparr>) (ag_outputValidators a) out w1 = (v, w2)"
      by fastforce
    show ?thesis
    proof (cases v)
      case (Inl e)
      show ?thesis
      proof (cases "errors_As as_model_retry e")
        case None
        with Cons.prems d Inr v Inl show ?thesis by auto
      next
        case (Some msg)
        with Cons.prems d Inr v Inl show ?thesis by (intro retry) auto
      qed
    next
      case v': (Inr out')
      have ids: "part_call_id (accepted_part tc) = Some (tc_ToolCallID tc)"
          "part_call_id (duplicate_part tc) = Some (tc_ToolCallID tc)"
        by (simp_all add: part_call_id_def accepted_part_def duplicate_part_def)
      show ?thesis
      proof (cases result)
        case (Some x)
        with Cons.prems d Inr v v' have "process_outputs a deps prompt tcs result (parts @ [duplicate_part tc]) s w2 = (r, s', w')"
          by simp
        from go_on [OF this] ids show ?thesis by auto
      next
        case None
        show ?thesis
        proof (cases "ag_endStrategy a = EndStrategyEarly")
          case True
          with Cons.prems d Inr v v' None show ?thesis by auto
        next
          case False
          with Cons.prems d Inr v v' None have "process_outputs a deps prompt tcs
              (Some \<lparr>fr_output = out', fr_toolName = tc_ToolName tc, fr_toolCallID = tc_ToolCallID tc\<rparr>)
              (parts @ [accepted_part tc]) s w2 = (r, s', w')" by simp
          from go_on [OF this] ids None show ?thesis by auto
        qed
      qed
    qed
  qed
qed

lemma answered_or_deferred:
  assumes "list_all2 (\<lambda>p c. answers p (fst c)) ps calls"
  shows "mset (part_ids (filter (\<lambda>p. \<not> is_deferred_part p) ps)) + mset (map dr_ToolCallID (deferred_of ps)) =
    mset (map (tc_ToolCallID \<circ> fst) calls)"
  using assms
proof (induction ps calls rule: list_all2_induct)
  case Nil
  then show ?case by (simp add: deferred_of_def)
next
  case (Cons p ps c calls)
  then show ?case
    by (cases p) (auto simp: answers_def is_deferred_part_def deferred_of_def part_call_id_def)
qed

lemma filled_parts:
  assumes "length res = length calls" and "\<forall>i < length calls. \<exists>p. res ! i = Some p \<and> answers p (fst (calls ! i))"
  shows "list_all2 (\<lambda>p c. answers p (fst c)) (List.map_filter id res) calls"
proof -
  have "res = map Some (map the res)"
    by (rule nth_equalityI) (use assms in fastforce)+
  then have "List.map_filter id res = map the res" by (metis id_apply map_filter_inverse)
  with assms show ?thesis by (fastforce simp: list_all2_conv_all_nth)
qed

lemma process_functions_effect:
  assumes "process_functions a deps prompt calls result parts s w = (r, s', w')" and ap: "0 \<le> rs_activeApprovals s"
  shows "kept s s' \<and>
    (\<forall>result' parts' deferred. r = Inr (result', parts', deferred) \<longrightarrow> result' = result \<and>
      (\<exists>qs. parts' = parts @ qs \<and> mset (part_ids qs) + mset (map dr_ToolCallID deferred) =
        mset (map (tc_ToolCallID \<circ> fst) calls))) \<and>
    (\<forall>limit. ToolCallsLimit (rs_limits s) = Some limit \<longrightarrow> ToolCalls (rs_usage s) \<le> limit \<longrightarrow>
      ToolCalls (rs_usage s') \<le> limit)"
proof (cases "calls = []")
  case True
  with assms show ?thesis by (auto simp: process_functions_def)
next
  case False
  show ?thesis
  proof (cases "over_tool_limit s (length calls)")
    case (Some e)
    with assms False show ?thesis by (auto simp: process_functions_def)
  next
    case None
    obtain x s1 w1 where x: "executeFunctionTools a calls deps prompt s w = (x, s1, w1)" by (metis prod_cases3)
    note ef = executeFunctionTools_effect [OF ap x]
    have lim: "ToolCalls (rs_usage s1) \<le> limit" if "ToolCallsLimit (rs_limits s) = Some limit" for limit
      using None that ef(1) by (auto simp: over_tool_limit_def counted_def split: if_splits)
    note k = counted_kept [OF ef(1)]
    show ?thesis
    proof (cases x)
      case (Inl e)
      with assms(1) False None x k lim show ?thesis by (auto simp: process_functions_def)
    next
      case (Inr res)
      with assms(1) False None x have r: "s' = s1\<lparr>rs_retries := 0\<rparr>"
          "r = Inr (result, parts @ filter (\<lambda>p. \<not> is_deferred_part p) (List.map_filter id res),
             deferred_of (List.map_filter id res))"
        by (auto simp: process_functions_def Let_def)
      from ef(2) [OF Inr] have "list_all2 (\<lambda>p c. answers p (fst c)) (List.map_filter id res) calls"
        by (intro filled_parts) auto
      from answered_or_deferred [OF this] r k lim show ?thesis by auto
    qed
  qed
qed

section \<open>The whole response\<close>

lemma calls_split:
  "mset (map tc_ToolCallID (filter (is_unknown_call tm ot) calls)) +
   mset (map tc_ToolCallID (filter (\<lambda>tc. tc_ToolName tc \<in> ot) calls)) +
   mset (map (tc_ToolCallID \<circ> fst) (List.map_filter (\<lambda>tc. if tc_ToolName tc \<in> ot then None
             else map_option (\<lambda>t. (tc, t)) (fmlookup tm (tc_ToolName tc))) calls)) =
   mset (map tc_ToolCallID calls)"
  by (induction calls) (auto simp: is_unknown_call_def List.map_filter_def split: option.splits)

lemma process_calls_effect:
  assumes "process_calls a calls tm ot deps prompt s w = (r, s', w')" and ap: "0 \<le> rs_activeApprovals s"
  shows "kept s s' \<and>
    (\<forall>result parts deferred. r = Inr (result, parts, deferred) \<longrightarrow>
      result = None \<or> ag_endStrategy a = EndStrategyExhaustive \<or> deferred \<noteq> [] \<longrightarrow>
      mset (part_ids parts) + mset (map dr_ToolCallID deferred) = mset (map tc_ToolCallID calls)) \<and>
    (\<forall>limit. ToolCallsLimit (rs_limits s) = Some limit \<longrightarrow> ToolCalls (rs_usage s) \<le> limit \<longrightarrow>
      ToolCalls (rs_usage s') \<le> limit)"
proof -
  let ?unknown = "filter (is_unknown_call tm ot) calls"
  let ?outputs = "filter (\<lambda>tc. tc_ToolName tc \<in> ot) calls"
  let ?functions = "List.map_filter (\<lambda>tc. if tc_ToolName tc \<in> ot then None
             else map_option (\<lambda>t. (tc, t)) (fmlookup tm (tc_ToolName tc))) calls"
  obtain x s1 where x: "process_unknown a ?unknown s = (x, s1)" by fastforce
  note ux = process_unknown_effect [OF x]
  show ?thesis
  proof (cases x)
    case (Inl e)
    with assms(1) x ux show ?thesis by (auto simp: process_calls_def)
  next
    case (Inr parts1)
    obtain y s2 w2 where y: "process_outputs a deps prompt ?outputs None parts1 s1 w = (y, s2, w2)" by (metis prod_cases3)
    note uy = process_outputs_effect [OF y]
    have k2: "kept s s2" "rs_usage s2 = rs_usage s" using ux uy kept_trans by auto
    show ?thesis
    proof (cases y)
      case (Inl e)
      with assms(1) x \<open>x = Inr parts1\<close> y k2 show ?thesis by (auto simp: process_calls_def)
    next
      case y': (Inr t)
      obtain early result2 parts2 where t: "t = (early, result2, parts2)" by (cases t)
      from uy y' t obtain qs where qs: "parts2 = parts1 @ qs" "\<not> early \<longrightarrow> part_ids qs = map tc_ToolCallID ?outputs"
          "early \<longrightarrow> ag_endStrategy a = EndStrategyEarly \<and> result2 \<noteq> None" by blast
      show ?thesis
      proof (cases early)
        case True
        with assms(1) x Inr y y' t have "r = Inr (result2, parts2, [])" "s' = s2" by (auto simp: process_calls_def)
        with True qs(3) k2 show ?thesis by auto
      next
        case False
        with assms(1) x Inr y y' t
        have f: "process_functions a deps prompt ?functions result2 parts2 s2 w2 = (r, s', w')"
          by (simp add: process_calls_def)
        have "0 \<le> rs_activeApprovals s2" using ap k2(1) by (simp add: kept_def)
        note uf = process_functions_effect [OF f this]
        have "mset (part_ids parts) + mset (map dr_ToolCallID deferred) = mset (map tc_ToolCallID calls)"
          if "r = Inr (result, parts, deferred)" for result parts deferred
        proof -
          from uf that obtain ps where ps: "parts = parts2 @ ps" "mset (part_ids ps) + mset (map dr_ToolCallID deferred) =
            mset (map (tc_ToolCallID \<circ> fst) ?functions)" by blast
          have "part_ids parts1 = map tc_ToolCallID ?unknown" using ux Inr by blast
          with qs(1,2) False ps(1) have "mset (part_ids parts) = mset (map tc_ToolCallID ?unknown) +
              mset (map tc_ToolCallID ?outputs) + mset (part_ids ps)" by simp
          with ps(2) calls_split [of tm ot calls] show ?thesis by (simp only: add.assoc)
        qed
        moreover have "kept s s'" using k2(1) uf kept_trans by blast
        ultimately show ?thesis using uf k2 by (auto simp: kept_def)
      qed
    qed
  qed
qed

lemma decode_text_fst: "\<exists>r w'. decode_text a text w = (r, w')"
  by fastforce

lemma process_text_effect:
  assumes "process_text a resp deps prompt s w = (r, s', w')"
  shows "kept s s' \<and> rs_usage s' = rs_usage s \<and>
    (\<forall>result parts deferred. r = Inr (result, parts, deferred) \<longrightarrow> deferred = [] \<and> (result = None \<longrightarrow> parts \<noteq> []))"
proof -
  obtain d w1 where d: "decode_text a (resp_TextContent resp) w = (d, w1)" by fastforce
  show ?thesis
  proof (cases d)
    case (Inl e)
    with assms d show ?thesis by (auto simp: process_text_def)
  next
    case (Inr out)
    obtain v w2 where v: "validateOutput (buildRunContext s deps prompt) (ag_outputValidators a) out w1 = (v, w2)" by fastforce
    show ?thesis
    proof (cases v)
      case v': (Inr out')
      with assms d Inr v show ?thesis by (auto simp: process_text_def)
    next
      case (Inl e)
      show ?thesis
      proof (cases "errors_As as_model_retry e")
        case None
        with assms d Inr v Inl show ?thesis by (auto simp: process_text_def)
      next
        case (Some msg)
        obtain x s1 where x: "retry_result a msg [] [] s = (x, s1)" by fastforce
        from retry_result_effect [OF x] assms d Inr v Inl Some x show ?thesis
          by (cases x) (auto simp: process_text_def)
      qed
    qed
  qed
qed

lemma process_empty_effect:
  assumes "process_empty a resp s = (r, s')"
  shows "kept s s' \<and> rs_usage s' = rs_usage s \<and>
    (\<forall>result parts deferred. r = Inr (result, parts, deferred) \<longrightarrow> deferred = [] \<and> parts \<noteq> [])"
proof -
  obtain x s1 where x: "retry_result a ''empty response, please provide a result'' [] [] s = (x, s1)" by fastforce
  from retry_result_effect [OF x] assms x show ?thesis
    by (cases x) (auto simp: process_empty_def split: if_splits)
qed

text \<open>
  The contract of \<^verbatim>\<open>processResponse\<close>. When it neither ends the run nor defers, there is something to
  tell the model, and every call has its answer.
\<close>

lemma processResponse_effect:
  assumes pr: "processResponse a resp tm ot deps prompt s w = (r, s', w')" and ap: "0 \<le> rs_activeApprovals s"
  shows "kept s s'"
    and "r = Inr (result, parts, deferred) \<Longrightarrow> result = None \<or> ag_endStrategy a = EndStrategyExhaustive \<or> deferred \<noteq> [] \<Longrightarrow>
      resp_ToolCalls resp \<noteq> [] \<Longrightarrow>
      mset (part_ids parts) + mset (map dr_ToolCallID deferred) = mset (resp_call_ids resp)"
    and "r = Inr (None, parts, []) \<Longrightarrow> parts \<noteq> [] \<and> set (resp_call_ids resp) \<subseteq> set (part_ids parts)"
    and "ToolCallsLimit (rs_limits s) = Some limit \<Longrightarrow> ToolCalls (rs_usage s) \<le> limit \<Longrightarrow>
      ToolCalls (rs_usage s') \<le> limit"
proof -
  let ?calls = "resp_ToolCalls resp"
  have "kept s s' \<and> (r = Inr (result, parts, deferred) \<longrightarrow> result = None \<or> ag_endStrategy a = EndStrategyExhaustive \<or> deferred \<noteq> [] \<longrightarrow>
      ?calls \<noteq> [] \<longrightarrow> mset (part_ids parts) + mset (map dr_ToolCallID deferred) = mset (resp_call_ids resp)) \<and>
    (r = Inr (None, parts, []) \<longrightarrow> parts \<noteq> [] \<and> set (resp_call_ids resp) \<subseteq> set (part_ids parts)) \<and>
    (ToolCallsLimit (rs_limits s) = Some limit \<longrightarrow> ToolCalls (rs_usage s) \<le> limit \<longrightarrow> ToolCalls (rs_usage s') \<le> limit)"
  proof (cases "?calls = []")
    case True
    show ?thesis
    proof (cases "resp_TextContent resp \<noteq> [] \<and> os_AllowsText (ag_outputSchema a)")
      case t: True
      with True pr have "process_text a resp deps prompt s w = (r, s', w')" by (simp add: processResponse_def)
      from process_text_effect [OF this] True show ?thesis by (auto simp: resp_call_ids_def)
    next
      case False
      obtain x s1 where "process_empty a resp s = (x, s1)" by fastforce
      moreover from this False True pr have "x = r" "s1 = s'" by (auto simp: processResponse_def Let_def)
      ultimately show ?thesis using process_empty_effect [of a resp s r s'] True by (auto simp: resp_call_ids_def)
    qed
  next
    case False
    with pr have c: "process_calls a ?calls tm ot deps prompt s w = (r, s', w')" by (auto simp: processResponse_def)
    note ef = process_calls_effect [OF c ap]
    have "parts \<noteq> [] \<and> set (resp_call_ids resp) \<subseteq> set (part_ids parts)" if "r = Inr (None, parts, [])"
    proof -
      from ef that have m: "mset (part_ids parts) = mset (resp_call_ids resp)" by (auto simp: resp_call_ids_def)
      then have "set (part_ids parts) = set (resp_call_ids resp)" by (rule mset_eq_setD)
      moreover from this False have "parts \<noteq> []" by (auto simp: resp_call_ids_def)
      ultimately show ?thesis by simp
    qed
    with ef show ?thesis by (auto simp: resp_call_ids_def)
  qed
  then show "kept s s'"
    and "r = Inr (result, parts, deferred) \<Longrightarrow> result = None \<or> ag_endStrategy a = EndStrategyExhaustive \<or> deferred \<noteq> [] \<Longrightarrow>
      ?calls \<noteq> [] \<Longrightarrow> mset (part_ids parts) + mset (map dr_ToolCallID deferred) = mset (resp_call_ids resp)"
    and "r = Inr (None, parts, []) \<Longrightarrow> parts \<noteq> [] \<and> set (resp_call_ids resp) \<subseteq> set (part_ids parts)"
    and "ToolCallsLimit (rs_limits s) = Some limit \<Longrightarrow> ToolCalls (rs_usage s) \<le> limit \<Longrightarrow> ToolCalls (rs_usage s') \<le> limit"
    by blast+
qed

lemma processResponse_no_calls:
  assumes "processResponse a resp tm ot deps prompt s w = (Inr (result, parts, deferred), s', w')"
    and "resp_ToolCalls resp = []"
  shows "deferred = []"
proof (cases "resp_TextContent resp \<noteq> [] \<and> os_AllowsText (ag_outputSchema a)")
  case True
  with assms have "process_text a resp deps prompt s w = (Inr (result, parts, deferred), s', w')"
    by (simp add: processResponse_def)
  from process_text_effect [OF this] show ?thesis by simp
next
  case False
  obtain x s1 where "process_empty a resp s = (x, s1)" by fastforce
  moreover from this False assms have "x = Inr (result, parts, deferred)" by (auto simp: processResponse_def Let_def)
  ultimately show ?thesis using process_empty_effect by blast
qed

end
