(* ===== verification/Core_Loop.thy ===== *)
theory Core_Loop
  imports Core_Run Core_Processing
begin

text \<open>
  Facts about turns, steps and runs: each turn that reaches the model counts one request, so a
  request limit or a request quota makes the loop return; and each turn that continues leaves a
  well-formed history, whatever compaction did before it.
\<close>

section \<open>Stages of a turn\<close>

text \<open>What every stage before the response leaves alone.\<close>

definition same_counts :: "run_state \<Rightarrow> run_state \<Rightarrow> bool" where
  "same_counts s s' \<longleftrightarrow> rs_usage s' = rs_usage s \<and> rs_limits s' = rs_limits s \<and>
     rs_activeApprovals s' = rs_activeApprovals s \<and> rs_runID s' = rs_runID s"

lemma same_counts_refl [simp]: "same_counts s s"
  by (simp add: same_counts_def)

lemma same_counts_emit [simp]: "same_counts s (emit a e s') = same_counts s s'"
  by (simp add: same_counts_def)

lemma emitTurnCompleted_frame [simp]:
  "rs_messages (emitTurnCompleted a r err s) = rs_messages s"
  "rs_usage (emitTurnCompleted a r err s) = rs_usage s"
  "rs_limits (emitTurnCompleted a r err s) = rs_limits s"
  "rs_activeApprovals (emitTurnCompleted a r err s) = rs_activeApprovals s"
  "rs_runID (emitTurnCompleted a r err s) = rs_runID s"
  by (simp_all add: emitTurnCompleted_def)

definition compaction_ok :: "('w, 't) agent \<Rightarrow> bool" where
  "compaction_ok a \<longleftrightarrow> (case ag_autoContext a of None \<Rightarrow> True | Some cfg \<Rightarrow> 0 < ac_KeepLastN cfg)"

lemma WithAutoContext_ok: "ag_autoContext a = Some (WithAutoContext cfg) \<Longrightarrow> compaction_ok a"
  by (simp add: compaction_ok_def WithAutoContext_def)

lemma compact_context_effect:
  assumes "compact_context a s w = (s', w')"
  shows "same_counts s s' \<and> rs_runStep s' = rs_runStep s \<and>
    (compaction_ok a \<longrightarrow> closed_history (rs_messages s) \<longrightarrow> closed_history (rs_messages s'))"
proof (cases "ag_autoContext a")
  case None
  with assms show ?thesis by (auto simp: compact_context_def)
next
  case (Some cfg)
  let ?n = "currentContextTokenCount (rs_messages s) (rs_lastInputTokens s)"
  obtain ms err w1 where c: "autoCompressMessages (ag_valueText a) cfg (ag_model a) (rs_messages s) ?n w = ((ms, err), w1)"
    by (metis prod.exhaust)
  from assms Some c have "s' = s \<or> s' = s\<lparr>rs_messages := ms\<rparr>"
    by (auto simp: compact_context_def Let_def split: if_splits)
  with autoCompressMessages_closed [OF c] Some show ?thesis by (auto simp: same_counts_def compaction_ok_def)
qed

lemma request_turn_effect:
  assumes "request_turn e s settings w = (r, s', w')"
  shows "same_counts s s' \<and>
    (compaction_ok (en_agent e) \<longrightarrow> closed_history (rs_messages s) \<longrightarrow> closed_history (rs_messages s'))"
proof -
  let ?a = "en_agent e"
  define s1 where "s1 = emit ?a (TurnStarted (rs_runStep s + 1)) (s\<lparr>rs_runStep := rs_runStep s + 1\<rparr>)"
  obtain tools w1 where t: "prepareTools ?a s1 (en_allTools e) (en_deps e) (en_prompt e) w = (tools, w1)" by fastforce
  obtain s2 w2 where c: "compact_context ?a s1 w1 = (s2, w2)" by fastforce
  obtain o1 w3 where out: "outgoing_messages e s2 w2 = (o1, w3)" by fastforce
  have "same_counts s s1" "rs_messages s1 = rs_messages s" by (simp_all add: s1_def same_counts_def)
  with compact_context_effect [OF c] have s2: "same_counts s s2"
      "compaction_ok ?a \<longrightarrow> closed_history (rs_messages s) \<longrightarrow> closed_history (rs_messages s2)"
    by (auto simp: same_counts_def)
  have "same_counts s2 s' \<and> rs_messages s' = rs_messages s2"
  proof (cases o1)
    case (Inl err)
    with assms t c out show ?thesis by (auto simp: request_turn_def Let_def s1_def same_counts_def)
  next
    case (Inr ms)
    let ?s3 = "emit ?a (ModelRequestStarted (rs_runStep s2) (length ms)) s2"
    obtain m w4 where m: "buildMiddlewareChain (ag_middleware ?a) (ag_model ?a) ms (inject_tool_choice ?a settings)
        (buildModelRequestParams tools (ag_outputSchema ?a)) w3 = (m, w4)" by fastforce
    with assms t c out Inr show ?thesis
      by (cases m) (auto simp: request_turn_def Let_def s1_def same_counts_def)
  qed
  with s2 show ?thesis by (auto simp: same_counts_def)
qed

lemma record_usage_effect:
  assumes "record_usage a resp s w = (s', w')"
  shows "Requests (rs_usage s') = Requests (rs_usage s) + 1 \<and> ToolCalls (rs_usage s') = ToolCalls (rs_usage s) \<and>
    rs_messages s' = rs_messages s \<and> rs_limits s' = rs_limits s \<and> rs_activeApprovals s' = rs_activeApprovals s"
  using assms by (auto simp: record_usage_def Let_def IncrRequest_def Incr_def split: if_splits)

lemma accept_response_frame [simp]:
  "rs_messages (accept_response a resp s) = rs_messages s @ [ModelResponse resp]"
  "rs_usage (accept_response a resp s) = rs_usage s" "rs_limits (accept_response a resp s) = rs_limits s"
  "rs_activeApprovals (accept_response a resp s) = rs_activeApprovals s"
  by (simp_all add: accept_response_def)

lemma publish_deferred_frame [simp]:
  "rs_messages (publish_deferred a reqs s) = rs_messages s" "rs_usage (publish_deferred a reqs s) = rs_usage s"
  "rs_limits (publish_deferred a reqs s) = rs_limits s"
  "rs_activeApprovals (publish_deferred a reqs s) = rs_activeApprovals s"
proof -
  let ?f = "fold (\<lambda>dr. emit a (DeferredRequested (dr_ToolCallID dr) (dr_ToolName dr) (dr_ArgsJSON dr))) reqs"
  have "rs_messages (?f s) = rs_messages s \<and> rs_usage (?f s) = rs_usage s \<and> rs_limits (?f s) = rs_limits s \<and>
      rs_activeApprovals (?f s) = rs_activeApprovals s"
    by (induction reqs arbitrary: s) auto
  then show "rs_messages (publish_deferred a reqs s) = rs_messages s" "rs_usage (publish_deferred a reqs s) = rs_usage s"
    "rs_limits (publish_deferred a reqs s) = rs_limits s"
    "rs_activeApprovals (publish_deferred a reqs s) = rs_activeApprovals s"
    by (auto simp: publish_deferred_def)
qed

section \<open>The response of a turn\<close>

text \<open>How the history grows from the response on, by outcome.\<close>

definition answered_history :: "model_message list \<Rightarrow> model_response \<Rightarrow> request_part list \<Rightarrow> model_message list" where
  "answered_history ms resp parts = ms @ [ModelResponse resp] @ (if parts = [] then [] else [ModelRequest parts])"

lemma conclude_turn_effect:
  assumes "conclude_turn a resp (result, parts, deferred) s w = (out, s', w')"
    and "rs_messages s = ms @ [ModelResponse resp]"
  shows "rs_messages s' = answered_history ms resp parts \<and> rs_usage s' = rs_usage s \<and> rs_limits s' = rs_limits s \<and>
    rs_activeApprovals s' = rs_activeApprovals s \<and>
    (out = StepContinue \<longrightarrow> result = None \<and> deferred = []) \<and>
    (\<forall>d m u. out = StepDeferred d m u \<longrightarrow> d = deferred \<and> d \<noteq> [] \<and> m = rs_messages s' \<and> u = rs_usage s') \<and>
    (\<forall>r. out = StepDone r \<longrightarrow> deferred = [] \<and> (\<exists>fr. result = Some fr \<and> res_Output r = fr_output fr) \<and>
       res_Messages r = rs_messages s' \<and> res_Usage r = rs_usage s')"
proof -
  define s1 where "s1 = (if parts \<noteq> [] then s\<lparr>rs_messages := rs_messages s @ [ModelRequest parts]\<rparr> else s)"
  have s1: "rs_messages s1 = answered_history ms resp parts" "rs_usage s1 = rs_usage s" "rs_limits s1 = rs_limits s"
      "rs_activeApprovals s1 = rs_activeApprovals s"
    using assms(2) by (auto simp: s1_def answered_history_def)
  show ?thesis
  proof (cases "deferred = []")
    case False
    with assms(1) have "out = StepDeferred deferred (rs_messages s1) (rs_usage s1)"
        "s' = publish_deferred a deferred (emitTurnCompleted a (Some resp) None s1)"
      by (auto simp: conclude_turn_def s1_def Let_def)
    with s1 False show ?thesis by simp
  next
    case True
    show ?thesis
    proof (cases result)
      case None
      with assms(1) True have "out = StepContinue" "s' = emitTurnCompleted a (Some resp) None s1"
        by (auto simp: conclude_turn_def s1_def Let_def)
      with s1 None True show ?thesis by simp
    next
      case (Some fr)
      obtain k w1 where k: "kb_store a resp w = (k, w1)" by fastforce
      obtain r w2 where r: "buildRunResult a (emitTurnCompleted a (Some resp) None s1) (fr_output fr) w1 = (r, w2)" by fastforce
      then have r': "res_Output r = fr_output fr" "res_Messages r = rs_messages s1" "res_Usage r = rs_usage s1"
        by (auto simp: buildRunResult_def split: prod.splits)
      show ?thesis
      proof (cases k)
        case None
        with assms(1) True Some k r have "out = StepDone r" "s' = emitTurnCompleted a (Some resp) None s1"
          by (auto simp: conclude_turn_def s1_def Let_def)
        with s1 r' True Some show ?thesis by simp
      next
        case k': (Some err)
        with assms(1) True Some k have "out = StepFailed err" "s' = emitTurnCompleted a (Some resp) (Some err) s1"
          by (auto simp: conclude_turn_def s1_def Let_def)
        with s1 show ?thesis by simp
      qed
    qed
  qed
qed

text \<open>
  The outcomes of a response. \<open>stopped\<close> tells whether a run condition ended the run, which skips the
  tool calls.
\<close>

lemma handle_response_effect:
  assumes hr: "handle_response e resp s w = (out, s', w')" and ms: "rs_messages s = ms @ [ModelResponse resp]"
    and ap: "0 \<le> rs_activeApprovals s"
  obtains stopped parts where
    "rs_messages s' = answered_history ms resp parts"
    "Requests (rs_usage s') = Requests (rs_usage s)" "rs_limits s' = rs_limits s"
    "rs_activeApprovals s' = rs_activeApprovals s"
    "\<And>limit. ToolCallsLimit (rs_limits s) = Some limit \<Longrightarrow> ToolCalls (rs_usage s) \<le> limit \<Longrightarrow> ToolCalls (rs_usage s') \<le> limit"
    "out = StepContinue \<Longrightarrow> parts \<noteq> [] \<and> set (resp_call_ids resp) \<subseteq> set (part_ids parts)"
    "\<And>d m u. out = StepDeferred d m u \<Longrightarrow> d \<noteq> [] \<and> m = rs_messages s' \<and> u = rs_usage s' \<and>
       mset (part_ids parts) + mset (map dr_ToolCallID d) = mset (resp_call_ids resp)"
    "\<And>r. out = StepDone r \<Longrightarrow> res_Messages r = rs_messages s' \<and> res_Usage r = rs_usage s' \<and>
       (ag_endStrategy (en_agent e) = EndStrategyExhaustive \<longrightarrow> \<not> stopped \<longrightarrow> resp_ToolCalls resp \<noteq> [] \<longrightarrow>
         mset (part_ids parts) = mset (resp_call_ids resp))"
    "stopped \<Longrightarrow> ag_runConditions (en_agent e) \<noteq> []"
proof -
  let ?a = "en_agent e"
  note conclude = that
  have failed: thesis if "out = StepFailed err" "s' = emitTurnCompleted ?a (Some resp) (Some err) s1"
      "kept s s1" "\<And>limit. ToolCallsLimit (rs_limits s) = Some limit \<Longrightarrow> ToolCalls (rs_usage s) \<le> limit \<Longrightarrow>
        ToolCalls (rs_usage s1) \<le> limit" for err s1
    by (rule conclude [of "[]" False]) (use that ms in \<open>auto simp: answered_history_def kept_def\<close>)
  show ?thesis
  proof (cases "if HasTokenLimits (en_limits e) then CheckTokens (en_limits e) (rs_usage s) else None")
    case (Some err)
    with hr show ?thesis by (intro failed [of err s]) (auto simp: handle_response_def Let_def)
  next
    case None
    obtain c w1 where c: "stop_reason (ag_runConditions ?a) (buildRunContext s (en_deps e) (en_prompt e)) resp w = (c, w1)"
      by fastforce
    show ?thesis
    proof (cases c)
      case (Some reason)
      with c have rc: "ag_runConditions ?a \<noteq> []" by auto
      from hr None c Some have st: "stop_turn ?a resp reason s w1 = (out, s', w')"
        by (simp add: handle_response_def Let_def)
      show ?thesis
      proof (cases "stopped_output ?a resp")
        case so: None
        with st show ?thesis by (intro failed [of "RunConditionError reason" s]) (auto simp: stop_turn_def)
      next
        case so: (Some o1)
        let ?s1 = "emitTurnCompleted ?a (Some resp) None s"
        obtain r w2 where r: "buildRunResult ?a ?s1 o1 w1 = (r, w2)" by fastforce
        then have r': "res_Messages r = rs_messages s" "res_Usage r = rs_usage s"
          by (auto simp: buildRunResult_def split: prod.splits)
        from st so r have "out = StepDone r" "s' = ?s1" by (auto simp: stop_turn_def Let_def)
        with r' rc ms show ?thesis by (intro that [of "[]" True]) (auto simp: answered_history_def)
      qed
    next
      case cn: None
      obtain p s1 w2 where p: "processResponse ?a resp (en_toolMap e) (en_outputToolNames e) (en_deps e) (en_prompt e) s w1 = (p, s1, w2)"
        by (metis prod_cases3)
      note ef = processResponse_effect [OF p ap]
      note k = ef(1)
      show ?thesis
      proof (cases p)
        case (Inl err)
        with hr None c cn p k ef(4) show ?thesis
          by (intro failed [of err s1]) (auto simp: handle_response_def Let_def)
      next
        case (Inr x)
        obtain result parts deferred where x: "x = (result, parts, deferred)" by (cases x)
        from hr None c cn p Inr x have cc: "conclude_turn ?a resp (result, parts, deferred) s1 w2 = (out, s', w')"
          by (simp add: handle_response_def Let_def)
        have "rs_messages s1 = ms @ [ModelResponse resp]" using k ms by (simp add: kept_def)
        note ce = conclude_turn_effect [OF cc this]
        have nd: "deferred \<noteq> [] \<Longrightarrow> resp_ToolCalls resp \<noteq> []"
          using processResponse_no_calls [OF p [unfolded Inr x]] by blast
        show ?thesis
        proof (rule that [of parts False])
          show "rs_messages s' = answered_history ms resp parts" using ce by simp
          show "Requests (rs_usage s') = Requests (rs_usage s)" "rs_limits s' = rs_limits s"
            "rs_activeApprovals s' = rs_activeApprovals s" using ce k by (simp_all add: kept_def)
          show "ToolCalls (rs_usage s') \<le> limit"
            if "ToolCallsLimit (rs_limits s) = Some limit" "ToolCalls (rs_usage s) \<le> limit" for limit
            using ef(4) [OF that] ce by simp
          show "parts \<noteq> [] \<and> set (resp_call_ids resp) \<subseteq> set (part_ids parts)" if "out = StepContinue"
            using ef(3) [of parts] ce that Inr x by auto
          show "d \<noteq> [] \<and> m = rs_messages s' \<and> u = rs_usage s' \<and>
             mset (part_ids parts) + mset (map dr_ToolCallID d) = mset (resp_call_ids resp)"
            if "out = StepDeferred d m u" for d m u
          proof -
            from ce that have d: "d = deferred" "d \<noteq> []" "m = rs_messages s'" "u = rs_usage s'" by blast+
            with ef(2) [of result parts deferred] Inr x nd show ?thesis by blast
          qed
          show "res_Messages r = rs_messages s' \<and> res_Usage r = rs_usage s' \<and>
             (ag_endStrategy ?a = EndStrategyExhaustive \<longrightarrow> \<not> False \<longrightarrow> resp_ToolCalls resp \<noteq> [] \<longrightarrow>
               mset (part_ids parts) = mset (resp_call_ids resp))" if "out = StepDone r" for r
          proof -
            from ce that have d: "deferred = []" "res_Messages r = rs_messages s'" "res_Usage r = rs_usage s'" by blast+
            with ef(2) [of result parts deferred] Inr x show ?thesis by simp
          qed
        qed simp
      qed
    qed
  qed
qed

section \<open>Turns\<close>

text \<open>What a turn that does not end the run makes of the state.\<close>

definition advanced :: "('w, 't) turn_engine \<Rightarrow> run_state \<Rightarrow> run_state \<Rightarrow> bool" where
  "advanced e s s' \<longleftrightarrow> rs_limits s' = rs_limits s \<and> rs_activeApprovals s' = rs_activeApprovals s \<and>
     Requests (rs_usage s) \<le> Requests (rs_usage s') \<and>
     (\<forall>n. RequestLimit (en_limits e) = Some n \<longrightarrow> Requests (rs_usage s') \<le> max n (Requests (rs_usage s))) \<and>
     (\<forall>n. ToolCallsLimit (rs_limits s) = Some n \<longrightarrow> ToolCalls (rs_usage s) \<le> n \<longrightarrow> ToolCalls (rs_usage s') \<le> n) \<and>
     (compaction_ok (en_agent e) \<longrightarrow> closed_history (rs_messages s) \<longrightarrow> closed_history (rs_messages s'))"

lemma advanced_refl [simp]: "advanced e s s"
  by (simp add: advanced_def)

lemma advanced_trans: "advanced e s s' \<Longrightarrow> advanced e s' s'' \<Longrightarrow> advanced e s s''"
  by (fastforce simp: advanced_def)

lemma check_limits_None:
  assumes "check_limits e s w = None"
  shows "RequestLimit (en_limits e) = Some n \<Longrightarrow> Requests (rs_usage s) < n"
    and "ToolCallsLimit (en_limits e) = Some m \<Longrightarrow> ToolCalls (rs_usage s) \<le> m"
  using assms
  by (auto simp: check_limits_def CheckBeforeRequest_def CheckToolCalls_def split: option.splits if_splits)

lemma turn_cases:
  assumes t: "turn e s st w = (out, s', st', w')" and ap: "0 \<le> rs_activeApprovals s"
  obtains (failed) err where "out = Some (None, StepFailed err)" "same_counts s s'"
  | (dropped) "out = None" "Requests (rs_usage s') = Requests (rs_usage s) + 1" "advanced e s s'"
  | (answered) resp o1 s1 s2 w2 where "out = Some (Some resp, o1)" "advanced e s s1"
      "Requests (rs_usage s1) = Requests (rs_usage s) + 1" "s2 = accept_response (en_agent e) resp s1"
      "handle_response e resp s2 w2 = (o1, s', w')"
proof (cases "check_limits e s w")
  case (Some err)
  with t show thesis by (intro failed [of err]) (auto simp: turn_def Let_def)
next
  case None
  let ?a = "en_agent e"
  note lim = check_limits_None [OF None]
  obtain r s1 w1 where r: "request_turn e s st w = (r, s1, w1)" by (metis prod_cases3)
  note re = request_turn_effect [OF r]
  show thesis
  proof (cases r)
    case (Inl err)
    with t None r re show thesis by (intro failed [of err]) (auto simp: turn_def Let_def)
  next
    case (Inr resp0)
    obtain s2 w2 where u: "record_usage ?a resp0 s1 w1 = (s2, w2)" by fastforce
    note ue = record_usage_effect [OF u]
    obtain d resp w3 where i: "runResponseInterceptors (ag_responseInterceptors ?a) resp0 w2 = ((d, resp), w3)"
      by (metis prod.exhaust)
    have req: "Requests (rs_usage s2) = Requests (rs_usage s) + 1" using ue re by (simp add: same_counts_def)
    have adv: "advanced e s s2" using ue re lim by (auto simp: advanced_def same_counts_def)
    show thesis
    proof (cases d)
      case True
      with t None r Inr u i have "out = None" "s' = emitTurnCompleted ?a (Some resp) None s2" by (auto simp: turn_def Let_def)
      with req adv show thesis by (intro dropped) (auto simp: advanced_def)
    next
      case False
      obtain o1 s4 w4 where h: "handle_response e resp (accept_response ?a resp s2) w3 = (o1, s4, w4)" by (metis prod_cases3)
      with t None r Inr u i False have "out = Some (Some resp, o1)" "s4 = s'" "w4 = w'" by (auto simp: turn_def Let_def)
      with req adv h show thesis by (intro answered [of resp o1 s2 _ w3]) auto
    qed
  qed
qed

text \<open>The history and the counters after a turn that the model answered.\<close>

lemma turn_answered:
  assumes t: "turn e s st w = (Some (Some resp, o1), s', st', w')" and ap: "0 \<le> rs_activeApprovals s"
  obtains ms parts stopped where
    "compaction_ok (en_agent e) \<Longrightarrow> closed_history (rs_messages s) \<Longrightarrow> closed_history ms"
    "rs_messages s' = answered_history ms resp parts" "Requests (rs_usage s') = Requests (rs_usage s) + 1"
    "o1 = StepContinue \<Longrightarrow> advanced e s s'"
    "\<And>n. ToolCallsLimit (rs_limits s) = Some n \<Longrightarrow> ToolCalls (rs_usage s) \<le> n \<Longrightarrow> ToolCalls (rs_usage s') \<le> n"
    "\<And>n. RequestLimit (en_limits e) = Some n \<Longrightarrow> Requests (rs_usage s') \<le> max n (Requests (rs_usage s))"
    "\<And>d m u. o1 = StepDeferred d m u \<Longrightarrow> d \<noteq> [] \<and> m = rs_messages s' \<and> u = rs_usage s' \<and>
       mset (part_ids parts) + mset (map dr_ToolCallID d) = mset (resp_call_ids resp)"
    "\<And>r. o1 = StepDone r \<Longrightarrow> res_Messages r = rs_messages s' \<and> res_Usage r = rs_usage s' \<and>
       (ag_endStrategy (en_agent e) = EndStrategyExhaustive \<longrightarrow> \<not> stopped \<longrightarrow> resp_ToolCalls resp \<noteq> [] \<longrightarrow>
         mset (part_ids parts) = mset (resp_call_ids resp))"
    "stopped \<Longrightarrow> ag_runConditions (en_agent e) \<noteq> []"
  using t ap
proof (cases rule: turn_cases)
  case (answered resp' o' s1 s2 w2)
  then have eqs: "resp' = resp" "o' = o1" by auto
  have adv: "advanced e s s1" and ap2: "0 \<le> rs_activeApprovals s2"
      and ms2: "rs_messages s2 = rs_messages s1 @ [ModelResponse resp]"
    using answered ap eqs by (auto simp: advanced_def)
  have hr: "handle_response e resp s2 w2 = (o1, s', w')" using answered eqs by simp
  have s2: "Requests (rs_usage s2) = Requests (rs_usage s) + 1" "rs_limits s2 = rs_limits s"
      "ToolCalls (rs_usage s2) = ToolCalls (rs_usage s1)" "rs_activeApprovals s2 = rs_activeApprovals s"
      "Requests (rs_usage s2) = Requests (rs_usage s1)"
    using answered adv by (auto simp: advanced_def)
  from hr ms2 ap2 show thesis
  proof (cases rule: handle_response_effect)
    case h: (1 stopped parts)
    have tools: "ToolCalls (rs_usage s') \<le> n" if "ToolCallsLimit (rs_limits s) = Some n" "ToolCalls (rs_usage s) \<le> n" for n
      using that h(5) s2 adv by (auto simp: advanced_def)
    have reqs: "Requests (rs_usage s') \<le> max n (Requests (rs_usage s))" if "RequestLimit (en_limits e) = Some n" for n
      using that h(2) s2 adv by (auto simp: advanced_def)
    have closed: "closed_history (rs_messages s1)" if "compaction_ok (en_agent e)" "closed_history (rs_messages s)"
      using adv that by (simp add: advanced_def)
    have adv': "advanced e s s'" if "o1 = StepContinue"
    proof -
      from h(1,6) that have "rs_messages s' = rs_messages s1 @ [ModelResponse resp, ModelRequest parts]"
          "set (resp_call_ids resp) \<subseteq> set (part_ids parts)" by (auto simp: answered_history_def)
      with closed have "compaction_ok (en_agent e) \<longrightarrow> closed_history (rs_messages s) \<longrightarrow> closed_history (rs_messages s')"
        by (auto intro: closed_history_turn)
      with tools reqs h s2 show ?thesis by (simp add: advanced_def)
    qed
    show thesis by (rule that [of "rs_messages s1" parts stopped]) (use closed h s2 adv' tools reqs in auto)
  qed
qed simp_all

section \<open>Steps and runs\<close>

lemma Step_last_turn:
  fixes e :: "('w, 't) turn_engine"
  assumes st: "Step e s st w = Some (out, s', st', w')" and ap: "0 \<le> rs_activeApprovals s"
  shows "\<exists>s0 st0 w0. advanced e s s0 \<and> turn e s0 st0 w0 = (Some out, s', st', w')"
proof -
  let ?P = "\<lambda>e s st w y. 0 \<le> rs_activeApprovals s \<longrightarrow> (\<exists>s0 st0 w0. advanced e s s0 \<and>
      turn e s0 st0 w0 = (case y of (out, s', st', w') \<Rightarrow> (Some out, s', st', w')))"
  have "?P e s st w (out, s', st', w')"
  proof (rule Step.raw_induct [where P = ?P, OF _ st], intro impI)
    fix rec and e :: "('w, 't) turn_engine" and s st w y
    assume IH: "\<And>e s st w y. rec e s st w = Some y \<Longrightarrow> ?P e s st w y"
      and eq: "(case turn e s st w of (None, s, st, w) \<Rightarrow> rec e s st w | (Some out, s, st, w) \<Rightarrow> Some (out, s, st, w)) = Some y"
      and ap: "0 \<le> rs_activeApprovals s"
    obtain out1 s1 st1 w1 where t: "turn e s st w = (out1, s1, st1, w1)" by (metis prod_cases4)
    show "\<exists>s0 st0 w0. advanced e s s0 \<and> turn e s0 st0 w0 = (case y of (out, s', st', w') \<Rightarrow> (Some out, s', st', w'))"
    proof (cases out1)
      case (Some o1)
      with eq t have "y = (o1, s1, st1, w1)" by simp
      with t Some show ?thesis by (intro exI [of _ s] exI [of _ st] exI [of _ w]) simp
    next
      case None
      from t ap have adv: "advanced e s s1" using None by (cases rule: turn_cases) auto
      then have "0 \<le> rs_activeApprovals s1" using ap by (simp add: advanced_def)
      moreover have "rec e s1 st1 w1 = Some y" using eq t None by simp
      ultimately obtain s0 st0 w0 where "advanced e s1 s0"
          "turn e s0 st0 w0 = (case y of (out, s', st', w') \<Rightarrow> (Some out, s', st', w'))" using IH by blast
      with advanced_trans [OF adv] show ?thesis by blast
    qed
  qed
  with ap show ?thesis by simp
qed

definition ends_run :: "'t step_outcome \<Rightarrow> 't run_outcome option" where
  "ends_run o1 = (case o1 of
     StepFailed err \<Rightarrow> Some (RunFailed err) | StepDeferred d m u \<Rightarrow> Some (RunDeferred d m u)
   | StepDone r \<Rightarrow> Some (RunDone r) | StepContinue \<Rightarrow> None)"

lemma run_steps_unfold:
  "run_steps e s st w = Option.bind (Step e s st w) (\<lambda>((_, o1), s, st, w).
     case ends_run o1 of Some out \<Rightarrow> Some (out, s, w) | None \<Rightarrow> run_steps e s st w)"
  by (subst run_steps.simps, rule arg_cong [of _ _ "Option.bind (Step e s st w)"])
    (auto simp: fun_eq_iff ends_run_def split: step_outcome.split)

text \<open>A run that returns is a number of advancing turns and a last one.\<close>

lemma run_steps_last_turn:
  fixes e :: "('w, 't) turn_engine"
  assumes st: "run_steps e s st w = Some (out, s', w')" and ap: "0 \<le> rs_activeApprovals s"
  shows "\<exists>s0 st0 w0 resp o1 st'. advanced e s s0 \<and> turn e s0 st0 w0 = (Some (resp, o1), s', st', w') \<and>
    ends_run o1 = Some out"
proof -
  let ?P = "\<lambda>e s st w y. 0 \<le> rs_activeApprovals s \<longrightarrow> (\<exists>s0 st0 w0 resp o1 st'. advanced e s s0 \<and>
      turn e s0 st0 w0 = (Some (resp, o1), fst (snd y), st', snd (snd y)) \<and> ends_run o1 = Some (fst y))"
  have "?P e s st w (out, s', w')"
  proof (rule run_steps.raw_induct [where P = ?P, OF _ st], intro impI)
    fix rec and e :: "('w, 't) turn_engine" and s st w y
    assume IH: "\<And>e s st w y. rec e s st w = Some y \<Longrightarrow> ?P e s st w y"
      and eq: "Option.bind (Step e s st w) (\<lambda>((_, out), s, st, w).
          case out of StepFailed err \<Rightarrow> Some (RunFailed err, s, w)
          | StepDeferred reqs ms u \<Rightarrow> Some (RunDeferred reqs ms u, s, w)
          | StepDone r \<Rightarrow> Some (RunDone r, s, w) | StepContinue \<Rightarrow> rec e s st w) = Some y"
      and ap: "0 \<le> rs_activeApprovals s"
    from eq obtain resp o1 s1 st1 w1 where step: "Step e s st w = Some ((resp, o1), s1, st1, w1)"
      by (cases "Step e s st w") auto
    from Step_last_turn [OF step ap] obtain s0 st0 w0 where a: "advanced e s s0"
        and t: "turn e s0 st0 w0 = (Some (resp, o1), s1, st1, w1)" by blast
    have ap0: "0 \<le> rs_activeApprovals s0" using a ap by (simp add: advanced_def)
    show "\<exists>s0 st0 w0 resp o1 st'. advanced e s s0 \<and>
      turn e s0 st0 w0 = (Some (resp, o1), fst (snd y), st', snd (snd y)) \<and> ends_run o1 = Some (fst y)"
    proof (cases "o1 = StepContinue")
      case False
      with eq step have "y = (the (ends_run o1), s1, w1)" "ends_run o1 \<noteq> None"
        by (cases o1; auto simp: ends_run_def)+
      with a t show ?thesis by (intro exI conjI) auto
    next
      case True
      from t ap0 have "resp \<noteq> None" using True by (cases rule: turn_cases) auto
      then obtain r where r: "resp = Some r" by auto
      from t [unfolded r] ap0 have "advanced e s0 s1" using True by (cases rule: turn_answered) auto
      with a have adv: "advanced e s s1" by (rule advanced_trans)
      then have "0 \<le> rs_activeApprovals s1" using ap by (simp add: advanced_def)
      moreover have "rec e s1 st1 w1 = Some y" using eq step True by simp
      ultimately obtain s2 st2 w2 resp o1 st' where "advanced e s1 s2"
          "turn e s2 st2 w2 = (Some (resp, o1), fst (snd y), st', snd (snd y))" "ends_run o1 = Some (fst y)"
        using IH by blast
      with advanced_trans [OF adv] show ?thesis by blast
    qed
  qed
  with ap show ?thesis by simp
qed

section \<open>Runs return\<close>

text \<open>A bound on the requests: the limit of the run, or the quota of the agent.\<close>

definition request_bound :: "('w, 't) turn_engine \<Rightarrow> int \<Rightarrow> bool" where
  "request_bound e n \<longleftrightarrow> RequestLimit (en_limits e) = Some n \<or>
     (\<exists>q. ag_usageQuota (en_agent e) = Some q \<and> MaxRequests q = n \<and> 0 < n)"

lemma request_bound_stops:
  assumes "request_bound e n" and "n \<le> Requests (rs_usage s)"
  shows "check_limits e s w \<noteq> None"
  using assms
  by (auto simp: request_bound_def check_limits_def CheckBeforeRequest_def checkQuota_def split: option.splits if_splits)

lemma bounded_turn_decreases:
  assumes "request_bound e n" and "turn e s st w = (out, s', st', w')" and "0 \<le> rs_activeApprovals s"
    and "out = None \<or> (\<exists>r. out = Some (r, StepContinue))"
  shows "nat (n - Requests (rs_usage s')) < nat (n - Requests (rs_usage s)) \<and> advanced e s s'"
proof -
  have "check_limits e s w = None" using assms(2,4) by (auto simp: turn_def Let_def split: option.splits)
  with request_bound_stops [OF assms(1), of s w] have lt: "Requests (rs_usage s) < n" by (cases "n \<le> Requests (rs_usage s)") auto
  have "Requests (rs_usage s') = Requests (rs_usage s) + 1 \<and> advanced e s s'"
    using assms(2,3)
  proof (cases rule: turn_cases)
    case (answered resp o1 s1 s2 w2)
    then have "o1 = StepContinue" using assms(4) by auto
    from assms(2) [unfolded answered(1)] assms(3) show ?thesis
      by (cases rule: turn_answered) (use \<open>o1 = StepContinue\<close> in auto)
  qed (use assms(4) in auto)
  with lt show ?thesis by simp
qed

lemma Step_returns:
  assumes "request_bound e n" and "0 \<le> rs_activeApprovals s"
  shows "\<exists>y. Step e s st w = Some y"
  using assms(2)
proof (induction "nat (n - Requests (rs_usage s))" arbitrary: s st w rule: less_induct)
  case less
  obtain out s1 st1 w1 where t: "turn e s st w = (out, s1, st1, w1)" by (metis prod_cases4)
  show ?case
  proof (cases out)
    case (Some o1)
    with t show ?thesis by (simp add: Step.simps [of e s])
  next
    case None
    from bounded_turn_decreases [OF assms(1) t less.prems] None
    have d: "nat (n - Requests (rs_usage s1)) < nat (n - Requests (rs_usage s))" and a: "advanced e s s1" by auto
    have "0 \<le> rs_activeApprovals s1" using a less.prems by (simp add: advanced_def)
    from less.hyps [OF d this, of st1 w1] t None show ?thesis by (simp add: Step.simps [of e s])
  qed
qed

lemma run_steps_returns:
  assumes "request_bound e n" and "0 \<le> rs_activeApprovals s"
  shows "\<exists>y. run_steps e s st w = Some y"
  using assms(2)
proof (induction "nat (n - Requests (rs_usage s))" arbitrary: s st w rule: less_induct)
  case less
  from Step_returns [OF assms(1) less.prems] obtain resp o1 s1 st1 w1
    where step: "Step e s st w = Some ((resp, o1), s1, st1, w1)" by (metis prod.exhaust)
  show ?case
  proof (cases "ends_run o1")
    case (Some out)
    with step show ?thesis by (simp add: run_steps_unfold [of e s])
  next
    case None
    then have o1: "o1 = StepContinue" by (auto simp: ends_run_def split: step_outcome.splits)
    from Step_last_turn [OF step less.prems] obtain s0 st0 w0 where a: "advanced e s s0"
      and t: "turn e s0 st0 w0 = (Some (resp, o1), s1, st1, w1)" by blast
    have ap0: "0 \<le> rs_activeApprovals s0" using a less.prems by (simp add: advanced_def)
    from bounded_turn_decreases [OF assms(1) t ap0] o1
    have d: "nat (n - Requests (rs_usage s1)) < nat (n - Requests (rs_usage s0))" and a1: "advanced e s0 s1" by auto
    have "nat (n - Requests (rs_usage s0)) \<le> nat (n - Requests (rs_usage s))" using a by (simp add: advanced_def nat_mono)
    with d have "nat (n - Requests (rs_usage s1)) < nat (n - Requests (rs_usage s))" by (rule less_le_trans)
    moreover have "0 \<le> rs_activeApprovals s1" using a1 ap0 by (simp add: advanced_def)
    ultimately show ?thesis using less.hyps [of s1 st1 w1] step None by (simp add: run_steps_unfold [of e s])
  qed
qed

end
