(* ===== verification/Core_Scenario.thy ===== *)
theory Core_Scenario
  imports Core_Loop
begin

text \<open>
  A concrete agent for the instances of the properties: its output is a string, the world counts
  model requests, and the model is a script of responses. It has one function tool and one output
  tool.
\<close>

section \<open>An agent over a scripted model\<close>

definition demo_codec :: "string codec" where
  "demo_codec = \<lparr>json_wrapper = (\<lambda>_. Inr fmempty), json_output = (\<lambda>s. Inr s), json_arguments = (\<lambda>_. Inr fmempty),
     json_marshal = (\<lambda>_. Inr []), text_as_output = (\<lambda>s. Some s), type_name = ''string''\<rparr>"

definition demo_sched :: "nat scheduling" where
  "demo_sched = \<lparr>ctx_Err = (\<lambda>_. None), batch_order = (\<lambda>is _. is), sem_refused = (\<lambda>_ _. False)\<rparr>"

definition demo_def :: "string \<Rightarrow> tool_definition" where
  "demo_def n = \<lparr>def_Name = n, def_Description = [], def_ParametersSchema = AnyNil, def_Kind = ToolKindFunction,
     def_Strict = None, def_Sequential = False, def_ConcurrencySafe = True, def_OuterTypedDictKey = [],
     def_DeferLoading = False, def_Namespace = []\<rparr>"

definition demo_tool :: "string \<Rightarrow> handler_outcome \<Rightarrow> nat tool" where
  "demo_tool n out = \<lparr>tool_Definition = demo_def n, tool_Handler = (\<lambda>_ _ _ w. (out, w)), tool_MaxRetries = None,
     tool_RequiresApproval = False, tool_PrepareFunc = None, tool_ResultValidator = None, tool_Timeout = 0,
     tool_Stateful = None\<rparr>"

definition demo_call :: "string \<Rightarrow> string \<Rightarrow> tool_call" where
  "demo_call n i = \<lparr>tc_ToolName = n, tc_ArgsJSON = ''{}'', tc_ToolCallID = i, tc_Metadata = fmempty\<rparr>"

definition demo_response :: "response_part list \<Rightarrow> model_response" where
  "demo_response ps = \<lparr>resp_Parts = ps, resp_Usage = zero_usage, resp_ModelName = [], resp_FinishReason = FinishReasonStop\<rparr>"

definition scripted :: "response_part list list \<Rightarrow> nat request_func" where
  "scripted script ms settings params w =
     (if w < length script then (Inr (demo_response (script ! w)), w + 1)
      else (Inl (ErrorString ''end of script''), w + 1))"

definition no_limits :: usage_limits where
  "no_limits = \<lparr>RequestLimit = None, InputTokensLimit = None, OutputTokensLimit = None, TotalTokensLimit = None,
     ToolCallsLimit = None\<rparr>"

definition demo_agent :: "response_part list list \<Rightarrow> nat tool list \<Rightarrow> end_strategy \<Rightarrow> (nat, string) agent" where
  "demo_agent script tools strategy = \<lparr>ag_model = scripted script, ag_modelName = ''demo'', ag_systemPrompts = [],
     ag_dynamicSystemPrompts = [], ag_historyProcessors = [], ag_usageLimits = DefaultUsageLimits\<lparr>ToolCallsLimit := Some 5\<rparr>,
     ag_modelSettings = None, ag_knowledgeBase = None, ag_kbAutoStore = False, ag_toolsPrepareFunc = None,
     ag_inputGuardrails = [], ag_turnGuardrails = [], ag_runConditions = [], ag_deps = AnyNil,
     ag_usageQuota = None, ag_messageInterceptors = [], ag_responseInterceptors = [], ag_costTracker = None,
     ag_autoContext = None, ag_middleware = [], ag_toolChoice = None, ag_toolChoiceAutoReset = False,
     ag_valueText = \<lparr>vt_Marshal = (\<lambda>_. Inr []), vt_Sprint = (\<lambda>_. [])\<rparr>,
     ag_tools = tools, ag_toolsets = [],
     ag_outputSchema = \<lparr>os_Mode = OutputModeTool, os_OutputTools = [demo_def ''final_result''], os_AllowsText = True,
       os_OuterTypedDictKey = [], os_OutputObject = None\<rparr>,
     ag_outputValidators = [], ag_repairFunc = NoRepair, ag_maxRetries = 1, ag_endStrategy = strategy,
     ag_toolApprovalFunc = None, ag_maxConcurrency = 0, ag_globalToolResultValidators = [],
     ag_defaultToolTimeout = 0, ag_eventBus = True, ag_truncationConfig = None, ag_codec = demo_codec,
     ag_sched = demo_sched\<rparr>"

lemma demo_agent_simps [simp]:
  "ag_model (demo_agent sc ts es) = scripted sc" "ag_modelName (demo_agent sc ts es) = ''demo''"
  "ag_systemPrompts (demo_agent sc ts es) = []" "ag_dynamicSystemPrompts (demo_agent sc ts es) = []"
  "ag_historyProcessors (demo_agent sc ts es) = []"
  "ag_usageLimits (demo_agent sc ts es) = DefaultUsageLimits\<lparr>ToolCallsLimit := Some 5\<rparr>"
  "ag_modelSettings (demo_agent sc ts es) = None" "ag_knowledgeBase (demo_agent sc ts es) = None"
  "ag_kbAutoStore (demo_agent sc ts es) = False" "ag_toolsPrepareFunc (demo_agent sc ts es) = None"
  "ag_inputGuardrails (demo_agent sc ts es) = []" "ag_turnGuardrails (demo_agent sc ts es) = []"
  "ag_runConditions (demo_agent sc ts es) = []" "ag_deps (demo_agent sc ts es) = AnyNil"
  "ag_usageQuota (demo_agent sc ts es) = None" "ag_messageInterceptors (demo_agent sc ts es) = []"
  "ag_responseInterceptors (demo_agent sc ts es) = []" "ag_costTracker (demo_agent sc ts es) = None"
  "ag_autoContext (demo_agent sc ts es) = None" "ag_middleware (demo_agent sc ts es) = []"
  "ag_toolChoice (demo_agent sc ts es) = None" "ag_toolChoiceAutoReset (demo_agent sc ts es) = False"
  "ag_tools (demo_agent sc ts es) = ts" "ag_toolsets (demo_agent sc ts es) = []"
  "ag_outputSchema (demo_agent sc ts es) = \<lparr>os_Mode = OutputModeTool, os_OutputTools = [demo_def ''final_result''],
     os_AllowsText = True, os_OuterTypedDictKey = [], os_OutputObject = None\<rparr>"
  "ag_outputValidators (demo_agent sc ts es) = []" "ag_repairFunc (demo_agent sc ts es) = NoRepair"
  "ag_maxRetries (demo_agent sc ts es) = 1" "ag_endStrategy (demo_agent sc ts es) = es"
  "ag_toolApprovalFunc (demo_agent sc ts es) = None" "ag_maxConcurrency (demo_agent sc ts es) = 0"
  "ag_globalToolResultValidators (demo_agent sc ts es) = []" "ag_defaultToolTimeout (demo_agent sc ts es) = 0"
  "ag_eventBus (demo_agent sc ts es)" "ag_truncationConfig (demo_agent sc ts es) = None"
  "ag_codec (demo_agent sc ts es) = demo_codec" "ag_sched (demo_agent sc ts es) = demo_sched"
  by (simp_all add: demo_agent_def)

definition demo_config :: run_config where
  "demo_config = \<lparr>cfg_deps = AnyNil, cfg_modelSettings = None, cfg_usageLimits = None, cfg_messages = [],
     cfg_snapshot = None, cfg_initialRequestParts = [], cfg_deferredResults = [], cfg_toolState = fmempty,
     cfg_steerQueue = False\<rparr>"

definition add_tool :: "nat tool" where
  "add_tool = demo_tool ''add'' (HandlerReturned (PlainResult (AnyString ''3'')))"

definition ask_tool :: "nat tool" where
  "ask_tool = demo_tool ''ask'' (HandlerFailed (CallDeferred ''needs a human''))"

abbreviation add_then_final :: "response_part list list" where
  "add_then_final \<equiv> [[ToolCallPart (demo_call ''add'' ''c1'')], [ToolCallPart (demo_call ''final_result'' ''c2'')]]"

declare Step.simps [code] run_steps.simps [code]

lemma demo_run:
  "(case Run (demo_agent add_then_final [add_tool] EndStrategyExhaustive) ''run'' [] 1 ''go'' demo_config 0 of
     Some (RunDone r, Some s, w) \<Rightarrow> res_Output r = ''{}'' \<and> length (res_Messages r) = 5 \<and> w = 2 \<and> Requests (rs_usage s) = 2
   | _ \<Rightarrow> False)"
  by code_simp

end
