(* ===== verification/Core_Properties.thy ===== *)
theory Core_Properties
  imports Core_Scenario
begin

text \<open>
  The properties of the agent loop, over every agent configuration, model, tool and schedule.
\<close>

section \<open>Shared facts\<close>

text \<open>A history in which no tool call is without its result: providers accept it as a prefix of a conversation.\<close>

definition complete_history :: "model_message list \<Rightarrow> bool" where
  "complete_history ms \<longleftrightarrow> alternates False ms \<and> paired ms \<and>
     (\<forall>r. ms \<noteq> [] \<longrightarrow> last ms = ModelResponse r \<longrightarrow> resp_ToolCalls r = [])"

lemma complete_answered:
  assumes "closed_history ms" and "parts = [] \<Longrightarrow> resp_ToolCalls resp = []"
    and "set (resp_call_ids resp) \<subseteq> set (part_ids parts)"
  shows "complete_history (answered_history ms resp parts)"
proof -
  have c: "closed_history (ms @ [ModelResponse resp, ModelRequest parts])"
    by (rule closed_history_turn [OF assms(1,3)])
  then have a: "alternates False (ms @ [ModelResponse resp])"
    by (simp add: closed_history_def alternates_append)
  have p: "paired (ms @ [ModelResponse resp])"
    using assms(1) by (intro paired_snoc_response) (auto simp: closed_history_def)
  show ?thesis
  proof (cases "parts = []")
    case True
    with a p assms(2) show ?thesis by (auto simp: complete_history_def answered_history_def)
  next
    case False
    with c show ?thesis by (auto simp: complete_history_def answered_history_def closed_history_def)
  qed
qed

text \<open>
  The messages a run may be started with: none; a complete history that ends with a response; or, when
  results of deferred calls are handed in, a history that they complete.
\<close>

definition resumable :: "deferred_result list \<Rightarrow> model_message list \<Rightarrow> bool" where
  "resumable results ms \<longleftrightarrow>
     (if results \<noteq> [] \<and> ms \<noteq> [] then closed_history (inject_parts (map deferred_part results) ms)
      else ms \<noteq> [] \<longrightarrow> complete_history ms \<and> is_response (last ms))"

lemma complete_prompted:
  assumes "complete_history ms" and "is_response (last ms)" and "ms \<noteq> []"
  shows "closed_history (ms @ [ModelRequest ps])"
proof -
  obtain ms' r where ms: "ms = ms' @ [ModelResponse r]"
    using assms(2,3) by (cases ms rule: rev_cases; cases "last ms") (auto simp: is_response_def)
  with assms(1) have "alternates False (ms' @ [ModelResponse r])" "paired (ms' @ [ModelResponse r])" "resp_ToolCalls r = []"
    by (auto simp: complete_history_def)
  with paired_snoc_answer [of ms' r ps] show ?thesis
    by (simp add: ms closed_history_def alternates_append resp_call_ids_def is_response_def)
qed

abbreviation run_limits :: "('w, 't) agent \<Rightarrow> run_config \<Rightarrow> usage_limits" where
  "run_limits a cfg \<equiv> (case cfg_usageLimits cfg of None \<Rightarrow> ag_usageLimits a | Some l \<Rightarrow> l)"

lemma initial_state_frame [simp]:
  "rs_activeApprovals (initial_state a i p now cfg) = 0"
  "rs_limits (initial_state a i p now cfg) = run_limits a cfg"
  "cfg_messages cfg = [] \<Longrightarrow> cfg_snapshot cfg = None \<Longrightarrow> rs_messages (initial_state a i p now cfg) = []"
  "cfg_snapshot cfg = None \<Longrightarrow> rs_usage (initial_state a i p now cfg) = zero_run_usage"
  by (auto simp: initial_state_def Let_def newRunState_def applySnapshot_def split: option.splits)

lemma publish_resolved_frame [simp]:
  "rs_messages (publish_resolved a rs s) = rs_messages s" "rs_usage (publish_resolved a rs s) = rs_usage s"
  "rs_limits (publish_resolved a rs s) = rs_limits s" "rs_activeApprovals (publish_resolved a rs s) = rs_activeApprovals s"
proof -
  let ?f = "fold (\<lambda>dr. emit a (DeferredResolved (dres_ToolCallID dr) (dres_ToolName dr) (dres_Content dr) (dres_IsError dr))) rs"
  have "rs_messages (?f s) = rs_messages s \<and> rs_usage (?f s) = rs_usage s \<and> rs_limits (?f s) = rs_limits s \<and>
      rs_activeApprovals (?f s) = rs_activeApprovals s" for s
    by (induction rs arbitrary: s) auto
  then show "rs_messages (publish_resolved a rs s) = rs_messages s" "rs_usage (publish_resolved a rs s) = rs_usage s"
    "rs_limits (publish_resolved a rs s) = rs_limits s" "rs_activeApprovals (publish_resolved a rs s) = rs_activeApprovals s"
    by (auto simp: publish_resolved_def)
qed

lemma beginRun_frame [simp]:
  "rs_messages (beginRun a p s) = rs_messages s" "rs_usage (beginRun a p s) = rs_usage s"
  "rs_limits (beginRun a p s) = rs_limits s" "rs_activeApprovals (beginRun a p s) = rs_activeApprovals s"
  by (simp_all add: beginRun_def)

lemma endRun_frame [simp]:
  "rs_messages (endRun a out s) = rs_messages s" "rs_usage (endRun a out s) = rs_usage s"
  by (simp_all add: endRun_def Let_def split: option.split)

lemma bootstrap_messages:
  assumes "bootstrapRunMessages a s prompt deps results parts w = (e, s', w')"
  shows "\<exists>ms. s' = s\<lparr>rs_messages := ms\<rparr> \<and> (resumable results (rs_messages s) \<longrightarrow> e = None \<longrightarrow> closed_history ms)"
proof (cases "results \<noteq> [] \<and> rs_messages s \<noteq> []")
  case True
  with assms show ?thesis
    by (intro exI [of _ "inject_parts (map deferred_part results) (rs_messages s)"])
      (auto simp: bootstrapRunMessages_def injectDeferredResults_def resumable_def)
next
  case False
  obtain r w1 where r: "buildInitialRequestWithDynamic a prompt s deps parts w = (r, w1)" by fastforce
  have req: "\<exists>ps. r = Inr m \<longrightarrow> m = ModelRequest ps" for m
    using r by (auto simp: buildInitialRequestWithDynamic_def split: prod.splits sum.splits)
  show ?thesis
  proof (cases r)
    case (Inl err)
    with assms False r show ?thesis
      by (intro exI [of _ "rs_messages s"]) (auto simp: bootstrapRunMessages_def)
  next
    case (Inr m)
    with req obtain ps where m: "m = ModelRequest ps" by blast
    have "closed_history (rs_messages s @ [m])" if "resumable results (rs_messages s)"
      using that False complete_prompted [of "rs_messages s" ps]
      by (cases "rs_messages s = []") (auto simp: m resumable_def closed_history_def)
    with assms False r Inr show ?thesis
      by (intro exI [of _ "rs_messages s @ [m]"]) (auto simp: bootstrapRunMessages_def)
  qed
qed

text \<open>The stages of \<^verbatim>\<open>Run\<close>: it fails early, or enters the loop in a prepared state.\<close>

lemma Run_cases:
  obtains (early) e s w' where "Run a i p now prompt cfg w = Some (RunFailed e, s, w')"
      "\<And>s'. s = Some s' \<Longrightarrow> rs_usage s' = rs_usage (initial_state a i p now cfg)"
  | (loop) s w1 prompt' deps settings where
      "Run a i p now prompt cfg w =
         map_option (\<lambda>(out, s, w). (out, Some (endRun a out s), w)) (runLoop a s prompt' settings (run_limits a cfg) deps w1)"
      "rs_usage s = rs_usage (initial_state a i p now cfg)" "rs_limits s = run_limits a cfg" "rs_activeApprovals s = 0"
      "resumable (cfg_deferredResults cfg) (rs_messages (initial_state a i p now cfg)) \<Longrightarrow> closed_history (rs_messages s)"
proof (cases "cfg_steerQueue cfg")
  case True
  then show thesis by (intro early) (auto simp: Run_def)
next
  case False
  obtain ex w1 where i: "initializeRunExecution a i p now cfg w = (ex, w1)" by fastforce
  then have ex: "ex_state ex = initial_state a i p now cfg" "ex_limits ex = run_limits a cfg"
    by (auto simp: initializeRunExecution_def Let_def)
  obtain g w2 where g: "applyInputGuardrails (ag_inputGuardrails a) prompt w1 = (g, w2)" by fastforce
  show thesis
  proof (cases g)
    case (Inl e)
    with False i g ex show thesis by (intro early [of e "Some (ex_state ex)" w2]) (auto simp: Run_def)
  next
    case (Inr prompt')
    obtain e s w3 where b: "bootstrapRunMessages a (ex_state ex) prompt' (ex_deps ex) (cfg_deferredResults cfg)
        (cfg_initialRequestParts cfg) w2 = (e, s, w3)" by (metis prod_cases3)
    from bootstrap_messages [OF b] obtain ms where s: "s = (ex_state ex)\<lparr>rs_messages := ms\<rparr>"
      "resumable (cfg_deferredResults cfg) (rs_messages (ex_state ex)) \<longrightarrow> e = None \<longrightarrow> closed_history ms" by blast
    show thesis
    proof (cases e)
      case (Some err)
      with False i g Inr b s ex show thesis by (intro early [of err "Some s" w3]) (auto simp: Run_def)
    next
      case None
      show thesis
      proof (rule loop [of "publish_resolved a (cfg_deferredResults cfg) (beginRun a prompt' s)" prompt' "ex_settings ex" "ex_deps ex" w3])
        show "Run a i p now prompt cfg w = map_option (\<lambda>(out, s, w). (out, Some (endRun a out s), w))
          (runLoop a (publish_resolved a (cfg_deferredResults cfg) (beginRun a prompt' s)) prompt' (ex_settings ex)
            (run_limits a cfg) (ex_deps ex) w3)"
          using False i g Inr b None ex by (auto simp: Run_def split: option.split)
      qed (use s ex None in auto)
    qed
  qed
qed

text \<open>What the last turn of a run shows about its outcome.\<close>

lemma runLoop_last:
  assumes "runLoop a s prompt st limits deps w = Some (out, s', w')" and "0 \<le> rs_activeApprovals s"
  obtains s0 st0 w0 resp o1 st' where "advanced (newTurnEngine a prompt limits deps) s s0"
    "turn (newTurnEngine a prompt limits deps) s0 st0 w0 = (Some (resp, o1), s', st', w')" "ends_run o1 = Some out"
    "0 \<le> rs_activeApprovals s0"
proof -
  from run_steps_last_turn [OF assms(1) [unfolded runLoop_def] assms(2)] obtain s0 st0 w0 resp o1 st' where
    a: "advanced (newTurnEngine a prompt limits deps) s s0"
      "turn (newTurnEngine a prompt limits deps) s0 st0 w0 = (Some (resp, o1), s', st', w')" "ends_run o1 = Some out" by blast
  with assms(2) have "0 \<le> rs_activeApprovals s0" by (simp add: advanced_def)
  with a show thesis by (rule that)
qed

lemma last_turn_counts:
  assumes "turn e s st w = (Some (resp, o1), s', st', w')" and "0 \<le> rs_activeApprovals s"
  shows "RequestLimit (en_limits e) = Some n \<Longrightarrow> Requests (rs_usage s') \<le> max n (Requests (rs_usage s))"
    and "ToolCallsLimit (rs_limits s) = Some m \<Longrightarrow> ToolCalls (rs_usage s) \<le> m \<Longrightarrow> ToolCalls (rs_usage s') \<le> m"
proof -
  have "(RequestLimit (en_limits e) = Some n \<longrightarrow> Requests (rs_usage s') \<le> max n (Requests (rs_usage s))) \<and>
    (ToolCallsLimit (rs_limits s) = Some m \<longrightarrow> ToolCalls (rs_usage s) \<le> m \<longrightarrow> ToolCalls (rs_usage s') \<le> m)"
  proof (cases resp)
    case None
    from assms(1) [unfolded None] assms(2) show ?thesis by (cases rule: turn_cases) (auto simp: same_counts_def)
  next
    case (Some r)
    from assms(1) [unfolded Some] assms(2) show ?thesis by (cases rule: turn_answered) auto
  qed
  then show "RequestLimit (en_limits e) = Some n \<Longrightarrow> Requests (rs_usage s') \<le> max n (Requests (rs_usage s))"
    and "ToolCallsLimit (rs_limits s) = Some m \<Longrightarrow> ToolCalls (rs_usage s) \<le> m \<Longrightarrow> ToolCalls (rs_usage s') \<le> m" by blast+
qed

lemma newTurnEngine_simps [simp]:
  "en_agent (newTurnEngine a prompt limits deps) = a" "en_limits (newTurnEngine a prompt limits deps) = limits"
  by (simp_all add: newTurnEngine_def)

section \<open>Runs return and stay within their limits\<close>

text \<open>
  C2. A run with a request limit always returns, whatever the model, the tools, the interceptors and
  the guardrails do, and the requests it counts stay within the limit: the final count is at most the
  limit, or the count it was resumed with when that was already higher. The count has the request of
  every turn; the summary that automatic compaction asks a model for is not counted.
\<close>

theorem Run_returns:
  assumes "RequestLimit (run_limits a cfg) = Some n"
  shows "\<exists>out s' w'. Run a runID parent now prompt cfg w = Some (out, s', w') \<and>
    (\<forall>s. s' = Some s \<longrightarrow> Requests (rs_usage s) \<le> max n (Requests (rs_usage (initial_state a runID parent now cfg))))"
proof (cases rule: Run_cases [of a runID parent now prompt cfg w])
  case (early e s w')
  then show ?thesis by auto
next
  case (loop s w1 prompt' deps settings)
  let ?e = "newTurnEngine a prompt' (run_limits a cfg) deps"
  let ?n0 = "Requests (rs_usage (initial_state a runID parent now cfg))"
  have "request_bound ?e n" using assms by (simp add: request_bound_def)
  with loop(4) obtain out s' w' where r: "runLoop a s prompt' settings (run_limits a cfg) deps w1 = Some (out, s', w')"
    using run_steps_returns [of ?e n s settings w1] by (auto simp: runLoop_def)
  have "Requests (rs_usage s') \<le> max n ?n0"
  proof (rule runLoop_last [OF r])
    fix s0 st0 w0 resp o1 st'
    assume a: "advanced ?e s s0" and t: "turn ?e s0 st0 w0 = (Some (resp, o1), s', st', w')" and ap: "0 \<le> rs_activeApprovals s0"
    have "Requests (rs_usage s0) \<le> max n ?n0" using a assms loop(2) by (simp add: advanced_def)
    with last_turn_counts(1) [OF t ap, of n] assms show ?thesis by simp
  qed (use loop(4) in simp)
  with r loop(1) show ?thesis by auto
qed

theorem Run_returns_witness:
  "\<exists>out s' w'. Run (demo_agent [] [] EndStrategyEarly) ''run'' [] 1 ''go'' demo_config 0 = Some (out, s', w') \<and>
    (\<forall>s. s' = Some s \<longrightarrow> Requests (rs_usage s) \<le> 50)"
  using Run_returns [of "demo_agent [] [] EndStrategyEarly" demo_config 50 "''run''" "[]" 1 "''go''" 0]
  by (simp add: DefaultUsageLimits_def demo_config_def zero_run_usage_def)

text \<open>
  C26. The tool-call limit is never exceeded: a run that starts within it ends within it, whatever the
  outcome, however many calls a response asks for and however they are scheduled.
\<close>

theorem Run_tool_limit:
  assumes "Run a runID parent now prompt cfg w = Some (out, Some s, w')"
    and "ToolCallsLimit (run_limits a cfg) = Some n"
    and "ToolCalls (rs_usage (initial_state a runID parent now cfg)) \<le> n"
  shows "ToolCalls (rs_usage s) \<le> n"
proof (cases rule: Run_cases [of a runID parent now prompt cfg w])
  case (early e s w')
  with assms show ?thesis by auto
next
  case (loop s1 w1 prompt' deps settings)
  let ?e = "newTurnEngine a prompt' (run_limits a cfg) deps"
  from assms(1) loop(1) obtain s2 where r: "runLoop a s1 prompt' settings (run_limits a cfg) deps w1 = Some (out, s2, w')"
    and s: "s = endRun a out s2" by auto
  show ?thesis
  proof (rule runLoop_last [OF r])
    fix s0 st0 w0 resp o1 st'
    assume a: "advanced ?e s1 s0" and t: "turn ?e s0 st0 w0 = (Some (resp, o1), s2, st', w')" and ap: "0 \<le> rs_activeApprovals s0"
    have "ToolCalls (rs_usage s0) \<le> n" "rs_limits s0 = run_limits a cfg"
      using a assms(2,3) loop(2,3) by (auto simp: advanced_def)
    with last_turn_counts(2) [OF t ap, of n] assms(2) s show ?thesis by simp
  qed (use loop(4) in simp)
qed

theorem Run_tool_limit_witness:
  "(case Run (demo_agent add_then_final [add_tool] EndStrategyExhaustive) ''run'' [] 1 ''go'' demo_config 0 of
     Some (out, Some s, w') \<Rightarrow> ToolCalls (rs_usage s) = 1 \<and> ToolCalls (rs_usage s) \<le> 5 | _ \<Rightarrow> False)"
proof -
  let ?a = "demo_agent add_then_final [add_tool] EndStrategyExhaustive"
  have one: "case Run ?a ''run'' [] 1 ''go'' demo_config 0 of
     Some (out, Some s, w') \<Rightarrow> ToolCalls (rs_usage s) = 1 | _ \<Rightarrow> False" by code_simp
  then obtain out s w' where r: "Run ?a ''run'' [] 1 ''go'' demo_config 0 = Some (out, Some s, w')"
    by (auto split: option.splits prod.splits)
  have "ToolCalls (rs_usage s) \<le> 5"
    by (rule Run_tool_limit [OF r]) (simp_all add: demo_config_def zero_run_usage_def)
  with one r show ?thesis by simp
qed

section \<open>Histories\<close>

lemma deferred_part_ids: "part_ids (map deferred_part rs) = map dres_ToolCallID rs"
  by (induction rs) (auto simp: deferred_part_def part_call_id_def)

text \<open>
  C3. With the exhaustive strategy and no run condition, a finished run leaves no tool call without its
  result: in the messages of the result, requests and responses alternate, the calls of every response
  are answered in the request after it, and a last response without a request after it has no calls. The
  run has to start from no messages, from a history of this kind that ends with a response, or from one
  that the results of deferred calls complete (a run that an output tool ended leaves a request last, and
  continuing it puts two requests in a row), and automatic compaction keeps at least one message, as
  \<^verbatim>\<open>WithAutoContext\<close> sees to.
\<close>

theorem Run_history_complete:
  assumes "Run a runID parent now prompt cfg w = Some (RunDone r, s, w')"
    and "resumable (cfg_deferredResults cfg) (rs_messages (initial_state a runID parent now cfg))"
    and "ag_endStrategy a = EndStrategyExhaustive" and "ag_runConditions a = []" and "compaction_ok a"
  shows "complete_history (res_Messages r)"
proof (cases rule: Run_cases [of a runID parent now prompt cfg w])
  case (early e s w')
  with assms(1) show ?thesis by simp
next
  case (loop s1 w1 prompt' deps settings)
  let ?e = "newTurnEngine a prompt' (run_limits a cfg) deps"
  from assms(1) loop(1) obtain s2 where lp: "runLoop a s1 prompt' settings (run_limits a cfg) deps w1 = Some (RunDone r, s2, w')"
    by auto
  show ?thesis
  proof (rule runLoop_last [OF lp])
    fix s0 st0 w0 resp o1 st'
    assume adv: "advanced ?e s1 s0" and t: "turn ?e s0 st0 w0 = (Some (resp, o1), s2, st', w')"
      and out: "ends_run o1 = Some (RunDone r)" and ap: "0 \<le> rs_activeApprovals s0"
    have o1: "o1 = StepDone r" using out by (auto simp: ends_run_def split: step_outcome.splits)
    from t ap have "resp \<noteq> None" using o1 by (cases rule: turn_cases) auto
    then obtain m where m: "resp = Some m" by auto
    have closed: "closed_history (rs_messages s0)" using adv loop(5) assms(2,5) by (simp add: advanced_def)
    from t [unfolded m] ap show ?thesis
    proof (cases rule: turn_answered)
      case ta: (1 ms parts stopped)
      have c: "closed_history ms" using ta(1) assms(5) closed by simp
      have "resp_ToolCalls m \<noteq> [] \<longrightarrow> mset (part_ids parts) = mset (resp_call_ids m)"
        using ta(8) [OF o1] ta(9) assms(3,4) by auto
      then have "resp_ToolCalls m \<noteq> [] \<longrightarrow> set (part_ids parts) = set (resp_call_ids m)"
        by (auto dest: mset_eq_setD)
      then have "parts = [] \<Longrightarrow> resp_ToolCalls m = []" "set (resp_call_ids m) \<subseteq> set (part_ids parts)"
        by (auto simp: resp_call_ids_def)
      from complete_answered [OF c this] ta(2,8) o1 show ?thesis by simp
    qed
  qed (use loop(4) in simp)
qed

text \<open>A conversation that ended with a text, to be continued.\<close>

definition continued_config :: run_config where
  "continued_config = demo_config\<lparr>cfg_messages :=
     [ModelRequest [UserPromptPart ''hi''], ModelResponse (demo_response [TextPart ''hello''])]\<rparr>"

theorem Run_history_complete_witness:
  "(case Run (demo_agent add_then_final [add_tool] EndStrategyExhaustive) ''run'' [] 1 ''go'' continued_config 0 of
     Some (RunDone r, s, w') \<Rightarrow> length (res_Messages r) = 7 \<and> complete_history (res_Messages r) | _ \<Rightarrow> False)"
proof -
  let ?a = "demo_agent add_then_final [add_tool] EndStrategyExhaustive"
  have seven: "case Run ?a ''run'' [] 1 ''go'' continued_config 0 of
     Some (RunDone r, s, w') \<Rightarrow> length (res_Messages r) = 7 | _ \<Rightarrow> False" by code_simp
  then obtain r s w' where r: "Run ?a ''run'' [] 1 ''go'' continued_config 0 = Some (RunDone r, s, w')"
    by (auto split: option.splits prod.splits run_outcome.splits)
  have "complete_history (res_Messages r)"
    by (rule Run_history_complete [OF r])
      (simp_all add: continued_config_def demo_config_def compaction_ok_def resumable_def complete_history_def initial_state_def
        is_response_def demo_response_def resp_call_ids_def resp_ToolCalls_def Let_def)
  with seven r show ?thesis by simp
qed

text \<open>
  With the early strategy this fails: when a response calls an output tool and a function tool,
  the run ends with a history in which the function call has no result, so the history is not one
  that can be sent back.
\<close>

theorem early_result_leaves_call_unanswered:
  "(case Run (demo_agent [[ToolCallPart (demo_call ''final_result'' ''c1''), ToolCallPart (demo_call ''add'' ''c2'')]]
        [add_tool] EndStrategyEarly) ''run'' [] 1 ''go'' demo_config 0 of
     Some (RunDone r, Some s, w') \<Rightarrow> message_call_ids (res_Messages r) = {''c1'', ''c2''} \<and> \<not> paired (res_Messages r)
   | _ \<Rightarrow> False)"
  by code_simp

text \<open>
  C25. Deferral is a round trip: when a run defers tool calls, starting a run from the messages it
  returned, with a result for every deferred call, enters the loop with a history in which every call
  of every response is answered, whether other calls of the same response were answered before or not.
  The deferring run has to start as in the property above: from no messages, from a complete history that
  ends with a response, or from one that the results handed to it complete.
\<close>

theorem deferred_results_complete_history:
  assumes "Run a runID parent now prompt cfg w = Some (RunDeferred reqs ms u, s, w')"
    and "resumable (cfg_deferredResults cfg) (rs_messages (initial_state a runID parent now cfg))" and "compaction_ok a"
    and "cfg_messages cfg' = ms" and "set (map dr_ToolCallID reqs) \<subseteq> set (map dres_ToolCallID (cfg_deferredResults cfg'))"
  shows "\<exists>s'. bootstrapRunMessages a (initial_state a runID' parent' now' cfg') prompt' deps (cfg_deferredResults cfg') parts w''
      = (None, s', w'') \<and> closed_history (rs_messages s')"
proof (cases rule: Run_cases [of a runID parent now prompt cfg w])
  case (early e s w')
  with assms(1) show ?thesis by simp
next
  case (loop s1 w1 prompt1 deps1 settings)
  let ?e = "newTurnEngine a prompt1 (run_limits a cfg) deps1"
  let ?rs = "cfg_deferredResults cfg'"
  from assms(1) loop(1) obtain s2 where lp: "runLoop a s1 prompt1 settings (run_limits a cfg) deps1 w1 = Some (RunDeferred reqs ms u, s2, w')"
    by auto
  have ids: "part_ids (map deferred_part ?rs) = map dres_ToolCallID ?rs" by (rule deferred_part_ids)
  have inject: "closed_history (inject_parts (map deferred_part ?rs) ms) \<and> reqs \<noteq> [] \<and> ms \<noteq> []"
  proof (rule runLoop_last [OF lp])
    fix s0 st0 w0 resp o1 st'
    assume adv: "advanced ?e s1 s0" and t: "turn ?e s0 st0 w0 = (Some (resp, o1), s2, st', w')"
      and out: "ends_run o1 = Some (RunDeferred reqs ms u)" and ap: "0 \<le> rs_activeApprovals s0"
    have o1: "o1 = StepDeferred reqs ms u" using out by (auto simp: ends_run_def split: step_outcome.splits)
    from t ap have "resp \<noteq> None" using o1 by (cases rule: turn_cases) auto
    then obtain m where m: "resp = Some m" by auto
    have closed: "closed_history (rs_messages s0)" using adv loop(5) assms(2,3) by (simp add: advanced_def)
    from t [unfolded m] ap show ?thesis
    proof (cases rule: turn_answered)
      case ta: (1 hist answers stopped)
      have c: "closed_history hist" using ta(1) assms(3) closed by simp
      have d: "reqs \<noteq> []" "ms = answered_history hist m answers"
          "mset (part_ids answers) + mset (map dr_ToolCallID reqs) = mset (resp_call_ids m)"
        using ta(2) ta(7) [OF o1] by auto
      from d(3) have "set (resp_call_ids m) = set (part_ids answers) \<union> set (map dr_ToolCallID reqs)"
        by (metis set_append mset_append mset_eq_setD)
      with assms(5) ids have sub: "set (resp_call_ids m) \<subseteq> set (part_ids (answers @ map deferred_part ?rs))" by auto
      have "inject_parts (map deferred_part ?rs) ms = hist @ [ModelResponse m, ModelRequest (answers @ map deferred_part ?rs)]"
        by (cases "answers = []") (simp_all add: inject_parts_def d(2) answered_history_def butlast_append)
      with closed_history_turn [OF c sub] d show ?thesis by (simp add: answered_history_def)
    qed
  qed (use loop(4) in simp)
  then have rs: "?rs \<noteq> []" using assms(5) by auto
  have "rs_messages (initial_state a runID' parent' now' cfg') = ms"
    using inject assms(4) by (auto simp: initial_state_def Let_def split: option.split)
  with inject rs show ?thesis by (simp add: bootstrapRunMessages_def injectDeferredResults_def)
qed

definition resume_config :: run_config where
  "resume_config = demo_config\<lparr>cfg_deferredResults :=
     [\<lparr>dres_ToolName = ''ask'', dres_ToolCallID = ''c2'', dres_Content = ''yes'', dres_IsError = False\<rparr>]\<rparr>"

theorem deferred_results_complete_history_witness:
  "(case Run (demo_agent [[ToolCallPart (demo_call ''add'' ''c1''), ToolCallPart (demo_call ''ask'' ''c2'')]]
        [add_tool, ask_tool] EndStrategyEarly) ''run'' [] 1 ''go'' demo_config 0 of
     Some (RunDeferred reqs ms u, s, w') \<Rightarrow> map dr_ToolCallID reqs = [''c2''] \<and>
       (\<exists>s'. bootstrapRunMessages (demo_agent [[ToolCallPart (demo_call ''add'' ''c1''), ToolCallPart (demo_call ''ask'' ''c2'')]]
            [add_tool, ask_tool] EndStrategyEarly)
          (initial_state (demo_agent [[ToolCallPart (demo_call ''add'' ''c1''), ToolCallPart (demo_call ''ask'' ''c2'')]]
            [add_tool, ask_tool] EndStrategyEarly) ''run2'' [] 2 (resume_config\<lparr>cfg_messages := ms\<rparr>))
          ''go'' AnyNil (cfg_deferredResults resume_config) [] 7 = (None, s', 7) \<and> closed_history (rs_messages s'))
   | _ \<Rightarrow> False)"
proof -
  let ?a = "demo_agent [[ToolCallPart (demo_call ''add'' ''c1''), ToolCallPart (demo_call ''ask'' ''c2'')]]
        [add_tool, ask_tool] EndStrategyEarly"
  have one: "case Run ?a ''run'' [] 1 ''go'' demo_config 0 of
     Some (RunDeferred reqs ms u, s, w') \<Rightarrow> map dr_ToolCallID reqs = [''c2''] | _ \<Rightarrow> False" by code_simp
  then obtain reqs ms u s w' where r: "Run ?a ''run'' [] 1 ''go'' demo_config 0 = Some (RunDeferred reqs ms u, s, w')"
    by (auto split: option.splits prod.splits run_outcome.splits)
  let ?cfg = "resume_config\<lparr>cfg_messages := ms\<rparr>"
  have "set (map dr_ToolCallID reqs) \<subseteq> set (map dres_ToolCallID (cfg_deferredResults ?cfg))"
    using one r by (simp add: resume_config_def)
  from deferred_results_complete_history [OF r _ _ _ this, of "''run2''" "[]" 2 "''go''" AnyNil "[]" 7] one r show ?thesis
    by (simp add: demo_config_def compaction_ok_def resumable_def)
qed

text \<open>
  C29. Compaction keeps a conversation acceptable: from a history in which requests and responses
  alternate and every call is answered, automatic compaction yields one with the same property. When
  it changed anything, the context was over its budget, the history has not grown, no result in it
  lacks its call, and the responses among the messages to keep are still there.
\<close>

theorem compaction_keeps_history:
  assumes "autoCompressMessages vt (WithAutoContext config) fallback ms tokenCount w = ((ms', err), w')"
    and "closed_history ms"
  shows "closed_history ms' \<and> (ms' = ms \<or> no_orphans ms' \<and> ac_MaxTokens config < tokenCount \<and> length ms' \<le> length ms \<and>
    (\<forall>r. ModelResponse r \<in> set (drop (length ms - nat (ac_KeepLastN (WithAutoContext config))) ms) \<longrightarrow>
       ModelResponse r \<in> set ms'))"
proof -
  have "0 < ac_KeepLastN (WithAutoContext config)" "ac_MaxTokens (WithAutoContext config) = ac_MaxTokens config"
    by (simp_all add: WithAutoContext_def)
  with autoCompressMessages_closed [OF assms(1) _ assms(2)] autoCompressMessages_recent [OF assms(1) _ assms(2)]
  show ?thesis by auto
qed

definition long_history :: "model_message list" where
  "long_history = [ModelRequest [UserPromptPart ''do it''],
     ModelResponse (demo_response [ToolCallPart (demo_call ''add'' ''c1'')]),
     ModelRequest [ToolReturnPart ''add'' (AnyString ''3'') ''c1'' []],
     ModelResponse (demo_response [ToolCallPart (demo_call ''add'' ''c2'')]),
     ModelRequest [ToolReturnPart ''add'' (AnyString ''4'') ''c2'' []]]"

definition demo_compaction :: "nat auto_context" where
  "demo_compaction = \<lparr>ac_MaxTokens = 0, ac_KeepLastN = 1, ac_SummaryModel = None\<rparr>"

theorem compaction_keeps_history_witness:
  "(case autoCompressMessages \<lparr>vt_Marshal = (\<lambda>_. Inr []), vt_Sprint = (\<lambda>_. [])\<rparr> (WithAutoContext demo_compaction)
        (scripted [[TextPart ''did it'']]) long_history 9 0 of
     ((ms', err), w') \<Rightarrow> length ms' = 3 \<and> closed_history ms' \<and> no_orphans ms')"
proof -
  let ?vt = "\<lparr>vt_Marshal = (\<lambda>_. Inr []), vt_Sprint = (\<lambda>_. [])\<rparr>"
  obtain ms' err w' where c: "autoCompressMessages ?vt (WithAutoContext demo_compaction)
      (scripted [[TextPart ''did it'']]) long_history 9 0 = ((ms', err), w')" by (metis prod.exhaust)
  have "length (fst (fst (autoCompressMessages ?vt (WithAutoContext demo_compaction)
      (scripted [[TextPart ''did it'']]) long_history 9 0))) = 3" by code_simp
  with c have len: "length ms' = 3" by simp
  have "closed_history long_history" by code_simp
  from compaction_keeps_history [OF c this] have k: "closed_history ms'" "ms' = long_history \<or> no_orphans ms'" by auto
  have "length long_history = 5" by (simp add: long_history_def)
  with len k have "no_orphans ms'" by auto
  with len k c show ?thesis by simp
qed

section \<open>Tool calls\<close>

text \<open>
  When tool execution succeeds, the result list has one entry per call, in the position of the
  call, whatever the batches, the order in which the calls of a batch run, the handlers, approvals and
  validators do: the entry carries the name and the identifier of its call. On the event bus every call
  has one start, and one end unless it was deferred.
\<close>

theorem executeFunctionTools_answers:
  assumes "executeFunctionTools a calls deps prompt s w = (Inr res, s', w')" and "0 \<le> rs_activeApprovals s"
  shows "length res = length calls \<and> (\<forall>i < length calls. \<exists>p. res ! i = Some p \<and> answers p (fst (calls ! i))) \<and>
    (\<exists>es. rs_events s' = rs_events s @ es \<and>
      called_ids es = (if ag_eventBus a then mset (map (tc_ToolCallID \<circ> fst) calls) else {#}) \<and>
      ended_ids es + (if ag_eventBus a then mset (map dr_ToolCallID (deferred_of (List.map_filter id res))) else {#}) =
        called_ids es)"
  using executeFunctionTools_effect(2) [OF assms(2,1) refl] by (auto simp: logged_def)

definition demo_state :: run_state where
  "demo_state = newRunState ''run'' 1 (DefaultUsageLimits\<lparr>ToolCallsLimit := Some 5\<rparr>)"

abbreviation two_calls :: "(tool_call \<times> nat tool) list" where
  "two_calls \<equiv> [(demo_call ''add'' ''c1'', add_tool), (demo_call ''ask'' ''c2'', ask_tool)]"

theorem executeFunctionTools_answers_witness:
  "(case executeFunctionTools (demo_agent [] [add_tool, ask_tool] EndStrategyEarly) two_calls AnyNil [] demo_state 0 of
     (Inr res, s', w') \<Rightarrow> map the res = [ToolReturnPart ''add'' (AnyString ''3'') ''c1'' [], DeferredToolPart ''ask'' ''c2'' ''{}''] \<and>
       (\<exists>es. rs_events s' = rs_events demo_state @ es \<and> called_ids es = {#''c1'', ''c2''#} \<and> ended_ids es + {#''c2''#} = called_ids es)
   | _ \<Rightarrow> False)"
proof -
  let ?a = "demo_agent [] [add_tool, ask_tool] EndStrategyEarly"
  let ?parts = "[ToolReturnPart ''add'' (AnyString ''3'') ''c1'' [], DeferredToolPart ''ask'' ''c2'' ''{}'']"
  have e: "case executeFunctionTools ?a two_calls AnyNil [] demo_state 0 of (Inr res, s', w') \<Rightarrow> res = map Some ?parts | _ \<Rightarrow> False"
    by code_simp
  then obtain s' w' where r: "executeFunctionTools ?a two_calls AnyNil [] demo_state 0 = (Inr (map Some ?parts), s', w')"
    by (auto split: prod.splits sum.splits)
  have "0 \<le> rs_activeApprovals demo_state" by (simp add: demo_state_def newRunState_def)
  from executeFunctionTools_answers [OF r this] r show ?thesis
    by (simp add: deferred_of_def demo_call_def map_filter_simps)
qed

text \<open>
  C11. Every tool call of a response is accounted for: with the exhaustive strategy, or when no output
  was accepted, or when something was deferred, the identifiers of the parts for the next request and
  those of the deferred requests are together exactly the identifiers of the calls, each as often as it
  was called, whether the tools are known, are output tools, need approval, fail, retry or defer.
\<close>

theorem processResponse_accounts_for_calls:
  assumes "processResponse a resp tm ot deps prompt s w = (Inr (result, parts, deferred), s', w')"
    and "0 \<le> rs_activeApprovals s" and "resp_ToolCalls resp \<noteq> []"
    and "ag_endStrategy a = EndStrategyExhaustive \<or> result = None \<or> deferred \<noteq> []"
  shows "mset (part_ids parts) + mset (map dr_ToolCallID deferred) = mset (resp_call_ids resp)"
  using processResponse_effect(2) [OF assms(1,2) refl] assms(3,4) by blast

definition mixed_response :: model_response where
  "mixed_response = demo_response [ToolCallPart (demo_call ''add'' ''c1''), ToolCallPart (demo_call ''ask'' ''c2''),
     ToolCallPart (demo_call ''final_result'' ''c3''), ToolCallPart (demo_call ''nope'' ''c4'')]"

theorem processResponse_accounts_for_calls_witness:
  "(case processResponse (demo_agent [] [add_tool, ask_tool] EndStrategyExhaustive) mixed_response
       (build_toolMap [add_tool, ask_tool]) {''final_result''} AnyNil [] demo_state 0 of
     (Inr (result, parts, deferred), s', w') \<Rightarrow> length parts = 3 \<and> length deferred = 1 \<and>
       mset (part_ids parts) + mset (map dr_ToolCallID deferred) = {#''c1'', ''c2'', ''c3'', ''c4''#}
   | _ \<Rightarrow> False)"
proof -
  let ?a = "demo_agent [] [add_tool, ask_tool] EndStrategyExhaustive"
  have e: "case processResponse ?a mixed_response (build_toolMap [add_tool, ask_tool]) {''final_result''} AnyNil [] demo_state 0 of
      (Inr (result, parts, deferred), s', w') \<Rightarrow> length parts = 3 \<and> length deferred = 1 | _ \<Rightarrow> False" by code_simp
  then obtain result parts deferred s' w' where r: "processResponse ?a mixed_response (build_toolMap [add_tool, ask_tool])
      {''final_result''} AnyNil [] demo_state 0 = (Inr (result, parts, deferred), s', w')"
    by (auto split: prod.splits sum.splits)
  have ids: "resp_call_ids mixed_response = [''c1'', ''c2'', ''c3'', ''c4'']" by code_simp
  have "mset (part_ids parts) + mset (map dr_ToolCallID deferred) = mset (resp_call_ids mixed_response)"
    using ids by (intro processResponse_accounts_for_calls [OF r])
      (auto simp: demo_state_def newRunState_def resp_call_ids_def)
  with e r ids show ?thesis by simp
qed

text \<open>
  A response with neither text nor tool calls costs one retry. Within the allowance the model is
  told so; beyond it the run fails. Nothing else of the run changes.
\<close>

theorem empty_response_costs_retry:
  assumes "processResponse a resp tm ot deps prompt s w = (r, s', w')"
    and "resp_ToolCalls resp = []" and "resp_TextContent resp = []"
    and "resp_FinishReason resp \<notin> {FinishReasonLength, FinishReasonContentFilter}"
  shows "rs_retries s' = rs_retries s + 1 \<and> w' = w \<and> rs_messages s' = rs_messages s \<and> rs_usage s' = rs_usage s \<and>
    (if rs_retries s < ag_maxRetries a
     then r = Inr (None, [RetryPromptPart ''empty response, please provide a result'' [] []], [])
     else \<exists>e. r = Inl e)"
proof -
  obtain x s1 where x: "retry_result a ''empty response, please provide a result'' [] [] s = (x, s1)" by fastforce
  note ef = retry_result_effect [OF x]
  have k: "rs_messages s1 = rs_messages s" "rs_usage s1 = rs_usage s" "rs_retries s1 = rs_retries s + 1"
    using ef by (auto simp: kept_def)
  show ?thesis
  proof (cases x)
    case (Inl e)
    with assms x have "r = Inl e" "s' = s1" "w' = w" by (auto simp: processResponse_def process_empty_def Let_def)
    with Inl ef k show ?thesis by simp
  next
    case (Inr p)
    with assms x have "r = Inr (None, [p], [])" "s' = s1" "w' = w" by (auto simp: processResponse_def process_empty_def Let_def)
    with Inr ef k show ?thesis by simp
  qed
qed

theorem empty_response_costs_retry_witness:
  "(case processResponse (demo_agent [] [] EndStrategyEarly) (demo_response []) fmempty {} AnyNil [] demo_state 0 of
     (r, s', w') \<Rightarrow> rs_retries s' = 1 \<and> r = Inr (None, [RetryPromptPart ''empty response, please provide a result'' [] []], []))"
proof -
  obtain r s' w' where p: "processResponse (demo_agent [] [] EndStrategyEarly) (demo_response []) fmempty {} AnyNil [] demo_state 0 =
      (r, s', w')" by (metis prod_cases3)
  from empty_response_costs_retry [OF p] p show ?thesis
    by (simp add: demo_response_def resp_ToolCalls_def resp_TextContent_def demo_state_def newRunState_def)
qed

end
