(* ===== verification/Core_Serialize.thy ===== *)
theory Core_Serialize
  imports Core_Message Sql_Time "HOL-Library.Log_Nat"
begin

text \<open>
  Conversations and snapshots as JSON documents: \<^verbatim>\<open>core/serialize.go\<close> and the marshalling half of
  \<^verbatim>\<open>core/snapshot.go\<close>. A document is a tree (\<^verbatim>\<open>Hist_Codec\<close>), structs are read the way \<^verbatim>\<open>encoding/json\<close>
  matches keys with fields. Time stamps of messages and of the snapshot itself, which the model does not
  have, are left out; strings are valid UTF-8, since the encoder replaces other bytes. The text of a
  raw subdocument is read and printed by \<open>parse\<close> and \<open>print\<close>, the parser and the printer of
  \<^verbatim>\<open>encoding/json\<close>. The reason of a decoding error is abbreviated.
\<close>

section \<open>Values of type any\<close>

text \<open>The float64 that is nearest to an integer, ties to even: what a number becomes when it is read into \<^verbatim>\<open>any\<close>.\<close>

definition float64_of :: "int \<Rightarrow> int" where
  "float64_of i =
     (let n = nat \<bar>i\<bar>; e = floorlog 2 n - 53; q = n div 2 ^ e; r = n mod 2 ^ e
      in sgn i * int ((if 2 * r > 2 ^ e \<or> (2 * r = 2 ^ e \<and> odd q) then q + 1 else q) * 2 ^ e))"

text \<open>\<^verbatim>\<open>json.Marshal\<close> writes the keys of a map in order; reading stores the pairs one by one.\<close>

fun any_json :: "any \<Rightarrow> json" where
  "any_json AnyNil = JNull"
| "any_json (AnyBool b) = JBool b"
| "any_json (AnyInt i) = JNum i"
| "any_json (AnyFloat i) = JNum i"
| "any_json (AnyString s) = JStr s"
| "any_json (AnyList xs) = JArr (map any_json xs)"
| "any_json (AnyMap kvs) = JObj (sort_key fst (map (\<lambda>(k, v). (k, any_json v)) kvs))"

fun put :: "string \<Rightarrow> 'a \<Rightarrow> (string \<times> 'a) list \<Rightarrow> (string \<times> 'a) list" where
  "put k v [] = [(k, v)]"
| "put k v ((k', v') # kvs) =
     (if k < k' then (k, v) # (k', v') # kvs else if k = k' then (k, v) # kvs else (k', v') # put k v kvs)"

fun json_any :: "json \<Rightarrow> any" where
  "json_any JNull = AnyNil"
| "json_any (JBool b) = AnyBool b"
| "json_any (JNum i) = AnyFloat (float64_of i)"
| "json_any (JStr s) = AnyString s"
| "json_any (JTime t) = AnyString (RFC3339Nano t)"
| "json_any (JArr vs) = AnyList (map json_any vs)"
| "json_any (JObj fs) = AnyMap (fold (\<lambda>(k, v). put k v) (map (\<lambda>(k, v). (k, json_any v)) fs) [])"

section \<open>Maps and fields\<close>

definition map_json :: "('v \<Rightarrow> json) \<Rightarrow> (string, 'v) go_map \<Rightarrow> json" where
  "map_json enc m = JObj (map (\<lambda>k. (k, case fmlookup m k of None \<Rightarrow> JNull | Some v \<Rightarrow> enc v)) (map_keys m))"

fun dec_map :: "(json \<Rightarrow> 'v option) \<Rightarrow> (string, 'v) go_map \<Rightarrow> json \<Rightarrow> (string, 'v) go_map option" where
  "dec_map dec m JNull = Some fmempty"
| "dec_map dec m (JObj fs) =
     fold (\<lambda>(k, v) acc. Option.bind acc (\<lambda>m. Option.bind (dec v) (\<lambda>x. Some (fmupd k x m)))) fs (Some m)"
| "dec_map dec m _ = None"

text \<open>A field with \<^verbatim>\<open>omitempty\<close>.\<close>

definition optional :: "bool \<Rightarrow> string \<Rightarrow> json \<Rightarrow> (string \<times> json) list" where
  "optional void name v = (if void then [] else [(name, v)])"

definition str_opt :: "string \<Rightarrow> string \<Rightarrow> (string \<times> json) list" where
  "str_opt name s = optional (s = []) name (JStr s)"

definition int_opt :: "string \<Rightarrow> int \<Rightarrow> (string \<times> json) list" where
  "int_opt name i = optional (i = 0) name (JNum i)"

definition int_map_opt :: "string \<Rightarrow> (string, int) go_map \<Rightarrow> (string \<times> json) list" where
  "int_map_opt name m = optional (m = fmempty) name (map_json JNum m)"

abbreviation rd_int_map :: "string \<Rightarrow> (string \<times> json) list \<Rightarrow> (string, int) go_map option" where
  "rd_int_map \<equiv> read_field (dec_map (dec_int 0)) fmempty"

text \<open>What \<^verbatim>\<open>json.Unmarshal\<close> finds in a document that is read into a struct.\<close>

fun struct_fields :: "raw_message \<Rightarrow> (string \<times> json) list option" where
  "struct_fields (RawJSON JNull) = Some []"
| "struct_fields (RawJSON (JObj fs)) = Some fs"
| "struct_fields _ = None"

definition usage_fields :: "'a usage_scheme \<Rightarrow> (string \<times> json) list" where
  "usage_fields u = int_opt ''input_tokens'' (InputTokens u) @ int_opt ''output_tokens'' (OutputTokens u) @
     int_opt ''cache_write_tokens'' (CacheWriteTokens u) @ int_opt ''cache_read_tokens'' (CacheReadTokens u) @
     int_map_opt ''details'' (Details u)"

text \<open>The fields of an object change the struct that they are read into.\<close>

definition read_usage :: "usage \<Rightarrow> (string \<times> json) list \<Rightarrow> usage option" where
  "read_usage u fs = do {
     i \<leftarrow> read_field dec_int (InputTokens u) ''input_tokens'' fs;
     o' \<leftarrow> read_field dec_int (OutputTokens u) ''output_tokens'' fs;
     w \<leftarrow> read_field dec_int (CacheWriteTokens u) ''cache_write_tokens'' fs;
     r \<leftarrow> read_field dec_int (CacheReadTokens u) ''cache_read_tokens'' fs;
     d \<leftarrow> read_field (dec_map (dec_int 0)) (Details u) ''details'' fs;
     Some \<lparr>InputTokens = i, OutputTokens = o', CacheWriteTokens = w, CacheReadTokens = r, Details = d\<rparr> }"

definition run_usage_json :: "run_usage \<Rightarrow> json" where
  "run_usage_json u = JObj (usage_fields u @ [(''requests'', JNum (Requests u)), (''tool_calls'', JNum (ToolCalls u))])"

definition dec_run_usage :: "run_usage \<Rightarrow> json \<Rightarrow> run_usage option" where
  "dec_run_usage u v =
     (case v of
        JNull \<Rightarrow> Some u
      | JObj fs \<Rightarrow> do {
          b \<leftarrow> read_usage (usage.truncate u) fs; n \<leftarrow> read_field dec_int (Requests u) ''requests'' fs;
          t \<leftarrow> read_field dec_int (ToolCalls u) ''tool_calls'' fs;
          Some \<lparr>InputTokens = InputTokens b, OutputTokens = OutputTokens b, CacheWriteTokens = CacheWriteTokens b,
                CacheReadTokens = CacheReadTokens b, Details = Details b, Requests = n, ToolCalls = t\<rparr> }
      | _ \<Rightarrow> None)"

section \<open>Envelopes\<close>

record serialized_part =
  sp_Type :: string
  sp_Data :: raw_message

record serialized_message =
  sm_Kind :: string
  sm_Data :: raw_message

text \<open>A nil \<^verbatim>\<open>RawMessage\<close> is written as \<^verbatim>\<open>null\<close>; the envelopes written here hold documents.\<close>

definition raw_json :: "raw_message \<Rightarrow> json" where
  "raw_json r = (case r of RawJSON j \<Rightarrow> j | _ \<Rightarrow> JNull)"

definition part_json :: "serialized_part \<Rightarrow> json" where
  "part_json p = JObj [(''type'', JStr (sp_Type p)), (''data'', raw_json (sp_Data p))]"

definition message_json :: "serialized_message \<Rightarrow> json" where
  "message_json m = JObj [(''kind'', JStr (sm_Kind m)), (''data'', raw_json (sm_Data m))]"

definition dec_part :: "json \<Rightarrow> serialized_part option" where
  "dec_part v = do { fs \<leftarrow> struct_fields (RawJSON v); ty \<leftarrow> rd_str ''type'' fs; data \<leftarrow> rd_raw ''data'' fs;
     Some \<lparr>sp_Type = ty, sp_Data = data\<rparr> }"

definition dec_message :: "json \<Rightarrow> serialized_message option" where
  "dec_message v = do { fs \<leftarrow> struct_fields (RawJSON v); kind \<leftarrow> rd_str ''kind'' fs; data \<leftarrow> rd_raw ''data'' fs;
     Some \<lparr>sm_Kind = kind, sm_Data = data\<rparr> }"

text \<open>A slice of structs.\<close>

fun dec_list :: "(json \<Rightarrow> 'a option) \<Rightarrow> 'a list \<Rightarrow> json \<Rightarrow> 'a list option" where
  "dec_list dec a JNull = Some []"
| "dec_list dec a (JArr vs) = those (map dec vs)"
| "dec_list dec a _ = None"

definition image_json :: "image \<Rightarrow> json" where
  "image_json im = JObj [(''URL'', JStr (image_URL im)), (''MIMEType'', JStr (image_MIMEType im)), (''Detail'', JStr (image_Detail im))]"

definition dec_image :: "json \<Rightarrow> image option" where
  "dec_image v = do { fs \<leftarrow> struct_fields (RawJSON v); u \<leftarrow> rd_str ''URL'' fs; m \<leftarrow> rd_str ''MIMEType'' fs; d \<leftarrow> rd_str ''Detail'' fs;
     Some \<lparr>image_URL = u, image_MIMEType = m, image_Detail = d\<rparr> }"

fun finish_text :: "finish_reason \<Rightarrow> string" where
  "finish_text FinishReasonStop = ''stop''"
| "finish_text FinishReasonLength = ''length''"
| "finish_text FinishReasonContentFilter = ''content_filter''"
| "finish_text FinishReasonToolCall = ''tool_call''"
| "finish_text FinishReasonError = ''error''"
| "finish_text (FinishReasonOther s) = s"

definition text_finish :: "string \<Rightarrow> finish_reason" where
  "text_finish s = (if s = ''stop'' then FinishReasonStop else if s = ''length'' then FinishReasonLength
     else if s = ''content_filter'' then FinishReasonContentFilter else if s = ''tool_call'' then FinishReasonToolCall
     else if s = ''error'' then FinishReasonError else FinishReasonOther s)"

section \<open>Encoding\<close>

definition part_of :: "string \<Rightarrow> (string \<times> json) list \<Rightarrow> serialized_part result" where
  "part_of ty fs = Inr \<lparr>sp_Type = ty, sp_Data = RawJSON (JObj fs)\<rparr>"

fun encodeRequestPart :: "request_part \<Rightarrow> serialized_part result" where
  "encodeRequestPart (SystemPromptPart c) = part_of ''system-prompt'' [(''content'', JStr c)]"
| "encodeRequestPart (UserPromptPart c) = part_of ''user-prompt'' [(''content'', JStr c)]"
| "encodeRequestPart (ToolReturnPart name c tid imgs) = part_of ''tool-return''
     ([(''tool_name'', JStr name), (''content'', any_json c), (''tool_call_id'', JStr tid)] @
      optional (imgs = []) ''images'' (JArr (map image_json imgs)))"
| "encodeRequestPart (RetryPromptPart c name tid) = part_of ''retry-prompt''
     ([(''content'', JStr c)] @ str_opt ''tool_name'' name @ str_opt ''tool_call_id'' tid)"
| "encodeRequestPart (ImagePart im) = part_of ''image''
     ([(''url'', JStr (image_URL im)), (''mime_type'', JStr (image_MIMEType im))] @ str_opt ''detail'' (image_Detail im))"
| "encodeRequestPart (AudioPart url mime) = part_of ''audio'' [(''url'', JStr url), (''mime_type'', JStr mime)]"
| "encodeRequestPart (DocumentPart url mime title) = part_of ''document''
     ([(''url'', JStr url), (''mime_type'', JStr mime)] @ str_opt ''title'' title)"
| "encodeRequestPart (DeferredToolPart _ _ _) = Inl (ErrorString ''unknown request part type: core.deferredToolPart'')"
| "encodeRequestPart (FatalToolPart _) = Inl (ErrorString ''unknown request part type: core.fatalToolPart'')"

definition raw_error :: go_error where
  "raw_error = ErrorString ''json: error calling MarshalJSON for type json.RawMessage''"

fun encodeResponsePart :: "(string \<Rightarrow> json option) \<Rightarrow> response_part \<Rightarrow> serialized_part result" where
  "encodeResponsePart parse (TextPart c) = part_of ''text'' [(''content'', JStr c)]"
| "encodeResponsePart parse (ToolCallPart tc) = part_of ''tool-call''
     ([(''tool_name'', JStr (tc_ToolName tc)), (''args_json'', JStr (tc_ArgsJSON tc)), (''tool_call_id'', JStr (tc_ToolCallID tc))] @
      optional (tc_Metadata tc = fmempty) ''metadata'' (map_json JStr (tc_Metadata tc)))"
| "encodeResponsePart parse (ThinkingPart c sig) = part_of ''thinking'' ([(''content'', JStr c)] @ str_opt ''signature'' sig)"
| "encodeResponsePart parse (ProviderMetadataPart provider kind payload) =
     (if payload = [] then part_of ''provider-metadata'' [(''provider'', JStr provider), (''kind'', JStr kind)]
      else case parse payload of
        None \<Rightarrow> Inl raw_error
      | Some j \<Rightarrow> part_of ''provider-metadata'' [(''provider'', JStr provider), (''kind'', JStr kind), (''payload'', j)])"

fun encodeRequestParts :: "request_part list \<Rightarrow> serialized_part list result" where
  "encodeRequestParts [] = Inr []"
| "encodeRequestParts (p # ps) =
     (case encodeRequestPart p of
        Inl e \<Rightarrow> Inl e
      | Inr env \<Rightarrow> (case encodeRequestParts ps of Inl e \<Rightarrow> Inl e | Inr envs \<Rightarrow> Inr (env # envs)))"

fun encodeResponseParts :: "(string \<Rightarrow> json option) \<Rightarrow> response_part list \<Rightarrow> serialized_part list result" where
  "encodeResponseParts parse [] = Inr []"
| "encodeResponseParts parse (p # ps) =
     (case encodeResponsePart parse p of
        Inl e \<Rightarrow> Inl e
      | Inr env \<Rightarrow> (case encodeResponseParts parse ps of Inl e \<Rightarrow> Inl e | Inr envs \<Rightarrow> Inr (env # envs)))"

fun encodeMessage :: "(string \<Rightarrow> json option) \<Rightarrow> model_message \<Rightarrow> serialized_message result" where
  "encodeMessage parse (ModelRequest ps) =
     (case encodeRequestParts ps of
        Inl e \<Rightarrow> Inl e
      | Inr envs \<Rightarrow> Inr \<lparr>sm_Kind = ''request'', sm_Data = RawJSON (JObj [(''parts'', JArr (map part_json envs))])\<rparr>)"
| "encodeMessage parse (ModelResponse r) =
     (case encodeResponseParts parse (resp_Parts r) of
        Inl e \<Rightarrow> Inl e
      | Inr envs \<Rightarrow> Inr \<lparr>sm_Kind = ''response'', sm_Data = RawJSON (JObj [(''parts'', JArr (map part_json envs)),
          (''usage'', JObj (usage_fields (resp_Usage r))), (''model_name'', JStr (resp_ModelName r)),
          (''finish_reason'', JStr (finish_text (resp_FinishReason r)))])\<rparr>)"

fun EncodeMessages :: "(string \<Rightarrow> json option) \<Rightarrow> model_message list \<Rightarrow> serialized_message list result" where
  "EncodeMessages parse [] = Inr []"
| "EncodeMessages parse (m # ms) =
     (case encodeMessage parse m of
        Inl e \<Rightarrow> Inl (WrapPrefix ''encoding message'' e)
      | Inr env \<Rightarrow> (case EncodeMessages parse ms of Inl e \<Rightarrow> Inl e | Inr envs \<Rightarrow> Inr (env # envs)))"

definition MarshalMessages :: "(string \<Rightarrow> json option) \<Rightarrow> model_message list \<Rightarrow> json result" where
  "MarshalMessages parse ms =
     (case EncodeMessages parse ms of Inl e \<Rightarrow> Inl e | Inr envs \<Rightarrow> Inr (JArr (map message_json envs)))"

definition EncodeModelResponse :: "(string \<Rightarrow> json option) \<Rightarrow> model_response option \<Rightarrow> serialized_message result" where
  "EncodeModelResponse parse r =
     (case r of None \<Rightarrow> Inl (ErrorString ''nil model response'') | Some r \<Rightarrow> encodeMessage parse (ModelResponse r))"

section \<open>Decoding\<close>

definition json_error :: "string \<Rightarrow> go_error" where
  "json_error what = WrapPrefix (''unmarshaling '' @ what) (ErrorString ''json: cannot unmarshal'')"

definition or_error :: "go_error \<Rightarrow> 'a option \<Rightarrow> 'a result" where
  "or_error e x = (case x of None \<Rightarrow> Inl e | Some v \<Rightarrow> Inr v)"

text \<open>The content of a tool return is a subdocument, read into \<^verbatim>\<open>any\<close> in a second step.\<close>

definition decode_tool_return :: "(string \<times> json) list \<Rightarrow> request_part result" where
  "decode_tool_return fs =
     (case do { name \<leftarrow> rd_str ''tool_name'' fs; c \<leftarrow> rd_raw ''content'' fs; tid \<leftarrow> rd_str ''tool_call_id'' fs;
                imgs \<leftarrow> read_field (dec_list dec_image) [] ''images'' fs; Some (name, c, tid, imgs) } of
        None \<Rightarrow> Inl (json_error ''tool-return'')
      | Some (name, RawJSON c, tid, imgs) \<Rightarrow> Inr (ToolReturnPart name (json_any c) tid imgs)
      | Some _ \<Rightarrow> Inl (WrapPrefix ''unmarshaling tool-return content'' (ErrorString ''unexpected end of JSON input'')))"

definition decodeRequestPart :: "serialized_part \<Rightarrow> request_part result" where
  "decodeRequestPart env =
     (let ty = sp_Type env; fields = struct_fields (sp_Data env);
          read = (\<lambda>rd. or_error (json_error ty) (Option.bind fields rd)) in
      if ty = ''system-prompt'' then read (\<lambda>fs. map_option SystemPromptPart (rd_str ''content'' fs))
      else if ty = ''user-prompt'' then read (\<lambda>fs. map_option UserPromptPart (rd_str ''content'' fs))
      else if ty = ''tool-return'' then (case fields of None \<Rightarrow> Inl (json_error ty) | Some fs \<Rightarrow> decode_tool_return fs)
      else if ty = ''retry-prompt'' then read (\<lambda>fs. do {
        c \<leftarrow> rd_str ''content'' fs; n \<leftarrow> rd_str ''tool_name'' fs; tid \<leftarrow> rd_str ''tool_call_id'' fs; Some (RetryPromptPart c n tid) })
      else if ty = ''image'' then read (\<lambda>fs. do {
        u \<leftarrow> rd_str ''url'' fs; m \<leftarrow> rd_str ''mime_type'' fs; d \<leftarrow> rd_str ''detail'' fs;
        Some (ImagePart \<lparr>image_URL = u, image_MIMEType = m, image_Detail = d\<rparr>) })
      else if ty = ''audio'' then read (\<lambda>fs. do { u \<leftarrow> rd_str ''url'' fs; m \<leftarrow> rd_str ''mime_type'' fs; Some (AudioPart u m) })
      else if ty = ''document'' then read (\<lambda>fs. do {
        u \<leftarrow> rd_str ''url'' fs; m \<leftarrow> rd_str ''mime_type'' fs; t \<leftarrow> rd_str ''title'' fs; Some (DocumentPart u m t) })
      else Inl (ErrorString (''unknown request part type: '' @ go_quote ty)))"

definition decodeResponsePart :: "(json \<Rightarrow> string) \<Rightarrow> serialized_part \<Rightarrow> response_part result" where
  "decodeResponsePart print env =
     (let ty = sp_Type env; fields = struct_fields (sp_Data env);
          read = (\<lambda>rd. or_error (json_error ty) (Option.bind fields rd)) in
      if ty = ''text'' then read (\<lambda>fs. map_option TextPart (rd_str ''content'' fs))
      else if ty = ''tool-call'' then read (\<lambda>fs. do {
        n \<leftarrow> rd_str ''tool_name'' fs; a \<leftarrow> rd_str ''args_json'' fs; tid \<leftarrow> rd_str ''tool_call_id'' fs;
        m \<leftarrow> read_field (dec_map (dec_string [])) fmempty ''metadata'' fs;
        Some (ToolCallPart \<lparr>tc_ToolName = n, tc_ArgsJSON = a, tc_ToolCallID = tid, tc_Metadata = m\<rparr>) })
      else if ty = ''thinking'' then read (\<lambda>fs. do {
        c \<leftarrow> rd_str ''content'' fs; s \<leftarrow> rd_str ''signature'' fs; Some (ThinkingPart c s) })
      else if ty = ''provider-metadata'' then read (\<lambda>fs. do {
        p \<leftarrow> rd_str ''provider'' fs; k \<leftarrow> rd_str ''kind'' fs; raw \<leftarrow> rd_raw ''payload'' fs;
        Some (ProviderMetadataPart p k (case raw of RawJSON j \<Rightarrow> print j | _ \<Rightarrow> [])) })
      else Inl (ErrorString (''unknown response part type: '' @ go_quote ty)))"

fun decodeRequestParts :: "serialized_part list \<Rightarrow> request_part list result" where
  "decodeRequestParts [] = Inr []"
| "decodeRequestParts (env # envs) =
     (case decodeRequestPart env of
        Inl e \<Rightarrow> Inl e
      | Inr p \<Rightarrow> (case decodeRequestParts envs of Inl e \<Rightarrow> Inl e | Inr ps \<Rightarrow> Inr (p # ps)))"

fun decodeResponseParts :: "(json \<Rightarrow> string) \<Rightarrow> serialized_part list \<Rightarrow> response_part list result" where
  "decodeResponseParts print [] = Inr []"
| "decodeResponseParts print (env # envs) =
     (case decodeResponsePart print env of
        Inl e \<Rightarrow> Inl e
      | Inr p \<Rightarrow> (case decodeResponseParts print envs of Inl e \<Rightarrow> Inl e | Inr ps \<Rightarrow> Inr (p # ps)))"

abbreviation rd_parts :: "string \<Rightarrow> (string \<times> json) list \<Rightarrow> serialized_part list option" where
  "rd_parts \<equiv> read_field (dec_list dec_part) []"

text \<open>A field of type \<^verbatim>\<open>Usage\<close>: an object, or \<^verbatim>\<open>null\<close>, which changes nothing.\<close>

definition dec_usage :: "usage \<Rightarrow> json \<Rightarrow> usage option" where
  "dec_usage u v = (case v of JNull \<Rightarrow> Some u | JObj fs \<Rightarrow> read_usage u fs | _ \<Rightarrow> None)"

definition decodeMessage :: "(json \<Rightarrow> string) \<Rightarrow> serialized_message \<Rightarrow> model_message result" where
  "decodeMessage print env =
     (if sm_Kind env = ''request'' then
        (case Option.bind (struct_fields (sm_Data env)) (rd_parts ''parts'') of
           None \<Rightarrow> Inl (json_error ''request'')
         | Some envs \<Rightarrow> (case decodeRequestParts envs of Inl e \<Rightarrow> Inl e | Inr ps \<Rightarrow> Inr (ModelRequest ps)))
      else if sm_Kind env = ''response'' then
        (case Option.bind (struct_fields (sm_Data env)) (\<lambda>fs. do {
                envs \<leftarrow> rd_parts ''parts'' fs; u \<leftarrow> read_field dec_usage zero_usage ''usage'' fs;
                n \<leftarrow> rd_str ''model_name'' fs; r \<leftarrow> rd_str ''finish_reason'' fs; Some (envs, u, n, r) }) of
           None \<Rightarrow> Inl (json_error ''response'')
         | Some (envs, u, n, r) \<Rightarrow>
             (case decodeResponseParts print envs of
                Inl e \<Rightarrow> Inl e
              | Inr ps \<Rightarrow> Inr (ModelResponse \<lparr>resp_Parts = ps, resp_Usage = u, resp_ModelName = n, resp_FinishReason = text_finish r\<rparr>)))
      else Inl (ErrorString (''unknown message kind: '' @ go_quote (sm_Kind env))))"

fun DecodeMessages :: "(json \<Rightarrow> string) \<Rightarrow> serialized_message list \<Rightarrow> model_message list result" where
  "DecodeMessages print [] = Inr []"
| "DecodeMessages print (env # envs) =
     (case decodeMessage print env of
        Inl e \<Rightarrow> Inl e
      | Inr m \<Rightarrow> (case DecodeMessages print envs of Inl e \<Rightarrow> Inl e | Inr ms \<Rightarrow> Inr (m # ms)))"

definition UnmarshalMessages :: "(json \<Rightarrow> string) \<Rightarrow> json \<Rightarrow> model_message list result" where
  "UnmarshalMessages print doc =
     (case dec_list dec_message [] doc of
        None \<Rightarrow> Inl (json_error ''message envelopes'')
      | Some envs \<Rightarrow> DecodeMessages print envs)"

definition DecodeModelResponse :: "(json \<Rightarrow> string) \<Rightarrow> serialized_message option \<Rightarrow> model_response result" where
  "DecodeModelResponse print env =
     (case env of
        None \<Rightarrow> Inl (ErrorString ''nil serialized response'')
      | Some env \<Rightarrow>
          (case decodeMessage print env of
             Inl e \<Rightarrow> Inl e
           | Inr (ModelResponse r) \<Rightarrow> Inr r
           | Inr (ModelRequest _) \<Rightarrow> Inl (ErrorString ''expected response envelope, got core.ModelRequest'')))"

section \<open>Snapshots\<close>

text \<open>
  The serialized snapshot has the encoded messages in place of the messages; the other fields are
  copied. A nil snapshot is \<open>None\<close>.
\<close>

definition EncodeRunSnapshot ::
    "(string \<Rightarrow> json option) \<Rightarrow> snapshot option \<Rightarrow> (serialized_message list \<times> snapshot) result" where
  "EncodeRunSnapshot parse snap =
     (case snap of
        None \<Rightarrow> Inl (ErrorString ''nil run snapshot'')
      | Some s \<Rightarrow> (case EncodeMessages parse (snap_Messages s) of Inl e \<Rightarrow> Inl e | Inr ms \<Rightarrow> Inr (ms, s)))"

definition DecodeRunSnapshot ::
    "(json \<Rightarrow> string) \<Rightarrow> (serialized_message list \<times> snapshot) option \<Rightarrow> snapshot option result" where
  "DecodeRunSnapshot print snap =
     (case snap of
        None \<Rightarrow> Inr None
      | Some (ms, s) \<Rightarrow> (case DecodeMessages print ms of Inl e \<Rightarrow> Inl e | Inr ms \<Rightarrow> Inr (Some (s\<lparr>snap_Messages := ms\<rparr>))))"

definition snapshot_fields :: "serialized_message list \<Rightarrow> snapshot \<Rightarrow> (string \<times> json) list" where
  "snapshot_fields ms s =
     [(''messages'', JArr (map message_json ms)), (''usage'', run_usage_json (snap_Usage s)),
      (''last_input_tokens'', JNum (snap_LastInputTokens s)), (''retries'', JNum (snap_Retries s))] @
     int_map_opt ''tool_retries'' (snap_ToolRetries s) @
     [(''run_id'', JStr (snap_RunID s))] @ str_opt ''parent_run_id'' (snap_ParentRunID s) @
     [(''run_step'', JNum (snap_RunStep s)), (''run_start_time'', JTime (snap_RunStartTime s)), (''prompt'', JStr (snap_Prompt s))] @
     optional (snap_ToolState s = fmempty) ''tool_state'' (map_json any_json (snap_ToolState s)) @
     str_opt ''source_trace_run_id'' (snap_SourceTraceRunID s) @ str_opt ''source_snapshot_id'' (snap_SourceSnapshotID s)"

definition MarshalSnapshot :: "(string \<Rightarrow> json option) \<Rightarrow> snapshot option \<Rightarrow> json result" where
  "MarshalSnapshot parse snap =
     (case EncodeRunSnapshot parse snap of Inl e \<Rightarrow> Inl e | Inr (ms, s) \<Rightarrow> Inr (JObj (snapshot_fields ms s)))"

definition read_snapshot :: "(string \<times> json) list \<Rightarrow> (raw_message \<times> snapshot) option" where
  "read_snapshot fs = do {
     ms \<leftarrow> rd_raw ''messages'' fs; u \<leftarrow> read_field dec_run_usage zero_run_usage ''usage'' fs;
     last \<leftarrow> rd_int ''last_input_tokens'' fs; re \<leftarrow> rd_int ''retries'' fs; tr \<leftarrow> rd_int_map ''tool_retries'' fs;
     rid \<leftarrow> rd_str ''run_id'' fs; pid \<leftarrow> rd_str ''parent_run_id'' fs; step \<leftarrow> rd_int ''run_step'' fs;
     start \<leftarrow> rd_time ''run_start_time'' fs; p \<leftarrow> rd_str ''prompt'' fs;
     ts \<leftarrow> read_field (dec_map (\<lambda>v. Some (json_any v))) fmempty ''tool_state'' fs;
     st \<leftarrow> rd_str ''source_trace_run_id'' fs; ss \<leftarrow> rd_str ''source_snapshot_id'' fs;
     Some (ms, \<lparr>snap_Messages = [], snap_Usage = u, snap_LastInputTokens = last, snap_Retries = re, snap_ToolRetries = tr,
       snap_RunID = rid, snap_ParentRunID = pid, snap_RunStep = step, snap_RunStartTime = start, snap_Prompt = p,
       snap_ToolState = ts, snap_SourceTraceRunID = st, snap_SourceSnapshotID = ss\<rparr>) }"

definition UnmarshalSnapshot :: "(json \<Rightarrow> string) \<Rightarrow> json \<Rightarrow> snapshot option result" where
  "UnmarshalSnapshot print doc =
     (case Option.bind (struct_fields (RawJSON doc)) read_snapshot of
        None \<Rightarrow> Inl (ErrorString ''json: cannot unmarshal'')
      | Some (RawJSON v, s) \<Rightarrow>
          (case dec_list dec_message [] v of
             None \<Rightarrow> Inl (ErrorString ''json: cannot unmarshal'')
           | Some ms \<Rightarrow> DecodeRunSnapshot print (Some (ms, s)))
      | Some _ \<Rightarrow> Inl (ErrorString ''unexpected end of JSON input''))"

end
