(* ===== verification/Core_Serialize_Trip.thy ===== *)
theory Core_Serialize_Trip
  imports Core_Serialize
begin

text \<open>
  What is read back of what was written: values, maps, messages and snapshots. A document has one kind of
  number, which becomes a float64 when it is read into \<^verbatim>\<open>any\<close>; everything else comes back as it was.
\<close>

section \<open>Values and maps\<close>

text \<open>Values as the model represents them: a map is listed in the order of its keys, a float64 is one.\<close>

fun proper_any :: "any \<Rightarrow> bool" where
  "proper_any (AnyFloat i) \<longleftrightarrow> float64_of i = i"
| "proper_any (AnyList xs) \<longleftrightarrow> list_all proper_any xs"
| "proper_any (AnyMap kvs) \<longleftrightarrow> sorted_wrt (<) (map fst kvs) \<and> list_all (\<lambda>(_, v). proper_any v) kvs"
| "proper_any _ \<longleftrightarrow> True"

text \<open>The value that is read back: every integer has become the nearest float64.\<close>

fun reread_any :: "any \<Rightarrow> any" where
  "reread_any (AnyInt i) = AnyFloat (float64_of i)"
| "reread_any (AnyList xs) = AnyList (map reread_any xs)"
| "reread_any (AnyMap kvs) = AnyMap (map (\<lambda>(k, v). (k, reread_any v)) kvs)"
| "reread_any v = v"

fun no_ints :: "any \<Rightarrow> bool" where
  "no_ints (AnyInt i) \<longleftrightarrow> False"
| "no_ints (AnyList xs) \<longleftrightarrow> list_all no_ints xs"
| "no_ints (AnyMap kvs) \<longleftrightarrow> list_all (\<lambda>(_, v). no_ints v) kvs"
| "no_ints _ \<longleftrightarrow> True"

lemma reread_any_id: "no_ints a \<Longrightarrow> reread_any a = a"
  by (induction a) (auto simp: list_all_iff intro!: map_idI)

lemma put_last: "(\<forall>p \<in> set kvs. fst p < k) \<Longrightarrow> put k v kvs = kvs @ [(k, v)]"
proof (induction kvs)
  case (Cons p kvs)
  then show ?case by (cases p) (auto dest: order.asym)
qed simp

lemma fold_put: "sorted_wrt (<) (map fst kvs) \<Longrightarrow> fold (\<lambda>(k, v). put k v) kvs [] = kvs"
  by (induction kvs rule: rev_induct) (auto simp: sorted_wrt_append put_last)

lemma any_round_trip: "proper_any a \<Longrightarrow> json_any (any_json a) = reread_any a"
proof (induction a)
  case (AnyMap kvs)
  let ?js = "map (\<lambda>(k, v). (k, any_json v)) kvs" and ?rs = "map (\<lambda>(k, v). (k, reread_any v)) kvs"
  have keys: "map fst ?js = map fst kvs" "map fst ?rs = map fst kvs" by auto
  then have "sort_key fst ?js = ?js"
    using AnyMap.prems by (intro sort_key_id_if_sorted) (simp only: keys proper_any.simps strict_sorted_imp_sorted)
  moreover have "map (\<lambda>(k, v). (k, json_any v)) ?js = ?rs"
    using AnyMap by (auto simp: list_all_iff)
  moreover have "fold (\<lambda>(k, v). put k v) ?rs [] = ?rs"
    using AnyMap.prems by (intro fold_put) (simp only: keys proper_any.simps)
  ultimately show ?case by (simp only: any_json.simps json_any.simps reread_any.simps)
qed (simp_all add: list_all_iff)

lemma map_reread:
  assumes "\<And>v. v \<in> fmran' m \<Longrightarrow> dec (enc v) = Some (g v)"
  shows "dec_map dec fmempty (map_json enc m) = Some (fmmap g m)"
proof -
  let ?f = "\<lambda>k. (k, case fmlookup m k of None \<Rightarrow> JNull | Some v \<Rightarrow> enc v)"
  let ?step = "\<lambda>(k, v) acc. Option.bind acc (\<lambda>m. Option.bind (dec v) (\<lambda>x. Some (fmupd k x m)))"
  have dec: "dec (enc v) = Some (g v)" if "fmlookup m k = Some v" for k v
    using assms that by (auto intro: fmran'I)
  have "\<exists>m'. fold ?step (map ?f ks) (Some m0) = Some m' \<and>
      (\<forall>x. fmlookup m' x = (if x \<in> set ks then map_option g (fmlookup m x) else fmlookup m0 x))" if "set ks \<subseteq> fmdom' m" for ks m0
    using that
  proof (induction ks arbitrary: m0)
    case (Cons k ks)
    then obtain v where v: "fmlookup m k = Some v" by (auto simp: fmlookup_dom'_iff)
    from Cons.IH [of "fmupd k (g v) m0"] Cons.prems show ?case by (auto simp: v dec [OF v])
  qed simp
  from this [of "map_keys m" fmempty] obtain m' where
    m': "fold ?step (map ?f (map_keys m)) (Some fmempty) = Some m'"
        "\<And>x. fmlookup m' x = (if x \<in> fmdom' m then map_option g (fmlookup m x) else None)" by auto
  have "m' = fmmap g m" by (rule fmap_ext) (auto simp: m'(2) fmlookup_dom'_iff)
  then show ?thesis using m'(1) by (simp add: map_json_def)
qed

lemma map_round_trip:
  assumes "\<And>v. v \<in> fmran' m \<Longrightarrow> dec (enc v) = Some v"
  shows "dec_map dec fmempty (map_json enc m) = Some m"
proof -
  have "fmmap (\<lambda>v. v) m = m" by (rule fmap_ext) (simp add: option.map_ident)
  then show ?thesis using map_reread [of m dec enc "\<lambda>v. v"] assms by simp
qed

text \<open>Integers of up to 53 bits are exact.\<close>

lemma float64_small:
  assumes "\<bar>i\<bar> < 2 ^ 53"
  shows "float64_of i = i"
proof -
  have "nat \<bar>i\<bar> < 2 ^ 53" using assms by (simp add: nat_less_iff)
  then have "floorlog 2 (nat \<bar>i\<bar>) \<le> 53" by (simp add: floorlog_leI)
  then show ?thesis by (simp add: float64_of_def Let_def mult_sgn_abs)
qed

section \<open>Fields\<close>

lemma field_values_simps [simp]:
  "field_values name [] = []"
  "field_values name ((k, v) # fs) = (if foldName k = foldName name then v # field_values name fs else field_values name fs)"
  "field_values name (fs @ gs) = field_values name fs @ field_values name gs"
  "field_values name (optional c k v) = (if c \<or> foldName k \<noteq> foldName name then [] else [v])"
  by (auto simp: field_values_def optional_def)

lemmas opt_defs = str_opt_def int_opt_def int_map_opt_def

lemma int_map_round_trip [simp]: "dec_map (dec_int 0) fmempty (map_json JNum m) = Some m"
  by (rule map_round_trip) simp

lemma string_map_round_trip [simp]: "dec_map (dec_string []) fmempty (map_json JStr m) = Some m"
  by (rule map_round_trip) simp

lemma usage_round_trip: "read_usage zero_usage (usage_fields u @ fs) = Some (usage.truncate u)"
  if "\<And>n. n \<in> {''input_tokens'', ''output_tokens'', ''cache_write_tokens'', ''cache_read_tokens'', ''details''} \<Longrightarrow> field_values n fs = []"
  using that
  by (auto simp: read_usage_def read_field_def usage_fields_def opt_defs zero_usage_def fold_char_def usage.defs)

lemma those_map: "(\<And>x. x \<in> set xs \<Longrightarrow> f (g x) = Some x) \<Longrightarrow> those (map f (map g xs)) = Some xs"
  by (induction xs) auto

lemma image_round_trip [simp]: "dec_image (image_json im) = Some im"
  by (simp add: dec_image_def image_json_def read_field_def fold_char_def)

lemma part_json_round_trip [simp]: "sp_Data p = RawJSON j \<Longrightarrow> dec_part (part_json p) = Some p"
  by (simp add: dec_part_def part_json_def raw_json_def read_field_def fold_char_def)

lemma message_json_round_trip [simp]: "sm_Data m = RawJSON j \<Longrightarrow> dec_message (message_json m) = Some m"
  by (simp add: dec_message_def message_json_def raw_json_def read_field_def fold_char_def)

section \<open>Parts\<close>

fun storable_request_part :: "request_part \<Rightarrow> bool" where
  "storable_request_part (ToolReturnPart _ c _ _) \<longleftrightarrow> proper_any c"
| "storable_request_part (DeferredToolPart _ _ _) \<longleftrightarrow> False"
| "storable_request_part (FatalToolPart _) \<longleftrightarrow> False"
| "storable_request_part _ \<longleftrightarrow> True"

fun reread_part :: "request_part \<Rightarrow> request_part" where
  "reread_part (ToolReturnPart name c tid imgs) = ToolReturnPart name (reread_any c) tid imgs"
| "reread_part p = p"

fun storable_response_part :: "(string \<Rightarrow> json option) \<Rightarrow> (json \<Rightarrow> string) \<Rightarrow> response_part \<Rightarrow> bool" where
  "storable_response_part parse print (ProviderMetadataPart _ _ payload) \<longleftrightarrow>
     payload = [] \<or> map_option print (parse payload) = Some payload"
| "storable_response_part parse print _ \<longleftrightarrow> True"

lemmas part_defs = part_of_def decodeRequestPart_def decodeResponsePart_def decode_tool_return_def read_field_def
  fold_char_def opt_defs or_error_def Let_def

lemma request_part_round_trip:
  assumes "storable_request_part p"
  shows "\<exists>env j. encodeRequestPart p = Inr env \<and> sp_Data env = RawJSON j \<and> decodeRequestPart env = Inr (reread_part p)"
proof (cases p)
  case (ToolReturnPart n c tid imgs)
  have "those (map dec_image (map image_json imgs)) = Some imgs" by (rule those_map) simp
  then have "those (map (dec_image \<circ> image_json) imgs) = Some imgs" by simp
  with ToolReturnPart assms any_round_trip [of c] show ?thesis by (simp add: part_defs)
qed (use assms in \<open>simp_all add: part_defs\<close>)

lemma response_part_round_trip:
  assumes "storable_response_part parse print p"
  shows "\<exists>env j. encodeResponsePart parse p = Inr env \<and> sp_Data env = RawJSON j \<and> decodeResponsePart print env = Inr p"
proof (cases p)
  case (ProviderMetadataPart provider kind payload)
  show ?thesis
  proof (cases "payload = []")
    case False
    with assms ProviderMetadataPart obtain j where "parse payload = Some j" "print j = payload" by auto
    with False ProviderMetadataPart show ?thesis by (simp add: part_defs)
  qed (use ProviderMetadataPart in \<open>simp add: part_defs\<close>)
qed (simp_all add: part_defs)

section \<open>Messages\<close>

definition proper_finish :: "finish_reason \<Rightarrow> bool" where
  "proper_finish r \<longleftrightarrow> text_finish (finish_text r) = r"

fun storable_message :: "(string \<Rightarrow> json option) \<Rightarrow> (json \<Rightarrow> string) \<Rightarrow> model_message \<Rightarrow> bool" where
  "storable_message parse print (ModelRequest ps) \<longleftrightarrow> list_all storable_request_part ps"
| "storable_message parse print (ModelResponse r) \<longleftrightarrow>
     list_all (storable_response_part parse print) (resp_Parts r) \<and> proper_finish (resp_FinishReason r)"

fun reread_message :: "model_message \<Rightarrow> model_message" where
  "reread_message (ModelRequest ps) = ModelRequest (map reread_part ps)"
| "reread_message (ModelResponse r) = ModelResponse r"

definition holds_documents :: "serialized_part list \<Rightarrow> bool" where
  "holds_documents envs \<longleftrightarrow> list_all (\<lambda>p. \<exists>j. sp_Data p = RawJSON j) envs"

lemma request_parts_round_trip:
  "list_all storable_request_part ps \<Longrightarrow>
   \<exists>envs. encodeRequestParts ps = Inr envs \<and> holds_documents envs \<and> decodeRequestParts envs = Inr (map reread_part ps)"
proof (induction ps)
  case (Cons p ps)
  then obtain envs where "encodeRequestParts ps = Inr envs" "holds_documents envs" "decodeRequestParts envs = Inr (map reread_part ps)" by auto
  moreover obtain env j where "encodeRequestPart p = Inr env" "sp_Data env = RawJSON j" "decodeRequestPart env = Inr (reread_part p)"
    using request_part_round_trip Cons.prems by fastforce
  ultimately show ?case by (auto simp: holds_documents_def)
qed (simp add: holds_documents_def)

lemma response_parts_round_trip:
  "list_all (storable_response_part parse print) ps \<Longrightarrow>
   \<exists>envs. encodeResponseParts parse ps = Inr envs \<and> holds_documents envs \<and> decodeResponseParts print envs = Inr ps"
proof (induction ps)
  case (Cons p ps)
  then obtain envs where "encodeResponseParts parse ps = Inr envs" "holds_documents envs"
    "decodeResponseParts print envs = Inr ps" by auto
  moreover obtain env j where "encodeResponsePart parse p = Inr env" "sp_Data env = RawJSON j" "decodeResponsePart print env = Inr p"
    using response_part_round_trip Cons.prems by fastforce
  ultimately show ?case by (auto simp: holds_documents_def)
qed (simp add: holds_documents_def)

lemma parts_document: "holds_documents envs \<Longrightarrow> those (map (dec_part \<circ> part_json) envs) = Some envs"
  using those_map [of envs dec_part part_json] by (fastforce simp: holds_documents_def list_all_iff)

lemma message_round_trip:
  assumes "storable_message parse print m"
  shows "\<exists>env j. encodeMessage parse m = Inr env \<and> sm_Data env = RawJSON j \<and> decodeMessage print env = Inr (reread_message m)"
proof (cases m)
  case (ModelRequest ps)
  then obtain envs where "encodeRequestParts ps = Inr envs" "holds_documents envs" "decodeRequestParts envs = Inr (map reread_part ps)"
    using request_parts_round_trip [of ps] assms by auto
  with ModelRequest show ?thesis
    by (simp add: decodeMessage_def read_field_def fold_char_def parts_document)
next
  case (ModelResponse r)
  then obtain envs where "encodeResponseParts parse (resp_Parts r) = Inr envs" "holds_documents envs"
      "decodeResponseParts print envs = Inr (resp_Parts r)"
    using response_parts_round_trip [of parse print "resp_Parts r"] assms by auto
  moreover have "read_usage zero_usage (usage_fields (resp_Usage r)) = Some (resp_Usage r)"
    using usage_round_trip [of "[]" "resp_Usage r"] by (simp add: usage.defs)
  ultimately show ?thesis
    using ModelResponse assms
    by (simp add: decodeMessage_def read_field_def fold_char_def parts_document dec_usage_def proper_finish_def)
qed

lemma messages_encode_decode:
  "list_all (storable_message parse print) ms \<Longrightarrow>
   \<exists>envs. EncodeMessages parse ms = Inr envs \<and> DecodeMessages print envs = Inr (map reread_message ms) \<and>
     dec_list dec_message [] (JArr (map message_json envs)) = Some envs"
proof (induction ms)
  case (Cons m ms)
  then obtain envs where "EncodeMessages parse ms = Inr envs" "DecodeMessages print envs = Inr (map reread_message ms)"
    "dec_list dec_message [] (JArr (map message_json envs)) = Some envs" by auto
  moreover obtain env j where "encodeMessage parse m = Inr env" "sm_Data env = RawJSON j" "decodeMessage print env = Inr (reread_message m)"
    using message_round_trip Cons.prems by fastforce
  ultimately show ?case by auto
qed simp

section \<open>Snapshots\<close>

lemma run_usage_round_trip: "dec_run_usage zero_run_usage (run_usage_json u) = Some u"
proof -
  let ?own = "[(''requests'', JNum (Requests u)), (''tool_calls'', JNum (ToolCalls u))]"
  have "field_values n ?own = []"
    if "n \<in> {''input_tokens'', ''output_tokens'', ''cache_write_tokens'', ''cache_read_tokens'', ''details''}" for n
    using that by (auto simp: fold_char_def)
  from usage_round_trip [OF this, of u]
  have "read_usage (usage.truncate zero_run_usage) (usage_fields u @ ?own) = Some (usage.truncate u)"
    by (simp add: zero_run_usage_def zero_usage_def usage.defs)
  then show ?thesis
    by (simp add: dec_run_usage_def run_usage_json_def read_field_def fold_char_def usage_fields_def opt_defs
        zero_run_usage_def usage.defs)
qed

definition storable_snapshot :: "(string \<Rightarrow> json option) \<Rightarrow> (json \<Rightarrow> string) \<Rightarrow> snapshot \<Rightarrow> bool" where
  "storable_snapshot parse print s \<longleftrightarrow> list_all (storable_message parse print) (snap_Messages s) \<and>
     (\<forall>v \<in> fmran' (snap_ToolState s). proper_any v)"

definition reread_snapshot :: "snapshot \<Rightarrow> snapshot" where
  "reread_snapshot s = s\<lparr>snap_Messages := map reread_message (snap_Messages s),
     snap_ToolState := fmmap reread_any (snap_ToolState s)\<rparr>"

lemma snapshot_encode_decode:
  assumes "storable_snapshot parse print s"
  shows "\<exists>doc. MarshalSnapshot parse (Some s) = Inr doc \<and> UnmarshalSnapshot print doc = Inr (Some (reread_snapshot s))"
proof -
  obtain envs where envs: "EncodeMessages parse (snap_Messages s) = Inr envs"
      "DecodeMessages print envs = Inr (map reread_message (snap_Messages s))"
      "dec_list dec_message [] (JArr (map message_json envs)) = Some envs"
    using messages_encode_decode [of parse print "snap_Messages s"] assms by (auto simp: storable_snapshot_def)
  have "dec_map (\<lambda>v. Some (json_any v)) fmempty (map_json any_json (snap_ToolState s)) = Some (fmmap reread_any (snap_ToolState s))"
    using assms by (intro map_reread) (auto simp: storable_snapshot_def any_round_trip)
  then have "read_snapshot (snapshot_fields envs s) =
      Some (RawJSON (JArr (map message_json envs)), s\<lparr>snap_Messages := [], snap_ToolState := fmmap reread_any (snap_ToolState s)\<rparr>)"
    by (simp add: read_snapshot_def snapshot_fields_def read_field_def fold_char_def opt_defs run_usage_round_trip)
  with envs show ?thesis
    by (simp add: MarshalSnapshot_def EncodeRunSnapshot_def UnmarshalSnapshot_def DecodeRunSnapshot_def reread_snapshot_def)
qed

text \<open>A snapshot without integers of type \<^verbatim>\<open>any\<close> is read back as it was.\<close>

fun int_free_part :: "request_part \<Rightarrow> bool" where
  "int_free_part (ToolReturnPart _ c _ _) \<longleftrightarrow> no_ints c"
| "int_free_part _ \<longleftrightarrow> True"

fun int_free_message :: "model_message \<Rightarrow> bool" where
  "int_free_message (ModelRequest ps) \<longleftrightarrow> list_all int_free_part ps"
| "int_free_message (ModelResponse r) \<longleftrightarrow> True"

definition int_free :: "snapshot \<Rightarrow> bool" where
  "int_free s \<longleftrightarrow> list_all int_free_message (snap_Messages s) \<and> (\<forall>v \<in> fmran' (snap_ToolState s). no_ints v)"

lemma reread_part_id: "int_free_part p \<Longrightarrow> reread_part p = p"
  by (cases p) (simp_all add: reread_any_id)

lemma reread_message_id: "int_free_message m \<Longrightarrow> reread_message m = m"
  by (cases m) (auto simp: list_all_iff reread_part_id intro!: map_idI)

lemma reread_snapshot_id: "int_free s \<Longrightarrow> reread_snapshot s = s"
proof -
  assume s: "int_free s"
  then have "fmmap reread_any (snap_ToolState s) = snap_ToolState s"
    by (intro fmap_ext) (auto simp: int_free_def reread_any_id fmran'I map_option_idI intro!: option.map_ident_strong)
  with s show ?thesis by (simp add: reread_snapshot_def int_free_def list_all_iff map_idI reread_message_id)
qed

end
