(* ===== verification/Core_Persistence.thy ===== *)
theory Core_Persistence
  imports Core_Serialize_Trip Core_Scenario
begin

text \<open>A run that is stored as a document and resumed from it.\<close>

lemma resumed_state:
  assumes "cfg_messages cfg = []" and "rs_runID s \<noteq> []" and "rs_startTime s \<noteq> 0"
  shows "initial_state a runID parent now (cfg\<lparr>cfg_snapshot := Some (reread_snapshot (take_snapshot prompt toolState s))\<rparr>) =
    s\<lparr>rs_messages := map reread_message (rs_messages s), rs_activeApprovals := 0, rs_events := [],
      rs_limits := (case cfg_usageLimits cfg of None \<Rightarrow> ag_usageLimits a | Some l \<Rightarrow> l),
      rs_parentRunID := if rs_parentRunID s = [] then parent else rs_parentRunID s\<rparr>"
  using assms by (simp add: initial_state_def Let_def applySnapshot_def take_snapshot_def newRunState_def reread_snapshot_def)

text \<open>
  C31. A stored run goes on where it stopped. When the snapshot of a run state can be stored (no internal
  parts in its messages, raw payloads that the JSON printer leaves as they are, values and finish reasons
  in the form in which the model has each Go value once), it is written as a document, and the document
  is read back as the snapshot in which the integers in tool results and in the tool state have become float64s: the same snapshot when there are none. When the state has a run
  identifier and a start time, a run started from the snapshot without messages of its own begins in the
  state so read, but for the limits, which come from the new run, the parent when the state had none, and the
  approvals and events that belong to the old run.
\<close>

theorem snapshot_round_trip:
  assumes "storable_snapshot parse print (take_snapshot prompt toolState s)" and "cfg_messages cfg = []"
    and "rs_runID s \<noteq> []" and "rs_startTime s \<noteq> 0"
  shows "\<exists>doc snap. MarshalSnapshot parse (Some (take_snapshot prompt toolState s)) = Inr doc \<and>
    UnmarshalSnapshot print doc = Inr (Some snap) \<and> snap = reread_snapshot (take_snapshot prompt toolState s) \<and>
    (int_free (take_snapshot prompt toolState s) \<longrightarrow> snap = take_snapshot prompt toolState s) \<and>
    initial_state a runID parent now (cfg\<lparr>cfg_snapshot := Some snap\<rparr>) =
      s\<lparr>rs_messages := map reread_message (rs_messages s), rs_activeApprovals := 0, rs_events := [],
        rs_limits := (case cfg_usageLimits cfg of None \<Rightarrow> ag_usageLimits a | Some l \<Rightarrow> l),
        rs_parentRunID := if rs_parentRunID s = [] then parent else rs_parentRunID s\<rparr>"
proof -
  obtain doc where doc: "MarshalSnapshot parse (Some (take_snapshot prompt toolState s)) = Inr doc"
      "UnmarshalSnapshot print doc = Inr (Some (reread_snapshot (take_snapshot prompt toolState s)))"
    using snapshot_encode_decode [OF assms(1)] by blast
  show ?thesis
    by (rule exI [of _ doc], rule exI [of _ "reread_snapshot (take_snapshot prompt toolState s)"])
      (use doc resumed_state [OF assms(2-4)] reread_snapshot_id in blast)
qed

text \<open>A conversation with a prompt, a call with a provider's note, and its result, in the middle of a run.\<close>

definition stored_state :: run_state where
  "stored_state = (newRunState ''run'' 1 (DefaultUsageLimits\<lparr>ToolCallsLimit := Some 5\<rparr>))\<lparr>rs_retries := 1, rs_runStep := 7,
     rs_messages := [ModelRequest [SystemPromptPart ''be brief'', UserPromptPart ''go''],
       ModelResponse (demo_response [ToolCallPart (demo_call ''add'' ''c1''), ProviderMetadataPart ''p'' ''k'' ''x'']),
       ModelRequest [ToolReturnPart ''add'' (AnyMap [(''sum'', AnyInt 3)]) ''c1'' []]]\<rparr>"

definition text_parse :: "string \<Rightarrow> json option" where
  "text_parse s = (if s = [] then None else Some (JStr s))"

definition text_print :: "json \<Rightarrow> string" where
  "text_print j = (case j of JStr s \<Rightarrow> s | _ \<Rightarrow> [])"

theorem snapshot_round_trip_witness:
  "\<exists>doc snap. MarshalSnapshot text_parse (Some (take_snapshot ''go'' (fmupd ''n'' (AnyInt 3) fmempty) stored_state)) = Inr doc \<and>
     UnmarshalSnapshot text_print doc = Inr (Some snap) \<and> fmlookup (snap_ToolState snap) ''n'' = Some (AnyFloat 3) \<and>
     initial_state (demo_agent [] [] EndStrategyEarly) ''other'' ''up'' 9 (demo_config\<lparr>cfg_snapshot := Some snap\<rparr>) =
       stored_state\<lparr>rs_messages := take 2 (rs_messages stored_state) @
         [ModelRequest [ToolReturnPart ''add'' (AnyMap [(''sum'', AnyFloat 3)]) ''c1'' []]], rs_parentRunID := ''up''\<rparr>"
proof -
  have "storable_snapshot text_parse text_print (take_snapshot ''go'' (fmupd ''n'' (AnyInt 3) fmempty) stored_state)"
    by (auto simp: storable_snapshot_def take_snapshot_def stored_state_def demo_response_def proper_finish_def
        text_finish_def text_parse_def text_print_def elim!: fmran'E split: if_splits)
  from snapshot_round_trip [OF this, of demo_config "demo_agent [] [] EndStrategyEarly" "''other''" "''up''" 9]
  show ?thesis
    by (auto simp: stored_state_def newRunState_def demo_config_def demo_agent_def reread_snapshot_def take_snapshot_def float64_small)
qed

end
