(* ===== verification/Core_Steer.thy ===== *)
theory Core_Steer
  imports Go_Errors "HOL-Library.Multiset"
begin

text \<open>
  The steering queue of \<^verbatim>\<open>core/steer.go\<close>: other goroutines put instructions into it while a streaming
  run is under way, and the run takes them at a safe boundary. A nil queue is \<open>None\<close>. The queue has a
  mutex; what other goroutines did to it since the run last held the mutex is \<open>sq_others\<close> of the world,
  arbitrary calls of \<^verbatim>\<open>Enqueue\<close> and \<^verbatim>\<open>RejectAll\<close>, which take effect when the run next takes the mutex. The
  hooks are parameters. Two fields are not in the code: the instructions that \<^verbatim>\<open>Enqueue\<close> accepted, and
  those that a hook was told of, in order.
\<close>

section \<open>The queue\<close>

record steer_message =
  steer_ID :: string
  steer_Text :: string
  steer_QueuedAt :: time

record 'w steer_hooks =
  OnPrepared :: "(steer_message list \<Rightarrow> 'w \<Rightarrow> go_error option \<times> 'w) option"
  OnConsumed :: "(steer_message \<Rightarrow> 'w \<Rightarrow> go_error option \<times> 'w) option"
  OnRejected :: "(steer_message \<Rightarrow> go_error \<Rightarrow> 'w \<Rightarrow> 'w) option"

datatype queue_call = CallEnqueue steer_message time | CallRejectAll "go_error option"

datatype steer_notice = Consumed steer_message | Rejected steer_message go_error

fun notice_message :: "steer_notice \<Rightarrow> steer_message" where
  "notice_message (Consumed m) = m"
| "notice_message (Rejected m _) = m"

record 'w steer_queue =
  sq_pending :: "steer_message list"
  sq_closed :: bool
  sq_hooks :: "'w steer_hooks"
  sq_others :: "'w \<Rightarrow> queue_call list \<times> 'w"
  sq_accepted :: "steer_message list"
  sq_notices :: "steer_notice list"

definition NewSteerQueue :: "'w steer_hooks \<Rightarrow> ('w \<Rightarrow> queue_call list \<times> 'w) \<Rightarrow> 'w steer_queue" where
  "NewSteerQueue hooks others = \<lparr>sq_pending = [], sq_closed = False, sq_hooks = hooks, sq_others = others,
     sq_accepted = [], sq_notices = []\<rparr>"

abbreviation ErrSteerQueueClosed :: go_error where
  "ErrSteerQueueClosed \<equiv> ErrorString ''core: steer queue is closed''"

abbreviation ErrSteerQueueFull :: go_error where
  "ErrSteerQueueFull \<equiv> ErrorString ''core: steer queue is full''"

abbreviation ErrSteerMessageEmpty :: go_error where
  "ErrSteerMessageEmpty \<equiv> ErrorString ''core: steer message is empty''"

definition SteerQueueMaxPending :: nat where
  "SteerQueueMaxPending = 64"

definition Enqueue :: "steer_message \<Rightarrow> time \<Rightarrow> 'w steer_queue option \<Rightarrow> go_error option \<times> 'w steer_queue option" where
  "Enqueue m now q =
     (case q of
        None \<Rightarrow> (Some ErrSteerQueueClosed, None)
      | Some q \<Rightarrow>
          (let m = m\<lparr>steer_Text := TrimSpace (steer_Text m)\<rparr> in
           if steer_Text m = [] then (Some ErrSteerMessageEmpty, Some q)
           else
             (let m = (if steer_QueuedAt m = zero_time then m\<lparr>steer_QueuedAt := now\<rparr> else m) in
              if sq_closed q then (Some ErrSteerQueueClosed, Some q)
              else if length (sq_pending q) \<ge> SteerQueueMaxPending then (Some ErrSteerQueueFull, Some q)
              else (None, Some (q\<lparr>sq_pending := sq_pending q @ [m], sq_accepted := sq_accepted q @ [m]\<rparr>)))))"

section \<open>Notices\<close>

fun reject_each :: "(steer_message \<Rightarrow> go_error \<Rightarrow> 'w \<Rightarrow> 'w) \<Rightarrow> go_error \<Rightarrow> steer_message list \<Rightarrow> 'w steer_queue \<Rightarrow> 'w
    \<Rightarrow> 'w steer_queue \<times> 'w" where
  "reject_each hook reason [] q w = (q, w)"
| "reject_each hook reason (m # ms) q w =
     reject_each hook reason ms (q\<lparr>sq_notices := sq_notices q @ [Rejected m reason]\<rparr>) (hook m reason w)"

definition reject :: "steer_message list \<Rightarrow> go_error \<Rightarrow> 'w steer_queue option \<Rightarrow> 'w \<Rightarrow> 'w steer_queue option \<times> 'w" where
  "reject ms reason q w =
     (case q of
        None \<Rightarrow> (None, w)
      | Some q \<Rightarrow>
          (case OnRejected (sq_hooks q) of
             None \<Rightarrow> (Some q, w)
           | Some hook \<Rightarrow> (let (q, w) = reject_each hook reason ms q w in (Some q, w))))"

text \<open>The part of \<^verbatim>\<open>close\<close> under the mutex, and the notices after it.\<close>

definition close_queue :: "go_error option \<Rightarrow> 'w steer_queue option \<Rightarrow> 'w \<Rightarrow> 'w steer_queue option \<times> 'w" where
  "close_queue reason q w =
     (case q of
        None \<Rightarrow> (None, w)
      | Some q \<Rightarrow>
          (let reason = (case reason of None \<Rightarrow> ErrSteerQueueClosed | Some e \<Rightarrow> e) in
           if sq_closed q then (Some q, w)
           else reject (sq_pending q) reason (Some (q\<lparr>sq_closed := True, sq_pending := []\<rparr>)) w))"

definition RejectAll :: "go_error option \<Rightarrow> 'w steer_queue option \<Rightarrow> 'w \<Rightarrow> 'w steer_queue option \<times> 'w" where
  "RejectAll reason q w = close_queue reason q w"

section \<open>The mutex\<close>

fun call_queue :: "queue_call \<Rightarrow> 'w steer_queue option \<Rightarrow> 'w \<Rightarrow> 'w steer_queue option \<times> 'w" where
  "call_queue (CallEnqueue m now) q w = (snd (Enqueue m now q), w)"
| "call_queue (CallRejectAll reason) q w = RejectAll reason q w"

fun queue_calls :: "queue_call list \<Rightarrow> 'w steer_queue option \<Rightarrow> 'w \<Rightarrow> 'w steer_queue option \<times> 'w" where
  "queue_calls [] q w = (q, w)"
| "queue_calls (c # cs) q w = (let (q, w) = call_queue c q w in queue_calls cs q w)"

definition lock :: "'w steer_queue option \<Rightarrow> 'w \<Rightarrow> 'w steer_queue option \<times> 'w" where
  "lock q w =
     (case q of
        None \<Rightarrow> (None, w)
      | Some q \<Rightarrow> (let (cs, w) = sq_others q w in queue_calls cs (Some q) w))"

section \<open>The run's side\<close>

definition take_all :: "bool \<Rightarrow> 'w steer_queue option \<Rightarrow> 'w \<Rightarrow> steer_message list \<times> 'w steer_queue option \<times> 'w" where
  "take_all terminal q w =
     (case lock q w of
        (None, w) \<Rightarrow> ([], None, w)
      | (Some q, w) \<Rightarrow>
          if sq_closed q then ([], Some q, w)
          else if sq_pending q = [] then ([], Some (if terminal then q\<lparr>sq_closed := True\<rparr> else q), w)
          else (sq_pending q, Some (q\<lparr>sq_pending := []\<rparr>), w))"

definition close_steers :: "go_error option \<Rightarrow> 'w steer_queue option \<Rightarrow> 'w \<Rightarrow> 'w steer_queue option \<times> 'w" where
  "close_steers reason q w = (let (q, w) = lock q w in close_queue reason q w)"

fun consume_each :: "(steer_message \<Rightarrow> 'w \<Rightarrow> go_error option \<times> 'w) \<Rightarrow> steer_message list \<Rightarrow> 'w steer_queue \<Rightarrow> 'w
    \<Rightarrow> go_error option \<times> 'w steer_queue option \<times> 'w" where
  "consume_each hook [] q w = (None, Some q, w)"
| "consume_each hook (m # ms) q w =
     (case hook m w of
        (Some err, w) \<Rightarrow> (let (q, w) = reject (m # ms) err (Some q) w in (Some err, q, w))
      | (None, w) \<Rightarrow> consume_each hook ms (q\<lparr>sq_notices := sq_notices q @ [Consumed m]\<rparr>) w)"

definition consumed :: "steer_message list \<Rightarrow> 'w steer_queue option \<Rightarrow> 'w \<Rightarrow> go_error option \<times> 'w steer_queue option \<times> 'w" where
  "consumed ms q w =
     (case q of
        None \<Rightarrow> (None, None, w)
      | Some q \<Rightarrow>
          (case OnConsumed (sq_hooks q) of None \<Rightarrow> (None, Some q, w) | Some hook \<Rightarrow> consume_each hook ms q w))"

definition prepared :: "steer_message list \<Rightarrow> 'w steer_queue option \<Rightarrow> 'w \<Rightarrow> go_error option \<times> 'w steer_queue option \<times> 'w" where
  "prepared ms q w =
     (case q of
        None \<Rightarrow> (None, None, w)
      | Some q \<Rightarrow>
          (case OnPrepared (sq_hooks q) of
             None \<Rightarrow> (None, Some q, w)
           | Some hook \<Rightarrow>
               if ms = [] then (None, Some q, w)
               else (case hook ms w of
                       (Some err, w) \<Rightarrow> (let (q, w) = reject ms err (Some q) w in (Some err, q, w))
                     | (None, w) \<Rightarrow> (None, Some q, w))))"

section \<open>Every instruction is settled once\<close>

text \<open>
  The instructions that were accepted are those still in the queue, those the run holds, and those
  a hook was told of, each once. Both hooks have to be there, since the queue tells nobody otherwise.
  The flag says whether there is a queue with both hooks; without it only the bounds of a queue are claimed.
\<close>

definition reporting :: "'w steer_queue \<Rightarrow> bool" where
  "reporting q \<longleftrightarrow> OnConsumed (sq_hooks q) \<noteq> None \<and> OnRejected (sq_hooks q) \<noteq> None"

definition settles :: "bool \<Rightarrow> 'w steer_queue option \<Rightarrow> steer_message list \<Rightarrow> bool" where
  "settles b q held =
     (case q of
        None \<Rightarrow> \<not> b \<and> held = []
      | Some q \<Rightarrow> (sq_closed q \<longrightarrow> sq_pending q = []) \<and> length (sq_pending q) \<le> SteerQueueMaxPending \<and>
          (b \<longrightarrow> reporting q \<and>
             mset (sq_accepted q) = mset (sq_pending q) + mset held + mset (map notice_message (sq_notices q))))"

definition queue_closed :: "'w steer_queue option \<Rightarrow> bool" where
  "queue_closed q = (case q of None \<Rightarrow> True | Some q \<Rightarrow> sq_closed q)"

lemma settles_None [simp]: "settles b None held \<longleftrightarrow> \<not> b \<and> held = []"
  by (simp add: settles_def)

lemma settles_SomeD:
  assumes "settles True (Some q) held"
  obtains rj cs where "OnRejected (sq_hooks q) = Some rj" "OnConsumed (sq_hooks q) = Some cs"
  using assms by (auto simp: settles_def reporting_def)

lemma settles_False_Some [simp]:
  "settles False (Some q) held \<longleftrightarrow> (sq_closed q \<longrightarrow> sq_pending q = []) \<and> length (sq_pending q) \<le> SteerQueueMaxPending"
  by (simp add: settles_def)

lemma reject_each_settles:
  assumes "settles b (Some q) (ms @ held)" and "reject_each hook reason ms q w = (q', w')"
  shows "settles b (Some q') held \<and> sq_closed q' = sq_closed q"
  using assms
proof (induction ms arbitrary: q w)
  case (Cons m ms)
  have "settles b (Some (q\<lparr>sq_notices := sq_notices q @ [Rejected m reason]\<rparr>)) (ms @ held)"
    using Cons.prems(1) by (auto simp: settles_def reporting_def)
  from Cons.IH [OF this] Cons.prems(2) show ?case by simp
qed simp

lemma reject_settles:
  assumes "settles b q (ms @ held)" and "reject ms reason q w = (q', w')"
  shows "settles b q' held \<and> queue_closed q' = queue_closed q"
proof (cases q)
  case (Some q0)
  show ?thesis
  proof (cases "OnRejected (sq_hooks q0)")
    case None
    with assms Some show ?thesis by (cases b) (auto simp: reject_def elim: settles_SomeD)
  next
    case (Some rj)
    with assms \<open>q = Some q0\<close> show ?thesis
      by (auto simp: reject_def queue_closed_def split: prod.splits dest: reject_each_settles)
  qed
qed (use assms in \<open>auto simp: reject_def\<close>)

lemma close_queue_settles:
  assumes "settles b q held" and "close_queue reason q w = (q', w')"
  shows "settles b q' held \<and> queue_closed q'"
proof (cases q)
  case (Some q0)
  show ?thesis
  proof (cases "sq_closed q0")
    case False
    have "settles b (Some (q0\<lparr>sq_closed := True, sq_pending := []\<rparr>)) (sq_pending q0 @ held)"
      using assms(1) Some by (auto simp: settles_def reporting_def ac_simps)
    from reject_settles [OF this] assms(2) Some False show ?thesis
      by (auto simp: close_queue_def Let_def queue_closed_def)
  qed (use assms Some in \<open>auto simp: close_queue_def queue_closed_def Let_def\<close>)
qed (use assms in \<open>auto simp: close_queue_def queue_closed_def\<close>)

lemma Enqueue_settles: "settles b q held \<Longrightarrow> settles b (snd (Enqueue m now q)) held"
  by (auto simp: Enqueue_def settles_def reporting_def Let_def SteerQueueMaxPending_def split: option.splits)

lemma Enqueue_queue_closed: "queue_closed (snd (Enqueue m now q)) = queue_closed q"
  by (auto simp: Enqueue_def queue_closed_def Let_def split: option.splits)

lemma call_queue_settles:
  "settles b q held \<Longrightarrow> call_queue c q w = (q', w') \<Longrightarrow> settles b q' held \<and> (queue_closed q \<longrightarrow> queue_closed q')"
  by (cases c) (auto simp: Enqueue_settles Enqueue_queue_closed RejectAll_def dest: close_queue_settles)

lemma queue_calls_settles:
  "settles b q held \<Longrightarrow> queue_calls cs q w = (q', w') \<Longrightarrow> settles b q' held \<and> (queue_closed q \<longrightarrow> queue_closed q')"
proof (induction cs arbitrary: q w)
  case (Cons c cs)
  obtain q1 w1 where c: "call_queue c q w = (q1, w1)" by fastforce
  from call_queue_settles [OF Cons.prems(1) c] Cons.IH [of q1 w1] Cons.prems(2) c show ?case by auto
qed simp

lemma lock_settles:
  assumes "settles b q held" and "lock q w = (q', w')"
  shows "settles b q' held \<and> (queue_closed q \<longrightarrow> queue_closed q')"
  using assms by (auto simp: lock_def split: option.splits prod.splits dest: queue_calls_settles)

lemma take_all_settles:
  assumes "settles b q held" and "take_all terminal q w = (ms, q', w')"
  shows "settles b q' (held @ ms) \<and> (queue_closed q \<longrightarrow> queue_closed q' \<and> ms = []) \<and> (terminal \<and> ms = [] \<longrightarrow> queue_closed q')"
proof -
  obtain q1 w1 where l: "lock q w = (q1, w1)" by fastforce
  from lock_settles [OF assms(1) l] assms(2) l show ?thesis
    by (auto simp: take_all_def settles_def reporting_def queue_closed_def ac_simps split: option.splits if_splits)
qed

lemma close_steers_settles:
  assumes "settles b q held" and "close_steers reason q w = (q', w')"
  shows "settles b q' held \<and> queue_closed q'"
proof -
  obtain q1 w1 where l: "lock q w = (q1, w1)" by fastforce
  from lock_settles [OF assms(1) l] assms(2) l show ?thesis
    by (auto simp: close_steers_def dest: close_queue_settles)
qed

lemma consume_each_settles:
  assumes "settles b (Some q) (ms @ held)" and "consume_each hook ms q w = (err, q', w')"
  shows "settles b q' held \<and> queue_closed q' = sq_closed q"
  using assms
proof (induction ms arbitrary: q w)
  case (Cons m ms)
  obtain e w1 where h: "hook m w = (e, w1)" by fastforce
  show ?case
  proof (cases e)
    case None
    have "settles b (Some (q\<lparr>sq_notices := sq_notices q @ [Consumed m]\<rparr>)) (ms @ held)"
      using Cons.prems(1) by (auto simp: settles_def reporting_def)
    from Cons.IH [OF this] Cons.prems(2) h None show ?thesis by simp
  next
    case (Some e1)
    obtain q1 w2 where "reject (m # ms) e1 (Some q) w1 = (q1, w2)" by fastforce
    with reject_settles [OF Cons.prems(1) this] Cons.prems(2) h Some show ?thesis by (simp add: queue_closed_def)
  qed
qed (auto simp: queue_closed_def)

lemma consumed_settles:
  assumes "settles b q (ms @ held)" and "consumed ms q w = (err, q', w')"
  shows "settles b q' held \<and> queue_closed q' = queue_closed q"
proof (cases q)
  case (Some q0)
  show ?thesis
  proof (cases "OnConsumed (sq_hooks q0)")
    case None
    with assms Some show ?thesis by (cases b) (auto simp: consumed_def elim: settles_SomeD)
  next
    case (Some cs)
    with assms \<open>q = Some q0\<close> show ?thesis
      by (auto simp: consumed_def queue_closed_def dest: consume_each_settles)
  qed
qed (use assms in \<open>auto simp: consumed_def\<close>)

lemma prepared_settles:
  assumes "settles b q (ms @ held)" and "prepared ms q w = (err, q', w')"
  shows "settles b q' (if err = None then ms @ held else held) \<and> queue_closed q' = queue_closed q"
proof (cases q)
  case (Some q0)
  show ?thesis
  proof (cases "err")
    case None
    with assms Some show ?thesis
      by (auto simp: prepared_def queue_closed_def split: option.splits if_splits prod.splits)
  next
    case e: (Some e1)
    with assms Some obtain w1 where "reject ms e1 (Some q0) w1 = (q', w')"
      by (auto simp: prepared_def split: option.splits if_splits prod.splits)
    with reject_settles [of b "Some q0" ms held] assms(1) Some e show ?thesis by auto
  qed
qed (use assms in \<open>auto simp: prepared_def\<close>)

end
