(* ===== verification/Core_Stream.thy ===== *)
theory Core_Stream
  imports Core_Run Core_Steer
begin

text \<open>
  Streaming runs: \<^verbatim>\<open>core/stream.go\<close>, \<^verbatim>\<open>RunStream\<close> of \<^verbatim>\<open>core/agent.go\<close> and the stream middleware of
  \<^verbatim>\<open>core/agent_middleware.go\<close>. The model's stream is an object with state in the world. The code of a
  streamed turn repeats that of \<^verbatim>\<open>core/run_engine.go\<close>, with the request opened in \<open>startTurn\<close> and the
  response handled in \<open>completeTurn\<close>; stages that are the same code are the same definitions here. Hooks
  and traces are left out, as for \<open>Run\<close>. The loop of \<open>Next\<close> may run forever and is a partial function.
  \<open>ErrorString ''EOF''\<close> stands for \<^verbatim>\<open>io.EOF\<close>.
\<close>

section \<open>Streamed responses\<close>

abbreviation EOF :: go_error where
  "EOF \<equiv> ErrorString ''EOF''"

datatype part_delta = TextPartDelta string | ToolCallPartDelta string | ThinkingPartDelta string

datatype stream_event = PartStartEvent int response_part | PartDeltaEvent int part_delta | PartEndEvent int

record 'w streamed_response =
  sr_Next :: "'w \<Rightarrow> stream_event result \<times> 'w"
  sr_Response :: "'w \<Rightarrow> model_response option"
  sr_Usage :: "'w \<Rightarrow> usage"
  sr_Close :: "'w \<Rightarrow> go_error option \<times> 'w"

type_synonym 'w stream_func = "model_message list \<Rightarrow> model_settings option \<Rightarrow> request_params \<Rightarrow> 'w
    \<Rightarrow> 'w streamed_response result \<times> 'w"

type_synonym 'w stream_middleware = "model_message list \<Rightarrow> model_settings option \<Rightarrow> request_params
    \<Rightarrow> 'w stream_func \<Rightarrow> 'w \<Rightarrow> 'w streamed_response result \<times> 'w"

definition buildStreamMiddlewareChain :: "'w stream_middleware list \<Rightarrow> 'w stream_func \<Rightarrow> 'w stream_func" where
  "buildStreamMiddlewareChain mws model =
     fold (\<lambda>mw next. \<lambda>messages settings params w. mw messages settings params next w) (rev mws) model"

section \<open>The stream of a run\<close>

text \<open>
  A delta event has the turn, the part, its kind and its content; these events are logged apart from
  the others. \<open>as_end\<close> is \<open>None\<close> until the run is done; then it is what \<^verbatim>\<open>result\<close> and \<^verbatim>\<open>err\<close> say.
\<close>

type_synonym model_delta = "int \<times> int \<times> string \<times> string"

record ('w, 't) agent_stream =
  as_engine :: "('w, 't) turn_engine"
  as_model :: "'w stream_func"
  as_middleware :: "'w stream_middleware list"
  as_state :: run_state
  as_settings :: "model_settings option"
  as_steers :: "'w steer_queue option"
  as_current :: "'w streamed_response option"
  as_turnActive :: bool
  as_finalResponse :: "model_response option"
  as_pendingSteers :: "steer_message list"
  as_end :: "'t run_outcome option"
  as_deltas :: "model_delta list"

abbreviation as_agent :: "('w, 't) agent_stream \<Rightarrow> ('w, 't) agent" where
  "as_agent st \<equiv> en_agent (as_engine st)"

definition newAgentStream :: "('w, 't) turn_engine \<Rightarrow> 'w stream_func \<Rightarrow> 'w stream_middleware list \<Rightarrow> run_state
    \<Rightarrow> model_settings option \<Rightarrow> 'w steer_queue option \<Rightarrow> ('w, 't) agent_stream" where
  "newAgentStream e model mws s settings q = \<lparr>as_engine = e, as_model = model, as_middleware = mws, as_state = s,
     as_settings = settings, as_steers = q, as_current = None, as_turnActive = False, as_finalResponse = None,
     as_pendingSteers = [], as_end = None, as_deltas = []\<rparr>"

fun delta_of :: "stream_event \<Rightarrow> int \<times> string \<times> string" where
  "delta_of (PartDeltaEvent i (TextPartDelta c)) = (i, ''text'', c)"
| "delta_of (PartDeltaEvent i (ThinkingPartDelta c)) = (i, ''thinking'', c)"
| "delta_of (PartDeltaEvent i (ToolCallPartDelta c)) = (i, ''tool-call'', c)"
| "delta_of (PartStartEvent i (TextPart c)) = (i, ''text'', c)"
| "delta_of (PartStartEvent i (ToolCallPart tc)) = (i, ''tool-call'', tc_ArgsJSON tc)"
| "delta_of (PartStartEvent i _) = (i, [], [])"
| "delta_of (PartEndEvent _) = (0, [], [])"

definition recordStreamDelta :: "stream_event \<Rightarrow> ('w, 't) agent_stream \<Rightarrow> ('w, 't) agent_stream" where
  "recordStreamDelta ev st =
     (let (i, kind, content) = delta_of ev in
      if kind = [] \<or> content = [] then st
      else if ag_eventBus (as_agent st)
      then st\<lparr>as_deltas := as_deltas st @ [(rs_runStep (as_state st), i, kind, content)]\<rparr>
      else st)"

definition Response :: "('w, 't) agent_stream \<Rightarrow> 'w \<Rightarrow> model_response option" where
  "Response st w =
     (case as_current st of
        None \<Rightarrow> as_finalResponse st
      | Some sr \<Rightarrow> (case sr_Response sr w of Some r \<Rightarrow> Some r | None \<Rightarrow> as_finalResponse st))"

definition stream_usage :: "('w, 't) agent_stream \<Rightarrow> 'w \<Rightarrow> usage" where
  "stream_usage st w =
     (let u = usage.truncate (rs_usage (as_state st))
      in case as_current st of None \<Rightarrow> u | Some sr \<Rightarrow> Incr u (sr_Usage sr w))"

definition emitStreamTurnCompleted ::
    "model_response option \<Rightarrow> go_error option \<Rightarrow> ('w, 't) agent_stream \<Rightarrow> ('w, 't) agent_stream" where
  "emitStreamTurnCompleted resp err st =
     st\<lparr>as_state := emitTurnCompleted (as_agent st) resp err (as_state st)\<rparr>"

definition completeActiveTurn ::
    "model_response option \<Rightarrow> go_error option \<Rightarrow> ('w, 't) agent_stream \<Rightarrow> ('w, 't) agent_stream" where
  "completeActiveTurn resp err st = (emitStreamTurnCompleted resp err st)\<lparr>as_turnActive := False\<rparr>"

section \<open>Steering\<close>

definition queueSteersForNextRequest ::
    "bool \<Rightarrow> ('w, 't) agent_stream \<Rightarrow> 'w \<Rightarrow> bool result \<times> ('w, 't) agent_stream \<times> 'w" where
  "queueSteersForNextRequest terminal st w =
     (let (steers, q, w) = take_all terminal (as_steers st) w; st = st\<lparr>as_steers := q\<rparr> in
      if steers = [] then (Inr False, st, w)
      else
        (let (err, q, w) = prepared steers q w; st = st\<lparr>as_steers := q\<rparr> in
         case err of
           Some e \<Rightarrow> (Inl (WrapPrefix ''prepare steer consumption'' e), st, w)
         | None \<Rightarrow>
             (Inr True,
              st\<lparr>as_state := (as_state st)\<lparr>rs_messages := rs_messages (as_state st) @
                   [ModelRequest (map (\<lambda>m. UserPromptPart (steer_Text m)) steers)]\<rparr>,
                 as_pendingSteers := as_pendingSteers st @ steers\<rparr>, w)))"

definition acknowledgePendingSteers ::
    "('w, 't) agent_stream \<Rightarrow> 'w \<Rightarrow> go_error option \<times> ('w, 't) agent_stream \<times> 'w" where
  "acknowledgePendingSteers st w =
     (if as_pendingSteers st = [] then (None, st, w)
      else
        (let (err, q, w) = consumed (as_pendingSteers st) (as_steers st) w
         in (err, st\<lparr>as_pendingSteers := [], as_steers := q\<rparr>, w)))"

definition rejectPendingSteers ::
    "go_error option \<Rightarrow> ('w, 't) agent_stream \<Rightarrow> 'w \<Rightarrow> ('w, 't) agent_stream \<times> 'w" where
  "rejectPendingSteers reason st w =
     (if as_pendingSteers st = [] then (st, w)
      else
        (let reason = (case reason of None \<Rightarrow> ErrSteerQueueClosed | Some e \<Rightarrow> e);
             (q, w) = reject (as_pendingSteers st) reason (as_steers st) w
         in (st\<lparr>as_pendingSteers := [], as_steers := q\<rparr>, w)))"

definition closeSteers :: "go_error option \<Rightarrow> ('w, 't) agent_stream \<Rightarrow> 'w \<Rightarrow> ('w, 't) agent_stream \<times> 'w" where
  "closeSteers reason st w = (let (q, w) = close_steers reason (as_steers st) w in (st\<lparr>as_steers := q\<rparr>, w))"

section \<open>The end of a run\<close>

definition end_error :: "'t run_outcome \<Rightarrow> go_error option" where
  "end_error out = (case out of RunDone _ \<Rightarrow> None | RunFailed e \<Rightarrow> Some e | RunDeferred _ _ _ \<Rightarrow> map_option ErrorString (outcome_error out))"

definition drop_current :: "('w, 't) agent_stream \<Rightarrow> 'w \<Rightarrow> ('w, 't) agent_stream \<times> 'w" where
  "drop_current st w =
     (case as_current st of
        None \<Rightarrow> (st, w)
      | Some sr \<Rightarrow> (st\<lparr>as_current := None\<rparr>, snd (sr_Close sr w)))"

text \<open>\<^verbatim>\<open>endOnce\<close> lets the run end only the first time.\<close>

definition finish :: "'t run_outcome \<Rightarrow> ('w, 't) agent_stream \<Rightarrow> 'w \<Rightarrow> ('w, 't) agent_stream \<times> 'w" where
  "finish out st w =
     (let (st, w) = drop_current st w;
          st = (if as_turnActive st then completeActiveTurn (as_finalResponse st) (end_error out) st else st);
          (st, w) = rejectPendingSteers (end_error out) st w;
          (st, w) = closeSteers (end_error out) st w
      in (st\<lparr>as_end := Some out,
             as_state := (if as_end st = None then endRun (as_agent st) out (as_state st) else as_state st)\<rparr>, w))"

section \<open>A turn\<close>

text \<open>The turn up to the model request; a failure has been published as the end of the turn.\<close>

definition prepare_turn :: "('w, 't) turn_engine \<Rightarrow> run_state \<Rightarrow> 'w
    \<Rightarrow> (model_message list \<times> request_params) result \<times> run_state \<times> 'w" where
  "prepare_turn e s w =
     (let a = en_agent e;
          s = s\<lparr>rs_runStep := rs_runStep s + 1\<rparr>;
          s = emit a (TurnStarted (rs_runStep s)) s;
          (tools, w) = prepareTools a s (en_allTools e) (en_deps e) (en_prompt e) w;
          params = buildModelRequestParams tools (ag_outputSchema a);
          (s, w) = compact_context a s w
      in case outgoing_messages e s w of
           (Inl err, w) \<Rightarrow> (Inl err, emitTurnCompleted a None (Some err) s, w)
         | (Inr ms, w) \<Rightarrow> (Inr (ms, params), emit a (ModelRequestStarted (rs_runStep s) (length ms)) s, w))"

definition startTurn :: "('w, 't) agent_stream \<Rightarrow> 'w \<Rightarrow> go_error option \<times> ('w, 't) agent_stream \<times> 'w" where
  "startTurn st w =
     (let e = as_engine st; a = en_agent e in
      case check_limits e (as_state st) w of
        Some err \<Rightarrow> (Some err, st, w)
      | None \<Rightarrow>
          (case prepare_turn e (as_state st) w of
             (Inl err, s, w) \<Rightarrow> (Some err, st\<lparr>as_state := s, as_settings := kept_settings a (as_settings st)\<rparr>, w)
           | (Inr (ms, params), s, w) \<Rightarrow>
               (let settings = inject_tool_choice a (as_settings st);
                    st = st\<lparr>as_state := s, as_settings := kept_settings a (as_settings st)\<rparr>
                in case buildStreamMiddlewareChain (as_middleware st) (as_model st) ms settings params w of
                     (Inl err, w) \<Rightarrow>
                       (let (st, w) = rejectPendingSteers (Some err) st w;
                            err = WrapPrefix ''model stream request failed'' err
                        in (Some err, emitStreamTurnCompleted None (Some err) st, w))
                   | (Inr sr, w) \<Rightarrow>
                       (case acknowledgePendingSteers st w of
                          (Some err, st, w) \<Rightarrow>
                            (let w = snd (sr_Close sr w); err = WrapPrefix ''acknowledge steer consumption'' err
                             in (Some err, emitStreamTurnCompleted None (Some err) st, w))
                        | (None, st, w) \<Rightarrow>
                            (None, st\<lparr>as_settings := settings, as_current := Some sr, as_turnActive := True\<rparr>, w)))))"

definition no_usage :: "usage \<Rightarrow> bool" where
  "no_usage u \<longleftrightarrow> InputTokens u = 0 \<and> OutputTokens u = 0 \<and> CacheWriteTokens u = 0 \<and> CacheReadTokens u = 0 \<and>
     Details u = fmempty"

text \<open>
  What follows \<^verbatim>\<open>processResponse\<close>. A stage of \<open>completeTurn\<close> returns the error with which the run ends, or
  \<open>None\<close>; a run that ends without an error has been finished then.
\<close>

definition conclude_streamed :: "model_response \<Rightarrow> 't processed \<Rightarrow> ('w, 't) agent_stream \<Rightarrow> 'w
    \<Rightarrow> 't run_outcome option \<times> ('w, 't) agent_stream \<times> 'w" where
  "conclude_streamed resp p st w =
     (let a = as_agent st; (result, parts, deferred) = p; s = as_state st;
          s = (if parts \<noteq> [] then s\<lparr>rs_messages := rs_messages s @ [ModelRequest parts]\<rparr> else s);
          st = st\<lparr>as_state := s\<rparr>
      in if deferred \<noteq> []
         then (let (st, w) = closeSteers (Some (ErrorString ''run is waiting for deferred input'')) st w;
                   st = completeActiveTurn (Some resp) None st
               in (Some (RunDeferred deferred (rs_messages (as_state st)) (rs_usage (as_state st))),
                   st\<lparr>as_state := publish_deferred a deferred (as_state st)\<rparr>, w))
         else case queueSteersForNextRequest (result \<noteq> None) st w of
             (Inl err, st, w) \<Rightarrow> (Some (RunFailed err), completeActiveTurn (Some resp) (Some err) st, w)
           | (Inr True, st, w) \<Rightarrow> (None, completeActiveTurn (Some resp) None st, w)
           | (Inr False, st, w) \<Rightarrow>
               (case result of
                  Some r \<Rightarrow>
                    (case kb_store a resp w of
                       (Some err, w) \<Rightarrow> (Some (RunFailed err), completeActiveTurn (Some resp) (Some err) st, w)
                     | (None, w) \<Rightarrow>
                         (let st = completeActiveTurn (Some resp) None st;
                              (res, w) = buildRunResult a (as_state st) (fr_output r) w;
                              (st, w) = finish (RunDone res) st w
                          in (None, st, w)))
                | None \<Rightarrow> (None, completeActiveTurn (Some resp) None st, w)))"

definition handle_streamed :: "model_response \<Rightarrow> ('w, 't) agent_stream \<Rightarrow> 'w
    \<Rightarrow> 't run_outcome option \<times> ('w, 't) agent_stream \<times> 'w" where
  "handle_streamed resp st w =
     (let e = as_engine st; a = en_agent e; s = as_state st in
      case if HasTokenLimits (en_limits e) then CheckTokens (en_limits e) (rs_usage s) else None of
        Some err \<Rightarrow> (Some (RunFailed err), completeActiveTurn (Some resp) (Some err) st, w)
      | None \<Rightarrow>
          (case stop_reason (ag_runConditions a) (buildRunContext s (en_deps e) (en_prompt e)) resp w of
             (Some reason, w) \<Rightarrow>
               (case stopped_output a resp of
                  Some out \<Rightarrow>
                    (let st = completeActiveTurn (Some resp) None st;
                         (res, w) = buildRunResult a (as_state st) out w;
                         (st, w) = finish (RunDone res) st w
                     in (None, st, w))
                | None \<Rightarrow>
                    (Some (RunFailed (RunConditionError reason)),
                     completeActiveTurn (Some resp) (Some (RunConditionError reason)) st, w))
           | (None, w) \<Rightarrow>
               (case processResponse a resp (en_toolMap e) (en_outputToolNames e) (en_deps e) (en_prompt e) s w of
                  (Inl err, s, w) \<Rightarrow>
                    (Some (RunFailed err), completeActiveTurn (Some resp) (Some err) (st\<lparr>as_state := s\<rparr>), w)
                | (Inr p, s, w) \<Rightarrow> conclude_streamed resp p (st\<lparr>as_state := s\<rparr>) w)))"

text \<open>The response of a stream that has ended, with the usage of the stream if it has none of its own.\<close>

definition streamed_answer :: "'w streamed_response \<Rightarrow> 'w \<Rightarrow> model_response option" where
  "streamed_answer sr w =
     map_option (\<lambda>resp. if no_usage (resp_Usage resp) then resp\<lparr>resp_Usage := sr_Usage sr w\<rparr> else resp) (sr_Response sr w)"

definition settle_streamed :: "model_response \<Rightarrow> ('w, 't) agent_stream \<Rightarrow> 'w
    \<Rightarrow> 't run_outcome option \<times> ('w, 't) agent_stream \<times> 'w" where
  "settle_streamed resp st w =
     (let a = as_agent st;
          (s, w) = record_usage a resp (as_state st) w;
          ((dropped, resp), w) = runResponseInterceptors (ag_responseInterceptors a) resp w;
          st = st\<lparr>as_state := s, as_finalResponse := Some resp\<rparr>
      in if dropped
         then (case queueSteersForNextRequest False st w of
                 (Inl err, st, w) \<Rightarrow> (Some (RunFailed err), completeActiveTurn (Some resp) (Some err) st, w)
               | (Inr _, st, w) \<Rightarrow> (None, completeActiveTurn (Some resp) None st, w))
         else handle_streamed resp
                (st\<lparr>as_settings := reset_tool_choice a resp (as_settings st), as_state := accept_response a resp s\<rparr>) w)"

definition completeTurn :: "'w streamed_response \<Rightarrow> ('w, 't) agent_stream \<Rightarrow> 'w
    \<Rightarrow> 't run_outcome option \<times> ('w, 't) agent_stream \<times> 'w" where
  "completeTurn sr st w =
     (let st' = st\<lparr>as_current := None\<rparr>; w' = snd (sr_Close sr w) in
      case streamed_answer sr w of
        None \<Rightarrow> (Some (RunFailed (ErrorString ''stream completed without a response'')), st', w')
      | Some resp \<Rightarrow> settle_streamed resp st' w')"

section \<open>Reading the stream\<close>

datatype 't stream_next = NextEvent stream_event | NextEOF | NextError "'t run_outcome"

definition ensure_turn :: "('w, 't) agent_stream \<Rightarrow> 'w \<Rightarrow> go_error option \<times> ('w, 't) agent_stream \<times> 'w" where
  "ensure_turn st w = (if as_current st = None then startTurn st w else (None, st, w))"

definition fail_stream :: "'t run_outcome \<Rightarrow> ('w, 't) agent_stream \<Rightarrow> 'w \<Rightarrow> 't stream_next \<times> ('w, 't) agent_stream \<times> 'w" where
  "fail_stream out st w = (let (st, w) = finish out st w in (NextError out, st, w))"

text \<open>One round of the loop: \<open>Inl\<close> an answer, \<open>Inr\<close> a stream to go on with.\<close>

definition next_round :: "('w, 't) agent_stream \<Rightarrow> 'w
    \<Rightarrow> ('t stream_next \<times> ('w, 't) agent_stream \<times> 'w) + (('w, 't) agent_stream \<times> 'w)" where
  "next_round st w =
     (case ensure_turn st w of
        (Some err, st, w) \<Rightarrow> Inl (fail_stream (RunFailed err) st w)
      | (None, st, w) \<Rightarrow>
          (case as_current st of
             None \<Rightarrow> Inr (st, w)
           | Some sr \<Rightarrow>
               (case sr_Next sr w of
                  (Inr ev, w) \<Rightarrow> Inl (NextEvent ev, recordStreamDelta ev st, w)
                | (Inl err, w) \<Rightarrow>
                    if \<not> errors_Is err EOF
                    then Inl (fail_stream (RunFailed (WrapPrefix ''model stream failed'' err)) st w)
                    else
                      (case completeTurn sr st w of
                         (Some out, st, w) \<Rightarrow> Inl (fail_stream out st w)
                       | (None, st, w) \<Rightarrow> if as_end st \<noteq> None then Inl (NextEOF, st, w) else Inr (st, w)))))"

partial_function (option) Next :: "('w, 't) agent_stream \<Rightarrow> 'w \<Rightarrow> ('t stream_next \<times> ('w, 't) agent_stream \<times> 'w) option" where
  "Next st w =
     (case as_end st of
        Some (RunDone _) \<Rightarrow> Some (NextEOF, st, w)
      | Some out \<Rightarrow> Some (NextError out, st, w)
      | None \<Rightarrow> (case next_round st w of Inl r \<Rightarrow> Some r | Inr (st, w) \<Rightarrow> Next st w))"

abbreviation errStreamClosed :: go_error where
  "errStreamClosed \<equiv> ErrorString ''stream closed before completion''"

definition Close :: "('w, 't) agent_stream \<Rightarrow> 'w \<Rightarrow> go_error option \<times> ('w, 't) agent_stream \<times> 'w" where
  "Close st w =
     (case as_current st of
        Some sr \<Rightarrow>
          (let (err, w) = sr_Close sr w; st = st\<lparr>as_current := None\<rparr>;
               (st, w) = (if as_end st = None then finish (RunFailed errStreamClosed) st w else (st, w))
           in (err, st, w))
      | None \<Rightarrow>
          (let (st, w) = (if as_end st = None then finish (RunFailed errStreamClosed) st w else (st, w))
           in (None, st, w)))"

text \<open>\<^verbatim>\<open>errors.Is(err, io.EOF)\<close> for what \<open>Next\<close> returns: a deferral wraps nothing.\<close>

fun is_eof :: "'t stream_next \<Rightarrow> bool" where
  "is_eof (NextEvent _) = False"
| "is_eof NextEOF = True"
| "is_eof (NextError (RunFailed e)) = errors_Is e EOF"
| "is_eof (NextError _) = False"

text \<open>A run that was done without an error has its result.\<close>

partial_function (option) Result :: "('w, 't) agent_stream \<Rightarrow> 'w \<Rightarrow> ('t run_outcome \<times> ('w, 't) agent_stream \<times> 'w) option" where
  "Result st w =
     (case Next st w of
        None \<Rightarrow> None
      | Some (n, st, w) \<Rightarrow>
          if is_eof n
          then (case as_end st of
                  Some out \<Rightarrow> Some (out, st, w)
                | None \<Rightarrow> Some (RunFailed (ErrorString ''stream completed without a result''), st, w))
          else (case n of
                  NextError out \<Rightarrow> Some (out, st, w)
                | _ \<Rightarrow> Result st w))"

definition GetOutput :: "('w, 't) agent_stream \<Rightarrow> 'w \<Rightarrow> (('t run_outcome + model_response) \<times> ('w, 't) agent_stream \<times> 'w) option" where
  "GetOutput st w =
     (case Result st w of
        None \<Rightarrow> None
      | Some (RunDone _, st, w) \<Rightarrow>
          Some ((case Response st w of
                   None \<Rightarrow> Inl (RunFailed (ErrorString ''stream completed without a response''))
                 | Some resp \<Rightarrow> Inr resp), st, w)
      | Some (out, st, w) \<Rightarrow> Some (Inl out, st, w))"

text \<open>
  \<^verbatim>\<open>StreamEvents\<close> and \<^verbatim>\<open>StreamText\<close> yield to a consumer that takes everything: the events, and the error
  that is yielded at the end, if any.
\<close>

partial_function (option) StreamEvents :: "('w, 't) agent_stream \<Rightarrow> 'w
    \<Rightarrow> (stream_event list \<times> 't run_outcome option \<times> ('w, 't) agent_stream \<times> 'w) option" where
  "StreamEvents st w =
     (case Next st w of
        None \<Rightarrow> None
      | Some (n, st, w) \<Rightarrow>
          if is_eof n then Some ([], None, st, w)
          else (case n of
                  NextError out \<Rightarrow> Some ([], Some out, st, w)
                | NextEvent ev \<Rightarrow>
                    Option.bind (StreamEvents st w) (\<lambda>(evs, err, st, w). Some (ev # evs, err, st, w))
                | NextEOF \<Rightarrow> Some ([], None, st, w)))"

text \<open>What a text event adds, and whether it is yielded: with \<^verbatim>\<open>delta\<close> the chunk, otherwise the text so far.\<close>

fun text_yield :: "bool \<Rightarrow> string \<Rightarrow> stream_event \<Rightarrow> string list \<times> string" where
  "text_yield delta acc (PartDeltaEvent _ (TextPartDelta c)) = (if delta then ([c], acc) else ([acc @ c], acc @ c))"
| "text_yield delta acc (PartStartEvent _ (TextPart c)) =
     (if delta then (if c \<noteq> [] then [c] else [], acc)
      else (if acc @ c \<noteq> [] then [acc @ c] else [], acc @ c))"
| "text_yield delta acc _ = ([], acc)"

fun stream_texts :: "bool \<Rightarrow> string \<Rightarrow> stream_event list \<Rightarrow> string list" where
  "stream_texts delta acc [] = []"
| "stream_texts delta acc (ev # evs) = (let (ys, acc) = text_yield delta acc ev in ys @ stream_texts delta acc evs)"

definition StreamText :: "bool \<Rightarrow> ('w, 't) agent_stream \<Rightarrow> 'w
    \<Rightarrow> (string list \<times> 't run_outcome option \<times> ('w, 't) agent_stream \<times> 'w) option" where
  "StreamText delta st w =
     (case StreamEvents st w of
        None \<Rightarrow> None
      | Some (evs, err, st, w) \<Rightarrow> Some (stream_texts delta [] evs, err, st, w))"

section \<open>RunStream\<close>

text \<open>A run that could not start is an outcome; otherwise the stream.\<close>

definition RunStream :: "('w, 't) agent \<Rightarrow> 'w stream_func \<Rightarrow> 'w stream_middleware list \<Rightarrow> 'w steer_queue option
    \<Rightarrow> string \<Rightarrow> string \<Rightarrow> time \<Rightarrow> string \<Rightarrow> run_config \<Rightarrow> 'w
    \<Rightarrow> (go_error \<times> 'w steer_queue option + ('w, 't) agent_stream) \<times> run_state \<times> 'w" where
  "RunStream a model mws q runID parent now prompt cfg w =
     (let (ex, w) = initializeRunExecution a runID parent now cfg w; s = ex_state ex
      in case applyInputGuardrails (ag_inputGuardrails a) prompt w of
           (Inl e, w) \<Rightarrow> (let (q, w) = close_steers (Some e) q w in (Inl (e, q), s, w))
         | (Inr prompt, w) \<Rightarrow>
             (case bootstrapRunMessages a s prompt (ex_deps ex) (cfg_deferredResults cfg)
                     (cfg_initialRequestParts cfg) w of
                (Some e, s, w) \<Rightarrow> (let (q, w) = close_steers (Some e) q w in (Inl (e, q), s, w))
              | (None, s, w) \<Rightarrow>
                  (let s = publish_resolved a (cfg_deferredResults cfg) (beginRun a prompt s);
                       st = newAgentStream (newTurnEngine a prompt (ex_limits ex) (ex_deps ex)) model mws s (ex_settings ex) q
                   in case startTurn st w of
                        (Some err, st, w) \<Rightarrow>
                          (let (st, w) = finish (RunFailed err) st w in (Inl (err, as_steers st), as_state st, w))
                      | (None, st, w) \<Rightarrow> (Inr st, as_state st, w))))"

end
