(* ===== verification/Core_Stream_Inv.thy ===== *)
theory Core_Stream_Inv
  imports Core_Loop Core_Stream
begin

text \<open>
  The invariant of a streaming run: steering instructions are settled once, and the events of turns
  come in pairs, whatever the model, the tools and the consumer of the stream do. It is an
  interpretation of the step system whose steps are the calls of the consumer and of the goroutines
  that steer.
\<close>

section \<open>Turns come in pairs\<close>

definition turns_closed :: "runtime_event list \<Rightarrow> bool" where
  "turns_closed es \<longleftrightarrow> (\<exists>ps. es = concat (map (\<lambda>(n, b, c, t). [TurnStarted n, TurnCompleted n b c t]) ps))"

definition turns_open :: "int \<Rightarrow> runtime_event list \<Rightarrow> bool" where
  "turns_open n es \<longleftrightarrow> (\<exists>es'. turns_closed es' \<and> es = es' @ [TurnStarted n])"

definition turn_ok :: "('w, 't) agent \<Rightarrow> bool \<Rightarrow> run_state \<Rightarrow> bool" where
  "turn_ok a active s \<longleftrightarrow> (ag_eventBus a \<longrightarrow>
     (if active then turns_open (rs_runStep s) (turn_events s) else turns_closed (turn_events s)))"

lemma turns_closed_Nil [simp]: "turns_closed []"
  unfolding turns_closed_def by (rule exI [of _ "[]"]) simp

lemma turns_open_snoc [simp]: "turns_open n (es @ [TurnStarted n]) \<longleftrightarrow> turns_closed es"
  by (simp add: turns_open_def)

lemma turns_complete: "turns_open n es \<Longrightarrow> turns_closed (es @ [TurnCompleted n b c t])"
  unfolding turns_open_def turns_closed_def
proof (elim exE conjE)
  fix es' ps
  assume "es = es' @ [TurnStarted n]" "es' = concat (map (\<lambda>(n, b, c, t). [TurnStarted n, TurnCompleted n b c t]) ps)"
  then show "\<exists>qs. es @ [TurnCompleted n b c t] =
      concat (map (\<lambda>(n, b, c, t). [TurnStarted n, TurnCompleted n b c t]) qs)"
    by (intro exI [of _ "ps @ [(n, b, c, t)]"]) simp
qed

lemma turn_ok_completed [simp]: "turn_ok a True s \<Longrightarrow> turn_ok a False (emitTurnCompleted a resp err s)"
  by (auto simp: turn_ok_def emitTurnCompleted_def intro: turns_complete)

lemma turn_ok_started [simp]: "turn_ok a False s \<Longrightarrow> turn_ok a True (emit a (TurnStarted (rs_runStep s)) s)"
  by (auto simp: turn_ok_def)

lemma turn_ok_emit [simp]: "\<not> is_turn e \<Longrightarrow> turn_ok a active (emit b e s) = turn_ok a active s"
  by (simp add: turn_ok_def)

lemma turn_ok_update [simp]:
  "turn_ok a active (s\<lparr>rs_messages := ms\<rparr>) = turn_ok a active s"
  "turn_ok a active (s\<lparr>rs_usage := u\<rparr>) = turn_ok a active s"
  "turn_ok a active (s\<lparr>rs_lastInputTokens := n\<rparr>) = turn_ok a active s"
  "turn_ok a False (s\<lparr>rs_runStep := n\<rparr>) = turn_ok a False s"
  by (simp_all add: turn_ok_def)

lemma kept_turn_ok: "kept s s' \<Longrightarrow> turn_ok a active s' = turn_ok a active s"
  by (simp add: kept_def turn_ok_def)

lemma endRun_turn_ok [simp]:
  "turn_ok a active (endRun b out s) = turn_ok a active s" "rs_activeApprovals (endRun b out s) = rs_activeApprovals s"
  by (simp_all add: endRun_def Let_def split: option.split)

lemma accept_response_turn_ok [simp]: "turn_ok a active (accept_response b resp s) = turn_ok a active s"
  by (simp add: accept_response_def)

lemma record_usage_frame:
  assumes "record_usage a resp s w = (s', w')"
  shows "turn_events s' = turn_events s" "rs_runStep s' = rs_runStep s" "rs_activeApprovals s' = rs_activeApprovals s"
  using assms by (auto simp: record_usage_def Let_def)

lemma publish_deferred_turn_ok [simp]: "turn_ok a active (publish_deferred b reqs s) = turn_ok a active s"
proof -
  have "turn_ok a active (fold (\<lambda>dr. emit b (DeferredRequested (dr_ToolCallID dr) (dr_ToolName dr) (dr_ArgsJSON dr))) reqs s) =
      turn_ok a active s" by (induction reqs arbitrary: s) auto
  then show ?thesis by (simp add: publish_deferred_def)
qed

lemma compact_context_frame:
  assumes "compact_context a s w = (s', w')"
  shows "turn_events s' = turn_events s" "rs_runStep s' = rs_runStep s" "rs_activeApprovals s' = rs_activeApprovals s"
  using assms by (auto simp: compact_context_def Let_def split: option.splits prod.splits if_splits)

lemma prepare_turn_effect:
  assumes "prepare_turn e s w = (r, s', w')" and "turn_ok (en_agent e) False s"
  shows "turn_ok (en_agent e) (\<exists>x. r = Inr x) s' \<and> rs_activeApprovals s' = rs_activeApprovals s"
proof -
  let ?a = "en_agent e"
  define s1 where "s1 = emit ?a (TurnStarted (rs_runStep s + 1)) (s\<lparr>rs_runStep := rs_runStep s + 1\<rparr>)"
  obtain ts w1 where p: "prepareTools ?a s1 (en_allTools e) (en_deps e) (en_prompt e) w = (ts, w1)" by fastforce
  obtain s2 w2 where c: "compact_context ?a s1 w1 = (s2, w2)" by fastforce
  obtain r3 w3 where o: "outgoing_messages e s2 w2 = (r3, w3)" by fastforce
  have "turn_ok ?a True s1" using assms(2) turn_ok_started [of ?a "s\<lparr>rs_runStep := rs_runStep s + 1\<rparr>"]
    by (simp add: s1_def)
  then have "turn_ok ?a True s2" using compact_context_frame [OF c] by (simp add: turn_ok_def)
  moreover have "rs_activeApprovals s2 = rs_activeApprovals s" using compact_context_frame [OF c] by (simp add: s1_def)
  moreover have "(\<exists>err. r = Inl err \<and> s' = emitTurnCompleted ?a None (Some err) s2) \<or>
      (\<exists>x n. r = Inr x \<and> s' = emit ?a (ModelRequestStarted (rs_runStep s2) n) s2)"
  proof (cases r3)
    case (Inl err)
    with assms(1) p c o show ?thesis by (auto simp: prepare_turn_def Let_def s1_def)
  next
    case (Inr ms)
    with assms(1) p c o show ?thesis by (auto simp: prepare_turn_def Let_def s1_def)
  qed
  ultimately show ?thesis by auto
qed

section \<open>The invariant\<close>

text \<open>
  What holds at every point of a run, and what holds of one that is over; the flag says whether there is
  a steering queue, and the engine is that of the run.
\<close>

definition live :: "bool \<Rightarrow> ('w, 't) turn_engine \<Rightarrow> ('w, 't) agent_stream \<Rightarrow> bool" where
  "live b en st \<longleftrightarrow> settles b (as_steers st) (as_pendingSteers st) \<and> 0 \<le> rs_activeApprovals (as_state st) \<and>
     turn_ok (en_agent en) (as_turnActive st) (as_state st) \<and> as_engine st = en"

definition over :: "('w, 't) agent_stream \<Rightarrow> bool" where
  "over st \<longleftrightarrow> as_current st = None \<and> \<not> as_turnActive st \<and> as_pendingSteers st = [] \<and> queue_closed (as_steers st)"

definition stream_inv :: "bool \<Rightarrow> ('w, 't) turn_engine \<Rightarrow> ('w, 't) agent_stream \<Rightarrow> bool" where
  "stream_inv b en st \<longleftrightarrow> live b en st \<and>
     (if as_end st = None then as_turnActive st \<longleftrightarrow> as_current st \<noteq> None else over st)"

text \<open>A stage that leaves the turn and the end alone.\<close>

definition same_turn :: "('w, 't) agent_stream \<Rightarrow> ('w, 't) agent_stream \<Rightarrow> bool" where
  "same_turn st st' \<longleftrightarrow> as_turnActive st' = as_turnActive st \<and> as_current st' = as_current st \<and> as_end st' = as_end st \<and>
     as_engine st' = as_engine st"

lemma completeActiveTurn_live:
  assumes "live b en st" and "as_turnActive st"
  shows "live b en (completeActiveTurn resp err st)"
  using assms by (simp add: live_def completeActiveTurn_def emitStreamTurnCompleted_def)

lemma completeActiveTurn_fields [simp]:
  "\<not> as_turnActive (completeActiveTurn resp err st)" "as_current (completeActiveTurn resp err st) = as_current st"
  "as_end (completeActiveTurn resp err st) = as_end st" "as_engine (completeActiveTurn resp err st) = as_engine st"
  by (simp_all add: completeActiveTurn_def emitStreamTurnCompleted_def)

lemma rejectPendingSteers_live:
  assumes "live b en st" and "rejectPendingSteers reason st w = (st', w')"
  shows "live b en st' \<and> as_pendingSteers st' = [] \<and> same_turn st st'"
proof (cases "as_pendingSteers st = []")
  case False
  obtain q w1 where r: "reject (as_pendingSteers st) (case reason of None \<Rightarrow> ErrSteerQueueClosed | Some e \<Rightarrow> e) (as_steers st) w = (q, w1)"
    by fastforce
  with reject_settles [OF _ r, of b "[]"] False assms show ?thesis
    by (auto simp: rejectPendingSteers_def live_def same_turn_def)
qed (use assms in \<open>auto simp: rejectPendingSteers_def same_turn_def\<close>)

lemma acknowledgePendingSteers_live:
  assumes "live b en st" and "acknowledgePendingSteers st w = (err, st', w')"
  shows "live b en st' \<and> as_pendingSteers st' = [] \<and> same_turn st st'"
proof (cases "as_pendingSteers st = []")
  case False
  obtain e q w1 where r: "consumed (as_pendingSteers st) (as_steers st) w = (e, q, w1)" by (metis prod_cases3)
  with consumed_settles [OF _ r, of b "[]"] False assms show ?thesis
    by (auto simp: acknowledgePendingSteers_def live_def same_turn_def)
qed (use assms in \<open>auto simp: acknowledgePendingSteers_def same_turn_def\<close>)

lemma closeSteers_live:
  assumes "live b en st" and "closeSteers reason st w = (st', w')"
  shows "live b en st' \<and> as_pendingSteers st' = as_pendingSteers st \<and> queue_closed (as_steers st') \<and> same_turn st st'"
proof -
  obtain q w1 where "close_steers reason (as_steers st) w = (q, w1)" by fastforce
  with close_steers_settles [OF _ this, of b "as_pendingSteers st"] assms show ?thesis
    by (auto simp: closeSteers_def live_def same_turn_def)
qed

lemma queueSteersForNextRequest_live:
  assumes "live b en st" and "queueSteersForNextRequest terminal st w = (r, st', w')"
  shows "live b en st' \<and> same_turn st st'"
proof -
  obtain ms q w1 where t: "take_all terminal (as_steers st) w = (ms, q, w1)" by (metis prod_cases3)
  have sq: "settles b q (ms @ as_pendingSteers st)"
    using take_all_settles [OF _ t, of b "as_pendingSteers st"] assms(1)
    by (auto simp: live_def settles_def ac_simps split: option.splits)
  obtain e q2 w2 where p: "prepared ms q w1 = (e, q2, w2)" by (metis prod_cases3)
  from prepared_settles [OF sq p] have "settles b q2 (if e = None then as_pendingSteers st @ ms else as_pendingSteers st)"
    by (auto simp: settles_def ac_simps split: option.splits if_splits)
  with assms t p sq show ?thesis
    by (auto simp: queueSteersForNextRequest_def live_def same_turn_def Let_def split: if_splits option.splits)
qed

lemma drop_current_live:
  assumes "live b en st" and "drop_current st w = (st', w')"
  shows "live b en st' \<and> as_current st' = None \<and> as_turnActive st' = as_turnActive st \<and> as_end st' = as_end st \<and>
    as_engine st' = as_engine st"
  using assms by (auto simp: drop_current_def live_def split: option.splits)

lemma finish_over:
  assumes "live b en st" and "finish out st w = (st', w')"
  shows "live b en st' \<and> over st' \<and> as_end st' = Some out"
proof -
  obtain st1 w1 where 1: "drop_current st w = (st1, w1)" by fastforce
  define st2 where "st2 = (if as_turnActive st1 then completeActiveTurn (as_finalResponse st1) (end_error out) st1 else st1)"
  obtain st3 w3 where 3: "rejectPendingSteers (end_error out) st2 w1 = (st3, w3)" by fastforce
  obtain st4 w4 where 4: "closeSteers (end_error out) st3 w3 = (st4, w4)" by fastforce
  from drop_current_live [OF assms(1) 1] have l2: "live b en st2 \<and> as_current st2 = None \<and> \<not> as_turnActive st2"
    by (simp add: st2_def completeActiveTurn_live)
  with rejectPendingSteers_live [OF _ 3] have l3: "live b en st3 \<and> as_current st3 = None \<and> \<not> as_turnActive st3 \<and> as_pendingSteers st3 = []"
    by (auto simp: same_turn_def)
  with closeSteers_live [OF _ 4]
  have l4: "live b en st4 \<and> as_current st4 = None \<and> \<not> as_turnActive st4 \<and> as_pendingSteers st4 = [] \<and> queue_closed (as_steers st4)"
    by (auto simp: same_turn_def)
  have "st' = st4\<lparr>as_end := Some out, as_state := (if as_end st4 = None then endRun (as_agent st4) out (as_state st4) else as_state st4)\<rparr>"
    using assms(2) 1 3 4 by (simp add: finish_def st2_def [symmetric] Let_def)
  with l4 show ?thesis by (auto simp: live_def over_def)
qed

section \<open>A turn\<close>

lemma startTurn_live:
  assumes "live b en st" and "\<not> as_turnActive st" and "as_current st = None" and "startTurn st w = (err, st', w')"
  shows "live b en st' \<and> as_end st' = as_end st \<and> as_engine st' = as_engine st \<and>
    (if err = None then as_turnActive st' \<and> as_current st' \<noteq> None else \<not> as_turnActive st' \<and> as_current st' = None)"
proof (cases "check_limits (as_engine st) (as_state st) w")
  case (Some e)
  with assms(4) have "err = Some e" "st' = st" by (simp_all add: startTurn_def Let_def)
  with assms show ?thesis by simp
next
  case None
  let ?a = "as_agent st"
  obtain r s1 w1 where p: "prepare_turn (as_engine st) (as_state st) w = (r, s1, w1)" by (metis prod_cases3)
  define st1 where "st1 = st\<lparr>as_state := s1, as_settings := kept_settings ?a (as_settings st)\<rparr>"
  from prepare_turn_effect [OF p] assms(1,2)
  have s1: "turn_ok ?a (\<exists>x. r = Inr x) s1 \<and> 0 \<le> rs_activeApprovals s1" by (auto simp: live_def)
  show ?thesis
  proof (cases r)
    case (Inl e)
    with None p assms s1 show ?thesis by (auto simp: startTurn_def Let_def live_def)
  next
    case (Inr x)
    obtain ms params where x: "x = (ms, params)" by (cases x)
    have live1: "live b en (st1\<lparr>as_turnActive := True\<rparr>)" using s1 Inr assms(1) by (auto simp: st1_def live_def)
    have act: "\<not> as_turnActive st1" "as_current st1 = None" "as_end st1 = as_end st" "as_engine st1 = as_engine st"
      using assms by (simp_all add: st1_def)
    obtain c w2 where c: "buildStreamMiddlewareChain (as_middleware st) (as_model st) ms (inject_tool_choice ?a (as_settings st)) params w1 = (c, w2)"
      by fastforce
    show ?thesis
    proof (cases c)
      case e: (Inl e)
      obtain st2 w3 where r2: "rejectPendingSteers (Some e) st1 w2 = (st2, w3)" by fastforce
      then have r3: "rejectPendingSteers (Some e) (st1\<lparr>as_turnActive := True\<rparr>) w2 = (st2\<lparr>as_turnActive := True\<rparr>, w3)"
        by (auto simp: rejectPendingSteers_def split: if_splits prod.splits)
      have s2: "same_turn st1 st2" using r2 by (auto simp: rejectPendingSteers_def same_turn_def split: if_splits prod.splits)
      from rejectPendingSteers_live [OF live1 r3] completeActiveTurn_live [of b en "st2\<lparr>as_turnActive := True\<rparr>"]
      have "live b en (completeActiveTurn None (Some (WrapPrefix ''model stream request failed'' e)) (st2\<lparr>as_turnActive := True\<rparr>))" by simp
      moreover have "st' = emitStreamTurnCompleted None (Some (WrapPrefix ''model stream request failed'' e)) st2"
        "err = Some (WrapPrefix ''model stream request failed'' e)"
        using assms(4) None p Inr x c e r2 by (auto simp: startTurn_def Let_def st1_def split: prod.splits)
      ultimately show ?thesis using s2 act
        by (auto simp: completeActiveTurn_def emitStreamTurnCompleted_def live_def same_turn_def)
    next
      case sr: (Inr sr)
      obtain e st2 w3 where a2: "acknowledgePendingSteers st1 w2 = (e, st2, w3)" by (metis prod_cases3)
      then have a3: "acknowledgePendingSteers (st1\<lparr>as_turnActive := True\<rparr>) w2 = (e, st2\<lparr>as_turnActive := True\<rparr>, w3)"
        by (auto simp: acknowledgePendingSteers_def split: if_splits prod.splits)
      have s2: "same_turn st1 st2" using a2 by (auto simp: acknowledgePendingSteers_def same_turn_def split: if_splits prod.splits)
      note l2 = acknowledgePendingSteers_live [OF live1 a3]
      have eq: "startTurn st w = (case e of
          Some err \<Rightarrow> (Some (WrapPrefix ''acknowledge steer consumption'' err),
            emitStreamTurnCompleted None (Some (WrapPrefix ''acknowledge steer consumption'' err)) st2, snd (sr_Close sr w3))
        | None \<Rightarrow> (None, st2\<lparr>as_settings := inject_tool_choice ?a (as_settings st), as_current := Some sr, as_turnActive := True\<rparr>, w3))"
        using None p Inr x c sr a2 by (simp add: startTurn_def Let_def st1_def split: option.split)
      show ?thesis
      proof (cases e)
        case None
        with eq assms(4) l2 s2 act show ?thesis by (auto simp: live_def same_turn_def)
      next
        case (Some e1)
        with l2 completeActiveTurn_live [of b en "st2\<lparr>as_turnActive := True\<rparr>" None "Some (WrapPrefix ''acknowledge steer consumption'' e1)"]
          eq assms(4) s2 act show ?thesis
          by (auto simp: completeActiveTurn_def emitStreamTurnCompleted_def live_def same_turn_def)
      qed
    qed
  qed
qed

text \<open>What a stage of \<open>completeTurn\<close> leaves behind.\<close>

definition turned :: "bool \<Rightarrow> ('w, 't) turn_engine \<Rightarrow> 't run_outcome option \<Rightarrow> ('w, 't) agent_stream \<Rightarrow> bool" where
  "turned b en out st \<longleftrightarrow> live b en st \<and> as_current st = None \<and>
     (as_end st = None \<and> (out = None \<longrightarrow> \<not> as_turnActive st) \<or> out = None \<and> as_end st \<noteq> None \<and> over st)"

lemma turned_completed:
  assumes "live b en st" and "as_turnActive st" and "as_current st = None" and "as_end st = None"
  shows "turned b en out (completeActiveTurn resp err st)"
  using assms by (simp add: turned_def completeActiveTurn_live)

lemma turned_finished:
  assumes "live b en st" and "finish (RunDone r) st w = (st', w')"
  shows "turned b en None st'"
  using finish_over [OF assms] by (auto simp: turned_def over_def)

lemma conclude_streamed_turned:
  assumes "live b en st" and "as_turnActive st" and "as_current st = None" and "as_end st = None"
    and "conclude_streamed resp p st w = (out, st', w')"
  shows "turned b en out st'"
proof -
  obtain result parts deferred where p: "p = (result, parts, deferred)" by (cases p)
  define st1 where "st1 = st\<lparr>as_state := (if parts \<noteq> [] then (as_state st)\<lparr>rs_messages := rs_messages (as_state st) @ [ModelRequest parts]\<rparr>
      else as_state st)\<rparr>"
  have 1: "live b en st1" "as_turnActive st1" "as_current st1 = None" "as_end st1 = None" "as_engine st1 = as_engine st"
    using assms(1-4) by (auto simp: st1_def live_def)
  show ?thesis
  proof (cases "deferred = []")
    case False
    obtain st2 w2 where c: "closeSteers (Some (ErrorString ''run is waiting for deferred input'')) st1 w = (st2, w2)" by fastforce
    from closeSteers_live [OF 1(1) c] 1 have "turned b en out (completeActiveTurn (Some resp) None st2)"
      by (intro turned_completed) (auto simp: same_turn_def)
    moreover have "st' = (completeActiveTurn (Some resp) None st2)\<lparr>as_state :=
        publish_deferred (as_agent st) deferred (as_state (completeActiveTurn (Some resp) None st2))\<rparr>" and "out \<noteq> None"
      using assms(5) p False c by (auto simp: conclude_streamed_def Let_def st1_def [symmetric])
    ultimately show ?thesis by (auto simp: turned_def live_def over_def)
  next
    case True
    obtain r st2 w2 where q: "queueSteersForNextRequest (result \<noteq> None) st1 w = (r, st2, w2)" by (metis prod_cases3)
    from queueSteersForNextRequest_live [OF 1(1) q] 1
    have 2: "live b en st2" "as_turnActive st2" "as_current st2 = None" "as_end st2 = None" by (auto simp: same_turn_def)
    note t = turned_completed [OF 2] and cl = completeActiveTurn_live [OF 2(1,2)]
    have eq: "(case (r, st2, w2) of
        (Inl err, st, w) \<Rightarrow> (Some (RunFailed err), completeActiveTurn (Some resp) (Some err) st, w)
      | (Inr True, st, w) \<Rightarrow> (None, completeActiveTurn (Some resp) None st, w)
      | (Inr False, st0, w) \<Rightarrow>
          (case result of
             Some r \<Rightarrow>
               (case kb_store (as_agent st) resp w of
                  (Some err, w) \<Rightarrow> (Some (RunFailed err), completeActiveTurn (Some resp) (Some err) st0, w)
                | (None, w) \<Rightarrow>
                    (let st1 = completeActiveTurn (Some resp) None st0;
                         (res, w) = buildRunResult (as_agent st) (as_state st1) (fr_output r) w;
                         (st1, w) = finish (RunDone res) st1 w
                     in (None, st1, w)))
           | None \<Rightarrow> (None, completeActiveTurn (Some resp) None st0, w))) = (out, st', w')"
      using assms(5) p True q by (simp add: conclude_streamed_def Let_def st1_def [symmetric])
    from eq t show ?thesis
      by (auto simp: Let_def split: sum.splits bool.splits option.splits prod.splits intro: turned_finished [OF cl])
  qed
qed

lemma handle_streamed_turned:
  assumes "live b en st" and "as_turnActive st" and "as_current st = None" and "as_end st = None"
    and "handle_streamed resp st w = (out, st', w')"
  shows "turned b en out st'"
proof -
  let ?e = "as_engine st" and ?a = "as_agent st" and ?s = "as_state st"
  note t = turned_completed [OF assms(1-4)] and cl = completeActiveTurn_live [OF assms(1,2)]
  show ?thesis
  proof (cases "if HasTokenLimits (en_limits ?e) then CheckTokens (en_limits ?e) (rs_usage ?s) else None")
    case (Some err)
    with assms(5) t show ?thesis by (auto simp: handle_streamed_def Let_def)
  next
    case None
    obtain reason w1 where sr: "stop_reason (ag_runConditions ?a) (buildRunContext ?s (en_deps ?e) (en_prompt ?e)) resp w = (reason, w1)"
      by fastforce
    show ?thesis
    proof (cases reason)
      case (Some x)
      show ?thesis
      proof (cases "stopped_output ?a resp")
        case so: None
        with assms(5) None sr Some t show ?thesis by (auto simp: handle_streamed_def Let_def)
      next
        case so: (Some v)
        define st1 where "st1 = completeActiveTurn (Some resp) None st"
        obtain res w2 where b: "buildRunResult ?a (as_state st1) v w1 = (res, w2)" by fastforce
        obtain st2 w3 where f: "finish (RunDone res) st1 w2 = (st2, w3)" by fastforce
        from assms(5) None sr Some so b f have "out = None" "st' = st2" by (simp_all add: handle_streamed_def Let_def st1_def)
        with turned_finished [OF _ f] cl st1_def show ?thesis by simp
      qed
    next
      case none: None
      obtain r s1 w2 where pr: "processResponse ?a resp (en_toolMap ?e) (en_outputToolNames ?e) (en_deps ?e) (en_prompt ?e) ?s w1 = (r, s1, w2)"
        by (metis prod_cases3)
      have "kept ?s s1" using processResponse_effect(1) [OF pr] assms(1) by (simp add: live_def)
      then have 1: "live b en (st\<lparr>as_state := s1\<rparr>)" using assms(1) by (auto simp: live_def kept_turn_ok kept_def)
      show ?thesis
      proof (cases r)
        case (Inl err)
        with assms none None sr pr turned_completed [OF 1] show ?thesis
          by (auto simp: handle_streamed_def Let_def)
      next
        case (Inr p)
        with assms(5) none None sr pr have "conclude_streamed resp p (st\<lparr>as_state := s1\<rparr>) w2 = (out, st', w')"
          by (simp add: handle_streamed_def Let_def)
        from conclude_streamed_turned [OF 1 _ _ _ this] assms(2-4) show ?thesis by simp
      qed
    qed
  qed
qed

lemma settle_streamed_turned:
  assumes "live b en st" and "as_turnActive st" and "as_current st = None" and "as_end st = None"
    and "settle_streamed resp st w = (out, st', w')"
  shows "turned b en out st'"
proof -
  let ?a = "as_agent st"
  obtain s2 w2 where r: "record_usage ?a resp (as_state st) w = (s2, w2)" by fastforce
  obtain dropped resp' w3 where i: "runResponseInterceptors (ag_responseInterceptors ?a) resp w2 = ((dropped, resp'), w3)"
    by (metis prod.collapse)
  define st1 where "st1 = st\<lparr>as_state := s2, as_finalResponse := Some resp'\<rparr>"
  have 1: "live b en st1" "as_turnActive st1" "as_current st1 = None" "as_end st1 = None" "as_engine st1 = as_engine st"
    using assms(1-4) record_usage_frame [OF r] by (auto simp: st1_def live_def turn_ok_def)
  show ?thesis
  proof (cases dropped)
    case True
    obtain q st2 w4 where q: "queueSteersForNextRequest False st1 w3 = (q, st2, w4)" by (metis prod_cases3)
    from queueSteersForNextRequest_live [OF 1(1) q] 1
    have 2: "live b en st2" "as_turnActive st2" "as_current st2 = None" "as_end st2 = None" by (auto simp: same_turn_def)
    have "\<exists>err. st' = completeActiveTurn (Some resp') err st2"
    proof (cases q)
      case (Inl err)
      with assms(5) r i q True show ?thesis by (auto simp: settle_streamed_def Let_def st1_def)
    next
      case (Inr x)
      with assms(5) r i q True show ?thesis by (auto simp: settle_streamed_def Let_def st1_def)
    qed
    with turned_completed [OF 2] show ?thesis by auto
  next
    case False
    define st2 where "st2 = st1\<lparr>as_settings := reset_tool_choice ?a resp' (as_settings st1), as_state := accept_response ?a resp' s2\<rparr>"
    have "handle_streamed resp' st2 w3 = (out, st', w')"
      using assms(5) r i False by (simp add: settle_streamed_def Let_def st1_def st2_def)
    moreover have "live b en st2" "as_turnActive st2" "as_current st2 = None" "as_end st2 = None"
      using 1 by (auto simp: st2_def live_def st1_def)
    ultimately show ?thesis by (intro handle_streamed_turned)
  qed
qed

lemma completeTurn_turned:
  assumes "live b en st" and "as_turnActive st" and "as_end st = None" and "completeTurn sr st w = (out, st', w')"
  shows "turned b en out st'"
proof (cases "streamed_answer sr w")
  case None
  with assms show ?thesis by (auto simp: completeTurn_def Let_def turned_def live_def)
next
  case (Some resp)
  with assms(4) have "settle_streamed resp (st\<lparr>as_current := None\<rparr>) (snd (sr_Close sr w)) = (out, st', w')"
    by (simp add: completeTurn_def Let_def)
  from settle_streamed_turned [OF _ _ _ _ this, of b en] assms(1-3) show ?thesis by (simp add: live_def)
qed

section \<open>Calls of the consumer\<close>

lemma fail_stream_inv: "live b en st \<Longrightarrow> fail_stream out st w = (n, st', w') \<Longrightarrow> stream_inv b en st'"
  using finish_over [of b en st out w] by (auto simp: fail_stream_def stream_inv_def split: prod.splits)

lemma recordStreamDelta_inv: "stream_inv b en st \<Longrightarrow> stream_inv b en (recordStreamDelta ev st)"
  by (auto simp: recordStreamDelta_def stream_inv_def live_def over_def split: prod.splits)

lemma next_round_inv:
  assumes "stream_inv b en st" and "as_end st = None"
  shows "next_round st w = Inl (n, st', w') \<Longrightarrow> stream_inv b en st'"
    and "next_round st w = Inr (st', w') \<Longrightarrow> stream_inv b en st' \<and> as_end st' = None"
proof -
  obtain err st1 w1 where e: "ensure_turn st w = (err, st1, w1)" by (metis prod_cases3)
  have 1: "live b en st1 \<and> as_end st1 = None \<and> (as_turnActive st1 \<longleftrightarrow> as_current st1 \<noteq> None) \<and> (err = None \<longrightarrow> as_current st1 \<noteq> None)"
  proof (cases "as_current st")
    case None
    with assms e startTurn_live [of b en st w err st1 w1] show ?thesis
      by (cases err) (auto simp: ensure_turn_def stream_inv_def)
  next
    case (Some sr)
    with assms e show ?thesis by (auto simp: ensure_turn_def stream_inv_def)
  qed
  have "(case next_round st w of Inl (n, st', w') \<Rightarrow> stream_inv b en st' | Inr (st', w') \<Rightarrow> stream_inv b en st' \<and> as_end st' = None)"
  proof (cases err)
    case (Some x)
    with e 1 fail_stream_inv [of b en st1 "RunFailed x" w1] show ?thesis
      by (auto simp: next_round_def split: prod.splits)
  next
    case None
    with 1 obtain sr where sr: "as_current st1 = Some sr" by auto
    obtain r w2 where n: "sr_Next sr w1 = (r, w2)" by fastforce
    show ?thesis
    proof (cases r)
      case (Inr ev)
      with e None sr n 1 recordStreamDelta_inv [of b en st1 ev] show ?thesis
        by (auto simp: next_round_def stream_inv_def)
    next
      case (Inl x)
      obtain out st3 w3 where c: "completeTurn sr st1 w2 = (out, st3, w3)" by (metis prod_cases3)
      from completeTurn_turned [OF _ _ _ c] 1 sr have t: "turned b en out st3" by auto
      show ?thesis
      proof (cases "errors_Is x EOF")
        case False
        with e None sr n Inl 1 fail_stream_inv [of b en st1 "RunFailed (WrapPrefix ''model stream failed'' x)" w2] show ?thesis
          by (auto simp: next_round_def split: prod.splits)
      next
        case True
        note eq = e None sr n Inl c True
        show ?thesis
        proof (cases out)
          case o: (Some x1)
          obtain n4 st4 w4 where f: "fail_stream x1 st3 w3 = (n4, st4, w4)" by (metis prod_cases3)
          with fail_stream_inv [OF _ f] t eq o show ?thesis by (simp add: next_round_def turned_def)
        next
          case o: None
          with eq t show ?thesis by (cases "as_end st3") (simp_all add: next_round_def turned_def stream_inv_def)
        qed
      qed
    qed
  qed
  then show "next_round st w = Inl (n, st', w') \<Longrightarrow> stream_inv b en st'"
    and "next_round st w = Inr (st', w') \<Longrightarrow> stream_inv b en st' \<and> as_end st' = None" by auto
qed

lemma Next_inv:
  assumes n: "Next st w = Some (n, st', w')" and "stream_inv b en st"
  shows "stream_inv b en st'"
proof -
  let ?P = "\<lambda>st w y. stream_inv b en st \<longrightarrow> stream_inv b en (fst (snd y))"
  have "?P st w (n, st', w')"
  proof (rule Next.raw_induct [where P = ?P, OF _ n], goal_cases)
    case (1 rec st w y)
    note IH = 1(1) and eq = 1(2)
    show ?case
    proof
    assume i: "stream_inv b en st"
    show "stream_inv b en (fst (snd y))"
    proof (cases "as_end st")
      case None
      show ?thesis
      proof (cases "next_round st w")
        case (Inl r)
        with eq None next_round_inv(1) [OF i None] show ?thesis by (cases r) auto
      next
        case (Inr x)
        with eq None next_round_inv(2) [OF i None] IH show ?thesis by (cases x) auto
      qed
    next
      case (Some out)
      with eq i show ?thesis by (cases out) auto
    qed
    qed
  qed
  with assms(2) show ?thesis by simp
qed

lemma Close_inv:
  assumes "stream_inv b en st" and "Close st w = (err, st', w')"
  shows "stream_inv b en st' \<and> as_end st' \<noteq> None"
proof -
  have l: "live b en (st\<lparr>as_current := None\<rparr>)" using assms(1) by (simp add: stream_inv_def live_def)
  show ?thesis
  proof (cases "as_end st")
    case None
    obtain w1 where "finish (RunFailed errStreamClosed) (st\<lparr>as_current := None\<rparr>) w1 = (st', w')"
    proof (cases "as_current st")
      case c: None
      then have "st\<lparr>as_current := None\<rparr> = st" by simp
      with assms(2) None c that show thesis by (auto simp: Close_def split: prod.splits)
    next
      case (Some sr)
      with assms(2) None that show thesis by (auto simp: Close_def Let_def split: prod.splits)
    qed
    from finish_over [OF l this] show ?thesis by (auto simp: stream_inv_def)
  next
    case (Some out)
    with assms have "as_current st = None" by (simp add: stream_inv_def over_def)
    with assms Some show ?thesis by (auto simp: Close_def)
  qed
qed

section \<open>All calls\<close>

text \<open>
  The consumer reads or closes the stream, another goroutine steers; each call meets a world of its own.
  A read that does not return leaves no state to look at.
\<close>

datatype 'w stream_op = ReadNext 'w | CloseStream 'w | SteerCall queue_call 'w

fun stream_step :: "'w stream_op \<Rightarrow> ('w, 't) agent_stream \<Rightarrow> ('w, 't) agent_stream" where
  "stream_step (ReadNext w) st = (case Next st w of None \<Rightarrow> st | Some (_, st', _) \<Rightarrow> st')"
| "stream_step (CloseStream w) st = fst (snd (Close st w))"
| "stream_step (SteerCall c w) st = st\<lparr>as_steers := fst (call_queue c (as_steers st) w)\<rparr>"

lemma stream_step_inv: "stream_inv b en st \<Longrightarrow> stream_inv b en (stream_step x st)"
proof (cases x)
  case (ReadNext w)
  then show "stream_inv b en st \<Longrightarrow> ?thesis" by (auto split: option.split intro: Next_inv)
next
  case (CloseStream w)
  then show "stream_inv b en st \<Longrightarrow> ?thesis"
    using Close_inv [of b en st w] by (metis prod.collapse stream_step.simps(2))
next
  case (SteerCall c w)
  obtain q w' where c: "call_queue c (as_steers st) w = (q, w')" by fastforce
  then show "stream_inv b en st \<Longrightarrow> ?thesis"
    using SteerCall call_queue_settles [OF _ c, of b "as_pendingSteers st"]
    by (auto simp: stream_inv_def live_def over_def)
qed

interpretation streams: step_system "stream_inv b en" stream_step "stream_inv b en"
  by unfold_locales (auto intro: stream_step_inv)

section \<open>Runs from the start\<close>

lemma initial_state_fresh [simp]:
  "rs_activeApprovals (initial_state a i p now cfg) = 0" "rs_events (initial_state a i p now cfg) = []"
  by (auto simp: initial_state_def Let_def newRunState_def applySnapshot_def split: option.splits)

lemma bootstrapRunMessages_frame:
  assumes "bootstrapRunMessages a s prompt deps results parts w = (err, s', w')"
  shows "rs_activeApprovals s' = rs_activeApprovals s \<and> rs_events s' = rs_events s"
  using assms by (auto simp: bootstrapRunMessages_def injectDeferredResults_def split: if_splits prod.splits sum.splits)

lemma publish_resolved_turn_ok [simp]:
  "turn_ok b active (publish_resolved a rs s) = turn_ok b active s"
  "rs_activeApprovals (publish_resolved a rs s) = rs_activeApprovals s"
proof -
  let ?f = "fold (\<lambda>dr. emit a (DeferredResolved (dres_ToolCallID dr) (dres_ToolName dr) (dres_Content dr) (dres_IsError dr))) rs"
  have "turn_ok b active (?f s) = turn_ok b active s \<and> rs_activeApprovals (?f s) = rs_activeApprovals s" for s
    by (induction rs arbitrary: s) auto
  then show "turn_ok b active (publish_resolved a rs s) = turn_ok b active s"
    "rs_activeApprovals (publish_resolved a rs s) = rs_activeApprovals s" by (auto simp: publish_resolved_def)
qed

lemma RunStream_inv:
  assumes "settles b q []" and "RunStream a model mws q runID parent now prompt cfg w = (r, s, w')"
  shows "case r of Inl (err, q') \<Rightarrow> settles b q' [] \<and> queue_closed q'
    | Inr st \<Rightarrow> \<exists>e. stream_inv b e st \<and> en_agent e = a \<and> as_end st = None"
proof -
  obtain ex w1 where ex: "initializeRunExecution a runID parent now cfg w = (ex, w1)" by fastforce
  have s0: "ex_state ex = initial_state a runID parent now cfg" using ex by (auto simp: initializeRunExecution_def Let_def)
  obtain g w2 where g: "applyInputGuardrails (ag_inputGuardrails a) prompt w1 = (g, w2)" by fastforce
  have cl: "settles b q' [] \<and> queue_closed q'" if "close_steers e q w0 = (q', w0')" for e q' w0 w0'
    using close_steers_settles [OF assms(1) that] .
  show ?thesis
  proof (cases g)
    case (Inl e)
    with assms(2) ex g cl show ?thesis by (auto simp: RunStream_def Let_def split: prod.splits)
  next
    case (Inr p)
    obtain err s1 w3 where bo: "bootstrapRunMessages a (ex_state ex) p (ex_deps ex) (cfg_deferredResults cfg)
        (cfg_initialRequestParts cfg) w2 = (err, s1, w3)" by (metis prod_cases3)
    show ?thesis
    proof (cases err)
      case (Some e)
      with assms(2) ex g Inr bo cl show ?thesis by (auto simp: RunStream_def Let_def split: prod.splits)
    next
      case None
      define e where "e = newTurnEngine a p (ex_limits ex) (ex_deps ex)"
      have en: "en_agent e = a" by (simp add: e_def newTurnEngine_def)
      define st where "st = newAgentStream e model mws
          (publish_resolved a (cfg_deferredResults cfg) (beginRun a p s1)) (ex_settings ex) q"
      have "turn_ok a False s1" "rs_activeApprovals s1 = 0" using bootstrapRunMessages_frame [OF bo] s0
        by (simp_all add: turn_ok_def turn_events_def)
      then have "live b e st" using assms(1) en by (simp add: st_def live_def newAgentStream_def beginRun_def)
      moreover have "\<not> as_turnActive st" "as_current st = None" "as_end st = None"
        by (simp_all add: st_def newAgentStream_def)
      moreover obtain e2 st2 w4 where t: "startTurn st w3 = (e2, st2, w4)" by (metis prod_cases3)
      ultimately have l2: "live b e st2 \<and> as_end st2 = None \<and>
          (if e2 = None then as_turnActive st2 \<and> as_current st2 \<noteq> None else \<not> as_turnActive st2 \<and> as_current st2 = None)"
        using startTurn_live [of b e st w3 e2 st2 w4] by simp
      obtain st3 w5 where f: "finish (RunFailed (the e2)) st2 w4 = (st3, w5)" by fastforce
      have "r = (case e2 of None \<Rightarrow> Inr st2 | Some e \<Rightarrow> Inl (e, as_steers st3))"
        using assms(2) ex g Inr bo None t f by (cases e2) (auto simp: RunStream_def Let_def st_def e_def)
      with l2 finish_over [OF _ f, of b e] en show ?thesis
        by (auto simp: stream_inv_def live_def over_def split: option.splits)
    qed
  qed
qed

end
