(* ===== verification/Core_Stream_Equiv.thy ===== *)
theory Core_Stream_Equiv
  imports Core_Loop Core_Stream
begin

text \<open>
  A streamed run without steering is the run that \<open>Run\<close> makes: two copies of the same loop, one of them
  cut into the opening of the request, the reading of the stream and the handling of the response.
\<close>

section \<open>A model and its stream\<close>

text \<open>A stream that, read to its end, has the response and leaves the world as the request does.\<close>

inductive drains :: "'w streamed_response \<Rightarrow> 'w \<Rightarrow> model_response \<Rightarrow> 'w \<Rightarrow> bool" where
  drains_end: "sr_Next sr w = (Inl err, w1) \<Longrightarrow> errors_Is err EOF \<Longrightarrow> streamed_answer sr w1 = Some resp \<Longrightarrow>
    drains sr w resp (snd (sr_Close sr w1))"
| drains_event: "sr_Next sr w = (Inr ev, w1) \<Longrightarrow> drains sr w1 resp w' \<Longrightarrow> drains sr w resp w'"

definition streams_like :: "'w stream_func \<Rightarrow> 'w request_func \<Rightarrow> bool" where
  "streams_like f g \<longleftrightarrow> (\<forall>ms settings params w resp w'. g ms settings params w = (Inr resp, w') \<longrightarrow>
     (\<exists>sr w1. f ms settings params w = (Inr sr, w1) \<and> drains sr w1 resp w'))"

section \<open>Reading\<close>

text \<open>What \<open>Result\<close> makes of a completed turn.\<close>

definition after_turn :: "'t run_outcome option \<times> ('w, 't) agent_stream \<times> 'w
    \<Rightarrow> ('t run_outcome \<times> ('w, 't) agent_stream \<times> 'w) option" where
  "after_turn x = (case x of
     (Some out, st, w) \<Rightarrow> (let (st, w) = finish out st w in Some (out, st, w))
   | (None, st, w) \<Rightarrow> (case as_end st of Some out \<Rightarrow> Some (out, st, w) | None \<Rightarrow> Result st w))"

lemma finish_end: "finish out st w = (st', w') \<Longrightarrow> as_end st' = Some out"
  by (auto simp: finish_def Let_def split: prod.splits)

lemma Result_fail:
  assumes "Next st w = Some (fail_stream out st1 w1)" and "\<And>r. out \<noteq> RunDone r"
  shows "Result st w = (let (st, w) = finish out st1 w1 in Some (out, st, w))"
proof -
  obtain st2 w2 where f: "finish out st1 w1 = (st2, w2)" by fastforce
  with assms finish_end [OF f] show ?thesis
    by (subst Result.simps) (cases out; simp add: fail_stream_def)
qed

lemma Result_round:
  assumes "as_end st = None" and "next_round st w = Inr (st', w')"
  shows "Result st w = Result st' w'"
proof -
  have "Next st w = Next st' w'" using assms by (subst Next.simps) simp
  then show ?thesis by (subst (1 2) Result.simps) simp
qed

lemma Result_drained:
  assumes "drains sr w resp w'" and "as_current st = Some sr" and "as_end st = None"
    and "\<And>ds r st' w''. settle_streamed resp (st\<lparr>as_current := None, as_deltas := ds\<rparr>) w' \<noteq> (Some (RunDone r), st', w'')"
  shows "\<exists>ds. Result st w = after_turn (settle_streamed resp (st\<lparr>as_current := None, as_deltas := ds\<rparr>) w')"
  using assms
proof (induction arbitrary: st)
  case (drains_event sr w ev w1 resp w')
  have n: "Next st w = Some (NextEvent ev, recordStreamDelta ev st, w1)"
    using drains_event by (subst Next.simps) (simp add: next_round_def ensure_turn_def)
  define ds where "ds = as_deltas (recordStreamDelta ev st)"
  have ds: "recordStreamDelta ev st = st\<lparr>as_deltas := ds\<rparr>"
    by (simp add: recordStreamDelta_def ds_def split: prod.splits)
  have "Result st w = Result (st\<lparr>as_deltas := ds\<rparr>) w1" using n ds by (subst Result.simps) simp
  with drains_event.IH [of "st\<lparr>as_deltas := ds\<rparr>"] drains_event.prems show ?case by simp
next
  case (drains_end sr w err w1 resp)
  define c where "c = settle_streamed resp (st\<lparr>as_current := None\<rparr>) (snd (sr_Close sr w1))"
  obtain out st2 w2 where c2: "c = (out, st2, w2)" by (cases c)
  have self: "st\<lparr>as_current := None, as_deltas := as_deltas st\<rparr> = st\<lparr>as_current := None\<rparr>" by simp
  have ct: "completeTurn sr st w1 = c" using drains_end by (simp add: completeTurn_def c_def Let_def)
  have n: "next_round st w = (case c of (Some out, st, w) \<Rightarrow> Inl (fail_stream out st w)
      | (None, st, w) \<Rightarrow> if as_end st \<noteq> None then Inl (NextEOF, st, w) else Inr (st, w))"
    using drains_end ct by (simp add: next_round_def ensure_turn_def)
  have "Result st w = after_turn c"
  proof (cases out)
    case (Some o1)
    then have "Next st w = Some (fail_stream o1 st2 w2)" using drains_end n c2 by (subst Next.simps) simp
    moreover have "o1 \<noteq> RunDone r" for r using drains_end.prems(3) [of "as_deltas st" r st2 w2] c2 Some c_def self by auto
    ultimately show ?thesis using Some c2 by (simp add: Result_fail after_turn_def)
  next
    case None
    show ?thesis
    proof (cases "as_end st2")
      case (Some o1)
      then have "Next st w = Some (NextEOF, st2, w2)" using drains_end n c2 None by (subst Next.simps) simp
      with Some None c2 show ?thesis by (subst Result.simps) (simp add: after_turn_def)
    next
      case e: None
      with n None c2 drains_end.prems(2) Result_round [of st w st2 w2] show ?thesis by (simp add: after_turn_def)
    qed
  qed
  then show ?case unfolding c_def using self by metis
qed

section \<open>Without steering\<close>

definition unsteered :: "('w, 't) agent_stream \<Rightarrow> bool" where
  "unsteered st \<longleftrightarrow> as_steers st = None \<and> as_pendingSteers st = []"

lemma unsteered_steps:
  assumes "unsteered st"
  shows "queueSteersForNextRequest t st w = (Inr False, st, w)" and "closeSteers reason st w = (st, w)"
    and "rejectPendingSteers reason st w = (st, w)" and "acknowledgePendingSteers st w = (None, st, w)"
  using assms
  by (simp_all add: unsteered_def queueSteersForNextRequest_def closeSteers_def rejectPendingSteers_def
      acknowledgePendingSteers_def take_all_def lock_def close_steers_def close_queue_def)

lemma close_steers_None: "close_steers r None w = (None, w)"
  by (simp add: close_steers_def lock_def close_queue_def)

lemma finish_unsteered:
  assumes "unsteered st" and "as_current st = None" and "\<not> as_turnActive st" and "as_end st = None"
  shows "finish out st w = (st\<lparr>as_end := Some out, as_state := endRun (as_agent st) out (as_state st)\<rparr>, w)"
  using assms by (simp add: finish_def drop_current_def unsteered_steps)

lemma completeActiveTurn_stream [simp]:
  "as_steers (completeActiveTurn resp err st) = as_steers st"
  "as_pendingSteers (completeActiveTurn resp err st) = as_pendingSteers st"
  "as_state (completeActiveTurn resp err st) = emitTurnCompleted (as_agent st) resp err (as_state st)"
  "\<not> as_turnActive (completeActiveTurn resp err st)" "as_current (completeActiveTurn resp err st) = as_current st"
  "as_end (completeActiveTurn resp err st) = as_end st" "as_engine (completeActiveTurn resp err st) = as_engine st"
  "as_settings (completeActiveTurn resp err st) = as_settings st" "as_model (completeActiveTurn resp err st) = as_model st"
  "as_middleware (completeActiveTurn resp err st) = as_middleware st"
  by (simp_all add: completeActiveTurn_def emitStreamTurnCompleted_def)

text \<open>The stream after a stage, by the outcome of the same stage of the engine.\<close>

definition agrees :: "('w, 't) agent_stream \<Rightarrow> 't step_outcome \<times> run_state \<times> 'w
    \<Rightarrow> 't run_outcome option \<times> ('w, 't) agent_stream \<times> 'w \<Rightarrow> bool" where
  "agrees st x y \<longleftrightarrow> (case (x, y) of ((o1, s', w'), (out, st', w'')) \<Rightarrow>
     w'' = w' \<and> unsteered st' \<and> as_current st' = None \<and> \<not> as_turnActive st' \<and>
     as_engine st' = as_engine st \<and> as_model st' = as_model st \<and> as_middleware st' = as_middleware st \<and>
     as_settings st' = as_settings st \<and>
     (case o1 of
        StepDone r \<Rightarrow> out = None \<and> as_end st' = Some (RunDone r) \<and> as_state st' = endRun (as_agent st) (RunDone r) s'
      | _ \<Rightarrow> out = ends_run o1 \<and> as_end st' = None \<and> as_state st' = s'))"

lemma agrees_completed:
  assumes "unsteered st" and "as_current st = None" and "as_end st = None"
    and "\<And>r. o1 \<noteq> StepDone r" and "out = ends_run o1" and "s' = emitTurnCompleted (as_agent st) resp err (as_state st)"
  shows "agrees st (o1, s', w) (out, completeActiveTurn resp err st, w)"
  using assms(4) by (cases o1) (use assms in \<open>auto simp: agrees_def unsteered_def\<close>)

lemma agrees_done:
  assumes "unsteered st" and "as_current st = None" and "as_end st = None"
    and "s1 = emitTurnCompleted (as_agent st) resp None (as_state st)"
  shows "agrees st (let (r, w) = buildRunResult (as_agent st) s1 v w in (StepDone r, s1, w))
    (let st1 = completeActiveTurn resp None st; (r, w) = buildRunResult (as_agent st) (as_state st1) v w;
         (st2, w) = finish (RunDone r) st1 w in (None, st2, w))"
proof -
  obtain r w1 where b: "buildRunResult (as_agent st) s1 v w = (r, w1)" by fastforce
  with assms show ?thesis by (simp add: Let_def finish_unsteered agrees_def unsteered_def)
qed

lemma conclude_agrees:
  assumes u: "unsteered st" and c: "as_current st = None" and e: "as_end st = None"
  shows "agrees st (conclude_turn (as_agent st) resp p (as_state st) w) (conclude_streamed resp p st w)"
proof -
  let ?a = "as_agent st"
  obtain result parts deferred where p: "p = (result, parts, deferred)" by (cases p)
  define st1 where "st1 = st\<lparr>as_state := (if parts \<noteq> [] then (as_state st)\<lparr>rs_messages := rs_messages (as_state st) @ [ModelRequest parts]\<rparr>
      else as_state st)\<rparr>"
  have 1: "unsteered st1" "as_current st1 = None" "as_end st1 = None" "as_agent st1 = ?a"
    using u c e by (simp_all add: st1_def unsteered_def)
  have ag: "agrees st x y" if "agrees st1 x y" for x y
    using that by (cases x; cases y; cases "fst x") (simp_all add: agrees_def st1_def)
  have eq1: "conclude_turn ?a resp p (as_state st) w =
      (if deferred \<noteq> []
       then (StepDeferred deferred (rs_messages (as_state st1)) (rs_usage (as_state st1)),
             publish_deferred ?a deferred (emitTurnCompleted ?a (Some resp) None (as_state st1)), w)
       else case result of
           Some r \<Rightarrow>
             (case kb_store ?a resp w of
                (Some err, w) \<Rightarrow> (StepFailed err, emitTurnCompleted ?a (Some resp) (Some err) (as_state st1), w)
              | (None, w) \<Rightarrow>
                  (let s = emitTurnCompleted ?a (Some resp) None (as_state st1); (res, w) = buildRunResult ?a s (fr_output r) w
                   in (StepDone res, s, w)))
         | None \<Rightarrow> (StepContinue, emitTurnCompleted ?a (Some resp) None (as_state st1), w))"
    by (cases result; cases "parts = []"; simp add: conclude_turn_def p st1_def Let_def split: prod.split option.split)
  have eq2: "conclude_streamed resp p st w =
      (if deferred \<noteq> []
       then (Some (RunDeferred deferred (rs_messages (as_state st1)) (rs_usage (as_state st1))),
             (completeActiveTurn (Some resp) None st1)\<lparr>as_state :=
               publish_deferred ?a deferred (emitTurnCompleted ?a (Some resp) None (as_state st1))\<rparr>, w)
       else case result of
           Some r \<Rightarrow>
             (case kb_store ?a resp w of
                (Some err, w) \<Rightarrow> (Some (RunFailed err), completeActiveTurn (Some resp) (Some err) st1, w)
              | (None, w) \<Rightarrow>
                  (let st2 = completeActiveTurn (Some resp) None st1;
                       (res, w) = buildRunResult ?a (as_state st2) (fr_output r) w;
                       (st2, w) = finish (RunDone res) st2 w
                   in (None, st2, w)))
         | None \<Rightarrow> (None, completeActiveTurn (Some resp) None st1, w))"
    using 1 by (cases result; simp add: conclude_streamed_def p st1_def [symmetric] unsteered_steps Let_def split: prod.split option.split)
  have "agrees st1 (conclude_turn ?a resp p (as_state st) w) (conclude_streamed resp p st w)"
  proof (cases "deferred = []")
    case False
    then show ?thesis using 1 by (simp add: eq1 eq2 agrees_def ends_run_def unsteered_def)
  next
    case True
    show ?thesis
    proof (cases result)
      case None
      with True 1 agrees_completed [OF 1(1-3), of StepContinue None] show ?thesis by (simp add: eq1 eq2 ends_run_def)
    next
      case (Some r)
      obtain k w1 where k: "kb_store ?a resp w = (k, w1)" by fastforce
      show ?thesis
      proof (cases k)
        case None
        with True Some k 1 agrees_done [OF 1(1-3) refl, of "Some resp" "fr_output r" w1] show ?thesis
          by (simp add: eq1 eq2 Let_def)
      next
        case e: (Some err)
        with True Some k 1 agrees_completed [OF 1(1-3), of "StepFailed err" "Some (RunFailed err)"] show ?thesis
          by (simp add: eq1 eq2 ends_run_def)
      qed
    qed
  qed
  then show ?thesis by (rule ag)
qed

lemma handle_agrees:
  assumes u: "unsteered st" and c: "as_current st = None" and e: "as_end st = None"
  shows "agrees st (handle_response (as_engine st) resp (as_state st) w) (handle_streamed resp st w)"
proof -
  let ?e = "as_engine st" and ?a = "as_agent st" and ?s = "as_state st"
  show ?thesis
  proof (cases "if HasTokenLimits (en_limits ?e) then CheckTokens (en_limits ?e) (rs_usage ?s) else None")
    case (Some err)
    with agrees_completed [OF u c e, of "StepFailed err" "Some (RunFailed err)"] show ?thesis
      by (simp add: handle_response_def handle_streamed_def Let_def ends_run_def)
  next
    case None
    obtain reason w1 where sr: "stop_reason (ag_runConditions ?a) (buildRunContext ?s (en_deps ?e) (en_prompt ?e)) resp w = (reason, w1)"
      by fastforce
    show ?thesis
    proof (cases reason)
      case (Some x)
      show ?thesis
      proof (cases "stopped_output ?a resp")
        case so: None
        with None sr Some agrees_completed [OF u c e, of "StepFailed (RunConditionError x)" "Some (RunFailed (RunConditionError x))"]
        show ?thesis by (simp add: handle_response_def handle_streamed_def stop_turn_def Let_def ends_run_def)
      next
        case so: (Some v)
        with None sr Some agrees_done [OF u c e refl, of "Some resp" v w1] show ?thesis
          by (simp add: handle_response_def handle_streamed_def stop_turn_def Let_def)
      qed
    next
      case none: None
      obtain r s1 w2 where pr: "processResponse ?a resp (en_toolMap ?e) (en_outputToolNames ?e) (en_deps ?e) (en_prompt ?e) ?s w1 = (r, s1, w2)"
        by (metis prod_cases3)
      define st1 where "st1 = st\<lparr>as_state := s1\<rparr>"
      have 1: "unsteered st1" "as_current st1 = None" "as_end st1 = None" using u c e by (simp_all add: st1_def unsteered_def)
      have ag: "agrees st x y" if "agrees st1 x y" for x y
        using that by (cases x; cases y; cases "fst x") (simp_all add: agrees_def st1_def)
      show ?thesis
      proof (cases r)
        case (Inl err)
        with None none sr pr ag [OF agrees_completed [OF 1, of "StepFailed err" "Some (RunFailed err)"]] show ?thesis
          by (simp add: handle_response_def handle_streamed_def Let_def ends_run_def st1_def)
      next
        case (Inr p)
        with None none sr pr ag [OF conclude_agrees [OF 1, of resp p w2]] show ?thesis
          by (simp add: handle_response_def handle_streamed_def Let_def st1_def)
      qed
    qed
  qed
qed

section \<open>Turns\<close>

lemma request_turn_split:
  "request_turn e s settings w =
     (case prepare_turn e s w of
        (Inl err, s, w) \<Rightarrow> (Inl err, s, w)
      | (Inr (ms, params), s, w) \<Rightarrow>
          (case buildMiddlewareChain (ag_middleware (en_agent e)) (ag_model (en_agent e)) ms
                  (inject_tool_choice (en_agent e) settings) params w of
             (Inl err, w) \<Rightarrow>
               (let err = WrapPrefix ''model request failed'' err
                in (Inl err, emitTurnCompleted (en_agent e) None (Some err) s, w))
           | (Inr resp, w) \<Rightarrow> (Inr resp, s, w)))"
  by (simp add: request_turn_def prepare_turn_def Let_def split: prod.split sum.split)

lemma inject_idem: "inject_tool_choice a (inject_tool_choice a settings) = inject_tool_choice a settings"
  by (simp add: inject_tool_choice_def Let_def split: option.split)

lemma inject_kept: "inject_tool_choice a (kept_settings a settings) = inject_tool_choice a settings"
  by (simp add: kept_settings_def inject_idem)

text \<open>A stream between turns, and the engine at the same point.\<close>

definition between :: "('w, 't) turn_engine \<Rightarrow> 'w stream_func \<Rightarrow> 'w stream_middleware list \<Rightarrow> run_state
    \<Rightarrow> model_settings option \<Rightarrow> ('w, 't) agent_stream \<Rightarrow> bool" where
  "between e model mws s settings st \<longleftrightarrow> unsteered st \<and> as_current st = None \<and> \<not> as_turnActive st \<and> as_end st = None \<and>
     as_engine st = e \<and> as_model st = model \<and> as_middleware st = mws \<and> as_state st = s \<and>
     inject_tool_choice (en_agent e) (as_settings st) = inject_tool_choice (en_agent e) settings"

definition request_failed :: "go_error \<Rightarrow> bool" where
  "request_failed err \<longleftrightarrow> (\<exists>e. err = WrapPrefix ''model request failed'' e)"

text \<open>What a turn of the engine means for the stream, by its outcome.\<close>

definition follows :: "('w, 't) turn_engine \<Rightarrow> 'w stream_func \<Rightarrow> 'w stream_middleware list \<Rightarrow> ('w, 't) agent_stream \<Rightarrow> 'w
    \<Rightarrow> 't step_outcome option \<Rightarrow> run_state \<Rightarrow> model_settings option \<Rightarrow> 'w \<Rightarrow> bool" where
  "follows e model mws st w out s' settings' w' \<longleftrightarrow>
     (case Option.bind out ends_run of
        None \<Rightarrow> (\<exists>st'. between e model mws s' settings' st' \<and> Result st w = Result st' w')
      | Some o1 \<Rightarrow> (\<exists>st'. Result st w = Some (o1, st', w') \<and> as_state st' = endRun (en_agent e) o1 s'))"

lemma Result_failed_start:
  assumes "as_end st = None" and "ensure_turn st w = (Some err, st1, w1)"
    and "unsteered st1" and "as_current st1 = None" and "\<not> as_turnActive st1" and "as_end st1 = None"
  shows "Result st w = Some (RunFailed err, st1\<lparr>as_end := Some (RunFailed err),
      as_state := endRun (as_agent st1) (RunFailed err) (as_state st1)\<rparr>, w1)"
proof -
  have "Next st w = Some (fail_stream (RunFailed err) st1 w1)" using assms by (subst Next.simps) (simp add: next_round_def)
  then show ?thesis using assms(3-6) by (simp add: Result_fail finish_unsteered)
qed

lemma startTurn_opened:
  assumes "unsteered st" and "as_current st = None" and "check_limits (as_engine st) (as_state st) w = None"
    and "prepare_turn (as_engine st) (as_state st) w = (Inr (ms, params), s1, w1)"
    and "buildStreamMiddlewareChain (as_middleware st) (as_model st) ms
           (inject_tool_choice (as_agent st) (as_settings st)) params w1 = (Inr sr, w2)"
  shows "startTurn st w = (None, st\<lparr>as_state := s1, as_settings := inject_tool_choice (as_agent st) (as_settings st),
    as_current := Some sr, as_turnActive := True\<rparr>, w2)"
proof -
  have "unsteered (st\<lparr>as_state := s1, as_settings := kept_settings (as_agent st) (as_settings st)\<rparr>)"
    using assms(1) by (simp add: unsteered_def)
  with assms show ?thesis by (simp add: startTurn_def Let_def unsteered_steps)
qed

lemma Result_opened:
  assumes "as_end st = None" and "as_current st = None" and "startTurn st w = (None, st1, w1)"
    and "as_current st1 = Some sr" and "as_end st1 = None"
  shows "Result st w = Result st1 w1"
proof -
  have "next_round st w = next_round st1 w1" using assms by (simp add: next_round_def ensure_turn_def)
  then have "Next st w = Next st1 w1" using assms by (subst (1 2) Next.simps) simp
  then show ?thesis by (subst (1 2) Result.simps) simp
qed

lemma settle_unsteered:
  assumes "unsteered st" and "record_usage (as_agent st) resp (as_state st) w = (s2, w2)"
    and "runResponseInterceptors (ag_responseInterceptors (as_agent st)) resp w2 = ((d, resp'), w3)"
  shows "settle_streamed resp st w =
    (if d then (None, completeActiveTurn (Some resp') None (st\<lparr>as_state := s2, as_finalResponse := Some resp'\<rparr>), w3)
     else handle_streamed resp' (st\<lparr>as_finalResponse := Some resp',
       as_settings := reset_tool_choice (as_agent st) resp' (as_settings st), as_state := accept_response (as_agent st) resp' s2\<rparr>) w3)"
proof -
  have "unsteered (st\<lparr>as_state := s2, as_finalResponse := Some resp'\<rparr>)" using assms(1) by (simp add: unsteered_def)
  with assms show ?thesis by (simp add: settle_streamed_def unsteered_steps Let_def)
qed

text \<open>The handling of the response, seen from \<open>Result\<close>.\<close>

lemma handled_follows:
  assumes u: "unsteered st1" and c: "as_current st1 = None" and e1: "as_end st1 = None"
    and en: "as_engine st1 = e" "as_model st1 = model" "as_middleware st1 = mws"
    and se: "as_settings st1 = settings'"
    and h: "handle_response e resp (as_state st1) w1 = (o1, s', w')"
    and r: "Result st w = after_turn (handle_streamed resp st1 w1)"
  shows "follows e model mws st w (Some o1) s' settings' w'"
proof -
  obtain out st2 w2 where s2: "handle_streamed resp st1 w1 = (out, st2, w2)" by (metis prod_cases3)
  have "agrees st1 (o1, s', w') (out, st2, w2)" using handle_agrees [OF u c e1, of resp w1] h s2 en by simp
  note ag = this [unfolded agrees_def, simplified]
  show ?thesis
  proof (cases o1)
    case (StepFailed err)
    with ag r s2 en show ?thesis by (simp add: after_turn_def follows_def ends_run_def finish_unsteered)
  next
    case (StepDeferred reqs ms us)
    with ag r s2 en show ?thesis by (simp add: after_turn_def follows_def ends_run_def finish_unsteered)
  next
    case (StepDone res)
    with ag r s2 en show ?thesis by (simp add: after_turn_def follows_def ends_run_def)
  next
    case StepContinue
    with ag en se have "between e model mws s' settings' st2" by (simp add: between_def ends_run_def)
    moreover have "Result st w = Result st2 w'" using ag r s2 StepContinue by (simp add: after_turn_def ends_run_def)
    ultimately show ?thesis unfolding follows_def StepContinue by (auto simp: ends_run_def)
  qed
qed

lemma turn_follows:
  assumes b: "between e model mws s settings st"
    and like: "streams_like (buildStreamMiddlewareChain mws model) (buildMiddlewareChain (ag_middleware (en_agent e)) (ag_model (en_agent e)))"
    and t: "turn e s settings w = (out, s', settings', w')"
    and nf: "\<And>err. out = Some (None, StepFailed err) \<Longrightarrow> \<not> request_failed err"
  shows "follows e model mws st w (map_option snd out) s' settings' w'"
proof -
  let ?a = "en_agent e" and ?set = "inject_tool_choice (en_agent e) settings"
  note bt = b [unfolded between_def]
  have ens: "ensure_turn st w = startTurn st w" using bt by (simp add: ensure_turn_def)
  show ?thesis
  proof (cases "check_limits e s w")
    case (Some err)
    with t have o: "out = Some (None, StepFailed err)" "s' = s" "w' = w" by (auto simp: turn_def Let_def)
    have "ensure_turn st w = (Some err, st, w)" using ens bt Some by (simp add: startTurn_def Let_def)
    from Result_failed_start [OF _ this] bt o show ?thesis by (simp add: follows_def ends_run_def)
  next
    case lim: None
    obtain r s1 w1 where p: "prepare_turn e s w = (r, s1, w1)" by (metis prod_cases3)
    show ?thesis
    proof (cases r)
      case (Inl err)
      with t lim p have o: "out = Some (None, StepFailed err)" "s' = s1" "w' = w1"
        by (auto simp: turn_def Let_def request_turn_split)
      let ?st1 = "st\<lparr>as_state := s1, as_settings := kept_settings ?a (as_settings st)\<rparr>"
      have "ensure_turn st w = (Some err, ?st1, w1)" using ens bt lim p Inl by (simp add: startTurn_def Let_def)
      moreover have "unsteered ?st1" using bt by (simp add: unsteered_def)
      ultimately show ?thesis using Result_failed_start [of st w err ?st1 w1] bt o
        by (simp add: follows_def ends_run_def)
    next
      case (Inr x)
      obtain ms params where x: "x = (ms, params)" by (cases x)
      obtain m w2 where m: "buildMiddlewareChain (ag_middleware ?a) (ag_model ?a) ms ?set params w1 = (m, w2)" by fastforce
      show ?thesis
      proof (cases m)
        case f: (Inl err)
        with t lim p Inr x m have "out = Some (None, StepFailed (WrapPrefix ''model request failed'' err))"
          by (auto simp: turn_def Let_def request_turn_split)
        with nf show ?thesis by (auto simp: request_failed_def)
      next
        case g: (Inr resp)
        have rt: "request_turn e s settings w = (Inr resp, s1, w2)" using p Inr x m g by (simp add: request_turn_split)
        from like m g obtain sr w3 where sr: "buildStreamMiddlewareChain mws model ms ?set params w1 = (Inr sr, w3)"
            and dr: "drains sr w3 resp w2" unfolding streams_like_def by blast
        define st1 where "st1 = st\<lparr>as_state := s1, as_settings := ?set, as_current := Some sr, as_turnActive := True\<rparr>"
        have "startTurn st w = (None, st1, w3)"
          using startTurn_opened [of st w ms params s1 w1 sr w3] bt lim p Inr x sr by (simp add: st1_def)
        from Result_opened [OF _ _ this, of sr] bt have r1: "Result st w = Result st1 w3" by (simp add: st1_def)
        obtain s2 w4 where ru: "record_usage ?a resp s1 w2 = (s2, w4)" by fastforce
        obtain d resp' w5 where ri: "runResponseInterceptors (ag_responseInterceptors ?a) resp w4 = ((d, resp'), w5)"
          by (metis prod.collapse)
        define sta where "sta ds = st1\<lparr>as_current := None, as_deltas := ds\<rparr>" for ds
        have ua: "unsteered (sta ds)" "as_engine (sta ds) = e" "as_state (sta ds) = s1" for ds
          using bt by (simp_all add: sta_def st1_def unsteered_def)
        have se: "settle_streamed resp (sta ds) w2 =
          (if d then (None, completeActiveTurn (Some resp') None ((sta ds)\<lparr>as_state := s2, as_finalResponse := Some resp'\<rparr>), w5)
           else handle_streamed resp' ((sta ds)\<lparr>as_finalResponse := Some resp',
             as_settings := reset_tool_choice ?a resp' (as_settings (sta ds)), as_state := accept_response ?a resp' s2\<rparr>) w5)" for ds
          using settle_unsteered [OF ua(1), of ds resp w2 s2 w4 d resp' w5] ua(2,3) [of ds] ru ri by simp
        have fields: "as_current (sta ds) = None" "as_end (sta ds) = None" "as_model (sta ds) = model"
            "as_middleware (sta ds) = mws" "as_settings (sta ds) = ?set" for ds
          using bt by (simp_all add: sta_def st1_def)
        show ?thesis
        proof (cases d)
          case True
          with t lim rt ru ri have o: "out = None" "s' = emitTurnCompleted ?a (Some resp') None s2" "w' = w5"
              "settings' = kept_settings ?a settings" by (auto simp: turn_def Let_def)
          have "\<exists>ds. Result st1 w3 = after_turn (settle_streamed resp (sta ds) w2)"
            using Result_drained [OF dr, of st1] bt se True by (simp add: st1_def sta_def)
          then obtain ds where "Result st1 w3 = after_turn (settle_streamed resp (sta ds) w2)" by blast
          moreover have "between e model mws s' settings'
              (completeActiveTurn (Some resp') None ((sta ds)\<lparr>as_state := s2, as_finalResponse := Some resp'\<rparr>))"
            using ua [of ds] fields [of ds] o by (simp add: between_def unsteered_def inject_kept inject_idem)
          ultimately show ?thesis using r1 o se [of ds] True fields(2) [of ds]
            by (auto simp: follows_def after_turn_def)
        next
          case False
          obtain o1 s3 w6 where h: "handle_response e resp' (accept_response ?a resp' s2) w5 = (o1, s3, w6)" by (metis prod_cases3)
          with t lim rt ru ri False have o: "out = Some (Some resp', o1)" "s3 = s'" "w6 = w'"
              "settings' = reset_tool_choice ?a resp' ?set" by (auto simp: turn_def Let_def)
          define stb where "stb ds = (sta ds)\<lparr>as_finalResponse := Some resp',
             as_settings := reset_tool_choice ?a resp' (as_settings (sta ds)), as_state := accept_response ?a resp' s2\<rparr>" for ds
          have ub: "unsteered (stb ds)" "as_current (stb ds) = None" "as_end (stb ds) = None" "as_engine (stb ds) = e"
              "as_model (stb ds) = model" "as_middleware (stb ds) = mws" "as_settings (stb ds) = settings'"
              "as_state (stb ds) = accept_response ?a resp' s2" for ds
            using ua [of ds] fields [of ds] o(4) by (simp_all add: stb_def unsteered_def)
          have nd: "settle_streamed resp (sta ds) w2 \<noteq> (Some (RunDone r), st', w'')" for ds r st' w''
            using handle_agrees [OF ub(1-3), of ds resp' w5] se [of ds] False h ub(4,8) [of ds]
            by (cases o1) (auto simp: agrees_def ends_run_def stb_def [symmetric] split: prod.splits)
          have "\<exists>ds. Result st1 w3 = after_turn (settle_streamed resp (sta ds) w2)"
            using Result_drained [OF dr, of st1] bt nd by (simp add: st1_def sta_def)
          then obtain ds where "Result st w = after_turn (handle_streamed resp' (stb ds) w5)"
            using r1 se False by (auto simp: stb_def)
          moreover note ubd = ub [of ds]
          ultimately show ?thesis using handled_follows [OF ubd(1-7), of resp' w5 o1 s3 w6] h o by simp
        qed
      qed
    qed
  qed
qed

section \<open>Steps and runs\<close>

lemma follows_dropped:
  assumes "follows e model mws st w None s1 settings1 w1"
    and "\<And>st'. between e model mws s1 settings1 st' \<Longrightarrow> follows e model mws st' w1 out s' settings' w'"
  shows "follows e model mws st w out s' settings' w'"
proof -
  obtain st' where "between e model mws s1 settings1 st'" and "Result st w = Result st' w1"
    using assms(1) by (auto simp: follows_def)
  with assms(2) [of st'] show ?thesis by (simp add: follows_def split: option.splits)
qed

lemma Step_follows:
  assumes like: "streams_like (buildStreamMiddlewareChain mws model) (buildMiddlewareChain (ag_middleware (en_agent e)) (ag_model (en_agent e)))"
    and st: "Step e s settings w = Some ((resp, o1), s', settings', w')" and b: "between e model mws s settings st"
    and nf: "\<And>err. o1 = StepFailed err \<Longrightarrow> \<not> request_failed err"
  shows "follows e model mws st w (Some o1) s' settings' w'"
proof -
  let ?P = "\<lambda>e' s settings w y. e' = e \<longrightarrow> (\<forall>st. between e model mws s settings st \<longrightarrow>
      (\<forall>err. snd (fst y) = StepFailed err \<longrightarrow> \<not> request_failed err) \<longrightarrow>
      follows e model mws st w (Some (snd (fst y))) (fst (snd y)) (fst (snd (snd y))) (snd (snd (snd y))))"
  have "?P e s settings w ((resp, o1), s', settings', w')"
  proof (rule Step.raw_induct [where P = ?P, OF _ st], goal_cases)
    case (1 rec e' s settings w y)
    note IH = 1(1) and eq = 1(2)
    show ?case
    proof (intro impI allI)
      fix st
      assume e: "e' = e" and b: "between e model mws s settings st"
        and nf: "\<forall>err. snd (fst y) = StepFailed err \<longrightarrow> \<not> request_failed err"
      obtain out s1 settings1 w1 where t: "turn e s settings w = (out, s1, settings1, w1)" by (metis prod_cases4)
      show "follows e model mws st w (Some (snd (fst y))) (fst (snd y)) (fst (snd (snd y))) (snd (snd (snd y)))"
      proof (cases out)
        case (Some x)
        with eq t e have y: "y = (x, s1, settings1, w1)" by simp
        have "\<not> request_failed err" if "out = Some (None, StepFailed err)" for err
          using that nf Some y by auto
        from turn_follows [OF b like t this] Some y show ?thesis by simp
      next
        case None
        with eq t e have "rec e s1 settings1 w1 = Some y" by simp
        note ih = mp [OF IH [OF this] refl]
        from turn_follows [OF b like t] None have "follows e model mws st w None s1 settings1 w1" by simp
        then show ?thesis
        proof (rule follows_dropped)
          fix st' assume "between e model mws s1 settings1 st'"
          with ih nf show "follows e model mws st' w1 (Some (snd (fst y))) (fst (snd y)) (fst (snd (snd y))) (snd (snd (snd y)))"
            by simp
        qed
      qed
    qed
  qed
  with b nf show ?thesis by simp
qed

lemma run_steps_follows:
  assumes like: "streams_like (buildStreamMiddlewareChain mws model) (buildMiddlewareChain (ag_middleware (en_agent e)) (ag_model (en_agent e)))"
    and st: "run_steps e s settings w = Some (out, s', w')" and b: "between e model mws s settings st"
    and nf: "\<And>err. out = RunFailed err \<Longrightarrow> \<not> request_failed err"
  shows "\<exists>st'. Result st w = Some (out, st', w') \<and> as_state st' = endRun (en_agent e) out s'"
proof -
  let ?P = "\<lambda>e' s settings w y. e' = e \<longrightarrow> (\<forall>st. between e model mws s settings st \<longrightarrow>
      (\<forall>err. fst y = RunFailed err \<longrightarrow> \<not> request_failed err) \<longrightarrow>
      (\<exists>st'. Result st w = Some (fst y, st', snd (snd y)) \<and> as_state st' = endRun (en_agent e) (fst y) (fst (snd y))))"
  have "?P e s settings w (out, s', w')"
  proof (rule run_steps.raw_induct [where P = ?P, OF _ st], goal_cases)
    case (1 rec e' s settings w y)
    note IH = 1(1) and eq = 1(2)
    show ?case
    proof (intro impI allI)
      fix st
      assume e: "e' = e" and b: "between e model mws s settings st"
        and nf: "\<forall>err. fst y = RunFailed err \<longrightarrow> \<not> request_failed err"
      from eq e obtain resp o1 s1 settings1 w1 where step: "Step e s settings w = Some ((resp, o1), s1, settings1, w1)"
        by (cases "Step e s settings w") auto
      have y: "Some y = (case ends_run o1 of Some o2 \<Rightarrow> Some (o2, s1, w1) | None \<Rightarrow> rec e s1 settings1 w1)"
        using eq step e by (cases o1) (auto simp: ends_run_def)
      have "\<not> request_failed err" if "o1 = StepFailed err" for err
        using that nf y by (auto simp: ends_run_def)
      note fo = Step_follows [OF like step b this]
      show "\<exists>st'. Result st w = Some (fst y, st', snd (snd y)) \<and> as_state st' = endRun (en_agent e) (fst y) (fst (snd y))"
      proof (cases "ends_run o1")
        case (Some o2)
        with y fo show ?thesis by (auto simp: follows_def)
      next
        case None
        with fo obtain st' where "between e model mws s1 settings1 st'" "Result st w = Result st' w1"
          by (auto simp: follows_def)
        with IH [of e s1 settings1 w1 y] y None nf show ?thesis by auto
      qed
    qed
  qed
  with b nf show ?thesis by simp
qed

text \<open>\<^verbatim>\<open>RunStream\<close> followed by \<^verbatim>\<open>Result\<close>, with the state that is left.\<close>

definition streamed_run :: "('w, 't) agent \<Rightarrow> 'w stream_func \<Rightarrow> 'w stream_middleware list \<Rightarrow> 'w steer_queue option
    \<Rightarrow> string \<Rightarrow> string \<Rightarrow> time \<Rightarrow> string \<Rightarrow> run_config \<Rightarrow> 'w \<Rightarrow> ('t run_outcome \<times> run_state option \<times> 'w) option" where
  "streamed_run a model mws q runID parent now prompt cfg w =
     (case RunStream a model mws q runID parent now prompt cfg w of
        (Inl (err, _), s, w) \<Rightarrow> Some (RunFailed err, Some s, w)
      | (Inr st, s, w) \<Rightarrow>
          (case Result st w of
             None \<Rightarrow> None
           | Some (out, st, w) \<Rightarrow> Some (out, Some (as_state st), w)))"

lemma started_result:
  assumes b: "between e model mws s settings st" and r: "Result st w = Some (out, st', w')"
  shows "(case startTurn st w of
      (Some err, st, w) \<Rightarrow> (let (st, w) = finish (RunFailed err) st w in Some (RunFailed err, Some (as_state st), w))
    | (None, st, w) \<Rightarrow> (case Result st w of None \<Rightarrow> None | Some (out, st, w) \<Rightarrow> Some (out, Some (as_state st), w))) =
    Some (out, Some (as_state st'), w')"
proof -
  note bt = b [unfolded between_def]
  obtain err st1 w1 where t: "startTurn st w = (err, st1, w1)" by (metis prod_cases3)
  show ?thesis
  proof (cases err)
    case (Some x)
    then have "Next st w = Some (fail_stream (RunFailed x) st1 w1)"
      using bt t by (subst Next.simps) (simp add: next_round_def ensure_turn_def)
    from Result_fail [OF this] r t Some show ?thesis by (auto split: prod.splits)
  next
    case None
    have "\<exists>sr. as_current st1 = Some sr" and "as_end st1 = None"
      using t None bt by (auto simp: startTurn_def Let_def unsteered_def acknowledgePendingSteers_def
          split: option.splits prod.splits sum.splits)
    with Result_opened [of st w st1 w1] bt t None have "Result st1 w1 = Result st w" by auto
    with t None r show ?thesis by simp
  qed
qed

lemma streamed_run_is_Run:
  assumes run: "Run a runID parent now prompt cfg w = Some (out, Some s', w')"
    and like: "streams_like (buildStreamMiddlewareChain mws model) (buildMiddlewareChain (ag_middleware a) (ag_model a))"
    and nf: "\<And>err. out = RunFailed err \<Longrightarrow> \<not> request_failed err"
  shows "streamed_run a model mws None runID parent now prompt cfg w = Some (out, Some s', w')"
proof -
  have nq: "\<not> cfg_steerQueue cfg" using run by (auto simp: Run_def split: if_splits)
  obtain ex w1 where ex: "initializeRunExecution a runID parent now cfg w = (ex, w1)" by fastforce
  obtain g w2 where g: "applyInputGuardrails (ag_inputGuardrails a) prompt w1 = (g, w2)" by fastforce
  show ?thesis
  proof (cases g)
    case (Inl e)
    with run nq ex g show ?thesis by (auto simp: Run_def streamed_run_def RunStream_def Let_def close_steers_None)
  next
    case (Inr p)
    obtain err s1 w3 where bo: "bootstrapRunMessages a (ex_state ex) p (ex_deps ex) (cfg_deferredResults cfg)
        (cfg_initialRequestParts cfg) w2 = (err, s1, w3)" by (metis prod_cases3)
    show ?thesis
    proof (cases err)
      case (Some e)
      with run nq ex g Inr bo show ?thesis by (auto simp: Run_def streamed_run_def RunStream_def Let_def close_steers_None)
    next
      case None
      define e where "e = newTurnEngine a p (ex_limits ex) (ex_deps ex)"
      define s2 where "s2 = publish_resolved a (cfg_deferredResults cfg) (beginRun a p s1)"
      define st where "st = newAgentStream e model mws s2 (ex_settings ex) None"
      obtain s3 where rs: "run_steps e s2 (ex_settings ex) w3 = Some (out, s3, w')" and s3: "s' = endRun a out s3"
        using run nq ex g Inr bo None
        by (auto simp: Run_def Let_def runLoop_def e_def s2_def split: option.splits prod.splits)
      have en: "en_agent e = a" by (simp add: e_def newTurnEngine_def)
      have b: "between e model mws s2 (ex_settings ex) st"
        by (simp add: between_def st_def newAgentStream_def unsteered_def)
      from run_steps_follows [OF _ rs b nf] like en obtain st' where
        st': "Result st w3 = Some (out, st', w')" "as_state st' = s'" using s3 by auto
      from started_result [OF b st'(1)] st'(2) show ?thesis
        using ex g Inr bo None
        by (simp add: streamed_run_def RunStream_def Let_def e_def [symmetric] s2_def [symmetric] st_def [symmetric]
            split: prod.splits option.splits)
    qed
  qed
qed

end
