(* ===== verification/Core_Iter.thy ===== *)
theory Core_Iter
  imports Core_Loop
begin

text \<open>
  Iterative runs: \<^verbatim>\<open>core/iter.go\<close>. \<open>Iter\<close> sets up a run whose turns the caller asks for one by one. The
  clock is read when the first turn starts; each call of \<open>iter_Next\<close> gets its reading. An error that ends
  the run, or the deferral of tool calls, is kept as an outcome. A run that failed before it had an
  engine has none.
\<close>

section \<open>The run\<close>

record ('w, 't) agent_run =
  ar_engine :: "('w, 't) turn_engine option"
  ar_state :: run_state
  ar_settings :: "model_settings option"
  ar_done :: bool
  ar_result :: "'t run_result option"
  ar_err :: "'t run_outcome option"
  ar_started :: bool
  ar_ended :: bool
  ar_startTimeDeferred :: bool

definition failed_run :: "run_state \<Rightarrow> go_error \<Rightarrow> ('w, 't) agent_run" where
  "failed_run s e = \<lparr>ar_engine = None, ar_state = s, ar_settings = None, ar_done = True, ar_result = None,
     ar_err = Some (RunFailed e), ar_started = False, ar_ended = False, ar_startTimeDeferred = False\<rparr>"

definition Iter :: "('w, 't) agent \<Rightarrow> string \<Rightarrow> string \<Rightarrow> time \<Rightarrow> string \<Rightarrow> run_config \<Rightarrow> 'w \<Rightarrow> ('w, 't) agent_run \<times> 'w" where
  "Iter a runID parent now prompt cfg w =
     (let (ex, w) = initializeRunExecution a runID parent now cfg w; s = ex_state ex
      in case applyInputGuardrails (ag_inputGuardrails a) prompt w of
           (Inl e, w) \<Rightarrow> (failed_run s e, w)
         | (Inr prompt, w) \<Rightarrow>
             (case bootstrapRunMessages a s prompt (ex_deps ex) (cfg_deferredResults cfg)
                     (cfg_initialRequestParts cfg) w of
                (Some e, s, w) \<Rightarrow> (failed_run s e, w)
              | (None, s, w) \<Rightarrow>
                  (\<lparr>ar_engine = Some (newTurnEngine a prompt (ex_limits ex) (ex_deps ex)), ar_state = s,
                    ar_settings = ex_settings ex, ar_done = False, ar_result = None, ar_err = None,
                    ar_started = False, ar_ended = False,
                    ar_startTimeDeferred = (case cfg_snapshot cfg of None \<Rightarrow> True
                      | Some snap \<Rightarrow> snap_RunStartTime snap = zero_time)\<rparr>, w)))"

definition iter_start :: "time \<Rightarrow> ('w, 't) agent_run \<Rightarrow> ('w, 't) agent_run" where
  "iter_start now ar =
     (case ar_engine ar of
        None \<Rightarrow> ar
      | Some e \<Rightarrow>
          if ar_started ar then ar
          else
            (let s = (if ar_startTimeDeferred ar then (ar_state ar)\<lparr>rs_startTime := now\<rparr> else ar_state ar)
             in ar\<lparr>ar_state := beginRun (en_agent e) (en_prompt e) s, ar_started := True\<rparr>))"

definition iter_finish :: "'t run_outcome \<Rightarrow> ('w, 't) agent_run \<Rightarrow> ('w, 't) agent_run" where
  "iter_finish out ar =
     (case ar_engine ar of
        None \<Rightarrow> ar
      | Some e \<Rightarrow>
          if ar_ended ar \<or> \<not> ar_started ar then ar
          else ar\<lparr>ar_ended := True, ar_state := endRun (en_agent e) out (ar_state ar)\<rparr>)"

text \<open>What a call returns: a response, the end, or an error with the response of that turn, if any.\<close>

datatype 't iter_next = IterResponse "model_response option" | IterEOF | IterError "model_response option" "'t run_outcome"

definition iter_fail :: "model_response option \<Rightarrow> 't run_outcome \<Rightarrow> ('w, 't) agent_run \<Rightarrow> 't iter_next \<times> ('w, 't) agent_run" where
  "iter_fail resp out ar = (IterError resp out, iter_finish out (ar\<lparr>ar_done := True, ar_err := Some out\<rparr>))"

definition iter_Next :: "time \<Rightarrow> ('w, 't) agent_run \<Rightarrow> 'w \<Rightarrow> ('t iter_next \<times> ('w, 't) agent_run \<times> 'w) option" where
  "iter_Next now ar w =
     (case ar_engine ar of
        None \<Rightarrow> Some ((case ar_err ar of Some out \<Rightarrow> IterError None out | None \<Rightarrow> IterEOF), ar, w)
      | Some e \<Rightarrow>
          if ar_done ar then Some ((case ar_err ar of Some out \<Rightarrow> IterError None out | None \<Rightarrow> IterEOF), ar, w)
          else
            (let ar = iter_start now ar in
             case Step e (ar_state ar) (ar_settings ar) w of
               None \<Rightarrow> None
             | Some ((resp, out), s, settings, w) \<Rightarrow>
                 (let ar = ar\<lparr>ar_state := s, ar_settings := settings\<rparr> in
                  case out of
                    StepFailed err \<Rightarrow> (let (n, ar) = iter_fail resp (RunFailed err) ar in Some (n, ar, w))
                  | StepDeferred reqs ms u \<Rightarrow> (let (n, ar) = iter_fail resp (RunDeferred reqs ms u) ar in Some (n, ar, w))
                  | StepDone r \<Rightarrow>
                      Some (IterResponse resp, iter_finish (RunDone r) (ar\<lparr>ar_done := True, ar_result := Some r\<rparr>), w)
                  | StepContinue \<Rightarrow> Some (IterResponse resp, ar, w))))"

abbreviation ErrAgentRunClosed :: go_error where
  "ErrAgentRunClosed \<equiv> ErrorString ''agent run closed before completion''"

definition iter_Close :: "('w, 't) agent_run \<Rightarrow> ('w, 't) agent_run" where
  "iter_Close ar =
     (if ar_done ar then ar
      else iter_finish (RunFailed ErrAgentRunClosed) (ar\<lparr>ar_done := True, ar_err := Some (RunFailed ErrAgentRunClosed)\<rparr>))"

definition iter_Result :: "('w, 't) agent_run \<Rightarrow> 't run_outcome" where
  "iter_Result ar =
     (case ar_err ar of
        Some out \<Rightarrow> out
      | None \<Rightarrow>
          if \<not> ar_done ar then RunFailed (ErrorString ''agent run not yet complete'')
          else (case ar_result ar of
                  None \<Rightarrow> RunFailed (ErrorString ''agent run completed without a result'')
                | Some r \<Rightarrow> RunDone r))"

definition iter_Messages :: "('w, 't) agent_run \<Rightarrow> model_message list" where
  "iter_Messages ar = (case ar_engine ar of None \<Rightarrow> [] | Some _ \<Rightarrow> rs_messages (ar_state ar))"

section \<open>Iterating to the end\<close>

text \<open>The caller's loop: ask for turns until the run is done, then for its result.\<close>

partial_function (option) iterate :: "time \<Rightarrow> ('w, 't) agent_run \<Rightarrow> 'w \<Rightarrow> (('w, 't) agent_run \<times> 'w) option" where
  "iterate now ar w =
     (if ar_done ar then Some (ar, w)
      else Option.bind (iter_Next now ar w) (\<lambda>(_, ar, w). iterate now ar w))"

lemma iterate_done: "ar_done ar \<Longrightarrow> iterate now ar w = Some (ar, w)"
  by (subst iterate.simps) simp

text \<open>A run under way, and one that has ended.\<close>

definition iterating :: "('w, 't) turn_engine \<Rightarrow> ('w, 't) agent_run \<Rightarrow> bool" where
  "iterating e ar \<longleftrightarrow> ar_engine ar = Some e \<and> \<not> ar_done ar \<and> ar_started ar \<and> \<not> ar_ended ar \<and> ar_err ar = None \<and> ar_result ar = None"

lemma iterate_steps:
  assumes st: "run_steps e s settings w = Some (out, s', w')" and "iterating e ar" and "ar_state ar = s" and "ar_settings ar = settings"
  shows "\<exists>ar'. iterate now ar w = Some (ar', w') \<and> iter_Result ar' = out \<and> ar_state ar' = endRun (en_agent e) out s'"
proof -
  let ?P = "\<lambda>e' s settings w y. e' = e \<longrightarrow> (\<forall>ar. iterating e ar \<longrightarrow> ar_state ar = s \<longrightarrow> ar_settings ar = settings \<longrightarrow>
      (\<exists>ar'. iterate now ar w = Some (ar', snd (snd y)) \<and> iter_Result ar' = fst y \<and>
        ar_state ar' = endRun (en_agent e) (fst y) (fst (snd y))))"
  have "?P e s settings w (out, s', w')"
  proof (rule run_steps.raw_induct [where P = ?P, OF _ st], goal_cases)
    case (1 rec e' s settings w y)
    note IH = 1(1) and eq = 1(2)
    show ?case
    proof (intro impI allI)
      fix ar
      assume e: "e' = e" and it: "iterating e ar" and s: "ar_state ar = s" "ar_settings ar = settings"
      note itd = it [unfolded iterating_def]
      from eq e obtain resp o1 s1 settings1 w1 where step: "Step e s settings w = Some ((resp, o1), s1, settings1, w1)"
        by (cases "Step e s settings w") auto
      have start: "iter_start now ar = ar" using itd by (simp add: iter_start_def)
      have nx: "iterate now ar w = Option.bind (iter_Next now ar w) (\<lambda>(_, ar, w). iterate now ar w)"
        using itd by (subst iterate.simps) simp
      show "\<exists>ar'. iterate now ar w = Some (ar', snd (snd y)) \<and> iter_Result ar' = fst y \<and>
          ar_state ar' = endRun (en_agent e) (fst y) (fst (snd y))"
      proof (cases o1)
        case StepContinue
        let ?ar = "ar\<lparr>ar_state := s1, ar_settings := settings1\<rparr>"
        have "rec e s1 settings1 w1 = Some y" using eq step e StepContinue by simp
        moreover have "iterate now ar w = iterate now ?ar w1"
          using nx itd s step start StepContinue by (simp add: iter_Next_def)
        moreover have "iterating e ?ar" using it by (simp add: iterating_def)
        ultimately show ?thesis using IH by simp
      next
        case (StepFailed err)
        with nx itd s step start eq e show ?thesis
          by (auto simp: iter_Next_def iter_fail_def iter_finish_def iterate_done iter_Result_def)
      next
        case (StepDeferred reqs ms u)
        with nx itd s step start eq e show ?thesis
          by (auto simp: iter_Next_def iter_fail_def iter_finish_def iterate_done iter_Result_def)
      next
        case (StepDone r)
        with nx itd s step start eq e show ?thesis
          by (auto simp: iter_Next_def iter_finish_def iterate_done iter_Result_def)
      qed
    qed
  qed
  with assms show ?thesis by simp
qed

text \<open>
  \<open>Run\<close> refuses a steering queue and publishes the resolution of deferred calls, \<open>Iter\<close> does neither;
  apart from that, the result, the final state with its events, and the world are the same.
\<close>

lemma publish_resolved_silent:
  assumes "results = [] \<or> \<not> ag_eventBus a"
  shows "publish_resolved a results s = s"
proof -
  have "fold (\<lambda>dr. emit a (DeferredResolved (dres_ToolCallID dr) (dres_ToolName dr) (dres_Content dr) (dres_IsError dr))) results s = s"
    if "\<not> ag_eventBus a" using that by (induction results) (simp_all add: emit_def)
  with assms show ?thesis by (auto simp: publish_resolved_def emit_def)
qed

lemma iterated_run:
  assumes run: "Run a runID parent now prompt cfg w = Some (out, Some s', w')"
    and nd: "cfg_deferredResults cfg = [] \<or> \<not> ag_eventBus a"
  shows "\<exists>ar w1 ar'. Iter a runID parent now prompt cfg w = (ar, w1) \<and> iterate now ar w1 = Some (ar', w') \<and>
    iter_Result ar' = out \<and> ar_state ar' = s'"
proof -
  have nq: "\<not> cfg_steerQueue cfg" using run by (auto simp: Run_def split: if_splits)
  obtain ex w1 where ex: "initializeRunExecution a runID parent now cfg w = (ex, w1)" by fastforce
  obtain g w2 where g: "applyInputGuardrails (ag_inputGuardrails a) prompt w1 = (g, w2)" by fastforce
  show ?thesis
  proof (cases g)
    case (Inl e)
    with run nq ex g show ?thesis
      by (auto simp: Run_def Iter_def Let_def iterate_done failed_run_def iter_Result_def)
  next
    case (Inr p)
    obtain err s1 w3 where bo: "bootstrapRunMessages a (ex_state ex) p (ex_deps ex) (cfg_deferredResults cfg)
        (cfg_initialRequestParts cfg) w2 = (err, s1, w3)" by (metis prod_cases3)
    show ?thesis
    proof (cases err)
      case (Some e)
      with run nq ex g Inr bo show ?thesis
        by (auto simp: Run_def Iter_def Let_def iterate_done failed_run_def iter_Result_def)
    next
      case None
      define e where "e = newTurnEngine a p (ex_limits ex) (ex_deps ex)"
      obtain s3 where rs: "run_steps e (beginRun a p s1) (ex_settings ex) w3 = Some (out, s3, w')" and s3: "s' = endRun a out s3"
        using run nq ex g Inr bo None
        by (auto simp: Run_def Let_def runLoop_def e_def publish_resolved_silent [OF nd] split: option.splits prod.splits)
      have en: "en_agent e = a" "en_prompt e = p" by (simp_all add: e_def newTurnEngine_def)
      define ar where "ar = \<lparr>ar_engine = Some e, ar_state = s1, ar_settings = ex_settings ex, ar_done = False, ar_result = None,
        ar_err = None, ar_started = False, ar_ended = False,
        ar_startTimeDeferred = (case cfg_snapshot cfg of None \<Rightarrow> True | Some snap \<Rightarrow> snap_RunStartTime snap = zero_time)\<rparr>"
      have it: "Iter a runID parent now prompt cfg w = (ar, w3)"
        using ex g Inr bo None by (simp add: Iter_def Let_def ar_def e_def)
      have st: "rs_startTime s1 = rs_startTime (initial_state a runID parent now cfg)"
        using bo None ex
        by (auto simp: bootstrapRunMessages_def injectDeferredResults_def initializeRunExecution_def Let_def split: prod.splits sum.splits if_splits)
      have t: "ar_startTimeDeferred ar \<Longrightarrow> s1\<lparr>rs_startTime := now\<rparr> = s1"
        using st by (cases s1) (auto simp: ar_def initial_state_def Let_def newRunState_def applySnapshot_def split: option.splits if_splits)
      let ?ar = "ar\<lparr>ar_state := beginRun a p s1, ar_started := True\<rparr>"
      have start: "iter_start now ar = ?ar" using t en by (auto simp: iter_start_def ar_def)
      have "iterate now ar w3 = iterate now ?ar w3"
      proof -
        have "iter_Next now ar w3 = iter_Next now ?ar w3"
        proof -
          have "iter_start now ?ar = ?ar" "ar_engine ar = Some e" "\<not> ar_done ar" by (simp_all add: iter_start_def ar_def)
          with start show ?thesis by (simp add: iter_Next_def)
        qed
        then show ?thesis by (subst (1 2) iterate.simps) (simp add: ar_def)
      qed
      with iterate_steps [OF rs, of ?ar now] it s3 en show ?thesis by (auto simp: iterating_def ar_def)
    qed
  qed
qed

end
