(* ===== verification/Core_Stream_Properties.thy ===== *)
theory Core_Stream_Properties
  imports Core_Stream_Inv Core_Stream_Equiv Core_Iter Core_Scenario
begin

text \<open>
  The properties of streaming and iterative runs, over every agent, model, stream, consumer and schedule
  of the goroutines that steer.
\<close>

section \<open>A scripted stream\<close>

text \<open>The stream of the scripted model: one event, then the end.\<close>

definition script_stream :: "response_part list list \<Rightarrow> nat \<Rightarrow> nat streamed_response" where
  "script_stream script n = \<lparr>
     sr_Next = (\<lambda>w. if w = n then (Inr (PartStartEvent 0 (hd (script ! n))), n + 1) else (Inl EOF, w)),
     sr_Response = (\<lambda>_. Some (demo_response (script ! n))), sr_Usage = (\<lambda>_. zero_usage), sr_Close = (\<lambda>w. (None, w))\<rparr>"

definition streamed_script :: "response_part list list \<Rightarrow> nat stream_func" where
  "streamed_script script ms settings params w =
     (if w < length script then (Inr (script_stream script w), w) else (Inl (ErrorString ''end of script''), w + 1))"

lemma streamed_script_like: "streams_like (streamed_script script) (scripted script)"
proof -
  have "drains (script_stream script n) n (demo_response (script ! n)) (n + 1)" for n
  proof -
    let ?sr = "script_stream script n"
    have "drains ?sr (n + 1) (demo_response (script ! n)) (snd (sr_Close ?sr (n + 1)))"
      by (rule drains_end [of _ _ EOF "n + 1"])
        (simp_all add: script_stream_def streamed_answer_def demo_response_def errors_Is_def)
    then show ?thesis
      by (intro drains_event [of ?sr n "PartStartEvent 0 (hd (script ! n))" "n + 1"]) (simp_all add: script_stream_def)
  qed
  then show ?thesis by (auto simp: streams_like_def scripted_def streamed_script_def split: if_splits)
qed

declare Next.simps [code] Result.simps [code] StreamEvents.simps [code] iterate.simps [code]

lemma demo_run_done:
  "\<exists>r s. Run (demo_agent add_then_final [add_tool] EndStrategyExhaustive) ''run'' [] 1 ''go'' demo_config 0 =
     Some (RunDone r, Some s, 2) \<and> res_Output r = ''{}'' \<and> Requests (rs_usage s) = 2"
proof -
  define x where "x = Run (demo_agent add_then_final [add_tool] EndStrategyExhaustive) ''run'' [] 1 ''go'' demo_config 0"
  have *: "case x of Some (RunDone r, Some s, w) \<Rightarrow> res_Output r = ''{}'' \<and> length (res_Messages r) = 5 \<and> w = 2 \<and> Requests (rs_usage s) = 2
    | _ \<Rightarrow> False" unfolding x_def by (rule demo_run)
  then obtain out so w where x: "x = Some (out, so, w)" by (cases x) auto
  obtain r where r: "out = RunDone r" using * x by (cases out) auto
  obtain st where "so = Some st" using * x r by (cases so) auto
  with * x r show ?thesis unfolding x_def [symmetric] by simp
qed

section \<open>Agreement with Run\<close>

text \<open>
  C5. A streamed run is the run that \<open>Run\<close> makes. When the model's stream, read to its end, has the response
  that the model's request has, a run that is streamed and read to its end has the outcome, the final
  state with history, usage, retries and published events, and the world of \<open>Run\<close>, whatever tools,
  limits, interceptors, guardrails and run conditions do. The exception is a model request that
  fails, which the two report in different words.
\<close>

theorem streamed_run_equals_Run:
  assumes "Run a runID parent now prompt cfg w = Some (out, Some s', w')"
    and "streams_like (buildStreamMiddlewareChain mws model) (buildMiddlewareChain (ag_middleware a) (ag_model a))"
    and "\<And>err. out = RunFailed err \<Longrightarrow> \<not> request_failed err"
  shows "streamed_run a model mws None runID parent now prompt cfg w = Some (out, Some s', w')"
  using assms by (rule streamed_run_is_Run)

theorem streamed_run_equals_Run_witness:
  "\<exists>r s. streamed_run (demo_agent add_then_final [add_tool] EndStrategyExhaustive) (streamed_script add_then_final) [] None
     ''run'' [] 1 ''go'' demo_config 0 = Some (RunDone r, Some s, 2) \<and> res_Output r = ''{}'' \<and> Requests (rs_usage s) = 2"
proof -
  let ?a = "demo_agent add_then_final [add_tool] EndStrategyExhaustive"
  obtain r s where run: "Run ?a ''run'' [] 1 ''go'' demo_config 0 = Some (RunDone r, Some s, 2)"
      "res_Output r = ''{}''" "Requests (rs_usage s) = 2"
    using demo_run_done by blast
  have "streams_like (buildStreamMiddlewareChain [] (streamed_script add_then_final))
      (buildMiddlewareChain (ag_middleware ?a) (ag_model ?a))"
    using streamed_script_like by (simp add: buildStreamMiddlewareChain_def buildMiddlewareChain_def)
  from streamed_run_equals_Run [OF run(1) this] run(2,3) show ?thesis by auto
qed

text \<open>
  C28. A run that is iterated turn by turn to its end is the run that \<open>Run\<close> makes: the same outcome, final
  state with its events, and world, when the run resumes no deferred calls or publishes no events. A
  run that resumes deferred calls with an event bus differs: \<open>Run\<close> announces the resumption and the results,
  iteration does not.
\<close>

theorem iterated_run_equals_Run:
  assumes "Run a runID parent now prompt cfg w = Some (out, Some s', w')"
    and "cfg_deferredResults cfg = [] \<or> \<not> ag_eventBus a"
  shows "\<exists>ar w1 ar'. Iter a runID parent now prompt cfg w = (ar, w1) \<and> iterate now ar w1 = Some (ar', w') \<and>
    iter_Result ar' = out \<and> ar_state ar' = s'"
  using assms by (rule iterated_run)

theorem iterated_run_equals_Run_witness:
  "\<exists>ar w1 ar' r. Iter (demo_agent add_then_final [add_tool] EndStrategyExhaustive) ''run'' [] 1 ''go'' demo_config 0 = (ar, w1) \<and>
     iterate 1 ar w1 = Some (ar', 2) \<and> iter_Result ar' = RunDone r \<and> res_Output r = ''{}''"
proof -
  let ?a = "demo_agent add_then_final [add_tool] EndStrategyExhaustive"
  obtain r s where run: "Run ?a ''run'' [] 1 ''go'' demo_config 0 = Some (RunDone r, Some s, 2)"
      "res_Output r = ''{}''"
    using demo_run_done by blast
  from iterated_run_equals_Run [OF run(1)] run(2) show ?thesis by (auto simp: demo_config_def)
qed

section \<open>Steering\<close>

text \<open>
  C6. Every steering instruction is settled exactly once. Whatever sequence of reads, closings and
  steering calls follows \<open>RunStream\<close>, the instructions that \<open>Enqueue\<close> accepted are those waiting in the queue (at
  most 64), those that went into a request that has not been opened yet, and those that were reported as consumed or
  rejected, each once; when the run is over the queue is closed and all of them have been reported.
\<close>

theorem steering_settled_once:
  assumes "OnConsumed hooks = Some c" and "OnRejected hooks = Some r"
    and "RunStream a model mws (Some (NewSteerQueue hooks others)) runID parent now prompt cfg w = (Inr st, s, w')"
    and "st' = fold stream_step ops st"
  shows "\<exists>q. as_steers st' = Some q \<and> length (sq_pending q) \<le> 64 \<and>
    mset (sq_accepted q) = mset (sq_pending q) + mset (as_pendingSteers st') + mset (map notice_message (sq_notices q)) \<and>
    (as_end st' \<noteq> None \<longrightarrow> sq_closed q \<and> mset (sq_accepted q) = mset (map notice_message (sq_notices q)))"
proof -
  have "settles True (Some (NewSteerQueue hooks others)) []"
    using assms(1,2) by (simp add: settles_def NewSteerQueue_def reporting_def)
  from RunStream_inv [OF this assms(3)] obtain e where "stream_inv True e st" by auto
  then have i: "stream_inv True e st'" unfolding assms(4) by (rule streams.inv_run)
  then obtain q where q: "as_steers st' = Some q" by (cases "as_steers st'") (auto simp: stream_inv_def live_def)
  with i show ?thesis
    by (auto simp: stream_inv_def live_def over_def settles_def queue_closed_def SteerQueueMaxPending_def split: if_splits)
qed

definition demo_hooks :: "nat steer_hooks" where
  "demo_hooks = \<lparr>OnPrepared = None, OnConsumed = Some (\<lambda>_ w. (None, w)), OnRejected = Some (\<lambda>_ _ w. w)\<rparr>"

definition demo_steer :: "string \<Rightarrow> steer_message" where
  "demo_steer i = \<lparr>steer_ID = i, steer_Text = ''hurry'', steer_QueuedAt = 3\<rparr>"

text \<open>One instruction arrives during the first turn and is consumed, another one just before the stream is closed.\<close>

definition demo_ops :: "nat stream_op list" where
  "demo_ops = [ReadNext 0, SteerCall (CallEnqueue (demo_steer ''m1'') 4) 1, ReadNext 1, SteerCall (CallEnqueue (demo_steer ''m2'') 5) 1,
     CloseStream 2]"

theorem steering_settled_once_witness:
  "case RunStream (demo_agent add_then_final [add_tool] EndStrategyExhaustive) (streamed_script add_then_final) []
      (Some (NewSteerQueue demo_hooks (\<lambda>w. ([], w)))) ''run'' [] 1 ''go'' demo_config 0 of
     (Inr st, s, w') \<Rightarrow> \<exists>q. as_steers (fold stream_step demo_ops st) = Some q \<and> sq_closed q \<and>
       mset (map notice_message (sq_notices q)) = {#demo_steer ''m1'', demo_steer ''m2''#}
   | _ \<Rightarrow> False"
proof -
  let ?run = "RunStream (demo_agent add_then_final [add_tool] EndStrategyExhaustive) (streamed_script add_then_final) []
      (Some (NewSteerQueue demo_hooks (\<lambda>w. ([], w)))) ''run'' [] 1 ''go'' demo_config 0"
  have e: "case ?run of (Inr st, s, w') \<Rightarrow> (let st' = fold stream_step demo_ops st in
      as_end st' \<noteq> None \<and> map_option sq_accepted (as_steers st') = Some [demo_steer ''m1'', demo_steer ''m2'']) | _ \<Rightarrow> False"
    by code_simp
  then obtain st s w' where r: "?run = (Inr st, s, w')" by (auto split: prod.splits sum.splits)
  have "\<exists>q. as_steers (fold stream_step demo_ops st) = Some q \<and> length (sq_pending q) \<le> 64 \<and>
    mset (sq_accepted q) = mset (sq_pending q) + mset (as_pendingSteers (fold stream_step demo_ops st)) + mset (map notice_message (sq_notices q)) \<and>
    (as_end (fold stream_step demo_ops st) \<noteq> None \<longrightarrow> sq_closed q \<and> mset (sq_accepted q) = mset (map notice_message (sq_notices q)))"
    by (rule steering_settled_once [OF _ _ r refl]) (simp_all add: demo_hooks_def)
  with e r show ?thesis by (auto simp: Let_def)
qed

section \<open>Turns\<close>

text \<open>
  C27. The turns of a streamed run with an event bus are balanced: with or without a steering queue and
  whatever hooks it has, whatever the consumer and the callers of the queue do, and however a turn ends, in an
  answer, an error, a rejected instruction, a broken stream, a stream without a response, or a stream that is
  closed early, the published events of turns are pairs of a start and a completion of the same turn, with at
  most one start still open at the end, and none when the run is over.
\<close>

theorem streamed_turns_paired:
  assumes "RunStream a model mws (map_option (\<lambda>(hooks, others). NewSteerQueue hooks others) steering) runID parent now prompt cfg w =
      (Inr st, s, w')" and "ag_eventBus a" and "st' = fold stream_step ops st"
  shows "if as_turnActive st' then turns_open (rs_runStep (as_state st')) (turn_events (as_state st')) \<and> as_end st' = None
    else turns_closed (turn_events (as_state st'))"
proof -
  have "settles False (map_option (\<lambda>(hooks, others). NewSteerQueue hooks others) steering) []"
    by (cases steering) (auto simp: NewSteerQueue_def)
  from RunStream_inv [OF this assms(1)] obtain e where "stream_inv False e st" "en_agent e = a" by auto
  then have "stream_inv False e st'" unfolding assms(3) by (intro streams.inv_run)
  with assms(2) \<open>en_agent e = a\<close> show ?thesis
    by (auto simp: stream_inv_def live_def over_def turn_ok_def split: if_splits)
qed

text \<open>An instruction arrives in the first turn and is consumed; the stream is closed in the middle of the second.\<close>

theorem streamed_turns_paired_witness:
  "case RunStream (demo_agent add_then_final [add_tool] EndStrategyExhaustive) (streamed_script add_then_final) []
      (Some (NewSteerQueue demo_hooks (\<lambda>w. ([], w)))) ''run'' [] 1 ''go'' demo_config 0 of
     (Inr st, s, w') \<Rightarrow> (let st' = fold stream_step demo_ops st in
       length (turn_events (as_state st')) = 4 \<and> turns_closed (turn_events (as_state st')))
   | _ \<Rightarrow> False"
proof -
  let ?a = "demo_agent add_then_final [add_tool] EndStrategyExhaustive"
  let ?run = "RunStream ?a (streamed_script add_then_final) [] (Some (NewSteerQueue demo_hooks (\<lambda>w. ([], w)))) ''run'' [] 1 ''go'' demo_config 0"
  have e: "case ?run of (Inr st, s, w') \<Rightarrow> (let st' = fold stream_step demo_ops st in
      \<not> as_turnActive st' \<and> length (turn_events (as_state st')) = 4) | _ \<Rightarrow> False"
    by code_simp
  then obtain st s w' where r: "?run = (Inr st, s, w')" by (auto split: prod.splits sum.splits)
  from streamed_turns_paired [of ?a "streamed_script add_then_final" "[]" "Some (demo_hooks, \<lambda>w. ([], w))", simplified, OF r refl, of demo_ops] e r
  show ?thesis by (auto simp: Let_def)
qed

section \<open>Failures of a stream\<close>

lemma closing_frame:
  "as_state (fst (rejectPendingSteers reason st w)) = as_state st" "as_engine (fst (rejectPendingSteers reason st w)) = as_engine st"
  "as_end (fst (rejectPendingSteers reason st w)) = as_end st"
  "as_state (fst (closeSteers reason st w)) = as_state st" "as_engine (fst (closeSteers reason st w)) = as_engine st"
  "as_end (fst (closeSteers reason st w)) = as_end st"
  "as_state (fst (drop_current st w)) = as_state st" "as_engine (fst (drop_current st w)) = as_engine st"
  "as_end (fst (drop_current st w)) = as_end st" "as_turnActive (fst (drop_current st w)) = as_turnActive st"
  "as_finalResponse (fst (drop_current st w)) = as_finalResponse st"
  by (simp_all add: rejectPendingSteers_def closeSteers_def drop_current_def Let_def split: prod.split option.split)

lemma finish_state:
  assumes "finish out st w = (st', w')" and "as_turnActive st" and "as_end st = None"
  shows "as_state st' = endRun (as_agent st) out (emitTurnCompleted (as_agent st) (as_finalResponse st) (end_error out) (as_state st))"
proof -
  have "as_state (fst (finish out st w)) = endRun (as_agent st) out (emitTurnCompleted (as_agent st) (as_finalResponse st) (end_error out) (as_state st))"
    using assms(2,3)
    by (simp add: finish_def Let_def case_prod_beta closing_frame completeActiveTurn_def emitStreamTurnCompleted_def)
  with assms(1) show ?thesis by simp
qed

lemma endRun_turn_events [simp]: "turn_events (endRun a out s) = turn_events s"
  by (simp add: endRun_def Let_def split: option.split)

text \<open>
  C37. A turn whose stream breaks is reported with the response of the turn before it: the completion
  event says that there were tool calls, or text, when the previous response had them, though this
  turn had no response at all.
\<close>

theorem broken_stream_reports_previous_response:
  assumes "as_end st = None" and "as_current st = Some sr" and "as_turnActive st" and "ag_eventBus (as_agent st)"
    and "as_finalResponse st = Some previous" and "sr_Next sr w = (Inl err, w1)" and "\<not> errors_Is err EOF"
  shows "\<exists>st' w'. Next st w = Some (NextError (RunFailed (WrapPrefix ''model stream failed'' err)), st', w') \<and>
    turn_events (as_state st') = turn_events (as_state st) @
      [TurnCompleted (rs_runStep (as_state st)) (resp_ToolCalls previous \<noteq> []) (resp_TextContent previous \<noteq> [])
        (error_text (WrapPrefix ''model stream failed'' err))]"
proof -
  let ?err = "WrapPrefix ''model stream failed'' err"
  obtain st' w' where f: "finish (RunFailed ?err) st w1 = (st', w')" by fastforce
  have "Next st w = Some (fail_stream (RunFailed ?err) st w1)"
    using assms by (subst Next.simps) (simp add: next_round_def ensure_turn_def)
  then have "Next st w = Some (NextError (RunFailed ?err), st', w')" using f by (simp add: fail_stream_def)
  moreover have "turn_events (as_state st') = turn_events (as_state st) @
      [TurnCompleted (rs_runStep (as_state st)) (resp_ToolCalls previous \<noteq> []) (resp_TextContent previous \<noteq> []) (error_text ?err)]"
    unfolding finish_state [OF f assms(3,1)] using assms(4,5)
    by (simp only: endRun_turn_events emitTurnCompleted_def turn_events_frame end_error_def run_outcome.case option.case
        is_turn_simps HOL.simp_thms if_True)
  ultimately show ?thesis by blast
qed

text \<open>The first turn calls a tool; the connection of the second one is reset after an event.\<close>

definition broken_script :: "nat stream_func" where
  "broken_script ms settings params w =
     (Inr (if w = 0 then script_stream add_then_final 0
           else (script_stream add_then_final 1)\<lparr>sr_Next := (\<lambda>w. if w = 1 then (Inr (PartEndEvent 0), 2) else (Inl (ErrorString ''reset''), w))\<rparr>), w)"

theorem broken_stream_reports_previous_response_witness:
  "case RunStream (demo_agent add_then_final [add_tool] EndStrategyExhaustive) broken_script [] None ''run'' [] 1 ''go'' demo_config 0 of
     (Inr st, s, w') \<Rightarrow> \<exists>st' w'. Next (fold stream_step [ReadNext 0, ReadNext 1] st) 2 =
         Some (NextError (RunFailed (WrapPrefix ''model stream failed'' (ErrorString ''reset''))), st', w') \<and>
       last (turn_events (as_state st')) = TurnCompleted 2 True False ''model stream failed: reset''
   | _ \<Rightarrow> False"
proof -
  let ?run = "RunStream (demo_agent add_then_final [add_tool] EndStrategyExhaustive) broken_script [] None ''run'' [] 1 ''go'' demo_config 0"
  let ?resp = "demo_response [ToolCallPart (demo_call ''add'' ''c1'')]"
  have e: "case ?run of (Inr st, s, w') \<Rightarrow> (let st1 = fold stream_step [ReadNext 0, ReadNext 1] st in
      Option.is_none (as_end st1) \<and> as_turnActive st1 \<and> ag_eventBus (as_agent st1) \<and> as_finalResponse st1 = Some ?resp \<and>
      rs_runStep (as_state st1) = 2 \<and> map_option (\<lambda>sr. sr_Next sr 2) (as_current st1) = Some (Inl (ErrorString ''reset''), 2)) | _ \<Rightarrow> False"
    by code_simp
  then obtain st s w' where r: "?run = (Inr st, s, w')" by (auto split: prod.splits sum.splits)
  define st1 where "st1 = fold stream_step [ReadNext 0, ReadNext 1] st"
  from e r have h: "as_end st1 = None" "as_turnActive st1" "ag_eventBus (as_agent st1)" "as_finalResponse st1 = Some ?resp"
      "rs_runStep (as_state st1) = 2" and c: "map_option (\<lambda>sr. sr_Next sr 2) (as_current st1) = Some (Inl (ErrorString ''reset''), 2)"
    by (simp_all only: r prod.case sum.case Let_def st1_def Option.is_none_def)
  from c obtain sr where sr: "as_current st1 = Some sr" "sr_Next sr 2 = (Inl (ErrorString ''reset''), 2)" by auto
  from broken_stream_reports_previous_response [OF h(1) sr(1) h(2,3,4) sr(2)] h(5)
  have "\<exists>st' w'. Next st1 2 = Some (NextError (RunFailed (WrapPrefix ''model stream failed'' (ErrorString ''reset''))), st', w') \<and>
      last (turn_events (as_state st')) = TurnCompleted 2 True False ''model stream failed: reset''"
    by (auto simp: errors_Is_def demo_response_def resp_ToolCalls_def resp_TextContent_def)
  then show ?thesis by (simp only: r prod.case sum.case st1_def)
qed

text \<open>
  C38. An error that wraps the end of a connection is hidden from who reads the events: when the request of
  the turn that follows fails with such an error, \<^verbatim>\<open>StreamEvents\<close> ends without yielding an error, as after a run that
  completed, though the run has failed.
\<close>

theorem wrapped_eof_hidden:
  assumes "as_end st = None" and "next_round st w = Inr (st1, w1)" and "as_end st1 = None" and "as_current st1 = None"
    and "startTurn st1 w1 = (Some (WrapPrefix ''model stream request failed'' err), st2, w2)" and "errors_Is err EOF"
  shows "\<exists>st' w'. StreamEvents st w = Some ([], None, st', w') \<and>
    as_end st' = Some (RunFailed (WrapPrefix ''model stream request failed'' err))"
proof -
  let ?err = "WrapPrefix ''model stream request failed'' err"
  obtain st' w' where f: "finish (RunFailed ?err) st2 w2 = (st', w')" by fastforce
  have "Next st w = Next st1 w1" using assms(1,2) by (subst Next.simps) simp
  also have "\<dots> = Some (NextError (RunFailed ?err), st', w')"
    using assms(3-5) f by (subst Next.simps) (simp add: next_round_def ensure_turn_def fail_stream_def)
  finally have "Next st w = Some (NextError (RunFailed ?err), st', w')" .
  moreover have "errors_Is ?err EOF" using assms(6) by (simp add: errors_Is_def)
  ultimately have "StreamEvents st w = Some ([], None, st', w')" by (subst StreamEvents.simps) simp
  with finish_end [OF f] show ?thesis by blast
qed

text \<open>The first turn calls a tool; the request of the second one is cut off.\<close>

abbreviation post_eof :: go_error where
  "post_eof \<equiv> WrapPrefix ''Post'' EOF"

definition cut_script :: "nat stream_func" where
  "cut_script ms settings params w = (if w = 0 then Inr (script_stream add_then_final 0) else Inl post_eof, w)"

theorem wrapped_eof_hidden_witness:
  "case RunStream (demo_agent add_then_final [add_tool] EndStrategyExhaustive) cut_script [] None ''run'' [] 1 ''go'' demo_config 0 of
     (Inr st, s, w') \<Rightarrow> \<exists>st' w'. StreamEvents (stream_step (ReadNext 0) st) 1 = Some ([], None, st', w') \<and>
       as_end st' = Some (RunFailed (WrapPrefix ''model stream request failed'' post_eof))
   | _ \<Rightarrow> False"
proof -
  let ?run = "RunStream (demo_agent add_then_final [add_tool] EndStrategyExhaustive) cut_script [] None ''run'' [] 1 ''go'' demo_config 0"
  have e: "case ?run of (Inr st, s, w') \<Rightarrow> Option.is_none (as_end (stream_step (ReadNext 0) st)) \<and>
        (case next_round (stream_step (ReadNext 0) st) 1 of
           Inr (st1, w1) \<Rightarrow> Option.is_none (as_end st1) \<and> Option.is_none (as_current st1) \<and>
             fst (startTurn st1 w1) = Some (WrapPrefix ''model stream request failed'' post_eof)
         | _ \<Rightarrow> False)
      | _ \<Rightarrow> False"
    by code_simp
  then obtain st s w' where r: "?run = (Inr st, s, w')" by (auto split: prod.splits sum.splits)
  define sa where "sa = stream_step (ReadNext 0) st"
  from e have h: "as_end sa = None" and n: "case next_round sa 1 of
      Inr (st1, w1) \<Rightarrow> as_end st1 = None \<and> as_current st1 = None \<and>
        fst (startTurn st1 w1) = Some (WrapPrefix ''model stream request failed'' post_eof) | _ \<Rightarrow> False"
    by (simp_all only: r prod.case sum.case Option.is_none_def sa_def)
  from n obtain st1 w1 where n1: "next_round sa 1 = Inr (st1, w1)" by (auto split: sum.splits)
  from n have n2: "as_end st1 = None" "as_current st1 = None" by (simp_all only: n1 sum.case prod.case)
  obtain st2 w2 where t: "startTurn st1 w1 = (Some (WrapPrefix ''model stream request failed'' post_eof), st2, w2)"
    using n n1 by (cases "startTurn st1 w1") auto
  have "\<exists>st' w'. StreamEvents sa 1 = Some ([], None, st', w') \<and>
      as_end st' = Some (RunFailed (WrapPrefix ''model stream request failed'' post_eof))"
    by (rule wrapped_eof_hidden [OF h n1 n2 t]) (simp add: errors_Is_def)
  then show ?thesis by (simp only: r prod.case sum.case sa_def)
qed

end
