(* ===== verification/App_Types.thy ===== *)
theory App_Types
  imports Core_Serialize
begin

text \<open>
  The data of the application server's store, \<^verbatim>\<open>appserver/store/types.go\<close>: threads of conversation, their
  turns and items, the evidence for reverting file changes, and the records of terminals; and the
  helpers of \<^verbatim>\<open>appserver/store/sqlite.go\<close> that do not touch the database. An enumeration of strings has a
  constructor for a text outside the declared constants, which the code only compares. A \<^verbatim>\<open>json.RawMessage\<close> is no bytes, an invalid
  document, or a document (\<^verbatim>\<open>Hist_Codec\<close>).
\<close>

section \<open>Statuses and errors\<close>

datatype thread_status = ThreadActive | ThreadArchived | ThreadDeleted | ThreadStatusOther string

text \<open>A turn can be completed with any status, so that the status of a turn is a string.\<close>

type_synonym turn_status = string

abbreviation TurnQueued :: turn_status where "TurnQueued \<equiv> ''queued''"
abbreviation TurnRunning :: turn_status where "TurnRunning \<equiv> ''running''"
abbreviation TurnCompletedStatus :: turn_status where "TurnCompletedStatus \<equiv> ''completed''"
abbreviation TurnFailed :: turn_status where "TurnFailed \<equiv> ''failed''"
abbreviation TurnInterrupted :: turn_status where "TurnInterrupted \<equiv> ''interrupted''"

datatype recovery_status =
    FileChangeRecoveryAvailable | FileChangeRecoveryPending | FileChangeRecoveryReverted | FileChangeRecoveryOther string

datatype terminal_status =
    TerminalOwnershipRunning | TerminalOwnershipCompleted | TerminalOwnershipFailed | TerminalOwnershipKilled
  | TerminalOwnershipTimedOut | TerminalOwnershipOwnerLost | TerminalOwnershipOther string

definition app_error :: "string \<Rightarrow> go_error" where
  "app_error m = ErrorString (''appserver/store: '' @ m)"

definition ErrThreadNotFound :: go_error where "ErrThreadNotFound = app_error ''thread not found''"
definition ErrTurnNotFound :: go_error where "ErrTurnNotFound = app_error ''turn not found''"
definition ErrItemNotFound :: go_error where "ErrItemNotFound = app_error ''item not found''"
definition ErrFileChangeRecoveryNotFound :: go_error where
  "ErrFileChangeRecoveryNotFound = app_error ''file-change recovery not found''"
definition ErrThreadDeleted :: go_error where "ErrThreadDeleted = app_error ''thread is deleted''"
definition ErrThreadArchived :: go_error where "ErrThreadArchived = app_error ''thread is archived''"
definition ErrStoreClosed :: go_error where "ErrStoreClosed = app_error ''store is closed''"
definition ErrTurnNotTerminal :: go_error where "ErrTurnNotTerminal = app_error ''turn is not terminal''"
definition ErrRetryIdempotencyConflict :: go_error where
  "ErrRetryIdempotencyConflict = app_error ''retry idempotency key is already bound to another turn''"
definition ErrThreadHasActiveTurn :: go_error where "ErrThreadHasActiveTurn = app_error ''thread has an active turn''"
definition ErrThreadForkIdempotencyConflict :: go_error where
  "ErrThreadForkIdempotencyConflict = app_error ''fork idempotency key is already bound''"
definition ErrFileChangeRevertIdempotencyConflict :: go_error where
  "ErrFileChangeRevertIdempotencyConflict = app_error ''file-change revert idempotency key is already bound''"

definition RuntimeOwnerLostReason :: string where
  "RuntimeOwnerLostReason = ''appserver/runtime: execution owner exited before terminal state''"

section \<open>Threads, turns, items\<close>

record app_thread =
  th_ID :: string
  th_Title :: string
  th_Workspace :: string
  th_Status :: thread_status
  th_ForkedFromThreadID :: string
  th_Settings :: metadata
  th_Metadata :: metadata
  th_CreatedAt :: time
  th_UpdatedAt :: time
  th_ArchivedAt :: time
  th_DeletedAt :: time

record app_turn =
  tu_ID :: string
  tu_ThreadID :: string
  tu_Status :: turn_status
  tu_Input :: raw_message
  tu_Result :: raw_message
  tu_Error :: string
  tu_Usage :: metadata
  tu_Metadata :: metadata
  tu_CreatedAt :: time
  tu_UpdatedAt :: time
  tu_StartedAt :: time
  tu_CompletedAt :: time
  tu_RetryOfTurnID :: string
  tu_RetryIdempotencyKey :: string

record app_item =
  it_ID :: string
  it_ThreadID :: string
  it_TurnID :: string
  it_ParentItemID :: string
  it_Seq :: int
  it_Kind :: string
  it_Status :: string
  it_Payload :: raw_message
  it_CreatedAt :: time
  it_UpdatedAt :: time

record file_change_recovery =
  fr_ItemID :: string
  fr_ThreadID :: string
  fr_TurnID :: string
  fr_Path :: string
  fr_BeforeExists :: bool
  fr_AfterExists :: bool
  fr_BeforeSHA256 :: string
  fr_AfterSHA256 :: string
  fr_BeforeMode :: int
  fr_AfterMode :: int
  fr_BeforeContent :: string
  fr_Status :: recovery_status
  fr_IdempotencyKey :: string
  fr_MarkerID :: string
  fr_CreatedAt :: time
  fr_UpdatedAt :: time
  fr_RevertedAt :: time

record terminal_record =
  te_ID :: string
  te_WorkspaceKey :: string
  te_ProcessID :: string
  te_Title :: string
  te_Command :: string
  te_WorkDir :: string
  te_Status :: terminal_status
  te_ExitCode :: "int option"
  te_StartedAt :: time
  te_EndedAt :: "time option"
  te_OwnerLostAt :: "time option"
  te_ArgumentCount :: int
  te_CommandRedacted :: bool
  te_MetadataTruncated :: bool
  te_PTY :: bool
  te_PTYRows :: int
  te_PTYCols :: int
  te_UpdatedAt :: time

section \<open>Requests\<close>

record create_thread_request =
  ctr_Title :: string
  ctr_Workspace :: string
  ctr_Settings :: metadata
  ctr_Metadata :: metadata

record thread_filter =
  hf_Statuses :: "thread_status list"
  hf_IncludeDeleted :: bool
  hf_Limit :: int

record fork_thread_request =
  ftr_SourceThreadID :: string
  ftr_Title :: string
  ftr_Metadata :: metadata
  ftr_IncludeItems :: bool

record update_settings_request =
  usr_ID :: string
  usr_Settings :: metadata
  usr_Metadata :: metadata
  usr_Replace :: bool

record create_turn_request =
  cur_ThreadID :: string
  cur_Input :: raw_message
  cur_Metadata :: metadata

record complete_turn_request =
  cor_ID :: string
  cor_Status :: turn_status
  cor_Result :: raw_message
  cor_Error :: string
  cor_Usage :: metadata

record turn_filter =
  uf_ThreadID :: string
  uf_Statuses :: "turn_status list"
  uf_Limit :: int

record turn_retry_request =
  trr_SourceTurnID :: string
  trr_IdempotencyKey :: string
  trr_Input :: raw_message
  trr_Metadata :: metadata

record turn_retry_result =
  trs_Source :: app_turn
  trs_Turn :: app_turn
  trs_Created :: bool

record recover_turns_result =
  rtr_Turns :: "app_turn list"
  rtr_Items :: "app_item list"
  rtr_Markers :: "app_item list"

record rollback_result =
  rbr_Thread :: app_thread
  rbr_Turns :: "app_turn list"
  rbr_RemovedTurns :: "app_turn list"
  rbr_Marker :: app_item

record append_item_request =
  air_ThreadID :: string
  air_TurnID :: string
  air_ParentItemID :: string
  air_Kind :: string
  air_Status :: string
  air_Payload :: raw_message

record item_filter =
  if_ThreadID :: string
  if_TurnID :: string
  if_AfterSeq :: int
  if_Limit :: int

record revert_result =
  rvr_Recovery :: file_change_recovery
  rvr_Marker :: "app_item option"
  rvr_Reused :: bool

section \<open>Helpers\<close>

definition terminalTurnStatus :: "turn_status \<Rightarrow> bool" where
  "terminalTurnStatus s \<longleftrightarrow> s \<in> {TurnCompletedStatus, TurnFailed, TurnInterrupted}"

definition orphanedItemStatus :: "string \<Rightarrow> bool" where
  "orphanedItemStatus s \<longleftrightarrow> s \<in> {''inProgress'', ''in_progress'', ''pending'', ''queued'', ''running'', ''started''}"

definition matchesThreadFilter :: "app_thread \<Rightarrow> thread_filter \<Rightarrow> bool" where
  "matchesThreadFilter t f \<longleftrightarrow> (th_Status t = ThreadDeleted \<longrightarrow> hf_IncludeDeleted f) \<and>
     (hf_Statuses f = [] \<or> th_Status t \<in> set (hf_Statuses f))"

definition matchesTurnFilter :: "app_turn \<Rightarrow> turn_filter \<Rightarrow> bool" where
  "matchesTurnFilter t f \<longleftrightarrow> (uf_ThreadID f = [] \<or> tu_ThreadID t = uf_ThreadID f) \<and>
     (uf_Statuses f = [] \<or> tu_Status t \<in> set (uf_Statuses f))"

definition matchesItemFilter :: "app_item \<Rightarrow> item_filter \<Rightarrow> bool" where
  "matchesItemFilter i f \<longleftrightarrow> (if_ThreadID f = [] \<or> it_ThreadID i = if_ThreadID f) \<and>
     (if_TurnID f = [] \<or> it_TurnID i = if_TurnID f)"

definition limit_to :: "int \<Rightarrow> 'a list \<Rightarrow> 'a list" where
  "limit_to n xs = (if n > 0 then take (nat n) xs else xs)"

definition mergeMaps :: "metadata \<Rightarrow> metadata \<Rightarrow> metadata" where
  "mergeMaps base override = base ++\<^sub>f override"

definition turnIDs :: "app_turn list \<Rightarrow> string list" where
  "turnIDs ts = filter (\<lambda>k. k \<noteq> []) (map tu_ID ts)"

definition app_formatTime :: "time \<Rightarrow> string" where
  "app_formatTime t = (if t = zero_time then [] else RFC3339Nano t)"

text \<open>\<^verbatim>\<open>cloneRaw\<close> of a document that is valid or not; values of maps after a round trip through JSON.\<close>

definition stored_map :: "metadata \<Rightarrow> metadata" where
  "stored_map m = fmmap (\<lambda>v. json_any (any_json v)) m"

definition marshal_raw_error :: go_error where
  "marshal_raw_error = ErrorString ''json: error calling MarshalJSON for type json.RawMessage''"

section \<open>Payloads\<close>

text \<open>
  A document read into a Go string, into a map of raw documents (which keeps the last of several equal
  keys, and is nil for \<^verbatim>\<open>null\<close>), and into a map of values of type \<^verbatim>\<open>any\<close>.
\<close>

fun json_text :: "json \<Rightarrow> string option" where
  "json_text JNull = Some []"
| "json_text (JStr s) = Some s"
| "json_text (JTime t) = Some (RFC3339Nano t)"
| "json_text _ = None"

fun raw_fields :: "json \<Rightarrow> (string \<times> json) list option" where
  "raw_fields JNull = Some []"
| "raw_fields (JObj fs) = Some (fold (\<lambda>(k, v). put k v) fs [])"
| "raw_fields _ = None"

definition text_field :: "string \<Rightarrow> (string \<times> json) list \<Rightarrow> string option" where
  "text_field k fs = Option.bind (map_of fs k) json_text"

definition remapForkedItemPayloadID :: "raw_message \<Rightarrow> string \<Rightarrow> string \<Rightarrow> raw_message" where
  "remapForkedItemPayloadID raw oldID newID =
     (case raw of
        RawJSON v \<Rightarrow>
          if oldID = [] \<or> newID = [] then raw
          else (case raw_fields v of
                  None \<Rightarrow> raw
                | Some fs \<Rightarrow> if text_field ''id'' fs = Some oldID then RawJSON (JObj (put ''id'' (JStr newID) fs)) else raw)
      | _ \<Rightarrow> raw)"

definition remapForkedFileChangeReceiptTarget :: "raw_message \<Rightarrow> (string \<Rightarrow> string) \<Rightarrow> raw_message" where
  "remapForkedFileChangeReceiptTarget raw itemMap =
     (case raw of
        RawJSON v \<Rightarrow>
          (case raw_fields v of
             None \<Rightarrow> raw
           | Some fs \<Rightarrow>
               (case text_field ''itemId'' fs of
                  None \<Rightarrow> raw
                | Some source \<Rightarrow>
                    if itemMap source = [] then raw else RawJSON (JObj (put ''itemId'' (JStr (itemMap source)) fs))))
      | _ \<Rightarrow> raw)"

text \<open>
  \<^verbatim>\<open>evidence\<close> read as a list of maps: \<open>Some None\<close> stands for the nil map of a \<^verbatim>\<open>null\<close> entry, and writing to
  it is a panic. Otherwise the entries are written to one by one.
\<close>

fun evidence_entry :: "json \<Rightarrow> (string \<times> json) list option option" where
  "evidence_entry JNull = Some None"
| "evidence_entry (JObj fs) = Some (raw_fields (JObj fs))"
| "evidence_entry _ = None"

fun evidence_entries :: "json \<Rightarrow> (string \<times> json) list option list option" where
  "evidence_entries JNull = Some []"
| "evidence_entries (JArr vs) = those (map evidence_entry vs)"
| "evidence_entries _ = None"

definition disable_entry :: "(string \<times> json) list \<Rightarrow> json" where
  "disable_entry fs = JObj (put ''revertUnavailableReason'' (JStr ''file-change recovery does not transfer to forked threads'')
     (put ''revertSnapshotAvailable'' (JBool False) fs))"

text \<open>\<open>None\<close> is a panic.\<close>

definition disableForkedFileChangeRevert :: "raw_message \<Rightarrow> raw_message option" where
  "disableForkedFileChangeRevert raw =
     (case raw of
        RawJSON v \<Rightarrow>
          (case raw_fields v of
             None \<Rightarrow> Some raw
           | Some fs \<Rightarrow>
               if text_field ''type'' fs \<noteq> Some ''fileChange'' then Some raw
               else (case Option.bind (map_of fs ''evidence'') evidence_entries of
                       None \<Rightarrow> Some raw
                     | Some es \<Rightarrow>
                         if None \<in> set es then None
                         else Some (RawJSON (JObj (put ''evidence''
                           (if map_of fs ''evidence'' = Some JNull then JNull else JArr (map (\<lambda>e. disable_entry (the e)) es)) fs)))))
      | _ \<Rightarrow> Some raw)"

definition recoveredItemPayload :: "raw_message \<Rightarrow> raw_message" where
  "recoveredItemPayload raw =
     (case raw of
        RawJSON (JObj fs) \<Rightarrow>
          (case json_any (JObj fs) of
             AnyMap kvs \<Rightarrow>
               (let kvs = (case map_of kvs ''status'' of
                             Some (AnyString s) \<Rightarrow> if orphanedItemStatus s then put ''status'' (AnyString ''failed'') kvs else kvs
                           | _ \<Rightarrow> kvs)
                in RawJSON (any_json (AnyMap kvs)))
           | _ \<Rightarrow> raw)
      | _ \<Rightarrow> raw)"

end
