(* ===== verification/App_Store.thy ===== *)
theory App_Store
  imports App_Types
begin

text \<open>
  The application server's store, \<^verbatim>\<open>appserver/store/sqlite.go\<close>: its tables, transactions, and the operations
  on threads, turns and items. A row keeps the columns that queries read and the value that its payload
  encodes, which is what is read back when its strings are valid UTF-8. The mutex makes each operation atomic. A transaction that returns an error is rolled back;
  one that panics is committed as far as it got, since the deferred function of \<^verbatim>\<open>withTx\<close> finds no error,
  and the panic goes on to the caller. Failures of the database itself are not modelled. A store that has been
  closed is \<open>None\<close>.
\<close>

section \<open>Tables\<close>

record thread_row =
  hr_updated_at :: string
  hr_payload :: app_thread

record turn_row =
  ur_thread_id :: string
  ur_status :: string
  ur_created_at :: string
  ur_payload :: app_turn

record item_row =
  ir_seq :: int
  ir_id :: string
  ir_thread_id :: string
  ir_turn_id :: string
  ir_payload :: app_item

record recovery_row =
  cr_thread_id :: string
  cr_status :: recovery_status
  cr_payload :: file_change_recovery

record terminal_row =
  er_workspace_key :: string
  er_process_id :: string
  er_status :: terminal_status
  er_started_at :: string
  er_payload :: terminal_record

text \<open>
  \<^verbatim>\<open>app_items\<close> has an integer primary key, so its rows are kept in the order of \<open>ir_seq\<close>; the keyword
  \<^verbatim>\<open>AUTOINCREMENT\<close> makes a new key greater than all keys there ever were. \<^verbatim>\<open>app_thread_forks\<close> maps a key to the
  source and the fork.
\<close>

record app_db =
  db_threads :: "(string, thread_row) go_map"
  db_turns :: "(string, turn_row) go_map"
  db_items :: "item_row list"
  db_item_seq :: int
  db_forks :: "(string, string \<times> string) go_map"
  db_recoveries :: "(string, recovery_row) go_map"
  db_terminals :: "(string, terminal_row) go_map"

definition NewSQLiteStore :: "app_db option" where
  "NewSQLiteStore = Some \<lparr>db_threads = fmempty, db_turns = fmempty, db_items = [], db_item_seq = 0, db_forks = fmempty,
     db_recoveries = fmempty, db_terminals = fmempty\<rparr>"

text \<open>
  What an operation meets outside: its reading of the clock, the UUIDs (a sequence per prefix), and how
  many keys of the item table are skipped.
\<close>

record app_env =
  ae_now :: time
  ae_uuid :: "string \<Rightarrow> nat \<Rightarrow> string"
  ae_gap :: nat

definition app_newID :: "app_env \<Rightarrow> string \<Rightarrow> nat \<Rightarrow> string" where
  "app_newID env prefix n = prefix @ ''_'' @ ae_uuid env prefix n"

section \<open>Transactions\<close>

datatype 'a tx_result = TxError go_error | TxPanic app_db | TxDone 'a app_db

datatype 'a outcome = Failed go_error | Panicked | Returned 'a

definition app_withTx :: "(app_db \<Rightarrow> 'a tx_result) \<Rightarrow> app_db option \<Rightarrow> 'a outcome \<times> app_db option" where
  "app_withTx fn s =
     (case s of
        None \<Rightarrow> (Failed ErrStoreClosed, None)
      | Some db \<Rightarrow>
          (case fn db of
             TxError e \<Rightarrow> (Failed e, Some db)
           | TxPanic db' \<Rightarrow> (Panicked, Some db')
           | TxDone r db' \<Rightarrow> (Returned r, Some db')))"

definition app_query :: "(app_db \<Rightarrow> 'a result) \<Rightarrow> app_db option \<Rightarrow> 'a outcome" where
  "app_query fn s =
     (case s of
        None \<Rightarrow> Failed ErrStoreClosed
      | Some db \<Rightarrow> (case fn db of Inl e \<Rightarrow> Failed e | Inr r \<Rightarrow> Returned r))"

text \<open>The next statement of a body runs when the one before returned no error.\<close>

definition tx_bind :: "'a result \<Rightarrow> ('a \<Rightarrow> 'b tx_result) \<Rightarrow> 'b tx_result" where
  "tx_bind r k = (case r of Inl e \<Rightarrow> TxError e | Inr x \<Rightarrow> k x)"

definition app_Close :: "app_db option \<Rightarrow> app_db option" where
  "app_Close s = None"

section \<open>Loading and saving rows\<close>

definition loadThreadTx :: "app_db \<Rightarrow> string \<Rightarrow> app_thread result" where
  "loadThreadTx db k = (case fmlookup (db_threads db) k of None \<Rightarrow> Inl ErrThreadNotFound | Some r \<Rightarrow> Inr (hr_payload r))"

definition loadTurnTx :: "app_db \<Rightarrow> string \<Rightarrow> app_turn result" where
  "loadTurnTx db k = (case fmlookup (db_turns db) k of None \<Rightarrow> Inl ErrTurnNotFound | Some r \<Rightarrow> Inr (ur_payload r))"

definition loadItemTx :: "app_db \<Rightarrow> string \<Rightarrow> app_item result" where
  "loadItemTx db k = (case List.find (\<lambda>r. ir_id r = k) (db_items db) of None \<Rightarrow> Inl ErrItemNotFound | Some r \<Rightarrow> Inr (ir_payload r))"

definition loadFileChangeRecoveryTx :: "app_db \<Rightarrow> string \<Rightarrow> file_change_recovery result" where
  "loadFileChangeRecoveryTx db k =
     (case fmlookup (db_recoveries db) k of None \<Rightarrow> Inl ErrFileChangeRecoveryNotFound | Some r \<Rightarrow> Inr (cr_payload r))"

text \<open>The payload leaves \<^verbatim>\<open>ProcessID\<close> out; it comes from its column.\<close>

definition scanTerminalOwnership :: "terminal_row \<Rightarrow> terminal_record" where
  "scanTerminalOwnership r = (er_payload r)\<lparr>te_ProcessID := er_process_id r\<rparr>"

definition saveThreadTx :: "app_thread \<Rightarrow> app_db \<Rightarrow> app_db" where
  "saveThreadTx t db = db\<lparr>db_threads := fmupd (th_ID t)
     \<lparr>hr_updated_at = app_formatTime (th_UpdatedAt t),
      hr_payload = t\<lparr>th_Settings := stored_map (th_Settings t), th_Metadata := stored_map (th_Metadata t)\<rparr>\<rparr>
     (db_threads db)\<rparr>"

definition stored_turn :: "app_turn \<Rightarrow> app_turn" where
  "stored_turn t = t\<lparr>tu_Usage := stored_map (tu_Usage t), tu_Metadata := stored_map (tu_Metadata t)\<rparr>"

text \<open>The column \<^verbatim>\<open>created_at\<close> of a row that exists is left alone.\<close>

definition turn_row_of :: "app_db \<Rightarrow> app_turn \<Rightarrow> turn_row" where
  "turn_row_of db t = \<lparr>ur_thread_id = tu_ThreadID t, ur_status = tu_Status t,
     ur_created_at = (case fmlookup (db_turns db) (tu_ID t) of None \<Rightarrow> app_formatTime (tu_CreatedAt t) | Some r \<Rightarrow> ur_created_at r),
     ur_payload = stored_turn t\<rparr>"

definition saveTurnTx :: "app_turn \<Rightarrow> app_db \<Rightarrow> app_db result" where
  "saveTurnTx t db =
     (if tu_Input t = RawInvalid \<or> tu_Result t = RawInvalid then Inl (WrapPrefix ''marshal turn'' marshal_raw_error)
      else Inr (db\<lparr>db_turns := fmupd (tu_ID t) (turn_row_of db t) (db_turns db)\<rparr>))"

definition item_row_of :: "int \<Rightarrow> app_item \<Rightarrow> item_row" where
  "item_row_of seq i = \<lparr>ir_seq = seq, ir_id = it_ID i, ir_thread_id = it_ThreadID i, ir_turn_id = it_TurnID i, ir_payload = i\<rparr>"

text \<open>
  A new row gets the next key, which the payload then has too. An item that is saved again has its key
  in its payload; the last insertion is that of the greatest key.
\<close>

definition saveItemTx :: "app_env \<Rightarrow> app_item \<Rightarrow> app_db \<Rightarrow> (app_item \<times> app_db) result" where
  "saveItemTx env i db =
     (if it_Payload i = RawInvalid then Inl (WrapPrefix ''marshal item'' marshal_raw_error)
      else
        (let known = (\<exists>r \<in> set (db_items db). ir_id r = it_ID i);
             last = (if known then db_item_seq db else db_item_seq db + 1 + int (ae_gap env));
             i = (if it_Seq i = 0 then i\<lparr>it_Seq := last\<rparr> else i)
         in Inr (i, db\<lparr>db_items := (if known then map (\<lambda>r. if ir_id r = it_ID i then item_row_of (ir_seq r) i else r) (db_items db)
                                  else db_items db @ [item_row_of last i]),
                       db_item_seq := last\<rparr>)))"

definition saveFileChangeRecoveryTx :: "file_change_recovery \<Rightarrow> app_db \<Rightarrow> app_db" where
  "saveFileChangeRecoveryTx r db = db\<lparr>db_recoveries := fmupd (fr_ItemID r)
     \<lparr>cr_thread_id = fr_ThreadID r, cr_status = fr_Status r, cr_payload = r\<rparr> (db_recoveries db)\<rparr>"

definition saveTerminalOwnershipTx :: "terminal_record \<Rightarrow> app_db \<Rightarrow> app_db" where
  "saveTerminalOwnershipTx t db = db\<lparr>db_terminals := fmupd (te_ID t)
     \<lparr>er_workspace_key = te_WorkspaceKey t, er_process_id = te_ProcessID t, er_status = te_Status t,
      er_started_at = app_formatTime (te_StartedAt t), er_payload = t\<lparr>te_ProcessID := []\<rparr>\<rparr> (db_terminals db)\<rparr>"

section \<open>Queries\<close>

text \<open>\<^verbatim>\<open>ORDER BY col DESC, id ASC\<close>.\<close>

definition order_desc :: "('v \<Rightarrow> string) \<Rightarrow> (string, 'v) go_map \<Rightarrow> string list" where
  "order_desc col m = rev (sort_key (\<lambda>k. case fmlookup m k of None \<Rightarrow> [] | Some r \<Rightarrow> col r) (rev (map_keys m)))"

definition loadAllTurnsTx :: "app_db \<Rightarrow> app_turn list" where
  "loadAllTurnsTx db = List.map_filter (\<lambda>k. map_option ur_payload (fmlookup (db_turns db) k)) (order_by ur_created_at (db_turns db))"

definition thread_turn_rows :: "app_db \<Rightarrow> string \<Rightarrow> (string, turn_row) go_map" where
  "thread_turn_rows db threadID = fmfilter (\<lambda>k. \<exists>r. fmlookup (db_turns db) k = Some r \<and> ur_thread_id r = threadID) (db_turns db)"

definition loadTurnsForThreadTx :: "app_db \<Rightarrow> string \<Rightarrow> app_turn list" where
  "loadTurnsForThreadTx db threadID =
     (let m = thread_turn_rows db threadID in List.map_filter (\<lambda>k. map_option ur_payload (fmlookup m k)) (order_by ur_created_at m))"

definition loadLastTurnsTx :: "app_db \<Rightarrow> string \<Rightarrow> int \<Rightarrow> app_turn list" where
  "loadLastTurnsTx db threadID limit = take (nat limit) (rev (loadTurnsForThreadTx db threadID))"

definition loadTurnsByStatusesTx :: "app_db \<Rightarrow> turn_status list \<Rightarrow> app_turn list" where
  "loadTurnsByStatusesTx db statuses = filter (\<lambda>t. tu_Status t \<in> set statuses) (loadAllTurnsTx db)"

definition loadItemsForTurnTx :: "app_db \<Rightarrow> string \<Rightarrow> app_item list" where
  "loadItemsForTurnTx db turnID = map ir_payload (filter (\<lambda>r. ir_turn_id r = turnID) (db_items db))"

definition thread_items :: "app_db \<Rightarrow> string \<Rightarrow> app_item list" where
  "thread_items db threadID = map ir_payload (filter (\<lambda>r. ir_thread_id r = threadID) (db_items db))"

definition ensureThreadHasNoActiveTurnTx :: "app_db \<Rightarrow> string \<Rightarrow> unit result" where
  "ensureThreadHasNoActiveTurnTx db threadID =
     (if \<exists>k \<in> fmdom' (db_turns db). \<exists>r. fmlookup (db_turns db) k = Some r \<and> ur_thread_id r = threadID \<and>
           ur_status r \<in> {TurnQueued, TurnRunning}
      then Inl ErrThreadHasActiveTurn else Inr ())"

section \<open>Threads\<close>

definition CreateThread_tx :: "app_env \<Rightarrow> create_thread_request \<Rightarrow> app_db \<Rightarrow> app_thread tx_result" where
  "CreateThread_tx env req db =
     (let t = \<lparr>th_ID = app_newID env ''thread'' 0, th_Title = ctr_Title req, th_Workspace = ctr_Workspace req,
            th_Status = ThreadActive, th_ForkedFromThreadID = [], th_Settings = ctr_Settings req, th_Metadata = ctr_Metadata req,
            th_CreatedAt = ae_now env, th_UpdatedAt = ae_now env, th_ArchivedAt = zero_time, th_DeletedAt = zero_time\<rparr>
      in TxDone t (saveThreadTx t db))"

definition CreateThread :: "app_env \<Rightarrow> create_thread_request \<Rightarrow> app_db option \<Rightarrow> app_thread outcome \<times> app_db option" where
  "CreateThread env req = app_withTx (CreateThread_tx env req)"

definition GetThread :: "string \<Rightarrow> app_db option \<Rightarrow> app_thread outcome" where
  "GetThread k = app_query (\<lambda>db. loadThreadTx db k)"

definition ListThreads :: "thread_filter \<Rightarrow> app_db option \<Rightarrow> app_thread list outcome" where
  "ListThreads f = app_query (\<lambda>db. Inr (limit_to (hf_Limit f) (filter (\<lambda>t. matchesThreadFilter t f)
     (List.map_filter (\<lambda>k. map_option hr_payload (fmlookup (db_threads db) k)) (order_desc hr_updated_at (db_threads db))))))"

definition setThreadStatus_tx :: "app_env \<Rightarrow> string \<Rightarrow> thread_status \<Rightarrow> app_db \<Rightarrow> app_thread tx_result" where
  "setThreadStatus_tx env k status db =
     tx_bind (loadThreadTx db k) (\<lambda>t.
       if th_Status t = ThreadDeleted \<and> status \<noteq> ThreadDeleted then TxError ErrThreadDeleted
       else tx_bind (if status \<in> {ThreadArchived, ThreadDeleted} then ensureThreadHasNoActiveTurnTx db (th_ID t) else Inr ()) (\<lambda>_.
         let t = t\<lparr>th_Status := status, th_UpdatedAt := ae_now env\<rparr>;
             t = (case status of
                    ThreadArchived \<Rightarrow> t\<lparr>th_ArchivedAt := ae_now env\<rparr>
                  | ThreadActive \<Rightarrow> t\<lparr>th_ArchivedAt := zero_time\<rparr>
                  | ThreadDeleted \<Rightarrow> t\<lparr>th_DeletedAt := ae_now env\<rparr>
                  | _ \<Rightarrow> t)
         in TxDone t (saveThreadTx t db)))"

definition ArchiveThread :: "app_env \<Rightarrow> string \<Rightarrow> app_db option \<Rightarrow> app_thread outcome \<times> app_db option" where
  "ArchiveThread env k = app_withTx (setThreadStatus_tx env k ThreadArchived)"

definition UnarchiveThread :: "app_env \<Rightarrow> string \<Rightarrow> app_db option \<Rightarrow> app_thread outcome \<times> app_db option" where
  "UnarchiveThread env k = app_withTx (setThreadStatus_tx env k ThreadActive)"

definition DeleteThread :: "app_env \<Rightarrow> string \<Rightarrow> app_db option \<Rightarrow> app_thread outcome \<times> app_db option" where
  "DeleteThread env k = app_withTx (setThreadStatus_tx env k ThreadDeleted)"

definition update_thread_tx :: "app_env \<Rightarrow> string \<Rightarrow> (app_thread \<Rightarrow> app_thread) \<Rightarrow> app_db \<Rightarrow> app_thread tx_result" where
  "update_thread_tx env k change db =
     tx_bind (loadThreadTx db k) (\<lambda>t.
       if th_Status t = ThreadDeleted then TxError ErrThreadDeleted
       else (let t = (change t)\<lparr>th_UpdatedAt := ae_now env\<rparr> in TxDone t (saveThreadTx t db)))"

definition UpdateThreadTitle :: "app_env \<Rightarrow> string \<Rightarrow> string \<Rightarrow> app_db option \<Rightarrow> app_thread outcome \<times> app_db option" where
  "UpdateThreadTitle env k title = app_withTx (update_thread_tx env k (\<lambda>t. t\<lparr>th_Title := title\<rparr>))"

definition new_settings :: "update_settings_request \<Rightarrow> app_thread \<Rightarrow> app_thread" where
  "new_settings req t =
     (if usr_Replace req then t\<lparr>th_Settings := usr_Settings req, th_Metadata := usr_Metadata req\<rparr>
      else t\<lparr>th_Settings := mergeMaps (th_Settings t) (usr_Settings req), th_Metadata := mergeMaps (th_Metadata t) (usr_Metadata req)\<rparr>)"

definition UpdateThreadSettings :: "app_env \<Rightarrow> update_settings_request \<Rightarrow> app_db option \<Rightarrow> app_thread outcome \<times> app_db option" where
  "UpdateThreadSettings env req = app_withTx (update_thread_tx env (usr_ID req) (new_settings req))"

section \<open>Turns\<close>

definition require_open :: "app_thread \<Rightarrow> unit result" where
  "require_open t =
     (case th_Status t of ThreadDeleted \<Rightarrow> Inl ErrThreadDeleted | ThreadArchived \<Rightarrow> Inl ErrThreadArchived | _ \<Rightarrow> Inr ())"

definition new_turn :: "app_env \<Rightarrow> nat \<Rightarrow> string \<Rightarrow> raw_message \<Rightarrow> metadata \<Rightarrow> app_turn" where
  "new_turn env n threadID input md = \<lparr>tu_ID = app_newID env ''turn'' n, tu_ThreadID = threadID, tu_Status = TurnQueued,
     tu_Input = input, tu_Result = RawEmpty, tu_Error = [], tu_Usage = fmempty, tu_Metadata = md,
     tu_CreatedAt = ae_now env, tu_UpdatedAt = ae_now env, tu_StartedAt = zero_time, tu_CompletedAt = zero_time,
     tu_RetryOfTurnID = [], tu_RetryIdempotencyKey = []\<rparr>"

definition CreateTurn_tx :: "app_env \<Rightarrow> create_turn_request \<Rightarrow> app_db \<Rightarrow> app_turn tx_result" where
  "CreateTurn_tx env req db =
     tx_bind (loadThreadTx db (cur_ThreadID req)) (\<lambda>t. tx_bind (require_open t) (\<lambda>_.
       let u = new_turn env 0 (th_ID t) (cur_Input req) (cur_Metadata req)
       in tx_bind (saveTurnTx u db) (TxDone u)))"

definition CreateTurn :: "app_env \<Rightarrow> create_turn_request \<Rightarrow> app_db option \<Rightarrow> app_turn outcome \<times> app_db option" where
  "CreateTurn env req = app_withTx (CreateTurn_tx env req)"

definition StartTurn_tx :: "app_env \<Rightarrow> string \<Rightarrow> app_db \<Rightarrow> app_turn tx_result" where
  "StartTurn_tx env k db =
     tx_bind (loadTurnTx db k) (\<lambda>u. tx_bind (loadThreadTx db (tu_ThreadID u)) (\<lambda>t. tx_bind (require_open t) (\<lambda>_.
       let u = u\<lparr>tu_Status := TurnRunning, tu_StartedAt := ae_now env, tu_UpdatedAt := ae_now env\<rparr>
       in tx_bind (saveTurnTx u db) (TxDone u))))"

definition StartTurn :: "app_env \<Rightarrow> string \<Rightarrow> app_db option \<Rightarrow> app_turn outcome \<times> app_db option" where
  "StartTurn env k = app_withTx (StartTurn_tx env k)"

definition CompleteTurn_tx :: "app_env \<Rightarrow> complete_turn_request \<Rightarrow> app_db \<Rightarrow> app_turn tx_result" where
  "CompleteTurn_tx env req db =
     tx_bind (loadTurnTx db (cor_ID req)) (\<lambda>u. tx_bind (loadThreadTx db (tu_ThreadID u)) (\<lambda>t.
       if th_Status t = ThreadDeleted then TxError ErrThreadDeleted
       else
         (let u = u\<lparr>tu_Status := (if cor_Status req = [] then TurnCompletedStatus else cor_Status req),
                    tu_Result := cor_Result req, tu_Error := cor_Error req, tu_Usage := cor_Usage req,
                    tu_CompletedAt := ae_now env, tu_UpdatedAt := ae_now env\<rparr>
          in tx_bind (saveTurnTx u db) (TxDone u))))"

definition CompleteTurn :: "app_env \<Rightarrow> complete_turn_request \<Rightarrow> app_db option \<Rightarrow> app_turn outcome \<times> app_db option" where
  "CompleteTurn env req = app_withTx (CompleteTurn_tx env req)"

definition GetTurn :: "string \<Rightarrow> app_db option \<Rightarrow> app_turn outcome" where
  "GetTurn k = app_query (\<lambda>db. loadTurnTx db k)"

definition ListTurns :: "turn_filter \<Rightarrow> app_db option \<Rightarrow> app_turn list outcome" where
  "ListTurns f = app_query (\<lambda>db. Inr (limit_to (uf_Limit f) (filter (\<lambda>u. matchesTurnFilter u f) (loadAllTurnsTx db))))"

definition retry_turn :: "app_env \<Rightarrow> app_turn \<Rightarrow> turn_retry_request \<Rightarrow> string \<Rightarrow> app_turn" where
  "retry_turn env source req key =
     (new_turn env 0 (tu_ThreadID source) (if trr_Input req = RawEmpty then tu_Input source else trr_Input req) (trr_Metadata req))
       \<lparr>tu_RetryOfTurnID := tu_ID source, tu_RetryIdempotencyKey := key\<rparr>"

definition PrepareTurnRetry_tx :: "app_env \<Rightarrow> turn_retry_request \<Rightarrow> app_db \<Rightarrow> turn_retry_result tx_result" where
  "PrepareTurnRetry_tx env req db =
     (let key = TrimSpace (trr_IdempotencyKey req) in
      tx_bind (loadTurnTx db (TrimSpace (trr_SourceTurnID req))) (\<lambda>source.
        if \<not> terminalTurnStatus (tu_Status source) then TxError ErrTurnNotTerminal
        else tx_bind (loadThreadTx db (tu_ThreadID source)) (\<lambda>t. tx_bind (require_open t) (\<lambda>_.
          case List.find (\<lambda>u. tu_RetryIdempotencyKey u = key) (loadAllTurnsTx db) of
            Some u \<Rightarrow>
              if tu_RetryOfTurnID u \<noteq> tu_ID source then TxError ErrRetryIdempotencyConflict
              else TxDone \<lparr>trs_Source = source, trs_Turn = u, trs_Created = False\<rparr> db
          | None \<Rightarrow>
              (let u = retry_turn env source req key
               in tx_bind (saveTurnTx u db) (TxDone \<lparr>trs_Source = source, trs_Turn = u, trs_Created = True\<rparr>))))))"

definition PrepareTurnRetry :: "app_env \<Rightarrow> turn_retry_request \<Rightarrow> app_db option \<Rightarrow> turn_retry_result outcome \<times> app_db option" where
  "PrepareTurnRetry env req s =
     (let key = TrimSpace (trr_IdempotencyKey req) in
      if TrimSpace (trr_SourceTurnID req) = [] then (Failed ErrTurnNotFound, s)
      else if key = [] \<or> length key > 256
      then (Failed (app_error ''retry idempotency key must contain 1 to 256 bytes''), s)
      else app_withTx (PrepareTurnRetry_tx env req) s)"

section \<open>Items\<close>

definition AppendItem_tx :: "app_env \<Rightarrow> append_item_request \<Rightarrow> app_db \<Rightarrow> app_item tx_result" where
  "AppendItem_tx env req db =
     tx_bind (loadThreadTx db (air_ThreadID req)) (\<lambda>t.
       if th_Status t = ThreadDeleted then TxError ErrThreadDeleted
       else tx_bind (if air_TurnID req \<noteq> []
             then (case loadTurnTx db (air_TurnID req) of
                     Inl e \<Rightarrow> Inl e
                   | Inr u \<Rightarrow> if tu_ThreadID u \<noteq> th_ID t then Inl ErrTurnNotFound else Inr ())
             else Inr ()) (\<lambda>_.
         tx_bind (saveItemTx env \<lparr>it_ID = app_newID env ''item'' 0, it_ThreadID = th_ID t, it_TurnID = air_TurnID req,
             it_ParentItemID = air_ParentItemID req, it_Seq = 0, it_Kind = air_Kind req, it_Status = air_Status req,
             it_Payload = air_Payload req, it_CreatedAt = ae_now env, it_UpdatedAt = ae_now env\<rparr> db)
           (\<lambda>(i, db). TxDone i db)))"

definition AppendItem :: "app_env \<Rightarrow> append_item_request \<Rightarrow> app_db option \<Rightarrow> app_item outcome \<times> app_db option" where
  "AppendItem env req = app_withTx (AppendItem_tx env req)"

text \<open>The request's payload may be nil, which leaves the payload of the item alone, or have no bytes, which clears it.\<close>

definition UpdateItem_tx :: "app_env \<Rightarrow> string \<Rightarrow> string \<Rightarrow> raw_message option \<Rightarrow> app_db \<Rightarrow> app_item tx_result" where
  "UpdateItem_tx env k status payload db =
     tx_bind (loadItemTx db k) (\<lambda>i. tx_bind (loadThreadTx db (it_ThreadID i)) (\<lambda>t.
       if th_Status t = ThreadDeleted then TxError ErrThreadDeleted
       else
         (let i = (if status \<noteq> [] then i\<lparr>it_Status := status\<rparr> else i);
              i = (case payload of None \<Rightarrow> i | Some raw \<Rightarrow> i\<lparr>it_Payload := raw\<rparr>)
          in tx_bind (saveItemTx env (i\<lparr>it_UpdatedAt := ae_now env\<rparr>) db) (\<lambda>(i, db). TxDone i db))))"

definition UpdateItem :: "app_env \<Rightarrow> string \<Rightarrow> string \<Rightarrow> raw_message option \<Rightarrow> app_db option \<Rightarrow> app_item outcome \<times> app_db option" where
  "UpdateItem env k status payload = app_withTx (UpdateItem_tx env k status payload)"

definition GetItem :: "string \<Rightarrow> app_db option \<Rightarrow> app_item outcome" where
  "GetItem k = app_query (\<lambda>db. loadItemTx db k)"

definition ListItems :: "item_filter \<Rightarrow> app_db option \<Rightarrow> app_item list outcome" where
  "ListItems f = app_query (\<lambda>db. Inr (limit_to (if_Limit f) (filter (\<lambda>i. matchesItemFilter i f)
     (map ir_payload (filter (\<lambda>r. if_AfterSeq f < ir_seq r) (db_items db))))))"

end
