(* ===== verification/App_Recovery.thy ===== *)
theory App_Recovery
  imports App_Store
begin

text \<open>
  The operations of \<^verbatim>\<open>appserver/store/sqlite.go\<close> that rewrite history: forks, rollbacks, the recovery of
  turns whose owner is gone, the reversal of file changes, and the records of terminals. Go visits the map
  of removed turns in some order; the deletions for two turns do not depend on each other, so they are made for
  all turns at once here.
\<close>

section \<open>Forks\<close>

definition tx_then :: "'a tx_result \<Rightarrow> ('a \<Rightarrow> app_db \<Rightarrow> 'b tx_result) \<Rightarrow> 'b tx_result" where
  "tx_then r k = (case r of TxError e \<Rightarrow> TxError e | TxPanic db \<Rightarrow> TxPanic db | TxDone x db \<Rightarrow> k x db)"

text \<open>A Go map from identifiers to identifiers, which reads as the empty string elsewhere.\<close>

definition id_of :: "(string \<times> string) list \<Rightarrow> string \<Rightarrow> string" where
  "id_of m k = (case map_of (rev m) k of None \<Rightarrow> [] | Some v \<Rightarrow> v)"

definition forked_turn :: "app_env \<Rightarrow> string \<Rightarrow> nat \<Rightarrow> app_turn \<Rightarrow> app_turn" where
  "forked_turn env forkID n u = u\<lparr>tu_ID := app_newID env ''turn'' n, tu_ThreadID := forkID, tu_CreatedAt := ae_now env,
     tu_UpdatedAt := ae_now env\<rparr>"

fun copy_turns :: "app_env \<Rightarrow> string \<Rightarrow> nat \<Rightarrow> app_turn list \<Rightarrow> app_db \<Rightarrow> app_db result" where
  "copy_turns env forkID n [] db = Inr db"
| "copy_turns env forkID n (u # us) db =
     (case saveTurnTx (forked_turn env forkID n u) db of
        Inl e \<Rightarrow> Inl e
      | Inr db \<Rightarrow> copy_turns env forkID (Suc n) us db)"

definition turn_map :: "app_env \<Rightarrow> app_turn list \<Rightarrow> (string \<times> string) list" where
  "turn_map env us = map2 (\<lambda>n u. (tu_ID u, app_newID env ''turn'' n)) [0..<length us] us"

definition item_map :: "app_env \<Rightarrow> app_item list \<Rightarrow> (string \<times> string) list" where
  "item_map env is = map2 (\<lambda>n i. (it_ID i, app_newID env ''item'' n)) [0..<length is] is"

text \<open>\<open>None\<close> is the panic of \<open>disableForkedFileChangeRevert\<close>.\<close>

definition forked_item :: "app_env \<Rightarrow> string \<Rightarrow> (string \<times> string) list \<Rightarrow> (string \<times> string) list \<Rightarrow> app_item \<Rightarrow> app_item option" where
  "forked_item env forkID turnMap itemMap i =
     (let newID = id_of itemMap (it_ID i);
          raw = remapForkedItemPayloadID (it_Payload i) (it_ID i) newID;
          raw = (if it_Kind i = ''fileChangeRevert'' then remapForkedFileChangeReceiptTarget raw (id_of itemMap) else raw)
      in map_option (\<lambda>raw. i\<lparr>it_ID := newID, it_Payload := raw, it_ThreadID := forkID, it_TurnID := id_of turnMap (it_TurnID i),
           it_ParentItemID := id_of itemMap (it_ParentItemID i), it_Seq := 0, it_CreatedAt := ae_now env,
           it_UpdatedAt := ae_now env\<rparr>) (disableForkedFileChangeRevert raw))"

fun copy_items :: "app_env \<Rightarrow> string \<Rightarrow> (string \<times> string) list \<Rightarrow> (string \<times> string) list \<Rightarrow> app_item list \<Rightarrow> app_db \<Rightarrow> unit tx_result" where
  "copy_items env forkID turnMap itemMap [] db = TxDone () db"
| "copy_items env forkID turnMap itemMap (i # is) db =
     (case forked_item env forkID turnMap itemMap i of
        None \<Rightarrow> TxPanic db
      | Some i \<Rightarrow> tx_bind (saveItemTx env i db) (\<lambda>(_, db). copy_items env forkID turnMap itemMap is db))"

definition copyThreadHistoryTx :: "app_env \<Rightarrow> string \<Rightarrow> string \<Rightarrow> app_db \<Rightarrow> unit tx_result" where
  "copyThreadHistoryTx env sourceID forkID db =
     (let us = loadTurnsForThreadTx db sourceID in
      tx_bind (copy_turns env forkID 0 us db) (\<lambda>db.
        let is = thread_items db sourceID
        in copy_items env forkID (turn_map env us) (item_map env is) is db))"

definition fork_of :: "app_env \<Rightarrow> app_thread \<Rightarrow> string \<Rightarrow> metadata \<Rightarrow> app_thread" where
  "fork_of env source title md = \<lparr>th_ID = app_newID env ''thread'' 0, th_Title = title, th_Workspace = th_Workspace source,
     th_Status = ThreadActive, th_ForkedFromThreadID = th_ID source, th_Settings = th_Settings source, th_Metadata = md,
     th_CreatedAt = ae_now env, th_UpdatedAt = ae_now env, th_ArchivedAt = zero_time, th_DeletedAt = zero_time\<rparr>"

definition ForkThread_tx :: "app_env \<Rightarrow> fork_thread_request \<Rightarrow> app_db \<Rightarrow> app_thread tx_result" where
  "ForkThread_tx env req db =
     tx_bind (loadThreadTx db (ftr_SourceThreadID req)) (\<lambda>source.
       if th_Status source = ThreadDeleted then TxError ErrThreadDeleted
       else tx_bind (if ftr_IncludeItems req then ensureThreadHasNoActiveTurnTx db (th_ID source) else Inr ()) (\<lambda>_.
         let fork = fork_of env source (if ftr_Title req = [] then th_Title source else ftr_Title req)
               (mergeMaps (th_Metadata source) (ftr_Metadata req));
             db = saveThreadTx fork db
         in tx_then (if ftr_IncludeItems req then copyThreadHistoryTx env (th_ID source) (th_ID fork) db else TxDone () db)
              (\<lambda>_. TxDone fork)))"

definition ForkThread :: "app_env \<Rightarrow> fork_thread_request \<Rightarrow> app_db option \<Rightarrow> app_thread outcome \<times> app_db option" where
  "ForkThread env req = app_withTx (ForkThread_tx env req)"

text \<open>The result of \<^verbatim>\<open>PrepareThreadFork\<close> is the fork and whether it was created.\<close>

definition PrepareThreadFork_tx :: "app_env \<Rightarrow> string \<Rightarrow> string \<Rightarrow> app_db \<Rightarrow> (app_thread \<times> bool) tx_result" where
  "PrepareThreadFork_tx env sourceID key db =
     (case fmlookup (db_forks db) key of
        Some (existingSource, existingFork) \<Rightarrow>
          if existingSource \<noteq> sourceID then TxError ErrThreadForkIdempotencyConflict
          else (case loadThreadTx db existingFork of
                  Inl e \<Rightarrow> TxError (WrapPrefix (''load prepared fork '' @ go_quote existingFork) e)
                | Inr fork \<Rightarrow> TxDone (fork, False) db)
      | None \<Rightarrow>
          tx_bind (loadThreadTx db sourceID) (\<lambda>source.
            if th_Status source = ThreadDeleted then TxError ErrThreadDeleted
            else tx_bind (ensureThreadHasNoActiveTurnTx db (th_ID source)) (\<lambda>_.
              let fork = fork_of env source (th_Title source) (th_Metadata source) in
              tx_then (copyThreadHistoryTx env (th_ID source) (th_ID fork) (saveThreadTx fork db)) (\<lambda>_ db.
                if \<exists>k \<in> fmdom' (db_forks db). \<exists>s. fmlookup (db_forks db) k = Some (s, th_ID fork)
                then TxError (WrapPrefix ''save prepared thread fork'' (ErrorString ''UNIQUE constraint failed: app_thread_forks.fork_thread_id''))
                else TxDone (fork, True) (db\<lparr>db_forks := fmupd key (th_ID source, th_ID fork) (db_forks db)\<rparr>)))))"

definition PrepareThreadFork :: "app_env \<Rightarrow> string \<Rightarrow> string \<Rightarrow> app_db option \<Rightarrow> (app_thread \<times> bool) outcome \<times> app_db option" where
  "PrepareThreadFork env sourceID key s =
     (if TrimSpace sourceID = [] then (Failed ErrThreadNotFound, s)
      else if TrimSpace key = [] \<or> length (TrimSpace key) > 256
      then (Failed (app_error ''fork idempotency key must contain 1 to 256 bytes''), s)
      else app_withTx (PrepareThreadFork_tx env (TrimSpace sourceID) (TrimSpace key)) s)"

section \<open>Recovery of orphaned turns\<close>

definition reconcileDurableFileChangeItemTx :: "app_env \<Rightarrow> app_item \<Rightarrow> time \<Rightarrow> app_db \<Rightarrow> (app_item \<times> app_db) option result" where
  "reconcileDurableFileChangeItemTx env i tm db =
     (if it_Kind i \<noteq> ''fileChange'' then Inr None
      else
        (case fmlookup (db_recoveries db) (it_ID i) of
           None \<Rightarrow> Inr None
         | Some row \<Rightarrow>
             (let r = cr_payload row; named = (\<lambda>m. app_error (''durable file-change item '' @ go_quote (it_ID i) @ m)) in
              if fr_ThreadID r \<noteq> it_ThreadID i \<or> fr_TurnID r \<noteq> it_TurnID i
              then Inl (app_error ''file-change recovery ownership mismatch'')
              else
                (case it_Payload i of
                   RawJSON (JObj fs) \<Rightarrow>
                     (case json_any (JObj fs) of
                        AnyMap kvs \<Rightarrow>
                          (case map_of kvs ''evidence'' of
                             Some (AnyList [e]) \<Rightarrow>
                               (case e of
                                  AnyMap artifact \<Rightarrow>
                                    (let artifact = put ''revertUnavailableReason'' (AnyString []) (put ''revertSnapshotAvailable'' (AnyBool True) artifact);
                                         kvs = put ''status'' (AnyString ''completed'') (put ''id'' (AnyString (it_ID i)) (put ''evidence'' (AnyList [AnyMap artifact]) kvs))
                                     in map_sum id Some (saveItemTx env (i\<lparr>it_Status := ''completed'', it_Payload := RawJSON (any_json (AnyMap kvs)),
                                          it_UpdatedAt := tm\<rparr>) db))
                                | _ \<Rightarrow> Inl (named '' has invalid artifact evidence''))
                           | _ \<Rightarrow> Inl (named '' has invalid evidence''))
                      | _ \<Rightarrow> Inl (named '' has invalid evidence''))
                 | RawJSON JNull \<Rightarrow> Inl (named '' has invalid evidence'')
                 | _ \<Rightarrow> Inl (WrapPrefix (''decode durable file-change item '' @ go_quote (it_ID i)) (ErrorString ''json: cannot unmarshal''))))))"

text \<open>The items of a turn: the identifiers of those that failed, and all items that were changed.\<close>

fun recover_items :: "app_env \<Rightarrow> time \<Rightarrow> app_item list \<Rightarrow> app_db \<Rightarrow> (string list \<times> app_item list \<times> app_db) result" where
  "recover_items env tm [] db = Inr ([], [], db)"
| "recover_items env tm (i # is) db =
     (if \<not> orphanedItemStatus (it_Status i) then recover_items env tm is db
      else
        (case reconcileDurableFileChangeItemTx env i tm db of
           Inl e \<Rightarrow> Inl e
         | Inr (Some (i, db)) \<Rightarrow>
             (case recover_items env tm is db of Inl e \<Rightarrow> Inl e | Inr (ids, changed, db) \<Rightarrow> Inr (ids, i # changed, db))
         | Inr None \<Rightarrow>
             (case saveItemTx env (i\<lparr>it_Status := ''failed'', it_Payload := recoveredItemPayload (it_Payload i), it_UpdatedAt := tm\<rparr>) db of
                Inl e \<Rightarrow> Inl e
              | Inr (i, db) \<Rightarrow>
                  (case recover_items env tm is db of Inl e \<Rightarrow> Inl e | Inr (ids, changed, db) \<Rightarrow> Inr (it_ID i # ids, i # changed, db)))))"

definition recovery_marker :: "app_env \<Rightarrow> nat \<Rightarrow> time \<Rightarrow> string \<Rightarrow> turn_status \<Rightarrow> string list \<Rightarrow> app_turn \<Rightarrow> app_item" where
  "recovery_marker env n tm reason previous ids u =
     \<lparr>it_ID = app_newID env ''item'' n, it_ThreadID = tu_ThreadID u, it_TurnID = tu_ID u, it_ParentItemID = [], it_Seq = 0,
      it_Kind = ''runtimeRecovery'', it_Status = ''completed'',
      it_Payload = RawJSON (JObj [(''previousStatus'', JStr previous), (''reason'', JStr reason), (''recoveredAt'', JTime tm),
        (''recoveredItemIds'', json_strings ids), (''status'', JStr (tu_Status u)), (''turnId'', JStr (tu_ID u))]),
      it_CreatedAt = tm, it_UpdatedAt = tm\<rparr>"

fun recover_turns :: "app_env \<Rightarrow> time \<Rightarrow> string \<Rightarrow> nat \<Rightarrow> app_turn list \<Rightarrow> recover_turns_result \<Rightarrow> app_db \<Rightarrow> recover_turns_result tx_result" where
  "recover_turns env tm reason n [] res db = TxDone res db"
| "recover_turns env tm reason n (u # us) res db =
     tx_bind (recover_items env tm (loadItemsForTurnTx db (tu_ID u)) db) (\<lambda>(ids, changed, db).
       let u' = u\<lparr>tu_Status := TurnInterrupted, tu_Error := reason, tu_CompletedAt := tm, tu_UpdatedAt := tm\<rparr> in
       tx_bind (saveTurnTx u' db) (\<lambda>db.
         tx_bind (saveItemTx env (recovery_marker env n tm reason (tu_Status u) ids u') db) (\<lambda>(marker, db).
           recover_turns env tm reason (Suc n) us
             \<lparr>rtr_Turns = rtr_Turns res @ [u'], rtr_Items = rtr_Items res @ changed, rtr_Markers = rtr_Markers res @ [marker]\<rparr> db)))"

definition RecoverOrphanedTurns_tx :: "app_env \<Rightarrow> time \<Rightarrow> string \<Rightarrow> app_db \<Rightarrow> recover_turns_result tx_result" where
  "RecoverOrphanedTurns_tx env tm reason db =
     recover_turns env tm reason 0 (loadTurnsByStatusesTx db [TurnQueued, TurnRunning])
       \<lparr>rtr_Turns = [], rtr_Items = [], rtr_Markers = []\<rparr> db"

definition time_or_now :: "app_env \<Rightarrow> time \<Rightarrow> time" where
  "time_or_now env t = (if t = zero_time then ae_now env else t)"

definition RecoverOrphanedTurns :: "app_env \<Rightarrow> time \<Rightarrow> string \<Rightarrow> app_db option \<Rightarrow> recover_turns_result outcome \<times> app_db option" where
  "RecoverOrphanedTurns env recoveredAt reason =
     app_withTx (RecoverOrphanedTurns_tx env (time_or_now env recoveredAt)
       (if TrimSpace reason = [] then RuntimeOwnerLostReason else TrimSpace reason))"

section \<open>Rollback\<close>

definition earliest_created :: "app_turn list \<Rightarrow> time" where
  "earliest_created us = fold (\<lambda>u e. if tu_CreatedAt u \<noteq> zero_time \<and> (e = zero_time \<or> tu_CreatedAt u < e) then tu_CreatedAt u else e) us zero_time"

fun scan_removed :: "string list \<Rightarrow> time \<Rightarrow> int \<Rightarrow> app_item list \<Rightarrow> int" where
  "scan_removed ids earliest fallback [] = fallback"
| "scan_removed ids earliest fallback (i # is) =
     (if it_TurnID i \<in> set ids then it_Seq i
      else scan_removed ids earliest
        (if fallback = 0 \<and> earliest \<noteq> zero_time \<and> \<not> it_CreatedAt i < earliest then it_Seq i else fallback) is)"

definition firstRemovedItemSeqTx :: "app_db \<Rightarrow> string \<Rightarrow> app_turn list \<Rightarrow> int" where
  "firstRemovedItemSeqTx db threadID removed =
     scan_removed (map tu_ID removed) (earliest_created removed) 0 (thread_items db threadID)"

definition retainedFileChangeReceiptIDsTx :: "app_db \<Rightarrow> string \<Rightarrow> string list" where
  "retainedFileChangeReceiptIDsTx db threadID =
     List.map_filter (\<lambda>k. case fmlookup (db_recoveries db) k of
         None \<Rightarrow> None
       | Some r \<Rightarrow> if cr_thread_id r = threadID \<and> cr_status r = FileChangeRecoveryReverted \<and> fr_MarkerID (cr_payload r) \<noteq> []
           then Some (fr_MarkerID (cr_payload r)) else None)
       (map_keys (db_recoveries db))"

definition delete_recoveries :: "(item_row \<Rightarrow> bool) \<Rightarrow> app_db \<Rightarrow> app_db" where
  "delete_recoveries P db = db\<lparr>db_recoveries := fmfilter (\<lambda>k. \<not> (\<exists>r \<in> set (db_items db). ir_id r = k \<and> P r)) (db_recoveries db)\<rparr>"

definition deleteItemsFromSeqTx :: "string \<Rightarrow> int \<Rightarrow> string list \<Rightarrow> app_db \<Rightarrow> app_db" where
  "deleteItemsFromSeqTx threadID cutoff preserved db =
     db\<lparr>db_items := filter (\<lambda>r. \<not> (ir_thread_id r = threadID \<and> cutoff \<le> ir_seq r \<and> ir_id r \<notin> set preserved)) (db_items db)\<rparr>"

definition pruneRolledBackHistoryTx :: "string \<Rightarrow> app_turn list \<Rightarrow> app_db \<Rightarrow> app_db" where
  "pruneRolledBackHistoryTx threadID removed db =
     (if removed = [] then db
      else
        (let ids = map tu_ID removed; cutoff = firstRemovedItemSeqTx db threadID removed;
             db = (if cutoff > 0
                   then (let db = delete_recoveries (\<lambda>r. ir_thread_id r = threadID \<and> cutoff \<le> ir_seq r) db
                         in deleteItemsFromSeqTx threadID cutoff (retainedFileChangeReceiptIDsTx db threadID) db)
                   else (let db = delete_recoveries (\<lambda>r. ir_thread_id r = threadID \<and> ir_turn_id r \<in> set ids) db
                         in db\<lparr>db_items := filter (\<lambda>r. \<not> (ir_thread_id r = threadID \<and> ir_turn_id r \<in> set ids)) (db_items db)\<rparr>))
         in db\<lparr>db_turns := fmfilter (\<lambda>k. k \<notin> set ids) (db_turns db)\<rparr>))"

definition rollback_marker :: "app_env \<Rightarrow> string \<Rightarrow> int \<Rightarrow> string list \<Rightarrow> app_item" where
  "rollback_marker env threadID numTurns ids =
     \<lparr>it_ID = app_newID env ''item'' 0, it_ThreadID = threadID, it_TurnID = [], it_ParentItemID = [], it_Seq = 0,
      it_Kind = ''thread_rollback'', it_Status = ''completed'',
      it_Payload = RawJSON (JObj [(''createdAt'', JTime (ae_now env)), (''numTurns'', JNum numTurns),
        (''removedTurnIds'', JArr (map JStr ids))]),
      it_CreatedAt = ae_now env, it_UpdatedAt = ae_now env\<rparr>"

definition RollbackThread_tx :: "app_env \<Rightarrow> string \<Rightarrow> int \<Rightarrow> app_db \<Rightarrow> rollback_result tx_result" where
  "RollbackThread_tx env k numTurns db =
     tx_bind (loadThreadTx db k) (\<lambda>t.
       if th_Status t = ThreadDeleted then TxError ErrThreadDeleted
       else
         (let removed = loadLastTurnsTx db (th_ID t) numTurns;
              db = pruneRolledBackHistoryTx (th_ID t) removed db;
              t = t\<lparr>th_UpdatedAt := ae_now env\<rparr>;
              db = saveThreadTx t db
          in tx_bind (saveItemTx env (rollback_marker env (th_ID t) numTurns (turnIDs removed)) db) (\<lambda>(marker, db).
               TxDone \<lparr>rbr_Thread = t, rbr_Turns = loadTurnsForThreadTx db (th_ID t), rbr_RemovedTurns = removed,
                 rbr_Marker = marker\<rparr> db)))"

definition RollbackThread :: "app_env \<Rightarrow> string \<Rightarrow> int \<Rightarrow> app_db option \<Rightarrow> rollback_result outcome \<times> app_db option" where
  "RollbackThread env k numTurns s =
     (if numTurns < 1 then (Failed (app_error ''rollback num turns must be >= 1''), s)
      else app_withTx (RollbackThread_tx env k numTurns) s)"

section \<open>Reversal of file changes\<close>

definition SaveFileChangeRecovery_tx :: "file_change_recovery \<Rightarrow> app_db \<Rightarrow> file_change_recovery tx_result" where
  "SaveFileChangeRecovery_tx r db =
     tx_bind (loadItemTx db (fr_ItemID r)) (\<lambda>i.
       if it_ThreadID i \<noteq> fr_ThreadID r \<or> it_TurnID i \<noteq> fr_TurnID r \<or> it_Kind i \<noteq> ''fileChange'' then TxError ErrItemNotFound
       else if fr_ItemID r |\<in>| fmdom (db_recoveries db) then TxError (app_error ''file-change recovery already exists'')
       else TxDone r (saveFileChangeRecoveryTx r db))"

definition SaveFileChangeRecovery :: "app_env \<Rightarrow> file_change_recovery \<Rightarrow> app_db option \<Rightarrow> file_change_recovery outcome \<times> app_db option" where
  "SaveFileChangeRecovery env r s =
     (if fr_ItemID r = [] \<or> fr_ThreadID r = [] \<or> fr_TurnID r = [] \<or> fr_Path r = []
      then (Failed (app_error ''incomplete file-change recovery''), s)
      else if fr_Status r \<notin> {FileChangeRecoveryAvailable, FileChangeRecoveryOther []}
      then (Failed (app_error ''new file-change recovery must be available''), s)
      else app_withTx (SaveFileChangeRecovery_tx (r\<lparr>fr_Status := FileChangeRecoveryAvailable,
             fr_CreatedAt := time_or_now env (fr_CreatedAt r), fr_UpdatedAt := ae_now env\<rparr>)) s)"

definition GetFileChangeRecovery :: "string \<Rightarrow> app_db option \<Rightarrow> file_change_recovery outcome" where
  "GetFileChangeRecovery k = app_query (\<lambda>db. loadFileChangeRecoveryTx db k)"

definition load_marker :: "app_db \<Rightarrow> string \<Rightarrow> app_item option result" where
  "load_marker db k = (if k = [] then Inr None else map_sum id Some (loadItemTx db k))"

definition PrepareFileChangeRevert_tx :: "string \<Rightarrow> string \<Rightarrow> time \<Rightarrow> app_db \<Rightarrow> revert_result tx_result" where
  "PrepareFileChangeRevert_tx k key tm db =
     tx_bind (loadFileChangeRecoveryTx db k) (\<lambda>r.
       case fr_Status r of
         FileChangeRecoveryAvailable \<Rightarrow>
           (let r = r\<lparr>fr_Status := FileChangeRecoveryPending, fr_IdempotencyKey := key, fr_UpdatedAt := tm\<rparr>;
                db = saveFileChangeRecoveryTx r db
            in tx_bind (load_marker db (fr_MarkerID r)) (\<lambda>m. TxDone \<lparr>rvr_Recovery = r, rvr_Marker = m, rvr_Reused = False\<rparr> db))
       | FileChangeRecoveryOther s \<Rightarrow> TxError (app_error (''unsupported file-change recovery status '' @ go_quote s))
       | _ \<Rightarrow>
           if fr_IdempotencyKey r \<noteq> key then TxError ErrFileChangeRevertIdempotencyConflict
           else tx_bind (load_marker db (fr_MarkerID r)) (\<lambda>m. TxDone \<lparr>rvr_Recovery = r, rvr_Marker = m, rvr_Reused = True\<rparr> db))"

definition revert_request_error :: go_error where
  "revert_request_error = app_error ''file-change revert item and idempotency key are required''"

definition PrepareFileChangeRevert :: "app_env \<Rightarrow> string \<Rightarrow> string \<Rightarrow> time \<Rightarrow> app_db option \<Rightarrow> revert_result outcome \<times> app_db option" where
  "PrepareFileChangeRevert env k key tm s =
     (if k = [] \<or> key = [] then (Failed revert_request_error, s)
      else app_withTx (PrepareFileChangeRevert_tx k key (time_or_now env tm)) s)"

definition AbortFileChangeRevert_tx :: "string \<Rightarrow> string \<Rightarrow> time \<Rightarrow> app_db \<Rightarrow> file_change_recovery tx_result" where
  "AbortFileChangeRevert_tx k key tm db =
     tx_bind (loadFileChangeRecoveryTx db k) (\<lambda>r.
       if fr_Status r \<noteq> FileChangeRecoveryPending \<or> fr_IdempotencyKey r \<noteq> key then TxError ErrFileChangeRevertIdempotencyConflict
       else (let r = r\<lparr>fr_Status := FileChangeRecoveryAvailable, fr_IdempotencyKey := [], fr_UpdatedAt := tm\<rparr>
             in TxDone r (saveFileChangeRecoveryTx r db)))"

definition AbortFileChangeRevert :: "app_env \<Rightarrow> string \<Rightarrow> string \<Rightarrow> time \<Rightarrow> app_db option \<Rightarrow> file_change_recovery outcome \<times> app_db option" where
  "AbortFileChangeRevert env k key tm s =
     (if k = [] \<or> key = [] then (Failed revert_request_error, s)
      else app_withTx (AbortFileChangeRevert_tx k key (time_or_now env tm)) s)"

definition revert_receipt :: "app_env \<Rightarrow> file_change_recovery \<Rightarrow> time \<Rightarrow> app_item" where
  "revert_receipt env r tm =
     \<lparr>it_ID = app_newID env ''item'' 0, it_ThreadID = fr_ThreadID r, it_TurnID = fr_TurnID r, it_ParentItemID = [], it_Seq = 0,
      it_Kind = ''fileChangeRevert'', it_Status = ''completed'',
      it_Payload = RawJSON (JObj [(''afterSha256'', JStr (fr_AfterSHA256 r)), (''beforeSha256'', JStr (fr_BeforeSHA256 r)),
        (''idempotencyKey'', JStr (fr_IdempotencyKey r)), (''itemId'', JStr (fr_ItemID r)), (''path'', JStr (fr_Path r)),
        (''revertedAt'', JTime tm)]),
      it_CreatedAt = tm, it_UpdatedAt = tm\<rparr>"

definition CompleteFileChangeRevert_tx :: "app_env \<Rightarrow> string \<Rightarrow> string \<Rightarrow> time \<Rightarrow> app_db \<Rightarrow> revert_result tx_result" where
  "CompleteFileChangeRevert_tx env k key tm db =
     tx_bind (loadFileChangeRecoveryTx db k) (\<lambda>r.
       if fr_IdempotencyKey r \<noteq> key then TxError ErrFileChangeRevertIdempotencyConflict
       else if fr_Status r = FileChangeRecoveryReverted
       then if fr_MarkerID r = [] then TxError (app_error ''reverted file change has no receipt marker'')
            else tx_bind (loadItemTx db (fr_MarkerID r)) (\<lambda>m. TxDone \<lparr>rvr_Recovery = r, rvr_Marker = Some m, rvr_Reused = True\<rparr> db)
       else if fr_Status r \<noteq> FileChangeRecoveryPending then TxError (app_error ''file-change recovery is not pending'')
       else tx_bind (saveItemTx env (revert_receipt env r tm) db) (\<lambda>(marker, db).
         let r = r\<lparr>fr_Status := FileChangeRecoveryReverted, fr_MarkerID := it_ID marker, fr_RevertedAt := tm, fr_UpdatedAt := tm\<rparr>
         in TxDone \<lparr>rvr_Recovery = r, rvr_Marker = Some marker, rvr_Reused = False\<rparr> (saveFileChangeRecoveryTx r db)))"

definition CompleteFileChangeRevert :: "app_env \<Rightarrow> string \<Rightarrow> string \<Rightarrow> time \<Rightarrow> app_db option \<Rightarrow> revert_result outcome \<times> app_db option" where
  "CompleteFileChangeRevert env k key tm s =
     (if k = [] \<or> key = [] then (Failed revert_request_error, s)
      else app_withTx (CompleteFileChangeRevert_tx env k key (time_or_now env tm)) s)"

section \<open>Terminals\<close>

definition normalizeTerminalOwnershipRecord :: "app_env \<Rightarrow> terminal_record \<Rightarrow> terminal_record result" where
  "normalizeTerminalOwnershipRecord env r =
     (if TrimSpace (te_ID r) = [] \<or> TrimSpace (te_WorkspaceKey r) = [] \<or> TrimSpace (te_ProcessID r) = []
      then Inl (app_error ''incomplete terminal ownership record'')
      else case te_Status r of
          TerminalOwnershipOther s \<Rightarrow> Inl (app_error (''unsupported terminal ownership status '' @ go_quote s))
        | _ \<Rightarrow>
            if te_StartedAt r = zero_time then Inl (app_error ''terminal ownership started at is required'')
            else if te_Status r = TerminalOwnershipOwnerLost \<and> te_OwnerLostAt r = None
            then Inl (app_error ''owner-lost terminal ownership requires owner-lost time'')
            else Inr (r\<lparr>te_UpdatedAt := time_or_now env (te_UpdatedAt r)\<rparr>))"

definition SaveTerminalOwnership_tx :: "terminal_record \<Rightarrow> app_db \<Rightarrow> terminal_record tx_result" where
  "SaveTerminalOwnership_tx r db =
     (case fmlookup (db_terminals db) (te_ID r) of
        Some row \<Rightarrow>
          if \<not> te_UpdatedAt (er_payload row) < te_UpdatedAt r then TxDone (scanTerminalOwnership row) db
          else TxDone r (saveTerminalOwnershipTx r db)
      | None \<Rightarrow> TxDone r (saveTerminalOwnershipTx r db))"

definition SaveTerminalOwnership :: "app_env \<Rightarrow> terminal_record \<Rightarrow> app_db option \<Rightarrow> terminal_record outcome \<times> app_db option" where
  "SaveTerminalOwnership env r s =
     (case normalizeTerminalOwnershipRecord env r of
        Inl e \<Rightarrow> (Failed e, s)
      | Inr r \<Rightarrow> app_withTx (SaveTerminalOwnership_tx r) s)"

definition workspace_rows :: "app_db \<Rightarrow> string \<Rightarrow> terminal_record list" where
  "workspace_rows db key =
     (let m = fmfilter (\<lambda>k. \<exists>r. fmlookup (db_terminals db) k = Some r \<and> er_workspace_key r = key) (db_terminals db)
      in List.map_filter (\<lambda>k. map_option scanTerminalOwnership (fmlookup m k)) (order_desc er_started_at m))"

definition workspace_error :: go_error where
  "workspace_error = app_error ''terminal ownership workspace key is required''"

definition ListTerminalOwnership :: "string \<Rightarrow> app_db option \<Rightarrow> terminal_record list outcome" where
  "ListTerminalOwnership key s =
     (if TrimSpace key = [] then Failed workspace_error else app_query (\<lambda>db. Inr (workspace_rows db (TrimSpace key))) s)"

definition lost_record :: "time \<Rightarrow> terminal_record \<Rightarrow> terminal_record" where
  "lost_record tm r = r\<lparr>te_Status := TerminalOwnershipOwnerLost, te_OwnerLostAt := Some tm, te_EndedAt := Some tm,
     te_ExitCode := None, te_UpdatedAt := tm\<rparr>"

definition orphaned_records :: "app_db \<Rightarrow> string \<Rightarrow> string list \<Rightarrow> terminal_record list" where
  "orphaned_records db key live =
     filter (\<lambda>r. te_Status r = TerminalOwnershipRunning \<and> te_ProcessID r \<notin> set (filter (\<lambda>p. p \<noteq> []) (map TrimSpace live)))
       (workspace_rows db key)"

definition RecoverTerminalOwnership_tx :: "string \<Rightarrow> string list \<Rightarrow> time \<Rightarrow> app_db \<Rightarrow> terminal_record list tx_result" where
  "RecoverTerminalOwnership_tx key live tm db =
     (let lost = map (lost_record tm) (orphaned_records db key live)
      in TxDone lost (fold saveTerminalOwnershipTx lost db))"

definition RecoverTerminalOwnership :: "app_env \<Rightarrow> string \<Rightarrow> string list \<Rightarrow> time \<Rightarrow> app_db option \<Rightarrow> terminal_record list outcome \<times> app_db option" where
  "RecoverTerminalOwnership env key live tm s =
     (if TrimSpace key = [] then (Failed workspace_error, s)
      else app_withTx (RecoverTerminalOwnership_tx (TrimSpace key) live (time_or_now env tm)) s)"

definition DeleteInactiveTerminalOwnership :: "string \<Rightarrow> app_db option \<Rightarrow> unit outcome \<times> app_db option" where
  "DeleteInactiveTerminalOwnership key s =
     (if TrimSpace key = [] then (Failed workspace_error, s)
      else app_withTx (\<lambda>db. TxDone () (db\<lparr>db_terminals := fmfilter (\<lambda>k. \<not> (\<exists>r. fmlookup (db_terminals db) k = Some r \<and>
             er_workspace_key r = TrimSpace key \<and> er_status r \<noteq> TerminalOwnershipRunning)) (db_terminals db)\<rparr>)) s)"

end
