(* ===== verification/App_Inv.thy ===== *)
theory App_Inv
  imports App_Recovery
begin

text \<open>
  The invariant of the application server's store: rows agree with their payloads and every reference
  leads somewhere. A transaction is a sequence of sound steps, which keep the invariant, keep forks bound to their keys,
  and leave a deleted thread and its turns alone.
\<close>

section \<open>The invariant\<close>

definition active_status :: "turn_status \<Rightarrow> bool" where
  "active_status s \<longleftrightarrow> s = TurnQueued \<or> s = TurnRunning"

definition deleted_thread :: "app_db \<Rightarrow> string \<Rightarrow> bool" where
  "deleted_thread db k \<longleftrightarrow> (\<exists>r. fmlookup (db_threads db) k = Some r \<and> th_Status (hr_payload r) = ThreadDeleted)"

definition wf_threads :: "app_db \<Rightarrow> bool" where
  "wf_threads db \<longleftrightarrow> (\<forall>k r. fmlookup (db_threads db) k = Some r \<longrightarrow> th_ID (hr_payload r) = k)"

definition turn_ok_row :: "app_db \<Rightarrow> string \<Rightarrow> turn_row \<Rightarrow> bool" where
  "turn_ok_row db k r \<longleftrightarrow> tu_ID (ur_payload r) = k \<and> k \<noteq> [] \<and> ur_thread_id r = tu_ThreadID (ur_payload r) \<and>
     ur_status r = tu_Status (ur_payload r) \<and> tu_Input (ur_payload r) \<noteq> RawInvalid \<and> tu_Result (ur_payload r) \<noteq> RawInvalid \<and>
     ur_thread_id r |\<in>| fmdom (db_threads db) \<and> (deleted_thread db (ur_thread_id r) \<longrightarrow> \<not> active_status (ur_status r))"

definition wf_turns :: "app_db \<Rightarrow> bool" where
  "wf_turns db \<longleftrightarrow> (\<forall>k r. fmlookup (db_turns db) k = Some r \<longrightarrow> turn_ok_row db k r)"

definition turn_of :: "app_db \<Rightarrow> string \<Rightarrow> string \<Rightarrow> bool" where
  "turn_of db threadID k \<longleftrightarrow> (\<exists>u. fmlookup (db_turns db) k = Some u \<and> ur_thread_id u = threadID)"

definition item_ok :: "app_db \<Rightarrow> item_row \<Rightarrow> bool" where
  "item_ok db r \<longleftrightarrow> ir_id r = it_ID (ir_payload r) \<and> ir_thread_id r = it_ThreadID (ir_payload r) \<and>
     ir_turn_id r = it_TurnID (ir_payload r) \<and> it_Seq (ir_payload r) = ir_seq r \<and> 0 < ir_seq r \<and> ir_seq r \<le> db_item_seq db \<and>
     it_Payload (ir_payload r) \<noteq> RawInvalid \<and> ir_thread_id r |\<in>| fmdom (db_threads db) \<and>
     (ir_turn_id r \<noteq> [] \<longrightarrow> turn_of db (ir_thread_id r) (ir_turn_id r))"

definition wf_items :: "app_db \<Rightarrow> bool" where
  "wf_items db \<longleftrightarrow> distinct (map ir_id (db_items db)) \<and> sorted_wrt (<) (map ir_seq (db_items db)) \<and> 0 \<le> db_item_seq db \<and>
     (\<forall>r \<in> set (db_items db). item_ok db r)"

definition has_item :: "app_db \<Rightarrow> string \<Rightarrow> string \<Rightarrow> string \<Rightarrow> string \<Rightarrow> bool" where
  "has_item db k threadID turnID kind \<longleftrightarrow>
     (\<exists>r \<in> set (db_items db). ir_id r = k \<and> ir_thread_id r = threadID \<and> ir_turn_id r = turnID \<and> it_Kind (ir_payload r) = kind)"

definition recovery_ok :: "app_db \<Rightarrow> string \<Rightarrow> recovery_row \<Rightarrow> bool" where
  "recovery_ok db k r \<longleftrightarrow>
     (let p = cr_payload r in
      fr_ItemID p = k \<and> cr_thread_id r = fr_ThreadID p \<and> cr_status r = fr_Status p \<and>
      fr_Status p \<in> {FileChangeRecoveryAvailable, FileChangeRecoveryPending, FileChangeRecoveryReverted} \<and>
      has_item db k (fr_ThreadID p) (fr_TurnID p) ''fileChange'' \<and>
      (fr_Status p = FileChangeRecoveryReverted \<longrightarrow>
         fr_MarkerID p \<noteq> [] \<and> has_item db (fr_MarkerID p) (fr_ThreadID p) (fr_TurnID p) ''fileChangeRevert''))"

definition wf_recoveries :: "app_db \<Rightarrow> bool" where
  "wf_recoveries db \<longleftrightarrow> (\<forall>k r. fmlookup (db_recoveries db) k = Some r \<longrightarrow> recovery_ok db k r)"

definition fork_bound :: "app_db \<Rightarrow> string \<Rightarrow> string \<Rightarrow> bool" where
  "fork_bound db s f \<longleftrightarrow> s |\<in>| fmdom (db_threads db) \<and>
     (\<exists>r. fmlookup (db_threads db) f = Some r \<and> th_ForkedFromThreadID (hr_payload r) = s)"

definition wf_forks :: "app_db \<Rightarrow> bool" where
  "wf_forks db \<longleftrightarrow> (\<forall>key s f. fmlookup (db_forks db) key = Some (s, f) \<longrightarrow> fork_bound db s f)"

definition retry_key :: "turn_row \<Rightarrow> string" where
  "retry_key r = tu_RetryIdempotencyKey (ur_payload r)"

definition wf_retries :: "app_db \<Rightarrow> bool" where
  "wf_retries db \<longleftrightarrow> (\<forall>k k' r r'. fmlookup (db_turns db) k = Some r \<and> fmlookup (db_turns db) k' = Some r' \<and>
     retry_key r \<noteq> [] \<and> retry_key r = retry_key r' \<longrightarrow>
     tu_RetryOfTurnID (ur_payload r) = tu_RetryOfTurnID (ur_payload r') \<and> (ur_thread_id r = ur_thread_id r' \<longrightarrow> k = k'))"

definition app_wf :: "app_db \<Rightarrow> bool" where
  "app_wf db \<longleftrightarrow> wf_threads db \<and> wf_turns db \<and> wf_items db \<and> wf_recoveries db \<and> wf_forks db \<and> wf_retries db"

lemma app_wfI:
  assumes "wf_threads db" and "wf_turns db" and "wf_items db" and "wf_recoveries db" and "wf_forks db" and "wf_retries db"
  shows "app_wf db"
  using assms by (simp add: app_wf_def)

lemma wf_parts:
  assumes "app_wf db"
  shows "wf_threads db" "wf_turns db" "wf_items db" "wf_recoveries db" "wf_forks db" "wf_retries db"
  using assms by (simp_all add: app_wf_def)

section \<open>Sound steps\<close>

definition app_moves :: "app_db \<Rightarrow> app_db \<Rightarrow> bool" where
  "app_moves db db' \<longleftrightarrow>
     (\<forall>key v. fmlookup (db_forks db) key = Some v \<longrightarrow> fmlookup (db_forks db') key = Some v) \<and>
     (\<forall>k r. fmlookup (db_threads db) k = Some r \<longrightarrow>
        (\<exists>r'. fmlookup (db_threads db') k = Some r' \<and> th_ForkedFromThreadID (hr_payload r') = th_ForkedFromThreadID (hr_payload r))) \<and>
     (\<forall>k. deleted_thread db k \<longrightarrow> deleted_thread db' k \<and> thread_turn_rows db' k = thread_turn_rows db k)"

definition app_sound :: "app_db \<Rightarrow> app_db \<Rightarrow> bool" where
  "app_sound db db' \<longleftrightarrow> app_wf db' \<and> app_moves db db'"

lemma app_moves_refl [simp]: "app_moves db db"
  by (simp add: app_moves_def)

lemma app_moves_trans: "app_moves db db' \<Longrightarrow> app_moves db' db'' \<Longrightarrow> app_moves db db''"
  unfolding app_moves_def by metis

lemma app_sound_refl: "app_wf db \<Longrightarrow> app_sound db db"
  by (simp add: app_sound_def)

lemma app_sound_trans: "app_sound db db' \<Longrightarrow> app_sound db' db'' \<Longrightarrow> app_sound db db''"
  unfolding app_sound_def using app_moves_trans by blast

lemma app_sound_wf: "app_sound db db' \<Longrightarrow> app_wf db'"
  by (simp add: app_sound_def)

fun sound_tx :: "app_db \<Rightarrow> 'a tx_result \<Rightarrow> bool" where
  "sound_tx db (TxError e) \<longleftrightarrow> True"
| "sound_tx db (TxPanic db') \<longleftrightarrow> app_sound db db'"
| "sound_tx db (TxDone x db') \<longleftrightarrow> app_sound db db'"

lemma sound_tx_bind:
  assumes "\<And>x. r = Inr x \<Longrightarrow> sound_tx db (k x)"
  shows "sound_tx db (tx_bind r k)"
  using assms by (cases r) (auto simp: tx_bind_def)

lemma sound_tx_then:
  assumes "sound_tx db r" and "\<And>x db'. r = TxDone x db' \<Longrightarrow> app_sound db db' \<Longrightarrow> sound_tx db (k x db')"
  shows "sound_tx db (tx_then r k)"
  using assms by (cases r) (auto simp: tx_then_def)

lemma sound_tx_from: "app_sound db db1 \<Longrightarrow> sound_tx db1 r \<Longrightarrow> sound_tx db r"
  by (cases r) (auto intro: app_sound_trans)

section \<open>Saving a thread\<close>

text \<open>A thread that is new, or is changed but not revived, and deleted only when none of its turns is active.\<close>

lemma thread_frame:
  assumes "db_turns db' = db_turns db" and "db_items db' = db_items db" and "db_item_seq db' = db_item_seq db"
    and "db_recoveries db' = db_recoveries db" and "db_forks db' = db_forks db"
  shows "turn_of db' t k = turn_of db t k" "has_item db' k t u kd = has_item db k t u kd" "thread_turn_rows db' k = thread_turn_rows db k"
  unfolding turn_of_def has_item_def thread_turn_rows_def assms by (rule refl)+

lemma saveThreadTx_sound:
  assumes wf: "app_wf db"
    and old: "\<And>r. fmlookup (db_threads db) (th_ID t) = Some r \<Longrightarrow>
      th_ForkedFromThreadID t = th_ForkedFromThreadID (hr_payload r) \<and> (th_Status (hr_payload r) = ThreadDeleted \<longrightarrow> th_Status t = ThreadDeleted)"
    and del: "th_Status t = ThreadDeleted \<Longrightarrow> (\<forall>k r. fmlookup (db_turns db) k = Some r \<longrightarrow> ur_thread_id r = th_ID t \<longrightarrow> \<not> active_status (ur_status r))"
  shows "app_sound db (saveThreadTx t db)"
proof -
  let ?db = "saveThreadTx t db"
  have same: "db_turns ?db = db_turns db" "db_items ?db = db_items db" "db_item_seq ?db = db_item_seq db"
    "db_recoveries ?db = db_recoveries db" "db_forks ?db = db_forks db"
    by (simp_all add: saveThreadTx_def)
  note fr = thread_frame [OF same]
  have lk: "fmlookup (db_threads ?db) k = (if k = th_ID t then Some \<lparr>hr_updated_at = app_formatTime (th_UpdatedAt t),
      hr_payload = t\<lparr>th_Settings := stored_map (th_Settings t), th_Metadata := stored_map (th_Metadata t)\<rparr>\<rparr>
      else fmlookup (db_threads db) k)" for k
    by (simp add: saveThreadTx_def)
  have dom: "x |\<in>| fmdom (db_threads db) \<Longrightarrow> x |\<in>| fmdom (db_threads ?db)" for x
    by (simp add: saveThreadTx_def)
  have d: "deleted_thread ?db k \<longleftrightarrow> (if k = th_ID t then th_Status t = ThreadDeleted else deleted_thread db k)" for k
    by (simp add: deleted_thread_def lk)
  have "app_wf ?db"
  proof (rule app_wfI)
    show "wf_threads ?db" using wf_parts(1) [OF wf] by (simp add: wf_threads_def lk)
    show "wf_turns ?db"
      unfolding wf_turns_def same
    proof (intro allI impI)
      fix k r
      assume r: "fmlookup (db_turns db) k = Some r"
      then have "turn_ok_row db k r" using wf_parts(2) [OF wf] by (simp add: wf_turns_def)
      moreover have "th_Status t = ThreadDeleted \<Longrightarrow> ur_thread_id r = th_ID t \<Longrightarrow> \<not> active_status (ur_status r)" using del r by blast
      ultimately show "turn_ok_row ?db k r" using dom by (auto simp: turn_ok_row_def d)
    qed
    show "wf_items ?db" using wf_parts(3) [OF wf] by (auto simp: wf_items_def item_ok_def same fr dom)
    show "wf_recoveries ?db" using wf_parts(4) [OF wf] by (simp add: wf_recoveries_def recovery_ok_def same fr)
    show "wf_forks ?db"
      unfolding wf_forks_def fork_bound_def same
    proof (intro allI impI)
      fix key s f
      assume "fmlookup (db_forks db) key = Some (s, f)"
      then obtain r where r: "s |\<in>| fmdom (db_threads db)" "fmlookup (db_threads db) f = Some r" "th_ForkedFromThreadID (hr_payload r) = s"
        using wf_parts(5) [OF wf] unfolding wf_forks_def fork_bound_def by blast
      then show "s |\<in>| fmdom (db_threads ?db) \<and> (\<exists>r. fmlookup (db_threads ?db) f = Some r \<and> th_ForkedFromThreadID (hr_payload r) = s)"
        using old [of r] by (cases "f = th_ID t") (simp_all add: lk dom)
    qed
    show "wf_retries ?db" using wf_parts(6) [OF wf] unfolding wf_retries_def same .
  qed
  moreover have "app_moves db ?db"
    unfolding app_moves_def fr same
  proof (intro conjI allI impI)
    fix k r
    assume "fmlookup (db_threads db) k = Some r"
    then show "\<exists>r'. fmlookup (db_threads ?db) k = Some r' \<and> th_ForkedFromThreadID (hr_payload r') = th_ForkedFromThreadID (hr_payload r)"
      using old [of r] by (auto simp: lk)
  next
    fix k
    assume "deleted_thread db k"
    then show "deleted_thread ?db k" unfolding d using old by (auto simp: deleted_thread_def)
  qed simp_all
  ultimately show ?thesis by (simp add: app_sound_def)
qed


section \<open>Saving a turn\<close>

lemma saveTurnTx_lookup:
  assumes "saveTurnTx u db = Inr db'"
  shows "db_threads db' = db_threads db" "db_items db' = db_items db" "db_item_seq db' = db_item_seq db"
    "db_recoveries db' = db_recoveries db" "db_forks db' = db_forks db" "db_terminals db' = db_terminals db"
    "db_turns db' = fmupd (tu_ID u) (turn_row_of db u) (db_turns db)"
    "tu_Input u \<noteq> RawInvalid" "tu_Result u \<noteq> RawInvalid"
  using assms by (auto simp: saveTurnTx_def split: if_splits)

lemma turn_row_of_simps [simp]:
  "ur_thread_id (turn_row_of db u) = tu_ThreadID u" "ur_status (turn_row_of db u) = tu_Status u" "ur_payload (turn_row_of db u) = stored_turn u"
  by (simp_all add: turn_row_of_def)

lemma stored_turn_simps [simp]:
  "tu_ID (stored_turn u) = tu_ID u" "tu_ThreadID (stored_turn u) = tu_ThreadID u" "tu_Status (stored_turn u) = tu_Status u"
  "tu_Input (stored_turn u) = tu_Input u" "tu_Result (stored_turn u) = tu_Result u"
  "tu_RetryOfTurnID (stored_turn u) = tu_RetryOfTurnID u" "tu_RetryIdempotencyKey (stored_turn u) = tu_RetryIdempotencyKey u"
  by (simp_all add: stored_turn_def)

text \<open>
  A turn of a thread that is not deleted; a row that exists keeps its thread, a retry key is new, or bound as before and not in
  the same thread.
\<close>

lemma thread_turn_rows_upd:
  assumes "ur_thread_id row \<noteq> t" and "\<And>r. fmlookup (db_turns db) k = Some r \<Longrightarrow> ur_thread_id r \<noteq> t"
    and "db_turns db' = fmupd k row (db_turns db)"
  shows "thread_turn_rows db' t = thread_turn_rows db t"
  using assms by (intro fmap_ext) (auto simp: thread_turn_rows_def)

lemma saveTurnTx_sound:
  assumes wf: "app_wf db" and save: "saveTurnTx u db = Inr db'"
    and id: "tu_ID u \<noteq> []" and thread: "tu_ThreadID u |\<in>| fmdom (db_threads db)" "\<not> deleted_thread db (tu_ThreadID u)"
    and old: "\<And>r. fmlookup (db_turns db) (tu_ID u) = Some r \<Longrightarrow> ur_thread_id r = tu_ThreadID u"
    and retry: "\<And>k r. fmlookup (db_turns db) k = Some r \<Longrightarrow> k \<noteq> tu_ID u \<Longrightarrow> tu_RetryIdempotencyKey u \<noteq> [] \<Longrightarrow> retry_key r = tu_RetryIdempotencyKey u \<Longrightarrow>
      tu_RetryOfTurnID (ur_payload r) = tu_RetryOfTurnID u \<and> ur_thread_id r \<noteq> tu_ThreadID u"
  shows "app_sound db db'"
proof -
  note same = saveTurnTx_lookup(1-6) [OF save]
  note lk = saveTurnTx_lookup(7) [OF save]
  have d: "deleted_thread db' k = deleted_thread db k" for k by (simp add: deleted_thread_def same)
  have to: "turn_of db t k \<Longrightarrow> turn_of db' t k" for t k
    using old by (auto simp: turn_of_def lk)
  have "app_wf db'"
  proof (rule app_wfI)
    show "wf_threads db'" using wf_parts(1) [OF wf] by (simp add: wf_threads_def same)
    show "wf_turns db'"
      unfolding wf_turns_def
    proof (intro allI impI)
      fix k r
      assume r: "fmlookup (db_turns db') k = Some r"
      show "turn_ok_row db' k r"
      proof (cases "k = tu_ID u")
        case True
        with r thread id saveTurnTx_lookup(8,9) [OF save] show ?thesis by (auto simp: lk turn_ok_row_def same d)
      next
        case False
        with r have "fmlookup (db_turns db) k = Some r" by (simp add: lk)
        then have "turn_ok_row db k r" using wf_parts(2) [OF wf] by (simp add: wf_turns_def)
        then show ?thesis by (auto simp: turn_ok_row_def same d)
      qed
    qed
    show "wf_items db'" using wf_parts(3) [OF wf] to by (auto simp: wf_items_def item_ok_def same)
    show "wf_recoveries db'" using wf_parts(4) [OF wf] by (simp add: wf_recoveries_def recovery_ok_def has_item_def same)
    show "wf_forks db'" using wf_parts(5) [OF wf] by (simp add: wf_forks_def fork_bound_def same)
    show "wf_retries db'"
      unfolding wf_retries_def
    proof (intro allI impI)
      fix k k' r r'
      assume a: "fmlookup (db_turns db') k = Some r \<and> fmlookup (db_turns db') k' = Some r' \<and> retry_key r \<noteq> [] \<and> retry_key r = retry_key r'"
      have rk: "retry_key (turn_row_of db u) = tu_RetryIdempotencyKey u" by (simp add: retry_key_def)
      consider "k = tu_ID u" "k' = tu_ID u" | "k = tu_ID u" "k' \<noteq> tu_ID u" | "k \<noteq> tu_ID u" "k' = tu_ID u" | "k \<noteq> tu_ID u" "k' \<noteq> tu_ID u"
        by blast
      then show "tu_RetryOfTurnID (ur_payload r) = tu_RetryOfTurnID (ur_payload r') \<and> (ur_thread_id r = ur_thread_id r' \<longrightarrow> k = k')"
      proof cases
        case 1
        with a show ?thesis by (auto simp: lk)
      next
        case 2
        with a rk retry [of k' r'] show ?thesis by (auto simp: lk)
      next
        case 3
        with a rk retry [of k r] show ?thesis by (auto simp: lk)
      next
        case 4
        with a have "fmlookup (db_turns db) k = Some r \<and> fmlookup (db_turns db) k' = Some r' \<and> retry_key r \<noteq> [] \<and> retry_key r = retry_key r'"
          by (auto simp: lk)
        with wf_parts(6) [OF wf] show ?thesis unfolding wf_retries_def by blast
      qed
    qed
  qed
  moreover have "app_moves db db'"
    unfolding app_moves_def using thread(2) old
    by (auto simp: same d intro!: thread_turn_rows_upd [OF _ _ lk])
  ultimately show ?thesis by (simp add: app_sound_def)
qed

section \<open>Saving an item\<close>

definition new_row :: "app_env \<Rightarrow> app_item \<Rightarrow> app_db \<Rightarrow> item_row" where
  "new_row env i db = (let n = db_item_seq db + 1 + int (ae_gap env) in item_row_of n (i\<lparr>it_Seq := n\<rparr>))"

lemma item_row_of_simps [simp]:
  "ir_seq (item_row_of n i) = n" "ir_id (item_row_of n i) = it_ID i" "ir_thread_id (item_row_of n i) = it_ThreadID i"
  "ir_turn_id (item_row_of n i) = it_TurnID i" "ir_payload (item_row_of n i) = i"
  by (simp_all add: item_row_of_def)

lemma saveItemTx_new:
  assumes "it_ID i \<notin> ir_id ` set (db_items db)" and "it_Seq i = 0" and "it_Payload i \<noteq> RawInvalid"
  shows "saveItemTx env i db = Inr (ir_payload (new_row env i db),
    db\<lparr>db_items := db_items db @ [new_row env i db], db_item_seq := ir_seq (new_row env i db)\<rparr>)"
proof -
  have "\<not> (\<exists>r \<in> set (db_items db). ir_id r = it_ID i)" using assms(1) by (metis image_eqI)
  then show ?thesis using assms(2,3) by (simp add: saveItemTx_def new_row_def Let_def)
qed

lemma saveItemTx_old:
  assumes "it_ID i \<in> ir_id ` set (db_items db)" and "it_Seq i \<noteq> 0" and "it_Payload i \<noteq> RawInvalid"
  shows "saveItemTx env i db = Inr (i, db\<lparr>db_items := map (\<lambda>r. if ir_id r = it_ID i then item_row_of (ir_seq r) i else r) (db_items db)\<rparr>)"
proof -
  have "\<exists>r \<in> set (db_items db). ir_id r = it_ID i" using assms(1) by auto
  then show ?thesis using assms(2,3) by (simp add: saveItemTx_def Let_def)
qed

text \<open>An item update keeps what the row says about the place of the item.\<close>

definition same_place :: "app_item \<Rightarrow> app_item \<Rightarrow> bool" where
  "same_place i j \<longleftrightarrow> it_ID i = it_ID j \<and> it_ThreadID i = it_ThreadID j \<and> it_TurnID i = it_TurnID j \<and> it_Seq i = it_Seq j \<and>
     it_Kind i = it_Kind j"

lemma has_item_append: "has_item db k t u kd \<Longrightarrow> set (db_items db) \<subseteq> set (db_items db') \<Longrightarrow> has_item db' k t u kd"
  by (auto simp: has_item_def)

lemma item_tables_sound:
  assumes wf: "app_wf db"
    and same: "db_threads db' = db_threads db" "db_turns db' = db_turns db" "db_recoveries db' = db_recoveries db" "db_forks db' = db_forks db"
    and items: "wf_items db'" and keep: "\<And>k t u kd. has_item db k t u kd \<Longrightarrow> has_item db' k t u kd"
  shows "app_sound db db'"
proof -
  have d: "deleted_thread db' k = deleted_thread db k" for k by (simp add: deleted_thread_def same)
  have rows: "thread_turn_rows db' k = thread_turn_rows db k" for k unfolding thread_turn_rows_def same ..
  have "app_wf db'"
  proof (rule app_wfI [OF _ _ items])
    show "wf_threads db'" using wf_parts(1) [OF wf] unfolding wf_threads_def same .
    show "wf_turns db'" using wf_parts(2) [OF wf] unfolding wf_turns_def turn_ok_row_def same d .
    show "wf_forks db'" using wf_parts(5) [OF wf] unfolding wf_forks_def fork_bound_def same .
    show "wf_retries db'" using wf_parts(6) [OF wf] unfolding wf_retries_def same .
    show "wf_recoveries db'"
      using wf_parts(4) [OF wf] keep unfolding wf_recoveries_def recovery_ok_def Let_def same by blast
  qed
  then show ?thesis by (simp add: app_sound_def app_moves_def same d rows)
qed

lemma saveItemTx_new_sound:
  assumes wf: "app_wf db" and save: "saveItemTx env i db = Inr (i', db')"
    and new: "it_ID i \<notin> ir_id ` set (db_items db)" "it_Seq i = 0"
    and thread: "it_ThreadID i |\<in>| fmdom (db_threads db)" "it_TurnID i \<noteq> [] \<Longrightarrow> turn_of db (it_ThreadID i) (it_TurnID i)"
  shows "app_sound db db'"
proof -
  have p: "it_Payload i \<noteq> RawInvalid" using save by (auto simp: saveItemTx_def split: if_splits)
  have db': "db' = db\<lparr>db_items := db_items db @ [new_row env i db], db_item_seq := ir_seq (new_row env i db)\<rparr>"
    using save saveItemTx_new [OF new p] by simp
  note w = wf_parts(3) [OF wf, unfolded wf_items_def]
  have r: "ir_id (new_row env i db) = it_ID i" "ir_seq (new_row env i db) = db_item_seq db + 1 + int (ae_gap env)"
    by (simp_all add: new_row_def Let_def)
  have to: "turn_of db' t k = turn_of db t k" for t k by (simp add: turn_of_def db')
  show ?thesis
  proof (rule item_tables_sound [OF wf])
    show "wf_items db'"
      unfolding wf_items_def
    proof (intro conjI ballI)
      show "distinct (map ir_id (db_items db'))" using w new(1) by (auto simp: db' r)
      have "ir_seq x \<le> db_item_seq db" if "x \<in> set (db_items db)" for x using that w by (simp add: item_ok_def)
      then show "sorted_wrt (<) (map ir_seq (db_items db'))" using w by (force simp: db' r sorted_wrt_append)
      show "0 \<le> db_item_seq db'" using w by (simp add: db' r)
      fix x
      assume "x \<in> set (db_items db')"
      then consider "x \<in> set (db_items db)" | "x = new_row env i db" by (auto simp: db')
      then show "item_ok db' x"
      proof cases
        case 1
        then have "item_ok db x" using w by blast
        then show ?thesis by (auto simp: item_ok_def to) (auto simp: db' r)
      next
        case 2
        then show ?thesis using p thread w by (simp add: item_ok_def to new_row_def Let_def) (simp add: db' new_row_def Let_def)
      qed
    qed
    show "has_item db' k t u kd" if "has_item db k t u kd" for k t u kd using that by (rule has_item_append) (auto simp: db')
  qed (simp_all add: db')
qed

lemma saveItemTx_old_sound:
  assumes wf: "app_wf db" and save: "saveItemTx env i db = Inr (i', db')"
    and row: "r \<in> set (db_items db)" and place: "same_place i (ir_payload r)"
  shows "app_sound db db'"
proof -
  note w = wf_parts(3) [OF wf, unfolded wf_items_def]
  have ok: "item_ok db r" using w row by blast
  have p: "it_Payload i \<noteq> RawInvalid" using save by (auto simp: saveItemTx_def split: if_splits)
  have idr: "it_ID i = ir_id r" using ok place by (simp add: item_ok_def same_place_def)
  have sq: "it_Seq i \<noteq> 0" using ok place by (simp add: item_ok_def same_place_def)
  have "it_ID i \<in> ir_id ` set (db_items db)" using row idr by simp
  from trans [OF save [symmetric] saveItemTx_old [OF this sq p, of env]]
  have db': "db' = db\<lparr>db_items := map (\<lambda>r. if ir_id r = it_ID i then item_row_of (ir_seq r) i else r) (db_items db)\<rparr>"
    by (simp only: sum.inject prod.inject)
  have same: "x = r" if "x \<in> set (db_items db)" "ir_id x = it_ID i" for x
    using that row idr w by (metis inj_onD distinct_map)
  have ids: "map ir_id (db_items db') = map ir_id (db_items db)" "map ir_seq (db_items db') = map ir_seq (db_items db)"
    by (auto simp: db' comp_def)
  have to: "turn_of db' t k = turn_of db t k" for t k by (simp add: turn_of_def db')
  show ?thesis
  proof (rule item_tables_sound [OF wf])
    show "wf_items db'"
      unfolding wf_items_def ids
    proof (intro conjI ballI)
      fix x
      assume "x \<in> set (db_items db')"
      then obtain y where y: "y \<in> set (db_items db)" "x = (if ir_id y = it_ID i then item_row_of (ir_seq y) i else y)"
        by (auto simp: db')
      have "item_ok db y" using w y(1) by blast
      moreover have "ir_id y = it_ID i \<Longrightarrow> y = r" using same y(1) by blast
      ultimately show "item_ok db' x"
        using place p y(2) by (auto simp: item_ok_def to same_place_def) (auto simp: db')
    qed (use w in \<open>simp_all add: db'\<close>)
    show "has_item db' k t u kd" if "has_item db k t u kd" for k t u kd
    proof -
      from that obtain x where x: "x \<in> set (db_items db)" "ir_id x = k" "ir_thread_id x = t" "ir_turn_id x = u" "it_Kind (ir_payload x) = kd"
        by (auto simp: has_item_def)
      let ?x = "if ir_id x = it_ID i then item_row_of (ir_seq x) i else x"
      have "?x \<in> set (db_items db')" using x(1) by (auto simp: db')
      moreover have "ir_id ?x = k \<and> ir_thread_id ?x = t \<and> ir_turn_id ?x = u \<and> it_Kind (ir_payload ?x) = kd"
        using x same [OF x(1)] place ok by (auto simp: same_place_def item_ok_def)
      ultimately show ?thesis unfolding has_item_def by blast
    qed
  qed (simp_all add: db')
qed

section \<open>Saving a recovery\<close>

lemma saveFileChangeRecoveryTx_sound:
  assumes wf: "app_wf db"
    and ok: "recovery_ok db (fr_ItemID p) \<lparr>cr_thread_id = fr_ThreadID p, cr_status = fr_Status p, cr_payload = p\<rparr>"
  shows "app_sound db (saveFileChangeRecoveryTx p db)"
proof -
  let ?db = "saveFileChangeRecoveryTx p db"
  have same: "db_threads ?db = db_threads db" "db_turns ?db = db_turns db" "db_items ?db = db_items db"
    "db_item_seq ?db = db_item_seq db" "db_forks ?db = db_forks db"
    by (simp_all add: saveFileChangeRecoveryTx_def)
  have d: "deleted_thread ?db k = deleted_thread db k" for k by (simp add: deleted_thread_def same)
  have rows: "thread_turn_rows ?db k = thread_turn_rows db k" for k unfolding thread_turn_rows_def same ..
  have hi: "has_item ?db k t u kd = has_item db k t u kd" for k t u kd by (simp add: has_item_def same)
  have "app_wf ?db"
  proof (rule app_wfI)
    show "wf_threads ?db" using wf_parts(1) [OF wf] unfolding wf_threads_def same .
    show "wf_turns ?db" using wf_parts(2) [OF wf] unfolding wf_turns_def turn_ok_row_def same d .
    show "wf_items ?db" using wf_parts(3) [OF wf] unfolding wf_items_def item_ok_def turn_of_def same .
    show "wf_forks ?db" using wf_parts(5) [OF wf] unfolding wf_forks_def fork_bound_def same .
    show "wf_retries ?db" using wf_parts(6) [OF wf] unfolding wf_retries_def same .
    show "wf_recoveries ?db"
      using wf_parts(4) [OF wf] ok unfolding wf_recoveries_def recovery_ok_def Let_def hi
      by (auto simp: saveFileChangeRecoveryTx_def split: if_splits)
  qed
  then show ?thesis by (simp add: app_sound_def app_moves_def same d rows)
qed

end
