(* ===== verification/App_Transactions.thy ===== *)
theory App_Transactions
  imports App_Inv
begin

text \<open>
  Every transaction of the application server's store is sound: what it commits, or leaves behind when it panics, has the invariant,
  provided that the identifiers it draws are new.
\<close>

section \<open>Loading\<close>

lemma loadThreadTx_Inr:
  assumes "app_wf db" and "loadThreadTx db k = Inr t"
  obtains r where "fmlookup (db_threads db) k = Some r" and "hr_payload r = t" and "th_ID t = k"
  using assms by (auto simp: loadThreadTx_def app_wf_def wf_threads_def split: option.splits)

lemma loadTurnTx_Inr:
  assumes "app_wf db" and "loadTurnTx db k = Inr u"
  obtains r where "fmlookup (db_turns db) k = Some r" and "ur_payload r = u" and "turn_ok_row db k r" and "tu_ID u = k"
proof -
  from assms(2) obtain r where r: "fmlookup (db_turns db) k = Some r" "ur_payload r = u" by (auto simp: loadTurnTx_def split: option.splits)
  then have "turn_ok_row db k r" using wf_parts(2) [OF assms(1)] by (simp add: wf_turns_def)
  with r that show thesis by (auto simp: turn_ok_row_def)
qed

lemma loadItemTx_Inr:
  assumes "loadItemTx db k = Inr i"
  obtains r where "r \<in> set (db_items db)" and "ir_id r = k" and "ir_payload r = i"
  using assms by (auto simp: loadItemTx_def find_Some_iff split: option.splits) (metis nth_mem)

lemma wf_item:
  assumes "app_wf db" and "r \<in> set (db_items db)"
  shows "item_ok db r"
  using assms by (simp add: app_wf_def wf_items_def)

lemma wf_recovery:
  assumes "app_wf db" and "fmlookup (db_recoveries db) k = Some r"
  shows "recovery_ok db k r"
  using assms by (simp add: app_wf_def wf_recoveries_def)

lemma wf_turn_row:
  assumes "app_wf db" and "fmlookup (db_turns db) k = Some r"
  shows "turn_ok_row db k r"
  using assms by (simp add: app_wf_def wf_turns_def)

lemma not_deleted:
  assumes "fmlookup (db_threads db) k = Some r" and "th_Status (hr_payload r) \<noteq> ThreadDeleted"
  shows "\<not> deleted_thread db k"
  using assms by (simp add: deleted_thread_def)

lemma require_open_not_deleted: "require_open t = Inr () \<Longrightarrow> th_Status t \<noteq> ThreadDeleted"
  by (auto simp: require_open_def)

lemma no_active_turns:
  assumes "ensureThreadHasNoActiveTurnTx db t = Inr ()" and "fmlookup (db_turns db) k = Some r" and "ur_thread_id r = t"
  shows "\<not> active_status (ur_status r)"
  using assms by (auto simp: ensureThreadHasNoActiveTurnTx_def active_status_def fmlookup_dom'_iff split: if_splits)

section \<open>Threads\<close>

lemma CreateThread_sound:
  assumes "app_wf db" and "app_newID env ''thread'' 0 |\<notin>| fmdom (db_threads db)"
  shows "sound_tx db (CreateThread_tx env req db)"
  using assms by (auto simp: CreateThread_tx_def Let_def fmlookup_dom_iff intro!: saveThreadTx_sound)

lemma setThreadStatus_sound:
  assumes "app_wf db"
  shows "sound_tx db (setThreadStatus_tx env k status db)"
  unfolding setThreadStatus_tx_def
proof (rule sound_tx_bind, goal_cases)
  case (1 t)
  from loadThreadTx_Inr [OF assms 1] obtain r where r: "fmlookup (db_threads db) k = Some r" "hr_payload r = t" "th_ID t = k" .
  define t' where "t' = (let t = t\<lparr>th_Status := status, th_UpdatedAt := ae_now env\<rparr> in
    case status of ThreadArchived \<Rightarrow> t\<lparr>th_ArchivedAt := ae_now env\<rparr> | ThreadActive \<Rightarrow> t\<lparr>th_ArchivedAt := zero_time\<rparr>
      | ThreadDeleted \<Rightarrow> t\<lparr>th_DeletedAt := ae_now env\<rparr> | _ \<Rightarrow> t)"
  have t': "th_ID t' = k" "th_Status t' = status" "th_ForkedFromThreadID t' = th_ForkedFromThreadID t"
    using r(3) by (simp_all add: t'_def Let_def split: thread_status.split)
  have "app_sound db (saveThreadTx t' db)"
    if "\<not> (th_Status t = ThreadDeleted \<and> status \<noteq> ThreadDeleted)"
      and "(if status \<in> {ThreadArchived, ThreadDeleted} then ensureThreadHasNoActiveTurnTx db (th_ID t) else Inr ()) = Inr ()"
    using that r t' no_active_turns [of db k] by (intro saveThreadTx_sound [OF assms]) auto
  then show ?case unfolding t'_def by (auto simp: Let_def intro!: sound_tx_bind)
qed

lemma update_thread_sound:
  assumes "app_wf db" and "\<And>t. th_ID (change t) = th_ID t \<and> th_ForkedFromThreadID (change t) = th_ForkedFromThreadID t \<and> th_Status (change t) = th_Status t"
  shows "sound_tx db (update_thread_tx env k change db)"
  unfolding update_thread_tx_def
proof (rule sound_tx_bind, goal_cases)
  case (1 t)
  from loadThreadTx_Inr [OF assms(1) 1] obtain r where r: "fmlookup (db_threads db) k = Some r" "hr_payload r = t" "th_ID t = k" .
  with assms(2) [of t] show ?case by (auto simp: Let_def intro!: saveThreadTx_sound [OF assms(1)])
qed

section \<open>Turns\<close>

lemma set_order_by [simp]: "set (order_by col m) = fmdom' m"
  by (simp add: order_by_def)

lemma set_loadAllTurnsTx: "u \<in> set (loadAllTurnsTx db) \<longleftrightarrow> (\<exists>k r. fmlookup (db_turns db) k = Some r \<and> ur_payload r = u)"
  by (auto simp: loadAllTurnsTx_def in_map_filter fmlookup_dom'_iff)

lemma new_turn_sound:
  assumes wf: "app_wf db" and fresh: "tu_ID u |\<notin>| fmdom (db_turns db)" "tu_ID u \<noteq> []"
    and thread: "fmlookup (db_threads db) (tu_ThreadID u) = Some r" "th_Status (hr_payload r) \<noteq> ThreadDeleted"
    and key: "tu_RetryIdempotencyKey u \<noteq> [] \<Longrightarrow> (\<forall>k r. fmlookup (db_turns db) k = Some r \<longrightarrow> retry_key r \<noteq> tu_RetryIdempotencyKey u)"
  shows "sound_tx db (tx_bind (saveTurnTx u db) (TxDone x))"
proof (rule sound_tx_bind, goal_cases)
  case (1 db')
  have "app_sound db db'"
    using fresh thread key not_deleted [OF thread]
    by (intro saveTurnTx_sound [OF wf 1]) (auto simp: fmdomI fmlookup_dom_iff)
  then show ?case by simp
qed

lemma app_newID_not_Nil [simp]: "app_newID env p n \<noteq> []"
  by (simp add: app_newID_def)

lemma CreateTurn_sound:
  assumes wf: "app_wf db" and fresh: "app_newID env ''turn'' 0 |\<notin>| fmdom (db_turns db)"
  shows "sound_tx db (CreateTurn_tx env req db)"
  unfolding CreateTurn_tx_def
proof (rule sound_tx_bind, rule sound_tx_bind, goal_cases)
  case (1 t x)
  from loadThreadTx_Inr [OF wf 1(1)] obtain r where "fmlookup (db_threads db) (cur_ThreadID req) = Some r" "hr_payload r = t" "th_ID t = cur_ThreadID req" .
  with fresh require_open_not_deleted [of t] 1(2) show ?case
    unfolding Let_def by (intro new_turn_sound [OF wf]) (auto simp: new_turn_def)
qed

text \<open>A turn that is loaded and saved again under its retry key.\<close>

lemma saved_again_sound:
  assumes wf: "app_wf db" and load: "loadTurnTx db k = Inr u" and thread: "loadThreadTx db (tu_ThreadID u) = Inr t" "th_Status t \<noteq> ThreadDeleted"
    and u': "tu_ID u' = tu_ID u" "tu_ThreadID u' = tu_ThreadID u" "tu_RetryIdempotencyKey u' = tu_RetryIdempotencyKey u" "tu_RetryOfTurnID u' = tu_RetryOfTurnID u"
  shows "sound_tx db (tx_bind (saveTurnTx u' db) (TxDone x))"
proof (rule sound_tx_bind, goal_cases)
  case (1 db')
  obtain r where r: "fmlookup (db_turns db) k = Some r" "ur_payload r = u" "turn_ok_row db k r" "tu_ID u = k"
    using loadTurnTx_Inr [OF wf load] .
  obtain h where h: "fmlookup (db_threads db) (tu_ThreadID u) = Some h" "hr_payload h = t" using loadThreadTx_Inr [OF wf thread(1)] .
  have "app_sound db db'"
  proof (rule saveTurnTx_sound [OF wf 1])
    show "tu_ID u' \<noteq> []" "tu_ThreadID u' |\<in>| fmdom (db_threads db)" using r(3,4) h(1) u' by (auto simp: turn_ok_row_def fmdomI)
    show "\<not> deleted_thread db (tu_ThreadID u')" using h thread(2) u' by (simp add: deleted_thread_def)
    show "ur_thread_id x = tu_ThreadID u'" if "fmlookup (db_turns db) (tu_ID u') = Some x" for x
      using that r u' by (simp add: turn_ok_row_def)
    show "tu_RetryOfTurnID (ur_payload x) = tu_RetryOfTurnID u' \<and> ur_thread_id x \<noteq> tu_ThreadID u'"
      if "fmlookup (db_turns db) j = Some x" "j \<noteq> tu_ID u'" "tu_RetryIdempotencyKey u' \<noteq> []" "retry_key x = tu_RetryIdempotencyKey u'" for j x
    proof -
      have "fmlookup (db_turns db) j = Some x \<and> fmlookup (db_turns db) k = Some r \<and> retry_key x \<noteq> [] \<and> retry_key x = retry_key r"
        using that r u' by (auto simp: retry_key_def)
      with wf_parts(6) [OF wf] have "tu_RetryOfTurnID (ur_payload x) = tu_RetryOfTurnID (ur_payload r) \<and> (ur_thread_id x = ur_thread_id r \<longrightarrow> j = k)"
        unfolding wf_retries_def by blast
      with that(2) r u' show ?thesis by (auto simp: turn_ok_row_def)
    qed
  qed
  then show ?case by simp
qed

lemma StartTurn_sound:
  assumes wf: "app_wf db"
  shows "sound_tx db (StartTurn_tx env k db)"
  unfolding StartTurn_tx_def
proof (rule sound_tx_bind, rule sound_tx_bind, rule sound_tx_bind, goal_cases)
  case (1 u t x)
  then show ?case unfolding Let_def using require_open_not_deleted [of t] by (intro saved_again_sound [OF wf 1(1,2)]) auto
qed

lemma CompleteTurn_sound:
  assumes wf: "app_wf db"
  shows "sound_tx db (CompleteTurn_tx env req db)"
  unfolding CompleteTurn_tx_def
proof (rule sound_tx_bind, rule sound_tx_bind, goal_cases)
  case (1 u t)
  show ?case
  proof (cases "th_Status t = ThreadDeleted")
    case False
    show ?thesis unfolding Let_def if_not_P [OF False] by (rule saved_again_sound [OF wf 1(1,2) False]) simp_all
  qed simp
qed

lemma PrepareTurnRetry_sound:
  assumes wf: "app_wf db" and fresh: "app_newID env ''turn'' 0 |\<notin>| fmdom (db_turns db)"
  shows "sound_tx db (PrepareTurnRetry_tx env req db)"
proof -
  define key where "key = TrimSpace (trr_IdempotencyKey req)"
  have step: "sound_tx db (case List.find (\<lambda>u. tu_RetryIdempotencyKey u = key) (loadAllTurnsTx db) of
        Some u \<Rightarrow> if tu_RetryOfTurnID u \<noteq> tu_ID source then TxError ErrRetryIdempotencyConflict
          else TxDone \<lparr>trs_Source = source, trs_Turn = u, trs_Created = False\<rparr> db
      | None \<Rightarrow> (let u = retry_turn env source req key in tx_bind (saveTurnTx u db) (TxDone \<lparr>trs_Source = source, trs_Turn = u, trs_Created = True\<rparr>)))"
    if t: "loadThreadTx db (tu_ThreadID source) = Inr t" "require_open t = Inr ()" for source t
  proof (cases "List.find (\<lambda>u. tu_RetryIdempotencyKey u = key) (loadAllTurnsTx db)")
    case None
    then have k: "\<forall>k r. fmlookup (db_turns db) k = Some r \<longrightarrow> retry_key r \<noteq> key"
      by (auto simp: find_None_iff set_loadAllTurnsTx retry_key_def)
    obtain r where "fmlookup (db_threads db) (tu_ThreadID source) = Some r" "hr_payload r = t" using loadThreadTx_Inr [OF wf t(1)] .
    with k fresh require_open_not_deleted [OF t(2)] None show ?thesis
      unfolding Let_def option.case by (simp, intro new_turn_sound [OF wf]) (auto simp: retry_turn_def new_turn_def)
  next
    case (Some u)
    then show ?thesis using app_sound_refl [OF wf] by simp
  qed
  show ?thesis
    unfolding PrepareTurnRetry_tx_def Let_def key_def [symmetric]
    by (rule sound_tx_bind) (use step [unfolded Let_def] in \<open>auto intro!: sound_tx_bind\<close>)
qed

section \<open>Items and recoveries\<close>

lemma appended_sound:
  assumes wf: "app_wf db" and new: "it_ID i \<notin> ir_id ` set (db_items db)" "it_Seq i = 0"
    and thread: "it_ThreadID i |\<in>| fmdom (db_threads db)" "it_TurnID i \<noteq> [] \<Longrightarrow> turn_of db (it_ThreadID i) (it_TurnID i)"
  shows "sound_tx db (tx_bind (saveItemTx env i db) (\<lambda>(i, db). TxDone i db))"
  by (rule sound_tx_bind) (use saveItemTx_new_sound [OF wf _ new thread] in auto)

lemma AppendItem_sound:
  assumes wf: "app_wf db" and fresh: "app_newID env ''item'' 0 \<notin> ir_id ` set (db_items db)"
  shows "sound_tx db (AppendItem_tx env req db)"
  unfolding AppendItem_tx_def
proof (rule sound_tx_bind, goal_cases)
  case (1 t)
  obtain r where r: "fmlookup (db_threads db) (air_ThreadID req) = Some r" "th_ID t = air_ThreadID req" using loadThreadTx_Inr [OF wf 1] by metis
  have to: "turn_of db (th_ID t) (air_TurnID req)" if "loadTurnTx db (air_TurnID req) = Inr u" "tu_ThreadID u = th_ID t" for u
    using that(2) loadTurnTx_Inr [OF wf that(1)] by (metis turn_of_def turn_ok_row_def)
  show ?case
    using r fresh to
    by (auto intro!: sound_tx_bind [where k = "\<lambda>_. tx_bind _ _"] appended_sound [OF wf] simp: fmdomI split: sum.splits if_splits)
qed

lemma same_place_refl [simp]: "same_place i i"
  by (simp add: same_place_def)

lemma same_place_upd [simp]:
  "same_place (i\<lparr>it_Status := s\<rparr>) j = same_place i j" "same_place (i\<lparr>it_Payload := p\<rparr>) j = same_place i j"
  "same_place (i\<lparr>it_UpdatedAt := t\<rparr>) j = same_place i j"
  by (simp_all add: same_place_def)

lemma UpdateItem_sound:
  assumes wf: "app_wf db"
  shows "sound_tx db (UpdateItem_tx env k status payload db)"
  unfolding UpdateItem_tx_def
proof (rule sound_tx_bind, rule sound_tx_bind, goal_cases)
  case (1 i t)
  obtain r where r: "r \<in> set (db_items db)" "ir_payload r = i" using loadItemTx_Inr [OF 1(1)] by metis
  have *: "sound_tx db (tx_bind (saveItemTx env i' db) (\<lambda>(i, db). TxDone i db))" if "same_place i' (ir_payload r)" for i'
    by (rule sound_tx_bind) (use saveItemTx_old_sound [OF wf _ r(1) that] in auto)
  show ?case by (auto simp: Let_def r(2) split: option.split intro!: *)
qed

lemma has_item_of:
  assumes "r \<in> set (db_items db)" and "ir_id r = k"
  shows "has_item db k (ir_thread_id r) (ir_turn_id r) (it_Kind (ir_payload r))"
  using assms by (auto simp: has_item_def)

lemma SaveFileChangeRecovery_sound:
  assumes wf: "app_wf db" and "fr_Status p = FileChangeRecoveryAvailable"
  shows "sound_tx db (SaveFileChangeRecovery_tx p db)"
  unfolding SaveFileChangeRecovery_tx_def
proof (rule sound_tx_bind, goal_cases)
  case (1 i)
  obtain r where r: "r \<in> set (db_items db)" "ir_id r = fr_ItemID p" "ir_payload r = i" using loadItemTx_Inr [OF 1] .
  have "has_item db (fr_ItemID p) (fr_ThreadID p) (fr_TurnID p) ''fileChange''"
    if "it_ThreadID i = fr_ThreadID p" "it_TurnID i = fr_TurnID p" "it_Kind i = ''fileChange''"
    using has_item_of [OF r(1,2)] wf_item [OF wf r(1)] that r(3) by (simp add: item_ok_def)
  then show ?case using assms(2) by (auto intro!: saveFileChangeRecoveryTx_sound [OF wf] simp: recovery_ok_def Let_def)
qed

lemma loadFileChangeRecoveryTx_Inr:
  assumes "app_wf db" and "loadFileChangeRecoveryTx db k = Inr p"
  obtains r where "fmlookup (db_recoveries db) k = Some r" and "cr_payload r = p" and "recovery_ok db k r" and "fr_ItemID p = k"
proof -
  from assms(2) obtain r where r: "fmlookup (db_recoveries db) k = Some r" "cr_payload r = p"
    by (auto simp: loadFileChangeRecoveryTx_def split: option.splits)
  with wf_recovery [OF assms(1) r(1)] that show thesis by (auto simp: recovery_ok_def Let_def)
qed

lemma PrepareFileChangeRevert_sound:
  assumes wf: "app_wf db"
  shows "sound_tx db (PrepareFileChangeRevert_tx k key tm db)"
  unfolding PrepareFileChangeRevert_tx_def
proof (rule sound_tx_bind, goal_cases)
  case (1 p)
  obtain r where r: "cr_payload r = p" "recovery_ok db k r" "fr_ItemID p = k" using loadFileChangeRecoveryTx_Inr [OF wf 1] by metis
  let ?p = "p\<lparr>fr_Status := FileChangeRecoveryPending, fr_IdempotencyKey := key, fr_UpdatedAt := tm\<rparr>"
  have "app_sound db (saveFileChangeRecoveryTx ?p db)"
    using r by (intro saveFileChangeRecoveryTx_sound [OF wf]) (auto simp: recovery_ok_def Let_def)
  then show ?case using app_sound_refl [OF wf]
    by (auto simp: Let_def split: recovery_status.split intro!: sound_tx_bind)
qed

lemma AbortFileChangeRevert_sound:
  assumes wf: "app_wf db"
  shows "sound_tx db (AbortFileChangeRevert_tx k key tm db)"
  unfolding AbortFileChangeRevert_tx_def
proof (rule sound_tx_bind, goal_cases)
  case (1 p)
  obtain r where r: "cr_payload r = p" "recovery_ok db k r" "fr_ItemID p = k" using loadFileChangeRecoveryTx_Inr [OF wf 1] by metis
  let ?p = "p\<lparr>fr_Status := FileChangeRecoveryAvailable, fr_IdempotencyKey := [], fr_UpdatedAt := tm\<rparr>"
  have "app_sound db (saveFileChangeRecoveryTx ?p db)"
    using r by (intro saveFileChangeRecoveryTx_sound [OF wf]) (auto simp: recovery_ok_def Let_def)
  then show ?case by (simp add: Let_def)
qed

lemma CompleteFileChangeRevert_sound:
  assumes wf: "app_wf db" and fresh: "app_newID env ''item'' 0 \<notin> ir_id ` set (db_items db)"
  shows "sound_tx db (CompleteFileChangeRevert_tx env k key tm db)"
  unfolding CompleteFileChangeRevert_tx_def
proof (rule sound_tx_bind, goal_cases)
  case (1 p)
  obtain r where r: "cr_payload r = p" "recovery_ok db k r" "fr_ItemID p = k" using loadFileChangeRecoveryTx_Inr [OF wf 1] by metis
  from r obtain x where x: "x \<in> set (db_items db)" "ir_id x = k" "ir_thread_id x = fr_ThreadID p" "ir_turn_id x = fr_TurnID p"
    by (auto simp: recovery_ok_def has_item_def Let_def)
  define i where "i = revert_receipt env p tm"
  have i: "it_ID i = app_newID env ''item'' 0" "it_Seq i = 0" "it_ThreadID i = fr_ThreadID p" "it_TurnID i = fr_TurnID p"
    "it_Kind i = ''fileChangeRevert''" "it_Payload i \<noteq> RawInvalid"
    by (simp_all add: i_def revert_receipt_def)
  let ?db = "db\<lparr>db_items := db_items db @ [new_row env i db], db_item_seq := ir_seq (new_row env i db)\<rparr>"
  have save: "saveItemTx env i db = Inr (ir_payload (new_row env i db), ?db)"
    using fresh i by (intro saveItemTx_new) simp_all
  have thread: "fr_ThreadID p |\<in>| fmdom (db_threads db)" "fr_TurnID p \<noteq> [] \<Longrightarrow> turn_of db (fr_ThreadID p) (fr_TurnID p)"
    using wf_item [OF wf x(1)] x by (auto simp: item_ok_def)
  have s1: "app_sound db ?db"
    using fresh i thread by (intro saveItemTx_new_sound [OF wf save]) simp_all
  let ?m = "ir_payload (new_row env i db)"
  let ?p = "p\<lparr>fr_Status := FileChangeRecoveryReverted, fr_MarkerID := it_ID ?m, fr_RevertedAt := tm, fr_UpdatedAt := tm\<rparr>"
  have "has_item ?db k (fr_ThreadID p) (fr_TurnID p) ''fileChange''"
    using r by (auto simp: recovery_ok_def Let_def elim!: has_item_append)
  moreover have "has_item ?db (it_ID ?m) (fr_ThreadID p) (fr_TurnID p) ''fileChangeRevert''" "it_ID ?m \<noteq> []"
    using i by (simp_all add: has_item_def new_row_def Let_def)
  ultimately have "app_sound ?db (saveFileChangeRecoveryTx ?p ?db)"
    using r(3) by (intro saveFileChangeRecoveryTx_sound [OF app_sound_wf [OF s1]]) (simp add: recovery_ok_def Let_def)
  with s1 have "app_sound db (saveFileChangeRecoveryTx ?p ?db)" by (rule app_sound_trans)
  then have fin: "sound_tx db (tx_bind (saveItemTx env (revert_receipt env p tm) db) (\<lambda>(marker, db).
      let r = p\<lparr>fr_Status := FileChangeRecoveryReverted, fr_MarkerID := it_ID marker, fr_RevertedAt := tm, fr_UpdatedAt := tm\<rparr>
      in TxDone \<lparr>rvr_Recovery = r, rvr_Marker = Some marker, rvr_Reused = False\<rparr> (saveFileChangeRecoveryTx r db)))"
    unfolding i_def [symmetric] save tx_bind_def Let_def sum.case prod.case sound_tx.simps .
  have reused: "sound_tx db (tx_bind (loadItemTx db (fr_MarkerID p)) (\<lambda>m. TxDone \<lparr>rvr_Recovery = p, rvr_Marker = Some m, rvr_Reused = True\<rparr> db))"
    by (rule sound_tx_bind) (simp add: app_sound_refl [OF wf])
  show ?case using fin reused by (simp split: if_split)
qed

section \<open>Terminals\<close>

lemma thread_turn_rows_cong: "db_turns db' = db_turns db \<Longrightarrow> thread_turn_rows db' k = thread_turn_rows db k"
  by (simp only: thread_turn_rows_def)

lemma terminals_sound:
  assumes wf: "app_wf db"
  shows "app_sound db (db\<lparr>db_terminals := x\<rparr>)"
proof -
  let ?db = "db\<lparr>db_terminals := x\<rparr>"
  have d: "deleted_thread ?db k = deleted_thread db k" "turn_of ?db t k = turn_of db t k"
    "has_item ?db k t u kd = has_item db k t u kd" for k t u kd
    by (simp_all add: deleted_thread_def turn_of_def has_item_def)
  have rows: "thread_turn_rows ?db k = thread_turn_rows db k" for k by (rule thread_turn_rows_cong) simp
  have same: "db_threads ?db = db_threads db" "db_turns ?db = db_turns db" "db_items ?db = db_items db" "db_item_seq ?db = db_item_seq db"
    "db_recoveries ?db = db_recoveries db" "db_forks ?db = db_forks db" by simp_all
  have "app_wf ?db"
    using wf unfolding app_wf_def wf_threads_def wf_turns_def wf_items_def wf_recoveries_def wf_forks_def wf_retries_def
      turn_ok_row_def item_ok_def recovery_ok_def fork_bound_def d same .
  then show ?thesis by (simp add: app_sound_def app_moves_def d rows)
qed

lemma fold_terminals: "\<exists>x. fold saveTerminalOwnershipTx rs db = db\<lparr>db_terminals := x\<rparr>"
proof (induction rs arbitrary: db)
  case Nil
  have "db = db\<lparr>db_terminals := db_terminals db\<rparr>" by simp
  then show ?case by (metis fold_simps(1))
next
  case (Cons r rs)
  then obtain x where "fold saveTerminalOwnershipTx rs (saveTerminalOwnershipTx r db) = (saveTerminalOwnershipTx r db)\<lparr>db_terminals := x\<rparr>" by blast
  moreover obtain y where "saveTerminalOwnershipTx r db = db\<lparr>db_terminals := y\<rparr>" by (metis saveTerminalOwnershipTx_def)
  ultimately have "fold saveTerminalOwnershipTx (r # rs) db = db\<lparr>db_terminals := x\<rparr>" by simp
  then show ?case by blast
qed

lemma terminal_ops_sound:
  assumes wf: "app_wf db"
  shows "sound_tx db (SaveTerminalOwnership_tx r db)" "sound_tx db (RecoverTerminalOwnership_tx key live tm db)"
proof -
  show "sound_tx db (SaveTerminalOwnership_tx r db)"
    using terminals_sound [OF wf] app_sound_refl [OF wf] by (auto simp: SaveTerminalOwnership_tx_def saveTerminalOwnershipTx_def split: option.split)
  obtain x where "fold saveTerminalOwnershipTx (map (lost_record tm) (orphaned_records db key live)) db = db\<lparr>db_terminals := x\<rparr>"
    using fold_terminals by blast
  then show "sound_tx db (RecoverTerminalOwnership_tx key live tm db)"
    using terminals_sound [OF wf] by (simp add: RecoverTerminalOwnership_tx_def Let_def)
qed

end
