(* ===== verification/App_Rewrites.thy ===== *)
theory App_Rewrites
  imports App_Transactions
begin

text \<open>
  The transactions that add history are sound: copying a thread and recovering orphaned turns.
\<close>

section \<open>Copying turns\<close>

lemma thread_turns_in:
  assumes "u \<in> set (loadTurnsForThreadTx db t)"
  obtains k r where "fmlookup (db_turns db) k = Some r" and "ur_thread_id r = t" and "ur_payload r = u"
  using assms by (auto simp: loadTurnsForThreadTx_def thread_turn_rows_def Let_def in_map_filter split: if_splits)

lemma thread_turns_iff:
  "u \<in> set (loadTurnsForThreadTx db t) \<longleftrightarrow> (\<exists>k r. fmlookup (db_turns db) k = Some r \<and> ur_thread_id r = t \<and> ur_payload r = u)"
  by (auto simp: loadTurnsForThreadTx_def thread_turn_rows_def Let_def in_map_filter fmlookup_dom'_iff split: if_splits) blast+

lemma distinct_order_by [simp]: "distinct (order_by col m)"
  by (simp add: order_by_def)

lemma distinct_thread_turns:
  assumes "wf_turns db"
  shows "distinct (map tu_ID (loadTurnsForThreadTx db t))"
proof -
  let ?m = "thread_turn_rows db t"
  have id: "tu_ID (ur_payload r) = k" if "fmlookup ?m k = Some r" for k r
    using that assms by (auto simp: thread_turn_rows_def wf_turns_def turn_ok_row_def split: if_splits)
  have "map tu_ID (List.map_filter (\<lambda>k. map_option ur_payload (fmlookup ?m k)) ks) = filter (\<lambda>k. fmlookup ?m k \<noteq> None) ks" for ks
    by (induction ks) (auto simp: map_filter_simps id split: option.split)
  then show ?thesis by (simp add: loadTurnsForThreadTx_def Let_def)
qed

text \<open>What the loop needs of the turns that are still to be copied.\<close>

definition copyable :: "app_db \<Rightarrow> string \<Rightarrow> app_turn list \<Rightarrow> bool" where
  "copyable db forkID us \<longleftrightarrow> distinct (filter (\<lambda>k. k \<noteq> []) (map tu_RetryIdempotencyKey us)) \<and>
     (\<forall>u \<in> set us. tu_RetryIdempotencyKey u \<noteq> [] \<longrightarrow> (\<forall>k r. fmlookup (db_turns db) k = Some r \<longrightarrow> retry_key r = tu_RetryIdempotencyKey u \<longrightarrow>
        tu_RetryOfTurnID (ur_payload r) = tu_RetryOfTurnID u \<and> ur_thread_id r \<noteq> forkID))"

lemma copyable_thread:
  assumes wf: "app_wf db" and new: "\<And>k r. fmlookup (db_turns db) k = Some r \<Longrightarrow> ur_thread_id r \<noteq> forkID"
  shows "copyable db forkID (loadTurnsForThreadTx db t)"
proof -
  let ?us = "loadTurnsForThreadTx db t"
  have same: "tu_RetryOfTurnID (ur_payload r) = tu_RetryOfTurnID (ur_payload r') \<and> (ur_thread_id r = ur_thread_id r' \<longrightarrow> k = k')"
    if "fmlookup (db_turns db) k = Some r" "fmlookup (db_turns db) k' = Some r'" "retry_key r \<noteq> []" "retry_key r = retry_key r'" for k k' r r'
    using that wf_parts(6) [OF wf] unfolding wf_retries_def by blast
  have inj: "u = v" if uv: "u \<in> set ?us" "v \<in> set ?us" "tu_RetryIdempotencyKey u \<noteq> []" "tu_RetryIdempotencyKey u = tu_RetryIdempotencyKey v" for u v
  proof -
    obtain k r where r: "fmlookup (db_turns db) k = Some r" "ur_thread_id r = t" "ur_payload r = u" using thread_turns_in [OF uv(1)] .
    obtain k' r' where r': "fmlookup (db_turns db) k' = Some r'" "ur_thread_id r' = t" "ur_payload r' = v" using thread_turns_in [OF uv(2)] .
    from same [OF r(1) r'(1)] uv r r' have "k = k'" by (auto simp: retry_key_def)
    with r r' show ?thesis by auto
  qed
  have "distinct ?us" using distinct_thread_turns [OF wf_parts(2) [OF wf]] by (simp add: distinct_map)
  then have "distinct (map tu_RetryIdempotencyKey (filter (\<lambda>u. tu_RetryIdempotencyKey u \<noteq> []) ?us))"
    by (auto simp: distinct_map inj_on_def intro: inj)
  moreover have "tu_RetryOfTurnID (ur_payload r) = tu_RetryOfTurnID u \<and> ur_thread_id r \<noteq> forkID"
    if u: "u \<in> set ?us" "tu_RetryIdempotencyKey u \<noteq> []" "fmlookup (db_turns db) k = Some r" "retry_key r = tu_RetryIdempotencyKey u" for u k r
  proof -
    obtain k' r' where r': "fmlookup (db_turns db) k' = Some r'" "ur_payload r' = u" using thread_turns_in [OF u(1)] by metis
    from same [OF u(3) r'(1)] u r' new [OF u(3)] show ?thesis by (auto simp: retry_key_def)
  qed
  ultimately show ?thesis by (auto simp: copyable_def filter_map comp_def)
qed

lemma copy_turns_sound:
  assumes "app_wf db" and "copy_turns env forkID n us db = Inr db'"
    and "forkID |\<in>| fmdom (db_threads db)" and "\<not> deleted_thread db forkID" and "copyable db forkID us"
    and "distinct (map (app_newID env ''turn'') [n..<n + length us])"
    and "\<And>m. n \<le> m \<Longrightarrow> m < n + length us \<Longrightarrow> app_newID env ''turn'' m |\<notin>| fmdom (db_turns db)"
  shows "app_sound db db' \<and> db_threads db' = db_threads db \<and> db_items db' = db_items db \<and> db_item_seq db' = db_item_seq db \<and>
    db_forks db' = db_forks db \<and> db_recoveries db' = db_recoveries db \<and>
    (\<forall>m. n \<le> m \<and> m < n + length us \<longrightarrow> turn_of db' forkID (app_newID env ''turn'' m)) \<and>
    (\<forall>k r. fmlookup (db_turns db) k = Some r \<longrightarrow> fmlookup (db_turns db') k = Some r)"
  using assms
proof (induction us arbitrary: n db)
  case Nil
  then show ?case by (auto simp: app_sound_refl)
next
  case (Cons u us)
  let ?u = "forked_turn env forkID n u"
  obtain db1 where save: "saveTurnTx ?u db = Inr db1" and rest: "copy_turns env forkID (Suc n) us db1 = Inr db'"
    using Cons.prems(2) by (auto split: sum.splits)
  note same = saveTurnTx_lookup(1-5) [OF save] and lk = saveTurnTx_lookup(7) [OF save]
  have u: "tu_ID ?u = app_newID env ''turn'' n" "tu_ThreadID ?u = forkID" "tu_RetryIdempotencyKey ?u = tu_RetryIdempotencyKey u"
    "tu_RetryOfTurnID ?u = tu_RetryOfTurnID u" by (simp_all add: forked_turn_def)
  have fresh: "app_newID env ''turn'' n |\<notin>| fmdom (db_turns db)" using Cons.prems(7) [of n] by simp
  have s1: "app_sound db db1"
  proof (rule saveTurnTx_sound [OF Cons.prems(1) save])
    show "tu_RetryOfTurnID (ur_payload r) = tu_RetryOfTurnID ?u \<and> ur_thread_id r \<noteq> tu_ThreadID ?u"
      if "fmlookup (db_turns db) k = Some r" "tu_RetryIdempotencyKey ?u \<noteq> []" "retry_key r = tu_RetryIdempotencyKey ?u" for k r
      using Cons.prems(5) that unfolding u copyable_def by auto
  qed (use Cons.prems(3,4) fresh in \<open>auto simp: u fmlookup_dom_iff\<close>)
  have c: "copyable db1 forkID us"
    using Cons.prems(5) unfolding copyable_def lk u by (auto simp: retry_key_def u split: if_splits)
  have d: "distinct (map (app_newID env ''turn'') [n..<n + length (u # us)])" by (rule Cons.prems(6))
  have up: "[n..<n + length (u # us)] = n # [Suc n..<Suc n + length us]" using upt_conv_Cons [of n "n + length (u # us)"] by simp
  have ne: "app_newID env ''turn'' m \<noteq> app_newID env ''turn'' n" if "Suc n \<le> m" "m < Suc n + length us" for m
    using d that unfolding up by (simp del: upt_Suc) (metis atLeastLessThan_iff image_eqI)
  have "app_sound db1 db' \<and> db_threads db' = db_threads db1 \<and> db_items db' = db_items db1 \<and> db_item_seq db' = db_item_seq db1 \<and>
    db_forks db' = db_forks db1 \<and> db_recoveries db' = db_recoveries db1 \<and>
    (\<forall>m. Suc n \<le> m \<and> m < Suc n + length us \<longrightarrow> turn_of db' forkID (app_newID env ''turn'' m)) \<and>
    (\<forall>k r. fmlookup (db_turns db1) k = Some r \<longrightarrow> fmlookup (db_turns db') k = Some r)"
  proof (rule Cons.IH [OF app_sound_wf [OF s1] rest _ _ c])
    show "forkID |\<in>| fmdom (db_threads db1)" "\<not> deleted_thread db1 forkID" using Cons.prems(3,4) by (simp_all add: same deleted_thread_def)
    show "distinct (map (app_newID env ''turn'') [Suc n..<Suc n + length us])" using d unfolding up by simp
    show "app_newID env ''turn'' m |\<notin>| fmdom (db_turns db1)" if "Suc n \<le> m" "m < Suc n + length us" for m
      using Cons.prems(7) [of m] ne [OF that] that by (simp add: lk u)
  qed
  note ih = this
  have "fmlookup (db_turns db1) (app_newID env ''turn'' n) = Some (turn_row_of db ?u)" by (simp add: lk u)
  with ih have "turn_of db' forkID (app_newID env ''turn'' n)" by (auto simp: turn_of_def u)
  then have "\<forall>m. n \<le> m \<and> m < n + length (u # us) \<longrightarrow> turn_of db' forkID (app_newID env ''turn'' m)"
    using ih by (metis Suc_leI add_Suc_right add_Suc_shift le_neq_implies_less length_Cons)
  moreover have "\<forall>k r. fmlookup (db_turns db) k = Some r \<longrightarrow> fmlookup (db_turns db') k = Some r"
  proof (intro allI impI)
    fix k r
    assume r: "fmlookup (db_turns db) k = Some r"
    with fresh have "k \<noteq> app_newID env ''turn'' n" by (auto simp: fmlookup_dom_iff)
    with r have "fmlookup (db_turns db1) k = Some r" by (simp add: lk u)
    with ih show "fmlookup (db_turns db') k = Some r" by blast
  qed
  ultimately show ?case using ih s1 same by (auto intro: app_sound_trans)
qed

section \<open>Copying items\<close>

lemma id_of_map2:
  assumes "distinct (map key xs)" and "n < length xs"
  shows "id_of (map2 (\<lambda>m x. (key x, f m)) [0..<length xs] xs) (key (xs ! n)) = f n"
proof -
  let ?m = "map2 (\<lambda>m x. (key x, f m)) [0..<length xs] xs"
  have "map fst ?m = map key xs" by (intro nth_equalityI) simp_all
  then have "distinct (map fst (rev ?m))" using assms(1) by (simp add: rev_map [symmetric])
  moreover have "?m ! n \<in> set (rev ?m)" using nth_mem [of n ?m] assms(2) by simp
  then have "(key (xs ! n), f n) \<in> set (rev ?m)" using assms(2) by simp
  ultimately have "map_of (rev ?m) (key (xs ! n)) = Some (f n)" by (rule map_of_is_SomeI)
  then show ?thesis by (simp add: id_of_def)
qed

lemma id_of_in:
  assumes "id_of (map2 (\<lambda>m x. (key x, f m)) [0..<length xs] xs) k \<noteq> []"
  shows "\<exists>n < length xs. id_of (map2 (\<lambda>m x. (key x, f m)) [0..<length xs] xs) k = f n"
proof -
  let ?m = "map2 (\<lambda>m x. (key x, f m)) [0..<length xs] xs"
  obtain v where v: "map_of (rev ?m) k = Some v" using assms by (auto simp: id_of_def split: option.splits)
  then have "(k, v) \<in> set ?m" using map_of_SomeD by fastforce
  then obtain n where "n < length xs" "v = f n" by (auto simp: set_zip)
  with v show ?thesis by (auto simp: id_of_def)
qed

lemma forked_item_Some:
  assumes "forked_item env forkID tm im i = Some i'"
  shows "it_ID i' = id_of im (it_ID i)" "it_ThreadID i' = forkID" "it_TurnID i' = id_of tm (it_TurnID i)" "it_Seq i' = 0" "it_Kind i' = it_Kind i"
  using assms by (auto simp: forked_item_def Let_def)

lemma copy_items_sound:
  assumes "app_wf db" and "forkID |\<in>| fmdom (db_threads db)"
    and "\<And>k. id_of tm k \<noteq> [] \<Longrightarrow> turn_of db forkID (id_of tm k)"
    and "distinct (map (\<lambda>i. id_of im (it_ID i)) is)"
    and "\<And>i. i \<in> set is \<Longrightarrow> id_of im (it_ID i) \<notin> ir_id ` set (db_items db)"
  shows "sound_tx db (copy_items env forkID tm im is db)"
  using assms
proof (induction "is" arbitrary: db)
  case Nil
  then show ?case by (simp add: app_sound_refl)
next
  case (Cons i "is")
  show ?case
  proof (cases "forked_item env forkID tm im i")
    case None
    then show ?thesis using Cons.prems(1) by (simp add: app_sound_refl)
  next
    case (Some i')
    note f = forked_item_Some [OF Some]
    have "sound_tx db (copy_items env forkID tm im is db')" if save: "saveItemTx env i' db = Inr (x, db')" for x db'
    proof -
      have p: "it_Payload i' \<noteq> RawInvalid" using save by (auto simp: saveItemTx_def split: if_splits)
      have new: "it_ID i' \<notin> ir_id ` set (db_items db)" "it_Seq i' = 0" using Cons.prems(5) [of i] f by simp_all
      have db': "db' = db\<lparr>db_items := db_items db @ [new_row env i' db], db_item_seq := ir_seq (new_row env i' db)\<rparr>"
        using save saveItemTx_new [OF new p] by simp
      have s: "app_sound db db'"
        by (rule saveItemTx_new_sound [OF Cons.prems(1) save new]) (use f Cons.prems(2,3) in auto)
      have id: "ir_id (new_row env i' db) = id_of im (it_ID i)" by (simp add: new_row_def Let_def f)
      have "sound_tx db' (copy_items env forkID tm im is db')"
      proof (rule Cons.IH [OF app_sound_wf [OF s]])
        show "forkID |\<in>| fmdom (db_threads db')" using Cons.prems(2) by (simp add: db')
        show "turn_of db' forkID (id_of tm k)" if "id_of tm k \<noteq> []" for k using Cons.prems(3) [OF that] by (simp add: db' turn_of_def)
        show "distinct (map (\<lambda>i. id_of im (it_ID i)) is)" using Cons.prems(4) by simp
        show "id_of im (it_ID j) \<notin> ir_id ` set (db_items db')" if "j \<in> set is" for j
        proof -
          have "id_of im (it_ID i) \<notin> (\<lambda>i. id_of im (it_ID i)) ` set is" using Cons.prems(4) by simp
          then have "id_of im (it_ID j) \<noteq> id_of im (it_ID i)" using that by (metis (no_types, lifting) image_eqI)
          then show ?thesis using Cons.prems(5) [of j] that by (simp add: db' id)
        qed
      qed
      with s show ?thesis by (rule sound_tx_from)
    qed
    then show ?thesis using Some by (auto intro!: sound_tx_bind)
  qed
qed

text \<open>The identifiers that a transaction may draw are new and differ.\<close>

definition new_ids :: "app_env \<Rightarrow> app_db \<Rightarrow> bool" where
  "new_ids env db \<longleftrightarrow>
     (let ts = map (app_newID env ''turn'') [0..<Suc (fcard (fmdom (db_turns db)))];
          is = map (app_newID env ''item'') [0..<Suc (length (db_items db) + fcard (fmdom (db_turns db)))]
      in app_newID env ''thread'' 0 |\<notin>| fmdom (db_threads db) \<and> distinct ts \<and> distinct is \<and>
         (\<forall>k \<in> set ts. k |\<notin>| fmdom (db_turns db)) \<and> (\<forall>k \<in> set is. k \<notin> set (map ir_id (db_items db))))"

lemma new_idsD:
  assumes "new_ids env db"
  shows "app_newID env ''thread'' 0 |\<notin>| fmdom (db_threads db)"
    and "\<And>n. n \<le> fcard (fmdom (db_turns db)) \<Longrightarrow> app_newID env ''turn'' n |\<notin>| fmdom (db_turns db)"
    and "\<And>n. n \<le> length (db_items db) + fcard (fmdom (db_turns db)) \<Longrightarrow> app_newID env ''item'' n \<notin> ir_id ` set (db_items db)"
    and "inj_on (app_newID env ''turn'') {0..fcard (fmdom (db_turns db))}"
    and "inj_on (app_newID env ''item'') {0..length (db_items db) + fcard (fmdom (db_turns db))}"
proof -
  have u: "set [0..<Suc n] = {0..n}" for n by auto
  show "app_newID env ''thread'' 0 |\<notin>| fmdom (db_threads db)"
    "inj_on (app_newID env ''turn'') {0..fcard (fmdom (db_turns db))}"
    "inj_on (app_newID env ''item'') {0..length (db_items db) + fcard (fmdom (db_turns db))}"
    using assms unfolding new_ids_def Let_def distinct_map u by blast+
  show "app_newID env ''turn'' n |\<notin>| fmdom (db_turns db)" if "n \<le> fcard (fmdom (db_turns db))" for n
    using assms that unfolding new_ids_def Let_def set_map u by auto
  show "app_newID env ''item'' n \<notin> ir_id ` set (db_items db)" if "n \<le> length (db_items db) + fcard (fmdom (db_turns db))" for n
    using assms that unfolding new_ids_def Let_def set_map u by auto
qed

lemma distinct_ids:
  assumes "inj_on f {0..N}" and "n + k \<le> Suc N"
  shows "distinct (map f [n..<n + k])"
  unfolding distinct_map using assms by (auto intro: inj_on_subset)

lemma length_thread_turns: "wf_turns db \<Longrightarrow> length (loadTurnsForThreadTx db t) \<le> fcard (fmdom (db_turns db))"
proof -
  assume wf: "wf_turns db"
  have "set (map tu_ID (loadTurnsForThreadTx db t)) \<subseteq> fmdom' (db_turns db)"
    using wf by (force simp: thread_turns_iff wf_turns_def turn_ok_row_def fmlookup_dom'_iff)
  then have "card (set (map tu_ID (loadTurnsForThreadTx db t))) \<le> card (fmdom' (db_turns db))" by (simp add: card_mono)
  then show ?thesis using distinct_card [OF distinct_thread_turns [OF wf, of t]] by (simp add: fcard.rep_eq fmdom'_alt_def)
qed

lemma copyThreadHistoryTx_sound:
  assumes wf: "app_wf db" and new: "forkID |\<in>| fmdom (db_threads db)" "\<not> deleted_thread db forkID"
    "\<And>k r. fmlookup (db_turns db) k = Some r \<Longrightarrow> ur_thread_id r \<noteq> forkID"
    and ids: "new_ids env db0" "db_turns db0 = db_turns db" "db_items db0 = db_items db"
  shows "sound_tx db (copyThreadHistoryTx env sourceID forkID db)"
proof -
  note ids = new_idsD(2-) [OF ids(1), unfolded ids(2,3)]
  let ?us = "loadTurnsForThreadTx db sourceID"
  let ?is = "thread_items db sourceID"
  note lus = length_thread_turns [OF wf_parts(2) [OF wf], of sourceID]
  have "sound_tx db (copy_items env forkID (turn_map env ?us) (item_map env (thread_items db1 sourceID)) (thread_items db1 sourceID) db1)"
    if copy: "copy_turns env forkID 0 ?us db = Inr db1" for db1
  proof -
    have c: "app_sound db db1 \<and> db_threads db1 = db_threads db \<and> db_items db1 = db_items db \<and> db_item_seq db1 = db_item_seq db \<and>
      db_forks db1 = db_forks db \<and> db_recoveries db1 = db_recoveries db \<and>
      (\<forall>m. 0 \<le> m \<and> m < 0 + length ?us \<longrightarrow> turn_of db1 forkID (app_newID env ''turn'' m)) \<and>
      (\<forall>k r. fmlookup (db_turns db) k = Some r \<longrightarrow> fmlookup (db_turns db1) k = Some r)"
      by (rule copy_turns_sound [OF wf copy new(1,2) copyable_thread [OF wf new(3)] distinct_ids [OF ids(3)]])
        (use lus ids(1) in auto)
    have items: "thread_items db1 sourceID = ?is" using c by (simp add: thread_items_def)
    have li: "length ?is \<le> length (db_items db)" by (simp add: thread_items_def)
    have "it_ID (ir_payload r) = ir_id r" if "r \<in> set (db_items db)" for r using wf_item [OF wf that] by (simp add: item_ok_def)
    then have "map it_ID ?is = map ir_id (filter (\<lambda>r. ir_thread_id r = sourceID) (db_items db))" by (simp add: thread_items_def)
    then have dis: "distinct (map it_ID ?is)" using wf_parts(3) [OF wf] by (simp add: wf_items_def distinct_map_filter)
    have im: "id_of (item_map env ?is) (it_ID (?is ! n)) = app_newID env ''item'' n" if "n < length ?is" for n
      unfolding item_map_def using id_of_map2 [OF dis that] .
    have ims: "map (\<lambda>i. id_of (item_map env ?is) (it_ID i)) ?is = map (app_newID env ''item'') [0..<0 + length ?is]"
      by (intro nth_equalityI) (simp_all add: im)
    have "sound_tx db1 (copy_items env forkID (turn_map env ?us) (item_map env ?is) ?is db1)"
    proof (rule copy_items_sound)
      show "app_wf db1" "forkID |\<in>| fmdom (db_threads db1)" using c new(1) by (simp_all add: app_sound_def)
      show "turn_of db1 forkID (id_of (turn_map env ?us) k)" if "id_of (turn_map env ?us) k \<noteq> []" for k
        using id_of_in [OF that [unfolded turn_map_def]] c unfolding turn_map_def by auto
      show "distinct (map (\<lambda>i. id_of (item_map env ?is) (it_ID i)) ?is)" unfolding ims by (rule distinct_ids [OF ids(4)]) (use li in simp)
      show "id_of (item_map env ?is) (it_ID i) \<notin> ir_id ` set (db_items db1)" if i: "i \<in> set ?is" for i
      proof -
        obtain n where "n < length ?is" "i = ?is ! n" using i by (metis in_set_conv_nth)
        with im [of n] ids(2) [of n] c li show ?thesis by auto
      qed
    qed
    with c show ?thesis unfolding items by (blast intro: sound_tx_from)
  qed
  then show ?thesis unfolding copyThreadHistoryTx_def Let_def by (intro sound_tx_bind)
qed

section \<open>Forks\<close>

lemma saveItemTx_frame:
  assumes "saveItemTx env i db = Inr (i', db')"
  shows "db_threads db' = db_threads db" "db_turns db' = db_turns db" "db_forks db' = db_forks db" "db_recoveries db' = db_recoveries db"
    "db_terminals db' = db_terminals db"
  using assms by (auto simp: saveItemTx_def Let_def split: if_splits)

text \<open>Threads, forks and recoveries are left alone.\<close>

definition kept_tables :: "app_db \<Rightarrow> app_db \<Rightarrow> bool" where
  "kept_tables db db' \<longleftrightarrow> db_threads db' = db_threads db \<and> db_forks db' = db_forks db \<and> db_recoveries db' = db_recoveries db"

lemma kept_tables_refl [simp]: "kept_tables db db"
  by (simp add: kept_tables_def)

lemma kept_tables_trans: "kept_tables db db' \<Longrightarrow> kept_tables db' db'' \<Longrightarrow> kept_tables db db''"
  by (simp add: kept_tables_def)

lemma saves_keep_tables:
  "saveTurnTx u db = Inr db' \<Longrightarrow> kept_tables db db'" "saveItemTx env i db = Inr (i', db') \<Longrightarrow> kept_tables db db'"
  by (auto simp: kept_tables_def saveTurnTx_def saveItemTx_def Let_def split: if_splits)

lemma copy_turns_frame: "copy_turns env forkID n us db = Inr db' \<Longrightarrow> kept_tables db db'"
  by (induction us arbitrary: n db) (auto split: sum.splits intro: kept_tables_trans saves_keep_tables)

fun tx_keeps :: "app_db \<Rightarrow> 'a tx_result \<Rightarrow> bool" where
  "tx_keeps db (TxError e) \<longleftrightarrow> True"
| "tx_keeps db (TxPanic db') \<longleftrightarrow> kept_tables db db'"
| "tx_keeps db (TxDone x db') \<longleftrightarrow> kept_tables db db'"

lemma tx_keeps_from: "kept_tables db db1 \<Longrightarrow> tx_keeps db1 r \<Longrightarrow> tx_keeps db r"
  by (cases r) (auto intro: kept_tables_trans)

lemma tx_keeps_bind: "(\<And>x. r = Inr x \<Longrightarrow> tx_keeps db (k x)) \<Longrightarrow> tx_keeps db (tx_bind r k)"
  by (cases r) (auto simp: tx_bind_def)

lemma copy_items_frame: "tx_keeps db (copy_items env forkID tm im is db)"
proof (induction "is" arbitrary: db)
  case (Cons i "is")
  show ?case
    by (auto split: option.split intro!: tx_keeps_bind intro: tx_keeps_from [OF saves_keep_tables(2) Cons.IH])
qed simp

lemma copyThreadHistoryTx_frame: "tx_keeps db (copyThreadHistoryTx env sourceID forkID db)"
  unfolding copyThreadHistoryTx_def Let_def
  by (rule tx_keeps_bind) (blast intro: tx_keeps_from copy_turns_frame copy_items_frame)

lemma forked_history_sound:
  assumes wf: "app_wf db" and ids: "new_ids env db" and id: "th_ID fork = app_newID env ''thread'' 0" "th_Status fork = ThreadActive"
  shows "app_sound db (saveThreadTx fork db)" "sound_tx db (copyThreadHistoryTx env sourceID (th_ID fork) (saveThreadTx fork db))"
proof -
  have new: "fmlookup (db_threads db) (th_ID fork) = None" using new_idsD(1) [OF ids] id by (simp add: fmdom_notD)
  then show s: "app_sound db (saveThreadTx fork db)" using id(2) by (intro saveThreadTx_sound [OF wf]) auto
  let ?db = "saveThreadTx fork db"
  have "sound_tx ?db (copyThreadHistoryTx env sourceID (th_ID fork) ?db)"
  proof (rule copyThreadHistoryTx_sound [OF app_sound_wf [OF s] _ _ _ ids])
    show "th_ID fork |\<in>| fmdom (db_threads ?db)" by (simp add: saveThreadTx_def)
    show "\<not> deleted_thread ?db (th_ID fork)" using id(2) by (simp add: saveThreadTx_def deleted_thread_def)
    show "ur_thread_id r \<noteq> th_ID fork" if "fmlookup (db_turns ?db) k = Some r" for k r
      using that wf_turn_row [OF wf, of k r] new by (auto simp: saveThreadTx_def turn_ok_row_def fmlookup_dom_iff)
  qed (simp_all add: saveThreadTx_def)
  with s show "sound_tx db (copyThreadHistoryTx env sourceID (th_ID fork) ?db)" by (rule sound_tx_from)
qed

lemma fork_of_simps [simp]:
  "th_ID (fork_of env source title md) = app_newID env ''thread'' 0" "th_Status (fork_of env source title md) = ThreadActive"
  "th_ForkedFromThreadID (fork_of env source title md) = th_ID source"
  by (simp_all add: fork_of_def)

lemma ForkThread_sound:
  assumes wf: "app_wf db" and ids: "new_ids env db"
  shows "sound_tx db (ForkThread_tx env req db)"
  unfolding ForkThread_tx_def
proof (rule sound_tx_bind, goal_cases)
  case (1 source)
  let ?fork = "fork_of env source (if ftr_Title req = [] then th_Title source else ftr_Title req) (mergeMaps (th_Metadata source) (ftr_Metadata req))"
  note s = forked_history_sound [OF wf ids fork_of_simps(1,2)]
  have "sound_tx db (tx_then (if ftr_IncludeItems req then copyThreadHistoryTx env (th_ID source) (th_ID ?fork) (saveThreadTx ?fork db)
      else TxDone () (saveThreadTx ?fork db)) (\<lambda>_. TxDone ?fork))"
    by (rule sound_tx_then) (use s in \<open>auto split: if_splits\<close>)
  then show ?case unfolding Let_def by (auto intro!: sound_tx_bind)
qed

lemma bind_fork_sound:
  assumes wf: "app_wf db" and new: "fmlookup (db_forks db) key = None" and b: "fork_bound db s f"
  shows "app_sound db (db\<lparr>db_forks := fmupd key (s, f) (db_forks db)\<rparr>)"
proof -
  let ?db = "db\<lparr>db_forks := fmupd key (s, f) (db_forks db)\<rparr>"
  have same: "db_threads ?db = db_threads db" "db_turns ?db = db_turns db" "db_items ?db = db_items db" "db_item_seq ?db = db_item_seq db"
    "db_recoveries ?db = db_recoveries db" by simp_all
  have d: "deleted_thread ?db k = deleted_thread db k" for k by (simp add: deleted_thread_def)
  have rows: "thread_turn_rows ?db k = thread_turn_rows db k" for k by (rule thread_turn_rows_cong) simp
  have "app_wf ?db"
  proof (rule app_wfI)
    show "wf_threads ?db" using wf_parts(1) [OF wf] unfolding wf_threads_def same .
    show "wf_turns ?db" using wf_parts(2) [OF wf] unfolding wf_turns_def turn_ok_row_def same d .
    show "wf_items ?db" using wf_parts(3) [OF wf] unfolding wf_items_def item_ok_def turn_of_def same .
    show "wf_recoveries ?db" using wf_parts(4) [OF wf] unfolding wf_recoveries_def recovery_ok_def has_item_def same .
    show "wf_retries ?db" using wf_parts(6) [OF wf] unfolding wf_retries_def same .
    show "wf_forks ?db" using wf_parts(5) [OF wf] b by (auto simp: wf_forks_def fork_bound_def split: if_splits)
  qed
  then show ?thesis using new by (auto simp: app_sound_def app_moves_def d rows)
qed

lemma PrepareThreadFork_sound:
  assumes wf: "app_wf db" and ids: "new_ids env db"
  shows "sound_tx db (PrepareThreadFork_tx env sourceID key db)"
proof (cases "fmlookup (db_forks db) key")
  case (Some x)
  then show ?thesis using app_sound_refl [OF wf] by (auto simp: PrepareThreadFork_tx_def split: prod.split sum.split)
next
  case None
  have step: "sound_tx db (tx_then (copyThreadHistoryTx env (th_ID source) (th_ID fork) (saveThreadTx fork db)) (\<lambda>_ db.
        if \<exists>k \<in> fmdom' (db_forks db). \<exists>s. fmlookup (db_forks db) k = Some (s, th_ID fork) then TxError e
        else TxDone (fork, True) (db\<lparr>db_forks := fmupd key (th_ID source, th_ID fork) (db_forks db)\<rparr>)))"
    if load: "loadThreadTx db sourceID = Inr source" and f: "fork = fork_of env source (th_Title source) (th_Metadata source)" for source fork e
  proof (rule sound_tx_then)
    note s = forked_history_sound [OF wf ids, of fork]
    show "sound_tx db (copyThreadHistoryTx env (th_ID source) (th_ID fork) (saveThreadTx fork db))" using s(2) by (simp add: f)
    fix x db'
    assume copy: "copyThreadHistoryTx env (th_ID source) (th_ID fork) (saveThreadTx fork db) = TxDone x db'" and sound: "app_sound db db'"
    obtain r where r: "fmlookup (db_threads db) sourceID = Some r" "th_ID source = sourceID" using loadThreadTx_Inr [OF wf load] by metis
    have fr: "db_threads db' = db_threads (saveThreadTx fork db)" "db_forks db' = db_forks (saveThreadTx fork db)"
      using copyThreadHistoryTx_frame [of "saveThreadTx fork db" env "th_ID source" "th_ID fork"] copy by (simp_all add: kept_tables_def)
    have "fork_bound db' (th_ID source) (th_ID fork)"
      using r by (auto simp: fork_bound_def fr saveThreadTx_def f fmdomI)
    moreover have "fmlookup (db_forks db') key = None" using None by (simp add: fr saveThreadTx_def)
    ultimately have "app_sound db' (db'\<lparr>db_forks := fmupd key (th_ID source, th_ID fork) (db_forks db')\<rparr>)"
      by (intro bind_fork_sound [OF app_sound_wf [OF sound]])
    with sound show "sound_tx db (if \<exists>k \<in> fmdom' (db_forks db'). \<exists>s. fmlookup (db_forks db') k = Some (s, th_ID fork) then TxError e
        else TxDone (fork, True) (db'\<lparr>db_forks := fmupd key (th_ID source, th_ID fork) (db_forks db')\<rparr>))"
      by (auto intro: app_sound_trans)
  qed
  show ?thesis
    unfolding PrepareThreadFork_tx_def None option.case Let_def
    by (rule sound_tx_bind) (use step in \<open>auto intro!: sound_tx_bind\<close>)
qed

section \<open>Recovery of orphaned turns\<close>

definition placed :: "app_db \<Rightarrow> app_item \<Rightarrow> bool" where
  "placed db i \<longleftrightarrow> (\<exists>r \<in> set (db_items db). same_place i (ir_payload r))"

lemma placed_cong: "same_place i j \<Longrightarrow> placed db i = placed db j"
  by (simp add: placed_def same_place_def)

text \<open>Saving an item again changes nothing but that item.\<close>

definition item_step :: "app_db \<Rightarrow> app_db \<Rightarrow> bool" where
  "item_step db db' \<longleftrightarrow> app_sound db db' \<and> (\<forall>j. placed db j \<longrightarrow> placed db' j) \<and> map ir_id (db_items db') = map ir_id (db_items db) \<and>
     db_turns db' = db_turns db \<and> db_threads db' = db_threads db"

lemma item_step_refl: "app_wf db \<Longrightarrow> item_step db db"
  by (simp add: item_step_def app_sound_refl)

lemma item_step_trans: "item_step db db' \<Longrightarrow> item_step db' db'' \<Longrightarrow> item_step db db''"
  unfolding item_step_def by (metis app_sound_trans)

lemma saved_again_step:
  assumes wf: "app_wf db" and p: "placed db i" and save: "saveItemTx env i db = Inr (i', db')"
  shows "item_step db db'" "i' = i"
proof -
  obtain r where r: "r \<in> set (db_items db)" "same_place i (ir_payload r)" using p by (auto simp: placed_def)
  have ok: "item_ok db r" by (rule wf_item [OF wf r(1)])
  have "it_ID i = ir_id r" using r(2) ok by (simp add: item_ok_def same_place_def)
  then have id: "it_ID i \<in> ir_id ` set (db_items db)" using r(1) by simp
  have sq: "it_Seq i \<noteq> 0" using r(2) ok by (auto simp: item_ok_def same_place_def)
  have pl: "it_Payload i \<noteq> RawInvalid" using save by (auto simp: saveItemTx_def split: if_splits)
  have eq: "Inr (i', db') = (Inr (i, db\<lparr>db_items := map (\<lambda>r. if ir_id r = it_ID i then item_row_of (ir_seq r) i else r) (db_items db)\<rparr>) :: _ result)"
    using trans [OF save [symmetric] saveItemTx_old [OF id sq pl, of env]] .
  then show "i' = i" by (simp only: sum.inject prod.inject)
  have db': "db' = db\<lparr>db_items := map (\<lambda>r. if ir_id r = it_ID i then item_row_of (ir_seq r) i else r) (db_items db)\<rparr>"
    using eq by (simp only: sum.inject prod.inject)
  have "placed db' j" if j: "placed db j" for j
  proof -
    obtain x where x: "x \<in> set (db_items db)" "same_place j (ir_payload x)" using j by (auto simp: placed_def)
    let ?x = "if ir_id x = it_ID i then item_row_of (ir_seq x) i else x"
    have "?x \<in> set (db_items db')" using x(1) by (auto simp: db')
    moreover have "same_place j (ir_payload ?x)"
    proof (cases "ir_id x = it_ID i")
      case True
      then have "ir_id x = ir_id r" using r(2) ok by (simp add: item_ok_def same_place_def)
      then have "x = r" using x(1) r(1) wf_parts(3) [OF wf] by (metis wf_items_def distinct_map inj_onD)
      then show ?thesis using True x(2) r(2) by (simp add: same_place_def)
    qed (use x(2) in simp)
    ultimately show ?thesis unfolding placed_def by blast
  qed
  moreover have "map ir_id (db_items db') = map ir_id (db_items db)" by (simp add: db')
  ultimately show "item_step db db'"
    using saveItemTx_old_sound [OF wf save r] by (simp add: item_step_def db')
qed

lemma reconcile_Some:
  assumes "reconcileDurableFileChangeItemTx env i tm db = Inr (Some (i', db'))"
  shows "\<exists>j. same_place j i \<and> it_Status j = ''completed'' \<and> saveItemTx env j db = Inr (i', db')"
proof -
  have *: "\<exists>j. same_place j i \<and> it_Status j = ''completed'' \<and> saveItemTx env j db = Inr (i', db')"
    if "map_sum id Some (saveItemTx env (i\<lparr>it_Status := ''completed'', it_Payload := p, it_UpdatedAt := tm\<rparr>) db) = Inr (Some (i', db'))" for p
    using that by (intro exI [of _ "i\<lparr>it_Status := ''completed'', it_Payload := p, it_UpdatedAt := tm\<rparr>"])
      (cases "saveItemTx env (i\<lparr>it_Status := ''completed'', it_Payload := p, it_UpdatedAt := tm\<rparr>) db"; simp)
  show ?thesis
    using assms unfolding reconcileDurableFileChangeItemTx_def Let_def
    by (auto split: if_splits option.splits raw_message.splits json.splits any.splits list.splits intro: *)
qed

lemma recover_items_step:
  assumes "app_wf db" and "\<And>i. i \<in> set is \<Longrightarrow> placed db i" and "recover_items env tm is db = Inr (ids, changed, db')"
  shows "item_step db db'"
  using assms
proof (induction "is" arbitrary: db ids changed db')
  case Nil
  then show ?case by (simp add: item_step_refl)
next
  case (Cons i "is")
  show ?case
  proof (cases "orphanedItemStatus (it_Status i)")
    case False
    with Cons.prems show ?thesis by (intro Cons.IH [of db]) auto
  next
    case True
    have go: "item_step db db'" if save: "saveItemTx env j db = Inr (i', db1)" and j: "same_place j i" and rest: "recover_items env tm is db1 = Inr (ids1, ch1, db')" for j i' db1 ids1 ch1
    proof -
      have "placed db j" using Cons.prems(2) [of i] j placed_cong by auto
      note s = saved_again_step(1) [OF Cons.prems(1) this save]
      then have "item_step db1 db'"
        using Cons.prems(2) rest by (intro Cons.IH) (auto simp: item_step_def app_sound_def)
      with s show ?thesis by (rule item_step_trans)
    qed
    consider (rec) i1 db1 where "reconcileDurableFileChangeItemTx env i tm db = Inr (Some (i1, db1))"
      | (fail) "reconcileDurableFileChangeItemTx env i tm db = Inr None"
      using Cons.prems(3) True by (auto split: sum.splits option.splits)
    then show ?thesis
    proof cases
      case rec
      obtain j where "same_place j i" "saveItemTx env j db = Inr (i1, db1)" using reconcile_Some [OF rec] by blast
      with go rec True Cons.prems(3) show ?thesis by (auto split: sum.splits)
    next
      case fail
      with go [OF _ _] True Cons.prems(3) show ?thesis by (auto split: sum.splits)
    qed
  qed
qed

lemma turn_items_placed: "i \<in> set (loadItemsForTurnTx db k) \<Longrightarrow> placed db i"
  using same_place_refl by (force simp: loadItemsForTurnTx_def placed_def)

definition live_turns :: "app_db \<Rightarrow> app_turn list \<Rightarrow> bool" where
  "live_turns db us \<longleftrightarrow> distinct (map tu_ID us) \<and>
     (\<forall>u \<in> set us. active_status (tu_Status u) \<and> (\<exists>r. fmlookup (db_turns db) (tu_ID u) = Some r \<and> ur_payload r = u))"

lemma distinct_all_turns:
  assumes "wf_turns db"
  shows "distinct (map tu_ID (loadAllTurnsTx db))"
proof -
  have id: "tu_ID (ur_payload r) = k" if "fmlookup (db_turns db) k = Some r" for k r
    using that assms by (auto simp: wf_turns_def turn_ok_row_def)
  have "map tu_ID (List.map_filter (\<lambda>k. map_option ur_payload (fmlookup (db_turns db) k)) ks) = filter (\<lambda>k. fmlookup (db_turns db) k \<noteq> None) ks" for ks
    by (induction ks) (auto simp: map_filter_simps id split: option.split)
  then show ?thesis by (simp add: loadAllTurnsTx_def)
qed

lemma live_turns_loaded:
  assumes wf: "wf_turns db"
  shows "live_turns db (loadTurnsByStatusesTx db [TurnQueued, TurnRunning])"
proof -
  have "\<exists>r. fmlookup (db_turns db) (tu_ID u) = Some r \<and> ur_payload r = u" if "u \<in> set (loadAllTurnsTx db)" for u
    using that wf unfolding set_loadAllTurnsTx wf_turns_def turn_ok_row_def by blast
  then show ?thesis using distinct_all_turns [OF wf]
    by (auto simp: live_turns_def loadTurnsByStatusesTx_def active_status_def distinct_map_filter)
qed

lemma recover_turn_sound:
  assumes wf: "app_wf db" and live: "live_turns db (u # us)" and id: "app_newID env ''item'' n \<notin> ir_id ` set (db_items db)"
    and items: "recover_items env tm (loadItemsForTurnTx db (tu_ID u)) db = Inr (ids, changed, db1)"
    and u': "u' = u\<lparr>tu_Status := TurnInterrupted, tu_Error := reason, tu_CompletedAt := tm, tu_UpdatedAt := tm\<rparr>"
    and turn: "saveTurnTx u' db1 = Inr db2"
    and marker: "saveItemTx env (recovery_marker env n tm reason status ids u') db2 = Inr (m, db3)"
  shows "app_sound db db3 \<and> live_turns db3 us \<and> ir_id ` set (db_items db3) = insert (app_newID env ''item'' n) (ir_id ` set (db_items db))"
proof -
  have s1: "item_step db db1" by (rule recover_items_step [OF wf turn_items_placed items])
  then have wf1: "app_wf db1" and t1: "db_turns db1 = db_turns db" "db_threads db1 = db_threads db" and i1: "map ir_id (db_items db1) = map ir_id (db_items db)"
    by (simp_all add: item_step_def app_sound_def)
  obtain r where r: "fmlookup (db_turns db) (tu_ID u) = Some r" "ur_payload r = u" "active_status (tu_Status u)" using live by (auto simp: live_turns_def)
  have ok: "turn_ok_row db (tu_ID u) r" by (rule wf_turn_row [OF wf r(1)])
  then obtain h where h: "fmlookup (db_threads db) (tu_ThreadID u) = Some h" using r(2) by (auto simp: turn_ok_row_def fmlookup_dom_iff)
  have "\<not> deleted_thread db (tu_ThreadID u)" using ok r by (auto simp: turn_ok_row_def)
  then have nd: "th_Status (hr_payload h) \<noteq> ThreadDeleted" using h by (simp add: deleted_thread_def)
  have "sound_tx db1 (tx_bind (saveTurnTx u' db1) (TxDone ()))"
  proof (rule saved_again_sound [OF wf1])
    show "loadTurnTx db1 (tu_ID u) = Inr u" using r t1 by (simp add: loadTurnTx_def)
    show "loadThreadTx db1 (tu_ThreadID u) = Inr (hr_payload h)" using h t1 by (simp add: loadThreadTx_def)
  qed (use nd in \<open>simp_all add: u'\<close>)
  then have s2: "app_sound db1 db2" by (simp add: turn tx_bind_def)
  note f2 = saveTurnTx_lookup [OF turn]
  let ?m = "recovery_marker env n tm reason status ids u'"
  have m: "it_ID ?m = app_newID env ''item'' n" "it_Seq ?m = 0" "it_ThreadID ?m = tu_ThreadID u" "it_TurnID ?m = tu_ID u" "it_Payload ?m \<noteq> RawInvalid"
    by (simp_all add: recovery_marker_def u')
  have ids2: "ir_id ` set (db_items db2) = ir_id ` set (db_items db)" using i1 by (metis f2(2) set_map)
  have new: "it_ID ?m \<notin> ir_id ` set (db_items db2)" using id by (simp add: m ids2)
  have db3: "db3 = db2\<lparr>db_items := db_items db2 @ [new_row env ?m db2], db_item_seq := ir_seq (new_row env ?m db2)\<rparr>"
    using marker saveItemTx_new [OF new m(2,5)] by simp
  have s3: "app_sound db2 db3"
  proof (rule saveItemTx_new_sound [OF app_sound_wf [OF s2] marker new m(2)])
    show "it_ThreadID ?m |\<in>| fmdom (db_threads db2)" using h by (simp add: m f2 t1 fmdomI)
    show "turn_of db2 (it_ThreadID ?m) (it_TurnID ?m)" unfolding m by (simp add: turn_of_def f2 u')
  qed
  have ii: "ir_id ` set (db_items db3) = insert (app_newID env ''item'' n) (ir_id ` set (db_items db))"
    by (simp add: db3 ids2 [symmetric] new_row_def Let_def m)
  have "live_turns db3 us"
    using live unfolding live_turns_def by (auto simp: db3 f2 t1 u')
  moreover have "app_sound db db3" using s1 s2 s3 by (metis app_sound_trans item_step_def)
  ultimately show ?thesis using ii by blast
qed

lemma recover_turns_sound:
  assumes "app_wf db" and "live_turns db us"
    and "\<And>m. n \<le> m \<Longrightarrow> m < n + length us \<Longrightarrow> app_newID env ''item'' m \<notin> ir_id ` set (db_items db)"
    and "inj_on (app_newID env ''item'') {n..<n + length us}"
  shows "sound_tx db (recover_turns env tm reason n us res db)"
  using assms
proof (induction us arbitrary: n res db)
  case Nil
  then show ?case by (simp add: app_sound_refl)
next
  case (Cons u us)
  have new: "app_newID env ''item'' n \<notin> ir_id ` set (db_items db)" using Cons.prems(3) [of n] by simp
  let ?u = "u\<lparr>tu_Status := TurnInterrupted, tu_Error := reason, tu_CompletedAt := tm, tu_UpdatedAt := tm\<rparr>"
  have go: "sound_tx db (recover_turns env tm reason (Suc n) us res' db3)"
    if "recover_items env tm (loadItemsForTurnTx db (tu_ID u)) db = Inr (ids, changed, db1)" "saveTurnTx ?u db1 = Inr db2"
      "saveItemTx env (recovery_marker env n tm reason (tu_Status u) ids ?u) db2 = Inr (m, db3)" for ids changed db1 db2 m db3 res'
  proof -
    note s = recover_turn_sound [OF Cons.prems(1,2) new that(1) refl that(2,3)]
    have "sound_tx db3 (recover_turns env tm reason (Suc n) us res' db3)"
    proof (rule Cons.IH)
      show "app_wf db3" "live_turns db3 us" using s by (simp_all add: app_sound_def)
      show "inj_on (app_newID env ''item'') {Suc n..<Suc n + length us}" using Cons.prems(4) by (rule inj_on_subset) auto
      show "app_newID env ''item'' k \<notin> ir_id ` set (db_items db3)" if k: "Suc n \<le> k" "k < Suc n + length us" for k
      proof -
        have "app_newID env ''item'' k \<noteq> app_newID env ''item'' n" using inj_onD [OF Cons.prems(4), of k n] k by auto
        with s Cons.prems(3) [of k] k show ?thesis by simp
      qed
    qed
    with s show ?thesis by (blast intro: sound_tx_from)
  qed
  show ?case by (auto simp: Let_def intro!: sound_tx_bind go)
qed

lemma RecoverOrphanedTurns_sound:
  assumes wf: "app_wf db" and ids: "new_ids env db"
  shows "sound_tx db (RecoverOrphanedTurns_tx env tm reason db)"
proof -
  let ?us = "loadTurnsByStatusesTx db [TurnQueued, TurnRunning]"
  have "set (map tu_ID (loadAllTurnsTx db)) \<subseteq> fmdom' (db_turns db)"
    using wf_parts(2) [OF wf] by (force simp: set_loadAllTurnsTx wf_turns_def turn_ok_row_def fmlookup_dom'_iff)
  then have "card (set (map tu_ID (loadAllTurnsTx db))) \<le> card (fmdom' (db_turns db))" by (simp add: card_mono)
  then have "length (loadAllTurnsTx db) \<le> fcard (fmdom (db_turns db))"
    using distinct_card [OF distinct_all_turns [OF wf_parts(2) [OF wf]]] by (simp add: fcard.rep_eq fmdom'_alt_def)
  then have len: "length ?us \<le> fcard (fmdom (db_turns db))"
    unfolding loadTurnsByStatusesTx_def using length_filter_le le_trans by blast
  show ?thesis
    unfolding RecoverOrphanedTurns_tx_def
  proof (rule recover_turns_sound [OF wf live_turns_loaded [OF wf_parts(2) [OF wf]]])
    show "app_newID env ''item'' m \<notin> ir_id ` set (db_items db)" if "m < 0 + length ?us" for m
      using new_idsD(3) [OF ids, of m] that len by simp
    show "inj_on (app_newID env ''item'') {0..<0 + length ?us}" by (rule inj_on_subset [OF new_idsD(5) [OF ids]]) (use len in auto)
  qed
qed

end
