(* ===== verification/App_Rollback.thy ===== *)
theory App_Rollback
  imports App_Rewrites
begin

text \<open>
  Rolling a thread back keeps the invariant of the application server's store: the items that are deleted take the
  recoveries of their file changes with them, the receipts of the changes that stay are preserved, and no item that
  stays belongs to a turn that was removed.
\<close>

section \<open>Rollback\<close>

text \<open>
  The first item that is removed: no item of a removed turn comes before it.
\<close>

lemma scan_removed_before:
  assumes "sorted_wrt (<) (map it_Seq is)" and "\<And>i. i \<in> set is \<Longrightarrow> 0 < it_Seq i" and "0 \<le> fb" and "\<And>i. i \<in> set is \<Longrightarrow> fb < it_Seq i"
    and "i \<in> set is" and "it_TurnID i \<in> set ids"
  shows "0 < scan_removed ids e fb is \<and> scan_removed ids e fb is \<le> it_Seq i"
  using assms
proof (induction "is" arbitrary: fb)
  case (Cons j "is")
  show ?case
  proof (cases "it_TurnID j \<in> set ids")
    case True
    with Cons.prems show ?thesis by (auto intro: less_imp_le)
  next
    case False
    then have i: "i \<in> set is" using Cons.prems(5,6) by auto
    let ?fb = "if fb = 0 \<and> e \<noteq> zero_time \<and> \<not> it_CreatedAt j < e then it_Seq j else fb"
    have "0 \<le> ?fb" using Cons.prems(2) [of j] Cons.prems(3) by auto
    moreover have "?fb < it_Seq k" if "k \<in> set is" for k using Cons.prems(1) Cons.prems(4) [of k] that by auto
    ultimately have "0 < scan_removed ids e ?fb is \<and> scan_removed ids e ?fb is \<le> it_Seq i"
      using Cons.prems by (intro Cons.IH [OF _ _ _ _ i]) auto
    with False show ?thesis by simp
  qed
qed simp

lemma removed_turn_items:
  assumes wf: "app_wf db" and r: "r \<in> set (db_items db)" "ir_thread_id r = t" "ir_turn_id r \<in> tu_ID ` set removed"
  shows "0 < firstRemovedItemSeqTx db t removed \<and> firstRemovedItemSeqTx db t removed \<le> ir_seq r"
proof -
  let ?rs = "filter (\<lambda>r. ir_thread_id r = t) (db_items db)"
  have seq: "it_Seq (ir_payload x) = ir_seq x" "0 < ir_seq x" "ir_turn_id x = it_TurnID (ir_payload x)" if "x \<in> set (db_items db)" for x
    using wf_item [OF wf that] by (auto simp: item_ok_def)
  have "map it_Seq (thread_items db t) = map ir_seq ?rs" using seq(1) by (simp add: thread_items_def)
  moreover have "sorted_wrt (<) (map ir_seq (db_items db))" using wf_parts(3) [OF wf] by (simp add: wf_items_def)
  ultimately have "sorted_wrt (<) (map it_Seq (thread_items db t))" by (simp add: sorted_wrt_map sorted_wrt_filter)
  then have "0 < scan_removed (map tu_ID removed) (earliest_created removed) 0 (thread_items db t) \<and>
      scan_removed (map tu_ID removed) (earliest_created removed) 0 (thread_items db t) \<le> it_Seq (ir_payload r)"
    by (rule scan_removed_before) (use r seq in \<open>auto simp: thread_items_def\<close>)
  then show ?thesis using seq(1) [OF r(1)] by (simp add: firstRemovedItemSeqTx_def)
qed

text \<open>
  Deleting rows: items go with their recoveries, the receipts of the recoveries that stay stay, and no item that
  stays belongs to a turn that goes.
\<close>

lemma deletion_sound:
  assumes wf: "app_wf db"
    and db': "db_threads db' = db_threads db" "db_item_seq db' = db_item_seq db" "db_forks db' = db_forks db"
      "db_items db' = filter keep (db_items db)" "db_turns db' = fmfilter stay (db_turns db)" "db_recoveries db' = fmfilter hold (db_recoveries db)"
    and turns: "\<And>r. r \<in> set (db_items db) \<Longrightarrow> keep r \<Longrightarrow> ir_turn_id r \<noteq> [] \<Longrightarrow> stay (ir_turn_id r)"
    and recs: "\<And>k p r. fmlookup (db_recoveries db) k = Some p \<Longrightarrow> hold k \<Longrightarrow> r \<in> set (db_items db) \<Longrightarrow>
      ir_id r = k \<or> cr_status p = FileChangeRecoveryReverted \<and> ir_id r = fr_MarkerID (cr_payload p) \<Longrightarrow> keep r"
    and frozen: "\<And>k r. fmlookup (db_turns db) k = Some r \<Longrightarrow> \<not> stay k \<Longrightarrow> \<not> deleted_thread db (ur_thread_id r)"
  shows "app_sound db db'"
proof -
  have d: "deleted_thread db' k = deleted_thread db k" for k by (simp add: deleted_thread_def db')
  have lk: "fmlookup (db_turns db') k = (if stay k then fmlookup (db_turns db) k else None)" for k by (simp add: db')
  have "app_wf db'"
  proof (rule app_wfI)
    show "wf_threads db'" using wf_parts(1) [OF wf] unfolding wf_threads_def db' .
    show "wf_turns db'" using wf_parts(2) [OF wf] unfolding wf_turns_def turn_ok_row_def d db'(1) lk by (metis option.distinct(1))
    show "wf_forks db'" using wf_parts(5) [OF wf] unfolding wf_forks_def fork_bound_def db' .
    show "wf_retries db'"
      using wf_parts(6) [OF wf] unfolding wf_retries_def lk by (metis option.distinct(1))
    show "wf_items db'"
      unfolding wf_items_def
    proof (intro conjI ballI)
      note w = wf_parts(3) [OF wf, unfolded wf_items_def]
      show "distinct (map ir_id (db_items db'))" using w by (simp add: db' distinct_map_filter)
      show "sorted_wrt (<) (map ir_seq (db_items db'))" using w by (simp add: db' sorted_wrt_map sorted_wrt_filter)
      show "0 \<le> db_item_seq db'" using w by (simp add: db')
      fix r
      assume "r \<in> set (db_items db')"
      then have r: "r \<in> set (db_items db)" "keep r" by (simp_all add: db')
      then have ok: "item_ok db r" using w by blast
      have "turn_of db' (ir_thread_id r) (ir_turn_id r)" if "ir_turn_id r \<noteq> []"
        using ok turns [OF r that] that by (auto simp: item_ok_def turn_of_def lk)
      with ok show "item_ok db' r" by (auto simp: item_ok_def db'(1,2))
    qed
    show "wf_recoveries db'"
      unfolding wf_recoveries_def
    proof (intro allI impI)
      fix k p
      assume "fmlookup (db_recoveries db') k = Some p"
      then have p: "fmlookup (db_recoveries db) k = Some p" "hold k" by (simp_all add: db' split: if_splits)
      have ok: "recovery_ok db k p" by (rule wf_recovery [OF wf p(1)])
      have "has_item db' j t u kd" if "has_item db j t u kd" "j = k \<or> cr_status p = FileChangeRecoveryReverted \<and> j = fr_MarkerID (cr_payload p)" for j t u kd
        using that recs [OF p] unfolding has_item_def db' by auto
      with ok show "recovery_ok db' k p" by (auto simp: recovery_ok_def Let_def)
    qed
  qed
  moreover have "thread_turn_rows db' t = thread_turn_rows db t" if "deleted_thread db t" for t
    using that frozen by (intro fmap_ext) (auto simp: thread_turn_rows_def lk db' split: if_splits)
  ultimately show ?thesis by (simp add: app_sound_def app_moves_def d db')
qed

lemma same_row:
  assumes "app_wf db" and "r \<in> set (db_items db)" and "r' \<in> set (db_items db)" and "ir_id r = ir_id r'"
  shows "r = r'"
  using assms wf_parts(3) [OF assms(1)] by (metis wf_items_def distinct_map inj_onD)

lemma in_receipts:
  "k \<in> set (retainedFileChangeReceiptIDsTx db t) \<longleftrightarrow> (\<exists>j p. fmlookup (db_recoveries db) j = Some p \<and> cr_thread_id p = t \<and>
     cr_status p = FileChangeRecoveryReverted \<and> fr_MarkerID (cr_payload p) \<noteq> [] \<and> k = fr_MarkerID (cr_payload p))"
  (is "?l = ?r")
proof
  assume ?l
  then obtain j where "(case fmlookup (db_recoveries db) j of None \<Rightarrow> None
      | Some r \<Rightarrow> if cr_thread_id r = t \<and> cr_status r = FileChangeRecoveryReverted \<and> fr_MarkerID (cr_payload r) \<noteq> []
          then Some (fr_MarkerID (cr_payload r)) else None) = Some k"
    unfolding retainedFileChangeReceiptIDsTx_def in_map_filter by blast
  then show ?r by (cases "fmlookup (db_recoveries db) j") (auto split: if_splits)
next
  assume ?r
  then obtain j p where p: "fmlookup (db_recoveries db) j = Some p" "cr_thread_id p = t" "cr_status p = FileChangeRecoveryReverted"
    "fr_MarkerID (cr_payload p) \<noteq> []" "k = fr_MarkerID (cr_payload p)" by blast
  then show ?l unfolding retainedFileChangeReceiptIDsTx_def in_map_filter by (intro bexI [of _ j]) (simp_all add: fmlookup_dom'_iff)
qed

lemma prune_threads [simp]: "db_threads (pruneRolledBackHistoryTx t removed db) = db_threads db"
  by (simp add: pruneRolledBackHistoryTx_def Let_def deleteItemsFromSeqTx_def delete_recoveries_def)

lemma prune_items: "set (db_items (pruneRolledBackHistoryTx t removed db)) \<subseteq> set (db_items db)"
  by (auto simp: pruneRolledBackHistoryTx_def Let_def deleteItemsFromSeqTx_def delete_recoveries_def split: if_splits)

lemma removed_items_at:
  assumes wf: "app_wf db"
    and rem: "\<forall>u \<in> set removed. \<exists>r. fmlookup (db_turns db) (tu_ID u) = Some r \<and> ur_thread_id r = t"
    and r: "r \<in> set (db_items db)" "ir_turn_id r \<in> tu_ID ` set removed" "ir_turn_id r \<noteq> []"
  shows "ir_thread_id r = t \<and> 0 < firstRemovedItemSeqTx db t removed \<and> firstRemovedItemSeqTx db t removed \<le> ir_seq r"
proof -
  obtain u where u: "u \<in> set removed" "tu_ID u = ir_turn_id r" using r(2) by auto
  have "turn_of db (ir_thread_id r) (ir_turn_id r)" using wf_item [OF wf r(1)] r(3) by (auto simp: item_ok_def)
  with bspec [OF rem u(1)] u(2) have "ir_thread_id r = t" by (auto simp: turn_of_def)
  with removed_turn_items [OF wf r(1) _ r(2)] show ?thesis by blast
qed

lemma prune_from_seq_sound:
  assumes wf: "app_wf db" and nd: "\<not> deleted_thread db t"
    and rem: "\<forall>u \<in> set removed. \<exists>r. fmlookup (db_turns db) (tu_ID u) = Some r \<and> ur_thread_id r = t"
    and cut: "removed \<noteq> []" "0 < firstRemovedItemSeqTx db t removed"
  shows "app_sound db (pruneRolledBackHistoryTx t removed db)"
proof -
  let ?ids = "tu_ID ` set removed" and ?cut = "firstRemovedItemSeqTx db t removed"
  note thread = removed_items_at [OF wf rem]
  have frozen: "\<not> deleted_thread db (ur_thread_id r)" if "fmlookup (db_turns db) k = Some r" "\<not> k \<notin> ?ids" for k r
    using that nd rem by fastforce
  have sets: "set (map tu_ID removed) = ?ids" by simp
  let ?hold = "\<lambda>k. \<not> (\<exists>r \<in> set (db_items db). ir_id r = k \<and> ir_thread_id r = t \<and> ?cut \<le> ir_seq r)"
  define db1 where "db1 = delete_recoveries (\<lambda>r. ir_thread_id r = t \<and> ?cut \<le> ir_seq r) db"
  have db1: "db_recoveries db1 = fmfilter ?hold (db_recoveries db)" "db_items db1 = db_items db" by (simp_all add: db1_def delete_recoveries_def)
  let ?keep = "\<lambda>r. \<not> (ir_thread_id r = t \<and> ?cut \<le> ir_seq r \<and> ir_id r \<notin> set (retainedFileChangeReceiptIDsTx db1 t))"
  have turns1: "db_turns (deleteItemsFromSeqTx t c p db1) = db_turns db" for c p
    by (simp add: deleteItemsFromSeqTx_def db1_def delete_recoveries_def)
  have eq: "pruneRolledBackHistoryTx t removed db =
      (deleteItemsFromSeqTx t ?cut (retainedFileChangeReceiptIDsTx db1 t) db1)\<lparr>db_turns := fmfilter (\<lambda>k. k \<notin> ?ids) (db_turns db)\<rparr>"
    unfolding pruneRolledBackHistoryTx_def Let_def sets if_not_P [OF cut(1)] if_P [OF cut(2)] db1_def [symmetric] turns1
    by (rule refl)
  show ?thesis
    unfolding eq
  proof (rule deletion_sound [OF wf, where keep = ?keep and stay = "\<lambda>k. k \<notin> ?ids" and hold = ?hold])
    show "ir_turn_id r \<notin> ?ids" if r: "r \<in> set (db_items db)" "?keep r" "ir_turn_id r \<noteq> []" for r
    proof
      assume mem: "ir_turn_id r \<in> ?ids"
      note th = thread [OF r(1) mem r(3)]
      then have "ir_id r \<in> set (retainedFileChangeReceiptIDsTx db1 t)" using r(2) by blast
      then obtain j p where p: "fmlookup (db_recoveries db) j = Some p" "?hold j" "cr_status p = FileChangeRecoveryReverted" "ir_id r = fr_MarkerID (cr_payload p)"
        unfolding in_receipts db1 by (auto split: if_splits)
      have ok: "recovery_ok db j p" by (rule wf_recovery [OF wf p(1)])
      from ok p(3) obtain m where m: "m \<in> set (db_items db)" "ir_id m = fr_MarkerID (cr_payload p)" "ir_turn_id m = fr_TurnID (cr_payload p)"
        by (auto simp: recovery_ok_def Let_def has_item_def)
      with same_row [OF wf r(1) m(1)] p(4) have tu: "ir_turn_id r = fr_TurnID (cr_payload p)" by simp
      from ok obtain x where x: "x \<in> set (db_items db)" "ir_id x = j" "ir_turn_id x = fr_TurnID (cr_payload p)"
        by (auto simp: recovery_ok_def Let_def has_item_def)
      with thread [OF x(1)] mem tu r(3) p(2) show False by auto
    qed
    show "?keep r" if k: "fmlookup (db_recoveries db) k = Some p" "?hold k" and r: "r \<in> set (db_items db)"
      "ir_id r = k \<or> cr_status p = FileChangeRecoveryReverted \<and> ir_id r = fr_MarkerID (cr_payload p)" for k p r
    proof (cases "ir_id r = k")
      case True
      with k(2) r(1) show ?thesis by blast
    next
      case False
      with r(2) have m: "cr_status p = FileChangeRecoveryReverted" "ir_id r = fr_MarkerID (cr_payload p)" by simp_all
      have ok: "recovery_ok db k p" by (rule wf_recovery [OF wf k(1)])
      with m obtain x where x: "x \<in> set (db_items db)" "ir_id x = ir_id r" "ir_thread_id x = cr_thread_id p" "ir_id r \<noteq> []"
        by (auto simp: recovery_ok_def Let_def has_item_def)
      with same_row [OF wf x(1) r(1)] have "ir_thread_id r = cr_thread_id p" by simp
      then have "ir_thread_id r = t \<Longrightarrow> ir_id r \<in> set (retainedFileChangeReceiptIDsTx db1 t)"
        unfolding in_receipts db1 using k m x(4) by (intro exI [of _ k] exI [of _ p]) auto
      then show ?thesis by blast
    qed
  qed (simp_all add: deleteItemsFromSeqTx_def db1_def delete_recoveries_def frozen)
qed

lemma prune_turns_sound:
  assumes wf: "app_wf db" and nd: "\<not> deleted_thread db t"
    and rem: "\<forall>u \<in> set removed. \<exists>r. fmlookup (db_turns db) (tu_ID u) = Some r \<and> ur_thread_id r = t"
    and uncut: "removed \<noteq> []" "\<not> 0 < firstRemovedItemSeqTx db t removed"
  shows "app_sound db (pruneRolledBackHistoryTx t removed db)"
proof -
  let ?ids = "tu_ID ` set removed" and ?cut = "firstRemovedItemSeqTx db t removed"
  note thread = removed_items_at [OF wf rem]
  have frozen: "\<not> deleted_thread db (ur_thread_id r)" if "fmlookup (db_turns db) k = Some r" "\<not> k \<notin> ?ids" for k r
    using that nd rem by fastforce
  have sets: "set (map tu_ID removed) = ?ids" by simp
  have none: "\<not> (ir_thread_id r = t \<and> ir_turn_id r \<in> ?ids)" if "r \<in> set (db_items db)" for r
    using removed_turn_items [OF wf that] uncut(2) by blast
  then have items: "filter (\<lambda>r. \<not> (ir_thread_id r = t \<and> ir_turn_id r \<in> ?ids)) (db_items db) = filter (\<lambda>_. True) (db_items db)"
    by (intro filter_cong) auto
  define db1 where "db1 = delete_recoveries (\<lambda>r. ir_thread_id r = t \<and> ir_turn_id r \<in> ?ids) db"
  have recs: "db_recoveries db1 = fmfilter (\<lambda>_. True) (db_recoveries db)"
    unfolding db1_def delete_recoveries_def using none by (intro fmap_ext) auto
  have same: "db_turns db1 = db_turns db" "db_items db1 = db_items db" "db_threads db1 = db_threads db"
    "db_item_seq db1 = db_item_seq db" "db_forks db1 = db_forks db" by (simp_all add: db1_def delete_recoveries_def)
  have turns1: "db_turns (db1\<lparr>db_items := xs\<rparr>) = db_turns db" for xs by (simp add: same)
  have eq: "pruneRolledBackHistoryTx t removed db =
      db1\<lparr>db_items := filter (\<lambda>_. True) (db_items db), db_turns := fmfilter (\<lambda>k. k \<notin> ?ids) (db_turns db)\<rparr>"
    unfolding pruneRolledBackHistoryTx_def Let_def sets if_not_P [OF uncut(1)] if_not_P [OF uncut(2)] db1_def [symmetric] same(2) items turns1
    by (rule refl)
  have turns: "ir_turn_id r \<notin> ?ids" if "r \<in> set (db_items db)" "ir_turn_id r \<noteq> []" for r
    using thread [OF that(1) _ that(2)] uncut(2) by blast
  show ?thesis
    unfolding eq
    by (rule deletion_sound [OF wf, where keep = "\<lambda>_. True" and stay = "\<lambda>k. k \<notin> ?ids" and hold = "\<lambda>_. True"])
      (simp_all add: same recs turns frozen del: filter_True fmfilter_true)
qed

lemma prune_sound:
  assumes wf: "app_wf db" and nd: "\<not> deleted_thread db t"
    and rem: "\<forall>u \<in> set removed. \<exists>r. fmlookup (db_turns db) (tu_ID u) = Some r \<and> ur_thread_id r = t"
  shows "app_sound db (pruneRolledBackHistoryTx t removed db)"
proof (cases "removed = []")
  case True
  then show ?thesis by (simp add: pruneRolledBackHistoryTx_def app_sound_refl [OF wf])
next
  case False
  then show ?thesis
    using prune_from_seq_sound [OF wf nd rem] prune_turns_sound [OF wf nd rem]
    by (cases "0 < firstRemovedItemSeqTx db t removed") blast+
qed

lemma RollbackThread_sound:
  assumes wf: "app_wf db" and new: "app_newID env ''item'' 0 \<notin> ir_id ` set (db_items db)"
  shows "sound_tx db (RollbackThread_tx env k numTurns db)"
  unfolding RollbackThread_tx_def
proof (rule sound_tx_bind, goal_cases)
  case (1 t)
  obtain h where h: "fmlookup (db_threads db) k = Some h" "hr_payload h = t" "th_ID t = k" using loadThreadTx_Inr [OF wf 1] .
  let ?rem = "loadLastTurnsTx db (th_ID t) numTurns"
  let ?db1 = "pruneRolledBackHistoryTx (th_ID t) ?rem db"
  let ?t = "t\<lparr>th_UpdatedAt := ae_now env\<rparr>"
  let ?db2 = "saveThreadTx ?t ?db1"
  let ?m = "rollback_marker env k numTurns (turnIDs ?rem)"
  have "sound_tx db (tx_bind (saveItemTx env ?m ?db2) (\<lambda>(marker, db).
      TxDone \<lparr>rbr_Thread = ?t, rbr_Turns = loadTurnsForThreadTx db k, rbr_RemovedTurns = ?rem, rbr_Marker = marker\<rparr> db))"
    if nd: "th_Status t \<noteq> ThreadDeleted"
  proof -
    have del: "\<not> deleted_thread db k" using h nd by (simp add: deleted_thread_def)
    have "\<exists>r. fmlookup (db_turns db) (tu_ID u) = Some r \<and> ur_thread_id r = k" if "u \<in> set ?rem" for u
    proof -
      have "u \<in> set (loadTurnsForThreadTx db k)" using that h(3) by (auto simp: loadLastTurnsTx_def dest: in_set_takeD)
      then obtain j r where "fmlookup (db_turns db) j = Some r" "ur_thread_id r = k" "ur_payload r = u" using thread_turns_in by metis
      with wf_turn_row [OF wf this(1)] show ?thesis by (auto simp: turn_ok_row_def)
    qed
    then have s1: "app_sound db ?db1" using del h(3) by (intro prune_sound [OF wf]) simp_all
    have s2: "app_sound ?db1 ?db2"
      using h nd by (intro saveThreadTx_sound [OF app_sound_wf [OF s1]]) auto
    note s = app_sound_trans [OF s1 s2]
    have "it_ID ?m \<notin> ir_id ` set (db_items ?db2)" using new by (auto simp: saveThreadTx_def rollback_marker_def dest: subsetD [OF prune_items])
    then have "app_sound ?db2 db'" if "saveItemTx env ?m ?db2 = Inr (m, db')" for m db'
      using h(3) by (intro saveItemTx_new_sound [OF app_sound_wf [OF s] that]) (simp_all add: rollback_marker_def saveThreadTx_def)
    then show ?thesis using s by (auto intro!: sound_tx_bind intro: app_sound_trans)
  qed
  then show ?case using h(3) by (simp add: Let_def)
qed

end
