(* ===== verification/App_System.thy ===== *)
theory App_System
  imports App_Rollback
begin

text \<open>
  The application server's store as a system of operations: every operation that changes the store as one step function,
  the invariant as an interpretation of the step system, and what later operations leave alone.
\<close>

section \<open>Operations\<close>

datatype app_op =
    AppCreateThread create_thread_request
  | AppArchiveThread string
  | AppUnarchiveThread string
  | AppDeleteThread string
  | AppForkThread fork_thread_request
  | AppPrepareThreadFork string string
  | AppUpdateThreadTitle string string
  | AppUpdateThreadSettings update_settings_request
  | AppRollbackThread string int
  | AppCreateTurn create_turn_request
  | AppStartTurn string
  | AppCompleteTurn complete_turn_request
  | AppPrepareTurnRetry turn_retry_request
  | AppRecoverOrphanedTurns time string
  | AppAppendItem append_item_request
  | AppUpdateItem string string "raw_message option"
  | AppSaveFileChangeRecovery file_change_recovery
  | AppPrepareFileChangeRevert string string time
  | AppAbortFileChangeRevert string string time
  | AppCompleteFileChangeRevert string string time
  | AppSaveTerminalOwnership terminal_record
  | AppRecoverTerminalOwnership string "string list" time
  | AppDeleteInactiveTerminalOwnership string
  | AppClose

fun app_exec :: "app_env \<Rightarrow> app_op \<Rightarrow> app_db option \<Rightarrow> app_db option" where
  "app_exec env (AppCreateThread req) s = snd (CreateThread env req s)"
| "app_exec env (AppArchiveThread k) s = snd (ArchiveThread env k s)"
| "app_exec env (AppUnarchiveThread k) s = snd (UnarchiveThread env k s)"
| "app_exec env (AppDeleteThread k) s = snd (DeleteThread env k s)"
| "app_exec env (AppForkThread req) s = snd (ForkThread env req s)"
| "app_exec env (AppPrepareThreadFork source key) s = snd (PrepareThreadFork env source key s)"
| "app_exec env (AppUpdateThreadTitle k title) s = snd (UpdateThreadTitle env k title s)"
| "app_exec env (AppUpdateThreadSettings req) s = snd (UpdateThreadSettings env req s)"
| "app_exec env (AppRollbackThread k n) s = snd (RollbackThread env k n s)"
| "app_exec env (AppCreateTurn req) s = snd (CreateTurn env req s)"
| "app_exec env (AppStartTurn k) s = snd (StartTurn env k s)"
| "app_exec env (AppCompleteTurn req) s = snd (CompleteTurn env req s)"
| "app_exec env (AppPrepareTurnRetry req) s = snd (PrepareTurnRetry env req s)"
| "app_exec env (AppRecoverOrphanedTurns tm reason) s = snd (RecoverOrphanedTurns env tm reason s)"
| "app_exec env (AppAppendItem req) s = snd (AppendItem env req s)"
| "app_exec env (AppUpdateItem k status payload) s = snd (UpdateItem env k status payload s)"
| "app_exec env (AppSaveFileChangeRecovery r) s = snd (SaveFileChangeRecovery env r s)"
| "app_exec env (AppPrepareFileChangeRevert k key tm) s = snd (PrepareFileChangeRevert env k key tm s)"
| "app_exec env (AppAbortFileChangeRevert k key tm) s = snd (AbortFileChangeRevert env k key tm s)"
| "app_exec env (AppCompleteFileChangeRevert k key tm) s = snd (CompleteFileChangeRevert env k key tm s)"
| "app_exec env (AppSaveTerminalOwnership r) s = snd (SaveTerminalOwnership env r s)"
| "app_exec env (AppRecoverTerminalOwnership key live tm) s = snd (RecoverTerminalOwnership env key live tm s)"
| "app_exec env (AppDeleteInactiveTerminalOwnership key) s = snd (DeleteInactiveTerminalOwnership key s)"
| "app_exec env AppClose s = app_Close s"

text \<open>The UUIDs that an operation meets have not been drawn before; other environments do not occur.\<close>

fun app_step :: "app_env \<times> app_op \<Rightarrow> app_db option \<Rightarrow> app_db option" where
  "app_step (env, op) None = app_exec env op None"
| "app_step (env, op) (Some db) = (if new_ids env db then app_exec env op (Some db) else Some db)"

definition app_inv :: "app_db option \<Rightarrow> bool" where
  "app_inv s \<longleftrightarrow> (case s of None \<Rightarrow> True | Some db \<Rightarrow> app_wf db)"

section \<open>Every operation is sound\<close>

definition sound_opt :: "app_db \<Rightarrow> app_db option \<Rightarrow> bool" where
  "sound_opt db s \<longleftrightarrow> (\<exists>db'. s = Some db' \<and> app_sound db db')"

lemma sound_opt_refl [simp]: "app_wf db \<Longrightarrow> sound_opt db (Some db)"
  by (simp add: sound_opt_def app_sound_refl)

lemma withTx_sound:
  assumes "app_wf db" and "sound_tx db (fn db)"
  shows "sound_opt db (snd (app_withTx fn (Some db)))"
  using assms by (cases "fn db") (auto simp: app_withTx_def sound_opt_def app_sound_refl)

lemma thread_ops_sound:
  assumes wf: "app_wf db" and ids: "new_ids env db"
  shows "sound_opt db (snd (CreateThread env req (Some db)))" "sound_opt db (snd (ArchiveThread env k (Some db)))"
    "sound_opt db (snd (UnarchiveThread env k (Some db)))" "sound_opt db (snd (DeleteThread env k (Some db)))"
    "sound_opt db (snd (UpdateThreadTitle env k title (Some db)))" "sound_opt db (snd (UpdateThreadSettings env sreq (Some db)))"
    "sound_opt db (snd (ForkThread env freq (Some db)))" "sound_opt db (snd (PrepareThreadFork env source key (Some db)))"
    "sound_opt db (snd (RollbackThread env k n (Some db)))"
proof -
  note tx = withTx_sound [OF wf]
  show "sound_opt db (snd (CreateThread env req (Some db)))"
    unfolding CreateThread_def by (rule tx, rule CreateThread_sound [OF wf new_idsD(1) [OF ids]])
  show "sound_opt db (snd (ArchiveThread env k (Some db)))" "sound_opt db (snd (UnarchiveThread env k (Some db)))"
    "sound_opt db (snd (DeleteThread env k (Some db)))"
    unfolding ArchiveThread_def UnarchiveThread_def DeleteThread_def by (rule tx, rule setThreadStatus_sound [OF wf])+
  show "sound_opt db (snd (UpdateThreadTitle env k title (Some db)))" "sound_opt db (snd (UpdateThreadSettings env sreq (Some db)))"
    unfolding UpdateThreadTitle_def UpdateThreadSettings_def
    by (rule tx, rule update_thread_sound [OF wf], simp add: new_settings_def)+
  show "sound_opt db (snd (ForkThread env freq (Some db)))" unfolding ForkThread_def by (rule tx, rule ForkThread_sound [OF wf ids])
  show "sound_opt db (snd (PrepareThreadFork env source key (Some db)))"
    unfolding PrepareThreadFork_def using wf by (auto intro!: tx PrepareThreadFork_sound [OF wf ids])
  show "sound_opt db (snd (RollbackThread env k n (Some db)))"
    unfolding RollbackThread_def using wf new_idsD(3) [OF ids, of 0] by (auto intro!: tx RollbackThread_sound [OF wf])
qed

lemma turn_ops_sound:
  assumes wf: "app_wf db" and ids: "new_ids env db"
  shows "sound_opt db (snd (CreateTurn env req (Some db)))" "sound_opt db (snd (StartTurn env k (Some db)))"
    "sound_opt db (snd (CompleteTurn env creq (Some db)))" "sound_opt db (snd (PrepareTurnRetry env rreq (Some db)))"
    "sound_opt db (snd (RecoverOrphanedTurns env tm reason (Some db)))"
    "sound_opt db (snd (AppendItem env areq (Some db)))" "sound_opt db (snd (UpdateItem env k status payload (Some db)))"
proof -
  note tx = withTx_sound [OF wf]
  have turn: "app_newID env ''turn'' 0 |\<notin>| fmdom (db_turns db)" and item: "app_newID env ''item'' 0 \<notin> ir_id ` set (db_items db)"
    using new_idsD(2,3) [OF ids, of 0] by simp_all
  show "sound_opt db (snd (CreateTurn env req (Some db)))" unfolding CreateTurn_def by (rule tx, rule CreateTurn_sound [OF wf turn])
  show "sound_opt db (snd (StartTurn env k (Some db)))" unfolding StartTurn_def by (rule tx, rule StartTurn_sound [OF wf])
  show "sound_opt db (snd (CompleteTurn env creq (Some db)))" unfolding CompleteTurn_def by (rule tx, rule CompleteTurn_sound [OF wf])
  show "sound_opt db (snd (PrepareTurnRetry env rreq (Some db)))"
    unfolding PrepareTurnRetry_def Let_def using wf by (auto intro!: tx PrepareTurnRetry_sound [OF wf turn])
  show "sound_opt db (snd (RecoverOrphanedTurns env tm reason (Some db)))"
    unfolding RecoverOrphanedTurns_def by (rule tx, rule RecoverOrphanedTurns_sound [OF wf ids])
  show "sound_opt db (snd (AppendItem env areq (Some db)))" unfolding AppendItem_def by (rule tx, rule AppendItem_sound [OF wf item])
  show "sound_opt db (snd (UpdateItem env k status payload (Some db)))" unfolding UpdateItem_def by (rule tx, rule UpdateItem_sound [OF wf])
qed

lemma record_ops_sound:
  assumes wf: "app_wf db" and ids: "new_ids env db"
  shows "sound_opt db (snd (SaveFileChangeRecovery env r (Some db)))" "sound_opt db (snd (PrepareFileChangeRevert env k key tm (Some db)))"
    "sound_opt db (snd (AbortFileChangeRevert env k key tm (Some db)))" "sound_opt db (snd (CompleteFileChangeRevert env k key tm (Some db)))"
    "sound_opt db (snd (SaveTerminalOwnership env e (Some db)))" "sound_opt db (snd (RecoverTerminalOwnership env w live tm (Some db)))"
    "sound_opt db (snd (DeleteInactiveTerminalOwnership w (Some db)))"
proof -
  note tx = withTx_sound [OF wf]
  have item: "app_newID env ''item'' 0 \<notin> ir_id ` set (db_items db)" using new_idsD(3) [OF ids, of 0] by simp
  show "sound_opt db (snd (SaveFileChangeRecovery env r (Some db)))"
    unfolding SaveFileChangeRecovery_def using wf by (auto intro!: tx SaveFileChangeRecovery_sound [OF wf])
  show "sound_opt db (snd (PrepareFileChangeRevert env k key tm (Some db)))" "sound_opt db (snd (AbortFileChangeRevert env k key tm (Some db)))"
    unfolding PrepareFileChangeRevert_def AbortFileChangeRevert_def
    using wf by (auto intro!: tx PrepareFileChangeRevert_sound [OF wf] AbortFileChangeRevert_sound [OF wf])
  show "sound_opt db (snd (CompleteFileChangeRevert env k key tm (Some db)))"
    unfolding CompleteFileChangeRevert_def using wf by (auto intro!: tx CompleteFileChangeRevert_sound [OF wf item])
  show "sound_opt db (snd (SaveTerminalOwnership env e (Some db)))"
    unfolding SaveTerminalOwnership_def using wf by (auto intro!: tx terminal_ops_sound(1) [OF wf] split: sum.split)
  show "sound_opt db (snd (RecoverTerminalOwnership env w live tm (Some db)))"
    unfolding RecoverTerminalOwnership_def using wf by (auto intro!: tx terminal_ops_sound(2) [OF wf])
  show "sound_opt db (snd (DeleteInactiveTerminalOwnership w (Some db)))"
    unfolding DeleteInactiveTerminalOwnership_def using wf by (auto intro!: tx terminals_sound [OF wf])
qed

lemmas app_ops_sound = thread_ops_sound turn_ops_sound record_ops_sound

lemma app_exec_sound:
  assumes "app_wf db" and "new_ids env db" and "op \<noteq> AppClose"
  shows "sound_opt db (app_exec env op (Some db))"
  using assms(3) by (cases op) (simp_all only: app_exec.simps app_ops_sound [OF assms(1,2)], simp)

lemma withTx_closed [simp]: "app_withTx fn None = (Failed ErrStoreClosed, None)"
  by (simp add: app_withTx_def)

lemma app_exec_closed: "app_exec env op None = None"
  by (cases op) (simp_all add: CreateThread_def ArchiveThread_def UnarchiveThread_def DeleteThread_def ForkThread_def PrepareThreadFork_def
      UpdateThreadTitle_def UpdateThreadSettings_def RollbackThread_def CreateTurn_def StartTurn_def CompleteTurn_def
      PrepareTurnRetry_def RecoverOrphanedTurns_def AppendItem_def UpdateItem_def SaveFileChangeRecovery_def
      PrepareFileChangeRevert_def AbortFileChangeRevert_def CompleteFileChangeRevert_def SaveTerminalOwnership_def
      RecoverTerminalOwnership_def DeleteInactiveTerminalOwnership_def app_Close_def Let_def split: sum.split)

lemma app_step_cases:
  assumes "app_wf db"
  shows "app_step a (Some db) = None \<or> sound_opt db (app_step a (Some db))"
proof (cases a)
  case (Pair env op)
  show ?thesis
  proof (cases "op = AppClose")
    case True
    then show ?thesis using assms by (simp add: Pair app_Close_def)
  next
    case False
    then show ?thesis using app_exec_sound [of db env op] assms by (simp add: Pair)
  qed
qed

interpretation app_sys: step_system "\<lambda>s. s = NewSQLiteStore" app_step app_inv
proof
  show "app_inv s" if "s = NewSQLiteStore" for s
    using that by (simp add: app_inv_def NewSQLiteStore_def app_wf_def wf_threads_def wf_turns_def wf_items_def wf_recoveries_def
        wf_forks_def wf_retries_def)
next
  fix s a
  assume inv: "app_inv s"
  show "app_inv (app_step a s)"
  proof (cases s)
    case None
    then show ?thesis by (cases a) (simp add: app_inv_def app_exec_closed)
  next
    case (Some db)
    then show ?thesis using inv app_step_cases [of db a] by (auto simp: app_inv_def sound_opt_def app_sound_def)
  qed
qed

section \<open>What runs leave alone\<close>

lemma closed_run [simp]: "fold app_step as None = None"
proof (induction as)
  case (Cons a as)
  then show ?case by (cases a) (simp add: app_exec_closed)
qed simp

lemma app_run_sound:
  assumes "app_wf db" and "fold app_step as (Some db) = Some db'"
  shows "app_sound db db'"
  using assms
proof (induction as arbitrary: db)
  case Nil
  then show ?case by (simp add: app_sound_refl)
next
  case (Cons a as)
  have "app_step a (Some db) = None \<or> sound_opt db (app_step a (Some db))" by (rule app_step_cases [OF Cons.prems(1)])
  then show ?case
  proof
    assume "app_step a (Some db) = None"
    with Cons.prems(2) show ?thesis by (simp only: fold_simps closed_run option.distinct)
  next
    assume "sound_opt db (app_step a (Some db))"
    then obtain db1 where db1: "app_step a (Some db) = Some db1" "app_sound db db1" unfolding sound_opt_def by (elim exE conjE)
    from Cons.prems(2) db1(1) have "fold app_step as (Some db1) = Some db'" by (simp only: fold_simps)
    from Cons.IH [OF app_sound_wf [OF db1(2)] this] show ?thesis by (rule app_sound_trans [OF db1(2)])
  qed
qed

end
