(* ===== verification/App_Runs.thy ===== *)
theory App_Runs
  imports App_System
begin

text \<open>
  What single operations of the application server's store do to the rest of it: recovery settles every active turn,
  a file change that has been reverted stays reverted until a rollback removes it, and a rollback keeps
  the turns before the ones it removes.
\<close>

section \<open>Recovery\<close>

lemma recover_items_frame:
  "recover_items env tm is db = Inr (ids, changed, db') \<Longrightarrow> kept_tables db db' \<and> db_turns db' = db_turns db"
proof (induction "is" arbitrary: ids changed db)
  case (Cons i "is")
  have rec: "kept_tables db db1 \<and> db_turns db1 = db_turns db" if rc: "reconcileDurableFileChangeItemTx env i tm db = Inr (Some (j, db1))" for j db1
  proof -
    obtain j' where s: "saveItemTx env j' db = Inr (j, db1)" using reconcile_Some [OF rc] by blast
    show ?thesis using saves_keep_tables(2) [OF s] saveItemTx_frame(2) [OF s] by blast
  qed
  have save: "kept_tables db db1 \<and> db_turns db1 = db_turns db" if s: "saveItemTx env j db = Inr (j', db1)" for j j' db1
    using saves_keep_tables(2) [OF s] saveItemTx_frame(2) [OF s] by blast
  have go: "kept_tables db db' \<and> db_turns db' = db_turns db"
    if "kept_tables db db1" "db_turns db1 = db_turns db" "recover_items env tm is db1 = Inr (ids1, ch1, db')" for db1 ids1 ch1
    using that(1,2) Cons.IH [OF that(3)] kept_tables_trans by metis
  show ?case
  proof (cases "orphanedItemStatus (it_Status i)")
    case False
    with Cons.prems Cons.IH show ?thesis by simp
  next
    case True
    with Cons.prems show ?thesis by (auto split: sum.splits option.splits dest!: rec save) (use go in blast)+
  qed
qed simp

definition interrupted :: "time \<Rightarrow> string \<Rightarrow> app_turn \<Rightarrow> app_turn" where
  "interrupted tm reason u = u\<lparr>tu_Status := TurnInterrupted, tu_Error := reason, tu_CompletedAt := tm, tu_UpdatedAt := tm\<rparr>"

lemma interrupted_ID [simp]: "tu_ID (interrupted tm reason u) = tu_ID u"
  by (simp add: interrupted_def)

lemma recover_turns_Cons:
  assumes "recover_turns env tm reason n (u # us) res db = TxDone res' db'"
  obtains ids changed db1 db2 marker db3 where "recover_items env tm (loadItemsForTurnTx db (tu_ID u)) db = Inr (ids, changed, db1)"
    and "saveTurnTx (interrupted tm reason u) db1 = Inr db2"
    and "saveItemTx env (recovery_marker env n tm reason (tu_Status u) ids (interrupted tm reason u)) db2 = Inr (marker, db3)"
    and "recover_turns env tm reason (Suc n) us
      \<lparr>rtr_Turns = rtr_Turns res @ [interrupted tm reason u], rtr_Items = rtr_Items res @ changed, rtr_Markers = rtr_Markers res @ [marker]\<rparr> db3 = TxDone res' db'"
  using assms unfolding recover_turns.simps Let_def interrupted_def [symmetric] tx_bind_def
  by (auto split: sum.splits)

lemma recover_turns_rows:
  assumes "recover_turns env tm reason n us res db = TxDone res' db'" and "distinct (map tu_ID us)"
  shows "kept_tables db db' \<and> rtr_Turns res' = rtr_Turns res @ map (interrupted tm reason) us \<and>
    (\<forall>k. k \<notin> tu_ID ` set us \<longrightarrow> fmlookup (db_turns db') k = fmlookup (db_turns db) k) \<and>
    (\<forall>u \<in> set us. \<exists>r. fmlookup (db_turns db') (tu_ID u) = Some r \<and> ur_status r = TurnInterrupted \<and> ur_thread_id r = tu_ThreadID u \<and>
       ur_payload r = stored_turn (interrupted tm reason u))"
  using assms
proof (induction us arbitrary: n res db)
  case (Cons u us)
  obtain ids changed db1 db2 marker db3 where step: "recover_items env tm (loadItemsForTurnTx db (tu_ID u)) db = Inr (ids, changed, db1)"
      "saveTurnTx (interrupted tm reason u) db1 = Inr db2"
      "saveItemTx env (recovery_marker env n tm reason (tu_Status u) ids (interrupted tm reason u)) db2 = Inr (marker, db3)"
      and rest: "recover_turns env tm reason (Suc n) us
        \<lparr>rtr_Turns = rtr_Turns res @ [interrupted tm reason u], rtr_Items = rtr_Items res @ changed, rtr_Markers = rtr_Markers res @ [marker]\<rparr> db3 = TxDone res' db'"
    using recover_turns_Cons [OF Cons.prems(1)] .
  note one = recover_items_frame [OF step(1)]
  have row: "fmlookup (db_turns db3) k = (if k = tu_ID u then Some (turn_row_of db1 (interrupted tm reason u)) else fmlookup (db_turns db) k)" for k
    unfolding saveItemTx_frame(2) [OF step(3)] using step(2) one by (auto simp: saveTurnTx_def split: if_splits)
  have keep: "kept_tables db db3" using one saves_keep_tables(1) [OF step(2)] saves_keep_tables(2) [OF step(3)] kept_tables_trans by blast
  have u: "tu_ID u \<notin> tu_ID ` set us" using Cons.prems(2) by simp
  note ih = Cons.IH [OF rest]
  show ?case
  proof (intro conjI ballI allI impI)
    show "kept_tables db db'" "rtr_Turns res' = rtr_Turns res @ map (interrupted tm reason) (u # us)"
      using ih keep Cons.prems(2) kept_tables_trans by auto
    show "fmlookup (db_turns db') k = fmlookup (db_turns db) k" if "k \<notin> tu_ID ` set (u # us)" for k
      using ih that row Cons.prems(2) by simp
    show "\<exists>r. fmlookup (db_turns db') (tu_ID v) = Some r \<and> ur_status r = TurnInterrupted \<and> ur_thread_id r = tu_ThreadID v \<and>
        ur_payload r = stored_turn (interrupted tm reason v)" if v: "v \<in> set (u # us)" for v
    proof (cases "v = u")
      case True
      then show ?thesis using ih row u Cons.prems(2) by (simp add: turn_row_of_def interrupted_def)
    next
      case False
      then show ?thesis using ih v Cons.prems(2) by simp
    qed
  qed
qed simp

lemma recover_turns_no_panic: "recover_turns env tm reason n us res db \<noteq> TxPanic db'"
  by (induction us arbitrary: n res db) (auto simp: Let_def tx_bind_def split: sum.splits prod.splits)

section \<open>Reverted file changes\<close>

definition reverts_kept :: "app_db \<Rightarrow> app_db \<Rightarrow> bool" where
  "reverts_kept db db' \<longleftrightarrow> (\<forall>k r. fmlookup (db_recoveries db) k = Some r \<longrightarrow> cr_status r = FileChangeRecoveryReverted \<longrightarrow>
     fmlookup (db_recoveries db') k = Some r)"

lemma reverts_kept_refl [simp]: "db_recoveries db' = db_recoveries db \<Longrightarrow> reverts_kept db db'"
  by (simp add: reverts_kept_def)

lemma reverts_kept_trans: "reverts_kept db db' \<Longrightarrow> reverts_kept db' db'' \<Longrightarrow> reverts_kept db db''"
  unfolding reverts_kept_def by blast

fun tx_all :: "(app_db \<Rightarrow> bool) \<Rightarrow> 'a tx_result \<Rightarrow> bool" where
  "tx_all P (TxError e) \<longleftrightarrow> True"
| "tx_all P (TxPanic db) \<longleftrightarrow> P db"
| "tx_all P (TxDone x db) \<longleftrightarrow> P db"

lemma tx_all_bind: "(\<And>x. r = Inr x \<Longrightarrow> tx_all P (k x)) \<Longrightarrow> tx_all P (tx_bind r k)"
  by (cases r) (auto simp: tx_bind_def)

lemma tx_all_then: "tx_all P r \<Longrightarrow> (\<And>x db. r = TxDone x db \<Longrightarrow> P db \<Longrightarrow> tx_all Q (k x db)) \<Longrightarrow> (\<And>db. P db \<Longrightarrow> Q db) \<Longrightarrow> tx_all Q (tx_then r k)"
  by (cases r) (auto simp: tx_then_def)

lemma tx_keeps_all: "tx_keeps db r \<Longrightarrow> tx_all (kept_tables db) r"
  by (cases r) auto

lemma save_recoveries:
  "db_recoveries (saveThreadTx t db) = db_recoveries db" "saveTurnTx u db = Inr db1 \<Longrightarrow> db_recoveries db1 = db_recoveries db"
  by (auto simp: saveThreadTx_def saveTurnTx_def split: if_splits)

lemma withTx_reverts:
  assumes "tx_all (reverts_kept db) (fn db)" and "snd (app_withTx fn (Some db)) = Some db'"
  shows "reverts_kept db db'"
  using assms by (cases "fn db") (auto simp: app_withTx_def)

lemma kept_tables_reverts: "kept_tables db db' \<Longrightarrow> reverts_kept db db'"
  by (simp add: kept_tables_def)

lemma thread_txs_revert:
  "tx_all (reverts_kept db) (CreateThread_tx env req db)" "tx_all (reverts_kept db) (setThreadStatus_tx env k status db)"
  "tx_all (reverts_kept db) (update_thread_tx env k change db)"
  by (auto simp: CreateThread_tx_def setThreadStatus_tx_def update_thread_tx_def Let_def save_recoveries intro!: tx_all_bind)

lemma turn_txs_revert:
  "tx_all (reverts_kept db) (CreateTurn_tx env creq db)" "tx_all (reverts_kept db) (StartTurn_tx env k db)"
  "tx_all (reverts_kept db) (CompleteTurn_tx env oreq db)" "tx_all (reverts_kept db) (PrepareTurnRetry_tx env rreq db)"
  by (auto simp: CreateTurn_tx_def StartTurn_tx_def CompleteTurn_tx_def PrepareTurnRetry_tx_def Let_def save_recoveries
      intro!: tx_all_bind split: option.split)

lemma item_txs_revert:
  "tx_all (reverts_kept db) (AppendItem_tx env areq db)" "tx_all (reverts_kept db) (UpdateItem_tx env k status payload db)"
  by (auto simp: AppendItem_tx_def UpdateItem_tx_def Let_def intro!: tx_all_bind reverts_kept_refl) (erule saveItemTx_frame(4))+

lemma copied_history_reverts:
  "tx_all (reverts_kept db) (copyThreadHistoryTx env sourceID forkID (saveThreadTx t db))"
proof -
  have "reverts_kept db db'" if "kept_tables (saveThreadTx t db) db'" for db'
    using that by (simp add: kept_tables_def save_recoveries)
  with tx_keeps_all [OF copyThreadHistoryTx_frame, of "saveThreadTx t db" env sourceID forkID] show ?thesis
    by (cases "copyThreadHistoryTx env sourceID forkID (saveThreadTx t db)") simp_all
qed

lemma fork_txs_revert:
  "tx_all (reverts_kept db) (ForkThread_tx env freq db)" "tx_all (reverts_kept db) (PrepareThreadFork_tx env source key db)"
proof -
  show "tx_all (reverts_kept db) (ForkThread_tx env freq db)"
    unfolding ForkThread_tx_def Let_def
    by (auto simp: save_recoveries intro!: tx_all_bind tx_all_then [where P = "reverts_kept db"] copied_history_reverts)
  show "tx_all (reverts_kept db) (PrepareThreadFork_tx env source key db)"
    unfolding PrepareThreadFork_tx_def Let_def
    by (auto simp: reverts_kept_def intro!: tx_all_bind tx_all_then [OF copied_history_reverts] split: option.split sum.split)
qed

lemma recover_turns_reverts: "tx_all (kept_tables db) (recover_turns env tm reason n us res db)"
proof (induction us arbitrary: n res db)
  case (Cons u us)
  have "tx_all (kept_tables db) (recover_turns env tm reason m us res' db3)" if "kept_tables db db3" for m res' db3
    using Cons.IH [of db3 m res'] kept_tables_trans [OF that] by (cases "recover_turns env tm reason m us res' db3") simp_all
  moreover have "kept_tables db db3" if "recover_items env tm (loadItemsForTurnTx db (tu_ID u)) db = Inr (ids, ch, db1)" "saveTurnTx v db1 = Inr db2"
      "saveItemTx env i db2 = Inr (j, db3)" for ids ch db1 db2 db3 v i j
    using recover_items_frame [OF that(1)] saves_keep_tables(1) [OF that(2)] saves_keep_tables(2) [OF that(3)] kept_tables_trans by blast
  ultimately show ?case by (auto simp: Let_def intro!: tx_all_bind)
qed simp

lemma saved_recovery_reverts:
  assumes "\<And>r. fmlookup (db_recoveries db) (fr_ItemID p) = Some r \<Longrightarrow> cr_status r \<noteq> FileChangeRecoveryReverted"
  shows "reverts_kept db (saveFileChangeRecoveryTx p db)"
  using assms by (auto simp: reverts_kept_def saveFileChangeRecoveryTx_def)

lemma recovery_not_reverted:
  assumes wf: "app_wf db" and load: "loadFileChangeRecoveryTx db k = Inr p" and st: "fr_Status p \<noteq> FileChangeRecoveryReverted"
  shows "fr_ItemID p = k" "fmlookup (db_recoveries db) k = Some r \<Longrightarrow> cr_status r \<noteq> FileChangeRecoveryReverted"
proof -
  obtain r0 where r0: "fmlookup (db_recoveries db) k = Some r0" "cr_payload r0 = p" "recovery_ok db k r0" "fr_ItemID p = k"
    using loadFileChangeRecoveryTx_Inr [OF wf load] .
  show "fr_ItemID p = k" by (rule r0(4))
  show "cr_status r \<noteq> FileChangeRecoveryReverted" if "fmlookup (db_recoveries db) k = Some r"
    using that r0(1-3) st by (simp add: recovery_ok_def Let_def)
qed

lemma revert_txs_revert:
  assumes wf: "app_wf db"
  shows "tx_all (reverts_kept db) (SaveFileChangeRecovery_tx p db)" "tx_all (reverts_kept db) (PrepareFileChangeRevert_tx k key tm db)"
    "tx_all (reverts_kept db) (AbortFileChangeRevert_tx k key tm db)" "tx_all (reverts_kept db) (CompleteFileChangeRevert_tx env k key tm db)"
proof -
  show "tx_all (reverts_kept db) (SaveFileChangeRecovery_tx p db)"
    by (auto simp: SaveFileChangeRecovery_tx_def fmlookup_dom_iff intro!: tx_all_bind saved_recovery_reverts)
  have save: "reverts_kept db (saveFileChangeRecoveryTx p' db1)"
    if "loadFileChangeRecoveryTx db k = Inr p" "fr_Status p \<noteq> FileChangeRecoveryReverted" "fr_ItemID p' = fr_ItemID p" "db_recoveries db1 = db_recoveries db" for p p' db1
  proof -
    have "reverts_kept db1 (saveFileChangeRecoveryTx p' db1)"
      by (rule saved_recovery_reverts) (use recovery_not_reverted [OF wf that(1,2)] that(3,4) in simp)
    then show ?thesis using that(4) by (simp add: reverts_kept_def)
  qed
  show "tx_all (reverts_kept db) (PrepareFileChangeRevert_tx k key tm db)"
    by (auto simp: PrepareFileChangeRevert_tx_def Let_def intro!: tx_all_bind split: recovery_status.split) (erule save, simp_all)+
  show "tx_all (reverts_kept db) (AbortFileChangeRevert_tx k key tm db)"
    by (auto simp: AbortFileChangeRevert_tx_def Let_def intro!: tx_all_bind) (erule save, simp_all)+
  show "tx_all (reverts_kept db) (CompleteFileChangeRevert_tx env k key tm db)"
    by (auto simp: CompleteFileChangeRevert_tx_def Let_def intro!: tx_all_bind dest!: saveItemTx_frame(4)) (erule save, simp_all)+
qed

lemma terminal_txs_revert:
  "tx_all (reverts_kept db) (SaveTerminalOwnership_tx e db)" "tx_all (reverts_kept db) (RecoverTerminalOwnership_tx w live tm db)"
proof -
  obtain x where "fold saveTerminalOwnershipTx (map (lost_record tm) (orphaned_records db w live)) db = db\<lparr>db_terminals := x\<rparr>"
    using fold_terminals by blast
  then show "tx_all (reverts_kept db) (RecoverTerminalOwnership_tx w live tm db)" by (simp add: RecoverTerminalOwnership_tx_def Let_def)
  show "tx_all (reverts_kept db) (SaveTerminalOwnership_tx e db)"
    by (auto simp: SaveTerminalOwnership_tx_def saveTerminalOwnershipTx_def split: option.split)
qed

lemmas txs_revert = thread_txs_revert turn_txs_revert item_txs_revert fork_txs_revert revert_txs_revert terminal_txs_revert

lemma app_exec_reverts:
  assumes wf: "app_wf db" and op: "\<And>k n. op \<noteq> AppRollbackThread k n" and db': "app_exec env op (Some db) = Some db'"
  shows "reverts_kept db db'"
proof -
  have rec: "tx_all (reverts_kept db) (RecoverOrphanedTurns_tx env tm reason db)" for tm reason
    using recover_turns_reverts kept_tables_reverts unfolding RecoverOrphanedTurns_tx_def by (metis tx_all.elims(2,3) tx_all.simps)
  note ops = CreateThread_def ArchiveThread_def UnarchiveThread_def DeleteThread_def ForkThread_def PrepareThreadFork_def
      UpdateThreadTitle_def UpdateThreadSettings_def CreateTurn_def StartTurn_def CompleteTurn_def
      PrepareTurnRetry_def RecoverOrphanedTurns_def AppendItem_def UpdateItem_def SaveFileChangeRecovery_def
      PrepareFileChangeRevert_def AbortFileChangeRevert_def CompleteFileChangeRevert_def SaveTerminalOwnership_def
      RecoverTerminalOwnership_def DeleteInactiveTerminalOwnership_def app_Close_def Let_def
  show ?thesis
    using op db'
    by (cases op) (auto simp: ops split: if_splits sum.splits elim!: withTx_reverts [rotated] intro: txs_revert revert_txs_revert [OF wf] rec)
qed

lemma app_run_reverts:
  assumes "app_wf db" and "\<And>env k n. (env, AppRollbackThread k n) \<notin> set as" and "fold app_step as (Some db) = Some db'"
  shows "reverts_kept db db'"
  using assms
proof (induction as arbitrary: db)
  case (Cons a as)
  obtain env op where a: "a = (env, op)" by (cases a)
  have op: "op \<noteq> AppRollbackThread k n" for k n using Cons.prems(2) [of env k n] a by auto
  have step: "app_step a (Some db) = None \<or> sound_opt db (app_step a (Some db))" by (rule app_step_cases [OF Cons.prems(1)])
  have "app_step a (Some db) \<noteq> None" using Cons.prems(3) closed_run [of as] by (metis fold_simps(2) option.distinct(1))
  with step obtain db1 where db1: "app_step a (Some db) = Some db1" "app_sound db db1" unfolding sound_opt_def by blast
  have "reverts_kept db db1"
    using db1(1) app_exec_reverts [OF Cons.prems(1) op] by (auto simp: a split: if_splits)
  moreover have "reverts_kept db1 db'"
    using Cons.prems(2,3) db1 by (intro Cons.IH [OF app_sound_wf [OF db1(2)]]) (auto simp only: fold_simps list.set insert_iff)
  ultimately show ?case by (rule reverts_kept_trans)
qed simp

section \<open>Rollback\<close>

text \<open>Ordering a table that lost some rows gives the order of the others.\<close>

lemma map_keys_fmfilter: "map_keys (fmfilter P m) = filter P (map_keys m)"
proof -
  have "set (filter P (map_keys m)) = fmdom' (fmfilter P m)" by auto
  then show ?thesis by (intro sorted_distinct_set_unique) (simp_all add: sorted_wrt_filter sorted_map_keys)
qed

lemma insort_key_eq: "(\<And>y. y \<in> insert x (set ys) \<Longrightarrow> f y = g y) \<Longrightarrow> insort_key f x ys = insort_key g x ys"
  by (induction ys) auto

lemma sort_key_eq: "(\<And>x. x \<in> set xs \<Longrightarrow> f x = g x) \<Longrightarrow> sort_key f xs = sort_key g xs"
  by (induction xs) (auto intro!: insort_key_eq)

lemma order_by_fmfilter: "order_by col (fmfilter P m) = filter P (order_by col m)"
proof -
  let ?k = "\<lambda>m k. ((case fmlookup m k of None \<Rightarrow> [] | Some r \<Rightarrow> col r), k)"
  have "sort_key (?k (fmfilter P m)) (filter P (map_keys m)) = sort_key (?k m) (filter P (map_keys m))"
    by (rule sort_key_eq) auto
  then show ?thesis unfolding order_by_def map_keys_fmfilter by (simp only: filter_sort)
qed

lemma turns_after_deletion:
  assumes wf: "wf_turns db" and db': "db_turns db' = fmfilter P (db_turns db)"
  shows "loadTurnsForThreadTx db' t = filter (\<lambda>u. P (tu_ID u)) (loadTurnsForThreadTx db t)"
proof -
  let ?m = "thread_turn_rows db t"
  have m': "thread_turn_rows db' t = fmfilter P ?m"
    by (rule fmap_ext) (auto simp: thread_turn_rows_def db')
  have id: "tu_ID (ur_payload r) = k" if "fmlookup ?m k = Some r" for k r
    using that wf by (auto simp: thread_turn_rows_def wf_turns_def turn_ok_row_def split: if_splits)
  have "List.map_filter (\<lambda>k. map_option ur_payload (fmlookup (fmfilter P ?m) k)) (filter P ks) =
      filter (\<lambda>u. P (tu_ID u)) (List.map_filter (\<lambda>k. map_option ur_payload (fmlookup ?m k)) ks)" for ks
  proof (induction ks)
    case (Cons k ks)
    then show ?case by (cases "fmlookup ?m k") (auto simp: List.map_filter_simps id)
  qed (simp add: List.map_filter_simps)
  then show ?thesis unfolding loadTurnsForThreadTx_def Let_def m' order_by_fmfilter by simp
qed

lemma prune_turn_rows:
  assumes "removed \<noteq> []"
  shows "db_turns (pruneRolledBackHistoryTx t removed db) = fmfilter (\<lambda>k. k \<notin> tu_ID ` set removed) (db_turns db)"
  using assms by (intro fmap_ext) (simp add: pruneRolledBackHistoryTx_def Let_def deleteItemsFromSeqTx_def delete_recoveries_def)

lemma rollback_turns:
  assumes wf: "wf_turns db"
  shows "loadTurnsForThreadTx (pruneRolledBackHistoryTx t (loadLastTurnsTx db t n) db) t =
    take (length (loadTurnsForThreadTx db t) - nat n) (loadTurnsForThreadTx db t)"
proof -
  let ?us = "loadTurnsForThreadTx db t" and ?rem = "loadLastTurnsTx db t n"
  have rem: "?rem = rev (drop (length ?us - nat n) ?us)" by (simp add: loadLastTurnsTx_def take_rev)
  let ?keep = "take (length ?us - nat n) ?us"
  have us: "?us = ?keep @ rev ?rem" by (simp add: rem)
  have dist: "distinct (map tu_ID (?keep @ rev ?rem))" using distinct_thread_turns [OF wf, of t] us by metis
  have eq: "loadTurnsForThreadTx (pruneRolledBackHistoryTx t ?rem db) t = filter (\<lambda>u. tu_ID u \<notin> tu_ID ` set ?rem) ?us"
  proof (cases "?rem = []")
    case True
    then show ?thesis by (simp add: pruneRolledBackHistoryTx_def)
  next
    case False
    from turns_after_deletion [OF wf prune_turn_rows [OF False]] show ?thesis .
  qed
  have "filter (\<lambda>u. tu_ID u \<notin> tu_ID ` set ?rem) (?keep @ rev ?rem) = ?keep"
    using dist by (force simp: filter_empty_conv intro: filter_True)
  with eq us show ?thesis by metis
qed

lemma rollback_turns_elsewhere:
  assumes wf: "wf_turns db" and t: "t \<noteq> k"
  shows "loadTurnsForThreadTx (pruneRolledBackHistoryTx k (loadLastTurnsTx db k n) db) t = loadTurnsForThreadTx db t"
proof (cases "loadLastTurnsTx db k n = []")
  case True
  then show ?thesis by (simp add: pruneRolledBackHistoryTx_def)
next
  case False
  let ?rem = "loadLastTurnsTx db k n"
  have id: "fmlookup (db_turns db) (tu_ID u) = Some r \<and> ur_thread_id r = x" if "fmlookup (db_turns db) j = Some r" "ur_thread_id r = x" "ur_payload r = u" for j r x u
    using that wf by (auto simp: wf_turns_def turn_ok_row_def)
  have in_row: "\<exists>r. fmlookup (db_turns db) (tu_ID u) = Some r \<and> ur_thread_id r = x" if "u \<in> set (loadTurnsForThreadTx db x)" for u x
    using that id unfolding thread_turns_iff by blast
  have "set ?rem \<subseteq> set (loadTurnsForThreadTx db k)" unfolding loadLastTurnsTx_def by (metis set_rev set_take_subset)
  then have v: "v \<in> set (loadTurnsForThreadTx db k)" if "v \<in> set ?rem" for v using that by blast
  have "tu_ID u \<noteq> tu_ID v" if u: "u \<in> set (loadTurnsForThreadTx db t)" and vr: "v \<in> set ?rem" for u v
    using in_row [OF u] in_row [OF v [OF vr]] t by auto
  then have "tu_ID u \<notin> tu_ID ` set ?rem" if "u \<in> set (loadTurnsForThreadTx db t)" for u
    using that by blast
  then show ?thesis unfolding turns_after_deletion [OF wf prune_turn_rows [OF False]] by (intro filter_True) simp
qed

lemma prune_items_elsewhere:
  "t \<noteq> k \<Longrightarrow> filter (\<lambda>r. ir_thread_id r = t) (db_items (pruneRolledBackHistoryTx k removed db)) = filter (\<lambda>r. ir_thread_id r = t) (db_items db)"
  by (auto simp: pruneRolledBackHistoryTx_def Let_def deleteItemsFromSeqTx_def delete_recoveries_def intro!: filter_cong)

end
