(* ===== verification/App_Scenario.thy ===== *)
theory App_Scenario
  imports App_System
begin

text \<open>
  The application server's store at work: a thread with a turn, a file change that is recorded and whose reversal is prepared,
  and threads to fork.
\<close>

definition app_at :: "string \<Rightarrow> time \<Rightarrow> app_env" where
  "app_at tag t = \<lparr>ae_now = t, ae_uuid = (\<lambda>_ n. tag @ replicate n (CHR ''i'')), ae_gap = 0\<rparr>"

definition app_open :: "app_env \<times> app_op" where
  "app_open = (app_at ''a'' 100, AppCreateThread \<lparr>ctr_Title = ''t'', ctr_Workspace = ''w'', ctr_Settings = fmempty, ctr_Metadata = fmempty\<rparr>)"

definition app_ask :: "app_env \<times> app_op" where
  "app_ask = (app_at ''b'' 110, AppCreateTurn \<lparr>cur_ThreadID = ''thread_a'', cur_Input = RawJSON (JStr ''hi''), cur_Metadata = fmempty\<rparr>)"

definition app_change :: "app_env \<times> app_op" where
  "app_change = (app_at ''c'' 120, AppAppendItem \<lparr>air_ThreadID = ''thread_a'', air_TurnID = ''turn_b'', air_ParentItemID = [],
     air_Kind = ''fileChange'', air_Status = ''completed'', air_Payload = RawEmpty\<rparr>)"

definition change_record :: file_change_recovery where
  "change_record = \<lparr>fr_ItemID = ''item_c'', fr_ThreadID = ''thread_a'', fr_TurnID = ''turn_b'', fr_Path = ''f'', fr_BeforeExists = True,
     fr_AfterExists = True, fr_BeforeSHA256 = [], fr_AfterSHA256 = [], fr_BeforeMode = 0, fr_AfterMode = 0, fr_BeforeContent = [],
     fr_Status = FileChangeRecoveryAvailable, fr_IdempotencyKey = [], fr_MarkerID = [], fr_CreatedAt = 120, fr_UpdatedAt = 120, fr_RevertedAt = 0\<rparr>"

definition app_record :: "app_env \<times> app_op" where
  "app_record = (app_at ''d'' 130, AppSaveFileChangeRecovery change_record)"

definition app_prepare :: "app_env \<times> app_op" where
  "app_prepare = (app_at ''e'' 140, AppPrepareFileChangeRevert ''item_c'' ''key'' 140)"

definition the_thread :: thread_row where
  "the_thread = \<lparr>hr_updated_at = app_formatTime 100, hr_payload =
     \<lparr>th_ID = ''thread_a'', th_Title = ''t'', th_Workspace = ''w'', th_Status = ThreadActive, th_ForkedFromThreadID = [], th_Settings = fmempty,
      th_Metadata = fmempty, th_CreatedAt = 100, th_UpdatedAt = 100, th_ArchivedAt = 0, th_DeletedAt = 0\<rparr>\<rparr>"

definition the_turn :: turn_row where
  "the_turn = \<lparr>ur_thread_id = ''thread_a'', ur_status = TurnQueued, ur_created_at = app_formatTime 110,
     ur_payload = new_turn (app_at ''b'' 110) 0 ''thread_a'' (RawJSON (JStr ''hi'')) fmempty\<rparr>"

definition the_item :: item_row where
  "the_item = item_row_of 1 \<lparr>it_ID = ''item_c'', it_ThreadID = ''thread_a'', it_TurnID = ''turn_b'', it_ParentItemID = [], it_Seq = 1,
     it_Kind = ''fileChange'', it_Status = ''completed'', it_Payload = RawEmpty, it_CreatedAt = 120, it_UpdatedAt = 120\<rparr>"

definition the_recovery :: "file_change_recovery \<Rightarrow> recovery_row" where
  "the_recovery p = \<lparr>cr_thread_id = fr_ThreadID p, cr_status = fr_Status p, cr_payload = p\<rparr>"

definition one_thread :: app_db where
  "one_thread = \<lparr>db_threads = fmupd ''thread_a'' the_thread fmempty, db_turns = fmempty, db_items = [], db_item_seq = 0, db_forks = fmempty,
     db_recoveries = fmempty, db_terminals = fmempty\<rparr>"

definition one_turn :: app_db where
  "one_turn = one_thread\<lparr>db_turns := fmupd ''turn_b'' the_turn fmempty\<rparr>"

definition one_item :: app_db where
  "one_item = one_turn\<lparr>db_items := [the_item], db_item_seq := 1\<rparr>"

lemma app_at_simps [simp]: "ae_now (app_at tag t) = t" "ae_gap (app_at tag t) = 0"
  "app_newID (app_at tag t) p n = p @ ''_'' @ tag @ replicate n (CHR ''i'')"
  by (simp_all add: app_at_def app_newID_def)

lemma stored_map_empty [simp]: "stored_map fmempty = fmempty"
  by (simp add: stored_map_def)

lemmas app_scenario_defs = app_withTx_def new_ids_def Let_def tx_bind_def loadThreadTx_def loadTurnTx_def the_thread_def the_turn_def one_thread_def
  one_turn_def one_item_def

lemma one_thread_eq: "fold app_step [app_open] NewSQLiteStore = Some one_thread"
  by (simp add: app_open_def NewSQLiteStore_def CreateThread_def CreateThread_tx_def saveThreadTx_def app_scenario_defs)

lemma one_turn_eq: "fold app_step [app_open, app_ask] NewSQLiteStore = Some one_turn"
proof -
  have step: "fold app_step [app_open, app_ask] s = app_step app_ask (fold app_step [app_open] s)" for s by simp
  show ?thesis
    unfolding step one_thread_eq
    by (simp add: app_ask_def CreateTurn_def CreateTurn_tx_def require_open_def saveTurnTx_def new_turn_def turn_row_of_def stored_turn_def app_scenario_defs)
qed

lemma fcard_one [simp]: "fcard {|x|} = 1"
  by (simp add: fcard.rep_eq)

lemma keys_one [simp]: "map_keys (fmupd k v fmempty) = [k]"
  by (simp add: map_keys_def sorted_list_of_fset.rep_eq)

lemma one_item_eq: "fold app_step [app_open, app_ask, app_change] NewSQLiteStore = Some one_item"
proof -
  have step: "fold app_step [app_open, app_ask, app_change] s = app_step app_change (fold app_step [app_open, app_ask] s)" for s by simp
  show ?thesis
    unfolding step one_turn_eq
    by (simp add: app_change_def AppendItem_def AppendItem_tx_def saveItemTx_def new_turn_def the_item_def item_row_of_def app_scenario_defs)
qed

definition recorded :: app_db where
  "recorded = one_item\<lparr>db_recoveries := fmupd ''item_c'' (the_recovery (change_record\<lparr>fr_UpdatedAt := 130\<rparr>)) fmempty\<rparr>"

definition prepared_record :: file_change_recovery where
  "prepared_record = change_record\<lparr>fr_Status := FileChangeRecoveryPending, fr_IdempotencyKey := ''key'', fr_UpdatedAt := 140\<rparr>"

definition prepared_db :: app_db where
  "prepared_db = one_item\<lparr>db_recoveries := fmupd ''item_c'' (the_recovery prepared_record) fmempty\<rparr>"

lemma recorded_eq: "fold app_step [app_open, app_ask, app_change, app_record] NewSQLiteStore = Some recorded"
proof -
  have step: "fold app_step [app_open, app_ask, app_change, app_record] s = app_step app_record (fold app_step [app_open, app_ask, app_change] s)" for s by simp
  show ?thesis
    unfolding step one_item_eq
    by (simp add: app_record_def SaveFileChangeRecovery_def SaveFileChangeRecovery_tx_def change_record_def saveFileChangeRecoveryTx_def time_or_now_def
        loadItemTx_def the_item_def item_row_of_def recorded_def the_recovery_def app_scenario_defs)
qed

lemma prepared_eq: "fold app_step [app_open, app_ask, app_change, app_record, app_prepare] NewSQLiteStore = Some prepared_db"
proof -
  have step: "fold app_step [app_open, app_ask, app_change, app_record, app_prepare] s =
      app_step app_prepare (fold app_step [app_open, app_ask, app_change, app_record] s)" for s by simp
  show ?thesis
    unfolding step recorded_eq
    by (simp add: app_prepare_def PrepareFileChangeRevert_def PrepareFileChangeRevert_tx_def change_record_def saveFileChangeRecoveryTx_def time_or_now_def
        loadFileChangeRecoveryTx_def load_marker_def the_item_def item_row_of_def recorded_def prepared_db_def prepared_record_def the_recovery_def app_scenario_defs)
qed

lemma fraction_less: "fraction 110 @ [CHR ''Z''] < fraction 120 @ [CHR ''Z'']"
  by code_simp

lemma ask_times_less: "RFC3339Nano 110 < RFC3339Nano 120"
  using fraction_less by (simp add: RFC3339Nano_def)
text \<open>An item whose evidence is \<^verbatim>\<open>null\<close>, and a thread with two turns.\<close>

definition app_inject :: "app_env \<times> app_op" where
  "app_inject = (app_at ''b'' 110, AppAppendItem \<lparr>air_ThreadID = ''thread_a'', air_TurnID = [], air_ParentItemID = [],
     air_Kind = ''fileChange'', air_Status = ''completed'',
     air_Payload = RawJSON (JObj [(''type'', JStr ''fileChange''), (''evidence'', JArr [JNull])])\<rparr>)"

definition injected :: app_db where
  "injected = one_thread\<lparr>db_items := [item_row_of 1 \<lparr>it_ID = ''item_b'', it_ThreadID = ''thread_a'', it_TurnID = [], it_ParentItemID = [],
     it_Seq = 1, it_Kind = ''fileChange'', it_Status = ''completed'',
     it_Payload = RawJSON (JObj [(''type'', JStr ''fileChange''), (''evidence'', JArr [JNull])]), it_CreatedAt = 110, it_UpdatedAt = 110\<rparr>],
     db_item_seq := 1\<rparr>"

lemma injected_eq: "fold app_step [app_open, app_inject] NewSQLiteStore = Some injected"
proof -
  have step: "fold app_step [app_open, app_inject] s = app_step app_inject (fold app_step [app_open] s)" for s by simp
  show ?thesis
    unfolding step one_thread_eq
    by (simp add: app_inject_def AppendItem_def AppendItem_tx_def saveItemTx_def injected_def item_row_of_def app_scenario_defs)
qed

abbreviation whole_thread :: fork_thread_request where
  "whole_thread \<equiv> \<lparr>ftr_SourceThreadID = ''thread_a'', ftr_Title = [], ftr_Metadata = fmempty, ftr_IncludeItems = True\<rparr>"

definition app_answer :: "app_env \<times> app_op" where
  "app_answer = (app_at ''c'' 115, AppCompleteTurn \<lparr>cor_ID = ''turn_b'', cor_Status = [], cor_Result = RawEmpty, cor_Error = [], cor_Usage = fmempty\<rparr>)"

definition app_ask_again :: "app_env \<times> app_op" where
  "app_ask_again = (app_at ''d'' 120, AppCreateTurn \<lparr>cur_ThreadID = ''thread_a'', cur_Input = RawJSON (JStr ''bye''), cur_Metadata = fmempty\<rparr>)"

definition app_answer_again :: "app_env \<times> app_op" where
  "app_answer_again = (app_at ''e'' 125, AppCompleteTurn \<lparr>cor_ID = ''turn_d'', cor_Status = [], cor_Result = RawEmpty, cor_Error = [], cor_Usage = fmempty\<rparr>)"

definition answered :: "time \<Rightarrow> app_turn \<Rightarrow> app_turn" where
  "answered t u = u\<lparr>tu_Status := TurnCompletedStatus, tu_CompletedAt := t, tu_UpdatedAt := t\<rparr>"

definition first_turn :: app_turn where
  "first_turn = answered 115 (new_turn (app_at ''b'' 110) 0 ''thread_a'' (RawJSON (JStr ''hi'')) fmempty)"

definition second_asked :: app_turn where
  "second_asked = new_turn (app_at ''d'' 120) 0 ''thread_a'' (RawJSON (JStr ''bye'')) fmempty"

definition row_at :: "time \<Rightarrow> app_turn \<Rightarrow> turn_row" where
  "row_at t u = \<lparr>ur_thread_id = ''thread_a'', ur_status = tu_Status u, ur_created_at = app_formatTime t, ur_payload = u\<rparr>"

definition two_turns :: app_db where
  "two_turns = one_thread\<lparr>db_turns := fmupd ''turn_d'' (row_at 120 (answered 125 second_asked)) (fmupd ''turn_b'' (row_at 110 first_turn) fmempty)\<rparr>"

lemma upt_three: "[0..<3] = [0, Suc 0, 2]"
  by (simp add: upt_rec)

lemmas two_turn_defs = row_at_def first_turn_def second_asked_def answered_def new_turn_def saveTurnTx_def turn_row_of_def stored_turn_def

lemma answered_eq: "fold app_step [app_open, app_ask, app_answer] NewSQLiteStore =
    Some (one_thread\<lparr>db_turns := fmupd ''turn_b'' (row_at 110 first_turn) fmempty\<rparr>)"
proof -
  have step: "fold app_step [app_open, app_ask, app_answer] s = app_step app_answer (fold app_step [app_open, app_ask] s)" for s by simp
  have over: "fmupd ''turn_b'' x (fmupd ''turn_b'' y fmempty) = fmupd ''turn_b'' x fmempty" for x y by (rule fmap_ext) simp
  show ?thesis
    unfolding step one_turn_eq by (simp add: app_answer_def CompleteTurn_def CompleteTurn_tx_def two_turn_defs over app_scenario_defs)
qed

lemma asked_again_eq: "fold app_step [app_open, app_ask, app_answer, app_ask_again] NewSQLiteStore =
    Some (one_thread\<lparr>db_turns := fmupd ''turn_d'' (row_at 120 second_asked) (fmupd ''turn_b'' (row_at 110 first_turn) fmempty)\<rparr>)"
proof -
  have step: "fold app_step [app_open, app_ask, app_answer, app_ask_again] s =
      app_step app_ask_again (fold app_step [app_open, app_ask, app_answer] s)" for s by simp
  show ?thesis
    unfolding step answered_eq by (simp add: app_ask_again_def CreateTurn_def CreateTurn_tx_def require_open_def two_turn_defs app_scenario_defs)
qed

lemma two_turns_eq: "fold app_step [app_open, app_ask, app_answer, app_ask_again, app_answer_again] NewSQLiteStore = Some two_turns"
proof -
  have step: "fold app_step [app_open, app_ask, app_answer, app_ask_again, app_answer_again] s =
      app_step app_answer_again (fold app_step [app_open, app_ask, app_answer, app_ask_again] s)" for s by simp
  have over: "fmupd ''turn_d'' x (fmupd ''turn_d'' y m) = fmupd ''turn_d'' x m" for x y m by (rule fmap_ext) simp
  have two: "fcard {|''turn_d'', ''turn_b''|} = 2" by (simp add: fcard.rep_eq)
  have rep: "replicate 2 x = [x, x]" for x :: char by (simp add: numeral_2_eq_2)
  show ?thesis
    unfolding step asked_again_eq
    by (simp add: app_answer_again_def CompleteTurn_def CompleteTurn_tx_def two_turns_def two_turn_defs over two rep upt_three app_scenario_defs)
qed

definition descending :: app_env where
  "descending = \<lparr>ae_now = 130, ae_uuid = (\<lambda>_ n. if n = 0 then ''z'' else if n = 1 then ''y'' else ''x''), ae_gap = 0\<rparr>"

lemma descending_simps [simp]: "ae_now descending = 130" "ae_gap descending = 0"
  "app_newID descending p n = p @ ''_'' @ (if n = 0 then ''z'' else if n = 1 then ''y'' else ''x'')"
  by (simp_all add: descending_def app_newID_def)

end
