(* ===== verification/App_Properties.thy ===== *)
theory App_Properties
  imports App_Runs App_Scenario
begin

text \<open>
  The properties of the application server's store, over every sequence of its operations from an empty database
  (\<open>app_after\<close>), witnessed on the scenario of \<^verbatim>\<open>App_Scenario\<close>.
\<close>

abbreviation app_after :: "(app_env \<times> app_op) list \<Rightarrow> app_db option" where
  "app_after as \<equiv> fold app_step as NewSQLiteStore"

lemma app_after_wf: "app_after as = Some db \<Longrightarrow> app_wf db"
  using app_sys.inv_run_init [OF refl, of as] by (simp add: app_inv_def)

lemma no_turns: "db_turns db = fmempty \<Longrightarrow> loadTurnsForThreadTx db t = []"
  using thread_turns_iff [of _ db t] by (metis fmempty_lookup option.distinct(1) set_empty2 equals0I)

section \<open>Prepared forks\<close>

lemma prepared_fork_bound:
  assumes wf: "app_wf db" and ids: "new_ids env db" and ret: "PrepareThreadFork env source key (Some db) = (Returned (t, created), s)"
  obtains db1 where "s = Some db1" and "app_sound db db1"
    and "fmlookup (db_forks db1) (TrimSpace key) = Some (TrimSpace source, th_ID t)"
    and "TrimSpace source \<noteq> []" and "TrimSpace key \<noteq> []" and "length (TrimSpace key) \<le> 256"
proof -
  have arg: "TrimSpace source \<noteq> []" "TrimSpace key \<noteq> []" "length (TrimSpace key) \<le> 256"
    and tx: "app_withTx (PrepareThreadFork_tx env (TrimSpace source) (TrimSpace key)) (Some db) = (Returned (t, created), s)"
    using ret by (auto simp: PrepareThreadFork_def split: if_splits)
  then obtain db1 where body: "PrepareThreadFork_tx env (TrimSpace source) (TrimSpace key) db = TxDone (t, created) db1" and s: "s = Some db1"
    by (auto simp: app_withTx_def split: tx_result.splits)
  have snd: "app_sound db db1" using PrepareThreadFork_sound [OF wf ids, of "TrimSpace source" "TrimSpace key"] by (simp add: body)
  have "fmlookup (db_forks db1) (TrimSpace key) = Some (TrimSpace source, th_ID t)"
  proof (cases "fmlookup (db_forks db) (TrimSpace key)")
    case None
    then show ?thesis using body wf_parts(1) [OF wf]
      by (auto simp: PrepareThreadFork_tx_def tx_bind_def tx_then_def Let_def loadThreadTx_def wf_threads_def
          split: sum.splits tx_result.splits if_splits option.splits)
  next
    case (Some v)
    then show ?thesis using body wf_parts(1) [OF wf]
      by (cases v) (auto simp: PrepareThreadFork_tx_def loadThreadTx_def wf_threads_def split: sum.splits if_splits option.splits)
  qed
  with that s snd arg show thesis by blast
qed

lemma bound_fork_reused:
  assumes wf: "app_wf db" and bound: "fmlookup (db_forks db) (TrimSpace key) = Some (TrimSpace source, f)"
    and arg: "TrimSpace key \<noteq> []" "length (TrimSpace key) \<le> 256"
  shows "TrimSpace source \<noteq> [] \<Longrightarrow> \<exists>t. PrepareThreadFork env source key (Some db) = (Returned (t, False), Some db) \<and> th_ID t = f \<and>
      th_ForkedFromThreadID t = TrimSpace source"
    and "TrimSpace other \<noteq> [] \<Longrightarrow> TrimSpace other \<noteq> TrimSpace source \<Longrightarrow>
      PrepareThreadFork env other key (Some db) = (Failed ErrThreadForkIdempotencyConflict, Some db)"
proof -
  have "fork_bound db (TrimSpace source) f" using wf_parts(5) [OF wf] bound by (simp add: wf_forks_def)
  then obtain r where r: "fmlookup (db_threads db) f = Some r" "th_ForkedFromThreadID (hr_payload r) = TrimSpace source" by (auto simp: fork_bound_def)
  have id: "th_ID (hr_payload r) = f" using r(1) wf_parts(1) [OF wf] by (simp add: wf_threads_def)
  show "\<exists>t. PrepareThreadFork env source key (Some db) = (Returned (t, False), Some db) \<and> th_ID t = f \<and> th_ForkedFromThreadID t = TrimSpace source"
    if "TrimSpace source \<noteq> []"
    using that arg r id bound by (intro exI [of _ "hr_payload r"]) (simp add: PrepareThreadFork_def app_withTx_def PrepareThreadFork_tx_def loadThreadTx_def)
  show "PrepareThreadFork env other key (Some db) = (Failed ErrThreadForkIdempotencyConflict, Some db)"
    if "TrimSpace other \<noteq> []" "TrimSpace other \<noteq> TrimSpace source"
    using that arg bound by (simp add: PrepareThreadFork_def app_withTx_def PrepareThreadFork_tx_def)
qed

section \<open>Recovered turns\<close>

lemma recovered_turns_iff:
  assumes wf: "app_wf db"
  shows "k \<in> tu_ID ` set (loadTurnsByStatusesTx db [TurnQueued, TurnRunning]) \<longleftrightarrow>
    (\<exists>r. fmlookup (db_turns db) k = Some r \<and> active_status (ur_status r))"
proof
  assume "k \<in> tu_ID ` set (loadTurnsByStatusesTx db [TurnQueued, TurnRunning])"
  then obtain j r where r: "fmlookup (db_turns db) j = Some r" "k = tu_ID (ur_payload r)" "active_status (tu_Status (ur_payload r))"
    by (auto simp: loadTurnsByStatusesTx_def set_loadAllTurnsTx active_status_def)
  with wf_turn_row [OF wf r(1)] show "\<exists>r. fmlookup (db_turns db) k = Some r \<and> active_status (ur_status r)" by (auto simp: turn_ok_row_def)
next
  assume "\<exists>r. fmlookup (db_turns db) k = Some r \<and> active_status (ur_status r)"
  then obtain r where r: "fmlookup (db_turns db) k = Some r" "active_status (ur_status r)" by blast
  have ok: "turn_ok_row db k r" by (rule wf_turn_row [OF wf r(1)])
  then have "ur_payload r \<in> set (loadTurnsByStatusesTx db [TurnQueued, TurnRunning])"
    using r by (auto simp: loadTurnsByStatusesTx_def set_loadAllTurnsTx active_status_def turn_ok_row_def)
  with ok show "k \<in> tu_ID ` set (loadTurnsByStatusesTx db [TurnQueued, TurnRunning])" by (auto simp: turn_ok_row_def)
qed

lemma no_orphans:
  assumes "\<And>k r. fmlookup (db_turns db) k = Some r \<Longrightarrow> tu_Status (ur_payload r) = ur_status r \<and> \<not> active_status (ur_status r)"
  shows "loadTurnsByStatusesTx db [TurnQueued, TurnRunning] = []"
  using assms by (auto simp: loadTurnsByStatusesTx_def filter_empty_conv set_loadAllTurnsTx active_status_def)

section \<open>Completed reversals\<close>

lemma completed_revert:
  assumes wf: "app_wf db" and ids: "new_ids env db" and ret: "CompleteFileChangeRevert env k key tm (Some db) = (Returned res, s)"
  obtains db1 r where "s = Some db1" and "app_sound db db1" and "fmlookup (db_recoveries db1) k = Some r" and "cr_payload r = rvr_Recovery res"
    and "fr_Status (rvr_Recovery res) = FileChangeRecoveryReverted" and "fr_IdempotencyKey (rvr_Recovery res) = key"
    and "cr_status r = FileChangeRecoveryReverted" and "k \<noteq> []" and "key \<noteq> []"
proof -
  have arg: "k \<noteq> []" "key \<noteq> []" and tx: "app_withTx (CompleteFileChangeRevert_tx env k key (time_or_now env tm)) (Some db) = (Returned res, s)"
    using ret by (auto simp: CompleteFileChangeRevert_def split: if_splits)
  then obtain db1 where body: "CompleteFileChangeRevert_tx env k key (time_or_now env tm) db = TxDone res db1" and s: "s = Some db1"
    by (auto simp: app_withTx_def split: tx_result.splits)
  have item: "app_newID env ''item'' 0 \<notin> ir_id ` set (db_items db)" using new_idsD(3) [OF ids, of 0] by simp
  have snd: "app_sound db db1" using CompleteFileChangeRevert_sound [OF wf item, of k key "time_or_now env tm"] by (simp add: body)
  obtain p where load: "loadFileChangeRecoveryTx db k = Inr p"
    using body by (cases "loadFileChangeRecoveryTx db k") (auto simp: CompleteFileChangeRevert_tx_def tx_bind_def)
  obtain r0 where r0: "fmlookup (db_recoveries db) k = Some r0" "cr_payload r0 = p" "recovery_ok db k r0" "fr_ItemID p = k"
    using loadFileChangeRecoveryTx_Inr [OF wf load] .
  have "\<exists>r. fmlookup (db_recoveries db1) k = Some r \<and> cr_payload r = rvr_Recovery res \<and> fr_Status (rvr_Recovery res) = FileChangeRecoveryReverted \<and>
      fr_IdempotencyKey (rvr_Recovery res) = key \<and> cr_status r = FileChangeRecoveryReverted"
    using body load r0
    by (auto simp: CompleteFileChangeRevert_tx_def tx_bind_def Let_def saveFileChangeRecoveryTx_def recovery_ok_def split: if_splits sum.splits)
  with that s snd arg show thesis by blast
qed

lemma reverted_marker:
  assumes wf: "app_wf db" and r: "fmlookup (db_recoveries db) k = Some r" "cr_status r = FileChangeRecoveryReverted"
  obtains m where "loadItemTx db (fr_MarkerID (cr_payload r)) = Inr m" and "it_ID m = fr_MarkerID (cr_payload r)"
    and "it_Kind m = ''fileChangeRevert''" and "fr_MarkerID (cr_payload r) \<noteq> []"
proof -
  from wf_recovery [OF wf r(1)] r(2) obtain x where x: "x \<in> set (db_items db)" "ir_id x = fr_MarkerID (cr_payload r)"
      "it_Kind (ir_payload x) = ''fileChangeRevert''" "fr_MarkerID (cr_payload r) \<noteq> []"
    by (auto simp: recovery_ok_def Let_def has_item_def)
  obtain y where y: "List.find (\<lambda>r'. ir_id r' = fr_MarkerID (cr_payload r)) (db_items db) = Some y"
    using x(1,2) by (cases "List.find (\<lambda>r'. ir_id r' = fr_MarkerID (cr_payload r)) (db_items db)") (auto simp: find_None_iff)
  then have "y \<in> set (db_items db)" "ir_id y = ir_id x" using x(2) by (auto simp: find_Some_iff)
  then have "y = x" by (rule same_row [OF wf _ x(1)])
  moreover have "it_ID (ir_payload x) = ir_id x" using wf_item [OF wf x(1)] by (simp add: item_ok_def)
  ultimately show thesis using that [of "ir_payload x"] x y by (simp add: loadItemTx_def)
qed

section \<open>Effects of a rollback\<close>

lemma rollback_effect:
  assumes wf: "app_wf db" and new: "app_newID env ''item'' 0 \<notin> ir_id ` set (db_items db)" and body: "RollbackThread_tx env k n db = TxDone res db'"
  shows "db_turns db' = db_turns (pruneRolledBackHistoryTx k (loadLastTurnsTx db k n) db)" "rbr_Turns res = loadTurnsForThreadTx db' k"
    "rbr_RemovedTurns res = loadLastTurnsTx db k n" "t \<noteq> k \<Longrightarrow> thread_items db' t = thread_items db t"
proof -
  let ?rem = "loadLastTurnsTx db k n" and ?db1 = "pruneRolledBackHistoryTx k (loadLastTurnsTx db k n) db"
  obtain t0 where load: "loadThreadTx db k = Inr t0" using body by (cases "loadThreadTx db k") (auto simp: RollbackThread_tx_def tx_bind_def)
  have id: "th_ID t0 = k" using loadThreadTx_Inr [OF wf load] by metis
  let ?m = "rollback_marker env k n (turnIDs ?rem)" and ?db2 = "saveThreadTx (t0\<lparr>th_UpdatedAt := ae_now env\<rparr>) ?db1"
  obtain m where m: "saveItemTx env ?m ?db2 = Inr (m, db')"
    and res: "rbr_Turns res = loadTurnsForThreadTx db' k" "rbr_RemovedTurns res = ?rem"
    using body load id by (auto simp: RollbackThread_tx_def tx_bind_def Let_def split: if_splits sum.splits)
  show "rbr_Turns res = loadTurnsForThreadTx db' k" "rbr_RemovedTurns res = ?rem" by (rule res)+
  show "db_turns db' = db_turns ?db1" using saveItemTx_frame(2) [OF m] by (simp add: saveThreadTx_def)
  have new2: "it_ID ?m \<notin> ir_id ` set (db_items ?db2)"
    using new by (auto simp: saveThreadTx_def rollback_marker_def dest: subsetD [OF prune_items])
  have "db' = ?db2\<lparr>db_items := db_items ?db2 @ [new_row env ?m ?db2], db_item_seq := ir_seq (new_row env ?m ?db2)\<rparr>"
    using m saveItemTx_new [OF new2, of env] by (simp add: rollback_marker_def)
  then have "db_items db' = db_items ?db1 @ [new_row env ?m ?db2]" by (simp add: saveThreadTx_def)
  moreover have "ir_thread_id (new_row env ?m ?db2) = k" by (simp add: new_row_def item_row_of_def Let_def rollback_marker_def)
  ultimately show "thread_items db' t = thread_items db t" if "t \<noteq> k"
    using that prune_items_elsewhere [OF that, of ?rem db] by (simp add: thread_items_def)
qed

lemma removed_turn_empty:
  assumes wf: "app_wf db" and wf': "app_wf db'" and rows: "db_turns db' = db_turns (pruneRolledBackHistoryTx k removed db)"
    and gone: "j \<notin> tu_ID ` set (loadTurnsForThreadTx db' k)"
    and row: "fmlookup (db_turns db) j \<noteq> None \<and> (\<forall>r. fmlookup (db_turns db) j = Some r \<longrightarrow> ur_thread_id r = k)"
  shows "loadItemsForTurnTx db' j = []"
proof (rule ccontr)
  assume "loadItemsForTurnTx db' j \<noteq> []"
  then obtain x where x: "x \<in> set (db_items db')" "ir_turn_id x = j" by (auto simp: loadItemsForTurnTx_def filter_empty_conv)
  have "j \<noteq> []" using row wf_turn_row [OF wf, of j] by (auto simp: turn_ok_row_def)
  then have "turn_of db' (ir_thread_id x) j" using wf_item [OF wf' x(1)] x(2) by (auto simp: item_ok_def)
  then obtain r where r: "fmlookup (db_turns db') j = Some r" by (auto simp: turn_of_def)
  then have "fmlookup (db_turns db) j = Some r"
    unfolding rows using prune_turn_rows [of removed k db]
    by (cases "removed = []") (simp add: pruneRolledBackHistoryTx_def, simp split: if_splits)
  then have "ur_thread_id r = k" using row by blast
  then have "ur_payload r \<in> set (loadTurnsForThreadTx db' k)" unfolding thread_turns_iff using r by blast
  moreover have "tu_ID (ur_payload r) = j" using wf_turn_row [OF wf' r] by (simp add: turn_ok_row_def)
  ultimately show False using gone by blast
qed

section \<open>Properties\<close>

text \<open>
  C10. The store stays consistent: whatever operations ran (each drawing identifiers that are not in use), every
  turn, item, recovery and fork refers to rows that exist and agree with it; sequence numbers of items
  increase; a deleted thread has no active turn; a change that is recorded as reverted has its receipt; an idempotency key of retries
  belongs to one turn of a thread.
\<close>

theorem app_store_consistent: "case app_after as of None \<Rightarrow> True | Some db \<Rightarrow> app_wf db"
  using app_after_wf by (simp split: option.split)

text \<open>
  C12. A prepared fork is made once: after \<^verbatim>\<open>PrepareThreadFork\<close> returned, and after any further operations, the same
  key and source give the same fork without touching the store, and the key with another source is refused.
\<close>

theorem prepared_fork_made_once:
  assumes "app_after as = Some db" and "new_ids env db" and "PrepareThreadFork env source key (Some db) = (Returned (t, created), s)"
    and "fold app_step bs s = Some db'"
  shows "(\<exists>t'. PrepareThreadFork env' source key (Some db') = (Returned (t', False), Some db') \<and> th_ID t' = th_ID t \<and>
       th_ForkedFromThreadID t' = TrimSpace source) \<and>
    (TrimSpace other \<noteq> [] \<and> TrimSpace other \<noteq> TrimSpace source \<longrightarrow>
       PrepareThreadFork env' other key (Some db') = (Failed ErrThreadForkIdempotencyConflict, Some db'))"
proof -
  obtain db1 where db1: "s = Some db1" "app_sound db db1" "fmlookup (db_forks db1) (TrimSpace key) = Some (TrimSpace source, th_ID t)"
      "TrimSpace source \<noteq> []" "TrimSpace key \<noteq> []" "length (TrimSpace key) \<le> 256"
    using prepared_fork_bound [OF app_after_wf [OF assms(1)] assms(2,3)] .
  have snd: "app_sound db1 db'" using app_run_sound [OF app_sound_wf [OF db1(2)]] assms(4) db1(1) by simp
  then have "fmlookup (db_forks db') (TrimSpace key) = Some (TrimSpace source, th_ID t)"
    using db1(3) by (simp add: app_sound_def app_moves_def)
  from bound_fork_reused [OF app_sound_wf [OF snd] this db1(5,6)] db1(4) show ?thesis by blast
qed

theorem prepared_fork_made_once_witness:
  "\<exists>t s db'. PrepareThreadFork (app_at ''b'' 110) ''thread_a'' ''k'' (Some one_thread) = (Returned (t, True), s) \<and>
     fold app_step [(app_at ''c'' 120, AppUpdateThreadTitle ''thread_a'' ''new'')] s = Some db' \<and>
     (\<exists>t'. PrepareThreadFork (app_at ''d'' 130) ''thread_a'' ''k'' (Some db') = (Returned (t', False), Some db') \<and> th_ID t' = th_ID t \<and>
       th_ForkedFromThreadID t' = TrimSpace ''thread_a'')"
proof -
  let ?env = "app_at ''b'' 110" and ?later = "[(app_at ''c'' 120, AppUpdateThreadTitle ''thread_a'' ''new'')]"
  have db: "app_after [app_open] = Some one_thread" by (rule one_thread_eq)
  have ids: "new_ids ?env one_thread" by (simp add: new_ids_def one_thread_def Let_def)
  have trimmed: "TrimSpace ''thread_a'' = ''thread_a''" "TrimSpace ''k'' = ''k''" by code_simp+
  have ret: "\<exists>t db1. PrepareThreadFork ?env ''thread_a'' ''k'' (Some one_thread) = (Returned (t, True), Some db1)"
    by (simp add: PrepareThreadFork_def PrepareThreadFork_tx_def trimmed app_withTx_def tx_bind_def tx_then_def Let_def loadThreadTx_def
        one_thread_def the_thread_def ensureThreadHasNoActiveTurnTx_def copyThreadHistoryTx_def no_turns thread_items_def saveThreadTx_def)
  then obtain t db1 where t: "PrepareThreadFork ?env ''thread_a'' ''k'' (Some one_thread) = (Returned (t, True), Some db1)" by blast
  have "app_step (app_at ''c'' 120, AppUpdateThreadTitle ''thread_a'' ''new'') (Some db1) \<noteq> None"
    by (auto simp: UpdateThreadTitle_def app_withTx_def split: tx_result.splits)
  then obtain db' where later: "fold app_step ?later (Some db1) = Some db'" by auto
  from prepared_fork_made_once [OF db ids t later] t later show ?thesis by blast
qed

text \<open>
  C14. Deleting a thread is final: once \<^verbatim>\<open>DeleteThread\<close> returned, and after any further operations, the thread can still be
  read and is deleted, its turns are those it had, none of them queued or running, and no turn can be added.
\<close>

theorem deleted_thread_frozen:
  assumes "app_after as = Some db" and "DeleteThread env k (Some db) = (Returned t, s)" and "fold app_step bs s = Some db'"
  shows "(\<exists>t'. GetThread k (Some db') = Returned t' \<and> th_Status t' = ThreadDeleted) \<and>
    loadTurnsForThreadTx db' k = loadTurnsForThreadTx db k \<and>
    (\<forall>u \<in> set (loadTurnsForThreadTx db k). tu_Status u \<noteq> TurnQueued \<and> tu_Status u \<noteq> TurnRunning) \<and>
    CreateTurn env' \<lparr>cur_ThreadID = k, cur_Input = input, cur_Metadata = md\<rparr> (Some db') = (Failed ErrThreadDeleted, Some db')"
proof -
  note wf = app_after_wf [OF assms(1)]
  obtain db1 where body: "setThreadStatus_tx env k ThreadDeleted db = TxDone t db1" and s: "s = Some db1"
    using assms(2) by (auto simp: DeleteThread_def app_withTx_def split: tx_result.splits)
  have snd1: "app_sound db db1" using setThreadStatus_sound [OF wf, of env k ThreadDeleted] by (simp add: body)
  have del1: "deleted_thread db1 k" and turns1: "db_turns db1 = db_turns db"
    using body wf_parts(1) [OF wf]
    by (auto simp: setThreadStatus_tx_def tx_bind_def Let_def loadThreadTx_def saveThreadTx_def deleted_thread_def wf_threads_def
        split: sum.splits if_splits option.splits)
  note rows1 = thread_turn_rows_cong [OF turns1, of k]
  have snd: "app_sound db1 db'" using app_run_sound [OF app_sound_wf [OF snd1]] assms(3) s by simp
  then have del: "deleted_thread db' k" and rows: "thread_turn_rows db' k = thread_turn_rows db k"
    using del1 rows1 by (simp_all add: app_sound_def app_moves_def)
  have same: "loadTurnsForThreadTx db' k = loadTurnsForThreadTx db k" unfolding loadTurnsForThreadTx_def rows ..
  have "\<not> active_status (tu_Status u)" if "u \<in> set (loadTurnsForThreadTx db k)" for u
  proof -
    have "u \<in> set (loadTurnsForThreadTx db' k)" using that by (simp only: same)
    then obtain j r where r: "fmlookup (db_turns db') j = Some r" "ur_thread_id r = k" "ur_payload r = u" by (rule thread_turns_in)
    with wf_turn_row [OF app_sound_wf [OF snd] r(1)] del show ?thesis by (auto simp: turn_ok_row_def)
  qed
  moreover from del obtain r where r: "fmlookup (db_threads db') k = Some r" "th_Status (hr_payload r) = ThreadDeleted" by (auto simp: deleted_thread_def)
  ultimately show ?thesis
    using same by (auto simp: GetThread_def app_query_def loadThreadTx_def CreateTurn_def app_withTx_def CreateTurn_tx_def tx_bind_def
        require_open_def active_status_def)
qed

theorem deleted_thread_frozen_witness:
  "\<exists>t s db'. DeleteThread (app_at ''b'' 110) ''thread_a'' (Some one_thread) = (Returned t, s) \<and> fold app_step [] s = Some db' \<and>
     (\<exists>t'. GetThread ''thread_a'' (Some db') = Returned t' \<and> th_Status t' = ThreadDeleted) \<and>
     CreateTurn (app_at ''c'' 120) \<lparr>cur_ThreadID = ''thread_a'', cur_Input = RawEmpty, cur_Metadata = fmempty\<rparr> (Some db') =
       (Failed ErrThreadDeleted, Some db')"
proof -
  have db: "app_after [app_open] = Some one_thread" by (rule one_thread_eq)
  have "\<exists>t db1. DeleteThread (app_at ''b'' 110) ''thread_a'' (Some one_thread) = (Returned t, Some db1)"
    by (simp add: DeleteThread_def setThreadStatus_tx_def app_withTx_def tx_bind_def Let_def loadThreadTx_def one_thread_def the_thread_def
        ensureThreadHasNoActiveTurnTx_def)
  then obtain t db1 where t: "DeleteThread (app_at ''b'' 110) ''thread_a'' (Some one_thread) = (Returned t, Some db1)" by blast
  have later: "fold app_step [] (Some db1) = Some db1" by simp
  from deleted_thread_frozen [OF db t later] t later show ?thesis by blast
qed

text \<open>
  C19. Recovery settles every turn whose owner is gone: after \<^verbatim>\<open>RecoverOrphanedTurns\<close> returned no turn is queued or
  running, the turns that were are interrupted with the reason, all others are untouched, and calling it once more does nothing.
\<close>

theorem recovery_settles_orphans:
  assumes "app_after as = Some db" and "RecoverOrphanedTurns env tm reason (Some db) = (Returned res, s)"
  shows "\<exists>db'. s = Some db' \<and> fmdom (db_turns db') = fmdom (db_turns db) \<and>
    (\<forall>k r. fmlookup (db_turns db) k = Some r \<longrightarrow> (\<exists>r'. fmlookup (db_turns db') k = Some r' \<and>
       (if ur_status r = TurnQueued \<or> ur_status r = TurnRunning
        then ur_status r' = TurnInterrupted \<and> tu_Status (ur_payload r') = TurnInterrupted \<and> ur_thread_id r' = ur_thread_id r \<and> tu_CompletedAt (ur_payload r') = time_or_now env tm \<and>
          tu_Error (ur_payload r') = (if TrimSpace reason = [] then RuntimeOwnerLostReason else TrimSpace reason)
        else r' = r))) \<and>
    map tu_ID (rtr_Turns res) = map tu_ID (loadTurnsByStatusesTx db [TurnQueued, TurnRunning]) \<and>
    RecoverOrphanedTurns env' tm' reason' (Some db') =
      (Returned \<lparr>rtr_Turns = [], rtr_Items = [], rtr_Markers = []\<rparr>, Some db')"
proof -
  note wf = app_after_wf [OF assms(1)]
  let ?us = "loadTurnsByStatusesTx db [TurnQueued, TurnRunning]" and ?tm = "time_or_now env tm"
  let ?why = "if TrimSpace reason = [] then RuntimeOwnerLostReason else TrimSpace reason"
  obtain db' where body: "recover_turns env ?tm ?why 0 ?us \<lparr>rtr_Turns = [], rtr_Items = [], rtr_Markers = []\<rparr> db = TxDone res db'" and s: "s = Some db'"
    using assms(2) by (auto simp: RecoverOrphanedTurns_def RecoverOrphanedTurns_tx_def app_withTx_def split: tx_result.splits)
  have dist: "distinct (map tu_ID ?us)" using live_turns_loaded [OF wf_parts(2) [OF wf]] by (simp add: live_turns_def)
  note rows = recover_turns_rows [OF body dist]
  have us: "k \<in> tu_ID ` set ?us \<longleftrightarrow> (\<exists>r. fmlookup (db_turns db) k = Some r \<and> active_status (ur_status r))" for k
    using recovered_turns_iff [OF wf] .
  have row: "\<exists>r'. fmlookup (db_turns db') k = Some r' \<and>
       (if ur_status r = TurnQueued \<or> ur_status r = TurnRunning
        then ur_status r' = TurnInterrupted \<and> tu_Status (ur_payload r') = TurnInterrupted \<and> ur_thread_id r' = ur_thread_id r \<and> tu_CompletedAt (ur_payload r') = ?tm \<and> tu_Error (ur_payload r') = ?why
        else r' = r)" if r: "fmlookup (db_turns db) k = Some r" for k r
  proof (cases "active_status (ur_status r)")
    case True
    let ?u = "ur_payload r"
    have ok: "turn_ok_row db k r" by (rule wf_turn_row [OF wf r])
    have "?u \<in> set ?us" using True ok r by (auto simp: loadTurnsByStatusesTx_def set_loadAllTurnsTx active_status_def turn_ok_row_def)
    then obtain r' where "fmlookup (db_turns db') (tu_ID ?u) = Some r'" "ur_status r' = TurnInterrupted" "ur_thread_id r' = tu_ThreadID ?u"
        "ur_payload r' = stored_turn (interrupted ?tm ?why ?u)" using rows by blast
    then show ?thesis using True ok by (simp add: active_status_def turn_ok_row_def stored_turn_def interrupted_def)
  next
    case False
    then have "k \<notin> tu_ID ` set ?us" using us r by simp
    then show ?thesis using rows r False by (simp add: active_status_def)
  qed
  have dom: "fmlookup (db_turns db') k = None" if "fmlookup (db_turns db) k = None" for k
    using rows us [of k] that by simp
  have "tu_Status (ur_payload r') = ur_status r' \<and> \<not> active_status (ur_status r')" if "fmlookup (db_turns db') k = Some r'" for k r'
  proof (cases "fmlookup (db_turns db) k")
    case None
    then show ?thesis using dom that by simp
  next
    case (Some r)
    show ?thesis using row [OF Some] that wf_turn_row [OF wf Some] by (auto simp: active_status_def turn_ok_row_def split: if_splits)
  qed
  then have none: "loadTurnsByStatusesTx db' [TurnQueued, TurnRunning] = []" by (rule no_orphans)
  have "fmdom (db_turns db') = fmdom (db_turns db)"
  proof (rule fset_eqI)
    show "k |\<in>| fmdom (db_turns db') \<longleftrightarrow> k |\<in>| fmdom (db_turns db)" for k
      using row [of k] dom [of k] by (cases "fmlookup (db_turns db) k") (auto simp: fmlookup_dom_iff)
  qed
  moreover have "map tu_ID (rtr_Turns res) = map tu_ID ?us" using rows by simp
  ultimately show ?thesis
    using s row none by (simp add: RecoverOrphanedTurns_def RecoverOrphanedTurns_tx_def app_withTx_def)
qed

theorem recovery_settles_orphans_witness:
  "\<exists>res db'. RecoverOrphanedTurns (app_at ''c'' 120) 120 [] (Some one_turn) = (Returned res, Some db') \<and>
     map tu_ID (rtr_Turns res) = map tu_ID (loadTurnsByStatusesTx one_turn [TurnQueued, TurnRunning]) \<and>
     RecoverOrphanedTurns (app_at ''d'' 130) 130 [] (Some db') = (Returned \<lparr>rtr_Turns = [], rtr_Items = [], rtr_Markers = []\<rparr>, Some db')"
proof -
  have db: "app_after [app_open, app_ask] = Some one_turn" by (rule one_turn_eq)
  have "\<exists>res db'. RecoverOrphanedTurns (app_at ''c'' 120) 120 [] (Some one_turn) = (Returned res, Some db')"
    by (simp add: RecoverOrphanedTurns_def RecoverOrphanedTurns_tx_def app_withTx_def tx_bind_def Let_def one_turn_def one_thread_def the_turn_def
        loadTurnsByStatusesTx_def loadAllTurnsTx_def order_by_def List.map_filter_simps loadItemsForTurnTx_def new_turn_def
        saveTurnTx_def saveItemTx_def recovery_marker_def)
  then obtain res db' where r: "RecoverOrphanedTurns (app_at ''c'' 120) 120 [] (Some one_turn) = (Returned res, Some db')" by blast
  from recovery_settles_orphans [OF db r] r show ?thesis by auto
qed

text \<open>
  C20. A file change is reverted once: after \<^verbatim>\<open>CompleteFileChangeRevert\<close> returned, and after any further operations without a
  rollback, the record of the change is the same, the same key gives it again together with the receipt and does not touch the
  store, and every other key is refused, for completing as for aborting.
\<close>

theorem file_change_reverted_once:
  assumes "app_after as = Some db" and "new_ids env db" and "CompleteFileChangeRevert env k key tm (Some db) = (Returned res, s)"
    and "fold app_step bs s = Some db'" and "\<forall>e j n. (e, AppRollbackThread j n) \<notin> set bs"
  shows "GetFileChangeRecovery k (Some db') = Returned (rvr_Recovery res) \<and>
    (\<exists>m. CompleteFileChangeRevert env' k key tm' (Some db') =
       (Returned \<lparr>rvr_Recovery = rvr_Recovery res, rvr_Marker = Some m, rvr_Reused = True\<rparr>, Some db') \<and>
       it_ID m = fr_MarkerID (rvr_Recovery res) \<and> it_Kind m = ''fileChangeRevert'') \<and>
    (key' \<noteq> key \<and> key' \<noteq> [] \<longrightarrow>
       CompleteFileChangeRevert env' k key' tm' (Some db') = (Failed ErrFileChangeRevertIdempotencyConflict, Some db')) \<and>
    (key' \<noteq> [] \<longrightarrow> AbortFileChangeRevert env' k key' tm' (Some db') = (Failed ErrFileChangeRevertIdempotencyConflict, Some db'))"
proof -
  obtain db1 r where db1: "s = Some db1" "app_sound db db1" "fmlookup (db_recoveries db1) k = Some r" "cr_payload r = rvr_Recovery res"
      "fr_Status (rvr_Recovery res) = FileChangeRecoveryReverted" "fr_IdempotencyKey (rvr_Recovery res) = key" "cr_status r = FileChangeRecoveryReverted"
      "k \<noteq> []" "key \<noteq> []"
    using completed_revert [OF app_after_wf [OF assms(1)] assms(2,3)] .
  have run: "fold app_step bs (Some db1) = Some db'" using assms(4) db1(1) by simp
  have "reverts_kept db1 db'" using assms(5) by (intro app_run_reverts [OF app_sound_wf [OF db1(2)] _ run]) blast
  then have r: "fmlookup (db_recoveries db') k = Some r" using db1(3,7) by (simp add: reverts_kept_def)
  have wf: "app_wf db'" by (rule app_sound_wf [OF app_run_sound [OF app_sound_wf [OF db1(2)] run]])
  from reverted_marker [OF wf r db1(7)] obtain m where m: "loadItemTx db' (fr_MarkerID (cr_payload r)) = Inr m"
      "it_ID m = fr_MarkerID (cr_payload r)" "it_Kind m = ''fileChangeRevert''" "fr_MarkerID (cr_payload r) \<noteq> []" .
  then show ?thesis
    using r db1(4-) by (auto simp: GetFileChangeRecovery_def app_query_def loadFileChangeRecoveryTx_def CompleteFileChangeRevert_def app_withTx_def
        CompleteFileChangeRevert_tx_def AbortFileChangeRevert_def AbortFileChangeRevert_tx_def tx_bind_def)
qed

theorem file_change_reverted_once_witness:
  "\<exists>res db'. CompleteFileChangeRevert (app_at ''f'' 150) ''item_c'' ''key'' 150 (Some prepared_db) = (Returned res, Some db') \<and>
     GetFileChangeRecovery ''item_c'' (Some db') = Returned (rvr_Recovery res) \<and>
     AbortFileChangeRevert (app_at ''g'' 160) ''item_c'' ''key'' 160 (Some db') = (Failed ErrFileChangeRevertIdempotencyConflict, Some db')"
proof -
  let ?env = "app_at ''f'' 150"
  have db: "app_after [app_open, app_ask, app_change, app_record, app_prepare] = Some prepared_db" by (rule prepared_eq)
  have ids: "new_ids ?env prepared_db" by (simp add: new_ids_def prepared_db_def the_item_def app_scenario_defs)
  have "\<exists>res db'. CompleteFileChangeRevert ?env ''item_c'' ''key'' 150 (Some prepared_db) = (Returned res, Some db')"
    by (simp add: CompleteFileChangeRevert_def CompleteFileChangeRevert_tx_def loadFileChangeRecoveryTx_def prepared_db_def the_recovery_def
        prepared_record_def change_record_def saveItemTx_def revert_receipt_def app_scenario_defs)
  then obtain res db' where r: "CompleteFileChangeRevert ?env ''item_c'' ''key'' 150 (Some prepared_db) = (Returned res, Some db')" by blast
  have later: "fold app_step [] (Some db') = Some db'" "\<forall>e j n. (e, AppRollbackThread j n) \<notin> set []" by simp_all
  from file_change_reverted_once [OF db ids r later, where env' = "app_at ''g'' 160" and tm' = 160 and key' = "''key''"] r show ?thesis by blast
qed

text \<open>
  C21. Rolling back removes the last turns and nothing before them: the turns that stay are the first ones in their order, the
  result names both parts, no item of a removed turn is left, and other threads keep their turns and items.
\<close>

theorem rollback_removes_last_turns:
  assumes "app_after as = Some db" and "new_ids env db" and "RollbackThread env k n (Some db) = (Returned res, s)"
  shows "\<exists>db'. s = Some db' \<and>
    loadTurnsForThreadTx db' k = take (length (loadTurnsForThreadTx db k) - nat n) (loadTurnsForThreadTx db k) \<and>
    loadTurnsForThreadTx db k = rbr_Turns res @ rev (rbr_RemovedTurns res) \<and> rbr_Turns res = loadTurnsForThreadTx db' k \<and>
    (\<forall>u \<in> set (rbr_RemovedTurns res). loadItemsForTurnTx db' (tu_ID u) = []) \<and>
    (\<forall>t. t \<noteq> k \<longrightarrow> loadTurnsForThreadTx db' t = loadTurnsForThreadTx db t \<and> thread_items db' t = thread_items db t)"
proof -
  note wf = app_after_wf [OF assms(1)]
  obtain db' where body: "RollbackThread_tx env k n db = TxDone res db'" and s: "s = Some db'"
    using assms(3) by (auto simp: RollbackThread_def app_withTx_def split: tx_result.splits if_splits)
  have new: "app_newID env ''item'' 0 \<notin> ir_id ` set (db_items db)" using new_idsD(3) [OF assms(2), of 0] by simp
  have wf': "app_wf db'" using RollbackThread_sound [OF wf new, of k n] by (simp add: body app_sound_def)
  note eff = rollback_effect [OF wf new body]
  let ?us = "loadTurnsForThreadTx db k" and ?db1 = "pruneRolledBackHistoryTx k (loadLastTurnsTx db k n) db"
  have turns: "loadTurnsForThreadTx db' t = loadTurnsForThreadTx ?db1 t" for t
    unfolding loadTurnsForThreadTx_def thread_turn_rows_def eff(1) ..
  have left: "loadTurnsForThreadTx db' k = take (length ?us - nat n) ?us"
    unfolding turns by (rule rollback_turns [OF wf_parts(2) [OF wf]])
  have removed: "rev (rbr_RemovedTurns res) = drop (length ?us - nat n) ?us" unfolding eff(3) loadLastTurnsTx_def by (simp add: take_rev)
  have gone: "loadItemsForTurnTx db' (tu_ID u) = []" if u: "u \<in> set (rbr_RemovedTurns res)" for u
  proof -
    have d: "u \<in> set (drop (length ?us - nat n) ?us)" using u by (metis removed set_rev)
    have "distinct (map tu_ID (take (length ?us - nat n) ?us @ drop (length ?us - nat n) ?us))"
      using distinct_thread_turns [OF wf_parts(2) [OF wf], of k] by (simp only: append_take_drop_id)
    then have "tu_ID u \<notin> tu_ID ` set (loadTurnsForThreadTx db' k)" unfolding left using d by (auto simp del: append_take_drop_id)
    moreover have "fmlookup (db_turns db) (tu_ID u) \<noteq> None \<and> (\<forall>r. fmlookup (db_turns db) (tu_ID u) = Some r \<longrightarrow> ur_thread_id r = k)"
      using in_set_dropD [OF d] wf_turn_row [OF wf] unfolding thread_turns_iff turn_ok_row_def by fastforce
    ultimately show ?thesis using removed_turn_empty [OF wf wf' eff(1)] by blast
  qed
  show ?thesis
    using s left removed gone eff(2,4) rollback_turns_elsewhere [OF wf_parts(2) [OF wf]] unfolding turns [symmetric]
    by (auto simp: turns)
qed

theorem rollback_removes_last_turns_witness:
  "\<exists>res db'. RollbackThread (app_at ''d'' 130) ''thread_a'' 1 (Some one_item) = (Returned res, Some db') \<and> loadTurnsForThreadTx db' ''thread_a'' = [] \<and>
     (\<forall>u \<in> set (rbr_RemovedTurns res). loadItemsForTurnTx db' (tu_ID u) = [])"
proof -
  let ?env = "app_at ''d'' 130"
  have db: "app_after [app_open, app_ask, app_change] = Some one_item" by (rule one_item_eq)
  have ids: "new_ids ?env one_item" by (simp add: new_ids_def the_item_def app_scenario_defs)
  have "thread_turn_rows one_item ''thread_a'' = fmupd ''turn_b'' the_turn fmempty"
    by (rule fmap_ext) (simp add: thread_turn_rows_def app_scenario_defs)
  then have us: "length (loadTurnsForThreadTx one_item ''thread_a'') = 1"
    by (simp add: loadTurnsForThreadTx_def order_by_def List.map_filter_simps Let_def)
  have "\<exists>res db'. RollbackThread ?env ''thread_a'' 1 (Some one_item) = (Returned res, Some db')"
    by (simp add: RollbackThread_def RollbackThread_tx_def app_withTx_def tx_bind_def Let_def loadThreadTx_def saveItemTx_def rollback_marker_def
        the_thread_def one_item_def one_turn_def one_thread_def)
  then obtain res db' where r: "RollbackThread ?env ''thread_a'' 1 (Some one_item) = (Returned res, Some db')" by blast
  from rollback_removes_last_turns [OF db ids r] r us show ?thesis by auto
qed

end
