(* ===== verification/App_Forks.thy ===== *)
theory App_Forks
  imports App_Properties
begin

text \<open>
  What a fork looks like: the turns that it copies and in which order they are listed, and what is left of a fork whose copying
  panics.
\<close>

section \<open>Copied turns\<close>

definition copied_turn :: "app_env \<Rightarrow> string \<Rightarrow> nat \<Rightarrow> app_turn \<Rightarrow> turn_row" where
  "copied_turn env forkID n u = \<lparr>ur_thread_id = forkID, ur_status = tu_Status u, ur_created_at = app_formatTime (ae_now env),
     ur_payload = stored_turn (forked_turn env forkID n u)\<rparr>"

lemma copy_turns_rows:
  assumes "copy_turns env forkID n us db = Inr db'"
    and "inj_on (app_newID env ''turn'') {n..<n + length us}"
    and "\<And>m. n \<le> m \<Longrightarrow> m < n + length us \<Longrightarrow> app_newID env ''turn'' m |\<notin>| fmdom (db_turns db)"
  shows "(\<forall>i < length us. fmlookup (db_turns db') (app_newID env ''turn'' (n + i)) = Some (copied_turn env forkID (n + i) (us ! i))) \<and>
    (\<forall>k. k \<notin> app_newID env ''turn'' ` {n..<n + length us} \<longrightarrow> fmlookup (db_turns db') k = fmlookup (db_turns db) k)"
  using assms
proof (induction us arbitrary: n db)
  case (Cons u us)
  obtain db1 where save: "saveTurnTx (forked_turn env forkID n u) db = Inr db1" and rest: "copy_turns env forkID (Suc n) us db1 = Inr db'"
    using Cons.prems(1) by (auto split: sum.splits)
  have new: "app_newID env ''turn'' n |\<notin>| fmdom (db_turns db)" using Cons.prems(3) [of n] by simp
  have row: "fmlookup (db_turns db1) k = (if k = app_newID env ''turn'' n then Some (copied_turn env forkID n u) else fmlookup (db_turns db) k)" for k
    using save new by (auto simp: saveTurnTx_def turn_row_of_def forked_turn_def copied_turn_def fmdom_notD split: if_splits)
  have inj: "inj_on (app_newID env ''turn'') {Suc n..<Suc n + length us}" using Cons.prems(2) by (rule inj_on_subset) auto
  have ne: "app_newID env ''turn'' m \<noteq> app_newID env ''turn'' n" if "Suc n \<le> m" "m < Suc n + length us" for m
    using inj_onD [OF Cons.prems(2), of m n] that by auto
  have fresh: "app_newID env ''turn'' m |\<notin>| fmdom (db_turns db1)" if "Suc n \<le> m" "m < Suc n + length us" for m
    using Cons.prems(3) [of m] ne [OF that] that row [of "app_newID env ''turn'' m"] by (auto simp: fmlookup_dom_iff)
  note ih = Cons.IH [OF rest inj fresh]
  have "app_newID env ''turn'' n \<notin> app_newID env ''turn'' ` {Suc n..<Suc n + length us}" using ne by force
  then have first: "fmlookup (db_turns db') (app_newID env ''turn'' n) = Some (copied_turn env forkID n u)" using ih row by simp
  have "fmlookup (db_turns db') (app_newID env ''turn'' (n + i)) = Some (copied_turn env forkID (n + i) ((u # us) ! i))" if "i < length (u # us)" for i
    using that first ih by (cases i) auto
  moreover have "fmlookup (db_turns db') k = fmlookup (db_turns db) k" if k: "k \<notin> app_newID env ''turn'' ` {n..<n + length (u # us)}" for k
  proof -
    have "k \<notin> app_newID env ''turn'' ` {Suc n..<Suc n + length us}" "k \<noteq> app_newID env ''turn'' n" using k by force+
    with ih row show ?thesis by simp
  qed
  ultimately show ?case by blast
qed simp

lemma copy_items_turns: "copy_items env forkID tm im is db = TxDone () db' \<Longrightarrow> db_turns db' = db_turns db"
proof (induction "is" arbitrary: db)
  case (Cons i "is")
  then show ?case by (auto simp: tx_bind_def dest: saveItemTx_frame(2) split: option.splits sum.splits)
qed simp

lemma sorted_keys_const:
  assumes "\<And>k r. fmlookup m k = Some r \<Longrightarrow> col r = c"
  shows "sorted (order_by col m)"
proof -
  have "sort_key (\<lambda>k. ((case fmlookup m k of None \<Rightarrow> [] | Some r \<Rightarrow> col r), k)) (map_keys m) = sort_key (\<lambda>k. (c, k)) (map_keys m)"
    by (rule sort_key_eq) (auto simp: fmlookup_dom'_iff assms)
  moreover have "sorted (map (\<lambda>k. (c, k)) (sort_key (\<lambda>k. (c, k)) (map_keys m)))" by simp
  then have "sorted (sort_key (\<lambda>k. (c, k)) (map_keys m))" by (simp add: sorted_wrt_map less_eq_prod_def)
  ultimately show ?thesis by (simp add: order_by_def)
qed

lemma payloads_by_id:
  assumes "\<And>k r. fmlookup m k = Some r \<Longrightarrow> tu_ID (ur_payload r) = k"
  shows "map tu_ID (List.map_filter (\<lambda>k. map_option ur_payload (fmlookup m k)) ks) = filter (\<lambda>k. k \<in> fmdom' m) ks"
proof (induction ks)
  case (Cons k ks)
  then show ?case by (cases "fmlookup m k") (auto simp: List.map_filter_simps assms fmlookup_dom'_iff)
qed (simp add: List.map_filter_simps)

lemma saved_thread_turns [simp]: "loadTurnsForThreadTx (saveThreadTx t db) k = loadTurnsForThreadTx db k"
  by (simp add: loadTurnsForThreadTx_def saveThreadTx_def thread_turn_rows_cong [of "db\<lparr>db_threads := x\<rparr>" db for x])

lemma forked_rows:
  assumes wf: "app_wf db" and ids: "new_ids env db" and f: "f = app_newID env ''thread'' 0" "th_ID fork = f"
    and copy: "copyThreadHistoryTx env sourceID f (saveThreadTx fork db) = TxDone () db'"
  shows "fmlookup (thread_turn_rows db' f) k = Some r \<longleftrightarrow> (\<exists>i < length (loadTurnsForThreadTx db sourceID).
    k = app_newID env ''turn'' i \<and> r = copied_turn env f i (loadTurnsForThreadTx db sourceID ! i))"
proof -
  let ?us = "loadTurnsForThreadTx db sourceID" and ?id = "app_newID env ''turn''"
  have same: "loadTurnsForThreadTx (saveThreadTx fork db) sourceID = ?us" "db_turns (saveThreadTx fork db) = db_turns db"
    by (simp_all add: saveThreadTx_def [of _ db] saved_thread_turns [unfolded saveThreadTx_def])
  obtain db1 where db1: "copy_turns env f 0 ?us (saveThreadTx fork db) = Inr db1" "db_turns db' = db_turns db1"
    using copy same by (auto simp: copyThreadHistoryTx_def Let_def tx_bind_def dest: copy_items_turns split: sum.splits)
  have len: "length ?us \<le> fcard (fmdom (db_turns db))" by (rule length_thread_turns [OF wf_parts(2) [OF wf]])
  have "inj_on ?id {0..<0 + length ?us}" by (rule inj_on_subset [OF new_idsD(4) [OF ids]]) (use len in auto)
  moreover have "?id m |\<notin>| fmdom (db_turns (saveThreadTx fork db))" if "m < 0 + length ?us" for m
    using new_idsD(2) [OF ids, of m] that len by (simp add: same)
  ultimately have rows: "\<forall>i < length ?us. fmlookup (db_turns db') (?id i) = Some (copied_turn env f i (?us ! i))"
      "\<forall>k. k \<notin> ?id ` {0..<length ?us} \<longrightarrow> fmlookup (db_turns db') k = fmlookup (db_turns db) k"
    using copy_turns_rows [OF db1(1)] by (simp_all add: db1(2) same)
  have old: "ur_thread_id r \<noteq> f" if "fmlookup (db_turns db) k = Some r" for k r
    using wf_turn_row [OF wf that] new_idsD(1) [OF ids] f by (auto simp: turn_ok_row_def)
  have "fmlookup (thread_turn_rows db' f) k = Some r \<longleftrightarrow> fmlookup (db_turns db') k = Some r \<and> ur_thread_id r = f"
    by (auto simp: thread_turn_rows_def)
  also have "\<dots> \<longleftrightarrow> (\<exists>i < length ?us. k = ?id i \<and> r = copied_turn env f i (?us ! i))"
  proof
    assume r: "fmlookup (db_turns db') k = Some r \<and> ur_thread_id r = f"
    then have "k \<in> ?id ` {0..<length ?us}" using rows(2) old by metis
    then show "\<exists>i < length ?us. k = ?id i \<and> r = copied_turn env f i (?us ! i)" using r rows(1) by auto
  qed (use rows(1) in \<open>auto simp: copied_turn_def\<close>)
  finally show ?thesis .
qed

lemma forked_listing:
  assumes wf: "app_wf db" and ids: "new_ids env db" and f: "f = app_newID env ''thread'' 0" "th_ID fork = f"
    and copy: "copyThreadHistoryTx env sourceID f (saveThreadTx fork db) = TxDone () db'"
  shows "loadTurnsForThreadTx db' f = sort_key tu_ID (map2 (\<lambda>n u. stored_turn (forked_turn env f n u))
    [0..<length (loadTurnsForThreadTx db sourceID)] (loadTurnsForThreadTx db sourceID))"
proof -
  let ?us = "loadTurnsForThreadTx db sourceID" and ?m = "thread_turn_rows db' f" and ?t = "\<lambda>n u. stored_turn (forked_turn env f n u)"
  let ?cs = "map2 ?t [0..<length ?us] ?us"
  note rows = forked_rows [OF assms]
  have id: "tu_ID (ur_payload r) = k" "ur_created_at r = app_formatTime (ae_now env)" if "fmlookup ?m k = Some r" for k r
    using that unfolding rows by (auto simp: copied_turn_def stored_turn_def forked_turn_def)
  have nth: "?cs ! i = ?t i (?us ! i)" "tu_ID (?t i u) = app_newID env ''turn'' i" if "i < length ?us" for i u
    using that by (simp_all add: stored_turn_def forked_turn_def)
  have pay: "ur_payload (copied_turn env f i u) = ?t i u" for i u by (simp add: copied_turn_def)
  have listed: "map tu_ID (loadTurnsForThreadTx db' f) = order_by ur_created_at ?m"
    unfolding loadTurnsForThreadTx_def Let_def by (subst payloads_by_id) (auto intro: id(1))
  have in_cs: "u \<in> set ?cs \<longleftrightarrow> (\<exists>i < length ?us. u = ?t i (?us ! i))" for u
    unfolding in_set_conv_nth using nth(1) by (auto simp del: nth_map nth_zip)
  have "u \<in> set (loadTurnsForThreadTx db' f) \<longleftrightarrow> (\<exists>k r. fmlookup ?m k = Some r \<and> ur_payload r = u)" for u
    unfolding thread_turns_iff by (auto simp: thread_turn_rows_def) blast
  then have sets: "set (loadTurnsForThreadTx db' f) = set ?cs"
    unfolding rows set_eq_iff in_cs using pay by metis
  have len: "length ?us \<le> fcard (fmdom (db_turns db))" by (rule length_thread_turns [OF wf_parts(2) [OF wf]])
  have "inj_on (app_newID env ''turn'') {0..<length ?us}" by (rule inj_on_subset [OF new_idsD(4) [OF ids]]) (use len in auto)
  then have "distinct (map (app_newID env ''turn'') [0..<length ?us])" by (simp add: distinct_map)
  moreover have "map tu_ID ?cs = map (app_newID env ''turn'') [0..<length ?us]" by (rule nth_equalityI) (simp_all add: stored_turn_def forked_turn_def)
  ultimately have dist: "distinct (map tu_ID ?cs)" by simp
  show ?thesis
  proof (rule map_sorted_distinct_set_unique [where f = tu_ID])
    show "sorted (map tu_ID (loadTurnsForThreadTx db' f))" unfolding listed by (rule sorted_keys_const) (rule id(2))
    show "distinct (map tu_ID (loadTurnsForThreadTx db' f))" unfolding listed by simp
    show "sorted (map tu_ID (sort_key tu_ID ?cs))" by simp
    show "distinct (map tu_ID (sort_key tu_ID ?cs))"
      using dist by (metis distinct_map distinct_sort set_sort)
    show "set (loadTurnsForThreadTx db' f) = set (sort_key tu_ID ?cs)" using sets by simp
    show "inj_on tu_ID (set (loadTurnsForThreadTx db' f) \<union> set (sort_key tu_ID ?cs))"
      using dist unfolding distinct_map sets set_sort Un_absorb by (rule conjunct2)
  qed
qed

section \<open>Properties\<close>

text \<open>
  C39. The turns of a fork are listed in the order of their new identifiers, not in the order of the turns they copy: all copies
  get the time of the fork as their creation time, the listing is ordered by that time and then by identifier, and identifiers are drawn
  at random.
\<close>

theorem fork_lists_turns_by_identifier:
  assumes "app_after as = Some db" and "new_ids env db" and "ftr_IncludeItems req"
    and "ForkThread env req (Some db) = (Returned f, Some db')"
  shows "loadTurnsForThreadTx db' (th_ID f) = sort_key tu_ID (map2 (\<lambda>n u. stored_turn (forked_turn env (th_ID f) n u))
    [0..<length (loadTurnsForThreadTx db (ftr_SourceThreadID req))] (loadTurnsForThreadTx db (ftr_SourceThreadID req)))"
proof -
  note wf = app_after_wf [OF assms(1)]
  have body: "ForkThread_tx env req db = TxDone f db'" using assms(4) by (auto simp: ForkThread_def app_withTx_def split: tx_result.splits)
  then obtain source where load: "loadThreadTx db (ftr_SourceThreadID req) = Inr source"
    by (cases "loadThreadTx db (ftr_SourceThreadID req)") (auto simp: ForkThread_tx_def tx_bind_def)
  have id: "th_ID source = ftr_SourceThreadID req" using loadThreadTx_Inr [OF wf load] by metis
  have f: "th_ID f = app_newID env ''thread'' 0" "copyThreadHistoryTx env (ftr_SourceThreadID req) (th_ID f) (saveThreadTx f db) = TxDone () db'"
    using body load assms(3) id
    by (auto simp: ForkThread_tx_def tx_bind_def tx_then_def Let_def split: if_splits sum.splits tx_result.splits)
  show ?thesis by (rule forked_listing [OF wf assms(2) f(1) refl f(2)])
qed

theorem fork_lists_turns_by_identifier_witness:
  "\<exists>f db'. ForkThread descending whole_thread (Some two_turns) = (Returned f, Some db') \<and>
     map tu_Input (loadTurnsForThreadTx two_turns ''thread_a'') = [RawJSON (JStr ''hi''), RawJSON (JStr ''bye'')] \<and>
     map tu_Input (loadTurnsForThreadTx db' (th_ID f)) = [RawJSON (JStr ''bye''), RawJSON (JStr ''hi'')]"
proof -
  have db: "app_after [app_open, app_ask, app_answer, app_ask_again, app_answer_again] = Some two_turns" by (rule two_turns_eq)
  have two: "fcard {|''turn_d'', ''turn_b''|} = 2" by (simp add: fcard.rep_eq)
  have ids: "new_ids descending two_turns" by (simp add: new_ids_def two_turns_def two upt_three one_thread_def Let_def)
  have rows: "thread_turn_rows two_turns ''thread_a'' = db_turns two_turns"
    by (rule fmap_ext) (simp add: thread_turn_rows_def two_turns_def row_at_def)
  have keys: "map_keys (db_turns two_turns) = [''turn_b'', ''turn_d'']"
    by (simp add: two_turns_def map_keys_def sorted_list_of_fset.rep_eq)
  have us: "loadTurnsForThreadTx two_turns ''thread_a'' = [first_turn, answered 125 second_asked]"
    unfolding loadTurnsForThreadTx_def rows Let_def order_by_def keys using ask_times_less
    by (simp add: two_turns_def row_at_def List.map_filter_simps app_formatTime_def)
  have src: "loadThreadTx two_turns ''thread_a'' = Inr (hr_payload the_thread)" "ensureThreadHasNoActiveTurnTx two_turns ''thread_a'' = Inr ()"
      "db_items two_turns = []" "th_ID (hr_payload the_thread) = ''thread_a''" "th_Status (hr_payload the_thread) = ThreadActive"
    by (simp_all add: two_turns_def one_thread_def the_thread_def loadThreadTx_def ensureThreadHasNoActiveTurnTx_def two_turn_defs)
  have inputs: "tu_Input first_turn \<noteq> RawInvalid" "tu_Input (answered 125 second_asked) \<noteq> RawInvalid" "tu_Result first_turn \<noteq> RawInvalid"
      "tu_Result (answered 125 second_asked) \<noteq> RawInvalid" by (simp_all add: two_turn_defs)
  have "\<exists>f db'. ForkThread descending whole_thread (Some two_turns) = (Returned f, Some db')"
    by (simp add: ForkThread_def ForkThread_tx_def app_withTx_def tx_bind_def tx_then_def Let_def src copyThreadHistoryTx_def us saveTurnTx_def
        forked_turn_def inputs thread_items_def) (simp add: saveThreadTx_def src)
  then obtain f db' where f: "ForkThread descending whole_thread (Some two_turns) = (Returned f, Some db')" by blast
  have "loadTurnsForThreadTx db' (th_ID f) = [stored_turn (forked_turn descending (th_ID f) 1 (answered 125 second_asked)), stored_turn (forked_turn descending (th_ID f) 0 first_turn)]"
    using fork_lists_turns_by_identifier [OF db ids _ f] by (simp add: us stored_turn_def forked_turn_def)
  then show ?thesis using f us by (simp add: two_turn_defs forked_turn_def)
qed

text \<open>
  C40. When copying panics, a half-made fork stays: \<^verbatim>\<open>withTx\<close> commits in its deferred function unless an error was returned, so that the new
  thread is in the store although the caller never learns of it.
\<close>

theorem panicking_fork_commits:
  assumes "app_after as = Some db" and "new_ids env db" and "ForkThread env req (Some db) = (Panicked, s)"
  shows "\<exists>db' r. s = Some db' \<and> db \<noteq> db' \<and> fmlookup (db_threads db') (app_newID env ''thread'' 0) = Some r \<and>
    th_Status (hr_payload r) = ThreadActive \<and> th_ForkedFromThreadID (hr_payload r) = ftr_SourceThreadID req"
proof -
  note wf = app_after_wf [OF assms(1)]
  obtain db' where body: "ForkThread_tx env req db = TxPanic db'" and s: "s = Some db'"
    using assms(3) by (auto simp: ForkThread_def app_withTx_def split: tx_result.splits)
  then obtain source where load: "loadThreadTx db (ftr_SourceThreadID req) = Inr source"
    by (cases "loadThreadTx db (ftr_SourceThreadID req)") (auto simp: ForkThread_tx_def tx_bind_def)
  have id: "th_ID source = ftr_SourceThreadID req" using loadThreadTx_Inr [OF wf load] by metis
  define fork where "fork = fork_of env source (if ftr_Title req = [] then th_Title source else ftr_Title req) (mergeMaps (th_Metadata source) (ftr_Metadata req))"
  have fork: "th_ID fork = app_newID env ''thread'' 0" "th_Status fork = ThreadActive" "th_ForkedFromThreadID fork = ftr_SourceThreadID req"
    by (simp_all add: fork_def id)
  have copy: "copyThreadHistoryTx env (ftr_SourceThreadID req) (th_ID fork) (saveThreadTx fork db) = TxPanic db'"
    using body load id by (auto simp: ForkThread_tx_def Let_def tx_bind_def tx_then_def fork_def split: if_splits sum.splits tx_result.splits)
  have "db_threads db' = db_threads (saveThreadTx fork db)"
    using copyThreadHistoryTx_frame [of "saveThreadTx fork db" env "ftr_SourceThreadID req" "th_ID fork"] by (simp add: copy kept_tables_def)
  then have "\<exists>r. fmlookup (db_threads db') (app_newID env ''thread'' 0) = Some r \<and> th_Status (hr_payload r) = ThreadActive \<and>
      th_ForkedFromThreadID (hr_payload r) = ftr_SourceThreadID req" using fork by (simp add: saveThreadTx_def)
  moreover have "fmlookup (db_threads db) (app_newID env ''thread'' 0) = None" using new_idsD(1) [OF assms(2)] by (simp add: fmdom_notD)
  ultimately show ?thesis using s by auto
qed

theorem panicking_fork_commits_witness:
  "\<exists>db' r. ForkThread (app_at ''c'' 120) whole_thread (Some injected) = (Panicked, Some db') \<and> fmlookup (db_threads db') ''thread_c'' = Some r \<and>
     th_Status (hr_payload r) = ThreadActive \<and> th_ForkedFromThreadID (hr_payload r) = ''thread_a''"
proof -
  have db: "app_after [app_open, app_inject] = Some injected" by (rule injected_eq)
  have ids: "new_ids (app_at ''c'' 120) injected" by (simp add: new_ids_def injected_def app_scenario_defs)
  have "\<exists>s. ForkThread (app_at ''c'' 120) whole_thread (Some injected) = (Panicked, s)"
    by (simp add: ForkThread_def ForkThread_tx_def injected_def ensureThreadHasNoActiveTurnTx_def copyThreadHistoryTx_def no_turns thread_items_def
        item_row_of_def saveThreadTx_def item_map_def turn_map_def forked_item_def id_of_def remapForkedItemPayloadID_def text_field_def
        disableForkedFileChangeRevert_def tx_then_def app_scenario_defs)
  then obtain s where s: "ForkThread (app_at ''c'' 120) whole_thread (Some injected) = (Panicked, s)" by blast
  from panicking_fork_commits [OF db ids s] s show ?thesis by auto
qed

end
