(* ===== verification/Spec2Isabelle.thy ===== *)
theory Spec2Isabelle
  imports Orch_Properties Orch_Sched_Properties Hist_Properties Sql_Properties Core_Properties Core_Persistence
    Core_Stream_Properties App_Forks
begin

text \<open>
  A verification library for \<^verbatim>\<open>gollem\<close>, an agent framework written in Go. Six parts of it carry the
  logic that everything else builds on, and all are modelled here from their sources under \<^verbatim>\<open>src\<close>.

  \<^bold>\<open>The agent loop\<close> (\<^verbatim>\<open>core\<close>). \<^verbatim>\<open>Agent.Run\<close> prepares a run state, then repeats turns: check the limits,
  compact the history, run processors, interceptors and guardrails, ask the model through the
  middleware chain, account for its answer, and process the response, which executes tool calls in
  batches, accepts or retries outputs, and defers calls that need the outside world.

  \<^bold>\<open>The orchestrator store\<close> (\<^verbatim>\<open>ext/orchestrator\<close>). Tasks with dependencies are claimed by workers under
  leases with fencing tokens, completed, failed, retried, canceled and recovered; durable commands
  and artifacts live beside them.

  \<^bold>\<open>The scheduler\<close> (\<^verbatim>\<open>ext/orchestrator/scheduler.go\<close>). One worker process: it recovers expired leases,
  handles commands, claims ready tasks into a bounded number of slots, runs each through a runner
  while it renews the lease, and hands the outcome to the store.

  \<^bold>\<open>The durable history\<close> (\<^verbatim>\<open>ext/orchestrator/history.go\<close>, \<^verbatim>\<open>sqlite/history.go\<close>). Every transition is kept
  as a record with a JSON payload in an append-ordered table; clients page through it with a cursor,
  and summaries of runs and workers are projections of it.

  \<^bold>\<open>The durable store\<close> (\<^verbatim>\<open>ext/orchestrator/sqlite/store.go\<close>). The contract of the orchestrator store over
  SQLite tables: each operation is a transaction that changes rows, appends records to the history,
  and publishes the same transitions on the event bus once it is committed.

  \<^bold>\<open>The application server's store\<close> (\<^verbatim>\<open>appserver/store\<close>). Threads of conversation with their turns and items, in
  SQLite tables: threads are forked, archived, deleted and rolled back, turns are retried under idempotency keys and recovered
  when their owner is gone, file changes are reverted with a receipt, and terminals have ownership records.

  \<^bold>\<open>Foundations.\<close>
  \<^item> \<^theory_text>\<open>Gollem_Prelude\<close>: time, dynamic values, maps with an arbitrary iteration order, decimal numerals,
    white space, quoting, insertion-ordered tables, and the locale of step systems whose invariants
    hold in every reachable state.
  \<^item> \<^theory_text>\<open>Go_Text\<close>: what \<^verbatim>\<open>encoding/json\<close> does to the bytes of a string that are not UTF-8.
  \<^item> \<^theory_text>\<open>Go_Errors\<close>: errors as a datatype with their texts and the walk along the wrapping chain
    (\<^verbatim>\<open>errors.Is\<close>, \<^verbatim>\<open>errors.As\<close>).
  \<^item> \<^theory_text>\<open>Core_Usage\<close>: usage counters, limits and quotas (\<^verbatim>\<open>core/usage.go\<close>, \<^verbatim>\<open>core/quota.go\<close>).

  \<^bold>\<open>The agent loop, theory by theory.\<close>
  \<^item> \<^theory_text>\<open>Core_Message\<close>: messages, run state, snapshots, retry counting (\<^verbatim>\<open>core/message.go\<close>,
    \<^verbatim>\<open>core/run_state.go\<close>, \<^verbatim>\<open>core/deferred.go\<close>); the events a run publishes are a log in its state.
  \<^item> \<^theory_text>\<open>Core_Truncate\<close>: \<^verbatim>\<open>core/truncate.go\<close>, with its bound.
  \<^item> \<^theory_text>\<open>Core_Model\<close>: requests, the middleware chain, interceptors, the run context.
  \<^item> \<^theory_text>\<open>Core_Context\<close>: \<^verbatim>\<open>core/autocontext.go\<close> and \<^verbatim>\<open>core/instruction_pin.go\<close>; \<^theory_text>\<open>Core_History\<close>: well-formed
    histories and that compaction keeps them well formed.
  \<^item> \<^theory_text>\<open>Core_Agent\<close>, \<^theory_text>\<open>Core_Response\<close>: the configuration, tool execution and response processing of
    \<^verbatim>\<open>core/agent.go\<close>; \<^theory_text>\<open>Core_Answers\<close> and \<^theory_text>\<open>Core_Processing\<close>: every executed call is answered in its
    place, and the frame of each stage.
  \<^item> \<^theory_text>\<open>Core_Engine\<close>, \<^theory_text>\<open>Core_Run\<close>: \<^verbatim>\<open>core/run_engine.go\<close>, \<^verbatim>\<open>runLoop\<close> and \<^verbatim>\<open>Run\<close>; \<^theory_text>\<open>Core_Loop\<close>: turns that go
    on count a request and keep the history well formed, so that limited runs return.
  \<^item> \<^theory_text>\<open>Core_Serialize\<close>: conversations and snapshots as JSON documents (\<^verbatim>\<open>core/serialize.go\<close>,
    \<^verbatim>\<open>core/snapshot.go\<close>), for strings in UTF-8; \<^theory_text>\<open>Core_Serialize_Trip\<close>: what is written is read back, with
    integers of type \<^verbatim>\<open>any\<close> turned into float64s.
  \<^item> \<^theory_text>\<open>Core_Steer\<close>: the steering queue of \<^verbatim>\<open>core/steer.go\<close> and that it settles every instruction once;
    \<^theory_text>\<open>Core_Stream\<close>: streaming runs, \<^verbatim>\<open>core/stream.go\<close> and \<^verbatim>\<open>RunStream\<close>. The stream of a model is an object with
    operations on the world, and other goroutines call the queue before the run takes its mutex.
  \<^item> \<^theory_text>\<open>Core_Stream_Inv\<close>: the operations of a consumer as a step system with its invariant;
    \<^theory_text>\<open>Core_Stream_Equiv\<close>: turn by turn, a streamed run follows \<^verbatim>\<open>Run\<close>; \<^theory_text>\<open>Core_Iter\<close>: \<^verbatim>\<open>core/iter.go\<close>, which
    follows \<^verbatim>\<open>Run\<close> as well; \<^theory_text>\<open>Core_Stream_Properties\<close>: the properties.
  \<^item> \<^theory_text>\<open>Core_Scenario\<close>: a concrete agent over a scripted model; \<^theory_text>\<open>Core_Properties\<close>: the properties;
    \<^theory_text>\<open>Core_Persistence\<close>: a run that is stored and resumed.

  Model, tools, validators, approval, knowledge base, interceptors, guardrails and JSON decoding are
  parameters: fields of the agent that take a world and return it changed, so that nothing is assumed
  about them. The scheduler of concurrent tool calls is one of them; the calls of a batch run one at a
  time in an order it picks, which abstracts from interleavings inside a call. The loops of \<^verbatim>\<open>Step\<close> and
  \<^verbatim>\<open>runLoop\<close> may run forever and are partial functions with value \<open>None\<close> then; that a limited run returns
  is a theorem.

  \<^bold>\<open>The orchestrator store, theory by theory.\<close>
  \<^item> \<^theory_text>\<open>Orch_Types\<close>: the data of \<^verbatim>\<open>ext/orchestrator\<close>; \<^theory_text>\<open>Orch_Store\<close>: every operation of
    \<^verbatim>\<open>memory/store.go\<close>; \<^theory_text>\<open>Orch_Commands\<close>: \<^verbatim>\<open>memory/commands.go\<close> and \<^verbatim>\<open>memory/artifacts.go\<close>. A store is a
    record, an operation maps it to a result and a store, under the lock the code holds throughout.
    The clock and the iteration order of Go maps are arguments.
  \<^item> \<^theory_text>\<open>Orch_Invariant\<close>, \<^theory_text>\<open>Orch_Dependencies\<close>: the invariant and that each operation keeps it.
  \<^item> \<^theory_text>\<open>Orch_System\<close>: all operations as one step function, an interpretation of the step system.
  \<^item> \<^theory_text>\<open>Orch_Lifecycle\<close>: the abstract life cycle of a task, the events each operation may cause, and the
    refinement; \<^theory_text>\<open>Orch_Claims\<close>,
    \<^theory_text>\<open>Orch_Command_Life\<close>: claims, recovery, deletion and the life of commands.
  \<^item> \<^theory_text>\<open>Orch_Scenario\<close>: concrete stores; \<^theory_text>\<open>Orch_Properties\<close>: the properties.

  \<^bold>\<open>The scheduler, theory by theory.\<close>
  \<^item> \<^theory_text>\<open>Orch_Query\<close>: \<^verbatim>\<open>query.go\<close> over the in-memory store, and that run identifiers are unique;
    \<^theory_text>\<open>Orch_Recovery\<close>: \<^verbatim>\<open>recovery_manager.go\<close>.
  \<^item> \<^theory_text>\<open>Orch_Scheduler\<close>: \<^verbatim>\<open>scheduler.go\<close>. The state holds the store, the slots, the active map, a program
    counter for the main loop and one flight per goroutine of \<^verbatim>\<open>runClaim\<close>. A step is a call of one
    goroutine between two points where others can come in; the order of steps, what runners return,
    clock readings and the operations of other clients of the store are arbitrary. One round of the command loop
    (claim a command, apply it, mark or release it) and one recovery pass are one step each; each of the three
    deferred calls at the end of a flight (leave the active map, cancel the context, release the slot) is a step.
    Run controllers are parameters. The whole command loop is a partial function as well; that it returns, and
    that the rounds of the main goroutine lead to its result, is a theorem.
  \<^item> \<^theory_text>\<open>Orch_Sched_Inv\<close>: the invariant, another interpretation of the step system, and that the store
    moves by its operations only; \<^theory_text>\<open>Orch_Sched_Commands\<close>: the command loop ends;
    \<^theory_text>\<open>Orch_Sched_Life\<close>: the end of a flight, cancellation, dispatch.
  \<^item> \<^theory_text>\<open>Orch_Sched_Scenario\<close>: a scheduler at work; \<^theory_text>\<open>Orch_Sched_Properties\<close>: the properties.

  \<^bold>\<open>The durable history, theory by theory.\<close>
  \<^item> \<^theory_text>\<open>Hist_Codec\<close>: event kinds, records, and the JSON documents of the event structs, as trees, written
    and read; what is written is read back but for bytes that are not UTF-8, and a payload has the type of its
    kind.
  \<^item> \<^theory_text>\<open>Hist_Log\<close>: the event table of \<^verbatim>\<open>sqlite/history.go\<close>, whose rows hold the JSON document of a record, with its
    record constructors, and the contract of an event store as a locale, interpreted by the table. The
    identifiers of a record are taken to be UTF-8, as those that \<^verbatim>\<open>newID\<close> draws are.
  \<^item> \<^theory_text>\<open>Hist_Projection\<close>: timelines, replay, projected runs and workers, recovery listings;
    \<^theory_text>\<open>Hist_Views\<close>: what they show of any store that keeps the contract.
  \<^item> \<^theory_text>\<open>Hist_Properties\<close>: a small log and the properties.

  \<^bold>\<open>The durable store, theory by theory.\<close>
  \<^item> \<^theory_text>\<open>Sql_Time\<close>: times as texts, the way the columns hold and compare them.
  \<^item> \<^theory_text>\<open>Sql_Store\<close>, \<^theory_text>\<open>Sql_Commands\<close>: the tables as maps of rows, transactions, and every operation. A body
    \<open>X_tx\<close> works on the tables and returns a result, record constructors and events, or an error; \<open>withTx\<close>
    rolls back, or inserts the records and publishes the events. SQLite itself is modelled by what the
    statements of the source mean; its failures are left out. The rows of tasks, leases, commands and artifacts
    hold the values that their payloads encode, for strings in UTF-8. The readings of the clock, the UUIDs and
    the iteration order of Go maps are an argument of each operation.
  \<^item> \<^theory_text>\<open>Sql_Outbox\<close>: consistent tables, sound steps of a transaction, and how they compose;
    \<^theory_text>\<open>Sql_Transactions\<close>: every body is a sequence of sound steps; \<^theory_text>\<open>Sql_System\<close>: committed transactions,
    the invariant as an interpretation of the step system (with UUIDs that do not repeat), and runs
    that nothing can end any more.
  \<^item> \<^theory_text>\<open>Sql_Scenario\<close>: a store at work; \<^theory_text>\<open>Sql_Properties\<close>: tables and leases agree, the history and the bus
    agree, the history and the tables agree on what is running, and where they do not.

  \<^bold>\<open>The application server's store, theory by theory.\<close>
  \<^item> \<^theory_text>\<open>App_Types\<close>: the data of \<^verbatim>\<open>appserver/store/types.go\<close>, filters, and the rewriting of JSON payloads;
    \<^theory_text>\<open>App_Store\<close>: the tables, transactions, and the operations on threads, turns and items of
    \<^verbatim>\<open>appserver/store/sqlite.go\<close>; \<^theory_text>\<open>App_Recovery\<close>: forks, recovery, rollback, reversal of file changes, terminals. A
    body \<open>X_tx\<close> returns an error, a panic with the tables as far as it got, or a result; \<open>app_withTx\<close> rolls back the
    first and commits the others, as the deferred function of \<^verbatim>\<open>withTx\<close> does. The clock, the UUIDs and the gaps of the item
    sequence are an argument of each operation. A payload that is read into a Go map is written with its keys in order.
  \<^item> \<^theory_text>\<open>App_Inv\<close>: the invariant and sound steps; \<^theory_text>\<open>App_Transactions\<close>, \<^theory_text>\<open>App_Rewrites\<close>, \<^theory_text>\<open>App_Rollback\<close>: every body is a
    sequence of sound steps; \<^theory_text>\<open>App_System\<close>: all operations as one step function, an interpretation of the
    step system (with UUIDs that are not in use); \<^theory_text>\<open>App_Runs\<close>: what recovery, reversal and rollback do to the other rows.
  \<^item> \<^theory_text>\<open>App_Scenario\<close>: a store at work; \<^theory_text>\<open>App_Properties\<close>: the properties; \<^theory_text>\<open>App_Forks\<close>: how the turns of a
    fork are listed, and what a panic leaves behind.

  \<^bold>\<open>Numbers.\<close> A number of type \<^verbatim>\<open>any\<close> is an integer or a float64 without a fraction. Go's \<^verbatim>\<open>int\<close> is modelled by the integers: the counters are far from their 64-bit bounds,
  and no code relies on wrap-around. Times are integers of nanoseconds with 0 for the zero time.

  \<^bold>\<open>Not modelled.\<close> Hooks, traces and cost (which observe a run), JSON
  schemas and reflection, the migration of event tables of older versions, model providers, the
  application server around its store, the coding tools, and the protocol and user-interface adapters:
  I/O, generated code, or glue around services that are not part of the repository.
\<close>

end
